(* ===== verification/RP_Prelude.thy ===== *)
theory RP_Prelude
  imports Complex_Main "HOL-Library.AList"
begin

text \<open>
  Shared vocabulary of the RiskPulse development.

  \<^item> A Python \<^verbatim>\<open>dict\<close> is an association list in insertion order: \<open>AList.update\<close> overwrites
    a present key in place and appends a new one at the end, which is what
    \<^verbatim>\<open>d[k] = v\<close> does; \<open>AList.delete\<close> is \<^verbatim>\<open>del d[k]\<close> / \<^verbatim>\<open>d.pop(k, None)\<close>.
  \<^item> A Python \<^verbatim>\<open>float\<close> is a \<open>real\<close>: arithmetic is exact, infinities, NaN and the rounding of
    binary64 are left out. \<^verbatim>\<open>round(x, n)\<close> is modelled with its round-half-to-even rule.
  \<^item> A \<^verbatim>\<open>datetime\<close> is its number of microseconds since the epoch (an \<open>int\<close>), which is exact.
  \<^item> Readings of the clock, fresh \<^verbatim>\<open>uuid4\<close> strings and hash functions are arguments of the
    operations that use them.
  \<^item> An exception is the left summand of \<open>pyexn + 'a\<close>.
\<close>

section \<open>Types and abbreviations\<close>

type_synonym ('k, 'v) dict = "('k \<times> 'v) list"
type_synonym seconds = real
type_synonym datetime = int

datatype pyexn = KeyError | IndexError | ValueError | ZeroDivisionError | TypeError | RuntimeError | CancelledError | FileNotFoundError | StopIteration | AttributeError | SecretsManagerError | SecurityValidationError | YAMLError | OverflowError | PatternError | HTTPException nat

type_synonym 'a res = "pyexn + 'a"

text \<open>
  Values of the dynamically typed dictionaries (JSON and YAML documents). \<open>PTime w z\<close> is a
  \<^verbatim>\<open>datetime\<close> object: its wall-clock reading in microseconds and its UTC offset, \<open>None\<close> when naive.
\<close>

datatype pyval =
    PNone
  | PBool bool
  | PInt int
  | PFloat real
  | PStr string
  | PList "pyval list"
  | PDict "(string \<times> pyval) list"
  | PTime int "int option"

abbreviation dget :: "('k, 'v) dict \<Rightarrow> 'k \<Rightarrow> 'v option" where
  "dget d k \<equiv> map_of d k"

abbreviation dset :: "'k \<Rightarrow> 'v \<Rightarrow> ('k, 'v) dict \<Rightarrow> ('k, 'v) dict" where
  "dset \<equiv> AList.update"

abbreviation ddel :: "'k \<Rightarrow> ('k, 'v) dict \<Rightarrow> ('k, 'v) dict" where
  "ddel \<equiv> AList.delete"

abbreviation wf_dict :: "('k, 'v) dict \<Rightarrow> bool" where
  "wf_dict d \<equiv> distinct (map fst d)"

text \<open>\<^verbatim>\<open>d.get(k, default)\<close>.\<close>

definition dget_or :: "('k, 'v) dict \<Rightarrow> 'k \<Rightarrow> 'v \<Rightarrow> 'v" where
  "dget_or d k dflt = (case map_of d k of None \<Rightarrow> dflt | Some v \<Rightarrow> v)"

text \<open>The number of values of a dictionary that satisfy \<open>P\<close>.\<close>

definition dcount :: "('v \<Rightarrow> bool) \<Rightarrow> ('k, 'v) dict \<Rightarrow> int" where
  "dcount P d = int (length (filter P (map snd d)))"

text \<open>\<^verbatim>\<open>d.get(k)\<close> on a document: a missing key reads as \<^verbatim>\<open>None\<close>; and \<^verbatim>\<open>d[k]\<close>, which raises.\<close>

definition pget :: "(string, pyval) dict \<Rightarrow> string \<Rightarrow> pyval" where
  "pget d k = dget_or d k PNone"

definition pindex :: "(string, pyval) dict \<Rightarrow> string \<Rightarrow> pyval res" where
  "pindex d k = (case map_of d k of None \<Rightarrow> Inl KeyError | Some v \<Rightarrow> Inr v)"

text \<open>\<^verbatim>\<open>datetime + timedelta(minutes=m)\<close> and \<^verbatim>\<open>(a - b).total_seconds()\<close>.\<close>

definition add_minutes :: "datetime \<Rightarrow> int \<Rightarrow> datetime" where
  "add_minutes t m = t + m * 60000000"

definition total_seconds :: "datetime \<Rightarrow> datetime \<Rightarrow> real" where
  "total_seconds a b = real_of_int (a - b) / 1000000"

text \<open>Python's \<^verbatim>\<open>x or y\<close> on an optional string: an empty string is falsy.\<close>

fun str_or :: "string option \<Rightarrow> string option \<Rightarrow> string option" where
  "str_or (Some (c # cs)) y = Some (c # cs)"
| "str_or _ y = y"

text \<open>Truthiness of an optional string.\<close>

fun truthy :: "string option \<Rightarrow> bool" where
  "truthy (Some (c # cs)) = True"
| "truthy _ = False"

text \<open>\<^verbatim>\<open>xs[-m:]\<close>.\<close>

definition last_slice :: "int \<Rightarrow> 'a list \<Rightarrow> 'a list" where
  "last_slice m xs = (if 0 < m then drop (length xs - nat m) xs else drop (nat (- m)) xs)"

text \<open>\<^verbatim>\<open>timestamp or time.time()\<close>: zero counts as missing.\<close>

definition time_or :: "seconds option \<Rightarrow> seconds \<Rightarrow> seconds" where
  "time_or t clock = (case t of Some x \<Rightarrow> if x = 0 then clock else x | None \<Rightarrow> clock)"

text \<open>Sequencing of a computation that may raise.\<close>

fun res_bind :: "'a res \<Rightarrow> ('a \<Rightarrow> 'b res) \<Rightarrow> 'b res" where
  "res_bind (Inl e) f = Inl e"
| "res_bind (Inr x) f = f x"

text \<open>\<^verbatim>\<open>round(x, n)\<close>: to the nearest multiple of \<open>10^-n\<close>, ties to the even one.\<close>

definition round_half_even :: "real \<Rightarrow> int" where
  "round_half_even y =
     (let f = \<lfloor>y\<rfloor>; d = y - of_int f
      in if d < 1 / 2 then f else if 1 / 2 < d then f + 1 else if even f then f else f + 1)"

definition py_round :: "nat \<Rightarrow> real \<Rightarrow> real" where
  "py_round n x = of_int (round_half_even (x * 10 ^ n)) / 10 ^ n"

text \<open>Clamping to the unit interval, \<^verbatim>\<open>max(0.0, min(1.0, x))\<close>.\<close>

definition clamp01 :: "real \<Rightarrow> real" where
  "clamp01 x = max 0 (min 1 x)"

text \<open>The entries of a timestamp log that are younger than \<open>w\<close> at time \<open>t\<close>.\<close>

definition recent :: "real \<Rightarrow> seconds \<Rightarrow> seconds list \<Rightarrow> seconds list" where
  "recent w t xs = filter (\<lambda>x. t - x < w) xs"

text \<open>
  A run of a limiter over a sequence of timed requests: the requests it lets through, in order.
\<close>

fun run_accepted :: "('s \<Rightarrow> seconds \<Rightarrow> 'r \<Rightarrow> bool \<times> 's) \<Rightarrow> 's \<Rightarrow> (seconds \<times> 'r) list \<Rightarrow> (seconds \<times> 'r) list" where
  "run_accepted step s [] = []"
| "run_accepted step s ((t, r) # es) =
     (let (ok, s') = step s t r
      in if ok then (t, r) # run_accepted step s' es else run_accepted step s' es)"

text \<open>The state after such a run.\<close>

fun run_state :: "('s \<Rightarrow> seconds \<Rightarrow> 'r \<Rightarrow> bool \<times> 's) \<Rightarrow> 's \<Rightarrow> (seconds \<times> 'r) list \<Rightarrow> 's" where
  "run_state step s [] = s"
| "run_state step s ((t, r) # es) = run_state step (snd (step s t r)) es"

text \<open>The requests of a run that are counted under key \<open>k\<close> in the window \<open>(T - w, T]\<close>.\<close>

definition in_window :: "('r \<Rightarrow> 'k option) \<Rightarrow> 'k \<Rightarrow> real \<Rightarrow> seconds \<Rightarrow> (seconds \<times> 'r) list \<Rightarrow> (seconds \<times> 'r) list" where
  "in_window key k w T es = filter (\<lambda>(t, r). key r = Some k \<and> T - w < t \<and> t \<le> T) es"

section \<open>Rewrite collections\<close>

named_theorems dict_simps \<open>lookups in dictionaries after updates and deletions\<close>
named_theorems limiter_simps \<open>definitions of the request filters\<close>

declare map_of_eq_Some_iff [simp del] Some_eq_map_of_iff [simp del]

lemma dget_dset [dict_simps]: "dget (dset k v d) k' = (if k' = k then Some v else dget d k')"
  by (simp add: update_conv')

lemma dget_ddel [dict_simps]: "dget (ddel k d) k' = (if k' = k then None else dget d k')"
  by (simp add: delete_conv')

lemma dget_or_dset [dict_simps]: "dget_or (dset k v d) k' x = (if k' = k then v else dget_or d k' x)"
  by (simp add: dget_or_def update_conv')

lemma dget_or_ddel [dict_simps]: "dget_or (ddel k d) k' x = (if k' = k then x else dget_or d k' x)"
  by (simp add: dget_or_def delete_conv')

lemma dget_or_Nil [dict_simps]: "dget_or [] k x = x"
  by (simp add: dget_or_def)

lemma pget_dset [dict_simps]: "pget (dset k v d) k' = (if k' = k then v else pget d k')"
  by (simp add: pget_def dict_simps)

lemma wf_dict_dset [intro, simp]: "wf_dict d \<Longrightarrow> wf_dict (dset k v d)"
  by (rule distinct_update)

lemma wf_dict_ddel [intro, simp]: "wf_dict d \<Longrightarrow> wf_dict (ddel k d)"
  by (rule distinct_delete)

lemma keys_dset: "fst ` set (dset k v d) = insert k (fst ` set d)"
  by (induction d) auto

lemma dset_new: "k \<notin> fst ` set d \<Longrightarrow> dset k v d = d @ [(k, v)]"
  by (induction d) auto

lemma length_dset: "length (dset k v d) = (if k \<in> fst ` set d then length d else Suc (length d))"
  by (induction d) auto

lemma dcount_Nil [simp]: "dcount P [] = 0"
  by (simp add: dcount_def)

lemma dcount_dset:
  "dget d k = Some a \<Longrightarrow> dcount P (dset k b d) = dcount P d - (if P a then 1 else 0) + (if P b then 1 else 0)"
  unfolding dcount_def by (induction d) auto

lemma dcount_dset_new: "dget d k = None \<Longrightarrow> dcount P (dset k b d) = dcount P d + (if P b then 1 else 0)"
  unfolding dcount_def by (induction d) auto

lemma dcount_pos: "dget d k = Some a \<Longrightarrow> P a \<Longrightarrow> 0 < dcount P d"
  unfolding dcount_def by (force dest: map_of_SomeD simp: filter_empty_conv)

lemma length_dset_Some: "dget d k = Some a \<Longrightarrow> length (dset k b d) = length d"
  by (induction d) auto

lemma length_dset_None: "dget d k = None \<Longrightarrow> length (dset k b d) = Suc (length d)"
  by (induction d) auto

lemma dget_filter_keys:
  assumes "wf_dict d"
  shows "dget (filter P d) k = (case dget d k of None \<Rightarrow> None | Some v \<Rightarrow> if P (k, v) then Some v else None)"
  using assms by (induction d) (auto split: option.splits simp: map_of_eq_None_iff image_iff)

lemma wf_dict_filter [intro, simp]: "wf_dict d \<Longrightarrow> wf_dict (filter P d)"
  by (induction d) auto

lemma wf_dict_Some_in: "wf_dict d \<Longrightarrow> (k, v) \<in> set d \<Longrightarrow> dget d k = Some v"
  by (simp add: map_of_eq_Some_iff)

text \<open>Counting the elements of a list by a key.\<close>

lemma dget_or_tally:
  "dget_or (fold (\<lambda>e d. dset (f e) (dget_or d (f e) 0 + 1) d) es d) k 0 = dget_or d k 0 + int (length (filter (\<lambda>e. f e = k) es))"
  by (induction es arbitrary: d) (simp_all add: dict_simps)

text \<open>Computations that do not raise.\<close>

definition returns :: "'a res \<Rightarrow> bool" where
  "returns x = (\<exists>v. x = Inr v)"

lemma returns_base [simp]: "returns (Inr v)" "\<not> returns (Inl ex)"
  by (simp_all add: returns_def)

lemma returns_bind: "returns x \<Longrightarrow> (\<And>v. x = Inr v \<Longrightarrow> returns (f v)) \<Longrightarrow> returns (res_bind x f)"
  by (cases x) auto

lemma res_bind_Inr: "res_bind x f = Inr y \<longleftrightarrow> (\<exists>z. x = Inr z \<and> f z = Inr y)"
  by (cases x) simp_all

section \<open>Rounding and clamping\<close>

lemma round_half_even_bounds:
  "of_int \<lfloor>y\<rfloor> \<le> (of_int (round_half_even y) :: real)" "round_half_even y \<le> \<lfloor>y\<rfloor> + 1"
  by (auto simp: round_half_even_def Let_def)

lemma round_half_even_mono: "x \<le> y \<Longrightarrow> round_half_even x \<le> round_half_even y"
proof (cases "\<lfloor>x\<rfloor> = \<lfloor>y\<rfloor>")
  case True
  assume "x \<le> y"
  with True show ?thesis by (auto simp: round_half_even_def Let_def)
next
  case False
  assume "x \<le> y"
  with False have "\<lfloor>x\<rfloor> + 1 \<le> \<lfloor>y\<rfloor>" by (meson floor_mono le_less_trans not_le zless_imp_add1_zle order_le_imp_less_or_eq)
  moreover have "round_half_even x \<le> \<lfloor>x\<rfloor> + 1" by (rule round_half_even_bounds)
  moreover have "\<lfloor>y\<rfloor> \<le> round_half_even y" using round_half_even_bounds(1) [of y] by linarith
  ultimately show ?thesis by linarith
qed

lemma round_half_even_int [simp]: "round_half_even (of_int k) = k"
  by (simp add: round_half_even_def)

lemma py_round_mono: "x \<le> y \<Longrightarrow> py_round n x \<le> py_round n y"
  unfolding py_round_def
  by (intro divide_right_mono of_int_le_iff [THEN iffD2] round_half_even_mono mult_right_mono) auto

lemma py_round_0 [simp]: "py_round n 0 = 0"
  using round_half_even_int [of 0] by (simp add: py_round_def)

lemma py_round_1 [simp]: "py_round n 1 = 1"
  using round_half_even_int [of "10 ^ n"] by (simp add: py_round_def)

lemma py_round_01: "0 \<le> x \<Longrightarrow> x \<le> 1 \<Longrightarrow> 0 \<le> py_round n x \<and> py_round n x \<le> 1"
  using py_round_mono [of 0 x n] py_round_mono [of x 1 n] by simp

lemma clamp01_bounds [simp]: "0 \<le> clamp01 x" "clamp01 x \<le> 1"
  by (auto simp: clamp01_def)

lemma clamp01_id: "0 \<le> x \<Longrightarrow> x \<le> 1 \<Longrightarrow> clamp01 x = x"
  by (simp add: clamp01_def)

lemma clamp01_mono: "x \<le> y \<Longrightarrow> clamp01 x \<le> clamp01 y"
  by (auto simp: clamp01_def)

section \<open>Sliding windows\<close>

lemma recent_append [simp]: "recent w t (xs @ ys) = recent w t xs @ recent w t ys"
  by (simp add: recent_def)

lemma recent_Nil [simp]: "recent w t [] = []"
  by (simp add: recent_def)

lemma recent_recent [simp]: "recent w t (recent w t xs) = recent w t xs"
  by (simp add: recent_def)

lemma recent_older:
  "t \<le> T \<Longrightarrow> filter (\<lambda>x. T - w < x \<and> x \<le> T) (recent w t xs) = filter (\<lambda>x. T - w < x \<and> x \<le> T) xs"
  unfolding recent_def filter_filter by (rule filter_cong) auto

lemma run_accepted_subset: "set (run_accepted step s es) \<subseteq> set es"
  by (induction es arbitrary: s) (fastforce split: prod.splits if_splits)+

text \<open>The entries of a log inside the window of width \<open>w\<close> that ends at \<open>T\<close>.\<close>

definition inside :: "real \<Rightarrow> seconds \<Rightarrow> seconds list \<Rightarrow> seconds list" where
  "inside w T xs = filter (\<lambda>x. T - w < x \<and> x \<le> T) xs"

lemma inside_append [simp]: "inside w T (xs @ ys) = inside w T xs @ inside w T ys"
  by (simp add: inside_def)

lemma inside_Nil [simp]: "inside w T [] = []"
  by (simp add: inside_def)

lemma inside_recent [simp]: "t \<le> T \<Longrightarrow> inside w T (recent w t xs) = inside w T xs"
  unfolding inside_def by (rule recent_older)

lemma inside_le_recent: "t \<le> T \<Longrightarrow> length (inside w T xs) \<le> length (recent w t xs)"
  using inside_recent [of t T w xs] length_filter_le unfolding inside_def by metis

text \<open>
  The contract of a limiter that keeps, per key, a log of times: it accepts a counted request only
  when fewer than \<open>cap\<close> logged times lie inside the window, and a step keeps what lies inside the
  window and appends an accepted request to its key's log. It may log more than it accepts. A
  component that fulfils the contract never lets more than \<open>cap\<close> requests of one key through in any
  window.
\<close>

locale window_guard =
  fixes step :: "'s \<Rightarrow> seconds \<Rightarrow> 'r \<Rightarrow> bool \<times> 's"
    and key :: "'r \<Rightarrow> 'k option"
    and log :: "'s \<Rightarrow> 'k \<Rightarrow> seconds list"
    and width :: "'s \<Rightarrow> real"
    and cap :: "'s \<Rightarrow> nat"
    and inv :: "'s \<Rightarrow> bool"
  assumes step_inv: "inv s \<Longrightarrow> inv (snd (step s t r))"
    and step_width: "width (snd (step s t r)) = width s"
    and step_cap: "cap (snd (step s t r)) = cap s"
    and accept_below: "inv s \<Longrightarrow> fst (step s t r) \<Longrightarrow> key r = Some k \<Longrightarrow>
          length (recent (width s) t (log s k)) < cap s"
    and log_keeps: "inv s \<Longrightarrow> t \<le> T \<Longrightarrow>
          length (inside (width s) T (log s k @ (if fst (step s t r) \<and> key r = Some k then [t] else [])))
          \<le> length (inside (width s) T (log (snd (step s t r)) k))"
begin

lemma window_bound_gen:
  assumes "inv s" "sorted (map fst es)"
  shows "length (in_window key k (width s) T (run_accepted step s es)) \<le> cap s - length (inside (width s) T (log s k))"
  using assms
proof (induction es arbitrary: s)
  case Nil
  then show ?case by (simp add: in_window_def)
next
  case (Cons e es)
  obtain t r where e: "e = (t, r)" by (cases e)
  show ?case
  proof (cases "t \<le> T")
    case False
    then have "\<forall>(x, y) \<in> set (e # es). T < x"
      using Cons.prems(2) e by auto
    then have "\<forall>(x, y) \<in> set (run_accepted step s (e # es)). T < x"
      using run_accepted_subset [of step s "e # es"] by blast
    then have "in_window key k (width s) T (run_accepted step s (e # es)) = []"
      unfolding in_window_def filter_empty_conv by force
    then show ?thesis by (simp only: list.size zero_le)
  next
    case True
    obtain b s' where st: "step s t r = (b, s')" by fastforce
    have s': "inv s'" "width s' = width s" "cap s' = cap s"
      using Cons.prems(1) step_inv [of s t r] step_width [of s t r] step_cap [of s t r] st by simp_all
    have lg: "length (inside (width s) T (log s k)) + (if b \<and> key r = Some k \<and> T - width s < t then 1 else 0)
        \<le> length (inside (width s) T (log s' k))"
      using log_keeps [OF Cons.prems(1) True, of k r] st True by (auto simp: inside_def split: if_splits)
    have "b \<Longrightarrow> key r = Some k \<Longrightarrow> length (inside (width s) T (log s k)) < cap s"
      using accept_below [OF Cons.prems(1), of t r k] inside_le_recent [OF True, of "width s" "log s k"] st by simp
    moreover have "length (in_window key k (width s) T (run_accepted step s' es)) \<le> cap s - length (inside (width s) T (log s' k))"
      using Cons.IH [of s'] Cons.prems(2) s' by simp
    ultimately show ?thesis
      using e st lg True by (auto simp: in_window_def split: if_splits)
  qed
qed

theorem window_bound:
  assumes "inv s" "sorted (map fst es)"
  shows "length (in_window key k (width s) T (run_accepted step s es)) \<le> cap s"
  using window_bound_gen [OF assms, of k T] by simp

end

text \<open>
  A limiter that logs exactly the requests it accepts: nothing else changes what lies inside the
  window. It fulfils the contract above.
\<close>

locale window_limiter =
  fixes step :: "'s \<Rightarrow> seconds \<Rightarrow> 'r \<Rightarrow> bool \<times> 's"
    and key :: "'r \<Rightarrow> 'k option"
    and log :: "'s \<Rightarrow> 'k \<Rightarrow> seconds list"
    and width :: "'s \<Rightarrow> real"
    and cap :: "'s \<Rightarrow> nat"
    and inv :: "'s \<Rightarrow> bool"
  assumes exact_inv: "inv s \<Longrightarrow> inv (snd (step s t r))"
    and exact_width: "width (snd (step s t r)) = width s"
    and exact_cap: "cap (snd (step s t r)) = cap s"
    and exact_below: "inv s \<Longrightarrow> fst (step s t r) \<Longrightarrow> key r = Some k \<Longrightarrow>
          length (recent (width s) t (log s k)) < cap s"
    and log_step: "inv s \<Longrightarrow> recent (width s) t (log (snd (step s t r)) k) =
          recent (width s) t (log s k @ (if fst (step s t r) \<and> key r = Some k then [t] else []))"
begin

lemma log_step_inside:
  assumes "inv s" "t \<le> T"
  shows "inside (width s) T (log (snd (step s t r)) k) =
    inside (width s) T (log s k @ (if fst (step s t r) \<and> key r = Some k then [t] else []))"
  using arg_cong [OF log_step [OF assms(1), of t r k], of "inside (width s) T"]
  unfolding inside_recent [OF assms(2)] .

end

sublocale window_limiter \<subseteq> window_guard step key log width cap inv
  by unfold_locales (simp_all add: exact_inv exact_width exact_cap exact_below log_step_inside)

end
