(* ===== verification/Alert_Filters.thy ===== *)
theory Alert_Filters
  imports RP_Prelude
begin

text \<open>
  The three request filters in front of alert creation (src/src/alerting/alert_manager.py):
  the deduplication engine, the suppression engine and the throttle engine, each with its state as
  a record and one definition per method. The clock reading is the argument \<open>now\<close>; the hash of the
  deduplication key is the argument \<open>H\<close> (\<^verbatim>\<open>hashlib.sha256(..).hexdigest()\<close>), about which nothing
  is assumed. The engines are shown to be window limiters (interpretations of \<open>window_limiter\<close>).
\<close>

section \<open>Deduplication engine\<close>

record dedup_engine =
  window_seconds :: real
  max_entries :: int
  seen :: "(string, seconds list) dict"

definition new_dedup_engine :: "int \<Rightarrow> int \<Rightarrow> dedup_engine" where
  "new_dedup_engine window_minutes maxe =
     \<lparr>window_seconds = of_int window_minutes * 60, max_entries = maxe, seen = []\<rparr>"

definition dedup_raw :: "string \<Rightarrow> string option \<Rightarrow> string \<Rightarrow> string" where
  "dedup_raw account_id rule_id alert_type =
     account_id @ '':'' @ (case str_or rule_id None of None \<Rightarrow> ''none'' | Some r \<Rightarrow> r) @ '':'' @ alert_type"

definition generate_dedup_key :: "(string \<Rightarrow> string) \<Rightarrow> string \<Rightarrow> string option \<Rightarrow> string \<Rightarrow> string" where
  "generate_dedup_key H account_id rule_id alert_type = take 32 (H (dedup_raw account_id rule_id alert_type))"

definition evict_expired :: "seconds \<Rightarrow> dedup_engine \<Rightarrow> dedup_engine" where
  "evict_expired now e =
     (let expired_keys = map fst (filter (\<lambda>(k, timestamps). \<forall>ts \<in> set timestamps. window_seconds e \<le> now - ts) (seen e))
      in e\<lparr>seen := fold ddel expired_keys (seen e)\<rparr>)"

definition is_duplicate ::
  "(string \<Rightarrow> string) \<Rightarrow> seconds \<Rightarrow> string \<Rightarrow> string option \<Rightarrow> string \<Rightarrow> dedup_engine \<Rightarrow> bool \<times> dedup_engine" where
  "is_duplicate H now account_id rule_id alert_type e =
     (let key = generate_dedup_key H account_id rule_id alert_type;
          seen1 = (case dget (seen e) key of
                     None \<Rightarrow> seen e
                   | Some ts \<Rightarrow> dset key (filter (\<lambda>ts. now - ts < window_seconds e) ts) (seen e))
      in if dget seen1 key \<noteq> None \<and> dget seen1 key \<noteq> Some [] then (True, e\<lparr>seen := seen1\<rparr>)
         else let seen2 = (if dget seen1 key = None then dset key [] seen1 else seen1);
                  e3 = e\<lparr>seen := dset key (dget_or seen2 key [] @ [now]) seen2\<rparr>
              in (False, if max_entries e < int (length (seen e3)) then evict_expired now e3 else e3))"

definition dedup_clear :: "dedup_engine \<Rightarrow> dedup_engine" where
  "dedup_clear e = e\<lparr>seen := []\<rparr>"

definition dedup_size :: "dedup_engine \<Rightarrow> nat" where
  "dedup_size e = length (seen e)"

text \<open>The engine as a limiter: a request passes when it is not a duplicate.\<close>

type_synonym dedup_request = "string \<times> string option \<times> string"

definition dedup_step :: "(string \<Rightarrow> string) \<Rightarrow> dedup_engine \<Rightarrow> seconds \<Rightarrow> dedup_request \<Rightarrow> bool \<times> dedup_engine" where
  "dedup_step H e now = (\<lambda>(account_id, rule_id, alert_type).
     let (dup, e') = is_duplicate H now account_id rule_id alert_type e in (\<not> dup, e'))"

definition dedup_key_of :: "(string \<Rightarrow> string) \<Rightarrow> dedup_request \<Rightarrow> string option" where
  "dedup_key_of H = (\<lambda>(account_id, rule_id, alert_type). Some (generate_dedup_key H account_id rule_id alert_type))"

section \<open>Suppression engine\<close>

record suppression_engine =
  suppress_on_status :: "string list"
  cooldown_seconds :: real
  suppressed_accounts :: "(string, string \<times> seconds) dict"

definition new_suppression_engine :: "string list \<Rightarrow> int \<Rightarrow> suppression_engine" where
  "new_suppression_engine on_status cooldown_minutes =
     \<lparr>suppress_on_status = (if on_status = [] then [''investigating'', ''resolved''] else on_status),
      cooldown_seconds = of_int cooldown_minutes * 60, suppressed_accounts = []\<rparr>"

definition add_suppression :: "seconds \<Rightarrow> string \<Rightarrow> string \<Rightarrow> suppression_engine \<Rightarrow> suppression_engine" where
  "add_suppression now account_id reason e =
     e\<lparr>suppressed_accounts := dset account_id (reason, now) (suppressed_accounts e)\<rparr>"

definition remove_suppression :: "string \<Rightarrow> suppression_engine \<Rightarrow> suppression_engine" where
  "remove_suppression account_id e = e\<lparr>suppressed_accounts := ddel account_id (suppressed_accounts e)\<rparr>"

definition is_suppressed :: "seconds \<Rightarrow> string \<Rightarrow> suppression_engine \<Rightarrow> bool \<times> suppression_engine" where
  "is_suppressed now account_id e =
     (case dget (suppressed_accounts e) account_id of
        None \<Rightarrow> (False, e)
      | Some (reason, timestamp) \<Rightarrow>
          if cooldown_seconds e < now - timestamp then (False, remove_suppression account_id e)
          else (True, e))"

definition get_suppression_reason :: "string \<Rightarrow> suppression_engine \<Rightarrow> string option" where
  "get_suppression_reason account_id e = map_option fst (dget (suppressed_accounts e) account_id)"

definition suppression_clear :: "suppression_engine \<Rightarrow> suppression_engine" where
  "suppression_clear e = e\<lparr>suppressed_accounts := []\<rparr>"

definition suppression_size :: "suppression_engine \<Rightarrow> nat" where
  "suppression_size e = length (suppressed_accounts e)"

section \<open>Throttle engine\<close>

record throttle_engine =
  max_per_account_per_hour :: int
  max_per_rule_per_hour :: int
  max_total_per_minute :: int
  storm_threshold :: int
  account_counts :: "(string, seconds list) dict"
  rule_counts :: "(string, seconds list) dict"
  total_timestamps :: "seconds list"
  storm_active :: bool
  storm_cooldown_until :: seconds

definition new_throttle_engine :: "int \<Rightarrow> int \<Rightarrow> int \<Rightarrow> int \<Rightarrow> throttle_engine" where
  "new_throttle_engine per_account per_rule tot storm =
     \<lparr>max_per_account_per_hour = per_account, max_per_rule_per_hour = per_rule,
      max_total_per_minute = tot, storm_threshold = storm,
      account_counts = [], rule_counts = [], total_timestamps = [],
      storm_active = False, storm_cooldown_until = 0\<rparr>"

text \<open>
  \<^verbatim>\<open>should_throttle\<close>. The last part, reached when no limit applies, records the alert; the checks
  before it keep the pruned logs, as the assignments of the source do.
\<close>

definition record_alert :: "seconds \<Rightarrow> string \<Rightarrow> string option \<Rightarrow> throttle_engine \<Rightarrow> throttle_engine" where
  "record_alert now account_id rule_id e =
     e\<lparr>total_timestamps := total_timestamps e @ [now],
       account_counts := dset account_id (dget_or (account_counts e) account_id [] @ [now]) (account_counts e),
       rule_counts := (case str_or rule_id None of
                         None \<Rightarrow> rule_counts e
                       | Some r \<Rightarrow> dset r (dget_or (rule_counts e) r [] @ [now]) (rule_counts e))\<rparr>"

definition prune_total :: "seconds \<Rightarrow> throttle_engine \<Rightarrow> throttle_engine" where
  "prune_total now e = e\<lparr>total_timestamps := filter (\<lambda>ts. now - 60 < ts) (total_timestamps e)\<rparr>"

definition prune_account :: "seconds \<Rightarrow> string \<Rightarrow> throttle_engine \<Rightarrow> throttle_engine" where
  "prune_account now a e =
     e\<lparr>account_counts := dset a (filter (\<lambda>ts. now - 3600 < ts) (dget_or (account_counts e) a [])) (account_counts e)\<rparr>"

definition prune_rule :: "seconds \<Rightarrow> string \<Rightarrow> throttle_engine \<Rightarrow> throttle_engine" where
  "prune_rule now r e =
     e\<lparr>rule_counts := dset r (filter (\<lambda>ts. now - 3600 < ts) (dget_or (rule_counts e) r [])) (rule_counts e)\<rparr>"

definition should_throttle ::
  "seconds \<Rightarrow> string \<Rightarrow> string option \<Rightarrow> throttle_engine \<Rightarrow> (bool \<times> string) \<times> throttle_engine" where
  "should_throttle now account_id rule_id e =
     (if storm_active e \<and> now < storm_cooldown_until e then ((True, ''alert_storm_active''), e)
      else let e1 = prune_total now e
      in if max_total_per_minute e1 \<le> int (length (total_timestamps e1))
         then ((True, ''total_rate_exceeded''), e1)
         else if storm_threshold e1 \<le> int (length (total_timestamps e1))
         then ((True, ''alert_storm_triggered''), e1\<lparr>storm_active := True, storm_cooldown_until := now + 300\<rparr>)
         else let e2 = prune_account now account_id e1
         in if max_per_account_per_hour e2 \<le> int (length (dget_or (account_counts e2) account_id []))
            then ((True, ''account_rate_exceeded:'' @ account_id), e2)
            else (case str_or rule_id None of
                    None \<Rightarrow> ((False, []), record_alert now account_id rule_id e2)
                  | Some r \<Rightarrow>
                      let e3 = prune_rule now r e2
                      in if max_per_rule_per_hour e3 \<le> int (length (dget_or (rule_counts e3) r []))
                         then ((True, ''rule_rate_exceeded:'' @ r), e3)
                         else ((False, []), record_alert now account_id rule_id e3)))"

definition is_storm_active :: "seconds \<Rightarrow> throttle_engine \<Rightarrow> bool \<times> throttle_engine" where
  "is_storm_active now e =
     (let e' = (if storm_active e \<and> storm_cooldown_until e \<le> now then e\<lparr>storm_active := False\<rparr> else e)
      in (storm_active e', e'))"

definition reset_storm :: "throttle_engine \<Rightarrow> throttle_engine" where
  "reset_storm e = e\<lparr>storm_active := False, storm_cooldown_until := 0\<rparr>"

definition throttle_clear :: "throttle_engine \<Rightarrow> throttle_engine" where
  "throttle_clear e = e\<lparr>account_counts := [], rule_counts := [], total_timestamps := [],
                        storm_active := False, storm_cooldown_until := 0\<rparr>"

definition throttle_step :: "throttle_engine \<Rightarrow> seconds \<Rightarrow> string \<times> string option \<Rightarrow> bool \<times> throttle_engine" where
  "throttle_step e now = (\<lambda>(account_id, rule_id).
     let ((throttled, reason), e') = should_throttle now account_id rule_id e in (\<not> throttled, e'))"

definition throttle_account_of :: "string \<times> string option \<Rightarrow> string option" where
  "throttle_account_of = (\<lambda>(account_id, rule_id). Some account_id)"

definition throttle_rule_of :: "string \<times> string option \<Rightarrow> string option" where
  "throttle_rule_of = (\<lambda>(account_id, rule_id). str_or rule_id None)"

section \<open>Deduplication is a window limiter of capacity one\<close>

lemma dget_fold_ddel: "dget (fold ddel ks d) k = (if k \<in> set ks then None else dget d k)"
  by (induction ks arbitrary: d) (auto simp: dict_simps)

lemma wf_dict_fold_ddel: "wf_dict d \<Longrightarrow> wf_dict (fold ddel ks d)"
  by (induction ks arbitrary: d) auto

lemma evict_expired_frame [simp]:
  "window_seconds (evict_expired now e) = window_seconds e" "max_entries (evict_expired now e) = max_entries e"
  by (simp_all add: evict_expired_def Let_def)

lemma evict_expired_wf: "wf_dict (seen e) \<Longrightarrow> wf_dict (seen (evict_expired now e))"
  by (simp add: evict_expired_def Let_def wf_dict_fold_ddel)

lemma evict_expired_recent:
  assumes "wf_dict (seen e)"
  shows "recent (window_seconds e) now (dget_or (seen (evict_expired now e)) k [])
       = recent (window_seconds e) now (dget_or (seen e) k [])"
proof (cases "\<exists>ts. (k, ts) \<in> set (seen e) \<and> (\<forall>t \<in> set ts. window_seconds e \<le> now - t)")
  case True
  then obtain ts where ts: "(k, ts) \<in> set (seen e)" "\<forall>t \<in> set ts. window_seconds e \<le> now - t" by blast
  then have "dget (seen e) k = Some ts" "k \<in> fst ` set (filter (\<lambda>(k, ts). \<forall>t \<in> set ts. window_seconds e \<le> now - t) (seen e))"
    using assms by force+
  moreover have "filter (\<lambda>x. now - x < window_seconds e) ts = []"
    using ts(2) by (force simp: filter_empty_conv)
  ultimately show ?thesis
    by (simp add: evict_expired_def Let_def dget_or_def dget_fold_ddel recent_def)
next
  case False
  then have "k \<notin> fst ` set (filter (\<lambda>(k, ts). \<forall>t \<in> set ts. window_seconds e \<le> now - t) (seen e))"
    by auto
  then show ?thesis
    by (simp add: evict_expired_def Let_def dget_or_def dget_fold_ddel)
qed

text \<open>What \<^const>\<open>is_duplicate\<close> decides, and what it leaves in the logs.\<close>

lemma is_duplicate_iff:
  "fst (is_duplicate H now a r ty e) \<longleftrightarrow>
     recent (window_seconds e) now (dget_or (seen e) (generate_dedup_key H a r ty) []) \<noteq> []"
  by (cases "dget (seen e) (generate_dedup_key H a r ty)")
    (simp_all add: is_duplicate_def Let_def dict_simps dget_or_def recent_def)

lemma is_duplicate_frame [simp]:
  "window_seconds (snd (is_duplicate H now a r ty e)) = window_seconds e"
  "max_entries (snd (is_duplicate H now a r ty e)) = max_entries e"
  by (auto simp: is_duplicate_def Let_def)

lemma is_duplicate_wf: "wf_dict (seen e) \<Longrightarrow> wf_dict (seen (snd (is_duplicate H now a r ty e)))"
  by (auto simp: is_duplicate_def Let_def intro!: evict_expired_wf split: option.splits)

lemma is_duplicate_log:
  assumes "wf_dict (seen e)"
  shows "recent (window_seconds e) now (dget_or (seen (snd (is_duplicate H now a r ty e))) k [])
     = recent (window_seconds e) now (dget_or (seen e) k []
         @ (if \<not> fst (is_duplicate H now a r ty e) \<and> k = generate_dedup_key H a r ty then [now] else []))"
proof -
  let ?key = "generate_dedup_key H a r ty"
  let ?e3 = "e\<lparr>seen := dset ?key (filter (\<lambda>ts. now - ts < window_seconds e) (dget_or (seen e) ?key []) @ [now]) (seen e)\<rparr>"
  show ?thesis
  proof (cases "fst (is_duplicate H now a r ty e)")
    case True
    then obtain ts where ts: "dget (seen e) ?key = Some ts" "filter (\<lambda>ts. now - ts < window_seconds e) ts \<noteq> []"
      by (cases "dget (seen e) ?key") (simp_all add: is_duplicate_iff dget_or_def recent_def)
    then have "snd (is_duplicate H now a r ty e) = e\<lparr>seen := dset ?key (filter (\<lambda>ts. now - ts < window_seconds e) ts) (seen e)\<rparr>"
      by (simp add: is_duplicate_def Let_def dict_simps)
    with True ts show ?thesis
      by (simp add: dict_simps recent_def) (simp add: dget_or_def)
  next
    case False
    have shape: "snd (is_duplicate H now a r ty e)
      = (if max_entries e < int (length (seen ?e3)) then evict_expired now ?e3 else ?e3)"
      using False
      by (cases "dget (seen e) ?key") (simp_all add: is_duplicate_def Let_def dict_simps dget_or_def split: if_splits)
    have "recent (window_seconds e) now (dget_or (seen (snd (is_duplicate H now a r ty e))) k [])
      = recent (window_seconds e) now (dget_or (seen ?e3) k [])"
      using evict_expired_recent [of ?e3 now k] assms by (simp add: shape)
    then show ?thesis
      using False by (simp add: dict_simps recent_def)
  qed
qed

lemma dedup_step_eq:
  "dedup_step H e t (a, r, ty) = (\<not> fst (is_duplicate H t a r ty e), snd (is_duplicate H t a r ty e))"
  by (simp add: dedup_step_def split: prod.splits)

interpretation dedup: window_limiter "dedup_step H" "dedup_key_of H" "\<lambda>e k. dget_or (seen e) k []"
  window_seconds "\<lambda>_. 1" "\<lambda>e. wf_dict (seen e)" for H
proof (unfold_locales, goal_cases)
  case (1 s t r)
  then show ?case by (cases r) (simp add: dedup_step_eq is_duplicate_wf)
next
  case (2 s t r)
  then show ?case by (cases r) (simp add: dedup_step_eq)
next
  case (4 s t r k)
  then show ?case by (cases r) (simp add: dedup_step_eq is_duplicate_iff dedup_key_of_def)
next
  case (5 s t r k)
  then show ?case
    by (cases r) (simp add: dedup_step_eq dedup_key_of_def is_duplicate_log eq_commute [of k] del: recent_append)
qed simp

section \<open>The throttle engine is a window limiter in three ways\<close>

lemma filter_ago: "filter (\<lambda>x. t - w < x) xs = recent w t xs" for t :: real
  unfolding recent_def by (rule filter_cong) auto

lemma recent_dget_or_prune:
  "recent w t (dget_or (dset a (recent w t (dget_or d a [])) d) k []) = recent w t (dget_or d k [])"
  by (simp add: dict_simps)

lemmas prune_defs = prune_total_def prune_account_def prune_rule_def filter_ago

text \<open>The engine's state when no limit applies, before the alert is recorded.\<close>

definition pruned_engine :: "seconds \<Rightarrow> string \<Rightarrow> string option \<Rightarrow> throttle_engine \<Rightarrow> throttle_engine" where
  "pruned_engine now a r e =
     (case str_or r None of
        None \<Rightarrow> prune_account now a (prune_total now e)
      | Some x \<Rightarrow> prune_rule now x (prune_account now a (prune_total now e)))"

lemma should_throttle_pass:
  assumes "\<not> fst (fst (should_throttle now a r e))"
  shows "snd (should_throttle now a r e) = record_alert now a r (pruned_engine now a r e)"
    and "int (length (recent 60 now (total_timestamps e))) < max_total_per_minute e"
    and "int (length (recent 60 now (total_timestamps e))) < storm_threshold e"
    and "int (length (recent 3600 now (dget_or (account_counts e) a []))) < max_per_account_per_hour e"
    and "str_or r None = Some x \<Longrightarrow> int (length (recent 3600 now (dget_or (rule_counts e) x []))) < max_per_rule_per_hour e"
  using assms
  by (auto simp: should_throttle_def Let_def prune_defs pruned_engine_def dict_simps split: if_splits option.splits)

text \<open>A throttled request leaves every limit, and everything inside the windows, as it was.\<close>

lemma should_throttle_config [simp]:
  "max_per_account_per_hour (snd (should_throttle now a r e)) = max_per_account_per_hour e"
  "max_per_rule_per_hour (snd (should_throttle now a r e)) = max_per_rule_per_hour e"
  "max_total_per_minute (snd (should_throttle now a r e)) = max_total_per_minute e"
  "storm_threshold (snd (should_throttle now a r e)) = storm_threshold e"
  by (auto simp: should_throttle_def Let_def prune_defs record_alert_def split: option.splits)

lemma should_throttle_block:
  assumes "fst (fst (should_throttle now a r e))"
  shows "recent 60 now (total_timestamps (snd (should_throttle now a r e))) = recent 60 now (total_timestamps e)"
    and "recent 3600 now (dget_or (account_counts (snd (should_throttle now a r e))) k [])
       = recent 3600 now (dget_or (account_counts e) k [])"
    and "recent 3600 now (dget_or (rule_counts (snd (should_throttle now a r e))) k [])
       = recent 3600 now (dget_or (rule_counts e) k [])"
  using assms
  by (auto simp: should_throttle_def Let_def prune_defs dict_simps split: if_splits option.splits)

lemma should_throttle_logs:
  shows "recent 60 now (total_timestamps (snd (should_throttle now a r e)))
      = recent 60 now (total_timestamps e @ (if fst (fst (should_throttle now a r e)) then [] else [now]))"
    and "recent 3600 now (dget_or (account_counts (snd (should_throttle now a r e))) k [])
      = recent 3600 now (dget_or (account_counts e) k []
          @ (if \<not> fst (fst (should_throttle now a r e)) \<and> k = a then [now] else []))"
    and "recent 3600 now (dget_or (rule_counts (snd (should_throttle now a r e))) k [])
      = recent 3600 now (dget_or (rule_counts e) k []
          @ (if \<not> fst (fst (should_throttle now a r e)) \<and> str_or r None = Some k then [now] else []))"
  by (cases "fst (fst (should_throttle now a r e))";
      auto simp: should_throttle_block should_throttle_pass(1) record_alert_def pruned_engine_def prune_defs dict_simps
        split: option.splits)+

lemma throttle_step_eq:
  "throttle_step e t (a, r) = (\<not> fst (fst (should_throttle t a r e)), snd (should_throttle t a r e))"
  by (simp add: throttle_step_def split: prod.splits)

lemmas throttle_step_simps = throttle_step_eq throttle_account_of_def throttle_rule_of_def

interpretation throttle_account: window_limiter throttle_step throttle_account_of
  "\<lambda>e k. dget_or (account_counts e) k []" "\<lambda>_. 3600" "\<lambda>e. nat (max_per_account_per_hour e)" "\<lambda>_. True"
proof (unfold_locales, goal_cases)
  case (3 s t r)
  then show ?case by (cases r) (simp add: throttle_step_simps)
next
  case (4 s t r k)
  then show ?case by (cases r) (auto simp: throttle_step_simps dest: should_throttle_pass(4))
next
  case (5 s t r k)
  then show ?case
    by (cases r) (simp add: throttle_step_simps should_throttle_logs(2) eq_commute [of k] del: recent_append)
qed simp_all

interpretation throttle_rule: window_limiter throttle_step throttle_rule_of
  "\<lambda>e k. dget_or (rule_counts e) k []" "\<lambda>_. 3600" "\<lambda>e. nat (max_per_rule_per_hour e)" "\<lambda>_. True"
proof (unfold_locales, goal_cases)
  case (3 s t r)
  then show ?case by (cases r) (simp add: throttle_step_simps)
next
  case (4 s t r k)
  then show ?case by (cases r) (auto simp: throttle_step_simps dest: should_throttle_pass(5))
next
  case (5 s t r k)
  then show ?case
    by (cases r) (simp add: throttle_step_simps should_throttle_logs(3) del: recent_append)
qed simp_all

interpretation throttle_total: window_limiter throttle_step "\<lambda>_. Some ()"
  "\<lambda>e _. total_timestamps e" "\<lambda>_. 60" "\<lambda>e. nat (max_total_per_minute e)" "\<lambda>_. True"
proof (unfold_locales, goal_cases)
  case (3 s t r)
  then show ?case by (cases r) (simp add: throttle_step_simps)
next
  case (4 s t r k)
  then show ?case by (cases r) (auto simp: throttle_step_simps dest: should_throttle_pass(2))
next
  case (5 s t r k)
  then show ?case
    by (cases r) (simp add: throttle_step_simps should_throttle_logs(1) del: recent_append)
qed simp_all

section \<open>Storm detection\<close>

lemma should_throttle_storm:
  assumes "\<not> storm_active e" "max_total_per_minute e \<le> storm_threshold e"
  shows "\<not> storm_active (snd (should_throttle now a r e))"
  using assms
  by (auto simp: should_throttle_def Let_def prune_defs record_alert_def split: option.splits)

lemma run_throttle_storm:
  assumes "\<not> storm_active e" "max_total_per_minute e \<le> storm_threshold e"
  shows "\<not> storm_active (run_state throttle_step e es)"
  using assms
proof (induction es arbitrary: e)
  case Nil
  then show ?case by simp
next
  case (Cons x es)
  obtain t a r where x: "x = (t, a, r)" by (cases x) auto
  then show ?case
    using Cons.prems by (simp add: throttle_step_eq Cons.IH should_throttle_storm)
qed

section \<open>Deduplication keys\<close>

lemma split_at_sep:
  assumes "c \<notin> set xs" "c \<notin> set xs'" "xs @ c # ys = xs' @ c # ys'"
  shows "xs = xs' \<and> ys = ys'"
  using assms
proof (induction xs arbitrary: xs')
  case Nil
  then show ?case by (cases xs') auto
next
  case (Cons x xs)
  then show ?case by (cases xs') auto
qed

definition rule_part :: "string option \<Rightarrow> string" where
  "rule_part r = (case str_or r None of None \<Rightarrow> ''none'' | Some x \<Rightarrow> x)"

lemma dedup_raw_alt: "dedup_raw a r ty = a @ CHR '':'' # rule_part r @ CHR '':'' # ty"
  by (simp add: dedup_raw_def rule_part_def split: option.splits)

lemma dedup_raw_split:
  assumes "CHR '':'' \<notin> set a" "CHR '':'' \<notin> set a'" "CHR '':'' \<notin> set (rule_part r)" "CHR '':'' \<notin> set (rule_part r')"
    and eq: "dedup_raw a r ty = dedup_raw a' r' ty'"
  shows "a = a' \<and> rule_part r = rule_part r' \<and> ty = ty'"
proof -
  have "a = a' \<and> rule_part r @ CHR '':'' # ty = rule_part r' @ CHR '':'' # ty'"
    using split_at_sep [OF assms(1,2)] eq unfolding dedup_raw_alt by blast
  then show ?thesis using split_at_sep [OF assms(3,4)] by blast
qed

section \<open>Properties\<close>

text \<open>
  Claim C4 (deduplication): let a fresh engine see requests in time order. In every window of the
  configured length at most one request of a given deduplication key is let through, whatever the
  hash, the capacity and the evictions.
\<close>

theorem dedup_one_per_window:
  assumes "sorted (map fst es)"
  shows "length (in_window (dedup_key_of H) k (of_int w * 60) T
           (run_accepted (dedup_step H) (new_dedup_engine w m) es)) \<le> 1"
  using dedup.window_bound [where s = "new_dedup_engine w m" and es = es and k = k and H = H and T = T] assms
  by (simp add: new_dedup_engine_def dget_or_def)

theorem dedup_one_per_window_witness:
  "length (in_window (dedup_key_of id) ''acc:R1:ensemble'' (of_int 60 * 60) 5000
     (run_accepted (dedup_step id) (new_dedup_engine 60 100)
       [(1000, ''acc'', Some ''R1'', ''ensemble''), (2000, ''acc'', Some ''R1'', ''ensemble''),
        (4600, ''acc'', Some ''R1'', ''ensemble'')])) \<le> 1"
  by (rule dedup_one_per_window) simp

text \<open>
  Claim C3 (throttling): let a fresh throttle engine see requests in time order. In every hour at
  most the configured number of alerts of one account and of one rule pass, and in every minute at
  most the configured total.
\<close>

theorem throttle_window_limits:
  assumes "sorted (map fst es)"
  shows "length (in_window throttle_account_of a 3600 T
           (run_accepted throttle_step (new_throttle_engine pa pr tot storm) es)) \<le> nat pa
       \<and> length (in_window throttle_rule_of r 3600 T
           (run_accepted throttle_step (new_throttle_engine pa pr tot storm) es)) \<le> nat pr
       \<and> length (in_window (\<lambda>_. Some ()) () 60 T
           (run_accepted throttle_step (new_throttle_engine pa pr tot storm) es)) \<le> nat tot"
  using throttle_account.window_bound [where s = "new_throttle_engine pa pr tot storm" and k = a and T = T and es = es]
    throttle_rule.window_bound [where s = "new_throttle_engine pa pr tot storm" and k = r and T = T and es = es]
    throttle_total.window_bound [where s = "new_throttle_engine pa pr tot storm" and T = T and es = es] assms
  by (simp add: new_throttle_engine_def dget_or_def)

theorem throttle_window_limits_witness:
  "length (in_window throttle_account_of ''acc'' 3600 3600
     (run_accepted throttle_step (new_throttle_engine 2 50 100 200)
       [(0, ''acc'', None), (10, ''acc'', Some ''R1''), (20, ''acc'', None), (3600, ''acc'', None)])) \<le> nat 2"
  by (rule throttle_window_limits [THEN conjunct1]) simp

text \<open>
  Remark (storm detection is unreachable): the check for the total rate comes before the check for
  a storm, so when the storm threshold is at least the total limit, as in the defaults (200 against
  100) and in config/alert\_routing.yaml, no sequence of requests ever activates storm mode.
\<close>

theorem storm_never_triggers:
  assumes "tot \<le> storm"
  shows "\<not> storm_active (run_state throttle_step (new_throttle_engine pa pr tot storm) es)"
  by (rule run_throttle_storm) (use assms in \<open>simp_all add: new_throttle_engine_def\<close>)

theorem storm_never_triggers_witness:
  "\<not> storm_active (run_state throttle_step (new_throttle_engine 5 50 100 200) [(0, ''acc'', None), (1, ''acc'', None)])"
  by (rule storm_never_triggers) simp

text \<open>
  Remark (deduplication keys separate): two alerts whose accounts and rules have no colon get the
  same raw key only if account, rule and type agree, up to the name \<^verbatim>\<open>none\<close> of a missing rule.
\<close>

theorem dedup_key_separation:
  assumes "CHR '':'' \<notin> set a" "CHR '':'' \<notin> set a'" "CHR '':'' \<notin> set (rule_part r)" "CHR '':'' \<notin> set (rule_part r')"
  shows "dedup_raw a r ty = dedup_raw a' r' ty' \<longleftrightarrow> a = a' \<and> rule_part r = rule_part r' \<and> ty = ty'"
  using dedup_raw_split [OF assms, of ty ty'] by (auto simp: dedup_raw_alt)

theorem dedup_key_separation_witness:
  "dedup_raw ''acc1'' (Some ''R1'') ''anomaly'' = dedup_raw ''acc2'' None ''anomaly''
    \<longleftrightarrow> ''acc1'' = ''acc2'' \<and> rule_part (Some ''R1'') = rule_part None \<and> ''anomaly'' = ''anomaly''"
  by (rule dedup_key_separation) (simp_all add: rule_part_def)

text \<open>
  Remark (deduplication keys collide): an account or rule identifier with a colon shares its key
  with another pair, and the engine drops the alert of the other account and rule as a duplicate.
\<close>

theorem dedup_key_collision:
  assumes "0 < w" "t' - t < of_int w * 60" "z \<noteq> []" "y \<noteq> []" "1 \<le> m"
  shows "fst (is_duplicate H t' x (Some (y @ '':'' @ z)) ty
            (snd (is_duplicate H t (x @ '':'' @ y) (Some z) ty (new_dedup_engine w m))))"
proof -
  have key: "generate_dedup_key H x (Some (y @ '':'' @ z)) ty = generate_dedup_key H (x @ '':'' @ y) (Some z) ty"
    using assms(3,4) by (cases y; cases z) (simp_all add: generate_dedup_key_def dedup_raw_def)
  show ?thesis
    unfolding is_duplicate_iff key using assms
    by (simp add: is_duplicate_def Let_def new_dedup_engine_def dget_or_def recent_def)
qed

theorem dedup_key_collision_witness:
  "fst (is_duplicate id 20 ''a'' (Some (''b'' @ '':'' @ ''c'')) ''ensemble''
     (snd (is_duplicate id 10 (''a'' @ '':'' @ ''b'') (Some ''c'') ''ensemble'' (new_dedup_engine 60 100))))"
  by (rule dedup_key_collision) simp_all

end
