(* ===== verification/Py_Text.thy ===== *)
theory Py_Text
  imports RP_Prelude
begin

text \<open>
  The conversions of the Python standard library that the transaction code applies to untyped
  values: \<^verbatim>\<open>float()\<close>, \<^verbatim>\<open>int()\<close>, truthiness, equality, iteration, float remainder, and \<^verbatim>\<open>datetime.strptime\<close> for the three
  ISO formats of \<^verbatim>\<open>_parse_timestamp\<close>. The literals \<^verbatim>\<open>inf\<close> and \<^verbatim>\<open>nan\<close>, which \<open>real\<close>
  cannot hold, are treated as text that is not a number. White space, letter case and digits are those of ASCII; a
  text with other characters is the list of its UTF-8 bytes.
\<close>

section \<open>Numbers\<close>

definition is_digit :: "char \<Rightarrow> bool" where
  "is_digit c = (48 \<le> (of_char c :: nat) \<and> (of_char c :: nat) \<le> 57)"

definition digit :: "char \<Rightarrow> nat" where
  "digit c = of_char c - 48"

definition is_space :: "char \<Rightarrow> bool" where
  "is_space c = (let n = of_char c :: nat in 9 \<le> n \<and> n \<le> 13 \<or> 28 \<le> n \<and> n \<le> 32)"

definition strip :: "string \<Rightarrow> string" where
  "strip s = rev (dropWhile is_space (rev (dropWhile is_space s)))"

text \<open>A run of digits, with single underscores allowed between two digits.\<close>

fun scan_digits :: "bool \<Rightarrow> string \<Rightarrow> nat list \<times> string" where
  "scan_digits p [] = ([], [])"
| "scan_digits p (c # cs) =
     (if is_digit c then (let (ds, r) = scan_digits True cs in (digit c # ds, r))
      else if p \<and> c = CHR ''_'' \<and> cs \<noteq> [] \<and> is_digit (hd cs) then scan_digits False cs
      else ([], c # cs))"

definition num_of :: "nat list \<Rightarrow> nat" where
  "num_of ds = foldl (\<lambda>a d. 10 * a + d) 0 ds"

fun scan_sign :: "string \<Rightarrow> int \<times> string" where
  "scan_sign [] = (1, [])"
| "scan_sign (c # cs) = (if c = CHR ''-'' then (-1, cs) else if c = CHR ''+'' then (1, cs) else (1, c # cs))"

definition int_of_str :: "string \<Rightarrow> int option" where
  "int_of_str s =
     (let (sg, r) = scan_sign (strip s); (ds, r') = scan_digits False r
      in if ds \<noteq> [] \<and> r' = [] then Some (sg * int (num_of ds)) else None)"

definition scan_exponent :: "string \<Rightarrow> int option" where
  "scan_exponent s =
     (case s of
        [] \<Rightarrow> Some 0
      | c # cs \<Rightarrow>
          if c = CHR ''e'' \<or> c = CHR ''E''
          then (let (sg, r) = scan_sign cs; (ds, r') = scan_digits False r
                in if ds \<noteq> [] \<and> r' = [] then Some (sg * int (num_of ds)) else None)
          else None)"

definition ten_to :: "int \<Rightarrow> real" where
  "ten_to k = (if 0 \<le> k then 10 ^ nat k else 1 / 10 ^ nat (- k))"

definition float_of_str :: "string \<Rightarrow> real option" where
  "float_of_str s =
     (let (sg, r) = scan_sign (strip s); (ds, r1) = scan_digits False r;
          (fs, r2) = (case r1 of
                        [] \<Rightarrow> ([], [])
                      | c # cs \<Rightarrow> if c = CHR ''.'' then scan_digits False cs else ([], r1))
      in if ds = [] \<and> fs = [] then None
         else case scan_exponent r2 of
                None \<Rightarrow> None
              | Some k \<Rightarrow> Some (of_int sg * real (num_of (ds @ fs)) * ten_to (k - int (length fs))))"

text \<open>\<^verbatim>\<open>int(x)\<close> of a float truncates.\<close>

definition trunc_int :: "real \<Rightarrow> int" where
  "trunc_int x = (if x < 0 then \<lceil>x\<rceil> else \<lfloor>x\<rfloor>)"

fun to_float :: "pyval \<Rightarrow> real res" where
  "to_float (PBool b) = Inr (if b then 1 else 0)"
| "to_float (PInt n) = Inr (of_int n)"
| "to_float (PFloat x) = Inr x"
| "to_float (PStr s) = (case float_of_str s of None \<Rightarrow> Inl ValueError | Some x \<Rightarrow> Inr x)"
| "to_float _ = Inl TypeError"

fun to_int :: "pyval \<Rightarrow> int res" where
  "to_int (PBool b) = Inr (if b then 1 else 0)"
| "to_int (PInt n) = Inr n"
| "to_int (PFloat x) = Inr (trunc_int x)"
| "to_int (PStr s) = (case int_of_str s of None \<Rightarrow> Inl ValueError | Some n \<Rightarrow> Inr n)"
| "to_int _ = Inl TypeError"

text \<open>Truthiness of a value.\<close>

fun py_bool :: "pyval \<Rightarrow> bool" where
  "py_bool PNone = False"
| "py_bool (PBool b) = b"
| "py_bool (PInt n) = (n \<noteq> 0)"
| "py_bool (PFloat x) = (x \<noteq> 0)"
| "py_bool (PStr s) = (s \<noteq> [])"
| "py_bool (PList xs) = (xs \<noteq> [])"
| "py_bool (PDict d) = (d \<noteq> [])"
| "py_bool (PTime w z) = True"

text \<open>\<^verbatim>\<open>a or b\<close>.\<close>

definition py_or :: "pyval \<Rightarrow> pyval \<Rightarrow> pyval" where
  "py_or a b = (if py_bool a then a else b)"

text \<open>A value can be a dictionary key or a set member only when it is hashable.\<close>

fun hashable :: "pyval \<Rightarrow> bool" where
  "hashable (PList xs) = False"
| "hashable (PDict d) = False"
| "hashable _ = True"

text \<open>\<^verbatim>\<open>x % m\<close> on floats.\<close>

definition float_mod :: "real \<Rightarrow> real \<Rightarrow> real res" where
  "float_mod x m = (if m = 0 then Inl ZeroDivisionError else Inr (x - m * of_int \<lfloor>x / m\<rfloor>))"

section \<open>Printing and splitting\<close>

text \<open>Decimal notation of a number, and \<^verbatim>\<open>str.split\<close> at a character.\<close>

fun nat_str :: "nat \<Rightarrow> string" where
  "nat_str n = (if n < 10 then [char_of (48 + n)] else nat_str (n div 10) @ [char_of (48 + n mod 10)])"

declare nat_str.simps [simp del]

definition int_str :: "int \<Rightarrow> string" where
  "int_str i = (if i < 0 then CHR ''-'' # nat_str (nat (- i)) else nat_str (nat i))"

fun split_at :: "char \<Rightarrow> string \<Rightarrow> string list" where
  "split_at c [] = [[]]"
| "split_at c (x # xs) =
     (if x = c then [] # split_at c xs else (case split_at c xs of [] \<Rightarrow> [[x]] | p # ps \<Rightarrow> (x # p) # ps))"

text \<open>\<^verbatim>\<open>str.lower\<close> and \<^verbatim>\<open>str.upper\<close> on ASCII text, and the environments that count as managed.\<close>

definition ascii_lower :: "string \<Rightarrow> string" where
  "ascii_lower s = map (\<lambda>c. let n = (of_char c :: nat) in if 65 \<le> n \<and> n \<le> 90 then char_of (n + 32) else c) s"

definition ascii_upper :: "string \<Rightarrow> string" where
  "ascii_upper s = map (\<lambda>c. let n = (of_char c :: nat) in if 97 \<le> n \<and> n \<le> 122 then char_of (n - 32) else c) s"

definition managed_environment :: "string \<Rightarrow> bool" where
  "managed_environment env = (ascii_lower env \<in> {''prod'', ''production'', ''staging''})"

text \<open>\<^verbatim>\<open>str.startswith\<close>.\<close>

fun starts_with :: "string \<Rightarrow> string \<Rightarrow> bool" where
  "starts_with [] s = True"
| "starts_with (p # ps) [] = False"
| "starts_with (p # ps) (c # cs) = (p = c \<and> starts_with ps cs)"

text \<open>\<^verbatim>\<open>x in v\<close>: membership of a list, a key of a dictionary, a substring of a text.\<close>

fun has_substring :: "string \<Rightarrow> string \<Rightarrow> bool" where
  "has_substring p [] = (p = [])"
| "has_substring p (c # cs) = (starts_with p (c # cs) \<or> has_substring p cs)"

definition py_in :: "string \<Rightarrow> pyval \<Rightarrow> bool res" where
  "py_in x v =
     (case v of
        PList vs \<Rightarrow> Inr (PStr x \<in> set vs)
      | PDict d \<Rightarrow> Inr (dget d x \<noteq> None)
      | PStr s \<Rightarrow> Inr (has_substring x s)
      | _ \<Rightarrow> Inl TypeError)"

section \<open>Equality, iteration, length\<close>

text \<open>\<^verbatim>\<open>==\<close>: numbers compare by value, lists and dictionaries by their elements, aware times by their instant.\<close>

fun num_val :: "pyval \<Rightarrow> real option" where
  "num_val (PBool b) = Some (if b then 1 else 0)"
| "num_val (PInt i) = Some (of_int i)"
| "num_val (PFloat x) = Some x"
| "num_val _ = None"

lemma size_list_elem: "v \<in> set vs \<Longrightarrow> size v < size (PList vs)"
  by (induction vs) auto

lemma size_dict_elem: "(k, v) \<in> set d \<Longrightarrow> size v < size (PDict d)"
  by (induction d) (auto simp: size_prod_simp)

function py_eq :: "pyval \<Rightarrow> pyval \<Rightarrow> bool" where
  "py_eq a b =
     (case (num_val a, num_val b) of
        (Some x, Some y) \<Rightarrow> x = y
      | (None, None) \<Rightarrow>
          (case (a, b) of
             (PNone, PNone) \<Rightarrow> True
           | (PStr s, PStr t) \<Rightarrow> s = t
           | (PList xs, PList ys) \<Rightarrow> list_all2 py_eq xs ys
           | (PDict d, PDict e) \<Rightarrow> length d = length e \<and> (\<forall>(k, v) \<in> set d. case dget e k of None \<Rightarrow> False | Some w \<Rightarrow> py_eq v w)
           | (PTime w z, PTime w' z') \<Rightarrow>
               (case (z, z') of (None, None) \<Rightarrow> w = w' | (Some p, Some q) \<Rightarrow> w - p = w' - q | _ \<Rightarrow> False)
           | _ \<Rightarrow> False)
      | _ \<Rightarrow> False)"
  by pat_completeness auto
termination
  by (relation "measure (size \<circ> fst)") (auto intro: size_list_elem size_dict_elem simp del: pyval.size)

declare py_eq.simps [simp del]

text \<open>The elements a \<^verbatim>\<open>for\<close> loop runs over.\<close>

fun py_iter :: "pyval \<Rightarrow> pyval list res" where
  "py_iter (PList vs) = Inr vs"
| "py_iter (PDict d) = Inr (map (PStr \<circ> fst) d)"
| "py_iter (PStr s) = Inr (map (\<lambda>c. PStr [c]) s)"
| "py_iter _ = Inl TypeError"

text \<open>\<^verbatim>\<open>len\<close> of a text is its number of characters: the bytes that do not continue a character.\<close>

definition text_length :: "string \<Rightarrow> nat" where
  "text_length s = length (filter (\<lambda>c. (of_char c :: nat) div 64 \<noteq> 2) s)"

fun py_len :: "pyval \<Rightarrow> nat res" where
  "py_len (PList vs) = Inr (length vs)"
| "py_len (PDict d) = Inr (length d)"
| "py_len (PStr s) = Inr (text_length s)"
| "py_len _ = Inl TypeError"

section \<open>Timestamps\<close>

type_synonym fromiso = "string \<Rightarrow> (datetime \<times> int option) option"
type_synonym txn_dict = "(string, pyval) dict"

text \<open>An aware \<^verbatim>\<open>datetime\<close>: wall clock and UTC offset, both in microseconds.\<close>

type_synonym aware = "int \<times> int"

definition instant :: "aware \<Rightarrow> datetime" where
  "instant t = fst t - snd t"

definition hour_of :: "aware \<Rightarrow> int" where
  "hour_of t = (fst t div 3600000000) mod 24"

definition leap_year :: "int \<Rightarrow> bool" where
  "leap_year y = (4 dvd y \<and> (\<not> 100 dvd y \<or> 400 dvd y))"

definition days_in_month :: "int \<Rightarrow> int \<Rightarrow> int" where
  "days_in_month y m = (if m = 2 then if leap_year y then 29 else 28
                        else if m = 4 \<or> m = 6 \<or> m = 9 \<or> m = 11 then 30 else 31)"

text \<open>Days from 1970-01-01 to the first of January of year \<open>y\<close>, then to a day of that year.\<close>

definition days_before_year :: "int \<Rightarrow> int" where
  "days_before_year y = (let z = y - 1 in z * 365 + z div 4 - z div 100 + z div 400 - 719162)"

definition days_before_month :: "int \<Rightarrow> int \<Rightarrow> int" where
  "days_before_month y m = sum_list (map (days_in_month y) [1..m - 1])"

text \<open>The \<^verbatim>\<open>datetime\<close> constructor, which raises \<^verbatim>\<open>ValueError\<close> on a date or time out of range.\<close>

definition make_wall :: "int \<Rightarrow> int \<Rightarrow> int \<Rightarrow> int \<Rightarrow> int \<Rightarrow> int \<Rightarrow> int \<Rightarrow> int option" where
  "make_wall y mo d h mi s us =
     (if 1 \<le> y \<and> y \<le> 9999 \<and> 1 \<le> mo \<and> mo \<le> 12 \<and> 1 \<le> d \<and> d \<le> days_in_month y mo
         \<and> 0 \<le> h \<and> h \<le> 23 \<and> 0 \<le> mi \<and> mi \<le> 59 \<and> 0 \<le> s \<and> s \<le> 59
      then Some ((((days_before_year y + days_before_month y mo + d - 1) * 24 + h) * 60 + mi) * 60000000
                 + s * 1000000 + us)
      else None)"

text \<open>
  One directive of the format: at most \<open>w\<close> digits. The directives used are separated by characters
  that are not digits, so the regular expressions of \<^verbatim>\<open>strptime\<close> take the whole run.
\<close>

fun take_digits :: "nat \<Rightarrow> string \<Rightarrow> nat list \<times> string" where
  "take_digits 0 s = ([], s)"
| "take_digits (Suc w) [] = ([], [])"
| "take_digits (Suc w) (c # cs) =
     (if is_digit c then (let (ds, r) = take_digits w cs in (digit c # ds, r)) else ([], c # cs))"

definition field :: "nat \<Rightarrow> nat \<Rightarrow> string \<Rightarrow> (int \<times> nat \<times> string) option" where
  "field lo hi s = (let (ds, r) = take_digits hi s in if length ds < lo then None else Some (int (num_of ds), length ds, r))"

text \<open>A literal character of the format; \<^verbatim>\<open>strptime\<close> matches it without regard to case.\<close>

definition lit :: "char list \<Rightarrow> string \<Rightarrow> string option" where
  "lit cs s = (case s of [] \<Rightarrow> None | c # r \<Rightarrow> if c \<in> set cs then Some r else None)"

text \<open>\<^verbatim>\<open>%Y-%m-%dT%H:%M:%S\<close>: the six fields and the rest of the text. \<^verbatim>\<open>%d\<close> also takes a space for a leading zero.\<close>

definition scan_base :: "string \<Rightarrow> ((int \<times> int \<times> int \<times> int \<times> int \<times> int) \<times> string) option" where
  "scan_base s0 =
     Option.bind (field 4 4 s0) (\<lambda>(y, _, s1).
     Option.bind (lit ''-'' s1) (\<lambda>s2.
     Option.bind (field 1 2 s2) (\<lambda>(mo, _, s3).
     Option.bind (lit ''-'' s3) (\<lambda>s4.
     Option.bind (case lit '' '' s4 of Some r \<Rightarrow> field 1 1 r | None \<Rightarrow> field 1 2 s4) (\<lambda>(d, _, s5).
     Option.bind (lit ''Tt'' s5) (\<lambda>s6.
     Option.bind (field 1 2 s6) (\<lambda>(h, _, s7).
     Option.bind (lit '':'' s7) (\<lambda>s8.
     Option.bind (field 1 2 s8) (\<lambda>(mi, _, s9).
     Option.bind (lit '':'' s9) (\<lambda>s10.
     Option.bind (field 1 2 s10) (\<lambda>(sec, _, s11).
     Some ((y, mo, d, h, mi, sec), s11))))))))))))"

text \<open>\<^verbatim>\<open>%z\<close>: \<^verbatim>\<open>Z\<close>, or a sign, hours, minutes and optional seconds and fraction; the result is in microseconds.\<close>

definition opt_colon :: "string \<Rightarrow> string" where
  "opt_colon s = (case lit '':'' s of Some r \<Rightarrow> r | None \<Rightarrow> s)"

definition micros :: "int \<Rightarrow> nat \<Rightarrow> int" where
  "micros n k = n * 10 ^ (6 - k)"

definition scan_zone_tail :: "string \<Rightarrow> int option" where
  "scan_zone_tail s =
     (if s = [] then Some 0
      else Option.bind (field 2 2 (opt_colon s)) (\<lambda>(sec, _, r).
             if 59 < sec then None
             else if r = [] then Some (sec * 1000000)
             else Option.bind (lit ''.'' r) (\<lambda>r1. Option.bind (field 1 6 r1) (\<lambda>(f, k, r2).
                    if r2 = [] then Some (sec * 1000000 + micros f k) else None))))"

definition scan_zone :: "string \<Rightarrow> int option" where
  "scan_zone s =
     (if s = ''Z'' then Some 0
      else Option.bind (lit ''+-'' s) (\<lambda>s1.
           Option.bind (field 2 2 s1) (\<lambda>(h, _, s2).
           Option.bind (field 2 2 (opt_colon s2)) (\<lambda>(mi, _, s3).
           Option.bind (scan_zone_tail s3) (\<lambda>t.
             if 59 < mi \<or> 24 \<le> h then None
             else Some ((if hd s = CHR ''-'' then -1 else 1) * ((h * 60 + mi) * 60000000 + t)))))))"

definition wall_of :: "int \<times> int \<times> int \<times> int \<times> int \<times> int \<Rightarrow> int \<Rightarrow> int option" where
  "wall_of b us = (case b of (y, mo, d, h, mi, s) \<Rightarrow> make_wall y mo d h mi s us)"

text \<open>The three formats, in the order they are tried. The literal \<^verbatim>\<open>Z\<close> of the first and third gives a naive value.\<close>

definition strptime_Z :: "string \<Rightarrow> aware option" where
  "strptime_Z s = Option.bind (scan_base s) (\<lambda>(b, r).
     if r = ''Z'' \<or> r = ''z'' then map_option (\<lambda>w. (w, 0)) (wall_of b 0) else None)"

definition strptime_z :: "string \<Rightarrow> aware option" where
  "strptime_z s = Option.bind (scan_base s) (\<lambda>(b, r).
     Option.bind (scan_zone r) (\<lambda>z. map_option (\<lambda>w. (w, z)) (wall_of b 0)))"

definition strptime_fZ :: "string \<Rightarrow> aware option" where
  "strptime_fZ s = Option.bind (scan_base s) (\<lambda>(b, r).
     Option.bind (lit ''.'' r) (\<lambda>r1. Option.bind (field 1 6 r1) (\<lambda>(f, k, r2).
       if r2 = ''Z'' \<or> r2 = ''z'' then map_option (\<lambda>w. (w, 0)) (wall_of b (micros f k)) else None)))"

definition first_some :: "'a option \<Rightarrow> 'a option \<Rightarrow> 'a option" where
  "first_some x y = (case x of None \<Rightarrow> y | Some v \<Rightarrow> x)"

section \<open>Typed reads of documents\<close>

text \<open>
  A dataclass does not check the types of its fields; the records of this development are typed, so a
  value of another type than the field's is a TypeError here.
\<close>

fun as_str :: "pyval \<Rightarrow> string res" where
  "as_str (PStr s) = Inr s"
| "as_str _ = Inl TypeError"

fun as_opt_str :: "pyval \<Rightarrow> string option res" where
  "as_opt_str PNone = Inr None"
| "as_opt_str (PStr s) = Inr (Some s)"
| "as_opt_str _ = Inl TypeError"

fun as_float :: "pyval \<Rightarrow> real res" where
  "as_float (PFloat x) = Inr x"
| "as_float (PInt i) = Inr (of_int i)"
| "as_float _ = Inl TypeError"

fun as_bool :: "pyval \<Rightarrow> bool res" where
  "as_bool (PBool b) = Inr b"
| "as_bool _ = Inl TypeError"

fun as_dict :: "pyval \<Rightarrow> (string, pyval) dict res" where
  "as_dict (PDict d) = Inr d"
| "as_dict _ = Inl TypeError"

fun as_strs :: "pyval list \<Rightarrow> string list res" where
  "as_strs [] = Inr []"
| "as_strs (v # vs) = res_bind (as_str v) (\<lambda>s. res_bind (as_strs vs) (\<lambda>ss. Inr (s # ss)))"

fun as_str_list :: "pyval \<Rightarrow> string list res" where
  "as_str_list (PList vs) = as_strs vs"
| "as_str_list _ = Inl TypeError"

definition req_str :: "(string, pyval) dict \<Rightarrow> string \<Rightarrow> string res" where
  "req_str d k = res_bind (pindex d k) as_str"

section \<open>Facts\<close>

lemma as_strs_map [simp]: "as_strs (map PStr xs) = Inr xs"
  by (induction xs) simp_all

lemma hour_of_bounds: "0 \<le> hour_of t \<and> hour_of t < 24"
  by (simp add: hour_of_def)

lemma float_mod_range:
  assumes "0 < m" "float_mod x m = Inr r"
  shows "0 \<le> r \<and> r < m \<and> (\<exists>k :: int. x = of_int k * m + r)"
proof -
  have r: "r = x - m * of_int \<lfloor>x / m\<rfloor>" using assms by (simp add: float_mod_def)
  have "of_int \<lfloor>x / m\<rfloor> * m \<le> x"
    using assms(1) of_int_floor_le [of "x / m"] pos_le_divide_eq [of m "of_int \<lfloor>x / m\<rfloor>" x] by simp
  moreover have "x < (of_int \<lfloor>x / m\<rfloor> + 1) * m"
    using assms(1) floor_correct [of "x / m"] pos_divide_less_eq [of m x "of_int \<lfloor>x / m\<rfloor> + 1"] by simp
  ultimately show ?thesis unfolding r by (auto simp: algebra_simps intro!: exI [of _ "\<lfloor>x / m\<rfloor>"])
qed

text \<open>A leap day close to midnight, read in each of the three formats.\<close>

lemma strptime_leap_day:
  "strptime_Z ''2024-02-29T23:59:59Z'' = Some (1709251199000000, 0)"
  "strptime_z ''2024-02-29T23:59:59+05:30'' = Some (1709251199000000, 19800000000)"
  "strptime_fZ ''2024-02-29T23:59:59.5Z'' = Some (1709251199500000, 0)"
  "strptime_Z ''2023-02-29T23:59:59Z'' = None"
  by code_simp+

lemma float_of_str_examples:
  "float_of_str ''1_250.50'' = Some (2501 / 2)" "float_of_str '' -.5e2 '' = Some (-50)" "float_of_str ''12,5'' = None"
  by (simp_all add: float_of_str_def strip_def is_space_def is_digit_def digit_def num_of_def scan_exponent_def ten_to_def)

lemma of_char_digit: "d < 10 \<Longrightarrow> (of_char (char_of (48 + d)) :: nat) = 48 + d"
  by simp

lemma digit_char: "d < 10 \<Longrightarrow> is_digit (char_of (48 + d)) \<and> digit (char_of (48 + d)) = d"
  unfolding is_digit_def digit_def by (simp only: of_char_digit) simp

lemma scan_digits_all: "\<forall>c \<in> set xs. is_digit c \<Longrightarrow> scan_digits p xs = (map digit xs, [])"
  by (induction xs arbitrary: p) simp_all

lemma num_of_snoc: "num_of (ds @ [d]) = 10 * num_of ds + d"
  by (simp add: num_of_def)

lemma nat_str_digits: "nat_str n \<noteq> [] \<and> (\<forall>c \<in> set (nat_str n). is_digit c) \<and> num_of (map digit (nat_str n)) = n"
proof (induction n rule: nat_str.induct)
  case (1 n)
  then show ?case
    using digit_char [of n] digit_char [of "n mod 10"]
    by (subst (1 2 3) nat_str.simps) (auto simp: num_of_snoc num_of_def)
qed

lemma digit_not_space: "is_digit c \<Longrightarrow> \<not> is_space c \<and> c \<noteq> CHR ''.'' \<and> c \<noteq> CHR ''-'' \<and> c \<noteq> CHR ''+''"
  by (auto simp: is_digit_def is_space_def Let_def)

lemma strip_id: "(\<forall>c \<in> set s. \<not> is_space c) \<Longrightarrow> strip s = s"
proof -
  assume a: "\<forall>c \<in> set s. \<not> is_space c"
  then have "dropWhile is_space s = s" "dropWhile is_space (rev s) = rev s"
    unfolding dropWhile_eq_self_iff by (metis hd_in_set, metis hd_in_set set_rev)
  then show ?thesis by (simp add: strip_def)
qed

lemma int_str_chars: "c \<in> set (int_str i) \<Longrightarrow> \<not> is_space c \<and> c \<noteq> CHR ''.''"
  using nat_str_digits digit_not_space by (auto simp: int_str_def is_space_def Let_def split: if_splits)

lemma int_of_int_str: "int_of_str (int_str i) = Some i"
proof -
  have s: "strip (int_str i) = int_str i" by (rule strip_id) (use int_str_chars in blast)
  have d: "scan_digits False (nat_str n) = (map digit (nat_str n), [])" for n
    using scan_digits_all nat_str_digits by blast
  have p: "scan_sign (nat_str n) = (1, nat_str n)" for n
    using nat_str_digits [of n] digit_not_space by (cases "nat_str n") auto
  show ?thesis
    unfolding int_of_str_def s using nat_str_digits d p by (simp add: int_str_def)
qed

lemma split_at_append: "(\<forall>x \<in> set xs. x \<noteq> c) \<Longrightarrow> split_at c (xs @ c # ys) = xs # split_at c ys"
  by (induction xs) auto

lemma split_at_none: "(\<forall>x \<in> set xs. x \<noteq> c) \<Longrightarrow> split_at c xs = [xs]"
  by (induction xs) auto

end
