(* ===== verification/Alert_Manager.thy ===== *)
theory Alert_Manager
  imports Alert_Filters Py_Text
begin

text \<open>
  The alert manager (src/src/alerting/alert_manager.py): alerts and their serialisation, the
  statistics, alert generation behind the three filters of \<open>Alert_Filters\<close>, the lifecycle, the
  enrichment and the queries. Human-readable description strings are not modelled. A call's clock
  readings and its fresh identifier are the record \<open>readings\<close>; the Kafka producer is an optional
  function that says whether \<^verbatim>\<open>produce\<close> returns (True) or raises (False).
\<close>

section \<open>Enumerations\<close>

datatype alert_type = RULE_BASED | ANOMALY | ML_SCORE | ENSEMBLE

fun alert_type_value :: "alert_type \<Rightarrow> string" where
  "alert_type_value RULE_BASED = ''rule_based''"
| "alert_type_value ANOMALY = ''anomaly''"
| "alert_type_value ML_SCORE = ''ml_score''"
| "alert_type_value ENSEMBLE = ''ensemble''"

datatype alert_severity = LOW | MEDIUM | HIGH | CRITICAL

fun severity_value :: "alert_severity \<Rightarrow> string" where
  "severity_value LOW = ''low''"
| "severity_value MEDIUM = ''medium''"
| "severity_value HIGH = ''high''"
| "severity_value CRITICAL = ''critical''"

datatype alert_status = OPEN | INVESTIGATING | RESOLVED | FALSE_POSITIVE

fun status_value :: "alert_status \<Rightarrow> string" where
  "status_value OPEN = ''open''"
| "status_value INVESTIGATING = ''investigating''"
| "status_value RESOLVED = ''resolved''"
| "status_value FALSE_POSITIVE = ''false_positive''"

text \<open>\<^verbatim>\<open>AlertType(v)\<close> and its kin: the member with that value, or ValueError.\<close>

definition alert_type_of :: "string \<Rightarrow> alert_type res" where
  "alert_type_of v = (case find (\<lambda>m. alert_type_value m = v) [RULE_BASED, ANOMALY, ML_SCORE, ENSEMBLE] of
     None \<Rightarrow> Inl ValueError | Some m \<Rightarrow> Inr m)"

definition severity_of :: "string \<Rightarrow> alert_severity res" where
  "severity_of v = (case find (\<lambda>m. severity_value m = v) [LOW, MEDIUM, HIGH, CRITICAL] of
     None \<Rightarrow> Inl ValueError | Some m \<Rightarrow> Inr m)"

definition status_of :: "string \<Rightarrow> alert_status res" where
  "status_of v = (case find (\<lambda>m. status_value m = v) [OPEN, INVESTIGATING, RESOLVED, FALSE_POSITIVE] of
     None \<Rightarrow> Inl ValueError | Some m \<Rightarrow> Inr m)"

section \<open>Inputs and alerts\<close>

text \<open>
  The scoring result and the transaction, as the manager reads them: an optional field is a key that
  may be missing, \<open>sv_doc\<close> and \<open>tx_doc\<close> hold the whole documents.
\<close>

record method_view =
  mv_method :: "string option"
  mv_weighted_score :: "real option"
  mv_success :: "bool option"
  mv_triggered_rules :: "string option list option"

record scoring_view =
  sv_final_score :: "real option"
  sv_risk_classification :: "string option"
  sv_method_scores :: "method_view list option"
  sv_alert_recommended :: "bool option"
  sv_doc :: "(string, pyval) dict"

record transaction_view =
  tx_account_id :: "string option"
  tx_external_transaction_id :: "string option"
  tx_transaction_id :: "string option"
  tx_doc :: "(string, pyval) dict"

record readings =
  rd_suppress :: seconds
  rd_dedup :: seconds
  rd_throttle :: seconds
  rd_created :: datetime
  rd_updated :: datetime
  rd_uid :: string

record alert =
  al_alert_id :: string
  al_transaction_id :: string
  al_account_id :: string
  al_alert_type :: alert_type
  al_severity :: alert_severity
  al_status :: alert_status
  al_risk_score :: real
  al_rule_id :: "string option"
  al_details :: "(string, pyval) dict"
  al_enrichment :: "(string, pyval) dict"
  al_channels :: "string list"
  al_assigned_to :: "string option"
  al_resolved_at :: "datetime option"
  al_resolution_notes :: "string option"
  al_created_at :: datetime
  al_updated_at :: datetime
  al_suppressed :: bool
  al_deduplicated :: bool
  al_parent_alert_id :: "string option"

subsection \<open>Serialisation\<close>

fun py_opt_str :: "string option \<Rightarrow> pyval" where
  "py_opt_str None = PNone"
| "py_opt_str (Some s) = PStr s"

definition alert_to_dict :: "(datetime \<Rightarrow> string) \<Rightarrow> alert \<Rightarrow> (string, pyval) dict" where
  "alert_to_dict isoformat a =
    [(''alert_id'', PStr (al_alert_id a)),
     (''transaction_id'', PStr (al_transaction_id a)),
     (''account_id'', PStr (al_account_id a)),
     (''alert_type'', PStr (alert_type_value (al_alert_type a))),
     (''severity'', PStr (severity_value (al_severity a))),
     (''status'', PStr (status_value (al_status a))),
     (''risk_score'', PFloat (py_round 6 (al_risk_score a))),
     (''rule_id'', py_opt_str (al_rule_id a)),
     (''details'', PDict (al_details a)),
     (''enrichment'', PDict (al_enrichment a)),
     (''channels'', PList (map PStr (al_channels a))),
     (''assigned_to'', py_opt_str (al_assigned_to a)),
     (''resolved_at'', (case al_resolved_at a of None \<Rightarrow> PNone | Some t \<Rightarrow> PStr (isoformat t))),
     (''resolution_notes'', py_opt_str (al_resolution_notes a)),
     (''created_at'', PStr (isoformat (al_created_at a))),
     (''updated_at'', PStr (isoformat (al_updated_at a))),
     (''suppressed'', PBool (al_suppressed a)),
     (''deduplicated'', PBool (al_deduplicated a)),
     (''parent_alert_id'', py_opt_str (al_parent_alert_id a))]"

text \<open>
  \<^verbatim>\<open>Alert.from_dict\<close>. The dataclass does not check its field types; the typed record does, so a
  value of another type than the field's is a TypeError here. \<open>fromisoformat\<close> may raise ValueError.
\<close>

fun opt_time :: "(string \<Rightarrow> datetime res) \<Rightarrow> pyval \<Rightarrow> datetime option res" where
  "opt_time fromiso (PStr []) = Inr None"
| "opt_time fromiso (PStr s) = res_bind (fromiso s) (\<lambda>t. Inr (Some t))"
| "opt_time fromiso PNone = Inr None"
| "opt_time fromiso _ = Inl TypeError"

definition alert_from_dict :: "(string \<Rightarrow> datetime res) \<Rightarrow> (string, pyval) dict \<Rightarrow> alert res" where
  "alert_from_dict fromiso d =
    res_bind (req_str d ''alert_id'') (\<lambda>aid.
    res_bind (req_str d ''transaction_id'') (\<lambda>tid.
    res_bind (req_str d ''account_id'') (\<lambda>acc.
    res_bind (res_bind (req_str d ''alert_type'') alert_type_of) (\<lambda>ty.
    res_bind (res_bind (req_str d ''severity'') severity_of) (\<lambda>sev.
    res_bind (res_bind (req_str d ''status'') status_of) (\<lambda>st.
    res_bind (res_bind (pindex d ''risk_score'') as_float) (\<lambda>score.
    res_bind (as_opt_str (pget d ''rule_id'')) (\<lambda>rule.
    res_bind (as_dict (dget_or d ''details'' (PDict []))) (\<lambda>det.
    res_bind (as_dict (dget_or d ''enrichment'' (PDict []))) (\<lambda>enr.
    res_bind (as_str_list (dget_or d ''channels'' (PList []))) (\<lambda>chs.
    res_bind (as_opt_str (pget d ''assigned_to'')) (\<lambda>asg.
    res_bind (opt_time fromiso (pget d ''resolved_at'')) (\<lambda>rat.
    res_bind (as_opt_str (pget d ''resolution_notes'')) (\<lambda>notes.
    res_bind (res_bind (req_str d ''created_at'') fromiso) (\<lambda>cat.
    res_bind (res_bind (req_str d ''updated_at'') fromiso) (\<lambda>uat.
    res_bind (as_bool (dget_or d ''suppressed'' (PBool False))) (\<lambda>sup.
    res_bind (as_bool (dget_or d ''deduplicated'' (PBool False))) (\<lambda>dedup.
    res_bind (as_opt_str (pget d ''parent_alert_id'')) (\<lambda>par.
    Inr \<lparr>al_alert_id = aid, al_transaction_id = tid, al_account_id = acc, al_alert_type = ty,
         al_severity = sev, al_status = st, al_risk_score = score, al_rule_id = rule,
         al_details = det, al_enrichment = enr, al_channels = chs, al_assigned_to = asg,
         al_resolved_at = rat, al_resolution_notes = notes, al_created_at = cat,
         al_updated_at = uat, al_suppressed = sup, al_deduplicated = dedup,
         al_parent_alert_id = par\<rparr>)))))))))))))))))))"

section \<open>Statistics\<close>

record alert_statistics =
  total_generated :: int
  total_suppressed :: int
  total_deduplicated :: int
  total_published :: int
  by_severity :: "(string, int) dict"
  by_status :: "(string, int) dict"
  by_type :: "(string, int) dict"

definition new_statistics :: alert_statistics where
  "new_statistics =
     \<lparr>total_generated = 0, total_suppressed = 0, total_deduplicated = 0, total_published = 0,
      by_severity = [(''low'', 0), (''medium'', 0), (''high'', 0), (''critical'', 0)],
      by_status = [(''open'', 0), (''investigating'', 0), (''resolved'', 0), (''false_positive'', 0)],
      by_type = [(''rule_based'', 0), (''anomaly'', 0), (''ml_score'', 0), (''ensemble'', 0)]\<rparr>"

definition bump :: "string \<Rightarrow> (string, int) dict \<Rightarrow> (string, int) dict" where
  "bump k d = dset k (dget_or d k 0 + 1) d"

definition record_generated :: "string \<Rightarrow> string \<Rightarrow> alert_statistics \<Rightarrow> alert_statistics" where
  "record_generated severity ty st =
     st\<lparr>total_generated := total_generated st + 1, by_severity := bump severity (by_severity st),
        by_type := bump ty (by_type st), by_status := bump ''open'' (by_status st)\<rparr>"

definition record_suppressed :: "alert_statistics \<Rightarrow> alert_statistics" where
  "record_suppressed st = st\<lparr>total_suppressed := total_suppressed st + 1\<rparr>"

definition record_deduplicated :: "alert_statistics \<Rightarrow> alert_statistics" where
  "record_deduplicated st = st\<lparr>total_deduplicated := total_deduplicated st + 1\<rparr>"

definition record_published :: "alert_statistics \<Rightarrow> alert_statistics" where
  "record_published st = st\<lparr>total_published := total_published st + 1\<rparr>"

definition record_status_change :: "string \<Rightarrow> string \<Rightarrow> alert_statistics \<Rightarrow> alert_statistics" where
  "record_status_change old_status new_status st =
     (let d = dset old_status (max 0 (dget_or (by_status st) old_status 0 - 1)) (by_status st)
      in st\<lparr>by_status := bump new_status d\<rparr>)"

section \<open>The manager\<close>

record alert_manager =
  am_dedup :: dedup_engine
  am_suppression :: suppression_engine
  am_throttle :: throttle_engine
  am_alerts :: "(string, alert) dict"
  am_statistics :: alert_statistics
  am_routing :: "(string, string list option) dict"
  am_transitions :: "(string, string list) dict"

text \<open>
  The constructor, over the values it reads from config/alert\_routing.yaml: dedup window and
  capacity, suppression statuses and cooldown, the four throttle limits, channels and transitions.
\<close>

record alert_config =
  ac_window_minutes :: int
  ac_max_suppressed_per_window :: int
  ac_suppress_on_status :: "string list"
  ac_cooldown_minutes :: int
  ac_per_account_per_hour :: int
  ac_per_rule_per_hour :: int
  ac_total_per_minute :: int
  ac_storm_threshold :: int
  ac_severity_channels :: "(string, string list option) dict"
  ac_transitions :: "(string, string list) dict"

definition new_alert_manager :: "alert_config \<Rightarrow> alert_manager" where
  "new_alert_manager c =
     \<lparr>am_dedup = new_dedup_engine (ac_window_minutes c) (ac_max_suppressed_per_window c),
      am_suppression = new_suppression_engine (ac_suppress_on_status c) (ac_cooldown_minutes c),
      am_throttle = new_throttle_engine (ac_per_account_per_hour c) (ac_per_rule_per_hour c)
                      (ac_total_per_minute c) (ac_storm_threshold c),
      am_alerts = [], am_statistics = new_statistics,
      am_routing = ac_severity_channels c, am_transitions = ac_transitions c\<rparr>"

text \<open>\<^verbatim>\<open>_determine_alert_type\<close>: the method with the highest weighted score above 0.0 decides.\<close>

fun dominant_method :: "real \<Rightarrow> string \<Rightarrow> method_view list \<Rightarrow> string" where
  "dominant_method max_score best [] = best"
| "dominant_method max_score best (ms # rest) =
     (if mv_success ms = Some True
         \<and> max_score < (case mv_weighted_score ms of None \<Rightarrow> 0 | Some w \<Rightarrow> w)
      then dominant_method (the (mv_weighted_score ms))
             (case mv_method ms of None \<Rightarrow> ''ensemble'' | Some m \<Rightarrow> m) rest
      else dominant_method max_score best rest)"

definition method_map :: "(string, alert_type) dict" where
  "method_map = [(''rule_engine'', RULE_BASED), (''anomaly_detection'', ANOMALY), (''ml_model'', ML_SCORE)]"

definition determine_alert_type :: "scoring_view \<Rightarrow> alert_type" where
  "determine_alert_type sr =
     (case sv_method_scores sr of
        None \<Rightarrow> ENSEMBLE
      | Some [] \<Rightarrow> ENSEMBLE
      | Some mss \<Rightarrow> dget_or method_map (dominant_method 0 ''ensemble'' mss) ENSEMBLE)"

definition classify_severity :: "real \<Rightarrow> string \<Rightarrow> alert_severity" where
  "classify_severity risk_score risk_classification =
     (case dget [(''critical'', CRITICAL), (''high'', HIGH), (''medium'', MEDIUM), (''low'', LOW)] risk_classification of
        Some s \<Rightarrow> s
      | None \<Rightarrow> if 95 / 100 \<le> risk_score then CRITICAL
                else if 8 / 10 \<le> risk_score then HIGH
                else if 5 / 10 \<le> risk_score then MEDIUM else LOW)"

fun extract_rule_id_from :: "method_view list \<Rightarrow> string option" where
  "extract_rule_id_from [] = None"
| "extract_rule_id_from (ms # rest) =
     (if mv_method ms = Some ''rule_engine'' \<and> mv_success ms = Some True
      then (case mv_triggered_rules ms of
              Some (r # _) \<Rightarrow> r
            | _ \<Rightarrow> extract_rule_id_from rest)
      else extract_rule_id_from rest)"

definition extract_rule_id :: "scoring_view \<Rightarrow> string option" where
  "extract_rule_id sr = extract_rule_id_from (case sv_method_scores sr of None \<Rightarrow> [] | Some mss \<Rightarrow> mss)"

definition resolve_channels :: "alert_severity \<Rightarrow> alert_manager \<Rightarrow> string list" where
  "resolve_channels severity m =
     (case dget_or (am_routing m) (severity_value severity) None of
        None \<Rightarrow> [''dashboard''] | Some chs \<Rightarrow> chs)"

definition build_details :: "scoring_view \<Rightarrow> transaction_view \<Rightarrow> (string, pyval) dict" where
  "build_details sr tx =
    [(''scoring'', PDict
       [(''final_score'', pget (sv_doc sr) ''final_score''),
        (''risk_classification'', pget (sv_doc sr) ''risk_classification''),
        (''methods_succeeded'', pget (sv_doc sr) ''methods_succeeded''),
        (''scoring_version'', pget (sv_doc sr) ''scoring_version''),
        (''method_scores'', dget_or (sv_doc sr) ''method_scores'' (PList []))]),
     (''transaction'', PDict
       [(''amount'', pget (tx_doc tx) ''transaction_amount''),
        (''currency'', pget (tx_doc tx) ''transaction_currency''),
        (''type'', pget (tx_doc tx) ''transaction_type''),
        (''channel'', pget (tx_doc tx) ''channel''),
        (''merchant'', pget (tx_doc tx) ''merchant_name''),
        (''merchant_category'', pget (tx_doc tx) ''merchant_category_code''),
        (''country'', pget (tx_doc tx) ''geo_country''),
        (''is_international'', pget (tx_doc tx) ''is_international''),
        (''timestamp'', pget (tx_doc tx) ''transaction_timestamp'')])]"

definition publish_alert :: "(alert \<Rightarrow> bool) option \<Rightarrow> alert \<Rightarrow> alert_statistics \<Rightarrow> alert_statistics" where
  "publish_alert kafka a st =
     (case kafka of
        None \<Rightarrow> st
      | Some produce \<Rightarrow> if produce a then record_published st else st)"

text \<open>\<^verbatim>\<open>generate_alert\<close>.\<close>

definition account_of :: "transaction_view \<Rightarrow> string" where
  "account_of tx = (case tx_account_id tx of None \<Rightarrow> ''unknown'' | Some a \<Rightarrow> a)"

definition make_alert :: "readings \<Rightarrow> scoring_view \<Rightarrow> transaction_view \<Rightarrow> (string, pyval) dict \<Rightarrow> alert_manager \<Rightarrow> alert" where
  "make_alert rd sr tx enr m =
     (let risk_score = (case sv_final_score sr of None \<Rightarrow> 0 | Some x \<Rightarrow> x);
          risk_classification = (case sv_risk_classification sr of None \<Rightarrow> ''low'' | Some c \<Rightarrow> c);
          severity = classify_severity risk_score risk_classification
      in \<lparr>al_alert_id = rd_uid rd,
          al_transaction_id = (case str_or (tx_external_transaction_id tx) (tx_transaction_id tx) of
                                 None \<Rightarrow> ''unknown'' | Some t \<Rightarrow> t),
          al_account_id = account_of tx, al_alert_type = determine_alert_type sr,
          al_severity = severity, al_status = OPEN, al_risk_score = risk_score,
          al_rule_id = extract_rule_id sr, al_details = build_details sr tx, al_enrichment = enr,
          al_channels = resolve_channels severity m, al_assigned_to = None, al_resolved_at = None,
          al_resolution_notes = None, al_created_at = rd_created rd, al_updated_at = rd_updated rd,
          al_suppressed = False, al_deduplicated = False, al_parent_alert_id = None\<rparr>)"

definition store_alert :: "(alert \<Rightarrow> bool) option \<Rightarrow> alert \<Rightarrow> alert_manager \<Rightarrow> alert_manager" where
  "store_alert kafka a m =
     m\<lparr>am_alerts := dset (al_alert_id a) a (am_alerts m),
       am_statistics := publish_alert kafka a
         (record_generated (severity_value (al_severity a)) (alert_type_value (al_alert_type a)) (am_statistics m))\<rparr>"

definition generate_alert ::
  "(string \<Rightarrow> string) \<Rightarrow> (alert \<Rightarrow> bool) option \<Rightarrow> readings \<Rightarrow> scoring_view \<Rightarrow> transaction_view
   \<Rightarrow> (string, pyval) dict \<Rightarrow> alert_manager \<Rightarrow> alert option \<times> alert_manager" where
  "generate_alert H kafka rd sr tx enr m =
     (let acc = account_of tx; ty = determine_alert_type sr; rule = extract_rule_id sr;
          (suppressed, sup') = is_suppressed (rd_suppress rd) acc (am_suppression m);
          m1 = m\<lparr>am_suppression := sup'\<rparr>
      in if suppressed then (None, m1\<lparr>am_statistics := record_suppressed (am_statistics m1)\<rparr>)
         else let (dup, ded') = is_duplicate H (rd_dedup rd) acc rule (alert_type_value ty) (am_dedup m1);
                  m2 = m1\<lparr>am_dedup := ded'\<rparr>
         in if dup then (None, m2\<lparr>am_statistics := record_deduplicated (am_statistics m2)\<rparr>)
            else let ((throttled, reason), thr') = should_throttle (rd_throttle rd) acc rule (am_throttle m2);
                     m3 = m2\<lparr>am_throttle := thr'\<rparr>
            in if throttled then (None, m3\<lparr>am_statistics := record_suppressed (am_statistics m3)\<rparr>)
               else let a = make_alert rd sr tx enr m3 in (Some a, store_alert kafka a m3))"

text \<open>\<^verbatim>\<open>generate_alerts_from_batch\<close>: only recommended results are offered, in order.\<close>

fun generate_alerts_from_batch ::
  "(string \<Rightarrow> string) \<Rightarrow> (alert \<Rightarrow> bool) option \<Rightarrow> (string, (string, pyval) dict) dict
   \<Rightarrow> (readings \<times> scoring_view \<times> transaction_view) list \<Rightarrow> alert_manager \<Rightarrow> alert list \<times> alert_manager" where
  "generate_alerts_from_batch H kafka ctxs [] m = ([], m)"
| "generate_alerts_from_batch H kafka ctxs ((rd, sr, tx) # rest) m =
     (if sv_alert_recommended sr \<noteq> Some True then generate_alerts_from_batch H kafka ctxs rest m
      else let (r, m1) = generate_alert H kafka rd sr tx (dget_or ctxs (account_of tx) []) m;
               (as, m2) = generate_alerts_from_batch H kafka ctxs rest m1
           in (case r of None \<Rightarrow> as | Some a \<Rightarrow> a # as, m2))"

section \<open>Lifecycle\<close>

definition default_transitions :: "(string, string list) dict" where
  "default_transitions =
     [(''open'', [''investigating'', ''resolved'', ''false_positive'']),
      (''investigating'', [''resolved'', ''false_positive'', ''open'']),
      (''resolved'', []), (''false_positive'', [])]"

definition is_valid_transition :: "alert_manager \<Rightarrow> alert_status \<Rightarrow> alert_status \<Rightarrow> bool" where
  "is_valid_transition m current target =
     (let allowed = dget_or (am_transitions m) (status_value current) [];
          allowed' = (if allowed = [] then dget_or default_transitions (status_value current) [] else allowed)
      in status_value target \<in> set allowed')"

text \<open>
  \<^verbatim>\<open>transition_alert\<close>; \<open>t_upd\<close>, \<open>t_res\<close> and \<open>t_sup\<close> are its readings of the clock, in the order
  the source takes them.
\<close>

definition apply_transition ::
  "datetime \<Rightarrow> datetime \<Rightarrow> alert_status \<Rightarrow> string option \<Rightarrow> string option \<Rightarrow> alert \<Rightarrow> alert" where
  "apply_transition t_upd t_res new_status assigned_to notes a =
     (let a1 = a\<lparr>al_status := new_status, al_updated_at := t_upd\<rparr>;
          a2 = (if truthy assigned_to then a1\<lparr>al_assigned_to := assigned_to\<rparr> else a1)
      in if new_status \<in> {RESOLVED, FALSE_POSITIVE}
         then a2\<lparr>al_resolved_at := Some t_res, al_resolution_notes := notes\<rparr> else a2)"

definition suppress_after :: "seconds \<Rightarrow> alert_status \<Rightarrow> alert \<Rightarrow> suppression_engine \<Rightarrow> suppression_engine" where
  "suppress_after t_sup new_status a e =
     (if new_status \<in> {RESOLVED, FALSE_POSITIVE}
      then add_suppression t_sup (al_account_id a) (''Alert '' @ al_alert_id a @ '' '' @ status_value new_status) e
      else if new_status = INVESTIGATING
      then add_suppression t_sup (al_account_id a) (''Alert '' @ al_alert_id a @ '' under investigation'') e
      else e)"

definition transition_alert ::
  "datetime \<Rightarrow> datetime \<Rightarrow> seconds \<Rightarrow> string \<Rightarrow> alert_status \<Rightarrow> string option \<Rightarrow> string option
   \<Rightarrow> alert_manager \<Rightarrow> alert option \<times> alert_manager" where
  "transition_alert t_upd t_res t_sup aid new_status assigned_to notes m =
     (case dget (am_alerts m) aid of
        None \<Rightarrow> (None, m)
      | Some a \<Rightarrow>
          if \<not> is_valid_transition m (al_status a) new_status then (None, m)
          else let a' = apply_transition t_upd t_res new_status assigned_to notes a
               in (Some a',
                   m\<lparr>am_alerts := dset aid a' (am_alerts m),
                     am_suppression := suppress_after t_sup new_status a (am_suppression m),
                     am_statistics := record_status_change (status_value (al_status a)) (status_value new_status)
                                        (am_statistics m)\<rparr>))"

section \<open>Queries, enrichment, cleanup\<close>

definition get_alert :: "string \<Rightarrow> alert_manager \<Rightarrow> alert option" where
  "get_alert aid m = dget (am_alerts m) aid"

definition get_alerts_by_account :: "string \<Rightarrow> alert_manager \<Rightarrow> alert list" where
  "get_alerts_by_account acc m = filter (\<lambda>a. al_account_id a = acc) (map snd (am_alerts m))"

definition get_alerts_by_status :: "alert_status \<Rightarrow> alert_manager \<Rightarrow> alert list" where
  "get_alerts_by_status st m = filter (\<lambda>a. al_status a = st) (map snd (am_alerts m))"

fun severity_order :: "alert_severity \<Rightarrow> nat" where
  "severity_order CRITICAL = 0"
| "severity_order HIGH = 1"
| "severity_order MEDIUM = 2"
| "severity_order LOW = 3"

definition get_open_alerts :: "alert_manager \<Rightarrow> alert list" where
  "get_open_alerts m =
     sort_key (\<lambda>a. severity_order (al_severity a)) (filter (\<lambda>a. al_status a = OPEN) (map snd (am_alerts m)))"

definition enrich_alert ::
  "datetime \<Rightarrow> (string, pyval) dict \<Rightarrow> (string, pyval) dict list \<Rightarrow> (string, pyval) dict \<Rightarrow> alert \<Rightarrow> alert" where
  "enrich_alert now customer_history recent_transactions risk_profile a =
     a\<lparr>al_enrichment :=
         (if customer_history = [] then []
          else [(''customer_history'', PDict
                 [(''total_transactions'', dget_or customer_history ''total_transactions'' (PInt 0)),
                  (''account_age_days'', dget_or customer_history ''account_age_days'' (PInt 0)),
                  (''previous_alerts'', dget_or customer_history ''previous_alerts'' (PInt 0)),
                  (''average_transaction_amount'', dget_or customer_history ''average_transaction_amount'' (PFloat 0))])])
         @ (if recent_transactions = [] then []
            else [(''recent_transactions'', PList (map (\<lambda>txn. PDict
                   [(''transaction_id'', dget_or txn ''transaction_id'' (PStr [])),
                    (''amount'', dget_or txn ''transaction_amount'' (PFloat 0)),
                    (''timestamp'', dget_or txn ''transaction_timestamp'' (PStr [])),
                    (''merchant'', dget_or txn ''merchant_name'' (PStr [])),
                    (''channel'', dget_or txn ''channel'' (PStr []))])
                   (take 10 recent_transactions)))])
         @ (if risk_profile = [] then []
            else [(''risk_profile'', PDict
                   [(''risk_tier'', dget_or risk_profile ''risk_tier'' (PStr ''standard'')),
                    (''lifetime_risk_score'', dget_or risk_profile ''lifetime_risk_score'' (PFloat 0)),
                    (''flagged_count'', dget_or risk_profile ''flagged_count'' (PInt 0))])]),
       al_updated_at := now\<rparr>"

text \<open>
  \<^verbatim>\<open>persist_alert\<close> and \<^verbatim>\<open>persist_batch\<close>: the database session is an optional function that says
  whether the upsert returns (True) or raises (False).
\<close>

definition persist_alert :: "(alert \<Rightarrow> bool) option \<Rightarrow> alert \<Rightarrow> bool" where
  "persist_alert db a = (case db of None \<Rightarrow> False | Some execute \<Rightarrow> execute a)"

definition persist_batch :: "(alert \<Rightarrow> bool) option \<Rightarrow> alert list \<Rightarrow> nat" where
  "persist_batch db alerts = fold (\<lambda>a n. if persist_alert db a then n + 1 else n) alerts 0"

definition clear_all :: "alert_manager \<Rightarrow> alert_manager" where
  "clear_all m = m\<lparr>am_alerts := [], am_dedup := dedup_clear (am_dedup m),
                   am_suppression := suppression_clear (am_suppression m),
                   am_throttle := throttle_clear (am_throttle m)\<rparr>"

section \<open>Sequences of operations\<close>

datatype am_op =
    Generate readings scoring_view transaction_view "(string, pyval) dict"
  | Transition datetime datetime seconds string alert_status "string option" "string option"

fun am_exec :: "(string \<Rightarrow> string) \<Rightarrow> (alert \<Rightarrow> bool) option \<Rightarrow> am_op \<Rightarrow> alert_manager \<Rightarrow> alert option \<times> alert_manager" where
  "am_exec H kafka (Generate rd sr tx enr) m = generate_alert H kafka rd sr tx enr m"
| "am_exec H kafka (Transition tu tr ts aid st asg notes) m = transition_alert tu tr ts aid st asg notes m"

text \<open>
  One step of the manager. \<^verbatim>\<open>uuid4\<close> does not repeat: a generated alert gets an identifier that no
  stored alert has.
\<close>

inductive am_step :: "(string \<Rightarrow> string) \<Rightarrow> (alert \<Rightarrow> bool) option \<Rightarrow> alert_manager \<Rightarrow> alert_manager \<Rightarrow> bool"
  for H kafka where
  generate: "dget (am_alerts m) (rd_uid rd) = None \<Longrightarrow>
     am_step H kafka m (snd (generate_alert H kafka rd sr tx enr m))"
| transition: "am_step H kafka m (snd (transition_alert tu tr ts aid st asg notes m))"

inductive am_reachable :: "(string \<Rightarrow> string) \<Rightarrow> (alert \<Rightarrow> bool) option \<Rightarrow> alert_config \<Rightarrow> alert_manager \<Rightarrow> bool"
  for H kafka c where
  init: "am_reachable H kafka c (new_alert_manager c)"
| step: "am_reachable H kafka c m \<Longrightarrow> am_step H kafka m m' \<Longrightarrow> am_reachable H kafka c m'"

definition count_alerts :: "(alert \<Rightarrow> bool) \<Rightarrow> alert_manager \<Rightarrow> int" where
  "count_alerts P m = dcount P (am_alerts m)"

text \<open>The statistics agree with the stored alerts.\<close>

definition stats_ok :: "alert_manager \<Rightarrow> bool" where
  "stats_ok m \<longleftrightarrow> wf_dict (am_alerts m)
     \<and> total_generated (am_statistics m) = int (length (am_alerts m))
     \<and> (\<forall>v. dget_or (by_status (am_statistics m)) (status_value v) 0 = count_alerts (\<lambda>a. al_status a = v) m)
     \<and> (\<forall>v. dget_or (by_severity (am_statistics m)) (severity_value v) 0 = count_alerts (\<lambda>a. al_severity a = v) m)
     \<and> (\<forall>v. dget_or (by_type (am_statistics m)) (alert_type_value v) 0 = count_alerts (\<lambda>a. al_alert_type a = v) m)"

text \<open>The manager as a limiter of created alerts, driven by the reading of the throttle's clock.\<close>

type_synonym gen_request = "readings \<times> scoring_view \<times> transaction_view \<times> (string, pyval) dict"

definition gen_step ::
  "(string \<Rightarrow> string) \<Rightarrow> (alert \<Rightarrow> bool) option \<Rightarrow> alert_manager \<Rightarrow> seconds \<Rightarrow> gen_request \<Rightarrow> bool \<times> alert_manager" where
  "gen_step H kafka m t = (\<lambda>(rd, sr, tx, enr).
     let (r, m') = generate_alert H kafka (rd\<lparr>rd_throttle := t\<rparr>) sr tx enr m in (r \<noteq> None, m'))"

definition gen_account :: "gen_request \<Rightarrow> string option" where
  "gen_account = (\<lambda>(rd, sr, tx, enr). Some (account_of tx))"

section \<open>Lemmas: the four outcomes of alert generation\<close>

lemma generate_alert_suppressed:
  "fst (is_suppressed (rd_suppress rd) (account_of tx) (am_suppression m)) \<Longrightarrow>
   generate_alert H kafka rd sr tx enr m =
     (None, m\<lparr>am_suppression := snd (is_suppressed (rd_suppress rd) (account_of tx) (am_suppression m)),
              am_statistics := record_suppressed (am_statistics m)\<rparr>)"
  by (simp add: generate_alert_def Let_def case_prod_beta)

lemma generate_alert_duplicate:
  "\<not> fst (is_suppressed (rd_suppress rd) (account_of tx) (am_suppression m)) \<Longrightarrow>
   is_duplicate H (rd_dedup rd) (account_of tx) (extract_rule_id sr) (alert_type_value (determine_alert_type sr)) (am_dedup m) = (True, ded) \<Longrightarrow>
   generate_alert H kafka rd sr tx enr m =
     (None, m\<lparr>am_suppression := snd (is_suppressed (rd_suppress rd) (account_of tx) (am_suppression m)),
              am_dedup := ded, am_statistics := record_deduplicated (am_statistics m)\<rparr>)"
  by (simp add: generate_alert_def Let_def case_prod_beta)

lemma generate_alert_passed:
  "\<not> fst (is_suppressed (rd_suppress rd) (account_of tx) (am_suppression m)) \<Longrightarrow>
   is_duplicate H (rd_dedup rd) (account_of tx) (extract_rule_id sr) (alert_type_value (determine_alert_type sr)) (am_dedup m) = (False, ded) \<Longrightarrow>
   should_throttle (rd_throttle rd) (account_of tx) (extract_rule_id sr) (am_throttle m) = ((thr, reason), te) \<Longrightarrow>
   generate_alert H kafka rd sr tx enr m =
     (let m3 = m\<lparr>am_suppression := snd (is_suppressed (rd_suppress rd) (account_of tx) (am_suppression m)),
                am_dedup := ded, am_throttle := te\<rparr>
      in if thr then (None, m3\<lparr>am_statistics := record_suppressed (am_statistics m3)\<rparr>)
         else let a = make_alert rd sr tx enr m3 in (Some a, store_alert kafka a m3))"
  by (simp add: generate_alert_def Let_def case_prod_beta)

lemma generate_alert_cases [consumes 0, case_names suppressed duplicate throttled created]:
  obtains
    "fst (is_suppressed (rd_suppress rd) (account_of tx) (am_suppression m))"
    "generate_alert H kafka rd sr tx enr m =
       (None, m\<lparr>am_suppression := snd (is_suppressed (rd_suppress rd) (account_of tx) (am_suppression m)),
                am_statistics := record_suppressed (am_statistics m)\<rparr>)"
  | ded where
    "generate_alert H kafka rd sr tx enr m =
       (None, m\<lparr>am_suppression := snd (is_suppressed (rd_suppress rd) (account_of tx) (am_suppression m)),
                am_dedup := ded, am_statistics := record_deduplicated (am_statistics m)\<rparr>)"
  | ded where
    "fst (fst (should_throttle (rd_throttle rd) (account_of tx) (extract_rule_id sr) (am_throttle m)))"
    "generate_alert H kafka rd sr tx enr m =
       (None, m\<lparr>am_suppression := snd (is_suppressed (rd_suppress rd) (account_of tx) (am_suppression m)),
                am_dedup := ded,
                am_throttle := snd (should_throttle (rd_throttle rd) (account_of tx) (extract_rule_id sr) (am_throttle m)),
                am_statistics := record_suppressed (am_statistics m)\<rparr>)"
  | m3 where
    "\<not> fst (fst (should_throttle (rd_throttle rd) (account_of tx) (extract_rule_id sr) (am_throttle m)))"
    "generate_alert H kafka rd sr tx enr m = (Some (make_alert rd sr tx enr m3), store_alert kafka (make_alert rd sr tx enr m3) m3)"
    "am_throttle m3 = snd (should_throttle (rd_throttle rd) (account_of tx) (extract_rule_id sr) (am_throttle m))"
    "am_suppression m3 = snd (is_suppressed (rd_suppress rd) (account_of tx) (am_suppression m))"
    "am_alerts m3 = am_alerts m" "am_statistics m3 = am_statistics m" "am_transitions m3 = am_transitions m"
proof (cases "fst (is_suppressed (rd_suppress rd) (account_of tx) (am_suppression m))")
  case True
  then show ?thesis using that(1) generate_alert_suppressed by blast
next
  case False
  obtain dup ded where d: "is_duplicate H (rd_dedup rd) (account_of tx) (extract_rule_id sr)
      (alert_type_value (determine_alert_type sr)) (am_dedup m) = (dup, ded)" by fastforce
  obtain thr reason te where t: "should_throttle (rd_throttle rd) (account_of tx) (extract_rule_id sr) (am_throttle m)
      = ((thr, reason), te)" by (metis prod.collapse)
  show ?thesis
  proof (cases dup)
    case True
    then show ?thesis using that(2) generate_alert_duplicate [OF False, of H sr ded kafka enr] d by simp
  next
    case nodup: False
    then have g: "generate_alert H kafka rd sr tx enr m =
     (let m3 = m\<lparr>am_suppression := snd (is_suppressed (rd_suppress rd) (account_of tx) (am_suppression m)),
                am_dedup := ded, am_throttle := te\<rparr>
      in if thr then (None, m3\<lparr>am_statistics := record_suppressed (am_statistics m3)\<rparr>)
         else let a = make_alert rd sr tx enr m3 in (Some a, store_alert kafka a m3))"
      using generate_alert_passed [OF False _ t] d by simp
    show ?thesis
    proof (cases thr)
      case True
      then show ?thesis using that(3) [of ded] g t by (simp add: Let_def)
    next
      case False
      then show ?thesis
        using that(4) [of "m\<lparr>am_suppression := snd (is_suppressed (rd_suppress rd) (account_of tx) (am_suppression m)),
                am_dedup := ded, am_throttle := te\<rparr>"] g t by (simp add: Let_def)
    qed
  qed
qed

end
