(* ===== verification/Alert_Properties.thy ===== *)
theory Alert_Properties
  imports Alert_Manager
begin

text \<open>
  Correctness of the alert manager: its statistics agree with the stored alerts in every reachable
  state, terminal alerts never change again, accounts under investigation raise no alert during the
  cooldown, the hourly limit holds for created alerts, and serialisation round trips.
\<close>

section \<open>Counters\<close>

lemma status_value_inj [simp]: "status_value v = status_value w \<longleftrightarrow> v = w"
  by (cases v; cases w) simp_all

lemma severity_value_inj [simp]: "severity_value v = severity_value w \<longleftrightarrow> v = w"
  by (cases v; cases w) simp_all

lemma alert_type_value_inj [simp]: "alert_type_value v = alert_type_value w \<longleftrightarrow> v = w"
  by (cases v; cases w) simp_all

lemma status_open [simp]: "(status_value v = ''open'') = (v = OPEN)"
  by (cases v) auto

lemma dget_or_bump: "dget_or (bump k d) k' 0 = dget_or d k' 0 + (if k' = k then 1 else 0)"
  by (simp add: bump_def dict_simps)

section \<open>The statistics invariant\<close>

lemma publish_alert_frame [simp]:
  "by_status (publish_alert kafka a st) = by_status st" "by_severity (publish_alert kafka a st) = by_severity st"
  "by_type (publish_alert kafka a st) = by_type st" "total_generated (publish_alert kafka a st) = total_generated st"
  "total_suppressed (publish_alert kafka a st) = total_suppressed st"
  "total_deduplicated (publish_alert kafka a st) = total_deduplicated st"
  by (simp_all add: publish_alert_def record_published_def split: option.splits)

lemma stats_ok_new: "stats_ok (new_alert_manager c)"
proof -
  have "dget_or (by_status new_statistics) (status_value v) 0 = 0" for v
    by (cases v) (simp_all add: new_statistics_def dget_or_def)
  moreover have "dget_or (by_severity new_statistics) (severity_value v) 0 = 0" for v
    by (cases v) (simp_all add: new_statistics_def dget_or_def)
  moreover have "dget_or (by_type new_statistics) (alert_type_value v) 0 = 0" for v
    by (cases v) (simp_all add: new_statistics_def dget_or_def)
  ultimately show ?thesis
    by (simp add: stats_ok_def new_alert_manager_def count_alerts_def) (simp add: new_statistics_def)
qed

lemma stats_ok_frame:
  assumes "stats_ok m" "am_alerts m' = am_alerts m"
    and "am_statistics m' = record_suppressed (am_statistics m) \<or> am_statistics m' = record_deduplicated (am_statistics m)
         \<or> am_statistics m' = am_statistics m"
  shows "stats_ok m'"
  using assms by (auto simp: stats_ok_def count_alerts_def record_suppressed_def record_deduplicated_def)

lemma stats_ok_store:
  assumes "stats_ok m" "dget (am_alerts m) (al_alert_id a) = None" "al_status a = OPEN"
  shows "stats_ok (store_alert kafka a m)"
  using assms
  by (auto simp: stats_ok_def store_alert_def count_alerts_def dcount_dset_new dget_or_bump
      record_generated_def length_dset_None)

lemma stats_ok_generate:
  assumes "stats_ok m" "dget (am_alerts m) (rd_uid rd) = None"
  shows "stats_ok (snd (generate_alert H kafka rd sr tx enr m))"
proof (cases rule: generate_alert_cases [of rd tx m H kafka sr enr])
  case suppressed
  then show ?thesis using stats_ok_frame [OF assms(1)] by simp
next
  case (duplicate ded)
  then show ?thesis using stats_ok_frame [OF assms(1)] by simp
next
  case (throttled ded)
  then show ?thesis using stats_ok_frame [OF assms(1)] by simp
next
  case (created m3)
  have "stats_ok m3" using stats_ok_frame [OF assms(1)] created by simp
  then show ?thesis
    using created(2,5) assms(2) by (simp add: stats_ok_store make_alert_def Let_def)
qed

lemma dget_or_status_change:
  assumes "0 < dget_or (by_status st) old 0"
  shows "dget_or (by_status (record_status_change old new st)) k 0
    = dget_or (by_status st) k 0 - (if k = old then 1 else 0) + (if k = new then 1 else 0)"
  using assms by (auto simp: record_status_change_def Let_def dget_or_bump dict_simps)

lemma stats_ok_transition:
  assumes "stats_ok m"
  shows "stats_ok (snd (transition_alert tu tr ts aid st asg notes m))"
proof (cases "dget (am_alerts m) aid")
  case None
  then show ?thesis using assms by (simp add: transition_alert_def)
next
  case (Some a)
  show ?thesis
  proof (cases "is_valid_transition m (al_status a) st")
    case False
    then show ?thesis using assms Some by (simp add: transition_alert_def)
  next
    case True
    let ?a' = "apply_transition tu tr st asg notes a"
    have a': "al_status ?a' = st" "al_severity ?a' = al_severity a" "al_alert_type ?a' = al_alert_type a"
      by (simp_all add: apply_transition_def Let_def)
    have "0 < dget_or (by_status (am_statistics m)) (status_value (al_status a)) 0"
      using assms dcount_pos [OF Some, of "\<lambda>x. al_status x = al_status a"]
      by (simp add: stats_ok_def count_alerts_def)
    note change = dget_or_status_change [OF this]
    show ?thesis
      using assms Some True
      by (simp add: transition_alert_def Let_def stats_ok_def count_alerts_def dcount_dset [OF Some] length_dset_Some [OF Some] a' change)
        (simp add: record_status_change_def Let_def)
  qed
qed

lemma am_reachable_stats: "am_reachable H kafka c m \<Longrightarrow> stats_ok m"
proof (induction rule: am_reachable.induct)
  case init
  show ?case by (rule stats_ok_new)
next
  case (step m m')
  from step.hyps(2) step.IH show ?case
    by cases (auto intro: stats_ok_generate stats_ok_transition)
qed

section \<open>Terminal alerts\<close>

text \<open>No status may be reached from a terminal one, in the shipped configuration and the defaults.\<close>

definition terminal_closed :: "(string, string list) dict \<Rightarrow> bool" where
  "terminal_closed tr \<longleftrightarrow> dget_or tr ''resolved'' [] = [] \<and> dget_or tr ''false_positive'' [] = []"

lemma terminal_no_transition:
  assumes "terminal_closed (am_transitions m)" "v \<in> {RESOLVED, FALSE_POSITIVE}"
  shows "\<not> is_valid_transition m v w"
  using assms by (auto simp: terminal_closed_def is_valid_transition_def default_transitions_def Let_def dget_or_def)

lemma generate_alert_frame:
  "am_transitions (snd (generate_alert H kafka rd sr tx enr m)) = am_transitions m"
  "dget (am_alerts m) (rd_uid rd) = None \<Longrightarrow> dget (am_alerts m) k = Some a \<Longrightarrow>
     dget (am_alerts (snd (generate_alert H kafka rd sr tx enr m))) k = Some a"
  by (cases rule: generate_alert_cases [of rd tx m H kafka sr enr];
      auto simp: store_alert_def make_alert_def Let_def dict_simps)+

lemma transition_alert_frame:
  "am_transitions (snd (transition_alert tu tr ts aid st asg notes m)) = am_transitions m"
  "am_throttle (snd (transition_alert tu tr ts aid st asg notes m)) = am_throttle m"
  by (simp_all add: transition_alert_def Let_def split: option.splits)

lemma terminal_step:
  assumes "am_step H kafka m m'" "terminal_closed (am_transitions m)"
    and "dget (am_alerts m) k = Some a" "al_status a \<in> {RESOLVED, FALSE_POSITIVE}"
  shows "dget (am_alerts m') k = Some a \<and> am_transitions m' = am_transitions m"
  using assms(1)
proof cases
  case (generate rd sr tx enr)
  then show ?thesis using assms(3) by (simp add: generate_alert_frame)
next
  case (transition tu tr ts aid st asg nts)
  then show ?thesis
    using assms(2-4) terminal_no_transition [OF assms(2,4)]
    by (auto simp: transition_alert_def Let_def dict_simps split: option.splits)
qed

section \<open>Suppression\<close>

text \<open>Alerts of the account are suppressed at every time up to \<open>T\<close>.\<close>

definition suppressed_until :: "string \<Rightarrow> seconds \<Rightarrow> alert_manager \<Rightarrow> bool" where
  "suppressed_until acc T m \<longleftrightarrow>
     (\<exists>reason ts. dget (suppressed_accounts (am_suppression m)) acc = Some (reason, ts)
        \<and> T \<le> ts + cooldown_seconds (am_suppression m))"

text \<open>The clock readings of an operation lie between \<open>t0\<close> and \<open>T\<close>.\<close>

fun op_between :: "seconds \<Rightarrow> seconds \<Rightarrow> am_op \<Rightarrow> bool" where
  "op_between t0 T (Generate rd sr tx enr) = (rd_suppress rd \<le> T)"
| "op_between t0 T (Transition tu tr ts aid st asg notes) = (t0 \<le> ts)"

lemma is_suppressed_until:
  assumes "suppressed_until acc T m" "t \<le> T"
  shows "is_suppressed t acc (am_suppression m) = (True, am_suppression m)"
  using assms by (auto simp: suppressed_until_def is_suppressed_def)

lemma is_suppressed_frame:
  "cooldown_seconds (snd (is_suppressed t a e)) = cooldown_seconds e"
  "b \<noteq> a \<Longrightarrow> dget (suppressed_accounts (snd (is_suppressed t a e))) b = dget (suppressed_accounts e) b"
  by (auto simp: is_suppressed_def remove_suppression_def split: option.splits)

lemma generate_alert_suppression:
  "am_suppression (snd (generate_alert H kafka rd sr tx enr m)) = snd (is_suppressed (rd_suppress rd) (account_of tx) (am_suppression m))"
  by (cases rule: generate_alert_cases [of rd tx m H kafka sr enr]) (simp_all add: store_alert_def)

lemma generate_keeps_suppressed:
  assumes "suppressed_until acc T m" "rd_suppress rd \<le> T"
  shows "suppressed_until acc T (snd (generate_alert H kafka rd sr tx enr m))"
proof (cases "account_of tx = acc")
  case True
  then show ?thesis
    using assms is_suppressed_until [OF assms] by (simp add: suppressed_until_def generate_alert_suppression)
next
  case False
  then show ?thesis
    using assms(1) by (simp add: suppressed_until_def generate_alert_suppression is_suppressed_frame)
qed

lemma transition_keeps_suppressed:
  assumes "suppressed_until acc T m" "t0 \<le> ts" "T = t0 + cooldown_seconds (am_suppression m)"
  shows "suppressed_until acc T (snd (transition_alert tu tr ts aid st asg notes m))"
  using assms
  by (auto simp: transition_alert_def suppressed_until_def suppress_after_def add_suppression_def Let_def dict_simps
      split: option.splits)

lemma am_exec_cooldown:
  "cooldown_seconds (am_suppression (snd (am_exec H kafka op m))) = cooldown_seconds (am_suppression m)"
  by (cases op) (auto simp: generate_alert_suppression is_suppressed_frame transition_alert_def suppress_after_def
      add_suppression_def Let_def split: option.splits)

lemma run_keeps_suppressed:
  assumes "suppressed_until acc T m" "T = t0 + cooldown_seconds (am_suppression m)" "list_all (op_between t0 T) ops"
  shows "suppressed_until acc T (fold (\<lambda>op m. snd (am_exec H kafka op m)) ops m)"
  using assms
proof (induction ops arbitrary: m)
  case Nil
  then show ?case by simp
next
  case (Cons op ops)
  have "suppressed_until acc T (snd (am_exec H kafka op m))"
    using Cons.prems
    by (cases op) (auto intro: generate_keeps_suppressed transition_keeps_suppressed)
  then show ?case
    using Cons.IH [of "snd (am_exec H kafka op m)"] Cons.prems(2,3) by (simp add: am_exec_cooldown)
qed

lemma transition_suppresses:
  assumes "transition_alert tu tr t0 aid st asg notes m = (Some a, m0)" "st \<noteq> OPEN"
  shows "suppressed_until (al_account_id a) (t0 + cooldown_seconds (am_suppression m0)) m0"
  using assms
  by (cases st)
    (auto simp: transition_alert_def apply_transition_def suppressed_until_def suppress_after_def add_suppression_def
      Let_def dict_simps split: option.splits if_splits)

section \<open>The hourly limit of created alerts\<close>

lemma generate_alert_throttle:
  "am_throttle (snd (generate_alert H kafka rd sr tx enr m)) = am_throttle m \<and> fst (generate_alert H kafka rd sr tx enr m) = None
   \<or> am_throttle (snd (generate_alert H kafka rd sr tx enr m))
       = snd (should_throttle (rd_throttle rd) (account_of tx) (extract_rule_id sr) (am_throttle m))
     \<and> (fst (generate_alert H kafka rd sr tx enr m) = None \<longleftrightarrow>
          fst (fst (should_throttle (rd_throttle rd) (account_of tx) (extract_rule_id sr) (am_throttle m))))"
  by (cases rule: generate_alert_cases [of rd tx m H kafka sr enr]) (simp_all add: store_alert_def)

lemma gen_step_throttle:
  "am_throttle (snd (gen_step H kafka m t (rd, sr, tx, enr))) = am_throttle m \<and> \<not> fst (gen_step H kafka m t (rd, sr, tx, enr))
   \<or> (fst (gen_step H kafka m t (rd, sr, tx, enr)), am_throttle (snd (gen_step H kafka m t (rd, sr, tx, enr))))
       = throttle_step (am_throttle m) t (account_of tx, extract_rule_id sr)"
  using generate_alert_throttle [of H kafka "rd\<lparr>rd_throttle := t\<rparr>" sr tx enr m]
  by (auto simp: gen_step_def throttle_step_eq case_prod_beta)

interpretation created: window_limiter "gen_step H kafka" gen_account
  "\<lambda>m k. dget_or (account_counts (am_throttle m)) k []" "\<lambda>_. 3600"
  "\<lambda>m. nat (max_per_account_per_hour (am_throttle m))" "\<lambda>_. True" for H kafka
proof (unfold_locales, goal_cases)
  case (3 s t r)
  obtain rd sr tx enr where r: "r = (rd, sr, tx, enr)" by (cases r)
  show ?case using gen_step_throttle [of H kafka s t rd sr tx enr] by (auto simp: r throttle_step_eq)
next
  case (4 s t r k)
  obtain rd sr tx enr where r: "r = (rd, sr, tx, enr)" by (cases r)
  show ?case
    using 4 gen_step_throttle [of H kafka s t rd sr tx enr]
      throttle_account.accept_below [of "am_throttle s" t "(account_of tx, extract_rule_id sr)" k]
    by (auto simp: r gen_account_def throttle_account_of_def prod_eq_iff)
next
  case (5 s t r k)
  obtain rd sr tx enr where r: "r = (rd, sr, tx, enr)" by (cases r)
  show ?case
    using gen_step_throttle [of H kafka s t rd sr tx enr]
      throttle_account.log_step [of t "am_throttle s" "(account_of tx, extract_rule_id sr)" k]
    by (auto simp: r gen_account_def throttle_account_of_def prod_eq_iff)
qed simp_all

section \<open>Serialisation\<close>

lemma alert_type_of_value [simp]: "alert_type_of (alert_type_value v) = Inr v"
  by (cases v) (simp_all add: alert_type_of_def)

lemma severity_of_value [simp]: "severity_of (severity_value v) = Inr v"
  by (cases v) (simp_all add: severity_of_def)

lemma status_of_value [simp]: "status_of (status_value v) = Inr v"
  by (cases v) (simp_all add: status_of_def)

lemma as_opt_str_py [simp]: "as_opt_str (py_opt_str x) = Inr x"
  by (cases x) simp_all

lemma opt_time_iso:
  assumes "\<And>t. fromiso (isof t) = Inr t" "\<And>t. isof t \<noteq> []"
  shows "opt_time fromiso (case x of None \<Rightarrow> PNone | Some t \<Rightarrow> PStr (isof t)) = Inr x"
proof (cases x)
  case (Some t)
  then show ?thesis using assms(1) [of t] assms(2) [of t] by (cases "isof t") simp_all
qed simp

section \<open>A concrete manager, for the witnesses\<close>

definition demo_config :: alert_config where
  "demo_config = \<lparr>ac_window_minutes = 60, ac_max_suppressed_per_window = 100,
     ac_suppress_on_status = [''investigating'', ''resolved''], ac_cooldown_minutes = 120,
     ac_per_account_per_hour = 1, ac_per_rule_per_hour = 50, ac_total_per_minute = 100, ac_storm_threshold = 200,
     ac_severity_channels = [(''high'', Some [''email'', ''dashboard'', ''sms''])], ac_transitions = default_transitions\<rparr>"

definition demo_rd :: "string \<Rightarrow> seconds \<Rightarrow> readings" where
  "demo_rd uid t = \<lparr>rd_suppress = t, rd_dedup = t, rd_throttle = t, rd_created = 0, rd_updated = 0, rd_uid = uid\<rparr>"

definition demo_scoring :: "string \<Rightarrow> scoring_view" where
  "demo_scoring meth = \<lparr>sv_final_score = Some (7/10), sv_risk_classification = Some ''high'',
     sv_method_scores = Some [\<lparr>mv_method = Some meth, mv_weighted_score = Some (3/10), mv_success = Some True,
                               mv_triggered_rules = None\<rparr>],
     sv_alert_recommended = Some True, sv_doc = []\<rparr>"

definition demo_tx :: "string \<Rightarrow> transaction_view" where
  "demo_tx acc = \<lparr>tx_account_id = Some acc, tx_external_transaction_id = None, tx_transaction_id = Some ''t1'', tx_doc = []\<rparr>"

definition demo_manager :: alert_manager where
  "demo_manager = snd (generate_alert id None (demo_rd ''u1'' 0) (demo_scoring ''ml_model'') (demo_tx ''acc'') [] (new_alert_manager demo_config))"

lemmas demo_defs = demo_config_def demo_rd_def demo_scoring_def demo_tx_def demo_manager_def

lemmas generate_simps = generate_alert_def Let_def new_alert_manager_def new_dedup_engine_def new_suppression_engine_def
  new_throttle_engine_def is_suppressed_def is_duplicate_def should_throttle_def prune_total_def prune_account_def
  prune_rule_def record_alert_def make_alert_def store_alert_def account_of_def determine_alert_type_def
  extract_rule_id_def generate_dedup_key_def dedup_raw_def dget_or_def method_map_def classify_severity_def
  resolve_channels_def publish_alert_def

lemma demo_manager_alert:
  "\<exists>a. dget (am_alerts demo_manager) ''u1'' = Some a \<and> al_status a = OPEN \<and> al_account_id a = ''acc''"
  by (simp add: demo_defs generate_simps)

lemma demo_manager_engines:
  "am_suppression demo_manager = \<lparr>suppress_on_status = [''investigating'', ''resolved''], cooldown_seconds = 7200, suppressed_accounts = []\<rparr>"
  "am_dedup demo_manager = \<lparr>window_seconds = 3600, max_entries = 100, seen = [(''acc:none:ml_score'', [0])]\<rparr>"
  "am_throttle demo_manager = (new_throttle_engine 1 50 100 200)\<lparr>account_counts := [(''acc'', [0])], total_timestamps := [0]\<rparr>"
  by (simp_all add: demo_defs generate_simps)

lemma demo_manager_reachable: "am_reachable id None demo_config demo_manager"
  unfolding demo_manager_def
  by (rule am_reachable.step [OF am_reachable.init], rule am_step.generate) (simp add: new_alert_manager_def)

section \<open>Properties\<close>

text \<open>
  Claim C2 (statistics): in every state the manager can reach by generating and transitioning alerts,
  the counters per status, severity and type and the total equal the numbers of stored alerts; in
  particular the clipping at zero of a status change never hides a lost alert.
\<close>

theorem alert_statistics_exact:
  assumes "am_reachable H kafka c m"
  shows "stats_ok m"
  using assms by (rule am_reachable_stats)

theorem alert_statistics_exact_witness: "stats_ok demo_manager"
  by (rule alert_statistics_exact [OF demo_manager_reachable])

text \<open>
  Remark (lifecycle): with a configuration that allows no transition out of the resolved and
  false-positive statuses, a stored alert in such a status is never changed again by any sequence of
  operations.
\<close>

theorem terminal_alert_final:
  assumes "(am_step H kafka)\<^sup>*\<^sup>* m m'" "terminal_closed (am_transitions m)"
    and "dget (am_alerts m) k = Some a" "al_status a = RESOLVED \<or> al_status a = FALSE_POSITIVE"
  shows "dget (am_alerts m') k = Some a"
proof -
  have "dget (am_alerts m') k = Some a \<and> am_transitions m' = am_transitions m"
    using assms
  proof (induction rule: rtranclp_induct)
    case (step y z)
    then show ?case using terminal_step [of H kafka y z k a] by auto
  qed simp
  then show ?thesis ..
qed

theorem terminal_alert_final_witness:
  "dget (am_alerts (snd (transition_alert 1 1 1 ''u1'' OPEN None None
      (snd (transition_alert 0 0 0 ''u1'' RESOLVED None None demo_manager))))) ''u1''
   = dget (am_alerts (snd (transition_alert 0 0 0 ''u1'' RESOLVED None None demo_manager))) ''u1''"
proof -
  let ?m = "snd (transition_alert 0 0 0 ''u1'' RESOLVED None None demo_manager)"
  have tr: "am_transitions demo_manager = default_transitions"
    by (simp add: demo_manager_def generate_alert_frame) (simp add: new_alert_manager_def demo_config_def)
  obtain a where a: "dget (am_alerts demo_manager) ''u1'' = Some a" "al_status a = OPEN"
    using demo_manager_alert by blast
  have m: "dget (am_alerts ?m) ''u1'' = Some (apply_transition 0 0 RESOLVED None None a)"
    by (simp add: transition_alert_def a is_valid_transition_def tr default_transitions_def dget_or_def Let_def dict_simps)
  have "(am_step id None)\<^sup>*\<^sup>* ?m (snd (transition_alert 1 1 1 ''u1'' OPEN None None ?m))"
    by (rule r_into_rtranclp) (rule am_step.transition)
  from terminal_alert_final [OF this _ m] show ?thesis
    unfolding m by (simp add: terminal_closed_def transition_alert_frame tr default_transitions_def dget_or_def
      apply_transition_def Let_def)
qed

text \<open>
  Remark (suppression): once an alert is moved to investigating, resolved or false positive at time
  \<open>t0\<close>, no alert is generated for its account by any request whose clock reads at most the cooldown
  later, whatever requests and transitions happen in between.
\<close>

theorem suppression_cooldown:
  assumes "transition_alert tu tr t0 aid st asg notes m = (Some a, m0)" "st \<noteq> OPEN"
    and "list_all (op_between t0 (t0 + cooldown_seconds (am_suppression m0))) ops"
    and "account_of tx = al_account_id a" "rd_suppress rd \<le> t0 + cooldown_seconds (am_suppression m0)"
  shows "fst (generate_alert H kafka rd sr tx enr (fold (\<lambda>op m. snd (am_exec H kafka op m)) ops m0)) = None"
proof -
  let ?m = "fold (\<lambda>op m. snd (am_exec H kafka op m)) ops m0"
  have "suppressed_until (al_account_id a) (t0 + cooldown_seconds (am_suppression m0)) ?m"
    by (rule run_keeps_suppressed [OF transition_suppresses [OF assms(1,2)] refl assms(3)])
  then show ?thesis
    using is_suppressed_until [OF _ assms(5)] assms(4) by (simp add: generate_alert_suppressed)
qed

theorem suppression_cooldown_witness:
  "fst (generate_alert id None (demo_rd ''u3'' 7000) (demo_scoring ''rule_engine'') (demo_tx ''acc'') []
      (fold (\<lambda>op m. snd (am_exec id None op m)) [Generate (demo_rd ''u2'' 20) (demo_scoring ''ml_model'') (demo_tx ''acc'') []]
         (snd (transition_alert 0 0 10 ''u1'' INVESTIGATING None None demo_manager)))) = None"
proof -
  obtain a where a: "dget (am_alerts demo_manager) ''u1'' = Some a" "al_status a = OPEN" "al_account_id a = ''acc''"
    using demo_manager_alert by blast
  have tr: "am_transitions demo_manager = default_transitions"
    by (simp add: demo_manager_def generate_alert_frame) (simp add: new_alert_manager_def demo_config_def)
  let ?r = "transition_alert 0 0 10 ''u1'' INVESTIGATING None None demo_manager"
  have r: "fst ?r = Some (apply_transition 0 0 INVESTIGATING None None a)"
    by (simp add: transition_alert_def a is_valid_transition_def tr default_transitions_def dget_or_def Let_def)
  have cd: "cooldown_seconds (am_suppression (snd ?r)) = 7200"
    using am_exec_cooldown [of id None "Transition 0 0 10 ''u1'' INVESTIGATING None None" demo_manager]
      am_exec_cooldown [of id None "Generate (demo_rd ''u1'' 0) (demo_scoring ''ml_model'') (demo_tx ''acc'') []" "new_alert_manager demo_config"]
    by (simp add: demo_manager_def [symmetric]) (simp add: new_alert_manager_def new_suppression_engine_def demo_config_def)
  have "?r = (Some (apply_transition 0 0 INVESTIGATING None None a), snd ?r)"
    using r by (metis prod.collapse)
  then show ?thesis
    by (rule suppression_cooldown)
      (simp_all add: cd a apply_transition_def Let_def account_of_def demo_tx_def demo_rd_def)
qed

text \<open>
  Remark (hourly limit): a fresh manager that sees requests in the order of its throttle clock
  creates at most the configured number of alerts for one account in any hour.
\<close>

theorem created_alerts_per_hour:
  assumes "sorted (map fst es)"
  shows "length (in_window gen_account acc 3600 T (run_accepted (gen_step H kafka) (new_alert_manager c) es))
           \<le> nat (ac_per_account_per_hour c)"
  using created.window_bound [where s = "new_alert_manager c" and es = es and k = acc and T = T and H = H and kafka = kafka] assms
  by (simp add: new_alert_manager_def new_throttle_engine_def dget_or_def)

theorem created_alerts_per_hour_witness:
  "length (in_window gen_account ''acc'' 3600 100 (run_accepted (gen_step id None) (new_alert_manager demo_config)
      [(0, demo_rd ''u1'' 0, demo_scoring ''ml_model'', demo_tx ''acc'', []),
       (50, demo_rd ''u2'' 50, demo_scoring ''rule_engine'', demo_tx ''acc'', [])])) \<le> nat (ac_per_account_per_hour demo_config)"
  by (rule created_alerts_per_hour) simp

text \<open>
  Remark (accounting): every call of the generator raises exactly one of the three totals by one,
  and it returns an alert exactly when the generated total went up.
\<close>

theorem generate_accounting:
  "total_generated (am_statistics (snd (generate_alert H kafka rd sr tx enr m)))
     + total_suppressed (am_statistics (snd (generate_alert H kafka rd sr tx enr m)))
     + total_deduplicated (am_statistics (snd (generate_alert H kafka rd sr tx enr m)))
   = total_generated (am_statistics m) + total_suppressed (am_statistics m) + total_deduplicated (am_statistics m) + 1
   \<and> (fst (generate_alert H kafka rd sr tx enr m) \<noteq> None \<longleftrightarrow>
       total_generated (am_statistics (snd (generate_alert H kafka rd sr tx enr m))) = total_generated (am_statistics m) + 1)"
  by (cases rule: generate_alert_cases [of rd tx m H kafka sr enr])
    (simp_all add: store_alert_def record_generated_def record_suppressed_def record_deduplicated_def)

text \<open>
  Remark (a throttled alert is lost): the deduplication engine records a request before the
  throttle decides. When the throttle rejects it, no alert exists, and yet the same request within
  the window is dropped as a duplicate, even when the throttle would now let it pass.
\<close>

theorem throttled_then_deduplicated:
  assumes thr: "\<not> fst (is_suppressed (rd_suppress rd) (account_of tx) (am_suppression m))"
      "\<not> fst (is_duplicate H (rd_dedup rd) (account_of tx) (extract_rule_id sr) (alert_type_value (determine_alert_type sr)) (am_dedup m))"
      "fst (fst (should_throttle (rd_throttle rd) (account_of tx) (extract_rule_id sr) (am_throttle m)))"
    and again: "rd_dedup rd' - rd_dedup rd < window_seconds (am_dedup m)" "0 < window_seconds (am_dedup m)"
      "wf_dict (seen (am_dedup m))"
  shows "fst (generate_alert H kafka rd sr tx enr m) = None
       \<and> fst (generate_alert H kafka rd' sr tx enr' (snd (generate_alert H kafka rd sr tx enr m))) = None"
proof -
  let ?dup = "is_duplicate H (rd_dedup rd) (account_of tx) (extract_rule_id sr) (alert_type_value (determine_alert_type sr)) (am_dedup m)"
  let ?key = "generate_dedup_key H (account_of tx) (extract_rule_id sr) (alert_type_value (determine_alert_type sr))"
  obtain ded where ded: "?dup = (False, ded)" using thr(2) by (cases ?dup) auto
  obtain reason te where te: "should_throttle (rd_throttle rd) (account_of tx) (extract_rule_id sr) (am_throttle m) = ((True, reason), te)"
    using thr(3) by (metis prod.collapse)
  have g: "fst (generate_alert H kafka rd sr tx enr m) = None" "am_dedup (snd (generate_alert H kafka rd sr tx enr m)) = ded"
    using generate_alert_passed [OF thr(1) ded te, of kafka enr] by (simp_all add: Let_def)
  have w: "window_seconds ded = window_seconds (am_dedup m)"
    using is_duplicate_frame(1) [of H "rd_dedup rd" "account_of tx" "extract_rule_id sr"] ded by (metis snd_conv)
  have "rd_dedup rd \<in> set (dget_or (seen ded) ?key [])"
  proof -
    have "recent (window_seconds (am_dedup m)) (rd_dedup rd) (dget_or (seen ded) ?key [])
       = recent (window_seconds (am_dedup m)) (rd_dedup rd) (dget_or (seen (am_dedup m)) ?key [] @ [rd_dedup rd])"
      using is_duplicate_log [OF again(3), of "rd_dedup rd" H "account_of tx" "extract_rule_id sr"
          "alert_type_value (determine_alert_type sr)" ?key] ded by simp
    then have "rd_dedup rd \<in> set (recent (window_seconds (am_dedup m)) (rd_dedup rd) (dget_or (seen ded) ?key []))"
      using again(2) by (simp add: recent_def)
    then show ?thesis by (simp add: recent_def)
  qed
  then have "recent (window_seconds ded) (rd_dedup rd') (dget_or (seen ded) ?key []) \<noteq> []"
    using again(1) w by (auto simp: recent_def filter_empty_conv)
  then have dup': "fst (is_duplicate H (rd_dedup rd') (account_of tx) (extract_rule_id sr) (alert_type_value (determine_alert_type sr)) ded)"
    by (simp add: is_duplicate_iff)
  show ?thesis
  proof (cases "fst (is_suppressed (rd_suppress rd') (account_of tx) (am_suppression (snd (generate_alert H kafka rd sr tx enr m))))")
    case True
    then show ?thesis using g by (simp add: generate_alert_suppressed)
  next
    case False
    obtain ded' where "is_duplicate H (rd_dedup rd') (account_of tx) (extract_rule_id sr)
        (alert_type_value (determine_alert_type sr)) (am_dedup (snd (generate_alert H kafka rd sr tx enr m))) = (True, ded')"
      using dup' unfolding g(2) by (metis prod.collapse)
    from generate_alert_duplicate [OF False this] show ?thesis using g(1) by simp
  qed
qed

theorem throttled_then_deduplicated_witness:
  "fst (generate_alert id None (demo_rd ''u2'' 1000) (demo_scoring ''rule_engine'') (demo_tx ''acc'') [] demo_manager) = None
   \<and> fst (generate_alert id None (demo_rd ''u3'' 4000) (demo_scoring ''rule_engine'') (demo_tx ''acc'') []
       (snd (generate_alert id None (demo_rd ''u2'' 1000) (demo_scoring ''rule_engine'') (demo_tx ''acc'') [] demo_manager))) = None"
proof (rule throttled_then_deduplicated)
  show "\<not> fst (is_suppressed (rd_suppress (demo_rd ''u2'' 1000)) (account_of (demo_tx ''acc'')) (am_suppression demo_manager))"
    by (simp add: demo_manager_engines is_suppressed_def)
  show "\<not> fst (is_duplicate id (rd_dedup (demo_rd ''u2'' 1000)) (account_of (demo_tx ''acc'')) (extract_rule_id (demo_scoring ''rule_engine''))
      (alert_type_value (determine_alert_type (demo_scoring ''rule_engine''))) (am_dedup demo_manager))"
    by (simp add: is_duplicate_iff demo_manager_engines demo_tx_def demo_scoring_def account_of_def extract_rule_id_def
        determine_alert_type_def method_map_def dget_or_def generate_dedup_key_def dedup_raw_def)
  show "fst (fst (should_throttle (rd_throttle (demo_rd ''u2'' 1000)) (account_of (demo_tx ''acc'')) (extract_rule_id (demo_scoring ''rule_engine''))
      (am_throttle demo_manager)))"
    by (simp add: should_throttle_def demo_manager_engines demo_tx_def demo_rd_def account_of_def new_throttle_engine_def
        prune_total_def prune_account_def dget_or_def)
qed (simp_all add: demo_manager_engines demo_rd_def)

text \<open>
  Remark (serialisation): reading back the dictionary of an alert gives the alert, with its risk
  score rounded to six digits, for any \<^verbatim>\<open>fromisoformat\<close> that inverts \<^verbatim>\<open>isoformat\<close>.
\<close>

theorem alert_dict_roundtrip:
  assumes iso_inverse: "\<And>t. fromiso (isof t) = Inr t" and iso_nonempty: "\<And>t. isof t \<noteq> []"
  shows "alert_from_dict fromiso (alert_to_dict isof a) = Inr (a\<lparr>al_risk_score := py_round 6 (al_risk_score a)\<rparr>)"
  unfolding alert_from_dict_def req_str_def pindex_def pget_def dget_or_def alert_to_dict_def
  by (simp add: opt_time_iso [OF assms] iso_inverse)

theorem alert_dict_roundtrip_witness:
  "alert_from_dict (\<lambda>s. case s of [] \<Rightarrow> Inl ValueError | c # cs \<Rightarrow> Inr (if c = CHR ''-'' then - int (length cs) else int (length cs)))
     (alert_to_dict (\<lambda>t. (if t < 0 then CHR ''-'' else CHR ''+'') # replicate (nat \<bar>t\<bar>) CHR ''0'')
        (make_alert (demo_rd ''u1'' 0) (demo_scoring ''ml_model'') (demo_tx ''acc'') [] (new_alert_manager demo_config)))
   = Inr ((make_alert (demo_rd ''u1'' 0) (demo_scoring ''ml_model'') (demo_tx ''acc'') [] (new_alert_manager demo_config))
        \<lparr>al_risk_score := py_round 6 (al_risk_score (make_alert (demo_rd ''u1'' 0) (demo_scoring ''ml_model'') (demo_tx ''acc'') []
           (new_alert_manager demo_config)))\<rparr>)"
  by (rule alert_dict_roundtrip) simp_all

end
