(* ===== verification/Escalation.thy ===== *)
theory Escalation
  imports Alert_Manager
begin

text \<open>
  The escalation engine (src/src/alerting/escalation_engine.py): policies with levels, on-call
  rotations, the table of escalations and the operations start, acknowledge, resolve and
  check_timeouts. \<open>now\<close> is the clock reading of the operation and \<open>toc\<close> the one taken while
  resolving on-call recipients; \<open>uid\<close> is the fresh \<^verbatim>\<open>uuid4\<close>. The operations that resolve recipients
  can raise ZeroDivisionError (a rotation interval of zero hours); they return the exception or the
  result, and the state reached. Calls of the \<^verbatim>\<open>on_escalate\<close> callback are logged in \<open>ee_calls\<close>.
\<close>

section \<open>Levels and policies\<close>

datatype esc_level = L1 | L2 | L3 | L4

fun level_value :: "esc_level \<Rightarrow> int" where
  "level_value L1 = 1"
| "level_value L2 = 2"
| "level_value L3 = 3"
| "level_value L4 = 4"

lemma level_value_inj [simp]: "level_value a = level_value b \<longleftrightarrow> a = b"
  by (cases a; cases b) simp_all

instantiation esc_level :: linorder
begin

definition less_eq_esc_level :: "esc_level \<Rightarrow> esc_level \<Rightarrow> bool" where
  "less_eq_esc_level a b \<longleftrightarrow> level_value a \<le> level_value b"

definition less_esc_level :: "esc_level \<Rightarrow> esc_level \<Rightarrow> bool" where
  "less_esc_level a b \<longleftrightarrow> level_value a < level_value b"

instance
  by standard (auto simp: less_eq_esc_level_def less_esc_level_def)

end

datatype esc_status = ES_PENDING | ES_ESCALATED | ES_ACKNOWLEDGED | ES_RESOLVED | ES_TIMED_OUT

datatype esc_action = NOTIFY | REASSIGN | PAGE | CONFERENCE

record level_config =
  lc_level :: esc_level
  lc_timeout_minutes :: int
  lc_recipients :: "string list"
  lc_actions :: "esc_action list"
  lc_notify_channels :: "string list"
  lc_auto_assign :: bool

record esc_policy =
  ep_policy_id :: string
  ep_name :: string
  ep_description :: string
  ep_levels :: "level_config list"
  ep_applies_to_severities :: "alert_severity list"
  ep_enabled :: bool

definition get_level_config :: "esc_policy \<Rightarrow> esc_level \<Rightarrow> level_config option" where
  "get_level_config p l = find (\<lambda>lc. lc_level lc = l) (ep_levels p)"

text \<open>The loop of \<^verbatim>\<open>get_next_level\<close> over the sorted levels: the successor of the first match that has one.\<close>

fun next_after :: "esc_level \<Rightarrow> level_config list \<Rightarrow> esc_level option" where
  "next_after cur (x # y # rest) = (if lc_level x = cur then Some (lc_level y) else next_after cur (y # rest))"
| "next_after cur _ = None"

definition get_next_level :: "esc_policy \<Rightarrow> esc_level \<Rightarrow> esc_level option" where
  "get_next_level p cur = next_after cur (sort_key lc_level (ep_levels p))"

section \<open>On-call schedules\<close>

record rotation =
  ro_rotation_id :: string
  ro_members :: "string list"
  ro_rotation_interval_hours :: int
  ro_start_time :: datetime
  ro_end_time :: "datetime option"

record schedule =
  sc_team_id :: string
  sc_team_name :: string
  sc_schedules :: "rotation list"

definition is_active :: "rotation \<Rightarrow> datetime \<Rightarrow> bool" where
  "is_active r tm = (if tm < ro_start_time r then False
     else case ro_end_time r of None \<Rightarrow> True | Some e \<Rightarrow> \<not> e < tm)"

text \<open>Python's \<^verbatim>\<open>int(x)\<close> on a float truncates towards zero.\<close>

definition py_int :: "real \<Rightarrow> int" where
  "py_int x = (if 0 \<le> x then \<lfloor>x\<rfloor> else \<lceil>x\<rceil>)"

definition get_oncall_person :: "rotation \<Rightarrow> datetime \<Rightarrow> string res" where
  "get_oncall_person r tm =
     (if ro_members r = [] then Inr []
      else if ro_rotation_interval_hours r = 0 then Inl ZeroDivisionError
      else let elapsed_hours = total_seconds tm (ro_start_time r) / 3600;
               rotation_index = py_int (elapsed_hours / of_int (ro_rotation_interval_hours r)) mod int (length (ro_members r))
           in Inr (ro_members r ! nat rotation_index))"

definition get_current_oncall :: "datetime \<Rightarrow> schedule \<Rightarrow> string option res" where
  "get_current_oncall toc s =
     (case find (\<lambda>r. is_active r toc) (sc_schedules s) of
        None \<Rightarrow> Inr None
      | Some r \<Rightarrow> res_bind (get_oncall_person r toc) (\<lambda>p. Inr (Some p)))"

section \<open>Escalation records and the engine\<close>

datatype history_entry =
    H_started datetime int "string list" string
  | H_acknowledged datetime string int
  | H_resolved datetime
  | H_max_level datetime int
  | H_escalated datetime int int "string list" int

record esc_record =
  er_escalation_id :: string
  er_alert_id :: string
  er_policy_id :: string
  er_current_level :: esc_level
  er_status :: esc_status
  er_escalated_to :: "string list"
  er_escalated_at :: datetime
  er_acknowledged_at :: "datetime option"
  er_acknowledged_by :: "string option"
  er_resolved_at :: "datetime option"
  er_next_escalation_at :: "datetime option"
  er_history :: "history_entry list"

record audit_entry =
  au_timestamp :: datetime
  au_action :: string
  au_alert_id :: string
  au_escalation_id :: string
  au_extra :: "(string, pyval) dict"

record esc_engine =
  ee_policies :: "(string, esc_policy) dict"
  ee_oncall_schedules :: "(string, schedule) dict"
  ee_active_escalations :: "(string, esc_record) dict"
  ee_escalation_by_alert :: "(string, string) dict"
  ee_active_alerts :: "(string, alert) dict"
  ee_audit_log :: "audit_entry list"
  ee_on_escalate :: bool
  ee_calls :: "(esc_record \<times> alert) list"

definition default_policy :: esc_policy where
  "default_policy =
     \<lparr>ep_policy_id = ''default'', ep_name = ''Default Escalation Policy'',
      ep_description = ''Default time-based escalation'',
      ep_levels =
        [\<lparr>lc_level = L1, lc_timeout_minutes = 15, lc_recipients = [''fraud-analysts''], lc_actions = [NOTIFY],
          lc_notify_channels = [''email'', ''in_app''], lc_auto_assign = True\<rparr>,
         \<lparr>lc_level = L2, lc_timeout_minutes = 30, lc_recipients = [''fraud-team-lead''], lc_actions = [NOTIFY, REASSIGN],
          lc_notify_channels = [''email'', ''in_app''], lc_auto_assign = True\<rparr>,
         \<lparr>lc_level = L3, lc_timeout_minutes = 60, lc_recipients = [''fraud-manager''], lc_actions = [PAGE, REASSIGN],
          lc_notify_channels = [''email'', ''in_app''], lc_auto_assign = True\<rparr>],
      ep_applies_to_severities = [HIGH, CRITICAL], ep_enabled = True\<rparr>"

definition new_esc_engine :: "(string, esc_policy) dict \<Rightarrow> (string, schedule) dict \<Rightarrow> bool \<Rightarrow> esc_engine" where
  "new_esc_engine policies schedules cb =
     \<lparr>ee_policies = policies, ee_oncall_schedules = schedules, ee_active_escalations = [],
      ee_escalation_by_alert = [], ee_active_alerts = [], ee_audit_log = [], ee_on_escalate = cb, ee_calls = []\<rparr>"

text \<open>\<^verbatim>\<open>_load_defaults\<close>: the engine when no configuration file is found.\<close>

definition load_defaults :: "bool \<Rightarrow> esc_engine" where
  "load_defaults cb = new_esc_engine [(''default'', default_policy)] [] cb"

definition record_audit :: "audit_entry \<Rightarrow> esc_engine \<Rightarrow> esc_engine" where
  "record_audit a e = e\<lparr>ee_audit_log := ee_audit_log e @ [a]\<rparr>"

definition get_policy_for_alert :: "alert \<Rightarrow> esc_engine \<Rightarrow> esc_policy option" where
  "get_policy_for_alert a e =
     find (\<lambda>p. ep_enabled p \<and> al_severity a \<in> set (ep_applies_to_severities p)) (map snd (ee_policies e))"

text \<open>\<^verbatim>\<open>_resolve_recipients\<close>: a team becomes its on-call person, else the first member of a rotation.\<close>

definition first_member :: "schedule \<Rightarrow> string list" where
  "first_member s = (case find (\<lambda>r. ro_members r \<noteq> []) (sc_schedules s) of
     None \<Rightarrow> [] | Some r \<Rightarrow> [hd (ro_members r)])"

definition resolve_ref :: "datetime \<Rightarrow> esc_engine \<Rightarrow> string \<Rightarrow> string list res" where
  "resolve_ref toc e ref =
     (case dget (ee_oncall_schedules e) ref of
        None \<Rightarrow> Inr [ref]
      | Some s \<Rightarrow> res_bind (get_current_oncall toc s) (\<lambda>oncall.
          Inr (if truthy oncall then [the oncall] else first_member s)))"

fun resolve_recipients :: "datetime \<Rightarrow> esc_engine \<Rightarrow> string list \<Rightarrow> string list res" where
  "resolve_recipients toc e [] = Inr []"
| "resolve_recipients toc e (ref # refs) =
     res_bind (resolve_ref toc e ref) (\<lambda>xs.
     res_bind (resolve_recipients toc e refs) (\<lambda>ys. Inr (xs @ ys)))"

subsection \<open>Starting an escalation\<close>

text \<open>
  \<^verbatim>\<open>start_escalation\<close> takes its lock twice: once to look for an escalation of the alert, and again to
  store the new record. The two critical sections are separate definitions, so that two callers
  can be interleaved.
\<close>

definition start_policy :: "alert \<Rightarrow> string option \<Rightarrow> esc_engine \<Rightarrow> esc_policy option" where
  "start_policy a policy_id e =
     (case (if truthy policy_id then dget (ee_policies e) (the policy_id) else get_policy_for_alert a e) of
        None \<Rightarrow> None
      | Some p \<Rightarrow> if ep_levels p = [] then None else Some p)"

definition new_record :: "datetime \<Rightarrow> string \<Rightarrow> alert \<Rightarrow> esc_policy \<Rightarrow> string list \<Rightarrow> esc_record" where
  "new_record now uid a p recipients =
     (let first_level = hd (ep_levels p)
      in \<lparr>er_escalation_id = uid, er_alert_id = al_alert_id a, er_policy_id = ep_policy_id p,
          er_current_level = lc_level first_level, er_status = ES_PENDING, er_escalated_to = recipients,
          er_escalated_at = now, er_acknowledged_at = None, er_acknowledged_by = None, er_resolved_at = None,
          er_next_escalation_at = Some (add_minutes now (lc_timeout_minutes first_level)),
          er_history = [H_started now (level_value (lc_level first_level)) recipients (ep_policy_id p)]\<rparr>)"

definition start_commit :: "datetime \<Rightarrow> string \<Rightarrow> alert \<Rightarrow> esc_policy \<Rightarrow> string list \<Rightarrow> esc_engine \<Rightarrow> esc_engine" where
  "start_commit now uid a p recipients e =
     record_audit \<lparr>au_timestamp = now, au_action = ''escalation_started'', au_alert_id = al_alert_id a,
                   au_escalation_id = uid,
                   au_extra = [(''level'', PInt (level_value (lc_level (hd (ep_levels p))))),
                               (''recipients'', PList (map PStr recipients))]\<rparr>
       (e\<lparr>ee_active_escalations := dset uid (new_record now uid a p recipients) (ee_active_escalations e),
          ee_escalation_by_alert := dset (al_alert_id a) uid (ee_escalation_by_alert e),
          ee_active_alerts := dset (al_alert_id a) a (ee_active_alerts e)\<rparr>)"

definition start_escalation ::
  "datetime \<Rightarrow> datetime \<Rightarrow> string \<Rightarrow> alert \<Rightarrow> string option \<Rightarrow> esc_engine \<Rightarrow> esc_record option res \<times> esc_engine" where
  "start_escalation toc now uid a policy_id e =
     (case start_policy a policy_id e of
        None \<Rightarrow> (Inr None, e)
      | Some p \<Rightarrow>
          (case dget (ee_escalation_by_alert e) (al_alert_id a) of
             Some existing \<Rightarrow> (Inr (dget (ee_active_escalations e) existing), e)
           | None \<Rightarrow>
               (case resolve_recipients toc e (lc_recipients (hd (ep_levels p))) of
                  Inl ex \<Rightarrow> (Inl ex, e)
                | Inr recipients \<Rightarrow> (Inr (Some (new_record now uid a p recipients)), start_commit now uid a p recipients e))))"

subsection \<open>Acknowledging and resolving\<close>

definition ack_record :: "datetime \<Rightarrow> string \<Rightarrow> esc_record \<Rightarrow> esc_record" where
  "ack_record now who r =
     r\<lparr>er_status := ES_ACKNOWLEDGED, er_acknowledged_at := Some now, er_acknowledged_by := Some who,
       er_next_escalation_at := None,
       er_history := er_history r @ [H_acknowledged now who (level_value (er_current_level r))]\<rparr>"

definition acknowledge :: "datetime \<Rightarrow> string \<Rightarrow> string \<Rightarrow> esc_engine \<Rightarrow> esc_record option \<times> esc_engine" where
  "acknowledge now aid who e =
     (case str_or (dget (ee_escalation_by_alert e) aid) None of
        None \<Rightarrow> (None, e)
      | Some eid \<Rightarrow>
          (case dget (ee_active_escalations e) eid of
             None \<Rightarrow> (None, e)
           | Some r \<Rightarrow>
               let r' = ack_record now who r
               in (Some r',
                   record_audit \<lparr>au_timestamp = now, au_action = ''escalation_acknowledged'', au_alert_id = aid,
                                 au_escalation_id = er_escalation_id r, au_extra = [(''acknowledged_by'', PStr who)]\<rparr>
                     (e\<lparr>ee_active_escalations := dset eid r' (ee_active_escalations e)\<rparr>))))"

definition resolve_record :: "datetime \<Rightarrow> esc_record \<Rightarrow> esc_record" where
  "resolve_record now r =
     r\<lparr>er_status := ES_RESOLVED, er_resolved_at := Some now, er_next_escalation_at := None,
       er_history := er_history r @ [H_resolved now]\<rparr>"

definition resolve :: "datetime \<Rightarrow> string \<Rightarrow> esc_engine \<Rightarrow> esc_record option \<times> esc_engine" where
  "resolve now aid e =
     (case str_or (dget (ee_escalation_by_alert e) aid) None of
        None \<Rightarrow> (None, e)
      | Some eid \<Rightarrow>
          (case dget (ee_active_escalations e) eid of
             None \<Rightarrow> (None, e)
           | Some r \<Rightarrow>
               let r' = resolve_record now r
               in (Some r',
                   record_audit \<lparr>au_timestamp = now, au_action = ''escalation_resolved'', au_alert_id = aid,
                                 au_escalation_id = er_escalation_id r, au_extra = []\<rparr>
                     (e\<lparr>ee_active_escalations := dset eid r' (ee_active_escalations e),
                        ee_escalation_by_alert := ddel aid (ee_escalation_by_alert e),
                        ee_active_alerts := ddel aid (ee_active_alerts e)\<rparr>))))"

subsection \<open>Timeouts\<close>

definition max_level_record :: "datetime \<Rightarrow> esc_record \<Rightarrow> esc_record" where
  "max_level_record now r =
     r\<lparr>er_status := ES_TIMED_OUT, er_next_escalation_at := None,
       er_history := er_history r @ [H_max_level now (level_value (er_current_level r))]\<rparr>"

definition level_up_record :: "datetime \<Rightarrow> level_config \<Rightarrow> string list \<Rightarrow> esc_record \<Rightarrow> esc_record" where
  "level_up_record now cfg recipients r =
     r\<lparr>er_current_level := lc_level cfg, er_status := ES_ESCALATED, er_escalated_to := recipients,
       er_next_escalation_at := Some (add_minutes now (lc_timeout_minutes cfg)),
       er_history := er_history r @ [H_escalated now (level_value (lc_level cfg) - 1) (level_value (lc_level cfg))
                                       recipients (lc_timeout_minutes cfg)]\<rparr>"

definition put_record :: "string \<Rightarrow> esc_record \<Rightarrow> esc_engine \<Rightarrow> esc_engine" where
  "put_record eid r e = e\<lparr>ee_active_escalations := dset eid r (ee_active_escalations e)\<rparr>"

definition notify_callback :: "esc_record \<Rightarrow> esc_engine \<Rightarrow> esc_engine" where
  "notify_callback r e =
     (if ee_on_escalate e
      then (case dget (ee_active_alerts e) (er_alert_id r) of
              None \<Rightarrow> e | Some a \<Rightarrow> e\<lparr>ee_calls := ee_calls e @ [(r, a)]\<rparr>)
      else e)"

text \<open>
  \<^verbatim>\<open>_escalate_to_next_level\<close>: True when the record moved up. The level that \<^verbatim>\<open>get_next_level\<close> returns
  is the level of one of the policy's configurations, so \<^verbatim>\<open>record.current_level = next_level\<close> and
  the level of \<open>cfg\<close> agree.
\<close>

definition escalate_to_next_level ::
  "datetime \<Rightarrow> datetime \<Rightarrow> string \<Rightarrow> esc_record \<Rightarrow> esc_engine \<Rightarrow> bool res \<times> esc_engine" where
  "escalate_to_next_level toc now eid r e =
     (case dget (ee_policies e) (er_policy_id r) of
        None \<Rightarrow> (Inr False, e)
      | Some p \<Rightarrow>
          (case get_next_level p (er_current_level r) of
             None \<Rightarrow>
               (Inr False,
                record_audit \<lparr>au_timestamp = now, au_action = ''escalation_max_level'', au_alert_id = er_alert_id r,
                              au_escalation_id = er_escalation_id r,
                              au_extra = [(''level'', PInt (level_value (er_current_level r)))]\<rparr>
                  (put_record eid (max_level_record now r) e))
           | Some next_level \<Rightarrow>
               (case get_level_config p next_level of
                  None \<Rightarrow> (Inr False, e)
                | Some cfg \<Rightarrow>
                    (case resolve_recipients toc e (lc_recipients cfg) of
                       Inl ex \<Rightarrow> (Inl ex, e)
                     | Inr recipients \<Rightarrow>
                         let r' = level_up_record now cfg recipients r
                         in (Inr True,
                             notify_callback r'
                              (record_audit \<lparr>au_timestamp = now, au_action = ''escalation_level_up'', au_alert_id = er_alert_id r,
                                            au_escalation_id = er_escalation_id r,
                                            au_extra = [(''from_level'', PInt (level_value next_level - 1)),
                                                        (''to_level'', PInt (level_value next_level)),
                                                        (''recipients'', PList (map PStr recipients))]\<rparr>
                                (put_record eid r' e)))))))"

definition is_due :: "datetime \<Rightarrow> esc_record \<Rightarrow> bool" where
  "is_due now r \<longleftrightarrow> er_status r \<in> {ES_PENDING, ES_ESCALATED}
     \<and> (case er_next_escalation_at r of None \<Rightarrow> False | Some t \<Rightarrow> t \<le> now)"

fun check_records :: "datetime \<Rightarrow> datetime \<Rightarrow> string list \<Rightarrow> esc_engine \<Rightarrow> esc_record list res \<times> esc_engine" where
  "check_records toc now [] e = (Inr [], e)"
| "check_records toc now (eid # eids) e =
     (case dget (ee_active_escalations e) eid of
        None \<Rightarrow> check_records toc now eids e
      | Some r \<Rightarrow>
          if \<not> is_due now r then check_records toc now eids e
          else (case escalate_to_next_level toc now eid r e of
                  (Inl ex, e') \<Rightarrow> (Inl ex, e')
                | (Inr up, e') \<Rightarrow>
                    (case check_records toc now eids e' of
                       (Inl ex, e'') \<Rightarrow> (Inl ex, e'')
                     | (Inr rs, e'') \<Rightarrow>
                         (Inr (if up then the (dget (ee_active_escalations e') eid) # rs else rs), e''))))"

definition check_timeouts :: "datetime \<Rightarrow> datetime \<Rightarrow> esc_engine \<Rightarrow> esc_record list res \<times> esc_engine" where
  "check_timeouts toc now e = check_records toc now (map fst (ee_active_escalations e)) e"

section \<open>Queries\<close>

definition get_active_escalations :: "esc_engine \<Rightarrow> esc_record list" where
  "get_active_escalations e = filter (\<lambda>r. er_status r \<in> {ES_PENDING, ES_ESCALATED}) (map snd (ee_active_escalations e))"

definition get_escalation_for_alert :: "string \<Rightarrow> esc_engine \<Rightarrow> esc_record option" where
  "get_escalation_for_alert aid e =
     (case str_or (dget (ee_escalation_by_alert e) aid) None of
        None \<Rightarrow> None | Some eid \<Rightarrow> dget (ee_active_escalations e) eid)"

text \<open>\<^verbatim>\<open>entries[-limit:]\<close>; \<^verbatim>\<open>-0\<close> is \<^verbatim>\<open>0\<close>, so a limit of zero keeps every entry.\<close>

definition get_audit_log :: "string option \<Rightarrow> int \<Rightarrow> esc_engine \<Rightarrow> audit_entry list" where
  "get_audit_log aid limit e =
     last_slice limit (if truthy aid then filter (\<lambda>a. au_alert_id a = the aid) (ee_audit_log e) else ee_audit_log e)"

definition count_status_es :: "esc_status list \<Rightarrow> esc_engine \<Rightarrow> int" where
  "count_status_es sts e = dcount (\<lambda>r. er_status r \<in> set sts) (ee_active_escalations e)"

definition esc_get_stats :: "esc_engine \<Rightarrow> (string, int) dict" where
  "esc_get_stats e =
     [(''active_escalations'', count_status_es [ES_PENDING, ES_ESCALATED] e),
      (''acknowledged'', count_status_es [ES_ACKNOWLEDGED] e),
      (''resolved'', count_status_es [ES_RESOLVED] e),
      (''timed_out'', count_status_es [ES_TIMED_OUT] e),
      (''total_tracked'', int (length (ee_active_escalations e))),
      (''policies_loaded'', int (length (ee_policies e))),
      (''oncall_schedules'', int (length (ee_oncall_schedules e))),
      (''audit_entries'', int (length (ee_audit_log e)))]"

end
