(* ===== verification/Escalation_Properties.thy ===== *)
theory Escalation_Properties
  imports Escalation
begin

text \<open>
  Correctness of the escalation engine: the tables agree in every reachable state and an alert has at
  most one unresolved escalation; acknowledged escalations no longer move; levels only go up and an
  unattended escalation times out after finitely many checks; on-call rotations name a member and
  repeat; and what happens when two callers start an escalation of the same alert at once.
\<close>

section \<open>Steps and the invariant\<close>

inductive ee_step :: "esc_engine \<Rightarrow> esc_engine \<Rightarrow> bool" where
  start: "dget (ee_active_escalations e) uid = None \<Longrightarrow> uid \<noteq> [] \<Longrightarrow>
     ee_step e (snd (start_escalation toc now uid a pid e))"
| ack: "ee_step e (snd (acknowledge now aid who e))"
| res: "ee_step e (snd (resolve now aid e))"
| check: "ee_step e (snd (check_timeouts toc now e))"

inductive ee_reachable :: "(string, esc_policy) dict \<Rightarrow> (string, schedule) dict \<Rightarrow> bool \<Rightarrow> esc_engine \<Rightarrow> bool"
  for ps ss cb where
  init: "ee_reachable ps ss cb (new_esc_engine ps ss cb)"
| step: "ee_reachable ps ss cb e \<Longrightarrow> ee_step e e' \<Longrightarrow> ee_reachable ps ss cb e'"

definition rec_ok :: "string \<Rightarrow> esc_record \<Rightarrow> bool" where
  "rec_ok eid r \<longleftrightarrow> er_escalation_id r = eid \<and> eid \<noteq> []
     \<and> (er_next_escalation_at r \<noteq> None \<longleftrightarrow> er_status r \<in> {ES_PENDING, ES_ESCALATED})"

definition ee_ok :: "esc_engine \<Rightarrow> bool" where
  "ee_ok e \<longleftrightarrow> wf_dict (ee_active_escalations e)
     \<and> (\<forall>eid r. dget (ee_active_escalations e) eid = Some r \<longrightarrow> rec_ok eid r)
     \<and> (\<forall>aid eid. dget (ee_escalation_by_alert e) aid = Some eid \<longrightarrow>
          (\<exists>r. dget (ee_active_escalations e) eid = Some r \<and> er_alert_id r = aid \<and> er_status r \<noteq> ES_RESOLVED))
     \<and> (\<forall>eid r. dget (ee_active_escalations e) eid = Some r \<longrightarrow> er_status r \<noteq> ES_RESOLVED \<longrightarrow>
          dget (ee_escalation_by_alert e) (er_alert_id r) = Some eid)"

lemma ee_okD:
  assumes "ee_ok e"
  shows "wf_dict (ee_active_escalations e)"
    and "dget (ee_active_escalations e) eid = Some r \<Longrightarrow> rec_ok eid r"
    and "dget (ee_escalation_by_alert e) aid = Some eid \<Longrightarrow>
          \<exists>r. dget (ee_active_escalations e) eid = Some r \<and> er_alert_id r = aid \<and> er_status r \<noteq> ES_RESOLVED"
    and "dget (ee_active_escalations e) eid = Some r \<Longrightarrow> er_status r \<noteq> ES_RESOLVED \<Longrightarrow>
          dget (ee_escalation_by_alert e) (er_alert_id r) = Some eid"
  using assms unfolding ee_ok_def by blast+

lemma ee_okI:
  assumes "wf_dict (ee_active_escalations e)"
    and "\<And>eid r. dget (ee_active_escalations e) eid = Some r \<Longrightarrow> rec_ok eid r"
    and "\<And>aid eid. dget (ee_escalation_by_alert e) aid = Some eid \<Longrightarrow>
          \<exists>r. dget (ee_active_escalations e) eid = Some r \<and> er_alert_id r = aid \<and> er_status r \<noteq> ES_RESOLVED"
    and "\<And>eid r. dget (ee_active_escalations e) eid = Some r \<Longrightarrow> er_status r \<noteq> ES_RESOLVED \<Longrightarrow>
          dget (ee_escalation_by_alert e) (er_alert_id r) = Some eid"
  shows "ee_ok e"
  using assms unfolding ee_ok_def by blast

lemma ee_ok_new: "ee_ok (new_esc_engine ps ss cb)"
  by (simp add: ee_ok_def new_esc_engine_def)

text \<open>The audit log and the callbacks play no part in the invariant.\<close>

lemma ee_ok_tables:
  "ee_ok e \<Longrightarrow> ee_active_escalations e' = ee_active_escalations e \<Longrightarrow>
   ee_escalation_by_alert e' = ee_escalation_by_alert e \<Longrightarrow> ee_ok e'"
  by (simp add: ee_ok_def)

lemma record_audit_frame [simp]:
  "ee_active_escalations (record_audit a e) = ee_active_escalations e"
  "ee_escalation_by_alert (record_audit a e) = ee_escalation_by_alert e"
  "ee_policies (record_audit a e) = ee_policies e"
  "ee_oncall_schedules (record_audit a e) = ee_oncall_schedules e"
  by (simp_all add: record_audit_def)

lemma notify_callback_frame [simp]:
  "ee_active_escalations (notify_callback r e) = ee_active_escalations e"
  "ee_escalation_by_alert (notify_callback r e) = ee_escalation_by_alert e"
  "ee_policies (notify_callback r e) = ee_policies e"
  "ee_oncall_schedules (notify_callback r e) = ee_oncall_schedules e"
  by (simp_all add: notify_callback_def split: option.splits)

lemma ee_ok_put:
  assumes "ee_ok e" "dget (ee_active_escalations e) eid = Some r" "er_status r \<noteq> ES_RESOLVED"
    and "rec_ok eid r'" "er_alert_id r' = er_alert_id r" "er_status r' \<noteq> ES_RESOLVED"
  shows "ee_ok (put_record eid r' e)"
proof (rule ee_okI, goal_cases)
  case 1
  then show ?case using ee_okD(1) [OF assms(1)] by (simp add: put_record_def)
next
  case (2 k x)
  then show ?case using ee_okD(2) [OF assms(1), of k x] assms(4) by (auto simp: put_record_def dict_simps split: if_splits)
next
  case (3 b k)
  then show ?case using ee_okD(3) [OF assms(1), of b k] assms by (auto simp: put_record_def dict_simps split: if_splits)
next
  case (4 k x)
  then show ?case
    using ee_okD(4) [OF assms(1), of k x] ee_okD(4) [OF assms(1-3)] assms(5)
    by (auto simp: put_record_def dict_simps split: if_splits)
qed

lemma put_record_frame [simp]:
  "ee_policies (put_record eid r e) = ee_policies e" "ee_oncall_schedules (put_record eid r e) = ee_oncall_schedules e"
  "ee_active_escalations (put_record eid r e) = dset eid r (ee_active_escalations e)"
  "ee_escalation_by_alert (put_record eid r e) = ee_escalation_by_alert e"
  by (simp_all add: put_record_def)

section \<open>Operations keep the invariant\<close>

lemma start_commit_ok:
  assumes "ee_ok e" "dget (ee_escalation_by_alert e) (al_alert_id a) = None"
    and "dget (ee_active_escalations e) uid = None" "uid \<noteq> []"
  shows "ee_ok (start_commit now uid a p rs e)"
proof (rule ee_okI, goal_cases)
  case 1
  then show ?case using ee_okD(1) [OF assms(1)] by (simp add: start_commit_def)
next
  case (2 eid r)
  then show ?case
    using ee_okD(2) [OF assms(1)] assms(4)
    by (auto simp: start_commit_def dict_simps rec_ok_def new_record_def Let_def split: if_splits)
next
  case (3 aid eid)
  then show ?case
    using ee_okD(3) [OF assms(1), of aid eid] assms(3)
    by (auto simp: start_commit_def dict_simps new_record_def Let_def split: if_splits)
next
  case (4 eid r)
  then show ?case
    using ee_okD(4) [OF assms(1), of eid r] assms(2)
    by (auto simp: start_commit_def dict_simps new_record_def Let_def split: if_splits)
qed

lemma start_escalation_ok:
  assumes "ee_ok e" "dget (ee_active_escalations e) uid = None" "uid \<noteq> []"
  shows "ee_ok (snd (start_escalation toc now uid a pid e))"
  using assms start_commit_ok [of e a uid]
  by (simp add: start_escalation_def split: option.splits sum.splits)

lemma str_or_None_iff: "str_or x None = Some s \<longleftrightarrow> x = Some s \<and> s \<noteq> []"
  by (cases x; cases "the x") auto

lemma acknowledge_ok:
  assumes "ee_ok e"
  shows "ee_ok (snd (acknowledge now aid who e))"
proof (cases "str_or (dget (ee_escalation_by_alert e) aid) None")
  case None
  then show ?thesis using assms by (simp add: acknowledge_def)
next
  case (Some eid)
  then have by_alert: "dget (ee_escalation_by_alert e) aid = Some eid" by (simp add: str_or_None_iff)
  with assms obtain r where r: "dget (ee_active_escalations e) eid = Some r" "er_status r \<noteq> ES_RESOLVED"
    unfolding ee_ok_def by blast
  have "rec_ok eid r" using assms r(1) unfolding ee_ok_def by blast
  then have "ee_ok (put_record eid (ack_record now who r) e)"
    using assms r by (intro ee_ok_put [of e eid r]) (auto simp: rec_ok_def ack_record_def)
  then show ?thesis
    using Some r by (simp add: acknowledge_def Let_def) (erule ee_ok_tables; simp)
qed

lemma resolve_ok:
  assumes "ee_ok e"
  shows "ee_ok (snd (resolve now aid e))"
proof (cases "str_or (dget (ee_escalation_by_alert e) aid) None")
  case None
  then show ?thesis using assms by (simp add: resolve_def)
next
  case (Some eid)
  then have by_alert: "dget (ee_escalation_by_alert e) aid = Some eid" by (simp add: str_or_None_iff)
  with assms obtain r where r: "dget (ee_active_escalations e) eid = Some r" "er_alert_id r = aid" "er_status r \<noteq> ES_RESOLVED"
    unfolding ee_ok_def by blast
  have rok: "rec_ok eid r" using assms r(1) unfolding ee_ok_def by blast
  have uniq: "eid' = eid" if "dget (ee_active_escalations e) eid' = Some x" "er_status x \<noteq> ES_RESOLVED" "er_alert_id x = aid" for eid' x
    using ee_okD(4) [OF assms that(1,2)] that(3) by_alert by simp
  have uniq': "aid' = aid" if "dget (ee_escalation_by_alert e) aid' = Some eid" for aid'
    using ee_okD(3) [OF assms that] r by auto
  have tabs: "ee_active_escalations (snd (resolve now aid e)) = dset eid (resolve_record now r) (ee_active_escalations e)"
    "ee_escalation_by_alert (snd (resolve now aid e)) = ddel aid (ee_escalation_by_alert e)"
    using Some r by (simp_all add: resolve_def Let_def)
  show ?thesis
  proof (rule ee_okI, goal_cases)
    case 1
    then show ?case using ee_okD(1) [OF assms] by (simp add: tabs)
  next
    case (2 k x)
    then show ?case
      using ee_okD(2) [OF assms, of k x] rok by (auto simp: tabs dict_simps rec_ok_def resolve_record_def split: if_splits)
  next
    case (3 b k)
    then show ?case
      using ee_okD(3) [OF assms, of b k] uniq' by (auto simp: tabs dict_simps split: if_splits)
  next
    case (4 k x)
    then show ?case
      using ee_okD(4) [OF assms, of k x] uniq [of k x] by (auto simp: tabs dict_simps resolve_record_def split: if_splits)
  qed
qed

lemma is_due_open: "is_due now r \<Longrightarrow> er_status r \<in> {ES_PENDING, ES_ESCALATED}"
  by (simp add: is_due_def)

lemma escalate_ok:
  assumes "ee_ok e" "dget (ee_active_escalations e) eid = Some r" "is_due now r"
  shows "ee_ok (snd (escalate_to_next_level toc now eid r e))"
proof -
  have r: "rec_ok eid r" "er_status r \<noteq> ES_RESOLVED"
    using ee_okD(2) [OF assms(1,2)] is_due_open [OF assms(3)] by auto
  have 1: "ee_ok (put_record eid (max_level_record now r) e)"
    using assms r by (intro ee_ok_put [of e eid r]) (auto simp: rec_ok_def max_level_record_def)
  have 2: "ee_ok (put_record eid (level_up_record now cfg rs r) e)" for cfg rs
    using assms r by (intro ee_ok_put [of e eid r]) (auto simp: rec_ok_def level_up_record_def)
  show ?thesis
    using assms(1) ee_ok_tables [OF 1] ee_ok_tables [OF 2]
    by (simp add: escalate_to_next_level_def Let_def split: option.splits sum.splits)
qed

lemma check_records_ok: "ee_ok e \<Longrightarrow> ee_ok (snd (check_records toc now eids e))"
proof (induction eids arbitrary: e)
  case Nil
  then show ?case by simp
next
  case (Cons eid eids)
  show ?case
  proof (cases "dget (ee_active_escalations e) eid")
    case None
    then show ?thesis using Cons by simp
  next
    case (Some r)
    show ?thesis
    proof (cases "is_due now r")
      case False
      then show ?thesis using Some Cons by simp
    next
      case True
      obtain x e' where s: "escalate_to_next_level toc now eid r e = (x, e')" by fastforce
      then have "ee_ok e'" using escalate_ok [OF Cons.prems Some True, of toc] by simp
      then have "ee_ok (snd (check_records toc now eids e'))" by (rule Cons.IH)
      then show ?thesis using Some True s \<open>ee_ok e'\<close> by (auto split: sum.splits prod.splits)
    qed
  qed
qed

lemma ee_step_ok: "ee_step e e' \<Longrightarrow> ee_ok e \<Longrightarrow> ee_ok e'"
  by (induction rule: ee_step.induct)
    (auto intro: start_escalation_ok acknowledge_ok resolve_ok simp: check_timeouts_def check_records_ok)

lemma ee_reachable_ok: "ee_reachable ps ss cb e \<Longrightarrow> ee_ok e"
  by (induction rule: ee_reachable.induct) (auto intro: ee_ok_new ee_step_ok)

section \<open>What a timeout check does to one record\<close>

definition oncall_ok :: "esc_engine \<Rightarrow> bool" where
  "oncall_ok e \<longleftrightarrow> (\<forall>ref s. dget (ee_oncall_schedules e) ref = Some s \<longrightarrow>
     (\<forall>r \<in> set (sc_schedules s). ro_rotation_interval_hours r \<noteq> 0))"

lemma resolve_ref_total: "oncall_ok e \<Longrightarrow> \<exists>xs. resolve_ref toc e ref = Inr xs"
  by (fastforce simp: resolve_ref_def get_current_oncall_def get_oncall_person_def oncall_ok_def find_Some_iff Let_def
      split: option.splits)

lemma resolve_recipients_total: "oncall_ok e \<Longrightarrow> \<exists>rs. resolve_recipients toc e refs = Inr rs"
proof (induction refs)
  case (Cons ref refs)
  then show ?case using resolve_ref_total [OF Cons.prems, of toc ref] by auto
qed simp

lemma resolve_recipients_cong:
  "ee_oncall_schedules e = ee_oncall_schedules e' \<Longrightarrow> resolve_recipients toc e refs = resolve_recipients toc e' refs"
  by (induction refs) (simp_all add: resolve_ref_def)

text \<open>The record after a check at \<open>now\<close>, as a function of the policies and the on-call table.\<close>

definition timed_record :: "datetime \<Rightarrow> datetime \<Rightarrow> esc_engine \<Rightarrow> esc_record \<Rightarrow> esc_record" where
  "timed_record toc now e r =
     (if \<not> is_due now r then r
      else case dget (ee_policies e) (er_policy_id r) of
        None \<Rightarrow> r
      | Some p \<Rightarrow>
          (case get_next_level p (er_current_level r) of
             None \<Rightarrow> max_level_record now r
           | Some l \<Rightarrow>
               (case get_level_config p l of
                  None \<Rightarrow> r
                | Some cfg \<Rightarrow>
                    (case resolve_recipients toc e (lc_recipients cfg) of
                       Inl ex \<Rightarrow> r
                     | Inr rs \<Rightarrow> level_up_record now cfg rs r))))"

lemma timed_record_cong:
  "ee_policies e' = ee_policies e \<Longrightarrow> ee_oncall_schedules e' = ee_oncall_schedules e \<Longrightarrow>
   timed_record toc now e' r = timed_record toc now e r"
  using resolve_recipients_cong [of e' e]
  by (simp add: timed_record_def split: option.splits)

lemma escalate_frame:
  "ee_policies (snd (escalate_to_next_level toc now eid r e)) = ee_policies e"
  "ee_oncall_schedules (snd (escalate_to_next_level toc now eid r e)) = ee_oncall_schedules e"
  by (simp_all add: escalate_to_next_level_def Let_def split: option.splits sum.splits)

lemma escalate_lookup:
  assumes "dget (ee_active_escalations e) eid = Some r" "is_due now r"
  shows "dget (ee_active_escalations (snd (escalate_to_next_level toc now eid r e))) k =
    (if k = eid then Some (timed_record toc now e r) else dget (ee_active_escalations e) k)"
  using assms
  by (auto simp: escalate_to_next_level_def timed_record_def Let_def dict_simps split: option.splits sum.splits)

lemma escalate_total: "oncall_ok e \<Longrightarrow> \<exists>up. fst (escalate_to_next_level toc now eid r e) = Inr up"
  using resolve_recipients_total [of e toc]
  by (auto simp: escalate_to_next_level_def Let_def split: option.splits sum.splits) (metis sum.distinct(1))

lemma oncall_ok_cong: "ee_oncall_schedules e' = ee_oncall_schedules e \<Longrightarrow> oncall_ok e' = oncall_ok e"
  by (simp add: oncall_ok_def)

lemma check_records_frame:
  "ee_policies (snd (check_records toc now eids e)) = ee_policies e
   \<and> ee_oncall_schedules (snd (check_records toc now eids e)) = ee_oncall_schedules e"
proof (induction eids arbitrary: e)
  case (Cons eid eids)
  have esc: "ee_policies e' = ee_policies e \<and> ee_oncall_schedules e' = ee_oncall_schedules e"
    if "escalate_to_next_level toc now eid r e = (x, e')" for r x e'
    using escalate_frame [of toc now eid r e] that by simp
  show ?case
    using Cons.IH [of e] Cons.IH esc
    by (auto split: option.splits sum.splits prod.splits) (metis snd_conv)+
qed simp

lemma check_records_lookup:
  assumes "oncall_ok e" "distinct eids"
  shows "dget (ee_active_escalations (snd (check_records toc now eids e))) k =
    (if k \<in> set eids then map_option (timed_record toc now e) (dget (ee_active_escalations e) k)
     else dget (ee_active_escalations e) k)"
  using assms
proof (induction eids arbitrary: e)
  case Nil
  then show ?case by simp
next
  case (Cons eid eids)
  show ?case
  proof (cases "\<exists>r. dget (ee_active_escalations e) eid = Some r \<and> is_due now r")
    case False
    then have "check_records toc now (eid # eids) e = check_records toc now eids e"
      by (auto split: option.splits)
    moreover have "map_option (timed_record toc now e) (dget (ee_active_escalations e) eid) = dget (ee_active_escalations e) eid"
      using False by (cases "dget (ee_active_escalations e) eid") (auto simp: timed_record_def)
    ultimately show ?thesis using Cons by auto
  next
    case True
    then obtain r where r: "dget (ee_active_escalations e) eid = Some r" "is_due now r" by blast
    obtain up e' where s: "escalate_to_next_level toc now eid r e = (Inr up, e')"
      using escalate_total [OF Cons.prems(1)] by (metis prod.collapse)
    have fr: "ee_policies e' = ee_policies e" "ee_oncall_schedules e' = ee_oncall_schedules e"
      using escalate_frame [of toc now eid r e] s by simp_all
    have lk: "dget (ee_active_escalations e') j = (if j = eid then Some (timed_record toc now e r) else dget (ee_active_escalations e) j)" for j
      using escalate_lookup [OF r, of toc j] s by simp
    have "snd (check_records toc now (eid # eids) e) = snd (check_records toc now eids e')"
      using r s by (auto split: sum.splits prod.splits)
    then show ?thesis
      using Cons.IH [of e'] Cons.prems lk timed_record_cong [OF fr] oncall_ok_cong [OF fr(2)] r(1)
      by (auto cong: option.map_cong)
  qed
qed

lemma check_timeouts_lookup:
  assumes "oncall_ok e" "wf_dict (ee_active_escalations e)"
  shows "dget (ee_active_escalations (snd (check_timeouts toc now e))) k
    = map_option (timed_record toc now e) (dget (ee_active_escalations e) k)"
proof -
  have "k \<in> set (map fst (ee_active_escalations e))" if "dget (ee_active_escalations e) k = Some r" for r
    using that by (force dest: map_of_SomeD)
  then show ?thesis
    using check_records_lookup [OF assms(1), of "map fst (ee_active_escalations e)" toc now k] assms(2)
    unfolding check_timeouts_def
    by (cases "dget (ee_active_escalations e) k") auto
qed

section \<open>Levels go up and end\<close>

definition policy_ok :: "esc_policy \<Rightarrow> bool" where
  "policy_ok p \<longleftrightarrow> distinct (map lc_level (ep_levels p))"

text \<open>The number of levels above the current one.\<close>

definition levels_above :: "esc_policy \<Rightarrow> esc_level \<Rightarrow> nat" where
  "levels_above p l = length (filter (\<lambda>lc. l < lc_level lc) (ep_levels p))"

lemma next_after_sorted:
  assumes "sorted (map lc_level xs)" "distinct (map lc_level xs)" "next_after cur xs = Some l"
  shows "l \<in> lc_level ` set xs \<and> cur < l
    \<and> length (filter (\<lambda>lc. l < lc_level lc) xs) < length (filter (\<lambda>lc. cur < lc_level lc) xs)"
  using assms
proof (induction cur xs rule: next_after.induct)
  case (1 cur x y rest)
  have lt: "lc_level x < lc_level y" using 1(2,3) by (auto simp: less_le)
  show ?case
  proof (cases "lc_level x = cur")
    case True
    then have l: "l = lc_level y" using 1(4) by simp
    have "filter (\<lambda>lc. cur < lc_level lc) rest = rest"
      using 1(2) lt True by (intro filter_True) auto
    then show ?thesis
      using l True lt by (auto simp: le_imp_less_Suc)
  next
    case False
    then have IH: "l \<in> lc_level ` set (y # rest) \<and> cur < l
      \<and> length (filter (\<lambda>lc. l < lc_level lc) (y # rest)) < length (filter (\<lambda>lc. cur < lc_level lc) (y # rest))"
      using 1 by simp
    moreover have "lc_level x < l" using IH 1(2,3) lt by auto
    ultimately show ?thesis using False by auto
  qed
qed simp_all

lemma length_filter_sort_key: "length (filter P (sort_key f xs)) = length (filter P xs)"
  by (simp add: filter_sort)

lemma get_next_level_up:
  assumes "policy_ok p" "get_next_level p cur = Some l"
  shows "l \<in> lc_level ` set (ep_levels p) \<and> cur < l \<and> levels_above p l < levels_above p cur"
proof -
  have "distinct (map lc_level (sort_key lc_level (ep_levels p)))"
    using assms(1) by (metis policy_ok_def distinct_map distinct_sort set_sort)
  from next_after_sorted [OF _ this assms(2) [unfolded get_next_level_def]] show ?thesis
    by (simp add: levels_above_def length_filter_sort_key)
qed

lemma get_level_config_total:
  "l \<in> lc_level ` set (ep_levels p) \<Longrightarrow> \<exists>cfg. get_level_config p l = Some cfg \<and> lc_level cfg = l"
  unfolding get_level_config_def
  by (cases "find (\<lambda>lc. lc_level lc = l) (ep_levels p)") (auto simp: find_None_iff find_Some_iff)

lemma timed_record_due:
  assumes "oncall_ok e" "dget (ee_policies e) (er_policy_id r) = Some p" "policy_ok p" "is_due now r"
  shows "er_status (timed_record toc now e r) = ES_TIMED_OUT
    \<or> er_status (timed_record toc now e r) = ES_ESCALATED
      \<and> er_current_level r < er_current_level (timed_record toc now e r)
      \<and> levels_above p (er_current_level (timed_record toc now e r)) < levels_above p (er_current_level r)"
proof (cases "get_next_level p (er_current_level r)")
  case None
  then show ?thesis using assms by (simp add: timed_record_def max_level_record_def)
next
  case (Some l)
  obtain cfg where cfg: "get_level_config p l = Some cfg" "lc_level cfg = l"
    using get_level_config_total get_next_level_up [OF assms(3) Some] by blast
  obtain rs where "resolve_recipients toc e (lc_recipients cfg) = Inr rs"
    using resolve_recipients_total [OF assms(1)] by blast
  then show ?thesis
    using assms Some cfg get_next_level_up [OF assms(3) Some] by (simp add: timed_record_def level_up_record_def)
qed

lemma timed_record_frame [simp]:
  "er_policy_id (timed_record toc now e r) = er_policy_id r"
  by (simp add: timed_record_def max_level_record_def level_up_record_def split: option.splits sum.splits)

text \<open>A series of checks at the given times; every check finds the escalation due, or closed.\<close>

fun checks :: "(datetime \<times> datetime) list \<Rightarrow> esc_engine \<Rightarrow> esc_engine" where
  "checks [] e = e"
| "checks ((toc, now) # ts) e = checks ts (snd (check_timeouts toc now e))"

fun always_due :: "string \<Rightarrow> (datetime \<times> datetime) list \<Rightarrow> esc_engine \<Rightarrow> bool" where
  "always_due eid [] e = True"
| "always_due eid ((toc, now) # ts) e =
     ((case dget (ee_active_escalations e) eid of
         None \<Rightarrow> False
       | Some r \<Rightarrow> is_due now r \<or> er_status r = ES_TIMED_OUT)
      \<and> always_due eid ts (snd (check_timeouts toc now e)))"

lemma check_timeouts_keeps:
  "ee_policies (snd (check_timeouts toc now e)) = ee_policies e"
  "oncall_ok (snd (check_timeouts toc now e)) = oncall_ok e"
  using check_records_frame [of toc now "map fst (ee_active_escalations e)" e]
  by (simp_all add: check_timeouts_def oncall_ok_def)

lemma checks_closed:
  assumes "ee_ok e" "oncall_ok e" "dget (ee_active_escalations e) eid = Some r" "er_status r \<notin> {ES_PENDING, ES_ESCALATED}"
  shows "dget (ee_active_escalations (checks ts e)) eid = Some r"
  using assms
proof (induction ts e rule: checks.induct)
  case (2 toc now ts e)
  have "dget (ee_active_escalations (snd (check_timeouts toc now e))) eid = Some r"
    using check_timeouts_lookup [OF 2(3) ee_okD(1) [OF 2(2)], of toc now eid] 2(4,5)
    by (simp add: timed_record_def is_due_def)
  then show ?case
    using 2 check_records_ok [OF 2(2)] by (simp add: check_timeouts_keeps) (simp add: check_timeouts_def)
qed simp

lemma checks_time_out:
  assumes "ee_ok e" "oncall_ok e" "dget (ee_policies e) (er_policy_id r) = Some p" "policy_ok p"
    and "dget (ee_active_escalations e) eid = Some r" "always_due eid ts e"
    and "er_status r = ES_TIMED_OUT \<or> levels_above p (er_current_level r) < length ts"
  shows "\<exists>r'. dget (ee_active_escalations (checks ts e)) eid = Some r' \<and> er_status r' = ES_TIMED_OUT"
  using assms
proof (induction ts e arbitrary: r rule: checks.induct)
  case (1 e)
  then show ?case by auto
next
  case (2 toc now ts e)
  let ?e = "snd (check_timeouts toc now e)" and ?r = "timed_record toc now e r"
  have ok: "ee_ok ?e" unfolding check_timeouts_def by (rule check_records_ok [OF 2(2)])
  have lk: "dget (ee_active_escalations ?e) eid = Some ?r"
    using check_timeouts_lookup [OF 2(3) ee_okD(1) [OF 2(2)], of toc now eid] 2(6) by simp
  have "er_status ?r = ES_TIMED_OUT \<or> levels_above p (er_current_level ?r) < length ts"
  proof (cases "er_status r = ES_TIMED_OUT")
    case True
    then show ?thesis by (simp add: timed_record_def is_due_def)
  next
    case False
    then have "is_due now r" using 2(6,7) by simp
    from timed_record_due [OF 2(3,4,5) this, of toc] show ?thesis using False 2(8) by auto
  qed
  then show ?case
    using 2(1) [OF ok _ _ 2(5) lk] 2(3,4,7) by (simp add: check_timeouts_keeps)
qed

section \<open>Properties\<close>

text \<open>
  Claim C21 (one escalation per alert): in every state reached by starting (with a fresh identifier),
  acknowledging, resolving and checking, an alert has at most one escalation that is not resolved,
  and it is the one the engine finds for that alert.
\<close>

theorem one_open_escalation_per_alert:
  assumes "ee_reachable ps ss cb e"
    and "dget (ee_active_escalations e) i = Some r" "er_status r \<noteq> ES_RESOLVED"
    and "dget (ee_active_escalations e) j = Some r'" "er_status r' \<noteq> ES_RESOLVED" "er_alert_id r = er_alert_id r'"
  shows "i = j \<and> get_escalation_for_alert (er_alert_id r) e = Some r"
proof -
  have ok: "ee_ok e" by (rule ee_reachable_ok [OF assms(1)])
  have i: "dget (ee_escalation_by_alert e) (er_alert_id r) = Some i" by (rule ee_okD(4) [OF ok assms(2,3)])
  have "i \<noteq> []" using ee_okD(2) [OF ok assms(2)] by (simp add: rec_ok_def)
  then have "get_escalation_for_alert (er_alert_id r) e = Some r"
    using i assms(2) by (cases i) (simp_all add: get_escalation_for_alert_def)
  moreover have "i = j" using i ee_okD(4) [OF ok assms(4,5)] assms(6) by simp
  ultimately show ?thesis by simp
qed

definition demo_alert :: alert where
  "demo_alert = \<lparr>al_alert_id = ''a1'', al_transaction_id = ''t1'', al_account_id = ''acc'', al_alert_type = ENSEMBLE,
     al_severity = HIGH, al_status = OPEN, al_risk_score = 7/10, al_rule_id = None, al_details = [], al_enrichment = [],
     al_channels = [], al_assigned_to = None, al_resolved_at = None, al_resolution_notes = None, al_created_at = 0,
     al_updated_at = 0, al_suppressed = False, al_deduplicated = False, al_parent_alert_id = None\<rparr>"

definition demo_esc :: esc_engine where
  "demo_esc = snd (start_escalation 0 0 ''e1'' demo_alert None (load_defaults False))"

lemma demo_esc_state:
  "ee_active_escalations demo_esc = [(''e1'', new_record 0 ''e1'' demo_alert default_policy [''fraud-analysts''])]"
  "ee_policies demo_esc = [(''default'', default_policy)]" "ee_oncall_schedules demo_esc = []"
  "ee_escalation_by_alert demo_esc = [(''a1'', ''e1'')]"
  "ee_reachable [(''default'', default_policy)] [] False demo_esc"
proof -
  have st: "start_escalation 0 0 ''e1'' demo_alert None (load_defaults False) =
    (Inr (Some (new_record 0 ''e1'' demo_alert default_policy [''fraud-analysts''])),
     start_commit 0 ''e1'' demo_alert default_policy [''fraud-analysts''] (load_defaults False))"
    by (simp add: start_escalation_def start_policy_def get_policy_for_alert_def load_defaults_def new_esc_engine_def
        default_policy_def demo_alert_def resolve_ref_def)
  show "ee_active_escalations demo_esc = [(''e1'', new_record 0 ''e1'' demo_alert default_policy [''fraud-analysts''])]"
    "ee_policies demo_esc = [(''default'', default_policy)]" "ee_oncall_schedules demo_esc = []"
    "ee_escalation_by_alert demo_esc = [(''a1'', ''e1'')]"
    unfolding demo_esc_def st by (simp_all add: start_commit_def load_defaults_def new_esc_engine_def) (simp add: demo_alert_def)
  show "ee_reachable [(''default'', default_policy)] [] False demo_esc"
    unfolding demo_esc_def load_defaults_def
    by (rule ee_reachable.step [OF ee_reachable.init], rule ee_step.start) (simp_all add: new_esc_engine_def)
qed

theorem one_open_escalation_per_alert_witness:
  "''e1'' = ''e1'' \<and> get_escalation_for_alert ''a1'' demo_esc = Some (new_record 0 ''e1'' demo_alert default_policy [''fraud-analysts''])"
  using one_open_escalation_per_alert [OF demo_esc_state(5), of "''e1''" "new_record 0 ''e1'' demo_alert default_policy [''fraud-analysts'']"
      "''e1''" "new_record 0 ''e1'' demo_alert default_policy [''fraud-analysts'']"]
  by (simp add: demo_esc_state new_record_def Let_def demo_alert_def)

text \<open>
  Claim C22 (acknowledging stops escalation): after an acknowledgement, no number of timeout checks, at
  whatever times, changes the acknowledged record.
\<close>

theorem acknowledged_never_escalates:
  assumes "ee_reachable ps ss cb e" "oncall_ok e" "acknowledge now aid who e = (Some r, e')"
  shows "dget (ee_active_escalations (checks ts e')) (er_escalation_id r) = Some r"
proof -
  have ok: "ee_ok e" by (rule ee_reachable_ok [OF assms(1)])
  obtain eid r0 where r0: "str_or (dget (ee_escalation_by_alert e) aid) None = Some eid"
    "dget (ee_active_escalations e) eid = Some r0" "r = ack_record now who r0"
    "e' = record_audit \<lparr>au_timestamp = now, au_action = ''escalation_acknowledged'', au_alert_id = aid,
            au_escalation_id = er_escalation_id r0, au_extra = [(''acknowledged_by'', PStr who)]\<rparr>
          (e\<lparr>ee_active_escalations := dset eid r (ee_active_escalations e)\<rparr>)"
    using assms(3) by (auto simp: acknowledge_def Let_def split: option.splits)
  have id: "er_escalation_id r = eid" using ee_okD(2) [OF ok r0(2)] r0(3) by (simp add: rec_ok_def ack_record_def)
  have "ee_ok e'" using acknowledge_ok [OF ok, of now aid who] assms(3) by simp
  moreover have "oncall_ok e'" using assms(2) oncall_ok_cong [of e' e] r0(4) by simp
  moreover have "dget (ee_active_escalations e') eid = Some r" using r0(4) by (simp add: dict_simps)
  ultimately show ?thesis
    unfolding id by (rule checks_closed) (simp add: r0(3) ack_record_def)
qed

theorem acknowledged_never_escalates_witness:
  "dget (ee_active_escalations (checks [(0, 10 ^ 12)] (snd (acknowledge 5 ''a1'' ''bob'' demo_esc)))) ''e1''
     = fst (acknowledge 5 ''a1'' ''bob'' demo_esc)"
proof -
  have "get_escalation_for_alert ''a1'' demo_esc = Some (new_record 0 ''e1'' demo_alert default_policy [''fraud-analysts''])"
    by (simp add: get_escalation_for_alert_def demo_esc_state)
  then obtain r where r: "fst (acknowledge 5 ''a1'' ''bob'' demo_esc) = Some r" "er_escalation_id r = ''e1''"
    by (auto simp: acknowledge_def get_escalation_for_alert_def ack_record_def new_record_def Let_def split: option.splits)
  have "acknowledge 5 ''a1'' ''bob'' demo_esc = (Some r, snd (acknowledge 5 ''a1'' ''bob'' demo_esc))"
    using r(1) by (metis prod.collapse)
  from acknowledged_never_escalates [OF demo_esc_state(5) _ this, of "[(0, 10 ^ 12)]"] show ?thesis
    unfolding r by (simp add: r(2) oncall_ok_def demo_esc_state)
qed

text \<open>
  Claim C18 (unattended escalations end): with distinct levels and usable on-call rotations, an open
  escalation that every check finds due is timed out after at most as many checks as its policy has
  levels above the current one, plus one.
\<close>

theorem unattended_escalation_times_out:
  assumes "ee_reachable ps ss cb e" "oncall_ok e" "dget (ee_active_escalations e) eid = Some r"
    and "dget (ee_policies e) (er_policy_id r) = Some p" "distinct (map lc_level (ep_levels p))"
    and "always_due eid ts e" "levels_above p (er_current_level r) < length ts"
  shows "\<exists>r'. dget (ee_active_escalations (checks ts e)) eid = Some r' \<and> er_status r' = ES_TIMED_OUT"
  using checks_time_out [OF ee_reachable_ok [OF assms(1)] assms(2,4) _ assms(3,6)] assms(5,7)
  by (simp add: policy_ok_def)

lemma always_due_timed_out:
  assumes "ee_ok e" "oncall_ok e" "dget (ee_active_escalations e) eid = Some r" "er_status r = ES_TIMED_OUT"
  shows "always_due eid ts e"
  using assms
proof (induction ts arbitrary: e)
  case (Cons t ts)
  obtain toc now where t: "t = (toc, now)" by (cases t)
  have "dget (ee_active_escalations (snd (check_timeouts toc now e))) eid = Some r"
    using checks_closed [OF Cons.prems(1-3), of "[(toc, now)]"] Cons.prems(4) by simp
  moreover have "ee_ok (snd (check_timeouts toc now e))"
    unfolding check_timeouts_def by (rule check_records_ok [OF Cons.prems(1)])
  ultimately show ?case using Cons t by (simp add: check_timeouts_keeps)
qed simp

text \<open>The same condition, followed on the record alone.\<close>

fun due_list :: "esc_engine \<Rightarrow> (datetime \<times> datetime) list \<Rightarrow> esc_record \<Rightarrow> bool" where
  "due_list e [] r = True"
| "due_list e ((toc, now) # ts) r =
     ((is_due now r \<or> er_status r = ES_TIMED_OUT) \<and> due_list e ts (timed_record toc now e r))"

lemma due_list_cong:
  "ee_policies e' = ee_policies e \<Longrightarrow> ee_oncall_schedules e' = ee_oncall_schedules e \<Longrightarrow> due_list e' ts r = due_list e ts r"
  by (induction ts arbitrary: r) (auto simp: timed_record_cong [of e' e])

lemma always_due_records:
  assumes "ee_ok e" "oncall_ok e" "dget (ee_active_escalations e) eid = Some r"
  shows "always_due eid ts e = due_list e ts r"
  using assms
proof (induction ts arbitrary: e r)
  case (Cons t ts)
  obtain toc now where t: "t = (toc, now)" by (cases t)
  let ?e = "snd (check_timeouts toc now e)"
  have "ee_ok ?e" unfolding check_timeouts_def by (rule check_records_ok [OF Cons.prems(1)])
  moreover have "dget (ee_active_escalations ?e) eid = Some (timed_record toc now e r)"
    using check_timeouts_lookup [OF Cons.prems(2) ee_okD(1) [OF Cons.prems(1)], of toc now eid] Cons.prems(3) by simp
  ultimately have "always_due eid ts ?e = due_list ?e ts (timed_record toc now e r)"
    using Cons.IH Cons.prems(2) by (simp add: check_timeouts_keeps)
  also have "\<dots> = due_list e ts (timed_record toc now e r)"
    using check_records_frame [of toc now "map fst (ee_active_escalations e)" e]
    by (intro due_list_cong) (simp_all add: check_timeouts_def)
  finally show ?case using Cons.prems(3) t by simp
qed simp

lemma demo_levels:
  "get_next_level default_policy L1 = Some L2" "get_next_level default_policy L2 = Some L3" "get_next_level default_policy L3 = None"
  by (simp_all add: get_next_level_def default_policy_def less_eq_esc_level_def)

lemma demo_configs:
  "map_option lc_level (get_level_config default_policy L2) = Some L2"
  "map_option lc_timeout_minutes (get_level_config default_policy L2) = Some 30"
  "map_option lc_level (get_level_config default_policy L3) = Some L3"
  "map_option lc_timeout_minutes (get_level_config default_policy L3) = Some 60"
  by (simp_all add: get_level_config_def default_policy_def)

lemma resolve_recipients_no_schedules:
  "ee_oncall_schedules e = [] \<Longrightarrow> resolve_recipients toc e refs = Inr refs"
  by (induction refs) (simp_all add: resolve_ref_def)

lemma demo_up:
  assumes "er_policy_id r = ''default''" "is_due now r" "get_next_level default_policy (er_current_level r) = Some l"
    and "map_option lc_level (get_level_config default_policy l) = Some l"
    and "map_option lc_timeout_minutes (get_level_config default_policy l) = Some m"
  shows "er_current_level (timed_record toc now demo_esc r) = l"
    and "er_status (timed_record toc now demo_esc r) = ES_ESCALATED"
    and "er_next_escalation_at (timed_record toc now demo_esc r) = Some (add_minutes now m)"
  using assms
  by (auto simp: timed_record_def demo_esc_state resolve_recipients_no_schedules level_up_record_def)

lemma demo_due: "always_due ''e1'' [(0, 10 ^ 9), (0, 10 ^ 11), (0, 10 ^ 12)] demo_esc"
proof -
  define r0 where "r0 = new_record 0 ''e1'' demo_alert default_policy [''fraud-analysts'']"
  define r1 where "r1 = timed_record 0 (10 ^ 9) demo_esc r0"
  define r2 where "r2 = timed_record 0 (10 ^ 11) demo_esc r1"
  have r0: "er_current_level r0 = L1" "er_policy_id r0 = ''default''" "is_due (10 ^ 9) r0"
    by (simp_all add: r0_def new_record_def Let_def default_policy_def add_minutes_def is_due_def)
  note r1 = demo_up [OF r0(2,3), unfolded r0(1), OF demo_levels(1) demo_configs(1,2), of 0, folded r1_def]
  have p1: "er_policy_id r1 = ''default''" "is_due (10 ^ 11) r1"
    using r0(2) r1(2,3) by (simp_all add: r1_def [symmetric] is_due_def add_minutes_def) (simp add: r1_def)
  note r2 = demo_up [OF p1, unfolded r1(1), OF demo_levels(2) demo_configs(3,4), of 0, folded r2_def]
  have "is_due (10 ^ 12) r2" using r2(2,3) by (simp add: is_due_def add_minutes_def)
  with r0 p1 have "due_list demo_esc [(0, 10 ^ 9), (0, 10 ^ 11), (0, 10 ^ 12)] r0"
    unfolding due_list.simps r1_def [symmetric] r2_def [symmetric] by simp
  moreover have "oncall_ok demo_esc" "dget (ee_active_escalations demo_esc) ''e1'' = Some r0"
    by (simp_all add: oncall_ok_def demo_esc_state r0_def)
  ultimately show ?thesis
    using always_due_records [OF ee_reachable_ok [OF demo_esc_state(5)], of "''e1''" r0] by metis
qed

theorem unattended_escalation_times_out_witness:
  "\<exists>r'. dget (ee_active_escalations (checks [(0, 10 ^ 9), (0, 10 ^ 11), (0, 10 ^ 12)] demo_esc)) ''e1'' = Some r'
      \<and> er_status r' = ES_TIMED_OUT"
proof (rule unattended_escalation_times_out [OF demo_esc_state(5)])
  show "oncall_ok demo_esc" by (simp add: oncall_ok_def demo_esc_state)
  show "dget (ee_active_escalations demo_esc) ''e1'' = Some (new_record 0 ''e1'' demo_alert default_policy [''fraud-analysts''])"
    by (simp add: demo_esc_state)
  show "dget (ee_policies demo_esc) (er_policy_id (new_record 0 ''e1'' demo_alert default_policy [''fraud-analysts''])) = Some default_policy"
    by (simp add: demo_esc_state new_record_def Let_def) (simp add: default_policy_def)
  show "distinct (map lc_level (ep_levels default_policy))" by (simp add: default_policy_def)
  show "always_due ''e1'' [(0, 10 ^ 9), (0, 10 ^ 11), (0, 10 ^ 12)] demo_esc" by (rule demo_due)
  show "levels_above default_policy (er_current_level (new_record 0 ''e1'' demo_alert default_policy [''fraud-analysts'']))
      < length [(0 :: int, 10 ^ 9 :: int), (0, 10 ^ 11), (0, 10 ^ 12)]"
    by (simp add: levels_above_def new_record_def Let_def default_policy_def less_esc_level_def)
qed

text \<open>
  Remark (a race in start): the check for an existing escalation and the insertion of the new one
  are two critical sections. When two callers both pass the check before either inserts, resolving
  the alert leaves the first record open: it is still escalated by the timeout checks, but it can no
  longer be found, acknowledged or resolved through its alert.
\<close>

theorem concurrent_start_orphans_escalation:
  fixes p :: esc_policy and t1 t2 t3 :: datetime and rs1 rs2 :: "string list"
  assumes "dget (ee_escalation_by_alert e) (al_alert_id a) = None" "u1 \<noteq> u2" "u2 \<noteq> []"
  defines "e2 \<equiv> start_commit t2 u2 a p rs2 (start_commit t1 u1 a p rs1 e)"
  defines "e3 \<equiv> snd (resolve t3 (al_alert_id a) e2)"
  shows "dget (ee_active_escalations e3) u1 = Some (new_record t1 u1 a p rs1)
    \<and> new_record t1 u1 a p rs1 \<in> set (get_active_escalations e3)
    \<and> get_escalation_for_alert (al_alert_id a) e3 = None
    \<and> acknowledge t4 (al_alert_id a) who e3 = (None, e3) \<and> resolve t5 (al_alert_id a) e3 = (None, e3)"
proof -
  have by2: "str_or (dget (ee_escalation_by_alert e2) (al_alert_id a)) None = Some u2"
    using assms(3) by (cases u2) (simp_all add: e2_def start_commit_def dict_simps)
  have act2: "dget (ee_active_escalations e2) u2 = Some (new_record t2 u2 a p rs2)"
    "dget (ee_active_escalations e2) u1 = Some (new_record t1 u1 a p rs1)"
    using assms(2) by (simp_all add: e2_def start_commit_def dict_simps)
  have e3: "ee_active_escalations e3 = dset u2 (resolve_record t3 (new_record t2 u2 a p rs2)) (ee_active_escalations e2)"
    "dget (ee_escalation_by_alert e3) (al_alert_id a) = None"
    using by2 act2(1) by (simp_all add: e3_def resolve_def Let_def dict_simps)
  have r1: "dget (ee_active_escalations e3) u1 = Some (new_record t1 u1 a p rs1)"
    using act2(2) assms(2) by (simp add: e3(1) dict_simps)
  then have "new_record t1 u1 a p rs1 \<in> set (get_active_escalations e3)"
    by (auto dest!: map_of_SomeD simp: get_active_escalations_def new_record_def Let_def image_iff intro!: bexI)
  with r1 e3(2) show ?thesis
    by (simp add: get_escalation_for_alert_def acknowledge_def resolve_def)
qed

theorem concurrent_start_orphans_escalation_witness:
  "get_escalation_for_alert ''a1'' (snd (resolve 3 ''a1'' (start_commit 2 ''e2'' demo_alert default_policy []
      (start_commit 1 ''e1'' demo_alert default_policy [] (load_defaults False))))) = None"
  using concurrent_start_orphans_escalation [where e = "load_defaults False" and a = demo_alert and ?u1.0 = "''e1''"
      and ?u2.0 = "''e2''" and p = default_policy and ?t1.0 = 1 and ?t2.0 = 2 and ?t3.0 = 3 and ?rs1.0 = "[]" and ?rs2.0 = "[]"]
  by (simp add: load_defaults_def new_esc_engine_def) (simp add: demo_alert_def)

text \<open>
  Remark (on-call rotation): a rotation with members and a positive interval that is active at a time
  names one of its members, and names the same one a whole turn of the rotation later.
\<close>

theorem oncall_member_and_period:
  fixes r :: rotation
  assumes "ro_members r \<noteq> []" "0 < ro_rotation_interval_hours r" "is_active r tm"
  defines "turn \<equiv> int (length (ro_members r)) * ro_rotation_interval_hours r * 3600000000"
  shows "\<exists>who \<in> set (ro_members r). get_oncall_person r tm = Inr who \<and> get_oncall_person r (tm + turn) = Inr who"
proof -
  let ?n = "int (length (ro_members r))" and ?h = "ro_rotation_interval_hours r"
  let ?q = "\<lambda>x. total_seconds x (ro_start_time r) / 3600 / of_int ?h"
  have n: "0 < ?n" using assms(1) by simp
  have q0: "0 \<le> ?q tm"
    using assms(2,3) by (simp add: total_seconds_def is_active_def not_less split: if_splits)
  have shift: "?q (tm + turn) = ?q tm + of_int ?n"
    using assms(2) by (simp add: total_seconds_def turn_def field_simps)
  have "\<lfloor>?q (tm + turn)\<rfloor> = \<lfloor>?q tm\<rfloor> + ?n" unfolding shift by (simp add: floor_add_int [symmetric] del: of_int_of_nat_eq)
  moreover have "0 \<le> ?q (tm + turn)" unfolding shift using q0 n by simp
  ultimately have idx: "py_int (?q (tm + turn)) mod ?n = py_int (?q tm) mod ?n"
    using q0 by (simp add: py_int_def)
  have "nat (py_int (?q tm) mod ?n) < length (ro_members r)"
    using n by (simp add: nat_less_iff)
  then have "ro_members r ! nat (py_int (?q tm) mod ?n) \<in> set (ro_members r)" by (rule nth_mem)
  then show ?thesis
    using assms(1,2) idx by (auto simp: get_oncall_person_def Let_def)
qed

theorem oncall_member_and_period_witness:
  "\<exists>who \<in> set [''ann'', ''bob'']. True \<and>
     get_oncall_person \<lparr>ro_rotation_id = ''r'', ro_members = [''ann'', ''bob''], ro_rotation_interval_hours = 168,
       ro_start_time = 0, ro_end_time = None\<rparr> 1000 = Inr who"
  using oncall_member_and_period [of "\<lparr>ro_rotation_id = ''r'', ro_members = [''ann'', ''bob''], ro_rotation_interval_hours = 168,
       ro_start_time = 0, ro_end_time = None\<rparr>" 1000]
  by (auto simp: is_active_def)

end
