(* ===== verification/Fraud_Rules.thy ===== *)
theory Fraud_Rules
  imports Py_Text "HOL-Library.List_Lexorder" "HOL-Library.Char_ord"
begin

text \<open>
  The rule engine of \<^verbatim>\<open>src/fraud_detection/rule_engine.py\<close>: the rule and match data, loading and
  reloading of a rule document, the seventeen evaluators and their registry, evaluation of one
  transaction and of a batch, the combination of the matches into a severity, a confidence and a
  score, and backtesting.

  A transaction is an untyped dictionary. The enrichment context is a record with the keys and types
  that the class documentation lists; a missing key is \<open>None\<close> or the empty value. Rule parameters are
  untyped; a parameter that is not a number raises \<^verbatim>\<open>TypeError\<close> where it is read (the code raises it at
  the first arithmetic use). The formatted \<^verbatim>\<open>details\<close> text of a match is left out.
\<close>

section \<open>Data\<close>

type_synonym txn = "(string, pyval) dict"

record fraud_rule =
  fr_id :: string
  fr_name :: string
  fr_description :: string
  fr_category :: string
  fr_priority :: int
  fr_enabled :: bool
  fr_severity :: string
  fr_confidence :: real
  fr_parameters :: "(string, pyval) dict"
  fr_tags :: "pyval list"

record rule_match =
  rm_rule_id :: string
  rm_rule_name :: string
  rm_category :: string
  rm_severity :: string
  rm_confidence :: real
  rm_parameters :: "(string, pyval) dict"

record rule_ctx =
  rc_customer_avg_amount :: "pyval option"
  rc_customer_history_count :: "pyval option"
  rc_recent_transactions :: "txn list"
  rc_last_transaction :: "txn option"
  rc_customer_mcc_distribution :: "(string, real) dict"
  rc_customer_channels :: "string list"
  rc_is_new_device :: bool
  rc_device_age_days :: "pyval option"
  rc_accounts_on_device :: "pyval option"
  rc_is_domestic_only :: bool
  rc_days_since_last_transaction :: "pyval option"

text \<open>\<^verbatim>\<open>context or {}\<close> when no context is given.\<close>

definition empty_ctx :: rule_ctx where
  "empty_ctx = \<lparr>rc_customer_avg_amount = None, rc_customer_history_count = None, rc_recent_transactions = [],
     rc_last_transaction = None, rc_customer_mcc_distribution = [], rc_customer_channels = [],
     rc_is_new_device = False, rc_device_age_days = None, rc_accounts_on_device = None,
     rc_is_domestic_only = False, rc_days_since_last_transaction = None\<rparr>"

record eval_result =
  rr_transaction_id :: pyval
  rr_triggered_rules :: "rule_match list"
  rr_combined_severity :: string
  rr_combined_confidence :: real
  rr_rule_score :: real
  rr_evaluation_time_ms :: real
  rr_total_rules_evaluated :: nat

definition is_fraud_suspected :: "eval_result \<Rightarrow> bool" where
  "is_fraud_suspected r = (0 < length (rr_triggered_rules r))"

definition triggered_count :: "eval_result \<Rightarrow> nat" where
  "triggered_count r = length (rr_triggered_rules r)"

definition triggered_categories :: "eval_result \<Rightarrow> string set" where
  "triggered_categories r = rm_category ` set (rr_triggered_rules r)"

definition match_to_dict :: "rule_match \<Rightarrow> pyval" where
  "match_to_dict m = PDict [(''rule_id'', PStr (rm_rule_id m)), (''rule_name'', PStr (rm_rule_name m)),
     (''category'', PStr (rm_category m)), (''severity'', PStr (rm_severity m)), (''confidence'', PFloat (rm_confidence m))]"

definition eval_result_to_dict :: "eval_result \<Rightarrow> (string, pyval) dict" where
  "eval_result_to_dict r =
     [(''transaction_id'', rr_transaction_id r),
      (''triggered_rules'', PList (map match_to_dict (rr_triggered_rules r))),
      (''combined_severity'', PStr (rr_combined_severity r)),
      (''combined_confidence'', PFloat (rr_combined_confidence r)),
      (''rule_score'', PFloat (rr_rule_score r)),
      (''evaluation_time_ms'', PFloat (rr_evaluation_time_ms r)),
      (''total_rules_evaluated'', PInt (int (rr_total_rules_evaluated r)))]"

record perf_metrics =
  pm_rule_id :: string
  pm_true_positives :: nat
  pm_false_positives :: nat
  pm_true_negatives :: nat
  pm_false_negatives :: nat

definition new_perf :: "string \<Rightarrow> perf_metrics" where
  "new_perf i = \<lparr>pm_rule_id = i, pm_true_positives = 0, pm_false_positives = 0, pm_true_negatives = 0, pm_false_negatives = 0\<rparr>"

definition precision :: "perf_metrics \<Rightarrow> real" where
  "precision m = (let denom = pm_true_positives m + pm_false_positives m
                  in if denom \<noteq> 0 then real (pm_true_positives m) / real denom else 0)"

definition recall :: "perf_metrics \<Rightarrow> real" where
  "recall m = (let denom = pm_true_positives m + pm_false_negatives m
               in if denom \<noteq> 0 then real (pm_true_positives m) / real denom else 0)"

definition f1_score :: "perf_metrics \<Rightarrow> real" where
  "f1_score m = (let p = precision m; r = recall m in if p + r \<noteq> 0 then 2 * p * r / (p + r) else 0)"

definition total_evaluated :: "perf_metrics \<Rightarrow> nat" where
  "total_evaluated m = pm_true_positives m + pm_false_positives m + pm_true_negatives m + pm_false_negatives m"

definition perf_to_dict :: "perf_metrics \<Rightarrow> (string, pyval) dict" where
  "perf_to_dict m =
     [(''rule_id'', PStr (pm_rule_id m)), (''precision'', PFloat (py_round 4 (precision m))),
      (''recall'', PFloat (py_round 4 (recall m))), (''f1_score'', PFloat (py_round 4 (f1_score m))),
      (''true_positives'', PInt (int (pm_true_positives m))), (''false_positives'', PInt (int (pm_false_positives m))),
      (''true_negatives'', PInt (int (pm_true_negatives m))), (''false_negatives'', PInt (int (pm_false_negatives m))),
      (''total_evaluated'', PInt (int (total_evaluated m)))]"

record engine_metrics =
  em_transactions_evaluated :: nat
  em_total_rule_matches :: nat
  em_total_evaluation_time_ms :: real

definition avg_evaluation_time_ms :: "engine_metrics \<Rightarrow> real" where
  "avg_evaluation_time_ms m =
     (if em_transactions_evaluated m = 0 then 0 else em_total_evaluation_time_ms m / real (em_transactions_evaluated m))"

definition record_result :: "eval_result \<Rightarrow> engine_metrics \<Rightarrow> engine_metrics" where
  "record_result r m =
     m\<lparr>em_transactions_evaluated := em_transactions_evaluated m + 1,
       em_total_rule_matches := em_total_rule_matches m + triggered_count r,
       em_total_evaluation_time_ms := em_total_evaluation_time_ms m + rr_evaluation_time_ms r\<rparr>"

definition engine_metrics_to_dict :: "engine_metrics \<Rightarrow> (string, pyval) dict" where
  "engine_metrics_to_dict m =
     [(''transactions_evaluated'', PInt (int (em_transactions_evaluated m))),
      (''total_rule_matches'', PInt (int (em_total_rule_matches m))),
      (''avg_evaluation_time_ms'', PFloat (py_round 3 (avg_evaluation_time_ms m)))]"

section \<open>Loading\<close>

text \<open>A field of the rule document with a default; a value of another type is refused.\<close>

fun want_str :: "pyval \<Rightarrow> string res" where
  "want_str (PStr s) = Inr s" | "want_str _ = Inl TypeError"

fun want_num :: "pyval \<Rightarrow> real res" where
  "want_num (PBool b) = Inr (if b then 1 else 0)"
| "want_num (PInt n) = Inr (of_int n)"
| "want_num (PFloat x) = Inr x"
| "want_num _ = Inl TypeError"

fun want_int :: "pyval \<Rightarrow> int res" where
  "want_int (PBool b) = Inr (if b then 1 else 0)" | "want_int (PInt n) = Inr n" | "want_int _ = Inl TypeError"

fun want_dict :: "pyval \<Rightarrow> (string, pyval) dict res" where
  "want_dict (PDict d) = Inr d" | "want_dict _ = Inl TypeError"

fun want_list :: "pyval \<Rightarrow> pyval list res" where
  "want_list (PList xs) = Inr xs" | "want_list _ = Inl TypeError"

definition fraud_rule_from_dict :: "(string, pyval) dict \<Rightarrow> fraud_rule res" where
  "fraud_rule_from_dict d =
     res_bind (res_bind (pindex d ''id'') want_str) (\<lambda>i.
     res_bind (res_bind (pindex d ''name'') want_str) (\<lambda>n.
     res_bind (want_str (dget_or d ''description'' (PStr ''''))) (\<lambda>ds.
     res_bind (res_bind (pindex d ''category'') want_str) (\<lambda>c.
     res_bind (want_int (dget_or d ''priority'' (PInt 100))) (\<lambda>pr.
     res_bind (want_str (dget_or d ''severity'' (PStr ''medium''))) (\<lambda>sv.
     res_bind (want_num (dget_or d ''confidence'' (PFloat (1 / 2)))) (\<lambda>cf.
     res_bind (want_dict (dget_or d ''parameters'' (PDict []))) (\<lambda>ps.
     res_bind (want_list (dget_or d ''tags'' (PList []))) (\<lambda>ts.
       Inr \<lparr>fr_id = i, fr_name = n, fr_description = ds, fr_category = c, fr_priority = pr,
            fr_enabled = py_bool (dget_or d ''enabled'' (PBool True)), fr_severity = sv,
            fr_confidence = cf, fr_parameters = ps, fr_tags = ts\<rparr>)))))))))"

fun rules_from_dicts :: "(string, pyval) dict list \<Rightarrow> fraud_rule list res" where
  "rules_from_dicts [] = Inr []"
| "rules_from_dicts (d # ds) =
     res_bind (fraud_rule_from_dict d) (\<lambda>r. res_bind (rules_from_dicts ds) (\<lambda>rs. Inr (r # rs)))"

record rule_engine =
  re_rules :: "fraud_rule list"
  re_severity_escalation :: "(string, pyval) dict"
  re_metrics :: engine_metrics
  re_rule_metrics :: "(string, perf_metrics) dict"

definition new_rule_engine :: rule_engine where
  "new_rule_engine =
     \<lparr>re_rules = [], re_severity_escalation = [],
      re_metrics = \<lparr>em_transactions_evaluated = 0, em_total_rule_matches = 0, em_total_evaluation_time_ms = 0\<rparr>,
      re_rule_metrics = []\<rparr>"

definition add_missing_metrics :: "fraud_rule list \<Rightarrow> (string, perf_metrics) dict \<Rightarrow> (string, perf_metrics) dict" where
  "add_missing_metrics rules m =
     fold (\<lambda>r m. if dget m (fr_id r) = None then dset (fr_id r) (new_perf (fr_id r)) m else m) rules m"

text \<open>
  \<^verbatim>\<open>_load_rules\<close> on the parsed document: the escalation settings and the raw rules. A rule that does not
  parse raises after the settings have been replaced.
\<close>

definition load_rules :: "(string, pyval) dict \<Rightarrow> (string, pyval) dict list \<Rightarrow> rule_engine \<Rightarrow> unit res \<times> rule_engine" where
  "load_rules escalation raw_rules g =
     (let g1 = g\<lparr>re_severity_escalation := escalation\<rparr>
      in case rules_from_dicts raw_rules of
           Inl ex \<Rightarrow> (Inl ex, g1)
         | Inr parsed \<Rightarrow>
             (let rules = sort_key fr_priority parsed
              in (Inr (), g1\<lparr>re_rules := rules,
                             re_rule_metrics := add_missing_metrics rules (re_rule_metrics g)\<rparr>)))"

section \<open>Helpers\<close>

definition safe_float :: "pyval \<Rightarrow> real" where
  "safe_float v = (case to_float v of Inl _ \<Rightarrow> 0 | Inr x \<Rightarrow> x)"

definition safe_int :: "pyval \<Rightarrow> int" where
  "safe_int v = (case to_int v of Inl _ \<Rightarrow> 0 | Inr n \<Rightarrow> n)"

fun parse_timestamp :: "pyval \<Rightarrow> aware option" where
  "parse_timestamp (PTime w z) = Some (w, case z of None \<Rightarrow> 0 | Some off \<Rightarrow> off)"
| "parse_timestamp (PStr s) = first_some (strptime_Z s) (first_some (strptime_z s) (strptime_fZ s))"
| "parse_timestamp _ = None"

text \<open>\<^verbatim>\<open>math.radians\<close> and \<^verbatim>\<open>math.atan2\<close>.\<close>

definition radians :: "real \<Rightarrow> real" where
  "radians x = x * pi / 180"

definition atan2 :: "real \<Rightarrow> real \<Rightarrow> real" where
  "atan2 y x =
     (if 0 < x then arctan (y / x)
      else if x < 0 then (if 0 \<le> y then arctan (y / x) + pi else arctan (y / x) - pi)
      else if 0 < y then pi / 2 else if y < 0 then - pi / 2 else 0)"

definition haversine_a :: "real \<Rightarrow> real \<Rightarrow> real \<Rightarrow> real \<Rightarrow> real" where
  "haversine_a lat1 lon1 lat2 lon2 =
     (let phi1 = radians lat1; phi2 = radians lat2; dphi = radians (lat2 - lat1); dlam = radians (lon2 - lon1)
      in (sin (dphi / 2))\<^sup>2 + cos phi1 * cos phi2 * (sin (dlam / 2))\<^sup>2)"

definition haversine_miles :: "real \<Rightarrow> real \<Rightarrow> real \<Rightarrow> real \<Rightarrow> real" where
  "haversine_miles lat1 lon1 lat2 lon2 =
     (let R = 19794 / 5; a = haversine_a lat1 lon1 lat2 lon2
      in 2 * R * atan2 (sqrt a) (sqrt (1 - a)))"

text \<open>The parameters of a rule, with the default of the evaluator that reads them.\<close>

definition param_num :: "fraud_rule \<Rightarrow> string \<Rightarrow> real \<Rightarrow> real res" where
  "param_num r k dflt = want_num (dget_or (fr_parameters r) k (PFloat dflt))"

definition param_int :: "fraud_rule \<Rightarrow> string \<Rightarrow> int \<Rightarrow> int res" where
  "param_int r k dflt = want_int (dget_or (fr_parameters r) k (PInt dflt))"

definition mk_match :: "fraud_rule \<Rightarrow> (string, pyval) dict \<Rightarrow> rule_match" where
  "mk_match r ps = \<lparr>rm_rule_id = fr_id r, rm_rule_name = fr_name r, rm_category = fr_category r,
     rm_severity = fr_severity r, rm_confidence = fr_confidence r, rm_parameters = ps\<rparr>"

definition fires :: "fraud_rule \<Rightarrow> bool \<Rightarrow> (string, pyval) dict \<Rightarrow> rule_match option res" where
  "fires r b ps = Inr (if b then Some (mk_match r ps) else None)"

definition amount_of :: "txn \<Rightarrow> real" where
  "amount_of t = safe_float (pget t ''transaction_amount'')"

definition time_of :: "txn \<Rightarrow> aware option" where
  "time_of t = parse_timestamp (pget t ''transaction_timestamp'')"

definition status_of :: "txn \<Rightarrow> pyval" where
  "status_of t = dget_or t ''status'' (dget_or t ''transaction_status'' (PStr ''''))"

definition opt_or :: "'a option \<Rightarrow> 'a \<Rightarrow> 'a" where
  "opt_or x d = (case x of None \<Rightarrow> d | Some v \<Rightarrow> v)"

definition history_count :: "rule_ctx \<Rightarrow> int" where
  "history_count ctx = safe_int (opt_or (rc_customer_history_count ctx) (PInt 0))"

definition days_since :: "rule_ctx \<Rightarrow> real" where
  "days_since ctx = safe_float (opt_or (rc_days_since_last_transaction ctx) (PInt 0))"

text \<open>\<^verbatim>\<open>abs((txn_ts - rt_ts).total_seconds())\<close>.\<close>

definition gap_seconds :: "aware \<Rightarrow> aware \<Rightarrow> real" where
  "gap_seconds a b = \<bar>total_seconds (instant a) (instant b)\<bar>"

text \<open>The recent transactions with a readable timestamp at most \<open>w\<close> seconds away.\<close>

definition close_txns :: "real \<Rightarrow> aware \<Rightarrow> txn list \<Rightarrow> txn list" where
  "close_txns w now rcnt =
     filter (\<lambda>rt. case time_of rt of None \<Rightarrow> False | Some t \<Rightarrow> gap_seconds now t \<le> w) rcnt"

section \<open>Evaluators\<close>

subsection \<open>Amount rules\<close>

definition eval_high_amount_vs_avg :: "fraud_rule \<Rightarrow> txn \<Rightarrow> rule_ctx \<Rightarrow> rule_match option res" where
  "eval_high_amount_vs_avg r txn ctx =
     (let amount = amount_of txn in
      res_bind (param_num r ''multiplier'' 3) (\<lambda>multiplier.
      res_bind (param_num r ''min_history_count'' 5) (\<lambda>min_history.
      res_bind (param_num r ''fallback_average'' 500) (\<lambda>fallback.
      let avg0 = safe_float (opt_or (rc_customer_avg_amount ctx) (PFloat fallback));
          avg = (if of_int (history_count ctx) < min_history then fallback else avg0);
          threshold = avg * multiplier
      in fires r (threshold < amount)
           [(''amount'', PFloat amount), (''average'', PFloat avg), (''multiplier'', PFloat multiplier)]))))"

definition eval_amount_below_threshold :: "fraud_rule \<Rightarrow> txn \<Rightarrow> rule_ctx \<Rightarrow> rule_match option res" where
  "eval_amount_below_threshold r txn ctx =
     (let amount = amount_of txn in
      res_bind (param_num r ''threshold'' 10000) (\<lambda>upper.
      res_bind (param_num r ''lower_bound'' 9000) (\<lambda>lower.
        fires r (lower \<le> amount \<and> amount < upper) [(''amount'', PFloat amount), (''threshold'', PFloat upper)])))"

definition eval_round_amount :: "fraud_rule \<Rightarrow> txn \<Rightarrow> rule_ctx \<Rightarrow> rule_match option res" where
  "eval_round_amount r txn ctx =
     (let amount = amount_of txn in
      res_bind (param_num r ''min_amount'' 5000) (\<lambda>min_amount.
      res_bind (param_num r ''modulo'' 1000) (\<lambda>modulo.
        if min_amount \<le> amount
        then res_bind (float_mod amount modulo) (\<lambda>rest.
               fires r (rest = 0) [(''amount'', PFloat amount), (''modulo'', PFloat modulo)])
        else Inr None)))"

subsection \<open>Velocity rules\<close>

definition eval_rapid_transactions :: "fraud_rule \<Rightarrow> txn \<Rightarrow> rule_ctx \<Rightarrow> rule_match option res" where
  "eval_rapid_transactions r txn ctx =
     res_bind (param_num r ''max_count'' 5) (\<lambda>max_count.
     res_bind (param_num r ''window_minutes'' 10) (\<lambda>window_minutes.
       case time_of txn of
         None \<Rightarrow> Inr None
       | Some txn_ts \<Rightarrow>
           if rc_recent_transactions ctx = [] then Inr None
           else (let count = length (close_txns (window_minutes * 60) txn_ts (rc_recent_transactions ctx))
                 in fires r (max_count \<le> real count)
                      [(''count'', PInt (int count)), (''window_minutes'', PFloat window_minutes)])))"

definition eval_declined_then_approved :: "fraud_rule \<Rightarrow> txn \<Rightarrow> rule_ctx \<Rightarrow> rule_match option res" where
  "eval_declined_then_approved r txn ctx =
     res_bind (param_num r ''min_declines'' 3) (\<lambda>min_declines.
     res_bind (param_num r ''window_minutes'' 30) (\<lambda>window_minutes.
       if status_of txn \<noteq> PStr ''approved'' then Inr None
       else case time_of txn of
         None \<Rightarrow> Inr None
       | Some txn_ts \<Rightarrow>
           (let decline_count = length (filter (\<lambda>rt. status_of rt = PStr ''declined'')
                                  (close_txns (window_minutes * 60) txn_ts (rc_recent_transactions ctx)))
            in fires r (min_declines \<le> real decline_count) [(''decline_count'', PInt (int decline_count))])))"

text \<open>\<^verbatim>\<open>xs[-m:]\<close>; for \<open>m \<le> 0\<close> Python counts from the front.\<close>

definition escalates :: "real \<Rightarrow> real list \<Rightarrow> bool" where
  "escalates factor xs = list_all (\<lambda>(x, y). 0 < x \<longrightarrow> x * factor \<le> y) (zip xs (tl xs))"

definition eval_escalating_amounts :: "fraud_rule \<Rightarrow> txn \<Rightarrow> rule_ctx \<Rightarrow> rule_match option res" where
  "eval_escalating_amounts r txn ctx =
     res_bind (param_int r ''min_transactions'' 3) (\<lambda>min_txns.
     res_bind (param_num r ''escalation_factor'' 2) (\<lambda>factor.
     res_bind (param_num r ''window_minutes'' 60) (\<lambda>window_minutes.
       case time_of txn of
         None \<Rightarrow> Inr None
       | Some txn_ts \<Rightarrow>
           if int (length (rc_recent_transactions ctx)) < min_txns - 1 then Inr None
           else (let amounts = sort (map amount_of (close_txns (window_minutes * 60) txn_ts (rc_recent_transactions ctx))
                                     @ [amount_of txn])
                 in if int (length amounts) < min_txns then Inr None
                    else (let last_few = last_slice min_txns amounts
                          in if \<not> escalates factor last_few then Inr None
                             else case last_few of
                                    [] \<Rightarrow> Inl IndexError
                                  | x # _ \<Rightarrow> fires r (0 < x) [(''amounts'', PList (map PFloat last_few)),
                                                             (''factor'', PFloat factor)])))))"

subsection \<open>Geography rules\<close>

definition eval_impossible_travel :: "fraud_rule \<Rightarrow> txn \<Rightarrow> rule_ctx \<Rightarrow> rule_match option res" where
  "eval_impossible_travel r txn ctx =
     res_bind (param_num r ''max_speed_mph'' 500) (\<lambda>max_speed.
     res_bind (param_num r ''min_distance_miles'' 100) (\<lambda>min_dist.
       case rc_last_transaction ctx of
         None \<Rightarrow> Inr None
       | Some last_txn \<Rightarrow>
           (let lat1 = safe_float (pget last_txn ''geo_latitude''); lon1 = safe_float (pget last_txn ''geo_longitude'');
                lat2 = safe_float (pget txn ''geo_latitude''); lon2 = safe_float (pget txn ''geo_longitude'');
                distance = haversine_miles lat1 lon1 lat2 lon2
            in if last_txn = [] \<or> \<not> (lat1 \<noteq> 0 \<and> lon1 \<noteq> 0 \<and> lat2 \<noteq> 0 \<and> lon2 \<noteq> 0) then Inr None
               else if distance < min_dist then Inr None
               else case (time_of last_txn, time_of txn) of
                      (Some ts1, Some ts2) \<Rightarrow>
                        (let hours = gap_seconds ts2 ts1 / 3600
                         in if hours \<le> 0 then Inr None
                            else fires r (max_speed < distance / hours)
                                   [(''speed_mph'', PFloat (py_round 1 (distance / hours))),
                                    (''distance_miles'', PFloat (py_round 1 distance))])
                    | _ \<Rightarrow> Inr None)))"

definition eval_international_domestic_only :: "fraud_rule \<Rightarrow> txn \<Rightarrow> rule_ctx \<Rightarrow> rule_match option res" where
  "eval_international_domestic_only r txn ctx =
     (if \<not> py_bool (dget_or txn ''is_international'' (PBool False)) then Inr None
      else res_bind (param_num r ''min_domestic_transactions'' 10) (\<lambda>min_domestic.
        fires r (rc_is_domestic_only ctx \<and> min_domestic \<le> of_int (history_count ctx))
          [(''country'', dget_or txn ''geo_country'' (PStr ''unknown'')), (''history_count'', PInt (history_count ctx))]))"

definition eval_high_risk_country :: "fraud_rule \<Rightarrow> txn \<Rightarrow> rule_ctx \<Rightarrow> rule_match option res" where
  "eval_high_risk_country r txn ctx =
     (let country = dget_or txn ''geo_country'' (PStr '''') in
      res_bind (want_list (dget_or (fr_parameters r) ''high_risk_countries'' (PList []))) (\<lambda>high_risk.
        fires r (country \<in> set high_risk) [(''country'', country)]))"

subsection \<open>Pattern rules\<close>

definition eval_new_device_high_amount :: "fraud_rule \<Rightarrow> txn \<Rightarrow> rule_ctx \<Rightarrow> rule_match option res" where
  "eval_new_device_high_amount r txn ctx =
     (let amount = amount_of txn in
      res_bind (param_num r ''amount_threshold'' 1000) (\<lambda>amount_threshold.
      res_bind (param_num r ''device_age_days'' 1) (\<lambda>max_device_age.
      let device_age = safe_float (opt_or (rc_device_age_days ctx) (PInt 999))
      in fires r ((rc_is_new_device ctx \<or> device_age \<le> max_device_age) \<and> amount_threshold \<le> amount)
           [(''amount'', PFloat amount), (''device_age_days'', PFloat device_age)])))"

text \<open>\<^verbatim>\<open>mcc_dist.get(mcc, 0.0)\<close>: the keys are strings, and an unhashable key raises.\<close>

definition mcc_pct :: "(string, real) dict \<Rightarrow> pyval \<Rightarrow> real res" where
  "mcc_pct mcc_dist mcc =
     (if \<not> hashable mcc then Inl TypeError
      else Inr (case mcc of PStr s \<Rightarrow> dget_or mcc_dist s 0 | _ \<Rightarrow> 0))"

definition eval_merchant_category_mismatch :: "fraud_rule \<Rightarrow> txn \<Rightarrow> rule_ctx \<Rightarrow> rule_match option res" where
  "eval_merchant_category_mismatch r txn ctx =
     (let mcc = dget_or txn ''merchant_category_code'' (PStr '''') in
      res_bind (param_num r ''min_history_count'' 10) (\<lambda>min_history.
      res_bind (param_num r ''max_category_pct'' (1 / 20)) (\<lambda>max_pct.
        if of_int (history_count ctx) < min_history then Inr None
        else if rc_customer_mcc_distribution ctx = [] then Inr None
        else res_bind (mcc_pct (rc_customer_mcc_distribution ctx) mcc) (\<lambda>pct.
               fires r (pct \<le> max_pct) [(''mcc'', mcc), (''pct'', PFloat pct)]))))"

definition eval_card_testing :: "fraud_rule \<Rightarrow> txn \<Rightarrow> rule_ctx \<Rightarrow> rule_match option res" where
  "eval_card_testing r txn ctx =
     res_bind (param_num r ''small_amount_threshold'' 5) (\<lambda>small_threshold.
     res_bind (param_num r ''min_small_count'' 3) (\<lambda>min_small.
     res_bind (param_num r ''large_amount_threshold'' 500) (\<lambda>large_threshold.
     res_bind (param_num r ''window_minutes'' 30) (\<lambda>window_minutes.
       let amount = amount_of txn
       in if amount < large_threshold then Inr None
          else case time_of txn of
            None \<Rightarrow> Inr None
          | Some txn_ts \<Rightarrow>
              (let small_count = length (filter (\<lambda>rt. amount_of rt \<le> small_threshold)
                                   (close_txns (window_minutes * 60) txn_ts (rc_recent_transactions ctx)))
               in fires r (min_small \<le> real small_count)
                    [(''small_count'', PInt (int small_count)), (''large_amount'', PFloat amount)])))))"

definition eval_multi_account_device :: "fraud_rule \<Rightarrow> txn \<Rightarrow> rule_ctx \<Rightarrow> rule_match option res" where
  "eval_multi_account_device r txn ctx =
     res_bind (param_num r ''max_accounts'' 2) (\<lambda>max_accounts.
     let accounts = safe_int (opt_or (rc_accounts_on_device ctx) (PInt 1))
     in fires r (max_accounts < of_int accounts)
          [(''accounts_on_device'', PInt accounts), (''device_id'', dget_or txn ''device_id'' (PStr ''unknown''))])"

text \<open>Membership in the set of known channels, whose members are strings; an unhashable value raises.\<close>

definition known_channel :: "string list \<Rightarrow> pyval \<Rightarrow> bool res" where
  "known_channel known ch =
     (if \<not> hashable ch then Inl TypeError else Inr (case ch of PStr s \<Rightarrow> s \<in> set known | _ \<Rightarrow> False))"

definition eval_channel_anomaly :: "fraud_rule \<Rightarrow> txn \<Rightarrow> rule_ctx \<Rightarrow> rule_match option res" where
  "eval_channel_anomaly r txn ctx =
     res_bind (param_num r ''min_history_count'' 10) (\<lambda>min_history.
       if of_int (history_count ctx) < min_history then Inr None
       else (let channel = dget_or txn ''channel'' (PStr '''')
             in if rc_customer_channels ctx = [] then Inr None
                else res_bind (known_channel (rc_customer_channels ctx) channel) (\<lambda>known.
                       fires r (\<not> known) [(''channel'', channel),
                         (''known_channels'', PList (map PStr (sorted_list_of_set (set (rc_customer_channels ctx)))))])))"

subsection \<open>Temporal rules\<close>

definition eval_late_night_high_value :: "fraud_rule \<Rightarrow> txn \<Rightarrow> rule_ctx \<Rightarrow> rule_match option res" where
  "eval_late_night_high_value r txn ctx =
     res_bind (param_num r ''start_hour'' 0) (\<lambda>start_hour.
     res_bind (param_num r ''end_hour'' 5) (\<lambda>end_hour.
     res_bind (param_num r ''amount_threshold'' 2000) (\<lambda>amount_threshold.
       let amount = amount_of txn
       in case time_of txn of
            None \<Rightarrow> Inr None
          | Some ts \<Rightarrow>
              if amount < amount_threshold then Inr None
              else fires r (start_hour \<le> of_int (hour_of ts) \<and> of_int (hour_of ts) < end_hour)
                     [(''amount'', PFloat amount), (''hour'', PInt (hour_of ts))])))"

definition eval_dormant_account :: "fraud_rule \<Rightarrow> txn \<Rightarrow> rule_ctx \<Rightarrow> rule_match option res" where
  "eval_dormant_account r txn ctx =
     res_bind (param_num r ''dormant_days'' 90) (\<lambda>dormant_days.
       fires r (dormant_days \<le> days_since ctx)
         [(''days_since_last'', PFloat (days_since ctx)), (''dormant_days'', PFloat dormant_days)])"

definition eval_burst_after_silence :: "fraud_rule \<Rightarrow> txn \<Rightarrow> rule_ctx \<Rightarrow> rule_match option res" where
  "eval_burst_after_silence r txn ctx =
     res_bind (param_num r ''silence_hours'' 48) (\<lambda>silence_hours.
     res_bind (param_num r ''burst_count'' 5) (\<lambda>burst_count.
     res_bind (param_num r ''burst_window_minutes'' 30) (\<lambda>burst_window_minutes.
       case time_of txn of
         None \<Rightarrow> Inr None
       | Some ts0 \<Rightarrow>
           (let rcnt = rc_recent_transactions ctx;
                txn_ts = instant ts0;
                burst_window_sec = burst_window_minutes * 60;
                silence_sec = silence_hours * 3600;
                timestamps = sort (map instant (List.map_filter time_of rcnt));
                in_burst = length (filter (\<lambda>ts. \<bar>total_seconds txn_ts ts\<bar> \<le> burst_window_sec) timestamps);
                pre_burst = filter (\<lambda>ts. burst_window_sec < total_seconds txn_ts ts) timestamps;
                silent = (if pre_burst \<noteq> []
                          then silence_sec \<le> total_seconds txn_ts (Max (set pre_burst)) - burst_window_sec
                          else silence_sec \<le> days_since ctx * 86400)
            in if rcnt = [] \<or> timestamps = [] then Inr None
               else if real in_burst < burst_count - 1 then Inr None
               else fires r silent [(''burst_count'', PInt (int in_burst + 1)), (''silence_hours'', PFloat silence_hours)]))))"

section \<open>Dispatch\<close>

definition rule_evaluators :: "(string, fraud_rule \<Rightarrow> txn \<Rightarrow> rule_ctx \<Rightarrow> rule_match option res) dict" where
  "rule_evaluators =
     [(''FRAUD-AMT-001'', eval_high_amount_vs_avg),
      (''FRAUD-AMT-002'', eval_amount_below_threshold),
      (''FRAUD-AMT-003'', eval_round_amount),
      (''FRAUD-VEL-001'', eval_rapid_transactions),
      (''FRAUD-VEL-002'', eval_declined_then_approved),
      (''FRAUD-VEL-003'', eval_escalating_amounts),
      (''FRAUD-GEO-001'', eval_impossible_travel),
      (''FRAUD-GEO-002'', eval_international_domestic_only),
      (''FRAUD-GEO-003'', eval_high_risk_country),
      (''FRAUD-PAT-001'', eval_new_device_high_amount),
      (''FRAUD-PAT-002'', eval_merchant_category_mismatch),
      (''FRAUD-PAT-003'', eval_card_testing),
      (''FRAUD-PAT-004'', eval_multi_account_device),
      (''FRAUD-PAT-005'', eval_channel_anomaly),
      (''FRAUD-TMP-001'', eval_late_night_high_value),
      (''FRAUD-TMP-002'', eval_dormant_account),
      (''FRAUD-TMP-003'', eval_burst_after_silence)]"

definition evaluate_rule :: "fraud_rule \<Rightarrow> txn \<Rightarrow> rule_ctx \<Rightarrow> rule_match option res" where
  "evaluate_rule r txn ctx =
     (case dget rule_evaluators (fr_id r) of None \<Rightarrow> Inr None | Some ev \<Rightarrow> ev r txn ctx)"

section \<open>Scoring and severity\<close>

definition severity_order :: "string \<Rightarrow> int" where
  "severity_order s = dget_or [(''low'', 0), (''medium'', 1), (''high'', 2), (''critical'', 3)] s 0"

definition severity_by_index :: "int \<Rightarrow> string" where
  "severity_by_index i = dget_or [(0, ''low''), (1, ''medium''), (2, ''high''), (3, ''critical'')] i ''low''"

definition max_severity :: "rule_match list \<Rightarrow> int" where
  "max_severity ms = Max (set (map (\<lambda>m. severity_order (rm_severity m)) ms))"

definition compute_combined_severity :: "(string, pyval) dict \<Rightarrow> rule_match list \<Rightarrow> string res" where
  "compute_combined_severity escalation ms =
     (if ms = [] then Inr ''low''
      else if py_bool (dget_or escalation ''enabled'' (PBool False)) \<and> 1 < length ms
      then res_bind (want_int (dget_or escalation ''rules_per_tier'' (PInt 2))) (\<lambda>rules_per_tier.
             if rules_per_tier = 0 then Inl ZeroDivisionError
             else (let extra_tiers = (int (length ms) - 1) div rules_per_tier
                   in Inr (severity_by_index (min (max_severity ms + extra_tiers) 3))))
      else Inr (severity_by_index (max_severity ms)))"

definition compute_combined_confidence :: "rule_match list \<Rightarrow> real" where
  "compute_combined_confidence ms =
     (if ms = [] then 0 else py_round 4 (1 - fold (\<lambda>c combined. combined * (1 - c)) (map rm_confidence ms) 1))"

definition compute_rule_score :: "rule_match list \<Rightarrow> real" where
  "compute_rule_score ms =
     (if ms = [] then 0
      else (let combined_conf = compute_combined_confidence ms;
                severity_weight = of_int (max_severity ms) / 3;
                category_diversity = real (card (set (map rm_category ms))) / 5;
                score = 1 / 2 * combined_conf + 3 / 10 * severity_weight + 1 / 5 * min category_diversity 1
            in py_round 4 (min score 1)))"

section \<open>Evaluation\<close>

fun eval_rules :: "fraud_rule list \<Rightarrow> txn \<Rightarrow> rule_ctx \<Rightarrow> rule_match list res" where
  "eval_rules [] txn ctx = Inr []"
| "eval_rules (r # rs) txn ctx =
     (if \<not> fr_enabled r then eval_rules rs txn ctx
      else res_bind (evaluate_rule r txn ctx) (\<lambda>m.
           res_bind (eval_rules rs txn ctx) (\<lambda>ms. Inr (case m of None \<Rightarrow> ms | Some x \<Rightarrow> x # ms))))"

text \<open>\<^verbatim>\<open>evaluate\<close>; \<open>elapsed\<close> is the difference of the two \<^verbatim>\<open>perf_counter\<close> readings in seconds.\<close>

definition evaluate :: "real \<Rightarrow> txn \<Rightarrow> rule_ctx option \<Rightarrow> rule_engine \<Rightarrow> eval_result res \<times> rule_engine" where
  "evaluate elapsed txn context g =
     (let ctx = (case context of None \<Rightarrow> empty_ctx | Some c \<Rightarrow> c)
      in case res_bind (eval_rules (re_rules g) txn ctx) (\<lambda>ms.
                res_bind (compute_combined_severity (re_severity_escalation g) ms) (\<lambda>sev.
                Inr \<lparr>rr_transaction_id = dget_or txn ''external_transaction_id'' (PStr ''unknown''),
                     rr_triggered_rules = ms, rr_combined_severity = sev,
                     rr_combined_confidence = compute_combined_confidence ms,
                     rr_rule_score = compute_rule_score ms,
                     rr_evaluation_time_ms = py_round 3 (elapsed * 1000),
                     rr_total_rules_evaluated = length (filter fr_enabled (re_rules g))\<rparr>)) of
           Inl ex \<Rightarrow> (Inl ex, g)
         | Inr result \<Rightarrow> (Inr result, g\<lparr>re_metrics := record_result result (re_metrics g)\<rparr>))"

text \<open>\<^verbatim>\<open>contexts or [None] * len(transactions)\<close>.\<close>

definition pad_contexts :: "'a list \<Rightarrow> rule_ctx option list option \<Rightarrow> rule_ctx option list" where
  "pad_contexts txns contexts =
     (case contexts of Some (c # cs) \<Rightarrow> c # cs | _ \<Rightarrow> replicate (length txns) None)"

fun evaluate_all :: "(real \<times> txn \<times> rule_ctx option) list \<Rightarrow> rule_engine \<Rightarrow> eval_result list res \<times> rule_engine" where
  "evaluate_all [] g = (Inr [], g)"
| "evaluate_all ((el, t, c) # es) g =
     (case evaluate el t c g of
        (Inl ex, g1) \<Rightarrow> (Inl ex, g1)
      | (Inr r, g1) \<Rightarrow> (case evaluate_all es g1 of (Inl ex, g2) \<Rightarrow> (Inl ex, g2) | (Inr rs, g2) \<Rightarrow> (Inr (r # rs), g2)))"

definition evaluate_batch ::
  "(real \<times> txn) list \<Rightarrow> rule_ctx option list option \<Rightarrow> rule_engine \<Rightarrow> eval_result list res \<times> rule_engine" where
  "evaluate_batch txns contexts g =
     evaluate_all (map (\<lambda>((el, t), c). (el, t, c)) (zip txns (pad_contexts txns contexts))) g"

section \<open>Backtesting\<close>

definition score_label :: "bool \<Rightarrow> bool \<Rightarrow> perf_metrics \<Rightarrow> perf_metrics" where
  "score_label fired label p =
     (if fired \<and> label then p\<lparr>pm_true_positives := pm_true_positives p + 1\<rparr>
      else if fired \<and> \<not> label then p\<lparr>pm_false_positives := pm_false_positives p + 1\<rparr>
      else if \<not> fired \<and> label then p\<lparr>pm_false_negatives := pm_false_negatives p + 1\<rparr>
      else p\<lparr>pm_true_negatives := pm_true_negatives p + 1\<rparr>)"

definition score_all :: "rule_match list \<Rightarrow> bool \<Rightarrow> (string, perf_metrics) dict \<Rightarrow> (string, perf_metrics) dict" where
  "score_all ms label metrics =
     map (\<lambda>(i, p). (i, score_label (i \<in> set (map rm_rule_id ms)) label p)) metrics"

fun backtest_loop ::
  "((real \<times> txn) \<times> bool \<times> rule_ctx option) list \<Rightarrow> (string, perf_metrics) dict \<Rightarrow> rule_engine
   \<Rightarrow> (string, perf_metrics) dict res \<times> rule_engine" where
  "backtest_loop [] metrics g = (Inr metrics, g)"
| "backtest_loop (((el, t), label, c) # es) metrics g =
     (case evaluate el t c g of
        (Inl ex, g1) \<Rightarrow> (Inl ex, g1)
      | (Inr r, g1) \<Rightarrow> backtest_loop es (score_all (rr_triggered_rules r) label metrics) g1)"

definition fresh_metrics :: "fraud_rule list \<Rightarrow> (string, perf_metrics) dict" where
  "fresh_metrics rules = fold (\<lambda>r d. dset (fr_id r) (new_perf (fr_id r)) d) (filter fr_enabled rules) []"

definition backtest ::
  "(real \<times> txn) list \<Rightarrow> bool list \<Rightarrow> rule_ctx option list option \<Rightarrow> rule_engine
   \<Rightarrow> (string, perf_metrics) dict res \<times> rule_engine" where
  "backtest txns labels contexts g =
     (case backtest_loop (zip txns (zip labels (pad_contexts txns contexts))) (fresh_metrics (re_rules g)) g of
        (Inl ex, g1) \<Rightarrow> (Inl ex, g1)
      | (Inr metrics, g1) \<Rightarrow>
          (Inr metrics, g1\<lparr>re_rule_metrics := fold (\<lambda>(i, p) d. dset i p d) metrics (re_rule_metrics g1)\<rparr>))"

definition get_backtest_summary :: "rule_engine \<Rightarrow> (string, (string, pyval) dict) dict" where
  "get_backtest_summary g =
     map (\<lambda>(i, p). (i, perf_to_dict p)) (filter (\<lambda>(i, p). 0 < total_evaluated p) (re_rule_metrics g))"

end
