(* ===== verification/Scoring.thy ===== *)
theory Scoring
  imports Fraud_Rules
begin

text \<open>
  The unified scoring pipeline of \<^verbatim>\<open>src/fraud_detection/scoring_pipeline.py\<close>: the LRU score cache, the
  three scoring methods, the ensemble, the risk classification and the synchronous and
  asynchronous entry points. The rule engine is the one of \<^verbatim>\<open>Fraud_Rules\<close>. The two trained models are
  functions that may raise; \<^verbatim>\<open>str()\<close> on field values and \<^verbatim>\<open>sha256\<close> are functions of the cache-key
  definition. Logging is left out.
\<close>

section \<open>Data\<close>

datatype risk_class = RC_LOW | RC_MEDIUM | RC_HIGH | RC_CRITICAL

fun risk_value :: "risk_class \<Rightarrow> string" where
  "risk_value RC_LOW = ''low''"
| "risk_value RC_MEDIUM = ''medium''"
| "risk_value RC_HIGH = ''high''"
| "risk_value RC_CRITICAL = ''critical''"

text \<open>The texts of the \<^verbatim>\<open>error\<close> field.\<close>

datatype method_error = NotInitialized | Raised pyexn | TimedOut

record method_result =
  sm_method :: string
  sm_raw_score :: real
  sm_normalized_score :: real
  sm_weight :: real
  sm_weighted_score :: real
  sm_latency_ms :: real
  sm_success :: bool
  sm_error :: "method_error option"
  sm_details :: "(string, pyval) dict"

record unified_score =
  us_transaction_id :: pyval
  us_final_score :: real
  us_risk_classification :: risk_class
  us_method_scores :: "method_result list"
  us_ensemble_weights_used :: "(string, real) dict"
  us_total_latency_ms :: real
  us_methods_succeeded :: nat
  us_methods_failed :: nat
  us_alert_recommended :: bool
  us_auto_block_recommended :: bool
  us_cached :: bool

fun error_value :: "(pyexn \<Rightarrow> string) \<Rightarrow> method_error option \<Rightarrow> pyval" where
  "error_value show_exn None = PNone"
| "error_value show_exn (Some NotInitialized) = PStr ''not initialized''"
| "error_value show_exn (Some (Raised ex)) = PStr (show_exn ex)"
| "error_value show_exn (Some TimedOut) = PStr ''Timed out''"

definition method_to_dict :: "(pyexn \<Rightarrow> string) \<Rightarrow> method_result \<Rightarrow> (string, pyval) dict" where
  "method_to_dict show_exn r =
     [(''method'', PStr (sm_method r)), (''raw_score'', PFloat (py_round 6 (sm_raw_score r))),
      (''normalized_score'', PFloat (py_round 6 (sm_normalized_score r))), (''weight'', PFloat (sm_weight r)),
      (''weighted_score'', PFloat (py_round 6 (sm_weighted_score r))), (''latency_ms'', PFloat (py_round 3 (sm_latency_ms r))),
      (''success'', PBool (sm_success r)), (''error'', error_value show_exn (sm_error r))]"

definition unified_to_dict :: "(pyexn \<Rightarrow> string) \<Rightarrow> unified_score \<Rightarrow> (string, pyval) dict" where
  "unified_to_dict show_exn u =
     [(''transaction_id'', us_transaction_id u), (''final_score'', PFloat (py_round 6 (us_final_score u))),
      (''risk_classification'', PStr (risk_value (us_risk_classification u))),
      (''method_scores'', PList (map (\<lambda>r. PDict (method_to_dict show_exn r)) (us_method_scores u))),
      (''ensemble_weights_used'', PDict (map (\<lambda>(k, w). (k, PFloat w)) (us_ensemble_weights_used u))),
      (''total_latency_ms'', PFloat (py_round 3 (us_total_latency_ms u))),
      (''methods_succeeded'', PInt (int (us_methods_succeeded u))), (''methods_failed'', PInt (int (us_methods_failed u))),
      (''alert_recommended'', PBool (us_alert_recommended u)), (''auto_block_recommended'', PBool (us_auto_block_recommended u)),
      (''cached'', PBool (us_cached u)), (''scoring_version'', PStr ''1.0.0'')]"

section \<open>The LRU cache\<close>

record lru_cache =
  ru_max_entries :: int
  ru_ttl_seconds :: real
  ru_cache :: "(string, real \<times> unified_score) dict"
  ru_hits :: nat
  ru_misses :: nat

definition new_lru :: "int \<Rightarrow> real \<Rightarrow> lru_cache" where
  "new_lru n ttl = \<lparr>ru_max_entries = n, ru_ttl_seconds = ttl, ru_cache = [], ru_hits = 0, ru_misses = 0\<rparr>"

text \<open>\<^verbatim>\<open>move_to_end\<close> and \<^verbatim>\<open>popitem(last=False)\<close> of an ordered dictionary.\<close>

definition move_to_end :: "'k \<Rightarrow> ('k, 'v) dict \<Rightarrow> ('k, 'v) dict" where
  "move_to_end k d = (case dget d k of None \<Rightarrow> d | Some v \<Rightarrow> ddel k d @ [(k, v)])"

definition lru_get :: "seconds \<Rightarrow> string \<Rightarrow> lru_cache \<Rightarrow> unified_score option \<times> lru_cache" where
  "lru_get now key c =
     (case dget (ru_cache c) key of
        None \<Rightarrow> (None, c\<lparr>ru_misses := ru_misses c + 1\<rparr>)
      | Some (timestamp, score) \<Rightarrow>
          if now - timestamp > ru_ttl_seconds c
          then (None, c\<lparr>ru_cache := ddel key (ru_cache c), ru_misses := ru_misses c + 1\<rparr>)
          else (let cached_score = score\<lparr>us_cached := True\<rparr>
                in (Some cached_score,
                    c\<lparr>ru_cache := dset key (timestamp, cached_score) (move_to_end key (ru_cache c)),
                      ru_hits := ru_hits c + 1\<rparr>)))"

definition lru_put :: "seconds \<Rightarrow> string \<Rightarrow> unified_score \<Rightarrow> lru_cache \<Rightarrow> unit res \<times> lru_cache" where
  "lru_put now key score c =
     (if dget (ru_cache c) key \<noteq> None
      then (Inr (), c\<lparr>ru_cache := dset key (now, score) (move_to_end key (ru_cache c))\<rparr>)
      else if ru_max_entries c \<le> int (length (ru_cache c))
      then (if ru_cache c = [] then (Inl KeyError, c)
            else (Inr (), c\<lparr>ru_cache := dset key (now, score) (tl (ru_cache c))\<rparr>))
      else (Inr (), c\<lparr>ru_cache := dset key (now, score) (ru_cache c)\<rparr>))"

definition lru_invalidate :: "string \<Rightarrow> lru_cache \<Rightarrow> lru_cache" where
  "lru_invalidate key c = c\<lparr>ru_cache := ddel key (ru_cache c)\<rparr>"

definition lru_clear :: "lru_cache \<Rightarrow> lru_cache" where
  "lru_clear c = c\<lparr>ru_cache := [], ru_hits := 0, ru_misses := 0\<rparr>"

definition lru_stats :: "lru_cache \<Rightarrow> (string, pyval) dict" where
  "lru_stats c =
     (let tot = ru_hits c + ru_misses c
      in [(''size'', PInt (int (length (ru_cache c)))), (''max_entries'', PInt (ru_max_entries c)),
          (''hits'', PInt (int (ru_hits c))), (''misses'', PInt (int (ru_misses c))),
          (''hit_rate'', PFloat (if tot > 0 then real (ru_hits c) / real tot else 0))])"

section \<open>The pipeline\<close>

record anomaly_out =
  ao_anomaly_score :: real
  ao_is_anomaly :: bool
  ao_confidence :: real
  ao_model_version :: string

record risk_out =
  ro_risk_score :: real
  ro_raw_score :: real
  ro_risk_level :: string
  ro_confidence :: real
  ro_model_version :: string
  ro_top_features :: "pyval list"

record scoring_pipeline =
  sp_weights :: "(string, real) dict"
  sp_medium :: real
  sp_high :: real
  sp_critical :: real
  sp_alert_threshold :: real
  sp_auto_block_threshold :: real
  sp_fallback_on_timeout :: bool
  sp_min_methods_required :: nat
  sp_score_inversion :: bool
  sp_min_confidence :: real
  sp_confidence_penalty :: real
  sp_max_batch_size :: nat
  sp_cache :: "lru_cache option"
  sp_rule_engine :: "rule_engine option"
  sp_anomaly_detector :: "(txn \<Rightarrow> anomaly_out res) option"
  sp_risk_scorer :: "(txn \<Rightarrow> risk_out res) option"
  sp_total_scored :: nat
  sp_total_latency_ms :: real
  sp_classification_counts :: "(string, nat) dict"

fun weights_in_range :: "(string, real) dict \<Rightarrow> bool" where
  "weights_in_range [] = True"
| "weights_in_range ((k, w) # ws) = (\<not> (w < 0 \<or> 1 < w) \<and> weights_in_range ws)"

definition validate_weights :: "(string, real) dict \<Rightarrow> unit res" where
  "validate_weights ws =
     (if \<bar>sum_list (map snd ws) - 1\<bar> > 1 / 10 ^ 6 then Inl ValueError
      else if \<not> weights_in_range ws then Inl ValueError else Inr ())"

text \<open>
  What the constructor reads from the configuration, with its types (the time limit is an argument of the asynchronous scoring), and the defaults it takes where the
  configuration has nothing. Weights given as an argument come first.
\<close>

record scoring_settings =
  ss_rule_weight :: real
  ss_anomaly_weight :: real
  ss_ml_weight :: real
  ss_medium :: real
  ss_high :: real
  ss_critical :: real
  ss_alert_threshold :: real
  ss_auto_block_threshold :: real
  ss_fallback_on_timeout :: bool
  ss_min_methods_required :: nat
  ss_score_inversion :: bool
  ss_min_confidence :: real
  ss_confidence_penalty :: real
  ss_max_batch_size :: nat
  ss_cache_enabled :: bool
  ss_cache_entries :: int
  ss_cache_ttl :: real

definition default_settings :: scoring_settings where
  "default_settings =
     \<lparr>ss_rule_weight = 3 / 10, ss_anomaly_weight = 3 / 10, ss_ml_weight = 2 / 5, ss_medium = 3 / 10, ss_high = 3 / 5, ss_critical = 17 / 20,
      ss_alert_threshold = 3 / 5, ss_auto_block_threshold = 9 / 10, ss_fallback_on_timeout = True, ss_min_methods_required = 2,
      ss_score_inversion = True, ss_min_confidence = 1 / 2, ss_confidence_penalty = 1 / 2, ss_max_batch_size = 1000, ss_cache_enabled = True,
      ss_cache_entries = 100000, ss_cache_ttl = 300\<rparr>"

definition configured_weights :: "scoring_settings \<Rightarrow> (string, real) dict" where
  "configured_weights cfg = [(''rule_score'', ss_rule_weight cfg), (''anomaly_score'', ss_anomaly_weight cfg), (''ml_score'', ss_ml_weight cfg)]"

definition configured_pipeline ::
  "scoring_settings \<Rightarrow> rule_engine option \<Rightarrow> (txn \<Rightarrow> anomaly_out res) option \<Rightarrow> (txn \<Rightarrow> risk_out res) option
   \<Rightarrow> (string, real) dict \<Rightarrow> scoring_pipeline res" where
  "configured_pipeline cfg rules anomaly risk weights =
     (let ws = (if weights = [] then configured_weights cfg else weights)
      in res_bind (validate_weights ws) (\<lambda>_.
         Inr \<lparr>sp_weights = ws, sp_medium = ss_medium cfg, sp_high = ss_high cfg, sp_critical = ss_critical cfg,
              sp_alert_threshold = ss_alert_threshold cfg, sp_auto_block_threshold = ss_auto_block_threshold cfg,
              sp_fallback_on_timeout = ss_fallback_on_timeout cfg, sp_min_methods_required = ss_min_methods_required cfg,
              sp_score_inversion = ss_score_inversion cfg, sp_min_confidence = ss_min_confidence cfg,
              sp_confidence_penalty = ss_confidence_penalty cfg, sp_max_batch_size = ss_max_batch_size cfg,
              sp_cache = (if ss_cache_enabled cfg then Some (new_lru (ss_cache_entries cfg) (ss_cache_ttl cfg)) else None),
              sp_rule_engine = rules, sp_anomaly_detector = anomaly, sp_risk_scorer = risk,
              sp_total_scored = 0, sp_total_latency_ms = 0,
              sp_classification_counts = [(''low'', 0), (''medium'', 0), (''high'', 0), (''critical'', 0)]\<rparr>))"

text \<open>The pipeline without a configuration.\<close>

definition new_pipeline ::
  "rule_engine option \<Rightarrow> (txn \<Rightarrow> anomaly_out res) option \<Rightarrow> (txn \<Rightarrow> risk_out res) option
   \<Rightarrow> (string, real) dict \<Rightarrow> scoring_pipeline res" where
  "new_pipeline = configured_pipeline default_settings"

lemmas new_pipeline_defs = new_pipeline_def configured_pipeline_def default_settings_def configured_weights_def

text \<open>\<^verbatim>\<open>update_weights\<close> assigns before it validates.\<close>

definition update_weights :: "(string, real) dict \<Rightarrow> scoring_pipeline \<Rightarrow> unit res \<times> scoring_pipeline" where
  "update_weights ws p = (validate_weights ws, p\<lparr>sp_weights := ws\<rparr>)"

definition pipeline_metrics :: "scoring_pipeline \<Rightarrow> (string, pyval) dict" where
  "pipeline_metrics p =
     (let avg_latency = (if sp_total_scored p > 0 then sp_total_latency_ms p / real (sp_total_scored p) else 0)
      in [(''total_scored'', PInt (int (sp_total_scored p))), (''avg_latency_ms'', PFloat (py_round 3 avg_latency)),
          (''classification_distribution'', PDict (map (\<lambda>(k, n). (k, PInt (int n))) (sp_classification_counts p))),
          (''cache_stats'', case sp_cache p of None \<Rightarrow> PNone | Some c \<Rightarrow> PDict (lru_stats c))])"

section \<open>Scoring methods\<close>

definition weight_of :: "string \<Rightarrow> scoring_pipeline \<Rightarrow> real res" where
  "weight_of k p = (case dget (sp_weights p) k of None \<Rightarrow> Inl KeyError | Some w \<Rightarrow> Inr w)"

definition failed_method :: "string \<Rightarrow> real \<Rightarrow> real \<Rightarrow> method_error \<Rightarrow> method_result" where
  "failed_method name w lat err =
     \<lparr>sm_method = name, sm_raw_score = 0, sm_normalized_score = 0, sm_weight = w, sm_weighted_score = 0,
      sm_latency_ms = lat, sm_success = False, sm_error = Some err, sm_details = []\<rparr>"

definition scored_method :: "string \<Rightarrow> real \<Rightarrow> real \<Rightarrow> real \<Rightarrow> real \<Rightarrow> (string, pyval) dict \<Rightarrow> method_result" where
  "scored_method name raw normalized w lat details =
     \<lparr>sm_method = name, sm_raw_score = raw, sm_normalized_score = normalized, sm_weight = w,
      sm_weighted_score = normalized * w, sm_latency_ms = lat, sm_success = True, sm_error = None, sm_details = details\<rparr>"

text \<open>
  The three methods. A missing weight raises \<^verbatim>\<open>KeyError\<close> in the body and again in the handler, so it
  leaves the method. \<open>el\<close> is the time of the evaluation and \<open>lat\<close> that of the method.
\<close>

definition score_rules ::
  "real \<Rightarrow> real \<Rightarrow> txn \<Rightarrow> rule_ctx option \<Rightarrow> scoring_pipeline \<Rightarrow> method_result res \<times> scoring_pipeline" where
  "score_rules el lat txn ctx p =
     (case sp_rule_engine p of
        None \<Rightarrow> (res_bind (weight_of ''rule_score'' p) (\<lambda>w. Inr (failed_method ''rule_engine'' w 0 NotInitialized)), p)
      | Some g \<Rightarrow>
          (case evaluate el txn ctx g of
             (Inl ex, g1) \<Rightarrow>
               (res_bind (weight_of ''rule_score'' p) (\<lambda>w. Inr (failed_method ''rule_engine'' w lat (Raised ex))),
                p\<lparr>sp_rule_engine := Some g1\<rparr>)
           | (Inr result, g1) \<Rightarrow>
               (let normalized = min 1 (max 0 (rr_rule_score result))
                in (res_bind (weight_of ''rule_score'' p) (\<lambda>w.
                      Inr (scored_method ''rule_engine'' (rr_rule_score result) normalized w lat
                        [(''triggered_rules'', PInt (int (triggered_count result))),
                         (''combined_severity'', PStr (rr_combined_severity result)),
                         (''rules_evaluated'', PInt (int (rr_total_rules_evaluated result)))])),
                    p\<lparr>sp_rule_engine := Some g1\<rparr>))))"

definition score_anomaly :: "real \<Rightarrow> txn \<Rightarrow> scoring_pipeline \<Rightarrow> method_result res" where
  "score_anomaly lat txn p =
     res_bind (weight_of ''anomaly_score'' p) (\<lambda>w.
       case sp_anomaly_detector p of
         None \<Rightarrow> Inr (failed_method ''anomaly_detector'' w 0 NotInitialized)
       | Some predict \<Rightarrow>
           (case predict txn of
              Inl ex \<Rightarrow> Inr (failed_method ''anomaly_detector'' w lat (Raised ex))
            | Inr result \<Rightarrow>
                (let raw = ao_anomaly_score result;
                     normalized = (if sp_score_inversion p then max 0 (min 1 ((1 - raw) / 2)) else max 0 (min 1 raw))
                 in Inr (scored_method ''anomaly_detector'' raw normalized w lat
                      [(''is_anomaly'', PBool (ao_is_anomaly result)), (''confidence'', PFloat (ao_confidence result)),
                       (''model_version'', PStr (ao_model_version result))]))))"

definition score_ml :: "real \<Rightarrow> txn \<Rightarrow> scoring_pipeline \<Rightarrow> method_result res" where
  "score_ml lat txn p =
     res_bind (weight_of ''ml_score'' p) (\<lambda>w.
       case sp_risk_scorer p of
         None \<Rightarrow> Inr (failed_method ''ml_model'' w 0 NotInitialized)
       | Some predict \<Rightarrow>
           (case predict txn of
              Inl ex \<Rightarrow> Inr (failed_method ''ml_model'' w lat (Raised ex))
            | Inr result \<Rightarrow>
                (let normalized = max 0 (min 1 (ro_risk_score result));
                     weight = (if ro_confidence result < sp_min_confidence p then w * sp_confidence_penalty p else w)
                 in Inr (scored_method ''ml_model'' (ro_raw_score result) normalized weight lat
                      [(''risk_level'', PStr (ro_risk_level result)), (''confidence'', PFloat (ro_confidence result)),
                       (''model_version'', PStr (ro_model_version result)),
                       (''top_features'', PList (take 3 (ro_top_features result)))]))))"

section \<open>Ensemble and classification\<close>

definition compute_ensemble_score :: "method_result list \<Rightarrow> real" where
  "compute_ensemble_score rs =
     (let successful = filter sm_success rs;
          total_weight = sum_list (map sm_weight successful)
      in if successful = [] then 0
         else if total_weight \<le> 0 then 0
         else max 0 (min 1 (sum_list (map (\<lambda>r. sm_normalized_score r * (sm_weight r / total_weight)) successful))))"

definition classify_risk :: "scoring_pipeline \<Rightarrow> real \<Rightarrow> risk_class" where
  "classify_risk p score =
     (if sp_critical p \<le> score then RC_CRITICAL
      else if sp_high p \<le> score then RC_HIGH
      else if sp_medium p \<le> score then RC_MEDIUM
      else RC_LOW)"

text \<open>\<^verbatim>\<open>transaction.get(a) or transaction.get(b, default)\<close>.\<close>

definition txn_ident :: "txn \<Rightarrow> pyval \<Rightarrow> pyval" where
  "txn_ident t dflt =
     (let x = pget t ''external_transaction_id'' in if py_bool x then x else dget_or t ''transaction_id'' dflt)"

definition generate_cache_key :: "(pyval \<Rightarrow> string) \<Rightarrow> (string \<Rightarrow> string) \<Rightarrow> txn \<Rightarrow> string" where
  "generate_cache_key py_str sha256 t =
     take 32 (sha256 (py_str (txn_ident t (PStr '''')) @ '':'' @
       py_str (dget_or t ''transaction_amount'' (PStr '''')) @ '':'' @
       py_str (dget_or t ''transaction_timestamp'' (PStr ''''))))"

section \<open>Scoring a transaction\<close>

text \<open>Readings of the clocks during one call.\<close>

record score_clock =
  cl_get :: seconds
  cl_put :: seconds
  cl_eval :: real
  cl_rules :: real
  cl_anomaly :: real
  cl_ml :: real
  cl_latency :: real

definition cache_lookup :: "seconds \<Rightarrow> string \<Rightarrow> bool \<Rightarrow> scoring_pipeline \<Rightarrow> unified_score option \<times> scoring_pipeline" where
  "cache_lookup now key use_cache p =
     (case (use_cache, sp_cache p) of
        (True, Some c) \<Rightarrow> (let (r, c') = lru_get now key c in (r, p\<lparr>sp_cache := Some c'\<rparr>))
      | _ \<Rightarrow> (None, p))"

definition cache_store :: "seconds \<Rightarrow> string \<Rightarrow> unified_score \<Rightarrow> bool \<Rightarrow> scoring_pipeline \<Rightarrow> unit res \<times> scoring_pipeline" where
  "cache_store now key u use_cache p =
     (case (use_cache, sp_cache p) of
        (True, Some c) \<Rightarrow> (let (r, c') = lru_put now key u c in (r, p\<lparr>sp_cache := Some c'\<rparr>))
      | _ \<Rightarrow> (Inr (), p))"

definition count_scored :: "real \<Rightarrow> risk_class \<Rightarrow> scoring_pipeline \<Rightarrow> scoring_pipeline" where
  "count_scored lat cls p =
     p\<lparr>sp_total_scored := sp_total_scored p + 1,
       sp_total_latency_ms := sp_total_latency_ms p + lat,
       sp_classification_counts :=
         dset (risk_value cls) (dget_or (sp_classification_counts p) (risk_value cls) 0 + 1) (sp_classification_counts p)\<rparr>"

definition unify :: "real \<Rightarrow> txn \<Rightarrow> method_result list \<Rightarrow> scoring_pipeline \<Rightarrow> unified_score" where
  "unify lat t rs p =
     (let final_score = compute_ensemble_score rs
      in \<lparr>us_transaction_id = txn_ident t (PStr ''unknown''), us_final_score = final_score,
          us_risk_classification = classify_risk p final_score, us_method_scores = rs,
          us_ensemble_weights_used = sp_weights p, us_total_latency_ms = lat,
          us_methods_succeeded = length (filter sm_success rs),
          us_methods_failed = length (filter (\<lambda>r. \<not> sm_success r) rs),
          us_alert_recommended = (sp_alert_threshold p \<le> final_score),
          us_auto_block_recommended = (sp_auto_block_threshold p \<le> final_score), us_cached = False\<rparr>)"

text \<open>The common end of both entry points: build the result, cache it, count it.\<close>

definition finish_scoring ::
  "score_clock \<Rightarrow> string \<Rightarrow> txn \<Rightarrow> bool \<Rightarrow> method_result list \<Rightarrow> scoring_pipeline \<Rightarrow> unified_score res \<times> scoring_pipeline" where
  "finish_scoring cl key t use_cache rs p =
     (let u = unify (cl_latency cl) t rs p
      in case cache_store (cl_put cl) key u use_cache p of
           (Inl ex, p1) \<Rightarrow> (Inl ex, p1)
         | (Inr _, p1) \<Rightarrow> (Inr u, count_scored (cl_latency cl) (us_risk_classification u) p1))"

text \<open>
  \<^verbatim>\<open>score_transaction_sync\<close>. The check of \<^verbatim>\<open>min_methods_required\<close> only writes a log line, so it has no part
  in the result.
\<close>

definition score_transaction_sync ::
  "(txn \<Rightarrow> string) \<Rightarrow> score_clock \<Rightarrow> txn \<Rightarrow> rule_ctx option \<Rightarrow> bool \<Rightarrow> scoring_pipeline \<Rightarrow> unified_score res \<times> scoring_pipeline" where
  "score_transaction_sync key_of cl t ctx use_cache p =
     (case cache_lookup (cl_get cl) (key_of t) use_cache p of
        (Some cached, p1) \<Rightarrow> (Inr cached, p1)
      | (None, p1) \<Rightarrow>
          (let (rule_result, p2) = score_rules (cl_eval cl) (cl_rules cl) t ctx p1
           in case res_bind rule_result (\<lambda>r1. res_bind (score_anomaly (cl_anomaly cl) t p2) (\<lambda>r2.
                     res_bind (score_ml (cl_ml cl) t p2) (\<lambda>r3. Inr [r1, r2, r3]))) of
                Inl ex \<Rightarrow> (Inl ex, p2)
              | Inr rs \<Rightarrow> finish_scoring cl (key_of t) t use_cache rs p2))"

text \<open>
  \<^verbatim>\<open>score_transaction\<close>. The three methods run in executor threads. \<open>deadline = None\<close> is the case in which
  all finish in time; \<open>Some (d1, d2, d3)\<close> the case in which \<^verbatim>\<open>wait_for\<close> times out, with \<open>di\<close> whether the
  method had finished. On a timeout \<^verbatim>\<open>wait_for\<close> cancels the gathering future, which cancels every
  child that has not finished; a cancelled child is \<^verbatim>\<open>done()\<close>, and its \<^verbatim>\<open>result()\<close> raises
  \<^verbatim>\<open>CancelledError\<close>. The thread of the rule evaluation is not interrupted, so the engine's counters
  advance in either case.
\<close>

fun task_results :: "(bool \<times> method_result res) list \<Rightarrow> method_result res list res" where
  "task_results [] = Inr []"
| "task_results ((finished, r) # ts) =
     (if \<not> finished then Inl CancelledError
      else res_bind r (\<lambda>x. res_bind (task_results ts) (\<lambda>xs. Inr (Inr x # xs))))"

fun keep_results :: "method_result res list \<Rightarrow> method_result list" where
  "keep_results [] = []"
| "keep_results (Inr r # rs) = r # keep_results rs"
| "keep_results (Inl ex # rs) = keep_results rs"

definition fill_missing :: "string \<Rightarrow> string \<Rightarrow> scoring_pipeline \<Rightarrow> string set \<Rightarrow> method_result list \<Rightarrow> method_result list res" where
  "fill_missing name wkey p present rs =
     (if name \<in> present then Inr rs
      else res_bind (weight_of wkey p) (\<lambda>w. Inr (rs @ [failed_method name w 0 TimedOut])))"

definition complete_results :: "scoring_pipeline \<Rightarrow> method_result list \<Rightarrow> method_result list res" where
  "complete_results p rs =
     (let present = sm_method ` set rs
      in res_bind (fill_missing ''rule_engine'' ''rule_score'' p present rs) (\<lambda>rs1.
         res_bind (fill_missing ''anomaly_detector'' ''anomaly_score'' p present rs1) (\<lambda>rs2.
         fill_missing ''ml_model'' ''ml_score'' p present rs2)))"

definition score_transaction ::
  "(txn \<Rightarrow> string) \<Rightarrow> (bool \<times> bool \<times> bool) option \<Rightarrow> score_clock \<Rightarrow> txn \<Rightarrow> rule_ctx option \<Rightarrow> bool
   \<Rightarrow> scoring_pipeline \<Rightarrow> unified_score res \<times> scoring_pipeline" where
  "score_transaction key_of deadline cl t ctx use_cache p =
     (case cache_lookup (cl_get cl) (key_of t) use_cache p of
        (Some cached, p1) \<Rightarrow> (Inr cached, p1)
      | (None, p1) \<Rightarrow>
          (let (r1, p2) = score_rules (cl_eval cl) (cl_rules cl) t ctx p1;
               r2 = score_anomaly (cl_anomaly cl) t p2;
               r3 = score_ml (cl_ml cl) t p2;
               results = (case deadline of
                            None \<Rightarrow> Inr [r1, r2, r3]
                          | Some (d1, d2, d3) \<Rightarrow> task_results [(d1, r1), (d2, r2), (d3, r3)])
           in case res_bind results (\<lambda>xs. complete_results p2 (keep_results xs)) of
                Inl ex \<Rightarrow> (Inl ex, p2)
              | Inr rs \<Rightarrow> finish_scoring cl (key_of t) t use_cache rs p2))"

section \<open>Batches and cache management\<close>

fun score_all_sync ::
  "(txn \<Rightarrow> string) \<Rightarrow> (score_clock \<times> txn \<times> rule_ctx option) list \<Rightarrow> bool \<Rightarrow> scoring_pipeline
   \<Rightarrow> unified_score list res \<times> scoring_pipeline" where
  "score_all_sync key_of [] use_cache p = (Inr [], p)"
| "score_all_sync key_of ((cl, t, c) # ts) use_cache p =
     (case score_transaction_sync key_of cl t c use_cache p of
        (Inl ex, p1) \<Rightarrow> (Inl ex, p1)
      | (Inr u, p1) \<Rightarrow>
          (case score_all_sync key_of ts use_cache p1 of
             (Inl ex, p2) \<Rightarrow> (Inl ex, p2)
           | (Inr us, p2) \<Rightarrow> (Inr (u # us), p2)))"

definition score_batch_sync ::
  "(txn \<Rightarrow> string) \<Rightarrow> (score_clock \<times> txn) list \<Rightarrow> rule_ctx option list option \<Rightarrow> bool \<Rightarrow> scoring_pipeline
   \<Rightarrow> unified_score list res \<times> scoring_pipeline" where
  "score_batch_sync key_of txns contexts use_cache p =
     (if txns = [] then (Inr [], p)
      else if sp_max_batch_size p < length txns then (Inl ValueError, p)
      else (let ctxs = (case contexts of None \<Rightarrow> replicate (length txns) None | Some cs \<Rightarrow> cs)
            in score_all_sync key_of (map (\<lambda>((cl, t), c). (cl, t, c)) (zip txns ctxs)) use_cache p))"

definition invalidate_cache :: "string option \<Rightarrow> scoring_pipeline \<Rightarrow> scoring_pipeline" where
  "invalidate_cache txn_id p =
     (case sp_cache p of
        None \<Rightarrow> p
      | Some c \<Rightarrow> p\<lparr>sp_cache := Some (if truthy txn_id then lru_invalidate (the txn_id) c else lru_clear c)\<rparr>)"

end
