(* ===== verification/Fraud_Rules_Properties.thy ===== *)
theory Fraud_Rules_Properties
  imports Fraud_Rules "HOL-Library.Multiset"
begin

text \<open>
  What the rule engine guarantees: which rules fire and in which order, the bounds and the
  monotonicity of the combined scores, the combined severity, when evaluation cannot raise, the
  backtest's confusion matrices, and the behaviour of single rules that differs from their
  description.
\<close>

section \<open>Results that may raise\<close>

lemma fires_Some: "(fires r b ps = Inr (Some m)) = (b \<and> m = mk_match r ps)"
  by (auto simp: fires_def)

section \<open>Matches\<close>

lemmas evaluator_defs =
  eval_high_amount_vs_avg_def eval_amount_below_threshold_def eval_round_amount_def eval_rapid_transactions_def
  eval_declined_then_approved_def eval_escalating_amounts_def eval_impossible_travel_def
  eval_international_domestic_only_def eval_high_risk_country_def eval_new_device_high_amount_def
  eval_merchant_category_mismatch_def eval_card_testing_def eval_multi_account_device_def
  eval_channel_anomaly_def eval_late_night_high_value_def eval_dormant_account_def eval_burst_after_silence_def

text \<open>The shape of an evaluator's result: nothing, an exception, or a match built from its own rule.\<close>

definition match_of :: "fraud_rule \<Rightarrow> rule_match option res \<Rightarrow> bool" where
  "match_of r x = (\<forall>m. x = Inr (Some m) \<longrightarrow> (\<exists>ps. m = mk_match r ps))"

lemma match_of_base [simp]:
  "match_of r (Inr None)" "match_of r (Inl ex)" "match_of r (fires r b ps)"
  by (auto simp: match_of_def fires_def)

lemma match_of_bind: "(\<And>v. match_of r (f v)) \<Longrightarrow> match_of r (res_bind x f)"
  by (cases x) simp_all

lemma evaluators_match:
  "match_of r (eval_high_amount_vs_avg r txn ctx)" "match_of r (eval_amount_below_threshold r txn ctx)"
  "match_of r (eval_round_amount r txn ctx)" "match_of r (eval_rapid_transactions r txn ctx)"
  "match_of r (eval_declined_then_approved r txn ctx)" "match_of r (eval_escalating_amounts r txn ctx)"
  "match_of r (eval_impossible_travel r txn ctx)" "match_of r (eval_international_domestic_only r txn ctx)"
  "match_of r (eval_high_risk_country r txn ctx)" "match_of r (eval_new_device_high_amount r txn ctx)"
  "match_of r (eval_merchant_category_mismatch r txn ctx)" "match_of r (eval_card_testing r txn ctx)"
  "match_of r (eval_multi_account_device r txn ctx)" "match_of r (eval_channel_anomaly r txn ctx)"
  "match_of r (eval_late_night_high_value r txn ctx)" "match_of r (eval_dormant_account r txn ctx)"
  "match_of r (eval_burst_after_silence r txn ctx)"
  unfolding evaluator_defs Let_def
  by (auto intro!: match_of_bind split: option.split list.split)

lemma evaluator_match: "(i, ev) \<in> set rule_evaluators \<Longrightarrow> match_of r (ev r txn ctx)"
  unfolding rule_evaluators_def by (auto simp: evaluators_match)

lemma evaluate_rule_match:
  assumes "evaluate_rule r txn ctx = Inr (Some m)"
  shows "rm_rule_id m = fr_id r \<and> rm_rule_name m = fr_name r \<and> rm_category m = fr_category r
    \<and> rm_severity m = fr_severity r \<and> rm_confidence m = fr_confidence r"
proof -
  obtain i ev where "(i, ev) \<in> set rule_evaluators" "ev r txn ctx = Inr (Some m)"
    using assms by (auto simp: evaluate_rule_def dest: map_of_SomeD split: option.splits)
  then obtain ps where "m = mk_match r ps" using evaluator_match [of i ev r txn ctx] by (auto simp: match_of_def)
  then show ?thesis by (simp add: mk_match_def)
qed

definition fired :: "txn \<Rightarrow> rule_ctx \<Rightarrow> fraud_rule list \<Rightarrow> fraud_rule list" where
  "fired txn ctx rules = filter (\<lambda>r. fr_enabled r \<and> (\<exists>m. evaluate_rule r txn ctx = Inr (Some m))) rules"

lemma eval_rules_fired:
  "eval_rules rules txn ctx = Inr ms \<Longrightarrow>
   list_all2 (\<lambda>r m. evaluate_rule r txn ctx = Inr (Some m)) (fired txn ctx rules) ms"
  by (induction rules arbitrary: ms) (auto simp: fired_def res_bind_Inr split: if_splits option.splits)

lemma eval_rules_evaluated:
  "eval_rules rules txn ctx = Inr ms \<Longrightarrow> r \<in> set rules \<Longrightarrow> fr_enabled r \<Longrightarrow> \<exists>x. evaluate_rule r txn ctx = Inr x"
  by (induction rules arbitrary: ms) (auto simp: res_bind_Inr split: if_splits)

lemma evaluate_matches:
  assumes "evaluate el txn c g = (Inr res, g')"
  shows "eval_rules (re_rules g) txn (case c of None \<Rightarrow> empty_ctx | Some x \<Rightarrow> x) = Inr (rr_triggered_rules res)"
    and "compute_combined_severity (re_severity_escalation g) (rr_triggered_rules res) = Inr (rr_combined_severity res)"
    and "rr_combined_confidence res = compute_combined_confidence (rr_triggered_rules res)"
    and "rr_rule_score res = compute_rule_score (rr_triggered_rules res)"
    and "g' = g\<lparr>re_metrics := record_result res (re_metrics g)\<rparr>"
    and "rr_total_rules_evaluated res = length (filter fr_enabled (re_rules g))"
  using assms by (auto simp: evaluate_def Let_def res_bind_Inr split: sum.splits)

lemma matches_of_rules:
  assumes "eval_rules rules txn ctx = Inr ms" "m \<in> set ms"
  shows "\<exists>r \<in> set rules. fr_enabled r \<and> rm_rule_id m = fr_id r \<and> rm_severity m = fr_severity r \<and> rm_confidence m = fr_confidence r"
proof -
  note lk = eval_rules_fired [OF assms(1)]
  obtain k where k: "k < length ms" "ms ! k = m" using assms(2) by (auto simp: in_set_conv_nth)
  have "fired txn ctx rules ! k \<in> set (fired txn ctx rules)" using k(1) list_all2_lengthD [OF lk] by simp
  moreover have "evaluate_rule (fired txn ctx rules ! k) txn ctx = Inr (Some m)" using list_all2_nthD2 [OF lk k(1)] k(2) by simp
  ultimately obtain r where "r \<in> set (fired txn ctx rules)" "evaluate_rule r txn ctx = Inr (Some m)" by blast
  then show ?thesis using evaluate_rule_match by (auto simp: fired_def)
qed

section \<open>Scores\<close>

lemma noisy_or_prod: "fold (\<lambda>c combined. combined * (1 - c)) cs (x :: real) = x * prod_list (map (\<lambda>c. 1 - c) cs)"
  by (induction cs arbitrary: x) simp_all

lemma prod_list_01:
  fixes cs :: "real list"
  assumes "\<forall>c \<in> set cs. 0 \<le> c \<and> c \<le> 1"
  shows "0 \<le> prod_list (map (\<lambda>c. 1 - c) cs) \<and> prod_list (map (\<lambda>c. 1 - c) cs) \<le> 1"
  using assms by (induction cs) (auto intro: mult_le_one)

lemma prod_list_le_factor:
  fixes cs :: "real list"
  assumes "\<forall>c \<in> set cs. 0 \<le> c \<and> c \<le> 1" "c \<in> set cs"
  shows "prod_list (map (\<lambda>c. 1 - c) cs) \<le> 1 - c"
  using assms
proof (induction cs)
  case (Cons a cs)
  have p: "0 \<le> prod_list (map (\<lambda>c. 1 - c) cs) \<and> prod_list (map (\<lambda>c. 1 - c) cs) \<le> 1"
    using Cons.prems(1) by (intro prod_list_01) simp
  show ?case
  proof (cases "c = a")
    case True
    then show ?thesis using p Cons.prems(1) by (simp add: mult_left_le)
  next
    case False
    then have "prod_list (map (\<lambda>c. 1 - c) cs) \<le> 1 - c" using Cons by simp
    moreover have "(1 - a) * prod_list (map (\<lambda>c. 1 - c) cs) \<le> prod_list (map (\<lambda>c. 1 - c) cs)"
      using p Cons.prems(1) by (intro mult_left_le_one_le) auto
    ultimately show ?thesis by simp
  qed
qed simp

definition confidences_ok :: "rule_match list \<Rightarrow> bool" where
  "confidences_ok ms = (\<forall>m \<in> set ms. 0 \<le> rm_confidence m \<and> rm_confidence m \<le> 1)"

lemma combined_confidence_eq:
  "compute_combined_confidence ms = py_round 4 (1 - prod_list (map (\<lambda>m. 1 - rm_confidence m) ms))"
  by (simp add: compute_combined_confidence_def noisy_or_prod comp_def)

lemma combined_confidence_01:
  assumes "confidences_ok ms"
  shows "0 \<le> compute_combined_confidence ms \<and> compute_combined_confidence ms \<le> 1"
  using prod_list_01 [of "map rm_confidence ms"] assms
  unfolding combined_confidence_eq by (intro py_round_01) (simp_all add: confidences_ok_def comp_def)

lemma severity_order_bounds: "0 \<le> severity_order s \<and> severity_order s \<le> 3"
  by (auto simp: severity_order_def dget_or_def)

lemma max_severity_bounds: "ms \<noteq> [] \<Longrightarrow> 0 \<le> max_severity ms \<and> max_severity ms \<le> 3"
  unfolding max_severity_def using severity_order_bounds
  by (subst Max_ge_iff, simp, simp, subst Max_le_iff, simp, simp) (auto simp: neq_Nil_conv)

lemma max_severity_mono: "ms \<noteq> [] \<Longrightarrow> set ms \<subseteq> set ms' \<Longrightarrow> max_severity ms \<le> max_severity ms'"
  unfolding max_severity_def by (intro Max_mono) auto

definition raw_score :: "rule_match list \<Rightarrow> real" where
  "raw_score ms = 1 / 2 * compute_combined_confidence ms + 3 / 10 * (of_int (max_severity ms) / 3)
     + 1 / 5 * min (real (card (set (map rm_category ms))) / 5) 1"

lemma rule_score_eq: "ms \<noteq> [] \<Longrightarrow> compute_rule_score ms = py_round 4 (min (raw_score ms) 1)"
  by (simp add: compute_rule_score_def raw_score_def Let_def)

lemma raw_score_bounds: "ms \<noteq> [] \<Longrightarrow> confidences_ok ms \<Longrightarrow> 0 \<le> raw_score ms \<and> raw_score ms \<le> 1"
  using combined_confidence_01 [of ms] max_severity_bounds [of ms]
  by (auto simp: raw_score_def min_def) 

lemma rule_score_01: "confidences_ok ms \<Longrightarrow> 0 \<le> compute_rule_score ms \<and> compute_rule_score ms \<le> 1"
  using raw_score_bounds [of ms] py_round_01 [of "min (raw_score ms) 1" 4]
  by (cases "ms = []") (simp add: compute_rule_score_def, auto simp: rule_score_eq)

lemma combined_confidence_append:
  assumes "confidences_ok (ms @ [m])"
  shows "compute_combined_confidence ms \<le> compute_combined_confidence (ms @ [m])"
proof -
  let ?p = "prod_list (map (\<lambda>m. 1 - rm_confidence m) ms)"
  have "0 \<le> ?p" using prod_list_01 [of "map rm_confidence ms"] assms by (simp add: confidences_ok_def comp_def)
  then have "?p * (1 - rm_confidence m) \<le> ?p"
    using assms by (intro mult_right_le_one_le) (auto simp: confidences_ok_def)
  then show ?thesis unfolding combined_confidence_eq by (intro py_round_mono) simp
qed

lemma raw_score_append:
  assumes "ms \<noteq> []" "confidences_ok (ms @ [m])"
  shows "raw_score ms \<le> raw_score (ms @ [m])"
proof -
  have "card (set (map rm_category ms)) \<le> card (set (map rm_category (ms @ [m])))" by (intro card_mono) auto
  moreover have "max_severity ms \<le> max_severity (ms @ [m])" using assms(1) by (intro max_severity_mono) auto
  ultimately show ?thesis
    using combined_confidence_append [OF assms(2)] unfolding raw_score_def
    by (intro add_mono mult_left_mono min.mono divide_right_mono) simp_all
qed

lemma rule_score_append:
  assumes "confidences_ok (ms @ [m])"
  shows "compute_rule_score ms \<le> compute_rule_score (ms @ [m])"
proof (cases "ms = []")
  case True
  then show ?thesis using rule_score_01 [OF assms] by (simp add: compute_rule_score_def [of "[]"])
next
  case False
  then show ?thesis
    using raw_score_append [OF False assms] unfolding rule_score_eq [OF False]
    by (subst rule_score_eq) (auto intro!: py_round_mono)
qed

lemma combined_confidence_ge:
  assumes "confidences_ok ms" "m \<in> set ms"
  shows "py_round 4 (rm_confidence m) \<le> compute_combined_confidence ms"
  using prod_list_le_factor [of "map rm_confidence ms" "rm_confidence m"] assms
  unfolding combined_confidence_eq by (intro py_round_mono) (auto simp: confidences_ok_def comp_def)

lemma severity_by_index_order: "0 \<le> i \<Longrightarrow> i \<le> 3 \<Longrightarrow> severity_order (severity_by_index i) = i"
proof -
  assume "0 \<le> i" "i \<le> 3"
  then have "i = 0 \<or> i = 1 \<or> i = 2 \<or> i = 3" by arith
  then show ?thesis by (auto simp: severity_by_index_def severity_order_def dget_or_def)
qed

section \<open>Properties of evaluation\<close>

text \<open>
  Claim C6 (which rules fire, and in which order): after a successful load, the matches of an
  evaluation are those of the enabled rules whose evaluator fires, one each, in the order of
  ascending priority, and each carries the identity, severity and confidence of its rule; every
  enabled rule was evaluated and counted.
\<close>

theorem evaluation_fires_enabled_rules:
  assumes "load_rules esc raw g0 = (Inr (), g)" "evaluate el txn (Some ctx) g = (Inr res, g')"
  shows "sorted (map fr_priority (fired txn ctx (re_rules g)))
    \<and> list_all2 (\<lambda>r m. evaluate_rule r txn ctx = Inr (Some m) \<and> rm_rule_id m = fr_id r
         \<and> rm_severity m = fr_severity r \<and> rm_confidence m = fr_confidence r)
       (fired txn ctx (re_rules g)) (rr_triggered_rules res)
    \<and> (\<forall>r \<in> set (re_rules g). fr_enabled r \<longrightarrow> (\<exists>x. evaluate_rule r txn ctx = Inr x))
    \<and> rr_total_rules_evaluated res = length (filter fr_enabled (re_rules g))"
proof -
  note ev = evaluate_matches [OF assms(2)]
  have e: "eval_rules (re_rules g) txn ctx = Inr (rr_triggered_rules res)" using ev(1) by simp
  have "sorted (map fr_priority (re_rules g))"
    using assms(1) by (auto simp: load_rules_def Let_def split: sum.splits)
  then have "sorted (map fr_priority (fired txn ctx (re_rules g)))"
    unfolding fired_def by (rule sorted_filter)
  moreover have "list_all2 (\<lambda>r m. evaluate_rule r txn ctx = Inr (Some m) \<and> rm_rule_id m = fr_id r
         \<and> rm_severity m = fr_severity r \<and> rm_confidence m = fr_confidence r)
       (fired txn ctx (re_rules g)) (rr_triggered_rules res)"
    by (rule list_all2_mono [OF eval_rules_fired [OF e]]) (use evaluate_rule_match in auto)
  ultimately show ?thesis using eval_rules_evaluated [OF e] ev(6) by blast
qed

definition demo_raw :: "(string, pyval) dict list" where
  "demo_raw =
     [[(''id'', PStr ''FRAUD-TMP-002''), (''name'', PStr ''Dormant''), (''category'', PStr ''temporal''), (''priority'', PInt 28),
       (''severity'', PStr ''high''), (''confidence'', PFloat (7 / 10))],
      [(''id'', PStr ''FRAUD-AMT-002''), (''name'', PStr ''Structuring''), (''category'', PStr ''amount''), (''priority'', PInt 5),
       (''severity'', PStr ''critical''), (''confidence'', PFloat (17 / 20))]]"

definition demo_engine :: rule_engine where
  "demo_engine = snd (load_rules [] demo_raw new_rule_engine)"

definition demo_txn :: txn where
  "demo_txn = [(''transaction_amount'', PInt 9500)]"

definition demo_ctx :: rule_ctx where
  "demo_ctx = empty_ctx\<lparr>rc_days_since_last_transaction := Some (PInt 100)\<rparr>"

lemma demo_load: "load_rules [] demo_raw new_rule_engine = (Inr (), demo_engine)"
  by (simp add: demo_engine_def load_rules_def demo_raw_def fraud_rule_from_dict_def pindex_def dget_or_def Let_def)

lemma demo_evaluate: "\<exists>res g'. evaluate 0 demo_txn (Some demo_ctx) demo_engine = (Inr res, g')
    \<and> map rm_rule_id (rr_triggered_rules res) = [''FRAUD-AMT-002'', ''FRAUD-TMP-002'']"
  by (simp add: demo_engine_def load_rules_def demo_raw_def fraud_rule_from_dict_def pindex_def dget_or_def Let_def
      evaluate_def new_rule_engine_def evaluate_rule_def rule_evaluators_def evaluator_defs param_num_def fires_def
      demo_txn_def demo_ctx_def empty_ctx_def days_since_def opt_or_def safe_float_def amount_of_def pget_def mk_match_def
      compute_combined_severity_def)

theorem evaluation_fires_enabled_rules_witness:
  "\<exists>res g'. evaluate 0 demo_txn (Some demo_ctx) demo_engine = (Inr res, g')
     \<and> list_all2 (\<lambda>r m. rm_rule_id m = fr_id r) (fired demo_txn demo_ctx (re_rules demo_engine)) (rr_triggered_rules res)
     \<and> map rm_rule_id (rr_triggered_rules res) = [''FRAUD-AMT-002'', ''FRAUD-TMP-002'']"
proof -
  obtain res g' where r: "evaluate 0 demo_txn (Some demo_ctx) demo_engine = (Inr res, g')"
    "map rm_rule_id (rr_triggered_rules res) = [''FRAUD-AMT-002'', ''FRAUD-TMP-002'']"
    using demo_evaluate by (elim exE conjE)
  have "list_all2 (\<lambda>r m. rm_rule_id m = fr_id r) (fired demo_txn demo_ctx (re_rules demo_engine)) (rr_triggered_rules res)"
    using evaluation_fires_enabled_rules [OF demo_load r(1)] by (auto elim: list_all2_mono)
  with r show ?thesis by (intro exI conjI)
qed

text \<open>
  Remark (scores are probabilities): when the confidences of the loaded rules lie in the unit
  interval, so do the combined confidence and the rule score, and the combined confidence is at
  least the confidence of every match, up to the rounding to four places.
\<close>

theorem rule_scores_bounded:
  assumes "\<forall>r \<in> set (re_rules g). 0 \<le> fr_confidence r \<and> fr_confidence r \<le> 1"
    and "evaluate el txn c g = (Inr res, g')"
  shows "0 \<le> rr_rule_score res \<and> rr_rule_score res \<le> 1
    \<and> 0 \<le> rr_combined_confidence res \<and> rr_combined_confidence res \<le> 1
    \<and> (\<forall>m \<in> set (rr_triggered_rules res). py_round 4 (rm_confidence m) \<le> rr_combined_confidence res)"
proof -
  note ev = evaluate_matches [OF assms(2)]
  have "confidences_ok (rr_triggered_rules res)"
    using matches_of_rules [OF ev(1)] assms(1) unfolding confidences_ok_def by fastforce
  then show ?thesis
    unfolding ev(3,4) using rule_score_01 combined_confidence_01 combined_confidence_ge by blast
qed

theorem rule_scores_bounded_witness:
  "\<exists>res g'. evaluate 0 demo_txn (Some demo_ctx) demo_engine = (Inr res, g') \<and> rr_rule_score res \<le> 1"
proof -
  obtain res g' where r: "evaluate 0 demo_txn (Some demo_ctx) demo_engine = (Inr res, g')"
    using demo_evaluate by (elim exE conjE)
  have "\<forall>r \<in> set (re_rules demo_engine). 0 \<le> fr_confidence r \<and> fr_confidence r \<le> 1"
    by (simp add: demo_engine_def load_rules_def demo_raw_def fraud_rule_from_dict_def pindex_def dget_or_def Let_def)
  from rule_scores_bounded [OF this r] r show ?thesis by blast
qed

text \<open>
  Remark (more evidence never lowers the score): one more match never decreases the combined
  confidence or the rule score.
\<close>

theorem rule_score_monotone:
  assumes "\<forall>x \<in> set (ms @ [m]). 0 \<le> rm_confidence x \<and> rm_confidence x \<le> 1"
  shows "compute_combined_confidence ms \<le> compute_combined_confidence (ms @ [m])
    \<and> compute_rule_score ms \<le> compute_rule_score (ms @ [m])"
  using combined_confidence_append rule_score_append assms unfolding confidences_ok_def by blast

definition demo_match :: "string \<Rightarrow> real \<Rightarrow> rule_match" where
  "demo_match sev c = \<lparr>rm_rule_id = ''r'', rm_rule_name = ''n'', rm_category = ''amount'', rm_severity = sev,
     rm_confidence = c, rm_parameters = []\<rparr>"

theorem rule_score_monotone_witness:
  "compute_rule_score [demo_match ''low'' (1 / 2)] \<le> compute_rule_score ([demo_match ''low'' (1 / 2)] @ [demo_match ''high'' (1 / 4)])"
  using rule_score_monotone [of "[demo_match ''low'' (1 / 2)]" "demo_match ''high'' (1 / 4)"] by (simp add: demo_match_def)

text \<open>
  Remark (severity escalation): with escalation enabled and a positive number of rules per tier, the
  combined severity is the highest severity of the matches raised by one tier for every
  \<^verbatim>\<open>rules_per_tier\<close> matches after the first, and stops at critical; with escalation disabled it is the
  highest severity itself.
\<close>

theorem combined_severity_tiers:
  assumes "evaluate el txn c g = (Inr res, g')" "rr_triggered_rules res \<noteq> []"
    and "dget (re_severity_escalation g) ''enabled'' = Some (PBool b)"
    and "dget (re_severity_escalation g) ''rules_per_tier'' = Some (PInt k)" "0 < k"
  shows "severity_order (rr_combined_severity res) =
    (if b then min (max_severity (rr_triggered_rules res) + (int (length (rr_triggered_rules res)) - 1) div k) 3
     else max_severity (rr_triggered_rules res))"
proof -
  let ?ms = "rr_triggered_rules res"
  note b = max_severity_bounds [OF assms(2)]
  have n: "1 \<le> int (length ?ms)" using assms(2) by (cases ?ms) simp_all
  have x: "0 \<le> (int (length ?ms) - 1) div k" using n assms(2,5) by (simp add: pos_imp_zdiv_nonneg_iff)
  have one: "\<not> 1 < length ?ms \<Longrightarrow> (int (length ?ms) - 1) div k = 0"
    using n by (subgoal_tac "length ?ms = 1") auto
  have "Inr (rr_combined_severity res) = compute_combined_severity (re_severity_escalation g) ?ms"
    using evaluate_matches(2) [OF assms(1)] by simp
  also have "\<dots> = Inr (severity_by_index (if b then min (max_severity ?ms + (int (length ?ms) - 1) div k) 3 else max_severity ?ms))"
    using assms(2-5) one b by (auto simp: compute_combined_severity_def dget_or_def Let_def)
  finally show ?thesis using b x by (auto simp: severity_by_index_order)
qed

definition demo_esc_engine :: rule_engine where
  "demo_esc_engine = demo_engine\<lparr>re_severity_escalation := [(''enabled'', PBool True), (''rules_per_tier'', PInt 2)]\<rparr>"

theorem combined_severity_tiers_witness:
  "\<exists>res g'. evaluate 0 demo_txn (Some demo_ctx) demo_esc_engine = (Inr res, g') \<and> severity_order (rr_combined_severity res) = 3"
proof -
  obtain res g' where r: "evaluate 0 demo_txn (Some demo_ctx) demo_esc_engine = (Inr res, g')"
    "map rm_severity (rr_triggered_rules res) = [''critical'', ''high'']"
    by (simp add: demo_esc_engine_def demo_engine_def load_rules_def demo_raw_def fraud_rule_from_dict_def pindex_def
        dget_or_def Let_def evaluate_def new_rule_engine_def evaluate_rule_def rule_evaluators_def evaluator_defs
        param_num_def fires_def demo_txn_def demo_ctx_def empty_ctx_def days_since_def opt_or_def safe_float_def
        amount_of_def pget_def mk_match_def compute_combined_severity_def)
  have l: "length (rr_triggered_rules res) = 2" using r(2) by (metis length_map list.size(3,4) numeral_2_eq_2 plus_1_eq_Suc add.commute One_nat_def)
  have "max_severity (rr_triggered_rules res) = Max (set (map severity_order (map rm_severity (rr_triggered_rules res))))"
    by (simp add: max_severity_def image_image)
  also have "\<dots> = 3" unfolding r(2) by (simp add: severity_order_def dget_or_def)
  finally have m: "max_severity (rr_triggered_rules res) = 3" .
  have "rr_triggered_rules res \<noteq> []" using l by auto
  from combined_severity_tiers [OF r(1) this, of True 2] r(1) m l show ?thesis
    by (auto simp: demo_esc_engine_def)
qed

section \<open>Evaluation without exceptions\<close>

text \<open>
  Parameters with which no evaluator can raise: numbers everywhere, except that the list of
  countries is a list, the number of transactions a positive integer and the modulus not zero.
\<close>

fun is_num :: "pyval \<Rightarrow> bool" where
  "is_num (PBool b) = True" | "is_num (PInt n) = True" | "is_num (PFloat x) = True" | "is_num _ = False"

definition param_ok :: "string \<Rightarrow> pyval \<Rightarrow> bool" where
  "param_ok k v =
     (if k = ''high_risk_countries'' then (\<exists>xs. v = PList xs)
      else if k = ''min_transactions'' then (\<exists>n. v = PInt n \<and> 0 < n)
      else is_num v \<and> (k = ''modulo'' \<longrightarrow> want_num v \<noteq> Inr 0))"

definition rule_ok :: "fraud_rule \<Rightarrow> bool" where
  "rule_ok r = list_all (\<lambda>(k, v). param_ok k v) (fr_parameters r)"

definition txn_ok :: "txn \<Rightarrow> bool" where
  "txn_ok t = (hashable (dget_or t ''merchant_category_code'' (PStr [])) \<and> hashable (dget_or t ''channel'' (PStr [])))"

lemma is_num_want: "is_num v \<Longrightarrow> \<exists>x. want_num v = Inr x"
  by (cases v) simp_all

lemma rule_ok_param: "rule_ok r \<Longrightarrow> dget (fr_parameters r) k = Some v \<Longrightarrow> param_ok k v"
  by (auto simp: rule_ok_def list_all_iff dest: map_of_SomeD)

lemma param_num_ok:
  assumes "rule_ok r" "k \<noteq> ''high_risk_countries''" "k \<noteq> ''min_transactions''"
  shows "\<exists>x. param_num r k d = Inr x \<and> (k = ''modulo'' \<longrightarrow> d \<noteq> 0 \<longrightarrow> x \<noteq> 0)"
proof (cases "dget (fr_parameters r) k")
  case (Some v)
  then have "param_ok k v" by (rule rule_ok_param [OF assms(1)])
  then show ?thesis using assms(2,3) is_num_want [of v] Some by (auto simp: param_ok_def param_num_def dget_or_def)
qed (simp add: param_num_def dget_or_def)

lemma param_int_ok:
  assumes "rule_ok r" "0 < d"
  shows "\<exists>n. param_int r ''min_transactions'' d = Inr n \<and> 0 < n"
  using rule_ok_param [OF assms(1), of "''min_transactions''"] assms(2)
  by (cases "dget (fr_parameters r) ''min_transactions''") (auto simp: param_int_def dget_or_def param_ok_def)

lemma param_list_ok:
  assumes "rule_ok r"
  shows "\<exists>xs. want_list (dget_or (fr_parameters r) ''high_risk_countries'' (PList [])) = Inr xs"
  using rule_ok_param [OF assms, of "''high_risk_countries''"]
  by (cases "dget (fr_parameters r) ''high_risk_countries''") (auto simp: dget_or_def param_ok_def)

lemma returns_fires [simp]: "returns (fires r b ps)"
  by (simp add: returns_def fires_def)

lemma returns_num [simp]:
  "rule_ok r \<Longrightarrow> k \<noteq> ''high_risk_countries'' \<Longrightarrow> k \<noteq> ''min_transactions'' \<Longrightarrow> returns (param_num r k d)"
  using param_num_ok [of r k d] by (auto simp: returns_def)

lemma returns_list [simp]:
  "rule_ok r \<Longrightarrow> returns (want_list (dget_or (fr_parameters r) ''high_risk_countries'' (PList [])))"
  using param_list_ok [of r] by (auto simp: returns_def)

lemma returns_mod: "m \<noteq> 0 \<Longrightarrow> returns (float_mod x m)"
  by (simp add: float_mod_def)

lemma round_amount_returns:
  assumes "rule_ok r"
  shows "returns (eval_round_amount r txn ctx)"
  unfolding eval_round_amount_def Let_def
  using assms param_num_ok [OF assms, of "''modulo''" 1000]
  by (intro returns_bind) (auto intro!: returns_bind returns_mod)

lemma last_slice_nonempty: "0 < n \<Longrightarrow> last_slice n xs = [] \<Longrightarrow> int (length xs) < n"
  by (auto simp: last_slice_def)

lemma escalating_returns:
  assumes "rule_ok r"
  shows "returns (eval_escalating_amounts r txn ctx)"
proof -
  obtain n where n: "param_int r ''min_transactions'' 3 = Inr n" "0 < n" using param_int_ok [OF assms, of 3] by auto
  show ?thesis
    unfolding eval_escalating_amounts_def Let_def n(1) res_bind.simps
    using assms by (intro returns_bind) (auto simp: not_less dest: last_slice_nonempty [OF n(2)] split: option.split list.split)
qed

lemma mcc_pct_returns: "hashable v \<Longrightarrow> returns (mcc_pct d v)"
  by (simp add: mcc_pct_def)

lemma known_channel_returns: "hashable v \<Longrightarrow> returns (known_channel d v)"
  by (simp add: known_channel_def)

lemma evaluators_return:
  assumes "rule_ok r" "txn_ok txn"
  shows "returns (eval_high_amount_vs_avg r txn ctx)" "returns (eval_amount_below_threshold r txn ctx)"
    "returns (eval_rapid_transactions r txn ctx)" "returns (eval_declined_then_approved r txn ctx)"
    "returns (eval_impossible_travel r txn ctx)" "returns (eval_international_domestic_only r txn ctx)"
    "returns (eval_high_risk_country r txn ctx)" "returns (eval_new_device_high_amount r txn ctx)"
    "returns (eval_merchant_category_mismatch r txn ctx)" "returns (eval_card_testing r txn ctx)"
    "returns (eval_multi_account_device r txn ctx)" "returns (eval_channel_anomaly r txn ctx)"
    "returns (eval_late_night_high_value r txn ctx)" "returns (eval_dormant_account r txn ctx)"
    "returns (eval_burst_after_silence r txn ctx)"
  using assms unfolding evaluator_defs Let_def txn_ok_def
  by (auto intro!: returns_bind mcc_pct_returns known_channel_returns split: option.split)

lemma evaluate_rule_returns:
  assumes "rule_ok r" "txn_ok txn"
  shows "returns (evaluate_rule r txn ctx)"
proof (cases "dget rule_evaluators (fr_id r)")
  case (Some ev)
  then have "ev \<in> set (map snd rule_evaluators)" by (force dest: map_of_SomeD)
  then have "returns (ev r txn ctx)"
    using evaluators_return [OF assms, of ctx] round_amount_returns [OF assms(1), of txn ctx] escalating_returns [OF assms(1), of txn ctx]
    unfolding rule_evaluators_def by (auto simp del: returns_base)
  with Some show ?thesis by (simp add: evaluate_rule_def)
qed (simp add: evaluate_rule_def)

lemma eval_rules_returns: "list_all rule_ok rules \<Longrightarrow> txn_ok txn \<Longrightarrow> returns (eval_rules rules txn ctx)"
  by (induction rules) (auto intro!: returns_bind evaluate_rule_returns)

text \<open>
  Remark (evaluation does not raise): when every rule has well-typed parameters with a non-zero modulus
  and a positive transaction count, the number of rules per tier is a non-zero integer, and the
  merchant category and channel of the transaction are not containers, an evaluation returns a
  result for any context, and counts itself in the engine's metrics.
\<close>

theorem evaluation_never_raises:
  assumes "list_all rule_ok (re_rules g)" "txn_ok txn"
    and "dget_or (re_severity_escalation g) ''rules_per_tier'' (PInt 2) = PInt k" "k \<noteq> 0"
  shows "\<exists>res. evaluate el txn c g = (Inr res, g\<lparr>re_metrics := record_result res (re_metrics g)\<rparr>)
    \<and> em_transactions_evaluated (record_result res (re_metrics g)) = Suc (em_transactions_evaluated (re_metrics g))
    \<and> em_total_rule_matches (record_result res (re_metrics g))
        = em_total_rule_matches (re_metrics g) + length (rr_triggered_rules res)"
proof -
  let ?ctx = "case c of None \<Rightarrow> empty_ctx | Some x \<Rightarrow> x"
  obtain ms where ms: "eval_rules (re_rules g) txn ?ctx = Inr ms"
    using eval_rules_returns [OF assms(1,2), of ?ctx] by (auto simp: returns_def)
  have "\<exists>sev. compute_combined_severity (re_severity_escalation g) ms = Inr sev"
    using assms(3,4) by (simp add: compute_combined_severity_def Let_def)
  then show ?thesis
    using ms by (auto simp: evaluate_def Let_def record_result_def triggered_count_def)
qed

theorem evaluation_never_raises_witness:
  "list_all rule_ok (re_rules demo_engine) \<and> (\<exists>res g'. evaluate 0 demo_txn None demo_engine = (Inr res, g'))"
proof -
  have "list_all rule_ok (re_rules demo_engine)"
    by (simp add: demo_engine_def load_rules_def demo_raw_def fraud_rule_from_dict_def pindex_def dget_or_def Let_def rule_ok_def)
  moreover have "txn_ok demo_txn" by (simp add: txn_ok_def demo_txn_def dget_or_def)
  ultimately show ?thesis
    using evaluation_never_raises [of demo_engine demo_txn 2 0 None]
    by (auto simp: demo_engine_def load_rules_def new_rule_engine_def dget_or_def Let_def split: sum.splits)
qed

section \<open>Backtesting\<close>

text \<open>Whether rule \<open>i\<close> fires on a labelled sample, by the rules alone.\<close>

definition sample_ctx :: "rule_ctx option \<Rightarrow> rule_ctx" where
  "sample_ctx c = (case c of None \<Rightarrow> empty_ctx | Some x \<Rightarrow> x)"

definition fires_on :: "fraud_rule list \<Rightarrow> string \<Rightarrow> (real \<times> txn) \<times> bool \<times> rule_ctx option \<Rightarrow> bool" where
  "fires_on rules i s = (case s of ((el, t), label, c) \<Rightarrow> i \<in> fr_id ` set (fired t (sample_ctx c) rules))"

definition is_fraud :: "(real \<times> txn) \<times> bool \<times> rule_ctx option \<Rightarrow> bool" where
  "is_fraud s = fst (snd s)"

definition tally :: "fraud_rule list \<Rightarrow> string \<Rightarrow> ((real \<times> txn) \<times> bool \<times> rule_ctx option) list \<Rightarrow> perf_metrics \<Rightarrow> perf_metrics" where
  "tally rules i es p =
     p\<lparr>pm_true_positives := pm_true_positives p + length (filter (\<lambda>s. fires_on rules i s \<and> is_fraud s) es),
       pm_false_positives := pm_false_positives p + length (filter (\<lambda>s. fires_on rules i s \<and> \<not> is_fraud s) es),
       pm_true_negatives := pm_true_negatives p + length (filter (\<lambda>s. \<not> fires_on rules i s \<and> \<not> is_fraud s) es),
       pm_false_negatives := pm_false_negatives p + length (filter (\<lambda>s. \<not> fires_on rules i s \<and> is_fraud s) es)\<rparr>"

lemma tally_Nil [simp]: "tally rules i [] p = p"
  by (simp add: tally_def)

lemma tally_Cons: "tally rules i (s # es) p = tally rules i es (score_label (fires_on rules i s) (is_fraud s) p)"
  by (auto simp: tally_def score_label_def)

lemma evaluate_fires_on:
  assumes "evaluate el t c g = (Inr r, g1)"
  shows "(i \<in> rm_rule_id ` set (rr_triggered_rules r)) = fires_on (re_rules g) i ((el, t), label, c)"
proof -
  have e: "eval_rules (re_rules g) t (sample_ctx c) = Inr (rr_triggered_rules r)"
    using evaluate_matches(1) [OF assms] by (simp add: sample_ctx_def)
  have "list_all2 (\<lambda>x m. fr_id x = rm_rule_id m) (fired t (sample_ctx c) (re_rules g)) (rr_triggered_rules r)"
    by (rule list_all2_mono [OF eval_rules_fired [OF e]]) (simp add: evaluate_rule_match)
  then have "map fr_id (fired t (sample_ctx c) (re_rules g)) = map rm_rule_id (rr_triggered_rules r)"
    by (simp add: list_all2_conv_all_nth list_eq_iff_nth_eq)
  then have "fr_id ` set (fired t (sample_ctx c) (re_rules g)) = rm_rule_id ` set (rr_triggered_rules r)"
    by (metis set_map)
  then show ?thesis by (simp add: fires_on_def)
qed

lemma dget_map_values: "dget (map (\<lambda>(i, p). (i, f i p)) d) k = map_option (f k) (dget d k)"
  by (induction d) auto

lemma score_all_lookup:
  "dget (score_all ms label d) i = map_option (score_label (i \<in> rm_rule_id ` set ms) label) (dget d i)"
  unfolding score_all_def by (simp add: dget_map_values)

lemma backtest_loop_tally:
  assumes "backtest_loop es d g = (Inr d', g')"
  shows "dget d' i = map_option (tally (re_rules g) i es) (dget d i) \<and> map fst d' = map fst d
    \<and> re_rules g' = re_rules g \<and> re_rule_metrics g' = re_rule_metrics g"
  using assms
proof (induction es d g rule: backtest_loop.induct)
  case (2 el t label c es d g)
  obtain r g1 where ev: "evaluate el t c g = (Inr r, g1)"
    and rest: "backtest_loop es (score_all (rr_triggered_rules r) label d) g1 = (Inr d', g')"
    using 2(2) by (auto split: prod.splits sum.splits)
  have g1: "re_rules g1 = re_rules g" "re_rule_metrics g1 = re_rule_metrics g"
    using evaluate_matches(5) [OF ev] by simp_all
  have "map fst (score_all (rr_triggered_rules r) label d) = map fst d"
    by (simp add: score_all_def comp_def case_prod_beta)
  then show ?case
    using 2(1) [OF ev [symmetric] refl rest] g1 evaluate_fires_on [OF ev, of i label]
    by (cases "dget d i") (simp_all add: score_all_lookup tally_Cons is_fraud_def)
qed (simp add: option.map_id0 map_option_idI)

lemma fold_dset_lookup:
  "dget (fold (\<lambda>(i, p) d. dset i p d) kvs d) k = (case dget (rev kvs) k of None \<Rightarrow> dget d k | Some p \<Rightarrow> Some p)"
  by (induction kvs arbitrary: d) (auto simp: dict_simps map_add_def split: option.splits)

lemma fresh_metrics_lookup:
  assumes "r \<in> set rules" "fr_enabled r"
  shows "dget (fresh_metrics rules) (fr_id r) = Some (new_perf (fr_id r))"
proof -
  have "dget (fold (\<lambda>r d. dset (fr_id r) (new_perf (fr_id r)) d) rs d) i =
      (if i \<in> fr_id ` set rs then Some (new_perf i) else dget d i)" for rs :: "fraud_rule list" and d i
    by (induction rs arbitrary: d) (auto simp: dict_simps)
  then show ?thesis using assms by (auto simp: fresh_metrics_def)
qed

lemma fresh_metrics_wf: "wf_dict (fresh_metrics rules)"
proof -
  have "wf_dict d \<Longrightarrow> wf_dict (fold (\<lambda>r d. dset (fr_id r) (new_perf (fr_id r)) d) rs d)" for rs :: "fraud_rule list" and d
    by (induction rs arbitrary: d) auto
  then show ?thesis by (simp add: fresh_metrics_def)
qed

lemma dget_rev: "wf_dict d \<Longrightarrow> dget (rev d) k = dget d k"
  by (metis map_of_eqI map_of_inject_set distinct_rev rev_map set_rev)

lemma filter_split_length: "length (filter P xs) = length (filter (\<lambda>x. Q x \<and> P x) xs) + length (filter (\<lambda>x. \<not> Q x \<and> P x) xs)"
  by (induction xs) auto

text \<open>
  Remark (backtest): a completed backtest holds, for every enabled rule, the exact confusion matrix
  of that rule over the labelled samples: each counter is the number of samples of its kind, the
  four add up to the number of samples, the fraudulent ones are those counted as true positives or
  false negatives, and the same matrix is stored in the engine.
\<close>

theorem backtest_confusion_matrix:
  assumes "backtest txns labels contexts g = (Inr metrics, g')" "r \<in> set (re_rules g)" "fr_enabled r"
  defines "samples \<equiv> zip txns (zip labels (pad_contexts txns contexts))"
  defines "p \<equiv> tally (re_rules g) (fr_id r) samples (new_perf (fr_id r))"
  shows "dget metrics (fr_id r) = Some p \<and> dget (re_rule_metrics g') (fr_id r) = Some p
    \<and> total_evaluated p = length samples
    \<and> pm_true_positives p + pm_false_negatives p = length (filter is_fraud samples)
    \<and> pm_true_positives p + pm_false_positives p = length (filter (fires_on (re_rules g) (fr_id r)) samples)"
proof -
  obtain g1 where loop: "backtest_loop samples (fresh_metrics (re_rules g)) g = (Inr metrics, g1)"
    and g': "g' = g1\<lparr>re_rule_metrics := fold (\<lambda>(i, p) d. dset i p d) metrics (re_rule_metrics g1)\<rparr>"
    using assms(1) by (auto simp: backtest_def samples_def split: prod.splits sum.splits)
  note bl = backtest_loop_tally [OF loop]
  have m: "dget metrics (fr_id r) = Some p"
    using bl [of "fr_id r"] fresh_metrics_lookup [OF assms(2,3)] by (simp add: p_def)
  have "wf_dict metrics" using bl fresh_metrics_wf by metis
  then have st: "dget (re_rule_metrics g') (fr_id r) = Some p"
    using m by (simp add: g' fold_dset_lookup dget_rev)
  have c: "length (filter is_fraud samples) = pm_true_positives p + pm_false_negatives p"
    using filter_split_length [of is_fraud samples "fires_on (re_rules g) (fr_id r)"]
    by (simp add: p_def tally_def new_perf_def)
  have f: "length (filter (fires_on (re_rules g) (fr_id r)) samples) = pm_true_positives p + pm_false_positives p"
    using filter_split_length [of "fires_on (re_rules g) (fr_id r)" samples is_fraud]
    by (simp add: p_def tally_def new_perf_def conj_commute)
  have "length samples = length (filter is_fraud samples) + length (filter (\<lambda>x. \<not> is_fraud x) samples)"
    using sum_length_filter_compl [of is_fraud samples] by simp
  moreover have "length (filter (\<lambda>x. \<not> is_fraud x) samples) = pm_false_positives p + pm_true_negatives p"
    using filter_split_length [of "\<lambda>x. \<not> is_fraud x" samples "fires_on (re_rules g) (fr_id r)"]
    by (simp add: p_def tally_def new_perf_def)
  ultimately have "total_evaluated p = length samples" unfolding total_evaluated_def c by simp
  with m st c f show ?thesis by simp
qed

definition demo_samples :: "(real \<times> txn) list" where
  "demo_samples = [(0, demo_txn), (0, [(''transaction_amount'', PInt 20)])]"

lemma demo_backtest: "\<exists>metrics g'. backtest demo_samples [True, False] None demo_engine = (Inr metrics, g')"
  by (simp add: backtest_def demo_samples_def pad_contexts_def demo_engine_def load_rules_def demo_raw_def
      fraud_rule_from_dict_def pindex_def dget_or_def Let_def evaluate_def new_rule_engine_def evaluate_rule_def
      rule_evaluators_def evaluator_defs param_num_def fires_def demo_txn_def empty_ctx_def days_since_def opt_or_def
      safe_float_def amount_of_def pget_def mk_match_def compute_combined_severity_def fresh_metrics_def)

theorem backtest_confusion_matrix_witness:
  "\<exists>metrics g' p. backtest demo_samples [True, False] None demo_engine = (Inr metrics, g')
     \<and> dget metrics ''FRAUD-AMT-002'' = Some p \<and> total_evaluated p = 2"
proof -
  obtain metrics g' where b: "backtest demo_samples [True, False] None demo_engine = (Inr metrics, g')"
    using demo_backtest by (elim exE)
  define r where "r = hd (re_rules demo_engine)"
  have r: "r \<in> set (re_rules demo_engine)" "fr_enabled r" "fr_id r = ''FRAUD-AMT-002''"
    by (simp_all add: r_def demo_engine_def load_rules_def demo_raw_def fraud_rule_from_dict_def pindex_def dget_or_def Let_def)
  from backtest_confusion_matrix [OF b r(1,2)] have
    "\<exists>p. dget metrics ''FRAUD-AMT-002'' = Some p \<and> total_evaluated p = 2"
    unfolding r(3) by (auto simp: demo_samples_def pad_contexts_def)
  with b show ?thesis by (elim exE conjE) (intro exI conjI)
qed

section \<open>Single rules\<close>

lemma close_txns_mset: "mset xs = mset ys \<Longrightarrow> mset (close_txns w t xs) = mset (close_txns w t ys)"
  by (simp add: close_txns_def)

lemma sort_mset_eq: "mset xs = mset ys \<Longrightarrow> sort xs = (sort ys :: 'a :: linorder list)"
  by (metis mset_sort properties_for_sort sorted_sort)

text \<open>
  Remark (escalating amounts ignore the order): the rule sorts the amounts before it compares them, so
  its outcome depends only on which recent transactions there are, not on the order in which they
  were made. A sequence of falling amounts matches like a rising one.
\<close>

theorem escalating_amounts_order_blind:
  assumes "mset xs = mset ys"
  shows "eval_escalating_amounts r txn (ctx\<lparr>rc_recent_transactions := xs\<rparr>)
    = eval_escalating_amounts r txn (ctx\<lparr>rc_recent_transactions := ys\<rparr>)"
proof -
  have "sort (map amount_of (close_txns w t xs) @ [amount_of txn]) = sort (map amount_of (close_txns w t ys) @ [amount_of txn])" for w t
    by (rule sort_mset_eq) (simp add: close_txns_mset [OF assms, of w t])
  moreover have "length xs = length ys" using assms by (rule mset_eq_length)
  moreover have "rc_recent_transactions (ctx\<lparr>rc_recent_transactions := zs\<rparr>) = zs" for zs by simp
  ultimately show ?thesis by (simp only: eval_escalating_amounts_def)
qed

definition falling_amounts :: "txn list" where
  "falling_amounts = map (\<lambda>a. [(''transaction_amount'', PInt a), (''transaction_timestamp'', PTime 0 None)]) [400, 200]"

definition escalating_rule :: fraud_rule where
  "escalating_rule = \<lparr>fr_id = ''FRAUD-VEL-003'', fr_name = ''Escalating Amount Pattern'', fr_description = [],
     fr_category = ''velocity'', fr_priority = 40, fr_enabled = True, fr_severity = ''medium'', fr_confidence = 3 / 5,
     fr_parameters = [], fr_tags = []\<rparr>"

definition small_txn :: txn where
  "small_txn = [(''transaction_amount'', PInt 100), (''transaction_timestamp'', PTime 0 None)]"

lemma falling_match:
  "eval_escalating_amounts escalating_rule small_txn (empty_ctx\<lparr>rc_recent_transactions := falling_amounts\<rparr>)
    = Inr (Some (mk_match escalating_rule [(''amounts'', PList [PFloat 100, PFloat 200, PFloat 400]), (''factor'', PFloat 2)]))"
  by (simp add: eval_escalating_amounts_def escalating_rule_def small_txn_def falling_amounts_def param_int_def param_num_def
      dget_or_def time_of_def pget_def close_txns_def gap_seconds_def amount_of_def safe_float_def Let_def last_slice_def
      escalates_def fires_def total_seconds_def)

theorem escalating_amounts_order_blind_witness:
  "eval_escalating_amounts escalating_rule small_txn (empty_ctx\<lparr>rc_recent_transactions := rev falling_amounts\<rparr>)
    = Inr (Some (mk_match escalating_rule [(''amounts'', PList [PFloat 100, PFloat 200, PFloat 400]), (''factor'', PFloat 2)]))"
  using escalating_amounts_order_blind [of "rev falling_amounts" falling_amounts escalating_rule small_txn empty_ctx] falling_match by simp

lemma escalates_growth:
  assumes "escalates f xs" "sorted xs" "xs \<noteq> []" "0 < hd xs" "0 \<le> f"
  shows "hd xs * f ^ (length xs - 1) \<le> last xs"
  using assms
proof (induction xs)
  case (Cons x xs)
  show ?case
  proof (cases xs)
    case (Cons y ys)
    have y: "x * f \<le> y" "0 < y" "escalates f xs" using Cons.prems Cons by (auto simp: escalates_def)
    then have "y * f ^ length ys \<le> last xs" using Cons.IH Cons.prems Cons by simp
    moreover have "x * f * f ^ length ys \<le> y * f ^ length ys" using y(1) Cons.prems(5) by (intro mult_right_mono) auto
    ultimately show ?thesis using Cons by (simp add: algebra_simps)
  qed simp
qed simp

lemma last_slice_sorted: "sorted xs \<Longrightarrow> sorted (last_slice m xs)"
  by (simp add: last_slice_def sorted_wrt_drop)

text \<open>
  Remark (escalating amounts grow geometrically): when the rule fires, the amounts it reports are
  positive and ascending, and the last is at least the first multiplied by the escalation factor
  once for each step between them.
\<close>

theorem escalating_amounts_growth:
  assumes "eval_escalating_amounts r txn ctx = Inr (Some m)" "param_num r ''escalation_factor'' 2 = Inr f" "0 \<le> f"
  shows "\<exists>xs. dget (rm_parameters m) ''amounts'' = Some (PList (map PFloat xs)) \<and> xs \<noteq> [] \<and> sorted xs
    \<and> 0 < hd xs \<and> hd xs * f ^ (length xs - 1) \<le> last xs"
proof -
  obtain k w where k: "param_int r ''min_transactions'' 3 = Inr k" "param_num r ''window_minutes'' 60 = Inr w"
    using assms(1) by (auto simp: eval_escalating_amounts_def res_bind_Inr)
  obtain ts where ts: "time_of txn = Some ts"
    using assms(1) k assms(2) by (auto simp: eval_escalating_amounts_def split: option.splits)
  define ys where "ys = map amount_of (close_txns (w * 60) ts (rc_recent_transactions ctx)) @ [amount_of txn]"
  have xs: "escalates f (last_slice k (sort ys))" "last_slice k (sort ys) \<noteq> []" "0 < hd (last_slice k (sort ys))"
    "m = mk_match r [(''amounts'', PList (map PFloat (last_slice k (sort ys)))), (''factor'', PFloat f)]"
    using assms(1) unfolding eval_escalating_amounts_def k assms(2) ts res_bind.simps option.case ys_def [symmetric] Let_def
    by (auto simp: fires_Some split: if_splits list.splits)
  have "sorted (last_slice k (sort ys))" by (simp add: last_slice_sorted)
  with escalates_growth [OF xs(1) this xs(2,3) assms(3)] xs show ?thesis
    by (intro exI [of _ "last_slice k (sort ys)"]) (simp add: mk_match_def)
qed

theorem escalating_amounts_growth_witness:
  "\<exists>xs. dget [(''amounts'', PList [PFloat 100, PFloat 200, PFloat 400]), (''factor'', PFloat 2)] ''amounts'' = Some (PList (map PFloat xs))
    \<and> hd xs * 2 ^ (length xs - 1) \<le> last xs"
proof -
  have "param_num escalating_rule ''escalation_factor'' 2 = Inr 2" by (simp add: escalating_rule_def param_num_def dget_or_def)
  from escalating_amounts_growth [OF falling_match this order.strict_implies_order [OF zero_less_numeral]] show ?thesis
    unfolding mk_match_def rule_match.select_convs by blast
qed

section \<open>Impossible travel\<close>

lemma sphere_unit: "(cos p * cos l)\<^sup>2 + (cos p * sin l)\<^sup>2 + (sin p)\<^sup>2 = (1 :: real)"
  by (simp add: power_mult_distrib sin_squared_eq algebra_simps)

lemma haversine_a_chord:
  "4 * haversine_a lat1 lon1 lat2 lon2 =
     (cos (radians lat1) * cos (radians lon1) - cos (radians lat2) * cos (radians lon2))\<^sup>2
   + (cos (radians lat1) * sin (radians lon1) - cos (radians lat2) * sin (radians lon2))\<^sup>2
   + (sin (radians lat1) - sin (radians lat2))\<^sup>2"
proof -
  let ?p1 = "radians lat1" and ?p2 = "radians lat2" and ?l1 = "radians lon1" and ?l2 = "radians lon2"
  have half: "2 * (sin (x / 2))\<^sup>2 = 1 - cos x" for x :: real
    using cos_double_sin [of "x / 2"] by simp
  have d: "radians (lat2 - lat1) = ?p2 - ?p1" "radians (lon2 - lon1) = ?l2 - ?l1"
    by (simp_all add: radians_def algebra_simps diff_divide_distrib)
  have "4 * haversine_a lat1 lon1 lat2 lon2
      = 2 * (2 * (sin ((?p2 - ?p1) / 2))\<^sup>2) + 2 * cos ?p1 * cos ?p2 * (2 * (sin ((?l2 - ?l1) / 2))\<^sup>2)"
    by (simp add: haversine_a_def Let_def d)
  also have "\<dots> = 2 * (1 - cos (?p2 - ?p1)) + 2 * cos ?p1 * cos ?p2 * (1 - cos (?l2 - ?l1))"
    by (simp only: half)
  also have "\<dots> = 2 - 2 * sin ?p1 * sin ?p2 - 2 * cos ?p1 * cos ?p2 * (cos ?l1 * cos ?l2 + sin ?l1 * sin ?l2)"
    by (simp add: cos_diff algebra_simps)
  finally have h: "4 * haversine_a lat1 lon1 lat2 lon2
      = 2 - 2 * sin ?p1 * sin ?p2 - 2 * cos ?p1 * cos ?p2 * (cos ?l1 * cos ?l2 + sin ?l1 * sin ?l2)" .
  have "(cos ?p1 * cos ?l1 - cos ?p2 * cos ?l2)\<^sup>2 + (cos ?p1 * sin ?l1 - cos ?p2 * sin ?l2)\<^sup>2 + (sin ?p1 - sin ?p2)\<^sup>2
      = ((cos ?p1 * cos ?l1)\<^sup>2 + (cos ?p1 * sin ?l1)\<^sup>2 + (sin ?p1)\<^sup>2) + ((cos ?p2 * cos ?l2)\<^sup>2 + (cos ?p2 * sin ?l2)\<^sup>2 + (sin ?p2)\<^sup>2)
        - 2 * sin ?p1 * sin ?p2 - 2 * cos ?p1 * cos ?p2 * (cos ?l1 * cos ?l2 + sin ?l1 * sin ?l2)"
    by (simp add: power2_eq_square algebra_simps)
  also have "\<dots> = 4 * haversine_a lat1 lon1 lat2 lon2" unfolding h sphere_unit by simp
  finally show ?thesis by simp
qed

lemma haversine_a_01: "0 \<le> haversine_a lat1 lon1 lat2 lon2 \<and> haversine_a lat1 lon1 lat2 lon2 \<le> 1"
proof -
  let ?x1 = "cos (radians lat1) * cos (radians lon1)" and ?y1 = "cos (radians lat1) * sin (radians lon1)" and ?z1 = "sin (radians lat1)"
  let ?x2 = "cos (radians lat2) * cos (radians lon2)" and ?y2 = "cos (radians lat2) * sin (radians lon2)" and ?z2 = "sin (radians lat2)"
  have "(?x1 - ?x2)\<^sup>2 + (?y1 - ?y2)\<^sup>2 + (?z1 - ?z2)\<^sup>2 + ((?x1 + ?x2)\<^sup>2 + (?y1 + ?y2)\<^sup>2 + (?z1 + ?z2)\<^sup>2)
      = 2 * (?x1\<^sup>2 + ?y1\<^sup>2 + ?z1\<^sup>2) + 2 * (?x2\<^sup>2 + ?y2\<^sup>2 + ?z2\<^sup>2)"
    by (simp add: power2_eq_square algebra_simps)
  also have "\<dots> = 4" by (simp only: sphere_unit)
  finally have "(?x1 - ?x2)\<^sup>2 + (?y1 - ?y2)\<^sup>2 + (?z1 - ?z2)\<^sup>2 \<le> 4"
    using zero_le_power2 [of "?x1 + ?x2"] zero_le_power2 [of "?y1 + ?y2"] zero_le_power2 [of "?z1 + ?z2"] by linarith
  moreover have "0 \<le> (?x1 - ?x2)\<^sup>2 + (?y1 - ?y2)\<^sup>2 + (?z1 - ?z2)\<^sup>2" by simp
  ultimately show ?thesis using haversine_a_chord [of lat1 lon1 lat2 lon2] by linarith
qed

lemma haversine_a_sym: "haversine_a lat1 lon1 lat2 lon2 = haversine_a lat2 lon2 lat1 lon1"
  using haversine_a_chord [of lat1 lon1 lat2 lon2] haversine_a_chord [of lat2 lon2 lat1 lon1]
  by (simp add: power2_commute)

lemma atan2_quadrant: "0 \<le> y \<Longrightarrow> 0 \<le> x \<Longrightarrow> 0 \<le> atan2 y x \<and> atan2 y x \<le> pi / 2"
  using arctan_bounded [of "y / x"] by (auto simp: atan2_def)

text \<open>
  Remark (great-circle distance): for any coordinates the two square roots of the haversine formula
  are taken of numbers that are not negative, so the function does not raise; the distance is
  symmetric, zero between equal points, and at most half the circumference of the earth.
\<close>

theorem haversine_distance:
  "0 \<le> haversine_a lat1 lon1 lat2 lon2 \<and> 0 \<le> 1 - haversine_a lat1 lon1 lat2 lon2
   \<and> haversine_miles lat1 lon1 lat2 lon2 = haversine_miles lat2 lon2 lat1 lon1
   \<and> haversine_miles lat1 lon1 lat1 lon1 = 0
   \<and> 0 \<le> haversine_miles lat1 lon1 lat2 lon2 \<and> haversine_miles lat1 lon1 lat2 lon2 \<le> pi * (39588 / 10)"
proof -
  note a = haversine_a_01 [of lat1 lon1 lat2 lon2]
  have "haversine_a lat1 lon1 lat1 lon1 = 0" by (simp add: haversine_a_def radians_def Let_def)
  then have "haversine_miles lat1 lon1 lat1 lon1 = 0" by (simp add: haversine_miles_def atan2_def Let_def)
  moreover have "0 \<le> haversine_miles lat1 lon1 lat2 lon2 \<and> haversine_miles lat1 lon1 lat2 lon2 \<le> pi * (39588 / 10)"
    using atan2_quadrant [of "sqrt (haversine_a lat1 lon1 lat2 lon2)" "sqrt (1 - haversine_a lat1 lon1 lat2 lon2)"] a
    by (simp add: haversine_miles_def Let_def)
  ultimately show ?thesis using a haversine_a_sym by (simp add: haversine_miles_def Let_def)
qed

text \<open>
  Remark (simultaneous distant transactions): the impossible-travel rule divides by the time between
  the transactions and gives up when it is zero. Two transactions at the same instant, however far
  apart, are not reported, and neither is a transaction on the equator or the prime meridian.
\<close>

theorem impossible_travel_blind_spots:
  assumes "rc_last_transaction ctx = Some l"
    and "(\<exists>t1 t2. time_of l = Some t1 \<and> time_of txn = Some t2 \<and> instant t1 = instant t2)
       \<or> safe_float (pget txn ''geo_latitude'') = 0 \<or> safe_float (pget txn ''geo_longitude'') = 0"
  shows "eval_impossible_travel r txn ctx \<noteq> Inr (Some m)"
  using assms
  by (auto simp: eval_impossible_travel_def res_bind_Inr fires_Some Let_def gap_seconds_def total_seconds_def split: if_splits)

definition sydney :: txn where
  "sydney = [(''geo_latitude'', PInt (- 33)), (''geo_longitude'', PInt 151), (''transaction_timestamp'', PTime 0 None)]"

definition london :: txn where
  "london = [(''geo_latitude'', PInt 51), (''geo_longitude'', PInt (- 1)), (''transaction_timestamp'', PTime 0 None)]"

theorem impossible_travel_blind_spots_witness:
  "\<forall>m. eval_impossible_travel escalating_rule london (empty_ctx\<lparr>rc_last_transaction := Some sydney\<rparr>) \<noteq> Inr (Some m)"
  using impossible_travel_blind_spots [of "empty_ctx\<lparr>rc_last_transaction := Some sydney\<rparr>" sydney london escalating_rule]
  by (simp add: sydney_def london_def time_of_def pget_def dget_or_def)

end
