(* ===== verification/Scoring_Properties.thy ===== *)
theory Scoring_Properties
  imports Scoring Fraud_Rules_Properties
begin

text \<open>
  What the scoring pipeline guarantees: the contract of its cache (stated as an interface and
  discharged for the LRU cache), the ensemble as a weighted mean of the methods that succeeded, the
  classification, the counters, the agreement of the two entry points, and the behaviours that
  depart from the configuration's description.
\<close>

declare map_of_eq_Some_iff [simp del] Some_eq_map_of_iff [simp del]

section \<open>Stores with a time to live\<close>

datatype ('k, 'v) store_op = Get_op seconds 'k | Put_op seconds 'k 'v | Del_op 'k

text \<open>The most recent value stored under a key and not deleted since.\<close>

fun last_put :: "('k, 'v) store_op list \<Rightarrow> 'k \<Rightarrow> (seconds \<times> 'v) option" where
  "last_put [] k = None"
| "last_put (Get_op t j # ops) k = last_put ops k"
| "last_put (Put_op t j v # ops) k = (if j = k then Some (t, v) else last_put ops k)"
| "last_put (Del_op j # ops) k = (if j = k then None else last_put ops k)"

text \<open>
  The contract of a store whose entries expire. It may forget an entry, but it never returns a
  value under a key other than the last one stored there, nor one older than its time to live.
  Operation lists are written latest first.
\<close>

locale ttl_store =
  fixes get :: "seconds \<Rightarrow> 'k \<Rightarrow> 'c \<Rightarrow> 'w option \<times> 'c"
    and put :: "seconds \<Rightarrow> 'k \<Rightarrow> 'v \<Rightarrow> 'c \<Rightarrow> 'c"
    and del :: "'k \<Rightarrow> 'c \<Rightarrow> 'c"
    and view :: "'v \<Rightarrow> 'w"
    and ttl :: "'c \<Rightarrow> real"
    and inv :: "'c \<Rightarrow> bool"
    and entry :: "'c \<Rightarrow> 'k \<Rightarrow> (seconds \<times> 'w) option"
  assumes ops_inv: "inv c \<Longrightarrow> inv (snd (get t k c))" "inv c \<Longrightarrow> inv (put t k v c)" "inv c \<Longrightarrow> inv (del k c)"
    and ops_ttl: "ttl (snd (get t k c)) = ttl c" "ttl (put t k v c) = ttl c" "ttl (del k c) = ttl c"
    and get_result: "inv c \<Longrightarrow> fst (get t k c) =
          (case entry c k of None \<Rightarrow> None | Some (s, w) \<Rightarrow> if t - s \<le> ttl c then Some w else None)"
    and get_entry: "inv c \<Longrightarrow> entry (snd (get t k c)) j \<in> {entry c j, None}"
    and put_entry: "inv c \<Longrightarrow> entry (put t k v c) k = Some (t, view v)"
    and put_other: "inv c \<Longrightarrow> j \<noteq> k \<Longrightarrow> entry (put t k v c) j \<in> {entry c j, None}"
    and del_entry: "inv c \<Longrightarrow> entry (del k c) j = (if j = k then None else entry c j)"
begin

primrec apply_op :: "('k, 'v) store_op \<Rightarrow> 'c \<Rightarrow> 'c" where
  "apply_op (Get_op t k) c = snd (get t k c)"
| "apply_op (Put_op t k v) c = put t k v c"
| "apply_op (Del_op k) c = del k c"

definition run_ops :: "('k, 'v) store_op list \<Rightarrow> 'c \<Rightarrow> 'c" where
  "run_ops ops c = foldr apply_op ops c"

lemma run_inv: "inv c \<Longrightarrow> inv (run_ops ops c)"
proof (induction ops)
  case (Cons oper ops)
  then show ?case by (cases oper) (auto simp: run_ops_def intro: ops_inv)
qed (simp add: run_ops_def)

lemma run_ttl: "ttl (run_ops ops c) = ttl c"
proof (induction ops)
  case (Cons oper ops)
  then show ?case by (cases oper) (simp_all add: run_ops_def ops_ttl)
qed (simp add: run_ops_def)

lemma run_entry:
  assumes "inv c" "\<And>j. entry c j = None"
  shows "entry (run_ops ops c) k \<in> {None, map_option (\<lambda>(s, v). (s, view v)) (last_put ops k)}"
proof (induction ops)
  case Nil
  then show ?case using assms by (simp add: run_ops_def)
next
  case (Cons oper ops)
  have i: "inv (run_ops ops c)" by (rule run_inv [OF assms(1)])
  have r: "run_ops (oper # ops) c = apply_op oper (run_ops ops c)" by (simp add: run_ops_def)
  show ?case
  proof (cases oper)
    case (Get_op t j)
    then show ?thesis using Cons get_entry [OF i, of t j k] unfolding r by auto
  next
    case (Put_op t j v)
    then show ?thesis using Cons put_entry [OF i, of t j v] put_other [OF i, of k j t v] unfolding r by auto
  next
    case (Del_op j)
    then show ?thesis using Cons del_entry [OF i, of j k] unfolding r by auto
  qed
qed

theorem fresh_result:
  assumes "inv c" "\<And>j. entry c j = None" "fst (get t k (run_ops ops c)) = Some w"
  shows "\<exists>s v. last_put ops k = Some (s, v) \<and> w = view v \<and> t - s \<le> ttl c"
  using get_result [OF run_inv [OF assms(1)], of t k ops] run_entry [OF assms(1,2), of ops k] assms(3)
  by (auto simp: run_ttl split: option.splits if_splits)

end

section \<open>The LRU cache fulfils the contract\<close>

definition lru_inv :: "lru_cache \<Rightarrow> bool" where
  "lru_inv c = (wf_dict (ru_cache c) \<and> int (length (ru_cache c)) \<le> ru_max_entries c \<and> 0 < ru_max_entries c)"

definition plain :: "unified_score \<Rightarrow> unified_score" where
  "plain u = u\<lparr>us_cached := False\<rparr>"

definition lru_entry :: "lru_cache \<Rightarrow> string \<Rightarrow> (seconds \<times> unified_score) option" where
  "lru_entry c k = map_option (\<lambda>(s, u). (s, plain u)) (dget (ru_cache c) k)"

definition lru_get_plain :: "seconds \<Rightarrow> string \<Rightarrow> lru_cache \<Rightarrow> unified_score option \<times> lru_cache" where
  "lru_get_plain now k c = (map_option plain (fst (lru_get now k c)), snd (lru_get now k c))"

definition lru_put_state :: "seconds \<Rightarrow> string \<Rightarrow> unified_score \<Rightarrow> lru_cache \<Rightarrow> lru_cache" where
  "lru_put_state now k u c = snd (lru_put now k u c)"

lemma plain_cached [simp]: "plain (u\<lparr>us_cached := b\<rparr>) = plain u" "plain (plain u) = plain u"
  by (simp_all add: plain_def)

lemma ddel_absent: "dget d k = None \<Longrightarrow> ddel k d = d"
  by (simp add: delete_id map_of_eq_None_iff)

lemma move_to_end_props:
  assumes "wf_dict d"
  shows "wf_dict (move_to_end k d)" "dget (move_to_end k d) j = dget d j" "length (move_to_end k d) = length d"
proof -
  show "wf_dict (move_to_end k d)"
    using assms by (auto simp: move_to_end_def delete_keys distinct_removeAll split: option.splits)
  show "dget (move_to_end k d) j = dget d j"
    by (auto simp: move_to_end_def map_add_def dict_simps split: option.splits)
  show "length (move_to_end k d) = length d"
  proof (cases "dget d k")
    case (Some v)
    then have "Suc (length (ddel k d)) = length d" using assms
    proof (induction d)
      case (Cons x d)
      then show ?case by (cases "fst x = k") (auto simp: ddel_absent map_of_eq_None_iff image_iff)
    qed simp
    then show ?thesis using Some by (simp add: move_to_end_def)
  qed (simp add: move_to_end_def)
qed

lemma dget_tl: "wf_dict d \<Longrightarrow> dget (tl d) j \<in> {dget d j, None}"
  by (cases d) (auto simp: map_of_eq_None_iff image_iff intro!: map_of_eq_None_iff [THEN iffD2])

lemma wf_dict_tl: "wf_dict d \<Longrightarrow> wf_dict (tl d)"
  by (cases d) simp_all

lemma lru_get_inv: "lru_inv c \<Longrightarrow> lru_inv (snd (lru_get now k c))"
  using length_delete_le [of k "ru_cache c"] move_to_end_props [of "ru_cache c" k]
  by (auto simp: lru_inv_def lru_get_def Let_def length_dset_Some split: option.splits)

lemma lru_put_inv:
  assumes "lru_inv c"
  shows "lru_inv (snd (lru_put now k u c))" "fst (lru_put now k u c) = Inr ()"
proof -
  note i = assms [unfolded lru_inv_def]
  note m = move_to_end_props [of "ru_cache c" k]
  have t: "dget (ru_cache c) k = None \<Longrightarrow> dget (tl (ru_cache c)) k = None" using dget_tl [of "ru_cache c" k] i by simp
  show "lru_inv (snd (lru_put now k u c))"
  proof (cases "dget (ru_cache c) k")
    case None
    then show ?thesis using i t wf_dict_tl [of "ru_cache c"]
      by (simp add: lru_inv_def lru_put_def length_dset_None del: map_of_eq_None_iff)
  next
    case (Some v)
    then show ?thesis using i m by (simp add: lru_inv_def lru_put_def length_dset_Some)
  qed
  show "fst (lru_put now k u c) = Inr ()" using i by (auto simp: lru_put_def)
qed

lemma lru_get_entry:
  assumes "lru_inv c"
  shows "lru_entry (snd (lru_get t k c)) j \<in> {lru_entry c j, None}"
  using assms move_to_end_props [of "ru_cache c" k]
  by (auto simp: lru_inv_def lru_entry_def lru_get_def Let_def dict_simps split: option.splits)

lemma lru_put_entry:
  assumes "lru_inv c"
  shows "lru_entry (snd (lru_put t k v c)) k = Some (t, plain v)"
    and "j \<noteq> k \<Longrightarrow> lru_entry (snd (lru_put t k v c)) j \<in> {lru_entry c j, None}"
proof -
  have wf: "wf_dict (ru_cache c)" and ne: "ru_max_entries c \<le> int (length (ru_cache c)) \<Longrightarrow> ru_cache c \<noteq> []"
    using assms by (auto simp: lru_inv_def)
  show "lru_entry (snd (lru_put t k v c)) k = Some (t, plain v)"
    using ne by (auto simp: lru_entry_def lru_put_def dict_simps)
  show "lru_entry (snd (lru_put t k v c)) j \<in> {lru_entry c j, None}" if "j \<noteq> k"
    using that ne move_to_end_props(2) [OF wf, of k j] dget_tl [OF wf, of j]
    by (auto simp: lru_entry_def lru_put_def dict_simps)
qed

interpretation lru: ttl_store lru_get_plain lru_put_state lru_invalidate plain ru_ttl_seconds lru_inv lru_entry
proof
  fix c :: lru_cache and t k v j
  show "ru_ttl_seconds (snd (lru_get_plain t k c)) = ru_ttl_seconds c"
    by (simp add: lru_get_plain_def lru_get_def Let_def split: option.splits)
  show "ru_ttl_seconds (lru_put_state t k v c) = ru_ttl_seconds c" by (simp add: lru_put_state_def lru_put_def)
  show "ru_ttl_seconds (lru_invalidate k c) = ru_ttl_seconds c" by (simp add: lru_invalidate_def)
  assume i: "lru_inv c"
  show "lru_inv (snd (lru_get_plain t k c))" using lru_get_inv [OF i] by (simp add: lru_get_plain_def)
  show "lru_inv (lru_put_state t k v c)" using lru_put_inv(1) [OF i] by (simp add: lru_put_state_def)
  show "lru_inv (lru_invalidate k c)"
    using i length_delete_le [of k "ru_cache c"] by (auto simp: lru_inv_def lru_invalidate_def)
  show "fst (lru_get_plain t k c) =
      (case lru_entry c k of None \<Rightarrow> None | Some (s, w) \<Rightarrow> if t - s \<le> ru_ttl_seconds c then Some w else None)"
    by (auto simp: lru_get_plain_def lru_get_def lru_entry_def Let_def split: option.splits)
  show "lru_entry (snd (lru_get_plain t k c)) j \<in> {lru_entry c j, None}"
    using lru_get_entry [OF i] by (simp add: lru_get_plain_def)
  show "lru_entry (lru_put_state t k v c) k = Some (t, plain v)" using lru_put_entry(1) [OF i] by (simp add: lru_put_state_def)
  show "j \<noteq> k \<Longrightarrow> lru_entry (lru_put_state t k v c) j \<in> {lru_entry c j, None}"
    using lru_put_entry(2) [OF i] by (simp add: lru_put_state_def)
  show "lru_entry (lru_invalidate k c) j = (if j = k then None else lru_entry c j)"
    by (simp add: lru_entry_def lru_invalidate_def dict_simps)
qed

section \<open>Properties of the cache\<close>

text \<open>The calls of the cache, latest first.\<close>

fun lru_apply :: "(string, unified_score) store_op \<Rightarrow> lru_cache \<Rightarrow> lru_cache" where
  "lru_apply (Get_op t k) c = snd (lru_get t k c)"
| "lru_apply (Put_op t k u) c = snd (lru_put t k u c)"
| "lru_apply (Del_op k) c = lru_invalidate k c"

definition lru_run :: "(string, unified_score) store_op list \<Rightarrow> lru_cache \<Rightarrow> lru_cache" where
  "lru_run ops c = foldr lru_apply ops c"

lemma lru_apply_op: "lru_apply oper c = lru.apply_op oper c"
proof (cases oper)
  case (Get_op t k)
  then show ?thesis by (simp only: lru_apply.simps lru.apply_op.simps lru_get_plain_def snd_conv)
next
  case (Put_op t k u)
  then show ?thesis by (simp only: lru_apply.simps lru.apply_op.simps lru_put_state_def)
next
  case (Del_op k)
  then show ?thesis by (simp only: lru_apply.simps lru.apply_op.simps)
qed

lemma lru_run_ops: "lru_run ops c = lru.run_ops ops c"
  by (induction ops) (simp_all only: lru_run_def lru.run_ops_def foldr.simps id_apply comp_apply lru_apply_op)

lemma new_lru_inv: "0 < n \<Longrightarrow> lru_inv (new_lru n ttl)" "lru_entry (new_lru n ttl) j = None" "ru_ttl_seconds (new_lru n ttl) = ttl"
  by (simp_all add: lru_inv_def new_lru_def lru_entry_def)

text \<open>
  Claim C28 (the cache is bounded and never stale): after any sequence of lookups, insertions and
  invalidations of a new cache, it holds at most its maximum number of entries, and a lookup that
  hits returns the score of the last insertion under that key (only the \<^verbatim>\<open>cached\<close> mark differs), which
  was made at most the time to live ago and has not been invalidated since.
\<close>

theorem cache_bounded_and_fresh:
  assumes "0 < n" "fst (lru_get t k (lru_run ops (new_lru n ttl))) = Some u"
  shows "int (length (ru_cache (lru_run ops (new_lru n ttl)))) \<le> n
    \<and> (\<exists>s v. last_put ops k = Some (s, v) \<and> u = v\<lparr>us_cached := True\<rparr> \<and> t - s \<le> ttl)"
proof -
  have i: "lru_inv (lru_run ops (new_lru n ttl))" unfolding lru_run_ops by (rule lru.run_inv [OF new_lru_inv(1) [OF assms(1)]])
  have m: "ru_max_entries (lru_run ops c) = ru_max_entries c" for c
  proof (induction ops)
    case (Cons oper ops)
    then show ?case
      by (cases oper) (simp_all add: lru_run_def lru_get_def lru_put_def lru_invalidate_def Let_def split: option.splits)
  qed (simp add: lru_run_def)
  have "fst (lru_get_plain t k (lru.run_ops ops (new_lru n ttl))) = Some (plain u)"
    using assms(2) by (simp add: lru_get_plain_def lru_run_ops)
  from lru.fresh_result [OF new_lru_inv(1) [OF assms(1)] new_lru_inv(2) this]
  obtain s v where "last_put ops k = Some (s, v)" "plain u = plain v" "t - s \<le> ttl" by (auto simp: new_lru_inv)
  moreover have "us_cached u" using assms(2) by (auto simp: lru_get_def Let_def split: option.splits if_splits)
  ultimately have "last_put ops k = Some (s, v) \<and> u = v\<lparr>us_cached := True\<rparr> \<and> t - s \<le> ttl"
    by (cases u; cases v) (simp add: plain_def)
  then show ?thesis using i m [of "new_lru n ttl"] by (auto simp: lru_inv_def new_lru_def)
qed

definition demo_score :: unified_score where
  "demo_score = \<lparr>us_transaction_id = PStr ''t1'', us_final_score = 1 / 2, us_risk_classification = RC_MEDIUM,
     us_method_scores = [], us_ensemble_weights_used = [], us_total_latency_ms = 0, us_methods_succeeded = 0,
     us_methods_failed = 0, us_alert_recommended = False, us_auto_block_recommended = False, us_cached = False\<rparr>"

theorem cache_bounded_and_fresh_witness:
  "fst (lru_get 100 ''k'' (lru_run [Put_op 0 ''k'' demo_score] (new_lru 1 300))) = Some (demo_score\<lparr>us_cached := True\<rparr>)
   \<and> int (length (ru_cache (lru_run [Put_op 0 ''k'' demo_score] (new_lru 1 300)))) \<le> 1"
proof -
  have h: "fst (lru_get 100 ''k'' (lru_run [Put_op 0 ''k'' demo_score] (new_lru 1 300))) = Some (demo_score\<lparr>us_cached := True\<rparr>)"
    by (simp add: lru_run_def lru_put_def new_lru_def lru_get_def Let_def)
  from cache_bounded_and_fresh [OF _ h] h show ?thesis by simp
qed

text \<open>
  Remark (eviction order): the entries are kept in order of last use. A hit and an insertion move their
  key to the end and keep the order of the others, and an insertion of a new key into a full cache
  drops exactly the entry at the front.
\<close>

theorem lru_eviction_order:
  assumes "lru_inv c" "lru_get t k c = (r, c1)" "lru_put t k u c = (x, c2)"
  shows "(r \<noteq> None \<longrightarrow> map fst (ru_cache c1) = remove1 k (map fst (ru_cache c)) @ [k])
    \<and> map fst (ru_cache c2) =
        (if k \<in> set (map fst (ru_cache c)) then remove1 k (map fst (ru_cache c)) @ [k]
         else if int (length (ru_cache c)) < ru_max_entries c then map fst (ru_cache c) @ [k]
         else tl (map fst (ru_cache c)) @ [k])"
proof -
  have wf: "wf_dict (ru_cache c)" using assms(1) by (simp add: lru_inv_def)
  have keys: "map fst (dset k w (move_to_end k (ru_cache c))) = remove1 k (map fst (ru_cache c)) @ [k]"
    if "dget (ru_cache c) k \<noteq> None" for w
  proof -
    have "map fst (move_to_end k (ru_cache c)) = remove1 k (map fst (ru_cache c)) @ [k]"
      using that wf by (auto simp: move_to_end_def delete_keys distinct_remove1_removeAll split: option.splits)
    moreover have "map fst (dset k w d) = map fst d" if "k \<in> fst ` set d" for d
      using that by (induction d) auto
    ultimately show ?thesis using move_to_end_props(2) [OF wf, of k k] that
      by (metis map_of_eq_None_iff)
  qed
  have "map fst (ru_cache c1) = remove1 k (map fst (ru_cache c)) @ [k]" if "r \<noteq> None"
    using assms(2) that keys by (auto simp: lru_get_def Let_def split: option.splits if_splits)
  moreover have new: "map fst (dset k w d) = map fst d @ [k]" if "k \<notin> fst ` set d" for w and d :: "(string, real \<times> unified_score) dict"
    using that by (simp add: dset_new)
  have "k \<notin> fst ` set (ru_cache c) \<Longrightarrow> k \<notin> fst ` set (tl (ru_cache c))" by (cases "ru_cache c") auto
  then have "map fst (ru_cache c2) =
        (if k \<in> set (map fst (ru_cache c)) then remove1 k (map fst (ru_cache c)) @ [k]
         else if int (length (ru_cache c)) < ru_max_entries c then map fst (ru_cache c) @ [k]
         else tl (map fst (ru_cache c)) @ [k])"
    using assms(1,3) keys new by (auto simp: lru_put_def lru_inv_def map_of_eq_None_iff map_tl split: if_splits)
  ultimately show ?thesis by blast
qed

definition full_cache :: lru_cache where
  "full_cache = (new_lru 2 300)\<lparr>ru_cache := [(''a'', 0, demo_score), (''b'', 1, demo_score)]\<rparr>"

theorem lru_eviction_order_witness:
  "map fst (ru_cache (snd (lru_put 2 ''c'' demo_score full_cache))) = [''b'', ''c'']"
proof -
  have "lru_inv full_cache" by (simp add: lru_inv_def full_cache_def new_lru_def)
  from lru_eviction_order [OF this prod.collapse [symmetric] prod.collapse [symmetric], of 2 "''c''" demo_score]
  show ?thesis by (simp add: full_cache_def new_lru_def)
qed

section \<open>The ensemble\<close>

definition good_methods :: "method_result list \<Rightarrow> bool" where
  "good_methods rs = (\<forall>r \<in> set rs. sm_success r \<longrightarrow>
     0 \<le> sm_normalized_score r \<and> sm_normalized_score r \<le> 1 \<and> 0 \<le> sm_weight r)"

lemma weighted_bounds:
  fixes ws :: "(real \<times> real) list"
  assumes "\<forall>(x, w) \<in> set ws. lo \<le> x \<and> x \<le> hi \<and> 0 \<le> w"
  shows "lo * sum_list (map snd ws) \<le> sum_list (map (\<lambda>(x, w). x * w) ws)
    \<and> sum_list (map (\<lambda>(x, w). x * w) ws) \<le> hi * sum_list (map snd ws)"
  using assms
proof (induction ws)
  case (Cons a ws)
  obtain x w where a: "a = (x, w)" by (cases a)
  have "lo * w \<le> x * w" "x * w \<le> hi * w" using Cons.prems a by (auto intro: mult_right_mono)
  moreover have "\<forall>(x, w) \<in> set ws. lo \<le> x \<and> x \<le> hi \<and> 0 \<le> w" using Cons.prems by simp
  ultimately show ?case using Cons.IH a by (simp add: algebra_simps)
qed simp

lemma ensemble_sum:
  assumes "0 < W"
  shows "sum_list (map (\<lambda>r. sm_normalized_score r * (sm_weight r / W)) rs) * W
    = sum_list (map (\<lambda>(x, w). x * w) (map (\<lambda>r. (sm_normalized_score r, sm_weight r)) rs))"
  using assms by (induction rs) (simp_all add: algebra_simps)

lemma ensemble_mean:
  assumes "good_methods rs" "0 < sum_list (map sm_weight (filter sm_success rs))"
    and "\<forall>r \<in> set rs. sm_success r \<longrightarrow> lo \<le> sm_normalized_score r \<and> sm_normalized_score r \<le> hi" "0 \<le> lo" "hi \<le> 1"
  shows "compute_ensemble_score rs * sum_list (map sm_weight (filter sm_success rs))
      = sum_list (map (\<lambda>r. sm_normalized_score r * sm_weight r) (filter sm_success rs))
    \<and> lo \<le> compute_ensemble_score rs \<and> compute_ensemble_score rs \<le> hi"
proof -
  let ?rs = "filter sm_success rs" and ?W = "sum_list (map sm_weight (filter sm_success rs))"
  let ?ws = "map (\<lambda>r. (sm_normalized_score r, sm_weight r)) ?rs"
  define S where "S = sum_list (map (\<lambda>r. sm_normalized_score r * (sm_weight r / ?W)) ?rs)"
  have SW: "S * ?W = sum_list (map (\<lambda>(x, w). x * w) ?ws)" unfolding S_def by (rule ensemble_sum [OF assms(2)])
  have "lo * sum_list (map snd ?ws) \<le> sum_list (map (\<lambda>(x, w). x * w) ?ws)
      \<and> sum_list (map (\<lambda>(x, w). x * w) ?ws) \<le> hi * sum_list (map snd ?ws)"
    using assms(1,3) by (intro weighted_bounds) (auto simp: good_methods_def)
  moreover have "map snd ?ws = map sm_weight ?rs" by simp
  ultimately have "lo * ?W \<le> S * ?W" "S * ?W \<le> hi * ?W" using SW by (metis, metis)
  then have "lo \<le> S" "S \<le> hi" using assms(2) by (simp_all add: mult_le_cancel_right)
  moreover have "?rs \<noteq> []" using assms(2) by auto
  then have "compute_ensemble_score rs = max 0 (min 1 S)"
    using assms(2) by (simp add: compute_ensemble_score_def S_def Let_def)
  ultimately show ?thesis using SW assms(4,5) by (simp add: comp_def)
qed

lemma ensemble_01: "0 \<le> compute_ensemble_score rs \<and> compute_ensemble_score rs \<le> 1"
  by (simp add: compute_ensemble_score_def Let_def)

text \<open>A pipeline with weights that passed validation.\<close>

definition pipe_ok :: "scoring_pipeline \<Rightarrow> bool" where
  "pipe_ok p = ((\<forall>(k, w) \<in> set (sp_weights p). 0 \<le> w) \<and> 0 \<le> sp_confidence_penalty p)"

lemma weights_in_range_iff: "weights_in_range ws = (\<forall>(k, w) \<in> set ws. 0 \<le> w \<and> w \<le> 1)"
  by (induction ws rule: weights_in_range.induct) (auto simp: not_less)

lemma configured_pipeline_ok: "configured_pipeline cfg rules anomaly risk ws = Inr p \<Longrightarrow> 0 \<le> ss_confidence_penalty cfg \<Longrightarrow> pipe_ok p"
  by (auto simp: configured_pipeline_def res_bind_Inr Let_def validate_weights_def weights_in_range_iff pipe_ok_def split: if_splits)

lemma new_pipeline_ok: "new_pipeline rules anomaly risk ws = Inr p \<Longrightarrow> pipe_ok p"
  by (auto simp: new_pipeline_defs res_bind_Inr Let_def validate_weights_def weights_in_range_iff pipe_ok_def split: if_splits)

lemma weight_of_ok: "pipe_ok p \<Longrightarrow> weight_of k p = Inr w \<Longrightarrow> 0 \<le> w"
  by (auto simp: pipe_ok_def weight_of_def dest!: map_of_SomeD split: option.splits)

definition method_ok :: "method_result \<Rightarrow> bool" where
  "method_ok r = (sm_success r \<longrightarrow> 0 \<le> sm_normalized_score r \<and> sm_normalized_score r \<le> 1 \<and> 0 \<le> sm_weight r)"

lemma failed_method_ok [simp]: "method_ok (failed_method n w l e)"
  by (simp add: method_ok_def failed_method_def)

lemma scored_method_ok [simp]: "method_ok (scored_method n raw x w l d) = (0 \<le> x \<and> x \<le> 1 \<and> 0 \<le> w)"
  by (simp add: method_ok_def scored_method_def)

lemma methods_ok:
  assumes "pipe_ok p"
  shows "score_rules el lat t c p = (Inr r, p') \<Longrightarrow> method_ok r"
    and "score_anomaly lat t p = Inr r \<Longrightarrow> method_ok r"
    and "score_ml lat t p = Inr r \<Longrightarrow> method_ok r"
proof -
  show "score_rules el lat t c p = (Inr r, p') \<Longrightarrow> method_ok r"
    using weight_of_ok [OF assms]
    by (auto simp: score_rules_def res_bind_Inr Let_def split: option.splits prod.splits sum.splits)
  have pick: "(case f of None \<Rightarrow> Inr a | Some g \<Rightarrow> case g t of Inl ex \<Rightarrow> Inr (b ex) | Inr x \<Rightarrow> Inr (d x)) = Inr r \<Longrightarrow>
      r = a \<or> (\<exists>ex. r = b ex) \<or> (\<exists>x. r = d x)" for f :: "(txn \<Rightarrow> 'x res) option" and a :: method_result and b d
    by (auto split: option.splits sum.splits)
  show "score_anomaly lat t p = Inr r \<Longrightarrow> method_ok r"
    unfolding score_anomaly_def Let_def res_bind_Inr by (elim exE conjE, drule pick) (auto dest: weight_of_ok [OF assms])
  show "score_ml lat t p = Inr r \<Longrightarrow> method_ok r"
    unfolding score_ml_def Let_def res_bind_Inr
    by (elim exE conjE, drule pick) (use assms in \<open>auto dest: weight_of_ok [OF assms] simp: pipe_ok_def\<close>)
qed

lemma score_rules_frame:
  "snd (score_rules el lat t c p) = p\<lparr>sp_rule_engine := sp_rule_engine (snd (score_rules el lat t c p))\<rparr>"
  by (auto simp: score_rules_def Let_def split: option.splits prod.splits sum.splits)

lemma cache_lookup_frame: "snd (cache_lookup t k b p) = p\<lparr>sp_cache := sp_cache (snd (cache_lookup t k b p))\<rparr>"
  by (auto simp: cache_lookup_def split: option.splits bool.splits prod.splits)

text \<open>A call that is not answered from the cache.\<close>

lemma score_sync_cases:
  assumes "score_transaction_sync key_of cl t ctx uc p = (Inr u, p')"
  obtains (hit) "cache_lookup (cl_get cl) (key_of t) uc p = (Some u, p')"
  | (scored) p1 p2 p3 r1 r2 r3 where "cache_lookup (cl_get cl) (key_of t) uc p = (None, p1)"
      "score_rules (cl_eval cl) (cl_rules cl) t ctx p1 = (Inr r1, p2)" "score_anomaly (cl_anomaly cl) t p2 = Inr r2"
      "score_ml (cl_ml cl) t p2 = Inr r3" "u = unify (cl_latency cl) t [r1, r2, r3] p2"
      "cache_store (cl_put cl) (key_of t) u uc p2 = (Inr (), p3)"
      "p' = count_scored (cl_latency cl) (us_risk_classification u) p3"
  using assms unfolding score_transaction_sync_def finish_scoring_def
  by (auto simp: Let_def res_bind_Inr split: prod.splits option.splits sum.splits)

section \<open>Properties of scoring\<close>

lemma scored_without_cache:
  assumes "score_transaction_sync key_of cl t ctx False p = (Inr u, p')" "pipe_ok p"
  shows "good_methods (us_method_scores u) \<and> us_final_score u = compute_ensemble_score (us_method_scores u)
    \<and> us_risk_classification u = classify_risk p (us_final_score u)
    \<and> us_methods_succeeded u = length (filter sm_success (us_method_scores u))
    \<and> us_alert_recommended u = (sp_alert_threshold p \<le> us_final_score u)
    \<and> us_auto_block_recommended u = (sp_auto_block_threshold p \<le> us_final_score u)"
  using assms(1)
proof (cases rule: score_sync_cases)
  case hit
  then show ?thesis by (simp add: cache_lookup_def)
next
  case (scored p1 p2 p3 r1 r2 r3)
  have p1: "p1 = p" using scored(1) by (simp add: cache_lookup_def)
  have p2: "p2 = p\<lparr>sp_rule_engine := sp_rule_engine p2\<rparr>"
    using score_rules_frame [of "cl_eval cl" "cl_rules cl" t ctx p] scored(2) by (simp add: p1)
  have ok: "pipe_ok p2" using assms(2) by (subst p2) (simp add: pipe_ok_def)
  have "method_ok r1" "method_ok r2" "method_ok r3"
    using methods_ok(1) [OF assms(2)] methods_ok(2,3) [OF ok] scored(2-4) by (auto simp: p1)
  moreover have "classify_risk p2 x = classify_risk p x" "sp_alert_threshold p2 = sp_alert_threshold p"
    "sp_auto_block_threshold p2 = sp_auto_block_threshold p" for x
    by (subst p2, simp add: classify_risk_def)+
  ultimately show ?thesis
    unfolding scored(5) by (simp add: unify_def Let_def good_methods_def method_ok_def)
qed

text \<open>
  Claim C1 (the score is a weighted mean): with validated weights, a scoring that is not answered from
  the cache returns a score in the unit interval. When some successful method has positive weight,
  the score is the mean of the successful methods' scores under the weights renormalised to them, so
  it lies between any bounds that hold for all of them.
\<close>

theorem final_score_is_weighted_mean:
  assumes "new_pipeline rules anomaly risk ws = Inr p" "score_transaction_sync key_of cl t ctx False p = (Inr u, p')"
  defines "ok \<equiv> filter sm_success (us_method_scores u)"
  shows "0 \<le> us_final_score u \<and> us_final_score u \<le> 1
    \<and> (0 < sum_list (map sm_weight ok) \<longrightarrow>
         us_final_score u * sum_list (map sm_weight ok) = sum_list (map (\<lambda>r. sm_normalized_score r * sm_weight r) ok)
         \<and> (\<forall>lo hi. (\<forall>r \<in> set ok. lo \<le> sm_normalized_score r \<and> sm_normalized_score r \<le> hi) \<and> 0 \<le> lo \<and> hi \<le> 1
              \<longrightarrow> lo \<le> us_final_score u \<and> us_final_score u \<le> hi))"
proof -
  note s = scored_without_cache [OF assms(2) new_pipeline_ok [OF assms(1)]]
  then have f: "us_final_score u = compute_ensemble_score (us_method_scores u)" and g: "good_methods (us_method_scores u)"
    by blast+
  have mean: "us_final_score u * sum_list (map sm_weight ok) = sum_list (map (\<lambda>r. sm_normalized_score r * sm_weight r) ok)
      \<and> lo \<le> us_final_score u \<and> us_final_score u \<le> hi"
    if "0 < sum_list (map sm_weight ok)" "\<forall>r \<in> set ok. lo \<le> sm_normalized_score r \<and> sm_normalized_score r \<le> hi" "0 \<le> lo" "hi \<le> 1" for lo hi
    unfolding f ok_def using that by (intro ensemble_mean [OF g]) (auto simp: ok_def)
  have unit: "\<forall>r \<in> set ok. 0 \<le> sm_normalized_score r \<and> sm_normalized_score r \<le> 1"
    using g by (auto simp: ok_def good_methods_def)
  show ?thesis
  proof (intro conjI impI allI)
    show "0 \<le> us_final_score u" "us_final_score u \<le> 1" using ensemble_01 f by simp_all
  qed (use mean [OF _ unit] mean in blast)+
qed

definition demo_pipeline :: scoring_pipeline where
  "demo_pipeline = projr (new_pipeline None
     (Some (\<lambda>t. Inr \<lparr>ao_anomaly_score = - 1, ao_is_anomaly = True, ao_confidence = 1, ao_model_version = ''v1''\<rparr>)) None [])"

lemma demo_pipeline: "new_pipeline None
     (Some (\<lambda>t. Inr \<lparr>ao_anomaly_score = - 1, ao_is_anomaly = True, ao_confidence = 1, ao_model_version = ''v1''\<rparr>)) None []
     = Inr demo_pipeline"
  by (simp add: demo_pipeline_def new_pipeline_defs validate_weights_def Let_def)

definition demo_clock :: "seconds \<Rightarrow> score_clock" where
  "demo_clock t = \<lparr>cl_get = t, cl_put = t, cl_eval = 0, cl_rules = 0, cl_anomaly = 0, cl_ml = 0, cl_latency = 1\<rparr>"

lemmas score_defs = score_transaction_sync_def cache_lookup_def cache_store_def score_rules_def score_anomaly_def score_ml_def
  weight_of_def finish_scoring_def unify_def count_scored_def Let_def

lemma demo_scored: "\<exists>u p'. score_transaction_sync (\<lambda>t. ''k'') (demo_clock 0) demo_txn None False demo_pipeline = (Inr u, p')
    \<and> map sm_weight (filter sm_success (us_method_scores u)) = [3 / 10]
    \<and> map sm_normalized_score (filter sm_success (us_method_scores u)) = [1]"
  by (simp add: score_defs demo_pipeline_def new_pipeline_defs validate_weights_def
      scored_method_def failed_method_def)

theorem final_score_is_weighted_mean_witness:
  "\<exists>u p'. score_transaction_sync (\<lambda>t. ''k'') (demo_clock 0) demo_txn None False demo_pipeline = (Inr u, p')
     \<and> us_final_score u \<le> 1 \<and> us_final_score u * (3 / 10) = 3 / 10"
proof -
  obtain u p' where s: "score_transaction_sync (\<lambda>t. ''k'') (demo_clock 0) demo_txn None False demo_pipeline = (Inr u, p')"
    "map sm_weight (filter sm_success (us_method_scores u)) = [3 / 10]"
    "map sm_normalized_score (filter sm_success (us_method_scores u)) = [1]"
    using demo_scored by (elim exE conjE)
  then obtain r where r: "filter sm_success (us_method_scores u) = [r]" "sm_weight r = 3 / 10" "sm_normalized_score r = 1" by auto
  from final_score_is_weighted_mean [OF demo_pipeline s(1)] have "us_final_score u \<le> 1" "us_final_score u * (3 / 10) = 3 / 10"
    unfolding r(1) using r(2,3) by auto
  with s(1) show ?thesis by (intro exI conjI)
qed

text \<open>
  Remark (no method, no risk): when every scoring method fails, the pipeline still returns a result: score
  zero, the lowest classification, no alert and no block, whatever \<^verbatim>\<open>min_methods_required\<close> says.
\<close>

theorem all_methods_failed_scores_low:
  assumes "new_pipeline rules anomaly risk ws = Inr p" "score_transaction_sync key_of cl t ctx False p = (Inr u, p')"
    and "us_methods_succeeded u = 0"
  shows "us_final_score u = 0 \<and> us_risk_classification u = RC_LOW \<and> \<not> us_alert_recommended u \<and> \<not> us_auto_block_recommended u"
proof -
  note s = scored_without_cache [OF assms(2) new_pipeline_ok [OF assms(1)]]
  have "filter sm_success (us_method_scores u) = []" using s assms(3) by simp
  then have "us_final_score u = 0" using s by (simp add: compute_ensemble_score_def)
  moreover have "sp_medium p = 3 / 10" "sp_high p = 3 / 5" "sp_critical p = 17 / 20" "sp_alert_threshold p = 3 / 5"
    "sp_auto_block_threshold p = 9 / 10"
    using assms(1) by (auto simp: new_pipeline_defs res_bind_Inr Let_def)
  ultimately show ?thesis using s by (simp add: classify_risk_def)
qed

definition empty_pipeline :: scoring_pipeline where
  "empty_pipeline = projr (new_pipeline None None None [])"

lemma empty_pipeline: "new_pipeline None None None [] = Inr empty_pipeline"
  by (simp add: empty_pipeline_def new_pipeline_defs validate_weights_def Let_def)

lemma empty_scored: "\<exists>u p'. score_transaction_sync (\<lambda>t. ''k'') (demo_clock 0) demo_txn None False empty_pipeline = (Inr u, p')
    \<and> us_methods_succeeded u = 0"
  by (simp add: score_defs empty_pipeline_def new_pipeline_defs validate_weights_def failed_method_def)

theorem all_methods_failed_scores_low_witness:
  "\<exists>u p'. score_transaction_sync (\<lambda>t. ''k'') (demo_clock 0) demo_txn None False empty_pipeline = (Inr u, p')
     \<and> us_risk_classification u = RC_LOW"
proof -
  obtain u p' where s: "score_transaction_sync (\<lambda>t. ''k'') (demo_clock 0) demo_txn None False empty_pipeline = (Inr u, p')"
    "us_methods_succeeded u = 0"
    using empty_scored by (elim exE conjE)
  from all_methods_failed_scores_low [OF empty_pipeline s] s(1) show ?thesis by (intro exI conjI) auto
qed

fun risk_rank :: "risk_class \<Rightarrow> nat" where
  "risk_rank RC_LOW = 0" | "risk_rank RC_MEDIUM = 1" | "risk_rank RC_HIGH = 2" | "risk_rank RC_CRITICAL = 3"

text \<open>
  Remark (classification): with ascending thresholds, the classification is at least a class exactly
  when the score reaches its threshold, so a higher score is never classified lower.
\<close>

theorem classification_monotone:
  assumes "sp_medium p \<le> sp_high p" "sp_high p \<le> sp_critical p"
  shows "(risk_rank RC_CRITICAL \<le> risk_rank (classify_risk p x)) = (sp_critical p \<le> x)
    \<and> (risk_rank RC_HIGH \<le> risk_rank (classify_risk p x)) = (sp_high p \<le> x)
    \<and> (risk_rank RC_MEDIUM \<le> risk_rank (classify_risk p x)) = (sp_medium p \<le> x)
    \<and> (x \<le> y \<longrightarrow> risk_rank (classify_risk p x) \<le> risk_rank (classify_risk p y))"
  using assms by (auto simp: classify_risk_def)

theorem classification_monotone_witness:
  "risk_rank (classify_risk empty_pipeline (1 / 2)) \<le> risk_rank (classify_risk empty_pipeline (9 / 10))"
  using classification_monotone [of empty_pipeline "1 / 2" "9 / 10"]
  by (simp add: empty_pipeline_def new_pipeline_defs validate_weights_def Let_def)

section \<open>The asynchronous entry point\<close>

lemma method_names:
  "score_rules el lat t c p = (Inr r, p') \<Longrightarrow> sm_method r = ''rule_engine''"
  "score_anomaly lat t p = Inr r \<Longrightarrow> sm_method r = ''anomaly_detector''"
  "score_ml lat t p = Inr r \<Longrightarrow> sm_method r = ''ml_model''"
proof -
  show "score_rules el lat t c p = (Inr r, p') \<Longrightarrow> sm_method r = ''rule_engine''"
    by (auto simp: score_rules_def res_bind_Inr Let_def failed_method_def scored_method_def
        split: option.splits prod.splits sum.splits)
  show "score_anomaly lat t p = Inr r \<Longrightarrow> sm_method r = ''anomaly_detector''"
    by (cases "sp_anomaly_detector p"; cases "the (sp_anomaly_detector p) t")
      (auto simp: score_anomaly_def res_bind_Inr Let_def failed_method_def scored_method_def)
  show "score_ml lat t p = Inr r \<Longrightarrow> sm_method r = ''ml_model''"
    by (cases "sp_risk_scorer p"; cases "the (sp_risk_scorer p) t")
      (auto simp: score_ml_def res_bind_Inr Let_def failed_method_def scored_method_def)
qed

lemma method_raises:
  "score_rules el lat t c p = (Inl ex, p') \<Longrightarrow> weight_of ''rule_score'' p' = Inl KeyError \<and> ex = KeyError"
  "score_anomaly lat t p = Inl ex \<Longrightarrow> weight_of ''anomaly_score'' p = Inl KeyError \<and> ex = KeyError"
  "score_ml lat t p = Inl ex \<Longrightarrow> weight_of ''ml_score'' p = Inl KeyError \<and> ex = KeyError"
proof -
  have w: "weight_of k p = Inl e \<Longrightarrow> e = KeyError" for k p e by (auto simp: weight_of_def split: option.splits)
  have b: "res_bind x (\<lambda>v. Inr (f v)) = Inl e \<Longrightarrow> x = Inl e" for x :: "real res" and f :: "real \<Rightarrow> method_result" and e
    by (cases x) simp_all
  show "score_rules el lat t c p = (Inl ex, p') \<Longrightarrow> weight_of ''rule_score'' p' = Inl KeyError \<and> ex = KeyError"
    by (auto simp: score_rules_def Let_def weight_of_def dest!: b w split: option.splits prod.splits sum.splits)
  show "score_anomaly lat t p = Inl ex \<Longrightarrow> weight_of ''anomaly_score'' p = Inl KeyError \<and> ex = KeyError"
    by (cases "sp_anomaly_detector p"; cases "the (sp_anomaly_detector p) t")
      (auto simp: score_anomaly_def Let_def dest!: b dest: w)
  show "score_ml lat t p = Inl ex \<Longrightarrow> weight_of ''ml_score'' p = Inl KeyError \<and> ex = KeyError"
    by (cases "sp_risk_scorer p"; cases "the (sp_risk_scorer p) t")
      (auto simp: score_ml_def Let_def dest!: b dest: w)
qed

lemma complete_three:
  assumes "\<And>x. r1 = Inr x \<Longrightarrow> sm_method x = ''rule_engine''" "\<And>x. r2 = Inr x \<Longrightarrow> sm_method x = ''anomaly_detector''"
    and "\<And>x. r3 = Inr x \<Longrightarrow> sm_method x = ''ml_model''"
    and "\<And>ex. r1 = Inl ex \<Longrightarrow> weight_of ''rule_score'' p = Inl KeyError \<and> ex = KeyError"
    and "\<And>ex. r2 = Inl ex \<Longrightarrow> weight_of ''anomaly_score'' p = Inl KeyError \<and> ex = KeyError"
    and "\<And>ex. r3 = Inl ex \<Longrightarrow> weight_of ''ml_score'' p = Inl KeyError \<and> ex = KeyError"
  shows "complete_results p (keep_results [r1, r2, r3]) = res_bind r1 (\<lambda>x. res_bind r2 (\<lambda>y. res_bind r3 (\<lambda>z. Inr [x, y, z])))"
proof -
  let ?names = "sm_method ` set (keep_results [r1, r2, r3])"
  have keep: "x \<in> set (keep_results rs) \<Longrightarrow> Inr x \<in> set rs" for x rs
    by (induction rs rule: keep_results.induct) auto
  have absent: "''rule_engine'' \<notin> ?names" if "r1 = Inl ex" for ex
    using keep [of _ "[r1, r2, r3]"] that assms(2,3) by fastforce
  have absent2: "''anomaly_detector'' \<notin> ?names" if "r2 = Inl ex" for ex
    using keep [of _ "[r1, r2, r3]"] that assms(1,3) by fastforce
  have absent3: "''ml_model'' \<notin> ?names" if "r3 = Inl ex" for ex
    using keep [of _ "[r1, r2, r3]"] that assms(1,2) by fastforce
  have present: "''rule_engine'' \<in> ?names" if "r1 = Inr x" for x using assms(1) [OF that] that by simp
  have present2: "''anomaly_detector'' \<in> ?names" if "r2 = Inr x" for x
    using assms(2) [OF that] that by (cases r1) auto
  have present3: "''ml_model'' \<in> ?names" if "r3 = Inr x" for x
    using assms(3) [OF that] that by (cases r1; cases r2) auto
  show ?thesis
  proof (cases r1)
    case (Inl ex)
    then show ?thesis using absent assms(4) by (simp add: complete_results_def fill_missing_def Let_def del: keep_results.simps)
  next
    case r1: (Inr x)
    show ?thesis
    proof (cases r2)
      case (Inl ex)
      then show ?thesis using r1 present absent2 assms(5)
        by (simp add: complete_results_def fill_missing_def Let_def del: keep_results.simps)
    next
      case r2: (Inr y)
      then show ?thesis using r1 present present2 present3 absent3 assms(6)
        by (cases r3) (simp_all add: complete_results_def fill_missing_def Let_def del: keep_results.simps, simp)
    qed
  qed
qed

lemma gathered_results:
  assumes "score_rules el l1 t c p1 = (r1, p)"
  shows "complete_results p (keep_results [r1, score_anomaly l2 t p, score_ml l3 t p])
    = res_bind r1 (\<lambda>x. res_bind (score_anomaly l2 t p) (\<lambda>y. res_bind (score_ml l3 t p) (\<lambda>z. Inr [x, y, z])))"
proof (rule complete_three)
  show "\<And>x. r1 = Inr x \<Longrightarrow> sm_method x = ''rule_engine''" using assms method_names(1) by simp
  show "\<And>ex. r1 = Inl ex \<Longrightarrow> weight_of ''rule_score'' p = Inl KeyError \<and> ex = KeyError" using assms method_raises(1) by simp
qed (simp_all add: method_names method_raises)

text \<open>
  Claim C29 (the two entry points agree): when the methods finish before the deadline, the asynchronous
  call returns the same score, or raises the same exception, and leaves the pipeline in the same
  state as the synchronous one, for every transaction, context and configuration.
\<close>

theorem async_equals_sync:
  "score_transaction key_of None cl t ctx uc p = score_transaction_sync key_of cl t ctx uc p"
proof (cases "cache_lookup (cl_get cl) (key_of t) uc p")
  case (Pair r p1)
  obtain r1 p2 where s: "score_rules (cl_eval cl) (cl_rules cl) t ctx p1 = (r1, p2)" by fastforce
  from gathered_results [OF s] Pair s show ?thesis
    by (cases r) (simp_all add: score_transaction_def score_transaction_sync_def Let_def)
qed

text \<open>
  Remark (no partial scores): when the deadline passes before every method has finished, the
  asynchronous call raises instead of scoring with the methods that did finish, although
  \<^verbatim>\<open>fallback_on_timeout\<close> is documented to use partial scores; nothing is cached or counted.
\<close>

theorem timeout_raises:
  assumes "cache_lookup (cl_get cl) (key_of t) uc p = (None, p1)" "\<not> (d1 \<and> d2 \<and> d3)"
    and "\<forall>k \<in> {''rule_score'', ''anomaly_score'', ''ml_score''}. dget (sp_weights p) k \<noteq> None"
  shows "\<exists>p2. score_transaction key_of (Some (d1, d2, d3)) cl t ctx uc p = (Inl CancelledError, p2)
    \<and> sp_cache p2 = sp_cache p1 \<and> sp_total_scored p2 = sp_total_scored p"
proof -
  obtain r1 p2 where s: "score_rules (cl_eval cl) (cl_rules cl) t ctx p1 = (r1, p2)" by fastforce
  have p2: "p2 = p1\<lparr>sp_rule_engine := sp_rule_engine p2\<rparr>" using score_rules_frame [of "cl_eval cl" "cl_rules cl" t ctx p1] s by simp
  have p1: "p1 = p\<lparr>sp_cache := sp_cache p1\<rparr>" using cache_lookup_frame [of "cl_get cl" "key_of t" uc p] assms(1) by simp
  have f: "sp_weights p2 = sp_weights p" "sp_cache p2 = sp_cache p1" "sp_total_scored p2 = sp_total_scored p"
    by (subst p2, simp, (subst p1, simp)?)+
  then have w: "weight_of k p2 \<noteq> Inl ex" if "k \<in> {''rule_score'', ''anomaly_score'', ''ml_score''}" for k ex
    using assms(3) that by (fastforce simp: weight_of_def split: option.splits)
  have "\<exists>x1. r1 = Inr x1"
    using method_raises(1) [of "cl_eval cl" "cl_rules cl" t ctx p1 _ p2] s w [of "''rule_score''"] by (cases r1) simp_all
  moreover have "\<exists>x2. score_anomaly (cl_anomaly cl) t p2 = Inr x2"
    using method_raises(2) [of "cl_anomaly cl" t p2] w [of "''anomaly_score''"] by (cases "score_anomaly (cl_anomaly cl) t p2") simp_all
  ultimately obtain x1 x2 where x: "r1 = Inr x1" "score_anomaly (cl_anomaly cl) t p2 = Inr x2" by blast
  have "task_results [(d1, r1), (d2, score_anomaly (cl_anomaly cl) t p2), (d3, score_ml (cl_ml cl) t p2)] = Inl CancelledError"
    using assms(2) x by auto
  then show ?thesis
    using assms(1) s f by (simp add: score_transaction_def Let_def)
qed

theorem timeout_raises_witness:
  "\<exists>p2. score_transaction (\<lambda>t. ''k'') (Some (True, True, False)) (demo_clock 0) demo_txn None False demo_pipeline
     = (Inl CancelledError, p2)"
proof -
  have l: "cache_lookup (cl_get (demo_clock 0)) ''k'' False demo_pipeline = (None, demo_pipeline)" by (simp add: cache_lookup_def)
  have "sp_weights demo_pipeline = [(''rule_score'', 3 / 10), (''anomaly_score'', 3 / 10), (''ml_score'', 2 / 5)]"
    by (simp add: demo_pipeline_def new_pipeline_defs validate_weights_def Let_def)
  then have "\<forall>k \<in> {''rule_score'', ''anomaly_score'', ''ml_score''}. dget (sp_weights demo_pipeline) k \<noteq> None"
    by (simp add: del: not_None_eq)
  from timeout_raises [where key_of = "\<lambda>t. ''k''", OF l _ this, of True True False demo_txn None] show ?thesis by blast
qed

section \<open>Counters\<close>

lemma cache_store_frame: "snd (cache_store t k u b p) = p\<lparr>sp_cache := sp_cache (snd (cache_store t k u b p))\<rparr>"
  by (auto simp: cache_store_def split: option.splits bool.splits prod.splits)

lemma cache_lookup_hit: "cache_lookup t k b p = (Some u, p') \<Longrightarrow> us_cached u"
  by (auto simp: cache_lookup_def lru_get_def Let_def split: option.splits bool.splits prod.splits if_splits)

definition bump :: "unified_score \<Rightarrow> risk_class \<Rightarrow> nat" where
  "bump u cls = (if \<not> us_cached u \<and> us_risk_classification u = cls then 1 else 0)"

lemma risk_value_inject [simp]: "(risk_value a = risk_value b) = (a = b)"
  by (cases a; cases b) simp_all

lemma score_sync_counts:
  assumes "score_transaction_sync key_of cl t ctx uc p = (Inr u, p')"
  shows "sp_total_scored p' = sp_total_scored p + (if us_cached u then 0 else 1)
    \<and> dget_or (sp_classification_counts p') (risk_value cls) 0 = dget_or (sp_classification_counts p) (risk_value cls) 0 + bump u cls
    \<and> sum_list (map snd (sp_classification_counts p')) = sum_list (map snd (sp_classification_counts p)) + (if us_cached u then 0 else 1)"
  using assms
proof (cases rule: score_sync_cases)
  case hit
  have "p' = p\<lparr>sp_cache := sp_cache p'\<rparr>" using cache_lookup_frame [of "cl_get cl" "key_of t" uc p] hit by simp
  then have "sp_total_scored p' = sp_total_scored p" "sp_classification_counts p' = sp_classification_counts p"
    by (metis scoring_pipeline.select_convs scoring_pipeline.surjective scoring_pipeline.update_convs(13))+
  then show ?thesis using cache_lookup_hit [OF hit] by (simp add: bump_def)
next
  case (scored p1 p2 p3 r1 r2 r3)
  have p1: "p1 = p\<lparr>sp_cache := sp_cache p1\<rparr>" using cache_lookup_frame [of "cl_get cl" "key_of t" uc p] scored(1) by simp
  have p2: "p2 = p1\<lparr>sp_rule_engine := sp_rule_engine p2\<rparr>"
    using score_rules_frame [of "cl_eval cl" "cl_rules cl" t ctx p1] scored(2) by simp
  have p3: "p3 = p2\<lparr>sp_cache := sp_cache p3\<rparr>" using cache_store_frame [of "cl_put cl" "key_of t" u uc p2] scored(6) by simp
  have f: "sp_total_scored p3 = sp_total_scored p" "sp_classification_counts p3 = sp_classification_counts p"
    by (subst p3, simp, subst p2, simp, subst p1, simp)+
  have u: "\<not> us_cached u" unfolding scored(5) by (simp add: unify_def Let_def)
  have sum: "sum_list (map snd (dset k (dget_or d k 0 + 1) d)) = sum_list (map snd d) + (1 :: nat)" for k :: string and d
    by (induction d) (auto simp: dget_or_def)
  show ?thesis unfolding scored(7) using f u sum by (auto simp: count_scored_def dict_simps bump_def)
qed

lemma score_all_counts:
  "score_all_sync key_of es uc p = (Inr us, p') \<Longrightarrow>
   sp_total_scored p' = sp_total_scored p + length (filter (\<lambda>u. \<not> us_cached u) us)
   \<and> dget_or (sp_classification_counts p') (risk_value cls) 0
       = dget_or (sp_classification_counts p) (risk_value cls) 0 + sum_list (map (\<lambda>u. bump u cls) us)
   \<and> sum_list (map snd (sp_classification_counts p'))
       = sum_list (map snd (sp_classification_counts p)) + length (filter (\<lambda>u. \<not> us_cached u) us)
   \<and> length us = length es"
proof (induction key_of es uc p arbitrary: us rule: score_all_sync.induct)
  case (2 key_of cl t c ts uc p)
  obtain u p1 us' where s: "score_transaction_sync key_of cl t c uc p = (Inr u, p1)"
    "score_all_sync key_of ts uc p1 = (Inr us', p')" "us = u # us'"
    using 2(2) by (auto split: prod.splits sum.splits)
  from 2(1) [OF s(1) [symmetric] refl s(2)] score_sync_counts [OF s(1), of cls] s(3) show ?case by simp
qed simp

lemma sum_bump: "sum_list (map (\<lambda>u. bump u cls) us) = length (filter (\<lambda>u. \<not> us_cached u \<and> us_risk_classification u = cls) us)"
  by (induction us) (simp_all add: bump_def)

text \<open>
  Remark (the counters are exact): after a batch on a new pipeline, there is one result per transaction,
  the number of scored transactions is the number of results that did not come from the cache, the
  distribution holds for each class the number of those results in it, and its entries add up to
  the total.
\<close>

theorem scoring_counters_exact:
  assumes "new_pipeline rules anomaly risk ws = Inr p" "score_batch_sync key_of txns None uc p = (Inr us, p')"
  shows "length us = length txns
    \<and> sp_total_scored p' = length (filter (\<lambda>u. \<not> us_cached u) us)
    \<and> dget_or (sp_classification_counts p') (risk_value cls) 0
        = length (filter (\<lambda>u. \<not> us_cached u \<and> us_risk_classification u = cls) us)
    \<and> sum_list (map snd (sp_classification_counts p')) = sp_total_scored p'"
proof -
  have p: "sp_total_scored p = 0" "dget_or (sp_classification_counts p) (risk_value cls) 0 = 0"
    "sum_list (map snd (sp_classification_counts p)) = 0"
    using assms(1) by (auto simp: new_pipeline_defs res_bind_Inr Let_def dget_or_def)
  show ?thesis
  proof (cases "txns = []")
    case True
    then show ?thesis using assms(2) p by (simp add: score_batch_sync_def)
  next
    case False
    then have "score_all_sync key_of (map (\<lambda>((cl, t), c). (cl, t, c)) (zip txns (replicate (length txns) None))) uc p = (Inr us, p')"
      using assms(2) by (simp add: score_batch_sync_def split: if_splits)
    from score_all_counts [OF this, of cls] p show ?thesis by (simp add: sum_bump)
  qed
qed

theorem scoring_counters_exact_witness:
  "\<exists>us p'. score_batch_sync (\<lambda>t. ''k'') [(demo_clock 0, demo_txn)] None False empty_pipeline = (Inr us, p')
     \<and> sum_list (map snd (sp_classification_counts p')) = sp_total_scored p' \<and> length us = 1"
proof -
  obtain us p' where b: "score_batch_sync (\<lambda>t. ''k'') [(demo_clock 0, demo_txn)] None False empty_pipeline = (Inr us, p')"
    by (simp add: score_batch_sync_def score_defs empty_pipeline_def new_pipeline_defs validate_weights_def failed_method_def)
  from scoring_counters_exact [OF empty_pipeline b] b show ?thesis by (intro exI conjI) auto
qed

section \<open>Scoring again\<close>

text \<open>
  Remark (a score is reused while it is fresh): after a transaction has been scored and cached, scoring
  any transaction with the same cache key within the time to live returns the same score, marked as
  cached, without running a method or counting it, even with another context.
\<close>

theorem rescoring_hits_cache:
  assumes "sp_cache p = Some c" "lru_inv c"
    and "score_transaction_sync key_of cl t ctx True p = (Inr u, p')" "\<not> us_cached u"
    and "key_of t' = key_of t" "cl_get cl' - cl_put cl \<le> ru_ttl_seconds c"
  shows "\<exists>p''. score_transaction_sync key_of cl' t' ctx' True p' = (Inr (u\<lparr>us_cached := True\<rparr>), p'')
    \<and> sp_total_scored p'' = sp_total_scored p'"
  using assms(3)
proof (cases rule: score_sync_cases)
  case hit
  then show ?thesis using cache_lookup_hit assms(4) by blast
next
  case (scored p1 p2 p3 r1 r2 r3)
  define c1 where "c1 = snd (lru_get (cl_get cl) (key_of t) c)"
  have c1: "sp_cache p1 = Some c1" "lru_inv c1" "ru_ttl_seconds c1 = ru_ttl_seconds c"
    using scored(1) assms(1) lru_get_inv [OF assms(2), of "cl_get cl" "key_of t"]
    by (auto simp: cache_lookup_def c1_def lru_get_def Let_def split: prod.splits option.splits if_splits)
  have "p2 = p1\<lparr>sp_rule_engine := sp_rule_engine p2\<rparr>"
    using score_rules_frame [of "cl_eval cl" "cl_rules cl" t ctx p1] scored(2) by simp
  then have "sp_cache p2 = Some c1"
    using c1(1) by (metis scoring_pipeline.select_convs(13) scoring_pipeline.surjective scoring_pipeline.update_convs(14))
  then have p3: "sp_cache p3 = Some (snd (lru_put (cl_put cl) (key_of t) u c1))"
    using scored(6) by (auto simp: cache_store_def Let_def split: prod.splits)
  then have p': "sp_cache p' = Some (snd (lru_put (cl_put cl) (key_of t) u c1))"
    unfolding scored(7) by (simp add: count_scored_def)
  have "lru_inv c1 \<Longrightarrow> dget (ru_cache (snd (lru_put (cl_put cl) (key_of t) u c1))) (key_of t) = Some (cl_put cl, u)"
    by (auto simp: lru_put_def lru_inv_def dict_simps)
  moreover have put_ttl: "ru_ttl_seconds (snd (lru_put (cl_put cl) (key_of t) u c1)) = ru_ttl_seconds c1" by (simp add: lru_put_def)
  ultimately obtain c2 where "lru_get (cl_get cl') (key_of t) (snd (lru_put (cl_put cl) (key_of t) u c1)) = (Some (u\<lparr>us_cached := True\<rparr>), c2)"
    using c1(2,3) assms(6) put_ttl by (simp add: lru_get_def Let_def)
  then show ?thesis
    using p' assms(5) by (simp add: score_transaction_sync_def cache_lookup_def Let_def)
qed

lemma empty_cached_score:
  "\<exists>u p'. score_transaction_sync (\<lambda>t. ''k'') (demo_clock 0) demo_txn None True empty_pipeline = (Inr u, p') \<and> \<not> us_cached u"
  by (simp add: score_defs empty_pipeline_def new_pipeline_defs validate_weights_def failed_method_def
      new_lru_def lru_get_def lru_put_def)

theorem rescoring_hits_cache_witness:
  "\<exists>u p' p''. score_transaction_sync (\<lambda>t. ''k'') (demo_clock 0) demo_txn None True empty_pipeline = (Inr u, p')
     \<and> score_transaction_sync (\<lambda>t. ''k'') (demo_clock 200) demo_txn (Some demo_ctx) True p' = (Inr (u\<lparr>us_cached := True\<rparr>), p'')"
proof -
  obtain u p' where u: "score_transaction_sync (\<lambda>t. ''k'') (demo_clock 0) demo_txn None True empty_pipeline = (Inr u, p')" "\<not> us_cached u"
    using empty_cached_score by (elim exE conjE)
  have "sp_cache empty_pipeline = Some (new_lru 100000 300)"
    by (simp add: empty_pipeline_def new_pipeline_defs validate_weights_def Let_def)
  from rescoring_hits_cache [OF this new_lru_inv(1) u, where cl' = "demo_clock 200" and ctx' = "Some demo_ctx" and t' = demo_txn] u(1) show ?thesis
    by (auto simp: demo_clock_def new_lru_def)
qed

section \<open>Where the code departs from its description\<close>

text \<open>
  Remark (invalidation by transaction id): the cache is keyed by the first 32 digits of a hash, while
  \<^verbatim>\<open>invalidate_cache\<close> removes the entry under the transaction id itself. An id of another length is never
  a key, so the call leaves every cached score in place.
\<close>

theorem invalidate_by_id_keeps_cache:
  assumes "sp_cache p = Some c" "\<forall>k \<in> fst ` set (ru_cache c). length k = 32" "length i \<noteq> 32" "i \<noteq> []"
  shows "invalidate_cache (Some i) p = p"
proof -
  have "i \<notin> fst ` set (ru_cache c)" using assms(2,3) by auto
  then have "lru_invalidate i c = c" by (simp add: lru_invalidate_def)
  moreover have "truthy (Some i)" using assms(4) by (cases i) simp_all
  ultimately show ?thesis using assms(1) by (simp add: invalidate_cache_def)
qed

definition cached_pipeline :: scoring_pipeline where
  "cached_pipeline = empty_pipeline\<lparr>sp_cache := Some ((new_lru 10 300)\<lparr>ru_cache := [(replicate 32 CHR ''0'', 0, demo_score)]\<rparr>)\<rparr>"

theorem invalidate_by_id_keeps_cache_witness: "invalidate_cache (Some ''TXN-1'') cached_pipeline = cached_pipeline"
  by (rule invalidate_by_id_keeps_cache [of _ "(new_lru 10 300)\<lparr>ru_cache := [(replicate 32 CHR ''0'', 0, demo_score)]\<rparr>"])
    (simp_all add: cached_pipeline_def)

end
