(* ===== verification/Quarantine.thy ===== *)
theory Quarantine
  imports RP_Prelude
begin

text \<open>
  The quarantine store of \<^verbatim>\<open>src/validation/quarantine_handler.py\<close>: quarantining, listing, re-processing (one
  record or all eligible ones), discarding and purging, with its metrics. The validator is an
  argument: a function that may raise. \<^verbatim>\<open>quarantined_at\<close> holds an ISO text of a UTC time; such texts
  compare like the times they denote (the fraction is omitted only when zero, and the plus sign of
  the offset sorts before the point), so the model keeps the time itself.
\<close>

section \<open>Data\<close>

record failure_reason =
  fa_field :: string
  fa_rule :: string
  fa_message :: string
  fa_severity :: string

record validation =
  va_is_valid :: bool
  va_errors :: "failure_reason list"

datatype q_status = Q_quarantined | Q_reprocessed | Q_discarded

fun q_status_value :: "q_status \<Rightarrow> string" where
  "q_status_value Q_quarantined = ''quarantined''"
| "q_status_value Q_reprocessed = ''reprocessed''"
| "q_status_value Q_discarded = ''discarded''"

record q_record =
  qr_quarantine_id :: string
  qr_record :: "(string, pyval) dict"
  qr_failure_reasons :: "failure_reason list"
  qr_quarantined_at :: datetime
  qr_retry_count :: int
  qr_status :: q_status

definition reason_to_dict :: "failure_reason \<Rightarrow> pyval" where
  "reason_to_dict f = PDict [(''field'', PStr (fa_field f)), (''rule'', PStr (fa_rule f)),
     (''message'', PStr (fa_message f)), (''severity'', PStr (fa_severity f))]"

definition q_record_to_dict :: "(datetime \<Rightarrow> string) \<Rightarrow> q_record \<Rightarrow> (string, pyval) dict" where
  "q_record_to_dict isof r =
     [(''quarantine_id'', PStr (qr_quarantine_id r)), (''record'', PDict (qr_record r)),
      (''failure_reasons'', PList (map reason_to_dict (qr_failure_reasons r))),
      (''quarantined_at'', PStr (isof (qr_quarantined_at r))),
      (''retry_count'', PInt (qr_retry_count r)), (''status'', PStr (q_status_value (qr_status r)))]"

record q_metrics =
  qm_total_quarantined :: int
  qm_total_reprocessed :: int
  qm_total_discarded :: int
  qm_reasons_breakdown :: "(string, int) dict"

definition new_q_metrics :: q_metrics where
  "new_q_metrics = \<lparr>qm_total_quarantined = 0, qm_total_reprocessed = 0, qm_total_discarded = 0, qm_reasons_breakdown = []\<rparr>"

definition record_quarantine :: "failure_reason list \<Rightarrow> q_metrics \<Rightarrow> q_metrics" where
  "record_quarantine reasons m =
     m\<lparr>qm_total_quarantined := qm_total_quarantined m + 1,
       qm_reasons_breakdown :=
         fold (\<lambda>f d. dset (fa_rule f) (dget_or d (fa_rule f) 0 + 1) d) reasons (qm_reasons_breakdown m)\<rparr>"

definition record_reprocess :: "q_metrics \<Rightarrow> q_metrics" where
  "record_reprocess m = m\<lparr>qm_total_reprocessed := qm_total_reprocessed m + 1\<rparr>"

definition record_discard :: "q_metrics \<Rightarrow> q_metrics" where
  "record_discard m = m\<lparr>qm_total_discarded := qm_total_discarded m + 1\<rparr>"

definition active_quarantined :: "q_metrics \<Rightarrow> int" where
  "active_quarantined m = qm_total_quarantined m - qm_total_reprocessed m - qm_total_discarded m"

definition q_metrics_to_dict :: "q_metrics \<Rightarrow> (string, pyval) dict" where
  "q_metrics_to_dict m =
     [(''total_quarantined'', PInt (qm_total_quarantined m)), (''total_reprocessed'', PInt (qm_total_reprocessed m)),
      (''total_discarded'', PInt (qm_total_discarded m)), (''active_quarantined'', PInt (active_quarantined m)),
      (''reasons_breakdown'', PDict (map (\<lambda>(k, n). (k, PInt n)) (qm_reasons_breakdown m)))]"

definition q_metrics_reset :: "q_metrics \<Rightarrow> q_metrics" where
  "q_metrics_reset m = m\<lparr>qm_total_quarantined := 0, qm_total_reprocessed := 0, qm_total_discarded := 0, qm_reasons_breakdown := []\<rparr>"

record q_handler =
  qh_max_retry_attempts :: int
  qh_retention_days :: int
  qh_store :: "(string, q_record) dict"
  qh_metrics :: q_metrics

definition new_q_handler :: "int \<Rightarrow> int \<Rightarrow> q_handler" where
  "new_q_handler retries days =
     \<lparr>qh_max_retry_attempts = retries, qh_retention_days = days, qh_store = [], qh_metrics = new_q_metrics\<rparr>"

section \<open>Operations\<close>

definition quarantine ::
  "datetime \<Rightarrow> string \<Rightarrow> (string, pyval) dict \<Rightarrow> validation \<Rightarrow> q_handler \<Rightarrow> q_record \<times> q_handler" where
  "quarantine now uid rec vr h =
     (let entry = \<lparr>qr_quarantine_id = uid, qr_record = rec, qr_failure_reasons = va_errors vr,
                   qr_quarantined_at = now, qr_retry_count = 0, qr_status = Q_quarantined\<rparr>
      in (entry, h\<lparr>qh_store := dset uid entry (qh_store h),
                   qh_metrics := record_quarantine (va_errors vr) (qh_metrics h)\<rparr>))"

definition q_get :: "string \<Rightarrow> q_handler \<Rightarrow> q_record option" where
  "q_get qid h = dget (qh_store h) qid"

text \<open>\<^verbatim>\<open>xs[:limit]\<close>.\<close>

definition slice_to :: "int \<Rightarrow> 'a list \<Rightarrow> 'a list" where
  "slice_to n xs = (if 0 \<le> n then take (nat n) xs else take (length xs - nat (- n)) xs)"

definition list_quarantined :: "string option \<Rightarrow> int \<Rightarrow> q_handler \<Rightarrow> q_record list" where
  "list_quarantined status limit h =
     (let records = map snd (qh_store h);
          chosen = (if truthy status then filter (\<lambda>r. q_status_value (qr_status r) = the status) records else records)
      in slice_to limit (sort_key (\<lambda>r. - qr_quarantined_at r) chosen))"

text \<open>One candidate of \<^verbatim>\<open>reprocess\<close>: the retry is counted before the validator runs.\<close>

definition reprocess_entry :: "int \<Rightarrow> validation \<Rightarrow> q_record \<Rightarrow> q_record" where
  "reprocess_entry max_retries result r =
     (if va_is_valid result then r\<lparr>qr_status := Q_reprocessed\<rparr>
      else if max_retries \<le> qr_retry_count r then r\<lparr>qr_status := Q_discarded\<rparr>
      else r\<lparr>qr_failure_reasons := va_errors result\<rparr>)"

definition reprocess_metrics :: "int \<Rightarrow> validation \<Rightarrow> q_record \<Rightarrow> q_metrics \<Rightarrow> q_metrics" where
  "reprocess_metrics max_retries result r m =
     (if va_is_valid result then record_reprocess m
      else if max_retries \<le> qr_retry_count r then record_discard m else m)"

fun reprocess_loop ::
  "((string, pyval) dict \<Rightarrow> validation res) \<Rightarrow> q_record list \<Rightarrow> q_handler \<Rightarrow> (q_record \<times> validation) list res \<times> q_handler" where
  "reprocess_loop validate [] h = (Inr [], h)"
| "reprocess_loop validate (r0 # rs) h =
     (let r = r0\<lparr>qr_retry_count := qr_retry_count r0 + 1\<rparr>;
          qid = qr_quarantine_id r;
          h1 = h\<lparr>qh_store := dset qid r (qh_store h)\<rparr>
      in case validate (qr_record r) of
           Inl ex \<Rightarrow> (Inl ex, h1)
         | Inr result \<Rightarrow>
             (let r' = reprocess_entry (qh_max_retry_attempts h) result r;
                  h2 = h1\<lparr>qh_store := dset qid r' (qh_store h1),
                          qh_metrics := reprocess_metrics (qh_max_retry_attempts h) result r (qh_metrics h1)\<rparr>
              in case reprocess_loop validate rs h2 of
                   (Inl ex, h3) \<Rightarrow> (Inl ex, h3)
                 | (Inr out, h3) \<Rightarrow> (Inr ((r', result) # out), h3)))"

definition eligible :: "q_handler \<Rightarrow> q_record \<Rightarrow> bool" where
  "eligible h r = (qr_status r = Q_quarantined \<and> qr_retry_count r < qh_max_retry_attempts h)"

definition reprocess ::
  "((string, pyval) dict \<Rightarrow> validation res) \<Rightarrow> string option \<Rightarrow> q_handler \<Rightarrow> (q_record \<times> validation) list res \<times> q_handler" where
  "reprocess validate quarantine_id h =
     (let candidates =
            (if truthy quarantine_id
             then (case dget (qh_store h) (the quarantine_id) of None \<Rightarrow> [] | Some r \<Rightarrow> [r])
             else filter (eligible h) (map snd (qh_store h)))
      in reprocess_loop validate candidates h)"

definition discard :: "string \<Rightarrow> q_handler \<Rightarrow> bool \<times> q_handler" where
  "discard qid h =
     (case dget (qh_store h) qid of
        None \<Rightarrow> (False, h)
      | Some r \<Rightarrow>
          if qr_status r \<noteq> Q_quarantined then (False, h)
          else (True, h\<lparr>qh_store := dset qid (r\<lparr>qr_status := Q_discarded\<rparr>) (qh_store h),
                        qh_metrics := record_discard (qh_metrics h)\<rparr>))"

definition expired :: "datetime \<Rightarrow> q_handler \<Rightarrow> q_record \<Rightarrow> bool" where
  "expired now h r = (qr_quarantined_at r < now - qh_retention_days h * 86400000000 \<and> qr_status r \<noteq> Q_quarantined)"

definition purge_expired :: "datetime \<Rightarrow> q_handler \<Rightarrow> nat \<times> q_handler" where
  "purge_expired now h =
     (length (filter (\<lambda>(k, r). expired now h r) (qh_store h)),
      h\<lparr>qh_store := filter (\<lambda>(k, r). \<not> expired now h r) (qh_store h)\<rparr>)"

definition q_count :: "q_handler \<Rightarrow> int" where
  "q_count h = dcount (\<lambda>r. qr_status r = Q_quarantined) (qh_store h)"

definition q_total_count :: "q_handler \<Rightarrow> nat" where
  "q_total_count h = length (qh_store h)"

section \<open>Steps\<close>

text \<open>
  The calls on a handler. \<open>direct\<close> says whether a single record may be re-processed by its id, \<open>total\<close>
  that the validators used return. A fresh identifier is used for each quarantined record.
\<close>

definition validator_ok :: "bool \<Rightarrow> ((string, pyval) dict \<Rightarrow> validation res) \<Rightarrow> bool" where
  "validator_ok tot validate = (tot \<longrightarrow> (\<forall>x. \<exists>v. validate x = Inr v))"

inductive q_step :: "bool \<Rightarrow> bool \<Rightarrow> q_handler \<Rightarrow> q_handler \<Rightarrow> bool" for direct tot where
  quarantine: "dget (qh_store h) uid = None \<Longrightarrow> q_step direct tot h (snd (quarantine now uid rec vr h))"
| reprocess_all: "validator_ok tot validate \<Longrightarrow> q_step direct tot h (snd (reprocess validate None h))"
| reprocess_one: "direct \<Longrightarrow> validator_ok tot validate \<Longrightarrow> q_step direct tot h (snd (reprocess validate (Some qid) h))"
| discard: "q_step direct tot h (snd (discard qid h))"
| purge: "q_step direct tot h (snd (purge_expired now h))"

inductive q_reachable :: "bool \<Rightarrow> bool \<Rightarrow> int \<Rightarrow> int \<Rightarrow> q_handler \<Rightarrow> bool" for direct tot retries days where
  init: "q_reachable direct tot retries days (new_q_handler retries days)"
| step: "q_reachable direct tot retries days h \<Longrightarrow> q_step direct tot h h' \<Longrightarrow> q_reachable direct tot retries days h'"

text \<open>Entries are stored under their own id; an active entry has retries left; the metrics agree with the store.\<close>

definition q_wf :: "q_handler \<Rightarrow> bool" where
  "q_wf h = (wf_dict (qh_store h) \<and> (\<forall>k r. dget (qh_store h) k = Some r \<longrightarrow> qr_quarantine_id r = k))"

definition retries_left :: "q_handler \<Rightarrow> bool" where
  "retries_left h = (\<forall>k r. dget (qh_store h) k = Some r \<longrightarrow> qr_status r = Q_quarantined \<longrightarrow>
     0 \<le> qr_retry_count r \<and> qr_retry_count r < qh_max_retry_attempts h)"

definition drift :: "q_handler \<Rightarrow> int" where
  "drift h = active_quarantined (qh_metrics h) - q_count h"

section \<open>Lemmas\<close>

lemma q_wf_put: "q_wf h \<Longrightarrow> qr_quarantine_id r = k \<Longrightarrow> q_wf (h\<lparr>qh_store := dset k r (qh_store h)\<rparr>)"
  by (auto simp: q_wf_def dict_simps)

text \<open>The handler after one candidate has been validated.\<close>

definition q_retried :: "validation \<Rightarrow> q_record \<Rightarrow> q_handler \<Rightarrow> q_handler" where
  "q_retried result r0 h =
     (let r = r0\<lparr>qr_retry_count := qr_retry_count r0 + 1\<rparr>
      in h\<lparr>qh_store := dset (qr_quarantine_id r0) (reprocess_entry (qh_max_retry_attempts h) result r) (qh_store h),
           qh_metrics := reprocess_metrics (qh_max_retry_attempts h) result r (qh_metrics h)\<rparr>)"

definition q_counted :: "q_record \<Rightarrow> q_handler \<Rightarrow> q_handler" where
  "q_counted r0 h = h\<lparr>qh_store := dset (qr_quarantine_id r0) (r0\<lparr>qr_retry_count := qr_retry_count r0 + 1\<rparr>) (qh_store h)\<rparr>"

lemma dset_dset: "dset k v (dset k w d) = dset k v d"
  by (induction d) auto

lemma reprocess_loop_Cons:
  "snd (reprocess_loop validate (r # rs) h) =
     (case validate (qr_record r) of
        Inl ex \<Rightarrow> q_counted r h | Inr result \<Rightarrow> snd (reprocess_loop validate rs (q_retried result r h)))"
  by (auto simp: q_counted_def q_retried_def Let_def dset_dset split: sum.splits prod.splits)

lemma reprocess_entry_id [simp]: "qr_quarantine_id (reprocess_entry n v r) = qr_quarantine_id r"
  by (simp add: reprocess_entry_def)

lemma q_retried_frame:
  "qh_max_retry_attempts (q_retried v r h) = qh_max_retry_attempts h" "qh_retention_days (q_retried v r h) = qh_retention_days h"
  "qh_max_retry_attempts (q_counted r h) = qh_max_retry_attempts h"
  by (simp_all add: q_retried_def q_counted_def Let_def)

lemma q_retried_lookup:
  "dget (qh_store (q_retried v r h)) k =
     (if k = qr_quarantine_id r
      then Some (reprocess_entry (qh_max_retry_attempts h) v (r\<lparr>qr_retry_count := qr_retry_count r + 1\<rparr>))
      else dget (qh_store h) k)"
  "dget (qh_store (q_counted r h)) k =
     (if k = qr_quarantine_id r then Some (r\<lparr>qr_retry_count := qr_retry_count r + 1\<rparr>) else dget (qh_store h) k)"
  by (simp_all add: q_retried_def q_counted_def Let_def dict_simps)

lemma q_retried_wf: "q_wf h \<Longrightarrow> q_wf (q_retried v r h)" "q_wf h \<Longrightarrow> q_wf (q_counted r h)"
  unfolding q_wf_def by (auto simp: q_retried_lookup) (simp_all add: q_retried_def q_counted_def Let_def)

lemma q_retried_drift:
  assumes "dget (qh_store h) (qr_quarantine_id r) = Some r" "qr_status r = Q_quarantined"
  shows "drift (q_retried v r h) = drift h" "drift (q_counted r h) = drift h"
  unfolding drift_def q_retried_def q_counted_def Let_def q_count_def
  using dcount_dset [OF assms(1), of "\<lambda>r. qr_status r = Q_quarantined"] assms(2)
  by (simp_all add: reprocess_entry_def reprocess_metrics_def active_quarantined_def record_reprocess_def record_discard_def)

text \<open>The candidates of a call: entries of the store, each once.\<close>

definition candidates_ok :: "q_record list \<Rightarrow> q_handler \<Rightarrow> bool" where
  "candidates_ok rs h = (distinct (map qr_quarantine_id rs) \<and> (\<forall>r \<in> set rs. dget (qh_store h) (qr_quarantine_id r) = Some r))"

lemma candidates_okD: "candidates_ok rs h \<Longrightarrow> r \<in> set rs \<Longrightarrow> dget (qh_store h) (qr_quarantine_id r) = Some r"
  unfolding candidates_ok_def by blast

lemma candidates_okI:
  "distinct (map qr_quarantine_id rs) \<Longrightarrow> (\<And>r. r \<in> set rs \<Longrightarrow> dget (qh_store h) (qr_quarantine_id r) = Some r) \<Longrightarrow> candidates_ok rs h"
  unfolding candidates_ok_def by blast

lemma candidates_ok_Cons:
  assumes "candidates_ok (r # rs) h"
  shows "candidates_ok rs (q_retried v r h)"
proof (rule candidates_okI)
  show "distinct (map qr_quarantine_id rs)" using assms unfolding candidates_ok_def by simp
  fix x assume x: "x \<in> set rs"
  have "qr_quarantine_id x \<noteq> qr_quarantine_id r" using assms x unfolding candidates_ok_def by (metis distinct.simps(2) image_eqI list.set_map list.simps(9))
  then show "dget (qh_store (q_retried v r h)) (qr_quarantine_id x) = Some x"
    using candidates_okD [OF assms, of x] x by (simp only: q_retried_lookup if_False list.set_intros)
qed

lemma reprocess_loop_frame:
  "qh_max_retry_attempts (snd (reprocess_loop validate rs h)) = qh_max_retry_attempts h"
proof (induction rs arbitrary: h)
  case (Cons r rs)
  then show ?case unfolding reprocess_loop_Cons by (simp add: q_retried_frame split: sum.splits)
qed simp

lemma reprocess_loop_wf: "q_wf h \<Longrightarrow> q_wf (snd (reprocess_loop validate rs h))"
proof (induction rs arbitrary: h)
  case (Cons r rs)
  then show ?case unfolding reprocess_loop_Cons by (simp add: q_retried_wf split: sum.splits)
qed simp

lemma reprocess_loop_drift:
  "candidates_ok rs h \<Longrightarrow> \<forall>r \<in> set rs. qr_status r = Q_quarantined \<Longrightarrow> drift (snd (reprocess_loop validate rs h)) = drift h"
proof (induction rs arbitrary: h)
  case (Cons r rs)
  have r: "dget (qh_store h) (qr_quarantine_id r) = Some r" "qr_status r = Q_quarantined"
    using candidates_okD [OF Cons.prems(1)] Cons.prems(2) by simp_all
  show ?case
    unfolding reprocess_loop_Cons
    using Cons.IH [OF candidates_ok_Cons [OF Cons.prems(1)]] Cons.prems(2) q_retried_drift [OF r]
    by (simp split: sum.splits)
qed simp

lemma reprocess_loop_retries:
  assumes "retries_left h" "\<forall>x. \<exists>v. validate x = Inr v" "\<forall>r \<in> set rs. qr_status r = Q_quarantined \<longrightarrow> 0 \<le> qr_retry_count r"
  shows "retries_left (snd (reprocess_loop validate rs h))"
  using assms
proof (induction rs arbitrary: h)
  case (Cons r rs)
  have "retries_left (q_retried v r h)" for v
    using Cons.prems(1,3)
    by (auto simp: retries_left_def q_retried_lookup q_retried_frame reprocess_entry_def split: if_splits)
  moreover obtain v where "validate (qr_record r) = Inr v" using Cons.prems(2) by blast
  ultimately show ?case unfolding reprocess_loop_Cons using Cons.IH Cons.prems(2,3) by simp
qed simp

lemma bulk_candidates_ok: "q_wf h \<Longrightarrow> candidates_ok (filter P (map snd (qh_store h))) h"
proof -
  assume w: "q_wf h"
  then have "map qr_quarantine_id (map snd (qh_store h)) = map fst (qh_store h)"
    by (auto simp: q_wf_def intro!: wf_dict_Some_in)
  then have "distinct (map qr_quarantine_id (map snd (qh_store h)))" using w by (simp only: q_wf_def)
  then have "distinct (map qr_quarantine_id (filter P (map snd (qh_store h))))" by (rule distinct_map_filter)
  moreover have "dget (qh_store h) (qr_quarantine_id r) = Some r" if mem: "r \<in> snd ` set (qh_store h)" for r
  proof -
    obtain k where "(k, r) \<in> set (qh_store h)" using mem by force
    then have d: "dget (qh_store h) k = Some r" by (rule wf_dict_Some_in [OF w [unfolded q_wf_def, THEN conjunct1]])
    have "qr_quarantine_id r = k" using w [unfolded q_wf_def, THEN conjunct2, rule_format, OF d] .
    with d show ?thesis by (simp only:)
  qed
  ultimately show ?thesis by (intro candidates_okI) auto
qed

lemma stored_retries:
  assumes "candidates_ok rs h" "retries_left h"
  shows "\<forall>r \<in> set rs. qr_status r = Q_quarantined \<longrightarrow> 0 \<le> qr_retry_count r"
  using candidates_okD [OF assms(1)] assms(2) unfolding retries_left_def by blast

text \<open>What a call with a validator that returns does to each entry.\<close>

lemma reprocess_loop_other:
  assumes "\<forall>x. \<exists>v. validate x = Inr v" "k \<notin> qr_quarantine_id ` set rs"
  shows "dget (qh_store (snd (reprocess_loop validate rs h))) k = dget (qh_store h) k"
  using assms(2)
proof (induction rs arbitrary: h)
  case (Cons a rs)
  obtain v where "validate (qr_record a) = Inr v" using assms(1) by blast
  then show ?case unfolding reprocess_loop_Cons using Cons by (simp add: q_retried_lookup)
qed simp

lemma reprocess_loop_candidate:
  assumes "candidates_ok rs h" "\<forall>x. \<exists>v. validate x = Inr v" "r \<in> set rs"
  shows "\<exists>v. dget (qh_store (snd (reprocess_loop validate rs h))) (qr_quarantine_id r)
    = Some (reprocess_entry (qh_max_retry_attempts h) v (r\<lparr>qr_retry_count := qr_retry_count r + 1\<rparr>))"
  using assms(1,3)
proof (induction rs arbitrary: h)
  case (Cons a rs)
  obtain v where v: "validate (qr_record a) = Inr v" using assms(2) by blast
  have st: "snd (reprocess_loop validate (a # rs) h) = snd (reprocess_loop validate rs (q_retried v a h))"
    unfolding reprocess_loop_Cons v by simp
  show ?case
  proof (cases "r \<in> set rs")
    case True
    then show ?thesis using Cons.IH [OF candidates_ok_Cons [OF Cons.prems(1)]] unfolding st by (simp only: q_retried_frame)
  next
    case False
    then have r: "r = a" using Cons.prems(2) by simp
    have "qr_quarantine_id a \<notin> qr_quarantine_id ` set rs" using Cons.prems(1) by (simp add: candidates_ok_def)
    then show ?thesis
      unfolding st r reprocess_loop_other [OF assms(2) \<open>qr_quarantine_id a \<notin> _\<close>] by (auto simp: q_retried_lookup)
  qed
qed simp

end
