(* ===== verification/Quarantine_Properties.thy ===== *)
theory Quarantine_Properties
  imports Quarantine
begin

text \<open>
  What the quarantine guarantees: its metrics agree with its contents as long as records are
  re-processed in bulk, every record leaves it after the configured number of retries, and the two
  ways in which that fails: re-processing one record by its id, and a validator that raises.
\<close>

section \<open>Invariants\<close>

lemma reprocess_bulk: "reprocess validate None h = reprocess_loop validate (filter (eligible h) (map snd (qh_store h))) h"
  by (simp add: reprocess_def)

lemma dcount_filter: "(\<And>k v. (k, v) \<in> set d \<Longrightarrow> P v \<Longrightarrow> Q (k, v)) \<Longrightarrow> dcount P (filter Q d) = dcount P d"
  unfolding dcount_def by (induction d) auto

lemma purge_store:
  assumes "q_wf h"
  shows "dget (qh_store (snd (purge_expired now h))) k =
    (case dget (qh_store h) k of None \<Rightarrow> None | Some r \<Rightarrow> if expired now h r then None else Some r)"
  using dget_filter_keys [of "qh_store h" "\<lambda>(k, r). \<not> expired now h r" k] assms
  by (auto simp: purge_expired_def q_wf_def split: option.splits)

lemma q_step_wf:
  assumes "q_step direct tot h h'" "q_wf h"
  shows "q_wf h' \<and> qh_max_retry_attempts h' = qh_max_retry_attempts h"
  using assms
proof cases
  case (quarantine uid now rec vr)
  then show ?thesis using assms(2) by (auto simp: quarantine_def Let_def q_wf_def dict_simps)
next
  case (reprocess_all validate)
  then show ?thesis using reprocess_loop_wf [OF assms(2)] reprocess_loop_frame by (simp add: reprocess_bulk)
next
  case (reprocess_one validate qid)
  then show ?thesis using reprocess_loop_wf [OF assms(2)] reprocess_loop_frame by (simp add: reprocess_def Let_def)
next
  case (discard qid)
  then show ?thesis using assms(2) by (auto simp: discard_def q_wf_def dict_simps split: option.splits)
next
  case (purge now)
  have "wf_dict (qh_store h')" using purge assms(2) by (simp add: purge_expired_def q_wf_def)
  then show ?thesis using purge purge_store [OF assms(2), of now] assms(2)
    by (auto simp: q_wf_def purge_expired_def split: option.splits if_splits)
qed

lemma q_step_drift:
  assumes "q_step False tot h h'" "q_wf h"
  shows "drift h' = drift h"
  using assms
proof cases
  case (quarantine uid now rec vr)
  then show ?thesis
    by (simp add: quarantine_def Let_def drift_def q_count_def dcount_dset_new active_quarantined_def record_quarantine_def)
next
  case (reprocess_all validate)
  then show ?thesis
    using reprocess_loop_drift [OF bulk_candidates_ok [OF assms(2)], of "eligible h" validate]
    by (simp add: reprocess_bulk eligible_def)
next
  case (discard qid)
  then show ?thesis
    by (auto simp: discard_def drift_def q_count_def dcount_dset active_quarantined_def record_discard_def split: option.splits)
next
  case (purge now)
  have "dcount (\<lambda>r. qr_status r = Q_quarantined) (filter (\<lambda>(k, r). \<not> expired now h r) (qh_store h))
      = dcount (\<lambda>r. qr_status r = Q_quarantined) (qh_store h)"
    by (rule dcount_filter) (simp add: expired_def)
  then show ?thesis using purge by (simp add: purge_expired_def drift_def q_count_def)
qed simp

lemma one_candidate_ok: "q_wf h \<Longrightarrow> candidates_ok (case dget (qh_store h) k of None \<Rightarrow> [] | Some r \<Rightarrow> [r]) h"
  by (rule candidates_okI) (auto simp: q_wf_def split: option.splits)

lemma q_step_retries:
  assumes "q_step direct True h h'" "q_wf h" "retries_left h" "0 < qh_max_retry_attempts h"
  shows "retries_left h'"
  using assms
proof cases
  case (quarantine uid now rec vr)
  then show ?thesis using assms(3,4) by (auto simp: quarantine_def Let_def retries_left_def dict_simps)
next
  case (reprocess_all validate)
  then show ?thesis using reprocess_loop_retries [OF assms(3) _ stored_retries [OF bulk_candidates_ok [OF assms(2)] assms(3)]]
    by (simp add: reprocess_bulk validator_ok_def)
next
  case (reprocess_one validate qid)
  then show ?thesis
    using reprocess_loop_retries [OF assms(3) _ stored_retries [OF one_candidate_ok [OF assms(2)] assms(3)]]
      reprocess_loop_retries [OF assms(3) _ stored_retries [OF bulk_candidates_ok [OF assms(2)] assms(3)]]
    by (simp add: reprocess_def Let_def validator_ok_def)
next
  case (discard qid)
  then show ?thesis using assms(3) by (auto simp: discard_def retries_left_def dict_simps split: option.splits)
next
  case (purge now)
  then show ?thesis using purge_store [OF assms(2), of now] assms(3)
    by (auto simp: retries_left_def purge_expired_def split: option.splits if_splits)
qed

lemma q_reachable_wf: "q_reachable direct tot n d h \<Longrightarrow> q_wf h \<and> qh_max_retry_attempts h = n"
proof (induction rule: q_reachable.induct)
  case init
  show ?case by (simp add: new_q_handler_def q_wf_def)
qed (use q_step_wf in auto)

text \<open>
  Claim C31 (the metrics agree with the store): as long as records are not re-processed by id, after any
  sequence of calls the number of active records computed from the metrics is the number of stored
  records whose status is quarantined.
\<close>

theorem quarantine_metrics_exact:
  assumes "q_reachable False tot n d h"
  shows "active_quarantined (qh_metrics h) = q_count h \<and> 0 \<le> active_quarantined (qh_metrics h)"
proof -
  have "drift h = 0"
    using assms
  proof (induction rule: q_reachable.induct)
    case init
    show ?case by (simp add: drift_def new_q_handler_def new_q_metrics_def active_quarantined_def q_count_def)
  next
    case (step h h')
    then show ?case using q_step_drift q_reachable_wf by metis
  qed
  then show ?thesis by (simp add: drift_def q_count_def dcount_def)
qed

definition bad :: validation where
  "bad = \<lparr>va_is_valid = False, va_errors = []\<rparr>"

definition good :: validation where
  "good = \<lparr>va_is_valid = True, va_errors = []\<rparr>"

definition one_record :: "int \<Rightarrow> q_handler" where
  "one_record n = snd (quarantine 0 ''q1'' [] bad (new_q_handler n 30))"

lemma one_record_reachable: "q_reachable direct tot n 30 (one_record n)"
  unfolding one_record_def
  by (rule q_reachable.step [OF q_reachable.init], rule q_step.quarantine) (simp add: new_q_handler_def)

theorem quarantine_metrics_exact_witness: "active_quarantined (qh_metrics (one_record 3)) = q_count (one_record 3)"
  using quarantine_metrics_exact [OF one_record_reachable [of False False 3]] by simp

section \<open>Every record leaves the quarantine\<close>

text \<open>A sequence of bulk calls, each with its own validator.\<close>

fun bulk :: "((string, pyval) dict \<Rightarrow> validation res) list \<Rightarrow> q_handler \<Rightarrow> q_handler" where
  "bulk [] h = h"
| "bulk (v # vs) h = bulk vs (snd (reprocess v None h))"

definition retries_from :: "int \<Rightarrow> q_handler \<Rightarrow> bool" where
  "retries_from n h = (\<forall>k r. dget (qh_store h) k = Some r \<longrightarrow> qr_status r = Q_quarantined \<longrightarrow> n \<le> qr_retry_count r)"

lemma bulk_raises_retries:
  assumes "q_wf h" "retries_left h" "retries_from n h" "\<forall>x. \<exists>v. validate x = Inr v"
  shows "retries_from (n + 1) (snd (reprocess validate None h))"
  unfolding retries_from_def
proof (intro allI impI)
  fix k r
  let ?c = "filter (eligible h) (map snd (qh_store h))"
  assume r: "dget (qh_store (snd (reprocess validate None h))) k = Some r" "qr_status r = Q_quarantined"
  note c = bulk_candidates_ok [OF assms(1), of "eligible h"]
  show "n + 1 \<le> qr_retry_count r"
  proof (cases "k \<in> qr_quarantine_id ` set ?c")
    case True
    then obtain r0 where r0: "r0 \<in> set ?c" "k = qr_quarantine_id r0" by blast
    obtain v where "r = reprocess_entry (qh_max_retry_attempts h) v (r0\<lparr>qr_retry_count := qr_retry_count r0 + 1\<rparr>)"
      using reprocess_loop_candidate [OF c assms(4) r0(1)] r(1) r0(2) by (auto simp: reprocess_bulk)
    moreover have "n \<le> qr_retry_count r0"
      using assms(3) candidates_okD [OF c r0(1)] r0(1) unfolding retries_from_def by (auto simp: eligible_def)
    ultimately show ?thesis using r(2) by (simp add: reprocess_entry_def split: if_splits)
  next
    case False
    have s: "dget (qh_store h) k = Some r" using reprocess_loop_other [OF assms(4) False] r(1) by (simp add: reprocess_bulk)
    then have "eligible h r" using assms(2) r(2) by (auto simp: retries_left_def eligible_def)
    moreover have "qr_quarantine_id r = k" using assms(1) s by (simp add: q_wf_def)
    moreover have "r \<in> snd ` set (qh_store h)" using map_of_SomeD [OF s] by force
    ultimately show ?thesis using False by auto
  qed
qed

lemma bulk_step:
  assumes "q_wf h" "retries_left h" "\<forall>x. \<exists>v. validate x = Inr v" "0 < qh_max_retry_attempts h"
  shows "q_wf (snd (reprocess validate None h))" "retries_left (snd (reprocess validate None h))"
    "qh_max_retry_attempts (snd (reprocess validate None h)) = qh_max_retry_attempts h"
  using q_step_wf [of True True h, OF q_step.reprocess_all assms(1)] q_step_retries [OF q_step.reprocess_all assms(1,2,4)] assms(3)
  by (simp_all add: validator_ok_def)

lemma bulk_retries:
  assumes "q_wf h" "retries_left h" "retries_from n h" "\<forall>v \<in> set vs. \<forall>x. \<exists>y. v x = Inr y" "0 < qh_max_retry_attempts h"
  shows "retries_from (n + int (length vs)) (bulk vs h) \<and> retries_left (bulk vs h)
    \<and> qh_max_retry_attempts (bulk vs h) = qh_max_retry_attempts h"
  using assms
proof (induction vs arbitrary: h n)
  case (Cons v vs)
  have v: "\<forall>x. \<exists>y. v x = Inr y" using Cons.prems(4) by simp
  note b = bulk_step [OF Cons.prems(1,2) v Cons.prems(5)]
  have "retries_from (n + 1 + int (length vs)) (bulk vs (snd (reprocess v None h))) \<and> retries_left (bulk vs (snd (reprocess v None h)))
      \<and> qh_max_retry_attempts (bulk vs (snd (reprocess v None h))) = qh_max_retry_attempts (snd (reprocess v None h))"
    using Cons.IH [OF b(1,2) bulk_raises_retries [OF Cons.prems(1-3) v]] Cons.prems(4,5) b(3) by simp
  then show ?case using b(3) by (simp add: algebra_simps)
qed simp

text \<open>
  Claim C32 (every record leaves the quarantine): with validators that return, as many bulk calls as there are
  retries empty the quarantine of active records, whatever the validators answer: each record that
  was active is by then either reprocessed or discarded.
\<close>

theorem quarantine_drains:
  assumes "q_reachable direct True n d h" "0 < n" "\<forall>v \<in> set vs. \<forall>x. \<exists>y. v x = Inr y" "n \<le> int (length vs)"
  shows "q_count (bulk vs h) = 0"
proof -
  have "retries_left h \<and> q_wf h \<and> qh_max_retry_attempts h = n"
    using assms(1)
  proof (induction rule: q_reachable.induct)
    case init
    show ?case by (simp add: new_q_handler_def retries_left_def q_wf_def)
  next
    case (step h h')
    then show ?case using q_step_retries [OF step(2)] q_step_wf [OF step(2)] assms(2) by simp
  qed
  moreover then have "retries_from 0 h" by (auto simp: retries_left_def retries_from_def)
  ultimately have b: "retries_from (int (length vs)) (bulk vs h)" "retries_left (bulk vs h)" "qh_max_retry_attempts (bulk vs h) = n"
    using bulk_retries [of h 0 vs] assms(2,3) by simp_all
  have none: "qr_status r \<noteq> Q_quarantined" if "dget (qh_store (bulk vs h)) k = Some r" for k r
    using b that assms(4) unfolding retries_from_def retries_left_def by fastforce
  have wf: "q_wf (bulk vs h)"
    using \<open>retries_left h \<and> q_wf h \<and> qh_max_retry_attempts h = n\<close> assms(3)
  proof (induction vs arbitrary: h)
    case (Cons v vs)
    then show ?case using bulk_step [of h v] assms(2) by simp
  qed simp
  have "\<forall>r \<in> set (map snd (qh_store (bulk vs h))). qr_status r \<noteq> Q_quarantined"
    using none wf_dict_Some_in [OF wf [unfolded q_wf_def, THEN conjunct1]] by fastforce
  then show ?thesis by (simp add: q_count_def dcount_def filter_empty_conv)
qed

theorem quarantine_drains_witness: "q_count (bulk [\<lambda>x. Inr bad, \<lambda>x. Inr bad] (one_record 2)) = 0"
  by (rule quarantine_drains [OF one_record_reachable]) simp_all

section \<open>Where it fails\<close>

text \<open>
  Remark (re-processing by id miscounts): re-processing a record by its id does not look at its status. A
  record that was already discarded or reprocessed and that now validates is counted again, and the
  number of active records in the metrics falls below the number in the store.
\<close>

theorem reprocess_by_id_miscounts:
  assumes "q_wf h" "dget (qh_store h) k = Some r" "qr_status r \<noteq> Q_quarantined" "k \<noteq> []"
    and "validate (qr_record r) = Inr v" "va_is_valid v"
  shows "active_quarantined (qh_metrics (snd (reprocess validate (Some k) h))) = active_quarantined (qh_metrics h) - 1
    \<and> q_count (snd (reprocess validate (Some k) h)) = q_count h"
proof -
  have "truthy (Some k)" using assms(4) by (cases k) simp_all
  moreover have "qr_quarantine_id r = k" using assms(1,2) by (simp add: q_wf_def)
  ultimately have "snd (reprocess validate (Some k) h) = q_retried v r h"
    using assms(2,5) by (simp add: reprocess_def reprocess_loop_Cons del: reprocess_loop.simps(2))
  then show ?thesis
    using dcount_dset [OF assms(2), of "\<lambda>r. qr_status r = Q_quarantined"] assms(3,6) \<open>qr_quarantine_id r = k\<close>
    by (simp add: q_retried_def Let_def reprocess_entry_def reprocess_metrics_def record_reprocess_def active_quarantined_def q_count_def)
qed

definition discarded_record :: q_handler where
  "discarded_record = snd (discard ''q1'' (one_record 3))"

theorem reprocess_by_id_miscounts_witness:
  "active_quarantined (qh_metrics (snd (reprocess (\<lambda>x. Inr good) (Some ''q1'') discarded_record))) = - 1"
proof -
  have "q_wf discarded_record"
    unfolding discarded_record_def using q_step_wf [OF q_step.discard] q_reachable_wf [OF one_record_reachable] by blast
  moreover obtain r where "dget (qh_store discarded_record) ''q1'' = Some r" "qr_status r \<noteq> Q_quarantined"
    by (simp add: discarded_record_def one_record_def discard_def quarantine_def Let_def new_q_handler_def)
  moreover have "active_quarantined (qh_metrics discarded_record) = 0"
    by (simp add: discarded_record_def one_record_def discard_def quarantine_def Let_def new_q_handler_def new_q_metrics_def
        record_quarantine_def record_discard_def active_quarantined_def)
  ultimately show ?thesis
    using reprocess_by_id_miscounts [of discarded_record "''q1''" r "\<lambda>x. Inr good" good] by (simp add: good_def)
qed

text \<open>
  Remark (a raising validator strands a record): the retry is counted before the validator runs. When the
  validator raises on the last retry, the record stays active with no retry left, and no later bulk
  call, with any validators, picks it up again.
\<close>

theorem raising_validator_strands_record:
  assumes "validate [] = Inl ex"
  defines "h \<equiv> snd (reprocess validate None (one_record 1))"
  shows "fst (reprocess validate None (one_record 1)) = Inl ex \<and> q_count (bulk vs h) = 1"
proof -
  have none: "filter (eligible h) (map snd (qh_store h)) = []"
    and one: "q_count h = 1" and r: "fst (reprocess validate None (one_record 1)) = Inl ex"
    using assms(1)
    by (simp_all add: h_def reprocess_def one_record_def quarantine_def Let_def new_q_handler_def eligible_def q_count_def dcount_def)
  have "bulk vs h = h"
  proof (induction vs)
    case (Cons v vs)
    then show ?case by (simp only: bulk.simps reprocess_bulk none reprocess_loop.simps snd_conv)
  qed simp
  with one r show ?thesis by simp
qed

theorem raising_validator_strands_record_witness:
  "q_count (bulk [\<lambda>x. Inr good] (snd (reprocess (\<lambda>x. Inl TypeError) None (one_record 1)))) = 1"
  by (rule raising_validator_strands_record [of "\<lambda>x. Inl TypeError" TypeError, OF refl, THEN conjunct2])

end
