(* ===== verification/Aggregation.thy ===== *)
theory Aggregation
  imports Py_Text
begin

text \<open>
  The window aggregation of \<^verbatim>\<open>src/transformation/aggregator.py\<close>: running statistics by Welford's method, the
  batch aggregator over window specifications, and the incremental aggregator, a buffer that drops
  what is older than its longest window. The contract of such a buffer is the locale
  \<open>window_buffer\<close>, which the velocity profiles fulfil as well.

  \<^verbatim>\<open>datetime.fromisoformat\<close> and \<^verbatim>\<open>str\<close> are arguments. Times are seconds; the smallest and the largest value of
  no values, infinities in the code, are \<open>None\<close>.
\<close>

section \<open>Running statistics\<close>

record running_stats =
  rs_count :: nat
  rs_mean :: real
  rs_m2 :: real
  rs_min :: "real option"
  rs_max :: "real option"
  rs_sum :: real

definition new_stats :: running_stats where
  "new_stats = \<lparr>rs_count = 0, rs_mean = 0, rs_m2 = 0, rs_min = None, rs_max = None, rs_sum = 0\<rparr>"

definition stats_mean :: "running_stats \<Rightarrow> real" where
  "stats_mean s = (if 0 < rs_count s then rs_mean s else 0)"

definition stats_variance :: "running_stats \<Rightarrow> real" where
  "stats_variance s = (if rs_count s < 2 then 0 else rs_m2 s / real (rs_count s - 1))"

text \<open>\<^verbatim>\<open>variance ** 0.5\<close>; a negative variance would give a complex number, which \<^verbatim>\<open>float\<close> refuses.\<close>

definition stats_std :: "running_stats \<Rightarrow> real res" where
  "stats_std s = (if stats_variance s < 0 then Inl TypeError else Inr (sqrt (stats_variance s)))"

definition stats_min :: "running_stats \<Rightarrow> real" where
  "stats_min s = (if 0 < rs_count s then (case rs_min s of None \<Rightarrow> 0 | Some x \<Rightarrow> x) else 0)"

definition stats_max :: "running_stats \<Rightarrow> real" where
  "stats_max s = (if 0 < rs_count s then (case rs_max s of None \<Rightarrow> 0 | Some x \<Rightarrow> x) else 0)"

definition stats_add :: "real \<Rightarrow> running_stats \<Rightarrow> running_stats" where
  "stats_add value s =
     (let n = rs_count s + 1; delta = value - rs_mean s; mean = rs_mean s + delta / real n; delta2 = value - mean
      in \<lparr>rs_count = n, rs_mean = mean, rs_m2 = rs_m2 s + delta * delta2,
          rs_min = (case rs_min s of None \<Rightarrow> Some value | Some x \<Rightarrow> Some (if value < x then value else x)),
          rs_max = (case rs_max s of None \<Rightarrow> Some value | Some x \<Rightarrow> Some (if value > x then value else x)),
          rs_sum = rs_sum s + value\<rparr>)"

definition stats_reset :: "running_stats \<Rightarrow> running_stats" where
  "stats_reset s = new_stats"

section \<open>Windows and results\<close>

datatype window_type = TUMBLING | SLIDING

record window_spec =
  ws_name :: string
  ws_duration_seconds :: int
  ws_window_type :: window_type
  ws_slide_seconds :: int

text \<open>The constructor with \<^verbatim>\<open>__post_init__\<close>.\<close>

definition make_window_spec :: "string \<Rightarrow> int \<Rightarrow> window_type \<Rightarrow> int \<Rightarrow> window_spec res" where
  "make_window_spec name duration ty slide =
     (if duration \<le> 0 then Inl ValueError
      else Inr \<lparr>ws_name = name, ws_duration_seconds = duration, ws_window_type = ty,
                ws_slide_seconds = (if ty = TUMBLING \<and> slide = 0 then duration else slide)\<rparr>)"

record agg_result =
  ar_window_name :: string
  ar_count :: nat
  ar_sum :: real
  ar_mean :: real
  ar_std :: real
  ar_min :: real
  ar_max :: real
  ar_distinct_count :: nat

definition agg_to_dict :: "agg_result \<Rightarrow> (string, pyval) dict" where
  "agg_to_dict a =
     [(ar_window_name a @ ''_count'', PInt (int (ar_count a))), (ar_window_name a @ ''_sum'', PFloat (py_round 2 (ar_sum a))),
      (ar_window_name a @ ''_mean'', PFloat (py_round 4 (ar_mean a))), (ar_window_name a @ ''_std'', PFloat (py_round 4 (ar_std a))),
      (ar_window_name a @ ''_min'', PFloat (py_round 2 (ar_min a))), (ar_window_name a @ ''_max'', PFloat (py_round 2 (ar_max a)))]"

definition to_aggregation_result :: "string \<Rightarrow> running_stats \<Rightarrow> agg_result res" where
  "to_aggregation_result name s =
     res_bind (stats_std s) (\<lambda>sd.
       Inr \<lparr>ar_window_name = name, ar_count = rs_count s, ar_sum = rs_sum s, ar_mean = stats_mean s, ar_std = sd,
            ar_min = stats_min s, ar_max = stats_max s, ar_distinct_count = 0\<rparr>)"

section \<open>Batch aggregation\<close>

text \<open>
  \<^verbatim>\<open>_extract_timestamp(v).timestamp()\<close>: a naive \<^verbatim>\<open>datetime\<close> counts as UTC. \<open>fromiso\<close> is \<^verbatim>\<open>fromisoformat\<close> after the
  replacement of \<^verbatim>\<open>Z\<close>, as wall clock and offset in microseconds.
\<close>

definition aware_seconds :: "int \<Rightarrow> int option \<Rightarrow> seconds" where
  "aware_seconds wall offset = of_int (wall - (case offset of None \<Rightarrow> 0 | Some z \<Rightarrow> z)) / 1000000"

fun extract_timestamp :: "(string \<Rightarrow> (int \<times> int option) option) \<Rightarrow> pyval \<Rightarrow> seconds option" where
  "extract_timestamp fromiso (PTime w z) = Some (aware_seconds w z)"
| "extract_timestamp fromiso (PBool b) = Some (if b then 1 else 0)"
| "extract_timestamp fromiso (PInt n) = Some (of_int n)"
| "extract_timestamp fromiso (PFloat x) = Some x"
| "extract_timestamp fromiso (PStr s) = map_option (\<lambda>(w, z). aware_seconds w z) (fromiso s)"
| "extract_timestamp fromiso _ = None"

type_synonym record_doc = "(string, pyval) dict"

definition event_in :: "(string \<Rightarrow> (int \<times> int option) option) \<Rightarrow> string \<Rightarrow> seconds \<Rightarrow> int \<Rightarrow> record_doc \<Rightarrow> bool" where
  "event_in fromiso time_field ref_ts duration e =
     (case extract_timestamp fromiso (pget e time_field) of
        None \<Rightarrow> False | Some ts \<Rightarrow> ref_ts - of_int duration \<le> ts \<and> ts < ref_ts)"

text \<open>An event of the window whose value is missing or not a number is skipped.\<close>

fun add_events ::
  "(string \<Rightarrow> (int \<times> int option) option) \<Rightarrow> string \<Rightarrow> string \<Rightarrow> seconds \<Rightarrow> int \<Rightarrow> record_doc list \<Rightarrow> running_stats \<Rightarrow> running_stats" where
  "add_events fromiso value_field time_field ref_ts duration [] s = s"
| "add_events fromiso value_field time_field ref_ts duration (e # es) s =
     add_events fromiso value_field time_field ref_ts duration es
       (if event_in fromiso time_field ref_ts duration e
        then (case pget e value_field of PNone \<Rightarrow> s | v \<Rightarrow> (case to_float v of Inl ex \<Rightarrow> s | Inr x \<Rightarrow> stats_add x s))
        else s)"

fun aggregate ::
  "(string \<Rightarrow> (int \<times> int option) option) \<Rightarrow> string \<Rightarrow> string \<Rightarrow> seconds \<Rightarrow> record_doc list \<Rightarrow> window_spec list \<Rightarrow> (string, agg_result) dict
   \<Rightarrow> (string, agg_result) dict res" where
  "aggregate fromiso value_field time_field ref_ts es [] results = Inr results"
| "aggregate fromiso value_field time_field ref_ts es (spec # specs) results =
     res_bind (to_aggregation_result (ws_name spec)
        (add_events fromiso value_field time_field ref_ts (ws_duration_seconds spec) es new_stats))
       (\<lambda>a. aggregate fromiso value_field time_field ref_ts es specs (dset (ws_name spec) a results))"

fun aggregate_multiple_fields ::
  "(string \<Rightarrow> (int \<times> int option) option) \<Rightarrow> string \<Rightarrow> seconds \<Rightarrow> record_doc list \<Rightarrow> window_spec list \<Rightarrow> string list
   \<Rightarrow> (string, (string, agg_result) dict) dict \<Rightarrow> (string, (string, agg_result) dict) dict res" where
  "aggregate_multiple_fields fromiso time_field ref_ts es specs [] results = Inr results"
| "aggregate_multiple_fields fromiso time_field ref_ts es specs (f # fs) results =
     res_bind (aggregate fromiso f time_field ref_ts es specs [])
       (\<lambda>a. aggregate_multiple_fields fromiso time_field ref_ts es specs fs (dset f a results))"

text \<open>\<open>show_val\<close> is \<^verbatim>\<open>str\<close>.\<close>

definition present :: "pyval \<Rightarrow> bool" where
  "present v = (v \<noteq> PNone \<and> v \<noteq> PStr [])"

definition distinct_in ::
  "(string \<Rightarrow> (int \<times> int option) option) \<Rightarrow> (pyval \<Rightarrow> string) \<Rightarrow> string \<Rightarrow> string \<Rightarrow> seconds \<Rightarrow> int \<Rightarrow> record_doc list \<Rightarrow> nat" where
  "distinct_in fromiso show_val count_field time_field ref_ts duration es =
     card (set (map (\<lambda>e. show_val (pget e count_field))
       (filter (\<lambda>e. event_in fromiso time_field ref_ts duration e \<and> present (pget e count_field)) es)))"

definition compute_distinct_counts ::
  "(string \<Rightarrow> (int \<times> int option) option) \<Rightarrow> (pyval \<Rightarrow> string) \<Rightarrow> string \<Rightarrow> string \<Rightarrow> seconds \<Rightarrow> record_doc list \<Rightarrow> window_spec list \<Rightarrow> (string, nat) dict" where
  "compute_distinct_counts fromiso show_val count_field time_field ref_ts es specs =
     fold (\<lambda>spec. dset (ws_name spec) (distinct_in fromiso show_val count_field time_field ref_ts (ws_duration_seconds spec) es)) specs []"

section \<open>Incremental aggregation\<close>

record agg_event =
  ae_ts :: seconds
  ae_value :: real
  ae_meta :: "(string, pyval) dict"

record incremental =
  ia_max_window :: int
  ia_buffer :: "agg_event list"

definition new_incremental :: "int \<Rightarrow> incremental" where
  "new_incremental max_window = \<lparr>ia_max_window = max_window, ia_buffer = []\<rparr>"

definition ia_evict_expired :: "seconds \<Rightarrow> incremental \<Rightarrow> incremental" where
  "ia_evict_expired now b = b\<lparr>ia_buffer := dropWhile (\<lambda>e. ae_ts e < now - of_int (ia_max_window b)) (ia_buffer b)\<rparr>"

definition add_event :: "agg_event \<Rightarrow> incremental \<Rightarrow> incremental" where
  "add_event e b = ia_evict_expired (ae_ts e) (b\<lparr>ia_buffer := ia_buffer b @ [e]\<rparr>)"

definition ia_window :: "seconds \<Rightarrow> int \<Rightarrow> agg_event list \<Rightarrow> agg_event list" where
  "ia_window ref_ts window es = filter (\<lambda>e. ref_ts - of_int window \<le> ae_ts e \<and> ae_ts e < ref_ts) es"

definition get_statistics :: "(int \<Rightarrow> string) \<Rightarrow> seconds \<Rightarrow> int \<Rightarrow> incremental \<Rightarrow> agg_result res" where
  "get_statistics name ref_ts window b =
     to_aggregation_result (name window) (fold stats_add (map ae_value (ia_window ref_ts window (ia_buffer b))) new_stats)"

definition get_distinct_count :: "(pyval \<Rightarrow> string) \<Rightarrow> seconds \<Rightarrow> int \<Rightarrow> string \<Rightarrow> incremental \<Rightarrow> nat" where
  "get_distinct_count show_val ref_ts window key b =
     card (set (map (\<lambda>e. show_val (pget (ae_meta e) key))
       (filter (\<lambda>e. present (pget (ae_meta e) key)) (ia_window ref_ts window (ia_buffer b)))))"

definition ia_clear :: "incremental \<Rightarrow> incremental" where
  "ia_clear b = b\<lparr>ia_buffer := []\<rparr>"

definition buffer_size :: "incremental \<Rightarrow> nat" where
  "buffer_size b = length (ia_buffer b)"

section \<open>Buffers that drop what has expired\<close>

text \<open>
  The contract of a buffer of timed entries: adding an entry appends it and drops, from the front, the
  entries older than the entry by more than the width. Whatever the order of the times, a window that
  starts no earlier than the oldest cut-off then shows the whole history.
\<close>

locale window_buffer =
  fixes time :: "'e \<Rightarrow> seconds"
    and add :: "'e \<Rightarrow> 'b \<Rightarrow> 'b"
    and contents :: "'b \<Rightarrow> 'e list"
    and width :: "'b \<Rightarrow> real"
  assumes add_contents: "contents (add e b) = dropWhile (\<lambda>x. time x < time e - width b) (contents b @ [e])"
    and add_width: "width (add e b) = width b"
begin

lemma width_fold [simp]: "width (fold add es b) = width b"
  by (induction es arbitrary: b) (simp_all add: add_width)

lemma filter_dropWhile: "(\<And>x. Q x \<Longrightarrow> \<not> P x) \<Longrightarrow> filter P (dropWhile Q xs) = filter P xs"
  by (induction xs) auto

lemma history_complete:
  assumes "\<And>e. e \<in> set es \<Longrightarrow> time e - width b \<le> c" "\<And>x. P x \<Longrightarrow> c \<le> time x"
  shows "filter P (contents (fold add es b)) = filter P (contents b @ es)"
  using assms(1)
proof (induction es arbitrary: b)
  case (Cons e es)
  have "filter P (contents (add e b)) = filter P (contents b @ [e])"
    unfolding add_contents using Cons.prems [of e] assms(2) by (intro filter_dropWhile) force
  then show ?case using Cons.IH [of "add e b"] Cons.prems by (simp add: add_width)
qed simp

lemma in_order_bounded:
  assumes "sorted (map time (contents b @ es))" "es \<noteq> []" "x \<in> set (contents (fold add es b))"
  shows "time (last es) - width b \<le> time x"
proof -
  have "sorted (map time (contents (fold add es b))) \<and> (\<forall>y \<in> set (contents (fold add es b)). time (last es) - width b \<le> time y)"
    using assms(1,2)
  proof (induction es arbitrary: b)
    case (Cons e es)
    let ?kept = "dropWhile (\<lambda>x. time x < time e - width b) (contents b @ [e])"
    have "sorted (map time ((contents b @ [e]) @ es))" using Cons.prems(1) by simp
    then have "sorted (map time ((takeWhile (\<lambda>x. time x < time e - width b) (contents b @ [e]) @ ?kept) @ es))"
      by (simp only: takeWhile_dropWhile_id)
    then have suff: "sorted (map time (?kept @ es))" unfolding map_append append_assoc sorted_append by blast
    have "time e - width b \<le> time y" if "y \<in> set ?kept" for y
    proof -
      note y = that
      obtain z zs where z: "?kept = z # zs" using y by (cases ?kept) (simp_all only: list.set empty_iff)
      then have "time e - width b \<le> time z" using hd_dropWhile [of "\<lambda>x. time x < time e - width b" "contents b @ [e]"] by auto
      moreover have "time z \<le> time y" using y suff unfolding z by auto
      ultimately show ?thesis by simp
    qed
    then show ?case
      using Cons.IH [of "add e b"] suff by (cases "es = []") (auto simp: add_contents add_width)
  qed simp
  then show ?thesis using assms(3) by blast
qed

end

interpretation incremental_buffer: window_buffer ae_ts add_event ia_buffer "\<lambda>b. of_int (ia_max_window b)"
  by unfold_locales (simp_all add: add_event_def ia_evict_expired_def)

end
