(* ===== verification/Aggregation_Properties.thy ===== *)
theory Aggregation_Properties
  imports Aggregation
begin

text \<open>
  The running statistics equal the textbook ones, the batch aggregator yields them for every window,
  and the incremental aggregator yields the same from its bounded buffer.
\<close>

section \<open>Reference definitions\<close>

definition mean_of :: "real list \<Rightarrow> real" where
  "mean_of xs = (if xs = [] then 0 else sum_list xs / real (length xs))"

definition variance_of :: "real list \<Rightarrow> real" where
  "variance_of xs =
     (if length xs < 2 then 0 else sum_list (map (\<lambda>x. (x - mean_of xs)\<^sup>2) xs) / real (length xs - 1))"

definition summary :: "string \<Rightarrow> real list \<Rightarrow> agg_result" where
  "summary name xs =
     \<lparr>ar_window_name = name, ar_count = length xs, ar_sum = sum_list xs, ar_mean = mean_of xs, ar_std = sqrt (variance_of xs),
      ar_min = (if xs = [] then 0 else Min (set xs)), ar_max = (if xs = [] then 0 else Max (set xs)), ar_distinct_count = 0\<rparr>"

section \<open>Welford's method\<close>

definition squares :: "real list \<Rightarrow> real" where
  "squares xs = sum_list (map (\<lambda>x. x\<^sup>2) xs)"

lemma squared_deviations:
  "sum_list (map (\<lambda>x. (x - c)\<^sup>2) xs) = squares xs - 2 * c * sum_list xs + real (length xs) * c\<^sup>2"
  by (induction xs) (simp_all add: squares_def power2_eq_square algebra_simps)

lemma deviations_mean:
  assumes "xs \<noteq> []"
  shows "sum_list (map (\<lambda>x. (x - mean_of xs)\<^sup>2) xs) = squares xs - (sum_list xs)\<^sup>2 / real (length xs)"
proof -
  have "0 < real (length xs)" using assms by simp
  then show ?thesis unfolding squared_deviations using assms by (simp add: mean_of_def power2_eq_square field_simps)
qed

lemma mean_step:
  assumes "0 < n"
  shows "s / n + (x - s / n) / (n + 1) = (s + x) / (n + (1 :: real))"
proof -
  define m where "m = s / n"
  have "s = m * n" "n + 1 \<noteq> 0" using assms by (simp_all add: m_def)
  moreover have "m + (x - m) / (n + 1) = (m * n + x) / (n + 1)" using \<open>n + 1 \<noteq> 0\<close> by (simp add: field_simps)
  ultimately show ?thesis by (simp add: m_def)
qed

lemma welford_step:
  assumes "0 < n"
  shows "q - s\<^sup>2 / n + (x - s / n) * (x - (s / n + (x - s / n) / (n + 1))) = q + x\<^sup>2 - (s + x)\<^sup>2 / (n + (1 :: real))"
proof -
  have n: "n \<noteq> 0" "n + 1 \<noteq> 0" using assms by auto
  have "(x - s / n) * (x - (s + x) / (n + 1)) = x\<^sup>2 - (s + x)\<^sup>2 / (n + 1) + s\<^sup>2 / n"
    using n by (simp add: field_simps power2_eq_square)
  then show ?thesis unfolding mean_step [OF assms] by simp
qed

lemma stats_of_list:
  assumes "xs \<noteq> []"
  shows "fold stats_add xs new_stats =
    \<lparr>rs_count = length xs, rs_mean = sum_list xs / real (length xs), rs_m2 = squares xs - (sum_list xs)\<^sup>2 / real (length xs),
     rs_min = Some (Min (set xs)), rs_max = Some (Max (set xs)), rs_sum = sum_list xs\<rparr>"
  using assms
proof (induction xs rule: rev_induct)
  case (snoc x xs)
  show ?case
  proof (cases "xs = []")
    case True
    then show ?thesis by (simp add: stats_add_def new_stats_def squares_def)
  next
    case False
    let ?n = "real (length xs)" and ?s = "sum_list xs"
    have n: "0 < ?n" using False by simp
    note mean = mean_step [OF n, of ?s x]
    have "squares (xs @ [x]) = squares xs + x\<^sup>2" by (simp add: squares_def)
    moreover have "(if x < m then x else m) = min x m" "(if x > m then x else m) = max x m" for m
      by (simp_all add: min_def max_def)
    moreover have "Min (set (xs @ [x])) = min x (Min (set xs))" "Max (set (xs @ [x])) = max x (Max (set xs))"
      using False by simp_all
    moreover have "squares xs - ?s\<^sup>2 / ?n + (x - ?s / ?n) * (x - (?s + x) / (?n + 1)) = squares xs + x\<^sup>2 - (?s + x)\<^sup>2 / (?n + 1)"
      using welford_step [OF n, of "squares xs" ?s x] unfolding mean .
    ultimately show ?thesis
      using snoc.IH [OF False] mean by (simp add: stats_add_def [of x] Let_def add.commute [of 1] del: set_append Min_insert Max_insert)
  qed
qed simp

lemma welford_exact_lemma: "to_aggregation_result name (fold stats_add xs new_stats) = Inr (summary name xs)"
proof (cases "xs = []")
  case True
  then show ?thesis
    by (simp add: to_aggregation_result_def stats_std_def stats_variance_def stats_mean_def stats_min_def stats_max_def new_stats_def
        summary_def mean_of_def variance_of_def)
next
  case False
  have "0 \<le> variance_of xs" by (auto simp: variance_of_def intro!: divide_nonneg_nonneg sum_list_nonneg)
  moreover have "stats_variance (fold stats_add xs new_stats) = variance_of xs"
    using deviations_mean [OF False] by (simp add: stats_variance_def variance_of_def stats_of_list [OF False])
  ultimately show ?thesis
    using False by (simp add: to_aggregation_result_def stats_std_def stats_mean_def stats_min_def stats_max_def summary_def mean_of_def
        stats_of_list [OF False])
qed

text \<open>
  Claim C34 (Welford's method is exact): adding values one at a time gives, for every list of values, their number, sum, mean, sample standard deviation,
  minimum and maximum, and never a negative variance.
\<close>

theorem welford_exact: "to_aggregation_result name (fold stats_add xs new_stats) = Inr (summary name xs)"
  by (rule welford_exact_lemma)

section \<open>Windows\<close>

definition numeric_value :: "string \<Rightarrow> record_doc \<Rightarrow> real option" where
  "numeric_value value_field e = (case pget e value_field of PNone \<Rightarrow> None | v \<Rightarrow> (case to_float v of Inl ex \<Rightarrow> None | Inr x \<Rightarrow> Some x))"

definition window_values ::
  "(string \<Rightarrow> (int \<times> int option) option) \<Rightarrow> string \<Rightarrow> string \<Rightarrow> seconds \<Rightarrow> int \<Rightarrow> record_doc list \<Rightarrow> real list" where
  "window_values fromiso value_field time_field ref_ts duration es =
     List.map_filter (numeric_value value_field) (filter (event_in fromiso time_field ref_ts duration) es)"

lemma add_events_values:
  "add_events fromiso vf tf ref_ts d es s = fold stats_add (window_values fromiso vf tf ref_ts d es) s"
proof (induction es arbitrary: s)
  case (Cons e es)
  then show ?case
    by (cases "pget e vf"; cases "to_float (pget e vf)") (auto simp: window_values_def numeric_value_def List.map_filter_def)
qed (simp add: window_values_def List.map_filter_def)

lemma aggregate_gen:
  "distinct (map ws_name specs) \<Longrightarrow> set (map ws_name specs) \<inter> fst ` set results = {} \<Longrightarrow>
   aggregate fromiso vf tf ref_ts es specs results =
     Inr (results @ map (\<lambda>spec. (ws_name spec, summary (ws_name spec) (window_values fromiso vf tf ref_ts (ws_duration_seconds spec) es))) specs)"
proof (induction specs arbitrary: results)
  case (Cons spec specs)
  let ?a = "summary (ws_name spec) (window_values fromiso vf tf ref_ts (ws_duration_seconds spec) es)"
  have "dset (ws_name spec) ?a results = results @ [(ws_name spec, ?a)]"
    using Cons.prems(2) by (intro dset_new) auto
  then show ?case
    using Cons.IH [of "results @ [(ws_name spec, ?a)]"] Cons.prems by (auto simp: add_events_values welford_exact_lemma)
qed simp

text \<open>
  Remark (every window is summarised exactly): with distinct window names, the aggregator returns for each window, in order, the summary of the
  numeric values of the events in it, half open before the reference time; it never raises.
\<close>

theorem aggregate_exact:
  assumes "distinct (map ws_name specs)"
  shows "aggregate fromiso vf tf ref_ts es specs [] =
    Inr (map (\<lambda>spec. (ws_name spec, summary (ws_name spec) (window_values fromiso vf tf ref_ts (ws_duration_seconds spec) es))) specs)"
  using aggregate_gen [OF assms, of "[]"] by simp

theorem aggregate_exact_witness:
  "aggregate (\<lambda>_. None) ''v'' ''t'' 100 [[(''t'', PInt 50), (''v'', PInt 3)], [(''t'', PInt 10), (''v'', PInt 4)]]
     [\<lparr>ws_name = ''1m'', ws_duration_seconds = 60, ws_window_type = SLIDING, ws_slide_seconds = 0\<rparr>] [] =
   Inr [(''1m'', summary ''1m'' [3])]"
  using aggregate_exact [of "[\<lparr>ws_name = ''1m'', ws_duration_seconds = 60, ws_window_type = SLIDING, ws_slide_seconds = 0\<rparr>]"
      "\<lambda>_. None" "''v''" "''t''" 100 "[[(''t'', PInt 50), (''v'', PInt 3)], [(''t'', PInt 10), (''v'', PInt 4)]]"]
  by (simp add: window_values_def event_in_def pget_def dget_or_def numeric_value_def List.map_filter_def)

text \<open>
  Remark (the bounded buffer loses nothing): for a window no longer than the buffer's, and a reference time no earlier than any event, the incremental
  aggregator returns the summary of all events of the window ever added, in whatever order they came.
\<close>

theorem incremental_exact:
  assumes "window \<le> max_window" "\<forall>e \<in> set es. ae_ts e \<le> ref_ts"
  shows "get_statistics name ref_ts window (fold add_event es (new_incremental max_window)) =
    Inr (summary (name window) (map ae_value (ia_window ref_ts window es)))"
proof -
  have "ia_window ref_ts window (ia_buffer (fold add_event es (new_incremental max_window))) = ia_window ref_ts window (ia_buffer (new_incremental max_window) @ es)"
    unfolding ia_window_def
    by (rule incremental_buffer.history_complete [where c = "ref_ts - of_int window"])
      (use assms in \<open>force simp: new_incremental_def\<close>, simp)
  then show ?thesis by (simp add: get_statistics_def new_incremental_def welford_exact_lemma)
qed

theorem incremental_exact_witness:
  "get_statistics (\<lambda>_. ''w'') 10 5 (fold add_event [\<lparr>ae_ts = 1, ae_value = 7, ae_meta = []\<rparr>, \<lparr>ae_ts = 9, ae_value = 8, ae_meta = []\<rparr>, \<lparr>ae_ts = 6, ae_value = 9, ae_meta = []\<rparr>] (new_incremental 6))
   = Inr (summary ''w'' [8, 9])"
  using incremental_exact [of 5 6 "[\<lparr>ae_ts = 1, ae_value = 7, ae_meta = []\<rparr>, \<lparr>ae_ts = 9, ae_value = 8, ae_meta = []\<rparr>, \<lparr>ae_ts = 6, ae_value = 9, ae_meta = []\<rparr>]" 10 "\<lambda>_. ''w''"]
  by (simp add: ia_window_def)

end
