(* ===== verification/Velocity.thy ===== *)
theory Velocity
  imports Aggregation
begin

text \<open>
  The velocity calculator of \<^verbatim>\<open>src/enrichment/velocity_calculator.py\<close>: sliding-window profiles per customer,
  metrics, thresholds and the risk score. The readings of the clock, the parsing of ISO timestamps,
  the local time zone used for naive timestamps and the text of an exception are arguments. A profile
  is a \<open>window_buffer\<close>.
\<close>

section \<open>Metrics\<close>

record velocity_metrics =
  vm_transaction_count_1min :: nat
  vm_transaction_count_5min :: nat
  vm_transaction_count_1hour :: nat
  vm_transaction_count_24hour :: nat
  vm_amount_sum_1min :: real
  vm_amount_sum_5min :: real
  vm_amount_sum_1hour :: real
  vm_amount_sum_24hour :: real
  vm_unique_merchants_1hour :: nat
  vm_unique_merchants_24hour :: nat
  vm_avg_amount_1hour :: real
  vm_max_amount_1hour :: real

definition no_metrics :: velocity_metrics where
  "no_metrics =
     \<lparr>vm_transaction_count_1min = 0, vm_transaction_count_5min = 0, vm_transaction_count_1hour = 0, vm_transaction_count_24hour = 0,
      vm_amount_sum_1min = 0, vm_amount_sum_5min = 0, vm_amount_sum_1hour = 0, vm_amount_sum_24hour = 0,
      vm_unique_merchants_1hour = 0, vm_unique_merchants_24hour = 0, vm_avg_amount_1hour = 0, vm_max_amount_1hour = 0\<rparr>"

definition metrics_to_dict :: "velocity_metrics \<Rightarrow> (string, pyval) dict" where
  "metrics_to_dict x =
     [(''velocity_txn_count_1min'', PInt (int (vm_transaction_count_1min x))), (''velocity_txn_count_5min'', PInt (int (vm_transaction_count_5min x))),
      (''velocity_txn_count_1hour'', PInt (int (vm_transaction_count_1hour x))), (''velocity_txn_count_24hour'', PInt (int (vm_transaction_count_24hour x))),
      (''velocity_amount_sum_1min'', PFloat (vm_amount_sum_1min x)), (''velocity_amount_sum_5min'', PFloat (vm_amount_sum_5min x)),
      (''velocity_amount_sum_1hour'', PFloat (vm_amount_sum_1hour x)), (''velocity_amount_sum_24hour'', PFloat (vm_amount_sum_24hour x)),
      (''velocity_unique_merchants_1hour'', PInt (int (vm_unique_merchants_1hour x))), (''velocity_unique_merchants_24hour'', PInt (int (vm_unique_merchants_24hour x))),
      (''velocity_avg_amount_1hour'', PFloat (vm_avg_amount_1hour x)), (''velocity_max_amount_1hour'', PFloat (vm_max_amount_1hour x))]"

section \<open>Profiles\<close>

record txn_record =
  tr_timestamp :: seconds
  tr_amount :: real
  tr_merchant_id :: pyval

record velocity_profile =
  vp_records :: "txn_record list"
  vp_max_window :: int

definition new_profile :: "int \<Rightarrow> velocity_profile" where
  "new_profile max_window = \<lparr>vp_records = [], vp_max_window = max_window\<rparr>"

definition vp_evict_expired :: "seconds \<Rightarrow> velocity_profile \<Rightarrow> velocity_profile" where
  "vp_evict_expired now p = p\<lparr>vp_records := dropWhile (\<lambda>r. tr_timestamp r < now - of_int (vp_max_window p)) (vp_records p)\<rparr>"

definition add_record :: "txn_record \<Rightarrow> velocity_profile \<Rightarrow> velocity_profile" where
  "add_record r p = vp_evict_expired (tr_timestamp r) (p\<lparr>vp_records := vp_records p @ [r]\<rparr>)"

definition add_transaction :: "seconds \<Rightarrow> real \<Rightarrow> pyval \<Rightarrow> seconds option \<Rightarrow> velocity_profile \<Rightarrow> velocity_profile" where
  "add_transaction clock amount merchant t p =
     add_record \<lparr>tr_timestamp = time_or t clock, tr_amount = amount, tr_merchant_id = merchant\<rparr> p"

text \<open>The records whose age is at most the window; records that are newer than \<open>now\<close> have a negative age.\<close>

definition aged :: "seconds \<Rightarrow> real \<Rightarrow> txn_record list \<Rightarrow> txn_record list" where
  "aged now w rs = filter (\<lambda>r. now - tr_timestamp r \<le> w) rs"

definition merchants :: "txn_record list \<Rightarrow> pyval set" where
  "merchants rs = set (filter py_bool (map tr_merchant_id rs))"

text \<open>The metrics of the records in the profile; an unhashable merchant raises when the set is built.\<close>

definition metrics_of :: "seconds \<Rightarrow> txn_record list \<Rightarrow> velocity_metrics" where
  "metrics_of now rs =
     (let m1 = aged now 60 rs; m5 = aged now 300 rs; h1 = aged now 3600 rs; h24 = aged now 86400 rs
      in \<lparr>vm_transaction_count_1min = length m1, vm_transaction_count_5min = length m5,
          vm_transaction_count_1hour = length h1, vm_transaction_count_24hour = length h24,
          vm_amount_sum_1min = sum_list (map tr_amount m1), vm_amount_sum_5min = sum_list (map tr_amount m5),
          vm_amount_sum_1hour = sum_list (map tr_amount h1), vm_amount_sum_24hour = sum_list (map tr_amount h24),
          vm_unique_merchants_1hour = card (merchants h1), vm_unique_merchants_24hour = card (merchants h24),
          vm_avg_amount_1hour = (if h1 = [] then 0 else sum_list (map tr_amount h1) / real (length h1)),
          vm_max_amount_1hour = (if h1 = [] then 0 else Max (set (map tr_amount h1)))\<rparr>)"

definition compute_metrics :: "seconds \<Rightarrow> seconds option \<Rightarrow> velocity_profile \<Rightarrow> velocity_metrics res \<times> velocity_profile" where
  "compute_metrics clock t p =
     (let now = time_or t clock; p1 = vp_evict_expired now p
      in (if \<forall>v \<in> merchants (aged now 86400 (vp_records p1)). hashable v then Inr (metrics_of now (vp_records p1)) else Inl TypeError, p1))"

definition record_count :: "velocity_profile \<Rightarrow> nat" where
  "record_count p = length (vp_records p)"

section \<open>Thresholds\<close>

record threshold =
  th_warning :: "real option"
  th_critical :: "real option"

definition default_thresholds :: "(string, threshold) dict" where
  "default_thresholds =
     map (\<lambda>(n, w, c). (n, \<lparr>th_warning = Some w, th_critical = Some c\<rparr>))
       [(''transaction_count_1min'', 3, 5), (''transaction_count_5min'', 8, 15), (''transaction_count_1hour'', 20, 50),
        (''transaction_count_24hour'', 100, 200), (''amount_sum_1min'', 1000, 5000), (''amount_sum_5min'', 3000, 10000),
        (''amount_sum_1hour'', 10000, 50000), (''amount_sum_24hour'', 50000, 100000), (''unique_merchants_1hour'', 5, 10),
        (''unique_merchants_24hour'', 15, 30)]"

datatype breach_severity = Warning | Critical

record breach =
  br_metric_name :: string
  br_current_value :: real
  br_threshold_value :: real
  br_severity :: breach_severity

definition metrics_map :: "velocity_metrics \<Rightarrow> (string \<times> real) list" where
  "metrics_map x =
     [(''transaction_count_1min'', real (vm_transaction_count_1min x)), (''transaction_count_5min'', real (vm_transaction_count_5min x)),
      (''transaction_count_1hour'', real (vm_transaction_count_1hour x)), (''transaction_count_24hour'', real (vm_transaction_count_24hour x)),
      (''amount_sum_1min'', vm_amount_sum_1min x), (''amount_sum_5min'', vm_amount_sum_5min x),
      (''amount_sum_1hour'', vm_amount_sum_1hour x), (''amount_sum_24hour'', vm_amount_sum_24hour x),
      (''unique_merchants_1hour'', real (vm_unique_merchants_1hour x)), (''unique_merchants_24hour'', real (vm_unique_merchants_24hour x))]"

definition check_metric :: "(string, threshold) dict \<Rightarrow> string \<times> real \<Rightarrow> breach option" where
  "check_metric ths m =
     (case dget ths (fst m) of
        None \<Rightarrow> None
      | Some th \<Rightarrow>
          (case th_critical th of
             Some c \<Rightarrow>
               if c \<le> snd m then Some \<lparr>br_metric_name = fst m, br_current_value = snd m, br_threshold_value = c, br_severity = Critical\<rparr>
               else (case th_warning th of
                       Some w \<Rightarrow> if w \<le> snd m then Some \<lparr>br_metric_name = fst m, br_current_value = snd m, br_threshold_value = w, br_severity = Warning\<rparr> else None
                     | None \<Rightarrow> None)
           | None \<Rightarrow>
               (case th_warning th of
                  Some w \<Rightarrow> if w \<le> snd m then Some \<lparr>br_metric_name = fst m, br_current_value = snd m, br_threshold_value = w, br_severity = Warning\<rparr> else None
                | None \<Rightarrow> None)))"

definition check_thresholds :: "(string, threshold) dict \<Rightarrow> velocity_metrics \<Rightarrow> breach list" where
  "check_thresholds ths x = List.map_filter (check_metric ths) (metrics_map x)"

definition count_severity :: "breach_severity \<Rightarrow> breach list \<Rightarrow> nat" where
  "count_severity s bs = length (filter (\<lambda>b. br_severity b = s) bs)"

definition compute_risk_score :: "breach list \<Rightarrow> real" where
  "compute_risk_score bs =
     (if bs = [] then 0 else min 1 (real (count_severity Critical bs) * (3 / 10) + real (count_severity Warning bs) * (1 / 10)))"

section \<open>The calculator\<close>

record velocity_result =
  vr_customer_id :: pyval
  vr_metrics :: velocity_metrics
  vr_breaches :: "breach list"
  vr_velocity_risk_score :: real
  vr_has_warning :: bool
  vr_has_critical :: bool
  vr_error :: "string option"

definition new_result :: "pyval \<Rightarrow> velocity_result" where
  "new_result c =
     \<lparr>vr_customer_id = c, vr_metrics = no_metrics, vr_breaches = [], vr_velocity_risk_score = 0, vr_has_warning = False,
      vr_has_critical = False, vr_error = None\<rparr>"

definition is_success :: "velocity_result \<Rightarrow> bool" where
  "is_success r = (vr_error r = None)"

definition severity_text :: "breach_severity \<Rightarrow> string" where
  "severity_text s = (case s of Warning \<Rightarrow> ''warning'' | Critical \<Rightarrow> ''critical'')"

definition breach_to_dict :: "breach \<Rightarrow> pyval" where
  "breach_to_dict b = PDict [(''metric'', PStr (br_metric_name b)), (''current_value'', PFloat (br_current_value b)),
     (''threshold_value'', PFloat (br_threshold_value b)), (''severity'', PStr (severity_text (br_severity b)))]"

definition velocity_to_dict :: "velocity_result \<Rightarrow> (string, pyval) dict" where
  "velocity_to_dict r = metrics_to_dict (vr_metrics r) @
     [(''velocity_risk_score'', PFloat (vr_velocity_risk_score r)), (''velocity_breach_count'', PInt (int (length (vr_breaches r)))),
      (''velocity_has_warning'', PBool (vr_has_warning r)), (''velocity_has_critical'', PBool (vr_has_critical r)),
      (''velocity_breaches'', PList (map breach_to_dict (vr_breaches r)))]"

record calculator =
  vc_thresholds :: "(string, threshold) dict"
  vc_profiles :: "(pyval, velocity_profile) dict"
  vc_max_profiles :: int

text \<open>\<^verbatim>\<open>thresholds or _DEFAULT_THRESHOLDS\<close>.\<close>

definition new_calculator :: "(string, threshold) dict option \<Rightarrow> int \<Rightarrow> calculator" where
  "new_calculator ths max_profiles =
     \<lparr>vc_thresholds = (case ths of Some (t # ts) \<Rightarrow> t # ts | _ \<Rightarrow> default_thresholds), vc_profiles = [], vc_max_profiles = max_profiles\<rparr>"

text \<open>\<open>fromiso\<close> raises ValueError on other text; \<open>local_offset\<close> is the time zone of the process.\<close>

fun parse_unix_timestamp ::
  "(string \<Rightarrow> (int \<times> int option) option) \<Rightarrow> (int \<Rightarrow> int) \<Rightarrow> seconds \<Rightarrow> pyval \<Rightarrow> seconds res" where
  "parse_unix_timestamp fromiso local_offset clock (PBool b) = Inr (if b then 1 else 0)"
| "parse_unix_timestamp fromiso local_offset clock (PInt n) = Inr (of_int n)"
| "parse_unix_timestamp fromiso local_offset clock (PFloat x) = Inr x"
| "parse_unix_timestamp fromiso local_offset clock (PTime w z) =
     Inr (aware_seconds w (Some (case z of None \<Rightarrow> local_offset w | Some off \<Rightarrow> off)))"
| "parse_unix_timestamp fromiso local_offset clock (PStr s) =
     (case fromiso s of
        None \<Rightarrow> Inl ValueError
      | Some (w, z) \<Rightarrow> Inr (aware_seconds w (Some (case z of None \<Rightarrow> local_offset w | Some off \<Rightarrow> off))))"
| "parse_unix_timestamp fromiso local_offset clock _ = Inr clock"

text \<open>
  Looking up an unhashable customer raises TypeError; at capacity the profile created first is removed,
  and \<^verbatim>\<open>next(iter({}))\<close> raises when there is none.
\<close>

definition get_or_create_profile :: "pyval \<Rightarrow> calculator \<Rightarrow> velocity_profile res \<times> calculator" where
  "get_or_create_profile c v =
     (if \<not> hashable c then (Inl TypeError, v)
      else (case dget (vc_profiles v) c of
              Some p \<Rightarrow> (Inr p, v)
            | None \<Rightarrow>
                if vc_max_profiles v \<le> int (length (vc_profiles v)) \<and> vc_profiles v = [] then (Inl StopIteration, v)
                else (let ps = (if vc_max_profiles v \<le> int (length (vc_profiles v)) then tl (vc_profiles v) else vc_profiles v);
                          p = new_profile 86400
                      in (Inr p, v\<lparr>vc_profiles := dset c p ps\<rparr>))))"

definition put_profile :: "pyval \<Rightarrow> velocity_profile \<Rightarrow> calculator \<Rightarrow> calculator" where
  "put_profile c p v = v\<lparr>vc_profiles := dset c p (vc_profiles v)\<rparr>"

definition finish :: "calculator \<Rightarrow> velocity_metrics \<Rightarrow> velocity_result \<Rightarrow> velocity_result" where
  "finish v x r =
     (let bs = check_thresholds (vc_thresholds v) x
      in r\<lparr>vr_metrics := x, vr_breaches := bs, vr_has_warning := (\<exists>b \<in> set bs. br_severity b = Warning),
           vr_has_critical := (\<exists>b \<in> set bs. br_severity b = Critical), vr_velocity_risk_score := compute_risk_score bs\<rparr>)"

text \<open>
  \<^verbatim>\<open>evaluate\<close>: every exception becomes the error of the result. The three clock readings are those of the
  timestamp parser, of \<^verbatim>\<open>add_transaction\<close> and of \<^verbatim>\<open>compute_metrics\<close>.
\<close>

definition evaluate_velocity ::
  "(string \<Rightarrow> (int \<times> int option) option) \<Rightarrow> (int \<Rightarrow> int) \<Rightarrow> (pyexn \<Rightarrow> string) \<Rightarrow> seconds \<Rightarrow> seconds \<Rightarrow> seconds
   \<Rightarrow> (string, pyval) dict \<Rightarrow> calculator \<Rightarrow> velocity_result \<times> calculator" where
  "evaluate_velocity fromiso local_offset show_exn t1 t2 t3 txn v =
     (let c = dget_or txn ''customer_id'' (PStr []); r = new_result c
      in if \<not> py_bool c then (r\<lparr>vr_error := Some ''Missing customer_id''\<rparr>, v)
         else (case res_bind (to_float (dget_or txn ''transaction_amount'' (PFloat 0)))
                      (\<lambda>a. res_bind (parse_unix_timestamp fromiso local_offset t1 (pget txn ''transaction_timestamp'')) (\<lambda>t. Inr (a, t))) of
                 Inl ex \<Rightarrow> (r\<lparr>vr_error := Some (show_exn ex)\<rparr>, v)
               | Inr (amount, t) \<Rightarrow>
                   (case get_or_create_profile c v of
                      (Inl ex, v1) \<Rightarrow> (r\<lparr>vr_error := Some (show_exn ex)\<rparr>, v1)
                    | (Inr p, v1) \<Rightarrow>
                        (let p1 = add_transaction t2 amount (dget_or txn ''merchant_id'' (PStr [])) (Some t) p
                         in (case compute_metrics t3 (Some t) p1 of
                               (Inl ex, p2) \<Rightarrow> (r\<lparr>vr_error := Some (show_exn ex)\<rparr>, put_profile c p2 v1)
                             | (Inr x, p2) \<Rightarrow> (finish v1 x r, put_profile c p2 v1))))))"

definition get_customer_profile :: "pyval \<Rightarrow> calculator \<Rightarrow> velocity_profile option" where
  "get_customer_profile c v = dget (vc_profiles v) c"

definition get_profile_count :: "calculator \<Rightarrow> nat" where
  "get_profile_count v = length (vc_profiles v)"

definition reset_calculator :: "calculator \<Rightarrow> calculator" where
  "reset_calculator v = v\<lparr>vc_profiles := []\<rparr>"

fun evaluate_batch_velocity ::
  "(string \<Rightarrow> (int \<times> int option) option) \<Rightarrow> (int \<Rightarrow> int) \<Rightarrow> (pyexn \<Rightarrow> string) \<Rightarrow> (seconds \<times> seconds \<times> seconds \<times> (string, pyval) dict) list
   \<Rightarrow> calculator \<Rightarrow> velocity_result list \<times> calculator" where
  "evaluate_batch_velocity fromiso local_offset show_exn [] v = ([], v)"
| "evaluate_batch_velocity fromiso local_offset show_exn ((t1, t2, t3, txn) # txns) v =
     (let (r, v1) = evaluate_velocity fromiso local_offset show_exn t1 t2 t3 txn v;
          (rs, v2) = evaluate_batch_velocity fromiso local_offset show_exn txns v1
      in (r # rs, v2))"

interpretation profile_buffer: window_buffer tr_timestamp add_record vp_records "\<lambda>p. of_int (vp_max_window p)"
  by unfold_locales (simp_all add: add_record_def vp_evict_expired_def)

end
