(* ===== verification/Velocity_Properties.thy ===== *)
theory Velocity_Properties
  imports Velocity
begin

text \<open>
  The metrics of a transaction are those of the whole history of its customer, as long as no profile
  has to be evicted; the number of profiles stays bounded; the risk score is a number between 0 and 1.
\<close>

declare map_of_eq_Some_iff [simp del] Some_eq_map_of_iff [simp del]

section \<open>Events\<close>

type_synonym velocity_event = "seconds \<times> seconds \<times> seconds \<times> (string, pyval) dict"

text \<open>The customer and the record that an evaluation reads from a transaction.\<close>

definition read_event ::
  "(string \<Rightarrow> (int \<times> int option) option) \<Rightarrow> (int \<Rightarrow> int) \<Rightarrow> velocity_event \<Rightarrow> (pyval \<times> txn_record) res" where
  "read_event fromiso lo e =
     (case e of (t1, t2, t3, txn) \<Rightarrow>
        res_bind (to_float (dget_or txn ''transaction_amount'' (PFloat 0))) (\<lambda>a.
        res_bind (parse_unix_timestamp fromiso lo t1 (pget txn ''transaction_timestamp'')) (\<lambda>t.
        Inr (dget_or txn ''customer_id'' (PStr []),
             \<lparr>tr_timestamp = t, tr_amount = a, tr_merchant_id = dget_or txn ''merchant_id'' (PStr [])\<rparr>))))"

definition event_ok :: "(string \<Rightarrow> (int \<times> int option) option) \<Rightarrow> (int \<Rightarrow> int) \<Rightarrow> velocity_event \<Rightarrow> bool" where
  "event_ok fromiso lo e =
     (case read_event fromiso lo e of
        Inl ex \<Rightarrow> False
      | Inr (c, r) \<Rightarrow> py_bool c \<and> hashable c \<and> hashable (tr_merchant_id r) \<and> tr_timestamp r \<noteq> 0)"

definition customer_of :: "(string \<Rightarrow> (int \<times> int option) option) \<Rightarrow> (int \<Rightarrow> int) \<Rightarrow> velocity_event \<Rightarrow> pyval" where
  "customer_of fromiso lo e = (case read_event fromiso lo e of Inl ex \<Rightarrow> PNone | Inr (c, r) \<Rightarrow> c)"

definition record_of :: "(string \<Rightarrow> (int \<times> int option) option) \<Rightarrow> (int \<Rightarrow> int) \<Rightarrow> velocity_event \<Rightarrow> txn_record" where
  "record_of fromiso lo e =
     (case read_event fromiso lo e of Inl ex \<Rightarrow> \<lparr>tr_timestamp = 0, tr_amount = 0, tr_merchant_id = PNone\<rparr> | Inr (c, r) \<Rightarrow> r)"

definition history_of :: "(string \<Rightarrow> (int \<times> int option) option) \<Rightarrow> (int \<Rightarrow> int) \<Rightarrow> pyval \<Rightarrow> velocity_event list \<Rightarrow> txn_record list" where
  "history_of fromiso lo c es = map (record_of fromiso lo) (filter (\<lambda>e. customer_of fromiso lo e = c) es)"

definition velocity_step ::
  "(string \<Rightarrow> (int \<times> int option) option) \<Rightarrow> (int \<Rightarrow> int) \<Rightarrow> (pyexn \<Rightarrow> string) \<Rightarrow> velocity_event \<Rightarrow> calculator \<Rightarrow> velocity_result \<times> calculator" where
  "velocity_step fromiso lo sh e v = (case e of (t1, t2, t3, txn) \<Rightarrow> evaluate_velocity fromiso lo sh t1 t2 t3 txn v)"

lemma batch_run:
  "snd (evaluate_batch_velocity fromiso lo sh es v) = fold (\<lambda>e v. snd (velocity_step fromiso lo sh e v)) es v"
  by (induction es arbitrary: v) (auto simp: velocity_step_def case_prod_beta Let_def)

section \<open>What a profile remembers\<close>

text \<open>Seen from time \<open>T\<close>, the profile holds the last 24 hours of the history.\<close>

definition tracks :: "seconds \<Rightarrow> velocity_profile \<Rightarrow> txn_record list \<Rightarrow> bool" where
  "tracks T p hs =
     (vp_max_window p = 86400 \<and> set (vp_records p) \<subseteq> set hs
      \<and> (\<forall>P. (\<forall>x. P x \<longrightarrow> T - 86400 \<le> tr_timestamp x) \<longrightarrow> filter P (vp_records p) = filter P hs))"

lemma tracks_D:
  assumes "tracks T p hs"
  shows "vp_max_window p = 86400" "set (vp_records p) \<subseteq> set hs"
    "(\<And>x. P x \<Longrightarrow> T - 86400 \<le> tr_timestamp x) \<Longrightarrow> filter P (vp_records p) = filter P hs"
  using assms unfolding tracks_def by simp_all

lemma tracks_later:
  assumes "tracks T p hs" "T \<le> T'"
  shows "tracks T' p hs"
proof -
  have "filter P (vp_records p) = filter P hs" if "\<forall>x. P x \<longrightarrow> T' - 86400 \<le> tr_timestamp x" for P
    using that assms(2) by (intro tracks_D(3) [OF assms(1)]) force
  then show ?thesis using tracks_D(1,2) [OF assms(1)] by (simp add: tracks_def)
qed

lemma tracks_new: "tracks T (new_profile 86400) []"
  by (simp add: tracks_def new_profile_def)

lemma tracks_evict:
  assumes "tracks T p hs" "now \<le> T"
  shows "tracks T (vp_evict_expired now p) hs"
proof -
  have "filter P (dropWhile (\<lambda>r. tr_timestamp r < now - 86400) (vp_records p)) = filter P (vp_records p)"
    if "\<forall>x. P x \<longrightarrow> T - 86400 \<le> tr_timestamp x" for P
    using that assms(2) by (intro profile_buffer.filter_dropWhile) force
  moreover have "set (dropWhile (\<lambda>r. tr_timestamp r < now - 86400) (vp_records p)) \<subseteq> set (vp_records p)"
    by (auto dest: set_dropWhileD)
  ultimately show ?thesis using assms(1) unfolding tracks_def vp_evict_expired_def by auto
qed

lemma tracks_add:
  assumes "tracks T p hs" "tr_timestamp r \<le> T"
  shows "tracks T (add_record r p) (hs @ [r])"
proof -
  have "tracks T (p\<lparr>vp_records := vp_records p @ [r]\<rparr>) (hs @ [r])"
    using assms(1) unfolding tracks_def by auto
  then show ?thesis unfolding add_record_def using assms(2) by (rule tracks_evict)
qed

lemma tracks_metrics:
  assumes "tracks T p hs"
  shows "metrics_of T (vp_records p) = metrics_of T hs"
proof -
  have "aged T w (vp_records p) = aged T w hs" if "w \<le> 86400" for w
    unfolding aged_def using that by (intro tracks_D(3) [OF assms]) simp
  then show ?thesis by (simp add: metrics_of_def)
qed

section \<open>One evaluation\<close>

lemma event_ok_D:
  assumes "event_ok fromiso lo (t1, t2, t3, txn)"
  shows "\<exists>a t. to_float (dget_or txn ''transaction_amount'' (PFloat 0)) = Inr a
    \<and> parse_unix_timestamp fromiso lo t1 (pget txn ''transaction_timestamp'') = Inr t \<and> t \<noteq> 0
    \<and> customer_of fromiso lo (t1, t2, t3, txn) = dget_or txn ''customer_id'' (PStr [])
    \<and> record_of fromiso lo (t1, t2, t3, txn) = \<lparr>tr_timestamp = t, tr_amount = a, tr_merchant_id = dget_or txn ''merchant_id'' (PStr [])\<rparr>
    \<and> py_bool (dget_or txn ''customer_id'' (PStr [])) \<and> hashable (dget_or txn ''customer_id'' (PStr []))"
  using assms
  by (cases "to_float (dget_or txn ''transaction_amount'' (PFloat 0))"; cases "parse_unix_timestamp fromiso lo t1 (pget txn ''transaction_timestamp'')")
    (auto simp: event_ok_def customer_of_def record_of_def read_event_def)

definition merchants_hashable :: "txn_record list \<Rightarrow> bool" where
  "merchants_hashable rs = (\<forall>r \<in> set rs. hashable (tr_merchant_id r))"

lemma velocity_step_eq:
  assumes "event_ok fromiso lo e" "get_or_create_profile (customer_of fromiso lo e) v = (Inr p, v1)"
    and "merchants_hashable (vp_records (add_record (record_of fromiso lo e) p))"
  defines "r \<equiv> record_of fromiso lo e" and "c \<equiv> customer_of fromiso lo e"
  defines "p2 \<equiv> vp_evict_expired (tr_timestamp r) (add_record r p)"
  shows "velocity_step fromiso lo sh e v = (finish v1 (metrics_of (tr_timestamp r) (vp_records p2)) (new_result c), put_profile c p2 v1)"
proof -
  obtain t1 t2 t3 txn where e: "e = (t1, t2, t3, txn)" by (metis prod_cases4)
  obtain a t where x: "to_float (dget_or txn ''transaction_amount'' (PFloat 0)) = Inr a"
    "parse_unix_timestamp fromiso lo t1 (pget txn ''transaction_timestamp'') = Inr t" "t \<noteq> 0"
    "c = dget_or txn ''customer_id'' (PStr [])"
    "r = \<lparr>tr_timestamp = t, tr_amount = a, tr_merchant_id = dget_or txn ''merchant_id'' (PStr [])\<rparr>" "py_bool c"
    using event_ok_D [of fromiso lo t1 t2 t3 txn] assms(1) unfolding e r_def c_def by metis
  have add: "add_transaction t2 a (dget_or txn ''merchant_id'' (PStr [])) (Some t) p = add_record r p"
    using x(3,5) by (simp add: add_transaction_def time_or_def)
  have "set (vp_records p2) \<subseteq> set (vp_records (add_record r p))"
    unfolding p2_def vp_evict_expired_def by (auto dest: set_dropWhileD)
  then have h: "\<forall>m \<in> merchants (aged t 86400 (vp_records p2)). hashable m"
    using assms(3) unfolding merchants_hashable_def merchants_def aged_def r_def by auto
  have "compute_metrics t3 (Some t) (add_record r p) = (Inr (metrics_of t (vp_records p2)), p2)"
    using x(3,5) h unfolding p2_def by (simp add: compute_metrics_def Let_def time_or_def)
  moreover have "tr_timestamp r = t" using x(5) by simp
  ultimately show ?thesis
    using x(1,2,6) assms(2) [folded c_def] add
    unfolding e velocity_step_def prod.case evaluate_velocity_def Let_def x(4) [symmetric] by simp
qed

section \<open>The calculator\<close>

definition calc_inv ::
  "(string \<Rightarrow> (int \<times> int option) option) \<Rightarrow> (int \<Rightarrow> int) \<Rightarrow> seconds \<Rightarrow> velocity_event list \<Rightarrow> calculator \<Rightarrow> bool" where
  "calc_inv fromiso lo T es v =
     (wf_dict (vc_profiles v) \<and> fst ` set (vc_profiles v) = customer_of fromiso lo ` set es
      \<and> (\<forall>c p. dget (vc_profiles v) c = Some p \<longrightarrow> tracks T p (history_of fromiso lo c es)))"

lemma history_snoc:
  "history_of fromiso lo c (es @ [e]) = history_of fromiso lo c es @ (if customer_of fromiso lo e = c then [record_of fromiso lo e] else [])"
  by (simp add: history_of_def)

lemma profile_found:
  assumes "calc_inv fromiso lo T es v" "event_ok fromiso lo e"
    and "int (card (customer_of fromiso lo ` set (es @ [e]))) \<le> vc_max_profiles v"
  defines "c \<equiv> customer_of fromiso lo e"
  shows "\<exists>p v1. get_or_create_profile c v = (Inr p, v1) \<and> tracks T p (history_of fromiso lo c es) \<and> (\<forall>q. dset c q (vc_profiles v1) = dset c q (vc_profiles v))
    \<and> vc_thresholds v1 = vc_thresholds v \<and> vc_max_profiles v1 = vc_max_profiles v"
proof -
  have h: "hashable c"
    using assms(2) unfolding c_def event_ok_def customer_of_def by (auto split: sum.splits)
  show ?thesis
  proof (cases "dget (vc_profiles v) c")
    case (Some p)
    then show ?thesis using h assms(1) by (simp add: get_or_create_profile_def calc_inv_def)
  next
    case None
    have keys: "c \<notin> fst ` set (vc_profiles v)" using None by (simp add: map_of_eq_None_iff)
    then have n: "c \<notin> customer_of fromiso lo ` set es" using assms(1) unfolding calc_inv_def by metis
    then have "history_of fromiso lo c es = []" by (auto simp: history_of_def filter_empty_conv)
    then have t: "tracks T (new_profile 86400) (history_of fromiso lo c es)" using tracks_new by simp
    have "length (vc_profiles v) = card (customer_of fromiso lo ` set es)"
      using assms(1) distinct_card [of "map fst (vc_profiles v)"] unfolding calc_inv_def by simp
    moreover have "card (customer_of fromiso lo ` set (es @ [e])) = Suc (card (customer_of fromiso lo ` set es))"
      using n by (simp add: c_def)
    ultimately have "int (length (vc_profiles v)) < vc_max_profiles v" using assms(3) by simp
    then show ?thesis using h None t keys by (simp add: get_or_create_profile_def Let_def)
  qed
qed

lemma step_inv:
  assumes "calc_inv fromiso lo T es v" "\<forall>x \<in> set (es @ [e]). event_ok fromiso lo x"
    and "int (card (customer_of fromiso lo ` set (es @ [e]))) \<le> vc_max_profiles v" "T \<le> tr_timestamp (record_of fromiso lo e)"
  defines "r \<equiv> record_of fromiso lo e" and "c \<equiv> customer_of fromiso lo e"
  shows "calc_inv fromiso lo (tr_timestamp r) (es @ [e]) (snd (velocity_step fromiso lo sh e v))
    \<and> vc_max_profiles (snd (velocity_step fromiso lo sh e v)) = vc_max_profiles v
    \<and> vc_thresholds (snd (velocity_step fromiso lo sh e v)) = vc_thresholds v
    \<and> fst (velocity_step fromiso lo sh e v) = finish v (metrics_of (tr_timestamp r) (history_of fromiso lo c (es @ [e]))) (new_result c)"
proof -
  have ok: "event_ok fromiso lo e" using assms(2) by simp
  define q where "q = (\<lambda>p. vp_evict_expired (tr_timestamp r) (add_record r p))"
  obtain p v1 where p: "get_or_create_profile c v = (Inr p, v1)" "tracks T p (history_of fromiso lo c es)"
    "dset c (q p) (vc_profiles v1) = dset c (q p) (vc_profiles v)" "vc_thresholds v1 = vc_thresholds v" "vc_max_profiles v1 = vc_max_profiles v"
    using profile_found [OF assms(1) ok assms(3)] unfolding c_def by metis
  have add: "tracks (tr_timestamp r) (add_record r p) (history_of fromiso lo c (es @ [e]))"
    using tracks_add [OF tracks_later [OF p(2)]] assms(4) unfolding history_snoc r_def c_def by simp
  then have q: "tracks (tr_timestamp r) (q p) (history_of fromiso lo c (es @ [e]))" unfolding q_def by (rule tracks_evict) simp
  have "hashable (tr_merchant_id (record_of fromiso lo x))" if "x \<in> set (es @ [e])" for x
    using assms(2) that unfolding event_ok_def record_of_def by (auto split: sum.splits)
  then have "merchants_hashable (history_of fromiso lo c (es @ [e]))" by (auto simp: merchants_hashable_def history_of_def)
  then have m: "merchants_hashable (vp_records (add_record r p))"
    using tracks_D(2) [OF add] unfolding merchants_hashable_def by blast
  have s: "velocity_step fromiso lo sh e v = (finish v1 (metrics_of (tr_timestamp r) (vp_records (q p))) (new_result c), put_profile c (q p) v1)"
    using velocity_step_eq [OF ok p(1) [unfolded c_def] m [unfolded r_def], of sh] unfolding q_def r_def c_def .
  have other: "tracks (tr_timestamp r) p' (history_of fromiso lo c' (es @ [e]))" if "dget (vc_profiles v) c' = Some p'" "c' \<noteq> c" for c' p'
    using that assms(1,4) tracks_later unfolding calc_inv_def history_snoc c_def r_def by fastforce
  have "calc_inv fromiso lo (tr_timestamp r) (es @ [e]) (put_profile c (q p) v1)"
    unfolding calc_inv_def put_profile_def using p(3) assms(1) q other
    by (auto simp: calc_inv_def dict_simps keys_dset c_def split: if_splits)
  then show ?thesis
    using s p(4,5) tracks_metrics [OF q] by (simp add: put_profile_def finish_def)
qed

lemma batch_inv:
  fixes ths :: "(string, threshold) dict option" and sh :: "pyexn \<Rightarrow> string"
  assumes "\<forall>x \<in> set es. event_ok fromiso lo x" "sorted (map (tr_timestamp \<circ> record_of fromiso lo) es)" "es \<noteq> []"
    and "int (card (customer_of fromiso lo ` set es)) \<le> max_profiles"
  defines "v \<equiv> snd (evaluate_batch_velocity fromiso lo sh es (new_calculator ths max_profiles))"
  shows "calc_inv fromiso lo (tr_timestamp (record_of fromiso lo (last es))) es v \<and> vc_max_profiles v = max_profiles
    \<and> vc_thresholds v = vc_thresholds (new_calculator ths max_profiles)"
  using assms(1-4) unfolding v_def batch_run
proof (induction es rule: rev_induct)
  case (snoc e es)
  let ?run = "\<lambda>es. fold (\<lambda>e v. snd (velocity_step fromiso lo sh e v)) es (new_calculator ths max_profiles)"
  let ?T = "if es = [] then tr_timestamp (record_of fromiso lo e) else tr_timestamp (record_of fromiso lo (last es))"
  have "card (customer_of fromiso lo ` set es) \<le> card (customer_of fromiso lo ` set (es @ [e]))" by (intro card_mono) auto
  then have "calc_inv fromiso lo ?T es (?run es) \<and> vc_max_profiles (?run es) = max_profiles
      \<and> vc_thresholds (?run es) = vc_thresholds (new_calculator ths max_profiles)"
    using snoc.IH snoc.prems
    by (cases "es = []") (auto simp: calc_inv_def new_calculator_def sorted_append)
  moreover have "?T \<le> tr_timestamp (record_of fromiso lo e)"
    using snoc.prems(2) last_in_set [of es] by (auto simp: sorted_append)
  ultimately show ?case
    using step_inv [of fromiso lo ?T es "?run es" e sh] snoc.prems(1,4) by auto
qed simp

text \<open>
  Claim C33 (velocity sees the whole history of the customer): take a new calculator and transactions in the order of their times that can be read: a numeric
  amount, a customer that is true and hashable, a hashable merchant, and a time other than zero. As long as there is room for a profile of every customer, so that none
  is evicted, the last result reports, for each window, the counts, sums, merchants, mean and maximum over all transactions of that customer ever evaluated, and
  nothing of other customers.
\<close>

theorem velocity_tracks_customer:
  fixes ths :: "(string, threshold) dict option" and sh :: "pyexn \<Rightarrow> string"
  assumes "\<forall>x \<in> set (es @ [e]). event_ok fromiso lo x" "sorted (map (tr_timestamp \<circ> record_of fromiso lo) (es @ [e]))"
    and "int (card (customer_of fromiso lo ` set (es @ [e]))) \<le> max_profiles"
  defines "v \<equiv> snd (evaluate_batch_velocity fromiso lo sh es (new_calculator ths max_profiles))"
  shows "fst (velocity_step fromiso lo sh e v) =
    finish (new_calculator ths max_profiles)
      (metrics_of (tr_timestamp (record_of fromiso lo e)) (history_of fromiso lo (customer_of fromiso lo e) (es @ [e])))
      (new_result (customer_of fromiso lo e))"
proof -
  let ?T = "if es = [] then tr_timestamp (record_of fromiso lo e) else tr_timestamp (record_of fromiso lo (last es))"
  have "card (customer_of fromiso lo ` set es) \<le> card (customer_of fromiso lo ` set (es @ [e]))" by (intro card_mono) auto
  then have "calc_inv fromiso lo ?T es v \<and> vc_max_profiles v = max_profiles \<and> vc_thresholds v = vc_thresholds (new_calculator ths max_profiles)"
    using batch_inv [of es fromiso lo max_profiles sh ths] assms(1-3) unfolding v_def
    by (cases "es = []") (auto simp: calc_inv_def new_calculator_def sorted_append)
  moreover have "?T \<le> tr_timestamp (record_of fromiso lo e)"
    using assms(2) last_in_set [of es] by (auto simp: sorted_append)
  ultimately show ?thesis
    using step_inv [of fromiso lo ?T es v e sh] assms(1,3) by (simp add: finish_def Let_def)
qed

definition velocity_txn :: "string \<Rightarrow> real \<Rightarrow> seconds \<Rightarrow> velocity_event" where
  "velocity_txn c amount t =
     (0, 0, 0, [(''customer_id'', PStr c), (''transaction_amount'', PFloat amount), (''merchant_id'', PStr ''m''), (''transaction_timestamp'', PFloat t)])"

lemma read_velocity_txn:
  "read_event fromiso lo (velocity_txn c amount t) = Inr (PStr c, \<lparr>tr_timestamp = t, tr_amount = amount, tr_merchant_id = PStr ''m''\<rparr>)"
  by (simp add: read_event_def velocity_txn_def dget_or_def pget_def)

theorem velocity_tracks_customer_witness:
  "vm_transaction_count_1min (vr_metrics (fst (velocity_step (\<lambda>_. None) (\<lambda>_. 0) (\<lambda>_. []) (velocity_txn ''a'' 5 130)
      (snd (evaluate_batch_velocity (\<lambda>_. None) (\<lambda>_. 0) (\<lambda>_. []) [velocity_txn ''a'' 7 100, velocity_txn ''b'' 9 120] (new_calculator None 2)))))) = 2"
proof -
  let ?es = "[velocity_txn ''a'' 7 100, velocity_txn ''b'' 9 120]" and ?e = "velocity_txn ''a'' 5 130"
  have "fst (velocity_step (\<lambda>_. None) (\<lambda>_. 0) (\<lambda>_. []) ?e (snd (evaluate_batch_velocity (\<lambda>_. None) (\<lambda>_. 0) (\<lambda>_. []) ?es (new_calculator None 2)))) =
      finish (new_calculator None 2) (metrics_of (tr_timestamp (record_of (\<lambda>_. None) (\<lambda>_. 0) ?e))
        (history_of (\<lambda>_. None) (\<lambda>_. 0) (customer_of (\<lambda>_. None) (\<lambda>_. 0) ?e) (?es @ [?e]))) (new_result (customer_of (\<lambda>_. None) (\<lambda>_. 0) ?e))"
    by (rule velocity_tracks_customer) (simp_all add: event_ok_def customer_of_def record_of_def read_velocity_txn card_insert_if)
  then show ?thesis
    by (simp only:) (simp add: customer_of_def record_of_def read_velocity_txn history_of_def finish_def Let_def metrics_of_def aged_def)
qed

text \<open>
  Remark (the velocity score is a graded probability): the risk score lies between 0 and 1, is 0 exactly when no threshold is breached, and is at least 0.3 when a
  breach is critical.
\<close>

theorem velocity_score_graded:
  "0 \<le> compute_risk_score bs \<and> compute_risk_score bs \<le> 1 \<and> (compute_risk_score bs = 0 \<longleftrightarrow> bs = [])
   \<and> (compute_risk_score bs < 3 / 10 \<longrightarrow> (\<forall>b \<in> set bs. br_severity b = Warning))"
proof -
  have one: "0 < count_severity Critical bs \<or> 0 < count_severity Warning bs" if "bs \<noteq> []"
    using that by (cases bs; cases "br_severity (hd bs)") (simp_all add: count_severity_def)
  have warn: "count_severity Critical bs = 0 \<Longrightarrow> b \<in> set bs \<Longrightarrow> br_severity b = Warning" for b
    by (cases "br_severity b") (auto simp: count_severity_def filter_empty_conv)
  have "count_severity Critical bs = 0" if "compute_risk_score bs < 3 / 10" "bs \<noteq> []"
  proof (rule ccontr)
    assume "count_severity Critical bs \<noteq> 0"
    then have "3 / 10 \<le> real (count_severity Critical bs) * (3 / 10)" by simp
    then have "3 / 10 \<le> compute_risk_score bs" using that(2) by (auto simp: compute_risk_score_def min_def)
    then show False using that(1) by simp
  qed
  then show ?thesis using one warn by (cases "bs = []") (auto simp: compute_risk_score_def min_def)
qed

theorem velocity_score_graded_witness:
  "compute_risk_score [\<lparr>br_metric_name = [], br_current_value = 4, br_threshold_value = 3, br_severity = Warning\<rparr>] = 1 / 10"
  using velocity_score_graded [of "[\<lparr>br_metric_name = [], br_current_value = 4, br_threshold_value = 3, br_severity = Warning\<rparr>]"]
  by (simp add: compute_risk_score_def count_severity_def)

definition bounded :: "calculator \<Rightarrow> bool" where
  "bounded v = (wf_dict (vc_profiles v) \<and> int (length (vc_profiles v)) \<le> vc_max_profiles v \<and> 0 < vc_max_profiles v)"

lemma get_or_create_bounded:
  assumes "bounded v" "get_or_create_profile c v = (x, v1)"
  shows "bounded v1 \<and> vc_max_profiles v1 = vc_max_profiles v \<and> ((\<exists>p. x = Inr p) \<longrightarrow> c \<in> fst ` set (vc_profiles v1))"
  using assms
  by (auto simp: bounded_def get_or_create_profile_def Let_def length_dset keys_dset distinct_tl map_tl wf_dict_dset
      split: if_splits option.splits intro: map_of_SomeD [THEN imageI, of _ _ _ fst, simplified])

lemma put_bounded: "bounded v \<Longrightarrow> c \<in> fst ` set (vc_profiles v) \<Longrightarrow> bounded (put_profile c p v) \<and> vc_max_profiles (put_profile c p v) = vc_max_profiles v"
  by (simp add: bounded_def put_profile_def length_dset)

lemma step_bounded:
  assumes "bounded v"
  shows "bounded (snd (velocity_step fromiso lo sh e v)) \<and> vc_max_profiles (snd (velocity_step fromiso lo sh e v)) = vc_max_profiles v"
  using assms get_or_create_bounded [OF assms] put_bounded
  by (auto simp: velocity_step_def evaluate_velocity_def Let_def split: prod.splits sum.splits if_splits)

text \<open>
  Remark (memory is bounded): whatever transactions are evaluated, the calculator never holds more customer
  profiles than its maximum.
\<close>

theorem velocity_profiles_bounded:
  assumes "0 < max_profiles"
  shows "int (get_profile_count (snd (evaluate_batch_velocity fromiso lo sh es (new_calculator ths max_profiles)))) \<le> max_profiles"
proof -
  have "bounded (fold (\<lambda>e v. snd (velocity_step fromiso lo sh e v)) es v) \<and>
      vc_max_profiles (fold (\<lambda>e v. snd (velocity_step fromiso lo sh e v)) es v) = vc_max_profiles v" if "bounded v" for v
    using that by (induction es arbitrary: v) (simp_all add: step_bounded)
  from this [of "new_calculator ths max_profiles"] show ?thesis
    using assms unfolding batch_run by (simp add: bounded_def new_calculator_def get_profile_count_def)
qed

theorem velocity_profiles_bounded_witness:
  "int (get_profile_count (snd (evaluate_batch_velocity (\<lambda>_. None) (\<lambda>_. 0) (\<lambda>_. []) [velocity_txn ''a'' 7 100, velocity_txn ''b'' 9 120] (new_calculator None 1)))) \<le> 1"
  by (rule velocity_profiles_bounded) simp

end
