(* ===== verification/Config.thy ===== *)
theory Config
  imports Py_Text
begin

text \<open>
  The configuration loader of \<^verbatim>\<open>src/utils/config.py\<close>: deep merge of the environment file into the base file,
  substitution of environment variables, overrides from variables with the prefix \<^verbatim>\<open>RISKPULSE_\<close>, and
  look-up by a dotted path. The parsed YAML files and the environment variables are arguments.
\<close>

section \<open>Deep merge\<close>

definition doc_size :: "(string, pyval) dict \<Rightarrow> nat" where
  "doc_size d = size_list (\<lambda>kv. size (snd kv)) d"

lemma doc_size_Cons: "doc_size (kv # d) = Suc (size (snd kv) + doc_size d)"
  by (simp add: doc_size_def)

lemma doc_size_PDict [simp]: "doc_size y < size (PDict y)"
  by (induction y) (auto simp: doc_size_def)

function deep_merge :: "(string, pyval) dict \<Rightarrow> (string, pyval) dict \<Rightarrow> (string, pyval) dict" where
  "deep_merge merged [] = merged"
| "deep_merge merged ((key, value) # override) =
     deep_merge (dset key (case (dget merged key, value) of
          (Some (PDict x), PDict y) \<Rightarrow> PDict (deep_merge x y)
        | _ \<Rightarrow> value) merged) override"
  by pat_completeness auto

termination
  by (relation "measure (doc_size \<circ> snd)") (auto simp: doc_size_Cons intro: less_le_trans [OF doc_size_PDict] le_SucI trans_le_add1)

section \<open>Environment variables in values\<close>

text \<open>
  \<^verbatim>\<open>re.sub(r"\$\{([^}]+)\}", ...)\<close>: the leftmost \<^verbatim>\<open>${\<close> that is followed by at least one character other than \<^verbatim>\<open>}\<close> and
  then by \<^verbatim>\<open>}\<close> is replaced, and the scan goes on behind it.
\<close>

definition not_brace :: "char \<Rightarrow> bool" where
  "not_brace c = (c \<noteq> CHR ''}'')"

text \<open>The parts before and after the first \<^verbatim>\<open>:-\<close>.\<close>

fun split_default :: "string \<Rightarrow> (string \<times> string) option" where
  "split_default [] = None"
| "split_default (c # cs) =
     (if starts_with '':-'' (c # cs) then Some ([], tl cs)
      else map_option (\<lambda>(a, b). (c # a, b)) (split_default cs))"

type_synonym env_vars = "(string, string) dict"

definition env_value :: "env_vars \<Rightarrow> string \<Rightarrow> string" where
  "env_value env expr =
     (case split_default expr of
        Some (name, dflt) \<Rightarrow> dget_or env name dflt
      | None \<Rightarrow> dget_or env expr (''${'' @ expr @ ''}''))"

function substitute :: "env_vars \<Rightarrow> string \<Rightarrow> string" where
  "substitute env [] = []"
| "substitute env (c # cs) =
     (let expr = takeWhile not_brace (tl cs); rest = dropWhile not_brace (tl cs)
      in if c = CHR ''$'' \<and> starts_with ''{'' cs \<and> expr \<noteq> [] \<and> rest \<noteq> []
         then env_value env expr @ substitute env (tl rest)
         else c # substitute env cs)"
  by pat_completeness auto

termination
proof (relation "measure (length \<circ> snd)")
  fix env :: env_vars and c :: char and cs expr rest
  assume "expr = takeWhile not_brace (tl cs)" "rest = dropWhile not_brace (tl cs)"
  then have "length rest \<le> length cs" using length_dropWhile_le [of not_brace "tl cs"] by simp
  then show "((env, tl rest), env, c # cs) \<in> measure (length \<circ> snd)" by simp
qed simp_all

declare substitute.simps(2) [simp del]

lemma size_doc_value: "(k, v) \<in> set d \<Longrightarrow> size v < size (PDict d)"
  by (induction d) (auto simp: size_prod_simp)

lemma size_list_value: "v \<in> set vs \<Longrightarrow> size v < size (PList vs)"
  by (induction vs) auto

function resolve_env_vars :: "env_vars \<Rightarrow> pyval \<Rightarrow> pyval" where
  "resolve_env_vars env (PDict d) = PDict (map (\<lambda>(k, v). (k, resolve_env_vars env v)) d)"
| "resolve_env_vars env (PList vs) = PList (map (resolve_env_vars env) vs)"
| "resolve_env_vars env (PStr s) = PStr (substitute env s)"
| "resolve_env_vars env PNone = PNone"
| "resolve_env_vars env (PBool b) = PBool b"
| "resolve_env_vars env (PInt i) = PInt i"
| "resolve_env_vars env (PFloat x) = PFloat x"
| "resolve_env_vars env (PTime w z) = PTime w z"
  by pat_completeness auto

termination
  by (relation "measure (size \<circ> snd)") (auto intro: size_list_value size_doc_value simp del: pyval.size)

section \<open>Overrides\<close>

text \<open>\<^verbatim>\<open>_coerce_value\<close>.\<close>

definition coerce_value :: "string \<Rightarrow> pyval" where
  "coerce_value s =
     (if ascii_lower s \<in> {''true'', ''1'', ''yes''} then PBool True
      else if ascii_lower s \<in> {''false'', ''0'', ''no''} then PBool False
      else (case int_of_str s of
              Some i \<Rightarrow> PInt i
            | None \<Rightarrow> (case float_of_str s of Some x \<Rightarrow> PFloat x | None \<Rightarrow> PStr s)))"

text \<open>
  The walk along a path with \<^verbatim>\<open>setdefault\<close> and the assignment at its end. On the way, something that is not a
  dictionary has no \<^verbatim>\<open>setdefault\<close>; at the end it does not support assignment.
\<close>

fun set_path :: "string list \<Rightarrow> pyval \<Rightarrow> pyval \<Rightarrow> pyval res" where
  "set_path [] v target = Inr v"
| "set_path (k # ks) v target =
     (case target of
        PDict d \<Rightarrow> res_bind (set_path ks v (dget_or d k (PDict []))) (\<lambda>t. Inr (PDict (dset k t d)))
      | _ \<Rightarrow> if ks = [] then Inl TypeError else Inl AttributeError)"

fun split_path :: "string \<Rightarrow> string list" where
  "split_path [] = [[]]"
| "split_path (c # cs) =
     (if starts_with ''__'' (c # cs) then [] # split_path (tl cs)
      else (case split_path cs of [] \<Rightarrow> [[c]] | p # ps \<Rightarrow> (c # p) # ps))"

definition env_prefix :: string where
  "env_prefix = ''RISKPULSE_''"

fun apply_env_overrides :: "env_vars \<Rightarrow> pyval \<Rightarrow> pyval res" where
  "apply_env_overrides [] config = Inr config"
| "apply_env_overrides ((key, value) # env) config =
     (if \<not> starts_with env_prefix key then apply_env_overrides env config
      else res_bind (set_path (split_path (ascii_lower (drop (length env_prefix) key))) (coerce_value value) config)
             (apply_env_overrides env))"

section \<open>Settings\<close>

record settings =
  st_environment :: string
  st_config :: pyval

definition or_dict :: "pyval \<Rightarrow> (string, pyval) dict" where
  "or_dict v = (case v of PDict d \<Rightarrow> d | _ \<Rightarrow> [])"

text \<open>
  \<open>base\<close> and \<open>env_file\<close> are the parsed files, absent when they do not exist; an empty file is \<^verbatim>\<open>{}\<close>. The
  environment name is the argument, else \<^verbatim>\<open>RISKPULSE_ENV\<close>, else \<^verbatim>\<open>dev\<close>.
\<close>

definition load_settings ::
  "(string, pyval) dict option \<Rightarrow> (string \<Rightarrow> (string, pyval) dict option) \<Rightarrow> env_vars \<Rightarrow> string option \<Rightarrow> settings res" where
  "load_settings base env_file env environment =
     (let name = (if truthy environment then the environment else dget_or env ''RISKPULSE_ENV'' ''dev'');
          config = (case base of None \<Rightarrow> [] | Some d \<Rightarrow> d);
          merged = (case env_file name of None \<Rightarrow> config | Some e \<Rightarrow> deep_merge config e)
      in res_bind (apply_env_overrides env (resolve_env_vars env (PDict merged)))
           (\<lambda>c. Inr \<lparr>st_environment = name, st_config = c\<rparr>))"

fun get_path :: "string list \<Rightarrow> pyval \<Rightarrow> pyval \<Rightarrow> pyval" where
  "get_path [] dflt v = v"
| "get_path (k # ks) dflt v =
     (case v of
        PDict d \<Rightarrow> (case pget d k of PNone \<Rightarrow> dflt | w \<Rightarrow> get_path ks dflt w)
      | _ \<Rightarrow> dflt)"

definition settings_get :: "string \<Rightarrow> pyval \<Rightarrow> settings \<Rightarrow> pyval" where
  "settings_get key_path dflt s = get_path (split_at CHR ''.'' key_path) dflt (st_config s)"

definition settings_getitem :: "string \<Rightarrow> settings \<Rightarrow> pyval res" where
  "settings_getitem key s = pindex (or_dict (st_config s)) key"

definition settings_contains :: "string \<Rightarrow> settings \<Rightarrow> bool" where
  "settings_contains key s = (dget (or_dict (st_config s)) key \<noteq> None)"

definition is_debug :: "settings \<Rightarrow> bool" where
  "is_debug s = py_bool (settings_get ''app.debug'' (PBool False) s)"

definition redis_url :: "env_vars \<Rightarrow> string" where
  "redis_url env =
     ''redis://'' @ dget_or env ''RISKPULSE_REDIS_HOST'' ''localhost'' @ '':'' @ dget_or env ''RISKPULSE_REDIS_PORT'' ''6379''
     @ ''/'' @ dget_or env ''RISKPULSE_REDIS_DB'' ''0''"

definition kafka_bootstrap_servers :: "env_vars \<Rightarrow> string" where
  "kafka_bootstrap_servers env = dget_or env ''RISKPULSE_KAFKA_BOOTSTRAP_SERVERS'' ''localhost:9092''"

end
