(* ===== verification/Config_Properties.thy ===== *)
theory Config_Properties
  imports Config
begin

text \<open>
  The environment file overrides exactly the leaves it names, an environment variable overrides both
  files, and numbers in variables keep their value except 0 and 1.
\<close>

declare map_of_eq_Some_iff [simp del] Some_eq_map_of_iff [simp del]

section \<open>Look-up\<close>

fun lookup :: "string list \<Rightarrow> pyval \<Rightarrow> pyval option" where
  "lookup [] v = Some v"
| "lookup (k # ks) v = (case v of PDict d \<Rightarrow> (case dget d k of None \<Rightarrow> None | Some w \<Rightarrow> lookup ks w) | _ \<Rightarrow> None)"

definition is_dict :: "pyval \<Rightarrow> bool" where
  "is_dict v = (case v of PDict d \<Rightarrow> True | _ \<Rightarrow> False)"

text \<open>A path that the override leaves alone: the first of its keys that is not a common section is not in the override.\<close>

fun untouched :: "string list \<Rightarrow> (string, pyval) dict \<Rightarrow> bool" where
  "untouched [] override = False"
| "untouched (k # ks) override =
     (case dget override k of None \<Rightarrow> True | Some (PDict d) \<Rightarrow> untouched ks d | Some v \<Rightarrow> False)"

lemma doc_size_member: "(k, PDict x) \<in> set d \<Longrightarrow> doc_size x < doc_size d"
proof (induction d)
  case (Cons kv d)
  then show ?case using doc_size_PDict [of x] by (auto simp: doc_size_Cons simp del: doc_size_PDict)
qed simp

text \<open>No key occurs twice in a section, as in any Python dictionary.\<close>

function wf_doc :: "(string, pyval) dict \<Rightarrow> bool" where
  "wf_doc d = (wf_dict d \<and> (\<forall>(k, v) \<in> set d. case v of PDict x \<Rightarrow> wf_doc x | _ \<Rightarrow> True))"
  by pat_completeness auto

termination
  by (relation "measure doc_size") (auto intro: doc_size_member)

declare wf_doc.simps [simp del]

lemma wf_doc_Cons:
  assumes "wf_doc ((k, v) # d)"
  shows "wf_doc d" "dget d k = None"
  using assms by (auto simp: wf_doc.simps [of "(k, v) # d"] wf_doc.simps [of d] map_of_eq_None_iff)

text \<open>What the merge holds under one key.\<close>

definition merge_value :: "pyval option \<Rightarrow> pyval \<Rightarrow> pyval" where
  "merge_value old v = (case (old, v) of (Some (PDict x), PDict y) \<Rightarrow> PDict (deep_merge x y) | _ \<Rightarrow> v)"

lemma deep_merge_get:
  "wf_doc override \<Longrightarrow> dget (deep_merge b override) k =
     (case dget override k of None \<Rightarrow> dget b k | Some v \<Rightarrow> Some (merge_value (dget b k) v))"
proof (induction override arbitrary: b)
  case (Cons kv override)
  obtain k' v where kv: "kv = (k', v)" by (cases kv)
  have "deep_merge b (kv # override) = deep_merge (dset k' (merge_value (dget b k') v) b) override"
    by (simp add: kv merge_value_def)
  then show ?case
    using Cons.IH [of "dset k' (merge_value (dget b k') v) b"] wf_doc_Cons [of k' v override] Cons.prems
    by (cases "k = k'"; cases "dget override k") (simp_all add: kv dict_simps)
qed simp

lemma wf_doc_get: "wf_doc d \<Longrightarrow> dget d k = Some (PDict x) \<Longrightarrow> wf_doc x"
  by (subst (asm) wf_doc.simps) (auto dest!: map_of_SomeD)

text \<open>
  Remark (the environment file overrides leaf by leaf): in the merge of the base file with the environment file, every leaf of the
  environment file has its value, and every value of the base file on a path that the environment
  file does not touch is kept, also inside sections that both files have.
\<close>

theorem override_merges_deeply:
  assumes "wf_doc override"
  shows "(lookup ks (PDict override) = Some v \<longrightarrow> \<not> is_dict v \<longrightarrow> lookup ks (PDict (deep_merge base override)) = Some v)
    \<and> (untouched ks override \<longrightarrow> lookup ks (PDict base) = Some w \<longrightarrow> lookup ks (PDict (deep_merge base override)) = Some w)"
  using assms
proof (induction ks arbitrary: base override)
  case (Cons k ks)
  show ?case
  proof (cases "dget override k")
    case None
    then show ?thesis using Cons.prems by (simp add: deep_merge_get)
  next
    case (Some u)
    show ?thesis
    proof (cases "\<exists>x y. dget base k = Some (PDict x) \<and> u = PDict y")
      case True
      then obtain x y where xy: "dget base k = Some (PDict x)" "u = PDict y" by blast
      then show ?thesis
        using Some Cons.IH [OF wf_doc_get [OF Cons.prems], of k y x] Cons.prems by (simp add: deep_merge_get merge_value_def)
    next
      case False
      then have "merge_value (dget base k) u = u"
        by (auto simp: merge_value_def split: option.splits pyval.splits)
      moreover have "\<not> (untouched (k # ks) override \<and> lookup (k # ks) (PDict base) = Some w)"
        using False Some by (cases ks) (auto split: option.splits pyval.splits)
      ultimately show ?thesis using Some Cons.prems by (simp add: deep_merge_get)
    qed
  qed
qed (auto simp: is_dict_def)

theorem override_merges_deeply_witness:
  "lookup [''db'', ''pool''] (PDict (deep_merge [(''db'', PDict [(''host'', PStr ''h''), (''pool'', PInt 5)])] [(''db'', PDict [(''pool'', PInt 9)])])) = Some (PInt 9)
   \<and> lookup [''db'', ''host''] (PDict (deep_merge [(''db'', PDict [(''host'', PStr ''h''), (''pool'', PInt 5)])] [(''db'', PDict [(''pool'', PInt 9)])])) = Some (PStr ''h'')"
proof -
  have w: "wf_doc [(''db'', PDict [(''pool'', PInt 9)])]" by (simp add: wf_doc.simps)
  show ?thesis
    using override_merges_deeply [OF w, of "[''db'', ''pool'']" "PInt 9"] override_merges_deeply [OF w, of "[''db'', ''host'']" PNone _ "PStr ''h''"]
    by (simp add: is_dict_def)
qed

section \<open>Overrides from the environment\<close>

lemma set_path_lookup: "set_path ks v t = Inr t' \<Longrightarrow> lookup ks t' = Some v"
proof (induction ks arbitrary: t t')
  case (Cons k ks)
  obtain d where t: "t = PDict d" using Cons.prems by (cases t) (auto split: if_splits)
  obtain x where "set_path ks v (dget_or d k (PDict [])) = Inr x" "t' = PDict (dset k x d)"
    using Cons.prems t by (cases "set_path ks v (dget_or d k (PDict []))") auto
  then show ?case using Cons.IH by (simp add: dict_simps)
qed simp

text \<open>Two paths that part ways at some key.\<close>

fun diverge :: "string list \<Rightarrow> string list \<Rightarrow> bool" where
  "diverge (a # as) (b # bs) = (a \<noteq> b \<or> diverge as bs)"
| "diverge _ _ = False"

lemma set_path_other: "set_path ks v t = Inr t' \<Longrightarrow> diverge ks js \<Longrightarrow> lookup js t = Some w \<Longrightarrow> lookup js t' = Some w"
proof (induction ks arbitrary: t t' js)
  case (Cons k ks)
  obtain j js' where js: "js = j # js'" using Cons.prems(2) by (cases js) simp_all
  obtain d where t: "t = PDict d" using Cons.prems(1) by (cases t) (auto split: if_splits)
  obtain x where x: "set_path ks v (dget_or d k (PDict [])) = Inr x" "t' = PDict (dset k x d)"
    using Cons.prems(1) t by (cases "set_path ks v (dget_or d k (PDict []))") auto
  show ?case
  proof (cases "j = k")
    case True
    then have "lookup js' (dget_or d k (PDict [])) = Some w" "diverge ks js'"
      using Cons.prems(2,3) js t by (auto simp: dget_or_def split: option.splits)
    then show ?thesis using Cons.IH [OF x(1)] True js x(2) by (simp add: dict_simps)
  next
    case False
    then show ?thesis using Cons.prems(3) js t x(2) by (simp add: dict_simps)
  qed
qed simp

definition env_path :: "string \<Rightarrow> string list" where
  "env_path key = split_path (ascii_lower (drop (length env_prefix) key))"

lemma apply_env_other:
  "apply_env_overrides env c = Inr c' \<Longrightarrow> (\<And>k v. (k, v) \<in> set env \<Longrightarrow> starts_with env_prefix k \<Longrightarrow> diverge (env_path k) js)
    \<Longrightarrow> lookup js c = Some w \<Longrightarrow> lookup js c' = Some w"
proof (induction env arbitrary: c)
  case (Cons kv env)
  obtain k v where kv: "kv = (k, v)" by (cases kv)
  show ?case
  proof (cases "starts_with env_prefix k")
    case True
    then obtain c1 where c1: "set_path (env_path k) (coerce_value v) c = Inr c1" "apply_env_overrides env c1 = Inr c'"
      using Cons.prems(1) by (cases "set_path (env_path k) (coerce_value v) c") (auto simp: kv env_path_def)
    then show ?thesis using Cons.IH [OF c1(2)] set_path_other [OF c1(1) _ Cons.prems(3)] Cons.prems(2) True by (auto simp: kv)
  next
    case False
    then have "apply_env_overrides env c = Inr c'" using Cons.prems(1) by (simp add: kv)
    then show ?thesis by (rule Cons.IH [OF _ _ Cons.prems(3)]) (use Cons.prems(2) in \<open>auto simp: kv\<close>)
  qed
qed simp

lemma apply_env_wins:
  assumes "apply_env_overrides (env1 @ (key, value) # env2) c = Inr c'" "starts_with env_prefix key"
    and "\<And>k v. (k, v) \<in> set env2 \<Longrightarrow> starts_with env_prefix k \<Longrightarrow> diverge (env_path k) (env_path key)"
  shows "lookup (env_path key) c' = Some (coerce_value value)"
  using assms(1)
proof (induction env1 arbitrary: c)
  case Nil
  then obtain c1 where c1: "set_path (env_path key) (coerce_value value) c = Inr c1" "apply_env_overrides env2 c1 = Inr c'"
    using assms(2) by (cases "set_path (env_path key) (coerce_value value) c") (auto simp: env_path_def)
  show ?case by (rule apply_env_other [OF c1(2) assms(3) set_path_lookup [OF c1(1)]])
next
  case (Cons kv env1)
  then show ?case
    by (cases kv; cases "set_path (split_path (ascii_lower (drop (length env_prefix) (fst kv)))) (coerce_value (snd kv)) c")
      (auto split: if_splits)
qed

text \<open>
  Remark (variables override the files): when the settings load, the value of every variable with the prefix is found under the path its
  name spells, whatever the files say, provided no later variable names the same path, a part of it or
  something below it.
\<close>

theorem env_variable_wins:
  assumes "load_settings base env_file (env1 @ (key, value) # env2) environment = Inr s" "starts_with env_prefix key"
    and "\<forall>(k, v) \<in> set env2. starts_with env_prefix k \<longrightarrow> diverge (env_path k) (env_path key)"
  shows "lookup (env_path key) (st_config s) = Some (coerce_value value)"
proof -
  obtain c where "apply_env_overrides (env1 @ (key, value) # env2) c = Inr (st_config s)"
    using assms(1)
    by (auto simp: load_settings_def Let_def res_bind_Inr)
  then show ?thesis using assms(3) by (intro apply_env_wins [OF _ assms(2)]) auto
qed

theorem env_variable_wins_witness:
  "lookup [''database'', ''pool_size''] (st_config (projr (load_settings (Some [(''database'', PDict [(''pool_size'', PInt 5)])]) (\<lambda>_. None) [(''RISKPULSE_DATABASE__POOL_SIZE'', ''30'')] None)))
    = Some (PInt 30)"
proof -
  let ?l = "load_settings (Some [(''database'', PDict [(''pool_size'', PInt 5)])]) (\<lambda>_. None) ([] @ [(''RISKPULSE_DATABASE__POOL_SIZE'', ''30'')]) None"
  have p: "env_path ''RISKPULSE_DATABASE__POOL_SIZE'' = [''database'', ''pool_size'']" by code_simp
  have c: "coerce_value ''30'' = PInt 30" by code_simp
  have sp: "split_path (ascii_lower ''DATABASE__POOL_SIZE'') = [''database'', ''pool_size'']" by code_simp
  have "?l = Inr (projr ?l)"
    by (simp add: load_settings_def Let_def dict_simps env_prefix_def c dget_or_def sp)
  from env_variable_wins [OF this] show ?thesis by (simp add: p c env_prefix_def)
qed

lemma nat_str_lower: "ascii_lower (nat_str n) = nat_str n"
proof -
  have "\<not> (65 \<le> (of_char c :: nat))" if "c \<in> set (nat_str n)" for c
    using nat_str_digits [of n] that by (force simp: is_digit_def)
  then show ?thesis unfolding ascii_lower_def by (intro map_idI) (auto simp: Let_def)
qed

lemma int_str_lower: "ascii_lower (int_str i) = int_str i"
proof -
  have "ascii_lower (CHR ''-'' # s) = CHR ''-'' # ascii_lower s" for s by (simp add: ascii_lower_def)
  then show ?thesis by (simp add: int_str_def nat_str_lower)
qed

text \<open>
  Remark (numbers in variables): the decimal notation of an integer is read back as that integer, except
  that 1 is read as true and 0 as false.
\<close>

theorem coerce_numbers: "coerce_value (int_str i) = (if i = 1 then PBool True else if i = 0 then PBool False else PInt i)"
proof -
  have "int_of_str ''true'' = None" "int_of_str ''yes'' = None" "int_of_str ''false'' = None" "int_of_str ''no'' = None"
    "int_of_str ''1'' = Some 1" "int_of_str ''0'' = Some 0"
    by code_simp+
  moreover have "int_str 1 = ''1''" "int_str 0 = ''0''" by code_simp+
  ultimately have "int_str i \<in> {''true'', ''1'', ''yes''} \<longleftrightarrow> i = 1" "int_str i \<in> {''false'', ''0'', ''no''} \<longleftrightarrow> i = 0"
    using int_of_int_str [of i] by (metis insert_iff option.discI option.inject singletonD)+
  then show ?thesis by (simp add: coerce_value_def int_str_lower int_of_int_str)
qed

end
