(* ===== verification/Secrets.thy ===== *)
theory Secrets
  imports Config
begin

text \<open>
  The credentials of \<^verbatim>\<open>src/utils/secrets_manager.py\<close>: the cached secrets of AWS Secrets Manager, the API keys, the
  JWT secret and the database credentials, each with its guard against development values in managed
  environments. The client of the service, the JSON parser, the readings of the clock and \<^verbatim>\<open>str\<close> are
  arguments; a raised \<^verbatim>\<open>SecretsManagerError\<close> is a value of its own. A text stands for its UTF-8 bytes, so its length is the
  number of bytes. The database URLs of \<^verbatim>\<open>src/utils/config.py\<close> follow, since they take the guarded credentials.
\<close>

definition development_placeholders :: "string list" where
  "development_placeholders =
     [[], ''riskpulse'', ''riskpulse_dev_password'', ''change-me'', ''dev-api-key-riskpulse-2024'', ''dev-api-key-change-in-production'',
      ''dev-jwt-secret'', ''dev-jwt-secret-change-in-production'', ''ci-build-placeholder-not-secret'']"

record secret_value =
  sx_value :: "(string, pyval) dict"
  sx_version_id :: "string option"
  sx_created_at :: seconds

record secrets_manager =
  xm_enabled :: bool
  xm_client :: bool
  xm_cache_ttl_seconds :: int
  xm_cache :: "(string, secret_value) dict"

text \<open>
  \<open>given\<close> tells that a client is passed to the constructor, \<open>enabled\<close> and \<open>ttl\<close> are its other arguments; when the
  manager is enabled without a client, one is made, which needs the library (\<open>boto\<close>).
\<close>

definition new_secrets_manager :: "bool \<Rightarrow> settings \<Rightarrow> bool \<Rightarrow> bool option \<Rightarrow> int option \<Rightarrow> secrets_manager res" where
  "new_secrets_manager boto cfg given enabled ttl =
     (let on = (case enabled of Some b \<Rightarrow> b | None \<Rightarrow> py_bool (settings_get ''security.secrets_manager.enabled'' (PBool False) cfg));
          conf_ttl = to_int (settings_get ''security.secrets_manager.cache_ttl_seconds'' (PInt 300) cfg)
      in res_bind (case ttl of Some t \<Rightarrow> if t = 0 then conf_ttl else Inr t | None \<Rightarrow> conf_ttl)
           (\<lambda>t. if \<not> given \<and> on \<and> \<not> boto then Inl SecretsManagerError
                 else Inr \<lparr>xm_enabled = on, xm_client = (given \<or> on), xm_cache_ttl_seconds = t, xm_cache = []\<rparr>))"

text \<open>The singleton of the module.\<close>

definition get_secrets_manager :: "bool \<Rightarrow> settings \<Rightarrow> secrets_manager option \<Rightarrow> secrets_manager res" where
  "get_secrets_manager boto cfg s =
     (case s of Some m \<Rightarrow> Inr m | None \<Rightarrow> new_secrets_manager boto cfg False None None)"

section \<open>Secrets of the service\<close>

record aws_response =
  aw_string :: "string option"
  aw_binary :: "string option"
  aw_version :: "string option"

definition parse_secret :: "(string \<Rightarrow> pyval option) \<Rightarrow> string \<Rightarrow> (string, pyval) dict" where
  "parse_secret json raw =
     (case json raw of Some (PDict d) \<Rightarrow> d | Some v \<Rightarrow> [(''value'', v)] | None \<Rightarrow> [(''value'', PStr raw)])"

definition fetch_secret ::
  "(string \<Rightarrow> pyval option) \<Rightarrow> (string \<Rightarrow> aws_response res) \<Rightarrow> seconds \<Rightarrow> string \<Rightarrow> secrets_manager
   \<Rightarrow> (string, pyval) dict res \<times> secrets_manager" where
  "fetch_secret json aws now secret_id m =
     (if \<not> xm_client m then (Inl SecretsManagerError, m)
      else (case aws secret_id of
              Inl ex \<Rightarrow> (Inl SecretsManagerError, m)
            | Inr resp \<Rightarrow>
                (case first_some (aw_string resp) (aw_binary resp) of
                   None \<Rightarrow> (Inl SecretsManagerError, m)
                 | Some raw \<Rightarrow>
                     (let value = parse_secret json raw;
                          entry = \<lparr>sx_value = value, sx_version_id = aw_version resp, sx_created_at = now\<rparr>
                      in (Inr value, m\<lparr>xm_cache := dset secret_id entry (xm_cache m)\<rparr>)))))"

definition get_secret ::
  "(string \<Rightarrow> pyval option) \<Rightarrow> (string \<Rightarrow> aws_response res) \<Rightarrow> seconds \<Rightarrow> seconds \<Rightarrow> string \<Rightarrow> bool \<Rightarrow> secrets_manager
   \<Rightarrow> (string, pyval) dict res \<times> secrets_manager" where
  "get_secret json aws t1 t2 secret_id force_refresh m =
     (if secret_id = [] then (Inl SecretsManagerError, m)
      else (case dget (xm_cache m) secret_id of
              Some c \<Rightarrow>
                if \<not> force_refresh \<and> t1 - sx_created_at c < of_int (xm_cache_ttl_seconds m) then (Inr (sx_value c), m)
                else fetch_secret json aws t2 secret_id m
            | None \<Rightarrow> fetch_secret json aws t2 secret_id m))"

section \<open>API keys\<close>

type_synonym key_entry = "(string, pyval) dict"

definition coerce_api_key_entries :: "pyval \<Rightarrow> key_entry list" where
  "coerce_api_key_entries v =
     (case v of
        PList vs \<Rightarrow> List.map_filter (\<lambda>x. case x of PDict d \<Rightarrow> if py_bool (pget d ''key'') then Some d else None | _ \<Rightarrow> None) vs
      | _ \<Rightarrow> [])"

definition split_permissions :: "string \<Rightarrow> string list" where
  "split_permissions s = filter (\<lambda>p. p \<noteq> []) (map strip (split_at CHR '','' s))"

definition single_key_entry :: "env_vars \<Rightarrow> string \<Rightarrow> key_entry" where
  "single_key_entry env key =
     [(''name'', PStr (dget_or env ''RISKPULSE_API_KEY_NAME'' ''environment'')), (''key'', PStr key),
      (''permissions'', PList (map PStr (split_permissions (dget_or env ''RISKPULSE_API_KEY_PERMISSIONS'' ''read,write'')))),
      (''rate_limit'', (case dget env ''RISKPULSE_API_KEY_RATE_LIMIT'' of None \<Rightarrow> PNone | Some s \<Rightarrow> PStr s))]"

definition is_placeholder :: "string \<Rightarrow> bool" where
  "is_placeholder s = (s \<in> set development_placeholders)"

definition get_api_keys_from_environment ::
  "(string \<Rightarrow> pyval option) \<Rightarrow> (pyval \<Rightarrow> string) \<Rightarrow> env_vars \<Rightarrow> bool \<Rightarrow> key_entry list res" where
  "get_api_keys_from_environment json show_val env managed =
     (if truthy (dget env ''RISKPULSE_API_KEYS'')
      then (case json (the (dget env ''RISKPULSE_API_KEYS'')) of
              None \<Rightarrow> Inl SecretsManagerError
            | Some parsed \<Rightarrow>
                (let ks = coerce_api_key_entries parsed
                 in if ks = [] then Inl SecretsManagerError
                    else if managed \<and> (\<exists>k \<in> set ks. is_placeholder (show_val (pget k ''key''))) then Inl SecretsManagerError
                    else Inr ks))
      else (let single = dget_or env ''RISKPULSE_API_KEY'' []
            in if single = [] then Inr []
               else if managed \<and> is_placeholder single then Inl SecretsManagerError
               else Inr [single_key_entry env single]))"

text \<open>The secret identifier of the argument or else of the settings, when there is one.\<close>

definition configured_id :: "string \<Rightarrow> string option \<Rightarrow> settings \<Rightarrow> pyval" where
  "configured_id path secret_id cfg =
     (if truthy secret_id then PStr (the secret_id) else settings_get path PNone cfg)"

definition id_text :: "(pyval \<Rightarrow> string) \<Rightarrow> pyval \<Rightarrow> string" where
  "id_text show_val v = (case v of PStr s \<Rightarrow> s | _ \<Rightarrow> show_val v)"

definition get_api_keys ::
  "(string \<Rightarrow> pyval option) \<Rightarrow> (string \<Rightarrow> aws_response res) \<Rightarrow> (pyval \<Rightarrow> string) \<Rightarrow> seconds \<Rightarrow> seconds \<Rightarrow> settings \<Rightarrow> env_vars \<Rightarrow> string option
   \<Rightarrow> secrets_manager \<Rightarrow> key_entry list res \<times> secrets_manager" where
  "get_api_keys json aws show_val t1 t2 cfg env secret_id m =
     (let cid = configured_id ''security.secrets_manager.api_keys_secret_id'' secret_id cfg; managed = managed_environment (st_environment cfg)
      in if py_bool cid
         then (case get_secret json aws t1 t2 (id_text show_val cid) False m of
                 (Inl ex, m1) \<Rightarrow> (Inl ex, m1)
               | (Inr secret, m1) \<Rightarrow>
                   (case dget_or secret ''api_keys'' (dget_or secret ''keys'' (PList [])) of
                      PList vs \<Rightarrow> (Inr (coerce_api_key_entries (PList vs)), m1)
                    | _ \<Rightarrow> (Inl SecretsManagerError, m1)))
         else (case get_api_keys_from_environment json show_val env managed of
                 Inl ex \<Rightarrow> (Inl ex, m)
               | Inr (k # ks) \<Rightarrow> (Inr (k # ks), m)
               | Inr [] \<Rightarrow>
                   (case coerce_api_key_entries (settings_get ''api.api_keys'' (PList []) cfg) of
                      k # ks \<Rightarrow> (Inr (k # ks), m)
                    | [] \<Rightarrow> if managed then (Inl SecretsManagerError, m) else (Inr [], m))))"

section \<open>The JWT secret\<close>

text \<open>The part after the service: the environment variable and, outside managed environments, the development value.\<close>

definition jwt_secret_from_environment :: "(pyval \<Rightarrow> string) \<Rightarrow> settings \<Rightarrow> env_vars \<Rightarrow> string res" where
  "jwt_secret_from_environment show_val cfg env =
     (let env_secret = dget_or env ''RISKPULSE_JWT_SECRET'' []; managed = managed_environment (st_environment cfg)
      in if env_secret \<noteq> [] \<and> \<not> is_placeholder env_secret
         then (if managed \<and> length env_secret < 32 then Inl SecretsManagerError else Inr env_secret)
         else if managed then Inl SecretsManagerError
         else if env_secret \<noteq> [] then Inr env_secret
         else Inr (id_text show_val (settings_get ''security.jwt.dev_secret'' (PStr ''dev-jwt-secret'') cfg)))"

definition get_jwt_secret ::
  "(string \<Rightarrow> pyval option) \<Rightarrow> (string \<Rightarrow> aws_response res) \<Rightarrow> (pyval \<Rightarrow> string) \<Rightarrow> seconds \<Rightarrow> seconds \<Rightarrow> settings \<Rightarrow> env_vars \<Rightarrow> string option
   \<Rightarrow> secrets_manager \<Rightarrow> string res \<times> secrets_manager" where
  "get_jwt_secret json aws show_val t1 t2 cfg env secret_id m =
     (let cid = configured_id ''security.secrets_manager.jwt_secret_id'' secret_id cfg; managed = managed_environment (st_environment cfg)
      in if py_bool cid
         then (case get_secret json aws t1 t2 (id_text show_val cid) False m of
                 (Inl ex, m1) \<Rightarrow> (Inl ex, m1)
               | (Inr secret, m1) \<Rightarrow>
                   (let value = py_or (py_or (pget secret ''jwt_secret'') (pget secret ''secret'')) (pget secret ''value'')
                    in if py_bool value
                       then (if managed \<and> length (id_text show_val value) < 32 then (Inl SecretsManagerError, m1)
                             else (Inr (id_text show_val value), m1))
                       else (jwt_secret_from_environment show_val cfg env, m1)))
         else (jwt_secret_from_environment show_val cfg env, m))"

section \<open>Database credentials\<close>

definition env_credentials :: "env_vars \<Rightarrow> (string, pyval) dict" where
  "env_credentials env =
     [(''host'', PStr (dget_or env ''RISKPULSE_DB_HOST'' ''localhost'')), (''port'', PStr (dget_or env ''RISKPULSE_DB_PORT'' ''5432'')),
      (''database'', PStr (dget_or env ''RISKPULSE_DB_NAME'' ''riskpulse'')), (''username'', PStr (dget_or env ''RISKPULSE_DB_USER'' ''riskpulse'')),
      (''password'', PStr (dget_or env ''RISKPULSE_DB_PASSWORD'' ''riskpulse''))]"

definition get_database_credentials ::
  "(string \<Rightarrow> pyval option) \<Rightarrow> (string \<Rightarrow> aws_response res) \<Rightarrow> (pyval \<Rightarrow> string) \<Rightarrow> seconds \<Rightarrow> seconds \<Rightarrow> settings \<Rightarrow> env_vars \<Rightarrow> string option
   \<Rightarrow> secrets_manager \<Rightarrow> (string, pyval) dict res \<times> secrets_manager" where
  "get_database_credentials json aws show_val t1 t2 cfg env secret_id m =
     (let cid = configured_id ''security.secrets_manager.database_secret_id'' secret_id cfg
      in if py_bool cid then get_secret json aws t1 t2 (id_text show_val cid) False m
         else if managed_environment (st_environment cfg) \<and> is_placeholder (dget_or env ''RISKPULSE_DB_PASSWORD'' ''riskpulse'')
         then (Inl SecretsManagerError, m)
         else (Inr (env_credentials env), m))"

section \<open>Database URL\<close>

text \<open>\<^verbatim>\<open>urllib.parse.quote_plus\<close>, byte by byte.\<close>

definition hex_digit :: "nat \<Rightarrow> char" where
  "hex_digit n = (if n < 10 then char_of (48 + n) else char_of (55 + n))"

definition unreserved :: "char \<Rightarrow> bool" where
  "unreserved c = (let n = (of_char c :: nat) in
     48 \<le> n \<and> n \<le> 57 \<or> 65 \<le> n \<and> n \<le> 90 \<or> 97 \<le> n \<and> n \<le> 122 \<or> c \<in> set ''_.-~'')"

definition quote_char :: "char \<Rightarrow> string" where
  "quote_char c =
     (if unreserved c then [c] else if c = CHR '' '' then ''+''
      else (let n = (of_char c :: nat) in [CHR ''%'', hex_digit (n div 16), hex_digit (n mod 16)]))"

definition quote_plus :: "string \<Rightarrow> string" where
  "quote_plus s = concat (map quote_char s)"

definition database_credentials ::
  "(string \<Rightarrow> pyval option) \<Rightarrow> (string \<Rightarrow> aws_response res) \<Rightarrow> (pyval \<Rightarrow> string) \<Rightarrow> seconds \<Rightarrow> seconds \<Rightarrow> settings \<Rightarrow> env_vars
   \<Rightarrow> secrets_manager \<Rightarrow> (string, pyval) dict res \<times> secrets_manager" where
  "database_credentials json aws show_val t1 t2 cfg env m =
     (if managed_environment (st_environment cfg) then get_database_credentials json aws show_val t1 t2 cfg env None m
      else (Inr (env_credentials env), m))"

definition format_database_url :: "(pyval \<Rightarrow> string) \<Rightarrow> string \<Rightarrow> (string, pyval) dict \<Rightarrow> string" where
  "format_database_url show_val driver credentials =
     (let host = quote_plus (show_val (dget_or credentials ''host'' (PStr ''localhost'')));
          port = quote_plus (show_val (dget_or credentials ''port'' (PStr ''5432'')));
          name = quote_plus (show_val (dget_or credentials ''database'' (PStr ''riskpulse'')));
          user = quote_plus (show_val (dget_or credentials ''username'' (PStr ''riskpulse'')));
          password = quote_plus (show_val (dget_or credentials ''password'' (PStr [])))
      in ''postgresql+'' @ driver @ ''://'' @ user @ '':'' @ password @ ''@'' @ host @ '':'' @ port @ ''/'' @ name)"

text \<open>\<^verbatim>\<open>database_url\<close> and \<^verbatim>\<open>database_url_sync\<close>, by their driver.\<close>

definition database_url ::
  "(string \<Rightarrow> pyval option) \<Rightarrow> (string \<Rightarrow> aws_response res) \<Rightarrow> (pyval \<Rightarrow> string) \<Rightarrow> seconds \<Rightarrow> seconds \<Rightarrow> settings \<Rightarrow> env_vars \<Rightarrow> string
   \<Rightarrow> secrets_manager \<Rightarrow> string res \<times> secrets_manager" where
  "database_url json aws show_val t1 t2 cfg env driver m =
     (let (r, m1) = database_credentials json aws show_val t1 t2 cfg env m
      in (res_bind r (\<lambda>c. Inr (format_database_url show_val driver c)), m1))"

end
