(* ===== verification/Api_Auth.thy ===== *)
theory Api_Auth
  imports Secrets
begin

text \<open>
  Authentication of the API: the key manager and the dependencies of \<^verbatim>\<open>src/api/middleware/auth.py\<close>, and the
  JWT functions of \<^verbatim>\<open>src/utils/security.py\<close>. What lies outside is bundled in the record \<open>outside\<close>: the JSON parser, the
  secret service, \<^verbatim>\<open>str\<close>, the presence of the AWS library and PyJWT's \<^verbatim>\<open>encode\<close> and \<^verbatim>\<open>decode\<close>; SHA-256 is an
  argument. The state is that of the two module singletons.
\<close>

record outside =
  ox_json :: "string \<Rightarrow> pyval option"
  ox_aws :: "string \<Rightarrow> aws_response res"
  ox_str :: "pyval \<Rightarrow> string"
  ox_boto :: bool
  ox_encode :: "(string, pyval) dict \<Rightarrow> string \<Rightarrow> string \<Rightarrow> string"
  ox_decode :: "string \<Rightarrow> string \<Rightarrow> string \<Rightarrow> seconds \<Rightarrow> string \<Rightarrow> (string, pyval) dict option"

text \<open>Metadata of an identity; the fields come unchecked from the configuration or from a token.\<close>

record key_meta =
  km_name :: pyval
  km_permissions :: pyval
  km_rate_limit :: pyval
  km_auth_type :: string

type_synonym key_table = "(string, key_meta) dict"

record auth_state =
  au_secrets :: "secrets_manager option"
  au_keys :: "key_table option"

definition new_auth_state :: auth_state where
  "new_auth_state = \<lparr>au_secrets = None, au_keys = None\<rparr>"

text \<open>A call of a method of the secrets manager singleton, which is created on first use.\<close>

definition with_secrets ::
  "bool \<Rightarrow> settings \<Rightarrow> (secrets_manager \<Rightarrow> 'a res \<times> secrets_manager) \<Rightarrow> auth_state \<Rightarrow> 'a res \<times> auth_state" where
  "with_secrets boto cfg f st =
     (case get_secrets_manager boto cfg (au_secrets st) of
        Inl ex \<Rightarrow> (Inl ex, st)
      | Inr m \<Rightarrow> (let (r, m1) = f m in (r, st\<lparr>au_secrets := Some m1\<rparr>)))"

section \<open>Key manager\<close>

definition hash_key :: "(string \<Rightarrow> string) \<Rightarrow> pyval \<Rightarrow> string res" where
  "hash_key sha256 key = (case key of PStr s \<Rightarrow> Inr (sha256 s) | _ \<Rightarrow> Inl AttributeError)"

definition entry_meta :: "key_entry \<Rightarrow> key_meta" where
  "entry_meta e =
     \<lparr>km_name = dget_or e ''name'' (PStr ''unknown''), km_permissions = dget_or e ''permissions'' (PList [PStr ''read'']),
      km_rate_limit = pget e ''rate_limit'', km_auth_type = ''api_key''\<rparr>"

fun add_keys :: "(string \<Rightarrow> string) \<Rightarrow> pyval list \<Rightarrow> key_table \<Rightarrow> key_table res" where
  "add_keys sha256 [] ks = Inr ks"
| "add_keys sha256 (PDict e # es) ks =
     (case dget e ''key'' of
        None \<Rightarrow> add_keys sha256 es ks
      | Some key \<Rightarrow> res_bind (hash_key sha256 key) (\<lambda>h. add_keys sha256 es (dset h (entry_meta e) ks)))"
| "add_keys sha256 (v # es) ks = add_keys sha256 es ks"

definition dev_key :: string where
  "dev_key = ''dev-api-key-riskpulse-2024''"

definition dev_meta :: key_meta where
  "dev_meta = \<lparr>km_name = PStr ''development'', km_permissions = PList [PStr ''read'', PStr ''write'', PStr ''admin''],
     km_rate_limit = PNone, km_auth_type = ''api_key''\<rparr>"

text \<open>Where \<^verbatim>\<open>_load_keys\<close> takes its entries from.\<close>

definition configured_keys ::
  "outside \<Rightarrow> seconds \<Rightarrow> seconds \<Rightarrow> settings \<Rightarrow> env_vars \<Rightarrow> auth_state \<Rightarrow> pyval res \<times> auth_state" where
  "configured_keys ox t1 t2 cfg env st =
     (case with_secrets (ox_boto ox) cfg (get_api_keys (ox_json ox) (ox_aws ox) (ox_str ox) t1 t2 cfg env None) st of
        (Inr ks, st1) \<Rightarrow> (Inr (PList (map PDict ks)), st1)
      | (Inl ex, st1) \<Rightarrow>
          if ex \<noteq> SecretsManagerError \<or> managed_environment (st_environment cfg) then (Inl ex, st1)
          else (Inr (settings_get ''api.api_keys'' (PList []) cfg), st1))"

definition load_keys :: "(string \<Rightarrow> string) \<Rightarrow> settings \<Rightarrow> pyval \<Rightarrow> key_table res" where
  "load_keys sha256 cfg configured =
     res_bind (case configured of PList es \<Rightarrow> add_keys sha256 es [] | _ \<Rightarrow> Inr [])
       (\<lambda>ks. Inr (if st_environment cfg \<in> {''dev'', ''test''} then dset (sha256 dev_key) dev_meta ks else ks))"

definition get_key_manager ::
  "outside \<Rightarrow> (string \<Rightarrow> string) \<Rightarrow> seconds \<Rightarrow> seconds \<Rightarrow> settings \<Rightarrow> env_vars \<Rightarrow> auth_state \<Rightarrow> key_table res \<times> auth_state" where
  "get_key_manager ox sha256 t1 t2 cfg env st =
     (case au_keys st of
        Some ks \<Rightarrow> (Inr ks, st)
      | None \<Rightarrow>
          (case configured_keys ox t1 t2 cfg env st of
             (Inl ex, st1) \<Rightarrow> (Inl ex, st1)
           | (Inr configured, st1) \<Rightarrow>
               (case load_keys sha256 cfg configured of
                  Inl ex \<Rightarrow> (Inl ex, st1)
                | Inr ks \<Rightarrow> (Inr ks, st1\<lparr>au_keys := Some ks\<rparr>))))"

definition reset_key_manager :: "auth_state \<Rightarrow> auth_state" where
  "reset_key_manager st = st\<lparr>au_keys := None\<rparr>"

definition validate_key :: "(string \<Rightarrow> string) \<Rightarrow> key_table \<Rightarrow> string \<Rightarrow> key_meta option" where
  "validate_key sha256 ks api_key =
     (let key_hash = sha256 api_key in map_option snd (find (\<lambda>(stored_hash, metadata). key_hash = stored_hash) ks))"

text \<open>The text of a new key from 32 random bytes; \<open>token_urlsafe\<close> is the encoding of the random bytes.\<close>

definition generate_key :: "string \<Rightarrow> string" where
  "generate_key token_urlsafe = ''rp_'' @ token_urlsafe"

section \<open>JWT\<close>

definition jwt_algorithm :: string where
  "jwt_algorithm = ''HS256''"

definition jwt_issuer :: string where
  "jwt_issuer = ''riskpulse-api''"

text \<open>\<^verbatim>\<open>secret or get_secrets_manager().get_jwt_secret()\<close>.\<close>

definition signing_secret ::
  "outside \<Rightarrow> seconds \<Rightarrow> seconds \<Rightarrow> settings \<Rightarrow> env_vars \<Rightarrow> string option \<Rightarrow> auth_state \<Rightarrow> string res \<times> auth_state" where
  "signing_secret ox t1 t2 cfg env secret st =
     (if truthy secret then (Inr (the secret), st)
      else with_secrets (ox_boto ox) cfg (get_jwt_secret (ox_json ox) (ox_aws ox) (ox_str ox) t1 t2 cfg env None) st)"

text \<open>\<open>now\<close> is the reading of the clock for the payload, in microseconds.\<close>

definition jwt_payload :: "string \<Rightarrow> string list \<Rightarrow> int \<Rightarrow> datetime \<Rightarrow> (string, pyval) dict" where
  "jwt_payload subject permissions expires now =
     [(''sub'', PStr subject), (''permissions'', PList (map PStr permissions)), (''iss'', PStr jwt_issuer),
      (''iat'', PInt (trunc_int (total_seconds now 0))), (''exp'', PInt (trunc_int (total_seconds (add_minutes now expires) 0)))]"

definition create_jwt_token ::
  "outside \<Rightarrow> seconds \<Rightarrow> seconds \<Rightarrow> settings \<Rightarrow> env_vars \<Rightarrow> datetime \<Rightarrow> string \<Rightarrow> string list \<Rightarrow> int option \<Rightarrow> string option \<Rightarrow> auth_state
   \<Rightarrow> string res \<times> auth_state" where
  "create_jwt_token ox t1 t2 cfg env now subject permissions expires_minutes secret st =
     (case (case expires_minutes of
              Some n \<Rightarrow> if n = 0 then to_int (settings_get ''security.jwt.expiration_minutes'' (PInt 60) cfg) else Inr n
            | None \<Rightarrow> to_int (settings_get ''security.jwt.expiration_minutes'' (PInt 60) cfg)) of
        Inl ex \<Rightarrow> (Inl ex, st)
      | Inr expires \<Rightarrow>
          (case signing_secret ox t1 t2 cfg env secret st of
             (Inl ex, st1) \<Rightarrow> (Inl ex, st1)
           | (Inr s, st1) \<Rightarrow> (Inr (ox_encode ox (jwt_payload subject permissions expires now) s jwt_algorithm), st1)))"

definition payload_meta :: "(pyval \<Rightarrow> string) \<Rightarrow> (string, pyval) dict \<Rightarrow> key_meta" where
  "payload_meta show_val payload =
     \<lparr>km_name = PStr (show_val (dget_or payload ''sub'' (PStr ''jwt-subject''))),
      km_permissions = PList (case dget_or payload ''permissions'' (PList []) of PList ps \<Rightarrow> map (PStr \<circ> show_val) ps | _ \<Rightarrow> []),
      km_rate_limit = pget payload ''rate_limit'', km_auth_type = ''jwt''\<rparr>"

text \<open>\<open>clock\<close> is the time at which PyJWT checks the expiry.\<close>

definition verify_jwt_token ::
  "outside \<Rightarrow> seconds \<Rightarrow> seconds \<Rightarrow> seconds \<Rightarrow> settings \<Rightarrow> env_vars \<Rightarrow> string \<Rightarrow> string option \<Rightarrow> auth_state \<Rightarrow> key_meta res \<times> auth_state" where
  "verify_jwt_token ox t1 t2 clock cfg env token secret st =
     (case signing_secret ox t1 t2 cfg env secret st of
        (Inl ex, st1) \<Rightarrow> (Inl ex, st1)
      | (Inr s, st1) \<Rightarrow>
          (case ox_decode ox s jwt_algorithm jwt_issuer clock token of
             None \<Rightarrow> (Inl SecurityValidationError, st1)
           | Some payload \<Rightarrow> (Inr (payload_meta (ox_str ox) payload), st1)))"

section \<open>Dependencies of the routes\<close>

text \<open>What a dependency attaches to the state of the request.\<close>

record bound_identity =
  bi_api_key_name :: pyval
  bi_api_key_permissions :: pyval
  bi_api_key_rate_limit :: pyval
  bi_auth_type :: string
  bi_jwt_subject :: "pyval option"

definition bind_auth_metadata :: "key_meta \<Rightarrow> bound_identity" where
  "bind_auth_metadata km =
     \<lparr>bi_api_key_name = km_name km, bi_api_key_permissions = km_permissions km, bi_api_key_rate_limit = km_rate_limit km,
      bi_auth_type = km_auth_type km, bi_jwt_subject = None\<rparr>"

text \<open>A request as authentication sees it: the two headers and what the environment supplies during the call.\<close>

record auth_call =
  ac_outside :: outside
  ac_t1 :: seconds
  ac_t2 :: seconds
  ac_clock :: seconds
  ac_api_key :: "string option"
  ac_bearer :: "string option"

definition check_key ::
  "(string \<Rightarrow> string) \<Rightarrow> settings \<Rightarrow> env_vars \<Rightarrow> auth_call \<Rightarrow> string \<Rightarrow> auth_state \<Rightarrow> (key_meta \<times> bound_identity) res \<times> auth_state" where
  "check_key sha256 cfg env c api_key st =
     (case get_key_manager (ac_outside c) sha256 (ac_t1 c) (ac_t2 c) cfg env st of
        (Inl ex, st1) \<Rightarrow> (Inl ex, st1)
      | (Inr ks, st1) \<Rightarrow>
          (case validate_key sha256 ks api_key of
             None \<Rightarrow> (Inl (HTTPException 401), st1)
           | Some km \<Rightarrow> (Inr (km, bind_auth_metadata km), st1)))"

definition verify_api_key ::
  "(string \<Rightarrow> string) \<Rightarrow> settings \<Rightarrow> env_vars \<Rightarrow> auth_call \<Rightarrow> auth_state \<Rightarrow> (key_meta \<times> bound_identity) res \<times> auth_state" where
  "verify_api_key sha256 cfg env c st =
     (case ac_bearer c of
        Some token \<Rightarrow>
          (case verify_jwt_token (ac_outside c) (ac_t1 c) (ac_t2 c) (ac_clock c) cfg env token None st of
             (Inl ex, st1) \<Rightarrow> (Inl (if ex = SecurityValidationError then HTTPException 401 else ex), st1)
           | (Inr km, st1) \<Rightarrow> (Inr (km, (bind_auth_metadata km)\<lparr>bi_jwt_subject := Some (km_name km)\<rparr>), st1))
      | None \<Rightarrow>
          (case ac_api_key c of
             Some api_key \<Rightarrow> check_key sha256 cfg env c api_key st
           | None \<Rightarrow> (Inl (HTTPException 401), st)))"

definition verify_api_key_only ::
  "(string \<Rightarrow> string) \<Rightarrow> settings \<Rightarrow> env_vars \<Rightarrow> auth_call \<Rightarrow> auth_state \<Rightarrow> (key_meta \<times> bound_identity) res \<times> auth_state" where
  "verify_api_key_only sha256 cfg env c st =
     (case ac_api_key c of
        None \<Rightarrow> (Inl (HTTPException 401), st)
      | Some api_key \<Rightarrow> check_key sha256 cfg env c api_key st)"

definition require_permission ::
  "string \<Rightarrow> (string \<Rightarrow> string) \<Rightarrow> settings \<Rightarrow> env_vars \<Rightarrow> auth_call \<Rightarrow> auth_state \<Rightarrow> key_meta res \<times> auth_state" where
  "require_permission permission sha256 cfg env c st =
     (case verify_api_key sha256 cfg env c st of
        (Inl ex, st1) \<Rightarrow> (Inl ex, st1)
      | (Inr (km, b), st1) \<Rightarrow>
          (res_bind (py_in permission (km_permissions km))
             (\<lambda>ok. if ok then Inr km else Inl (HTTPException 403)), st1))"

end
