(* ===== verification/Secrets_Properties.thy ===== *)
theory Secrets_Properties
  imports Secrets
begin

text \<open>
  What the credential functions promise: no weak JWT secret in a managed environment, no development value
  from the environment variables, and cached secrets that are no older than the time to live.
\<close>

declare map_of_eq_Some_iff [simp del] Some_eq_map_of_iff [simp del]

section \<open>JWT secret\<close>

lemma jwt_env_managed:
  assumes "managed_environment (st_environment cfg)" "jwt_secret_from_environment show_val cfg env = Inr s"
  shows "32 \<le> length s \<and> \<not> is_placeholder s \<and> dget env ''RISKPULSE_JWT_SECRET'' = Some s"
  using assms
  by (auto simp: jwt_secret_from_environment_def Let_def dget_or_def split: if_splits option.splits)

lemma jwt_secret_length:
  assumes "managed_environment (st_environment cfg)"
    and "get_jwt_secret json aws show_val t1 t2 cfg env secret_id m = (Inr s, m')"
  shows "32 \<le> length s"
  using assms jwt_env_managed [of cfg show_val env s]
  by (auto simp: get_jwt_secret_def Let_def split: if_splits prod.splits sum.splits)

text \<open>
  Remark (the JWT secret of a managed environment). In production and staging, a signing secret that is
  handed out has at least 32 characters, wherever it comes from. It is one of the published development values only
  when the secret service itself delivered it.
\<close>

theorem managed_jwt_secret_strong:
  assumes "managed_environment (st_environment cfg)"
    and "get_jwt_secret json aws show_val t1 t2 cfg env secret_id m = (Inr s, m')"
  shows "32 \<le> length s \<and> (is_placeholder s \<longrightarrow> (\<exists>secret. get_secret json aws t1 t2
           (id_text show_val (configured_id ''security.secrets_manager.jwt_secret_id'' secret_id cfg)) False m = (Inr secret, m')))"
  using assms jwt_env_managed [of cfg show_val env s]
  by (auto simp: get_jwt_secret_def Let_def split: if_splits prod.splits sum.splits)

text \<open>Settings without a configured service, in a given environment.\<close>

definition plain_settings :: "string \<Rightarrow> settings" where
  "plain_settings name = \<lparr>st_environment = name, st_config = PDict []\<rparr>"

definition demo_manager :: secrets_manager where
  "demo_manager = \<lparr>xm_enabled = True, xm_client = True, xm_cache_ttl_seconds = 300, xm_cache = []\<rparr>"

lemma demo_jwt_secret:
  "managed_environment (st_environment (plain_settings ''Production''))"
  "get_jwt_secret (\<lambda>s. None) (\<lambda>i. Inl RuntimeError) (\<lambda>v. []) 0 0 (plain_settings ''Production'')
     [(''RISKPULSE_JWT_SECRET'', ''an-example-secret-of-forty-two-characters-'')] None demo_manager
   = (Inr ''an-example-secret-of-forty-two-characters-'', demo_manager)"
  by code_simp+

theorem managed_jwt_secret_strong_witness:
  "32 \<le> length ''an-example-secret-of-forty-two-characters-''"
  using managed_jwt_secret_strong [of "plain_settings ''Production''" "\<lambda>s. None" "\<lambda>i. Inl RuntimeError" "\<lambda>v. []" 0 0
        "[(''RISKPULSE_JWT_SECRET'', ''an-example-secret-of-forty-two-characters-'')]" None demo_manager
        "''an-example-secret-of-forty-two-characters-''" demo_manager] demo_jwt_secret by blast

section \<open>API keys\<close>

lemma coerced_key: "k \<in> set (coerce_api_key_entries v) \<Longrightarrow> py_bool (pget k ''key'')"
  by (auto simp: coerce_api_key_entries_def map_filter_def split: pyval.splits if_splits)

lemma environment_keys:
  assumes "\<And>s. show_val (PStr s) = s"
  shows "case get_api_keys_from_environment json show_val env managed of
           Inl ex \<Rightarrow> ex = SecretsManagerError
         | Inr ks \<Rightarrow> \<forall>k \<in> set ks. py_bool (pget k ''key'') \<and> (managed \<longrightarrow> \<not> is_placeholder (show_val (pget k ''key'')))"
proof (cases "truthy (dget env ''RISKPULSE_API_KEYS'')")
  case True
  then show ?thesis
    by (auto simp: get_api_keys_from_environment_def Let_def split: option.splits intro: coerced_key)
next
  case False
  then show ?thesis
    using assms by (simp add: get_api_keys_from_environment_def Let_def single_key_entry_def pget_def dget_or_def split: option.splits)
qed

text \<open>
  Remark (API keys of a managed environment). When no secret of the service and no keys in the settings
  are configured, a managed environment gets at least one key, every key is non-empty text other than the published
  development values, and otherwise the call raises.
\<close>

theorem managed_environment_keys:
  assumes "managed_environment (st_environment cfg)"
    and "\<not> py_bool (configured_id ''security.secrets_manager.api_keys_secret_id'' secret_id cfg)"
    and "coerce_api_key_entries (settings_get ''api.api_keys'' (PList []) cfg) = []"
    and "\<And>s. show_val (PStr s) = s"
  shows "case get_api_keys json aws show_val t1 t2 cfg env secret_id m of
           (Inl ex, m') \<Rightarrow> ex = SecretsManagerError \<and> m' = m
         | (Inr ks, m') \<Rightarrow> m' = m \<and> ks \<noteq> [] \<and> (\<forall>k \<in> set ks. py_bool (pget k ''key'') \<and> \<not> is_placeholder (show_val (pget k ''key'')))"
  using assms environment_keys [where managed = True and json = json and env = env, OF assms(4)]
  by (auto simp: get_api_keys_def Let_def split: sum.splits list.splits)

theorem managed_environment_keys_witness:
  "case get_api_keys (\<lambda>s. None) (\<lambda>i. Inl RuntimeError) (\<lambda>v. case v of PStr s \<Rightarrow> s | _ \<Rightarrow> []) 0 0 (plain_settings ''prod'') [(''RISKPULSE_API_KEY'', ''riskpulse'')] None demo_manager of
     (Inl ex, m') \<Rightarrow> ex = SecretsManagerError \<and> m' = demo_manager
   | (Inr ks, m') \<Rightarrow> m' = demo_manager \<and> ks \<noteq> [] \<and>
       (\<forall>k \<in> set ks. py_bool (pget k ''key'') \<and> \<not> is_placeholder ((\<lambda>v. case v of PStr s \<Rightarrow> s | _ \<Rightarrow> []) (pget k ''key'')))"
proof (rule managed_environment_keys)
  show "managed_environment (st_environment (plain_settings ''prod''))" by code_simp
  show "\<not> py_bool (configured_id ''security.secrets_manager.api_keys_secret_id'' None (plain_settings ''prod''))" by code_simp
  show "coerce_api_key_entries (settings_get ''api.api_keys'' (PList []) (plain_settings ''prod'')) = []" by code_simp
qed simp

section \<open>Freshness of the cached secrets\<close>

text \<open>A call of \<^verbatim>\<open>get_secret\<close>: the service at that moment, the two readings of the clock, the identifier and the flag.\<close>

record secret_call =
  sc_aws :: "string \<Rightarrow> aws_response res"
  sc_before :: seconds
  sc_after :: seconds
  sc_id :: string
  sc_force :: bool

definition secret_step :: "(string \<Rightarrow> pyval option) \<Rightarrow> secret_call \<Rightarrow> secrets_manager \<Rightarrow> (string, pyval) dict res \<times> secrets_manager" where
  "secret_step json c m = get_secret json (sc_aws c) (sc_before c) (sc_after c) (sc_id c) (sc_force c) m"

text \<open>The calls latest first, and the state after them.\<close>

fun secret_run :: "(string \<Rightarrow> pyval option) \<Rightarrow> secret_call list \<Rightarrow> secrets_manager \<Rightarrow> secrets_manager" where
  "secret_run json [] m = m"
| "secret_run json (c # cs) m = snd (secret_step json c (secret_run json cs m))"

text \<open>What the service delivers to a call: the text or the decoded bytes, parsed.\<close>

definition delivered :: "(string \<Rightarrow> pyval option) \<Rightarrow> secret_call \<Rightarrow> (string, pyval) dict option" where
  "delivered json c =
     (case sc_aws c (sc_id c) of
        Inl ex \<Rightarrow> None
      | Inr resp \<Rightarrow> map_option (parse_secret json) (first_some (aw_string resp) (aw_binary resp)))"

text \<open>Every cached value was delivered to a call for its identifier, at the time it carries.\<close>

definition cache_sound :: "(string \<Rightarrow> pyval option) \<Rightarrow> secret_call list \<Rightarrow> secrets_manager \<Rightarrow> bool" where
  "cache_sound json cs m = (\<forall>i v. dget (xm_cache m) i = Some v \<longrightarrow>
     (\<exists>c \<in> set cs. sc_id c = i \<and> sc_after c = sx_created_at v \<and> delivered json c = Some (sx_value v)))"

lemma fetch_cases:
  obtains (failed) "fetch_secret json (sc_aws c) (sc_after c) (sc_id c) m = (Inl SecretsManagerError, m)"
        | (fetched) v w where "delivered json c = Some v" "xm_client m"
            "fetch_secret json (sc_aws c) (sc_after c) (sc_id c) m = (Inr v,
               m\<lparr>xm_cache := dset (sc_id c) \<lparr>sx_value = v, sx_version_id = w, sx_created_at = sc_after c\<rparr> (xm_cache m)\<rparr>)"
proof (cases "\<exists>resp raw. xm_client m \<and> sc_aws c (sc_id c) = Inr resp \<and> first_some (aw_string resp) (aw_binary resp) = Some raw")
  case True
  then show thesis using fetched by (auto simp: fetch_secret_def delivered_def Let_def)
next
  case False
  then show thesis by (intro failed) (auto simp: fetch_secret_def split: sum.splits option.splits)
qed

lemma secret_step_sound:
  assumes "cache_sound json cs m"
  shows "cache_sound json (c # cs) (snd (secret_step json c m))" and "xm_cache_ttl_seconds (snd (secret_step json c m)) = xm_cache_ttl_seconds m"
proof -
  have k: "cache_sound json (c # cs) m" using assms by (auto simp: cache_sound_def)
  have f: "cache_sound json (c # cs) (snd (fetch_secret json (sc_aws c) (sc_after c) (sc_id c) m))
         \<and> xm_cache_ttl_seconds (snd (fetch_secret json (sc_aws c) (sc_after c) (sc_id c) m)) = xm_cache_ttl_seconds m"
    by (rule fetch_cases [of json c m]) (use k in \<open>auto simp: cache_sound_def dict_simps\<close>)
  show "cache_sound json (c # cs) (snd (secret_step json c m))" "xm_cache_ttl_seconds (snd (secret_step json c m)) = xm_cache_ttl_seconds m"
    using k f by (simp_all add: secret_step_def get_secret_def split: option.splits)
qed

lemma secret_run_sound:
  "xm_cache m = [] \<Longrightarrow> cache_sound json cs (secret_run json cs m) \<and> xm_cache_ttl_seconds (secret_run json cs m) = xm_cache_ttl_seconds m"
proof (induction cs)
  case Nil
  then show ?case by (simp add: cache_sound_def)
next
  case (Cons c cs)
  then show ?case using secret_step_sound [of json cs "secret_run json cs m" c] by simp
qed

text \<open>
  Remark (cached secrets are fresh). After any calls on a new manager, a secret that \<^verbatim>\<open>get_secret\<close> returns is
  one that the service delivered for the same identifier, either to this call or, without a forced refresh, to an earlier
  call less than the time to live ago. When the service fails, an expired value is not served: the call raises and the
  manager is unchanged.
\<close>

theorem secrets_are_fresh:
  assumes "xm_cache m = []" "secret_step json c (secret_run json cs m) = (r, m')"
  shows "case r of
           Inr v \<Rightarrow> delivered json c = Some v
                  \<or> (\<not> sc_force c \<and> (\<exists>d \<in> set cs. sc_id d = sc_id c \<and> delivered json d = Some v
                       \<and> sc_before c - sc_after d < of_int (xm_cache_ttl_seconds m)))
         | Inl ex \<Rightarrow> ex = SecretsManagerError \<and> m' = secret_run json cs m"
proof -
  let ?m = "secret_run json cs m"
  have s: "cache_sound json cs ?m" and t: "xm_cache_ttl_seconds ?m = xm_cache_ttl_seconds m"
    using secret_run_sound [OF assms(1)] by blast+
  have f: "case q of (Inr v, _) \<Rightarrow> delivered json c = Some v | (Inl ex, n) \<Rightarrow> ex = SecretsManagerError \<and> n = ?m"
    if "q = fetch_secret json (sc_aws c) (sc_after c) (sc_id c) ?m" for q
    by (rule fetch_cases [of json c ?m]) (use that in auto)
  show ?thesis
  proof (cases "dget (xm_cache ?m) (sc_id c)")
    case None
    then show ?thesis
      using assms(2) f by (cases "sc_id c = []") (auto simp: secret_step_def get_secret_def split: prod.splits sum.splits)
  next
    case (Some v)
    then obtain d where d: "d \<in> set cs" "sc_id d = sc_id c" "sc_after d = sx_created_at v" "delivered json d = Some (sx_value v)"
      using s unfolding cache_sound_def by blast
    show ?thesis
      using assms(2) f Some d t
      by (cases "sc_id c = []"; cases "\<not> sc_force c \<and> sc_before c - sx_created_at v < of_int (xm_cache_ttl_seconds m)")
         (auto simp: secret_step_def get_secret_def split: prod.splits sum.splits)
  qed
qed

definition demo_call :: "seconds \<Rightarrow> string \<Rightarrow> secret_call" where
  "demo_call t text = \<lparr>sc_aws = (\<lambda>i. Inr \<lparr>aw_string = Some text, aw_binary = None, aw_version = None\<rparr>), sc_before = t, sc_after = t,
     sc_id = ''db'', sc_force = False\<rparr>"

lemma demo_cached:
  "secret_step (\<lambda>s. None) (demo_call 200 ''new'') (secret_run (\<lambda>s. None) [demo_call 0 ''old''] demo_manager)
   = (Inr [(''value'', PStr ''old'')], secret_run (\<lambda>s. None) [demo_call 0 ''old''] demo_manager)"
  by (simp add: secret_step_def get_secret_def fetch_secret_def demo_call_def demo_manager_def first_some_def parse_secret_def Let_def)

theorem secrets_are_fresh_witness:
  "delivered (\<lambda>s. None) (demo_call 200 ''new'') = Some [(''value'', PStr ''old'')]
   \<or> (\<exists>d \<in> set [demo_call 0 ''old'']. delivered (\<lambda>s. None) d = Some [(''value'', PStr ''old'')] \<and> 200 - sc_after d < 300)"
  using secrets_are_fresh [OF _ demo_cached] by (simp add: demo_call_def demo_manager_def)

section \<open>Database URL\<close>

text \<open>The reading of a quoted part and of a URL, as a database driver does it.\<close>

definition hex_value :: "char \<Rightarrow> nat" where
  "hex_value c = (let n = of_char c in if n \<le> 57 then n - 48 else n - 55)"

fun unquote_plus :: "string \<Rightarrow> string" where
  "unquote_plus [] = []"
| "unquote_plus (c # cs) =
     (if c = CHR ''+'' then CHR '' '' # unquote_plus cs
      else if c = CHR ''%'' then (case cs of a # b # r \<Rightarrow> char_of (16 * hex_value a + hex_value b) # unquote_plus r | _ \<Rightarrow> c # unquote_plus cs)
      else c # unquote_plus cs)"

lemma hex_digit_value:
  assumes "n < 16"
  shows "hex_value (hex_digit n) = n \<and> unreserved (hex_digit n)"
proof -
  have "(of_char (hex_digit n) :: nat) = (if n < 10 then 48 + n else 55 + n)"
    using assms by (simp add: hex_digit_def)
  then show ?thesis using assms unfolding hex_value_def unreserved_def Let_def by simp
qed

lemma reserved_chars: "\<not> unreserved (CHR ''+'')" "\<not> unreserved (CHR ''%'')" "\<not> unreserved (CHR '':'')" "\<not> unreserved (CHR ''@'')" "\<not> unreserved (CHR ''/'')"
  by (simp_all add: unreserved_def)

lemma high_nibble: "(of_char c :: nat) div 16 < 16"
  using nat_of_char_less_256 [of c] by (simp add: less_mult_imp_div_less del: nat_of_char_less_256)

lemma quoted_chars: "x \<in> set (quote_plus s) \<Longrightarrow> unreserved x \<or> x = CHR ''%'' \<or> x = CHR ''+''"
  using hex_digit_value high_nibble by (auto simp: quote_plus_def quote_char_def Let_def split: if_splits)

lemma quote_safe: "CHR '':'' \<notin> set (quote_plus s)" "CHR ''@'' \<notin> set (quote_plus s)" "CHR ''/'' \<notin> set (quote_plus s)"
  using quoted_chars [of _ s] reserved_chars by fastforce+

lemma unquote_char: "unquote_plus (quote_char c @ r) = c # unquote_plus r"
proof (cases "unreserved c \<or> c = CHR '' ''")
  case True
  then show ?thesis using reserved_chars by (auto simp: quote_char_def)
next
  case False
  let ?n = "of_char c :: nat"
  have "char_of (16 * hex_value (hex_digit (?n div 16)) + hex_value (hex_digit (?n mod 16))) = c"
    by (simp add: hex_digit_value high_nibble)
  then show ?thesis using False by (simp add: quote_char_def Let_def)
qed

lemma unquote_quote: "unquote_plus (quote_plus s) = s"
  unfolding quote_plus_def by (induction s) (simp_all add: unquote_char)

definition upto :: "char \<Rightarrow> string \<Rightarrow> string" where
  "upto c s = takeWhile (\<lambda>x. x \<noteq> c) s"

definition behind :: "char \<Rightarrow> string \<Rightarrow> string" where
  "behind c s = tl (dropWhile (\<lambda>x. x \<noteq> c) s)"

lemma upto_behind: "c \<notin> set xs \<Longrightarrow> upto c (xs @ c # ys) = xs \<and> behind c (xs @ c # ys) = ys"
  by (induction xs) (auto simp: upto_def behind_def)

definition parse_dsn :: "string \<Rightarrow> string \<times> string \<times> string \<times> string \<times> string" where
  "parse_dsn url =
     (let r1 = behind CHR ''/'' (behind CHR ''/'' url); r2 = behind CHR '':'' r1; r3 = behind CHR ''@'' r2; r4 = behind CHR '':'' r3
      in (unquote_plus (upto CHR '':'' r1), unquote_plus (upto CHR ''@'' r2), unquote_plus (upto CHR '':'' r3),
          unquote_plus (upto CHR ''/'' r4), unquote_plus (behind CHR ''/'' r4)))"

text \<open>
  Remark (credentials survive the URL). Reading a database URL gives back the user, the password, the host, the port
  and the database name, whatever characters they hold: no credential can end a part of the URL early.
\<close>

theorem database_url_roundtrip:
  assumes "CHR ''/'' \<notin> set driver"
  shows "parse_dsn (format_database_url show_val driver c) =
     (show_val (dget_or c ''username'' (PStr ''riskpulse'')), show_val (dget_or c ''password'' (PStr [])),
      show_val (dget_or c ''host'' (PStr ''localhost'')), show_val (dget_or c ''port'' (PStr ''5432'')),
      show_val (dget_or c ''database'' (PStr ''riskpulse'')))"
proof -
  have e: "format_database_url show_val driver c =
      (''postgresql+'' @ driver @ '':'') @ CHR ''/'' # [] @ CHR ''/'' # quote_plus (show_val (dget_or c ''username'' (PStr ''riskpulse'')))
      @ CHR '':'' # quote_plus (show_val (dget_or c ''password'' (PStr []))) @ CHR ''@'' # quote_plus (show_val (dget_or c ''host'' (PStr ''localhost'')))
      @ CHR '':'' # quote_plus (show_val (dget_or c ''port'' (PStr ''5432''))) @ CHR ''/'' # quote_plus (show_val (dget_or c ''database'' (PStr ''riskpulse'')))"
    by (simp add: format_database_url_def Let_def)
  have d: "CHR ''/'' \<notin> set (''postgresql+'' @ driver @ '':'')" "CHR ''/'' \<notin> set []" using assms by simp_all
  note u = upto_behind [THEN conjunct1] and b = upto_behind [THEN conjunct2]
  show ?thesis unfolding e parse_dsn_def Let_def b [OF d(1)] b [OF d(2)]
    by (simp only: u [OF quote_safe(1)] u [OF quote_safe(2)] u [OF quote_safe(3)] b [OF quote_safe(1)] b [OF quote_safe(2)] b [OF quote_safe(3)] unquote_quote)
qed

theorem database_url_roundtrip_witness:
  "parse_dsn (format_database_url (\<lambda>v. case v of PStr s \<Rightarrow> s | _ \<Rightarrow> []) ''asyncpg'' [(''password'', PStr ''p@ss:w/rd 1'')])
   = (''riskpulse'', ''p@ss:w/rd 1'', ''localhost'', ''5432'', ''riskpulse'')"
  using database_url_roundtrip [of "''asyncpg''" "\<lambda>v. case v of PStr s \<Rightarrow> s | _ \<Rightarrow> []" "[(''password'', PStr ''p@ss:w/rd 1'')]"]
  by (simp add: dget_or_def)

end
