(* ===== verification/Rate_Limiter.thy ===== *)
theory Rate_Limiter
  imports Py_Text
begin

text \<open>
  The request limiters of \<^verbatim>\<open>src/api/middleware/rate_limiter.py\<close>: the token bucket, the in-memory limiter, the
  limiter on a Redis sorted set, and the middleware that chooses the key and the rate and answers
  429. Redis is an argument: a record of the sorted-set commands the code sends, on an abstract
  store, with the documented effect of the commands as a hypothesis of the theorems. The endpoint
  behind the middleware is a value, since the middleware only passes its response on.
\<close>

section \<open>Token bucket\<close>

record token_bucket =
  tb_capacity :: real
  tb_refill_rate :: real
  tb_tokens :: real
  tb_last_refill :: seconds

definition new_bucket :: "seconds \<Rightarrow> real \<Rightarrow> real \<Rightarrow> token_bucket" where
  "new_bucket now cap rate = \<lparr>tb_capacity = cap, tb_refill_rate = rate, tb_tokens = cap, tb_last_refill = now\<rparr>"

definition refilled :: "seconds \<Rightarrow> token_bucket \<Rightarrow> real" where
  "refilled now b = min (tb_capacity b) (tb_tokens b + (now - tb_last_refill b) * tb_refill_rate b)"

definition bucket_consume :: "seconds \<Rightarrow> real \<Rightarrow> token_bucket \<Rightarrow> bool \<times> token_bucket" where
  "bucket_consume now n b =
     (let tokens = refilled now b; b1 = b\<lparr>tb_tokens := tokens, tb_last_refill := now\<rparr>
      in if n \<le> tokens then (True, b1\<lparr>tb_tokens := tokens - n\<rparr>) else (False, b1))"

definition bucket_remaining :: "seconds \<Rightarrow> token_bucket \<Rightarrow> int" where
  "bucket_remaining now b = trunc_int (refilled now b)"

section \<open>In-memory limiter\<close>

record mem_limiter =
  ml_default_rate :: int
  ml_burst_size :: int
  ml_buckets :: "(string, token_bucket) dict"

definition new_mem_limiter :: "int \<Rightarrow> int \<Rightarrow> mem_limiter" where
  "new_mem_limiter rate burst = \<lparr>ml_default_rate = rate, ml_burst_size = burst, ml_buckets = []\<rparr>"

text \<open>\<^verbatim>\<open>custom_rate or self._default_rate\<close>: zero counts as no custom rate.\<close>

definition rate_or :: "int option \<Rightarrow> int \<Rightarrow> int" where
  "rate_or custom dflt = (case custom of None \<Rightarrow> dflt | Some r \<Rightarrow> if r = 0 then dflt else r)"

definition get_bucket :: "seconds \<Rightarrow> string \<Rightarrow> int option \<Rightarrow> mem_limiter \<Rightarrow> token_bucket \<times> mem_limiter" where
  "get_bucket now key custom l =
     (case dget (ml_buckets l) key of
        Some b \<Rightarrow> (b, l)
      | None \<Rightarrow>
          (let rate = rate_or custom (ml_default_rate l);
               b = new_bucket now (of_int (ml_burst_size l + rate)) (of_int rate / 60)
           in (b, l\<lparr>ml_buckets := dset key b (ml_buckets l)\<rparr>)))"

text \<open>
  \<^verbatim>\<open>is_allowed\<close>; the three times are the clock readings of the constructor, of \<^verbatim>\<open>consume\<close> and of
  \<^verbatim>\<open>remaining\<close>. The wait is computed only for a refused request and raises when the rate is zero.
\<close>

definition retry_after :: "token_bucket \<Rightarrow> int res" where
  "retry_after b =
     (if tb_refill_rate b = 0 then Inl ZeroDivisionError else Inr (trunc_int (1 / tb_refill_rate b) + 1))"

definition mem_is_allowed ::
  "seconds \<Rightarrow> seconds \<Rightarrow> seconds \<Rightarrow> string \<Rightarrow> int option \<Rightarrow> mem_limiter \<Rightarrow> (bool \<times> int \<times> int) res \<times> mem_limiter" where
  "mem_is_allowed t0 t1 t2 key custom l =
     (let (b, l1) = get_bucket t0 key custom l;
          (allowed, b1) = bucket_consume t1 1 b;
          l2 = l1\<lparr>ml_buckets := dset key b1 (ml_buckets l1)\<rparr>;
          remaining = bucket_remaining t2 b1
      in if allowed then (Inr (True, remaining, 0), l2)
         else (res_bind (retry_after b1) (\<lambda>w. Inr (False, remaining, w)), l2))"

definition mem_reset :: "string \<Rightarrow> mem_limiter \<Rightarrow> mem_limiter" where
  "mem_reset key l = l\<lparr>ml_buckets := ddel key (ml_buckets l)\<rparr>"

definition mem_clear :: "mem_limiter \<Rightarrow> mem_limiter" where
  "mem_clear l = l\<lparr>ml_buckets := []\<rparr>"

section \<open>Limiter on a sorted set\<close>

text \<open>
  The commands: \<^verbatim>\<open>zremrangebyscore\<close>, \<^verbatim>\<open>zcard\<close>, \<^verbatim>\<open>zadd\<close>, \<^verbatim>\<open>expire\<close>, the score of \<^verbatim>\<open>zrange 0 0\<close>, and \<^verbatim>\<open>zrem\<close>.
\<close>

record 'r redis_ops =
  z_remrangebyscore :: "string \<Rightarrow> real \<Rightarrow> real \<Rightarrow> 'r \<Rightarrow> 'r"
  z_card :: "string \<Rightarrow> 'r \<Rightarrow> nat"
  z_add :: "string \<Rightarrow> string \<Rightarrow> real \<Rightarrow> 'r \<Rightarrow> 'r"
  z_expire :: "string \<Rightarrow> int \<Rightarrow> 'r \<Rightarrow> 'r"
  z_first :: "string \<Rightarrow> 'r \<Rightarrow> real option"
  z_rem :: "string \<Rightarrow> string \<Rightarrow> 'r \<Rightarrow> 'r"

record redis_limiter =
  rl_default_rate :: int
  rl_window_seconds :: int
  rl_fail_open :: bool

text \<open>
  How Redis answers: it may fail in the pipeline or in the later \<^verbatim>\<open>zrem\<close>, with or without having carried
  the commands out; both exceptions reach the same handler.
\<close>

datatype redis_link = Answers | Pipe_fails bool | Rem_fails bool

definition redis_key :: "string \<Rightarrow> string" where
  "redis_key key = ''ratelimit:'' @ key"

definition redis_is_allowed ::
  "'r redis_ops \<Rightarrow> redis_limiter \<Rightarrow> redis_link \<Rightarrow> string \<Rightarrow> seconds \<Rightarrow> string \<Rightarrow> int option \<Rightarrow> 'r \<Rightarrow> (bool \<times> int \<times> int) \<times> 'r" where
  "redis_is_allowed ops l link member now key custom s =
     (let rate_limit = rate_or custom (rl_default_rate l);
          window_start = now - of_int (rl_window_seconds l);
          rkey = redis_key key;
          on_error = (if rl_fail_open l then (True, rate_limit, 0) else (False, 0, rl_window_seconds l));
          s1 = z_remrangebyscore ops rkey 0 window_start s;
          current_count = z_card ops rkey s1;
          s2 = z_expire ops rkey (rl_window_seconds l + 1) (z_add ops rkey member now s1);
          oldest = (case z_first ops rkey s2 of None \<Rightarrow> now | Some x \<Rightarrow> x);
          s3 = z_rem ops rkey member s2;
          refused = (False, 0, max 1 \<lceil>oldest + of_int (rl_window_seconds l) - now\<rceil>)
      in case link of
           Pipe_fails applied \<Rightarrow> (on_error, if applied then s2 else s)
         | Rem_fails applied \<Rightarrow>
             if rate_limit \<le> int current_count then (on_error, if applied then s3 else s2)
             else ((True, max 0 (rate_limit - int current_count - 1), 0), s2)
         | Answers \<Rightarrow>
             if rate_limit \<le> int current_count then (refused, s3)
             else ((True, max 0 (rate_limit - int current_count - 1), 0), s2))"

section \<open>Middleware\<close>

record request =
  rq_path :: string
  rq_state_name :: "string option"
  rq_state_rate :: "pyval option"
  rq_api_key :: "string option"
  rq_authorization :: "string option"
  rq_client_host :: "string option"

definition exempt_paths :: "string list" where
  "exempt_paths = [''/health'', ''/health/ready'', ''/health/live'', ''/docs'', ''/openapi.json'', ''/redoc'']"

definition get_rate_limit_key :: "(string \<Rightarrow> string) \<Rightarrow> request \<Rightarrow> string" where
  "get_rate_limit_key sha256 rq =
     (case rq_state_name rq of
        Some n \<Rightarrow> ''apikey:'' @ n
      | None \<Rightarrow>
          if truthy (rq_api_key rq) then ''apikey_hash:'' @ take 24 (sha256 (the (rq_api_key rq)))
          else if truthy (rq_authorization rq) then ''authorization_hash:'' @ take 24 (sha256 (the (rq_authorization rq)))
          else ''ip:'' @ (case rq_client_host rq of None \<Rightarrow> ''unknown'' | Some h \<Rightarrow> h))"

text \<open>
  The configured rate of the request state or of a valid key, read with \<^verbatim>\<open>int\<close>; \<open>rate_of\<close> is \<^verbatim>\<open>validate_key\<close>
  followed by the look-up of \<^verbatim>\<open>rate_limit\<close>.
\<close>

definition int_or_none :: "pyval \<Rightarrow> int option res" where
  "int_or_none v = (if v = PNone then Inr None else res_bind (to_int v) (\<lambda>i. Inr (Some i)))"

definition get_custom_rate :: "(string \<Rightarrow> pyval) \<Rightarrow> request \<Rightarrow> int option res" where
  "get_custom_rate rate_of rq =
     (case rq_state_rate rq of
        Some limit \<Rightarrow> int_or_none limit
      | None \<Rightarrow> if truthy (rq_api_key rq) then int_or_none (rate_of (the (rq_api_key rq))) else Inr None)"

datatype limiter = InMemory mem_limiter | InRedis redis_limiter

text \<open>
  The constructor: a managed environment always gets a Redis limiter, and one that refuses when Redis
  fails.
\<close>

definition new_limiter :: "string \<Rightarrow> bool \<Rightarrow> int \<Rightarrow> int \<Rightarrow> limiter" where
  "new_limiter env has_client rate_limit burst_size =
     (if has_client \<or> managed_environment env
      then InRedis \<lparr>rl_default_rate = rate_limit, rl_window_seconds = 60, rl_fail_open = \<not> managed_environment env\<rparr>
      else InMemory (new_mem_limiter rate_limit burst_size))"

text \<open>
  What the environment supplies to one call: the answer of Redis, the fresh identifier, and the
  readings of the clocks (only the first one for the Redis limiter).
\<close>

record call_env =
  ce_link :: redis_link
  ce_member :: string
  ce_t0 :: seconds
  ce_t1 :: seconds
  ce_t2 :: seconds

definition check_limit ::
  "'r redis_ops \<Rightarrow> call_env \<Rightarrow> string \<Rightarrow> int option \<Rightarrow> limiter \<times> 'r \<Rightarrow> (bool \<times> int \<times> int) res \<times> limiter \<times> 'r" where
  "check_limit ops env key custom st =
     (case fst st of
        InRedis l \<Rightarrow>
          (let (r, s) = redis_is_allowed ops l (ce_link env) (ce_member env) (ce_t0 env) key custom (snd st)
           in (Inr r, InRedis l, s))
      | InMemory m \<Rightarrow>
          (let (r, m1) = mem_is_allowed (ce_t0 env) (ce_t1 env) (ce_t2 env) key custom m
           in (r, InMemory m1, snd st)))"

text \<open>The 429 response carries the limit and the wait; a passed response gets the limit and what remains.\<close>

datatype 'p http_response = TooMany int int | Passed 'p "(int \<times> int) option"

definition dispatch ::
  "(string \<Rightarrow> string) \<Rightarrow> (string \<Rightarrow> pyval) \<Rightarrow> 'r redis_ops \<Rightarrow> int \<Rightarrow> call_env \<Rightarrow> request \<Rightarrow> 'p \<Rightarrow> limiter \<times> 'r
   \<Rightarrow> 'p http_response res \<times> limiter \<times> 'r" where
  "dispatch sha256 rate_of ops rate_limit env rq response st =
     (if rq_path rq \<in> set exempt_paths then (Inr (Passed response None), st)
      else (case get_custom_rate rate_of rq of
              Inl ex \<Rightarrow> (Inl ex, st)
            | Inr custom \<Rightarrow>
                (let (r, st1) = check_limit ops env (get_rate_limit_key sha256 rq) custom st
                 in (case r of
                       Inl ex \<Rightarrow> Inl ex
                     | Inr (allowed, remaining, wait) \<Rightarrow>
                         Inr (if allowed then Passed response (Some (rate_or custom rate_limit, remaining))
                              else TooMany (rate_or custom rate_limit) wait), st1))))"

section \<open>Bounds of the token bucket\<close>

definition bucket_ok :: "token_bucket \<Rightarrow> bool" where
  "bucket_ok b = (0 \<le> tb_tokens b \<and> tb_tokens b \<le> tb_capacity b \<and> 0 \<le> tb_refill_rate b)"

lemma refilled_bounds:
  "bucket_ok b \<Longrightarrow> tb_last_refill b \<le> now \<Longrightarrow> 0 \<le> refilled now b \<and> refilled now b \<le> tb_capacity b"
  by (simp add: bucket_ok_def refilled_def)

lemma consume_frame:
  "tb_capacity (snd (bucket_consume now n b)) = tb_capacity b" "tb_refill_rate (snd (bucket_consume now n b)) = tb_refill_rate b"
  "tb_last_refill (snd (bucket_consume now n b)) = now"
  by (simp_all add: bucket_consume_def Let_def)

lemma consume_ok: "bucket_ok b \<Longrightarrow> tb_last_refill b \<le> now \<Longrightarrow> 0 \<le> n \<Longrightarrow> bucket_ok (snd (bucket_consume now n b))"
  using refilled_bounds [of b now] by (auto simp: bucket_consume_def Let_def bucket_ok_def)

text \<open>What the bucket can still give until \<open>T\<close> when it is not refilled beyond its capacity.\<close>

definition bucket_level :: "seconds \<Rightarrow> token_bucket \<Rightarrow> real" where
  "bucket_level T b = tb_tokens b + tb_refill_rate b * (T - tb_last_refill b)"

lemma consume_bucket_level:
  assumes "bucket_ok b"
  shows "bucket_level T (snd (bucket_consume now 1 b)) + (if fst (bucket_consume now 1 b) then 1 else 0) \<le> bucket_level T b"
    and "bucket_level T (snd (bucket_consume now 1 b)) + (if fst (bucket_consume now 1 b) then 1 else 0)
           \<le> tb_capacity b + tb_refill_rate b * (T - now)"
  by (auto simp: bucket_consume_def Let_def bucket_level_def refilled_def algebra_simps)

end
