(* ===== verification/Rate_Limiter_Properties.thy ===== *)
theory Rate_Limiter_Properties
  imports Rate_Limiter
begin

text \<open>
  What the limiters guarantee: the number of requests of one key that pass in any window, for the
  token buckets and for the sorted-set limiter (which fulfils the window contract of the prelude),
  and that the wait announced with a refusal is long enough.
\<close>

section \<open>Runs of the in-memory limiter\<close>

text \<open>A request: its key, its custom rate, and the readings before and after the one of \<^verbatim>\<open>consume\<close>.\<close>

type_synonym mem_request = "string \<times> int option \<times> seconds \<times> seconds"

definition mem_step :: "mem_limiter \<Rightarrow> seconds \<Rightarrow> mem_request \<Rightarrow> bool \<times> mem_limiter" where
  "mem_step l t r =
     (case r of (key, custom, t0, t2) \<Rightarrow>
        (case mem_is_allowed t0 t t2 key custom l of
           (Inl ex, l') \<Rightarrow> (False, l')
         | (Inr (allowed, _), l') \<Rightarrow> (allowed, l')))"

definition mem_key :: "mem_request \<Rightarrow> string option" where
  "mem_key r = Some (fst r)"

text \<open>The bucket that serves a key.\<close>

definition bucket_for :: "mem_request \<Rightarrow> mem_limiter \<Rightarrow> token_bucket" where
  "bucket_for r l = fst (get_bucket (fst (snd (snd r))) (fst r) (fst (snd r)) l)"

lemma mem_is_allowed_state:
  "snd (mem_is_allowed t0 t1 t2 k c l) =
     (snd (get_bucket t0 k c l))\<lparr>ml_buckets :=
        dset k (snd (bucket_consume t1 1 (fst (get_bucket t0 k c l)))) (ml_buckets (snd (get_bucket t0 k c l)))\<rparr>"
  by (simp add: mem_is_allowed_def case_prod_beta Let_def)

lemma mem_is_allowed_result:
  "fst (mem_is_allowed t0 t1 t2 k c l) =
     (let (ok, b) = bucket_consume t1 1 (fst (get_bucket t0 k c l))
      in if ok then Inr (True, bucket_remaining t2 b, 0) else res_bind (retry_after b) (\<lambda>w. Inr (False, bucket_remaining t2 b, w)))"
  by (simp add: mem_is_allowed_def case_prod_beta Let_def)

lemma mem_step_split:
  "mem_step l t (k, c, t0, t2) =
     (fst (bucket_consume t 1 (fst (get_bucket t0 k c l))), snd (mem_is_allowed t0 t t2 k c l))"
  using mem_is_allowed_result [of t0 t t2 k c l]
  by (cases "mem_is_allowed t0 t t2 k c l"; cases "retry_after (snd (bucket_consume t 1 (fst (get_bucket t0 k c l))))")
    (simp_all add: mem_step_def Let_def case_prod_beta split: if_splits)

lemma get_bucket_frame:
  "ml_default_rate (snd (get_bucket t k c l)) = ml_default_rate l" "ml_burst_size (snd (get_bucket t k c l)) = ml_burst_size l"
  "j \<noteq> k \<Longrightarrow> dget (ml_buckets (snd (get_bucket t k c l))) j = dget (ml_buckets l) j"
  by (simp_all add: get_bucket_def Let_def dict_simps split: option.split)

lemma mem_step_eq:
  "fst (mem_step l t r) = fst (bucket_consume t 1 (bucket_for r l))"
  "dget (ml_buckets (snd (mem_step l t r))) k =
     (if k = fst r then Some (snd (bucket_consume t 1 (bucket_for r l))) else dget (ml_buckets l) k)"
  "ml_default_rate (snd (mem_step l t r)) = ml_default_rate l" "ml_burst_size (snd (mem_step l t r)) = ml_burst_size l"
  by (cases r; simp add: mem_step_split bucket_for_def mem_is_allowed_state dict_simps get_bucket_frame)+

text \<open>The bucket of key \<open>k\<close> has rate \<open>r\<close> and was last used at or before \<open>S\<close>.\<close>

definition key_ok :: "string \<Rightarrow> int \<Rightarrow> seconds \<Rightarrow> mem_limiter \<Rightarrow> bool" where
  "key_ok k r S l = (\<forall>b. dget (ml_buckets l) k = Some b \<longrightarrow>
     bucket_ok b \<and> tb_capacity b = of_int (ml_burst_size l + r) \<and> tb_refill_rate b = of_int r / 60 \<and> tb_last_refill b \<le> S)"

text \<open>The requests of a run: in order of time, and those of \<open>k\<close> with the rate \<open>r\<close>.\<close>

definition reqs_ok :: "string \<Rightarrow> int \<Rightarrow> int \<Rightarrow> (seconds \<times> mem_request) list \<Rightarrow> bool" where
  "reqs_ok k r dflt es = (sorted (map fst es)
     \<and> (\<forall>(t, key, custom, t0, t2) \<in> set es. key = k \<longrightarrow> rate_or custom dflt = r \<and> t0 \<le> t))"

lemma bucket_for_ok:
  assumes "key_ok k r S l" "fst q = k" "rate_or (fst (snd q)) (ml_default_rate l) = r" "fst (snd (snd q)) \<le> t" "S \<le> t"
    and "0 \<le> r" "0 \<le> ml_burst_size l"
  shows "bucket_ok (bucket_for q l)" "tb_capacity (bucket_for q l) = of_int (ml_burst_size l + r)"
    "tb_refill_rate (bucket_for q l) = of_int r / 60" "tb_last_refill (bucket_for q l) \<le> t"
  using assms
  by (auto simp: key_ok_def bucket_for_def get_bucket_def new_bucket_def bucket_ok_def Let_def split: option.splits)

lemma key_ok_step:
  assumes "key_ok k r S l" "fst q = k \<Longrightarrow> rate_or (fst (snd q)) (ml_default_rate l) = r \<and> fst (snd (snd q)) \<le> t" "S \<le> t"
    and "0 \<le> r" "0 \<le> ml_burst_size l"
  shows "key_ok k r t (snd (mem_step l t q))"
proof (cases "fst q = k")
  case True
  note b = bucket_for_ok [OF assms(1) True _ _ assms(3-5)]
  show ?thesis
    using b assms(2) True consume_ok [of "bucket_for q l" t 1]
    by (simp add: key_ok_def mem_step_eq consume_frame)
next
  case False
  then show ?thesis using assms(1,3) by (auto simp: key_ok_def mem_step_eq)
qed

definition served :: "string \<Rightarrow> (seconds \<times> mem_request) list \<Rightarrow> nat" where
  "served k es = length (filter (\<lambda>(t, q). fst q = k) es)"

lemma served_run_Cons:
  "served k (run_accepted mem_step l ((t, q) # es)) =
     (if fst (mem_step l t q) \<and> fst q = k then 1 else 0) + served k (run_accepted mem_step (snd (mem_step l t q)) es)"
  by (auto simp: served_def Let_def case_prod_beta)

lemma reqs_ok_Cons:
  assumes "reqs_ok k r d ((t, q) # es)"
  shows "reqs_ok k r d es" "fst q = k \<Longrightarrow> rate_or (fst (snd q)) d = r \<and> fst (snd (snd q)) \<le> t" "\<forall>e \<in> set es. t \<le> fst e"
  using assms by (auto simp: reqs_ok_def split_beta)

text \<open>From an existing bucket, no more is served until \<open>T\<close> than its level.\<close>

lemma served_level:
  assumes "key_ok k r S l" "dget (ml_buckets l) k = Some b" "reqs_ok k r (ml_default_rate l) es"
    and "\<forall>e \<in> set es. S \<le> fst e \<and> fst e \<le> T" "S \<le> T" "0 \<le> r" "0 \<le> ml_burst_size l"
  shows "real (served k (run_accepted mem_step l es)) \<le> bucket_level T b"
  using assms
proof (induction es arbitrary: l S b)
  case Nil
  then have "bucket_ok b" "tb_last_refill b \<le> T" by (auto simp: key_ok_def)
  then show ?case by (simp add: served_def bucket_level_def bucket_ok_def)
next
  case (Cons e es)
  obtain t q where e: "e = (t, q)" by (cases e)
  note rq = reqs_ok_Cons [OF Cons.prems(3) [unfolded e]]
  let ?l = "snd (mem_step l t q)"
  have t: "S \<le> t" "t \<le> T" using Cons.prems(4) e by auto
  have ok: "key_ok k r t ?l" by (rule key_ok_step [OF Cons.prems(1) rq(2) t(1) Cons.prems(6,7)])
  have b: "bucket_for q l = b" if "fst q = k" using that Cons.prems(2) by (simp add: bucket_for_def get_bucket_def)
  obtain b' where b': "dget (ml_buckets ?l) k = Some b'" "b' = (if fst q = k then snd (bucket_consume t 1 b) else b)"
    using b Cons.prems(2) by (simp add: mem_step_eq)
  have "real (served k (run_accepted mem_step ?l es)) \<le> bucket_level T b'"
    using Cons.prems(4,6,7) e t(2) rq(1,3) by (intro Cons.IH [OF ok b'(1)]) (auto simp: mem_step_eq)
  moreover have "bucket_ok b" using Cons.prems(1,2) by (simp add: key_ok_def)
  ultimately show ?case
    using consume_bucket_level(1) [of b T t] b b'(2) unfolding e served_run_Cons by (auto simp: mem_step_eq(1) split: if_splits)
qed

text \<open>From any state, no more is served in a window than the capacity and what flows in meanwhile.\<close>

lemma served_window:
  assumes "key_ok k r S l" "reqs_ok k r (ml_default_rate l) es" "\<forall>e \<in> set es. S \<le> fst e \<and> fst e \<le> T" "S \<le> T"
    and "0 \<le> r" "0 \<le> ml_burst_size l"
  shows "real (served k (run_accepted mem_step l es)) \<le> of_int (ml_burst_size l + r) + of_int r / 60 * (T - S)"
  using assms
proof (induction es arbitrary: l)
  case Nil
  then show ?case by (simp add: served_def)
next
  case (Cons e es)
  obtain t q where e: "e = (t, q)" by (cases e)
  note rq = reqs_ok_Cons [OF Cons.prems(2) [unfolded e]]
  let ?l = "snd (mem_step l t q)"
  have t: "S \<le> t" "t \<le> T" using Cons.prems(3) e by auto
  have ok: "key_ok k r t ?l" by (rule key_ok_step [OF Cons.prems(1) rq(2) t(1) Cons.prems(5,6)])
  show ?case
  proof (cases "fst q = k")
    case False
    have "key_ok k r S ?l" using Cons.prems(1) False by (simp add: key_ok_def mem_step_eq)
    from Cons.IH [OF this] Cons.prems rq(1) False e show ?thesis unfolding e served_run_Cons by (simp add: mem_step_eq(3,4))
  next
    case True
    let ?b = "bucket_for q l"
    note b = bucket_for_ok [OF Cons.prems(1) True rq(2) [OF True, THEN conjunct1] rq(2) [OF True, THEN conjunct2] t(1) Cons.prems(5,6)]
    have "real (served k (run_accepted mem_step ?l es)) \<le> bucket_level T (snd (bucket_consume t 1 ?b))"
      using Cons.prems(3,5,6) e t(2) rq(1,3) True
      by (intro served_level [OF ok]) (auto simp: mem_step_eq)
    moreover have "of_int r / 60 * (T - t) \<le> of_int r / 60 * (T - S)" using t(1) Cons.prems(5) by (intro mult_left_mono) auto
    ultimately show ?thesis
      using consume_bucket_level(2) [OF b(1), of T t] True unfolding e served_run_Cons b(2,3) by (auto simp: mem_step_eq(1) split: if_splits)
  qed
qed

lemma sorted_split:
  "sorted (map fst es) \<Longrightarrow> es = filter (\<lambda>e. fst e \<le> x) es @ filter (\<lambda>e. \<not> fst e \<le> x) es"
proof (induction es)
  case (Cons e es)
  show ?case
  proof (cases "fst e \<le> x")
    case False
    then have "filter (\<lambda>e. fst e \<le> x) es = []" "filter (\<lambda>e. \<not> fst e \<le> x) es = es"
      using Cons.prems by (auto simp: filter_empty_conv filter_id_conv)
    with False show ?thesis by simp
  qed (use Cons in simp)
qed simp

lemma run_accepted_append: "run_accepted step s (xs @ ys) = run_accepted step s xs @ run_accepted step (run_state step s xs) ys"
  by (induction xs arbitrary: s) (auto simp: Let_def case_prod_beta split: prod.splits)

lemma reqs_ok_filter: "reqs_ok k r d es \<Longrightarrow> reqs_ok k r d (filter P es)"
  by (auto simp: reqs_ok_def sorted_filter)

lemma run_state_ok:
  assumes "key_ok k r S l" "reqs_ok k r (ml_default_rate l) es" "\<forall>e \<in> set es. S \<le> fst e \<and> fst e \<le> T" "S \<le> T" "0 \<le> r" "0 \<le> ml_burst_size l"
  shows "key_ok k r T (run_state mem_step l es) \<and> ml_default_rate (run_state mem_step l es) = ml_default_rate l
    \<and> ml_burst_size (run_state mem_step l es) = ml_burst_size l"
  using assms
proof (induction es arbitrary: l S)
  case Nil
  then show ?case by (auto simp: key_ok_def)
next
  case (Cons e es)
  obtain t q where e: "e = (t, q)" by (cases e)
  note rq = reqs_ok_Cons [OF Cons.prems(2) [unfolded e]]
  have t: "S \<le> t" "t \<le> T" using Cons.prems(3) e by auto
  have "key_ok k r t (snd (mem_step l t q))" by (rule key_ok_step [OF Cons.prems(1) rq(2) t(1) Cons.prems(5,6)])
  from Cons.IH [OF this] show ?case using Cons.prems e t(2) rq by (simp add: mem_step_eq(3,4))
qed

text \<open>
  Remark (token buckets bound every window): whatever the requests, the number of requests of one key that
  a new in-memory limiter lets through in a window of \<open>w\<close> seconds is at most the capacity of its
  bucket, which is the burst size plus the rate per minute, plus the rate times the window.
\<close>

theorem token_bucket_window:
  assumes "reqs_ok k r dflt es" "0 \<le> r" "0 \<le> burst" "0 \<le> w"
  shows "real (length (in_window mem_key k w T (run_accepted mem_step (new_mem_limiter dflt burst) es)))
    \<le> of_int (burst + r) + of_int r / 60 * w"
proof -
  let ?l = "new_mem_limiter dflt burst" and ?A = "T - w"
  define pre where "pre = filter (\<lambda>e. fst e \<le> ?A) es"
  define mid where "mid = filter (\<lambda>e. fst e \<le> T) (filter (\<lambda>e. \<not> fst e \<le> ?A) es)"
  define post where "post = filter (\<lambda>e. \<not> fst e \<le> T) (filter (\<lambda>e. \<not> fst e \<le> ?A) es)"
  have srt: "sorted (map fst es)" using assms(1) by (simp add: reqs_ok_def)
  have es: "es = pre @ mid @ post"
    using sorted_split [OF srt, of ?A] sorted_split [OF sorted_filter [OF srt], of "\<lambda>e. \<not> fst e \<le> ?A" T]
    by (simp add: pre_def mid_def post_def)
  let ?l1 = "run_state mem_step ?l pre"
  have l: "ml_default_rate ?l = dflt" "ml_burst_size ?l = burst" "key_ok k r S ?l" for S by (simp_all add: new_mem_limiter_def key_ok_def)
  have pre_times: "\<forall>e \<in> set pre. Min (insert ?A (fst ` set pre)) \<le> fst e \<and> fst e \<le> ?A" "Min (insert ?A (fst ` set pre)) \<le> ?A"
    by (simp_all add: pre_def)
  have l1: "key_ok k r ?A ?l1" "ml_default_rate ?l1 = dflt" "ml_burst_size ?l1 = burst"
    using run_state_ok [OF l(3) _ pre_times] assms(2,3) reqs_ok_filter [OF assms(1)] l by (simp_all add: pre_def)
  have inside: "?A < fst e \<and> fst e \<le> T" if "e \<in> set (run_accepted mem_step ?l1 mid)" for e
    using subsetD [OF run_accepted_subset that] by (simp add: mid_def)
  have out: "in_window mem_key k w T (run_accepted mem_step s xs) = []"
    if "\<forall>e \<in> set xs. fst e \<le> ?A \<or> T < fst e" for s xs
    unfolding in_window_def filter_empty_conv using that subsetD [OF run_accepted_subset [of mem_step s xs]] by force
  have "in_window mem_key k w T (run_accepted mem_step ?l es) = in_window mem_key k w T (run_accepted mem_step ?l1 mid)"
    unfolding es run_accepted_append using out [of pre ?l] out [of post]
    by (simp add: in_window_def pre_def post_def)
  also have "\<dots> = filter (\<lambda>(t, q). fst q = k) (run_accepted mem_step ?l1 mid)"
    unfolding in_window_def mem_key_def
    by (rule filter_cong [OF refl]) (use inside in auto)
  finally have "real (length (in_window mem_key k w T (run_accepted mem_step ?l es))) = real (served k (run_accepted mem_step ?l1 mid))"
    by (simp add: served_def)
  also have "\<dots> \<le> of_int (burst + r) + of_int r / 60 * (T - ?A)"
  proof -
    have "reqs_ok k r dflt mid" unfolding mid_def by (intro reqs_ok_filter assms(1))
    moreover have "\<forall>e \<in> set mid. ?A \<le> fst e \<and> fst e \<le> T" by (auto simp: mid_def)
    ultimately show ?thesis using served_window [OF l1(1), of mid T] assms(2-4) unfolding l1(2,3) by simp
  qed
  finally show ?thesis by simp
qed

theorem token_bucket_window_witness:
  "real (length (in_window mem_key ''k'' 60 60
     (run_accepted mem_step (new_mem_limiter 60 1) [(0, ''k'', None, 0, 0), (1, ''k'', None, 1, 1)]))) \<le> 1 + 60 + 60 / 60 * 60"
  using token_bucket_window [of "''k''" 60 60 "[(0, ''k'', None, 0, 0), (1, ''k'', None, 1, 1)]" 1 60 60]
  by (simp add: reqs_ok_def rate_or_def)

section \<open>The announced wait\<close>

lemma trunc_int_ge: "0 \<le> x \<Longrightarrow> x \<le> of_int (trunc_int x) + 1"
  by (simp add: trunc_int_def)

text \<open>
  Remark (the announced wait suffices): when a request is refused with a wait, the next request of the same
  key is allowed if it comes at least that much later and the bucket holds at least one token when
  full.
\<close>

theorem retry_after_suffices:
  assumes "mem_is_allowed t0 t1 t2 key custom l = (Inr (False, remaining, wait), l')"
    and "key_ok key r t1 l" "rate_or custom (ml_default_rate l) = r" "0 < r" "0 \<le> ml_burst_size l" "t0 \<le> t1"
    and "t1 + of_int wait \<le> t1'"
  shows "\<exists>rest l''. mem_is_allowed t0' t1' t2' key custom' l' = (Inr (True, rest), l'')"
proof -
  let ?b = "fst (get_bucket t0 key custom l)"
  let ?b1 = "snd (bucket_consume t1 1 ?b)"
  note b = bucket_for_ok [OF assms(2), of "(key, custom, t0, t2)" t1, unfolded bucket_for_def fst_conv snd_conv]
  have ok: "bucket_ok ?b" "tb_capacity ?b = of_int (ml_burst_size l + r)" "tb_refill_rate ?b = of_int r / 60" "tb_last_refill ?b \<le> t1"
    using b assms(3-6) by simp_all
  have l': "dget (ml_buckets l') key = Some ?b1"
    using mem_is_allowed_state [of t0 t1 t2 key custom l] assms(1) by (simp add: dict_simps)
  have no: "\<not> fst (bucket_consume t1 1 ?b)"
    using mem_is_allowed_result [of t0 t1 t2 key custom l] assms(1) by (auto simp: Let_def case_prod_beta split: if_splits)
  have "retry_after ?b1 = Inr wait"
    using mem_is_allowed_result [of t0 t1 t2 key custom l] assms(1) no
    by (cases "retry_after ?b1") (simp_all add: Let_def case_prod_beta)
  then have w: "wait = trunc_int (60 / of_int r) + 1"
    using assms(4) ok(3) by (simp add: retry_after_def consume_frame split: if_splits)
  have "60 / of_int r \<le> (of_int wait :: real)"
    using trunc_int_ge [of "60 / of_int r"] assms(4) by (simp add: w)
  also have "\<dots> \<le> t1' - t1" using assms(7) by simp
  finally have "1 \<le> (t1' - t1) * tb_refill_rate ?b" using assms(4) unfolding ok(3) by (simp add: field_simps)
  moreover have "0 \<le> tb_tokens ?b1" using consume_ok [OF ok(1,4), of 1] by (simp add: bucket_ok_def)
  moreover have "1 \<le> tb_capacity ?b1" using assms(4,5) ok(2) by (simp add: consume_frame)
  ultimately have "1 \<le> refilled t1' ?b1" unfolding refilled_def consume_frame by linarith
  then have "fst (bucket_consume t1' 1 ?b1)" by (simp add: bucket_consume_def Let_def)
  then show ?thesis
    using l' mem_is_allowed_result [of t0' t1' t2' key custom' l']
    by (cases "mem_is_allowed t0' t1' t2' key custom' l'") (simp add: get_bucket_def Let_def case_prod_beta)
qed

definition empty_bucket_limiter :: mem_limiter where
  "empty_bucket_limiter = (new_mem_limiter 60 0)\<lparr>ml_buckets := [(''k'', \<lparr>tb_capacity = 60, tb_refill_rate = 1, tb_tokens = 0, tb_last_refill = 0\<rparr>)]\<rparr>"

theorem retry_after_suffices_witness:
  "fst (mem_is_allowed 0 0 0 ''k'' None empty_bucket_limiter) = Inr (False, 0, 2)
   \<and> (\<exists>rest l''. mem_is_allowed 2 2 2 ''k'' None (snd (mem_is_allowed 0 0 0 ''k'' None empty_bucket_limiter)) = (Inr (True, rest), l''))"
proof -
  have f: "fst (mem_is_allowed 0 0 0 ''k'' None empty_bucket_limiter) = Inr (False, 0, 2)"
    by (simp add: mem_is_allowed_def empty_bucket_limiter_def new_mem_limiter_def get_bucket_def bucket_consume_def refilled_def
        bucket_remaining_def trunc_int_def retry_after_def Let_def)
  moreover have "key_ok ''k'' 60 0 empty_bucket_limiter"
    by (simp add: key_ok_def empty_bucket_limiter_def new_mem_limiter_def bucket_ok_def)
  ultimately show ?thesis
    using retry_after_suffices [of 0 0 0 "''k''" None empty_bucket_limiter 0 2 _ 60 2 2 2 None]
    by (simp add: prod_eq_iff rate_or_def empty_bucket_limiter_def new_mem_limiter_def)
qed

section \<open>The sorted-set limiter\<close>

text \<open>
  The documented effect of the sorted-set commands, on the members and scores under a key. \<^verbatim>\<open>expire\<close> sets a
  time after which the key is dropped; it is one second longer than the window, by which time all
  its entries have left the window.
\<close>

definition sorted_set_laws :: "'r redis_ops \<Rightarrow> ('r \<Rightarrow> string \<Rightarrow> (string, real) dict) \<Rightarrow> bool" where
  "sorted_set_laws ops scores =
     ((\<forall>k lo hi s j. scores (z_remrangebyscore ops k lo hi s) j =
          (if j = k then filter (\<lambda>(m, x). \<not> (lo \<le> x \<and> x \<le> hi)) (scores s j) else scores s j))
      \<and> (\<forall>k s. z_card ops k s = length (scores s k))
      \<and> (\<forall>k m x s j. scores (z_add ops k m x s) j = (if j = k then dset m x (scores s j) else scores s j))
      \<and> (\<forall>k n s j. 0 < n \<longrightarrow> scores (z_expire ops k n s) j = scores s j)
      \<and> (\<forall>k m s j. scores (z_rem ops k m s) j = (if j = k then ddel m (scores s j) else scores s j)))"

text \<open>
  A run of the middleware on a Redis limiter: the state carries the number of identifiers drawn; \<open>uid\<close>
  gives the identifiers, which \<^verbatim>\<open>uuid4\<close> does not repeat. An event is a request and how Redis answers it;
  it is accepted when it reaches the endpoint.
\<close>

definition passed :: "'p http_response res \<Rightarrow> bool" where
  "passed x = (case x of Inr (Passed p h) \<Rightarrow> True | _ \<Rightarrow> False)"

definition at_time :: "seconds \<Rightarrow> string \<Rightarrow> redis_link \<Rightarrow> call_env" where
  "at_time t member link = \<lparr>ce_link = link, ce_member = member, ce_t0 = t, ce_t1 = t, ce_t2 = t\<rparr>"

definition web_step ::
  "(string \<Rightarrow> string) \<Rightarrow> (string \<Rightarrow> pyval) \<Rightarrow> 'r redis_ops \<Rightarrow> int \<Rightarrow> (nat \<Rightarrow> string) \<Rightarrow> (limiter \<times> 'r) \<times> nat
   \<Rightarrow> seconds \<Rightarrow> request \<times> redis_link \<Rightarrow> bool \<times> (limiter \<times> 'r) \<times> nat" where
  "web_step sha256 rate_of ops rate uid st t e =
     (let r = dispatch sha256 rate_of ops rate (at_time t (uid (snd st)) (snd e)) (fst e) () (fst st)
      in (passed (fst r), snd r, Suc (snd st)))"

definition web_key ::
  "(string \<Rightarrow> string) \<Rightarrow> (string \<Rightarrow> pyval) \<Rightarrow> redis_limiter \<Rightarrow> int \<Rightarrow> request \<times> redis_link \<Rightarrow> string option" where
  "web_key sha256 rate_of l R e =
     (case get_custom_rate rate_of (fst e) of
        Inl ex \<Rightarrow> None
      | Inr custom \<Rightarrow>
          if rq_path (fst e) \<in> set exempt_paths \<or> R < rate_or custom (rl_default_rate l) then None
          else Some (get_rate_limit_key sha256 (fst e)))"

definition redis_log :: "('r \<Rightarrow> string \<Rightarrow> (string, real) dict) \<Rightarrow> (limiter \<times> 'r) \<times> nat \<Rightarrow> string \<Rightarrow> seconds list" where
  "redis_log scores st k = map snd (scores (snd (fst st)) (redis_key k))"

definition redis_inv ::
  "('r \<Rightarrow> string \<Rightarrow> (string, real) dict) \<Rightarrow> (nat \<Rightarrow> string) \<Rightarrow> redis_limiter \<Rightarrow> (limiter \<times> 'r) \<times> nat \<Rightarrow> bool" where
  "redis_inv scores uid l st =
     (fst (fst st) = InRedis l \<and> (\<forall>k m. m \<in> fst ` set (scores (snd (fst st)) k) \<longrightarrow> (\<exists>i < snd st. m = uid i)))"

definition unexpired :: "real \<Rightarrow> (string, real) dict \<Rightarrow> (string, real) dict" where
  "unexpired start d = filter (\<lambda>(m, x). \<not> (0 \<le> x \<and> x \<le> start)) d"

lemma recent_unexpired: "recent w t (map snd (unexpired (t - w) d)) = recent w t (map snd d)"
  by (induction d) (auto simp: recent_def unexpired_def)

lemma unexpired_keys: "fst ` set (unexpired x d) \<subseteq> fst ` set d"
  by (auto simp: unexpired_def)

lemma ddel_snoc: "m \<notin> fst ` set d \<Longrightarrow> ddel m (d @ [(m, x)]) = d"
  by (induction d) auto

text \<open>
  One call of the limiter: it allows the request only below the limit, and the set of its key is left
  alone or is pruned and then extended by the request, always so when the request is allowed. No
  other set changes.
\<close>

lemma redis_key_inj [simp]: "redis_key a = redis_key b \<longleftrightarrow> a = b"
  by (simp add: redis_key_def)

lemma redis_call:
  assumes "sorted_set_laws ops scores" "m \<notin> fst ` set (scores s (redis_key key))" "\<not> rl_fail_open l" "0 \<le> rl_window_seconds l"
    and "redis_is_allowed ops l link m t key custom s = (r, s')"
  defines "d \<equiv> unexpired (t - of_int (rl_window_seconds l)) (scores s (redis_key key))"
  shows "fst r \<Longrightarrow> int (length d) < rate_or custom (rl_default_rate l) \<and> scores s' (redis_key key) = d @ [(m, t)]"
    and "scores s' (redis_key key) \<in> {scores s (redis_key key), d, d @ [(m, t)]}"
    and "j \<noteq> redis_key key \<Longrightarrow> scores s' j = scores s j"
proof -
  note laws = assms(1) [unfolded sorted_set_laws_def]
  define s1 where "s1 = z_remrangebyscore ops (redis_key key) 0 (t - of_int (rl_window_seconds l)) s"
  define s2 where "s2 = z_expire ops (redis_key key) (rl_window_seconds l + 1) (z_add ops (redis_key key) m t s1)"
  define s3 where "s3 = z_rem ops (redis_key key) m s2"
  have "m \<notin> fst ` set d" using assms(2) unexpired_keys unfolding d_def by blast
  then have n: "dset m t d = d @ [(m, t)]" "ddel m (d @ [(m, t)]) = d"
    by (rule dset_new, rule ddel_snoc)
  have k1: "scores s1 (redis_key key) = d" using laws by (simp add: s1_def d_def unexpired_def)
  have k2: "scores s2 (redis_key key) = d @ [(m, t)]" using laws k1 n assms(4) by (simp add: s2_def)
  have k3: "scores s3 (redis_key key) = d" using laws k2 n by (simp add: s3_def)
  have o: "scores s2 j = scores s j" "scores s3 j = scores s j" if "j \<noteq> redis_key key" for j
    using laws that assms(4) by (simp_all add: s1_def s2_def s3_def)
  have c: "z_card ops (redis_key key) s1 = length d" using laws k1 by simp
  have call: "fst r \<and> int (length d) < rate_or custom (rl_default_rate l) \<and> s' = s2 \<or> \<not> fst r \<and> s' \<in> {s, s2, s3}"
    using assms(3,5) unfolding redis_is_allowed_def Let_def s1_def [symmetric] s2_def [symmetric] s3_def [symmetric] c
    by (auto split: redis_link.splits if_splits)
  show "fst r \<Longrightarrow> int (length d) < rate_or custom (rl_default_rate l) \<and> scores s' (redis_key key) = d @ [(m, t)]"
    using call k2 by blast
  show "scores s' (redis_key key) \<in> {scores s (redis_key key), d, d @ [(m, t)]}"
    using call k2 k3 by auto
  show "j \<noteq> redis_key key \<Longrightarrow> scores s' j = scores s j"
    using call o by blast
qed

lemma web_step_call:
  assumes "fst (fst st) = InRedis l" "rq_path (fst e) \<notin> set exempt_paths" "get_custom_rate rate_of (fst e) = Inr custom"
  shows "web_step sha256 rate_of ops rate uid st t e =
    (let (r, s') = redis_is_allowed ops l (snd e) (uid (snd st)) t (get_rate_limit_key sha256 (fst e)) custom (snd (fst st))
     in (fst r, (InRedis l, s'), Suc (snd st)))"
  using assms by (simp add: web_step_def dispatch_def check_limit_def at_time_def Let_def case_prod_beta passed_def)

text \<open>An exempt path passes; a rate that is not a number raises. Neither touches Redis.\<close>

lemma web_step_skip:
  "rq_path (fst e) \<in> set exempt_paths \<or> get_custom_rate rate_of (fst e) = Inl ex
    \<Longrightarrow> snd (web_step sha256 rate_of ops rate uid st t e) = (fst st, Suc (snd st)) \<and> web_key sha256 rate_of l R e = None"
  by (auto simp: web_step_def dispatch_def web_key_def split: sum.split)

lemma redis_inv_step:
  assumes "redis_inv scores uid l st"
    and "\<And>j. fst ` set (scores s' j) \<subseteq> insert (uid (snd st)) (fst ` set (scores (snd (fst st)) j))"
  shows "redis_inv scores uid l ((InRedis l, s'), Suc (snd st))"
  unfolding redis_inv_def fst_conv snd_conv
proof (intro conjI allI impI)
  fix j m assume "m \<in> fst ` set (scores s' j)"
  then have "m = uid (snd st) \<or> m \<in> fst ` set (scores (snd (fst st)) j)" using assms(2) [of j] by blast
  then show "\<exists>i < Suc (snd st). m = uid i" using assms(1) unfolding redis_inv_def by (metis less_Suc_eq)
qed simp

lemma web_guard:
  assumes laws: "sorted_set_laws ops scores" and "inj uid" and l: "\<not> rl_fail_open l" "0 \<le> rl_window_seconds l"
  shows "window_guard (web_step sha256 rate_of ops rate uid) (web_key sha256 rate_of l R) (redis_log scores)
     (\<lambda>_. of_int (rl_window_seconds l)) (\<lambda>_. nat R) (redis_inv scores uid l)"
proof
  fix st :: "(limiter \<times> 'a) \<times> nat" and t and e :: "request \<times> redis_link"
  let ?w = "of_int (rl_window_seconds l) :: real" and ?k = "redis_key (get_rate_limit_key sha256 (fst e))"
  let ?d = "unexpired (t - ?w) (scores (snd (fst st)) ?k)" and ?m = "uid (snd st)"
  define custom where "custom = projr (get_custom_rate rate_of (fst e))"
  define skip where "skip = (rq_path (fst e) \<in> set exempt_paths \<or> isl (get_custom_rate rate_of (fst e)))"
  assume i: "redis_inv scores uid l st"
  then have st: "fst (fst st) = InRedis l" by (simp add: redis_inv_def)
  have new: "?m \<notin> fst ` set (scores (snd (fst st)) ?k)"
    using i assms(2) unfolding redis_inv_def by (metis injD less_irrefl)
  obtain r s' where call: "redis_is_allowed ops l (snd e) ?m t (get_rate_limit_key sha256 (fst e)) custom (snd (fst st)) = (r, s')"
    by fastforce
  note c = redis_call [OF laws new l call]
  have step: "web_step sha256 rate_of ops rate uid st t e = (fst r, (InRedis l, s'), Suc (snd st))"
    if "\<not> skip"
    using web_step_call [OF st, of e rate_of custom sha256 ops rate uid t] that call
    by (cases "get_custom_rate rate_of (fst e)") (simp_all add: skip_def custom_def)
  have skipped: "snd (web_step sha256 rate_of ops rate uid st t e) = (fst st, Suc (snd st)) \<and> web_key sha256 rate_of l R e = None" if skip
    using that web_step_skip [of e rate_of _ sha256 ops rate uid st t l R] by (auto simp: skip_def isl_def)
  show "redis_inv scores uid l (snd (web_step sha256 rate_of ops rate uid st t e))"
  proof (cases skip)
    case True
    then show ?thesis using i skipped by (auto simp: redis_inv_def less_Suc_eq)
  next
    case False
    have "fst ` set (scores s' j) \<subseteq> insert ?m (fst ` set (scores (snd (fst st)) j))" for j
    proof (cases "j = ?k")
      case True
      have "fst ` set (scores s' ?k) \<subseteq> insert ?m (fst ` set (scores (snd (fst st)) ?k) \<union> fst ` set ?d)"
        using c(2) by auto
      then show ?thesis unfolding True using unexpired_keys by blast
    next
      case other: False
      then show ?thesis using c(3) [of j] by auto
    qed
    then show ?thesis using redis_inv_step [OF i] step [OF False] by simp
  qed
  show "length (recent ?w t (redis_log scores st k)) < nat R"
    if "fst (web_step sha256 rate_of ops rate uid st t e)" "web_key sha256 rate_of l R e = Some k" for k
  proof -
    have k: "\<not> skip" "rate_or custom (rl_default_rate l) \<le> R" "k = get_rate_limit_key sha256 (fst e)"
      using that(2) by (auto simp: web_key_def skip_def custom_def split: if_splits sum.splits)
    then have "int (length ?d) < R" using c(1) that(1) step by simp
    moreover have "length (recent ?w t (map snd ?d)) \<le> length ?d" by (simp add: recent_def)
    ultimately show ?thesis unfolding redis_log_def k(3) recent_unexpired by linarith
  qed
  show "length (inside ?w T (redis_log scores st k @
            (if fst (web_step sha256 rate_of ops rate uid st t e) \<and> web_key sha256 rate_of l R e = Some k then [t] else [])))
      \<le> length (inside ?w T (redis_log scores (snd (web_step sha256 rate_of ops rate uid st t e)) k))" if "t \<le> T" for T k
  proof (cases skip)
    case True
    then show ?thesis using skipped by (simp add: redis_log_def)
  next
    case False
    have d: "inside ?w T (map snd (scores (snd (fst st)) ?k)) = inside ?w T (map snd ?d)"
      using inside_recent [OF that] recent_unexpired by metis
    show ?thesis
    proof (cases "k = get_rate_limit_key sha256 (fst e)")
      case True
      have "inside ?w T (map snd (scores s' ?k)) = inside ?w T (map snd ?d) @ inside ?w T [t]" if "fst r"
        using c(1) [OF that] by simp
      moreover have "length (inside ?w T (map snd ?d)) \<le> length (inside ?w T (map snd (scores s' ?k)))"
        using c(2) d by (elim insertE) simp_all
      ultimately show ?thesis unfolding redis_log_def True using d step [OF False] by (simp del: inside_append) simp
    next
      case other: False
      then show ?thesis using c(3) [of "redis_key k"] step [OF False] by (auto simp: redis_log_def web_key_def split: sum.splits if_splits)
    qed
  qed
qed simp_all

text \<open>
  Claim C19 (the middleware bounds every window): in a managed environment, with the documented sorted-set commands and
  identifiers that do not repeat, the middleware lets at most \<open>R\<close> of the requests of one key whose
  rate is at most \<open>R\<close> reach their endpoint in any minute, whatever the other requests and however often
  Redis fails.
\<close>

theorem managed_middleware_window:
  assumes "sorted_set_laws ops scores" "inj uid" "scores s = (\<lambda>_. [])" "sorted (map fst es)"
    and "managed_environment env" "new_limiter env client rate burst = InRedis l"
  shows "length (in_window (web_key sha256 rate_of l R) k 60 T
      (run_accepted (web_step sha256 rate_of ops rate uid) ((new_limiter env client rate burst, s), 0) es)) \<le> nat R"
proof -
  have l: "\<not> rl_fail_open l" "rl_window_seconds l = 60" using assms(5,6) by (auto simp: new_limiter_def)
  have "redis_inv scores uid l ((InRedis l, s), 0)" using assms(3) by (simp add: redis_inv_def)
  from window_guard.window_bound [OF web_guard [OF assms(1,2) l(1)] this assms(4)] show ?thesis
    unfolding assms(6) using l(2) by simp
qed

text \<open>A store that satisfies the hypothesis: the members and scores themselves.\<close>

definition dict_redis :: "(string \<Rightarrow> (string, real) dict) redis_ops" where
  "dict_redis =
     \<lparr>z_remrangebyscore = (\<lambda>k lo hi s. s(k := filter (\<lambda>(m, x). \<not> (lo \<le> x \<and> x \<le> hi)) (s k))),
      z_card = (\<lambda>k s. length (s k)), z_add = (\<lambda>k m x s. s(k := dset m x (s k))),
      z_expire = (\<lambda>k n s. if 0 < n then s else s(k := [])),
      z_first = (\<lambda>k s. if s k = [] then None else Some (Min (snd ` set (s k)))), z_rem = (\<lambda>k m s. s(k := ddel m (s k)))\<rparr>"

definition score_request :: request where
  "score_request = \<lparr>rq_path = ''/score'', rq_state_name = Some ''k'', rq_state_rate = Some (PInt 1),
     rq_api_key = None, rq_authorization = None, rq_client_host = None\<rparr>"

theorem managed_middleware_window_witness:
  "length (in_window (web_key id (\<lambda>_. PNone) \<lparr>rl_default_rate = 100, rl_window_seconds = 60, rl_fail_open = False\<rparr> 1) ''apikey:k'' 60 60
      (run_accepted (web_step id (\<lambda>_. PNone) dict_redis 100 (\<lambda>n. replicate n CHR ''x''))
        ((new_limiter ''prod'' False 100 0, (\<lambda>_. [])), 0)
        [(0, score_request, Pipe_fails True), (1, score_request, Answers), (61, score_request, Answers)])) \<le> nat 1"
proof -
  have "sorted_set_laws dict_redis (\<lambda>s. s)" by (simp add: sorted_set_laws_def dict_redis_def)
  moreover have "inj (\<lambda>n. replicate n CHR ''x'')" by (simp add: inj_def)
  moreover have "managed_environment ''prod''" by (simp add: managed_environment_def ascii_lower_def)
  moreover from this have "new_limiter ''prod'' False 100 0 = InRedis \<lparr>rl_default_rate = 100, rl_window_seconds = 60, rl_fail_open = False\<rparr>"
    by (simp add: new_limiter_def)
  ultimately show ?thesis
    by (intro managed_middleware_window [of dict_redis "\<lambda>s. s"]) simp_all
qed

end
