(* ===== verification/Api_Auth_Properties.thy ===== *)
theory Api_Auth_Properties
  imports Api_Auth Secrets_Properties Rate_Limiter_Properties "HOL-Library.Countable"
begin

text \<open>
  Authentication: an accepted request carries a token that verifies or a configured key, with the permission
  the route asks for; tokens round-trip until they expire; and what the guards leave open, a development key in
  the settings of a managed environment, and guessed keys that the rate limiter in front of authentication
  counts apart.
\<close>

declare map_of_eq_Some_iff [simp del] Some_eq_map_of_iff [simp del]

section \<open>The key table\<close>

lemma validate_key_dget: "validate_key sha256 ks k = dget ks (sha256 k)"
  unfolding validate_key_def Let_def by (induction ks) auto

lemma add_keys_origin:
  assumes "add_keys sha256 es ks = Inr ks'" "dget ks' h = Some km"
  shows "dget ks h = Some km \<or> (\<exists>e key. PDict e \<in> set es \<and> dget e ''key'' = Some (PStr key) \<and> sha256 key = h \<and> km = entry_meta e)"
  using assms
proof (induction sha256 es ks rule: add_keys.induct)
  case (2 sha256 e es ks)
  show ?case
  proof (cases "dget e ''key''")
    case None
    then show ?thesis using 2 by auto
  next
    case (Some key)
    then obtain s where s: "key = PStr s" "add_keys sha256 es (dset (sha256 s) (entry_meta e) ks) = Inr ks'"
      using "2.prems"(1) by (auto simp: hash_key_def split: pyval.splits)
    show ?thesis using "2.IH"(2) [OF Some s(2) "2.prems"(2)] Some s(1) by (auto simp: dict_simps split: if_splits)
  qed
qed auto

text \<open>The entry a key of the table stems from: the development key, or an entry of the configured list.\<close>

definition key_origin :: "(string \<Rightarrow> string) \<Rightarrow> settings \<Rightarrow> pyval \<Rightarrow> string \<Rightarrow> key_meta \<Rightarrow> bool" where
  "key_origin sha256 cfg configured h km =
     (st_environment cfg \<in> {''dev'', ''test''} \<and> h = sha256 dev_key \<and> km = dev_meta
      \<or> (\<exists>es e key. configured = PList es \<and> PDict e \<in> set es \<and> dget e ''key'' = Some (PStr key) \<and> sha256 key = h \<and> km = entry_meta e))"

lemma load_keys_origin:
  assumes "load_keys sha256 cfg configured = Inr ks" "dget ks h = Some km"
  shows "key_origin sha256 cfg configured h km"
proof -
  obtain ks0 where k: "(case configured of PList es \<Rightarrow> add_keys sha256 es [] | _ \<Rightarrow> Inr []) = Inr ks0"
      and ks: "ks = (if st_environment cfg \<in> {''dev'', ''test''} then dset (sha256 dev_key) dev_meta ks0 else ks0)"
    using assms(1) unfolding load_keys_def res_bind_Inr by blast
  have "\<exists>es e key. configured = PList es \<and> PDict e \<in> set es \<and> dget e ''key'' = Some (PStr key) \<and> sha256 key = h \<and> km = entry_meta e"
    if "dget ks0 h = Some km"
    using k that add_keys_origin [of sha256 _ "[]" ks0 h km] by (cases configured) auto
  then show ?thesis using assms(2) unfolding key_origin_def ks by (auto simp: dict_simps split: if_splits)
qed

section \<open>Runs of requests\<close>

type_synonym guarded_call = "string \<times> auth_call"

definition auth_step :: "(string \<Rightarrow> string) \<Rightarrow> settings \<Rightarrow> env_vars \<Rightarrow> guarded_call \<Rightarrow> auth_state \<Rightarrow> auth_state" where
  "auth_step sha256 cfg env pc st = snd (require_permission (fst pc) sha256 cfg env (snd pc) st)"

definition auth_run :: "(string \<Rightarrow> string) \<Rightarrow> settings \<Rightarrow> env_vars \<Rightarrow> guarded_call list \<Rightarrow> auth_state" where
  "auth_run sha256 cfg env pcs = foldr (auth_step sha256 cfg env) pcs new_auth_state"

text \<open>
  The latest request is the head of a run. The request after the run \<open>vs\<close> is the one that loads the keys: no keys are there yet, and the configured list it reads,
  in the state that \<open>vs\<close> left, is \<open>v\<close>.
\<close>

definition loads :: "(string \<Rightarrow> string) \<Rightarrow> settings \<Rightarrow> env_vars \<Rightarrow> guarded_call list \<Rightarrow> auth_call \<Rightarrow> pyval \<Rightarrow> bool" where
  "loads sha256 cfg env vs c v \<longleftrightarrow>
     au_keys (auth_run sha256 cfg env vs) = None \<and>
     fst (configured_keys (ac_outside c) (ac_t1 c) (ac_t2 c) cfg env (auth_run sha256 cfg env vs)) = Inr v"

text \<open>Some request of the run loaded the list.\<close>

definition loaded_in :: "(string \<Rightarrow> string) \<Rightarrow> settings \<Rightarrow> env_vars \<Rightarrow> guarded_call list \<Rightarrow> pyval \<Rightarrow> bool" where
  "loaded_in sha256 cfg env pcs v \<longleftrightarrow> (\<exists>us p c vs. pcs = us @ (p, c) # vs \<and> loads sha256 cfg env vs c v)"

definition keys_loaded :: "(string \<Rightarrow> string) \<Rightarrow> settings \<Rightarrow> env_vars \<Rightarrow> guarded_call list \<Rightarrow> auth_state \<Rightarrow> bool" where
  "keys_loaded sha256 cfg env pcs st =
     (\<forall>ks. au_keys st = Some ks \<longrightarrow> (\<exists>v. loaded_in sha256 cfg env pcs v \<and> load_keys sha256 cfg v = Inr ks))"

lemma loaded_earlier: "loaded_in sha256 cfg env pcs v \<Longrightarrow> loaded_in sha256 cfg env (pc # pcs) v"
  unfolding loaded_in_def by (metis append_Cons)

lemma loaded_now: "loads sha256 cfg env pcs c v \<Longrightarrow> loaded_in sha256 cfg env ((p, c) # pcs) v"
  unfolding loaded_in_def by (metis append_Nil)

lemma with_secrets_keys: "with_secrets boto cfg f st = (r, st') \<Longrightarrow> au_keys st' = au_keys st"
  by (auto simp: with_secrets_def split: sum.splits prod.splits)

lemma configured_keys_keys: "configured_keys ox t1 t2 cfg env st = (r, st') \<Longrightarrow> au_keys st' = au_keys st"
  by (auto simp: configured_keys_def split: sum.splits prod.splits if_splits dest: with_secrets_keys)

lemma verify_jwt_keys: "verify_jwt_token ox t1 t2 clock cfg env token secret st = (r, st') \<Longrightarrow> au_keys st' = au_keys st"
  by (auto simp: verify_jwt_token_def signing_secret_def split: sum.splits prod.splits if_splits option.splits dest: with_secrets_keys)

lemma key_manager_loaded:
  assumes "keys_loaded sha256 cfg env pcs (auth_run sha256 cfg env pcs)"
    and "get_key_manager (ac_outside c) sha256 (ac_t1 c) (ac_t2 c) cfg env (auth_run sha256 cfg env pcs) = (r, st')"
  shows "keys_loaded sha256 cfg env ((p, c) # pcs) st'"
    and "r = Inr ks \<Longrightarrow> \<exists>v. loaded_in sha256 cfg env ((p, c) # pcs) v \<and> load_keys sha256 cfg v = Inr ks"
proof -
  let ?st = "auth_run sha256 cfg env pcs"
  have "keys_loaded sha256 cfg env ((p, c) # pcs) st' \<and> (\<forall>ks. r = Inr ks \<longrightarrow> (\<exists>v. loaded_in sha256 cfg env ((p, c) # pcs) v \<and> load_keys sha256 cfg v = Inr ks))"
  proof (cases "au_keys ?st")
    case (Some ks)
    then show ?thesis using assms by (auto simp: get_key_manager_def keys_loaded_def intro: loaded_earlier)
  next
    case None
    obtain q st1 where q: "configured_keys (ac_outside c) (ac_t1 c) (ac_t2 c) cfg env ?st = (q, st1)" by fastforce
    have n: "au_keys st1 = None" using configured_keys_keys [OF q] None by simp
    show ?thesis
    proof (cases q)
      case (Inl ex)
      then show ?thesis using assms(2) None q n by (auto simp: get_key_manager_def keys_loaded_def)
    next
      case (Inr v)
      have l: "loaded_in sha256 cfg env ((p, c) # pcs) v" using q Inr None by (intro loaded_now) (simp add: loads_def)
      show ?thesis
        using assms(2) None q Inr n l by (cases "load_keys sha256 cfg v") (auto simp: get_key_manager_def keys_loaded_def)
    qed
  qed
  then show "keys_loaded sha256 cfg env ((p, c) # pcs) st'"
    and "r = Inr ks \<Longrightarrow> \<exists>v. loaded_in sha256 cfg env ((p, c) # pcs) v \<and> load_keys sha256 cfg v = Inr ks" by blast+
qed

lemma keys_loaded_later: "keys_loaded sha256 cfg env pcs st \<Longrightarrow> au_keys st' = au_keys st \<Longrightarrow> keys_loaded sha256 cfg env (pc # pcs) st'"
  unfolding keys_loaded_def by (metis loaded_earlier)

lemma verify_loaded:
  assumes "keys_loaded sha256 cfg env pcs (auth_run sha256 cfg env pcs)" "verify_api_key sha256 cfg env c (auth_run sha256 cfg env pcs) = (r, st')"
  shows "keys_loaded sha256 cfg env ((p, c) # pcs) st'"
proof (cases "ac_bearer c")
  case (Some token)
  obtain q st1 where q: "verify_jwt_token (ac_outside c) (ac_t1 c) (ac_t2 c) (ac_clock c) cfg env token None (auth_run sha256 cfg env pcs) = (q, st1)" by fastforce
  have "st' = st1" using assms(2) Some q by (auto simp: verify_api_key_def split: sum.splits)
  then show ?thesis using keys_loaded_later [OF assms(1)] verify_jwt_keys [OF q] by blast
next
  case None
  then show ?thesis
    using assms(2) key_manager_loaded(1) [OF assms(1)] keys_loaded_later [OF assms(1), of "auth_run sha256 cfg env pcs"]
    by (auto simp: verify_api_key_def check_key_def split: option.splits sum.splits prod.splits)
qed

lemma require_state: "snd (require_permission p sha256 cfg env c st) = snd (verify_api_key sha256 cfg env c st)"
  by (auto simp: require_permission_def split: prod.splits sum.splits)

lemma auth_run_loaded: "keys_loaded sha256 cfg env pcs (auth_run sha256 cfg env pcs)"
proof (induction pcs)
  case Nil
  then show ?case by (simp add: auth_run_def keys_loaded_def new_auth_state_def)
next
  case (Cons pc pcs)
  obtain p c where pc: "pc = (p, c)" by (cases pc)
  obtain r st' where v: "verify_api_key sha256 cfg env c (auth_run sha256 cfg env pcs) = (r, st')" by fastforce
  have "auth_run sha256 cfg env (pc # pcs) = st'"
    using v unfolding auth_run_def by (simp add: auth_step_def require_state pc)
  then show ?case using verify_loaded [OF Cons v] pc by simp
qed

section \<open>Access\<close>

definition token_accepted :: "settings \<Rightarrow> env_vars \<Rightarrow> auth_call \<Rightarrow> string \<Rightarrow> auth_state \<Rightarrow> string \<Rightarrow> key_meta \<Rightarrow> bool" where
  "token_accepted cfg env c token st p km =
     (\<exists>s st1 payload ps. signing_secret (ac_outside c) (ac_t1 c) (ac_t2 c) cfg env None st = (Inr s, st1)
        \<and> ox_decode (ac_outside c) s jwt_algorithm jwt_issuer (ac_clock c) token = Some payload
        \<and> (managed_environment (st_environment cfg) \<longrightarrow> 32 \<le> length s)
        \<and> dget payload ''permissions'' = Some (PList ps) \<and> (\<exists>v \<in> set ps. ox_str (ac_outside c) v = p)
        \<and> km = payload_meta (ox_str (ac_outside c)) payload)"

definition key_accepted :: "(string \<Rightarrow> string) \<Rightarrow> settings \<Rightarrow> env_vars \<Rightarrow> guarded_call list \<Rightarrow> string \<Rightarrow> string \<Rightarrow> key_meta \<Rightarrow> bool" where
  "key_accepted sha256 cfg env pcs key p km =
     (\<exists>v. loaded_in sha256 cfg env pcs v \<and> key_origin sha256 cfg v (sha256 key) km \<and> py_in p (km_permissions km) = Inr True)"

lemma signing_secret_managed:
  assumes "managed_environment (st_environment cfg)" "signing_secret ox t1 t2 cfg env None st = (Inr s, st1)"
  shows "32 \<le> length s"
proof -
  obtain m m1 where "get_jwt_secret (ox_json ox) (ox_aws ox) (ox_str ox) t1 t2 cfg env None m = (Inr s, m1)"
    using assms(2) by (auto simp: signing_secret_def with_secrets_def split: sum.splits prod.splits)
  then show ?thesis using jwt_secret_length [OF assms(1)] by blast
qed

text \<open>
  Claim C17 (access needs a credential with the permission). After any earlier requests, a route that asks for the
  permission \<open>p\<close> lets a request through only if its bearer token verifies under the signing secret of the moment and
  lists \<open>p\<close> (and in managed environments that secret has at least 32 characters), or if, without a bearer token, its API key has the digest
  of an entry of the configured list that this or an earlier request loaded, read in the state the requests before it had left, or of the development key in
  the environments dev and test, and the permissions of that entry contain \<open>p\<close>. A request with a bearer token never falls back to its API key.
\<close>

theorem access_needs_credential:
  assumes "require_permission p sha256 cfg env c (auth_run sha256 cfg env pcs) = (Inr km, st')"
  shows "case ac_bearer c of
           Some token \<Rightarrow> token_accepted cfg env c token (auth_run sha256 cfg env pcs) p km
         | None \<Rightarrow> (\<exists>key. ac_api_key c = Some key \<and> key_accepted sha256 cfg env ((p, c) # pcs) key p km)"
proof -
  let ?st = "auth_run sha256 cfg env pcs"
  obtain b where v: "verify_api_key sha256 cfg env c ?st = (Inr (km, b), st')" and p: "py_in p (km_permissions km) = Inr True"
    using assms by (auto simp: require_permission_def res_bind_Inr split: prod.splits sum.splits if_splits)
  show ?thesis
  proof (cases "ac_bearer c")
    case (Some token)
    then obtain s st1 payload where s: "signing_secret (ac_outside c) (ac_t1 c) (ac_t2 c) cfg env None ?st = (Inr s, st1)"
        "ox_decode (ac_outside c) s jwt_algorithm jwt_issuer (ac_clock c) token = Some payload" "km = payload_meta (ox_str (ac_outside c)) payload"
      using v by (auto simp: verify_api_key_def verify_jwt_token_def split: prod.splits sum.splits option.splits)
    have "\<exists>ps. dget payload ''permissions'' = Some (PList ps) \<and> (\<exists>v \<in> set ps. ox_str (ac_outside c) v = p)"
      using p unfolding s(3) by (auto simp: payload_meta_def py_in_def dget_or_def split: option.splits pyval.splits)
    then show ?thesis
      unfolding Some token_accepted_def option.case using s signing_secret_managed [OF _ s(1)] by blast
  next
    case None
    then obtain key ks st1 where k: "ac_api_key c = Some key" "get_key_manager (ac_outside c) sha256 (ac_t1 c) (ac_t2 c) cfg env ?st = (Inr ks, st1)"
        "dget ks (sha256 key) = Some km"
      using v by (auto simp: verify_api_key_def check_key_def validate_key_dget split: prod.splits sum.splits option.splits)
    obtain v where d: "loaded_in sha256 cfg env ((p, c) # pcs) v" "load_keys sha256 cfg v = Inr ks"
      using key_manager_loaded(2) [OF auth_run_loaded k(2) refl] by blast
    have "key_accepted sha256 cfg env ((p, c) # pcs) key p km"
      unfolding key_accepted_def using d(1) load_keys_origin [OF d(2) k(3)] p by blast
    then show ?thesis using k(1) None by simp
  qed
qed

definition demo_outside :: outside where
  "demo_outside =
     \<lparr>ox_json = (\<lambda>s. None), ox_aws = (\<lambda>i. Inl RuntimeError), ox_str = (\<lambda>v. case v of PStr s \<Rightarrow> s | _ \<Rightarrow> []), ox_boto = False,
      ox_encode = (\<lambda>payload s alg. s), ox_decode = (\<lambda>s alg iss t token. None)\<rparr>"

definition key_call :: "string \<Rightarrow> auth_call" where
  "key_call key = \<lparr>ac_outside = demo_outside, ac_t1 = 0, ac_t2 = 0, ac_clock = 0, ac_api_key = Some key, ac_bearer = None\<rparr>"

lemma demo_access:
  "\<exists>st'. require_permission ''admin'' id (plain_settings ''dev'') [] (key_call dev_key) (auth_run id (plain_settings ''dev'') [] []) = (Inr dev_meta, st')"
proof -
  have "fst (require_permission ''admin'' id (plain_settings ''dev'') [] (key_call dev_key) new_auth_state) = Inr dev_meta" by code_simp
  then show ?thesis unfolding auth_run_def by (metis foldr_Nil id_apply prod.collapse)
qed

theorem access_needs_credential_witness:
  "\<exists>key. ac_api_key (key_call dev_key) = Some key \<and> key_accepted id (plain_settings ''dev'') [] [(''admin'', key_call dev_key)] key ''admin'' dev_meta"
proof -
  obtain st' where "require_permission ''admin'' id (plain_settings ''dev'') [] (key_call dev_key) (auth_run id (plain_settings ''dev'') [] []) = (Inr dev_meta, st')"
    using demo_access by blast
  from access_needs_credential [OF this] show ?thesis by (simp add: key_call_def)
qed

section \<open>Tokens\<close>

text \<open>
  The documented behaviour of PyJWT that the code relies on: decoding an encoded payload under the same
  secret and algorithm gives the payload back when its issuer is the expected one, it is not issued in the future and
  not expired; an expired token is refused.
\<close>

definition jwt_laws :: "outside \<Rightarrow> bool" where
  "jwt_laws ox =
     (\<forall>subject permissions i e s alg iss t.
        let payload = [(''sub'', PStr subject), (''permissions'', PList (map PStr permissions)), (''iss'', PStr iss), (''iat'', PInt i), (''exp'', PInt e)]
        in ox_decode ox s alg iss t (ox_encode ox payload s alg) = (if of_int i \<le> t \<and> t < of_int e then Some payload else None))"

text \<open>
  Claim C39 (tokens round-trip until they expire). A token created under a signing secret, for a subject and a list of
  permissions, verifies under the same secret from the second of its creation until its expiry, to exactly that
  subject and those permissions and no rate limit; from the expiry on it is refused. The expiry is the given number of
  minutes, or the configured one, after the creation, cut to a whole second.
\<close>

theorem token_roundtrip:
  assumes "jwt_laws ox" "\<And>s. ox_str ox (PStr s) = s" "truthy secret" "0 \<le> now"
    and "create_jwt_token ox t1 t2 cfg env now subject permissions minutes secret st = (Inr token, st')"
  shows "\<exists>n. (minutes = Some n \<and> n \<noteq> 0 \<or> (minutes = None \<or> minutes = Some 0) \<and> to_int (settings_get ''security.jwt.expiration_minutes'' (PInt 60) cfg) = Inr n)
       \<and> st' = st \<and> (\<forall>clock. total_seconds now 0 \<le> clock \<longrightarrow> 
            verify_jwt_token ox u1 u2 clock cfg env token secret st =
              (if clock < of_int (trunc_int (total_seconds (add_minutes now n) 0))
               then Inr \<lparr>km_name = PStr subject, km_permissions = PList (map PStr permissions), km_rate_limit = PNone, km_auth_type = ''jwt''\<rparr>
               else Inl SecurityValidationError, st))"
proof -
  obtain n where n: "minutes = Some n \<and> n \<noteq> 0 \<or> (minutes = None \<or> minutes = Some 0) \<and> to_int (settings_get ''security.jwt.expiration_minutes'' (PInt 60) cfg) = Inr n"
      and token: "st' = st" "token = ox_encode ox (jwt_payload subject permissions n now) (the secret) jwt_algorithm"
    using assms(3,5) by (auto simp: create_jwt_token_def signing_secret_def split: option.splits sum.splits if_splits)
  have iat: "of_int (trunc_int (total_seconds now 0)) \<le> total_seconds now 0"
    using assms(4) of_int_floor_le [of "total_seconds now 0"] not_less [of "total_seconds now 0" 0]
    by (simp add: trunc_int_def total_seconds_def)
  have str: "PStr \<circ> ox_str ox \<circ> PStr = PStr" using assms(2) by auto
  have "verify_jwt_token ox u1 u2 clock cfg env token secret st =
              (if clock < of_int (trunc_int (total_seconds (add_minutes now n) 0))
               then Inr \<lparr>km_name = PStr subject, km_permissions = PList (map PStr permissions), km_rate_limit = PNone, km_auth_type = ''jwt''\<rparr>
               else Inl SecurityValidationError, st)" if "total_seconds now 0 \<le> clock" for clock
  proof -
    have "ox_decode ox (the secret) jwt_algorithm jwt_issuer clock token =
        (if clock < of_int (trunc_int (total_seconds (add_minutes now n) 0)) then Some (jwt_payload subject permissions n now) else None)"
      using assms(1) [unfolded jwt_laws_def Let_def, rule_format, of "the secret" jwt_algorithm jwt_issuer clock subject permissions
          "trunc_int (total_seconds now 0)" "trunc_int (total_seconds (add_minutes now n) 0)"] iat that
      unfolding token(2) jwt_payload_def by simp
    then show ?thesis
      using assms(2,3) str by (simp add: verify_jwt_token_def signing_secret_def payload_meta_def jwt_payload_def dget_or_def pget_def o_assoc)
  qed
  then show ?thesis using n token(1) by blast
qed

text \<open>A library that satisfies the hypothesis: the token numbers the claims.\<close>

definition claims_of :: "(string, pyval) dict \<Rightarrow> string \<times> string list \<times> string \<times> int \<times> int" where
  "claims_of payload =
     (let str = (\<lambda>k. case dget_or payload k PNone of PStr s \<Rightarrow> s | _ \<Rightarrow> []); num = (\<lambda>k. case dget_or payload k PNone of PInt i \<Rightarrow> i | _ \<Rightarrow> 0)
      in (str ''sub'', case dget_or payload ''permissions'' PNone of PList ps \<Rightarrow> map (\<lambda>v. case v of PStr s \<Rightarrow> s | _ \<Rightarrow> []) ps | _ \<Rightarrow> [],
          str ''iss'', num ''iat'', num ''exp''))"

definition payload_of :: "string \<times> string list \<times> string \<times> int \<times> int \<Rightarrow> (string, pyval) dict" where
  "payload_of = (\<lambda>(sub, ps, iss, i, e).
     [(''sub'', PStr sub), (''permissions'', PList (map PStr ps)), (''iss'', PStr iss), (''iat'', PInt i), (''exp'', PInt e)])"

definition numbering_outside :: outside where
  "numbering_outside = demo_outside\<lparr>
     ox_encode := (\<lambda>payload s alg. replicate (to_nat (claims_of payload)) CHR ''x''),
     ox_decode := (\<lambda>s alg iss t token. case from_nat (length token) of (sub, ps, iss', i, e) \<Rightarrow>
        if iss' = iss \<and> of_int i \<le> t \<and> t < of_int e then Some (payload_of (sub, ps, iss', i, e)) else None)\<rparr>"

lemma numbering_jwt_laws: "jwt_laws numbering_outside"
proof -
  have "map (\<lambda>v. case v of PStr s \<Rightarrow> s | _ \<Rightarrow> []) (map PStr ps) = ps" for ps by (induction ps) auto
  then show ?thesis by (simp add: jwt_laws_def numbering_outside_def payload_of_def claims_of_def Let_def dget_or_def)
qed

lemma numbering_str: "ox_str numbering_outside (PStr s) = s"
  by (simp add: numbering_outside_def demo_outside_def)

theorem token_roundtrip_witness:
  "\<exists>token. create_jwt_token numbering_outside 0 0 (plain_settings ''dev'') [] 1000000 ''ann'' [''read''] (Some 1) (Some ''s'') new_auth_state = (Inr token, new_auth_state)
     \<and> fst (verify_jwt_token numbering_outside 0 0 60 (plain_settings ''dev'') [] token (Some ''s'') new_auth_state)
       = Inr \<lparr>km_name = PStr ''ann'', km_permissions = PList [PStr ''read''], km_rate_limit = PNone, km_auth_type = ''jwt''\<rparr>
     \<and> fst (verify_jwt_token numbering_outside 0 0 61 (plain_settings ''dev'') [] token (Some ''s'') new_auth_state) = Inl SecurityValidationError"
proof -
  define token where "token = ox_encode numbering_outside (jwt_payload ''ann'' [''read''] 1 1000000) ''s'' jwt_algorithm"
  have c: "create_jwt_token numbering_outside 0 0 (plain_settings ''dev'') [] 1000000 ''ann'' [''read''] (Some 1) (Some ''s'') new_auth_state = (Inr token, new_auth_state)"
    by (simp add: create_jwt_token_def signing_secret_def token_def)
  show ?thesis
    using token_roundtrip [OF numbering_jwt_laws numbering_str _ _ c, of 0 0] c
    by (auto simp: total_seconds_def add_minutes_def trunc_int_def)
qed

section \<open>What the guards leave open\<close>

text \<open>
  Remark (settings keys are not checked). In a managed environment without a secret of the service and without key
  variables, a single entry in the settings gives access with its permissions whatever its key, the published development
  key included: the check against development values covers only the environment variables.
\<close>

theorem settings_key_unchecked:
  assumes "managed_environment (st_environment cfg)" "st_environment cfg \<notin> {''dev'', ''test''}"
    and "\<not> py_bool (settings_get ''security.secrets_manager.api_keys_secret_id'' PNone cfg)"
    and "\<not> truthy (dget env ''RISKPULSE_API_KEYS'')" "\<not> truthy (dget env ''RISKPULSE_API_KEY'')"
    and "settings_get ''api.api_keys'' (PList []) cfg = PList [PDict e]" "dget e ''key'' = Some (PStr key)" "key \<noteq> []"
    and "py_in p (km_permissions (entry_meta e)) = Inr True"
    and "au_secrets st = Some m" "au_keys st = None" "ac_bearer c = None" "ac_api_key c = Some key"
  shows "fst (require_permission p sha256 cfg env c st) = Inr (entry_meta e)"
proof -
  have e: "coerce_api_key_entries (PList [PDict e]) = [e]"
    using assms(7,8) by (simp add: coerce_api_key_entries_def pget_def dget_or_def map_filter_def)
  have "dget_or env ''RISKPULSE_API_KEY'' [] = []"
    using assms(5) by (cases "dget env ''RISKPULSE_API_KEY''"; cases "the (dget env ''RISKPULSE_API_KEY'')") (auto simp: dget_or_def)
  then have "get_api_keys json aws show_val t1 t2 cfg env None m = (Inr [e], m)" for json aws show_val t1 t2
    using assms(3,4,6) e by (simp add: get_api_keys_def configured_id_def get_api_keys_from_environment_def)
  then have "configured_keys ox t1 t2 cfg env st = (Inr (PList [PDict e]), st\<lparr>au_secrets := Some m\<rparr>)" for ox t1 t2
    using assms(10) by (simp add: configured_keys_def with_secrets_def get_secrets_manager_def)
  moreover have "load_keys sha256 cfg (PList [PDict e]) = Inr [(sha256 key, entry_meta e)]"
    using assms(2,7) by (simp add: load_keys_def hash_key_def)
  ultimately have "verify_api_key sha256 cfg env c st = (Inr (entry_meta e, bind_auth_metadata (entry_meta e)), st\<lparr>au_secrets := Some m, au_keys := Some [(sha256 key, entry_meta e)]\<rparr>)"
    using assms(11-13) by (simp add: verify_api_key_def check_key_def get_key_manager_def validate_key_def)
  then show ?thesis using assms(9) by (simp add: require_permission_def)
qed

definition production_settings :: settings where
  "production_settings = \<lparr>st_environment = ''production'',
     st_config = PDict [(''api'', PDict [(''api_keys'', PList [PDict [(''key'', PStr dev_key), (''permissions'', PList [PStr ''admin''])]])])]\<rparr>"

theorem settings_key_unchecked_witness:
  "fst (require_permission ''admin'' id production_settings [] (key_call dev_key) (new_auth_state\<lparr>au_secrets := Some demo_manager\<rparr>))
   = Inr (entry_meta [(''key'', PStr dev_key), (''permissions'', PList [PStr ''admin''])])"
proof (rule settings_key_unchecked)
  show "managed_environment (st_environment production_settings)" by code_simp
  show "st_environment production_settings \<notin> {''dev'', ''test''}" by code_simp
  show "\<not> py_bool (settings_get ''security.secrets_manager.api_keys_secret_id'' PNone production_settings)" by code_simp
  show "settings_get ''api.api_keys'' (PList []) production_settings = PList [PDict [(''key'', PStr dev_key), (''permissions'', PList [PStr ''admin''])]]"
    by code_simp
qed (simp_all add: dev_key_def py_in_def entry_meta_def dget_or_def new_auth_state_def key_call_def)

text \<open>A request that tries an API key, before any authentication.\<close>

definition guess :: "string \<Rightarrow> request" where
  "guess key = \<lparr>rq_path = ''/api/v1/score'', rq_state_name = None, rq_state_rate = None, rq_api_key = Some key, rq_authorization = None, rq_client_host = Some ''h''\<rparr>"

lemma guess_key: "key \<noteq> [] \<Longrightarrow> get_rate_limit_key sha256 (guess key) = ''apikey_hash:'' @ take 24 (sha256 key)"
  by (auto simp: get_rate_limit_key_def guess_def neq_Nil_conv)

lemma guess_step:
  assumes laws: "sorted_set_laws ops scores" and inv: "redis_inv scores uid l st" and "inj uid" and l: "\<not> rl_fail_open l" "0 \<le> rl_window_seconds l" "0 < rl_default_rate l"
    and new: "key \<noteq> []" "rate_of key = PNone" "scores (snd (fst st)) (redis_key (''apikey_hash:'' @ take 24 (sha256 key))) = []"
    and step: "web_step sha256 rate_of ops rate uid st t (guess key, Answers) = (ok, st')"
  shows "ok" and "redis_inv scores uid l st'"
    and "j \<noteq> redis_key (''apikey_hash:'' @ take 24 (sha256 key)) \<Longrightarrow> scores (snd (fst st')) j = scores (snd (fst st)) j"
proof -
  let ?k = "''apikey_hash:'' @ take 24 (sha256 key)"
  have st: "fst (fst st) = InRedis l" using inv by (simp add: redis_inv_def)
  have m: "uid (snd st) \<notin> fst ` set (scores (snd (fst st)) (redis_key ?k))" using new(3) by simp
  obtain r s' where call: "redis_is_allowed ops l Answers (uid (snd st)) t ?k None (snd (fst st)) = (r, s')" by fastforce
  have "get_custom_rate rate_of (guess key) = Inr None" "rq_path (guess key) \<notin> set exempt_paths"
    using new(1,2) by (auto simp: get_custom_rate_def guess_def int_or_none_def exempt_paths_def)
  then have e: "ok = fst r" "st' = ((InRedis l, s'), Suc (snd st))"
    using step web_step_call [OF st, of "(guess key, Answers)" rate_of None sha256 ops rate uid t] call guess_key [OF new(1), of sha256] by simp_all
  have "z_card ops (redis_key ?k) (z_remrangebyscore ops (redis_key ?k) 0 (t - of_int (rl_window_seconds l)) (snd (fst st))) = 0"
    using laws new(3) by (simp add: sorted_set_laws_def)
  then show ok using call l(3) unfolding e(1) by (auto simp: redis_is_allowed_def Let_def rate_or_def)
  show o: "scores (snd (fst st')) j = scores (snd (fst st)) j" if "j \<noteq> redis_key ?k" for j
    using redis_call(3) [OF laws m l(1,2) call that] e(2) by simp
  have "fst ` set (scores s' j) \<subseteq> insert (uid (snd st)) (fst ` set (scores (snd (fst st)) j))" for j
    using redis_call(2) [OF laws m l(1,2) call] o [of j] e(2) new(3) by (cases "j = redis_key ?k") (auto simp: unexpired_def)
  then show "redis_inv scores uid l st'" using redis_inv_step [OF inv] unfolding e(2) by simp
qed

text \<open>
  Remark (guessed keys are not limited). In a managed environment, with Redis answering, a client that sends any
  number of requests at any times, each with another invalid API key, is never refused by the rate limiter: it counts
  the requests under the digest of the unverified header, and only without the headers under the address.
\<close>

theorem guessed_keys_unlimited:
  assumes "sorted_set_laws ops scores" "inj uid" "scores s = (\<lambda>_. [])"
    and "managed_environment env" "0 < rate"
    and "\<forall>k \<in> set keys. k \<noteq> [] \<and> validate_key sha256 ks k = None" "distinct (map (\<lambda>k. take 24 (sha256 k)) keys)"
    and "rate_of = (\<lambda>k. case validate_key sha256 ks k of None \<Rightarrow> PNone | Some km \<Rightarrow> km_rate_limit km)"
    and "es = zip ts (map (\<lambda>k. (guess k, Answers)) keys)"
  shows "run_accepted (web_step sha256 rate_of ops rate uid) ((new_limiter env client rate burst, s), 0) es = es"
proof -
  define l where "l = \<lparr>rl_default_rate = rate, rl_window_seconds = 60, rl_fail_open = False\<rparr>"
  have l: "new_limiter env client rate burst = InRedis l" "\<not> rl_fail_open l" "0 \<le> rl_window_seconds l" "0 < rl_default_rate l"
    using assms(4,5) by (auto simp: new_limiter_def l_def)
  have run: "run_accepted (web_step sha256 rate_of ops rate uid) st (zip ts (map (\<lambda>k. (guess k, Answers)) keys)) = zip ts (map (\<lambda>k. (guess k, Answers)) keys)"
    if "redis_inv scores uid l st" "distinct (map (\<lambda>k. take 24 (sha256 k)) keys)" "\<forall>k \<in> set keys. k \<noteq> [] \<and> rate_of k = PNone"
      "\<forall>k \<in> set keys. scores (snd (fst st)) (redis_key (''apikey_hash:'' @ take 24 (sha256 k))) = []" for st
    using that
  proof (induction keys arbitrary: st ts)
    case (Cons k keys)
    show ?case
    proof (cases ts)
      case (Cons t ts')
      obtain ok st' where step: "web_step sha256 rate_of ops rate uid st t (guess k, Answers) = (ok, st')" by (rule prod.exhaust)
      note g = guess_step [OF assms(1) Cons.prems(1) assms(2) l(2-4) _ _ _ step]
      have ok: ok and inv: "redis_inv scores uid l st'" using g(1,2) Cons.prems(3,4) by auto
      have "\<forall>k' \<in> set keys. scores (snd (fst st')) (redis_key (''apikey_hash:'' @ take 24 (sha256 k'))) = []"
      proof
        fix k' assume k': "k' \<in> set keys"
        have "take 24 (sha256 k') \<noteq> take 24 (sha256 k)"
          using Cons.prems(2) imageI [OF k', of "\<lambda>k. take 24 (sha256 k)"] by auto
        then have "redis_key (''apikey_hash:'' @ take 24 (sha256 k')) \<noteq> redis_key (''apikey_hash:'' @ take 24 (sha256 k))" by simp
        then show "scores (snd (fst st')) (redis_key (''apikey_hash:'' @ take 24 (sha256 k'))) = []"
          using g(3) [of "redis_key (''apikey_hash:'' @ take 24 (sha256 k'))"] Cons.prems(3,4) k' by simp
      qed
      then show ?thesis using Cons.IH [OF inv] Cons.prems(2,3) step ok Cons by simp
    qed simp
  qed simp
  show ?thesis unfolding assms(9) l(1)
    using assms(3,6,7,8) by (intro run) (auto simp: redis_inv_def)
qed

theorem guessed_keys_unlimited_witness:
  "run_accepted (web_step id (\<lambda>k. case validate_key id [] k of None \<Rightarrow> PNone | Some km \<Rightarrow> km_rate_limit km) dict_redis 1 (\<lambda>n. replicate n CHR ''x''))
     ((new_limiter ''prod'' False 1 0, (\<lambda>_. [])), 0) (zip [0, 0, 0] (map (\<lambda>k. (guess k, Answers)) [''a'', ''b'', ''c'']))
   = zip [0, 0, 0] (map (\<lambda>k. (guess k, Answers)) [''a'', ''b'', ''c''])"
proof (rule guessed_keys_unlimited [where ks = "[]" and keys = "[''a'', ''b'', ''c'']" and ts = "[0, 0, 0]"])
  show "sorted_set_laws dict_redis (\<lambda>s. s)" by (simp add: sorted_set_laws_def dict_redis_def)
  show "inj (\<lambda>n. replicate n CHR ''x'')" by (simp add: inj_def)
  show "managed_environment ''prod''" by (simp add: managed_environment_def ascii_lower_def)
qed (simp_all add: validate_key_def)

end
