(* ===== verification/Model_Registry.thy ===== *)
theory Model_Registry
  imports Py_Text "HOL-Library.List_Lexorder" "HOL-Library.Char_ord"
begin

text \<open>
  The model registry of \<^verbatim>\<open>src/fraud_detection/model_registry.py\<close> and the artifact signatures of
  \<^verbatim>\<open>src/fraud_detection/artifact_security.py\<close>: semantic versions, metadata, registration, promotion,
  rollback, A/B tests and their assignment, and the registry file.

  Time stamps are the ISO strings the code stores; it compares them as strings. A reading of the clock
  is an argument. The file system is a map from paths to contents; the hash, the message
  authentication code and the unpickling are arguments. The registry file holds the value that was
  written last.
\<close>

section \<open>Semantic versions\<close>

datatype model_version = ModelVersion (mv_major: int) (mv_minor: int) (mv_patch: int)

definition version_triple :: "model_version \<Rightarrow> int \<times> int \<times> int" where
  "version_triple v = (mv_major v, mv_minor v, mv_patch v)"

text \<open>\<^verbatim>\<open>__lt__\<close> compares the triples.\<close>

fun version_less :: "model_version \<Rightarrow> model_version \<Rightarrow> bool" where
  "version_less (ModelVersion a b c) (ModelVersion a' b' c') = (a < a' \<or> a = a' \<and> (b < b' \<or> b = b' \<and> c < c'))"

instantiation model_version :: linorder
begin

definition less_model_version :: "model_version \<Rightarrow> model_version \<Rightarrow> bool" where
  "less_model_version v w = version_less v w"

definition less_eq_model_version :: "model_version \<Rightarrow> model_version \<Rightarrow> bool" where
  "less_eq_model_version v w = (v = w \<or> version_less v w)"

instance
  by standard (auto simp: less_model_version_def less_eq_model_version_def elim!: version_less.elims)

end

definition version_str :: "model_version \<Rightarrow> string" where
  "version_str v = int_str (mv_major v) @ ''.'' @ int_str (mv_minor v) @ ''.'' @ int_str (mv_patch v)"

definition py_int :: "string \<Rightarrow> int res" where
  "py_int s = (case int_of_str s of None \<Rightarrow> Inl ValueError | Some i \<Rightarrow> Inr i)"

definition parse_version :: "string \<Rightarrow> model_version res" where
  "parse_version s =
     (case split_at CHR ''.'' (strip s) of
        [a, b, c] \<Rightarrow>
          res_bind (py_int a) (\<lambda>x. res_bind (py_int b) (\<lambda>y. res_bind (py_int c) (\<lambda>z. Inr (ModelVersion x y z))))
      | _ \<Rightarrow> Inl ValueError)"

fun bump_major :: "model_version \<Rightarrow> model_version" where
  "bump_major (ModelVersion a b c) = ModelVersion (a + 1) 0 0"

fun bump_minor :: "model_version \<Rightarrow> model_version" where
  "bump_minor (ModelVersion a b c) = ModelVersion a (b + 1) 0"

fun bump_patch :: "model_version \<Rightarrow> model_version" where
  "bump_patch (ModelVersion a b c) = ModelVersion a b (c + 1)"

section \<open>Metadata\<close>

datatype model_stage = DEVELOPMENT | STAGING | PRODUCTION | ARCHIVED

fun stage_value :: "model_stage \<Rightarrow> string" where
  "stage_value DEVELOPMENT = ''development''"
| "stage_value STAGING = ''staging''"
| "stage_value PRODUCTION = ''production''"
| "stage_value ARCHIVED = ''archived''"

definition stage_of :: "string \<Rightarrow> model_stage res" where
  "stage_of s =
     (if s = ''development'' then Inr DEVELOPMENT else if s = ''staging'' then Inr STAGING
      else if s = ''production'' then Inr PRODUCTION else if s = ''archived'' then Inr ARCHIVED else Inl ValueError)"

datatype model_status = M_ACTIVE | M_INACTIVE | M_FAILED | M_LOADING

fun m_status_value :: "model_status \<Rightarrow> string" where
  "m_status_value M_ACTIVE = ''active''"
| "m_status_value M_INACTIVE = ''inactive''"
| "m_status_value M_FAILED = ''failed''"
| "m_status_value M_LOADING = ''loading''"

definition m_status_of :: "string \<Rightarrow> model_status res" where
  "m_status_of s =
     (if s = ''active'' then Inr M_ACTIVE else if s = ''inactive'' then Inr M_INACTIVE
      else if s = ''failed'' then Inr M_FAILED else if s = ''loading'' then Inr M_LOADING else Inl ValueError)"

record model_metadata =
  mm_name :: string
  mm_version :: string
  mm_stage :: model_stage
  mm_status :: model_status
  mm_artifact_path :: string
  mm_model_type :: string
  mm_created_at :: string
  mm_updated_at :: string
  mm_metrics :: "(string, pyval) dict"
  mm_parameters :: "(string, pyval) dict"
  mm_tags :: "(string, pyval) dict"
  mm_description :: string
  mm_artifact_hash :: string
  mm_feature_names :: "string list"
  mm_training_dataset :: string
  mm_parent_version :: "string option"

definition metadata_to_dict :: "model_metadata \<Rightarrow> (string, pyval) dict" where
  "metadata_to_dict x =
    [(''name'', PStr (mm_name x)), (''version'', PStr (mm_version x)), (''stage'', PStr (stage_value (mm_stage x))),
     (''status'', PStr (m_status_value (mm_status x))), (''artifact_path'', PStr (mm_artifact_path x)),
     (''model_type'', PStr (mm_model_type x)), (''created_at'', PStr (mm_created_at x)),
     (''updated_at'', PStr (mm_updated_at x)), (''metrics'', PDict (mm_metrics x)),
     (''parameters'', PDict (mm_parameters x)), (''tags'', PDict (mm_tags x)),
     (''description'', PStr (mm_description x)), (''artifact_hash'', PStr (mm_artifact_hash x)),
     (''feature_names'', PList (map PStr (mm_feature_names x))), (''training_dataset'', PStr (mm_training_dataset x)),
     (''parent_version'', (case mm_parent_version x of None \<Rightarrow> PNone | Some v \<Rightarrow> PStr v))]"

definition metadata_from_dict :: "(string, pyval) dict \<Rightarrow> model_metadata res" where
  "metadata_from_dict d =
    res_bind (req_str d ''name'') (\<lambda>nm.
    res_bind (req_str d ''version'') (\<lambda>ver.
    res_bind (res_bind (req_str d ''stage'') stage_of) (\<lambda>stg.
    res_bind (res_bind (req_str d ''status'') m_status_of) (\<lambda>sts.
    res_bind (req_str d ''artifact_path'') (\<lambda>path.
    res_bind (req_str d ''model_type'') (\<lambda>ty.
    res_bind (as_str (dget_or d ''created_at'' (PStr []))) (\<lambda>cat.
    res_bind (as_str (dget_or d ''updated_at'' (PStr []))) (\<lambda>uat.
    res_bind (as_dict (dget_or d ''metrics'' (PDict []))) (\<lambda>met.
    res_bind (as_dict (dget_or d ''parameters'' (PDict []))) (\<lambda>par.
    res_bind (as_dict (dget_or d ''tags'' (PDict []))) (\<lambda>tgs.
    res_bind (as_str (dget_or d ''description'' (PStr []))) (\<lambda>des.
    res_bind (as_str (dget_or d ''artifact_hash'' (PStr []))) (\<lambda>ha.
    res_bind (as_str_list (dget_or d ''feature_names'' (PList []))) (\<lambda>fns.
    res_bind (as_str (dget_or d ''training_dataset'' (PStr []))) (\<lambda>tds.
    res_bind (as_opt_str (pget d ''parent_version'')) (\<lambda>pv.
    Inr \<lparr>mm_name = nm, mm_version = ver, mm_stage = stg, mm_status = sts, mm_artifact_path = path,
         mm_model_type = ty, mm_created_at = cat, mm_updated_at = uat, mm_metrics = met, mm_parameters = par,
         mm_tags = tgs, mm_description = des, mm_artifact_hash = ha, mm_feature_names = fns,
         mm_training_dataset = tds, mm_parent_version = pv\<rparr>))))))))))))))))"

section \<open>Artifact signatures\<close>

text \<open>Files as their contents; the environment variables \<^verbatim>\<open>RISKPULSE_MODEL_SIGNING_KEY\<close> and \<^verbatim>\<open>RISKPULSE_ENV\<close>.\<close>

type_synonym files = "string \<rightharpoonup> string"

record sign_env =
  se_key :: string
  se_env :: string

definition signing_key :: "sign_env \<Rightarrow> string option res" where
  "signing_key e =
     (if se_key e \<noteq> [] then (if length (se_key e) < 32 then Inl ValueError else Inr (Some (se_key e)))
      else if managed_environment (se_env e) then Inl RuntimeError
      else Inr None)"

definition model_file :: "string \<Rightarrow> string" where
  "model_file artifact_path = artifact_path @ ''/model.joblib''"

definition sig_file :: "string \<Rightarrow> string" where
  "sig_file path = path @ ''.sig''"

definition signature :: "(string \<Rightarrow> string \<Rightarrow> string) \<Rightarrow> string \<Rightarrow> string \<Rightarrow> string" where
  "signature hmac data key = hmac key (''model.joblib'' @ [CHR 0x00] @ data)"

definition sign_model_artifact :: "(string \<Rightarrow> string \<Rightarrow> string) \<Rightarrow> sign_env \<Rightarrow> string \<Rightarrow> files \<Rightarrow> unit res \<times> files" where
  "sign_model_artifact hmac e path fs =
     (case signing_key e of
        Inl ex \<Rightarrow> (Inl ex, fs)
      | Inr None \<Rightarrow> (Inr (), fs)
      | Inr (Some key) \<Rightarrow>
          (case fs path of
             None \<Rightarrow> (Inl FileNotFoundError, fs)
           | Some data \<Rightarrow> (Inr (), fs(sig_file path \<mapsto> signature hmac data key))))"

text \<open>\<open>unpickle\<close> is \<^verbatim>\<open>joblib.load\<close>.\<close>

definition load_model_artifact ::
  "(string \<Rightarrow> string \<Rightarrow> string) \<Rightarrow> (string \<Rightarrow> 'm res) \<Rightarrow> sign_env \<Rightarrow> string \<Rightarrow> files \<Rightarrow> 'm res" where
  "load_model_artifact hmac unpickle e path fs =
     res_bind (signing_key e) (\<lambda>key.
       case key of
         None \<Rightarrow>
           if fs (sig_file path) \<noteq> None then Inl RuntimeError
           else (case fs path of None \<Rightarrow> Inl FileNotFoundError | Some data \<Rightarrow> unpickle data)
       | Some k \<Rightarrow>
           (case fs path of
              None \<Rightarrow> Inl FileNotFoundError
            | Some data \<Rightarrow>
                (case fs (sig_file path) of
                   None \<Rightarrow> Inl ValueError
                 | Some expected \<Rightarrow> if strip expected = signature hmac data k then unpickle data else Inl ValueError)))"

definition default_model_loader ::
  "(string \<Rightarrow> string \<Rightarrow> string) \<Rightarrow> (string \<Rightarrow> 'm res) \<Rightarrow> sign_env \<Rightarrow> files \<Rightarrow> string \<Rightarrow> 'm res" where
  "default_model_loader hmac unpickle e fs artifact_path =
     (if fs (model_file artifact_path) = None then Inl FileNotFoundError
      else load_model_artifact hmac unpickle e (model_file artifact_path) fs)"

section \<open>The registry\<close>

record ab_test =
  ab_name :: string
  ab_model_a_version :: string
  ab_model_b_version :: string
  ab_traffic_split :: real
  ab_sticky_assignment :: bool
  ab_start_time :: string
  ab_end_time :: "string option"
  ab_is_active :: bool
  ab_metrics_a :: "(string, pyval) dict"
  ab_metrics_b :: "(string, pyval) dict"

record promotion =
  pr_name :: string
  pr_version :: string
  pr_from_stage :: model_stage
  pr_to_stage :: model_stage
  pr_promoted_by :: string
  pr_timestamp :: string
  pr_rollback :: bool

type_synonym versions = "(string, model_metadata) dict"

record registry_data =
  rd_models :: "(string, versions) dict"
  rd_ab_tests :: "(string, ab_test) dict"
  rd_promotion_history :: "promotion list"

record registry =
  rg_registry :: registry_data
  rg_file :: "registry_data option"

definition empty_registry :: registry_data where
  "empty_registry = \<lparr>rd_models = [], rd_ab_tests = [], rd_promotion_history = []\<rparr>"

definition load_registry :: "registry_data option \<Rightarrow> registry_data" where
  "load_registry file = (case file of Some d \<Rightarrow> d | None \<Rightarrow> empty_registry)"

definition new_registry :: "registry_data option \<Rightarrow> registry" where
  "new_registry file = \<lparr>rg_registry = load_registry file, rg_file = file\<rparr>"

definition save_registry :: "registry \<Rightarrow> registry" where
  "save_registry r = r\<lparr>rg_file := Some (rg_registry r)\<rparr>"

abbreviation rg_models :: "registry \<Rightarrow> (string, versions) dict" where
  "rg_models r \<equiv> rd_models (rg_registry r)"

definition put_versions :: "string \<Rightarrow> versions \<Rightarrow> registry \<Rightarrow> registry" where
  "put_versions name vs r = r\<lparr>rg_registry := (rg_registry r)\<lparr>rd_models := dset name vs (rg_models r)\<rparr>\<rparr>"

definition log_promotion :: "promotion \<Rightarrow> registry \<Rightarrow> registry" where
  "log_promotion p r =
     r\<lparr>rg_registry := (rg_registry r)\<lparr>rd_promotion_history := rd_promotion_history (rg_registry r) @ [p]\<rparr>\<rparr>"

text \<open>The files below an artifact directory in the order of their paths, as name and size; none when it does not exist.\<close>

definition compute_artifact_hash :: "(string \<Rightarrow> string) \<Rightarrow> (string \<times> nat) list option \<Rightarrow> string" where
  "compute_artifact_hash sha256 dir =
     (case dir of None \<Rightarrow> [] | Some fs \<Rightarrow> take 16 (sha256 (concat (map (\<lambda>(name, size). name @ nat_str size) fs))))"

text \<open>
  The arguments of \<^verbatim>\<open>register_model\<close>; an absent dictionary or list counts as empty.
\<close>

record model_args =
  ma_name :: string
  ma_version :: string
  ma_artifact_path :: string
  ma_model_type :: string
  ma_metrics :: "(string, pyval) dict option"
  ma_parameters :: "(string, pyval) dict option"
  ma_tags :: "(string, pyval) dict option"
  ma_description :: string
  ma_feature_names :: "string list option"
  ma_training_dataset :: string
  ma_parent_version :: "string option"

definition or_empty :: "'a list option \<Rightarrow> 'a list" where
  "or_empty x = (case x of None \<Rightarrow> [] | Some xs \<Rightarrow> xs)"

definition new_metadata :: "string \<Rightarrow> string \<Rightarrow> string \<Rightarrow> model_args \<Rightarrow> model_metadata" where
  "new_metadata artifact_hash created updated a =
     \<lparr>mm_name = ma_name a, mm_version = ma_version a, mm_stage = DEVELOPMENT, mm_status = M_INACTIVE,
      mm_artifact_path = ma_artifact_path a, mm_model_type = ma_model_type a, mm_created_at = created,
      mm_updated_at = updated, mm_metrics = or_empty (ma_metrics a), mm_parameters = or_empty (ma_parameters a),
      mm_tags = or_empty (ma_tags a), mm_description = ma_description a, mm_artifact_hash = artifact_hash,
      mm_feature_names = or_empty (ma_feature_names a), mm_training_dataset = ma_training_dataset a,
      mm_parent_version = ma_parent_version a\<rparr>"

text \<open>
  \<open>sign\<close> is \<^verbatim>\<open>sign_model_artifact\<close> on the artifact, \<open>hash\<close> its \<^verbatim>\<open>_compute_artifact_hash\<close>. The entry of a new
  name is made before the checks that may raise, and is saved only with the model.
\<close>

definition register_model ::
  "(string \<Rightarrow> 'f \<Rightarrow> unit res \<times> 'f) \<Rightarrow> (string \<Rightarrow> 'f \<Rightarrow> string) \<Rightarrow> string \<Rightarrow> string \<Rightarrow> model_args
   \<Rightarrow> registry \<times> 'f \<Rightarrow> model_metadata res \<times> registry \<times> 'f" where
  "register_model sign hash created updated a st =
     (case parse_version (ma_version a) of
        Inl ex \<Rightarrow> (Inl ex, st)
      | Inr v \<Rightarrow>
          (let r = fst st; fs = snd st;
               vs = (case dget (rg_models r) (ma_name a) of Some vs \<Rightarrow> vs | None \<Rightarrow> []);
               r1 = put_versions (ma_name a) vs r
           in if dget vs (ma_version a) \<noteq> None then (Inl ValueError, r1, fs)
              else (case sign (model_file (ma_artifact_path a)) fs of
                      (Inl ex, fs1) \<Rightarrow> (Inl ex, r1, fs1)
                    | (Inr u, fs1) \<Rightarrow>
                        (let md = new_metadata (hash (ma_artifact_path a) fs1) created updated a
                         in (Inr md, save_registry (put_versions (ma_name a) (dset (ma_version a) md vs) r1), fs1)))))"

definition get_model_metadata :: "string \<Rightarrow> string \<Rightarrow> registry \<Rightarrow> model_metadata res" where
  "get_model_metadata name version r =
     (case dget (rg_models r) name of
        None \<Rightarrow> Inl KeyError
      | Some vs \<Rightarrow> (case dget vs version of None \<Rightarrow> Inl KeyError | Some md \<Rightarrow> Inr md))"

text \<open>An empty name does not filter.\<close>

definition list_models :: "string option \<Rightarrow> model_stage option \<Rightarrow> registry \<Rightarrow> model_metadata list" where
  "list_models name stage r =
     concat (map (\<lambda>(n, vs).
        if truthy name \<and> name \<noteq> Some n then []
        else filter (\<lambda>md. case stage of None \<Rightarrow> True | Some s \<Rightarrow> mm_stage md = s) (map snd vs)) (rg_models r))"

text \<open>
  \<^verbatim>\<open>models.sort(key=ModelVersion.parse); models[-1]\<close>: every version is parsed, and the last of the stable
  sort is returned.
\<close>

fun parse_versions :: "model_metadata list \<Rightarrow> (model_version \<times> model_metadata) list res" where
  "parse_versions [] = Inr []"
| "parse_versions (md # mds) =
     res_bind (parse_version (mm_version md)) (\<lambda>v. res_bind (parse_versions mds) (\<lambda>rest. Inr ((v, md) # rest)))"

definition latest :: "model_metadata list \<Rightarrow> model_metadata option res" where
  "latest mds =
     (if mds = [] then Inr None else res_bind (parse_versions mds) (\<lambda>xs. Inr (Some (snd (last (sort_key fst xs))))))"

definition get_production_model :: "string \<Rightarrow> registry \<Rightarrow> model_metadata option res" where
  "get_production_model name r = latest (list_models (Some name) (Some PRODUCTION) r)"

definition get_latest_version :: "string \<Rightarrow> registry \<Rightarrow> model_metadata option res" where
  "get_latest_version name r = latest (list_models (Some name) None r)"

definition restage :: "model_stage \<Rightarrow> string \<Rightarrow> model_metadata \<Rightarrow> model_metadata" where
  "restage stage now md = md\<lparr>mm_stage := stage, mm_updated_at := now\<rparr>"

definition activate :: "model_stage \<Rightarrow> string \<Rightarrow> model_metadata \<Rightarrow> model_metadata" where
  "activate stage now md = md\<lparr>mm_stage := stage, mm_status := M_ACTIVE, mm_updated_at := now\<rparr>"

text \<open>The loop that archives the production versions other than the promoted one; \<open>clock\<close> gives its readings.\<close>

definition archive_others :: "(string \<Rightarrow> string) \<Rightarrow> string \<Rightarrow> versions \<Rightarrow> versions" where
  "archive_others clock version vs =
     map (\<lambda>(ver, md). (ver, if mm_stage md = PRODUCTION \<and> ver \<noteq> version then restage ARCHIVED (clock ver) md else md)) vs"

definition promote_model ::
  "(string \<Rightarrow> string) \<Rightarrow> string \<Rightarrow> string \<Rightarrow> string \<Rightarrow> string \<Rightarrow> model_stage \<Rightarrow> string \<Rightarrow> registry \<Rightarrow> model_metadata res \<times> registry" where
  "promote_model clock updated stamp name version target promoted_by r =
     (case dget (rg_models r) name of
        None \<Rightarrow> (Inl KeyError, r)
      | Some vs \<Rightarrow>
          (case dget vs version of
             None \<Rightarrow> (Inl KeyError, r)
           | Some entry \<Rightarrow>
               (let vs1 = (if target = PRODUCTION then archive_others clock version vs else vs);
                    entry1 = activate target updated entry;
                    p = \<lparr>pr_name = name, pr_version = version, pr_from_stage = mm_stage entry, pr_to_stage = target,
                         pr_promoted_by = promoted_by, pr_timestamp = stamp, pr_rollback = False\<rparr>
                in (Inr entry1, save_registry (log_promotion p (put_versions name (dset version entry1 vs1) r))))))"

text \<open>\<^verbatim>\<open>list.sort(key, reverse=True)\<close> keeps the order of equal elements.\<close>

definition sort_reverse :: "('a \<Rightarrow> 'k :: linorder) \<Rightarrow> 'a list \<Rightarrow> 'a list" where
  "sort_reverse key xs = rev (sort_key key (rev xs))"

definition current_production :: "versions \<Rightarrow> string option" where
  "current_production vs =
     (case filter (\<lambda>(ver, md). mm_stage md = PRODUCTION) vs of [] \<Rightarrow> None | xs \<Rightarrow> Some (fst (last xs)))"

definition archived_versions :: "versions \<Rightarrow> (string \<times> string) list" where
  "archived_versions vs = map (\<lambda>(ver, md). (ver, mm_updated_at md)) (filter (\<lambda>(ver, md). mm_stage md = ARCHIVED) vs)"

definition restore_version :: "versions \<Rightarrow> string" where
  "restore_version vs = fst (hd (sort_reverse snd (archived_versions vs)))"

definition archive_current :: "string \<Rightarrow> versions \<Rightarrow> versions" where
  "archive_current now vs =
     (if truthy (current_production vs)
      then (case dget vs (the (current_production vs)) of
              None \<Rightarrow> vs | Some md \<Rightarrow> dset (the (current_production vs)) (restage ARCHIVED now md) vs)
      else vs)"

definition rollback_model ::
  "string \<Rightarrow> string \<Rightarrow> string \<Rightarrow> string \<Rightarrow> string \<Rightarrow> registry \<Rightarrow> model_metadata option res \<times> registry" where
  "rollback_model archived restored stamp name promoted_by r =
     (case dget (rg_models r) name of
        None \<Rightarrow> (Inl KeyError, r)
      | Some vs \<Rightarrow>
          if archived_versions vs = [] then (Inr None, r)
          else (let restore = restore_version vs; vs1 = archive_current archived vs
                in (case dget vs1 restore of
                      None \<Rightarrow> (Inl KeyError, put_versions name vs1 r)
                    | Some entry \<Rightarrow>
                        (let entry1 = activate PRODUCTION restored entry;
                             p = \<lparr>pr_name = name, pr_version = restore, pr_from_stage = ARCHIVED, pr_to_stage = PRODUCTION,
                                  pr_promoted_by = promoted_by, pr_timestamp = stamp, pr_rollback = True\<rparr>
                         in (Inr (Some entry1), save_registry (log_promotion p (put_versions name (dset restore entry1 vs1) r)))))))"

section \<open>A/B tests\<close>

definition put_ab_test :: "string \<Rightarrow> ab_test \<Rightarrow> registry \<Rightarrow> registry" where
  "put_ab_test test t r = r\<lparr>rg_registry := (rg_registry r)\<lparr>rd_ab_tests := dset test t (rd_ab_tests (rg_registry r))\<rparr>\<rparr>"

definition create_ab_test ::
  "string \<Rightarrow> string \<Rightarrow> string \<Rightarrow> string \<Rightarrow> string \<Rightarrow> real \<Rightarrow> bool \<Rightarrow> registry \<Rightarrow> ab_test res \<times> registry" where
  "create_ab_test now test model version_a version_b split sticky r =
     (if \<not> (0 \<le> split \<and> split \<le> 1) then (Inl ValueError, r)
      else (case dget (rg_models r) model of
              None \<Rightarrow> (Inl KeyError, r)
            | Some vs \<Rightarrow>
                if dget vs version_a = None \<or> dget vs version_b = None then (Inl KeyError, r)
                else (let t = \<lparr>ab_name = test, ab_model_a_version = version_a, ab_model_b_version = version_b,
                               ab_traffic_split = split, ab_sticky_assignment = sticky, ab_start_time = now,
                               ab_end_time = None, ab_is_active = True, ab_metrics_a = [], ab_metrics_b = []\<rparr>
                      in (Inr t, save_registry (put_ab_test test t r)))))"

definition get_ab_test :: "string \<Rightarrow> registry \<Rightarrow> ab_test option" where
  "get_ab_test test r = dget (rd_ab_tests (rg_registry r)) test"

definition end_ab_test :: "string \<Rightarrow> string \<Rightarrow> registry \<Rightarrow> ab_test option \<times> registry" where
  "end_ab_test now test r =
     (case get_ab_test test r of
        None \<Rightarrow> (None, r)
      | Some t \<Rightarrow> (let t1 = t\<lparr>ab_is_active := False, ab_end_time := Some now\<rparr>
                   in (Some t1, save_registry (put_ab_test test t1 r))))"

text \<open>\<open>hash_int\<close> is the hash as a number, \<open>rand\<close> the random draw of a test without sticky assignment.\<close>

definition ab_position :: "(string \<Rightarrow> nat) \<Rightarrow> real \<Rightarrow> bool \<Rightarrow> string \<Rightarrow> string \<Rightarrow> real" where
  "ab_position hash_int rand sticky test user =
     (if sticky then real (hash_int (test @ '':'' @ user) mod 10000) / 10000 else rand)"

definition resolve_ab_assignment ::
  "(string \<Rightarrow> nat) \<Rightarrow> real \<Rightarrow> string \<Rightarrow> string \<Rightarrow> registry \<Rightarrow> string res" where
  "resolve_ab_assignment hash_int rand test user r =
     (case get_ab_test test r of
        None \<Rightarrow> Inl ValueError
      | Some t \<Rightarrow>
          if \<not> ab_is_active t then Inl ValueError
          else Inr (if ab_position hash_int rand (ab_sticky_assignment t) test user < ab_traffic_split t
                    then ab_model_b_version t else ab_model_a_version t))"

definition get_promotion_history :: "string option \<Rightarrow> registry \<Rightarrow> promotion list" where
  "get_promotion_history name r =
     (if truthy name then filter (\<lambda>p. Some (pr_name p) = name) (rd_promotion_history (rg_registry r))
      else rd_promotion_history (rg_registry r))"

end
