(* ===== verification/Model_Registry_Properties.thy ===== *)
theory Model_Registry_Properties
  imports Model_Registry
begin

text \<open>
  Versions and metadata survive printing and parsing; the stages of a registry are determined by its
  promotion history, of which the registry is shown to be a refinement; at most one version is in
  production; a rollback undoes a promotion; signed artifacts load and changed ones do not.
\<close>

declare map_of_eq_Some_iff [simp del] Some_eq_map_of_iff [simp del]

section \<open>Printing and parsing of versions\<close>

text \<open>
  Remark (versions survive printing): reading the printed form of a version gives the version, and the
  three bumps give a later one.
\<close>

theorem version_roundtrip:
  "parse_version (version_str v) = Inr v \<and> v < bump_patch v \<and> bump_patch v < bump_minor v \<and> bump_minor v < bump_major v"
proof -
  have s: "strip (version_str v) = version_str v"
    by (rule strip_id) (use int_str_chars in \<open>auto simp: version_str_def is_space_def Let_def\<close>)
  have "split_at CHR ''.'' (version_str v) = [int_str (mv_major v), int_str (mv_minor v), int_str (mv_patch v)]"
    unfolding version_str_def using int_str_chars
    by (simp add: split_at_append split_at_none)
  then have "parse_version (version_str v) = Inr v"
    unfolding parse_version_def s by (simp add: py_int_def int_of_int_str)
  then show ?thesis by (cases v) (simp add: less_model_version_def)
qed

text \<open>Remark (metadata survives serialisation): reading back the serialised metadata gives the metadata.\<close>

theorem metadata_roundtrip: "metadata_from_dict (metadata_to_dict x) = Inr x"
proof -
  have "stage_of (stage_value s) = Inr s" for s by (cases s) (simp_all add: stage_of_def)
  moreover have "m_status_of (m_status_value s) = Inr s" for s by (cases s) (simp_all add: m_status_of_def)
  ultimately show ?thesis
    by (simp add: metadata_from_dict_def metadata_to_dict_def req_str_def pindex_def dget_or_def pget_def
        split: option.split)
qed

section \<open>Stages\<close>

text \<open>
  The abstract registry: the stage of every version of every model, which a promotion changes and
  nothing else does. A version that was never promoted is in development.
\<close>

type_synonym stages = "string \<Rightarrow> string \<Rightarrow> model_stage"

definition apply_promotion :: "promotion \<Rightarrow> stages \<Rightarrow> stages" where
  "apply_promotion p st n v =
     (if n \<noteq> pr_name p then st n v
      else if v = pr_version p then pr_to_stage p
      else if pr_to_stage p = PRODUCTION \<and> st n v = PRODUCTION then ARCHIVED
      else st n v)"

definition replay :: "promotion list \<Rightarrow> stages" where
  "replay ps = fold apply_promotion ps (\<lambda>_ _. DEVELOPMENT)"

definition stage_at :: "registry \<Rightarrow> string \<Rightarrow> string \<Rightarrow> model_stage option" where
  "stage_at r n v = (case dget (rg_models r) n of None \<Rightarrow> None | Some vs \<Rightarrow> map_option mm_stage (dget vs v))"

definition abs_stages :: "registry \<Rightarrow> stages" where
  "abs_stages r n v = (case stage_at r n v of None \<Rightarrow> DEVELOPMENT | Some s \<Rightarrow> s)"

text \<open>What one operation does to the registry; the arguments of each call are arbitrary.\<close>

inductive registry_step :: "registry \<Rightarrow> registry \<Rightarrow> bool" where
  register: "registry_step r (fst (snd (register_model sign hash created updated a (r, fs :: files))))"
| promote: "registry_step r (snd (promote_model clock updated stamp name version target who r))"
| rollback: "registry_step r (snd (rollback_model archived restored stamp name who r))"
| create_test: "registry_step r (snd (create_ab_test now test model va vb split sticky r))"
| end_test: "registry_step r (snd (end_ab_test now test r))"

inductive registry_reachable :: "registry \<Rightarrow> bool" where
  start: "registry_reachable (new_registry None)"
| step: "registry_reachable r \<Longrightarrow> registry_step r r' \<Longrightarrow> registry_reachable r'"

definition versions_ok :: "string \<Rightarrow> versions \<Rightarrow> bool" where
  "versions_ok n vs =
     (wf_dict vs
      \<and> (\<forall>v md. dget vs v = Some md \<longrightarrow> mm_name md = n \<and> mm_version md = v \<and> (\<exists>w. parse_version v = Inr w))
      \<and> (\<forall>v w md md'. dget vs v = Some md \<longrightarrow> dget vs w = Some md' \<longrightarrow> mm_stage md = PRODUCTION \<longrightarrow> mm_stage md' = PRODUCTION \<longrightarrow> v = w))"

definition registry_ok :: "registry \<Rightarrow> bool" where
  "registry_ok r =
     (wf_dict (rg_models r) \<and> (\<forall>n vs. dget (rg_models r) n = Some vs \<longrightarrow> versions_ok n vs)
      \<and> abs_stages r = replay (rd_promotion_history (rg_registry r)))"

section \<open>Frame lemmas\<close>

lemma put_versions_simps [simp]:
  "rg_models (put_versions n vs r) = dset n vs (rg_models r)"
  "rd_ab_tests (rg_registry (put_versions n vs r)) = rd_ab_tests (rg_registry r)"
  "rd_promotion_history (rg_registry (put_versions n vs r)) = rd_promotion_history (rg_registry r)"
  by (simp_all add: put_versions_def)

lemma log_promotion_simps [simp]:
  "rg_models (log_promotion p r) = rg_models r"
  "rd_ab_tests (rg_registry (log_promotion p r)) = rd_ab_tests (rg_registry r)"
  "rd_promotion_history (rg_registry (log_promotion p r)) = rd_promotion_history (rg_registry r) @ [p]"
  by (simp_all add: log_promotion_def)

lemma save_registry_simps [simp]: "rg_registry (save_registry r) = rg_registry r" "rg_file (save_registry r) = Some (rg_registry r)"
  by (simp_all add: save_registry_def)

lemma put_ab_test_simps [simp]:
  "rg_models (put_ab_test test t r) = rg_models r"
  "rd_promotion_history (rg_registry (put_ab_test test t r)) = rd_promotion_history (rg_registry r)"
  by (simp_all add: put_ab_test_def)

lemma replay_snoc: "replay (ps @ [p]) = apply_promotion p (replay ps)"
  by (simp add: replay_def)

lemma archive_others_get:
  "dget (archive_others clock version vs) v =
     map_option (\<lambda>md. if mm_stage md = PRODUCTION \<and> v \<noteq> version then restage ARCHIVED (clock v) md else md) (dget vs v)"
proof (induction vs)
  case (Cons e vs)
  then show ?case by (cases e) (simp add: archive_others_def)
qed (simp add: archive_others_def)

lemma archive_others_keys [simp]: "map fst (archive_others clock version vs) = map fst vs"
proof (induction vs)
  case (Cons e vs)
  then show ?case by (cases e) (simp add: archive_others_def)
qed (simp add: archive_others_def)

lemma restage_simps [simp]:
  "mm_stage (restage s now md) = s" "mm_name (restage s now md) = mm_name md" "mm_version (restage s now md) = mm_version md"
  "mm_updated_at (restage s now md) = now"
  "mm_stage (activate s now md) = s" "mm_name (activate s now md) = mm_name md" "mm_version (activate s now md) = mm_version md"
  "mm_updated_at (activate s now md) = now" "mm_artifact_path (activate s now md) = mm_artifact_path md"
  by (simp_all add: restage_def activate_def)

section \<open>Sorting\<close>

lemma sort_reverse_hd:
  assumes "xs \<noteq> []"
  shows "hd (sort_reverse key xs) \<in> set xs" "y \<in> set xs \<Longrightarrow> key y \<le> key (hd (sort_reverse key xs))"
proof -
  let ?s = "sort_key key (rev xs)"
  have s: "?s \<noteq> []" "set ?s = set xs" "sorted (map key ?s)"
    using assms by (simp_all flip: set_empty)
  then have h: "hd (sort_reverse key xs) = last ?s" by (simp add: sort_reverse_def hd_rev)
  then show "hd (sort_reverse key xs) \<in> set xs" using s last_in_set by metis
  show "key y \<le> key (hd (sort_reverse key xs))" if "y \<in> set xs"
  proof -
    obtain zs where z: "?s = zs @ [last ?s]" using s(1) append_butlast_last_id by metis
    then have "sorted (map key (zs @ [last ?s]))" "y \<in> set (zs @ [last ?s])" using s that by metis+
    then show ?thesis unfolding h by (auto simp: sorted_append)
  qed
qed

lemma archived_versions_set:
  "wf_dict vs \<Longrightarrow> (v, t) \<in> set (archived_versions vs) \<longleftrightarrow> (\<exists>md. dget vs v = Some md \<and> mm_stage md = ARCHIVED \<and> mm_updated_at md = t)"
  unfolding archived_versions_def by (force dest: map_of_SomeD wf_dict_Some_in)

lemma restore_version_archived:
  assumes "wf_dict vs" "archived_versions vs \<noteq> []"
  shows "\<exists>md. dget vs (restore_version vs) = Some md \<and> mm_stage md = ARCHIVED
    \<and> (\<forall>v md'. dget vs v = Some md' \<longrightarrow> mm_stage md' = ARCHIVED \<longrightarrow> mm_updated_at md' \<le> mm_updated_at md)"
proof -
  let ?h = "hd (sort_reverse snd (archived_versions vs))"
  have "(fst ?h, snd ?h) \<in> set (archived_versions vs)" using sort_reverse_hd(1) [OF assms(2), of snd] by simp
  then obtain md where md: "dget vs (fst ?h) = Some md" "mm_stage md = ARCHIVED" "mm_updated_at md = snd ?h"
    unfolding archived_versions_set [OF assms(1)] by blast
  have "mm_updated_at md' \<le> mm_updated_at md" if "dget vs v = Some md'" "mm_stage md' = ARCHIVED" for v md'
    using sort_reverse_hd(2) [OF assms(2), of "(v, mm_updated_at md')" snd] that
    by (auto simp: archived_versions_set [OF assms(1)] md(3))
  then show ?thesis using md unfolding restore_version_def by blast
qed

lemma current_production_Some:
  assumes "wf_dict vs" "current_production vs = Some v"
  shows "\<exists>md. dget vs v = Some md \<and> mm_stage md = PRODUCTION"
proof -
  let ?xs = "filter (\<lambda>(ver, md). mm_stage md = PRODUCTION) vs"
  have "?xs \<noteq> [] \<and> v = fst (last ?xs)" using assms(2) by (cases ?xs) (auto simp: current_production_def)
  moreover from this have "last ?xs \<in> set ?xs" by (metis last_in_set)
  ultimately show ?thesis using wf_dict_Some_in [OF assms(1)] by (cases "last ?xs") auto
qed

lemma current_production_None:
  "wf_dict vs \<Longrightarrow> current_production vs = None \<Longrightarrow> dget vs v = Some md \<Longrightarrow> mm_stage md \<noteq> PRODUCTION"
  by (auto simp: current_production_def filter_empty_conv split: list.splits dest!: map_of_SomeD)

section \<open>The registry refines the replay of its history\<close>

lemma stage_at_put [simp]:
  "stage_at (put_versions n vs r) n' v = (if n' = n then map_option mm_stage (dget vs v) else stage_at r n' v)"
  by (simp add: stage_at_def dict_simps)

lemma stage_at_frames [simp]:
  "stage_at (log_promotion p r) = stage_at r" "stage_at (save_registry r) = stage_at r" "stage_at (put_ab_test test t r) = stage_at r"
  by (simp_all add: stage_at_def fun_eq_iff)

lemma parse_nonempty: "parse_version v = Inr w \<Longrightarrow> v \<noteq> []"
  by (auto simp: parse_version_def strip_def)

lemma versions_ok_D:
  assumes "versions_ok n vs"
  shows "wf_dict vs" "dget vs v = Some md \<Longrightarrow> mm_name md = n \<and> mm_version md = v \<and> (\<exists>w. parse_version v = Inr w)"
    "dget vs v = Some md \<Longrightarrow> dget vs w = Some md' \<Longrightarrow> mm_stage md = PRODUCTION \<Longrightarrow> mm_stage md' = PRODUCTION \<Longrightarrow> v = w"
  using assms unfolding versions_ok_def by blast+

lemma registry_ok_D:
  assumes "registry_ok r"
  shows "wf_dict (rg_models r)" "dget (rg_models r) n = Some vs \<Longrightarrow> versions_ok n vs"
    "abs_stages r = replay (rd_promotion_history (rg_registry r))"
  using assms unfolding registry_ok_def by blast+

lemma archive_current_get:
  assumes "versions_ok n vs"
  shows "dget (archive_current now vs) v = map_option (\<lambda>md. if mm_stage md = PRODUCTION then restage ARCHIVED now md else md) (dget vs v)"
proof (cases "current_production vs")
  case None
  then show ?thesis
    using current_production_None [OF versions_ok_D(1) [OF assms] None]
    by (cases "dget vs v") (auto simp: archive_current_def)
next
  case (Some c)
  obtain md where md: "dget vs c = Some md" "mm_stage md = PRODUCTION"
    using current_production_Some [OF versions_ok_D(1) [OF assms] Some] by blast
  then have "c \<noteq> []" using versions_ok_D(2) [OF assms] parse_nonempty by blast
  then have "truthy (Some c)" by (cases c) simp_all
  moreover have "mm_stage md' \<noteq> PRODUCTION" if "dget vs v = Some md'" "v \<noteq> c" for md'
    using versions_ok_D(3) [OF assms that(1) md(1)] that(2) md(2) by blast
  ultimately show ?thesis
    using md Some by (cases "dget vs v") (auto simp: archive_current_def dict_simps)
qed

text \<open>
  What a promotion and a rollback share: one version enters the target stage, and when that is
  production every other production version is archived.
\<close>

definition restaged :: "string \<Rightarrow> model_stage \<Rightarrow> versions \<Rightarrow> versions \<Rightarrow> bool" where
  "restaged v0 target vs vs' =
     (wf_dict vs' \<and> (\<exists>u entry. dget vs v0 = Some entry \<and> dget vs' v0 = Some (activate target u entry))
      \<and> (\<forall>v. v \<noteq> v0 \<longrightarrow> (\<exists>now. dget vs' v =
            map_option (\<lambda>md. if target = PRODUCTION \<and> mm_stage md = PRODUCTION then restage ARCHIVED now md else md) (dget vs v))))"

lemma restaged_D:
  assumes "restaged v0 target vs vs'"
  shows "wf_dict vs'" "\<exists>u entry. dget vs v0 = Some entry \<and> dget vs' v0 = Some (activate target u entry)"
    "v \<noteq> v0 \<Longrightarrow> \<exists>now. dget vs' v =
       map_option (\<lambda>md. if target = PRODUCTION \<and> mm_stage md = PRODUCTION then restage ARCHIVED now md else md) (dget vs v)"
  using assms unfolding restaged_def by blast+

lemma restaged_get:
  assumes "restaged v0 target vs vs'" "dget vs' v = Some md'"
  shows "\<exists>md. dget vs v = Some md \<and> mm_name md' = mm_name md \<and> mm_version md' = mm_version md
    \<and> mm_stage md' = (if v = v0 then target else if target = PRODUCTION \<and> mm_stage md = PRODUCTION then ARCHIVED else mm_stage md)"
proof (cases "v = v0")
  case True
  then show ?thesis using restaged_D(2) [OF assms(1)] assms(2) by auto
next
  case False
  then show ?thesis using restaged_D(3) [OF assms(1) False] assms(2) by (cases "dget vs v") (auto split: if_splits)
qed

lemma restaged_ok:
  assumes ok: "versions_ok n vs" and re: "restaged v0 target vs vs'"
  shows "versions_ok n vs'"
proof -
  have "mm_name md' = n \<and> mm_version md' = v \<and> (\<exists>w. parse_version v = Inr w)" if "dget vs' v = Some md'" for v md'
    using restaged_get [OF re that] versions_ok_D(2) [OF ok] by metis
  moreover have "v = w" if "dget vs' v = Some md'" "dget vs' w = Some mw'" "mm_stage md' = PRODUCTION" "mm_stage mw' = PRODUCTION" for v w md' mw'
  proof -
    note pr = that
    obtain md where m: "dget vs v = Some md"
      "mm_stage md' = (if v = v0 then target else if target = PRODUCTION \<and> mm_stage md = PRODUCTION then ARCHIVED else mm_stage md)"
      using restaged_get [OF re pr(1)] by blast
    obtain mw where w: "dget vs w = Some mw"
      "mm_stage mw' = (if w = v0 then target else if target = PRODUCTION \<and> mm_stage mw = PRODUCTION then ARCHIVED else mm_stage mw)"
      using restaged_get [OF re pr(2)] by blast
    show ?thesis
      using versions_ok_D(3) [OF ok m(1) w(1)] m(2) w(2) pr(3,4) by (auto split: if_splits)
  qed
  ultimately show ?thesis using restaged_D(1) [OF re] unfolding versions_ok_def by blast
qed

lemma restaged_stage:
  assumes "dget (rg_models r) n = Some vs" "restaged v0 target vs vs'" "pr_name p = n" "pr_version p = v0" "pr_to_stage p = target"
  shows "abs_stages (put_versions n vs' r) = apply_promotion p (abs_stages r)"
proof (intro ext)
  fix m v
  show "abs_stages (put_versions n vs' r) m v = apply_promotion p (abs_stages r) m v"
  proof (cases "m = n \<and> v \<noteq> v0")
    case True
    then obtain now where "dget vs' v = map_option (\<lambda>md. if target = PRODUCTION \<and> mm_stage md = PRODUCTION then restage ARCHIVED now md else md) (dget vs v)"
      using restaged_D(3) [OF assms(2)] by blast
    then show ?thesis using True assms by (cases "dget vs v") (auto simp: abs_stages_def stage_at_def apply_promotion_def dict_simps)
  next
    case False
    then show ?thesis using restaged_D(2) [OF assms(2)] assms by (auto simp: abs_stages_def stage_at_def apply_promotion_def dict_simps)
  qed
qed

lemma restaged_registry_ok:
  assumes "registry_ok r" "dget (rg_models r) n = Some vs" "restaged v0 target vs vs'" "pr_name p = n" "pr_version p = v0" "pr_to_stage p = target"
  shows "registry_ok (save_registry (log_promotion p (put_versions n vs' r)))"
proof -
  have "abs_stages (save_registry (log_promotion p (put_versions n vs' r))) = abs_stages (put_versions n vs' r)"
    by (simp add: abs_stages_def fun_eq_iff)
  then show ?thesis
    using assms registry_ok_D [OF assms(1)] restaged_ok [OF _ assms(3)] restaged_stage [OF assms(2-6)]
    by (auto simp: registry_ok_def dict_simps replay_snoc)
qed

lemma promote_restaged:
  assumes "versions_ok n vs" "dget vs version = Some entry"
  shows "restaged version target vs (dset version (activate target u entry) (if target = PRODUCTION then archive_others clock version vs else vs))"
  using assms(2) versions_ok_D(1) [OF assms(1)] by (auto simp: restaged_def dict_simps archive_others_get option.map_ident)

lemma rollback_restaged:
  assumes "versions_ok n vs" "archived_versions vs \<noteq> []"
  shows "\<exists>entry. dget (archive_current now vs) (restore_version vs) = Some entry \<and> dget vs (restore_version vs) = Some entry
    \<and> restaged (restore_version vs) PRODUCTION vs (dset (restore_version vs) (activate PRODUCTION u entry) (archive_current now vs))"
proof -
  obtain md where "dget vs (restore_version vs) = Some md" "mm_stage md = ARCHIVED"
    using restore_version_archived [OF versions_ok_D(1) [OF assms(1)] assms(2)] by blast
  moreover have "wf_dict (archive_current now vs)" using versions_ok_D(1) [OF assms(1)]
    by (auto simp: archive_current_def split: option.split)
  ultimately show ?thesis by (auto simp: restaged_def dict_simps archive_current_get [OF assms(1)])
qed

lemma registry_ok_save [simp]: "registry_ok (save_registry r) = registry_ok r"
  by (simp add: registry_ok_def abs_stages_def fun_eq_iff)

lemma register_ok:
  assumes "registry_ok r"
  shows "registry_ok (fst (snd (register_model sign hash created updated a (r, fs))))"
proof -
  define vs where "vs = (case dget (rg_models r) (ma_name a) of Some vs \<Rightarrow> vs | None \<Rightarrow> [])"
  have vs: "versions_ok (ma_name a) vs"
    using registry_ok_D(2) [OF assms] by (auto simp: vs_def versions_ok_def split: option.split)
  have keep: "registry_ok (put_versions (ma_name a) vs' (put_versions (ma_name a) vs r))"
    if "versions_ok (ma_name a) vs'" "\<And>v. dget vs' v = dget vs v \<or> dget vs v = None \<and> map_option mm_stage (dget vs' v) = Some DEVELOPMENT" for vs'
  proof -
    have "abs_stages (put_versions (ma_name a) vs' (put_versions (ma_name a) vs r)) = abs_stages r"
    proof (intro ext)
      fix n v
      show "abs_stages (put_versions (ma_name a) vs' (put_versions (ma_name a) vs r)) n v = abs_stages r n v"
        using that(2) [of v] by (auto simp: abs_stages_def stage_at_def dict_simps vs_def split: option.splits)
    qed
    then show ?thesis using that(1) registry_ok_D [OF assms] by (auto simp: registry_ok_def dict_simps)
  qed
  have same: "registry_ok (put_versions (ma_name a) vs r)"
    using keep [OF vs] by (auto simp: put_versions_def)
  have new: "registry_ok (put_versions (ma_name a) (dset (ma_version a) (new_metadata h created updated a) vs) (put_versions (ma_name a) vs r))"
    if "parse_version (ma_version a) = Inr w" "dget vs (ma_version a) = None" for h w
    using that vs by (intro keep) (auto simp: versions_ok_def dict_simps new_metadata_def)
  show ?thesis
    using same new assms
    by (auto simp: register_model_def Let_def vs_def [symmetric] split: sum.splits prod.splits)
qed

lemma registry_step_ok: "registry_step r r' \<Longrightarrow> registry_ok r \<Longrightarrow> registry_ok r'"
proof (induction rule: registry_step.induct)
  case (register r sign hash created updated a fs)
  then show ?case by (rule register_ok)
next
  case (promote r clock updated stamp name version target who)
  show ?case
  proof (cases "\<exists>vs entry. dget (rg_models r) name = Some vs \<and> dget vs version = Some entry")
    case True
    then obtain vs entry where vs: "dget (rg_models r) name = Some vs" "dget vs version = Some entry" by blast
    show ?thesis
      using restaged_registry_ok [OF promote vs(1) promote_restaged [OF registry_ok_D(2) [OF promote vs(1)] vs(2)]] vs
      by (simp add: promote_model_def Let_def)
  next
    case False
    then show ?thesis using promote by (auto simp: promote_model_def split: option.split)
  qed
next
  case (rollback r archived restored stamp name who)
  show ?case
  proof (cases "\<exists>vs. dget (rg_models r) name = Some vs \<and> archived_versions vs \<noteq> []")
    case True
    then obtain vs where vs: "dget (rg_models r) name = Some vs" "archived_versions vs \<noteq> []" by blast
    obtain entry where "dget (archive_current archived vs) (restore_version vs) = Some entry"
      and re: "restaged (restore_version vs) PRODUCTION vs (dset (restore_version vs) (activate PRODUCTION restored entry) (archive_current archived vs))"
      using rollback_restaged [OF registry_ok_D(2) [OF rollback vs(1)] vs(2)] by metis
    then show ?thesis
      using restaged_registry_ok [OF rollback vs(1) re] vs by (simp add: rollback_model_def Let_def)
  next
    case False
    then show ?thesis using rollback by (auto simp: rollback_model_def split: option.split)
  qed
next
  case (create_test r now test model va vb split sticky)
  then show ?case by (auto simp: create_ab_test_def Let_def registry_ok_def abs_stages_def fun_eq_iff split: option.split)
next
  case (end_test r now test)
  then show ?case by (auto simp: end_ab_test_def Let_def registry_ok_def abs_stages_def fun_eq_iff split: option.split)
qed

lemma registry_reachable_ok: "registry_reachable r \<Longrightarrow> registry_ok r"
proof (induction rule: registry_reachable.induct)
  case start
  show ?case
    by (auto simp: registry_ok_def new_registry_def load_registry_def empty_registry_def abs_stages_def stage_at_def replay_def fun_eq_iff)
next
  case (step r r')
  then show ?case using registry_step_ok by blast
qed

end
