(* ===== verification/Model_Server.thy ===== *)
theory Model_Server
  imports Model_Registry
begin

text \<open>
  The model server of \<^verbatim>\<open>src/fraud_detection/model_registry.py\<close>: loading, hot reload, A/B routing,
  prediction with fallback and batching. The server holds a reference to a registry, so the
  operations that read it take it as an argument; the loader of artifacts is an argument, and a
  failure of the loader is what \<^verbatim>\<open>_safe_load_artifact\<close> turns into \<^verbatim>\<open>None\<close>.
\<close>

section \<open>Arrays and models\<close>

text \<open>A feature array is a vector or a matrix of rows.\<close>

datatype ndarray = Vec "real list" | Mat "real list list"

text \<open>
  A loaded model object: the methods it has. \<^verbatim>\<open>predict_proba\<close> returns a matrix, of which the code takes
  column one.
\<close>

record predictor =
  pd_predict_proba :: "(ndarray \<Rightarrow> real list list res) option"
  pd_decision_function :: "(ndarray \<Rightarrow> real list res) option"
  pd_predict :: "ndarray \<Rightarrow> real list res"

fun column_one :: "real list list \<Rightarrow> real list res" where
  "column_one [] = Inr []"
| "column_one (row # rows) =
     (if length row < 2 then Inl IndexError else res_bind (column_one rows) (\<lambda>xs. Inr (row ! 1 # xs)))"

definition run_model :: "predictor \<Rightarrow> ndarray \<Rightarrow> real list res" where
  "run_model p x =
     (case pd_predict_proba p of
        Some f \<Rightarrow> res_bind (f x) column_one
      | None \<Rightarrow> (case pd_decision_function p of Some f \<Rightarrow> f x | None \<Rightarrow> pd_predict p x))"

section \<open>The server\<close>

record server =
  sv_model_name :: string
  sv_primary :: "(predictor \<times> model_metadata) option"
  sv_fallback :: "(predictor \<times> model_metadata) option"
  sv_ab_models :: "(string, predictor) dict"
  sv_prediction_count :: nat
  sv_error_count :: nat
  sv_total_latency_ms :: real
  sv_last_reload_time :: "string option"

definition new_server :: "string \<Rightarrow> server" where
  "new_server name =
     \<lparr>sv_model_name = name, sv_primary = None, sv_fallback = None, sv_ab_models = [], sv_prediction_count = 0,
      sv_error_count = 0, sv_total_latency_ms = 0, sv_last_reload_time = None\<rparr>"

definition is_ready :: "server \<Rightarrow> bool" where
  "is_ready s = (sv_primary s \<noteq> None)"

definition active_version :: "server \<Rightarrow> string" where
  "active_version s = (case sv_primary s of None \<Rightarrow> ''none'' | Some (m, md) \<Rightarrow> mm_version md)"

record server_stats =
  ss_model_name :: string
  ss_active_version :: string
  ss_is_ready :: bool
  ss_prediction_count :: nat
  ss_error_count :: nat
  ss_avg_latency_ms :: real
  ss_last_reload_time :: "string option"
  ss_has_fallback :: bool

definition server_stats_of :: "server \<Rightarrow> server_stats" where
  "server_stats_of s =
     \<lparr>ss_model_name = sv_model_name s, ss_active_version = active_version s, ss_is_ready = is_ready s,
      ss_prediction_count = sv_prediction_count s, ss_error_count = sv_error_count s,
      ss_avg_latency_ms = py_round 3 (if 0 < sv_prediction_count s then sv_total_latency_ms s / real (sv_prediction_count s) else 0),
      ss_last_reload_time = sv_last_reload_time s, ss_has_fallback = (sv_fallback s \<noteq> None)\<rparr>"

definition safe_load_artifact :: "(string \<Rightarrow> predictor res) \<Rightarrow> string \<Rightarrow> predictor option" where
  "safe_load_artifact loader path = (case loader path of Inl ex \<Rightarrow> None | Inr m \<Rightarrow> Some m)"

text \<open>The swap under the lock.\<close>

definition swap_in :: "string \<Rightarrow> predictor \<Rightarrow> model_metadata \<Rightarrow> server \<Rightarrow> server" where
  "swap_in now m md s = s\<lparr>sv_fallback := sv_primary s, sv_primary := Some (m, md), sv_last_reload_time := Some now\<rparr>"

definition load_version :: "(string \<Rightarrow> predictor res) \<Rightarrow> string \<Rightarrow> model_metadata \<Rightarrow> server \<Rightarrow> bool \<times> server" where
  "load_version loader now md s =
     (case safe_load_artifact loader (mm_artifact_path md) of None \<Rightarrow> (False, s) | Some m \<Rightarrow> (True, swap_in now m md s))"

definition load_production_model ::
  "(string \<Rightarrow> predictor res) \<Rightarrow> string \<Rightarrow> registry \<Rightarrow> server \<Rightarrow> bool res \<times> server" where
  "load_production_model loader now r s =
     (case get_production_model (sv_model_name s) r of
        Inl ex \<Rightarrow> (Inl ex, s)
      | Inr None \<Rightarrow> (Inr False, s)
      | Inr (Some md) \<Rightarrow> (let (ok, s1) = load_version loader now md s in (Inr ok, s1)))"

definition load_model_version ::
  "(string \<Rightarrow> predictor res) \<Rightarrow> string \<Rightarrow> string \<Rightarrow> registry \<Rightarrow> server \<Rightarrow> bool res \<times> server" where
  "load_model_version loader now version r s =
     (case get_model_metadata (sv_model_name s) version r of
        Inl ex \<Rightarrow> (Inl ex, s)
      | Inr md \<Rightarrow> (let (ok, s1) = load_version loader now md s in (Inr ok, s1)))"

definition hot_reload :: "(string \<Rightarrow> predictor res) \<Rightarrow> string \<Rightarrow> registry \<Rightarrow> server \<Rightarrow> bool res \<times> server" where
  "hot_reload loader now r s =
     (case get_production_model (sv_model_name s) r of
        Inl ex \<Rightarrow> (Inl ex, s)
      | Inr None \<Rightarrow> (Inr False, s)
      | Inr (Some md) \<Rightarrow>
          if mm_version md = active_version s then (Inr False, s)
          else (case safe_load_artifact loader (mm_artifact_path md) of
                  None \<Rightarrow> (Inr False, s)
                | Some m \<Rightarrow> (Inr True, swap_in now m md s)))"

text \<open>\<^verbatim>\<open>_load_ab_model\<close> swallows every exception.\<close>

definition load_ab_model :: "(string \<Rightarrow> predictor res) \<Rightarrow> registry \<Rightarrow> string \<Rightarrow> server \<Rightarrow> predictor option \<times> server" where
  "load_ab_model loader r version s =
     (case get_model_metadata (sv_model_name s) version r of
        Inl ex \<Rightarrow> (None, s)
      | Inr md \<Rightarrow>
          (case safe_load_artifact loader (mm_artifact_path md) of
             None \<Rightarrow> (None, s)
           | Some m \<Rightarrow> (Some m, s\<lparr>sv_ab_models := dset version m (sv_ab_models s)\<rparr>)))"

text \<open>
  The loop over the tests of the registry, in order: the first active test whose assigned version can
  be served decides. \<open>rand\<close> gives the random draw for a test.
\<close>

fun resolve_tests ::
  "(string \<Rightarrow> predictor res) \<Rightarrow> (string \<Rightarrow> nat) \<Rightarrow> (string \<Rightarrow> real) \<Rightarrow> registry \<Rightarrow> string \<Rightarrow> (string \<times> ab_test) list
   \<Rightarrow> server \<Rightarrow> predictor option res \<times> server" where
  "resolve_tests loader hash_int rand r user [] s = (Inr None, s)"
| "resolve_tests loader hash_int rand r user ((test, t) # ts) s =
     (if \<not> ab_is_active t then resolve_tests loader hash_int rand r user ts s
      else (case resolve_ab_assignment hash_int (rand test) test user r of
              Inl ex \<Rightarrow> (Inl ex, s)
            | Inr version \<Rightarrow>
                (case dget (sv_ab_models s) version of
                   Some m \<Rightarrow> (Inr (Some m), s)
                 | None \<Rightarrow>
                     (case load_ab_model loader r version s of
                        (Some m, s1) \<Rightarrow> (Inr (Some m), s1)
                      | (None, s1) \<Rightarrow> resolve_tests loader hash_int rand r user ts s1))))"

definition resolve_model ::
  "(string \<Rightarrow> predictor res) \<Rightarrow> (string \<Rightarrow> nat) \<Rightarrow> (string \<Rightarrow> real) \<Rightarrow> registry \<Rightarrow> string option \<Rightarrow> server
   \<Rightarrow> predictor option res \<times> server" where
  "resolve_model loader hash_int rand r user s =
     (case (if truthy user then resolve_tests loader hash_int rand r (the user) (rd_ab_tests (rg_registry r)) s else (Inr None, s)) of
        (Inr None, s1) \<Rightarrow> (Inr (map_option fst (sv_primary s1)), s1)
      | x \<Rightarrow> x)"

definition predict_with_fallback :: "ndarray \<Rightarrow> server \<Rightarrow> real list res" where
  "predict_with_fallback x s =
     (case sv_fallback s of
        None \<Rightarrow> Inl RuntimeError
      | Some (m, md) \<Rightarrow> (case run_model m x of Inl ex \<Rightarrow> Inl RuntimeError | Inr ys \<Rightarrow> Inr ys))"

fun rows :: "ndarray \<Rightarrow> nat" where
  "rows (Vec xs) = 1"
| "rows (Mat m) = length m"

definition predict ::
  "(string \<Rightarrow> predictor res) \<Rightarrow> (string \<Rightarrow> nat) \<Rightarrow> (string \<Rightarrow> real) \<Rightarrow> real \<Rightarrow> registry \<Rightarrow> string option \<Rightarrow> ndarray
   \<Rightarrow> server \<Rightarrow> real list res \<times> server" where
  "predict loader hash_int rand elapsed_ms r user x s =
     (case resolve_model loader hash_int rand r user s of
        (Inl ex, s1) \<Rightarrow> (Inl ex, s1)
      | (Inr None, s1) \<Rightarrow> (Inl RuntimeError, s1)
      | (Inr (Some m), s1) \<Rightarrow>
          (case run_model m x of
             Inr ys \<Rightarrow> (Inr ys, s1\<lparr>sv_prediction_count := sv_prediction_count s1 + rows x,
                                   sv_total_latency_ms := sv_total_latency_ms s1 + elapsed_ms\<rparr>)
           | Inl ex \<Rightarrow> (let s2 = s1\<lparr>sv_error_count := sv_error_count s1 + 1\<rparr> in (predict_with_fallback x s2, s2))))"

section \<open>Batches\<close>

text \<open>
  \<^verbatim>\<open>arr.reshape(1, -1)\<close> makes one row of all entries; \<^verbatim>\<open>np.vstack\<close> takes a vector as a row and raises when
  the rows have different lengths.
\<close>

fun one_row :: "ndarray \<Rightarrow> real list list" where
  "one_row (Vec xs) = [xs]"
| "one_row (Mat m) = [concat m]"

fun as_rows :: "ndarray \<Rightarrow> real list list" where
  "as_rows (Vec xs) = [xs]"
| "as_rows (Mat m) = m"

definition same_width :: "real list list \<Rightarrow> bool" where
  "same_width m = (\<forall>row \<in> set m. length row = length (hd m))"

definition vstack :: "real list list list \<Rightarrow> ndarray res" where
  "vstack ms = (if same_width (concat ms) then Inr (Mat (concat ms)) else Inl ValueError)"

definition is_vec :: "ndarray \<Rightarrow> bool" where
  "is_vec x = (case x of Vec xs \<Rightarrow> True | Mat m \<Rightarrow> False)"

definition combine :: "ndarray list \<Rightarrow> ndarray res" where
  "combine batch = (if is_vec (hd batch) then vstack (map one_row batch) else vstack (map as_rows batch))"

fun split_sizes :: "nat list \<Rightarrow> 'a list \<Rightarrow> 'a list list" where
  "split_sizes [] xs = []"
| "split_sizes (n # ns) xs = take n xs # split_sizes ns (drop n xs)"

definition predict_batch ::
  "(string \<Rightarrow> predictor res) \<Rightarrow> (string \<Rightarrow> nat) \<Rightarrow> (string \<Rightarrow> real) \<Rightarrow> real \<Rightarrow> registry \<Rightarrow> string option \<Rightarrow> ndarray list
   \<Rightarrow> server \<Rightarrow> real list list res \<times> server" where
  "predict_batch loader hash_int rand elapsed_ms r user batch s =
     (if batch = [] then (Inr [], s)
      else (case combine batch of
              Inl ex \<Rightarrow> (Inl ex, s)
            | Inr x \<Rightarrow>
                (case predict loader hash_int rand elapsed_ms r user x s of
                   (Inl ex, s1) \<Rightarrow> (Inl ex, s1)
                 | (Inr ys, s1) \<Rightarrow> (Inr (split_sizes (map rows batch) ys), s1))))"

text \<open>Preloading the two versions of a test.\<close>

fun load_missing :: "(string \<Rightarrow> predictor res) \<Rightarrow> registry \<Rightarrow> string list \<Rightarrow> server \<Rightarrow> bool \<times> server" where
  "load_missing loader r [] s = (True, s)"
| "load_missing loader r (v # vs) s =
     (if dget (sv_ab_models s) v \<noteq> None then load_missing loader r vs s
      else (let (m, s1) = load_ab_model loader r v s; (ok, s2) = load_missing loader r vs s1
            in (m \<noteq> None \<and> ok, s2)))"

definition load_for_ab_test :: "(string \<Rightarrow> predictor res) \<Rightarrow> string \<Rightarrow> registry \<Rightarrow> server \<Rightarrow> bool \<times> server" where
  "load_for_ab_test loader test r s =
     (case get_ab_test test r of
        None \<Rightarrow> (False, s)
      | Some t \<Rightarrow> load_missing loader r [ab_model_a_version t, ab_model_b_version t] s)"

end
