(* ===== verification/Model_Theorems.thy ===== *)
theory Model_Theorems
  imports Model_Registry_Properties Model_Server
begin

text \<open>
  The theorems on the model registry and the model server: the history determines the stages, one
  version is in production, a rollback undoes a promotion, a restart loses nothing, artifacts are
  authenticated; the server follows the registry, batches give what single calls give, and two
  defects of the routing of A/B tests.
\<close>

declare map_of_eq_Some_iff [simp del] Some_eq_map_of_iff [simp del]

section \<open>The registry\<close>

text \<open>
  Claim C7 (the history determines the stages): in every reachable registry, the stage of every version is the one that
  replaying the promotion history gives, where a promotion to production archives the version
  that was in production. Archiving is not logged, yet nothing else changes a stage.
\<close>

theorem registry_refines_history:
  assumes "registry_reachable r"
  shows "abs_stages r = replay (get_promotion_history None r)"
  using registry_ok_D(3) [OF registry_reachable_ok [OF assms]] by (simp add: get_promotion_history_def)

definition model_m :: "string \<Rightarrow> model_args" where
  "model_m version =
     \<lparr>ma_name = ''m'', ma_version = version, ma_artifact_path = version, ma_model_type = ''t'', ma_metrics = None, ma_parameters = None,
      ma_tags = None, ma_description = [], ma_feature_names = None, ma_training_dataset = [], ma_parent_version = None\<rparr>"

definition register_m :: "string \<Rightarrow> registry \<Rightarrow> registry" where
  "register_m version r = fst (snd (register_model (\<lambda>p fs. (Inr (), fs)) (\<lambda>p fs. []) ''t0'' ''t0'' (model_m version) (r, Map.empty :: files)))"

definition two_versions :: registry where
  "two_versions = register_m ''2.0.0'' (register_m ''1.0.0'' (new_registry None))"

definition released :: registry where
  "released = snd (promote_model (\<lambda>_. ''t1'') ''t1'' ''t1'' ''m'' ''1.0.0'' PRODUCTION ''who'' two_versions)"

lemma two_versions_reachable: "registry_reachable two_versions"
  unfolding two_versions_def register_m_def
  by (intro registry_reachable.step [OF _ registry_step.register] registry_reachable.start)

lemma released_reachable: "registry_reachable released"
  unfolding released_def by (rule registry_reachable.step [OF two_versions_reachable registry_step.promote])

lemma parse_examples: "parse_version ''1.0.0'' = Inr (ModelVersion 1 0 0)" "parse_version ''2.0.0'' = Inr (ModelVersion 2 0 0)"
  by code_simp+

lemma released_models:
  "rg_models released = [(''m'', [(''1.0.0'', activate PRODUCTION ''t1'' (new_metadata [] ''t0'' ''t0'' (model_m ''1.0.0''))),
     (''2.0.0'', new_metadata [] ''t0'' ''t0'' (model_m ''2.0.0''))])]"
  by (simp add: released_def two_versions_def register_m_def register_model_def model_m_def parse_examples promote_model_def Let_def
      new_registry_def load_registry_def empty_registry_def new_metadata_def or_empty_def archive_others_def)

theorem registry_refines_history_witness: "abs_stages released = replay (get_promotion_history None released)"
  by (rule registry_refines_history [OF released_reachable])

lemma concat_single:
  "wf_dict d \<Longrightarrow> concat (map (\<lambda>(n, vs). if n \<noteq> k then [] else f vs) d) = (case dget d k of None \<Rightarrow> [] | Some vs \<Rightarrow> f vs)"
proof (induction d)
  case (Cons x d)
  obtain n vs where x: "x = (n, vs)" by (cases x)
  have "dget d n = None" using Cons.prems x by (simp add: map_of_eq_None_iff)
  then show ?case using Cons x by (auto split: option.splits)
qed simp

lemma list_production:
  assumes "wf_dict (rg_models r)" "name \<noteq> []"
  shows "list_models (Some name) (Some s) r =
    (case dget (rg_models r) name of None \<Rightarrow> [] | Some vs \<Rightarrow> filter (\<lambda>md. mm_stage md = s) (map snd vs))"
proof -
  have t: "truthy (Some name)" using assms(2) by (cases name) simp_all
  have "list_models (Some name) (Some s) r =
      concat (map (\<lambda>(n, vs). if n \<noteq> name then [] else filter (\<lambda>md. mm_stage md = s) (map snd vs)) (rg_models r))"
    unfolding list_models_def using t by (auto intro!: arg_cong [where f = concat])
  then show ?thesis using concat_single [OF assms(1)] by metis
qed

lemma production_list:
  assumes "versions_ok n vs"
  shows "(\<forall>v md. dget vs v = Some md \<longrightarrow> mm_stage md \<noteq> PRODUCTION) \<and> filter (\<lambda>md. mm_stage md = PRODUCTION) (map snd vs) = []
    \<or> (\<exists>v md. dget vs v = Some md \<and> mm_stage md = PRODUCTION \<and> filter (\<lambda>md. mm_stage md = PRODUCTION) (map snd vs) = [md])"
proof (cases "filter (\<lambda>x. mm_stage (snd x) = PRODUCTION) vs")
  case Nil
  then have "\<forall>v md. dget vs v = Some md \<longrightarrow> mm_stage md \<noteq> PRODUCTION" unfolding filter_empty_conv by (auto dest!: map_of_SomeD)
  then show ?thesis using Nil by (simp add: filter_map o_def)
next
  case (Cons x xs)
  have in_vs: "dget vs (fst y) = Some (snd y) \<and> mm_stage (snd y) = PRODUCTION" if "y \<in> set (x # xs)" for y
    using that wf_dict_Some_in [OF versions_ok_D(1) [OF assms], of "fst y" "snd y"] unfolding Cons [symmetric] by simp
  have "fst y = fst x" if "y \<in> set xs" for y
    using versions_ok_D(3) [OF assms, of "fst y" "snd y" "fst x" "snd x"] in_vs that by simp
  moreover have "distinct (map fst (x # xs))" using wf_dict_filter [OF versions_ok_D(1) [OF assms]] unfolding Cons [symmetric] by simp
  ultimately have "xs = []" by (cases xs) auto
  then have "filter (\<lambda>md. mm_stage md = PRODUCTION) (map snd vs) = [snd x]" using Cons by (simp add: filter_map o_def)
  then show ?thesis using in_vs [of x] by auto
qed

lemma latest_single: "parse_version (mm_version md) = Inr w \<Longrightarrow> latest [md] = Inr (Some md)"
  by (simp add: latest_def)

text \<open>
  Claim C20 (one production version): in every reachable registry a model has at most one production version, and
  asking for the production model returns it.
\<close>

theorem one_production_version:
  assumes "registry_reachable r" "name \<noteq> []"
  shows "\<exists>m. get_production_model name r = Inr m
    \<and> (\<forall>v. stage_at r name v = Some PRODUCTION \<longleftrightarrow> map_option mm_version m = Some v)"
proof -
  note ok = registry_ok_D [OF registry_reachable_ok [OF assms(1)]]
  show ?thesis
  proof (cases "dget (rg_models r) name")
    case None
    then show ?thesis using list_production [OF ok(1) assms(2)] by (simp add: get_production_model_def latest_def stage_at_def)
  next
    case (Some vs)
    note vs = ok(2) [OF Some]
    note l = list_production [OF ok(1) assms(2), of PRODUCTION] Some
    from production_list [OF vs] show ?thesis
    proof (elim disjE conjE exE)
      assume "\<forall>v md. dget vs v = Some md \<longrightarrow> mm_stage md \<noteq> PRODUCTION" "filter (\<lambda>md. mm_stage md = PRODUCTION) (map snd vs) = []"
      then show ?thesis using l by (auto simp: get_production_model_def latest_def stage_at_def)
    next
      fix v md assume md: "dget vs v = Some md" "mm_stage md = PRODUCTION" "filter (\<lambda>md. mm_stage md = PRODUCTION) (map snd vs) = [md]"
      obtain w where w: "mm_version md = v" "parse_version v = Inr w" using versions_ok_D(2) [OF vs md(1)] by blast
      then have "get_production_model name r = Inr (Some md)"
        using l md(3) latest_single [of md w] by (simp add: get_production_model_def)
      moreover have "stage_at r name u = Some PRODUCTION \<longleftrightarrow> v = u" for u
        using Some md(1,2) versions_ok_D(3) [OF vs md(1) _ md(2), of u] by (auto simp: stage_at_def)
      ultimately show ?thesis using w(1) by auto
    qed
  qed
qed

theorem one_production_version_witness:
  "\<exists>m. get_production_model ''m'' released = Inr m
    \<and> (\<forall>v. stage_at released ''m'' v = Some PRODUCTION \<longleftrightarrow> map_option mm_version m = Some v)"
  by (rule one_production_version [OF released_reachable]) simp

text \<open>
  Remark (a rollback undoes a promotion): after another version is promoted to production, at a time later than all earlier archivings,
  a rollback puts the previous production version back, archives the promoted one and leaves the
  stage of every other version as it was.
\<close>

theorem rollback_undoes_promotion:
  assumes "registry_reachable r" "stage_at r name old = Some PRODUCTION" "stage_at r name new \<noteq> None" "new \<noteq> old"
    and "\<forall>v md. get_model_metadata name v r = Inr md \<longrightarrow> mm_stage md = ARCHIVED \<longrightarrow> mm_updated_at md < clock old"
  shows "stage_at (snd (rollback_model t1 t2 stamp' name who' (snd (promote_model clock updated stamp name new PRODUCTION who r)))) name
    = (stage_at r name)(new \<mapsto> ARCHIVED)"
proof -
  obtain vs om nm where vs: "dget (rg_models r) name = Some vs" "dget vs old = Some om" "mm_stage om = PRODUCTION" "dget vs new = Some nm"
    using assms(2,3) by (auto simp: stage_at_def split: option.splits)
  note ok = registry_ok_D(2) [OF registry_reachable_ok [OF assms(1)] vs(1)]
  define vs1 where "vs1 = dset new (activate PRODUCTION updated nm) (archive_others clock new vs)"
  define r1 where "r1 = snd (promote_model clock updated stamp name new PRODUCTION who r)"
  have only: "mm_stage md \<noteq> PRODUCTION" if "dget vs v = Some md" "v \<noteq> old" for v md
    using versions_ok_D(3) [OF ok that(1) vs(2)] that(2) vs(3) by blast
  have get1: "dget vs1 v = (if v = new then Some (activate PRODUCTION updated nm) else if v = old then Some (restage ARCHIVED (clock old) om) else dget vs v)" for v
    using vs assms(4) only by (cases "dget vs v") (auto simp: vs1_def dict_simps archive_others_get)
  have r1: "dget (rg_models r1) name = Some vs1"
    using vs by (simp add: r1_def promote_model_def Let_def dict_simps vs1_def)
  have "registry_reachable r1" unfolding r1_def by (rule registry_reachable.step [OF assms(1) registry_step.promote])
  note ok1 = registry_ok_D(2) [OF registry_reachable_ok [OF this] r1]
  have old_arch: "(old, clock old) \<in> set (archived_versions vs1)"
    unfolding archived_versions_set [OF versions_ok_D(1) [OF ok1]] using get1 assms(4) by simp
  then have ne: "archived_versions vs1 \<noteq> []" by auto
  have restore: "restore_version vs1 = old"
  proof (rule ccontr)
    assume n: "restore_version vs1 \<noteq> old"
    obtain md where md: "dget vs1 (restore_version vs1) = Some md" "mm_stage md = ARCHIVED"
      "\<forall>v md'. dget vs1 v = Some md' \<longrightarrow> mm_stage md' = ARCHIVED \<longrightarrow> mm_updated_at md' \<le> mm_updated_at md"
      using restore_version_archived [OF versions_ok_D(1) [OF ok1] ne] by blast
    then have "dget vs (restore_version vs1) = Some md" using get1 n by (auto split: if_splits)
    then have "mm_updated_at md < clock old" using assms(5) md(2) vs(1) by (auto simp: get_model_metadata_def split: option.splits)
    moreover have "clock old \<le> mm_updated_at md" using md(3) get1 [of old] assms(4) by force
    ultimately show False by simp
  qed
  obtain entry where e: "dget (archive_current t1 vs1) old = Some entry" "dget vs1 old = Some entry"
    using rollback_restaged [OF ok1 ne] restore by metis
  have "rg_models (snd (rollback_model t1 t2 stamp' name who' r1)) =
      dset name (dset old (activate PRODUCTION t2 entry) (archive_current t1 vs1)) (rg_models r1)"
    using r1 ne e(1) by (simp add: rollback_model_def Let_def restore)
  then have "stage_at (snd (rollback_model t1 t2 stamp' name who' r1)) name v = ((stage_at r name)(new \<mapsto> ARCHIVED)) v" for v
    using vs only [of v] assms(4) by (cases "dget vs v") (auto simp: stage_at_def dict_simps archive_current_get [OF ok1] get1)
  then show ?thesis unfolding r1_def by (intro ext)
qed

theorem rollback_undoes_promotion_witness:
  "stage_at (snd (rollback_model ''t3'' ''t3'' ''t3'' ''m'' ''who'' (snd (promote_model (\<lambda>_. ''t2'') ''t2'' ''t2'' ''m'' ''2.0.0'' PRODUCTION ''who'' released)))) ''m''
   = (stage_at released ''m'')(''2.0.0'' \<mapsto> ARCHIVED)"
  by (rule rollback_undoes_promotion [OF released_reachable, of "''m''" "''1.0.0''"])
    (auto simp: stage_at_def released_models get_model_metadata_def new_metadata_def activate_def split: option.splits if_splits)

text \<open>What a restart reads back.\<close>

definition file_current :: "registry \<Rightarrow> bool" where
  "file_current r =
     ((\<forall>n v. get_model_metadata n v (new_registry (rg_file r)) = get_model_metadata n v r)
      \<and> rd_ab_tests (load_registry (rg_file r)) = rd_ab_tests (rg_registry r)
      \<and> rd_promotion_history (load_registry (rg_file r)) = rd_promotion_history (rg_registry r))"

lemma file_current_save [simp]: "file_current (save_registry r)"
  by (simp add: file_current_def new_registry_def load_registry_def get_model_metadata_def)

lemma file_current_touch:
  "file_current r \<Longrightarrow> file_current (put_versions n (case dget (rg_models r) n of Some vs \<Rightarrow> vs | None \<Rightarrow> []) r)"
  unfolding file_current_def by (auto simp: get_model_metadata_def dict_simps put_versions_def split: option.split)

lemma registry_step_file: "registry_step r r' \<Longrightarrow> registry_ok r \<Longrightarrow> file_current r \<Longrightarrow> file_current r'"
proof (induction rule: registry_step.induct)
  case (register r sign hash created updated a fs)
  then show ?case
    using file_current_touch [of r "ma_name a"] by (auto simp: register_model_def Let_def split: sum.splits prod.splits)
next
  case (rollback r archived restored stamp name who)
  show ?case
  proof (cases "\<exists>vs. dget (rg_models r) name = Some vs \<and> archived_versions vs \<noteq> []")
    case True
    then obtain vs where vs: "dget (rg_models r) name = Some vs" "archived_versions vs \<noteq> []" by blast
    then show ?thesis
      using rollback_restaged [OF registry_ok_D(2) [OF rollback(1) vs(1)] vs(2), of archived restored]
      by (auto simp: rollback_model_def Let_def)
  next
    case False
    then show ?thesis using rollback by (auto simp: rollback_model_def split: option.split)
  qed
qed (auto simp: promote_model_def create_ab_test_def end_ab_test_def Let_def split: option.splits)

text \<open>
  Remark (a restart loses nothing): a registry opened on the file of any reachable registry gives the same answer to every metadata
  query, has the same A/B tests and the same history.
\<close>

theorem restart_keeps_registry:
  assumes "registry_reachable r"
  shows "get_model_metadata n v (new_registry (rg_file r)) = get_model_metadata n v r
    \<and> get_ab_test test (new_registry (rg_file r)) = get_ab_test test r
    \<and> get_promotion_history name (new_registry (rg_file r)) = get_promotion_history name r"
proof -
  from assms have "file_current r"
  proof (induction rule: registry_reachable.induct)
    case start
    then show ?case by (simp add: file_current_def new_registry_def)
  next
    case (step r r')
    then show ?case using registry_step_file registry_reachable_ok by blast
  qed
  then show ?thesis by (auto simp: file_current_def get_ab_test_def get_promotion_history_def new_registry_def)
qed

theorem restart_keeps_registry_witness:
  "get_model_metadata ''m'' ''1.0.0'' (new_registry (rg_file released)) = get_model_metadata ''m'' ''1.0.0'' released
    \<and> get_ab_test ''x'' (new_registry (rg_file released)) = get_ab_test ''x'' released
    \<and> get_promotion_history None (new_registry (rg_file released)) = get_promotion_history None released"
  by (rule restart_keeps_registry [OF released_reachable])

section \<open>Signed artifacts\<close>

text \<open>
  Remark (only the registered artifact loads): registering with a signing key signs the artifact; whatever is in the file system later,
  as long as the signature file is as it was written, the loader of the server unpickles the file only
  when it holds the registered contents and otherwise raises. The message authentication code is
  assumed to be a hexadecimal digest that differs for different messages.
\<close>

theorem registered_artifact_guarded:
  assumes "register_model (sign_model_artifact hmac e) hash c u a (r, fs) = (Inr md, r', fs')"
    and "signing_key e = Inr (Some key)" "fs (model_file (ma_artifact_path a)) = Some data"
    and "\<And>k x. strip (hmac k x) = hmac k x" "inj (hmac key)"
    and "later (sig_file (model_file (ma_artifact_path a))) = fs' (sig_file (model_file (ma_artifact_path a)))"
  shows "default_model_loader hmac unpickle e later (mm_artifact_path md) =
    (case later (model_file (ma_artifact_path a)) of
       None \<Rightarrow> Inl FileNotFoundError
     | Some data' \<Rightarrow> if data' = data then unpickle data else Inl ValueError)"
proof -
  let ?p = "model_file (ma_artifact_path a)"
  have "mm_artifact_path md = ma_artifact_path a" "fs' = fs(sig_file ?p \<mapsto> signature hmac data key)"
    using assms(1-3)
    by (auto simp: register_model_def Let_def sign_model_artifact_def new_metadata_def split: sum.splits if_splits prod.splits)
  moreover have "signature hmac data key = signature hmac data' key \<longleftrightarrow> data' = data" for data'
    using injD [OF assms(5)] by (auto simp: signature_def)
  moreover have "strip (signature hmac data key) = signature hmac data key" using assms(4) by (simp add: signature_def)
  ultimately show ?thesis
    using assms(2,6) by (auto simp: default_model_loader_def load_model_artifact_def split: option.split)
qed

text \<open>An injective code for the witness.\<close>

definition demo_hmac :: "string \<Rightarrow> string \<Rightarrow> string" where
  "demo_hmac k x = ''<'' @ x @ ''>''"

lemma demo_hmac_inj: "inj (demo_hmac k)"
  by (simp add: inj_def demo_hmac_def)

lemma demo_hmac_strip: "strip (demo_hmac k x) = demo_hmac k x"
  by (simp add: demo_hmac_def strip_def is_space_def Let_def)

definition demo_env :: sign_env where
  "demo_env = \<lparr>se_key = replicate 32 CHR ''k'', se_env = ''prod''\<rparr>"

theorem registered_artifact_guarded_witness:
  "default_model_loader demo_hmac Inr demo_env
      ((snd (snd (register_model (sign_model_artifact demo_hmac demo_env) (\<lambda>p fs. []) ''t0'' ''t0'' (model_m ''1.0.0'')
          (new_registry None, [model_file ''1.0.0'' \<mapsto> ''data'']))))(model_file ''1.0.0'' \<mapsto> ''evil'')) ''1.0.0''
    = Inl ValueError"
proof -
  let ?reg = "register_model (sign_model_artifact demo_hmac demo_env) (\<lambda>p fs. []) ''t0'' ''t0'' (model_m ''1.0.0'') (new_registry None, [model_file ''1.0.0'' \<mapsto> ''data''])"
  have k: "signing_key demo_env = Inr (Some (replicate 32 CHR ''k''))" by (simp add: signing_key_def demo_env_def)
  have reg: "?reg = (Inr (new_metadata [] ''t0'' ''t0'' (model_m ''1.0.0'')), fst (snd ?reg), snd (snd ?reg))"
    by (simp add: register_model_def parse_examples model_m_def Let_def new_registry_def load_registry_def empty_registry_def
        sign_model_artifact_def k model_file_def)
  show ?thesis
    using registered_artifact_guarded [OF reg k _ demo_hmac_strip demo_hmac_inj, of "''data''" "(snd (snd ?reg))(model_file ''1.0.0'' \<mapsto> ''evil'')" Inr]
    by (simp add: model_m_def new_metadata_def sig_file_def model_file_def)
qed

section \<open>A/B tests\<close>

text \<open>
  Remark (the traffic split is exact): a sticky test sends a user to version B exactly when the user's hash bucket, one of ten
  thousand, lies below the split times ten thousand, rounded up; so none at 0 and all at 1.
\<close>

theorem ab_split_exact:
  assumes "get_ab_test test r = Some t" "ab_is_active t" "ab_sticky_assignment t"
  shows "resolve_ab_assignment hash_int rand test user r =
    Inr (if int (hash_int (test @ '':'' @ user) mod 10000) < \<lceil>10000 * ab_traffic_split t\<rceil> then ab_model_b_version t else ab_model_a_version t)"
proof -
  have "real n / 10000 < x \<longleftrightarrow> int n < \<lceil>10000 * x\<rceil>" for n x
    by (simp add: less_ceiling_iff field_simps)
  then show ?thesis using assms by (simp add: resolve_ab_assignment_def ab_position_def)
qed

theorem ab_split_exact_witness:
  "resolve_ab_assignment length 0 ''t'' ''user'' (snd (create_ab_test ''t2'' ''t'' ''m'' ''1.0.0'' ''2.0.0'' (1 / 2) True released)) = Inr ''2.0.0''"
proof -
  let ?r = "snd (create_ab_test ''t2'' ''t'' ''m'' ''1.0.0'' ''2.0.0'' (1 / 2) True released)"
  have "get_ab_test ''t'' ?r = Some \<lparr>ab_name = ''t'', ab_model_a_version = ''1.0.0'', ab_model_b_version = ''2.0.0'',
     ab_traffic_split = 1 / 2, ab_sticky_assignment = True, ab_start_time = ''t2'', ab_end_time = None, ab_is_active = True, ab_metrics_a = [], ab_metrics_b = []\<rparr>"
    by (simp add: create_ab_test_def released_models Let_def get_ab_test_def put_ab_test_def dict_simps)
  then show ?thesis using ab_split_exact [of "''t''" ?r] by simp
qed

section \<open>The server\<close>

text \<open>
  Remark (the server follows the registry): a hot reload on a reachable registry with a production version ends with that version
  serving and the previous model as fallback, and a second one does nothing; when the artifact does
  not load, nothing changes.
\<close>

theorem server_follows_registry:
  assumes "registry_reachable r" "sv_model_name s \<noteq> []" "get_model_metadata (sv_model_name s) v r = Inr md" "mm_stage md = PRODUCTION"
    and "hot_reload loader now r s = (b, s')"
  shows "case loader (mm_artifact_path md) of
      Inl ex \<Rightarrow> s' = s
    | Inr m \<Rightarrow> active_version s' = v \<and> hot_reload loader' now' r s' = (Inr False, s')
        \<and> (active_version s \<noteq> v \<longrightarrow> b = Inr True \<and> sv_primary s' = Some (m, md) \<and> sv_fallback s' = sv_primary s)"
proof -
  obtain vs where vs: "dget (rg_models r) (sv_model_name s) = Some vs" "dget vs v = Some md"
    using assms(3) by (auto simp: get_model_metadata_def split: option.splits)
  note ok = registry_ok_D [OF registry_reachable_ok [OF assms(1)]]
  obtain w where w: "mm_version md = v" "parse_version v = Inr w" using versions_ok_D(2) [OF ok(2) [OF vs(1)] vs(2)] by blast
  obtain v' md' where p: "dget vs v' = Some md'" "mm_stage md' = PRODUCTION" "filter (\<lambda>md. mm_stage md = PRODUCTION) (map snd vs) = [md']"
    using production_list [OF ok(2) [OF vs(1)]] vs(2) assms(4) by blast
  then have "md' = md" using versions_ok_D(3) [OF ok(2) [OF vs(1)] p(1) vs(2) p(2) assms(4)] vs(2) by simp
  then have pm: "get_production_model (sv_model_name s) r = Inr (Some md)"
    using list_production [OF ok(1) assms(2), of PRODUCTION] vs(1) p(3) latest_single [of md w] w
    by (simp add: get_production_model_def)
  show ?thesis
  proof (cases "loader (mm_artifact_path md)")
    case (Inl ex)
    then show ?thesis using assms(5) pm by (auto simp: hot_reload_def safe_load_artifact_def split: if_splits)
  next
    case (Inr m)
    have "sv_model_name s' = sv_model_name s \<and> active_version s' = v
        \<and> (active_version s \<noteq> v \<longrightarrow> b = Inr True \<and> sv_primary s' = Some (m, md) \<and> sv_fallback s' = sv_primary s)"
      using assms(5) pm Inr w(1) by (auto simp: hot_reload_def safe_load_artifact_def swap_in_def active_version_def split: if_splits)
    then show ?thesis using Inr pm w(1) by (simp add: hot_reload_def)
  qed
qed

definition constant_model :: "real \<Rightarrow> predictor" where
  "constant_model c = \<lparr>pd_predict_proba = None, pd_decision_function = None,
     pd_predict = (\<lambda>x. Inr (replicate (rows x) c))\<rparr>"

definition demo_loader :: "string \<Rightarrow> predictor res" where
  "demo_loader path = (if path = ''1.0.0'' then Inr (constant_model 1) else if path = ''2.0.0'' then Inr (constant_model 2) else Inl FileNotFoundError)"

theorem server_follows_registry_witness:
  "active_version (snd (hot_reload demo_loader ''t9'' released (new_server ''m''))) = ''1.0.0''"
  using server_follows_registry [OF released_reachable, of "new_server ''m''" "''1.0.0''"
      "activate PRODUCTION ''t1'' (new_metadata [] ''t0'' ''t0'' (model_m ''1.0.0''))" demo_loader "''t9''"
      "fst (hot_reload demo_loader ''t9'' released (new_server ''m''))" "snd (hot_reload demo_loader ''t9'' released (new_server ''m''))"]
  by (simp add: new_server_def get_model_metadata_def released_models demo_loader_def new_metadata_def model_m_def)

lemma one_row_vec: "is_vec x \<Longrightarrow> one_row x = as_rows x"
  by (cases x) (simp_all add: is_vec_def)

definition demo_server :: server where
  "demo_server = swap_in ''t9'' (constant_model 1) (activate PRODUCTION ''t1'' (new_metadata [] ''t0'' ''t0'' (model_m ''1.0.0''))) (new_server ''m'')"

lemma split_sizes_map:
  "split_sizes (map rows batch) (concat (map f batch)) = map f batch" if "\<And>x. x \<in> set batch \<Longrightarrow> length (f x) = rows x"
  using that by (induction batch) auto

text \<open>
  Remark (batches are equivalent to single calls): for a model that scores each row on its own, a batch of vectors or a batch of matrices
  of one width yields for every array what a single call yields, and counts as many predictions.
\<close>

theorem predict_batch_equals_single:
  assumes "sv_primary s = Some (m, md)" "\<And>rws. run_model m (Mat rws) = Inr (map f rws)" "\<And>xs. run_model m (Vec xs) = Inr [f xs]"
    and "batch \<noteq> []" "(\<forall>x \<in> set batch. is_vec x) \<or> (\<forall>x \<in> set batch. \<not> is_vec x)" "same_width (concat (map as_rows batch))"
  shows "\<exists>s'. predict_batch loader hash_int rand ms r None batch s = (Inr (map (\<lambda>x. map f (as_rows x)) batch), s')
    \<and> (\<forall>x \<in> set batch. fst (predict loader hash_int rand ms' r None x s) = Inr (map f (as_rows x)))
    \<and> sv_prediction_count s' = sv_prediction_count s + sum_list (map rows batch)"
proof -
  have "map one_row batch = map as_rows batch" if "\<forall>x \<in> set batch. is_vec x"
    using that one_row_vec by (intro map_cong refl) blast
  then have "combine batch = vstack (map as_rows batch)"
    using assms(5) hd_in_set [OF assms(4)] unfolding combine_def by metis
  then have c: "combine batch = Inr (Mat (concat (map as_rows batch)))" using assms(6) by (simp add: vstack_def)
  have r: "length (as_rows x) = rows x" for x by (cases x) simp_all
  have single: "run_model m x = Inr (map f (as_rows x))" for x using assms(2,3) by (cases x) simp_all
  have "split_sizes (map rows batch) (map f (concat (map as_rows batch))) = map (\<lambda>x. map f (as_rows x)) batch"
    using split_sizes_map [of batch "\<lambda>x. map f (as_rows x)"] r by (simp add: map_concat o_def)
  moreover have "length (concat (map as_rows batch)) = sum_list (map rows batch)"
    by (simp add: length_concat r o_def)
  ultimately show ?thesis
    using assms(1,4) c single by (simp add: predict_batch_def predict_def resolve_model_def assms(2))
qed

theorem predict_batch_equals_single_witness:
  "\<exists>s'. predict_batch demo_loader length (\<lambda>_. 0) 1 released None [Vec [1, 2], Vec [3, 4]] demo_server
      = (Inr (map (\<lambda>x. map (\<lambda>_. 1) (as_rows x)) [Vec [1, 2], Vec [3, 4]]), s')"
  using predict_batch_equals_single [of demo_server "constant_model 1" _ "\<lambda>_. 1" "[Vec [1, 2], Vec [3, 4]]" demo_loader length "\<lambda>_. 0" 1 released 1]
  by (auto simp: demo_server_def swap_in_def constant_model_def run_model_def map_replicate_const is_vec_def same_width_def)

lemma load_ab_model_frame: "load_ab_model loader r v s = (m, s') \<Longrightarrow> sv_fallback s' = sv_fallback s \<and> sv_primary s' = sv_primary s"
  by (auto simp: load_ab_model_def split: sum.splits option.splits)

lemma resolve_tests_frame:
  "resolve_tests loader h rand r user ts s = (m, s') \<Longrightarrow> sv_fallback s' = sv_fallback s \<and> sv_primary s' = sv_primary s"
proof (induction ts arbitrary: s)
  case (Cons a ts)
  obtain test t where "a = (test, t)" by (cases a)
  then show ?case using Cons by (auto split: if_splits sum.splits option.splits prod.splits dest!: load_ab_model_frame)
qed simp

text \<open>
  Remark (a failing variant is not replaced by the primary model): when the model an A/B test assigns raises and no earlier model is kept as fallback, the prediction
  raises, although the primary model is loaded and answers.
\<close>

theorem variant_failure_skips_primary:
  assumes "resolve_model loader hash_int rand r (Some user) s = (Inr (Some variant), s1)" "run_model variant x = Inl ex"
    and "sv_primary s = Some (primary, md)" "run_model primary x = Inr ys" "sv_fallback s = None"
  shows "fst (predict loader hash_int rand ms r (Some user) x s) = Inl RuntimeError \<and> sv_primary s1 = Some (primary, md)"
proof -
  have "sv_fallback s1 = sv_fallback s \<and> sv_primary s1 = sv_primary s"
    using assms(1) by (auto simp: resolve_model_def split: prod.splits sum.splits option.splits if_splits dest!: resolve_tests_frame)
  then show ?thesis using assms by (simp add: predict_def predict_with_fallback_def Let_def)
qed

text \<open>
  Remark (a test of one model routes another): the server looks at all tests of the registry, whichever model they were created for: a
  test of another model makes it serve the version of that number of its own model.
\<close>

theorem test_of_other_model_routes:
  assumes "create_ab_test now test other va vb 1 True r = (Inr t, r')" "other \<noteq> sv_model_name s" "rd_ab_tests (rg_registry r) = []"
    and "user \<noteq> []" "dget (sv_ab_models s) vb = None" "get_model_metadata (sv_model_name s) vb r = Inr md" "loader (mm_artifact_path md) = Inr m"
  shows "fst (resolve_model loader hash_int rand r' (Some user) s) = Inr (Some m)"
proof -
  have t: "ab_is_active t" "ab_sticky_assignment t" "ab_traffic_split t = 1" "ab_model_b_version t = vb" "r' = save_registry (put_ab_test test t r)"
    using assms(1) by (auto simp: create_ab_test_def Let_def split: option.splits if_splits)
  have r': "rd_ab_tests (rg_registry r') = [(test, t)]" using t(5) assms(3) by (simp add: put_ab_test_def)
  have "resolve_ab_assignment hash_int (rand test) test user r' = Inr vb"
    using r' t(1-4) by (simp add: resolve_ab_assignment_def get_ab_test_def ab_position_def)
  moreover have "get_model_metadata (sv_model_name s) vb r' = Inr md" using assms(6) t(5) by (simp add: get_model_metadata_def)
  moreover have "truthy (Some user)" using assms(4) by (cases user) simp_all
  ultimately show ?thesis
    using r' t(1) assms(5,7) by (simp add: resolve_model_def load_ab_model_def safe_load_artifact_def)
qed

definition two_models :: registry where
  "two_models = fst (snd (register_model (\<lambda>p fs. (Inr (), fs)) (\<lambda>p fs. []) ''t0'' ''t0'' ((model_m ''2.0.0'')\<lparr>ma_name := ''other''\<rparr>) (released, Map.empty :: files)))"

lemma two_models_models:
  "rg_models two_models = rg_models released @ [(''other'', [(''2.0.0'', new_metadata [] ''t0'' ''t0'' ((model_m ''2.0.0'')\<lparr>ma_name := ''other''\<rparr>))])]"
  "rd_ab_tests (rg_registry two_models) = []"
  by (simp_all add: two_models_def register_model_def model_m_def parse_examples Let_def released_models)
    (simp_all add: released_def two_versions_def register_m_def register_model_def model_m_def parse_examples promote_model_def Let_def
      new_registry_def load_registry_def empty_registry_def)

theorem test_of_other_model_routes_witness:
  "fst (resolve_model demo_loader length (\<lambda>_. 0) (snd (create_ab_test ''t5'' ''x'' ''other'' ''2.0.0'' ''2.0.0'' 1 True two_models)) (Some ''u'')
      demo_server) = Inr (Some (constant_model 2))"
proof -
  let ?c = "create_ab_test ''t5'' ''x'' ''other'' ''2.0.0'' ''2.0.0'' 1 True two_models"
  obtain t where c: "?c = (Inr t, snd ?c)" by (simp add: create_ab_test_def two_models_models released_models Let_def)
  show ?thesis
    using test_of_other_model_routes [OF c, of demo_server "''u''" "new_metadata [] ''t0'' ''t0'' (model_m ''2.0.0'')" demo_loader "constant_model 2" length "\<lambda>_. 0"]
    by (simp add: demo_server_def swap_in_def new_server_def two_models_models get_model_metadata_def released_models demo_loader_def new_metadata_def model_m_def)
qed

definition raising_model :: predictor where
  "raising_model = \<lparr>pd_predict_proba = None, pd_decision_function = None, pd_predict = (\<lambda>x. Inl ValueError)\<rparr>"

theorem variant_failure_skips_primary_witness:
  "fst (predict (\<lambda>_. Inr raising_model) length (\<lambda>_. 0) 1 (snd (create_ab_test ''t5'' ''x'' ''m'' ''2.0.0'' ''2.0.0'' 1 True released)) (Some ''u'') (Vec [1])
      demo_server) = Inl RuntimeError"
proof -
  let ?r = "snd (create_ab_test ''t5'' ''x'' ''m'' ''2.0.0'' ''2.0.0'' 1 True released)"
  have e: "rd_ab_tests (rg_registry released) = []"
    by (simp add: released_def two_versions_def register_m_def register_model_def model_m_def parse_examples promote_model_def Let_def
      new_registry_def load_registry_def empty_registry_def)
  have "resolve_model (\<lambda>_. Inr raising_model) length (\<lambda>_. 0) ?r (Some ''u'') demo_server
      = (Inr (Some raising_model), demo_server\<lparr>sv_ab_models := [(''2.0.0'', raising_model)]\<rparr>)"
    by (simp add: resolve_model_def create_ab_test_def released_models Let_def put_ab_test_def e resolve_ab_assignment_def get_ab_test_def
        ab_position_def demo_server_def swap_in_def new_server_def load_ab_model_def get_model_metadata_def safe_load_artifact_def)
  then show ?thesis
    using variant_failure_skips_primary [of "\<lambda>_. Inr raising_model" length "\<lambda>_. 0" ?r "''u''" demo_server raising_model _ "Vec [1]" ValueError "constant_model 1" _ "[1]" 1]
    by (simp add: raising_model_def run_model_def demo_server_def swap_in_def new_server_def constant_model_def)
qed

end
