(* ===== verification/Py_Date.thy ===== *)
theory Py_Date
  imports Py_Text
begin

text \<open>
  Calendar dates of the Python standard library: the civil date of a day number, \<^verbatim>\<open>weekday\<close>, \<^verbatim>\<open>strptime\<close> for the
  numeric directives, and the \<^verbatim>\<open>strftime\<close> format with which the pipeline writes times. A day number counts from the
  first of January 1970.
\<close>

section \<open>Civil dates\<close>

definition year_of_day :: "int \<Rightarrow> int" where
  "year_of_day n =
     (let y = (400 * (n + 719162)) div 146097 + 1
      in if n < days_before_year y then y - 1 else if days_before_year (y + 1) \<le> n then y + 1 else y)"

definition month_of_day :: "int \<Rightarrow> int \<Rightarrow> int" where
  "month_of_day y r = int (length (filter (\<lambda>m. days_before_month y m \<le> r) [1..12]))"

definition civil :: "int \<Rightarrow> int \<times> int \<times> int" where
  "civil n = (let y = year_of_day n; r = n - days_before_year y; m = month_of_day y r in (y, m, r - days_before_month y m + 1))"

definition day_of :: "datetime \<Rightarrow> int" where
  "day_of t = t div 86400000000"

text \<open>The first of January 1970 was a Thursday; Monday is 0.\<close>

definition weekday :: "datetime \<Rightarrow> int" where
  "weekday t = (day_of t + 3) mod 7"

text \<open>The range of \<^verbatim>\<open>datetime\<close>: the years 1 to 9999.\<close>

definition in_range :: "datetime \<Rightarrow> bool" where
  "in_range t = (days_before_year 1 * 86400000000 \<le> t \<and> t < days_before_year 10000 * 86400000000)"

section \<open>Reading dates\<close>

text \<open>The directives of a format; a blank stands for any white space.\<close>

datatype directive = D_Y | D_m | D_d | D_H | D_M | D_S | D_f | D_z | D_blank | D_char char

record parsed =
  pd_Y :: int
  pd_m :: int
  pd_d :: int
  pd_H :: int
  pd_M :: int
  pd_S :: int
  pd_f :: int
  pd_z :: "int option"

definition new_parsed :: parsed where
  "new_parsed = \<lparr>pd_Y = 1900, pd_m = 1, pd_d = 1, pd_H = 0, pd_M = 0, pd_S = 0, pd_f = 0, pd_z = None\<rparr>"

text \<open>What a directive may take from a text, in the order its regular expression tries: two digits first, then one.\<close>

fun two_digits :: "string \<Rightarrow> (nat \<times> string) option" where
  "two_digits (a # b # r) = (if is_digit a \<and> is_digit b then Some (10 * digit a + digit b, r) else None)"
| "two_digits _ = None"

fun one_digit :: "string \<Rightarrow> (nat \<times> string) option" where
  "one_digit (a # r) = (if is_digit a then Some (digit a, r) else None)"
| "one_digit _ = None"

definition keep_if :: "(nat \<Rightarrow> bool) \<Rightarrow> (nat \<times> string) option \<Rightarrow> (int \<times> string) list" where
  "keep_if P x = (case x of None \<Rightarrow> [] | Some (n, r) \<Rightarrow> if P n then [(int n, r)] else [])"

definition num_options :: "nat \<Rightarrow> nat \<Rightarrow> string \<Rightarrow> (int \<times> string) list" where
  "num_options lo hi s = keep_if (\<lambda>n. lo \<le> n \<and> n \<le> hi) (two_digits s) @ keep_if (\<lambda>n. lo \<le> n) (one_digit s)"

fun fraction_options :: "nat \<Rightarrow> string \<Rightarrow> (int \<times> string) list" where
  "fraction_options 0 s = []"
| "fraction_options (Suc k) s =
     (let (ds, r) = take_digits (Suc k) s
      in (if length ds = Suc k then [(micros (int (num_of ds)) (Suc k), r)] else []) @ fraction_options k s)"

definition blank_options :: "string \<Rightarrow> string list" where
  "blank_options s = (case s of [] \<Rightarrow> [] | c # r \<Rightarrow> if is_space c then [dropWhile is_space r] else [])"

definition char_options :: "char \<Rightarrow> string \<Rightarrow> string list" where
  "char_options x s = (case s of [] \<Rightarrow> [] | c # r \<Rightarrow> if ascii_lower [c] = ascii_lower [x] then [r] else [])"

definition year_options :: "string \<Rightarrow> (int \<times> string) list" where
  "year_options s = (let (ds, r) = take_digits 4 s in if length ds = 4 then [(int (num_of ds), r)] else [])"

definition options :: "directive \<Rightarrow> string \<Rightarrow> parsed \<Rightarrow> (parsed \<times> string) list" where
  "options d s p =
     (case d of
        D_Y \<Rightarrow> map (\<lambda>(n, r). (p\<lparr>pd_Y := n\<rparr>, r)) (year_options s)
      | D_m \<Rightarrow> map (\<lambda>(n, r). (p\<lparr>pd_m := n\<rparr>, r)) (num_options 1 12 s)
      | D_d \<Rightarrow> map (\<lambda>(n, r). (p\<lparr>pd_d := n\<rparr>, r))
                (num_options 1 31 s @ (case s of c # r \<Rightarrow> if c = CHR '' '' then keep_if (\<lambda>n. 1 \<le> n) (one_digit r) else [] | [] \<Rightarrow> []))
      | D_H \<Rightarrow> map (\<lambda>(n, r). (p\<lparr>pd_H := n\<rparr>, r)) (num_options 0 23 s)
      | D_M \<Rightarrow> map (\<lambda>(n, r). (p\<lparr>pd_M := n\<rparr>, r)) (num_options 0 59 s)
      | D_S \<Rightarrow> map (\<lambda>(n, r). (p\<lparr>pd_S := n\<rparr>, r)) (num_options 0 61 s)
      | D_f \<Rightarrow> map (\<lambda>(n, r). (p\<lparr>pd_f := n\<rparr>, r)) (fraction_options 6 s)
      | D_z \<Rightarrow> (case scan_zone s of None \<Rightarrow> [] | Some z \<Rightarrow> [(p\<lparr>pd_z := Some z\<rparr>, [])])
      | D_blank \<Rightarrow> map (\<lambda>r. (p, r)) (blank_options s)
      | D_char c \<Rightarrow> map (\<lambda>r. (p, r)) (char_options c s))"

fun first_match :: "('a \<Rightarrow> 'b option) \<Rightarrow> 'a list \<Rightarrow> 'b option" where
  "first_match f [] = None"
| "first_match f (x # xs) = (case f x of None \<Rightarrow> first_match f xs | Some y \<Rightarrow> Some y)"

primrec match_format :: "directive list \<Rightarrow> string \<Rightarrow> parsed \<Rightarrow> (parsed \<times> string) option" where
  "match_format [] s p = Some (p, s)"
| "match_format (d # ds) s p = first_match (\<lambda>(p', r). match_format ds r p') (options d s p)"

text \<open>\<^verbatim>\<open>datetime.strptime\<close>: the match has to take the whole text, and its numbers have to be a date. \<open>None\<close> is the ValueError.\<close>

definition strptime :: "directive list \<Rightarrow> string \<Rightarrow> (datetime \<times> int option) option" where
  "strptime fmt s =
     (case match_format fmt s new_parsed of
        None \<Rightarrow> None
      | Some (p, r) \<Rightarrow>
          if r \<noteq> [] then None
          else map_option (\<lambda>w. (w, pd_z p)) (make_wall (pd_Y p) (pd_m p) (pd_d p) (pd_H p) (pd_M p) (pd_S p) (pd_f p)))"

section \<open>Writing dates\<close>

definition two :: "int \<Rightarrow> string" where
  "two n = [char_of (48 + nat (n div 10)), char_of (48 + nat (n mod 10))]"

text \<open>\<^verbatim>\<open>strftime("%Y-%m-%dT%H:%M:%SZ")\<close>; the year is not padded.\<close>

definition iso_seconds :: "datetime \<Rightarrow> string" where
  "iso_seconds t =
     (let (y, m, d) = civil (day_of t); sec = (t div 1000000) mod 86400
      in int_str y @ ''-'' @ two m @ ''-'' @ two d @ ''T'' @ two (sec div 3600) @ '':'' @ two ((sec div 60) mod 60) @ '':'' @ two (sec mod 60) @ ''Z'')"

section \<open>Facts\<close>

lemma div_predecessor: "0 < k \<Longrightarrow> y div k - (y - 1) div k = (if k dvd y then 1 else 0)" for y k :: int
proof -
  assume k: "0 < k"
  have y: "y = k * (y div k) + y mod k" "0 \<le> y mod k" "y mod k < k" using k by simp_all
  show ?thesis
  proof (cases "y mod k = 0")
    case True
    then have "y - 1 = k * (y div k - 1) + (k - 1)" using y(1) by (simp add: algebra_simps)
    then have "(y - 1) div k = y div k - 1" using int_div_pos_eq [of "y - 1" k "y div k - 1" "k - 1"] k by linarith
    then show ?thesis using True by (simp add: dvd_eq_mod_eq_0)
  next
    case False
    have "y - 1 = k * (y div k) + (y mod k - 1)" using y(1) by simp
    then have "(y - 1) div k = y div k" using int_div_pos_eq [of "y - 1" k "y div k" "y mod k - 1"] False y(2,3) by linarith
    then show ?thesis using False by (simp add: dvd_eq_mod_eq_0)
  qed
qed

lemma year_div:
  "days_before_year y = (y - 1) * 365 + (y - 1) div 4 - (y - 1) div 100 + (y - 1) div 400 - 719162"
  "days_before_year (y + 1) = y * 365 + y div 4 - y div 100 + y div 400 - 719162"
  by (simp_all add: days_before_year_def Let_def)

lemma days_before_year_step: "days_before_year (y + 1) = days_before_year y + (if leap_year y then 366 else 365)"
proof -
  have d: "400 dvd y \<Longrightarrow> 100 dvd y" "100 dvd y \<Longrightarrow> 4 dvd y" using dvd_trans [of 100 400 y] dvd_trans [of 4 100 y] by simp_all
  have v: "(y * 365 + a - b + c - k) - ((y - 1) * 365 + a' - b' + c' - k) = 365 + (a - a') - (b - b') + (c - c')" for a b c a' b' c' k :: int
    by (simp add: algebra_simps)
  have "days_before_year (y + 1) - days_before_year y
      = 365 + (y div 4 - (y - 1) div 4) - (y div 100 - (y - 1) div 100) + (y div 400 - (y - 1) div 400)"
    unfolding year_div(2) year_div(1) [of y] by (rule v)
  also have "\<dots> = 365 + (if 4 dvd y then 1 else 0) - (if 100 dvd y then 1 else 0) + (if 400 dvd y then 1 else 0)"
    by (simp only: div_predecessor zero_less_numeral)
  also have "\<dots> = (if leap_year y then 366 else 365)" using d unfolding leap_year_def by (cases "4 dvd y"; cases "100 dvd y"; cases "400 dvd y") simp_all
  finally show ?thesis by linarith
qed

lemma div_bounds: "0 < k \<Longrightarrow> k * (x div k) \<le> x \<and> x < k * (x div k) + k" for x k :: int
  using mult_div_mod_eq [of k x] pos_mod_bound [of k x] pos_mod_sign [of k x] by linarith

lemma days_before_year_bounds: "146097 * y - 287811596 \<le> 400 * days_before_year y" "400 * days_before_year y \<le> 146097 * y - 287810501"
proof -
  have *: "4 * a \<le> y - 1 \<and> y - 1 < 4 * a + 4 \<Longrightarrow> 100 * b \<le> y - 1 \<and> y - 1 < 100 * b + 100 \<Longrightarrow> 400 * c \<le> y - 1 \<and> y - 1 < 400 * c + 400
      \<Longrightarrow> 146097 * y - 287811596 \<le> 400 * ((y - 1) * 365 + a - b + c - 719162)
        \<and> 400 * ((y - 1) * 365 + a - b + c - 719162) \<le> 146097 * y - 287810501" for a b c :: int
    by (intro conjI; elim conjE; simp; linarith)
  have "146097 * y - 287811596 \<le> 400 * days_before_year y \<and> 400 * days_before_year y \<le> 146097 * y - 287810501"
    unfolding year_div(1) by (intro * div_bounds zero_less_numeral)
  then show "146097 * y - 287811596 \<le> 400 * days_before_year y" "400 * days_before_year y \<le> 146097 * y - 287810501" by simp_all
qed

lemma year_of_day_bounds: "days_before_year (year_of_day n) \<le> n \<and> n < days_before_year (year_of_day n + 1)"
proof -
  define q where "q = (400 * (n + 719162)) div 146097"
  have q: "146097 * q \<le> 400 * n + 287664800" "400 * n + 287664800 < 146097 * q + 146097"
    using div_bounds [of 146097 "400 * (n + 719162)"] unfolding q_def [symmetric] by (simp_all add: distrib_left)
  have "days_before_year q \<le> n" using q days_before_year_bounds [of q] by linarith
  moreover have "n < days_before_year (q + 3)" using q days_before_year_bounds(1) [of "q + 3", unfolded distrib_left] by linarith
  ultimately show ?thesis
    unfolding year_of_day_def q_def [symmetric] Let_def by (auto simp: algebra_simps)
qed

lemma days_before_year_mono: "x < y \<Longrightarrow> days_before_year (x + 1) \<le> days_before_year y"
proof (induction "nat (y - x - 1)" arbitrary: y)
  case 0
  then have "y = x + 1" by simp
  then show ?case by simp
next
  case (Suc k)
  then have "days_before_year (x + 1) \<le> days_before_year (y - 1)" by (intro Suc.hyps(1)) auto
  also have "\<dots> \<le> days_before_year y" using days_before_year_step [of "y - 1"] by (simp split: if_splits)
  finally show ?case .
qed

lemma year_of_day_unique:
  assumes "days_before_year y \<le> n" "n < days_before_year (y + 1)"
  shows "year_of_day n = y"
  using year_of_day_bounds [of n] assms days_before_year_mono [of y "year_of_day n"] days_before_year_mono [of "year_of_day n" y]
  by (cases "year_of_day n" y rule: linorder_cases) auto

lemma days_before_month_values:
  "days_before_month y 1 = 0" "days_before_month y 2 = 31" "days_before_month y 3 = 31 + days_in_month y 2"
  "days_before_month y 4 = 62 + days_in_month y 2" "days_before_month y 5 = 92 + days_in_month y 2" "days_before_month y 6 = 123 + days_in_month y 2"
  "days_before_month y 7 = 153 + days_in_month y 2" "days_before_month y 8 = 184 + days_in_month y 2" "days_before_month y 9 = 215 + days_in_month y 2"
  "days_before_month y 10 = 245 + days_in_month y 2" "days_before_month y 11 = 276 + days_in_month y 2" "days_before_month y 12 = 306 + days_in_month y 2"
  by (simp_all add: days_before_month_def days_in_month_def upto_rec1)

lemma months: "1 \<le> m \<Longrightarrow> m \<le> 12 \<Longrightarrow> m \<in> {1, 2, 3, 4, 5, 6, 7, 8, 9, 10, 11, 12}" for m :: int
  by simp presburger

lemma month_of_day_exact:
  assumes "1 \<le> m" "m \<le> 12" "1 \<le> d" "d \<le> days_in_month y m"
  shows "month_of_day y (days_before_month y m + d - 1) = m"
proof -
  have u: "[1..12] = [1, 2, 3, 4, 5, 6, 7, 8, 9, 10, 11, 12::int]" by (simp add: upto_rec1)
  have f: "days_in_month y 2 = 28 \<or> days_in_month y 2 = 29" by (simp add: days_in_month_def)
  then show ?thesis
    using months [OF assms(1,2)] assms(3,4) unfolding month_of_day_def u
    by (elim insertE) (auto simp: days_before_month_values days_in_month_def split: if_splits)
qed

lemma day_in_year:
  assumes "1 \<le> m" "m \<le> 12" "1 \<le> d" "d \<le> days_in_month y m"
  shows "0 \<le> days_before_month y m + d - 1" "days_before_year y + days_before_month y m + d - 1 < days_before_year (y + 1)"
  using months [OF assms(1,2)] assms(3,4) unfolding days_before_year_step
  by (auto simp: days_before_month_values days_in_month_def split: if_splits)

text \<open>The civil date of the day number of a date is the date.\<close>

lemma civil_date:
  assumes "1 \<le> m" "m \<le> 12" "1 \<le> d" "d \<le> days_in_month y m"
  shows "civil (days_before_year y + days_before_month y m + d - 1) = (y, m, d)"
proof -
  have "year_of_day (days_before_year y + days_before_month y m + d - 1) = y"
    using day_in_year [OF assms] by (intro year_of_day_unique) auto
  then show ?thesis using month_of_day_exact [OF assms] by (simp add: civil_def Let_def algebra_simps)
qed

lemma month_exists:
  assumes "0 \<le> r" "r < (if leap_year y then 366 else 365)"
  obtains m where "1 \<le> m" "m \<le> 12" "days_before_month y m \<le> r" "r < days_before_month y m + days_in_month y m"
proof -
  have f: "days_in_month y 2 = (if leap_year y then 29 else 28)" by (simp add: days_in_month_def)
  let ?P = "\<lambda>m. days_before_month y m \<le> r \<and> r < days_before_month y m + days_in_month y m"
  have "?P 1 \<or> ?P 2 \<or> ?P 3 \<or> ?P 4 \<or> ?P 5 \<or> ?P 6 \<or> ?P 7 \<or> ?P 8 \<or> ?P 9 \<or> ?P 10 \<or> ?P 11 \<or> ?P 12"
    using assms unfolding days_before_month_values f by (cases "leap_year y") (simp_all add: days_in_month_def, linarith+)
  then show thesis by (elim disjE conjE) (rule that, simp_all; fail)+
qed

lemma civil_exact:
  assumes "civil n = (y, m, d)"
  shows "1 \<le> m \<and> m \<le> 12 \<and> 1 \<le> d \<and> d \<le> days_in_month y m \<and> n = days_before_year y + days_before_month y m + d - 1"
proof -
  let ?y = "year_of_day n"
  have "0 \<le> n - days_before_year ?y" "n - days_before_year ?y < (if leap_year ?y then 366 else 365)"
    using year_of_day_bounds [of n] unfolding days_before_year_step by simp_all
  then obtain m' where m: "1 \<le> m'" "m' \<le> 12" "days_before_month ?y m' \<le> n - days_before_year ?y"
      "n - days_before_year ?y < days_before_month ?y m' + days_in_month ?y m'" by (rule month_exists)
  have "civil (days_before_year ?y + days_before_month ?y m' + (n - days_before_year ?y - days_before_month ?y m' + 1) - 1)
      = (?y, m', n - days_before_year ?y - days_before_month ?y m' + 1)"
    using m by (intro civil_date) auto
  then have "civil n = (?y, m', n - days_before_year ?y - days_before_month ?y m' + 1)" by simp
  then show ?thesis using assms m by simp
qed

section \<open>Written times read back\<close>

definition iso_format :: "directive list" where
  "iso_format = [D_Y, D_char CHR ''-'', D_m, D_char CHR ''-'', D_d, D_char CHR ''T'', D_H, D_char CHR '':'', D_M, D_char CHR '':'', D_S, D_char CHR ''Z'']"

lemma two_digits_two: "0 \<le> n \<Longrightarrow> n < 100 \<Longrightarrow> two_digits (two n @ r) = Some (nat n, r)"
proof -
  assume n: "0 \<le> n" "n < 100"
  then have d: "nat (n div 10) < 10" "nat (n mod 10) < 10" by auto
  have "int (10 * nat (n div 10) + nat (n mod 10)) = n" using n pos_imp_zdiv_nonneg_iff [of 10 n] by simp
  then have "10 * nat (n div 10) + nat (n mod 10) = nat n" by linarith
  then show ?thesis using digit_char [OF d(1)] digit_char [OF d(2)] by (simp add: two_def)
qed

lemma num_options_two:
  "int lo \<le> n \<Longrightarrow> n \<le> int hi \<Longrightarrow> hi < 100 \<Longrightarrow> num_options lo hi (two n @ r) = (n, r) # keep_if (\<lambda>n. lo \<le> n) (one_digit (two n @ r))"
  using two_digits_two [of n r] by (simp add: num_options_def keep_if_def nat_le_iff le_nat_iff)

lemma match_two:
  "1 \<le> n \<Longrightarrow> n \<le> 12 \<Longrightarrow> match_format ds r (p\<lparr>pd_m := n\<rparr>) = Some z \<Longrightarrow> match_format (D_m # ds) (two n @ r) p = Some z"
  "1 \<le> n \<Longrightarrow> n \<le> 31 \<Longrightarrow> match_format ds r (p\<lparr>pd_d := n\<rparr>) = Some z \<Longrightarrow> match_format (D_d # ds) (two n @ r) p = Some z"
  "0 \<le> n \<Longrightarrow> n \<le> 23 \<Longrightarrow> match_format ds r (p\<lparr>pd_H := n\<rparr>) = Some z \<Longrightarrow> match_format (D_H # ds) (two n @ r) p = Some z"
  "0 \<le> n \<Longrightarrow> n \<le> 59 \<Longrightarrow> match_format ds r (p\<lparr>pd_M := n\<rparr>) = Some z \<Longrightarrow> match_format (D_M # ds) (two n @ r) p = Some z"
  "0 \<le> n \<Longrightarrow> n \<le> 61 \<Longrightarrow> match_format ds r (p\<lparr>pd_S := n\<rparr>) = Some z \<Longrightarrow> match_format (D_S # ds) (two n @ r) p = Some z"
  by (simp_all add: options_def num_options_two)

lemma match_char: "match_format ds r p = Some z \<Longrightarrow> match_format (D_char c # ds) (c # r) p = Some z"
  by (simp add: options_def char_options_def)

lemma nat_str_four: "1000 \<le> n \<Longrightarrow> n \<le> 9999 \<Longrightarrow> length (nat_str n) = 4"
proof -
  assume n: "1000 \<le> n" "n \<le> 9999"
  have s: "nat_str k = nat_str (k div 10) @ [char_of (48 + k mod 10)]" if "10 \<le> k" for k using that by (subst nat_str.simps) simp
  have o: "length (nat_str k) = 1" if "k < 10" for k using that by (subst nat_str.simps) simp
  have "10 \<le> n" "10 \<le> n div 10" "10 \<le> n div 10 div 10" "n div 10 div 10 div 10 < 10" using n by (simp_all flip: div_mult2_eq)
  then show ?thesis using s [of n] s [of "n div 10"] s [of "n div 10 div 10"] o [of "n div 10 div 10 div 10"] by simp
qed

lemma take_digits_all: "\<forall>c \<in> set xs. is_digit c \<Longrightarrow> take_digits (length xs) (xs @ r) = (map digit xs, r)"
  by (induction xs) simp_all

lemma match_year:
  assumes "1000 \<le> y" "y \<le> 9999" "match_format ds r (p\<lparr>pd_Y := y\<rparr>) = Some z"
  shows "match_format (D_Y # ds) (int_str y @ r) p = Some z"
proof -
  have i: "int_str y = nat_str (nat y)" using assms(1) by (simp add: int_str_def)
  have l: "length (nat_str (nat y)) = 4" using nat_str_four [of "nat y"] assms(1,2) by simp
  have "take_digits 4 (int_str y @ r) = (map digit (nat_str (nat y)), r)"
    using take_digits_all [of "nat_str (nat y)" r] nat_str_digits [of "nat y"] unfolding i l by blast
  then have "year_options (int_str y @ r) = [(y, r)]" using nat_str_digits [of "nat y"] l assms(1) by (simp add: year_options_def)
  then show ?thesis using assms(3) by (simp add: options_def)
qed

text \<open>A time of the years 1000 to 9999, written to the second, is read back to the second.\<close>

lemma iso_reads_back:
  assumes "days_before_year 1000 * 86400000000 \<le> t" "in_range t"
  shows "strptime iso_format (iso_seconds t) = Some (t - t mod 1000000, None)"
proof -
  obtain y m d where c: "civil (day_of t) = (y, m, d)" by (cases "civil (day_of t)")
  note e = civil_exact [OF c]
  define sec where "sec = (t div 1000000) mod 86400"
  have sec: "0 \<le> sec" "sec < 86400" by (simp_all add: sec_def)
  have day: "day_of t = t div 1000000 div 86400" by (simp add: day_of_def flip: zdiv_zmult2_eq)
  have dv: "86400000000 * day_of t \<le> t" "t < 86400000000 * day_of t + 86400000000" using div_bounds [of 86400000000 t] unfolding day_of_def by simp_all
  have dy: "days_before_year 1000 \<le> day_of t" "day_of t < days_before_year 10000"
    using assms dv unfolding in_range_def by linarith+
  have y: "y = year_of_day (day_of t)" using c by (simp add: civil_def Let_def)
  have yb: "1000 \<le> y" "y \<le> 9999"
    using year_of_day_bounds [of "day_of t"] dy days_before_year_mono [of y 1000] days_before_year_mono [of 9999 y] unfolding y [symmetric] by force+
  have db: "m \<le> 12" "1 \<le> m" "1 \<le> d" "d \<le> 31" using e by (auto simp: days_in_month_def split: if_splits)
  define p where "p = \<lparr>pd_Y = y, pd_m = m, pd_d = d, pd_H = sec div 3600, pd_M = (sec div 60) mod 60, pd_S = sec mod 60, pd_f = 0, pd_z = None\<rparr>"
  have h: "0 \<le> sec div 3600" "sec div 3600 \<le> 23" "sec mod 60 \<le> 61" "(sec div 60) mod 60 \<le> 59" using sec div_bounds [of 3600 sec] pos_mod_bound [of 60 sec] pos_mod_bound [of 60 "sec div 60"] by (simp_all add: pos_imp_zdiv_nonneg_iff)
  have "match_format iso_format (iso_seconds t) new_parsed = Some (p, [])"
    unfolding iso_format_def iso_seconds_def c sec_def [symmetric] Let_def prod.case append_Cons append_Nil
    by (intro match_year match_two match_char yb db h) (simp_all add: p_def new_parsed_def)
  moreover have "make_wall y m d (sec div 3600) ((sec div 60) mod 60) (sec mod 60) 0 = Some (t - t mod 1000000)"
  proof -
    define q where "q = t div 1000000"
    have q: "t - t mod 1000000 = q * 1000000" "q = day_of t * 86400 + sec" "sec = (sec div 60) * 60 + sec mod 60" "sec div 60 = (sec div 3600) * 60 + (sec div 60) mod 60"
    proof -
      show "t - t mod 1000000 = q * 1000000" unfolding q_def by (simp add: minus_mod_eq_div_mult)
      show "q = day_of t * 86400 + sec" unfolding q_def sec_def day by (rule div_mult_mod_eq [symmetric])
      show "sec = (sec div 60) * 60 + sec mod 60" by (rule div_mult_mod_eq [symmetric])
      have "sec div 3600 = sec div 60 div 60" using zdiv_zmult2_eq [of 60 sec 60] by simp
      then show "sec div 60 = (sec div 3600) * 60 + (sec div 60) mod 60" by (simp only: div_mult_mod_eq)
    qed
    have "((((day_of t) * 24 + sec div 3600) * 60 + (sec div 60) mod 60) * 60000000 + sec mod 60 * 1000000) = t - t mod 1000000"
    proof -
      have "((D * 24 + a) * 60 + b) * 60000000 + c * 1000000 = (D * 86400 + u) * 1000000" if "u = v * 60 + c" "v = a * 60 + b" for D a b c u v :: int
        using that by (simp add: algebra_simps)
      from this [OF q(3,4)] show ?thesis unfolding q(1) q(2) .
    qed
    moreover have "1 \<le> y \<and> y \<le> 9999 \<and> 1 \<le> m \<and> m \<le> 12 \<and> 1 \<le> d \<and> d \<le> days_in_month y m \<and> 0 \<le> sec div 3600 \<and> sec div 3600 \<le> 23
        \<and> 0 \<le> (sec div 60) mod 60 \<and> (sec div 60) mod 60 \<le> 59 \<and> 0 \<le> sec mod 60 \<and> sec mod 60 \<le> 59"
      using e yb h pos_mod_bound [of 60 sec] by simp
    moreover have "days_before_year y + days_before_month y m + d - 1 = day_of t" using e by simp
    ultimately show ?thesis unfolding make_wall_def by (simp only: if_True simp_thms add_0_right)
  qed
  ultimately show ?thesis by (simp add: strptime_def p_def)
qed

end
