(* ===== verification/Schema_Validator.thy ===== *)
theory Schema_Validator
  imports Py_Date
begin

text \<open>
  The schema validator of \<^verbatim>\<open>src/validation/schema_validator.py\<close>: loading of the rules, validation of a record with every
  check in the order of the code, and the metrics. What lies outside is bundled in the record \<open>schema_env\<close>: the time, the
  rules file and the YAML parser, \<^verbatim>\<open>re.compile\<close> (a compiled pattern is the set of texts it matches), \<^verbatim>\<open>ipaddress\<close>,
  \<^verbatim>\<open>datetime.fromisoformat\<close> and \<^verbatim>\<open>str\<close>. Field and rule names are texts; another type is a TypeError here. The clock is far enough
  from the ends of the calendar for the sums of the time stamp rules. A float may be infinite or no number here, as \<^verbatim>\<open>json.loads\<close> admits them.
\<close>

record schema_env =
  sn_now :: datetime
  sn_file :: "string option"
  sn_yaml :: "string \<Rightarrow> pyval option"
  sn_compile :: "string \<Rightarrow> (string \<Rightarrow> bool) option"
  sn_is_ip :: "string \<Rightarrow> bool"
  sn_fromiso :: "string \<Rightarrow> (datetime \<times> int option) option"
  sn_str :: "pyval \<Rightarrow> string"

section \<open>Numbers\<close>

text \<open>
  Every finite float lies strictly between \<open>- (2 ^ 1024)\<close> and \<open>2 ^ 1024\<close>. The three special values of a float are written as reals outside: the
  infinities as the two ends, \<^verbatim>\<open>nan\<close> as \<open>2 ^ 1025\<close>. They are compared as Python does: \<^verbatim>\<open>nan\<close> with nothing, an infinity beyond every integer.
\<close>

datatype py_number = Finite real | Plus_Inf | Minus_Inf | Not_A_Number

definition float_infinity :: real where
  "float_infinity = 2 ^ 1024"

definition float_nan :: real where
  "float_nan = 2 ^ 1025"

definition float_number :: "real \<Rightarrow> py_number" where
  "float_number x =
     (if x = float_infinity then Plus_Inf else if x = - float_infinity then Minus_Inf else if x = float_nan then Not_A_Number else Finite x)"

fun number_val :: "pyval \<Rightarrow> py_number option" where
  "number_val (PBool b) = Some (Finite (if b then 1 else 0))"
| "number_val (PInt i) = Some (Finite (of_int i))"
| "number_val (PFloat x) = Some (float_number x)"
| "number_val _ = None"

fun num_less :: "py_number \<Rightarrow> py_number \<Rightarrow> bool" where
  "num_less (Finite x) (Finite y) = (x < y)"
| "num_less (Finite x) Plus_Inf = True"
| "num_less Minus_Inf (Finite y) = True"
| "num_less Minus_Inf Plus_Inf = True"
| "num_less _ _ = False"

abbreviation num_greater :: "py_number \<Rightarrow> py_number \<Rightarrow> bool" where
  "num_greater x y \<equiv> num_less y x"

section \<open>Results\<close>

datatype issue_severity = Sev_ERROR | Sev_WARNING

primrec issue_severity_value :: "issue_severity \<Rightarrow> string" where
  "issue_severity_value Sev_ERROR = ''error''"
| "issue_severity_value Sev_WARNING = ''warning''"

definition issue_severity_of :: "pyval \<Rightarrow> issue_severity res" where
  "issue_severity_of v = (if v = PStr ''error'' then Inr Sev_ERROR else if v = PStr ''warning'' then Inr Sev_WARNING else Inl ValueError)"

record issue =
  is_field :: string
  is_rule :: string
  is_message :: string
  is_severity :: issue_severity
  is_value :: pyval

record schema_result =
  vr_is_valid :: bool
  vr_errors :: "issue list"
  vr_warnings :: "issue list"

definition all_issues :: "schema_result \<Rightarrow> issue list" where
  "all_issues r = vr_errors r @ vr_warnings r"

definition issue_to_dict :: "issue \<Rightarrow> pyval" where
  "issue_to_dict e = PDict [(''field'', PStr (is_field e)), (''rule'', PStr (is_rule e)), (''message'', PStr (is_message e)),
     (''severity'', PStr (issue_severity_value (is_severity e)))]"

definition schema_result_to_dict :: "schema_result \<Rightarrow> (string, pyval) dict" where
  "schema_result_to_dict r = [(''is_valid'', PBool (vr_is_valid r)), (''errors'', PList (map issue_to_dict (vr_errors r))),
     (''warnings'', PList (map issue_to_dict (vr_warnings r)))]"

section \<open>Metrics\<close>

record schema_metrics =
  vm_total_processed :: int
  vm_total_passed :: int
  vm_total_failed :: int
  vm_total_warnings :: int
  vm_failure_reasons :: "(string, int) dict"

definition new_schema_metrics :: schema_metrics where
  "new_schema_metrics = \<lparr>vm_total_processed = 0, vm_total_passed = 0, vm_total_failed = 0, vm_total_warnings = 0, vm_failure_reasons = []\<rparr>"

definition reason_key :: "issue \<Rightarrow> string" where
  "reason_key e = is_field e @ '':'' @ is_rule e"

definition count_reason :: "issue \<Rightarrow> (string, int) dict \<Rightarrow> (string, int) dict" where
  "count_reason e d = dset (reason_key e) (dget_or d (reason_key e) 0 + 1) d"

definition metrics_record :: "schema_result \<Rightarrow> schema_metrics \<Rightarrow> schema_metrics" where
  "metrics_record r m =
     (let m1 = m\<lparr>vm_total_processed := vm_total_processed m + 1\<rparr>;
          m2 = (if vr_is_valid r then m1\<lparr>vm_total_passed := vm_total_passed m1 + 1\<rparr>
                else m1\<lparr>vm_total_failed := vm_total_failed m1 + 1,
                        vm_failure_reasons := fold count_reason (vr_errors r) (vm_failure_reasons m1)\<rparr>)
      in m2\<lparr>vm_total_warnings := vm_total_warnings m2 + int (length (vr_warnings r))\<rparr>)"

definition pass_rate :: "schema_metrics \<Rightarrow> real" where
  "pass_rate m = (if vm_total_processed m = 0 then 0 else of_int (vm_total_passed m) / of_int (vm_total_processed m))"

section \<open>The rules\<close>

record schema_validator =
  sv_rules :: "(string, pyval) dict"
  sv_metrics :: schema_metrics
  sv_patterns :: "(string, string \<Rightarrow> bool) dict"

definition load_validation_rules :: "schema_env \<Rightarrow> (string, pyval) dict res" where
  "load_validation_rules env =
     (case sn_file env of
        None \<Rightarrow> Inl FileNotFoundError
      | Some content \<Rightarrow>
          (case sn_yaml env content of
             None \<Rightarrow> Inl YAMLError
           | Some (PDict rules) \<Rightarrow> Inr rules
           | Some v \<Rightarrow> Inl ValueError))"

definition as_mapping :: "pyval \<Rightarrow> (string, pyval) dict res" where
  "as_mapping v = (case v of PDict d \<Rightarrow> Inr d | _ \<Rightarrow> Inl AttributeError)"

definition pattern_of :: "schema_env \<Rightarrow> pyval \<Rightarrow> (string \<Rightarrow> bool) res" where
  "pattern_of env v =
     (case v of PStr s \<Rightarrow> (case sn_compile env s of None \<Rightarrow> Inl PatternError | Some f \<Rightarrow> Inr f) | _ \<Rightarrow> Inl TypeError)"

text \<open>The loop stops at the first pattern that does not compile; the patterns before it stay.\<close>

fun precompile :: "schema_env \<Rightarrow> (string, pyval) dict \<Rightarrow> (string, string \<Rightarrow> bool) dict \<Rightarrow> unit res \<times> (string, string \<Rightarrow> bool) dict" where
  "precompile env [] ps = (Inr (), ps)"
| "precompile env ((field_name, config) # fs) ps =
     (case py_in ''pattern'' config of
        Inl ex \<Rightarrow> (Inl ex, ps)
      | Inr False \<Rightarrow> precompile env fs ps
      | Inr True \<Rightarrow>
          (case config of
             PDict c \<Rightarrow> (case pattern_of env (pget c ''pattern'') of Inl ex \<Rightarrow> (Inl ex, ps) | Inr f \<Rightarrow> precompile env fs (dset field_name f ps))
           | _ \<Rightarrow> (Inl TypeError, ps)))"

definition precompile_patterns :: "schema_env \<Rightarrow> (string, pyval) dict \<Rightarrow> unit res \<times> (string, string \<Rightarrow> bool) dict" where
  "precompile_patterns env rules =
     (case as_mapping (dget_or rules ''field_types'' (PDict [])) of Inl ex \<Rightarrow> (Inl ex, []) | Inr fs \<Rightarrow> precompile env fs [])"

text \<open>The constructor takes the lengths of the four sections for its log entry, which raises on a section without length.\<close>

definition sections_counted :: "(string, pyval) dict \<Rightarrow> unit res" where
  "sections_counted rules =
     res_bind (py_len (dget_or rules ''required_fields'' (PList []))) (\<lambda>_.
     res_bind (py_len (dget_or rules ''field_types'' (PDict []))) (\<lambda>_.
     res_bind (py_len (dget_or rules ''cross_field_rules'' (PList []))) (\<lambda>_.
     res_bind (py_len (dget_or rules ''custom_rules'' (PList []))) (\<lambda>_. Inr ()))))"

definition new_schema_validator :: "schema_env \<Rightarrow> schema_validator res" where
  "new_schema_validator env =
     res_bind (load_validation_rules env) (\<lambda>rules.
       case precompile_patterns env rules of
         (Inl ex, ps) \<Rightarrow> Inl ex
       | (Inr _, ps) \<Rightarrow>
           res_bind (sections_counted rules) (\<lambda>_. Inr \<lparr>sv_rules = rules, sv_metrics = new_schema_metrics, sv_patterns = ps\<rparr>))"

definition reload_rules :: "schema_env \<Rightarrow> schema_validator \<Rightarrow> unit res \<times> schema_validator" where
  "reload_rules env v =
     (case load_validation_rules env of
        Inl ex \<Rightarrow> (Inl ex, v)
      | Inr rules \<Rightarrow> (let (x, ps) = precompile_patterns env rules in (x, v\<lparr>sv_rules := rules, sv_patterns := ps\<rparr>)))"

section \<open>Required fields\<close>

definition error_issue :: "string \<Rightarrow> string \<Rightarrow> string \<Rightarrow> pyval \<Rightarrow> issue" where
  "error_issue f r msg v = \<lparr>is_field = f, is_rule = r, is_message = msg, is_severity = Sev_ERROR, is_value = v\<rparr>"

definition quoted :: "string \<Rightarrow> string" where
  "quoted s = CHR 0x27 # s @ [CHR 0x27]"

definition required_issue :: "(string, pyval) dict \<Rightarrow> string \<Rightarrow> issue list" where
  "required_issue rec f =
     (case pget rec f of
        PNone \<Rightarrow> [error_issue f ''required_field'' (''Required field '' @ quoted f @ '' is missing'') PNone]
      | PStr s \<Rightarrow> if strip s = [] then [error_issue f ''required_field_empty'' (''Required field '' @ quoted f @ '' is empty'') PNone] else []
      | _ \<Rightarrow> [])"

definition check_required_fields :: "(string, pyval) dict \<Rightarrow> (string, pyval) dict \<Rightarrow> issue list res" where
  "check_required_fields rules rec =
     res_bind (py_iter (dget_or rules ''required_fields'' (PList []))) (\<lambda>vs.
     res_bind (as_strs vs) (\<lambda>fs. Inr (concat (map (required_issue rec) fs))))"

section \<open>Field types\<close>

text \<open>\<^verbatim>\<open>limit is not None and R value limit\<close>, which raises for a limit that is no number.\<close>

definition breaks :: "(py_number \<Rightarrow> py_number \<Rightarrow> bool) \<Rightarrow> py_number \<Rightarrow> pyval \<Rightarrow> bool res" where
  "breaks R x limit =
     (if limit = PNone then Inr False else (case number_val limit of None \<Rightarrow> Inl TypeError | Some y \<Rightarrow> Inr (R x y)))"

definition issue_if :: "bool res \<Rightarrow> issue \<Rightarrow> issue list res" where
  "issue_if b e = res_bind b (\<lambda>x. Inr (if x then [e] else []))"

fun gather :: "issue list res list \<Rightarrow> issue list res" where
  "gather [] = Inr []"
| "gather (x # xs) = res_bind x (\<lambda>a. res_bind (gather xs) (\<lambda>b. Inr (a @ b)))"

definition replace_Z :: "string \<Rightarrow> string" where
  "replace_Z s = concat (map (\<lambda>c. if c = CHR ''Z'' then ''+00:00'' else [c]) s)"

fun type_name :: "pyval \<Rightarrow> string" where
  "type_name PNone = ''NoneType''"
| "type_name (PBool b) = ''bool''"
| "type_name (PInt i) = ''int''"
| "type_name (PFloat x) = ''float''"
| "type_name (PStr s) = ''str''"
| "type_name (PList vs) = ''list''"
| "type_name (PDict d) = ''dict''"
| "type_name (PTime w z) = ''datetime''"

definition type_issue :: "string \<Rightarrow> string \<Rightarrow> string \<Rightarrow> pyval \<Rightarrow> issue" where
  "type_issue expected got f v = error_issue f ''type_check'' (''Expected '' @ expected @ '' for '' @ quoted f @ '', got '' @ got) v"

definition validate_string_field ::
  "schema_env \<Rightarrow> (string, string \<Rightarrow> bool) dict \<Rightarrow> string \<Rightarrow> pyval \<Rightarrow> (string, pyval) dict \<Rightarrow> issue list res" where
  "validate_string_field env patterns f v config =
     (case v of
        PStr s \<Rightarrow>
          gather
            [issue_if (breaks num_less (Finite (real (text_length s))) (pget config ''min_length''))
               (error_issue f ''min_length'' (quoted f @ '' must be at least '' @ sn_str env (pget config ''min_length'') @ '' characters'') v),
             issue_if (breaks num_greater (Finite (real (text_length s))) (pget config ''max_length''))
               (error_issue f ''max_length'' (quoted f @ '' must be at most '' @ sn_str env (pget config ''max_length'') @ '' characters'') v),
             issue_if (if pget config ''allowed_values'' = PNone then Inr False else res_bind (py_in s (pget config ''allowed_values'')) (\<lambda>b. Inr (\<not> b)))
               (error_issue f ''allowed_values''
                  (quoted f @ '' value '' @ quoted s @ '' not in allowed values: '' @ sn_str env (pget config ''allowed_values'')) v),
             issue_if (Inr (case dget patterns f of None \<Rightarrow> False | Some m \<Rightarrow> \<not> m s))
               (error_issue f ''pattern'' (quoted f @ '' value '' @ quoted s @ '' does not match required pattern'') v),
             issue_if (Inr (pget config ''format'' = PStr ''ip_address'' \<and> \<not> sn_is_ip env s))
               (error_issue f ''ip_address_format'' (quoted f @ '' value '' @ quoted s @ '' is not a valid IP address'') v),
             issue_if (Inr (pget config ''format'' = PStr ''iso8601'' \<and> sn_fromiso env (replace_Z s) = None))
               (error_issue f ''iso8601_format'' (quoted f @ '' value '' @ quoted s @ '' is not valid ISO 8601'') v)]
      | _ \<Rightarrow> Inr [type_issue ''string'' (type_name v) f v])"

definition validate_number_field :: "schema_env \<Rightarrow> string \<Rightarrow> pyval \<Rightarrow> (string, pyval) dict \<Rightarrow> issue list res" where
  "validate_number_field env f v config =
     (let limits = (\<lambda>x. gather
            [issue_if (breaks num_less x (pget config ''min_value''))
               (error_issue f ''min_value'' (quoted f @ '' value '' @ sn_str env v @ '' is below minimum '' @ sn_str env (pget config ''min_value'')) v),
             issue_if (breaks num_greater x (pget config ''max_value''))
               (error_issue f ''max_value'' (quoted f @ '' value '' @ sn_str env v @ '' exceeds maximum '' @ sn_str env (pget config ''max_value'')) v)])
      in case v of
           PInt i \<Rightarrow> limits (Finite (of_int i))
         | PFloat x \<Rightarrow> limits (float_number x)
         | PBool b \<Rightarrow> Inr [type_issue ''number'' ''boolean'' f v]
         | _ \<Rightarrow> Inr [type_issue ''number'' (type_name v) f v])"

definition validate_boolean_field :: "string \<Rightarrow> pyval \<Rightarrow> issue list" where
  "validate_boolean_field f v = (case v of PBool b \<Rightarrow> [] | _ \<Rightarrow> [type_issue ''boolean'' (type_name v) f v])"

text \<open>An absent value passes: a required field is reported by the check before, and every other one may be missing.\<close>

definition check_field :: "schema_env \<Rightarrow> (string, string \<Rightarrow> bool) dict \<Rightarrow> (string, pyval) dict \<Rightarrow> string \<times> pyval \<Rightarrow> issue list res" where
  "check_field env patterns rec fc =
     (case fc of (f, config_val) \<Rightarrow>
        res_bind (as_mapping config_val) (\<lambda>config.
          let v = pget rec f; expected = pget config ''type''
          in if v = PNone then Inr []
             else if expected = PStr ''string'' then validate_string_field env patterns f v config
             else if expected = PStr ''number'' then validate_number_field env f v config
             else if expected = PStr ''boolean'' then Inr (validate_boolean_field f v)
             else Inr []))"

definition check_field_types ::
  "schema_env \<Rightarrow> (string, string \<Rightarrow> bool) dict \<Rightarrow> (string, pyval) dict \<Rightarrow> (string, pyval) dict \<Rightarrow> issue list res" where
  "check_field_types env patterns rules rec =
     res_bind (as_mapping (dget_or rules ''field_types'' (PDict []))) (\<lambda>fs. gather (map (check_field env patterns rec) fs))"

section \<open>Rules over several fields\<close>

text \<open>\<^verbatim>\<open>timedelta\<close> of a number of seconds or days, in microseconds: at most 999999999 days.\<close>

definition delta_of :: "int \<Rightarrow> pyval \<Rightarrow> int res" where
  "delta_of len v = 
     (case number_val v of
        None \<Rightarrow> Inl TypeError
      | Some Not_A_Number \<Rightarrow> Inl ValueError
      | Some (Finite x) \<Rightarrow>
          (let d = round_half_even (x * of_int len)
           in if - (999999999 * 86400000000) \<le> d \<and> d < 1000000000 * 86400000000 then Inr d else Inl OverflowError)
      | Some _ \<Rightarrow> Inl OverflowError)"

definition utc_instant :: "datetime \<times> int option \<Rightarrow> datetime" where
  "utc_instant t = fst t - (case snd t of None \<Rightarrow> 0 | Some z \<Rightarrow> z)"

text \<open>A ValueError of the time stamp or of the tolerance is passed over.\<close>

definition timestamp_rule :: "schema_env \<Rightarrow> (string, pyval) dict \<Rightarrow> (datetime \<Rightarrow> bool res) \<Rightarrow> bool res" where
  "timestamp_rule env rec late =
     (case pget rec ''transaction_timestamp'' of
        PStr s \<Rightarrow> (case sn_fromiso env (replace_Z s) of None \<Rightarrow> Inr False
                | Some t \<Rightarrow> (case late (utc_instant t) of Inl ex \<Rightarrow> if ex = ValueError then Inr False else Inl ex | Inr b \<Rightarrow> Inr b))
      | _ \<Rightarrow> Inr False)"

definition cross_issue :: "string \<Rightarrow> issue_severity \<Rightarrow> string \<Rightarrow> string \<Rightarrow> pyval \<Rightarrow> issue" where
  "cross_issue name sev f msg v = \<lparr>is_field = f, is_rule = name, is_message = msg, is_severity = sev, is_value = v\<rparr>"

definition rule_international_flag :: "schema_env \<Rightarrow> (string, pyval) dict \<Rightarrow> (string, pyval) dict \<Rightarrow> string \<Rightarrow> issue_severity \<Rightarrow> issue list res" where
  "rule_international_flag env rec rule name sev =
     (let country = pget rec ''geo_country''; flag = dget_or rec ''is_international'' (PBool False); domestic = dget_or rule ''domestic_country'' (PStr ''USA'')
      in issue_if (Inr (country \<noteq> PNone \<and> \<not> py_eq country domestic \<and> \<not> py_bool flag))
           (cross_issue name sev ''is_international''
              (''is_international should be True for country '' @ quoted (sn_str env country) @ '' (domestic: '' @ quoted (sn_str env domestic) @ '')'') flag))"

definition rule_card_last_four :: "(string, pyval) dict \<Rightarrow> string \<Rightarrow> issue_severity \<Rightarrow> issue list res" where
  "rule_card_last_four rec name sev =
     issue_if (Inr (pget rec ''card_type'' \<noteq> PNone \<and> pget rec ''card_last_four'' = PNone))
       (cross_issue name sev ''card_last_four'' ''card_last_four should be provided when card_type is set'' PNone)"

definition rule_ip_required :: "(string, pyval) dict \<Rightarrow> string \<Rightarrow> issue_severity \<Rightarrow> issue list res" where
  "rule_ip_required rec name sev =
     issue_if (Inr (pget rec ''channel'' = PStr ''online'' \<and> pget rec ''ip_address'' = PNone))
       (cross_issue name sev ''ip_address'' ''ip_address is required for online channel transactions'' PNone)"

definition rule_geo_paired :: "(string, pyval) dict \<Rightarrow> string \<Rightarrow> issue_severity \<Rightarrow> issue list res" where
  "rule_geo_paired rec name sev =
     (let has_lat = pget rec ''geo_latitude'' \<noteq> PNone; has_lon = pget rec ''geo_longitude'' \<noteq> PNone
      in issue_if (Inr (has_lat \<noteq> has_lon))
           (cross_issue name sev (if has_lat then ''geo_longitude'' else ''geo_latitude'')
              ''geo_latitude and geo_longitude must both be present or both absent'' PNone))"

definition rule_pos_merchant :: "(string, pyval) dict \<Rightarrow> string \<Rightarrow> issue_severity \<Rightarrow> issue list res" where
  "rule_pos_merchant rec name sev =
     issue_if (Inr (pget rec ''channel'' = PStr ''pos'' \<and> pget rec ''merchant_id'' = PNone))
       (cross_issue name sev ''merchant_id'' ''POS transactions must have merchant_id'' PNone)"

definition rule_atm_withdrawal :: "(string, pyval) dict \<Rightarrow> string \<Rightarrow> issue_severity \<Rightarrow> issue list res" where
  "rule_atm_withdrawal rec name sev =
     issue_if (Inr (pget rec ''channel'' = PStr ''atm'' \<and> pget rec ''transaction_type'' \<noteq> PStr ''withdrawal''))
       (cross_issue name sev ''transaction_type'' (''ATM channel transactions should have '' @ quoted ''withdrawal'' @ '' transaction_type'')
          (pget rec ''transaction_type''))"

definition rule_refund_limit :: "schema_env \<Rightarrow> (string, pyval) dict \<Rightarrow> string \<Rightarrow> issue_severity \<Rightarrow> issue list res" where
  "rule_refund_limit env rec name sev =
     (let amount = pget rec ''transaction_amount''
      in issue_if (Inr (pget rec ''transaction_type'' = PStr ''refund'' \<and> (case number_val amount of None \<Rightarrow> False | Some x \<Rightarrow> num_less (Finite 50000) x)))
           (cross_issue name sev ''transaction_amount'' (''Refund amount '' @ sn_str env amount @ '' exceeds limit of 50000'') amount))"

definition rule_future_timestamp :: "schema_env \<Rightarrow> (string, pyval) dict \<Rightarrow> (string, pyval) dict \<Rightarrow> string \<Rightarrow> issue_severity \<Rightarrow> issue list res" where
  "rule_future_timestamp env rec rule name sev =
     (let ts = pget rec ''transaction_timestamp''
      in issue_if (timestamp_rule env rec (\<lambda>t. res_bind (delta_of 1000000 (dget_or rule ''future_tolerance_seconds'' (PInt 300))) (\<lambda>d. Inr (sn_now env + d < t))))
           (cross_issue name sev ''transaction_timestamp'' (''Transaction timestamp '' @ sn_str env ts @ '' is in the future'') ts))"

definition rule_stale_timestamp :: "schema_env \<Rightarrow> (string, pyval) dict \<Rightarrow> (string, pyval) dict \<Rightarrow> string \<Rightarrow> issue_severity \<Rightarrow> issue list res" where
  "rule_stale_timestamp env rec rule name sev =
     (let ts = pget rec ''transaction_timestamp''; days = dget_or rule ''max_age_days'' (PInt 90)
      in issue_if (timestamp_rule env rec (\<lambda>t. res_bind (delta_of 86400000000 days) (\<lambda>d. Inr (t < sn_now env - d))))
           (cross_issue name sev ''transaction_timestamp''
              (''Transaction timestamp '' @ sn_str env ts @ '' is older than '' @ sn_str env days @ '' days'') ts))"

text \<open>The rule is chosen by the text of its condition; a condition with another text does nothing.\<close>

definition cross_rule :: "schema_env \<Rightarrow> (string, pyval) dict \<Rightarrow> pyval \<Rightarrow> issue list res" where
  "cross_rule env rec rule_val =
     res_bind (as_mapping rule_val) (\<lambda>rule.
     res_bind (issue_severity_of (dget_or rule ''severity'' (PStr ''error''))) (\<lambda>sev.
     res_bind (req_str rule ''name'') (\<lambda>name.
       let condition = dget_or rule ''condition'' (PStr [])
       in if condition = PStr ''geo_country is not None and geo_country != domestic_country and is_international is False''
          then rule_international_flag env rec rule name sev
          else if condition = PStr ''card_type is not None and card_last_four is None'' then rule_card_last_four rec name sev
          else if condition = PStr (''channel == '' @ quoted ''online'' @ '' and ip_address is None'') then rule_ip_required rec name sev
          else if condition = PStr ''(geo_latitude is None) != (geo_longitude is None)'' then rule_geo_paired rec name sev
          else if condition = PStr (''channel == '' @ quoted ''pos'' @ '' and merchant_id is None'') then rule_pos_merchant rec name sev
          else if condition = PStr (''channel == '' @ quoted ''atm'' @ '' and transaction_type != '' @ quoted ''withdrawal'') then rule_atm_withdrawal rec name sev
          else if condition = PStr (''transaction_type == '' @ quoted ''refund'' @ '' and transaction_amount > 50000'') then rule_refund_limit env rec name sev
          else if condition = PStr ''transaction_timestamp_is_future'' then rule_future_timestamp env rec rule name sev
          else if condition = PStr ''transaction_timestamp_is_stale'' then rule_stale_timestamp env rec rule name sev
          else Inr [])))"

definition check_cross_field_rules :: "schema_env \<Rightarrow> (string, pyval) dict \<Rightarrow> (string, pyval) dict \<Rightarrow> issue list res" where
  "check_cross_field_rules env rules rec =
     res_bind (py_iter (dget_or rules ''cross_field_rules'' (PList []))) (\<lambda>rs. gather (map (cross_rule env rec) rs))"

section \<open>Custom rules\<close>

text \<open>The amount of a record, when it is a number and no boolean.\<close>

definition plain_amount :: "(string, pyval) dict \<Rightarrow> py_number option" where
  "plain_amount rec = (case pget rec ''transaction_amount'' of PInt i \<Rightarrow> Some (Finite (of_int i)) | PFloat x \<Rightarrow> Some (float_number x) | _ \<Rightarrow> None)"

definition amount_rule :: "(string, pyval) dict \<Rightarrow> pyval \<Rightarrow> (py_number \<Rightarrow> bool res) \<Rightarrow> bool res" where
  "amount_rule rec threshold P =
     (case plain_amount rec of
        None \<Rightarrow> Inr False
      | Some x \<Rightarrow> (case number_val threshold of None \<Rightarrow> Inl TypeError | Some y \<Rightarrow> if num_less y x then P x else Inr False))"

text \<open>\<^verbatim>\<open>amount == int(amount)\<close>: \<^verbatim>\<open>int\<close> raises for the special values.\<close>

primrec is_whole :: "py_number \<Rightarrow> bool res" where
  "is_whole (Finite x) = Inr (x = of_int (trunc_int x))"
| "is_whole Plus_Inf = Inl OverflowError"
| "is_whole Minus_Inf = Inl OverflowError"
| "is_whole Not_A_Number = Inl ValueError"

definition rule_round_amount :: "schema_env \<Rightarrow> (string, pyval) dict \<Rightarrow> (string, pyval) dict \<Rightarrow> string \<Rightarrow> issue_severity \<Rightarrow> issue list res" where
  "rule_round_amount env rec rule name sev =
     (let amount = pget rec ''transaction_amount''; threshold = dget_or rule ''threshold'' (PInt 1000)
      in issue_if (amount_rule rec threshold is_whole)
           (cross_issue name sev ''transaction_amount''
              (''Suspicious round amount '' @ sn_str env amount @ '' above threshold '' @ sn_str env threshold) amount))"

definition rule_high_value :: "schema_env \<Rightarrow> (string, pyval) dict \<Rightarrow> (string, pyval) dict \<Rightarrow> string \<Rightarrow> issue_severity \<Rightarrow> issue list res" where
  "rule_high_value env rec rule name sev =
     (let amount = pget rec ''transaction_amount''; threshold = dget_or rule ''threshold'' (PInt 50000)
      in issue_if (amount_rule rec threshold (\<lambda>x. Inr True))
           (cross_issue name sev ''transaction_amount''
              (''High value transaction: '' @ sn_str env amount @ '' exceeds threshold '' @ sn_str env threshold) amount))"

definition custom_rule :: "schema_env \<Rightarrow> (string, pyval) dict \<Rightarrow> pyval \<Rightarrow> issue list res" where
  "custom_rule env rec rule_val =
     res_bind (as_mapping rule_val) (\<lambda>rule.
     res_bind (issue_severity_of (dget_or rule ''severity'' (PStr ''warning''))) (\<lambda>sev.
     res_bind (req_str rule ''name'') (\<lambda>name.
       let condition = dget_or rule ''condition'' (PStr [])
       in if condition = PStr ''amount_is_round and amount > threshold'' then rule_round_amount env rec rule name sev
          else if condition = PStr ''amount > threshold'' then rule_high_value env rec rule name sev
          else Inr [])))"

definition check_custom_rules :: "schema_env \<Rightarrow> (string, pyval) dict \<Rightarrow> (string, pyval) dict \<Rightarrow> issue list res" where
  "check_custom_rules env rules rec =
     res_bind (py_iter (dget_or rules ''custom_rules'' (PList []))) (\<lambda>rs. gather (map (custom_rule env rec) rs))"

section \<open>Validation\<close>

text \<open>An issue goes to the errors or to the warnings, by its severity.\<close>

definition result_of :: "issue list \<Rightarrow> schema_result" where
  "result_of es =
     (let errors = filter (\<lambda>e. is_severity e = Sev_ERROR) es
      in \<lparr>vr_is_valid = (errors = []), vr_errors = errors, vr_warnings = filter (\<lambda>e. is_severity e = Sev_WARNING) es\<rparr>)"

definition check_record :: "schema_env \<Rightarrow> (string, string \<Rightarrow> bool) dict \<Rightarrow> (string, pyval) dict \<Rightarrow> (string, pyval) dict \<Rightarrow> issue list res" where
  "check_record env patterns rules rec =
     gather [check_required_fields rules rec, check_field_types env patterns rules rec, check_cross_field_rules env rules rec,
             check_custom_rules env rules rec]"

definition validate :: "schema_env \<Rightarrow> (string, pyval) dict \<Rightarrow> schema_validator \<Rightarrow> schema_result res \<times> schema_validator" where
  "validate env rec v =
     (case check_record env (sv_patterns v) (sv_rules v) rec of
        Inl ex \<Rightarrow> (Inl ex, v)
      | Inr es \<Rightarrow> (let r = result_of es in (Inr r, v\<lparr>sv_metrics := metrics_record r (sv_metrics v)\<rparr>)))"

fun validate_batch :: "schema_env \<Rightarrow> (string, pyval) dict list \<Rightarrow> schema_validator \<Rightarrow> schema_result list res \<times> schema_validator" where
  "validate_batch env [] v = (Inr [], v)"
| "validate_batch env (rec # recs) v =
     (case validate env rec v of
        (Inl ex, v1) \<Rightarrow> (Inl ex, v1)
      | (Inr r, v1) \<Rightarrow> (let (rs, v2) = validate_batch env recs v1 in (res_bind rs (\<lambda>xs. Inr (r # xs)), v2)))"

end
