(* ===== verification/Schema_Validator_Properties.thy ===== *)
theory Schema_Validator_Properties
  imports Schema_Validator
begin

text \<open>
  The rules file of the repository as a value, what it accepts, and that the metrics of the validator count the results.
\<close>

declare map_of_eq_Some_iff [simp del] Some_eq_map_of_iff [simp del]

section \<open>The rules file\<close>

text \<open>The content of \<^verbatim>\<open>config/validation_rules.yaml\<close>; descriptions, defaults and the quarantine section are not read by the validator.\<close>

definition text_rule :: "(string \<times> pyval) list \<Rightarrow> pyval" where
  "text_rule extra = PDict ((''type'', PStr ''string'') # extra)"

definition text_list :: "string list \<Rightarrow> pyval" where
  "text_list ss = PList (map PStr ss)"

definition shipped_field_types :: "(string, pyval) dict" where
  "shipped_field_types =
     [(''external_transaction_id'', text_rule [(''min_length'', PInt 1), (''max_length'', PInt 64)]),
      (''account_id'', text_rule [(''min_length'', PInt 1), (''max_length'', PInt 64)]),
      (''customer_id'', text_rule [(''min_length'', PInt 1), (''max_length'', PInt 64)]),
      (''merchant_id'', text_rule [(''max_length'', PInt 64), (''nullable'', PBool True)]),
      (''merchant_name'', text_rule [(''max_length'', PInt 255), (''nullable'', PBool True)]),
      (''merchant_category_code'', text_rule [(''max_length'', PInt 10), (''nullable'', PBool True)]),
      (''transaction_amount'', PDict [(''type'', PStr ''number''), (''min_value'', PFloat (1 / 100)), (''max_value'', PFloat (99999999999 / 100))]),
      (''transaction_currency'', text_rule [(''allowed_values'', text_list ([''USD'', ''EUR'', ''GBP'', ''CAD'', ''AUD'', ''JPY''])), (''default'', PStr ''USD'')]),
      (''transaction_type'', text_rule [(''allowed_values'', text_list ([''purchase'', ''withdrawal'', ''transfer'', ''refund'']))]),
      (''channel'', text_rule [(''allowed_values'', text_list ([''online'', ''pos'', ''atm'', ''mobile'']))]),
      (''card_type'', text_rule [(''allowed_values'', text_list ([''credit'', ''debit'', ''prepaid''])), (''nullable'', PBool True)]),
      (''card_last_four'', text_rule [(''pattern'', PStr (''^'' @ [CHR 0x5C] @ ''d{4}$'')), (''nullable'', PBool True)]),
      (''ip_address'', text_rule [(''format'', PStr ''ip_address''), (''nullable'', PBool True)]),
      (''device_id'', text_rule [(''max_length'', PInt 128), (''nullable'', PBool True)]),
      (''device_type'', text_rule [(''max_length'', PInt 50), (''nullable'', PBool True)]),
      (''geo_latitude'', PDict [(''type'', PStr ''number''), (''min_value'', PFloat (- 90)), (''max_value'', PFloat 90), (''nullable'', PBool True)]),
      (''geo_longitude'', PDict [(''type'', PStr ''number''), (''min_value'', PFloat (- 180)), (''max_value'', PFloat 180), (''nullable'', PBool True)]),
      (''geo_country'', text_rule [(''max_length'', PInt 3), (''nullable'', PBool True)]),
      (''geo_city'', text_rule [(''max_length'', PInt 100), (''nullable'', PBool True)]),
      (''is_international'', PDict [(''type'', PStr ''boolean''), (''default'', PBool False)]),
      (''transaction_timestamp'', text_rule [(''format'', PStr ''iso8601'')])]"

definition shipped_cross_rule :: "string \<Rightarrow> string \<Rightarrow> string \<Rightarrow> (string \<times> pyval) list \<Rightarrow> pyval" where
  "shipped_cross_rule name condition sev extra =
     PDict ([(''name'', PStr name), (''condition'', PStr condition), (''severity'', PStr sev)] @ extra)"

definition shipped_cross_rules :: "pyval list" where
  "shipped_cross_rules =
     [shipped_cross_rule ''international_flag_matches_country''
        ''geo_country is not None and geo_country != domestic_country and is_international is False'' ''warning'' [(''domestic_country'', PStr ''USA'')],
      shipped_cross_rule ''card_last_four_required_for_card_transactions'' ''card_type is not None and card_last_four is None'' ''warning'' [],
      shipped_cross_rule ''ip_required_for_online'' (''channel == '' @ quoted ''online'' @ '' and ip_address is None'') ''warning'' [],
      shipped_cross_rule ''geo_coordinates_paired'' ''(geo_latitude is None) != (geo_longitude is None)'' ''error'' [],
      shipped_cross_rule ''pos_requires_merchant'' (''channel == '' @ quoted ''pos'' @ '' and merchant_id is None'') ''warning'' [],
      shipped_cross_rule ''atm_no_merchant_category'' (''channel == '' @ quoted ''atm'' @ '' and transaction_type != '' @ quoted ''withdrawal'') ''warning'' [],
      shipped_cross_rule ''refund_amount_limit'' (''transaction_type == '' @ quoted ''refund'' @ '' and transaction_amount > 50000'') ''error'' [],
      shipped_cross_rule ''future_timestamp_check'' ''transaction_timestamp_is_future'' ''error'' [(''future_tolerance_seconds'', PInt 300)],
      shipped_cross_rule ''stale_timestamp_check'' ''transaction_timestamp_is_stale'' ''error'' [(''max_age_days'', PInt 90)]]"

definition shipped_custom_rules :: "pyval list" where
  "shipped_custom_rules =
     [PDict [(''name'', PStr ''suspicious_round_amount''), (''field'', PStr ''transaction_amount''),
             (''condition'', PStr ''amount_is_round and amount > threshold''), (''threshold'', PInt 1000), (''severity'', PStr ''warning'')],
      PDict [(''name'', PStr ''high_value_transaction''), (''field'', PStr ''transaction_amount''), (''condition'', PStr ''amount > threshold''),
             (''threshold'', PInt 50000), (''severity'', PStr ''warning'')]]"

definition shipped_required :: "string list" where
  "shipped_required = [''external_transaction_id'', ''account_id'', ''customer_id'', ''transaction_amount'', ''transaction_type'', ''channel'', ''transaction_timestamp'']"

definition shipped_rules :: "(string, pyval) dict" where
  "shipped_rules =
     [(''required_fields'', PList (map PStr shipped_required)), (''field_types'', PDict shipped_field_types),
      (''cross_field_rules'', PList shipped_cross_rules), (''custom_rules'', PList shipped_custom_rules)]"

section \<open>What they accept\<close>

definition filled :: "pyval \<Rightarrow> bool" where
  "filled v = (v \<noteq> PNone \<and> (\<forall>s. v = PStr s \<longrightarrow> strip s \<noteq> []))"

text \<open>A field that may be missing: a text of at most so many characters; a text of a list; a number in a range, or a float that is no number.\<close>

definition text_upto :: "nat \<Rightarrow> pyval \<Rightarrow> bool" where
  "text_upto n v = (v = PNone \<or> (\<exists>s. v = PStr s \<and> text_length s \<le> n))"

definition text_among :: "string list \<Rightarrow> pyval \<Rightarrow> bool" where
  "text_among ss v = (v = PNone \<or> (\<exists>s \<in> set ss. v = PStr s))"

definition text_with :: "(string \<Rightarrow> bool) \<Rightarrow> pyval \<Rightarrow> bool" where
  "text_with P v = (v = PNone \<or> (\<exists>s. v = PStr s \<and> P s))"

definition number_in :: "real \<Rightarrow> real \<Rightarrow> pyval \<Rightarrow> bool" where
  "number_in a b v = (v = PNone \<or> (\<exists>i. v = PInt i \<and> a \<le> of_int i \<and> of_int i \<le> b) \<or> (\<exists>x. v = PFloat x \<and> a \<le> x \<and> x \<le> b) \<or> v = PFloat float_nan)"

definition boolean_or_none :: "pyval \<Rightarrow> bool" where
  "boolean_or_none v = (v = PNone \<or> (\<exists>b. v = PBool b))"

definition fresh_time :: "schema_env \<Rightarrow> pyval \<Rightarrow> bool" where
  "fresh_time env v = (\<exists>s t. v = PStr s \<and> sn_fromiso env (replace_Z s) = Some t
     \<and> utc_instant t \<le> sn_now env + 300 * 1000000 \<and> sn_now env - 90 * 86400000000 \<le> utc_instant t)"

text \<open>A well-typed transaction record.\<close>

definition conforms :: "schema_env \<Rightarrow> (string \<Rightarrow> bool) \<Rightarrow> (string, pyval) dict \<Rightarrow> bool" where
  "conforms env four_digits rec =
     ((\<forall>f \<in> {''external_transaction_id'', ''account_id'', ''customer_id'', ''transaction_amount'', ''transaction_type'', ''channel'', ''transaction_timestamp''}. filled (pget rec f))
      \<and> (\<forall>f \<in> {''external_transaction_id'', ''account_id'', ''customer_id''}. text_with (\<lambda>s. 1 \<le> text_length s) (pget rec f) \<and> text_upto 64 (pget rec f))
      \<and> number_in (1 / 100) (99999999999 / 100) (pget rec ''transaction_amount'')
      \<and> text_among [''purchase'', ''withdrawal'', ''transfer'', ''refund''] (pget rec ''transaction_type'')
      \<and> text_among [''online'', ''pos'', ''atm'', ''mobile''] (pget rec ''channel'')
      \<and> fresh_time env (pget rec ''transaction_timestamp'')
      \<and> text_among [''USD'', ''EUR'', ''GBP'', ''CAD'', ''AUD'', ''JPY''] (pget rec ''transaction_currency'')
      \<and> text_among [''credit'', ''debit'', ''prepaid''] (pget rec ''card_type'')
      \<and> text_with four_digits (pget rec ''card_last_four'') \<and> text_with (sn_is_ip env) (pget rec ''ip_address'')
      \<and> text_upto 64 (pget rec ''merchant_id'') \<and> text_upto 255 (pget rec ''merchant_name'') \<and> text_upto 10 (pget rec ''merchant_category_code'')
      \<and> text_upto 128 (pget rec ''device_id'') \<and> text_upto 50 (pget rec ''device_type'') \<and> text_upto 3 (pget rec ''geo_country'')
      \<and> text_upto 100 (pget rec ''geo_city'') \<and> boolean_or_none (pget rec ''is_international'')
      \<and> number_in (- 90) 90 (pget rec ''geo_latitude'') \<and> number_in (- 180) 180 (pget rec ''geo_longitude'')
      \<and> (pget rec ''geo_latitude'' = PNone \<longleftrightarrow> pget rec ''geo_longitude'' = PNone)
      \<and> (pget rec ''transaction_type'' = PStr ''refund'' \<longrightarrow> number_in (1 / 100) 50000 (pget rec ''transaction_amount'')))"

text \<open>A check that returns and reports no error.\<close>

definition passes :: "issue list res \<Rightarrow> bool" where
  "passes x = (\<exists>es. x = Inr es \<and> (\<forall>e \<in> set es. is_severity e \<noteq> Sev_ERROR))"

named_theorems pass_simps \<open>which checks pass\<close>

lemma passes_gather [pass_simps]: "passes (gather []) = True" "passes (gather (x # xs)) = (passes x \<and> passes (gather xs))"
  by (cases x; cases "gather xs"; auto simp: passes_def)+

lemma passes_Inr [pass_simps]: "passes (Inr []) = True"
  by (simp add: passes_def)

lemma passes_issue_if [pass_simps]: "passes (issue_if (Inr b) e) = (b \<longrightarrow> is_severity e = Sev_WARNING)"
  by (cases "is_severity e") (simp_all add: passes_def issue_if_def)

lemma issue_severities [pass_simps]:
  "is_severity (error_issue f r m v) = Sev_ERROR" "is_severity (cross_issue name sev f m v) = sev" "is_severity (type_issue e g f v) = Sev_ERROR"
  by (simp_all add: error_issue_def cross_issue_def type_issue_def)

lemma passes_error [pass_simps]: "is_severity e = Sev_ERROR \<Longrightarrow> \<not> passes (Inr [e])"
  by (simp add: passes_def)

declare gather.simps [simp del]

lemma returns_gather: "(\<exists>es. gather xs = Inr es) \<longleftrightarrow> (\<forall>x \<in> set xs. \<exists>es. x = Inr es)"
proof (induction xs)
  case (Cons x xs)
  then show ?case by (cases x; cases "gather xs") (auto simp: gather.simps)
qed (simp add: gather.simps)

lemma result_valid: "vr_is_valid (result_of es) = passes (Inr es)"
  by (simp add: result_of_def passes_def filter_empty_conv Let_def)

lemma required_passes: "passes (check_required_fields shipped_rules rec) \<longleftrightarrow> (\<forall>f \<in> set shipped_required. filled (pget rec f))"
proof -
  have i: "(\<forall>e \<in> set (required_issue rec f). is_severity e \<noteq> Sev_ERROR) \<longleftrightarrow> filled (pget rec f)" for f
    by (cases "pget rec f") (simp_all add: required_issue_def issue_severities filled_def)
  have c: "check_required_fields shipped_rules rec = Inr (concat (map (required_issue rec) shipped_required))"
    by (simp add: check_required_fields_def shipped_rules_def dget_or_def)
  show ?thesis unfolding c passes_def by (simp add: i [symmetric])
qed

lemma breaks_num [simp]:
  "breaks R x PNone = Inr False" "breaks R x (PInt i) = Inr (R x (Finite (of_int i)))" "breaks R x (PFloat y) = Inr (R x (float_number y))"
  by (simp_all add: breaks_def)

lemma float_small: "\<bar>x\<bar> < 2 ^ 1024 \<Longrightarrow> float_number x = Finite x"
  by (auto simp: float_number_def float_infinity_def float_nan_def)

text \<open>Comparisons with a finite limit.\<close>

lemma num_less_limits:
  assumes "\<bar>a\<bar> < 2 ^ 1024" "\<bar>b\<bar> < 2 ^ 1024"
  shows "\<not> num_less (float_number x) (Finite a) \<and> \<not> num_less (Finite b) (float_number x) \<longleftrightarrow> a \<le> x \<and> x \<le> b \<or> x = float_nan"
  using assms by (auto simp: float_number_def float_infinity_def float_nan_def)

text \<open>The checks of one field.\<close>

lemma passes_issue_error: "is_severity e = Sev_ERROR \<Longrightarrow> passes (issue_if b e) \<longleftrightarrow> b = Inr False"
  by (cases b) (auto simp: passes_def issue_if_def)

lemma string_passes:
  "passes (validate_string_field env ps f (PStr s) config) \<longleftrightarrow>
     breaks num_less (Finite (real (text_length s))) (pget config ''min_length'') = Inr False
     \<and> breaks num_greater (Finite (real (text_length s))) (pget config ''max_length'') = Inr False
     \<and> (pget config ''allowed_values'' = PNone \<or> py_in s (pget config ''allowed_values'') = Inr True) \<and> (\<forall>m. dget ps f = Some m \<longrightarrow> m s)
     \<and> (pget config ''format'' = PStr ''ip_address'' \<longrightarrow> sn_is_ip env s) \<and> (pget config ''format'' = PStr ''iso8601'' \<longrightarrow> sn_fromiso env (replace_Z s) \<noteq> None)"
  by (cases "py_in s (pget config ''allowed_values'')")
    (auto simp: validate_string_field_def passes_gather passes_issue_error issue_severities split: option.splits)

lemma string_of_other: "(\<forall>s. v \<noteq> PStr s) \<Longrightarrow> \<not> passes (validate_string_field env ps f v config)"
  by (cases v) (simp_all add: validate_string_field_def pass_simps)

lemma text_field_passes [pass_simps]:
  "passes (check_field env ps rec (f, text_rule extra)) \<longleftrightarrow>
     text_with (\<lambda>s. passes (validate_string_field env ps f (PStr s) ((''type'', PStr ''string'') # extra))) (pget rec f)"
  by (cases "pget rec f")
    (simp_all add: check_field_def text_rule_def as_mapping_def text_with_def pget_def [of "_ # _"] dget_or_def string_of_other passes_Inr)

lemma number_passes:
  "passes (validate_number_field env f v config) \<longleftrightarrow>
     (\<exists>x. ((\<exists>y. v = PFloat y \<and> x = float_number y) \<or> (\<exists>i. v = PInt i \<and> x = Finite (of_int i)))
        \<and> breaks num_less x (pget config ''min_value'') = Inr False \<and> breaks num_greater x (pget config ''max_value'') = Inr False)"
  by (cases v) (auto simp: validate_number_field_def passes_gather passes_issue_error issue_severities passes_error Let_def)

lemma number_field_passes [pass_simps]:
  assumes "\<bar>a\<bar> < 2 ^ 1024" "\<bar>b\<bar> < 2 ^ 1024"
  shows "passes (check_field env ps rec (f, PDict ((''type'', PStr ''number'') # (''min_value'', PFloat a) # (''max_value'', PFloat b) # extra))) \<longleftrightarrow>
     number_in a b (pget rec f)"
  using num_less_limits [OF assms] float_small [OF assms(1)] float_small [OF assms(2)]
  by (cases "pget rec f")
    (simp_all add: check_field_def as_mapping_def number_in_def pget_def [of "_ # _"] dget_or_def number_passes passes_Inr not_less)

lemma boolean_field_passes [pass_simps]:
  "passes (check_field env ps rec (f, PDict ((''type'', PStr ''boolean'') # extra))) \<longleftrightarrow> boolean_or_none (pget rec f)"
  by (cases "pget rec f")
    (simp_all add: check_field_def as_mapping_def boolean_or_none_def pget_def [of "_ # _"] dget_or_def validate_boolean_field_def pass_simps)

lemma text_rule_upto [pass_simps]:
  "dget ps f = None \<Longrightarrow> 0 \<le> n \<Longrightarrow> text_with (\<lambda>s. passes (validate_string_field env ps f (PStr s) [(''type'', PStr ''string''), (''max_length'', PInt n), (''nullable'', b)])) v
     = text_upto (nat n) v"
  "dget ps f = None \<Longrightarrow> 0 \<le> n \<Longrightarrow> text_with (\<lambda>s. passes (validate_string_field env ps f (PStr s) [(''type'', PStr ''string''), (''min_length'', PInt 1), (''max_length'', PInt n)])) v
     = (text_with (\<lambda>s. 1 \<le> text_length s) v \<and> text_upto (nat n) v)"
  by (auto simp: text_with_def text_upto_def string_passes pget_def dget_or_def not_less)

lemma text_rule_among [pass_simps]:
  "dget ps f = None \<Longrightarrow> k \<notin> {''min_length'', ''max_length'', ''format''} \<Longrightarrow>
     text_with (\<lambda>s. passes (validate_string_field env ps f (PStr s) [(''type'', PStr ''string''), (''allowed_values'', text_list ss), (k, b)])) v = text_among ss v"
  "dget ps f = None \<Longrightarrow>
     text_with (\<lambda>s. passes (validate_string_field env ps f (PStr s) [(''type'', PStr ''string''), (''allowed_values'', text_list ss)])) v = text_among ss v"
  by (auto simp: text_with_def text_among_def string_passes pget_def dget_or_def py_in_def text_list_def)

lemma text_rule_format [pass_simps]:
  "dget ps f = None \<Longrightarrow> text_with (\<lambda>s. passes (validate_string_field env ps f (PStr s) [(''type'', PStr ''string''), (''format'', PStr ''ip_address''), (''nullable'', b)])) v
     = text_with (sn_is_ip env) v"
  "dget ps f = None \<Longrightarrow> text_with (\<lambda>s. passes (validate_string_field env ps f (PStr s) [(''type'', PStr ''string''), (''format'', PStr ''iso8601'')])) v
     = text_with (\<lambda>s. sn_fromiso env (replace_Z s) \<noteq> None) v"
  "dget ps f = Some m \<Longrightarrow> text_with (\<lambda>s. passes (validate_string_field env ps f (PStr s) [(''type'', PStr ''string''), (''pattern'', p), (''nullable'', b)])) v
     = text_with m v"
  by (auto simp: text_with_def string_passes pget_def dget_or_def)

lemma field_types_pass:
  assumes "ps = [(''card_last_four'', m)]"
  shows "passes (check_field_types env ps shipped_rules rec) \<longleftrightarrow>
     (\<forall>f \<in> {''external_transaction_id'', ''account_id'', ''customer_id''}. text_with (\<lambda>s. 1 \<le> text_length s) (pget rec f) \<and> text_upto 64 (pget rec f))
     \<and> text_upto 64 (pget rec ''merchant_id'') \<and> text_upto 255 (pget rec ''merchant_name'') \<and> text_upto 10 (pget rec ''merchant_category_code'')
     \<and> number_in (1 / 100) (99999999999 / 100) (pget rec ''transaction_amount'')
     \<and> text_among [''USD'', ''EUR'', ''GBP'', ''CAD'', ''AUD'', ''JPY''] (pget rec ''transaction_currency'')
     \<and> text_among [''purchase'', ''withdrawal'', ''transfer'', ''refund''] (pget rec ''transaction_type'')
     \<and> text_among [''online'', ''pos'', ''atm'', ''mobile''] (pget rec ''channel'') \<and> text_among [''credit'', ''debit'', ''prepaid''] (pget rec ''card_type'')
     \<and> text_with m (pget rec ''card_last_four'') \<and> text_with (sn_is_ip env) (pget rec ''ip_address'')
     \<and> text_upto 128 (pget rec ''device_id'') \<and> text_upto 50 (pget rec ''device_type'')
     \<and> number_in (- 90) 90 (pget rec ''geo_latitude'') \<and> number_in (- 180) 180 (pget rec ''geo_longitude'')
     \<and> text_upto 3 (pget rec ''geo_country'') \<and> text_upto 100 (pget rec ''geo_city'') \<and> boolean_or_none (pget rec ''is_international'')
     \<and> text_with (\<lambda>s. sn_fromiso env (replace_Z s) \<noteq> None) (pget rec ''transaction_timestamp'')"
proof -
  have c: "check_field_types env ps shipped_rules rec = gather (map (check_field env ps rec) shipped_field_types)"
    by (simp add: check_field_types_def shipped_rules_def dget_or_def as_mapping_def)
  show ?thesis
    unfolding c shipped_field_types_def by (simp add: pass_simps assms)
qed

section \<open>The rules never raise\<close>

definition limit_ok :: "pyval \<Rightarrow> bool" where
  "limit_ok v = (v = PNone \<or> number_val v \<noteq> None)"

lemma returns_simps [simp]:
  "returns (issue_if b e) = returns b" "returns (gather xs) = (\<forall>x \<in> set xs. returns x)"
  "limit_ok v \<Longrightarrow> returns (breaks R x v)"
  using returns_gather [of xs] by (cases b; auto simp: returns_def issue_if_def breaks_def limit_ok_def split: option.splits)+

definition is_text_list :: "pyval \<Rightarrow> bool" where
  "is_text_list v = (v = PNone \<or> (\<exists>ss. v = text_list ss))"

lemma is_text_list_simps [simp]: "is_text_list PNone" "is_text_list (text_list ss)"
  by (auto simp: is_text_list_def)

lemma returns_string:
  "limit_ok (pget c ''min_length'') \<Longrightarrow> limit_ok (pget c ''max_length'') \<Longrightarrow> is_text_list (pget c ''allowed_values'')
     \<Longrightarrow> returns (validate_string_field env ps f v c)"
  by (cases v) (auto simp: validate_string_field_def is_text_list_def text_list_def py_in_def)

lemma returns_number: "limit_ok (pget c ''min_value'') \<Longrightarrow> limit_ok (pget c ''max_value'') \<Longrightarrow> returns (validate_number_field env f v c)"
  by (cases v) (simp_all add: validate_number_field_def Let_def)

lemma returns_field:
  "limit_ok (pget ((''type'', PStr ''string'') # c) ''min_length'') \<Longrightarrow> limit_ok (pget ((''type'', PStr ''string'') # c) ''max_length'')
     \<Longrightarrow> is_text_list (pget ((''type'', PStr ''string'') # c) ''allowed_values'')
     \<Longrightarrow> returns (check_field env ps rec (f, text_rule c))"
  "limit_ok v \<Longrightarrow> limit_ok w \<Longrightarrow> returns (check_field env ps rec (f, PDict ((''type'', PStr ''number'') # (''min_value'', v) # (''max_value'', w) # c)))"
  "returns (check_field env ps rec (f, PDict ((''type'', PStr ''boolean'') # c)))"
  using returns_string [of "(''type'', PStr ''string'') # c"]
    returns_number [of "(''type'', PStr ''number'') # (''min_value'', v) # (''max_value'', w) # c"]
  by (simp_all add: check_field_def text_rule_def as_mapping_def pget_def [of "_ # _"] dget_or_def Let_def)

lemma field_types_return: "returns (check_field_types env ps shipped_rules rec)"
proof -
  have c: "check_field_types env ps shipped_rules rec = gather (map (check_field env ps rec) shipped_field_types)"
    by (simp add: check_field_types_def shipped_rules_def dget_or_def as_mapping_def)
  show ?thesis
    unfolding c shipped_field_types_def by (simp add: returns_field pget_def dget_or_def limit_ok_def)
qed

definition amount_within :: "real \<Rightarrow> pyval \<Rightarrow> bool" where
  "amount_within b v = (case number_val v of None \<Rightarrow> True | Some x \<Rightarrow> \<not> num_less (Finite b) x)"

definition time_between :: "schema_env \<Rightarrow> pyval \<Rightarrow> bool" where
  "time_between env v = (\<forall>s t. v = PStr s \<longrightarrow> sn_fromiso env (replace_Z s) = Some t \<longrightarrow>
     utc_instant t \<le> sn_now env + 300 * 1000000 \<and> sn_now env - 90 * 86400000000 \<le> utc_instant t)"

lemma delta_values: "delta_of 1000000 (PInt 300) = Inr 300000000" "delta_of 86400000000 (PInt 90) = Inr 7776000000000"
  using round_half_even_int [of 300000000] round_half_even_int [of 7776000000000] by (simp_all add: delta_of_def)

lemma cross_rules_pass:
  "returns (check_cross_field_rules env shipped_rules rec)"
  "passes (check_cross_field_rules env shipped_rules rec) \<longleftrightarrow>
     (pget rec ''geo_latitude'' = PNone \<longleftrightarrow> pget rec ''geo_longitude'' = PNone)
     \<and> (pget rec ''transaction_type'' = PStr ''refund'' \<longrightarrow> amount_within 50000 (pget rec ''transaction_amount''))
     \<and> time_between env (pget rec ''transaction_timestamp'')"
proof -
  have c: "check_cross_field_rules env shipped_rules rec = gather (map (cross_rule env rec) shipped_cross_rules)"
    by (simp add: check_cross_field_rules_def shipped_rules_def dget_or_def)
  let ?t = "\<lambda>late. timestamp_rule env rec (\<lambda>t. Inr (late t))"
  have t: "returns (?t late)" for late
    by (cases "pget rec ''transaction_timestamp''") (simp_all add: timestamp_rule_def split: option.splits)
  have p: "passes (issue_if (?t late) e) \<longleftrightarrow> (\<forall>s t. pget rec ''transaction_timestamp'' = PStr s \<longrightarrow> sn_fromiso env (replace_Z s) = Some t \<longrightarrow> \<not> late (utc_instant t))"
    if "is_severity e = Sev_ERROR" for late e
    by (cases "pget rec ''transaction_timestamp''") (auto simp: passes_issue_error that timestamp_rule_def split: option.splits)
  note defs = cross_rule_def shipped_cross_rule_def shipped_cross_rules_def as_mapping_def issue_severity_of_def req_str_def pindex_def dget_or_def quoted_def
  show "returns (check_cross_field_rules env shipped_rules rec)"
    unfolding c
    by (simp add: defs rule_international_flag_def rule_card_last_four_def rule_ip_required_def rule_geo_paired_def rule_pos_merchant_def
        rule_atm_withdrawal_def rule_refund_limit_def rule_future_timestamp_def rule_stale_timestamp_def delta_values t Let_def)
  show "passes (check_cross_field_rules env shipped_rules rec) \<longleftrightarrow>
     (pget rec ''geo_latitude'' = PNone \<longleftrightarrow> pget rec ''geo_longitude'' = PNone)
     \<and> (pget rec ''transaction_type'' = PStr ''refund'' \<longrightarrow> amount_within 50000 (pget rec ''transaction_amount''))
     \<and> time_between env (pget rec ''transaction_timestamp'')"
    unfolding c
    by (simp add: defs rule_international_flag_def rule_card_last_four_def rule_ip_required_def rule_geo_paired_def rule_pos_merchant_def
        rule_atm_withdrawal_def rule_refund_limit_def rule_future_timestamp_def rule_stale_timestamp_def delta_values p pass_simps Let_def amount_within_def time_between_def)
      (auto simp: not_less split: option.splits)
qed

lemma whole_returns: "num_less (Finite y) x \<Longrightarrow> x \<noteq> Plus_Inf \<Longrightarrow> \<exists>b. is_whole x = Inr b"
  by (cases x) simp_all

text \<open>The two custom rules only warn; the first raises for an infinite amount.\<close>

lemma custom_rules_pass:
  "pget rec ''transaction_amount'' = PFloat float_infinity \<Longrightarrow> check_custom_rules env shipped_rules rec = Inl OverflowError"
  "pget rec ''transaction_amount'' \<noteq> PFloat float_infinity \<Longrightarrow> passes (check_custom_rules env shipped_rules rec)"
proof -
  have c: "check_custom_rules env shipped_rules rec = gather (map (custom_rule env rec) shipped_custom_rules)"
    by (simp add: check_custom_rules_def shipped_rules_def dget_or_def)
  note defs = custom_rule_def shipped_custom_rules_def as_mapping_def issue_severity_of_def req_str_def pindex_def dget_or_def
    rule_round_amount_def rule_high_value_def Let_def
  show "check_custom_rules env shipped_rules rec = Inl OverflowError" if "pget rec ''transaction_amount'' = PFloat float_infinity"
    unfolding c using that by (simp add: defs amount_rule_def plain_amount_def float_number_def gather.simps issue_if_def)
  show "passes (check_custom_rules env shipped_rules rec)" if "pget rec ''transaction_amount'' \<noteq> PFloat float_infinity"
  proof -
    have "plain_amount rec \<noteq> Some Plus_Inf" using that by (cases "pget rec ''transaction_amount''") (auto simp: plain_amount_def float_number_def)
    then have "\<exists>b. amount_rule rec (PInt 1000) is_whole = Inr b" using whole_returns by (auto simp: amount_rule_def split: option.splits)
    moreover have "\<exists>b. amount_rule rec (PInt 50000) (\<lambda>x. Inr True) = Inr b" by (auto simp: amount_rule_def split: option.splits)
    ultimately show ?thesis unfolding c by (auto simp: defs pass_simps)
  qed
qed

lemma shipped_patterns:
  assumes "new_schema_validator env = Inr v" "load_validation_rules env = Inr shipped_rules"
  shows "\<exists>m. sn_compile env (''^'' @ [CHR 0x5C] @ ''d{4}$'') = Some m \<and> sv_patterns v = [(''card_last_four'', m)] \<and> sv_rules v = shipped_rules"
proof -
  let ?p = "''^'' @ [CHR 0x5C] @ ''d{4}$''"
  have p: "precompile_patterns env shipped_rules = (case sn_compile env ?p of None \<Rightarrow> (Inl PatternError, []) | Some m \<Rightarrow> (Inr (), [(''card_last_four'', m)]))"
    by (simp add: precompile_patterns_def shipped_rules_def as_mapping_def dget_or_def shipped_field_types_def text_rule_def py_in_def pattern_of_def pget_def
        split: option.splits)
  show ?thesis using assms by (cases "sn_compile env ?p") (auto simp: new_schema_validator_def p res_bind_Inr)
qed

lemma fresh_time_checks:
  "filled v \<Longrightarrow> text_with (\<lambda>s. sn_fromiso env (replace_Z s) \<noteq> None) v \<and> time_between env v \<longleftrightarrow> fresh_time env v"
  by (cases v) (auto simp: filled_def text_with_def time_between_def fresh_time_def)

lemma refund_checks: "number_in (1 / 100) (99999999999 / 100) v \<Longrightarrow> amount_within 50000 v \<longleftrightarrow> number_in (1 / 100) 50000 v"
  by (cases v) (auto simp: number_in_def amount_within_def float_number_def float_infinity_def float_nan_def)

text \<open>
  Claim C14 (what the shipped schema accepts). A validator made from the rules file of the repository raises for exactly one kind of record: the amount is the float
  infinity, for which the rule of the round amounts raises OverflowError and the validator is as before. For every other record it returns, counts the result and finds
  the record valid exactly when it is a well-typed transaction: the seven required fields are there, texts, numbers and booleans have their types, lengths, ranges
  and allowed values, the coordinates come in pairs, a refund is at most 50000, and the time stamp is an ISO time at most five minutes ahead and at most
  90 days old. A float that is no number passes for a number in every range. (Integers are short enough to be printed, as those
  that \<^verbatim>\<open>json.loads\<close> reads are.)
\<close>

theorem shipped_schema_exact:
  assumes "new_schema_validator env = Inr v" "load_validation_rules env = Inr shipped_rules"
    and "sn_compile env (''^'' @ [CHR 0x5C] @ ''d{4}$'') = Some four_digits"
  shows "if pget rec ''transaction_amount'' = PFloat float_infinity then validate env rec v = (Inl OverflowError, v)
     else \<exists>r. validate env rec v = (Inr r, v\<lparr>sv_metrics := metrics_record r (sv_metrics v)\<rparr>) \<and> vr_is_valid r = conforms env four_digits rec"
proof -
  have v: "sv_patterns v = [(''card_last_four'', four_digits)]" "sv_rules v = shipped_rules"
    using shipped_patterns [OF assms(1,2)] assms(3) by auto
  have "returns (check_required_fields shipped_rules rec)" by (simp add: check_required_fields_def shipped_rules_def dget_or_def)
  then obtain a b c where abc: "check_required_fields shipped_rules rec = Inr a" "check_field_types env (sv_patterns v) shipped_rules rec = Inr b"
      "check_cross_field_rules env shipped_rules rec = Inr c"
    using field_types_return cross_rules_pass(1) unfolding returns_def by blast
  show ?thesis
  proof (cases "pget rec ''transaction_amount'' = PFloat float_infinity")
    case True
    then show ?thesis using custom_rules_pass(1) [OF True, of env] abc by (simp add: validate_def check_record_def v(2) gather.simps)
  next
    case False
    note custom = custom_rules_pass(2) [OF False, of env]
    then obtain es where es: "check_record env (sv_patterns v) shipped_rules rec = Inr es"
      using abc by (auto simp: check_record_def gather.simps passes_def)
    have "passes (Inr es) = conforms env four_digits rec"
      unfolding es [symmetric] check_record_def passes_gather required_passes field_types_pass [OF v(1)] cross_rules_pass(2)
      using custom fresh_time_checks [of "pget rec ''transaction_timestamp''" env] refund_checks [of "pget rec ''transaction_amount''"]
      unfolding conforms_def shipped_required_def by (simp add: conj_ac) blast
    then show ?thesis using es False by (simp add: validate_def v(2) Let_def result_valid)
  qed
qed

definition schema_demo_env :: schema_env where
  "schema_demo_env =
     \<lparr>sn_now = 0, sn_file = Some [], sn_yaml = (\<lambda>s. Some (PDict shipped_rules)), sn_compile = (\<lambda>p. Some (\<lambda>s. length s = 4)), sn_is_ip = (\<lambda>s. True),
      sn_fromiso = (\<lambda>s. Some (0, None)), sn_str = (\<lambda>v. [])\<rparr>"

definition schema_demo_record :: "(string, pyval) dict" where
  "schema_demo_record =
     [(''external_transaction_id'', PStr ''T''), (''account_id'', PStr ''A''), (''customer_id'', PStr ''C''), (''transaction_amount'', PInt 5),
      (''transaction_type'', PStr ''purchase''), (''channel'', PStr ''online''), (''transaction_timestamp'', PStr ''2024-01-01'')]"

lemma schema_demo_new:
  "new_schema_validator schema_demo_env = Inr \<lparr>sv_rules = shipped_rules, sv_metrics = new_schema_metrics, sv_patterns = [(''card_last_four'', \<lambda>s. length s = 4)]\<rparr>"
  by (simp add: new_schema_validator_def load_validation_rules_def schema_demo_env_def precompile_patterns_def shipped_rules_def as_mapping_def dget_or_def
      shipped_field_types_def text_rule_def py_in_def pattern_of_def pget_def sections_counted_def)

lemma schema_demo_conforms: "conforms schema_demo_env (\<lambda>s. length s = 4) schema_demo_record"
  by (simp add: conforms_def schema_demo_record_def pget_def dget_or_def filled_def text_with_def text_upto_def number_in_def text_among_def fresh_time_def
      schema_demo_env_def boolean_or_none_def utc_instant_def strip_def is_space_def text_length_def)

theorem shipped_schema_exact_witness:
  "\<exists>v r v'. new_schema_validator schema_demo_env = Inr v \<and> validate schema_demo_env schema_demo_record v = (Inr r, v') \<and> vr_is_valid r"
proof -
  have l: "load_validation_rules schema_demo_env = Inr shipped_rules" "sn_compile schema_demo_env (''^'' @ [CHR 0x5C] @ ''d{4}$'') = Some (\<lambda>s. length s = 4)"
    by (simp_all add: load_validation_rules_def schema_demo_env_def)
  have a: "pget schema_demo_record ''transaction_amount'' \<noteq> PFloat float_infinity" by (simp add: schema_demo_record_def pget_def dget_or_def)
  show ?thesis
    using shipped_schema_exact [OF schema_demo_new l, of schema_demo_record] a schema_demo_new schema_demo_conforms by auto
qed

section \<open>Metrics\<close>

lemma metrics_record_sums:
  assumes "vr_is_valid r = (vr_errors r = [])"
  shows "vm_total_processed (metrics_record r m) = vm_total_processed m + 1"
    "vm_total_passed (metrics_record r m) = vm_total_passed m + (if vr_is_valid r then 1 else 0)"
    "vm_total_failed (metrics_record r m) = vm_total_failed m + (if vr_is_valid r then 0 else 1)"
    "vm_total_warnings (metrics_record r m) = vm_total_warnings m + int (length (vr_warnings r))"
    "dget_or (vm_failure_reasons (metrics_record r m)) k 0 = dget_or (vm_failure_reasons m) k 0 + int (length (filter (\<lambda>e. reason_key e = k) (vr_errors r)))"
  using assms by (auto simp: metrics_record_def Let_def count_reason_def [abs_def] dget_or_tally)

lemma batch_metrics:
  assumes "validate_batch env recs v = (Inr rs, v')"
  shows "sv_metrics v' = fold metrics_record rs (sv_metrics v) \<and> length rs = length recs \<and> (\<forall>r \<in> set rs. vr_is_valid r = (vr_errors r = []))"
  using assms
proof (induction recs arbitrary: v rs)
  case (Cons rec recs)
  then obtain r v1 xs where r: "validate env rec v = (Inr r, v1)" "validate_batch env recs v1 = (Inr xs, v')" "rs = r # xs"
    by (auto simp: Let_def res_bind_Inr split: sum.splits prod.splits)
  then have "sv_metrics v1 = metrics_record r (sv_metrics v)" "vr_is_valid r = (vr_errors r = [])"
    by (auto simp: validate_def result_of_def Let_def split: sum.splits)
  then show ?case using Cons.IH [OF r(2)] r(3) by simp
qed simp

text \<open>
  Remark (the validation metrics count the results). After a batch that returns, the metrics of a new validator hold the numbers
  of records, of valid and of invalid ones and of warnings, and for every pair of field and rule the number of errors reported for it.
\<close>

theorem schema_metrics_exact:
  assumes "validate_batch env recs v = (Inr rs, v')" "sv_metrics v = new_schema_metrics"
  shows "vm_total_processed (sv_metrics v') = int (length recs)
     \<and> vm_total_passed (sv_metrics v') = int (length (filter vr_is_valid rs))
     \<and> vm_total_failed (sv_metrics v') = int (length (filter (\<lambda>r. \<not> vr_is_valid r) rs))
     \<and> vm_total_warnings (sv_metrics v') = int (length (concat (map vr_warnings rs)))
     \<and> dget_or (vm_failure_reasons (sv_metrics v')) k 0 = int (length (filter (\<lambda>e. reason_key e = k) (concat (map vr_errors rs))))"
proof -
  have "vm_total_processed (fold metrics_record xs m) = vm_total_processed m + int (length xs)
     \<and> vm_total_passed (fold metrics_record xs m) = vm_total_passed m + int (length (filter vr_is_valid xs))
     \<and> vm_total_failed (fold metrics_record xs m) = vm_total_failed m + int (length (filter (\<lambda>r. \<not> vr_is_valid r) xs))
     \<and> vm_total_warnings (fold metrics_record xs m) = vm_total_warnings m + int (length (concat (map vr_warnings xs)))
     \<and> dget_or (vm_failure_reasons (fold metrics_record xs m)) k 0
         = dget_or (vm_failure_reasons m) k 0 + int (length (filter (\<lambda>e. reason_key e = k) (concat (map vr_errors xs))))"
    if "\<forall>r \<in> set xs. vr_is_valid r = (vr_errors r = [])" for xs m
    using that by (induction xs arbitrary: m) (simp_all add: metrics_record_sums)
  then show ?thesis
    using batch_metrics [OF assms(1)] assms(2) by (simp add: new_schema_metrics_def dict_simps)
qed

theorem schema_metrics_exact_witness:
  "\<exists>v rs v'. new_schema_validator schema_demo_env = Inr v \<and> validate_batch schema_demo_env [[], []] v = (Inr rs, v') \<and> vm_total_processed (sv_metrics v') = 2"
proof -
  define v where "v = \<lparr>sv_rules = shipped_rules, sv_metrics = new_schema_metrics, sv_patterns = [(''card_last_four'', \<lambda>s::string. length s = 4)]\<rparr>"
  have "returns (check_required_fields shipped_rules [])" by (simp add: check_required_fields_def shipped_rules_def dget_or_def)
  moreover have "returns (check_custom_rules schema_demo_env shipped_rules [])"
    using custom_rules_pass(2) [of "[]" schema_demo_env] by (auto simp: pget_def dget_or_def passes_def returns_def)
  ultimately have "returns (check_record schema_demo_env (sv_patterns v) shipped_rules [])"
    unfolding check_record_def using field_types_return cross_rules_pass(1) by simp
  then obtain es where "check_record schema_demo_env (sv_patterns v) shipped_rules [] = Inr es" unfolding returns_def by blast
  then obtain rs v' where b: "validate_batch schema_demo_env [[], []] v = (Inr rs, v')"
    unfolding v_def by (simp add: validate_def Let_def)
  have m: "sv_metrics v = new_schema_metrics" by (simp add: v_def)
  show ?thesis using schema_metrics_exact [OF b m] b schema_demo_new unfolding v_def [symmetric] by force
qed

end
