(* ===== verification/Cleaner.thy ===== *)
theory Cleaner
  imports Py_Date
begin

text \<open>
  The data cleaner of \<^verbatim>\<open>src/transformation/cleaner.py\<close>: the deduplication cache, the cleaning steps in their order, and the
  masking of personal data. The functions of the Unicode database, \<^verbatim>\<open>str\<close>, SHA-256, \<^verbatim>\<open>datetime.fromisoformat\<close> and the clock are
  bundled in \<open>clean_env\<close>. The fields of a Python set are visited in the order of the source text.
\<close>

record clean_env =
  cn_clock :: seconds
  cn_str :: "pyval \<Rightarrow> string"
  cn_sha :: "string \<Rightarrow> string"
  cn_nfc :: "string \<Rightarrow> string"
  cn_drop_control :: "string \<Rightarrow> string"
  cn_fromiso :: "string \<Rightarrow> (datetime \<times> int option) option"

type_synonym txn = "(string, pyval) dict"

section \<open>Metrics and results\<close>

record clean_metrics =
  cm_records_processed :: int
  cm_records_deduplicated :: int
  cm_fields_imputed :: int
  cm_fields_standardized :: int
  cm_fields_masked :: int
  cm_dates_parsed :: int
  cm_dates_failed :: int
  cm_whitespace_trimmed :: int
  cm_encoding_fixed :: int

definition new_clean_metrics :: clean_metrics where
  "new_clean_metrics =
     \<lparr>cm_records_processed = 0, cm_records_deduplicated = 0, cm_fields_imputed = 0, cm_fields_standardized = 0, cm_fields_masked = 0,
      cm_dates_parsed = 0, cm_dates_failed = 0, cm_whitespace_trimmed = 0, cm_encoding_fixed = 0\<rparr>"

record clean_result =
  cr_record :: txn
  cr_is_duplicate :: bool
  cr_changes :: "string list"

section \<open>Deduplication cache\<close>

record lru_dedup =
  ld_max_size :: int
  ld_cache :: "(string, seconds) dict"

definition new_lru_dedup :: "int \<Rightarrow> lru_dedup" where
  "new_lru_dedup max_size = \<lparr>ld_max_size = max_size, ld_cache = []\<rparr>"

definition check_and_add :: "seconds \<Rightarrow> string \<Rightarrow> lru_dedup \<Rightarrow> bool \<times> lru_dedup" where
  "check_and_add clock key d =
     (case dget (ld_cache d) key of
        Some t \<Rightarrow> (True, d\<lparr>ld_cache := ddel key (ld_cache d) @ [(key, t)]\<rparr>)
      | None \<Rightarrow>
          (let cache = ld_cache d @ [(key, clock)]
           in (False, d\<lparr>ld_cache := (if ld_max_size d < int (length cache) then tl cache else cache)\<rparr>)))"

definition dedup_cache_clear :: "lru_dedup \<Rightarrow> lru_dedup" where
  "dedup_cache_clear d = d\<lparr>ld_cache := []\<rparr>"

section \<open>Configuration\<close>

definition default_pii_fields :: "string list" where
  "default_pii_fields =
     [''card_number'', ''card_last_four'', ''ssn'', ''social_security_number'', ''email'', ''email_address'', ''phone'', ''phone_number'',
      ''date_of_birth'', ''dob'', ''name'', ''first_name'', ''last_name'', ''full_name'', ''customer_name'', ''address'', ''street_address'',
      ''zip_code'', ''postal_code'', ''password'', ''secret'', ''token'', ''api_key'', ''ip_address'', ''device_id'']"

definition partial_mask_fields :: "(string, nat) dict" where
  "partial_mask_fields = [(''card_number'', 4), (''card_last_four'', 4), (''phone'', 4), (''phone_number'', 4), (''email'', 0), (''email_address'', 0)]"

definition default_imputation :: "(string, pyval) dict" where
  "default_imputation =
     [(''transaction_currency'', PStr ''USD''), (''is_international'', PBool False), (''channel'', PStr ''online''), (''card_type'', PNone),
      (''geo_country'', PNone), (''geo_city'', PNone), (''device_type'', PStr ''unknown'')]"

definition lowercase_fields :: "string list" where
  "lowercase_fields = [''transaction_type'', ''channel'', ''card_type'', ''device_type'']"

definition trim_fields :: "string list" where
  "trim_fields =
     [''external_transaction_id'', ''account_id'', ''customer_id'', ''merchant_id'', ''merchant_name'', ''merchant_category_code'',
      ''transaction_currency'', ''card_last_four'', ''ip_address'', ''device_id'', ''geo_country'', ''geo_city'']"

definition uppercase_fields :: "string list" where
  "uppercase_fields = [''transaction_currency'', ''geo_country'']"

record cleaner =
  cl_dedup :: lru_dedup
  cl_pii_fields :: "string list"
  cl_imputation :: "(string, pyval) dict"
  cl_idempotency_fields :: "string list"
  cl_metrics :: clean_metrics

text \<open>An empty argument counts as missing.\<close>

definition new_cleaner :: "int \<Rightarrow> string list \<Rightarrow> (string, pyval) dict \<Rightarrow> string list \<Rightarrow> cleaner" where
  "new_cleaner dedup_cache_size pii imputation idempotency =
     \<lparr>cl_dedup = new_lru_dedup dedup_cache_size, cl_pii_fields = (if pii = [] then default_pii_fields else pii),
      cl_imputation = (if imputation = [] then default_imputation else imputation),
      cl_idempotency_fields =
        (if idempotency = [] then [''external_transaction_id'', ''account_id'', ''transaction_amount'', ''transaction_timestamp''] else idempotency),
      cl_metrics = new_clean_metrics\<rparr>"

definition key_part :: "clean_env \<Rightarrow> txn \<Rightarrow> string \<Rightarrow> string" where
  "key_part env rec f = (case dget_or rec f (PStr []) of PNone \<Rightarrow> [] | v \<Rightarrow> ascii_lower (strip (cn_str env v)))"

fun join_bar :: "string list \<Rightarrow> string" where
  "join_bar [] = []"
| "join_bar [s] = s"
| "join_bar (s # ss) = s @ ''|'' @ join_bar ss"

definition compute_dedup_key :: "clean_env \<Rightarrow> string list \<Rightarrow> txn \<Rightarrow> string" where
  "compute_dedup_key env names rec = cn_sha env (join_bar (map (key_part env rec) names))"

section \<open>Cleaning steps\<close>

text \<open>The record under work, the changes so far and the metrics.\<close>

record clean_state =
  cs_record :: txn
  cs_changes :: "string list"
  cs_metrics :: clean_metrics

definition put :: "string \<Rightarrow> pyval \<Rightarrow> string \<Rightarrow> clean_state \<Rightarrow> clean_state" where
  "put key v change st = st\<lparr>cs_record := dset key v (cs_record st), cs_changes := cs_changes st @ [change]\<rparr>"

text \<open>One text field of a loop: \<open>f\<close> gives the new text; a field without text is left alone.\<close>

definition rewrite_text :: "string \<Rightarrow> (string \<Rightarrow> string) \<Rightarrow> (clean_metrics \<Rightarrow> clean_metrics) \<Rightarrow> string \<Rightarrow> clean_state \<Rightarrow> clean_state" where
  "rewrite_text tag f count key st =
     (case pget (cs_record st) key of
        PStr s \<Rightarrow>
          if f s \<noteq> s then (put key (PStr (f s)) (tag @ '':'' @ key) st)\<lparr>cs_metrics := count (cs_metrics st)\<rparr>
          else st
      | _ \<Rightarrow> st)"

definition is_ascii :: "string \<Rightarrow> bool" where
  "is_ascii s = (\<forall>c \<in> set s. (of_char c :: nat) < 128)"

definition ascii_control :: "char \<Rightarrow> bool" where
  "ascii_control c = (let n = of_char c :: nat in (n < 32 \<or> n = 127) \<and> n \<noteq> 9 \<and> n \<noteq> 10)"

definition clean_encoding :: "clean_env \<Rightarrow> string \<Rightarrow> string" where
  "clean_encoding env s =
     (let normalized = cn_nfc env s
      in if is_ascii normalized then filter (\<lambda>c. \<not> ascii_control c) normalized else cn_drop_control env normalized)"

definition fix_encoding :: "clean_env \<Rightarrow> clean_state \<Rightarrow> clean_state" where
  "fix_encoding env st =
     fold (rewrite_text ''encoding_fixed'' (clean_encoding env) (\<lambda>m. m\<lparr>cm_encoding_fixed := cm_encoding_fixed m + 1\<rparr>)) (map fst (cs_record st)) st"

text \<open>\<^verbatim>\<open>re.sub(r"\s+", " ", s)\<close>.\<close>

fun collapse_spaces :: "bool \<Rightarrow> string \<Rightarrow> string" where
  "collapse_spaces after [] = []"
| "collapse_spaces after (c # cs) =
     (if is_space c then (if after then collapse_spaces True cs else CHR '' '' # collapse_spaces True cs) else c # collapse_spaces False cs)"

definition trim_whitespace :: "clean_state \<Rightarrow> clean_state" where
  "trim_whitespace st =
     fold (rewrite_text ''whitespace_trimmed'' (\<lambda>s. collapse_spaces False (strip s)) (\<lambda>m. m\<lparr>cm_whitespace_trimmed := cm_whitespace_trimmed m + 1\<rparr>)) trim_fields st"

definition standardize_strings :: "clean_state \<Rightarrow> clean_state" where
  "standardize_strings st =
     (let count = (\<lambda>m. m\<lparr>cm_fields_standardized := cm_fields_standardized m + 1\<rparr>)
      in fold (rewrite_text ''uppercased'' ascii_upper count) uppercase_fields (fold (rewrite_text ''lowercased'' ascii_lower count) lowercase_fields st))"

subsection \<open>Dates\<close>

text \<open>The format strings of \<^verbatim>\<open>_DATE_FORMATS\<close>.\<close>

definition directive_of :: "char \<Rightarrow> directive" where
  "directive_of c =
     (if c = CHR ''Y'' then D_Y else if c = CHR ''m'' then D_m else if c = CHR ''d'' then D_d else if c = CHR ''H'' then D_H
      else if c = CHR ''M'' then D_M else if c = CHR ''S'' then D_S else if c = CHR ''f'' then D_f else D_z)"

fun parse_format :: "string \<Rightarrow> directive list" where
  "parse_format (a # b # cs) =
     (if a = CHR ''%'' then directive_of b # parse_format cs
      else (if a = CHR '' '' then D_blank else D_char a) # parse_format (b # cs))"
| "parse_format [a] = [if a = CHR '' '' then D_blank else D_char a]"
| "parse_format [] = []"

definition date_formats :: "directive list list" where
  "date_formats = map parse_format
     [''%Y-%m-%dT%H:%M:%SZ'', ''%Y-%m-%dT%H:%M:%S.%fZ'', ''%Y-%m-%dT%H:%M:%S%z'', ''%Y-%m-%dT%H:%M:%S.%f%z'', ''%Y-%m-%dT%H:%M:%S'',
      ''%Y-%m-%d %H:%M:%S'', ''%Y-%m-%d %H:%M:%S.%f'', ''%Y-%m-%d'', ''%m/%d/%Y %H:%M:%S'', ''%m/%d/%Y'', ''%d/%m/%Y %H:%M:%S'',
      ''%d/%m/%Y'', ''%d-%m-%Y'', ''%Y%m%d%H%M%S'', ''%Y%m%d'']"

text \<open>A naive time counts as UTC; the result is the instant.\<close>

definition as_utc :: "datetime \<times> int option \<Rightarrow> datetime" where
  "as_utc t = fst t - (case snd t of None \<Rightarrow> 0 | Some z \<Rightarrow> z)"

definition from_epoch :: "string \<Rightarrow> datetime option" where
  "from_epoch digits =
     (let n = int (num_of (map digit digits)); t = (if 10000000000 < n then n * 1000 else n * 1000000)
      in if in_range t then Some t else None)"

definition try_parse_date :: "clean_env \<Rightarrow> string \<Rightarrow> datetime option" where
  "try_parse_date env value =
     (let s = strip value
      in if s \<noteq> [] \<and> (\<forall>c \<in> set s. is_digit c) then from_epoch s
         else (case (if 4 < length s \<and> s ! 4 = CHR ''-'' then cn_fromiso env s else None) of
                 Some t \<Rightarrow> Some (as_utc t)
               | None \<Rightarrow> map_option as_utc (first_match (\<lambda>fmt. strptime fmt s) date_formats)))"

text \<open>A time before the year 1 or after 9999 in UTC raises; the metrics up to then stay.\<close>

definition parse_dates :: "clean_env \<Rightarrow> clean_state \<Rightarrow> unit res \<times> clean_state" where
  "parse_dates env st =
     (let key = ''transaction_timestamp''; m = cs_metrics st
      in case pget (cs_record st) key of
           PTime w z \<Rightarrow>
             (Inr (), (put key (PStr (iso_seconds w)) (''datetime_to_iso:'' @ key) st)\<lparr>cs_metrics := m\<lparr>cm_dates_parsed := cm_dates_parsed m + 1\<rparr>\<rparr>)
         | PStr s \<Rightarrow>
             if s = [] then (Inr (), st)
             else (case try_parse_date env s of
                     None \<Rightarrow> (Inr (), st\<lparr>cs_metrics := m\<lparr>cm_dates_failed := cm_dates_failed m + 1\<rparr>\<rparr>)
                   | Some t \<Rightarrow>
                       if \<not> in_range t then (Inl OverflowError, st)
                       else if iso_seconds t = s then (Inr (), st)
                       else (Inr (), (put key (PStr (iso_seconds t)) (''date_parsed:'' @ key) st)\<lparr>cs_metrics := m\<lparr>cm_dates_parsed := cm_dates_parsed m + 1\<rparr>\<rparr>))
         | _ \<Rightarrow> (Inr (), st))"

subsection \<open>Missing values and numbers\<close>

definition is_missing :: "pyval \<Rightarrow> bool" where
  "is_missing v = (v = PNone \<or> (\<exists>s. v = PStr s \<and> strip s = []))"

lemma is_missing_code [code]: "is_missing v = (case v of PNone \<Rightarrow> True | PStr s \<Rightarrow> strip s = [] | _ \<Rightarrow> False)"
  by (cases v) (simp_all add: is_missing_def)

definition impute_field :: "clean_env \<Rightarrow> string \<times> pyval \<Rightarrow> clean_state \<Rightarrow> clean_state" where
  "impute_field env fd st =
     (case fd of (field_name, dflt) \<Rightarrow>
        if dflt = PNone \<or> \<not> is_missing (pget (cs_record st) field_name) then st
        else (put field_name dflt (''imputed:'' @ field_name @ ''='' @ cn_str env dflt) st)
               \<lparr>cs_metrics := (cs_metrics st)\<lparr>cm_fields_imputed := cm_fields_imputed (cs_metrics st) + 1\<rparr>\<rparr>)"

definition impute_missing :: "clean_env \<Rightarrow> (string, pyval) dict \<Rightarrow> clean_state \<Rightarrow> clean_state" where
  "impute_missing env imputation st = fold (impute_field env) imputation st"

text \<open>Currency signs (as UTF-8: euro, pound, yen, rupee), dollar signs and white space are removed from an amount.\<close>

fun drop_signs :: "string \<Rightarrow> string" where
  "drop_signs (a # b # c # s) =
     (if [a, b, c] = [CHR 0xE2, CHR 0x82, CHR 0xAC] \<or> [a, b, c] = [CHR 0xE2, CHR 0x82, CHR 0xB9] then drop_signs s
      else if [a, b] = [CHR 0xC2, CHR 0xA3] \<or> [a, b] = [CHR 0xC2, CHR 0xA5] then drop_signs (c # s)
      else if a = CHR ''$'' \<or> is_space a then drop_signs (b # c # s) else a # drop_signs (b # c # s))"
| "drop_signs [a, b] =
     (if [a, b] = [CHR 0xC2, CHR 0xA3] \<or> [a, b] = [CHR 0xC2, CHR 0xA5] then []
      else if a = CHR ''$'' \<or> is_space a then drop_signs [b] else a # drop_signs [b])"
| "drop_signs [a] = (if a = CHR ''$'' \<or> is_space a then [] else [a])"
| "drop_signs [] = []"

definition all_digits :: "string \<Rightarrow> bool" where
  "all_digits s = (\<forall>c \<in> set s. is_digit c)"

text \<open>\<^verbatim>\<open>^\d{1,3}(\.\d{3})+(,\d+)?$\<close>.\<close>

definition european :: "string \<Rightarrow> bool" where
  "european s =
     (case split_at CHR '','' s of
        whole # fraction \<Rightarrow>
          (case split_at CHR ''.'' whole of
             first # groups \<Rightarrow>
               1 \<le> length first \<and> length first \<le> 3 \<and> all_digits first \<and> groups \<noteq> [] \<and> (\<forall>g \<in> set groups. length g = 3 \<and> all_digits g)
               \<and> (case fraction of [] \<Rightarrow> True | [f] \<Rightarrow> f \<noteq> [] \<and> all_digits f | _ \<Rightarrow> False)
           | [] \<Rightarrow> False)
      | [] \<Rightarrow> False)"

definition replace_char :: "char \<Rightarrow> string \<Rightarrow> string \<Rightarrow> string" where
  "replace_char a t s = concat (map (\<lambda>c. if c = a then t else [c]) s)"

definition plain_notation :: "string \<Rightarrow> string" where
  "plain_notation s =
     (if european s then replace_char CHR '','' ''.'' (replace_char CHR ''.'' [] s)
      else if CHR '','' \<in> set s \<and> CHR ''.'' \<notin> set s then replace_char CHR '','' ''.'' s
      else if CHR '','' \<in> set s \<and> CHR ''.'' \<in> set s then replace_char CHR '','' [] s
      else s)"

definition parse_amount :: "pyval \<Rightarrow> real option" where
  "parse_amount v =
     (case v of
        PBool b \<Rightarrow> Some (if b then 1 else 0)
      | PInt i \<Rightarrow> Some (py_round 4 (of_int i))
      | PFloat x \<Rightarrow> Some (py_round 4 x)
      | PStr s \<Rightarrow> map_option (py_round 4) (float_of_str (plain_notation (drop_signs s)))
      | _ \<Rightarrow> None)"

definition clean_amount :: "clean_env \<Rightarrow> clean_state \<Rightarrow> clean_state" where
  "clean_amount env st =
     (let amount = pget (cs_record st) ''transaction_amount''
      in case parse_amount amount of
           None \<Rightarrow> st
         | Some x \<Rightarrow>
             if py_eq (PFloat x) amount then st
             else put ''transaction_amount'' (PFloat x) (''amount_cleaned:'' @ cn_str env amount @ ''->'' @ cn_str env (PFloat x)) st)"

definition clean_coordinate :: "string \<Rightarrow> string \<Rightarrow> real \<Rightarrow> clean_state \<Rightarrow> clean_state" where
  "clean_coordinate key name bound st =
     (let v = pget (cs_record st) key
      in if v = PNone then st
         else (case to_float v of
                 Inl ex \<Rightarrow> put key PNone (''unparseable_'' @ name @ ''_cleared'') st
               | Inr x \<Rightarrow> if x < - bound \<or> bound < x then put key PNone (''invalid_'' @ name @ ''_cleared'') st else st))"

definition clean_numerics :: "clean_env \<Rightarrow> clean_state \<Rightarrow> clean_state" where
  "clean_numerics env st =
     clean_coordinate ''geo_longitude'' ''longitude'' 180 (clean_coordinate ''geo_latitude'' ''latitude'' 90 (clean_amount env st))"

subsection \<open>Mark-up\<close>

text \<open>\<^verbatim>\<open>re.sub(r"<[^>]+>", "", s)\<close>: from an opening bracket through the next closing one, with something between them.\<close>

function strip_tags :: "string \<Rightarrow> string" where
  "strip_tags [] = []"
| "strip_tags (c # cs) =
     (if c = CHR ''<'' \<and> cs \<noteq> [] \<and> hd cs \<noteq> CHR ''>'' \<and> CHR ''>'' \<in> set cs
      then strip_tags (drop 1 (dropWhile (\<lambda>x. x \<noteq> CHR ''>'') cs)) else c # strip_tags cs)"
  by pat_completeness auto
termination
  by (relation "measure length") (auto simp: less_Suc_eq_le intro: le_trans [OF diff_le_self length_dropWhile_le])

definition sanitize_strings :: "clean_state \<Rightarrow> clean_state" where
  "sanitize_strings st = fold (rewrite_text ''html_stripped'' strip_tags (\<lambda>m. m)) (map fst (cs_record st)) st"

section \<open>Operations\<close>

definition clean :: "clean_env \<Rightarrow> txn \<Rightarrow> cleaner \<Rightarrow> clean_result res \<times> cleaner" where
  "clean env rec c =
     (let (dup, d) = check_and_add (cn_clock env) (compute_dedup_key env (cl_idempotency_fields c) rec) (cl_dedup c);
          c1 = c\<lparr>cl_dedup := d\<rparr>; m = cl_metrics c
      in if dup
         then (Inr \<lparr>cr_record = rec, cr_is_duplicate = True, cr_changes = [''duplicate_detected'']\<rparr>,
               c1\<lparr>cl_metrics := m\<lparr>cm_records_processed := cm_records_processed m + 1, cm_records_deduplicated := cm_records_deduplicated m + 1\<rparr>\<rparr>)
         else (let st = standardize_strings (trim_whitespace (fix_encoding env \<lparr>cs_record = rec, cs_changes = [], cs_metrics = m\<rparr>))
               in case parse_dates env st of
                    (Inl ex, st1) \<Rightarrow> (Inl ex, c1\<lparr>cl_metrics := cs_metrics st1\<rparr>)
                  | (Inr _, st1) \<Rightarrow>
                      (let st2 = sanitize_strings (clean_numerics env (impute_missing env (cl_imputation c) st1)); m2 = cs_metrics st2
                       in (Inr \<lparr>cr_record = cs_record st2, cr_is_duplicate = False, cr_changes = cs_changes st2\<rparr>,
                           c1\<lparr>cl_metrics := m2\<lparr>cm_records_processed := cm_records_processed m2 + 1\<rparr>\<rparr>))))"

fun clean_batch :: "clean_env \<Rightarrow> txn list \<Rightarrow> cleaner \<Rightarrow> clean_result list res \<times> cleaner" where
  "clean_batch env [] c = (Inr [], c)"
| "clean_batch env (rec # recs) c =
     (case clean env rec c of
        (Inl ex, c1) \<Rightarrow> (Inl ex, c1)
      | (Inr r, c1) \<Rightarrow> (let (rs, c2) = clean_batch env recs c1 in (res_bind rs (\<lambda>xs. Inr (r # xs)), c2)))"

definition reset_dedup_cache :: "cleaner \<Rightarrow> cleaner" where
  "reset_dedup_cache c = c\<lparr>cl_dedup := dedup_cache_clear (cl_dedup c)\<rparr>"

definition dedup_cache_size :: "cleaner \<Rightarrow> nat" where
  "dedup_cache_size c = length (ld_cache (cl_dedup c))"

section \<open>Masking\<close>

text \<open>The characters of a text in UTF-8: a byte with the bytes that continue it.\<close>

definition continues :: "char \<Rightarrow> bool" where
  "continues c = ((of_char c :: nat) div 64 = 2)"

function characters :: "string \<Rightarrow> string list" where
  "characters [] = []"
| "characters (c # s) = (c # takeWhile continues s) # characters (dropWhile continues s)"
  by pat_completeness auto

termination
  by (relation "measure length") (simp_all add: less_Suc_eq_le length_dropWhile_le)

definition mask_value :: "clean_env \<Rightarrow> string \<Rightarrow> pyval \<Rightarrow> string res" where
  "mask_value env field_name v =
     (let s = cn_str env v; cs = characters s; n = length cs; lower = ascii_lower field_name; keep = dget_or partial_mask_fields lower 0
      in if v = PNone \<or> s = [] then Inr ''***''
         else if lower \<in> {''email'', ''email_address''} \<and> CHR ''@'' \<in> set s
         then (if hd s = CHR ''@'' then Inl IndexError else Inr (hd cs @ ''***'' @ dropWhile (\<lambda>c. c \<noteq> CHR ''@'') s))
         else if 0 < keep \<and> keep < n then Inr (replicate (n - keep) CHR ''*'' @ concat (drop (n - keep) cs))
         else if lower = ''ip_address'' \<and> CHR ''.'' \<in> set s
         then Inr (rev (drop 1 (dropWhile (\<lambda>c. c \<noteq> CHR ''.'') (rev s))) @ ''.***'')
         else if lower = ''device_id'' \<and> 8 < n then Inr (concat (take 4 cs) @ ''***'' @ concat (drop (n - 4) cs))
         else Inr ''***MASKED***'')"

fun mask_fields :: "clean_env \<Rightarrow> string list \<Rightarrow> txn \<Rightarrow> (txn \<times> int) res" where
  "mask_fields env pii [] = Inr ([], 0)"
| "mask_fields env pii ((field_name, v) # rec) =
     (if ascii_lower field_name \<in> set pii
      then res_bind (mask_value env field_name v) (\<lambda>s. res_bind (mask_fields env pii rec) (\<lambda>(d, n). Inr ((field_name, PStr s) # d, n + 1)))
      else res_bind (mask_fields env pii rec) (\<lambda>(d, n). Inr ((field_name, v) # d, n)))"

definition mask_pii :: "clean_env \<Rightarrow> txn \<Rightarrow> cleaner \<Rightarrow> txn res \<times> cleaner" where
  "mask_pii env rec c =
     (case mask_fields env (cl_pii_fields c) rec of
        Inl ex \<Rightarrow> (Inl ex, c)
      | Inr (d, n) \<Rightarrow> (Inr d, c\<lparr>cl_metrics := (cl_metrics c)\<lparr>cm_fields_masked := cm_fields_masked (cl_metrics c) + n\<rparr>\<rparr>))"

end
