(* ===== verification/Cleaner_Properties.thy ===== *)
theory Cleaner_Properties
  imports Cleaner
begin

text \<open>
  What the cleaner guarantees: it reports exactly the repetitions among the most recently used keys; its texts carry no mark-up; its
  times are canonical and read back; masking hides what it should. And where it goes wrong: compact dates, times with an
  offset, thousands separators, and e-mail addresses without a local part.
\<close>

declare map_of_eq_Some_iff [simp del] Some_eq_map_of_iff [simp del]

section \<open>Deduplication\<close>

text \<open>The \<open>n\<close> most recently used keys of a history, least recent first.\<close>

definition last_used :: "int \<Rightarrow> string list \<Rightarrow> string list" where
  "last_used n ks = (let r = remdups ks in drop (length r - nat n) r)"

definition cache_shows :: "string list \<Rightarrow> lru_dedup \<Rightarrow> bool" where
  "cache_shows ks d = (map fst (ld_cache d) = last_used (ld_max_size d) ks)"

lemma remdups_snoc: "remdups (ks @ [k]) = filter (\<lambda>x. x \<noteq> k) (remdups ks) @ [k]"
  by (induction ks) auto

lemma filter_absent: "k \<notin> set xs \<Longrightarrow> filter (\<lambda>x. x \<noteq> k) xs = xs"
  by (induction xs) auto

lemma length_filter_one: "distinct xs \<Longrightarrow> k \<in> set xs \<Longrightarrow> Suc (length (filter (\<lambda>x. x \<noteq> k) xs)) = length xs"
  by (induction xs) (auto simp: filter_absent)

lemma ddel_keys: "map fst (ddel k d) = filter (\<lambda>x. x \<noteq> k) (map fst d)"
  by (induction d) auto

lemma last_used_hit:
  assumes "k \<in> set (last_used n ks)"
  shows "last_used n (ks @ [k]) = filter (\<lambda>x. x \<noteq> k) (last_used n ks) @ [k]"
proof -
  define A where "A = take (length (remdups ks) - nat n) (remdups ks)"
  define B where "B = last_used n ks"
  have r: "remdups ks = A @ B" "distinct (A @ B)" unfolding A_def B_def last_used_def Let_def by (simp_all add: distinct_remdups)
  have k: "k \<in> set B" "k \<notin> set A" using assms r(2) unfolding B_def by auto
  have l: "length (filter (\<lambda>x. x \<noteq> k) (A @ B) @ [k]) = length (A @ B)"
    using k r(2) length_filter_one [of B k] by (simp add: filter_absent)
  have "length (A @ B) - nat n = length A" unfolding A_def B_def last_used_def Let_def by auto
  then show ?thesis
    using k unfolding last_used_def Let_def remdups_snoc r(1) l B_def [unfolded last_used_def Let_def, symmetric]
    by (simp add: filter_absent)
qed

lemma last_used_miss:
  assumes "k \<notin> set (last_used n ks)"
  shows "last_used n (ks @ [k]) = (let c = last_used n ks @ [k] in if n < int (length c) then tl c else c)"
proof -
  define A where "A = take (length (remdups ks) - nat n) (remdups ks)"
  define B where "B = last_used n ks"
  define A' where "A' = filter (\<lambda>x. x \<noteq> k) A"
  have r: "remdups ks = A @ B" unfolding A_def B_def last_used_def Let_def by simp
  have B: "length B \<le> nat n" "A \<noteq> [] \<Longrightarrow> length B = nat n" unfolding A_def B_def last_used_def Let_def by auto
  have s: "last_used n (ks @ [k]) = drop (length (A' @ B @ [k]) - nat n) (A' @ B @ [k])"
    unfolding last_used_def Let_def remdups_snoc r A'_def using assms unfolding B_def [symmetric] by (simp add: filter_absent)
  have "A' = []" if "length B < nat n" using that B(2) unfolding A'_def by (cases A) auto
  then show ?thesis
    unfolding s B_def [symmetric] using B(1) by (cases B) (auto simp: Let_def drop_Cons' split: if_splits)
qed

lemma check_and_add_size [simp]: "ld_max_size (snd (check_and_add t k d)) = ld_max_size d"
  by (simp add: check_and_add_def Let_def split: option.splits)

lemma check_and_add_shows:
  assumes "cache_shows ks d"
  shows "fst (check_and_add t k d) = (k \<in> set (last_used (ld_max_size d) ks))"
    "cache_shows (ks @ [k]) (snd (check_and_add t k d))"
proof -
  have m: "(dget (ld_cache d) k = None) = (k \<notin> set (last_used (ld_max_size d) ks))"
    using assms unfolding cache_shows_def by (simp add: map_of_eq_None_iff flip: list.set_map)
  show "fst (check_and_add t k d) = (k \<in> set (last_used (ld_max_size d) ks))"
    using m by (cases "dget (ld_cache d) k") (auto simp: check_and_add_def Let_def)
  show "cache_shows (ks @ [k]) (snd (check_and_add t k d))"
  proof (cases "dget (ld_cache d) k")
    case None
    then have "map fst (ld_cache (snd (check_and_add t k d))) = (let c = map fst (ld_cache d) @ [k] in if ld_max_size d < int (length c) then tl c else c)"
      by (simp add: check_and_add_def Let_def map_tl)
    then show ?thesis using None m assms last_used_miss unfolding cache_shows_def by (simp add: check_and_add_def Let_def)
  next
    case (Some x)
    then show ?thesis using m assms last_used_hit unfolding cache_shows_def by (simp add: check_and_add_def ddel_keys)
  qed
qed

lemma clean_duplicate:
  "fst (check_and_add (cn_clock env) (compute_dedup_key env (cl_idempotency_fields c) rec) (cl_dedup c)) \<Longrightarrow> \<exists>r c'. clean env rec c = (Inr r, c')"
  by (auto simp: clean_def Let_def split: prod.splits)

text \<open>The records a cleaner has seen, and their keys.\<close>

definition run_cleaner :: "(clean_env \<times> txn) list \<Rightarrow> cleaner \<Rightarrow> cleaner" where
  "run_cleaner xs c = fold (\<lambda>(env, rec) c. snd (clean env rec c)) xs c"

definition dedup_key_of :: "string list \<Rightarrow> clean_env \<times> txn \<Rightarrow> string" where
  "dedup_key_of names x = compute_dedup_key (fst x) names (snd x)"

lemma clean_dedup:
  "cl_dedup (snd (clean env rec c)) = snd (check_and_add (cn_clock env) (compute_dedup_key env (cl_idempotency_fields c) rec) (cl_dedup c))"
  "cl_idempotency_fields (snd (clean env rec c)) = cl_idempotency_fields c"
  by (auto simp: clean_def Let_def split: prod.splits sum.splits)

lemma run_cleaner_shows:
  assumes "cache_shows [] (cl_dedup c)"
  shows "cache_shows (map (dedup_key_of (cl_idempotency_fields c)) xs) (cl_dedup (run_cleaner xs c))
     \<and> ld_max_size (cl_dedup (run_cleaner xs c)) = ld_max_size (cl_dedup c) \<and> cl_idempotency_fields (run_cleaner xs c) = cl_idempotency_fields c"
proof (induction xs rule: rev_induct)
  case Nil
  then show ?case using assms by (simp add: run_cleaner_def)
next
  case (snoc x xs)
  have "run_cleaner (xs @ [x]) c = snd (clean (fst x) (snd x) (run_cleaner xs c))"
    by (simp add: run_cleaner_def case_prod_beta)
  then show ?case using snoc check_and_add_shows(2) by (simp add: clean_dedup dedup_key_of_def)
qed

text \<open>
  Claim C23 (exactly the repetitions in the window are duplicates). Whatever records a cleaner has seen, whether their cleaning raised or
  not, the next record is reported as a duplicate exactly when its key is among the most recently used distinct keys, as many of them
  as the cache holds.
\<close>

theorem duplicates_exact:
  assumes "c0 = new_cleaner n pii imp idem" "clean env rec (run_cleaner xs c0) = (Inr r, c)"
  shows "cr_is_duplicate r \<longleftrightarrow> dedup_key_of (cl_idempotency_fields c0) (env, rec) \<in> set (last_used n (map (dedup_key_of (cl_idempotency_fields c0)) xs))"
proof -
  have "cache_shows [] (cl_dedup c0)" "ld_max_size (cl_dedup c0) = n"
    by (simp_all add: assms(1) new_cleaner_def new_lru_dedup_def cache_shows_def last_used_def)
  then have s: "cache_shows (map (dedup_key_of (cl_idempotency_fields c0)) xs) (cl_dedup (run_cleaner xs c0))"
      "ld_max_size (cl_dedup (run_cleaner xs c0)) = n" "cl_idempotency_fields (run_cleaner xs c0) = cl_idempotency_fields c0"
    using run_cleaner_shows by metis+
  have "cr_is_duplicate r = fst (check_and_add (cn_clock env) (dedup_key_of (cl_idempotency_fields c0) (env, rec)) (cl_dedup (run_cleaner xs c0)))"
    using assms(2) unfolding clean_def s(3) by (auto simp: Let_def dedup_key_of_def split: prod.splits if_splits sum.splits)
  then show ?thesis using check_and_add_shows(1) [OF s(1)] s(2) by simp
qed

definition clean_demo_env :: clean_env where
  "clean_demo_env = \<lparr>cn_clock = 0, cn_str = (\<lambda>v. case v of PStr s \<Rightarrow> s | _ \<Rightarrow> ''?''), cn_sha = (\<lambda>s. s), cn_nfc = (\<lambda>s. s), cn_drop_control = (\<lambda>s. s), cn_fromiso = (\<lambda>s. None)\<rparr>"

theorem duplicates_exact_witness:
  "\<exists>r c. clean clean_demo_env [(''account_id'', PStr ''a'')] (run_cleaner [(clean_demo_env, [(''account_id'', PStr ''a'')])] (new_cleaner 2 [] [] [])) = (Inr r, c)
     \<and> cr_is_duplicate r"
proof -
  let ?e = "(clean_demo_env, [(''account_id'', PStr ''a'')])" and ?c = "new_cleaner 2 [] [] []"
  have "cache_shows [] (cl_dedup ?c)" by (simp add: new_cleaner_def new_lru_dedup_def cache_shows_def last_used_def)
  note s = run_cleaner_shows [OF this, of "[?e]"]
  have "fst (check_and_add (cn_clock clean_demo_env) (dedup_key_of (cl_idempotency_fields ?c) ?e) (cl_dedup (run_cleaner [?e] ?c)))"
    using check_and_add_shows(1) [of "map (dedup_key_of (cl_idempotency_fields ?c)) [?e]" "cl_dedup (run_cleaner [?e] ?c)"] s
    by (simp add: last_used_def new_cleaner_def new_lru_dedup_def)
  then obtain r c where r: "clean clean_demo_env [(''account_id'', PStr ''a'')] (run_cleaner [?e] ?c) = (Inr r, c)"
    using s clean_duplicate [of clean_demo_env "run_cleaner [?e] ?c" "[(''account_id'', PStr ''a'')]"] by (auto simp: dedup_key_of_def)
  then show ?thesis
    using duplicates_exact [OF refl r] by (simp add: last_used_def dedup_key_of_def)
qed

section \<open>Mark-up\<close>

text \<open>A text with a tag: an opening bracket, something without a closing bracket, and a closing bracket.\<close>

definition has_tag :: "string \<Rightarrow> bool" where
  "has_tag s = (\<exists>a b c. s = a @ CHR ''<'' # b @ CHR ''>'' # c \<and> b \<noteq> [] \<and> CHR ''>'' \<notin> set b)"

lemma has_tag_Nil [simp]: "\<not> has_tag []"
  by (simp add: has_tag_def)

lemma has_tag_Cons: "has_tag (c # s) \<longleftrightarrow> has_tag s \<or> (c = CHR ''<'' \<and> s \<noteq> [] \<and> hd s \<noteq> CHR ''>'' \<and> CHR ''>'' \<in> set s)"
proof
  assume "has_tag (c # s)"
  then obtain a b d where h: "c # s = a @ CHR ''<'' # b @ CHR ''>'' # d" "b \<noteq> []" "CHR ''>'' \<notin> set b" unfolding has_tag_def by blast
  then show "has_tag s \<or> (c = CHR ''<'' \<and> s \<noteq> [] \<and> hd s \<noteq> CHR ''>'' \<and> CHR ''>'' \<in> set s)"
  proof (cases a)
    case Nil
    then show ?thesis using h by (cases b) auto
  next
    case (Cons x a')
    then have "s = a' @ CHR ''<'' # b @ CHR ''>'' # d" using h(1) by simp
    then show ?thesis using h(2,3) unfolding has_tag_def by blast
  qed
next
  assume "has_tag s \<or> (c = CHR ''<'' \<and> s \<noteq> [] \<and> hd s \<noteq> CHR ''>'' \<and> CHR ''>'' \<in> set s)"
  then show "has_tag (c # s)"
  proof
    assume "has_tag s"
    then show ?thesis unfolding has_tag_def by (metis append_Cons)
  next
    assume h: "c = CHR ''<'' \<and> s \<noteq> [] \<and> hd s \<noteq> CHR ''>'' \<and> CHR ''>'' \<in> set s"
    then obtain b d where "s = b @ CHR ''>'' # d" "CHR ''>'' \<notin> set b" using split_list_first by fastforce
    then show ?thesis using h unfolding has_tag_def by (intro exI [of _ "[]"] exI [of _ b] exI [of _ d]) auto
  qed
qed

text \<open>Removing tags does not touch a closing bracket at the start, and makes no closing bracket appear.\<close>

lemma strip_tags_hd: "s \<noteq> [] \<Longrightarrow> hd s = CHR ''>'' \<Longrightarrow> strip_tags s \<noteq> [] \<and> hd (strip_tags s) = CHR ''>''"
  by (cases s) auto

lemma strip_tags_set: "set (strip_tags s) \<subseteq> set s"
proof (induction s rule: strip_tags.induct)
  case (2 c cs)
  have "set (drop 1 (dropWhile (\<lambda>x. x \<noteq> CHR ''>'') cs)) \<subseteq> set cs" by (meson set_drop_subset set_dropWhileD subset_iff)
  then show ?case using 2 by (auto simp del: One_nat_def)
qed simp

lemma strip_tags_clean: "\<not> has_tag (strip_tags s)"
proof (induction s rule: strip_tags.induct)
  case (2 c cs)
  show ?case
  proof (cases "c = CHR ''<'' \<and> cs \<noteq> [] \<and> hd cs \<noteq> CHR ''>'' \<and> CHR ''>'' \<in> set cs")
    case True
    then show ?thesis using 2 by simp
  next
    case False
    then have "strip_tags (c # cs) = c # strip_tags cs" by (simp only: strip_tags.simps if_False)
    moreover have "\<not> has_tag (strip_tags cs)" using 2 False by blast
    ultimately show ?thesis using False strip_tags_hd [of cs] strip_tags_set [of cs] by (cases "cs = []") (auto simp: has_tag_Cons)
  qed
qed simp

text \<open>A loop of rewritings: what \<open>f\<close> ensures holds for every text of the visited fields.\<close>

definition text_ok :: "(string \<Rightarrow> bool) \<Rightarrow> txn \<Rightarrow> string \<Rightarrow> bool" where
  "text_ok P rec k = (\<forall>s. pget rec k = PStr s \<longrightarrow> P s)"

lemma pget_none: "k \<notin> fst ` set rec \<Longrightarrow> pget rec k = PNone"
  using map_of_eq_None_iff [of rec k] by (simp add: pget_def dget_or_def)

lemma rewrite_text_get:
  "pget (cs_record (rewrite_text tag f count key st)) k =
     (if k = key then (case pget (cs_record st) k of PStr s \<Rightarrow> PStr (f s) | v \<Rightarrow> v) else pget (cs_record st) k)"
  by (simp add: rewrite_text_def put_def dict_simps split: pyval.splits)

lemma rewrite_loop:
  assumes "\<And>s. P (f s)"
  shows "\<forall>k. k \<in> set ks \<or> text_ok P (cs_record st) k \<longrightarrow> text_ok P (cs_record (fold (rewrite_text tag f count) ks st)) k"
proof (induction ks arbitrary: st)
  case (Cons key ks)
  have "text_ok P (cs_record (rewrite_text tag f count key st)) k" if "k = key \<or> text_ok P (cs_record st) k" for k
    using that assms unfolding text_ok_def rewrite_text_get by (auto split: pyval.splits if_splits)
  then show ?case using Cons [of "rewrite_text tag f count key st"] by auto
qed simp

text \<open>
  Remark (cleaned texts carry no mark-up). When a record is cleaned and is no duplicate, no text of the result contains a tag: an
  opening angle bracket that is followed by something other than a closing one and later by a closing one.
\<close>

theorem cleaned_text_tag_free:
  assumes "clean env rec c = (Inr r, c')" "\<not> cr_is_duplicate r" "pget (cr_record r) k = PStr s"
  shows "\<not> (\<exists>a b d. s = a @ ''<'' @ b @ ''>'' @ d \<and> b \<noteq> [] \<and> CHR ''>'' \<notin> set b)"
proof -
  obtain st where r: "cr_record r = cs_record (sanitize_strings st)"
    using assms(1,2) by (auto simp: clean_def Let_def split: prod.splits if_splits sum.splits)
  have "text_ok (\<lambda>s. \<not> has_tag s) (cs_record st) k \<or> k \<in> set (map fst (cs_record st))"
    using pget_none [of k "cs_record st"] by (auto simp: text_ok_def)
  then have "text_ok (\<lambda>s. \<not> has_tag s) (cr_record r) k"
    unfolding r sanitize_strings_def using rewrite_loop [of "\<lambda>s. \<not> has_tag s" strip_tags] strip_tags_clean by blast
  then show ?thesis using assms(3) by (simp add: text_ok_def has_tag_def)
qed

lemma rewrite_none: "pget (cs_record st) key = PNone \<Longrightarrow> rewrite_text tag f count key st = st"
  by (simp add: rewrite_text_def)

abbreviation markup_cleaner :: cleaner where
  "markup_cleaner \<equiv> new_cleaner 2 [] [(''note'', PStr ''<b>x'')] []"

lemma clean_demo_cleaned:
  "\<exists>r c. clean clean_demo_env [] markup_cleaner = (Inr r, c) \<and> \<not> cr_is_duplicate r \<and> pget (cr_record r) ''note'' = PStr ''x''"
proof -
  have p: "pget [] k = PNone" for k by (simp add: pget_def dget_or_def)
  let ?st = "\<lambda>m. \<lparr>cs_record = [], cs_changes = [], cs_metrics = m\<rparr>"
  have s: "standardize_strings (trim_whitespace (fix_encoding clean_demo_env (?st m))) = ?st m" for m
    by (simp add: standardize_strings_def trim_whitespace_def fix_encoding_def rewrite_none p trim_fields_def lowercase_fields_def uppercase_fields_def)
  show ?thesis
    by (simp add: clean_def Let_def s parse_dates_def p new_cleaner_def new_lru_dedup_def check_and_add_def impute_missing_def impute_field_def is_missing_def put_def
        clean_numerics_def clean_amount_def parse_amount_def clean_coordinate_def sanitize_strings_def rewrite_text_def pget_def dget_or_def)
qed

theorem cleaned_text_tag_free_witness:
  "\<exists>r c. clean clean_demo_env [] markup_cleaner = (Inr r, c) \<and> pget (cr_record r) ''note'' = PStr ''x''
     \<and> \<not> (\<exists>a b d. ''x'' = a @ ''<'' @ b @ ''>'' @ d \<and> b \<noteq> [] \<and> CHR ''>'' \<notin> set b)"
proof -
  obtain r c where r: "clean clean_demo_env [] markup_cleaner = (Inr r, c)" "\<not> cr_is_duplicate r" "pget (cr_record r) ''note'' = PStr ''x''"
    using clean_demo_cleaned by (elim exE conjE)
  show ?thesis using cleaned_text_tag_free [OF r] r by blast
qed

section \<open>Masking\<close>

lemma concat_characters: "concat (characters s) = s"
  by (induction s rule: characters.induct) simp_all

lemma text_length_split: "text_length (takeWhile continues s) = 0 \<and> text_length s = text_length (takeWhile continues s) + text_length (dropWhile continues s)"
  by (induction s) (auto simp: text_length_def continues_def)

lemma characters_length: "s = [] \<or> \<not> continues (hd s) \<Longrightarrow> length (characters s) = text_length s"
proof (induction s rule: characters.induct)
  case (2 c s)
  have "dropWhile continues s = [] \<or> \<not> continues (hd (dropWhile continues s))" using hd_dropWhile [of continues s] by blast
  then have "length (characters (dropWhile continues s)) = text_length (dropWhile continues s)" by (rule "2.IH")
  moreover have "text_length (c # s) = 1 + text_length s" using "2.prems" by (simp add: text_length_def continues_def)
  ultimately show ?case using text_length_split [of s] by simp
qed (simp add: text_length_def)

lemma drop_to: "c \<notin> set xs \<Longrightarrow> dropWhile (\<lambda>x. x \<noteq> c) (xs @ c # ys) = c # ys"
  by (induction xs) auto

lemma one_character: "length (characters (c # takeWhile continues t)) = 1"
proof -
  have d: "dropWhile continues (takeWhile continues t) = []" by (auto dest: set_takeWhileD)
  show ?thesis unfolding characters.simps d by simp
qed

lemma characters_first:
  assumes "s \<noteq> []" "hd s \<noteq> CHR ''@''" "CHR ''@'' \<in> set s"
  shows "\<exists>x rest domain. hd (characters s) = x \<and> s = x @ rest @ ''@'' @ domain \<and> length (characters x) = 1 \<and> CHR ''@'' \<notin> set (x @ rest)
    \<and> dropWhile (\<lambda>c. c \<noteq> CHR ''@'') s = ''@'' @ domain"
proof -
  obtain c t where s: "s = c # t" using assms(1) by (cases s) auto
  define x u where "x = c # takeWhile continues t" and "u = dropWhile continues t"
  have "\<not> continues (CHR ''@'')" by (simp add: continues_def)
  then have x: "CHR ''@'' \<notin> set x" using assms(2) by (auto simp: s x_def dest: set_takeWhileD)
  have t: "s = x @ u" by (simp add: s x_def u_def)
  then have "CHR ''@'' \<in> set u" using assms(3) x by simp
  then obtain rest domain where u: "u = rest @ CHR ''@'' # domain" "CHR ''@'' \<notin> set rest" by (auto dest: split_list_first)
  have "hd (characters s) = x" by (simp add: s x_def)
  moreover have "s = x @ rest @ ''@'' @ domain" "CHR ''@'' \<notin> set (x @ rest)" using t u x by simp_all
  moreover from this have "dropWhile (\<lambda>c. c \<noteq> CHR ''@'') s = ''@'' @ domain" using drop_to [of "CHR ''@''" "x @ rest" domain] by simp
  ultimately show ?thesis using one_character [of c t] unfolding x_def [symmetric] by blast
qed

text \<open>What a masked text may show of the text: nothing, or a part that depends on the field.\<close>

definition masked_as :: "string \<Rightarrow> string \<Rightarrow> string \<Rightarrow> bool" where
  "masked_as f s m \<longleftrightarrow>
     m = ''***'' \<or> m = ''***MASKED***''
     \<or> f \<in> {''card_number'', ''card_last_four'', ''phone'', ''phone_number''} \<and>
         (\<exists>front back. characters s = front @ back \<and> front \<noteq> [] \<and> length back = 4 \<and> m = replicate (length front) CHR ''*'' @ concat back)
     \<or> f \<in> {''email'', ''email_address''} \<and>
         (\<exists>x rest domain. s = x @ rest @ ''@'' @ domain \<and> length (characters x) = 1 \<and> CHR ''@'' \<notin> set (x @ rest) \<and> m = x @ ''***@'' @ domain)
     \<or> f = ''ip_address'' \<and> (\<exists>front octet. s = front @ ''.'' @ octet \<and> CHR ''.'' \<notin> set octet \<and> m = front @ ''.***'')
     \<or> f = ''device_id'' \<and>
         (\<exists>a mid b. characters s = a @ mid @ b \<and> length a = 4 \<and> mid \<noteq> [] \<and> length b = 4 \<and> m = concat a @ ''***'' @ concat b)"

lemma keep_values:
  "dget_or partial_mask_fields f 0 = (if f \<in> {''card_number'', ''card_last_four'', ''phone'', ''phone_number''} then 4 else 0)"
  by (simp add: partial_mask_fields_def dget_or_def)

lemma masked_tail:
  assumes "4 < length (cs :: string list)"
  shows "\<exists>front back. cs = front @ back \<and> front \<noteq> [] \<and> length back = 4
    \<and> replicate (length cs - 4) CHR ''*'' @ concat (drop (length cs - 4) cs) = replicate (length front) CHR ''*'' @ concat back"
  by (rule exI [of _ "take (length cs - 4) cs"], rule exI [of _ "drop (length cs - 4) cs"]) (use assms in auto)

lemma masked_middle:
  assumes "8 < length (cs :: string list)"
  shows "\<exists>a mid b. cs = a @ mid @ b \<and> length a = 4 \<and> mid \<noteq> [] \<and> length b = 4
    \<and> concat (take 4 cs) @ ''***'' @ concat (drop (length cs - 4) cs) = concat a @ ''***'' @ concat b"
proof -
  have "drop (length cs - 4) cs = drop (length cs - 8) (drop 4 cs)" using assms by simp
  then have "cs = take 4 cs @ take (length cs - 8) (drop 4 cs) @ drop (length cs - 4) cs" by (simp only: append_take_drop_id)
  moreover have "length (take 4 cs) = 4" "length (drop (length cs - 4) cs) = 4" "take (length cs - 8) (drop 4 cs) \<noteq> []" using assms by auto
  ultimately show ?thesis by blast
qed

lemma masked_octet:
  assumes "CHR ''.'' \<in> set s"
  shows "\<exists>front octet. s = front @ ''.'' @ octet \<and> CHR ''.'' \<notin> set octet \<and> rev (drop 1 (dropWhile (\<lambda>c. c \<noteq> CHR ''.'') (rev s))) = front"
proof -
  obtain front octet where s: "s = front @ CHR ''.'' # octet" "CHR ''.'' \<notin> set octet" using split_list_last [OF assms] by blast
  then have "dropWhile (\<lambda>c. c \<noteq> CHR ''.'') (rev s) = CHR ''.'' # rev front" using drop_to [of "CHR ''.''" "rev octet" "rev front"] by simp
  then show ?thesis using s by auto
qed

lemma mask_value_as:
  assumes m: "mask_value env f v = Inr m"
  shows "masked_as (ascii_lower f) (cn_str env v) m"
proof -
  define s where "s = cn_str env v"
  let ?cards = "{''card_number'', ''card_last_four'', ''phone'', ''phone_number''}"
  note d = m [unfolded mask_value_def Let_def keep_values, folded s_def]
  consider "v = PNone \<or> s = []" | "v \<noteq> PNone" "s \<noteq> []" "ascii_lower f \<in> {''email'', ''email_address''}" "CHR ''@'' \<in> set s"
    | "v \<noteq> PNone" "s \<noteq> []" "\<not> (ascii_lower f \<in> {''email'', ''email_address''} \<and> CHR ''@'' \<in> set s)" by blast
  then have "masked_as (ascii_lower f) s m"
  proof cases
    case 1
    then have "m = ''***''" using d by simp
    then show ?thesis by (simp add: masked_as_def)
  next
    case 2
    then have h: "hd s \<noteq> CHR ''@''" "m = hd (characters s) @ ''***'' @ dropWhile (\<lambda>c. c \<noteq> CHR ''@'') s" using d by (auto split: if_splits)
    from characters_first [OF 2(2) h(1) 2(4)] h(2)
    have "\<exists>x rest domain. s = x @ rest @ ''@'' @ domain \<and> length (characters x) = 1 \<and> CHR ''@'' \<notin> set (x @ rest) \<and> m = x @ ''***@'' @ domain" by fastforce
    then show ?thesis using 2(3) unfolding masked_as_def by blast
  next
    case 3
    then consider "ascii_lower f \<in> ?cards" "4 < length (characters s)" "m = replicate (length (characters s) - 4) CHR ''*'' @ concat (drop (length (characters s) - 4) (characters s))"
      | "ascii_lower f = ''ip_address''" "CHR ''.'' \<in> set s" "m = rev (drop 1 (dropWhile (\<lambda>c. c \<noteq> CHR ''.'') (rev s))) @ ''.***''"
      | "ascii_lower f = ''device_id''" "8 < length (characters s)" "m = concat (take 4 (characters s)) @ ''***'' @ concat (drop (length (characters s) - 4) (characters s))"
      | "m = ''***MASKED***''"
      using d by (simp split: if_splits)
    then show ?thesis
    proof cases
      case 1
      then show ?thesis using masked_tail [OF 1(2)] unfolding masked_as_def by metis
    next
      case 2
      then show ?thesis using masked_octet [OF 2(2)] unfolding masked_as_def by metis
    next
      case 3
      then show ?thesis using masked_middle [OF 3(2)] unfolding masked_as_def by metis
    qed (simp add: masked_as_def)
  qed
  then show ?thesis by (simp add: s_def)
qed

lemma mask_value_tail:
  assumes "ascii_lower f \<in> {''card_number'', ''card_last_four'', ''phone'', ''phone_number''}" "v \<noteq> PNone" "characters (cn_str env v) = cs" "4 < length cs"
  shows "mask_value env f v = Inr (replicate (length cs - 4) CHR ''*'' @ concat (drop (length cs - 4) cs))"
  using assms by (auto simp: mask_value_def Let_def keep_values)

lemma mask_fields_get:
  assumes "mask_fields env pii rec = Inr (d, n)"
  shows "dget d k = (case dget rec k of None \<Rightarrow> None | Some v \<Rightarrow>
     if ascii_lower k \<in> set pii then (case mask_value env k v of Inr s \<Rightarrow> Some (PStr s) | Inl ex \<Rightarrow> None) else Some v)"
  using assms
proof (induction rec arbitrary: d n)
  case (Cons kv rec)
  then show ?case by (cases kv) (auto simp: res_bind_Inr split: if_splits)
qed simp

lemma mask_fields_values:
  assumes "mask_fields env pii rec = Inr (d, n)" "dget rec k = Some v" "ascii_lower k \<in> set pii"
  shows "\<exists>m. mask_value env k v = Inr m"
  using assms
proof (induction rec arbitrary: d n)
  case (Cons kv rec)
  then show ?case by (cases kv) (auto simp: res_bind_Inr split: if_splits)
qed simp

text \<open>
  Claim C24 (masking hides personal data). In a masked record a personal field reads as one of two constant texts, except for these, which may show a part of
  their text instead: a card number, the last four of a card or a telephone number of more than four characters shows its last four, with a star for each of the others; an
  e-mail address its first character and its domain; an address of the network all but what follows its last point; an identifier of a device with more than eight
  characters its first and its last four. A card or telephone number of more than four characters does show its last four. Every other field is unchanged.
\<close>

theorem masked_record_hides:
  assumes "mask_pii env rec c = (Inr d, c')" "dget rec k = Some v"
  shows "(ascii_lower k \<in> set (cl_pii_fields c) \<longrightarrow> (\<exists>m. dget d k = Some (PStr m) \<and> masked_as (ascii_lower k) (cn_str env v) m))
     \<and> (ascii_lower k \<in> set (cl_pii_fields c) \<inter> {''card_number'', ''card_last_four'', ''phone'', ''phone_number''} \<longrightarrow> 4 < length (characters (cn_str env v)) \<longrightarrow> v \<noteq> PNone \<longrightarrow>
          dget d k = Some (PStr (replicate (length (characters (cn_str env v)) - 4) CHR ''*'' @
            concat (drop (length (characters (cn_str env v)) - 4) (characters (cn_str env v))))))
     \<and> (ascii_lower k \<notin> set (cl_pii_fields c) \<longrightarrow> dget d k = Some v)"
proof -
  obtain n where n: "mask_fields env (cl_pii_fields c) rec = Inr (d, n)" using assms(1) by (auto simp: mask_pii_def split: sum.splits)
  note g = mask_fields_get [OF n, of k]
  have "\<exists>m. mask_value env k v = Inr m" if "ascii_lower k \<in> set (cl_pii_fields c)" using mask_fields_values [OF n assms(2)] that by simp
  then show ?thesis
    using g assms(2) mask_value_as [of env k v] mask_value_tail [of k v env] by auto
qed

theorem masked_record_hides_witness:
  "\<exists>d c'. mask_pii clean_demo_env [(''SSN'', PStr ''1''), (''phone'', PStr ''555-1234'')] (new_cleaner 2 [] [] []) = (Inr d, c') \<and> dget d ''phone'' = Some (PStr ''****1234'')"
proof -
  obtain d c' where d: "mask_pii clean_demo_env [(''SSN'', PStr ''1''), (''phone'', PStr ''555-1234'')] (new_cleaner 2 [] [] []) = (Inr d, c')"
  proof -
    have "\<not> isl (mask_fields clean_demo_env default_pii_fields [(''SSN'', PStr ''1''), (''phone'', PStr ''555-1234'')])" by code_simp
    then show ?thesis
      using that by (cases "mask_fields clean_demo_env default_pii_fields [(''SSN'', PStr ''1''), (''phone'', PStr ''555-1234'')]") (auto simp: mask_pii_def new_cleaner_def)
  qed
  have k: "ascii_lower ''phone'' \<in> set (cl_pii_fields (new_cleaner 2 [] [] [])) \<inter> {''card_number'', ''card_last_four'', ''phone'', ''phone_number''}"
    by (simp add: new_cleaner_def default_pii_fields_def ascii_lower_def)
  have s: "characters (cn_str clean_demo_env (PStr ''555-1234'')) = [''5'', ''5'', ''5'', ''-'', ''1'', ''2'', ''3'', ''4'']"
    by (simp add: clean_demo_env_def continues_def)
  have "dget [(''SSN'', PStr ''1''), (''phone'', PStr ''555-1234'')] ''phone'' = Some (PStr ''555-1234'')" by simp
  note m = masked_record_hides [OF d this, THEN conjunct2, THEN conjunct1, rule_format, OF k, unfolded s]
  have "dget d ''phone'' = Some (PStr ''****1234'')" using m by (simp add: numeral_eq_Suc)
  with d show ?thesis by blast
qed

text \<open>
  Remark (an address without local part cannot be masked). When an e-mail field holds a text that begins with the at sign, masking the
  record raises IndexError instead of hiding the field.
\<close>

theorem email_without_local_part_raises:
  assumes "dget rec k = Some v" "ascii_lower k \<in> {''email'', ''email_address''}" "v \<noteq> PNone" "cn_str env v = CHR ''@'' # s" "ascii_lower k \<in> set (cl_pii_fields c)"
  shows "\<exists>ex. mask_pii env rec c = (Inl ex, c)"
proof -
  have m: "mask_value env k v = Inl IndexError" using assms(2-4) by (auto simp: mask_value_def Let_def)
  have "\<nexists>d n. mask_fields env (cl_pii_fields c) rec = Inr (d, n)"
    using assms(1)
  proof (induction rec)
    case (Cons kv rec)
    then show ?case using m assms(5) by (cases kv) (auto simp: res_bind_Inr split: if_splits)
  qed simp
  then show ?thesis by (cases "mask_fields env (cl_pii_fields c) rec") (auto simp: mask_pii_def)
qed

theorem email_without_local_part_raises_witness:
  "\<exists>ex. mask_pii clean_demo_env [(''email'', PStr ''@example.com'')] (new_cleaner 2 [] [] []) = (Inl ex, new_cleaner 2 [] [] [])"
  by (rule email_without_local_part_raises [of _ "''email''" "PStr ''@example.com''"])
    (simp_all add: ascii_lower_def clean_demo_env_def new_cleaner_def default_pii_fields_def)

section \<open>Times\<close>

text \<open>
  Remark (cleaned times read back). When the time stamp of a record is a text that the cleaner can parse, as a time of the years 1000 to 9999, the
  step leaves a text in the canonical format, and reading it in that format gives the same instant, to the second.
\<close>

theorem cleaned_time_reads_back:
  assumes "pget (cs_record st) ''transaction_timestamp'' = PStr s" "s \<noteq> []" "try_parse_date env s = Some t" "days_before_year 1000 * 86400000000 \<le> t" "in_range t"
  shows "\<exists>st' u. parse_dates env st = (Inr (), st') \<and> pget (cs_record st') ''transaction_timestamp'' = PStr u
     \<and> strptime (parse_format ''%Y-%m-%dT%H:%M:%SZ'') u = Some (t - t mod 1000000, None)"
proof -
  have f: "parse_format ''%Y-%m-%dT%H:%M:%SZ'' = iso_format" by (simp add: iso_format_def directive_of_def)
  have "\<exists>st'. parse_dates env st = (Inr (), st') \<and> pget (cs_record st') ''transaction_timestamp'' = PStr (iso_seconds t)"
    using assms(1-3,5) by (auto simp: parse_dates_def Let_def put_def dict_simps)
  then show ?thesis unfolding f using iso_reads_back [OF assms(4,5)] by blast
qed

definition time_demo_state :: clean_state where
  "time_demo_state = \<lparr>cs_record = [(''transaction_timestamp'', PStr ''1700000000'')], cs_changes = [], cs_metrics = new_clean_metrics\<rparr>"

theorem cleaned_time_reads_back_witness:
  "\<exists>st' u. parse_dates clean_demo_env time_demo_state = (Inr (), st') \<and> pget (cs_record st') ''transaction_timestamp'' = PStr u
     \<and> strptime (parse_format ''%Y-%m-%dT%H:%M:%SZ'') u = Some (1700000000000000, None)"
proof -
  have t: "try_parse_date clean_demo_env ''1700000000'' = Some 1700000000000000"
    by (simp add: try_parse_date_def strip_def is_space_def is_digit_def from_epoch_def digit_def num_of_def in_range_def days_before_year_def Let_def)
  have r: "days_before_year 1000 * 86400000000 \<le> 1700000000000000" "in_range 1700000000000000" by code_simp+
  show ?thesis
    using cleaned_time_reads_back [OF _ _ t r, of time_demo_state] by (simp add: time_demo_state_def pget_def dget_or_def)
qed

text \<open>
  Remark (a time object with an offset is mislabelled). When the time stamp of a record is a time object with a UTC offset, its local reading is written
  as if it were UTC: read back, it is off from the instant of the object by the offset.
\<close>

theorem aware_time_mislabelled:
  assumes "pget (cs_record st) ''transaction_timestamp'' = PTime w (Some z)" "days_before_year 1000 * 86400000000 \<le> w" "in_range w"
  shows "\<exists>st' u. parse_dates env st = (Inr (), st') \<and> pget (cs_record st') ''transaction_timestamp'' = PStr u
     \<and> strptime (parse_format ''%Y-%m-%dT%H:%M:%SZ'') u = Some ((w - z) + z - w mod 1000000, None)"
proof -
  have f: "parse_format ''%Y-%m-%dT%H:%M:%SZ'' = iso_format" by (simp add: iso_format_def directive_of_def)
  have "\<exists>st'. parse_dates env st = (Inr (), st') \<and> pget (cs_record st') ''transaction_timestamp'' = PStr (iso_seconds w)"
    using assms(1) by (simp add: parse_dates_def Let_def put_def dict_simps)
  then show ?thesis unfolding f using iso_reads_back [OF assms(2,3)] by fastforce
qed

theorem aware_time_mislabelled_witness:
  "\<exists>st' u. parse_dates clean_demo_env (time_demo_state\<lparr>cs_record := [(''transaction_timestamp'', PTime 7200000000 (Some 7200000000))]\<rparr>) = (Inr (), st')
     \<and> pget (cs_record st') ''transaction_timestamp'' = PStr u \<and> strptime (parse_format ''%Y-%m-%dT%H:%M:%SZ'') u = Some (7200000000, None)"
proof -
  have r: "days_before_year 1000 * 86400000000 \<le> 7200000000" "in_range 7200000000" by code_simp+
  show ?thesis
    using aware_time_mislabelled [OF _ r, of "time_demo_state\<lparr>cs_record := [(''transaction_timestamp'', PTime 7200000000 (Some 7200000000))]\<rparr>"]
    by (simp add: pget_def dget_or_def)
qed

lemma num_of_bound: "\<forall>d \<in> set ds. d < 10 \<Longrightarrow> num_of ds < 10 ^ length ds"
proof (induction ds rule: rev_induct)
  case (snoc d ds)
  then show ?case by (simp add: num_of_snoc)
qed (simp add: num_of_def)

lemma digit_below: "is_digit c \<Longrightarrow> digit c < 10"
  by (auto simp: is_digit_def digit_def)

text \<open>
  Remark (compact dates become times of the early seventies). A time stamp of eight digits, such as year, month and day without separators, is
  taken for seconds since 1970: it is read as a time before 4 March 1973, and the two compact formats of the list are not tried.
\<close>

theorem compact_date_read_as_seconds:
  assumes "length s = 8" "\<forall>c \<in> set s. is_digit c"
  shows "\<exists>t. try_parse_date env s = Some t \<and> 0 \<le> t \<and> t < 100000000 * 1000000"
proof -
  have i: "strip s = s" using assms(2) digit_not_space by (intro strip_id) blast
  let ?n = "num_of (map digit s)"
  have n: "?n < 10 ^ 8" using num_of_bound [of "map digit s"] digit_below assms by auto
  have "in_range (int ?n * 1000000)" using n by (simp add: in_range_def days_before_year_def Let_def)
  then have "from_epoch s = Some (int ?n * 1000000)" using n by (simp add: from_epoch_def Let_def)
  moreover have "s \<noteq> []" using assms(1) by auto
  ultimately show ?thesis using n assms(2) unfolding try_parse_date_def i Let_def by simp
qed

theorem compact_date_read_as_seconds_witness:
  "\<exists>t. try_parse_date clean_demo_env ''20240115'' = Some t \<and> 0 \<le> t \<and> t < 100000000 * 1000000"
  by (rule compact_date_read_as_seconds) (simp_all add: is_digit_def)

section \<open>Amounts\<close>

lemma scan_digits_stop: "\<forall>c \<in> set xs. is_digit c \<Longrightarrow> \<not> is_digit x \<Longrightarrow> x \<noteq> CHR ''_'' \<Longrightarrow> scan_digits p (xs @ x # r) = (map digit xs, x # r)"
  by (induction xs arbitrary: p) simp_all

lemma float_of_decimal:
  assumes "\<forall>c \<in> set a. is_digit c" "\<forall>c \<in> set b. is_digit c" "a \<noteq> []"
  shows "float_of_str (a @ ''.'' @ b) = Some (real (num_of (map digit (a @ b))) / 10 ^ length b)"
proof -
  have s: "strip (a @ ''.'' @ b) = a @ ''.'' @ b" using assms digit_not_space by (intro strip_id) (auto simp: is_space_def)
  have g: "scan_sign (a @ ''.'' @ b) = (1, a @ ''.'' @ b)" using assms digit_not_space by (cases a) auto
  have "scan_digits False (a @ ''.'' @ b) = (map digit a, CHR ''.'' # b)" using scan_digits_stop [OF assms(1), of "CHR ''.''"] by (simp add: is_digit_def)
  then show ?thesis
    using scan_digits_all [OF assms(2)] assms(3) unfolding float_of_str_def s g by (simp add: scan_exponent_def ten_to_def)
qed

lemma drop_signs_id: "\<forall>c \<in> set s. c \<noteq> CHR 0xE2 \<and> c \<noteq> CHR 0xC2 \<and> c \<noteq> CHR ''$'' \<and> \<not> is_space c \<Longrightarrow> drop_signs s = s"
  by (induction s rule: drop_signs.induct) simp_all

lemma drop_signs_plain: "\<forall>c \<in> set s. is_digit c \<or> c = CHR '','' \<Longrightarrow> drop_signs s = s"
  by (rule drop_signs_id) (auto simp: is_digit_def is_space_def)

text \<open>
  Remark (a thousands separator becomes a decimal point). An amount text of digits with one comma, such as 1,234, is read with the comma as
  decimal point: the digits after it count as a fraction, whatever their number.
\<close>

theorem comma_read_as_decimal_point:
  assumes "\<forall>c \<in> set a. is_digit c" "\<forall>c \<in> set b. is_digit c" "a \<noteq> []"
  shows "parse_amount (PStr (a @ '','' @ b)) = Some (py_round 4 (real (num_of (map digit (a @ b))) / 10 ^ length b))"
proof -
  have d: "drop_signs (a @ '','' @ b) = a @ '','' @ b" using assms by (intro drop_signs_plain) auto
  have n: "\<forall>c \<in> set (a @ b). c \<noteq> CHR '','' \<and> c \<noteq> CHR ''.''" using assms by (auto simp: is_digit_def)
  have "split_at CHR '','' (a @ '','' @ b) = a # split_at CHR '','' b" using n split_at_append [of a "CHR '',''" b] by simp
  moreover have "split_at CHR ''.'' a = [a]" using n by (intro split_at_none) auto
  ultimately have e: "\<not> european (a @ '','' @ b)" by (simp add: european_def)
  have r: "replace_char CHR '','' ''.'' xs = xs" if "\<forall>c \<in> set xs. c \<noteq> CHR '',''" for xs using that by (induction xs) (auto simp: replace_char_def)
  have "replace_char CHR '','' ''.'' (a @ '','' @ b) = a @ ''.'' @ b"
    using r [of a] r [of b] n by (simp add: replace_char_def)
  moreover have "CHR ''.'' \<notin> set (a @ '','' @ b)" using n by auto
  ultimately have "plain_notation (a @ '','' @ b) = a @ ''.'' @ b" using e by (simp add: plain_notation_def)
  then show ?thesis using float_of_decimal [OF assms] d by (simp add: parse_amount_def)
qed

theorem comma_read_as_decimal_point_witness: "parse_amount (PStr ''1,234'') = Some (py_round 4 (1234 / 1000))"
  using comma_read_as_decimal_point [of "''1''" "''234''"] by (simp add: is_digit_def num_of_def digit_def)

end
