(* ===== verification/Normalizer.thy ===== *)
theory Normalizer
  imports Py_Text
begin

text \<open>
  The data normalizer of \<^verbatim>\<open>src/transformation/normalizer.py\<close>: loading and reloading of the mapping tables, and the
  normalization of a record. The clock, the mappings file, the YAML parser, SHA-256 and \<^verbatim>\<open>str\<close> are bundled in
  \<open>norm_env\<close>. The tables map texts to texts; another type is a TypeError here.
\<close>

record norm_env =
  nn_clock :: seconds
  nn_file :: "string option"
  nn_yaml :: "string \<Rightarrow> pyval option"
  nn_sha :: "string \<Rightarrow> string"
  nn_str :: "pyval \<Rightarrow> string"

section \<open>Metrics, results, tables\<close>

record norm_metrics =
  nm_records_processed :: int
  nm_countries_normalized :: int
  nm_mcc_mapped :: int
  nm_types_normalized :: int
  nm_channels_normalized :: int
  nm_card_types_normalized :: int
  nm_currencies_standardized :: int
  nm_amounts_converted :: int
  nm_unknown_mappings :: int

definition new_norm_metrics :: norm_metrics where
  "new_norm_metrics =
     \<lparr>nm_records_processed = 0, nm_countries_normalized = 0, nm_mcc_mapped = 0, nm_types_normalized = 0, nm_channels_normalized = 0,
      nm_card_types_normalized = 0, nm_currencies_standardized = 0, nm_amounts_converted = 0, nm_unknown_mappings = 0\<rparr>"

record norm_result =
  nr_record :: "(string, pyval) dict"
  nr_changes :: "string list"
  nr_amount_usd :: "real option"
  nr_original_currency :: pyval
  nr_mcc_category :: "string option"

type_synonym alias_table = "(string, string) dict"

record normalizer =
  no_config_hash :: string
  no_last_load_time :: seconds
  no_exchange_rates :: "(string, real) dict"
  no_base_currency :: string
  no_country_codes :: alias_table
  no_mcc_categories :: alias_table
  no_type_aliases :: alias_table
  no_channel_aliases :: alias_table
  no_card_aliases :: alias_table
  no_currency_aliases :: alias_table
  no_pii_fields :: pyval
  no_metrics :: norm_metrics

definition empty_normalizer :: normalizer where
  "empty_normalizer =
     \<lparr>no_config_hash = [], no_last_load_time = 0, no_exchange_rates = [], no_base_currency = ''USD'', no_country_codes = [], no_mcc_categories = [],
      no_type_aliases = [], no_channel_aliases = [], no_card_aliases = [], no_currency_aliases = [], no_pii_fields = PList [], no_metrics = new_norm_metrics\<rparr>"

section \<open>Loading\<close>

definition items_of :: "pyval \<Rightarrow> (string, pyval) dict res" where
  "items_of v = (case v of PDict d \<Rightarrow> Inr d | _ \<Rightarrow> Inl AttributeError)"

fun rates_of :: "(string, pyval) dict \<Rightarrow> (string, real) dict \<Rightarrow> (string, real) dict res" where
  "rates_of [] t = Inr t"
| "rates_of ((k, v) # d) t = res_bind (to_float v) (\<lambda>x. rates_of d (dset (ascii_upper k) x t))"

fun table_of :: "(string \<Rightarrow> string) \<Rightarrow> (string, pyval) dict \<Rightarrow> alias_table \<Rightarrow> alias_table res" where
  "table_of f [] t = Inr t"
| "table_of f ((k, v) # d) t = res_bind (as_str v) (\<lambda>s. table_of f d (dset (f k) s t))"

definition folded_key :: "string \<Rightarrow> string" where
  "folded_key k = strip (ascii_lower k)"

text \<open>One assignment of the load: what follows an exception is not done, what came before it stays.\<close>

definition assign :: "'a res \<Rightarrow> ('a \<Rightarrow> 's \<Rightarrow> 's) \<Rightarrow> unit res \<times> 's \<Rightarrow> unit res \<times> 's" where
  "assign x f st = (case st of (Inl ex, s) \<Rightarrow> (Inl ex, s) | (Inr _, s) \<Rightarrow> (case x of Inl ex \<Rightarrow> (Inl ex, s) | Inr a \<Rightarrow> (Inr (), f a s)))"

definition section_table :: "(string \<Rightarrow> string) \<Rightarrow> (string, pyval) dict \<Rightarrow> string \<Rightarrow> alias_table res" where
  "section_table f data key = res_bind (items_of (dget_or data key (PDict []))) (\<lambda>d. table_of f d [])"

definition store_mappings :: "norm_env \<Rightarrow> string \<Rightarrow> (string, pyval) dict \<Rightarrow> normalizer \<Rightarrow> unit res \<times> normalizer" where
  "store_mappings env config_hash data n =
     (let exchange = items_of (dget_or data ''exchange_rates'' (PDict []))
      in assign (Inr ()) (\<lambda>_ n. n\<lparr>no_pii_fields := dget_or data ''pii_fields'' (PList []), no_config_hash := config_hash, no_last_load_time := nn_clock env\<rparr>)
        (assign (section_table folded_key data ''currency_aliases'') (\<lambda>t n. n\<lparr>no_currency_aliases := t\<rparr>)
        (assign (section_table folded_key data ''card_type_aliases'') (\<lambda>t n. n\<lparr>no_card_aliases := t\<rparr>)
        (assign (section_table folded_key data ''channel_aliases'') (\<lambda>t n. n\<lparr>no_channel_aliases := t\<rparr>)
        (assign (section_table folded_key data ''transaction_type_aliases'') (\<lambda>t n. n\<lparr>no_type_aliases := t\<rparr>)
        (assign (section_table (\<lambda>k. k) data ''mcc_categories'') (\<lambda>t n. n\<lparr>no_mcc_categories := t\<rparr>)
        (assign (section_table folded_key data ''country_codes'') (\<lambda>t n. n\<lparr>no_country_codes := t\<rparr>)
        (assign (res_bind exchange (\<lambda>x. res_bind (items_of (dget_or x ''rates'' (PDict []))) (\<lambda>d. rates_of d []))) (\<lambda>t n. n\<lparr>no_exchange_rates := t\<rparr>)
        (assign (res_bind exchange (\<lambda>x. as_str (dget_or x ''base_currency'' (PStr ''USD'')))) (\<lambda>b n. n\<lparr>no_base_currency := b\<rparr>) (Inr (), n))))))))))"

definition load_mappings :: "norm_env \<Rightarrow> normalizer \<Rightarrow> unit res \<times> normalizer" where
  "load_mappings env n =
     (case nn_file env of
        None \<Rightarrow> (Inl FileNotFoundError, n)
      | Some content \<Rightarrow>
          if nn_sha env content = no_config_hash n then (Inr (), n)
          else (case nn_yaml env content of
                  None \<Rightarrow> (Inl YAMLError, n)
                | Some data \<Rightarrow>
                    if \<not> py_bool data then (Inr (), n)
                    else (case data of PDict d \<Rightarrow> store_mappings env (nn_sha env content) d n | _ \<Rightarrow> (Inl AttributeError, n))))"

definition new_normalizer :: "norm_env \<Rightarrow> normalizer res" where
  "new_normalizer env = (case load_mappings env empty_normalizer of (Inl ex, n) \<Rightarrow> Inl ex | (Inr _, n) \<Rightarrow> Inr n)"

definition normalizer_reload_if_needed :: "norm_env \<Rightarrow> normalizer \<Rightarrow> bool \<times> normalizer" where
  "normalizer_reload_if_needed env n =
     (if nn_clock env - no_last_load_time n < 30 then (False, n)
      else (case load_mappings env n of (Inl ex, n1) \<Rightarrow> (False, n1) | (Inr _, n1) \<Rightarrow> (True, n1)))"

definition normalizer_force_reload :: "norm_env \<Rightarrow> normalizer \<Rightarrow> unit res \<times> normalizer" where
  "normalizer_force_reload env n = load_mappings env (n\<lparr>no_config_hash := []\<rparr>)"

section \<open>Steps\<close>

record norm_state =
  ns_record :: "(string, pyval) dict"
  ns_changes :: "string list"
  ns_metrics :: norm_metrics

definition change :: "string \<Rightarrow> string \<Rightarrow> string \<Rightarrow> (norm_metrics \<Rightarrow> norm_metrics) \<Rightarrow> norm_state \<Rightarrow> norm_state" where
  "change key value text count st =
     st\<lparr>ns_record := dset key (PStr value) (ns_record st), ns_changes := ns_changes st @ [text], ns_metrics := count (ns_metrics st)\<rparr>"

definition arrow :: "string \<Rightarrow> string \<Rightarrow> string \<Rightarrow> string" where
  "arrow tag a b = tag @ '':'' @ a @ ''->'' @ b"

definition normalize_currency_code :: "norm_env \<Rightarrow> normalizer \<Rightarrow> norm_state \<Rightarrow> norm_state" where
  "normalize_currency_code env n st =
     (let raw = pget (ns_record st) ''transaction_currency''; raw_str = strip (nn_str env raw);
          count = (\<lambda>m. m\<lparr>nm_currencies_standardized := nm_currencies_standardized m + 1\<rparr>)
      in if raw = PNone then st
         else (case dget_or (no_currency_aliases n) (ascii_lower raw_str) [] of
                 [] \<Rightarrow> if ascii_upper raw_str \<noteq> raw_str
                       then change ''transaction_currency'' (ascii_upper raw_str) (arrow ''currency_uppercased'' raw_str (ascii_upper raw_str)) count st else st
               | c # cs \<Rightarrow> if c # cs \<noteq> raw_str then change ''transaction_currency'' (c # cs) (arrow ''currency_alias'' raw_str (c # cs)) count st else st))"

text \<open>The amount in US dollars; a currency that is no text raises.\<close>

definition convert_to_usd :: "normalizer \<Rightarrow> norm_state \<Rightarrow> real option res \<times> norm_state" where
  "convert_to_usd n st =
     (let currency = dget_or (ns_record st) ''transaction_currency'' (PStr ''USD''); m = ns_metrics st
      in case to_float (pget (ns_record st) ''transaction_amount'') of
           Inl ex \<Rightarrow> (Inr None, st)
         | Inr amount \<Rightarrow>
             if currency = PStr (no_base_currency n) then (Inr (Some (py_round 4 amount)), st)
             else (case currency of
                     PStr c \<Rightarrow>
                       (case dget (no_exchange_rates n) (ascii_upper c) of
                          None \<Rightarrow> (Inr None, st\<lparr>ns_metrics := m\<lparr>nm_unknown_mappings := nm_unknown_mappings m + 1\<rparr>\<rparr>)
                        | Some rate \<Rightarrow> (Inr (Some (py_round 4 (amount * rate))), st\<lparr>ns_metrics := m\<lparr>nm_amounts_converted := nm_amounts_converted m + 1\<rparr>\<rparr>))
                   | _ \<Rightarrow> (Inl AttributeError, st)))"

definition is_alpha :: "char \<Rightarrow> bool" where
  "is_alpha c = (let n = of_char c :: nat in (65 \<le> n \<and> n \<le> 90) \<or> (97 \<le> n \<and> n \<le> 122))"

definition normalize_country :: "norm_env \<Rightarrow> normalizer \<Rightarrow> norm_state \<Rightarrow> norm_state" where
  "normalize_country env n st =
     (let raw = pget (ns_record st) ''geo_country''; raw_str = strip (nn_str env raw); key = ''geo_country'';
          count = (\<lambda>m. m\<lparr>nm_countries_normalized := nm_countries_normalized m + 1\<rparr>); codes = no_country_codes n;
          alias_mapped = dget_or codes (ascii_lower raw_str) []; mapped_upper = dget_or codes (ascii_upper raw_str) []
      in if raw = PNone then st
         else if alias_mapped \<noteq> []
         then (if alias_mapped \<noteq> raw_str then change key alias_mapped (arrow ''country_normalized'' raw_str alias_mapped) count st else st)
         else if length raw_str = 2 \<and> (\<forall>c \<in> set raw_str. is_alpha c)
         then (if ascii_upper raw_str \<noteq> raw_str then change key (ascii_upper raw_str) (arrow ''country_uppercased'' raw_str (ascii_upper raw_str)) count st else st)
         else if mapped_upper \<noteq> [] then change key mapped_upper (arrow ''country_alpha3_to_alpha2'' raw_str mapped_upper) count st
         else if 2 < text_length raw_str
         then st\<lparr>ns_metrics := (ns_metrics st)\<lparr>nm_unknown_mappings := nm_unknown_mappings (ns_metrics st) + 1\<rparr>\<rparr>
         else st)"

definition mcc_number :: "string \<Rightarrow> int option" where
  "mcc_number s = (if s \<noteq> [] \<and> (\<forall>c \<in> set s. is_digit c) then Some (int (num_of (map digit s))) else None)"

definition mcc_in :: "int \<Rightarrow> int \<Rightarrow> string \<Rightarrow> bool" where
  "mcc_in lo hi s = (case mcc_number s of None \<Rightarrow> False | Some k \<Rightarrow> lo \<le> k \<and> k \<le> hi)"

definition find_mcc :: "normalizer \<Rightarrow> string \<Rightarrow> string option" where
  "find_mcc n mcc_str =
     (let t = no_mcc_categories n; named = (\<lambda>k. dget_or t k [])
      in if named mcc_str \<noteq> [] then Some (named mcc_str)
         else if mcc_in 3000 3999 mcc_str \<and> named ''3000'' \<noteq> [] then Some (named ''3000'')
         else if mcc_in 3500 3999 mcc_str \<and> named ''3500'' \<noteq> [] then Some (named ''3500'')
         else None)"

definition map_mcc :: "norm_env \<Rightarrow> normalizer \<Rightarrow> norm_state \<Rightarrow> string option \<times> norm_state" where
  "map_mcc env n st =
     (let mcc = pget (ns_record st) ''merchant_category_code''; m = ns_metrics st
      in if mcc = PNone then (None, st)
         else (case find_mcc n (strip (nn_str env mcc)) of
                 None \<Rightarrow> (None, st)
               | Some c \<Rightarrow> (Some c, st\<lparr>ns_metrics := m\<lparr>nm_mcc_mapped := nm_mcc_mapped m + 1\<rparr>\<rparr>)))"

text \<open>The three steps for transaction type, channel and card type have the same body.\<close>

definition alias_step ::
  "norm_env \<Rightarrow> string \<Rightarrow> alias_table \<Rightarrow> string list \<Rightarrow> string \<Rightarrow> (norm_metrics \<Rightarrow> norm_metrics) \<Rightarrow> norm_state \<Rightarrow> norm_state" where
  "alias_step env key t known tag count st =
     (let raw = pget (ns_record st) key; raw_str = ascii_lower (strip (nn_str env raw))
      in if raw = PNone then st
         else (case dget t raw_str of
                 Some canonical \<Rightarrow>
                   if canonical \<noteq> [] \<and> canonical \<noteq> raw_str then change key canonical (arrow tag (nn_str env raw) canonical) count st else st
               | None \<Rightarrow>
                   if raw_str \<notin> set known
                   then st\<lparr>ns_metrics := (ns_metrics st)\<lparr>nm_unknown_mappings := nm_unknown_mappings (ns_metrics st) + 1\<rparr>\<rparr> else st))"

definition normalize_transaction_type :: "norm_env \<Rightarrow> normalizer \<Rightarrow> norm_state \<Rightarrow> norm_state" where
  "normalize_transaction_type env n =
     alias_step env ''transaction_type'' (no_type_aliases n) [''purchase'', ''withdrawal'', ''transfer'', ''refund''] ''txn_type_normalized''
       (\<lambda>m. m\<lparr>nm_types_normalized := nm_types_normalized m + 1\<rparr>)"

definition normalize_channel :: "norm_env \<Rightarrow> normalizer \<Rightarrow> norm_state \<Rightarrow> norm_state" where
  "normalize_channel env n =
     alias_step env ''channel'' (no_channel_aliases n) [''online'', ''pos'', ''atm'', ''mobile''] ''channel_normalized''
       (\<lambda>m. m\<lparr>nm_channels_normalized := nm_channels_normalized m + 1\<rparr>)"

definition normalize_card_type :: "norm_env \<Rightarrow> normalizer \<Rightarrow> norm_state \<Rightarrow> norm_state" where
  "normalize_card_type env n =
     alias_step env ''card_type'' (no_card_aliases n) [''credit'', ''debit'', ''prepaid''] ''card_type_normalized''
       (\<lambda>m. m\<lparr>nm_card_types_normalized := nm_card_types_normalized m + 1\<rparr>)"

section \<open>Operations\<close>

definition normalize :: "norm_env \<Rightarrow> (string, pyval) dict \<Rightarrow> normalizer \<Rightarrow> norm_result res \<times> normalizer" where
  "normalize env rec n0 =
     (let n = snd (normalizer_reload_if_needed env n0);
          st1 = normalize_currency_code env n \<lparr>ns_record = rec, ns_changes = [], ns_metrics = no_metrics n\<rparr>;
          original = dget_or (ns_record st1) ''transaction_currency'' (PStr ''USD'')
      in case convert_to_usd n st1 of
           (Inl ex, st2) \<Rightarrow> (Inl ex, n\<lparr>no_metrics := ns_metrics st2\<rparr>)
         | (Inr usd, st2) \<Rightarrow>
             (let st3 = (case usd of
                           None \<Rightarrow> st2
                         | Some x \<Rightarrow>
                             st2\<lparr>ns_record := dset ''transaction_amount_usd'' (PFloat x) (ns_record st2),
                                 ns_changes := ns_changes st2 @ (if original \<noteq> PStr (no_base_currency n) then [arrow ''amount_converted'' (nn_str env original) ''USD''] else [])\<rparr>);
                  (category, st4) = map_mcc env n (normalize_country env n st3);
                  st5 = (case category of None \<Rightarrow> st4 | Some c \<Rightarrow> st4\<lparr>ns_record := dset ''mcc_category'' (PStr c) (ns_record st4)\<rparr>);
                  st6 = normalize_card_type env n (normalize_channel env n (normalize_transaction_type env n st5)); m = ns_metrics st6
              in (Inr \<lparr>nr_record = ns_record st6, nr_changes = ns_changes st6, nr_amount_usd = usd, nr_original_currency = original, nr_mcc_category = category\<rparr>,
                  n\<lparr>no_metrics := m\<lparr>nm_records_processed := nm_records_processed m + 1\<rparr>\<rparr>)))"

fun normalize_batch :: "norm_env \<Rightarrow> (string, pyval) dict list \<Rightarrow> normalizer \<Rightarrow> norm_result list res \<times> normalizer" where
  "normalize_batch env [] n = (Inr [], n)"
| "normalize_batch env (rec # recs) n =
     (case normalize env rec n of
        (Inl ex, n1) \<Rightarrow> (Inl ex, n1)
      | (Inr r, n1) \<Rightarrow> (let (rs, n2) = normalize_batch env recs n1 in (res_bind rs (\<lambda>xs. Inr (r # xs)), n2)))"

text \<open>A rate of zero for the target currency raises.\<close>

definition convert_currency :: "real \<Rightarrow> string \<Rightarrow> string \<Rightarrow> normalizer \<Rightarrow> real option res" where
  "convert_currency amount from_currency to_currency n =
     (let f = ascii_upper from_currency; t = ascii_upper to_currency
      in if f = t then Inr (Some (py_round 4 amount))
         else (case (dget (no_exchange_rates n) f, dget (no_exchange_rates n) t) of
                 (Some from_rate, Some to_rate) \<Rightarrow>
                   if to_rate = 0 then Inl ZeroDivisionError else Inr (Some (py_round 4 (amount * from_rate / to_rate)))
               | _ \<Rightarrow> Inr None))"

definition get_mcc_category :: "string \<Rightarrow> normalizer \<Rightarrow> string option" where
  "get_mcc_category mcc_code n = dget (no_mcc_categories n) mcc_code"

definition get_exchange_rate :: "string \<Rightarrow> normalizer \<Rightarrow> real option" where
  "get_exchange_rate currency n = dget (no_exchange_rates n) (ascii_upper currency)"

end
