(* ===== verification/Normalizer_Properties.thy ===== *)
theory Normalizer_Properties
  imports Normalizer
begin

text \<open>
  Normalizing a normalized record changes nothing; the two ways to convert a currency agree; a reload that fails half way leaves the
  tables of two files mixed; and the codes of car rentals are taken for airlines.
\<close>

declare map_of_eq_Some_iff [simp del] Some_eq_map_of_iff [simp del]

section \<open>Letter case\<close>

lemma char_cases:
  "ascii_lower [c] = [if 65 \<le> (of_char c :: nat) \<and> (of_char c :: nat) \<le> 90 then char_of ((of_char c :: nat) + 32) else c]"
  "ascii_upper [c] = [if 97 \<le> (of_char c :: nat) \<and> (of_char c :: nat) \<le> 122 then char_of ((of_char c :: nat) - 32) else c]"
  by (simp_all add: ascii_lower_def ascii_upper_def Let_def)

definition lower_char :: "char \<Rightarrow> char" where
  "lower_char c = (let n = (of_char c :: nat) in if 65 \<le> n \<and> n \<le> 90 then char_of (n + 32) else c)"

definition upper_char :: "char \<Rightarrow> char" where
  "upper_char c = (let n = (of_char c :: nat) in if 97 \<le> n \<and> n \<le> 122 then char_of (n - 32) else c)"

lemma case_maps: "ascii_lower = map lower_char" "ascii_upper = map upper_char"
  by (simp_all add: fun_eq_iff ascii_lower_def ascii_upper_def lower_char_def upper_char_def)

lemma of_lower: "(of_char (lower_char c) :: nat) = (if 65 \<le> (of_char c :: nat) \<and> (of_char c :: nat) \<le> 90 then of_char c + 32 else of_char c)"
  by (auto simp: lower_char_def Let_def)

lemma of_upper: "(of_char (upper_char c) :: nat) = (if 97 \<le> (of_char c :: nat) \<and> (of_char c :: nat) \<le> 122 then of_char c - 32 else of_char c)"
  by (auto simp: upper_char_def Let_def)

lemma char_eqI: "(of_char c :: nat) = of_char d \<Longrightarrow> c = d"
  by (metis char_of_char)

lemma char_case_simps [simp]:
  "lower_char (lower_char c) = lower_char c" "upper_char (upper_char c) = upper_char c" "lower_char (upper_char c) = lower_char c"
  by (rule char_eqI; auto simp: of_lower of_upper)+

lemma case_simps [simp]:
  "ascii_lower (ascii_lower s) = ascii_lower s" "ascii_upper (ascii_upper s) = ascii_upper s" "ascii_lower (ascii_upper s) = ascii_lower s"
  by (simp_all add: case_maps)

lemma is_space_case [simp]: "is_space (upper_char c) = is_space c" "is_space (lower_char c) = is_space c"
  unfolding is_space_def Let_def of_upper of_lower by auto

lemma strip_map: "(\<And>c. is_space (f c) = is_space c) \<Longrightarrow> strip (map f s) = map f (strip s)"
  by (simp add: strip_def dropWhile_map rev_map o_def)

lemma strip_case: "strip (ascii_upper s) = ascii_upper (strip s)" "strip (ascii_lower s) = ascii_lower (strip s)"
  by (simp_all add: case_maps strip_map)

lemma strip_strip [simp]: "strip (strip s) = strip s"
proof -
  define u where "u = dropWhile is_space s"
  define t where "t = rev (dropWhile is_space (rev u))"
  have s: "strip s = t" by (simp add: strip_def u_def t_def)
  have "rev u = takeWhile is_space (rev u) @ rev t" by (simp add: t_def)
  then have "u = t @ rev (takeWhile is_space (rev u))" by (metis rev_append rev_rev_ident)
  moreover have "u = [] \<or> \<not> is_space (hd u)" unfolding u_def using hd_dropWhile by blast
  ultimately have "t = [] \<or> \<not> is_space (hd t)" by (metis hd_append2 append_is_Nil_conv)
  then have a: "dropWhile is_space t = t" by (auto simp: dropWhile_eq_self_iff)
  have "rev t = [] \<or> \<not> is_space (hd (rev t))" unfolding t_def using hd_dropWhile [of is_space "rev u"] by auto
  then have "dropWhile is_space (rev t) = rev t" by (auto simp: dropWhile_eq_self_iff)
  then show ?thesis unfolding s by (simp add: strip_def a)
qed

section \<open>The record a normalization leaves\<close>

definition upd :: "string \<Rightarrow> pyval \<Rightarrow> (string, pyval) dict \<Rightarrow> (string, pyval) dict" where
  "upd k v rec = (if pget rec k = v then rec else dset k v rec)"

lemma pget_upd [simp]: "pget (upd k v rec) j = (if j = k then v else pget rec j)"
  by (simp add: upd_def pget_def dict_simps)

lemma dget_or_upd: "j \<noteq> k \<Longrightarrow> dget_or (upd k v rec) j x = dget_or rec j x"
  by (simp add: upd_def dict_simps)

lemma dset_same: "dget rec k = Some v \<Longrightarrow> dset k v rec = rec"
  by (induction rec) auto

lemma upd_text [simp]: "upd k (PStr s) rec = dset k (PStr s) rec"
proof (cases "pget rec k = PStr s")
  case True
  then have "dget rec k = Some (PStr s)" by (simp add: pget_def dget_or_def split: option.splits)
  then show ?thesis using True by (simp add: upd_def dset_same)
qed (simp add: upd_def)

lemma upd_same [simp]: "upd k (pget rec k) rec = rec"
  by (simp add: upd_def)

lemma upd_none: "pget rec k = PNone \<Longrightarrow> upd k PNone rec = rec"
  by (simp add: upd_def)

lemma dget_upd: "j \<noteq> k \<Longrightarrow> dget (upd k v rec) j = dget rec j"
  by (simp add: upd_def dict_simps)

definition alias_value :: "norm_env \<Rightarrow> alias_table \<Rightarrow> pyval \<Rightarrow> pyval" where
  "alias_value env t raw =
     (let raw_str = ascii_lower (strip (nn_str env raw)); c = dget_or t raw_str []
      in if raw = PNone \<or> c = [] \<or> c = raw_str then raw else PStr c)"

definition currency_value :: "norm_env \<Rightarrow> normalizer \<Rightarrow> pyval \<Rightarrow> pyval" where
  "currency_value env n raw =
     (let raw_str = strip (nn_str env raw); c = dget_or (no_currency_aliases n) (ascii_lower raw_str) []; u = (if c = [] then ascii_upper raw_str else c)
      in if raw = PNone \<or> u = raw_str then raw else PStr u)"

definition country_value :: "norm_env \<Rightarrow> normalizer \<Rightarrow> pyval \<Rightarrow> pyval" where
  "country_value env n raw =
     (let raw_str = strip (nn_str env raw); c = dget_or (no_country_codes n) (ascii_lower raw_str) []; u = dget_or (no_country_codes n) (ascii_upper raw_str) []
      in if raw = PNone then raw
         else if c \<noteq> [] then (if c = raw_str then raw else PStr c)
         else if length raw_str = 2 \<and> (\<forall>x \<in> set raw_str. is_alpha x) then (if ascii_upper raw_str = raw_str then raw else PStr (ascii_upper raw_str))
         else if u \<noteq> [] then PStr u else raw)"

definition usd_value :: "normalizer \<Rightarrow> pyval \<Rightarrow> pyval \<Rightarrow> real option res" where
  "usd_value n currency amount =
     (case to_float amount of
        Inl ex \<Rightarrow> Inr None
      | Inr x \<Rightarrow>
          if currency = PStr (no_base_currency n) then Inr (Some (py_round 4 x))
          else (case currency of
                  PStr c \<Rightarrow> Inr (map_option (\<lambda>rate. py_round 4 (x * rate)) (dget (no_exchange_rates n) (ascii_upper c)))
                | _ \<Rightarrow> Inl AttributeError))"

definition mcc_value :: "norm_env \<Rightarrow> normalizer \<Rightarrow> pyval \<Rightarrow> string option" where
  "mcc_value env n mcc = (if mcc = PNone then None else find_mcc n (strip (nn_str env mcc)))"

lemma alias_record: "ns_record (alias_step env key t known tag count st) = upd key (alias_value env t (pget (ns_record st) key)) (ns_record st)"
  by (auto simp: alias_step_def alias_value_def upd_none change_def Let_def dget_or_def split: option.splits)

lemma currency_record: "ns_record (normalize_currency_code env n st) = upd ''transaction_currency'' (currency_value env n (pget (ns_record st) ''transaction_currency'')) (ns_record st)"
  by (auto simp: normalize_currency_code_def currency_value_def upd_none change_def Let_def split: list.splits)

lemma country_record: "ns_record (normalize_country env n st) = upd ''geo_country'' (country_value env n (pget (ns_record st) ''geo_country'')) (ns_record st)"
  by (auto simp: normalize_country_def country_value_def upd_none change_def Let_def)

lemma usd_record:
  "fst (convert_to_usd n st) = usd_value n (dget_or (ns_record st) ''transaction_currency'' (PStr ''USD'')) (pget (ns_record st) ''transaction_amount'')"
  "ns_record (snd (convert_to_usd n st)) = ns_record st"
  by (auto simp: convert_to_usd_def usd_value_def Let_def split: sum.splits pyval.splits option.splits)

lemma mcc_record:
  "fst (map_mcc env n st) = mcc_value env n (pget (ns_record st) ''merchant_category_code'')" "ns_record (snd (map_mcc env n st)) = ns_record st"
  by (auto simp: map_mcc_def mcc_value_def Let_def split: option.splits)

text \<open>All steps on the record.\<close>

definition tail_form :: "norm_env \<Rightarrow> normalizer \<Rightarrow> real option \<Rightarrow> (string, pyval) dict \<Rightarrow> (string, pyval) dict" where
  "tail_form env n usd r1 =
     (let r2 = (case usd of None \<Rightarrow> r1 | Some x \<Rightarrow> dset ''transaction_amount_usd'' (PFloat x) r1);
          r3 = upd ''geo_country'' (country_value env n (pget r2 ''geo_country'')) r2;
          r4 = (case mcc_value env n (pget r3 ''merchant_category_code'') of None \<Rightarrow> r3 | Some c \<Rightarrow> dset ''mcc_category'' (PStr c) r3);
          r5 = upd ''transaction_type'' (alias_value env (no_type_aliases n) (pget r4 ''transaction_type'')) r4;
          r6 = upd ''channel'' (alias_value env (no_channel_aliases n) (pget r5 ''channel'')) r5
      in upd ''card_type'' (alias_value env (no_card_aliases n) (pget r6 ''card_type'')) r6)"

definition head_form :: "norm_env \<Rightarrow> normalizer \<Rightarrow> (string, pyval) dict \<Rightarrow> (string, pyval) dict" where
  "head_form env n rec = upd ''transaction_currency'' (currency_value env n (pget rec ''transaction_currency'')) rec"

definition record_usd :: "normalizer \<Rightarrow> (string, pyval) dict \<Rightarrow> real option res" where
  "record_usd n r1 = usd_value n (dget_or r1 ''transaction_currency'' (PStr ''USD'')) (pget r1 ''transaction_amount'')"

lemma tail_record:
  fixes st :: norm_state
  assumes "ns_record st3 = (case usd of None \<Rightarrow> r1 | Some x \<Rightarrow> dset ''transaction_amount_usd'' (PFloat x) r1)"
    and "map_mcc env n (normalize_country env n st3) = (category, st4)"
    and "ns_record st5 = (case category of None \<Rightarrow> ns_record st4 | Some c \<Rightarrow> dset ''mcc_category'' (PStr c) (ns_record st4))"
  shows "ns_record (normalize_card_type env n (normalize_channel env n (normalize_transaction_type env n st5))) = tail_form env n usd r1"
proof -
  define r3 where "r3 = upd ''geo_country'' (country_value env n (pget (ns_record st3) ''geo_country'')) (ns_record st3)"
  have "category = mcc_value env n (pget r3 ''merchant_category_code'')" "ns_record st4 = r3"
    using mcc_record [of env n "normalize_country env n st3"] assms(2) unfolding r3_def by (simp_all only: country_record fst_conv snd_conv)
  then have "ns_record st5 = (case mcc_value env n (pget r3 ''merchant_category_code'') of None \<Rightarrow> r3 | Some c \<Rightarrow> dset ''mcc_category'' (PStr c) r3)"
    using assms(3) by (simp split: option.splits)
  then show ?thesis
    unfolding normalize_card_type_def normalize_channel_def normalize_transaction_type_def alias_record tail_form_def Let_def assms(1) [symmetric] r3_def [symmetric]
    by (simp only:)
qed

lemma normalize_form:
  assumes "nn_clock env - no_last_load_time n < 30"
  shows "case record_usd n (head_form env n rec) of
           Inl ex \<Rightarrow> fst (normalize env rec n) = Inl ex
         | Inr usd \<Rightarrow> \<exists>r. fst (normalize env rec n) = Inr r \<and> nr_amount_usd r = usd \<and> nr_record r = tail_form env n usd (head_form env n rec)"
      "\<exists>m. snd (normalize env rec n) = n\<lparr>no_metrics := m\<rparr>"
proof -
  have r: "normalizer_reload_if_needed env n = (False, n)" using assms by (simp add: normalizer_reload_if_needed_def)
  define st1 where "st1 = normalize_currency_code env n \<lparr>ns_record = rec, ns_changes = [], ns_metrics = no_metrics n\<rparr>"
  have s1: "ns_record st1 = head_form env n rec" by (simp add: st1_def head_form_def currency_record)
  obtain a st2 where c: "convert_to_usd n st1 = (a, st2)" by fastforce
  have u: "a = record_usd n (head_form env n rec)" "ns_record st2 = head_form env n rec"
    using usd_record [of n st1] by (simp_all add: c s1 record_usd_def)
  show "case record_usd n (head_form env n rec) of
           Inl ex \<Rightarrow> fst (normalize env rec n) = Inl ex
         | Inr usd \<Rightarrow> \<exists>r. fst (normalize env rec n) = Inr r \<and> nr_amount_usd r = usd \<and> nr_record r = tail_form env n usd (head_form env n rec)"
  proof (cases a)
    case (Inl ex)
    then show ?thesis
      unfolding u(1) [symmetric] normalize_def r snd_conv Let_def st1_def [symmetric] c prod.case by simp
  next
    case (Inr usd)
    define original where "original = dget_or (ns_record st1) ''transaction_currency'' (PStr ''USD'')"
    define st3 where "st3 = (case usd of
        None \<Rightarrow> st2
      | Some x \<Rightarrow> st2\<lparr>ns_record := dset ''transaction_amount_usd'' (PFloat x) (ns_record st2),
          ns_changes := ns_changes st2 @ (if original \<noteq> PStr (no_base_currency n) then [arrow ''amount_converted'' (nn_str env original) ''USD''] else [])\<rparr>)"
    obtain category st4 where m: "map_mcc env n (normalize_country env n st3) = (category, st4)" by fastforce
    have s3: "ns_record st3 = (case usd of None \<Rightarrow> head_form env n rec | Some x \<Rightarrow> dset ''transaction_amount_usd'' (PFloat x) (head_form env n rec))"
      by (simp add: st3_def u(2) split: option.splits)
    have "ns_record (normalize_card_type env n (normalize_channel env n (normalize_transaction_type env n
            (case category of None \<Rightarrow> st4 | Some c \<Rightarrow> st4\<lparr>ns_record := dset ''mcc_category'' (PStr c) (ns_record st4)\<rparr>)))) = tail_form env n usd (head_form env n rec)"
      by (rule tail_record [OF s3 m]) (simp split: option.splits)
    then show ?thesis
      unfolding u(1) [symmetric] normalize_def r snd_conv Let_def st1_def [symmetric] c prod.case original_def [symmetric] Inr sum.case st3_def [symmetric] m by simp
  qed
  show "\<exists>m. snd (normalize env rec n) = n\<lparr>no_metrics := m\<rparr>"
    unfolding normalize_def r Let_def snd_conv st1_def [symmetric] c prod.case by (cases a) (auto simp: case_prod_beta)
qed

section \<open>Normalizing twice\<close>

text \<open>No canonical name of a table is an alias for another name.\<close>

definition closed_aliases :: "alias_table \<Rightarrow> bool" where
  "closed_aliases t = (\<forall>c \<in> snd ` set t. dget_or t (ascii_lower (strip c)) [] \<in> {[], ascii_lower (strip c)})"

definition closed_currencies :: "alias_table \<Rightarrow> bool" where
  "closed_currencies t = (\<forall>c \<in> snd ` set t. let s = strip c; d = dget_or t (ascii_lower s) [] in (if d = [] then ascii_upper s else d) = s)"

definition closed_countries :: "alias_table \<Rightarrow> bool" where
  "closed_countries t =
     (\<forall>c \<in> snd ` set t. let s = strip c; d = dget_or t (ascii_lower s) [] in
        if d \<noteq> [] then d = s
        else if length s = 2 \<and> (\<forall>x \<in> set s. is_alpha x) then ascii_upper s = s else dget_or t (ascii_upper s) [] \<in> {[], c})"

definition closed_tables :: "normalizer \<Rightarrow> bool" where
  "closed_tables n =
     (closed_aliases (no_type_aliases n) \<and> closed_aliases (no_channel_aliases n) \<and> closed_aliases (no_card_aliases n) \<and>
      closed_currencies (no_currency_aliases n) \<and> closed_countries (no_country_codes n))"

lemma table_value: "dget_or t k [] = c \<Longrightarrow> c \<noteq> [] \<Longrightarrow> c \<in> snd ` set t"
  by (auto simp: dget_or_def split: option.splits dest!: map_of_SomeD intro!: image_eqI [of _ snd])

lemma alias_idem:
  assumes "closed_aliases t" "\<And>s. nn_str env (PStr s) = s"
  shows "alias_value env t (alias_value env t raw) = alias_value env t raw"
proof -
  have "alias_value env t (PStr c) = PStr c" if "c \<in> snd ` set t" for c
    using assms(1) that by (auto simp: alias_value_def Let_def closed_aliases_def assms(2))
  from this [OF table_value [of t "ascii_lower (strip (nn_str env raw))"]] show ?thesis
    by (auto simp: alias_value_def [of env t raw] Let_def)
qed

lemma currency_idem:
  assumes "closed_currencies (no_currency_aliases n)" "\<And>s. nn_str env (PStr s) = s"
  shows "currency_value env n (currency_value env n raw) = currency_value env n raw"
proof -
  define t where "t = no_currency_aliases n"
  define s where "s = strip (nn_str env raw)"
  have fixed: "currency_value env n (PStr c) = PStr c" if "c \<in> snd ` set t" for c
    using assms(1) that by (auto simp: currency_value_def Let_def closed_currencies_def assms(2) t_def split: if_splits)
  have upper: "currency_value env n (PStr (ascii_upper s)) = PStr (ascii_upper s)" if "dget_or t (ascii_lower s) [] = []"
    using that by (auto simp: currency_value_def Let_def assms(2) t_def strip_case s_def)
  show ?thesis
    using fixed [OF table_value [of t "ascii_lower s"]] upper
    by (auto simp: currency_value_def [of env n raw] Let_def t_def [symmetric] s_def [symmetric] split: if_splits)
qed

lemma is_alpha_upper: "is_alpha (upper_char c) = is_alpha c"
  by (auto simp: is_alpha_def Let_def of_upper)

lemma country_idem:
  assumes "closed_countries (no_country_codes n)" "\<And>s. nn_str env (PStr s) = s"
  shows "country_value env n (country_value env n raw) = country_value env n raw"
proof -
  define t where "t = no_country_codes n"
  define s where "s = strip (nn_str env raw)"
  have fixed: "country_value env n (PStr c) = PStr c" if "c \<in> snd ` set t" for c
    using assms(1) that by (auto simp: closed_countries_def t_def country_value_def Let_def assms(2) split: if_splits)
  have upper: "country_value env n (PStr (ascii_upper s)) = PStr (ascii_upper s)"
    if "dget_or t (ascii_lower s) [] = []" "length s = 2" "\<forall>x \<in> set s. is_alpha x"
  proof -
    have "length (ascii_upper s) = 2" "\<forall>x \<in> set (ascii_upper s). is_alpha x" using that by (auto simp: case_maps is_alpha_upper)
    moreover have "strip (ascii_upper s) = ascii_upper s" by (simp add: s_def strip_case)
    ultimately show ?thesis using that(1) by (simp add: country_value_def Let_def assms(2) t_def)
  qed
  show ?thesis
    using fixed [OF table_value [of t "ascii_lower s"]] fixed [OF table_value [of t "ascii_upper s"]] upper
    by (auto simp: country_value_def [of env n raw] Let_def t_def [symmetric] s_def [symmetric] split: if_splits)
      (auto simp: country_value_def Let_def t_def [symmetric] s_def [symmetric])
qed

lemma tail_keeps:
  assumes "j \<notin> {''transaction_amount_usd'', ''geo_country'', ''mcc_category'', ''transaction_type'', ''channel'', ''card_type''}"
  shows "dget (tail_form env n usd r1) j = dget r1 j"
  using assms by (auto simp: tail_form_def Let_def dget_upd dict_simps split: option.splits)

lemma tail_idem:
  assumes "closed_tables n" "\<And>s. nn_str env (PStr s) = s"
  shows "tail_form env n usd (tail_form env n usd r1) = tail_form env n usd r1"
proof -
  define q where "q = tail_form env n usd r1"
  note k = alias_idem [OF _ assms(2)] country_idem [OF _ assms(2)] assms(1) [unfolded closed_tables_def]
  have usd: "dget q ''transaction_amount_usd'' = Some (PFloat x)" if "usd = Some x" for x
    using that by (auto simp: q_def tail_form_def Let_def dget_upd dict_simps split: option.splits)
  have 3: "country_value env n (pget q ''geo_country'') = pget q ''geo_country''"
    using k by (auto simp: q_def tail_form_def Let_def dget_upd dict_simps pget_dset split: option.splits)
  have 4: "dget q ''mcc_category'' = Some (PStr c)" if "mcc_value env n (pget q ''merchant_category_code'') = Some c" for c
    using that by (auto simp: q_def tail_form_def Let_def dget_upd dict_simps pget_dset split: option.splits)
  have 5: "alias_value env (no_type_aliases n) (pget q ''transaction_type'') = pget q ''transaction_type''"
      "alias_value env (no_channel_aliases n) (pget q ''channel'') = pget q ''channel''"
      "alias_value env (no_card_aliases n) (pget q ''card_type'') = pget q ''card_type''"
    using k by (auto simp: q_def tail_form_def Let_def dget_upd dict_simps pget_dset split: option.splits)
  have 2: "(case usd of None \<Rightarrow> q | Some x \<Rightarrow> dset ''transaction_amount_usd'' (PFloat x) q) = q"
    using usd by (auto simp: dset_same split: option.splits)
  have 6: "(case mcc_value env n (pget q ''merchant_category_code'') of None \<Rightarrow> q | Some c \<Rightarrow> dset ''mcc_category'' (PStr c) q) = q"
    using 4 by (auto simp: dset_same split: option.splits)
  show ?thesis unfolding q_def [symmetric] tail_form_def [of env n usd q] Let_def 2 3 upd_same 6 5 by (rule refl)
qed

text \<open>
  Claim C25 (normalization is idempotent). When no canonical name of the mapping tables is an alias for another name, the tables are fresh
  and \<^verbatim>\<open>str\<close> of a text is the text, the record a normalization leaves is a fixed point: normalizing it once more succeeds, and
  gives the same record and the same amount in US dollars.
\<close>

theorem normalize_idempotent:
  assumes str: "\<And>s. nn_str env (PStr s) = s" and closed: "closed_tables n" and fresh: "nn_clock env - no_last_load_time n < 30"
    and first: "normalize env rec n = (Inr r, n1)"
  shows "\<exists>r2. fst (normalize env (nr_record r) n1) = Inr r2 \<and> nr_record r2 = nr_record r \<and> nr_amount_usd r2 = nr_amount_usd r"
proof -
  define h where "h = head_form env n rec"
  obtain usd where usd: "record_usd n h = Inr usd" and r: "nr_amount_usd r = usd" "nr_record r = tail_form env n usd h"
    using normalize_form(1) [OF fresh, of rec] first by (auto simp: h_def split: sum.splits)
  define q where "q = tail_form env n usd h"
  have keeps: "pget q k = pget h k" "dget_or q k v = dget_or h k v" if "k \<in> {''transaction_currency'', ''transaction_amount''}" for k v
    using that tail_keeps [of k env n usd h] by (auto simp: q_def pget_def dget_or_def)
  have "currency_value env n (pget h ''transaction_currency'') = pget h ''transaction_currency''"
    using currency_idem [OF _ str] closed by (auto simp: h_def head_form_def closed_tables_def)
  then have head: "head_form env n q = q" using upd_same [of "''transaction_currency''" q] by (simp add: head_form_def keeps)
  obtain m where m: "n1 = n\<lparr>no_metrics := m\<rparr>" using normalize_form(2) [OF fresh, of rec] first by auto
  have v: "currency_value env n1 = currency_value env n" "usd_value n1 = usd_value n" "country_value env n1 = country_value env n" "find_mcc n1 = find_mcc n"
    by (simp_all add: m fun_eq_iff currency_value_def usd_value_def country_value_def find_mcc_def split: sum.splits pyval.splits)
  have "mcc_value env n1 = mcc_value env n" by (simp add: fun_eq_iff mcc_value_def v)
  moreover have "no_type_aliases n1 = no_type_aliases n" "no_channel_aliases n1 = no_channel_aliases n" "no_card_aliases n1 = no_card_aliases n"
    by (simp_all add: m)
  ultimately have same: "head_form env n1 = head_form env n" "record_usd n1 = record_usd n" "tail_form env n1 = tail_form env n"
    unfolding fun_eq_iff head_form_def record_usd_def tail_form_def by (simp_all only: v simp_thms)
  have "record_usd n q = Inr usd" using usd by (simp add: record_usd_def keeps)
  moreover have "tail_form env n usd q = q" unfolding q_def by (rule tail_idem [OF closed str])
  ultimately show ?thesis
    using normalize_form(1) [of env n1 q] fresh unfolding same head r q_def [symmetric] by (auto simp: m)
qed

definition norm_demo_env :: norm_env where
  "norm_demo_env = \<lparr>nn_clock = 20, nn_file = None, nn_yaml = (\<lambda>_. None), nn_sha = (\<lambda>s. s), nn_str = (\<lambda>v. case v of PStr s \<Rightarrow> s | _ \<Rightarrow> [])\<rparr>"

definition norm_demo :: normalizer where
  "norm_demo = empty_normalizer\<lparr>no_exchange_rates := [(''USD'', 1), (''EUR'', 2)], no_country_codes := [(''germany'', ''DE''), (''deu'', ''DE'')],
     no_mcc_categories := [(''5411'', ''grocery''), (''3000'', ''airline''), (''3500'', ''car_rental'')], no_currency_aliases := [(''euro'', ''EUR'')],
     no_type_aliases := [(''buy'', ''purchase'')]\<rparr>"

definition norm_demo_record :: "(string, pyval) dict" where
  "norm_demo_record = [(''transaction_currency'', PStr ''Euro''), (''transaction_amount'', PInt 3)]"

theorem normalize_idempotent_witness:
  "\<exists>r n1. normalize norm_demo_env norm_demo_record norm_demo = (Inr r, n1) \<and> dget (nr_record r) ''transaction_currency'' = Some (PStr ''EUR'') \<and>
     (\<exists>r2. fst (normalize norm_demo_env (nr_record r) n1) = Inr r2 \<and> nr_record r2 = nr_record r \<and> nr_amount_usd r2 = nr_amount_usd r)"
proof -
  have "case normalize norm_demo_env norm_demo_record norm_demo of
      (Inr r, n1) \<Rightarrow> dget (nr_record r) ''transaction_currency'' = Some (PStr ''EUR'') | _ \<Rightarrow> False"
    by code_simp
  then obtain r n1 where n: "normalize norm_demo_env norm_demo_record norm_demo = (Inr r, n1)" "dget (nr_record r) ''transaction_currency'' = Some (PStr ''EUR'')"
    by (auto split: prod.splits sum.splits)
  have "\<exists>r2. fst (normalize norm_demo_env (nr_record r) n1) = Inr r2 \<and> nr_record r2 = nr_record r \<and> nr_amount_usd r2 = nr_amount_usd r"
    by (rule normalize_idempotent [OF _ _ _ n(1)])
      (simp_all add: norm_demo_env_def norm_demo_def empty_normalizer_def closed_tables_def closed_aliases_def closed_currencies_def closed_countries_def
        dget_or_def Let_def strip_def is_space_def ascii_lower_def ascii_upper_def)
  then show ?thesis using n by blast
qed

section \<open>Conversion\<close>

text \<open>
  Remark (the two conversions agree). On a base of US dollars at rate 1, the amount a normalization gives for a text currency in capitals is
  what the conversion method gives for that currency to US dollars, the unknown currency included.
\<close>

theorem conversions_agree:
  assumes "no_base_currency n = ''USD''" "dget (no_exchange_rates n) ''USD'' = Some 1" "ascii_upper c = c"
    and "pget (ns_record st) ''transaction_currency'' = PStr c" "to_float (pget (ns_record st) ''transaction_amount'') = Inr x"
  shows "fst (convert_to_usd n st) = convert_currency x c ''usd'' n"
proof -
  have u: "ascii_upper ''usd'' = ''USD''" by code_simp
  have c: "dget (ns_record st) ''transaction_currency'' = Some (PStr c)" using assms(4) by (simp add: pget_def dget_or_def split: option.splits)
  show ?thesis
    using assms(1, 2, 3, 5) by (auto simp: convert_to_usd_def convert_currency_def u c dget_or_def Let_def split: option.splits)
qed

theorem conversions_agree_witness:
  "fst (convert_to_usd norm_demo \<lparr>ns_record = [(''transaction_currency'', PStr ''EUR''), (''transaction_amount'', PInt 3)], ns_changes = [], ns_metrics = new_norm_metrics\<rparr>) =
   convert_currency 3 ''EUR'' ''usd'' norm_demo"
proof (rule conversions_agree)
  show "ascii_upper ''EUR'' = ''EUR''" by code_simp
qed (simp_all add: norm_demo_def empty_normalizer_def pget_def dget_or_def)

section \<open>Reloading\<close>

text \<open>
  Remark (a failed reload mixes two tables). A reload whose country section is no mapping, after rates that are one, takes the new base
  currency and the new rates, keeps the old country, category and alias tables, the old hash and the old time of loading, and reports no change:
  the next record is converted by the new rates and named by the old aliases.
\<close>

theorem failed_reload_mixes_tables:
  assumes stale: "30 \<le> nn_clock env - no_last_load_time n"
    and content: "nn_file env = Some content" "nn_sha env content \<noteq> no_config_hash n" "nn_yaml env content = Some (PDict data)"
    and rates: "dget data ''exchange_rates'' = Some (PDict x)" "dget x ''base_currency'' = Some (PStr b)" "dget x ''rates'' = Some (PDict d)" "rates_of d [] = Inr t"
    and countries: "dget data ''country_codes'' = Some (PList xs)"
  shows "normalizer_reload_if_needed env n = (False, n\<lparr>no_base_currency := b, no_exchange_rates := t\<rparr>)"
proof -
  have "data \<noteq> []" using countries by auto
  then have "load_mappings env n = (Inl AttributeError, n\<lparr>no_base_currency := b, no_exchange_rates := t\<rparr>)"
    using content rates countries
    by (simp add: load_mappings_def store_mappings_def Let_def dget_or_def items_of_def section_table_def assign_def)
  then show ?thesis using stale by (simp add: normalizer_reload_if_needed_def)
qed

theorem failed_reload_mixes_tables_witness:
  "\<exists>env. normalizer_reload_if_needed env norm_demo = (False, norm_demo\<lparr>no_base_currency := ''EUR'', no_exchange_rates := [(''USD'', 1 / 2)]\<rparr>)"
proof
  define data where "data = [(''exchange_rates'', PDict [(''base_currency'', PStr ''EUR''), (''rates'', PDict [(''USD'', PFloat (1 / 2))])]), (''country_codes'', PList [])]"
  show "normalizer_reload_if_needed \<lparr>nn_clock = 60, nn_file = Some ''f'', nn_yaml = (\<lambda>_. Some (PDict data)), nn_sha = (\<lambda>s. s), nn_str = (\<lambda>_. [])\<rparr> norm_demo =
      (False, norm_demo\<lparr>no_base_currency := ''EUR'', no_exchange_rates := [(''USD'', 1 / 2)]\<rparr>)"
  proof (rule failed_reload_mixes_tables [where data = data and content = "''f''" and d = "[(''USD'', PFloat (1 / 2))]"
      and x = "[(''base_currency'', PStr ''EUR''), (''rates'', PDict [(''USD'', PFloat (1 / 2))])]" and xs = "[]"])
    show "rates_of [(''USD'', PFloat (1 / 2))] [] = Inr [(''USD'', 1 / 2)]" by code_simp
  qed (simp_all add: norm_demo_def empty_normalizer_def data_def)
qed

text \<open>
  Remark (car rentals read as airlines). A code from 3500 to 3999 that the table does not list is given the category of the code 3000
  whenever the table has one: the range of the car rentals is never reached.
\<close>

theorem car_rental_read_as_airline:
  assumes "mcc_in 3500 3999 s" "dget (no_mcc_categories n) s = None" "dget (no_mcc_categories n) ''3000'' = Some (c # cs)"
  shows "find_mcc n s = Some (c # cs)"
  using assms by (auto simp: find_mcc_def mcc_in_def dget_or_def Let_def split: option.splits)

theorem car_rental_read_as_airline_witness: "find_mcc norm_demo ''3700'' = Some ''airline''"
proof -
  have "mcc_in 3500 3999 ''3700''" by code_simp
  then show ?thesis
    using car_rental_read_as_airline [of "''3700''" norm_demo "CHR ''a''" "''irline''"] by (simp add: norm_demo_def empty_normalizer_def)
qed

end
