(* ===== verification/Feature_Engineer.thy ===== *)
theory Feature_Engineer
  imports Py_Date
begin

text \<open>
  The feature engineer of \<^verbatim>\<open>src/transformation/feature_engineer.py\<close>: transaction, velocity, behavioural and sequence features of
  a transaction against the profile and the history of its customer. The argument \<open>fromiso\<close> is \<^verbatim>\<open>datetime.fromisoformat\<close>
  after the replacement of \<^verbatim>\<open>Z\<close>, as wall clock and offset in microseconds; the elapsed time and the text of an exception are
  arguments too.
\<close>

section \<open>Metrics and results\<close>

text \<open>The smallest latency is \<open>None\<close> (infinity) before the first computation.\<close>

record feature_metrics =
  fm_total_computed :: int
  fm_total_errors :: int
  fm_total_latency_ms :: real
  fm_min_latency_ms :: "real option"
  fm_max_latency_ms :: real

definition new_feature_metrics :: feature_metrics where
  "new_feature_metrics = \<lparr>fm_total_computed = 0, fm_total_errors = 0, fm_total_latency_ms = 0, fm_min_latency_ms = None, fm_max_latency_ms = 0\<rparr>"

definition record_computation :: "real \<Rightarrow> bool \<Rightarrow> feature_metrics \<Rightarrow> feature_metrics" where
  "record_computation latency error m =
     m\<lparr>fm_total_computed := fm_total_computed m + 1, fm_total_latency_ms := fm_total_latency_ms m + latency,
       fm_min_latency_ms := (case fm_min_latency_ms m of None \<Rightarrow> Some latency | Some x \<Rightarrow> Some (if latency < x then latency else x)),
       fm_max_latency_ms := (if fm_max_latency_ms m < latency then latency else fm_max_latency_ms m),
       fm_total_errors := fm_total_errors m + (if error then 1 else 0)\<rparr>"

definition avg_feature_latency :: "feature_metrics \<Rightarrow> real" where
  "avg_feature_latency m = (if fm_total_computed m = 0 then 0 else fm_total_latency_ms m / of_int (fm_total_computed m))"

definition feature_metrics_to_dict :: "feature_metrics \<Rightarrow> (string, pyval) dict" where
  "feature_metrics_to_dict m =
     [(''total_computed'', PInt (fm_total_computed m)), (''total_errors'', PInt (fm_total_errors m)),
      (''avg_latency_ms'', PFloat (py_round 4 (avg_feature_latency m))),
      (''min_latency_ms'', PFloat (case fm_min_latency_ms m of None \<Rightarrow> 0 | Some x \<Rightarrow> py_round 4 x)),
      (''max_latency_ms'', PFloat (py_round 4 (fm_max_latency_ms m)))]"

record feature_result =
  ft_transaction_id :: pyval
  ft_features :: "(string, pyval) dict"
  ft_latency_ms :: real
  ft_error :: "string option"

definition feature_success :: "feature_result \<Rightarrow> bool" where
  "feature_success r = (ft_error r = None)"

record feature_engineer =
  fe_unusual_hours :: "int list"
  fe_holidays :: "(int \<times> int) list"
  fe_rapid_threshold :: int
  fe_metrics :: feature_metrics

definition default_holidays :: "(int \<times> int) list" where
  "default_holidays = [(1, 1), (1, 20), (2, 17), (5, 26), (6, 19), (7, 4), (9, 1), (10, 13), (11, 11), (11, 27), (12, 25)]"

text \<open>An empty set counts as missing.\<close>

definition new_feature_engineer :: "int list \<Rightarrow> (int \<times> int) list \<Rightarrow> int \<Rightarrow> feature_engineer" where
  "new_feature_engineer unusual_hours holidays rapid =
     \<lparr>fe_unusual_hours = (if unusual_hours = [] then [0, 1, 2, 3, 4, 5] else unusual_hours),
      fe_holidays = (if holidays = [] then default_holidays else holidays), fe_rapid_threshold = rapid, fe_metrics = new_feature_metrics\<rparr>"

section \<open>Time stamps\<close>

text \<open>A number is a time since 1970 to the nearest microsecond; a time outside the years 1 to 9999 raises.\<close>

fun feature_time :: "fromiso \<Rightarrow> pyval \<Rightarrow> aware option res" where
  "feature_time fromiso (PTime w z) = Inr (Some (w, case z of None \<Rightarrow> 0 | Some off \<Rightarrow> off))"
| "feature_time fromiso (PStr s) = Inr (map_option (\<lambda>(w, z). (w, case z of None \<Rightarrow> 0 | Some off \<Rightarrow> off)) (fromiso s))"
| "feature_time fromiso v =
     (case num_val v of
        None \<Rightarrow> Inr None
      | Some x \<Rightarrow> (let t = round_half_even (x * 1000000) in if in_range t then Inr (Some (t, 0)) else Inl ValueError))"

definition txn_time :: "fromiso \<Rightarrow> txn_dict \<Rightarrow> aware option res" where
  "txn_time fromiso txn = feature_time fromiso (pget txn ''transaction_timestamp'')"

definition seconds_between :: "aware \<Rightarrow> aware \<Rightarrow> real" where
  "seconds_between a b = total_seconds (instant a) (instant b)"

definition amount_of_txn :: "txn_dict \<Rightarrow> real res" where
  "amount_of_txn txn = to_float (dget_or txn ''transaction_amount'' (PInt 0))"

section \<open>Transaction features\<close>

definition elapsed_since :: "fromiso \<Rightarrow> aware option \<Rightarrow> pyval \<Rightarrow> real res" where
  "elapsed_since fromiso ts last_value =
     (case ts of
        None \<Rightarrow> Inr 0
      | Some t \<Rightarrow>
          if py_bool last_value
          then res_bind (feature_time fromiso last_value) (\<lambda>u. Inr (case u of None \<Rightarrow> 0 | Some u \<Rightarrow> seconds_between t u))
          else Inr 0)"

definition temporal_features :: "feature_engineer \<Rightarrow> aware option \<Rightarrow> (string, pyval) dict" where
  "temporal_features fe ts =
     (case ts of
        None \<Rightarrow> [(''hour_of_day'', PInt 0), (''day_of_week'', PInt 0), (''is_weekend'', PBool False), (''is_holiday'', PBool False)]
      | Some t \<Rightarrow>
          (let (y, month, day) = civil (day_of (fst t))
           in [(''hour_of_day'', PInt (hour_of t)), (''day_of_week'', PInt (weekday (fst t))), (''is_weekend'', PBool (5 \<le> weekday (fst t))),
               (''is_holiday'', PBool ((month, day) \<in> set (fe_holidays fe)))]))"

definition compute_transaction_features :: "fromiso \<Rightarrow> feature_engineer \<Rightarrow> txn_dict \<Rightarrow> txn_dict \<Rightarrow> (string, pyval) dict res" where
  "compute_transaction_features fromiso fe txn profile =
     res_bind (amount_of_txn txn) (\<lambda>amount.
     res_bind (txn_time fromiso txn) (\<lambda>ts.
     res_bind (to_float (dget_or profile ''avg_transaction_amount'' (PInt 0))) (\<lambda>avg.
     res_bind (to_float (dget_or profile ''std_transaction_amount'' (PInt 0))) (\<lambda>std.
     res_bind (elapsed_since fromiso ts (pget profile ''last_transaction_timestamp'')) (\<lambda>since.
       Inr ([(''amount_zscore'', PFloat (py_round 6 (if 0 < std then (amount - avg) / std else 0)))] @ temporal_features fe ts @
            [(''time_since_last_transaction'', PFloat (py_round 2 since)),
             (''amount_to_avg_ratio'', PFloat (py_round 6 (if 0 < avg then amount / avg else 0)))]))))))"

section \<open>Velocity features\<close>

text \<open>A Python set of values as the list of its members.\<close>

definition set_member :: "pyval \<Rightarrow> pyval list \<Rightarrow> bool" where
  "set_member v xs = (\<exists>x \<in> set xs. py_eq x v)"

definition set_add :: "pyval \<Rightarrow> pyval list \<Rightarrow> pyval list res" where
  "set_add v xs = (if \<not> hashable v then Inl TypeError else Inr (if set_member v xs then xs else xs @ [v]))"

definition add_truthy :: "pyval \<Rightarrow> pyval list \<Rightarrow> pyval list res" where
  "add_truthy v xs = (if py_bool v then set_add v xs else Inr xs)"

record window_totals =
  wt_count_1h :: int
  wt_count_24h :: int
  wt_count_7d :: int
  wt_sum_1h :: real
  wt_sum_24h :: real
  wt_merchants_24h :: "pyval list"
  wt_countries_24h :: "pyval list"

definition no_totals :: window_totals where
  "no_totals = \<lparr>wt_count_1h = 0, wt_count_24h = 0, wt_count_7d = 0, wt_sum_1h = 0, wt_sum_24h = 0, wt_merchants_24h = [], wt_countries_24h = []\<rparr>"

definition count_hour :: "real \<Rightarrow> real \<Rightarrow> window_totals \<Rightarrow> window_totals" where
  "count_hour delta amount a = (if delta \<le> 3600 then a\<lparr>wt_count_1h := wt_count_1h a + 1, wt_sum_1h := wt_sum_1h a + amount\<rparr> else a)"

definition count_day :: "real \<Rightarrow> real \<Rightarrow> txn_dict \<Rightarrow> window_totals \<Rightarrow> window_totals res" where
  "count_day delta amount h a =
     (if delta \<le> 86400
      then res_bind (add_truthy (dget_or h ''merchant_id'' (PStr [])) (wt_merchants_24h a)) (\<lambda>ms.
           res_bind (add_truthy (dget_or h ''geo_country'' (PStr [])) (wt_countries_24h a)) (\<lambda>cs.
             Inr (a\<lparr>wt_count_24h := wt_count_24h a + 1, wt_sum_24h := wt_sum_24h a + amount, wt_merchants_24h := ms, wt_countries_24h := cs\<rparr>)))
      else Inr a)"

definition count_week :: "real \<Rightarrow> window_totals \<Rightarrow> window_totals" where
  "count_week delta a = (if delta \<le> 604800 then a\<lparr>wt_count_7d := wt_count_7d a + 1\<rparr> else a)"

fun sum_windows :: "fromiso \<Rightarrow> aware \<Rightarrow> txn_dict list \<Rightarrow> window_totals \<Rightarrow> window_totals res" where
  "sum_windows fromiso ts [] a = Inr a"
| "sum_windows fromiso ts (h # hs) a =
     res_bind (txn_time fromiso h) (\<lambda>u.
       case u of
         None \<Rightarrow> sum_windows fromiso ts hs a
       | Some u \<Rightarrow>
           (let delta = seconds_between ts u
            in if delta < 0 then sum_windows fromiso ts hs a
               else res_bind (amount_of_txn h) (\<lambda>amount.
                    res_bind (count_day delta amount h (count_hour delta amount a)) (\<lambda>b. sum_windows fromiso ts hs (count_week delta b)))))"

definition velocity_dict :: "window_totals \<Rightarrow> (string, pyval) dict" where
  "velocity_dict a =
     [(''txn_count_1h'', PInt (wt_count_1h a)), (''txn_count_24h'', PInt (wt_count_24h a)), (''txn_count_7d'', PInt (wt_count_7d a)),
      (''txn_amount_sum_1h'', PFloat (py_round 2 (wt_sum_1h a))), (''txn_amount_sum_24h'', PFloat (py_round 2 (wt_sum_24h a))),
      (''unique_merchants_24h'', PInt (int (length (wt_merchants_24h a)))), (''unique_countries_24h'', PInt (int (length (wt_countries_24h a))))]"

definition compute_velocity_features :: "fromiso \<Rightarrow> txn_dict \<Rightarrow> txn_dict list \<Rightarrow> (string, pyval) dict res" where
  "compute_velocity_features fromiso txn history =
     res_bind (txn_time fromiso txn) (\<lambda>ts.
       case ts of
         None \<Rightarrow> Inr (velocity_dict no_totals)
       | Some t \<Rightarrow> if history = [] then Inr (velocity_dict no_totals) else res_bind (sum_windows fromiso t history no_totals) (\<lambda>a. Inr (velocity_dict a)))"

section \<open>Behavioural features\<close>

fun known_merchants :: "txn_dict list \<Rightarrow> pyval list \<Rightarrow> pyval list res" where
  "known_merchants [] ms = Inr ms"
| "known_merchants (h # hs) ms = res_bind (add_truthy (dget_or h ''merchant_id'' (PStr [])) ms) (known_merchants hs)"

fun historical_amounts :: "txn_dict list \<Rightarrow> real list res" where
  "historical_amounts [] = Inr []"
| "historical_amounts (h # hs) =
     (if pget h ''transaction_amount'' = PNone then historical_amounts hs
      else res_bind (amount_of_txn h) (\<lambda>x. res_bind (historical_amounts hs) (\<lambda>xs. Inr (x # xs))))"

definition amount_percentile :: "real list \<Rightarrow> real \<Rightarrow> real" where
  "amount_percentile xs amount = (if xs = [] then 1 / 2 else real (length (filter (\<lambda>a. a \<le> amount) xs)) / real (length xs))"

definition is_new_merchant :: "pyval \<Rightarrow> pyval list \<Rightarrow> bool res" where
  "is_new_merchant merchant ms =
     (if \<not> py_bool merchant then Inr False else if \<not> hashable merchant then Inl TypeError else Inr (\<not> set_member merchant ms))"

definition channel_switched :: "pyval \<Rightarrow> txn_dict list \<Rightarrow> bool" where
  "channel_switched channel history =
     (case history of
        [] \<Rightarrow> False
      | h # _ \<Rightarrow> py_bool channel \<and> py_bool (dget_or h ''channel'' (PStr [])) \<and> \<not> py_eq (dget_or h ''channel'' (PStr [])) channel)"

definition compute_behavioral_features :: "fromiso \<Rightarrow> feature_engineer \<Rightarrow> txn_dict \<Rightarrow> txn_dict list \<Rightarrow> (string, pyval) dict res" where
  "compute_behavioral_features fromiso fe txn history =
     res_bind (amount_of_txn txn) (\<lambda>amount.
     res_bind (txn_time fromiso txn) (\<lambda>ts.
     res_bind (known_merchants history []) (\<lambda>ms.
     res_bind (is_new_merchant (dget_or txn ''merchant_id'' (PStr [])) ms) (\<lambda>new_merchant.
     res_bind (historical_amounts history) (\<lambda>amounts.
       Inr [(''new_merchant_flag'', PBool new_merchant),
            (''unusual_hour_flag'', PBool (case ts of None \<Rightarrow> False | Some t \<Rightarrow> hour_of t \<in> set (fe_unusual_hours fe))),
            (''amount_percentile'', PFloat (py_round 6 (amount_percentile amounts amount))),
            (''channel_switch_flag'', PBool (channel_switched (dget_or txn ''channel'' (PStr [])) history))])))))"

section \<open>Sequence features\<close>

definition consecutive_declined :: "txn_dict list \<Rightarrow> nat" where
  "consecutive_declined history = length (takeWhile (\<lambda>h. pget h ''status'' = PStr ''declined'') history)"

fun rapid_succession :: "fromiso \<Rightarrow> int \<Rightarrow> aware \<Rightarrow> txn_dict list \<Rightarrow> bool res" where
  "rapid_succession fromiso threshold ts [] = Inr False"
| "rapid_succession fromiso threshold ts (h # hs) =
     res_bind (txn_time fromiso h) (\<lambda>u.
       case u of
         None \<Rightarrow> rapid_succession fromiso threshold ts hs
       | Some u \<Rightarrow>
           (let delta = seconds_between ts u
            in if 0 < delta \<and> delta \<le> of_int threshold then Inr True
               else if of_int threshold < delta then Inr False else rapid_succession fromiso threshold ts hs))"

definition compute_sequence_features :: "fromiso \<Rightarrow> feature_engineer \<Rightarrow> txn_dict \<Rightarrow> txn_dict list \<Rightarrow> (string, pyval) dict res" where
  "compute_sequence_features fromiso fe txn history =
     res_bind (txn_time fromiso txn) (\<lambda>ts.
     res_bind (case ts of None \<Rightarrow> Inr False | Some t \<Rightarrow> rapid_succession fromiso (fe_rapid_threshold fe) t history) (\<lambda>rapid.
       Inr [(''consecutive_declined_count'', PInt (int (consecutive_declined history))), (''rapid_succession_flag'', PBool rapid)]))"

section \<open>Operations\<close>

definition dict_update :: "(string, pyval) dict \<Rightarrow> (string, pyval) dict \<Rightarrow> (string, pyval) dict" where
  "dict_update new d = fold (\<lambda>(k, v). dset k v) new d"

definition all_features :: "fromiso \<Rightarrow> feature_engineer \<Rightarrow> txn_dict \<Rightarrow> txn_dict \<Rightarrow> txn_dict list \<Rightarrow> (string, pyval) dict res" where
  "all_features fromiso fe txn profile history =
     res_bind (compute_transaction_features fromiso fe txn profile) (\<lambda>f1.
     res_bind (compute_velocity_features fromiso txn history) (\<lambda>f2.
     res_bind (compute_behavioral_features fromiso fe txn history) (\<lambda>f3.
     res_bind (compute_sequence_features fromiso fe txn history) (\<lambda>f4. Inr (dict_update f4 (dict_update f3 (dict_update f2 (dict_update f1 []))))))))"

definition feature_txn_id :: "txn_dict \<Rightarrow> pyval" where
  "feature_txn_id txn = dget_or txn ''external_transaction_id'' (dget_or txn ''transaction_id'' (PStr ''unknown''))"

definition compute_features ::
  "fromiso \<Rightarrow> (pyexn \<Rightarrow> string) \<Rightarrow> real \<Rightarrow> txn_dict \<Rightarrow> txn_dict option \<Rightarrow> txn_dict list option \<Rightarrow> feature_engineer \<Rightarrow> feature_result \<times> feature_engineer" where
  "compute_features fromiso show_exn elapsed txn customer_profile transaction_history fe =
     (let profile = (case customer_profile of None \<Rightarrow> [] | Some p \<Rightarrow> p); history = (case transaction_history of None \<Rightarrow> [] | Some h \<Rightarrow> h)
      in case all_features fromiso fe txn profile history of
           Inl ex \<Rightarrow> (\<lparr>ft_transaction_id = feature_txn_id txn, ft_features = [], ft_latency_ms = elapsed, ft_error = Some (show_exn ex)\<rparr>,
                      fe\<lparr>fe_metrics := record_computation elapsed True (fe_metrics fe)\<rparr>)
         | Inr features \<Rightarrow> (\<lparr>ft_transaction_id = feature_txn_id txn, ft_features = features, ft_latency_ms = elapsed, ft_error = None\<rparr>,
                           fe\<lparr>fe_metrics := record_computation elapsed False (fe_metrics fe)\<rparr>))"

text \<open>A batch: an unhashable customer raises out of it.\<close>

fun compute_features_batch ::
  "fromiso \<Rightarrow> (pyexn \<Rightarrow> string) \<Rightarrow> (pyval, txn_dict) dict \<Rightarrow> (pyval, txn_dict list) dict \<Rightarrow> (real \<times> txn_dict) list \<Rightarrow> feature_engineer
   \<Rightarrow> feature_result list res \<times> feature_engineer" where
  "compute_features_batch fromiso show_exn profiles histories [] fe = (Inr [], fe)"
| "compute_features_batch fromiso show_exn profiles histories ((elapsed, txn) # txns) fe =
     (let c = dget_or txn ''customer_id'' (PStr [])
      in if \<not> hashable c then (Inl TypeError, fe)
         else (let (r, fe1) = compute_features fromiso show_exn elapsed txn (dget profiles c) (dget histories c) fe;
                   (rs, fe2) = compute_features_batch fromiso show_exn profiles histories txns fe1
               in (res_bind rs (\<lambda>xs. Inr (r # xs)), fe2)))"

definition get_feature_names :: "string list" where
  "get_feature_names =
     [''amount_zscore'', ''hour_of_day'', ''day_of_week'', ''is_weekend'', ''is_holiday'', ''time_since_last_transaction'', ''amount_to_avg_ratio'',
      ''txn_count_1h'', ''txn_count_24h'', ''txn_count_7d'', ''txn_amount_sum_1h'', ''txn_amount_sum_24h'', ''unique_merchants_24h'', ''unique_countries_24h'',
      ''new_merchant_flag'', ''unusual_hour_flag'', ''amount_percentile'', ''channel_switch_flag'', ''consecutive_declined_count'', ''rapid_succession_flag'']"

end
