(* ===== verification/Feature_Engineer_Properties.thy ===== *)
theory Feature_Engineer_Properties
  imports Feature_Engineer
begin

text \<open>
  A computation gives all twenty features or none; the window counts and sums are those of the history; the early exit of the rapid
  succession loop is sound on a sorted history; and what the velocity features leave out still counts in the percentile.
\<close>

declare map_of_eq_Some_iff [simp del] Some_eq_map_of_iff [simp del]

section \<open>The names of the features\<close>

lemma dict_update_new: "distinct (map fst (d @ new)) \<Longrightarrow> dict_update new d = d @ new"
proof (induction new arbitrary: d)
  case (Cons kv new)
  obtain k v where kv: "kv = (k, v)" by (cases kv)
  from Cons.prems have "k \<notin> fst ` set d" by (auto simp: kv)
  then have "dict_update (kv # new) d = dict_update new (d @ [(k, v)])" by (simp add: dict_update_def kv dset_new)
  also have "\<dots> = (d @ [(k, v)]) @ new" by (rule Cons.IH) (use Cons.prems in \<open>simp add: kv\<close>)
  finally show ?case by (simp add: kv)
qed (simp add: dict_update_def)

lemma temporal_names: "map fst (temporal_features fe ts) = [''hour_of_day'', ''day_of_week'', ''is_weekend'', ''is_holiday'']"
  by (simp add: temporal_features_def split: option.splits prod.splits)

lemma group_names:
  "compute_transaction_features fromiso fe txn profile = Inr f1 \<Longrightarrow> map fst f1 = take 7 get_feature_names"
  "compute_velocity_features fromiso txn history = Inr f2 \<Longrightarrow> map fst f2 = take 7 (drop 7 get_feature_names)"
  "compute_behavioral_features fromiso fe txn history = Inr f3 \<Longrightarrow> map fst f3 = take 4 (drop 14 get_feature_names)"
  "compute_sequence_features fromiso fe txn history = Inr f4 \<Longrightarrow> map fst f4 = drop 18 get_feature_names"
  by (force simp: compute_transaction_features_def compute_velocity_features_def compute_behavioral_features_def compute_sequence_features_def
      res_bind_Inr temporal_names velocity_dict_def get_feature_names_def split: option.splits if_splits)+

lemma all_features_append:
  assumes "compute_transaction_features fromiso fe txn profile = Inr f1" "compute_velocity_features fromiso txn history = Inr f2"
    "compute_behavioral_features fromiso fe txn history = Inr f3" "compute_sequence_features fromiso fe txn history = Inr f4"
  shows "all_features fromiso fe txn profile history = Inr (f1 @ f2 @ f3 @ f4)"
proof -
  note names = group_names(1) [OF assms(1)] group_names(2) [OF assms(2)] group_names(3) [OF assms(3)] group_names(4) [OF assms(4)]
  have "map fst (f1 @ f2 @ f3 @ f4) = get_feature_names" by (simp add: names get_feature_names_def)
  moreover have "distinct get_feature_names" by (simp add: get_feature_names_def)
  ultimately have d: "distinct (map fst (f1 @ f2 @ f3 @ f4))" by simp
  have "dict_update f1 [] = f1" using d by (subst dict_update_new) auto
  moreover have "dict_update f2 f1 = f1 @ f2" using d by (subst dict_update_new) auto
  moreover have "dict_update f3 (f1 @ f2) = f1 @ f2 @ f3" using d by (subst dict_update_new) auto
  moreover have "dict_update f4 (f1 @ f2 @ f3) = f1 @ f2 @ f3 @ f4" using d by (subst dict_update_new) auto
  ultimately show ?thesis by (simp add: all_features_def assms)
qed

lemma all_features_names: "all_features fromiso fe txn profile history = Inr f \<Longrightarrow> map fst f = get_feature_names"
proof -
  assume a: "all_features fromiso fe txn profile history = Inr f"
  then obtain f1 f2 f3 f4 where f: "compute_transaction_features fromiso fe txn profile = Inr f1" "compute_velocity_features fromiso txn history = Inr f2"
    "compute_behavioral_features fromiso fe txn history = Inr f3" "compute_sequence_features fromiso fe txn history = Inr f4"
    unfolding all_features_def by (auto simp: res_bind_Inr)
  then have "f = f1 @ f2 @ f3 @ f4" using a all_features_append [OF f] by simp
  then show ?thesis by (simp add: group_names(1) [OF f(1)] group_names(2) [OF f(2)] group_names(3) [OF f(3)] group_names(4) [OF f(4)] get_feature_names_def)
qed

text \<open>
  Remark (all features or none). A computation never raises. It succeeds with exactly the twenty announced features, in the announced order,
  or it reports an error and has no feature at all; either way it is counted once, and as an error exactly when it failed.
\<close>

theorem all_features_or_none:
  assumes "compute_features fromiso show_exn elapsed txn profile history fe = (r, fe1)"
  shows "map fst (ft_features r) = (if feature_success r then get_feature_names else []) \<and>
    fm_total_computed (fe_metrics fe1) = fm_total_computed (fe_metrics fe) + 1 \<and>
    fm_total_errors (fe_metrics fe1) = fm_total_errors (fe_metrics fe) + (if feature_success r then 0 else 1)"
  using assms by (auto simp: compute_features_def Let_def feature_success_def record_computation_def all_features_names split: sum.splits)

definition fe_demo :: feature_engineer where
  "fe_demo = new_feature_engineer [] [] 60"

theorem all_features_or_none_witness:
  "\<exists>r fe1. compute_features (\<lambda>_. None) (\<lambda>_. ''bad'') 1 [(''transaction_amount'', PStr ''x'')] None None fe_demo = (r, fe1) \<and> \<not> feature_success r \<and>
     map fst (ft_features r) = [] \<and> fm_total_computed (fe_metrics fe1) = 1 \<and> fm_total_errors (fe_metrics fe1) = 1"
proof -
  obtain r fe1 where r: "compute_features (\<lambda>_. None) (\<lambda>_. ''bad'') 1 [(''transaction_amount'', PStr ''x'')] None None fe_demo = (r, fe1)" by fastforce
  have "case compute_features (\<lambda>_. None) (\<lambda>_. ''bad'') 1 [(''transaction_amount'', PStr ''x'')] None None fe_demo of (r, fe1) \<Rightarrow> \<not> feature_success r"
    by code_simp
  then have "\<not> feature_success r" using r by simp
  then show ?thesis using r all_features_or_none [OF r] by (simp add: fe_demo_def new_feature_engineer_def new_feature_metrics_def)
qed

section \<open>Windows\<close>

definition aged_within :: "fromiso \<Rightarrow> aware \<Rightarrow> real \<Rightarrow> txn_dict \<Rightarrow> bool" where
  "aged_within fromiso t w h =
     (case txn_time fromiso h of Inr (Some u) \<Rightarrow> 0 \<le> seconds_between t u \<and> seconds_between t u \<le> w | _ \<Rightarrow> False)"

definition amount_or_0 :: "txn_dict \<Rightarrow> real" where
  "amount_or_0 h = (case amount_of_txn h of Inl _ \<Rightarrow> 0 | Inr x \<Rightarrow> x)"

lemma sum_windows_exact:
  "sum_windows fromiso t hs a = Inr b \<Longrightarrow>
     wt_count_1h b = wt_count_1h a + int (length (filter (aged_within fromiso t 3600) hs)) \<and>
     wt_count_24h b = wt_count_24h a + int (length (filter (aged_within fromiso t 86400) hs)) \<and>
     wt_count_7d b = wt_count_7d a + int (length (filter (aged_within fromiso t 604800) hs)) \<and>
     wt_sum_1h b = wt_sum_1h a + sum_list (map amount_or_0 (filter (aged_within fromiso t 3600) hs)) \<and>
     wt_sum_24h b = wt_sum_24h a + sum_list (map amount_or_0 (filter (aged_within fromiso t 86400) hs))"
proof (induction hs arbitrary: a)
  case (Cons h hs)
  obtain u where u: "txn_time fromiso h = Inr u" using Cons.prems by (auto simp: res_bind_Inr)
  show ?case
  proof (cases "\<exists>v. u = Some v \<and> 0 \<le> seconds_between t v")
    case False
    then have "sum_windows fromiso t hs a = Inr b" using Cons.prems u by (auto split: option.splits)
    moreover have "\<not> aged_within fromiso t w h" for w using False u by (auto simp: aged_within_def split: option.splits)
    ultimately show ?thesis using Cons.IH [of a] by simp
  next
    case True
    then obtain v where v: "u = Some v" "0 \<le> seconds_between t v" by blast
    define d where "d = seconds_between t v"
    obtain x c where x: "amount_of_txn h = Inr x" and c: "count_day d x h (count_hour d x a) = Inr c" and s: "sum_windows fromiso t hs (count_week d c) = Inr b"
      using Cons.prems v u by (auto simp: res_bind_Inr d_def Let_def)
    have w: "aged_within fromiso t k h = (d \<le> k)" for k using u v by (simp add: aged_within_def d_def)
    have "amount_or_0 h = x" by (simp add: amount_or_0_def x)
    then show ?thesis
      using Cons.IH [OF s] c unfolding filter.simps w by (auto simp: count_week_def count_day_def count_hour_def res_bind_Inr split: if_splits)
  qed
qed simp

text \<open>
  Claim C26 (the window features are exact). When the velocity features are computed for a transaction with a time, each count is the number of
  transactions of the history whose time is not after it and at most an hour, a day or a week before it, and the sums are those of their
  amounts; so the counts are nested.
\<close>

theorem velocity_windows_exact:
  assumes "compute_velocity_features fromiso txn history = Inr f" and "txn_time fromiso txn = Inr (Some t)"
  shows "dget f ''txn_count_1h'' = Some (PInt (int (length (filter (aged_within fromiso t 3600) history)))) \<and>
    dget f ''txn_count_24h'' = Some (PInt (int (length (filter (aged_within fromiso t 86400) history)))) \<and>
    dget f ''txn_count_7d'' = Some (PInt (int (length (filter (aged_within fromiso t 604800) history)))) \<and>
    dget f ''txn_amount_sum_1h'' = Some (PFloat (py_round 2 (sum_list (map amount_or_0 (filter (aged_within fromiso t 3600) history))))) \<and>
    dget f ''txn_amount_sum_24h'' = Some (PFloat (py_round 2 (sum_list (map amount_or_0 (filter (aged_within fromiso t 86400) history))))) \<and>
    length (filter (aged_within fromiso t 3600) history) \<le> length (filter (aged_within fromiso t 86400) history) \<and>
    length (filter (aged_within fromiso t 86400) history) \<le> length (filter (aged_within fromiso t 604800) history)"
proof -
  obtain b where b: "sum_windows fromiso t history no_totals = Inr b" and f: "f = velocity_dict b"
    using assms by (cases "history = []") (auto simp: compute_velocity_features_def res_bind_Inr)
  note e = sum_windows_exact [OF b, unfolded no_totals_def, simplified]
  have wider: "aged_within fromiso t v h \<Longrightarrow> aged_within fromiso t w h" if "v \<le> w" for v w h
    using that by (auto simp: aged_within_def split: sum.splits option.splits)
  have "length (filter (aged_within fromiso t v) history) \<le> length (filter (aged_within fromiso t w) history)" if "v \<le> w" for v w
    using wider [OF that] by (induction history) auto
  then show ?thesis using e by (simp add: f velocity_dict_def)
qed

definition at_second :: "int \<Rightarrow> real \<Rightarrow> txn_dict" where
  "at_second s x = [(''transaction_timestamp'', PInt s), (''transaction_amount'', PFloat x)]"

theorem velocity_windows_exact_witness:
  "\<exists>f t. compute_velocity_features (\<lambda>_. None) (at_second 100000 5) [at_second 99990 2, at_second 20000 3] = Inr f \<and> txn_time (\<lambda>_. None) (at_second 100000 5) = Inr (Some t) \<and>
     dget f ''txn_count_1h'' = Some (PInt (int (length (filter (aged_within (\<lambda>_. None) t 3600) [at_second 99990 2, at_second 20000 3])))) \<and>
     dget f ''txn_count_24h'' = Some (PInt 2)"
proof -
  have "case compute_velocity_features (\<lambda>_. None) (at_second 100000 5) [at_second 99990 2, at_second 20000 3] of
      Inr f \<Rightarrow> dget f ''txn_count_24h'' = Some (PInt 2) | _ \<Rightarrow> False" by code_simp
  then obtain f where f: "compute_velocity_features (\<lambda>_. None) (at_second 100000 5) [at_second 99990 2, at_second 20000 3] = Inr f" "dget f ''txn_count_24h'' = Some (PInt 2)"
    by (auto split: sum.splits)
  have t: "txn_time (\<lambda>_. None) (at_second 100000 5) = Inr (Some (100000000000, 0))" by code_simp
  show ?thesis using f t velocity_windows_exact [OF f(1) t] by blast
qed

section \<open>Rapid succession\<close>

definition times_of :: "fromiso \<Rightarrow> txn_dict list \<Rightarrow> aware list" where
  "times_of fromiso hs = concat (map (\<lambda>h. case txn_time fromiso h of Inr (Some u) \<Rightarrow> [u] | _ \<Rightarrow> []) hs)"

text \<open>
  Remark (the early exit of the rapid succession check is sound). On a history whose times can all be read and which is sorted by time, newest first,
  the loop that stops at the first transaction older than the threshold finds exactly whether some transaction lies at most the threshold
  before the current one.
\<close>

theorem rapid_succession_exact:
  assumes "sorted_wrt (\<lambda>u v. instant v \<le> instant u) (times_of fromiso history)" and "list_all (\<lambda>h. \<exists>u. txn_time fromiso h = Inr u) history" and "0 \<le> threshold"
  shows "rapid_succession fromiso threshold t history =
    Inr (\<exists>u \<in> set (times_of fromiso history). 0 < seconds_between t u \<and> seconds_between t u \<le> of_int threshold)"
  using assms(1, 2)
proof (induction history)
  case (Cons h hs)
  obtain u where u: "txn_time fromiso h = Inr u" using Cons.prems(2) by auto
  show ?case
  proof (cases u)
    case None
    then show ?thesis using Cons u by (simp add: times_of_def)
  next
    case (Some v)
    have times: "times_of fromiso (h # hs) = v # times_of fromiso hs" by (simp add: times_of_def u Some)
    have older: "seconds_between t v \<le> seconds_between t w" if "w \<in> set (times_of fromiso hs)" for w
      using Cons.prems(1) that unfolding times by (simp add: seconds_between_def total_seconds_def)
    have "rapid_succession fromiso threshold t hs = Inr (\<exists>u \<in> set (times_of fromiso hs). 0 < seconds_between t u \<and> seconds_between t u \<le> of_int threshold)"
      using Cons unfolding times by simp
    then show ?thesis using older by (auto simp: u Some times Let_def not_le) (meson less_le_trans not_le)+
  qed
qed (simp add: times_of_def)

theorem rapid_succession_exact_witness:
  "rapid_succession (\<lambda>_. None) 60 (100000000000, 0) [at_second 99990 2, at_second 20000 3] =
   Inr (\<exists>u \<in> set (times_of (\<lambda>_. None) [at_second 99990 2, at_second 20000 3]). 0 < seconds_between (100000000000, 0) u \<and> seconds_between (100000000000, 0) u \<le> of_int 60)"
proof (rule rapid_succession_exact)
  have t: "txn_time (\<lambda>_. None) (at_second 99990 2) = Inr (Some (99990000000, 0))" "txn_time (\<lambda>_. None) (at_second 20000 3) = Inr (Some (20000000000, 0))" by code_simp+
  show "sorted_wrt (\<lambda>u v. instant v \<le> instant u) (times_of (\<lambda>_. None) [at_second 99990 2, at_second 20000 3])"
    "list_all (\<lambda>h. \<exists>u. txn_time (\<lambda>_. None) h = Inr u) [at_second 99990 2, at_second 20000 3]" by (simp_all add: times_of_def t instant_def)
qed simp

section \<open>Transactions of the future\<close>

text \<open>
  Remark (later transactions leak into the percentile). A transaction of the history that lies after the current one changes no velocity feature, but
  its amount is one of those the percentile of the current amount is taken from.
\<close>

theorem future_leaks_into_percentile:
  assumes "txn_time fromiso txn = Inr (Some t)" "txn_time fromiso h = Inr (Some u)" "instant t < instant u"
    and "amount_of_txn h = Inr x" "pget h ''transaction_amount'' \<noteq> PNone" "historical_amounts history = Inr xs"
  shows "compute_velocity_features fromiso txn (h # history) = compute_velocity_features fromiso txn history \<and> historical_amounts (h # history) = Inr (x # xs)"
proof
  have "seconds_between t u < 0"
    using assms(3) by (simp add: seconds_between_def total_seconds_def)
  then show "compute_velocity_features fromiso txn (h # history) = compute_velocity_features fromiso txn history"
    using assms(1, 2) by (simp add: compute_velocity_features_def)
  show "historical_amounts (h # history) = Inr (x # xs)" using assms(4-6) by simp
qed

theorem future_leaks_into_percentile_witness:
  "historical_amounts [at_second 200000 7, at_second 99990 2] = Inr [7, 2]"
proof -
  have t: "txn_time (\<lambda>_. None) (at_second 100000 5) = Inr (Some (100000000000, 0))" "txn_time (\<lambda>_. None) (at_second 200000 7) = Inr (Some (200000000000, 0))" by code_simp+
  have "historical_amounts [at_second 99990 2] = Inr [2]" by code_simp
  from future_leaks_into_percentile [OF t _ _ _ this] show ?thesis
    by (simp add: instant_def at_second_def amount_of_txn_def pget_def dget_or_def)
qed

end
