(* ===== verification/Enrichers.thy ===== *)
theory Enrichers
  imports Fraud_Rules
begin

text \<open>
  The enrichers of \<^verbatim>\<open>src/enrichment\<close>: geography (\<^verbatim>\<open>geo_enricher.py\<close>), devices (\<^verbatim>\<open>device_enricher.py\<close>) and merchants
  (\<^verbatim>\<open>merchant_enricher.py\<close>), the last two with their stores in memory. The clock, \<^verbatim>\<open>datetime.fromisoformat\<close> after the
  replacement of \<^verbatim>\<open>Z\<close>, SHA-256, \<^verbatim>\<open>str\<close>, the text of an exception, an external geography provider and the parsed
  configuration files are arguments. Latencies are left out. Keys of the stores compare as values.
\<close>

section \<open>Times\<close>

type_synonym py_time = "datetime \<times> int option"

text \<open>\<^verbatim>\<open>(a - b).total_seconds()\<close>: a naive and an aware time cannot be subtracted.\<close>

fun time_diff :: "py_time \<Rightarrow> py_time \<Rightarrow> real res" where
  "time_diff (w, None) (v, None) = Inr (total_seconds w v)"
| "time_diff (w, Some y) (v, Some z) = Inr (total_seconds (w - y) (v - z))"
| "time_diff _ _ = Inl TypeError"

definition utc_now :: "datetime \<Rightarrow> py_time" where
  "utc_now clock = (clock, Some 0)"

fun parse_activity_time :: "fromiso \<Rightarrow> datetime \<Rightarrow> pyval \<Rightarrow> py_time res" where
  "parse_activity_time fromiso clock (PTime w z) = Inr (w, Some (case z of None \<Rightarrow> 0 | Some off \<Rightarrow> off))"
| "parse_activity_time fromiso clock (PStr s) = (case fromiso s of None \<Rightarrow> Inl ValueError | Some t \<Rightarrow> Inr t)"
| "parse_activity_time fromiso clock _ = Inr (utc_now clock)"

section \<open>Geography\<close>

record geo_location =
  gl_country_code :: pyval
  gl_country_name :: pyval
  gl_city :: pyval
  gl_latitude :: real
  gl_longitude :: real
  gl_is_vpn :: bool
  gl_is_proxy :: bool
  gl_is_tor :: bool

record geo_result =
  ge_location :: "geo_location option"
  ge_distance_from_home_miles :: "real option"
  ge_country_risk_score :: real
  ge_is_high_risk_country :: bool
  ge_travel_speed_mph :: "real option"
  ge_is_impossible_travel :: bool
  ge_error :: "string option"

definition new_geo_result :: geo_result where
  "new_geo_result =
     \<lparr>ge_location = None, ge_distance_from_home_miles = None, ge_country_risk_score = 0, ge_is_high_risk_country = False,
      ge_travel_speed_mph = None, ge_is_impossible_travel = False, ge_error = None\<rparr>"

definition opt_float :: "real option \<Rightarrow> pyval" where
  "opt_float x = (case x of None \<Rightarrow> PNone | Some y \<Rightarrow> PFloat y)"

definition geo_to_dict :: "geo_result \<Rightarrow> (string, pyval) dict" where
  "geo_to_dict r =
     (let get = (\<lambda>f dflt. case ge_location r of None \<Rightarrow> dflt | Some l \<Rightarrow> f l)
      in [(''geo_country_code'', get gl_country_code PNone), (''geo_country_name'', get gl_country_name PNone), (''geo_city'', get gl_city PNone),
          (''geo_latitude'', get (PFloat \<circ> gl_latitude) PNone), (''geo_longitude'', get (PFloat \<circ> gl_longitude) PNone),
          (''geo_is_vpn'', get (PBool \<circ> gl_is_vpn) (PBool False)), (''geo_is_proxy'', get (PBool \<circ> gl_is_proxy) (PBool False)),
          (''geo_is_tor'', get (PBool \<circ> gl_is_tor) (PBool False)), (''geo_distance_from_home_miles'', opt_float (ge_distance_from_home_miles r)),
          (''geo_country_risk_score'', PFloat (ge_country_risk_score r)), (''geo_is_high_risk_country'', PBool (ge_is_high_risk_country r)),
          (''geo_travel_speed_mph'', opt_float (ge_travel_speed_mph r)), (''geo_is_impossible_travel'', PBool (ge_is_impossible_travel r))])"

text \<open>The provider that reads the transaction itself, or an external one.\<close>

datatype geo_provider = TransactionFields | External "pyval \<Rightarrow> geo_location option res"

definition lookup_fields :: "txn_dict \<Rightarrow> geo_location option res" where
  "lookup_fields txn =
     (let lat = pget txn ''geo_latitude''; lng = pget txn ''geo_longitude''; country = dget_or txn ''geo_country'' (PStr [])
      in if lat = PNone \<or> lng = PNone then Inr None
         else res_bind (to_float lat) (\<lambda>x. res_bind (to_float lng) (\<lambda>y.
                Inr (Some \<lparr>gl_country_code = country, gl_country_name = country, gl_city = dget_or txn ''geo_city'' (PStr []), gl_latitude = x,
                           gl_longitude = y, gl_is_vpn = False, gl_is_proxy = False, gl_is_tor = False\<rparr>))))"

definition geo_lookup :: "geo_provider \<Rightarrow> txn_dict \<Rightarrow> geo_location option res" where
  "geo_lookup p txn = (case p of TransactionFields \<Rightarrow> lookup_fields txn | External f \<Rightarrow> f (dget_or txn ''ip_address'' (PStr [])))"

record geo_enricher =
  gn_provider :: geo_provider
  gn_impossible_speed :: real
  gn_risk_countries :: "(string, pyval) dict"

definition score_country_risk :: "geo_enricher \<Rightarrow> pyval \<Rightarrow> real res" where
  "score_country_risk g code =
     (if \<not> py_bool code then Inr (1 / 2)
      else (case code of
              PStr c \<Rightarrow>
                (case pget (gn_risk_countries g) (ascii_upper c) of
                   PNone \<Rightarrow> Inr (1 / 10)
                 | PDict d \<Rightarrow> to_float (dget_or d ''risk_score'' (PFloat (1 / 10)))
                 | _ \<Rightarrow> Inl AttributeError)
            | _ \<Rightarrow> Inl AttributeError))"

definition haversine_distance :: "real \<Rightarrow> real \<Rightarrow> real \<Rightarrow> real \<Rightarrow> real" where
  "haversine_distance lat1 lon1 lat2 lon2 =
     (let a = (sin (radians (lat2 - lat1) / 2))\<^sup>2 + cos (radians lat1) * cos (radians lat2) * (sin (radians (lon2 - lon1) / 2))\<^sup>2;
          c = 2 * atan2 (sqrt a) (sqrt (1 - a))
      in 39588 / 10 * c)"

definition num_arg :: "pyval \<Rightarrow> real res" where
  "num_arg v = (case num_val v of None \<Rightarrow> Inl TypeError | Some x \<Rightarrow> Inr x)"

definition home_distance :: "txn_dict \<Rightarrow> geo_location \<Rightarrow> real option res" where
  "home_distance profile l =
     (let lat = pget profile ''home_latitude''; lng = pget profile ''home_longitude''
      in if lat = PNone \<or> lng = PNone then Inr None
         else res_bind (num_arg lat) (\<lambda>x. res_bind (num_arg lng) (\<lambda>y. Inr (Some (haversine_distance x y (gl_latitude l) (gl_longitude l))))))"

definition travel_now :: "fromiso \<Rightarrow> datetime \<Rightarrow> pyval \<Rightarrow> py_time res" where
  "travel_now fromiso clock v =
     (case v of
        PStr s \<Rightarrow> if s = [] then Inr (utc_now clock) else (case fromiso s of None \<Rightarrow> Inl ValueError | Some t \<Rightarrow> Inr t)
      | PTime w z \<Rightarrow> Inr (w, z)
      | _ \<Rightarrow> Inr (utc_now clock))"

definition calculate_travel_speed :: "fromiso \<Rightarrow> datetime \<Rightarrow> geo_location \<Rightarrow> txn_dict \<Rightarrow> real option res" where
  "calculate_travel_speed fromiso clock l last_txn =
     (let lat = pget last_txn ''geo_latitude''; lng = pget last_txn ''geo_longitude''; ts = pget last_txn ''transaction_timestamp''
      in if lat = PNone \<or> lng = PNone \<or> ts = PNone then Inr None
         else res_bind (to_float lat) (\<lambda>x. res_bind (to_float lng) (\<lambda>y.
           let distance = haversine_distance x y (gl_latitude l) (gl_longitude l);
               last_time = (case ts of PStr s \<Rightarrow> (case fromiso s of None \<Rightarrow> Inl ValueError | Some t \<Rightarrow> Inr (Some t)) | PTime w z \<Rightarrow> Inr (Some (w, z)) | _ \<Rightarrow> Inr None)
           in res_bind last_time (\<lambda>t0.
                case t0 of
                  None \<Rightarrow> Inr None
                | Some t0 \<Rightarrow>
                    res_bind (travel_now fromiso clock (pget last_txn ''_current_timestamp'')) (\<lambda>t1.
                    res_bind (time_diff t1 t0) (\<lambda>s.
                      let hours = \<bar>s\<bar> / 3600 in Inr (if hours < 1 / 1000 then None else Some (distance / hours))))))))"

definition enrich_geo :: "fromiso \<Rightarrow> (pyexn \<Rightarrow> string) \<Rightarrow> datetime \<Rightarrow> txn_dict \<Rightarrow> txn_dict \<Rightarrow> txn_dict \<Rightarrow> geo_enricher \<Rightarrow> geo_result" where
  "enrich_geo fromiso show_exn clock txn profile last_txn g =
     (let failed = (\<lambda>ex r. r\<lparr>ge_error := Some (show_exn ex)\<rparr>)
      in case geo_lookup (gn_provider g) txn of
           Inl ex \<Rightarrow> failed ex new_geo_result
         | Inr None \<Rightarrow> new_geo_result
         | Inr (Some l) \<Rightarrow>
             (let r1 = new_geo_result\<lparr>ge_location := Some l\<rparr>
              in case score_country_risk g (gl_country_code l) of
                   Inl ex \<Rightarrow> failed ex r1
                 | Inr s \<Rightarrow>
                     (let r2 = r1\<lparr>ge_country_risk_score := s, ge_is_high_risk_country := 7 / 10 \<le> s\<rparr>
                      in case home_distance profile l of
                           Inl ex \<Rightarrow> failed ex r2
                         | Inr d \<Rightarrow>
                             (let r3 = r2\<lparr>ge_distance_from_home_miles := d\<rparr>
                              in if last_txn = [] then r3
                                 else (case calculate_travel_speed fromiso clock l last_txn of
                                         Inl ex \<Rightarrow> failed ex r3
                                       | Inr None \<Rightarrow> r3
                                       | Inr (Some v) \<Rightarrow> r3\<lparr>ge_travel_speed_mph := Some v, ge_is_impossible_travel := gn_impossible_speed g < v\<rparr>)))))"

text \<open>A batch: the profile and the last transaction of the customer; an unhashable customer raises out of it.\<close>

fun enrich_geo_batch ::
  "fromiso \<Rightarrow> (pyexn \<Rightarrow> string) \<Rightarrow> (pyval, txn_dict) dict \<Rightarrow> (pyval, txn_dict) dict \<Rightarrow> (datetime \<times> txn_dict) list \<Rightarrow> geo_enricher \<Rightarrow> geo_result list res" where
  "enrich_geo_batch fromiso show_exn profiles last_txns [] g = Inr []"
| "enrich_geo_batch fromiso show_exn profiles last_txns ((clock, txn) # txns) g =
     (let c = dget_or txn ''customer_id'' (PStr [])
      in if \<not> hashable c then Inl TypeError
         else res_bind (enrich_geo_batch fromiso show_exn profiles last_txns txns g) (\<lambda>rs.
                Inr (enrich_geo fromiso show_exn clock txn (dget_or profiles c []) (dget_or last_txns c []) g # rs)))"

section \<open>Devices\<close>

record device_history =
  dh_first_seen :: py_time
  dh_last_seen :: py_time
  dh_customer_ids :: "pyval list"
  dh_transaction_count :: int
  dh_trust_score :: real

record device_store =
  ds_devices :: "(pyval, device_history) dict"
  ds_customer_devices :: "(pyval, pyval list) dict"

definition new_device_store :: device_store where
  "new_device_store = \<lparr>ds_devices = [], ds_customer_devices = []\<rparr>"

definition get_device_history :: "device_store \<Rightarrow> pyval \<Rightarrow> device_history option" where
  "get_device_history s d = dget (ds_devices s) d"

definition get_customer_devices :: "pyval \<Rightarrow> device_store \<Rightarrow> pyval list" where
  "get_customer_devices c s = dget_or (ds_customer_devices s) c []"

definition seen_again :: "pyval \<Rightarrow> py_time \<Rightarrow> device_history \<Rightarrow> device_history" where
  "seen_again c t h =
     (let n = dh_transaction_count h + 1
      in h\<lparr>dh_last_seen := t, dh_customer_ids := List.insert c (dh_customer_ids h), dh_transaction_count := n,
           dh_trust_score := min 1 (dh_trust_score h + 1 / 100 * of_int n)\<rparr>)"

definition record_device_activity :: "pyval \<Rightarrow> pyval \<times> py_time \<Rightarrow> device_store \<Rightarrow> device_store" where
  "record_device_activity d ct s =
     (let (c, t) = ct;
          h = (case dget (ds_devices s) d of
                 None \<Rightarrow> \<lparr>dh_first_seen = t, dh_last_seen = t, dh_customer_ids = [c], dh_transaction_count = 1, dh_trust_score = 1 / 2\<rparr>
               | Some h \<Rightarrow> seen_again c t h)
      in s\<lparr>ds_devices := dset d h (ds_devices s),
           ds_customer_devices := dset c (List.insert d (dget_or (ds_customer_devices s) c [])) (ds_customer_devices s)\<rparr>)"

record device_info =
  di_device_id :: pyval
  di_device_type :: string
  di_fingerprint_hash :: string
  di_os_family :: pyval
  di_browser_family :: pyval
  di_is_emulator :: pyval
  di_is_rooted :: pyval

record device_result =
  de_info :: "device_info option"
  de_is_known_device :: bool
  de_device_age_days :: "real option"
  de_is_new_device :: bool
  de_trust_score :: real
  de_accounts_on_device :: int
  de_is_multi_account :: bool
  de_transactions_on_device :: int
  de_risk_score :: real
  de_error :: "string option"

definition new_device_result :: device_result where
  "new_device_result =
     \<lparr>de_info = None, de_is_known_device = False, de_device_age_days = None, de_is_new_device = True, de_trust_score = 0,
      de_accounts_on_device = 0, de_is_multi_account = False, de_transactions_on_device = 0, de_risk_score = 0, de_error = None\<rparr>"

definition device_to_dict :: "device_result \<Rightarrow> (string, pyval) dict" where
  "device_to_dict r =
     (let get = (\<lambda>f dflt. case de_info r of None \<Rightarrow> dflt | Some i \<Rightarrow> f i)
      in [(''device_id'', get di_device_id PNone), (''device_type'', get (PStr \<circ> di_device_type) (PStr ''unknown'')),
          (''device_fingerprint_hash'', get (PStr \<circ> di_fingerprint_hash) PNone), (''device_os_family'', get di_os_family PNone),
          (''device_browser_family'', get di_browser_family PNone), (''device_is_emulator'', get di_is_emulator (PBool False)),
          (''device_is_rooted'', get di_is_rooted (PBool False)), (''device_is_known'', PBool (de_is_known_device r)),
          (''device_age_days'', opt_float (de_device_age_days r)), (''device_is_new'', PBool (de_is_new_device r)),
          (''device_trust_score'', PFloat (de_trust_score r)), (''device_accounts_count'', PInt (de_accounts_on_device r)),
          (''device_is_multi_account'', PBool (de_is_multi_account r)), (''device_transactions_count'', PInt (de_transactions_on_device r)),
          (''device_risk_score'', PFloat (de_risk_score r))])"

record device_enricher =
  dn_store :: device_store
  dn_new_device_threshold_days :: real
  dn_multi_account_threshold :: int

definition device_types :: "string list" where
  "device_types = [''mobile'', ''desktop'', ''tablet'', ''pos'', ''atm'']"

fun join_bars :: "string list \<Rightarrow> string" where
  "join_bars [] = []"
| "join_bars [x] = x"
| "join_bars (x # y # xs) = x @ ''|'' @ join_bars (y # xs)"

definition parse_device_info :: "(string \<Rightarrow> string) \<Rightarrow> (pyval \<Rightarrow> string) \<Rightarrow> txn_dict \<Rightarrow> device_info res" where
  "parse_device_info sha str txn =
     (case dget_or txn ''device_type'' (PStr ''unknown'') of
        PStr ty \<Rightarrow>
          (let device_id = dget_or txn ''device_id'' (PStr ''unknown'');
               device_type = (if ascii_lower ty \<in> set device_types then ascii_lower ty else ''unknown'');
               parts = [device_id, PStr device_type, dget_or txn ''user_agent'' (PStr []), dget_or txn ''screen_resolution'' (PStr []),
                        dget_or txn ''timezone_offset'' (PStr [])]
           in Inr \<lparr>di_device_id = device_id, di_device_type = device_type, di_fingerprint_hash = take 16 (sha (join_bars (map str parts))),
                   di_os_family = dget_or txn ''os_family'' (PStr ''unknown''), di_browser_family = dget_or txn ''browser_family'' (PStr ''unknown''),
                   di_is_emulator = dget_or txn ''is_emulator'' (PBool False), di_is_rooted = dget_or txn ''is_rooted'' (PBool False)\<rparr>)
      | _ \<Rightarrow> Inl AttributeError)"

definition device_risk_score :: "device_result \<Rightarrow> real" where
  "device_risk_score r =
     (let known = (if \<not> de_is_known_device r then 3 / 10 else if de_is_new_device r then 15 / 100 else 0);
          multi = (if de_is_multi_account r then 3 / 10 else 0);
          flags = (case de_info r of
                     None \<Rightarrow> 0
                   | Some i \<Rightarrow> (if py_bool (di_is_emulator i) then 2 / 10 else 0) + (if py_bool (di_is_rooted i) then 1 / 10 else 0));
          penalty = max 0 (2 / 10 * (1 - de_trust_score r))
      in min 1 (known + multi + flags + penalty))"

text \<open>\<^verbatim>\<open>v in container\<close>.\<close>

definition py_contains :: "pyval \<Rightarrow> pyval \<Rightarrow> bool res" where
  "py_contains v container =
     (case container of
        PList xs \<Rightarrow> Inr (\<exists>x \<in> set xs. py_eq x v)
      | PDict d \<Rightarrow> if hashable v then Inr (\<exists>k \<in> set (map fst d). v = PStr k) else Inl TypeError
      | PStr s \<Rightarrow> (case v of PStr x \<Rightarrow> Inr (has_substring x s) | _ \<Rightarrow> Inl TypeError)
      | _ \<Rightarrow> Inl TypeError)"

text \<open>The history of a device; the age of one first seen at a naive time raises.\<close>

definition device_from_history :: "datetime \<Rightarrow> device_enricher \<Rightarrow> pyval \<Rightarrow> device_history \<Rightarrow> device_result \<Rightarrow> pyexn option \<times> device_result" where
  "device_from_history clock e c h r =
     (if \<not> hashable c then (Some TypeError, r)
      else (let r1 = r\<lparr>de_is_known_device := c \<in> set (dh_customer_ids h), de_transactions_on_device := dh_transaction_count h, de_trust_score := dh_trust_score h\<rparr>
            in case time_diff (utc_now clock) (dh_first_seen h) of
                 Inl ex \<Rightarrow> (Some ex, r1)
               | Inr s \<Rightarrow>
                   (let age = s / 86400; n = int (length (dh_customer_ids h))
                    in (None, r1\<lparr>de_device_age_days := Some age, de_is_new_device := age < dn_new_device_threshold_days e,
                                 de_accounts_on_device := n, de_is_multi_account := dn_multi_account_threshold e \<le> n\<rparr>))))"

definition known_to_profile :: "pyval \<Rightarrow> txn_dict \<Rightarrow> bool res" where
  "known_to_profile d profile =
     (let known = dget_or profile ''known_devices'' (PList []) in if py_bool known then py_contains d known else Inr True)"

definition enrich_device ::
  "fromiso \<Rightarrow> (string \<Rightarrow> string) \<Rightarrow> (pyval \<Rightarrow> string) \<Rightarrow> (pyexn \<Rightarrow> string) \<Rightarrow> datetime \<Rightarrow> txn_dict \<Rightarrow> txn_dict \<Rightarrow> device_enricher \<Rightarrow> device_result \<times> device_enricher" where
  "enrich_device fromiso sha str show_exn clock txn profile e =
     (let d = dget_or txn ''device_id'' (PStr []); c = dget_or txn ''customer_id'' (PStr []);
          failed = (\<lambda>ex r. (r\<lparr>de_error := Some (show_exn ex)\<rparr>, e))
      in if \<not> py_bool d then (new_device_result\<lparr>de_risk_score := 8 / 10\<rparr>, e)
         else case parse_device_info sha str txn of
           Inl ex \<Rightarrow> failed ex new_device_result
         | Inr info \<Rightarrow>
             (let r1 = new_device_result\<lparr>de_info := Some info\<rparr>
              in if \<not> hashable d then failed TypeError r1
                 else (let (ex2, r2) = (case get_device_history (dn_store e) d of
                                          Some h \<Rightarrow> device_from_history clock e c h r1
                                        | None \<Rightarrow> (None, r1\<lparr>de_is_known_device := False, de_is_new_device := True, de_device_age_days := Some 0, de_trust_score := 3 / 10\<rparr>))
                       in case ex2 of
                            Some ex \<Rightarrow> failed ex r2
                          | None \<Rightarrow>
                              (case known_to_profile d profile of
                                 Inl ex \<Rightarrow> failed ex r2
                               | Inr listed \<Rightarrow>
                                   (let r3 = (if listed then r2 else r2\<lparr>de_is_known_device := False\<rparr>);
                                        r4 = r3\<lparr>de_risk_score := device_risk_score r3\<rparr>
                                    in case parse_activity_time fromiso clock (pget txn ''transaction_timestamp'') of
                                         Inl ex \<Rightarrow> failed ex r4
                                       | Inr t \<Rightarrow>
                                           if \<not> hashable c then failed TypeError r4
                                           else (r4, e\<lparr>dn_store := record_device_activity d (c, t) (dn_store e)\<rparr>))))))"

fun enrich_device_batch ::
  "fromiso \<Rightarrow> (string \<Rightarrow> string) \<Rightarrow> (pyval \<Rightarrow> string) \<Rightarrow> (pyexn \<Rightarrow> string) \<Rightarrow> (pyval, txn_dict) dict \<Rightarrow> (datetime \<times> txn_dict) list \<Rightarrow> device_enricher
   \<Rightarrow> device_result list res \<times> device_enricher" where
  "enrich_device_batch fromiso sha str show_exn profiles [] e = (Inr [], e)"
| "enrich_device_batch fromiso sha str show_exn profiles ((clock, txn) # txns) e =
     (let c = dget_or txn ''customer_id'' (PStr [])
      in if \<not> hashable c then (Inl TypeError, e)
         else (let (r, e1) = enrich_device fromiso sha str show_exn clock txn (dget_or profiles c []) e;
                   (rs, e2) = enrich_device_batch fromiso sha str show_exn profiles txns e1
               in (res_bind rs (\<lambda>xs. Inr (r # xs)), e2)))"

section \<open>Merchants\<close>

record merchant_history =
  mh_merchant_name :: pyval
  mh_mcc :: pyval
  mh_first_seen :: py_time
  mh_last_seen :: py_time
  mh_total_transactions :: int
  mh_fraud_count :: int
  mh_fraud_rate :: real

type_synonym merchant_store = "(pyval, merchant_history) dict"

definition get_merchant_history :: "merchant_store \<Rightarrow> pyval \<Rightarrow> merchant_history option" where
  "get_merchant_history s i = dget s i"

definition rated :: "merchant_history \<Rightarrow> merchant_history" where
  "rated h = (if 0 < mh_total_transactions h then h\<lparr>mh_fraud_rate := of_int (mh_fraud_count h) / of_int (mh_total_transactions h)\<rparr> else h)"

definition record_merchant_transaction :: "pyval \<Rightarrow> pyval \<times> pyval \<times> py_time \<Rightarrow> merchant_store \<Rightarrow> merchant_store" where
  "record_merchant_transaction i nmt s =
     (let (name, mcc, t) = nmt
      in case dget s i of
           None \<Rightarrow> dset i \<lparr>mh_merchant_name = name, mh_mcc = mcc, mh_first_seen = t, mh_last_seen = t, mh_total_transactions = 1, mh_fraud_count = 0, mh_fraud_rate = 0\<rparr> s
         | Some h \<Rightarrow> dset i (rated (h\<lparr>mh_last_seen := t, mh_total_transactions := mh_total_transactions h + 1\<rparr>)) s)"

definition record_merchant_fraud :: "pyval \<Rightarrow> merchant_store \<Rightarrow> merchant_store" where
  "record_merchant_fraud i s = (case dget s i of None \<Rightarrow> s | Some h \<Rightarrow> dset i (rated (h\<lparr>mh_fraud_count := mh_fraud_count h + 1\<rparr>)) s)"

record merchant_info =
  mi_merchant_id :: pyval
  mi_merchant_name :: pyval
  mi_mcc :: pyval
  mi_category_name :: pyval
  mi_risk_category :: pyval
  mi_first_seen :: "py_time option"
  mi_total_transactions :: int
  mi_fraud_count :: int
  mi_fraud_rate :: real

record merchant_result =
  me_info :: "merchant_info option"
  me_mcc_risk_score :: pyval
  me_fraud_rate :: real
  me_is_high_fraud :: bool
  me_is_new_merchant :: bool
  me_age_days :: "real option"
  me_risk_score :: real
  me_error :: "string option"

definition new_merchant_result :: merchant_result where
  "new_merchant_result =
     \<lparr>me_info = None, me_mcc_risk_score = PFloat 0, me_fraud_rate = 0, me_is_high_fraud = False, me_is_new_merchant = True, me_age_days = None,
      me_risk_score = 0, me_error = None\<rparr>"

definition merchant_to_dict :: "merchant_result \<Rightarrow> (string, pyval) dict" where
  "merchant_to_dict r =
     (let get = (\<lambda>f dflt. case me_info r of None \<Rightarrow> dflt | Some i \<Rightarrow> f i)
      in [(''merchant_id'', get mi_merchant_id PNone), (''merchant_name'', get mi_merchant_name PNone), (''merchant_mcc'', get mi_mcc PNone),
          (''merchant_category_name'', get mi_category_name PNone), (''merchant_risk_category'', get mi_risk_category (PStr ''unknown'')),
          (''merchant_mcc_risk_score'', me_mcc_risk_score r), (''merchant_fraud_rate'', PFloat (me_fraud_rate r)),
          (''merchant_is_high_fraud'', PBool (me_is_high_fraud r)), (''merchant_is_new'', PBool (me_is_new_merchant r)),
          (''merchant_age_days'', opt_float (me_age_days r)), (''merchant_risk_score'', PFloat (me_risk_score r))])"

record merchant_enricher =
  mn_store :: merchant_store
  mn_high_fraud_threshold :: real
  mn_new_merchant_threshold_days :: real
  mn_mcc_categories :: "(string, pyval) dict"

definition mcc_default :: "real \<Rightarrow> string \<Rightarrow> string \<Rightarrow> pyval" where
  "mcc_default score name level = PDict [(''risk_score'', PFloat score), (''category_name'', PStr name), (''risk_level'', PStr level)]"

definition get_mcc_info :: "merchant_enricher \<Rightarrow> pyval \<Rightarrow> pyval res" where
  "get_mcc_info e mcc =
     (if \<not> py_bool mcc then Inr (mcc_default (1 / 2) ''Unknown'' ''medium'')
      else (case mcc of
              PStr s \<Rightarrow>
                (case dget (mn_mcc_categories e) s of
                   Some v \<Rightarrow> Inr v
                 | None \<Rightarrow>
                     (case dget (mn_mcc_categories e) (take 2 s @ ''xx'') of
                        Some v \<Rightarrow> Inr v
                      | None \<Rightarrow> Inr (mcc_default (3 / 10) ''General'' ''low'')))
            | _ \<Rightarrow> Inl TypeError))"

definition merchant_risk_score :: "merchant_result \<Rightarrow> real res" where
  "merchant_risk_score r =
     res_bind (num_arg (me_mcc_risk_score r)) (\<lambda>mcc.
       Inr (min 1 (4 / 10 * mcc + 3 / 10 * min 1 (me_fraud_rate r / (20 / 100)) + (if me_is_new_merchant r then 2 / 10 * (6 / 10) else 0) +
                   (case me_info r of None \<Rightarrow> 1 / 10 | Some i \<Rightarrow> if py_bool (mi_mcc i) then 0 else 1 / 10))))"

definition merchant_from_history :: "datetime \<Rightarrow> merchant_enricher \<Rightarrow> merchant_info \<Rightarrow> merchant_history \<Rightarrow> merchant_result \<Rightarrow> pyexn option \<times> merchant_result" where
  "merchant_from_history clock e info h r =
     (let r1 = r\<lparr>me_fraud_rate := mh_fraud_rate h, me_is_high_fraud := mn_high_fraud_threshold e \<le> mh_fraud_rate h\<rparr>
      in case time_diff (utc_now clock) (mh_first_seen h) of
           Inl ex \<Rightarrow> (Some ex, r1)
         | Inr s \<Rightarrow>
             (let age = s / 86400
              in (None, r1\<lparr>me_age_days := Some age, me_is_new_merchant := age < mn_new_merchant_threshold_days e,
                           me_info := Some (info\<lparr>mi_first_seen := Some (mh_first_seen h), mi_total_transactions := mh_total_transactions h,
                                                 mi_fraud_count := mh_fraud_count h, mi_fraud_rate := mh_fraud_rate h\<rparr>)\<rparr>)))"

definition enrich_merchant ::
  "fromiso \<Rightarrow> (pyexn \<Rightarrow> string) \<Rightarrow> datetime \<Rightarrow> txn_dict \<Rightarrow> merchant_enricher \<Rightarrow> merchant_result \<times> merchant_enricher" where
  "enrich_merchant fromiso show_exn clock txn e =
     (let i = dget_or txn ''merchant_id'' (PStr []); name = dget_or txn ''merchant_name'' (PStr []); mcc = dget_or txn ''merchant_category_code'' (PStr []);
          failed = (\<lambda>ex r. (r\<lparr>me_error := Some (show_exn ex)\<rparr>, e))
      in if \<not> py_bool i then (new_merchant_result\<lparr>me_risk_score := 1 / 2\<rparr>, e)
         else case get_mcc_info e mcc of
           Inl ex \<Rightarrow> failed ex new_merchant_result
         | Inr (PDict d) \<Rightarrow>
             (let r1 = new_merchant_result\<lparr>me_mcc_risk_score := dget_or d ''risk_score'' (PFloat (3 / 10))\<rparr>;
                  info = \<lparr>mi_merchant_id = i, mi_merchant_name = name, mi_mcc = mcc, mi_category_name = dget_or d ''category_name'' (PStr ''Unknown''),
                          mi_risk_category = dget_or d ''risk_level'' (PStr ''medium''), mi_first_seen = None, mi_total_transactions = 0, mi_fraud_count = 0,
                          mi_fraud_rate = 0\<rparr>
              in if \<not> hashable i then failed TypeError r1
                 else (let (ex2, r2) = (case get_merchant_history (mn_store e) i of
                                          Some h \<Rightarrow> merchant_from_history clock e info h r1
                                        | None \<Rightarrow> (None, r1\<lparr>me_is_new_merchant := True, me_age_days := Some 0, me_info := Some info\<rparr>))
                       in case ex2 of
                            Some ex \<Rightarrow> failed ex r2
                          | None \<Rightarrow>
                              (case merchant_risk_score r2 of
                                 Inl ex \<Rightarrow> failed ex r2
                               | Inr s \<Rightarrow>
                                   (let r3 = r2\<lparr>me_risk_score := s\<rparr>
                                    in case parse_activity_time fromiso clock (pget txn ''transaction_timestamp'') of
                                         Inl ex \<Rightarrow> failed ex r3
                                       | Inr t \<Rightarrow> (r3, e\<lparr>mn_store := record_merchant_transaction i (name, mcc, t) (mn_store e)\<rparr>)))))
         | Inr _ \<Rightarrow> failed AttributeError new_merchant_result)"

fun enrich_merchant_batch :: "fromiso \<Rightarrow> (pyexn \<Rightarrow> string) \<Rightarrow> (datetime \<times> txn_dict) list \<Rightarrow> merchant_enricher \<Rightarrow> merchant_result list \<times> merchant_enricher" where
  "enrich_merchant_batch fromiso show_exn [] e = ([], e)"
| "enrich_merchant_batch fromiso show_exn ((clock, txn) # txns) e =
     (let (r, e1) = enrich_merchant fromiso show_exn clock txn e; (rs, e2) = enrich_merchant_batch fromiso show_exn txns e1 in (r # rs, e2))"

section \<open>The contract of a store\<close>

text \<open>
  A store of histories: recording an activity under a key counts one more there and touches no other key. After any sequence of activities
  the count of a key is the number of its activities.
\<close>

locale history_store =
  fixes find :: "'s \<Rightarrow> 'k \<Rightarrow> 'h option"
    and note_activity :: "'k \<Rightarrow> 'a \<Rightarrow> 's \<Rightarrow> 's"
    and count :: "'h \<Rightarrow> int"
  assumes note_same: "map_option count (find (note_activity k a s) k) = Some (case find s k of None \<Rightarrow> 1 | Some h \<Rightarrow> count h + 1)"
    and note_other: "j \<noteq> k \<Longrightarrow> find (note_activity k a s) j = find s j"
begin

definition activity :: "'s \<Rightarrow> 'k \<Rightarrow> int" where
  "activity s k = (case find s k of None \<Rightarrow> 0 | Some h \<Rightarrow> count h)"

lemma activity_note: "activity (note_activity k a s) j = activity s j + (if j = k then 1 else 0)"
  using note_same [of k a s] note_other [of j k a s] by (cases "j = k") (auto simp: activity_def split: option.splits)

lemma activity_run: "activity (fold (\<lambda>(k, a). note_activity k a) es s) j = activity s j + int (length (filter (\<lambda>(k, a). k = j) es))"
  by (induction es arbitrary: s) (auto simp: activity_note)

lemma unseen_run: "find s j = None \<Longrightarrow> \<forall>(k, a) \<in> set es. k \<noteq> j \<Longrightarrow> find (fold (\<lambda>(k, a). note_activity k a) es s) j = None"
  by (induction es arbitrary: s) (auto simp: note_other)

end

interpretation device_book: history_store get_device_history record_device_activity dh_transaction_count
  by unfold_locales (auto simp: get_device_history_def record_device_activity_def seen_again_def Let_def dict_simps split: option.splits prod.splits)

interpretation merchant_book: history_store get_merchant_history record_merchant_transaction mh_total_transactions
  by unfold_locales (auto simp: get_merchant_history_def record_merchant_transaction_def rated_def Let_def dict_simps split: option.splits prod.splits)

end
