(* ===== verification/Enrichers_Properties.thy ===== *)
theory Enrichers_Properties
  imports Enrichers
begin

text \<open>
  The device and merchant stores count exactly; the trust of a device has a closed form; device risk scores stay in the unit interval; the travel
  check flags exactly the speeds above the threshold, except over intervals that are too short; and a device first seen at a naive time can
  never be enriched again.
\<close>

declare map_of_eq_Some_iff [simp del] Some_eq_map_of_iff [simp del]

section \<open>Trust\<close>

definition trust_after :: "int \<Rightarrow> real" where
  "trust_after n = min 1 (1 / 2 + (of_int n * (of_int n + 1) / 2 - 1) / 100)"

lemma min_min_add: "0 \<le> y \<Longrightarrow> min 1 (min 1 x + y) = min 1 (x + y)" for x y :: real
  by (auto simp: min_def)

lemma trust_step:
  assumes "0 \<le> n"
  shows "min 1 (trust_after n + 1 / 100 * of_int (n + 1)) = trust_after (n + 1)"
proof -
  have "1 / 2 + (of_int n * (of_int n + 1) / 2 - 1) / 100 + 1 / 100 * of_int (n + 1) = 1 / 2 + (of_int (n + 1) * (of_int (n + 1) + 1) / 2 - (1 :: real)) / 100"
    by (simp add: field_simps)
  moreover have "0 \<le> 1 / 100 * (of_int (n + 1) :: real)" using assms by simp
  ultimately show ?thesis unfolding trust_after_def by (simp only: min_min_add)
qed

definition device_run :: "(pyval \<times> pyval \<times> py_time) list \<Rightarrow> device_store" where
  "device_run es = fold (\<lambda>(d, ct). record_device_activity d ct) es new_device_store"

lemma device_run_snoc: "device_run (es @ [(d, ct)]) = record_device_activity d ct (device_run es)"
  by (simp add: device_run_def)

lemma record_get:
  "get_device_history (record_device_activity d ct s) j =
     (if j = d then Some (case get_device_history s d of
         None \<Rightarrow> \<lparr>dh_first_seen = snd ct, dh_last_seen = snd ct, dh_customer_ids = [fst ct], dh_transaction_count = 1, dh_trust_score = 1 / 2\<rparr>
       | Some h \<Rightarrow> seen_again (fst ct) (snd ct) h) else get_device_history s j)"
  by (simp add: get_device_history_def record_device_activity_def Let_def dict_simps split: prod.splits option.splits)

lemma device_run_trust:
  "get_device_history (device_run es) d = Some h \<Longrightarrow> 1 \<le> dh_transaction_count h \<and> dh_trust_score h = trust_after (dh_transaction_count h)"
proof (induction es arbitrary: h rule: rev_induct)
  case Nil
  then show ?case by (simp add: device_run_def get_device_history_def new_device_store_def)
next
  case (snoc e es)
  obtain k ct where e: "e = (k, ct)" by (cases e)
  show ?case
  proof (cases "d = k")
    case False
    then show ?thesis using snoc by (simp add: e device_run_snoc record_get)
  next
    case True
    show ?thesis
    proof (cases "get_device_history (device_run es) k")
      case None
      then have "h = \<lparr>dh_first_seen = snd ct, dh_last_seen = snd ct, dh_customer_ids = [fst ct], dh_transaction_count = 1, dh_trust_score = 1 / 2\<rparr>"
        using snoc.prems True by (simp add: e device_run_snoc record_get)
      then show ?thesis by (simp add: trust_after_def)
    next
      case (Some g)
      then have h: "h = seen_again (fst ct) (snd ct) g" using snoc.prems True by (simp add: e device_run_snoc record_get)
      from snoc.IH [of g] Some True have g: "1 \<le> dh_transaction_count g" "dh_trust_score g = trust_after (dh_transaction_count g)" by auto
      then show ?thesis using trust_step [of "dh_transaction_count g"] by (simp add: h seen_again_def Let_def)
    qed
  qed
qed

text \<open>
  Claim C27 (the trust of a device). After any sequence of activities, a device that occurs among them has been counted once for each of its own, and its
  trust is a half plus a hundredth of the rank of each use from the second on, at most one: it reaches one with the tenth use.
\<close>

theorem device_trust_exact:
  assumes "n = length (filter (\<lambda>(k, ct). k = d) es)" "0 < n"
  shows "\<exists>h. get_device_history (device_run es) d = Some h \<and> dh_transaction_count h = int n \<and>
    dh_trust_score h = min 1 (1 / 2 + (real n * (real n + 1) / 2 - 1) / 100) \<and> (dh_trust_score h = 1 \<longleftrightarrow> 10 \<le> n)"
proof -
  have "device_book.activity new_device_store d = 0"
    by (simp add: device_book.activity_def get_device_history_def new_device_store_def)
  then have a: "device_book.activity (device_run es) d = int n"
    unfolding device_run_def device_book.activity_run assms(1) by simp
  then obtain h where h: "get_device_history (device_run es) d = Some h" "dh_transaction_count h = int n"
    using assms(2) by (auto simp: device_book.activity_def split: option.splits)
  have t: "dh_trust_score h = min 1 (1 / 2 + (real n * (real n + 1) / 2 - 1) / 100)"
    using device_run_trust [OF h(1)] by (simp add: h(2) trust_after_def)
  have "102 \<le> real n * (real n + 1) \<longleftrightarrow> 10 \<le> n"
  proof
    assume "102 \<le> real n * (real n + 1)"
    then have "102 \<le> real (n * (n + 1))" by (simp add: algebra_simps)
    then have "102 \<le> n * (n + 1)" by linarith
    then show "10 \<le> n"
    proof (rule contrapos_pp)
      assume "\<not> 10 \<le> n"
      then have "n \<le> 9" by simp
      then have "n * (n + 1) \<le> 9 * 10" by (intro mult_mono) auto
      then show "\<not> 102 \<le> n * (n + 1)" by simp
    qed
  next
    assume "10 \<le> n"
    then have "10 * 11 \<le> real n * (real n + 1)" by (intro mult_mono) auto
    then show "102 \<le> real n * (real n + 1)" by simp
  qed
  then have "dh_trust_score h = 1 \<longleftrightarrow> 10 \<le> n" unfolding t by (auto simp: min_def field_simps)
  then show ?thesis using h t by blast
qed

theorem device_trust_exact_witness:
  "\<exists>h. get_device_history (device_run (replicate 10 (PStr ''d'', PStr ''c'', (0, Some 0)))) (PStr ''d'') = Some h \<and> dh_transaction_count h = 10 \<and> dh_trust_score h = 1"
  using device_trust_exact [of 10 "PStr ''d''" "replicate 10 (PStr ''d'', PStr ''c'', (0, Some 0))"] by simp

section \<open>Risk\<close>

lemma device_risk_bounds: "0 \<le> device_risk_score r \<and> device_risk_score r \<le> 1"
  by (auto simp: device_risk_score_def Let_def split: option.splits)

lemma history_keeps_risk: "device_from_history clock e c h r = (x, r') \<Longrightarrow> de_risk_score r' = de_risk_score r"
  by (auto simp: device_from_history_def Let_def split: if_splits sum.splits)

text \<open>
  Remark (device risk scores are probabilities). Whatever the transaction, the profile and the store, the risk score an enrichment reports lies between zero and
  one, on the error paths too.
\<close>

theorem device_risk_in_unit_interval:
  "0 \<le> de_risk_score (fst (enrich_device fromiso sha str show_exn clock txn profile e)) \<and>
   de_risk_score (fst (enrich_device fromiso sha str show_exn clock txn profile e)) \<le> 1"
proof -
  have "de_risk_score (snd (case get_device_history (dn_store e) d of
      Some h \<Rightarrow> device_from_history clock e c h r1
    | None \<Rightarrow> (None, r1\<lparr>de_is_known_device := False, de_is_new_device := True, de_device_age_days := Some 0, de_trust_score := 3 / 10\<rparr>))) = de_risk_score r1" for d c r1
    using history_keeps_risk by (auto split: option.splits) (metis prod.collapse)
  then show ?thesis
    using device_risk_bounds
    by (auto simp: enrich_device_def Let_def case_prod_beta new_device_result_def split: sum.splits option.splits if_splits)
qed

section \<open>Merchants\<close>

datatype merchant_op = Transaction pyval "pyval \<times> pyval \<times> py_time" | Fraud pyval

primrec merchant_step :: "merchant_op \<Rightarrow> merchant_store \<Rightarrow> merchant_store" where
  "merchant_step (Transaction i a) s = record_merchant_transaction i a s"
| "merchant_step (Fraud i) s = record_merchant_fraud i s"

definition transactions_of :: "pyval \<Rightarrow> merchant_op list \<Rightarrow> int" where
  "transactions_of i ops = int (length (filter (\<lambda>x. case x of Transaction j a \<Rightarrow> j = i | Fraud j \<Rightarrow> False) ops))"

definition frauds_of :: "pyval \<Rightarrow> merchant_op list \<Rightarrow> int" where
  "frauds_of i ops =
     int (length (filter (\<lambda>x. case x of Fraud j \<Rightarrow> j = i | Transaction j a \<Rightarrow> False) (dropWhile (\<lambda>x. case x of Transaction j a \<Rightarrow> j \<noteq> i | Fraud j \<Rightarrow> True) ops)))"

lemma transactions_of_snoc: "transactions_of i (ops @ [x]) = transactions_of i ops + (case x of Transaction j a \<Rightarrow> if j = i then 1 else 0 | Fraud j \<Rightarrow> 0)"
  by (auto simp: transactions_of_def split: merchant_op.splits)

lemma frauds_of_snoc:
  "frauds_of i (ops @ [x]) = frauds_of i ops + (case x of Fraud j \<Rightarrow> if j = i \<and> 0 < transactions_of i ops then 1 else 0 | Transaction j a \<Rightarrow> 0)"
proof (cases "\<exists>y \<in> set ops. \<not> (case y of Transaction j a \<Rightarrow> j \<noteq> i | Fraud j \<Rightarrow> True)")
  case True
  then obtain y where y: "y \<in> set ops" "\<not> (case y of Transaction j a \<Rightarrow> j \<noteq> i | Fraud j \<Rightarrow> True)" by blast
  then have "y \<in> set (filter (\<lambda>x. case x of Transaction j a \<Rightarrow> j = i | Fraud j \<Rightarrow> False) ops)" by (auto split: merchant_op.splits)
  then have "0 < transactions_of i ops" unfolding transactions_of_def using length_pos_if_in_set by fastforce
  then show ?thesis using dropWhile_append1 [of y ops "\<lambda>y. case y of Transaction j a \<Rightarrow> j \<noteq> i | Fraud j \<Rightarrow> True", OF y] by (auto simp: frauds_of_def split: merchant_op.splits)
next
  case False
  then have "dropWhile (\<lambda>x. case x of Transaction j a \<Rightarrow> j \<noteq> i | Fraud j \<Rightarrow> True) (ops @ [x]) =
      dropWhile (\<lambda>x. case x of Transaction j a \<Rightarrow> j \<noteq> i | Fraud j \<Rightarrow> True) [x]" by (subst dropWhile_append2) auto
  moreover have "frauds_of i ops = 0" using False by (auto simp: frauds_of_def dropWhile_eq_Nil_conv [THEN iffD2])
  moreover have "transactions_of i ops = 0" using False by (force simp: transactions_of_def filter_empty_conv split: merchant_op.splits)
  ultimately show ?thesis by (auto simp: frauds_of_def split: merchant_op.splits)
qed

text \<open>
  Remark (fraud rates are exact). After any sequence of transactions and fraud reports on an empty store, a merchant is known exactly when it had a transaction; its
  total is the number of its transactions, its fraud count the number of reports since the first of them, and its rate their quotient.
\<close>

theorem merchant_rate_exact:
  "case get_merchant_history (fold merchant_step ops []) i of
     None \<Rightarrow> transactions_of i ops = 0
   | Some h \<Rightarrow> 0 < transactions_of i ops \<and> mh_total_transactions h = transactions_of i ops \<and> mh_fraud_count h = frauds_of i ops \<and>
              mh_fraud_rate h = of_int (frauds_of i ops) / of_int (transactions_of i ops)"
proof (induction ops rule: rev_induct)
  case Nil
  then show ?case by (simp add: get_merchant_history_def transactions_of_def)
next
  case (snoc x ops)
  have "frauds_of i ops = 0" if "transactions_of i ops = 0"
  proof -
    have "\<forall>y \<in> set ops. case y of Transaction j a \<Rightarrow> j \<noteq> i | Fraud j \<Rightarrow> True"
      using that by (auto simp: transactions_of_def filter_empty_conv split: merchant_op.splits)
    then show ?thesis by (simp add: frauds_of_def dropWhile_eq_Nil_conv [THEN iffD2])
  qed
  then show ?case
    using snoc
    by (cases x) (auto simp: get_merchant_history_def record_merchant_transaction_def record_merchant_fraud_def rated_def Let_def dict_simps
        transactions_of_snoc frauds_of_snoc split: option.splits if_splits prod.splits)
qed

section \<open>Travel\<close>

text \<open>
  Remark (impossible travel). With a location, a risk score and a readable last transaction at an aware time, travel is flagged exactly when the two times are at
  least 3.6 seconds apart and the distance over the time between them exceeds the threshold.
\<close>

theorem impossible_travel_exact:
  assumes "geo_lookup (gn_provider g) txn = Inr (Some l)" "score_country_risk g (gl_country_code l) = Inr s" "home_distance profile l = Inr d"
    and "to_float (pget last_txn ''geo_latitude'') = Inr x" "to_float (pget last_txn ''geo_longitude'') = Inr y"
    and "pget last_txn ''transaction_timestamp'' = PTime w (Some z)" "pget last_txn ''_current_timestamp'' = PTime w' (Some z')"
  shows "ge_is_impossible_travel (enrich_geo fromiso show_exn clock txn profile last_txn g) =
    (18 / 5 \<le> \<bar>total_seconds (w' - z') (w - z)\<bar> \<and>
     gn_impossible_speed g < haversine_distance x y (gl_latitude l) (gl_longitude l) / (\<bar>total_seconds (w' - z') (w - z)\<bar> / 3600))"
proof -
  have ne: "pget last_txn ''geo_latitude'' \<noteq> PNone" "pget last_txn ''geo_longitude'' \<noteq> PNone" "last_txn \<noteq> []"
    using assms(4-6) by (auto simp: pget_def dget_or_def)
  show ?thesis
    using assms ne by (auto simp: enrich_geo_def calculate_travel_speed_def travel_now_def new_geo_result_def Let_def not_less)
qed

definition geo_demo :: geo_enricher where
  "geo_demo = \<lparr>gn_provider = TransactionFields, gn_impossible_speed = 500, gn_risk_countries = []\<rparr>"

definition geo_demo_txn :: txn_dict where
  "geo_demo_txn = [(''geo_latitude'', PInt 0), (''geo_longitude'', PInt 0), (''geo_country'', PStr ''US'')]"

theorem impossible_travel_exact_witness:
  "ge_is_impossible_travel (enrich_geo (\<lambda>_. None) (\<lambda>_. []) 0 geo_demo_txn []
     (geo_demo_txn @ [(''transaction_timestamp'', PTime 0 (Some 0)), (''_current_timestamp'', PTime 3600000000 (Some 0))]) geo_demo) =
   (18 / 5 \<le> \<bar>total_seconds (3600000000 - 0) (0 - 0)\<bar> \<and> 500 < haversine_distance 0 0 0 0 / (\<bar>total_seconds (3600000000 - 0) (0 - 0)\<bar> / 3600))"
proof -
  define l where "l = \<lparr>gl_country_code = PStr ''US'', gl_country_name = PStr ''US'', gl_city = PStr [], gl_latitude = 0, gl_longitude = 0, gl_is_vpn = False, gl_is_proxy = False, gl_is_tor = False\<rparr>"
  have "geo_lookup (gn_provider geo_demo) geo_demo_txn = Inr (Some l)"
    by (simp add: geo_lookup_def geo_demo_def lookup_fields_def geo_demo_txn_def pget_def dget_or_def l_def Let_def)
  from impossible_travel_exact [OF this, of "1 / 10" "[]" None "geo_demo_txn @ [(''transaction_timestamp'', PTime 0 (Some 0)), (''_current_timestamp'', PTime 3600000000 (Some 0))]" 0 0 0 0 3600000000 0]
  show ?thesis
    by (simp add: l_def score_country_risk_def geo_demo_def home_distance_def geo_demo_txn_def pget_def dget_or_def)
qed

section \<open>Naive times\<close>

text \<open>
  Remark (a naive first time poisons a device). Once the first activity of a device was recorded at a time without an offset, as the text of a
  time without a zone is read, every later enrichment of the device fails with a TypeError and records nothing.
\<close>

theorem naive_first_seen_poisons:
  assumes "get_device_history (dn_store e) d = Some h" "snd (dh_first_seen h) = None"
    and "dget txn ''device_id'' = Some d" "py_bool d" "hashable d" "hashable (dget_or txn ''customer_id'' (PStr []))"
    and "dget txn ''device_type'' = Some (PStr ty)"
  shows "\<exists>r. enrich_device fromiso sha str show_exn clock txn profile e = (r, e) \<and> de_error r = Some (show_exn TypeError)"
proof -
  obtain w where w: "dh_first_seen h = (w, None)" using assms(2) by (cases "dh_first_seen h") simp
  show ?thesis
    using assms by (auto simp: enrich_device_def parse_device_info_def device_from_history_def dget_or_def utc_now_def w Let_def)
qed

definition device_demo :: device_enricher where
  "device_demo = \<lparr>dn_store = new_device_store, dn_new_device_threshold_days = 1, dn_multi_account_threshold = 3\<rparr>"

definition device_demo_txn :: txn_dict where
  "device_demo_txn = [(''device_id'', PStr ''d''), (''customer_id'', PStr ''c''), (''device_type'', PStr ''mobile''), (''transaction_timestamp'', PStr ''t'')]"

theorem naive_first_seen_poisons_witness:
  "\<exists>r1 e1 r2. enrich_device (\<lambda>_. Some (0, None)) (\<lambda>s. s) (\<lambda>_. []) (\<lambda>_. ''bad'') 0 device_demo_txn [] device_demo = (r1, e1) \<and> de_error r1 = None \<and>
     enrich_device (\<lambda>_. Some (0, None)) (\<lambda>s. s) (\<lambda>_. []) (\<lambda>_. ''bad'') 1 device_demo_txn [] e1 = (r2, e1) \<and> de_error r2 = Some ''bad''"
proof -
  obtain r1 e1 where e1: "enrich_device (\<lambda>_. Some (0, None)) (\<lambda>s. s) (\<lambda>_. []) (\<lambda>_. ''bad'') 0 device_demo_txn [] device_demo = (r1, e1)" by fastforce
  then have s: "de_error r1 = None" "e1 = device_demo\<lparr>dn_store := record_device_activity (PStr ''d'') (PStr ''c'', (0, None)) new_device_store\<rparr>"
    by (auto simp: enrich_device_def device_demo_txn_def device_demo_def parse_device_info_def get_device_history_def new_device_store_def known_to_profile_def
        new_device_result_def pget_def dget_or_def Let_def)
  then have "\<exists>h. get_device_history (dn_store e1) (PStr ''d'') = Some h \<and> snd (dh_first_seen h) = None"
    by (simp add: record_get) (simp add: get_device_history_def new_device_store_def)
  then obtain h where h: "get_device_history (dn_store e1) (PStr ''d'') = Some h" "snd (dh_first_seen h) = None" by blast
  have "\<exists>r2. enrich_device (\<lambda>_. Some (0, None)) (\<lambda>s. s) (\<lambda>_. []) (\<lambda>_. ''bad'') 1 device_demo_txn [] e1 = (r2, e1) \<and> de_error r2 = Some ''bad''"
    by (rule naive_first_seen_poisons [OF h]) (simp_all add: device_demo_txn_def dget_or_def)
  then show ?thesis using e1 s(1) by blast
qed

end
