(* ===== verification/Rule_Audit.thy ===== *)
theory Rule_Audit
  imports Py_Text
begin

text \<open>
  The stateful helpers of the business rules engine of \<^verbatim>\<open>src/validation/rules_engine.py\<close>: the velocity tracker and
  the audit trail with its two indices and its counters. Evaluation records are kept without their time stamp and
  duration.
\<close>

section \<open>Enumerations and records\<close>

datatype rule_action = RA_BLOCK | RA_FLAG | RA_ALLOW

datatype rule_severity = RS_LOW | RS_MEDIUM | RS_HIGH | RS_CRITICAL

datatype outcome = EO_TRIGGERED | EO_PASSED | EO_SKIPPED | EO_ERROR

primrec action_value :: "rule_action \<Rightarrow> string" where
  "action_value RA_BLOCK = ''block''"
| "action_value RA_FLAG = ''flag''"
| "action_value RA_ALLOW = ''allow''"

primrec severity_value_rs :: "rule_severity \<Rightarrow> string" where
  "severity_value_rs RS_LOW = ''low''"
| "severity_value_rs RS_MEDIUM = ''medium''"
| "severity_value_rs RS_HIGH = ''high''"
| "severity_value_rs RS_CRITICAL = ''critical''"

primrec outcome_value :: "outcome \<Rightarrow> string" where
  "outcome_value EO_TRIGGERED = ''triggered''"
| "outcome_value EO_PASSED = ''passed''"
| "outcome_value EO_SKIPPED = ''skipped''"
| "outcome_value EO_ERROR = ''error''"

record eval_record =
  ev_rule_id :: string
  ev_rule_name :: pyval
  ev_rule_version :: pyval
  ev_outcome :: outcome
  ev_action :: "rule_action option"
  ev_severity :: "rule_severity option"
  ev_transaction_id :: pyval
  ev_account_id :: pyval
  ev_details :: "(string, pyval) dict"

definition opt_value :: "('a \<Rightarrow> string) \<Rightarrow> 'a option \<Rightarrow> pyval" where
  "opt_value f x = (case x of None \<Rightarrow> PNone | Some a \<Rightarrow> PStr (f a))"

definition eval_to_dict :: "eval_record \<Rightarrow> (string, pyval) dict" where
  "eval_to_dict e =
     [(''rule_id'', PStr (ev_rule_id e)), (''rule_name'', ev_rule_name e), (''rule_version'', ev_rule_version e),
      (''outcome'', PStr (outcome_value (ev_outcome e))), (''action'', opt_value action_value (ev_action e)),
      (''severity'', opt_value severity_value_rs (ev_severity e)), (''transaction_id'', ev_transaction_id e),
      (''account_id'', ev_account_id e), (''details'', PDict (ev_details e))]"

section \<open>Velocity tracker\<close>

text \<open>The events of an entity, oldest first, at most 10000 of them.\<close>

record tracker =
  vt_max_window :: int
  vt_events :: "(string, (seconds \<times> real) list) dict"

definition new_tracker :: "int \<Rightarrow> tracker" where
  "new_tracker max_window = \<lparr>vt_max_window = max_window, vt_events = []\<rparr>"

definition append_bounded :: "nat \<Rightarrow> 'a \<Rightarrow> 'a list \<Rightarrow> 'a list" where
  "append_bounded n x xs = drop (Suc (length xs) - n) (xs @ [x])"

definition record_event :: "seconds \<Rightarrow> string \<Rightarrow> real \<Rightarrow> seconds option \<Rightarrow> tracker \<Rightarrow> tracker" where
  "record_event clock entity_key amount timestamp tr =
     tr\<lparr>vt_events := dset entity_key (append_bounded 10000 (time_or timestamp clock, amount) (dget_or (vt_events tr) entity_key [])) (vt_events tr)\<rparr>"

text \<open>\<^verbatim>\<open>amount_threshold is None or amount <= amount_threshold\<close>.\<close>

definition below_threshold :: "pyval \<Rightarrow> real \<Rightarrow> bool res" where
  "below_threshold thr amount =
     (case thr of
        PNone \<Rightarrow> Inr True
      | PBool b \<Rightarrow> Inr (amount \<le> (if b then 1 else 0))
      | PInt i \<Rightarrow> Inr (amount \<le> of_int i)
      | PFloat x \<Rightarrow> Inr (amount \<le> x)
      | _ \<Rightarrow> Inl TypeError)"

fun count_events :: "seconds \<Rightarrow> pyval \<Rightarrow> (seconds \<times> real) list \<Rightarrow> nat res" where
  "count_events cutoff thr [] = Inr 0"
| "count_events cutoff thr ((ts, amount) # es) =
     (if cutoff \<le> ts
      then res_bind (below_threshold thr amount) (\<lambda>ok. res_bind (count_events cutoff thr es) (\<lambda>n. Inr (if ok then Suc n else n)))
      else count_events cutoff thr es)"

definition tracker_count ::
  "seconds \<Rightarrow> string \<Rightarrow> int \<Rightarrow> pyval \<Rightarrow> seconds option \<Rightarrow> tracker \<Rightarrow> nat res \<times> tracker" where
  "tracker_count clock entity_key window_seconds thr current_time tr =
     (let now = time_or current_time clock; cutoff = now - of_int window_seconds
      in case dget_or (vt_events tr) entity_key [] of
           [] \<Rightarrow> (Inr 0, tr)
         | e # es \<Rightarrow>
             (let kept = dropWhile (\<lambda>(ts, amount). ts < now - of_int (vt_max_window tr)) (e # es)
              in (count_events cutoff thr kept, tr\<lparr>vt_events := dset entity_key kept (vt_events tr)\<rparr>)))"

definition get_cumulative_amount :: "seconds \<Rightarrow> string \<Rightarrow> int \<Rightarrow> seconds option \<Rightarrow> tracker \<Rightarrow> real" where
  "get_cumulative_amount clock entity_key window_seconds current_time tr =
     (let cutoff = time_or current_time clock - of_int window_seconds
      in sum_list (map snd (filter (\<lambda>(ts, amount). cutoff \<le> ts) (dget_or (vt_events tr) entity_key []))))"

definition tracker_distinct :: "seconds \<Rightarrow> string \<Rightarrow> int \<Rightarrow> seconds option \<Rightarrow> tracker \<Rightarrow> nat" where
  "tracker_distinct clock group_key window_seconds current_time tr =
     (let cutoff = time_or current_time clock - of_int window_seconds
      in card (set (map snd (filter (\<lambda>(ts, amount). cutoff \<le> ts) (dget_or (vt_events tr) group_key [])))))"

definition clear_entity :: "string \<Rightarrow> tracker \<Rightarrow> tracker" where
  "clear_entity entity_key tr = tr\<lparr>vt_events := ddel entity_key (vt_events tr)\<rparr>"

definition tracker_clear_all :: "tracker \<Rightarrow> tracker" where
  "tracker_clear_all tr = tr\<lparr>vt_events := []\<rparr>"

definition tracked_entities :: "tracker \<Rightarrow> nat" where
  "tracked_entities tr = length (vt_events tr)"

section \<open>Audit trail\<close>

record audit_trail =
  at_max_records :: int
  at_records :: "eval_record list"
  at_by_transaction :: "(pyval, eval_record list) dict"
  at_by_rule :: "(string, eval_record list) dict"
  at_stats :: "(string, int) dict"

definition new_audit_trail :: "int \<Rightarrow> audit_trail res" where
  "new_audit_trail max_records =
     (if max_records < 1 then Inl ValueError
      else Inr \<lparr>at_max_records = max_records, at_records = [], at_by_transaction = [], at_by_rule = [], at_stats = []\<rparr>)"

definition stat_key :: "eval_record \<Rightarrow> string" where
  "stat_key e = ev_rule_id e @ '':'' @ outcome_value (ev_outcome e)"

text \<open>The indices are \<^verbatim>\<open>defaultdict(deque)\<close>: taking from a missing entry creates it and then raises.\<close>

definition drop_oldest :: "'k \<Rightarrow> ('k, 'a list) dict \<Rightarrow> unit res \<times> ('k, 'a list) dict" where
  "drop_oldest k d =
     (case dget_or d k [] of
        [] \<Rightarrow> (Inl IndexError, dset k [] d)
      | x # xs \<Rightarrow> (Inr (), if xs = [] then ddel k d else dset k xs d))"

definition index_add :: "'k \<Rightarrow> 'a \<Rightarrow> ('k, 'a list) dict \<Rightarrow> ('k, 'a list) dict" where
  "index_add k x d = dset k (dget_or d k [] @ [x]) d"

definition stat_dec :: "string \<Rightarrow> (string, int) dict \<Rightarrow> (string, int) dict" where
  "stat_dec k d = (let v = dget_or d k 0 - 1 in if v = 0 then ddel k d else dset k v d)"

definition stat_inc :: "string \<Rightarrow> (string, int) dict \<Rightarrow> (string, int) dict" where
  "stat_inc k d = dset k (dget_or d k 0 + 1) d"

text \<open>Forgetting the oldest record of a full trail.\<close>

definition expire_oldest :: "audit_trail \<Rightarrow> unit res \<times> audit_trail" where
  "expire_oldest a =
     (case at_records a of
        [] \<Rightarrow> (Inl IndexError, a)
      | e # es \<Rightarrow>
          if \<not> hashable (ev_transaction_id e) then (Inl TypeError, a)
          else (case drop_oldest (ev_transaction_id e) (at_by_transaction a) of
                  (Inl ex, d1) \<Rightarrow> (Inl ex, a\<lparr>at_by_transaction := d1\<rparr>)
                | (Inr _, d1) \<Rightarrow>
                    (case drop_oldest (ev_rule_id e) (at_by_rule a) of
                       (Inl ex, d2) \<Rightarrow> (Inl ex, a\<lparr>at_by_transaction := d1, at_by_rule := d2\<rparr>)
                     | (Inr _, d2) \<Rightarrow>
                         (Inr (), a\<lparr>at_by_transaction := d1, at_by_rule := d2, at_stats := stat_dec (stat_key e) (at_stats a)\<rparr>))))"

definition record_unlocked :: "eval_record \<Rightarrow> audit_trail \<Rightarrow> unit res \<times> audit_trail" where
  "record_unlocked e a =
     (case (if int (length (at_records a)) = at_max_records a then expire_oldest a else (Inr (), a)) of
        (Inl ex, a1) \<Rightarrow> (Inl ex, a1)
      | (Inr _, a1) \<Rightarrow>
          (let a2 = a1\<lparr>at_records := append_bounded (nat (at_max_records a1)) e (at_records a1)\<rparr>
           in if \<not> hashable (ev_transaction_id e) then (Inl TypeError, a2)
              else (Inr (), a2\<lparr>at_by_transaction := index_add (ev_transaction_id e) e (at_by_transaction a2),
                               at_by_rule := index_add (ev_rule_id e) e (at_by_rule a2),
                               at_stats := stat_inc (stat_key e) (at_stats a2)\<rparr>)))"

fun record_batch :: "eval_record list \<Rightarrow> audit_trail \<Rightarrow> unit res \<times> audit_trail" where
  "record_batch [] a = (Inr (), a)"
| "record_batch (e # es) a =
     (case record_unlocked e a of (Inl ex, a1) \<Rightarrow> (Inl ex, a1) | (Inr _, a1) \<Rightarrow> record_batch es a1)"

definition get_by_transaction :: "pyval \<Rightarrow> audit_trail \<Rightarrow> (string, pyval) dict list" where
  "get_by_transaction transaction_id a = map eval_to_dict (dget_or (at_by_transaction a) transaction_id [])"

definition get_by_rule :: "string \<Rightarrow> int \<Rightarrow> audit_trail \<Rightarrow> (string, pyval) dict list" where
  "get_by_rule rule_id limit a = map eval_to_dict (last_slice limit (dget_or (at_by_rule a) rule_id []))"

definition get_recent :: "int \<Rightarrow> audit_trail \<Rightarrow> (string, pyval) dict list" where
  "get_recent limit a = map eval_to_dict (last_slice limit (at_records a))"

record audit_stats =
  as_total_evaluations :: nat
  as_total_triggered :: int
  as_trigger_rate :: real
  as_unique_transactions :: nat
  as_rules_tracked :: nat
  as_breakdown :: "(string, int) dict"

definition ends_with :: "string \<Rightarrow> string \<Rightarrow> bool" where
  "ends_with p s = starts_with (rev p) (rev s)"

definition audit_get_stats :: "audit_trail \<Rightarrow> audit_stats" where
  "audit_get_stats a =
     (let total = length (at_records a);
          triggered = sum_list (map snd (filter (\<lambda>(k, v). ends_with '':triggered'' k) (at_stats a)))
      in \<lparr>as_total_evaluations = total, as_total_triggered = triggered,
          as_trigger_rate = (if 0 < total then py_round 4 (of_int triggered / real total) else 0),
          as_unique_transactions = length (at_by_transaction a), as_rules_tracked = length (at_by_rule a), as_breakdown = at_stats a\<rparr>)"

definition audit_clear :: "audit_trail \<Rightarrow> audit_trail" where
  "audit_clear a = a\<lparr>at_records := [], at_by_transaction := [], at_by_rule := [], at_stats := []\<rparr>"

definition total_records :: "audit_trail \<Rightarrow> nat" where
  "total_records a = length (at_records a)"

end
