(* ===== verification/Business_Rules.thy ===== *)
theory Business_Rules
  imports Rule_Audit "HOL-Library.Char_ord" "HOL-Library.List_Lexorder"
begin

text \<open>
  The business rules engine of \<^verbatim>\<open>src/validation/rules_engine.py\<close>: rule definitions and their loading, the
  evaluation of conditions, the evaluation of a transaction, and the management of rules. The conditions of one
  evaluation read one time. What lies outside is bundled in the record \<open>rule_env\<close>: the contents of the rules file, the
  YAML parser, \<^verbatim>\<open>str\<close>, \<^verbatim>\<open>hash\<close>, SHA-256, regular expressions, the time zone database, the date of an ISO text, and a
  fresh identifier. Identifiers and categories of rules are texts and priorities integers; another type is a
  TypeError here.
\<close>

record rule_env =
  rn_now :: datetime
  rn_file :: "string option"
  rn_yaml :: "string \<Rightarrow> pyval option"
  rn_sha :: "string \<Rightarrow> string"
  rn_str :: "pyval \<Rightarrow> string"
  rn_hash :: "pyval \<Rightarrow> int"
  rn_regex :: "string \<Rightarrow> string \<Rightarrow> bool res"
  rn_zone :: "string \<Rightarrow> datetime \<Rightarrow> int res"
  rn_iso_date :: "string \<Rightarrow> int option"
  rn_uuid :: string
  rn_show_exn :: "pyexn \<Rightarrow> string"

type_synonym rules_txn = "(string, pyval) dict"

definition clock_seconds :: "rule_env \<Rightarrow> seconds" where
  "clock_seconds env = of_int (rn_now env) / 1000000"

section \<open>Rule definitions\<close>

record rule_def =
  rd_id :: string
  rd_name :: pyval
  rd_description :: pyval
  rd_version :: pyval
  rd_priority :: int
  rd_enabled :: pyval
  rd_severity :: rule_severity
  rd_category :: string
  rd_condition :: pyval
  rd_action :: rule_action
  rd_schedule :: pyval
  rd_tags :: pyval

definition severity_of_rs :: "pyval \<Rightarrow> rule_severity res" where
  "severity_of_rs v =
     (if v = PStr ''low'' then Inr RS_LOW else if v = PStr ''medium'' then Inr RS_MEDIUM
      else if v = PStr ''high'' then Inr RS_HIGH else if v = PStr ''critical'' then Inr RS_CRITICAL else Inl ValueError)"

definition action_of :: "pyval \<Rightarrow> rule_action res" where
  "action_of v =
     (if v = PStr ''block'' then Inr RA_BLOCK else if v = PStr ''flag'' then Inr RA_FLAG
      else if v = PStr ''allow'' then Inr RA_ALLOW else Inl ValueError)"

fun as_int :: "pyval \<Rightarrow> int res" where
  "as_int (PInt i) = Inr i"
| "as_int _ = Inl TypeError"

text \<open>The constructor call of \<^verbatim>\<open>_load_rules\<close> and of \<^verbatim>\<open>add_rule\<close>, which differ in the default category.\<close>

definition rule_from_dict :: "string \<Rightarrow> (string, pyval) dict \<Rightarrow> rule_def res" where
  "rule_from_dict default_category d =
     res_bind (req_str d ''id'') (\<lambda>i.
     res_bind (pindex d ''name'') (\<lambda>name.
     res_bind (as_int (dget_or d ''priority'' (PInt 100))) (\<lambda>priority.
     res_bind (severity_of_rs (dget_or d ''severity'' (PStr ''medium''))) (\<lambda>severity.
     res_bind (as_str (dget_or d ''category'' (PStr default_category))) (\<lambda>category.
     res_bind (pindex d ''condition'') (\<lambda>condition.
     res_bind (action_of (dget_or d ''action'' (PStr ''flag''))) (\<lambda>action.
     Inr \<lparr>rd_id = i, rd_name = name, rd_description = dget_or d ''description'' (PStr []),
          rd_version = dget_or d ''version'' (PStr ''1.0.0''), rd_priority = priority,
          rd_enabled = dget_or d ''enabled'' (PBool True), rd_severity = severity, rd_category = category,
          rd_condition = condition, rd_action = action, rd_schedule = pget d ''schedule'',
          rd_tags = dget_or d ''tags'' (PList [])\<rparr>)))))))"

text \<open>A rule that lacks a field or names an unknown severity or action is left out.\<close>

fun parse_rules :: "pyval list \<Rightarrow> rule_def list res" where
  "parse_rules [] = Inr []"
| "parse_rules (v # vs) =
     (case v of
        PDict d \<Rightarrow>
          (case rule_from_dict ''general'' d of
             Inr r \<Rightarrow> res_bind (parse_rules vs) (\<lambda>rs. Inr (r # rs))
           | Inl ex \<Rightarrow> if ex = KeyError \<or> ex = ValueError then parse_rules vs else Inl ex)
      | _ \<Rightarrow> Inl TypeError)"

section \<open>Conditions\<close>

definition blank :: "pyval \<Rightarrow> bool" where
  "blank v = (v = PNone \<or> v = PStr [])"

definition compare_floats :: "(real \<Rightarrow> real \<Rightarrow> bool) \<Rightarrow> pyval \<Rightarrow> pyval \<Rightarrow> bool res" where
  "compare_floats R actual expected = res_bind (to_float actual) (\<lambda>x. res_bind (to_float expected) (\<lambda>y. Inr (R x y)))"

definition member_of :: "bool \<Rightarrow> pyval \<Rightarrow> pyval \<Rightarrow> bool res" where
  "member_of wanted actual expected =
     (case expected of
        PList vs \<Rightarrow> Inr ((\<exists>v \<in> set vs. py_eq actual v) = wanted)
      | PStr s \<Rightarrow> (case actual of PStr a \<Rightarrow> Inr (has_substring a s = wanted) | _ \<Rightarrow> Inl TypeError)
      | _ \<Rightarrow> Inr False)"

definition compare_values :: "rule_env \<Rightarrow> (string, pyval) dict \<Rightarrow> string \<Rightarrow> pyval \<Rightarrow> pyval \<Rightarrow> bool res" where
  "compare_values env cond operator actual expected =
     (if operator = ''equals'' then Inr (py_eq actual expected)
      else if operator = ''not_equals'' then Inr (\<not> py_eq actual expected)
      else if operator = ''greater_than'' then compare_floats (>) actual expected
      else if operator = ''less_than'' then compare_floats (<) actual expected
      else if operator = ''greater_than_or_equals'' then compare_floats (\<ge>) actual expected
      else if operator = ''less_than_or_equals'' then compare_floats (\<le>) actual expected
      else if operator = ''in'' then member_of True actual expected
      else if operator = ''not_in'' then member_of False actual expected
      else if operator = ''contains'' then Inr (has_substring (rn_str env expected) (rn_str env actual))
      else if operator = ''starts_with'' then Inr (starts_with (rn_str env expected) (rn_str env actual))
      else if operator = ''ends_with'' then Inr (ends_with (rn_str env expected) (rn_str env actual))
      else if operator = ''modulo_equals''
      then res_bind (to_float (dget_or cond ''modulo'' (PInt 1))) (\<lambda>m. res_bind (to_float actual) (\<lambda>x.
             res_bind (float_mod x m) (\<lambda>r. res_bind (to_float expected) (\<lambda>y. Inr (r = y)))))
      else if operator = ''regex_match'' then rn_regex env (rn_str env expected) (rn_str env actual)
      else Inr False)"

definition evaluate_field_condition :: "rule_env \<Rightarrow> (string, pyval) dict \<Rightarrow> rules_txn \<Rightarrow> bool res" where
  "evaluate_field_condition env cond txn =
     (case (pget cond ''field'', pget cond ''operator'') of
        (PStr field_name, PStr operator) \<Rightarrow>
          (let actual = pget txn field_name; expected = pget cond ''value''
           in if operator = ''is_null'' then Inr (blank actual)
              else if operator = ''is_not_null'' then Inr (\<not> blank actual)
              else if actual = PNone \<or> expected = PNone then Inr False
              else compare_values env cond operator actual expected)
      | _ \<Rightarrow> Inr False)"

definition two_ints :: "pyval \<Rightarrow> pyval \<Rightarrow> (int \<times> int) res" where
  "two_ints a b = res_bind (to_int a) (\<lambda>x. res_bind (to_int b) (\<lambda>y. Inr (x, y)))"

definition evaluate_velocity_rule :: "rule_env \<Rightarrow> (string, pyval) dict \<Rightarrow> rules_txn \<Rightarrow> tracker \<Rightarrow> bool res \<times> tracker" where
  "evaluate_velocity_rule env cond txn tr =
     (let entity = pget txn (rn_str env (dget_or cond ''field'' (PStr ''account_id'')))
      in if \<not> py_bool entity then (Inr False, tr)
         else (case two_ints (dget_or cond ''max_count'' (PInt 10)) (dget_or cond ''time_window_seconds'' (PInt 300)) of
                 Inl ex \<Rightarrow> (Inl ex, tr)
               | Inr (max_count, window) \<Rightarrow>
                   (let (r, tr1) = tracker_count (clock_seconds env) (''account:'' @ rn_str env entity) window (pget cond ''amount_threshold'') None tr
                    in (res_bind r (\<lambda>n. Inr (max_count < int n)), tr1))))"

definition evaluate_cumulative_amount :: "rule_env \<Rightarrow> (string, pyval) dict \<Rightarrow> rules_txn \<Rightarrow> tracker \<Rightarrow> bool res" where
  "evaluate_cumulative_amount env cond txn tr =
     (let entity = pget txn (rn_str env (dget_or cond ''field'' (PStr ''account_id'')))
      in if \<not> py_bool entity then Inr False
         else res_bind (to_float (dget_or cond ''max_amount'' (PFloat 100000))) (\<lambda>max_amount.
              res_bind (to_int (dget_or cond ''time_window_seconds'' (PInt 86400))) (\<lambda>window.
              Inr (max_amount < get_cumulative_amount (clock_seconds env) (''account:'' @ rn_str env entity) window None tr))))"

definition evaluate_geo_velocity :: "rules_txn \<Rightarrow> bool" where
  "evaluate_geo_velocity txn =
     (if pget txn ''geo_latitude'' = PNone \<or> pget txn ''geo_longitude'' = PNone then False else False)"

definition evaluate_cardinality :: "rule_env \<Rightarrow> (string, pyval) dict \<Rightarrow> rules_txn \<Rightarrow> tracker \<Rightarrow> bool res" where
  "evaluate_cardinality env cond txn tr =
     (case (pget cond ''group_by'', pget cond ''count_field'') of
        (PStr group_by, PStr count_field) \<Rightarrow>
          res_bind (two_ints (dget_or cond ''max_distinct'' (PInt 3)) (dget_or cond ''time_window_seconds'' (PInt 3600)))
            (\<lambda>(max_distinct, window).
               let group_value = pget txn group_by
               in if \<not> py_bool group_value then Inr False
                  else Inr (max_distinct < int (tracker_distinct (clock_seconds env) (''device:'' @ rn_str env group_value) window None tr)))
      | _ \<Rightarrow> Inr False)"

section \<open>Times\<close>

definition day_names :: "string list" where
  "day_names = [''monday'', ''tuesday'', ''wednesday'', ''thursday'', ''friday'', ''saturday'', ''sunday'']"

definition day_number :: "datetime \<Rightarrow> int" where
  "day_number t = t div 86400000000"

text \<open>The first of January 1970 was a Thursday.\<close>

definition day_name :: "datetime \<Rightarrow> string" where
  "day_name t = day_names ! nat ((day_number t + 3) mod 7)"

fun lower_texts :: "pyval list \<Rightarrow> string list res" where
  "lower_texts [] = Inr []"
| "lower_texts (v # vs) =
     (case v of PStr s \<Rightarrow> res_bind (lower_texts vs) (\<lambda>ss. Inr (ascii_lower s # ss)) | _ \<Rightarrow> Inl AttributeError)"

definition day_active :: "datetime \<Rightarrow> pyval \<Rightarrow> bool res" where
  "day_active now active_days =
     (if \<not> py_bool active_days then Inr True
      else res_bind (py_iter active_days) (\<lambda>vs. res_bind (lower_texts vs) (\<lambda>ds. Inr (day_name now \<in> set ds))))"

text \<open>Minutes since midnight of a text hour:minute.\<close>

definition minutes_of :: "string \<Rightarrow> int res" where
  "minutes_of s =
     (let parts = split_at CHR '':'' s
      in res_bind (to_int (PStr (hd parts))) (\<lambda>h.
         if length parts < 2 then Inl IndexError
         else res_bind (to_int (PStr (parts ! 1))) (\<lambda>m. Inr (h * 60 + m))))"

definition outside_range :: "rule_env \<Rightarrow> (string, pyval) dict \<Rightarrow> pyval \<Rightarrow> bool res" where
  "outside_range env hours tz =
     res_bind (as_str tz) (\<lambda>tz_name.
     res_bind (case rn_zone env tz_name (rn_now env) of Inl ex \<Rightarrow> if ex = KeyError then Inr 0 else Inl ex | Inr z \<Rightarrow> Inr z) (\<lambda>offset.
     case (dget_or hours ''start'' (PStr ''09:00''), dget_or hours ''end'' (PStr ''17:00'')) of
       (PStr s, PStr e) \<Rightarrow>
         res_bind (minutes_of s) (\<lambda>start. res_bind (minutes_of e) (\<lambda>end.
           let current = ((rn_now env + offset) div 60000000) mod 1440
           in Inr (\<not> (start \<le> current \<and> current \<le> end))))
     | _ \<Rightarrow> Inl AttributeError))"

definition evaluate_time_window :: "rule_env \<Rightarrow> (string, pyval) dict \<Rightarrow> bool res" where
  "evaluate_time_window env cond =
     res_bind (day_active (rn_now env) (pget cond ''active_days'')) (\<lambda>ok.
       if \<not> ok then Inr False
       else (let outside_hours = pget cond ''outside_hours''
             in if \<not> py_bool outside_hours then Inr True
                else (case outside_hours of
                        PDict hours \<Rightarrow> outside_range env hours (dget_or cond ''timezone'' (PStr ''UTC''))
                      | _ \<Rightarrow> Inl AttributeError)))"

definition date_of :: "rule_env \<Rightarrow> pyval \<Rightarrow> int res" where
  "date_of env v =
     (case v of PStr s \<Rightarrow> (case rn_iso_date env s of None \<Rightarrow> Inl ValueError | Some d \<Rightarrow> Inr d) | _ \<Rightarrow> Inl TypeError)"

definition is_schedule_active :: "rule_env \<Rightarrow> pyval \<Rightarrow> bool res" where
  "is_schedule_active env schedule =
     (case schedule of
        PDict s \<Rightarrow>
          res_bind (day_active (rn_now env) (pget s ''active_days'')) (\<lambda>ok.
          if \<not> ok then Inr False
          else res_bind (if py_bool (pget s ''start_date'') then res_bind (date_of env (pget s ''start_date'')) (\<lambda>d. Inr (day_number (rn_now env) < d)) else Inr False)
            (\<lambda>early. if early then Inr False
             else res_bind (if py_bool (pget s ''end_date'') then res_bind (date_of env (pget s ''end_date'')) (\<lambda>d. Inr (d < day_number (rn_now env))) else Inr False)
               (\<lambda>late. Inr (\<not> late))))
      | _ \<Rightarrow> Inl AttributeError)"

section \<open>Composite conditions\<close>

text \<open>The loops of \<^verbatim>\<open>_evaluate_and\<close> and \<^verbatim>\<open>_evaluate_or\<close>, which stop at the first answer that decides and at an exception.\<close>

fun all_st :: "('c \<Rightarrow> 's \<Rightarrow> bool res \<times> 's) \<Rightarrow> 'c list \<Rightarrow> 's \<Rightarrow> bool res \<times> 's" where
  "all_st f [] s = (Inr True, s)"
| "all_st f (c # cs) s = (let (r, s1) = f c s in if r = Inr True then all_st f cs s1 else (r, s1))"

fun any_st :: "('c \<Rightarrow> 's \<Rightarrow> bool res \<times> 's) \<Rightarrow> 'c list \<Rightarrow> 's \<Rightarrow> bool res \<times> 's" where
  "any_st f [] s = (Inr False, s)"
| "any_st f (c # cs) s = (let (r, s1) = f c s in if r = Inr False then any_st f cs s1 else (r, s1))"

lemma all_st_cong [fundef_cong]:
  "xs = ys \<Longrightarrow> s = t \<Longrightarrow> (\<And>x u. x \<in> set ys \<Longrightarrow> f x u = g x u) \<Longrightarrow> all_st f xs s = all_st g ys t"
  by (induction ys arbitrary: xs s t) (auto simp: Let_def split: prod.splits)

lemma any_st_cong [fundef_cong]:
  "xs = ys \<Longrightarrow> s = t \<Longrightarrow> (\<And>x u. x \<in> set ys \<Longrightarrow> f x u = g x u) \<Longrightarrow> any_st f xs s = any_st g ys t"
  by (induction ys arbitrary: xs s t) (auto simp: Let_def split: prod.splits)

text \<open>What the loops run over: a list; the elements of a text and the keys of a dictionary are no conditions.\<close>

definition sub_conditions :: "(string, pyval) dict \<Rightarrow> pyval list res" where
  "sub_conditions cond =
     (case dget_or cond ''conditions'' (PList []) of
        PList cs \<Rightarrow> Inr cs
      | PDict d \<Rightarrow> if d = [] then Inr [] else Inl AttributeError
      | PStr t \<Rightarrow> if t = [] then Inr [] else Inl AttributeError
      | _ \<Rightarrow> Inl TypeError)"

lemma size_sub_condition: "sub_conditions cond = Inr cs \<Longrightarrow> c \<in> set cs \<Longrightarrow> size c < size (PDict cond)"
  by (auto simp: sub_conditions_def dget_or_def split: pyval.splits option.splits if_splits
      dest!: map_of_SomeD size_list_elem size_dict_elem simp del: pyval.size)

function evaluate_condition :: "rule_env \<Rightarrow> rules_txn \<Rightarrow> pyval \<Rightarrow> tracker \<Rightarrow> bool res \<times> tracker" where
  "evaluate_condition env txn condition tr =
     (case condition of
        PDict cond \<Rightarrow>
          (let t = pget cond ''type''; operator = pget cond ''operator''
           in if t = PStr ''velocity'' then evaluate_velocity_rule env cond txn tr
              else if t = PStr ''cumulative_amount'' then (evaluate_cumulative_amount env cond txn tr, tr)
              else if t = PStr ''geo_velocity'' then (Inr (evaluate_geo_velocity txn), tr)
              else if t = PStr ''cardinality'' then (evaluate_cardinality env cond txn tr, tr)
              else if t = PStr ''time_window'' then (evaluate_time_window env cond, tr)
              else if operator = PStr ''and''
              then (case sub_conditions cond of Inl ex \<Rightarrow> (Inl ex, tr) | Inr cs \<Rightarrow> all_st (evaluate_condition env txn) cs tr)
              else if operator = PStr ''or''
              then (case sub_conditions cond of Inl ex \<Rightarrow> (Inl ex, tr) | Inr cs \<Rightarrow> any_st (evaluate_condition env txn) cs tr)
              else (evaluate_field_condition env cond txn, tr))
      | _ \<Rightarrow> (Inl AttributeError, tr))"
  by pat_completeness auto
termination
  by (relation "measure (\<lambda>(env, txn, condition, tr). size condition)") (auto intro: size_sub_condition simp del: pyval.size)

declare evaluate_condition.simps [simp del]

section \<open>Evaluation\<close>

record engine_result =
  gr_transaction_id :: pyval
  gr_overall_action :: rule_action
  gr_triggered_rules :: "eval_record list"
  gr_all_evaluations :: "eval_record list"
  gr_total_rules_evaluated :: nat
  gr_total_rules_triggered :: nat
  gr_highest_severity :: "rule_severity option"
  gr_short_circuited :: bool

definition new_engine_result :: "pyval \<Rightarrow> engine_result" where
  "new_engine_result tid =
     \<lparr>gr_transaction_id = tid, gr_overall_action = RA_ALLOW, gr_triggered_rules = [], gr_all_evaluations = [],
      gr_total_rules_evaluated = 0, gr_total_rules_triggered = 0, gr_highest_severity = None, gr_short_circuited = False\<rparr>"

definition engine_result_to_dict :: "engine_result \<Rightarrow> (string, pyval) dict" where
  "engine_result_to_dict r =
     [(''transaction_id'', gr_transaction_id r), (''overall_action'', PStr (action_value (gr_overall_action r))),
      (''triggered_rules'', PList (map (PDict \<circ> eval_to_dict) (gr_triggered_rules r))),
      (''total_rules_evaluated'', PInt (int (gr_total_rules_evaluated r))), (''total_rules_triggered'', PInt (int (gr_total_rules_triggered r))),
      (''highest_severity'', opt_value severity_value_rs (gr_highest_severity r)), (''short_circuited'', PBool (gr_short_circuited r))]"

primrec severity_rank :: "rule_severity \<Rightarrow> nat" where
  "severity_rank RS_LOW = 0"
| "severity_rank RS_MEDIUM = 1"
| "severity_rank RS_HIGH = 2"
| "severity_rank RS_CRITICAL = 3"

definition eval_record_of ::
  "rule_def \<Rightarrow> pyval \<Rightarrow> pyval \<Rightarrow> outcome \<Rightarrow> (string, pyval) dict \<Rightarrow> eval_record" where
  "eval_record_of rule tid aid x details =
     \<lparr>ev_rule_id = rd_id rule, ev_rule_name = rd_name rule, ev_rule_version = rd_version rule, ev_outcome = x,
      ev_action = (if x = EO_TRIGGERED then Some (rd_action rule) else None),
      ev_severity = (if x = EO_TRIGGERED then Some (rd_severity rule) else None),
      ev_transaction_id = tid, ev_account_id = aid, ev_details = details\<rparr>"

definition add_evaluation :: "eval_record \<Rightarrow> engine_result \<Rightarrow> engine_result" where
  "add_evaluation e r = r\<lparr>gr_all_evaluations := gr_all_evaluations r @ [e]\<rparr>"

definition add_triggered :: "rule_def \<Rightarrow> eval_record \<Rightarrow> engine_result \<Rightarrow> engine_result" where
  "add_triggered rule e r =
     r\<lparr>gr_triggered_rules := gr_triggered_rules r @ [e], gr_total_rules_triggered := Suc (gr_total_rules_triggered r),
       gr_overall_action :=
         (if rd_action rule = RA_BLOCK then RA_BLOCK
          else if rd_action rule = RA_FLAG \<and> gr_overall_action r \<noteq> RA_BLOCK then RA_FLAG
          else gr_overall_action r),
       gr_highest_severity :=
         (case gr_highest_severity r of
            None \<Rightarrow> Some (rd_severity rule)
          | Some s \<Rightarrow> if severity_rank s < severity_rank (rd_severity rule) then Some (rd_severity rule) else Some s)\<rparr>"

text \<open>An exception of a condition is recorded; one of a schedule ends the evaluation.\<close>

fun eval_rule_loop ::
  "rule_env \<Rightarrow> bool \<Rightarrow> rules_txn \<Rightarrow> pyval \<Rightarrow> pyval \<Rightarrow> rule_def list \<Rightarrow> engine_result \<Rightarrow> tracker \<Rightarrow> engine_result res \<times> tracker" where
  "eval_rule_loop env short txn tid aid [] r tr = (Inr r, tr)"
| "eval_rule_loop env short txn tid aid (rule # rules) r tr =
     (if \<not> py_bool (rd_enabled rule)
      then eval_rule_loop env short txn tid aid rules
             (add_evaluation (eval_record_of rule tid aid EO_SKIPPED [(''reason'', PStr ''rule_disabled'')]) r) tr
      else (case (if py_bool (rd_schedule rule) then is_schedule_active env (rd_schedule rule) else Inr True) of
              Inl ex \<Rightarrow> (Inl ex, tr)
            | Inr False \<Rightarrow>
                eval_rule_loop env short txn tid aid rules
                  (add_evaluation (eval_record_of rule tid aid EO_SKIPPED [(''reason'', PStr ''schedule_inactive'')]) r) tr
            | Inr True \<Rightarrow>
                (case evaluate_condition env txn (rd_condition rule) tr of
                   (Inl ex, tr1) \<Rightarrow>
                     eval_rule_loop env short txn tid aid rules
                       (add_evaluation (eval_record_of rule tid aid EO_ERROR [(''error'', PStr (rn_show_exn env ex))]) r) tr1
                 | (Inr False, tr1) \<Rightarrow>
                     eval_rule_loop env short txn tid aid rules
                       (add_evaluation (eval_record_of rule tid aid EO_PASSED [(''condition'', rd_condition rule)]) r) tr1
                 | (Inr True, tr1) \<Rightarrow>
                     (let e = eval_record_of rule tid aid EO_TRIGGERED [(''condition'', rd_condition rule)];
                          r1 = add_triggered rule e (add_evaluation e r)
                      in if short \<and> rd_action rule = RA_BLOCK then (Inr (r1\<lparr>gr_short_circuited := True\<rparr>), tr1)
                         else eval_rule_loop env short txn tid aid rules r1 tr1))))"

section \<open>The engine\<close>

record business_engine =
  bz_short_circuit :: bool
  bz_enable_audit :: bool
  bz_rules :: "rule_def list"
  bz_rules_by_id :: "(string, rule_def) dict"
  bz_last_load_time :: seconds
  bz_config_hash :: string
  bz_tracker :: tracker
  bz_audit :: audit_trail

definition put_rules :: "rule_env \<Rightarrow> string \<Rightarrow> rule_def list \<Rightarrow> business_engine \<Rightarrow> business_engine" where
  "put_rules env config_hash rules e =
     e\<lparr>bz_rules := sort_key rd_priority rules, bz_rules_by_id := fold (\<lambda>r. dset (rd_id r) r) (sort_key rd_priority rules) [],
       bz_config_hash := config_hash, bz_last_load_time := clock_seconds env\<rparr>"

definition load_business_rules :: "rule_env \<Rightarrow> business_engine \<Rightarrow> unit res \<times> business_engine" where
  "load_business_rules env e =
     (case rn_file env of
        None \<Rightarrow> (Inl FileNotFoundError, e)
      | Some content \<Rightarrow>
          if rn_sha env content = bz_config_hash e then (Inr (), e)
          else (case rn_yaml env content of
                  None \<Rightarrow> (Inl YAMLError, e)
                | Some data \<Rightarrow>
                    if \<not> py_bool data then (Inr (), e)
                    else (case py_in ''rules'' data of
                            Inl ex \<Rightarrow> (Inl ex, e)
                          | Inr found \<Rightarrow>
                              if \<not> found then (Inr (), e)
                              else (case data of
                                      PDict d \<Rightarrow>
                                        (case res_bind (py_iter (pget d ''rules'')) parse_rules of
                                           Inl ex \<Rightarrow> (Inl ex, e)
                                         | Inr rules \<Rightarrow> (Inr (), put_rules env (rn_sha env content) rules e))
                                    | _ \<Rightarrow> (Inl TypeError, e)))))"

definition new_business_engine :: "rule_env \<Rightarrow> bool \<Rightarrow> int \<Rightarrow> bool \<Rightarrow> business_engine res" where
  "new_business_engine env enable_audit max_audit_records short_circuit =
     res_bind (new_audit_trail max_audit_records) (\<lambda>a.
       case load_business_rules env \<lparr>bz_short_circuit = short_circuit, bz_enable_audit = enable_audit, bz_rules = [], bz_rules_by_id = [],
              bz_last_load_time = 0, bz_config_hash = [], bz_tracker = new_tracker 86400, bz_audit = a\<rparr> of
         (Inl ex, e) \<Rightarrow> Inl ex
       | (Inr _, e) \<Rightarrow> Inr e)"

definition reload_if_needed :: "rule_env \<Rightarrow> business_engine \<Rightarrow> bool \<times> business_engine" where
  "reload_if_needed env e =
     (if clock_seconds env - bz_last_load_time e < 30 then (False, e)
      else (case load_business_rules env e of (Inl ex, e1) \<Rightarrow> (False, e1) | (Inr _, e1) \<Rightarrow> (True, e1)))"

definition force_reload :: "rule_env \<Rightarrow> business_engine \<Rightarrow> unit res \<times> business_engine" where
  "force_reload env e = load_business_rules env (e\<lparr>bz_config_hash := []\<rparr>)"

text \<open>The events a transaction leaves in the tracker; a card number that cannot be hashed raises.\<close>

definition track_transaction :: "rule_env \<Rightarrow> rules_txn \<Rightarrow> pyval \<Rightarrow> real \<Rightarrow> tracker \<Rightarrow> unit res \<times> tracker" where
  "track_transaction env txn aid amount tr =
     (let tr1 = record_event (clock_seconds env) (''account:'' @ rn_str env aid) amount None tr;
          device = pget txn ''device_id''; card = dget_or txn ''card_last_four'' (PStr [])
      in if \<not> py_bool device then (Inr (), tr1)
         else if \<not> hashable card then (Inl TypeError, tr1)
         else (Inr (), record_event (clock_seconds env) (''device:'' @ rn_str env device) (of_int (rn_hash env card mod 10000)) None tr1))"

definition txn_amount :: "rules_txn \<Rightarrow> real res" where
  "txn_amount txn = (case pget txn ''transaction_amount'' of PNone \<Rightarrow> Inr 0 | v \<Rightarrow> to_float v)"

definition account_id_of :: "rules_txn \<Rightarrow> pyval" where
  "account_id_of txn = dget_or txn ''account_id'' (PStr ''unknown'')"

definition evaluate_transaction :: "rule_env \<Rightarrow> rules_txn \<Rightarrow> business_engine \<Rightarrow> engine_result res \<times> business_engine" where
  "evaluate_transaction env txn e0 =
     (let e = snd (reload_if_needed env e0);
          tid = dget_or txn ''external_transaction_id'' (dget_or txn ''transaction_id'' (PStr (rn_uuid env)));
          aid = account_id_of txn
      in case txn_amount txn of
           Inl ex \<Rightarrow> (Inl ex, e)
         | Inr amount \<Rightarrow>
             (case track_transaction env txn aid amount (bz_tracker e) of
                (Inl ex, tr1) \<Rightarrow> (Inl ex, e\<lparr>bz_tracker := tr1\<rparr>)
              | (Inr _, tr1) \<Rightarrow>
                  (case eval_rule_loop env (bz_short_circuit e) txn tid aid (bz_rules e) (new_engine_result tid) tr1 of
                     (Inl ex, tr2) \<Rightarrow> (Inl ex, e\<lparr>bz_tracker := tr2\<rparr>)
                   | (Inr r, tr2) \<Rightarrow>
                       (let r1 = r\<lparr>gr_total_rules_evaluated := length (gr_all_evaluations r)\<rparr>; e1 = e\<lparr>bz_tracker := tr2\<rparr>
                        in if bz_enable_audit e
                           then (let (x, a) = record_batch (gr_all_evaluations r) (bz_audit e1) in (res_bind x (\<lambda>_. Inr r1), e1\<lparr>bz_audit := a\<rparr>))
                           else (Inr r1, e1)))))"

section \<open>Management of rules\<close>

definition rule_to_dict :: "rule_def \<Rightarrow> (string, pyval) dict" where
  "rule_to_dict r =
     [(''id'', PStr (rd_id r)), (''name'', rd_name r), (''description'', rd_description r), (''version'', rd_version r),
      (''priority'', PInt (rd_priority r)), (''enabled'', rd_enabled r), (''severity'', PStr (severity_value_rs (rd_severity r))),
      (''category'', PStr (rd_category r)), (''condition'', rd_condition r), (''action'', PStr (action_value (rd_action r))),
      (''schedule'', rd_schedule r), (''tags'', rd_tags r)]"

definition get_rules :: "string option \<Rightarrow> bool \<Rightarrow> business_engine \<Rightarrow> (string, pyval) dict list" where
  "get_rules category enabled_only e =
     map rule_to_dict (filter (\<lambda>r. (enabled_only \<longrightarrow> py_bool (rd_enabled r)) \<and> (truthy category \<longrightarrow> rd_category r = the category)) (bz_rules e))"

definition get_rule :: "string \<Rightarrow> business_engine \<Rightarrow> (string, pyval) dict option" where
  "get_rule rule_id e = map_option rule_to_dict (dget (bz_rules_by_id e) rule_id)"

text \<open>Replacing the rules of an identifier.\<close>

definition replace_rule :: "rule_def \<Rightarrow> business_engine \<Rightarrow> business_engine" where
  "replace_rule r e =
     e\<lparr>bz_rules_by_id := dset (rd_id r) r (bz_rules_by_id e), bz_rules := map (\<lambda>x. if rd_id x = rd_id r then r else x) (bz_rules e)\<rparr>"

definition set_rule_enabled :: "string \<Rightarrow> bool \<Rightarrow> business_engine \<Rightarrow> bool \<times> business_engine" where
  "set_rule_enabled rule_id enabled e =
     (case dget (bz_rules_by_id e) rule_id of
        None \<Rightarrow> (False, e)
      | Some old \<Rightarrow> (True, replace_rule (old\<lparr>rd_enabled := PBool enabled\<rparr>) e))"

definition sort_rules :: "business_engine \<Rightarrow> business_engine" where
  "sort_rules e = e\<lparr>bz_rules := sort_key rd_priority (bz_rules e)\<rparr>"

definition add_rule :: "(string, pyval) dict \<Rightarrow> business_engine \<Rightarrow> rule_def res \<times> business_engine" where
  "add_rule rule_data e =
     (case rule_from_dict ''custom'' rule_data of
        Inl ex \<Rightarrow> (Inl ex, e)
      | Inr r \<Rightarrow>
          if dget (bz_rules_by_id e) (rd_id r) \<noteq> None then (Inl ValueError, e)
          else (Inr r, (sort_rules (e\<lparr>bz_rules := bz_rules e @ [r]\<rparr>))\<lparr>bz_rules_by_id := dset (rd_id r) r (bz_rules_by_id e)\<rparr>))"

definition remove_rule :: "string \<Rightarrow> business_engine \<Rightarrow> bool \<times> business_engine" where
  "remove_rule rule_id e =
     (if dget (bz_rules_by_id e) rule_id = None then (False, e)
      else (True, e\<lparr>bz_rules_by_id := ddel rule_id (bz_rules_by_id e), bz_rules := filter (\<lambda>r. rd_id r \<noteq> rule_id) (bz_rules e)\<rparr>))"

definition updated_rule :: "(string, pyval) dict \<Rightarrow> rule_def \<Rightarrow> rule_def res" where
  "updated_rule u old =
     res_bind (as_int (dget_or u ''priority'' (PInt (rd_priority old)))) (\<lambda>priority.
     res_bind (case dget u ''severity'' of None \<Rightarrow> Inr (rd_severity old) | Some v \<Rightarrow> severity_of_rs v) (\<lambda>severity.
     res_bind (as_str (dget_or u ''category'' (PStr (rd_category old)))) (\<lambda>category.
     res_bind (case dget u ''action'' of None \<Rightarrow> Inr (rd_action old) | Some v \<Rightarrow> action_of v) (\<lambda>action.
     Inr \<lparr>rd_id = rd_id old, rd_name = dget_or u ''name'' (rd_name old), rd_description = dget_or u ''description'' (rd_description old),
          rd_version = dget_or u ''version'' (rd_version old), rd_priority = priority, rd_enabled = dget_or u ''enabled'' (rd_enabled old),
          rd_severity = severity, rd_category = category, rd_condition = dget_or u ''condition'' (rd_condition old), rd_action = action,
          rd_schedule = dget_or u ''schedule'' (rd_schedule old), rd_tags = dget_or u ''tags'' (rd_tags old)\<rparr>))))"

definition update_rule :: "string \<Rightarrow> (string, pyval) dict \<Rightarrow> business_engine \<Rightarrow> (string, pyval) dict option res \<times> business_engine" where
  "update_rule rule_id updates e =
     (case dget (bz_rules_by_id e) rule_id of
        None \<Rightarrow> (Inr None, e)
      | Some old \<Rightarrow>
          (case updated_rule updates old of
             Inl ex \<Rightarrow> (Inl ex, e)
           | Inr r \<Rightarrow> (let e1 = sort_rules (replace_rule r e) in (Inr (get_rule rule_id e1), e1))))"

definition total_rules :: "business_engine \<Rightarrow> nat" where
  "total_rules e = length (bz_rules e)"

definition enabled_rules :: "business_engine \<Rightarrow> nat" where
  "enabled_rules e = length (filter (\<lambda>r. py_bool (rd_enabled r)) (bz_rules e))"

definition get_categories :: "business_engine \<Rightarrow> string list" where
  "get_categories e = sort (remdups (map rd_category (bz_rules e)))"

end
