(* ===== verification/Pipeline.thy ===== *)
theory Pipeline
  imports Schema_Validator Business_Rules Cleaner Normalizer Feature_Engineer Enrichers Velocity Quarantine
begin

text \<open>
  The pipeline orchestrator of \<^verbatim>\<open>src/pipeline_orchestrator.py\<close>: schema validation, business rules, cleaning, normalization,
  features and enrichment of a record, with the error policy of a stage, the dead-letter queue, stage metrics and batches. The components are
  those of the other theories; what they take from outside, the latencies, identifiers and readings of the clock (numbered in
  the order of the code) are bundled in \<open>pipe_env\<close>.
  The callback for dead letters is external and its exceptions are swallowed, so it is left out. Every exception of a component is caught
  inside its stage: the outermost handler, which would add another dead letter, is not reached.
\<close>

record pipe_env =
  pe_schema :: schema_env
  pe_rules :: rule_env
  pe_clean :: clean_env
  pe_norm :: norm_env
  pe_fromiso :: fromiso
  pe_local_offset :: "int \<Rightarrow> int"
  pe_sha :: "string \<Rightarrow> string"
  pe_str :: "pyval \<Rightarrow> string"
  pe_show_exn :: "pyexn \<Rightarrow> string"
  pe_now :: "nat \<Rightarrow> datetime"
  pe_time :: "nat \<Rightarrow> seconds"
  pe_uuid :: string
  pe_unknown_id :: string
  pe_latency :: "nat \<Rightarrow> real"

section \<open>Stages and metrics\<close>

datatype error_policy = POL_SKIP | POL_HALT

datatype pipeline_stage = ST_VALIDATION | ST_CLEANING | ST_NORMALIZATION | ST_FEATURE_ENGINEERING | ST_ENRICHMENT

primrec stage_value :: "pipeline_stage \<Rightarrow> string" where
  "stage_value ST_VALIDATION = ''validation''"
| "stage_value ST_CLEANING = ''cleaning''"
| "stage_value ST_NORMALIZATION = ''normalization''"
| "stage_value ST_FEATURE_ENGINEERING = ''feature_engineering''"
| "stage_value ST_ENRICHMENT = ''enrichment''"

definition all_stages :: "pipeline_stage list" where
  "all_stages = [ST_VALIDATION, ST_CLEANING, ST_NORMALIZATION, ST_FEATURE_ENGINEERING, ST_ENRICHMENT]"

record stage_metrics =
  st_records_processed :: int
  st_records_failed :: int
  st_records_skipped :: int
  st_total_latency_ms :: real
  st_min_latency_ms :: "real option"
  st_max_latency_ms :: real

definition new_stage_metrics :: stage_metrics where
  "new_stage_metrics =
     \<lparr>st_records_processed = 0, st_records_failed = 0, st_records_skipped = 0, st_total_latency_ms = 0, st_min_latency_ms = None, st_max_latency_ms = 0\<rparr>"

definition stage_avg_latency :: "stage_metrics \<Rightarrow> real" where
  "stage_avg_latency m = (if st_records_processed m = 0 then 0 else st_total_latency_ms m / of_int (st_records_processed m))"

definition stage_success_rate :: "stage_metrics \<Rightarrow> real" where
  "stage_success_rate m =
     (let total = st_records_processed m + st_records_failed m in if total = 0 then 1 else of_int (st_records_processed m) / of_int total)"

definition stage_success :: "real \<Rightarrow> stage_metrics \<Rightarrow> stage_metrics" where
  "stage_success latency m =
     m\<lparr>st_records_processed := st_records_processed m + 1, st_total_latency_ms := st_total_latency_ms m + latency,
       st_min_latency_ms := (case st_min_latency_ms m of None \<Rightarrow> Some latency | Some x \<Rightarrow> Some (if latency < x then latency else x)),
       st_max_latency_ms := (if st_max_latency_ms m < latency then latency else st_max_latency_ms m)\<rparr>"

definition stage_failure :: "stage_metrics \<Rightarrow> stage_metrics" where
  "stage_failure m = m\<lparr>st_records_failed := st_records_failed m + 1\<rparr>"

definition stage_skip :: "stage_metrics \<Rightarrow> stage_metrics" where
  "stage_skip m = m\<lparr>st_records_skipped := st_records_skipped m + 1\<rparr>"

definition stage_metrics_to_dict :: "string \<Rightarrow> stage_metrics \<Rightarrow> (string, pyval) dict" where
  "stage_metrics_to_dict name m =
     [(''stage'', PStr name), (''records_processed'', PInt (st_records_processed m)), (''records_failed'', PInt (st_records_failed m)),
      (''records_skipped'', PInt (st_records_skipped m)), (''avg_latency_ms'', PFloat (py_round 4 (stage_avg_latency m))),
      (''min_latency_ms'', PFloat (case st_min_latency_ms m of None \<Rightarrow> 0 | Some x \<Rightarrow> py_round 4 x)),
      (''max_latency_ms'', PFloat (py_round 4 (st_max_latency_ms m))), (''success_rate'', PFloat (py_round 4 (stage_success_rate m)))]"

record pipeline_metrics =
  pm_total_ingested :: int
  pm_total_completed :: int
  pm_total_failed :: int
  pm_total_dlq :: int
  pm_start_time :: seconds
  pm_end_time :: seconds
  pm_stage_metrics :: "(string, stage_metrics) dict"

definition new_pipeline_metrics :: pipeline_metrics where
  "new_pipeline_metrics =
     \<lparr>pm_total_ingested = 0, pm_total_completed = 0, pm_total_failed = 0, pm_total_dlq = 0, pm_start_time = 0, pm_end_time = 0, pm_stage_metrics = []\<rparr>"

definition throughput_per_second :: "pipeline_metrics \<Rightarrow> real" where
  "throughput_per_second m =
     (let elapsed = pm_end_time m - pm_start_time m in if elapsed \<le> 0 then 0 else of_int (pm_total_completed m) / elapsed)"

definition avg_per_record_ms :: "pipeline_metrics \<Rightarrow> real" where
  "avg_per_record_ms m = (if pm_total_completed m = 0 then 0 else (pm_end_time m - pm_start_time m) * 1000 / of_int (pm_total_ingested m))"

definition pipeline_metrics_to_dict :: "pipeline_metrics \<Rightarrow> (string, pyval) dict" where
  "pipeline_metrics_to_dict m =
     [(''total_ingested'', PInt (pm_total_ingested m)), (''total_completed'', PInt (pm_total_completed m)), (''total_failed'', PInt (pm_total_failed m)),
      (''total_dlq'', PInt (pm_total_dlq m)), (''throughput_per_second'', PFloat (py_round 2 (throughput_per_second m))),
      (''avg_per_record_ms'', PFloat (py_round 4 (avg_per_record_ms m))),
      (''total_pipeline_latency_ms'', PFloat (py_round 2 ((pm_end_time m - pm_start_time m) * 1000))),
      (''stages'', PDict (map (\<lambda>(k, v). (k, PDict (stage_metrics_to_dict k v))) (pm_stage_metrics m)))]"

record pipeline_result =
  pr_transaction_id :: pyval
  pr_success :: bool
  pr_record :: txn_dict
  pr_stage_failed :: "string option"
  pr_error :: "string option"
  pr_dlq :: bool

record batch_result =
  br_total :: int
  br_succeeded :: int
  br_failed :: int
  br_dlq_count :: int
  br_results :: "pipeline_result list"

definition batch_success_rate :: "batch_result \<Rightarrow> real" where
  "batch_success_rate b = (if br_total b = 0 then 1 else of_int (br_succeeded b) / of_int (br_total b))"

section \<open>State\<close>

record dlq_entry =
  dq_id :: string
  dq_original_record :: txn_dict
  dq_failed_stage :: string
  dq_failure_reason :: string
  dq_timestamp :: seconds

record pipeline =
  pl_validator :: schema_validator
  pl_rules :: business_engine
  pl_cleaner :: cleaner
  pl_normalizer :: normalizer
  pl_features :: feature_engineer
  pl_geo :: geo_enricher
  pl_device :: device_enricher
  pl_merchant :: merchant_enricher
  pl_velocity :: calculator
  pl_quarantine :: q_handler
  pl_error_policy :: "(string, error_policy) dict"
  pl_batch_size :: int
  pl_metrics :: pipeline_metrics
  pl_dlq :: "dlq_entry list"

definition default_policy :: "(string, error_policy) dict" where
  "default_policy = map (\<lambda>s. (stage_value s, POL_SKIP)) all_stages"

text \<open>\<^verbatim>\<open>error_policy\<close> of the constructor updates the default.\<close>

definition policy_of :: "(string, error_policy) dict \<Rightarrow> (string, error_policy) dict" where
  "policy_of error_policy = fold (\<lambda>(k, v). dset k v) error_policy default_policy"

section \<open>Helpers\<close>

definition update_stage :: "pipeline_stage \<Rightarrow> (stage_metrics \<Rightarrow> stage_metrics) \<Rightarrow> pipeline \<Rightarrow> pipeline" where
  "update_stage stage f p =
     (let m = pl_metrics p; k = stage_value stage
      in case dget (pm_stage_metrics m) k of
           None \<Rightarrow> p
         | Some sm \<Rightarrow> p\<lparr>pl_metrics := m\<lparr>pm_stage_metrics := dset k (f sm) (pm_stage_metrics m)\<rparr>\<rparr>)"

definition route_to_dlq :: "pipe_env \<Rightarrow> txn_dict \<Rightarrow> string \<Rightarrow> string \<Rightarrow> pipeline \<Rightarrow> pipeline" where
  "route_to_dlq env rec stage reason p =
     p\<lparr>pl_dlq := pl_dlq p @ [\<lparr>dq_id = pe_uuid env, dq_original_record = rec, dq_failed_stage = stage, dq_failure_reason = reason, dq_timestamp = pe_time env 0\<rparr>]\<rparr>"

definition handle_stage_error :: "pipe_env \<Rightarrow> pipeline_stage \<Rightarrow> txn_dict \<Rightarrow> string \<Rightarrow> pipeline \<Rightarrow> txn_dict option \<times> pipeline" where
  "handle_stage_error env stage rec err p =
     (if dget_or (pl_error_policy p) (stage_value stage) POL_SKIP = POL_HALT then (None, route_to_dlq env rec (stage_value stage) err p)
      else (Some (dset (''_'' @ stage_value stage @ ''_error'') (PStr err) rec), p))"

section \<open>Stage implementations\<close>

definition failure_reasons :: "schema_result \<Rightarrow> validation" where
  "failure_reasons r =
     \<lparr>va_is_valid = vr_is_valid r,
      va_errors = map (\<lambda>e. \<lparr>fa_field = is_field e, fa_rule = is_rule e, fa_message = is_message e, fa_severity = issue_severity_value (is_severity e)\<rparr>) (vr_errors r)\<rparr>"

definition run_validation :: "pipe_env \<Rightarrow> txn_dict \<Rightarrow> pipeline \<Rightarrow> txn_dict option \<times> pipeline" where
  "run_validation env rec p =
     (case validate (pe_schema env) rec (pl_validator p) of
        (Inl ex, v) \<Rightarrow> handle_stage_error env ST_VALIDATION rec (pe_show_exn env ex) (p\<lparr>pl_validator := v\<rparr>)
      | (Inr r, v) \<Rightarrow>
          (let p1 = p\<lparr>pl_validator := v\<rparr>
           in if \<not> vr_is_valid r
              then (None, route_to_dlq env rec (stage_value ST_VALIDATION) (''Validation errors: '' @ nat_str (length (vr_errors r)))
                      (update_stage ST_VALIDATION stage_failure
                        (p1\<lparr>pl_quarantine := snd (quarantine (pe_now env 0) (pe_uuid env) rec (failure_reasons r) (pl_quarantine p1))\<rparr>)))
              else (Some (dset ''_validation_warnings'' (PInt (int (length (vr_warnings r)))) rec),
                    update_stage ST_VALIDATION (stage_success (pe_latency env 1)) p1)))"

definition run_rules_engine :: "pipe_env \<Rightarrow> txn_dict \<Rightarrow> pipeline \<Rightarrow> txn_dict option \<times> pipeline" where
  "run_rules_engine env rec p =
     (case evaluate_transaction (pe_rules env) rec (pl_rules p) of
        (Inl ex, e) \<Rightarrow> handle_stage_error env ST_VALIDATION rec (pe_show_exn env ex) (p\<lparr>pl_rules := e\<rparr>)
      | (Inr r, e) \<Rightarrow>
          (let p1 = p\<lparr>pl_rules := e\<rparr>
           in if gr_overall_action r = RA_BLOCK
              then (None, route_to_dlq env rec ''rules_engine_block''
                      (''Blocked by rules: '' @ pe_str env (PList (map (\<lambda>x. PStr (ev_rule_id x)) (gr_triggered_rules r))))
                      (update_stage ST_VALIDATION stage_failure p1))
              else (Some (dset ''_rules_action'' (PStr (action_value (gr_overall_action r))) (dset ''_rules_triggered'' (PInt (int (gr_total_rules_triggered r))) rec)),
                    update_stage ST_VALIDATION (stage_success (pe_latency env 2)) p1)))"

definition run_cleaning :: "pipe_env \<Rightarrow> txn_dict \<Rightarrow> pipeline \<Rightarrow> txn_dict option \<times> pipeline" where
  "run_cleaning env rec p =
     (case clean (pe_clean env) rec (pl_cleaner p) of
        (Inl ex, c) \<Rightarrow> handle_stage_error env ST_CLEANING rec (pe_show_exn env ex) (p\<lparr>pl_cleaner := c\<rparr>)
      | (Inr r, c) \<Rightarrow>
          (let p1 = p\<lparr>pl_cleaner := c\<rparr>
           in if cr_is_duplicate r
              then (None, route_to_dlq env rec (stage_value ST_CLEANING) ''Duplicate record detected'' (update_stage ST_CLEANING stage_skip p1))
              else (Some (cr_record r), update_stage ST_CLEANING (stage_success (pe_latency env 3)) p1)))"

definition run_normalization :: "pipe_env \<Rightarrow> txn_dict \<Rightarrow> pipeline \<Rightarrow> txn_dict option \<times> pipeline" where
  "run_normalization env rec p =
     (case Normalizer.normalize (pe_norm env) rec (pl_normalizer p) of
        (Inl ex, n) \<Rightarrow> handle_stage_error env ST_NORMALIZATION rec (pe_show_exn env ex) (p\<lparr>pl_normalizer := n\<rparr>)
      | (Inr r, n) \<Rightarrow> (Some (nr_record r), update_stage ST_NORMALIZATION (stage_success (pe_latency env 4)) (p\<lparr>pl_normalizer := n\<rparr>)))"

text \<open>The features are computed without the profile and the history of the customer.\<close>

definition run_feature_engineering :: "pipe_env \<Rightarrow> txn_dict \<Rightarrow> pipeline \<Rightarrow> txn_dict option \<times> pipeline" where
  "run_feature_engineering env rec p =
     (let (r, fe) = compute_features (pe_fromiso env) (pe_show_exn env) (pe_latency env 0) rec None None (pl_features p); p1 = p\<lparr>pl_features := fe\<rparr>
      in if \<not> feature_success r
         then handle_stage_error env ST_FEATURE_ENGINEERING rec
                (case str_or (ft_error r) None of Some e \<Rightarrow> e | None \<Rightarrow> ''Feature computation failed'') (update_stage ST_FEATURE_ENGINEERING stage_failure p1)
         else (Some (dset ''_feature_count'' (PInt (int (length (ft_features r)))) (dict_update (ft_features r) rec)),
               update_stage ST_FEATURE_ENGINEERING (stage_success (pe_latency env 5)) p1))"

text \<open>The enrichers report exceptions in their results; geography gets neither profile nor last transaction.\<close>

definition run_enrichment :: "pipe_env \<Rightarrow> txn_dict \<Rightarrow> pipeline \<Rightarrow> txn_dict option \<times> pipeline" where
  "run_enrichment env rec p =
     (let g = enrich_geo (pe_fromiso env) (pe_show_exn env) (pe_now env 1) rec [] [] (pl_geo p);
          r1 = (if ge_error g = None then dict_update (geo_to_dict g) rec else rec);
          (d, dn) = enrich_device (pe_fromiso env) (pe_sha env) (pe_str env) (pe_show_exn env) (pe_now env 2) r1 [] (pl_device p);
          r2 = (if de_error d = None then dict_update (device_to_dict d) r1 else r1);
          (m, mn) = enrich_merchant (pe_fromiso env) (pe_show_exn env) (pe_now env 3) r2 (pl_merchant p);
          r3 = (if me_error m = None then dict_update (merchant_to_dict m) r2 else r2);
          (v, vn) = evaluate_velocity (pe_fromiso env) (pe_local_offset env) (pe_show_exn env) (pe_time env 1) (pe_time env 2) (pe_time env 3) r3 (pl_velocity p);
          r4 = (if vr_error v = None then dict_update (velocity_to_dict v) r3 else r3)
      in (Some (dset ''_enrichment_latency_ms'' (PFloat (py_round 4 (pe_latency env 6))) r4),
          update_stage ST_ENRICHMENT (stage_success (pe_latency env 6)) (p\<lparr>pl_device := dn, pl_merchant := mn, pl_velocity := vn\<rparr>)))"

section \<open>Records and batches\<close>

type_synonym stage_run = "txn_dict \<Rightarrow> pipeline \<Rightarrow> txn_dict option \<times> pipeline"

fun run_stages :: "(stage_run \<times> pipeline_stage \<times> string) list \<Rightarrow> txn_dict \<Rightarrow> pipeline \<Rightarrow> ((pipeline_stage \<times> string) + txn_dict) \<times> pipeline" where
  "run_stages [] rec p = (Inr rec, p)"
| "run_stages ((f, stage, err) # fs) rec p =
     (case f rec p of
        (None, p1) \<Rightarrow> (Inl (stage, err), p1)
      | (Some r, p1) \<Rightarrow> run_stages fs r p1)"

definition pipeline_stages :: "pipe_env \<Rightarrow> (stage_run \<times> pipeline_stage \<times> string) list" where
  "pipeline_stages env =
     [(run_validation env, ST_VALIDATION, ''Schema validation failed''), (run_rules_engine env, ST_VALIDATION, ''Blocked by rules engine''),
      (run_cleaning env, ST_CLEANING, ''Cleaning failed''), (run_normalization env, ST_NORMALIZATION, ''Normalization failed''),
      (run_feature_engineering env, ST_FEATURE_ENGINEERING, ''Feature engineering failed''), (run_enrichment env, ST_ENRICHMENT, ''Enrichment failed'')]"

definition pipeline_txn_id :: "pipe_env \<Rightarrow> txn_dict \<Rightarrow> pyval" where
  "pipeline_txn_id env rec = dget_or rec ''external_transaction_id'' (dget_or rec ''transaction_id'' (PStr (''unknown-'' @ pe_unknown_id env)))"

definition process_record :: "pipe_env \<Rightarrow> txn_dict \<Rightarrow> pipeline \<Rightarrow> pipeline_result \<times> pipeline" where
  "process_record env rec p =
     (case run_stages (pipeline_stages env) rec p of
        (Inl (stage, err), p1) \<Rightarrow>
          (\<lparr>pr_transaction_id = pipeline_txn_id env rec, pr_success = False, pr_record = [], pr_stage_failed = Some (stage_value stage), pr_error = Some err, pr_dlq = True\<rparr>, p1)
      | (Inr r, p1) \<Rightarrow>
          (\<lparr>pr_transaction_id = pipeline_txn_id env rec, pr_success = True,
            pr_record = dset ''_pipeline_timestamp'' (PFloat (pe_time env 4)) (dset ''_pipeline_processed'' (PBool True) r),
            pr_stage_failed = None, pr_error = None, pr_dlq = False\<rparr>, p1))"

fun process_all :: "(pipe_env \<times> txn_dict) list \<Rightarrow> pipeline \<Rightarrow> pipeline_result list \<times> pipeline" where
  "process_all [] p = ([], p)"
| "process_all ((env, rec) # recs) p =
     (let (r, p1) = process_record env rec p; (rs, p2) = process_all recs p1 in (r # rs, p2))"

definition process_batch :: "seconds \<Rightarrow> seconds \<Rightarrow> (pipe_env \<times> txn_dict) list \<Rightarrow> pipeline \<Rightarrow> batch_result \<times> pipeline" where
  "process_batch start_time end_time recs p =
     (let n = int (length recs); m0 = pl_metrics p;
          stages = fold (\<lambda>s. dset (stage_value s) new_stage_metrics) all_stages (pm_stage_metrics m0);
          p1 = p\<lparr>pl_metrics := m0\<lparr>pm_start_time := start_time, pm_total_ingested := n, pm_stage_metrics := stages\<rparr>\<rparr>;
          (rs, p2) = process_all recs p1;
          succeeded = int (length (filter pr_success rs)); failed = int (length (filter (\<lambda>r. \<not> pr_success r) rs));
          dlq_count = int (length (filter (\<lambda>r. \<not> pr_success r \<and> pr_dlq r) rs)); m = pl_metrics p2
      in (\<lparr>br_total = n, br_succeeded = succeeded, br_failed = failed, br_dlq_count = dlq_count, br_results = rs\<rparr>,
          p2\<lparr>pl_metrics := m\<lparr>pm_end_time := end_time, pm_total_completed := succeeded, pm_total_failed := failed, pm_total_dlq := dlq_count\<rparr>\<rparr>))"

definition get_stage_metrics :: "pipeline \<Rightarrow> (string, (string, pyval) dict) dict" where
  "get_stage_metrics p = map (\<lambda>(k, v). (k, stage_metrics_to_dict k v)) (pm_stage_metrics (pl_metrics p))"

definition reset_pipeline_metrics :: "pipeline \<Rightarrow> pipeline" where
  "reset_pipeline_metrics p = p\<lparr>pl_metrics := new_pipeline_metrics, pl_dlq := []\<rparr>"

section \<open>The contract of a stage\<close>

text \<open>
  A stage passes a record on and leaves the dead letters alone, or it drops the record and adds exactly one dead letter, which holds
  the record as the stage was given it. A chain of such stages does the same.
\<close>

locale dlq_stage =
  fixes run :: stage_run
  assumes passes: "run rec p = (Some r, p1) \<Longrightarrow> pl_dlq p1 = pl_dlq p"
    and drops: "run rec p = (None, p1) \<Longrightarrow> \<exists>e. pl_dlq p1 = pl_dlq p @ [e] \<and> dq_original_record e = rec"
    and keeps: "run rec p = (x, p1) \<Longrightarrow>
          pl_error_policy p1 = pl_error_policy p \<and> pm_total_ingested (pl_metrics p1) = pm_total_ingested (pl_metrics p)"
begin

lemma one_letter_or_none: "\<exists>es. pl_dlq (snd (run rec p)) = pl_dlq p @ es \<and> length es = (if fst (run rec p) = None then 1 else 0)"
  using passes [of rec p] drops [of rec p] by (cases "run rec p"; cases "fst (run rec p)") fastforce+

end

lemma update_stage_frame:
  "pl_dlq (update_stage s f p) = pl_dlq p" "pl_error_policy (update_stage s f p) = pl_error_policy p"
  "pm_total_ingested (pl_metrics (update_stage s f p)) = pm_total_ingested (pl_metrics p)"
  by (simp_all add: update_stage_def Let_def split: option.splits)

lemmas stage_simps = handle_stage_error_def route_to_dlq_def update_stage_frame Let_def

interpretation validation_stage: dlq_stage "run_validation env" for env
  by unfold_locales (auto simp: run_validation_def stage_simps split: prod.splits sum.splits if_splits)

interpretation rules_stage: dlq_stage "run_rules_engine env" for env
  by unfold_locales (auto simp: run_rules_engine_def stage_simps split: prod.splits sum.splits if_splits)

interpretation cleaning_stage: dlq_stage "run_cleaning env" for env
  by unfold_locales (auto simp: run_cleaning_def stage_simps split: prod.splits sum.splits if_splits)

interpretation normalization_stage: dlq_stage "run_normalization env" for env
  by unfold_locales (auto simp: run_normalization_def stage_simps split: prod.splits sum.splits if_splits)

interpretation feature_stage: dlq_stage "run_feature_engineering env" for env
  by unfold_locales (auto simp: run_feature_engineering_def stage_simps split: prod.splits sum.splits if_splits)

interpretation enrichment_stage: dlq_stage "run_enrichment env" for env
  by unfold_locales (auto simp: run_enrichment_def stage_simps split: prod.splits)

end
