(* ===== verification/Rule_Audit_Properties.thy ===== *)
theory Rule_Audit_Properties
  imports Rule_Audit
begin

text \<open>
  The audit trail refines its specification, the last records: the indices and the counters are those of the
  kept records. The velocity tracker counts exactly the recorded events of a window.
\<close>

declare map_of_eq_Some_iff [simp del] Some_eq_map_of_iff [simp del]

section \<open>Indices\<close>

text \<open>An index of a list by a key: every key that occurs has the records with that key, in order.\<close>

definition group :: "('a \<Rightarrow> 'k) \<Rightarrow> 'k \<Rightarrow> 'a list \<Rightarrow> 'a list" where
  "group key k rs = filter (\<lambda>e. key e = k) rs"

definition indexes :: "('a \<Rightarrow> 'k) \<Rightarrow> 'a list \<Rightarrow> ('k, 'a list) dict \<Rightarrow> bool" where
  "indexes key rs d = (wf_dict d \<and> (\<forall>k. dget d k = (if group key k rs = [] then None else Some (group key k rs))))"

lemma indexes_get: "indexes key rs d \<Longrightarrow> dget_or d k [] = group key k rs"
  by (simp add: indexes_def dget_or_def)

lemma indexes_Nil: "indexes key [] []"
  by (simp add: indexes_def group_def)

lemma indexes_add: "indexes key rs d \<Longrightarrow> indexes key (rs @ [e]) (index_add (key e) e d)"
  unfolding index_add_def by (simp add: indexes_get) (auto simp: indexes_def group_def dict_simps)

lemma indexes_drop:
  assumes "indexes key (e # rs) d"
  shows "\<exists>d'. drop_oldest (key e) d = (Inr (), d') \<and> indexes key rs d'"
proof -
  have "dget_or d (key e) [] = e # group key (key e) rs" using indexes_get [OF assms] by (simp add: group_def)
  then show ?thesis
    using assms by (auto simp: drop_oldest_def indexes_def dict_simps group_def)
qed

lemma indexes_keys:
  assumes "indexes key rs d"
  shows "length d = card (key ` set rs)"
proof -
  have "fst ` set d = key ` set rs"
  proof (intro set_eqI iffI)
    fix k assume "k \<in> fst ` set d"
    then have "dget d k \<noteq> None" by (simp add: map_of_eq_None_iff)
    then have "group key k rs \<noteq> []" using assms by (auto simp: indexes_def split: if_splits)
    then show "k \<in> key ` set rs" by (auto simp: group_def filter_empty_conv)
  next
    fix k assume "k \<in> key ` set rs"
    then have "dget d k \<noteq> None" using assms by (auto simp: indexes_def group_def filter_empty_conv)
    then show "k \<in> fst ` set d" by (simp add: map_of_eq_None_iff)
  qed
  then show ?thesis using assms unfolding indexes_def by (metis distinct_card length_map list.set_map)
qed

section \<open>Counters\<close>

definition tallies :: "eval_record list \<Rightarrow> (string, int) dict \<Rightarrow> bool" where
  "tallies rs d = (wf_dict d \<and> (\<forall>k. dget d k = (if group stat_key k rs = [] then None else Some (int (length (group stat_key k rs))))))"

lemma tallies_get: "tallies rs d \<Longrightarrow> dget_or d k 0 = int (length (group stat_key k rs))"
  by (simp add: tallies_def dget_or_def)

lemma tallies_inc: "tallies rs d \<Longrightarrow> tallies (rs @ [e]) (stat_inc (stat_key e) d)"
  unfolding stat_inc_def by (simp add: tallies_get) (auto simp: tallies_def group_def dict_simps)

lemma tallies_dec: "tallies (e # rs) d \<Longrightarrow> tallies rs (stat_dec (stat_key e) d)"
  unfolding stat_dec_def Let_def by (simp add: tallies_get) (auto simp: tallies_def group_def dict_simps)

section \<open>The trail shows the kept records\<close>

definition shows_records :: "eval_record list \<Rightarrow> audit_trail \<Rightarrow> bool" where
  "shows_records rs a =
     (at_records a = rs \<and> indexes ev_transaction_id rs (at_by_transaction a) \<and> indexes ev_rule_id rs (at_by_rule a) \<and> tallies rs (at_stats a))"

definition last_n :: "nat \<Rightarrow> 'a list \<Rightarrow> 'a list" where
  "last_n n xs = drop (length xs - n) xs"

lemma last_n_snoc: "append_bounded n x (last_n n xs) = last_n n (xs @ [x])"
  by (cases "n \<le> length xs") (auto simp: append_bounded_def last_n_def Suc_diff_le)

lemma last_n_full: "length (last_n n xs) = n \<Longrightarrow> 0 < n \<Longrightarrow> \<exists>e es. last_n n xs = e # es \<and> last_n n (xs @ [x]) = es @ [x]"
  by (cases "last_n n xs") (auto simp: last_n_snoc [symmetric] append_bounded_def)

lemma last_n_room: "length (last_n n xs) \<noteq> n \<Longrightarrow> last_n n (xs @ [x]) = last_n n xs @ [x]"
  by (auto simp: last_n_def)

lemma record_step:
  assumes "shows_records (last_n (nat (at_max_records a)) es) a" "0 < at_max_records a"
    and "\<forall>x \<in> set (es @ [e]). hashable (ev_transaction_id x)"
  shows "\<exists>a'. record_unlocked e a = (Inr (), a') \<and> shows_records (last_n (nat (at_max_records a)) (es @ [e])) a' \<and> at_max_records a' = at_max_records a"
proof -
  let ?n = "nat (at_max_records a)"
  note s = assms(1) [unfolded shows_records_def]
  show ?thesis
  proof (cases "length (last_n ?n es) = ?n")
    case True
    obtain r0 rs where o: "last_n ?n es = r0 # rs" "last_n ?n (es @ [e]) = rs @ [e]" using last_n_full [OF True, of e] assms(2) by auto
    have "r0 \<in> set es" using o(1) unfolding last_n_def by (metis in_set_dropD list.set_intros(1))
    then have h: "hashable (ev_transaction_id r0)" "hashable (ev_transaction_id e)" using assms(3) by simp_all
    obtain d1 where d1: "drop_oldest (ev_transaction_id r0) (at_by_transaction a) = (Inr (), d1)" "indexes ev_transaction_id rs d1"
      using s indexes_drop [of ev_transaction_id r0 rs] unfolding o(1) by blast
    obtain d2 where d2: "drop_oldest (ev_rule_id r0) (at_by_rule a) = (Inr (), d2)" "indexes ev_rule_id rs d2"
      using s indexes_drop [of ev_rule_id r0 rs] unfolding o(1) by blast
    have "tallies rs (stat_dec (stat_key r0) (at_stats a))" using s tallies_dec [of r0 rs] unfolding o(1) by blast
    moreover have "append_bounded ?n e (r0 # rs) = rs @ [e]" using last_n_snoc [of ?n e es] o by simp
    ultimately show ?thesis
      using True s h d1 d2 assms(2) unfolding o
      by (auto simp: record_unlocked_def expire_oldest_def Let_def shows_records_def intro: indexes_add tallies_inc)
  next
    case False
    then have "int (length (at_records a)) \<noteq> at_max_records a" using s by auto
    then show ?thesis
      using s assms(3) last_n_snoc [of ?n e es] unfolding last_n_room [OF False]
      by (auto simp: record_unlocked_def Let_def shows_records_def intro: indexes_add tallies_inc)
  qed
qed

lemma record_batch_shows:
  assumes "shows_records (last_n (nat (at_max_records a)) xs) a" "0 < at_max_records a"
    and "\<forall>x \<in> set (xs @ es). hashable (ev_transaction_id x)"
  shows "\<exists>a'. record_batch es a = (Inr (), a') \<and> shows_records (last_n (nat (at_max_records a)) (xs @ es)) a' \<and> at_max_records a' = at_max_records a"
  using assms
proof (induction es arbitrary: xs a)
  case (Cons e es)
  obtain a1 where a1: "record_unlocked e a = (Inr (), a1)" "shows_records (last_n (nat (at_max_records a)) (xs @ [e])) a1"
      "at_max_records a1 = at_max_records a"
    using record_step [of a xs e] Cons.prems by auto
  then show ?case using Cons.IH [of a1 "xs @ [e]"] Cons.prems by auto
qed simp

section \<open>Statistics\<close>

lemma length_by_key: "finite K \<Longrightarrow> length (filter (\<lambda>e. key e \<in> K) rs) = (\<Sum>k \<in> K. length (group key k rs))"
proof (induction rs)
  case (Cons e rs)
  have "(\<Sum>k \<in> K. length (group key k (e # rs))) = (\<Sum>k \<in> K. (if key e = k then 1 else 0) + length (group key k rs))"
    by (intro sum.cong) (simp_all add: group_def)
  then show ?case using Cons by (simp add: sum.distrib)
qed (simp add: group_def)

lemma sum_values: "wf_dict d \<Longrightarrow> sum_list (map snd d) = (\<Sum>k \<in> fst ` set d. the (dget d k))" for d :: "('k, int) dict"
proof (induction d)
  case (Cons kv d)
  have "(\<Sum>k \<in> fst ` set d. the (dget (kv # d) k)) = (\<Sum>k \<in> fst ` set d. the (dget d k))"
    using Cons.prems by (intro sum.cong) (auto intro: rev_image_eqI)
  then show ?case using Cons by (cases kv) auto
qed simp

lemma tally_sum:
  assumes "tallies rs d"
  shows "sum_list (map snd (filter (\<lambda>(k, v). P k) d)) = int (length (filter (\<lambda>e. P (stat_key e)) rs))"
proof -
  let ?f = "filter (\<lambda>(k, v). P k) d"
  have w: "wf_dict d" and g: "dget d k = (if group stat_key k rs = [] then None else Some (int (length (group stat_key k rs))))" for k
    using assms by (auto simp: tallies_def)
  have f: "dget ?f k = Some (int (length (group stat_key k rs)))" if k: "k \<in> fst ` set ?f" for k
  proof -
    have "P k" "dget d k \<noteq> None" using k by (auto simp: map_of_eq_None_iff intro: rev_image_eqI)
    then show ?thesis using dget_filter_keys [OF w, of "\<lambda>(k, v). P k" k] g [of k] by (auto split: if_splits)
  qed
  have e: "P (stat_key e) \<longleftrightarrow> stat_key e \<in> fst ` set ?f" if "e \<in> set rs" for e
  proof -
    have "dget d (stat_key e) \<noteq> None" using g [of "stat_key e"] that by (auto simp: group_def filter_empty_conv)
    then show ?thesis by (auto simp: map_of_eq_None_iff intro: rev_image_eqI)
  qed
  have "sum_list (map snd ?f) = (\<Sum>k \<in> fst ` set ?f. int (length (group stat_key k rs)))"
    unfolding sum_values [OF wf_dict_filter [OF w]] by (intro sum.cong) (simp_all add: f del: set_filter)
  also have "\<dots> = int (length (filter (\<lambda>e. stat_key e \<in> fst ` set ?f) rs))"
    by (subst length_by_key) simp_all
  also have "filter (\<lambda>e. stat_key e \<in> fst ` set ?f) rs = filter (\<lambda>e. P (stat_key e)) rs"
    by (intro filter_cong) (simp_all add: e del: set_filter)
  finally show ?thesis .
qed

lemma triggered_key: "ends_with '':triggered'' (stat_key e) \<longleftrightarrow> ev_outcome e = EO_TRIGGERED"
  by (cases "ev_outcome e") (simp_all add: ends_with_def stat_key_def)

text \<open>
  Claim C15 (the audit trail is its last records). Whatever evaluations are recorded, as long as the transaction
  identifiers can be dictionary keys, recording never raises, and every query answers as on the list of the last
  records, as many as the trail holds: by transaction, by rule, the most recent ones, and the statistics with
  the numbers of records, of triggered ones, of transactions and of rules.
\<close>

theorem audit_refines_last_records:
  fixes n :: int and es :: "eval_record list"
  assumes "new_audit_trail n = Inr a" "\<forall>e \<in> set es. hashable (ev_transaction_id e)"
  defines "rs \<equiv> last_n (nat n) es"
  shows "\<exists>a'. record_batch es a = (Inr (), a')
     \<and> get_by_transaction t a' = map eval_to_dict (filter (\<lambda>e. ev_transaction_id e = t) rs)
     \<and> get_by_rule r limit a' = map eval_to_dict (last_slice limit (filter (\<lambda>e. ev_rule_id e = r) rs))
     \<and> get_recent limit a' = map eval_to_dict (last_slice limit rs)
     \<and> as_total_evaluations (audit_get_stats a') = length rs
     \<and> as_total_triggered (audit_get_stats a') = int (length (filter (\<lambda>e. ev_outcome e = EO_TRIGGERED) rs))
     \<and> as_unique_transactions (audit_get_stats a') = card (ev_transaction_id ` set rs)
     \<and> as_rules_tracked (audit_get_stats a') = card (ev_rule_id ` set rs)"
proof -
  have a: "shows_records (last_n (nat (at_max_records a)) []) a" "0 < at_max_records a" "at_max_records a = n"
    using assms(1) by (auto simp: new_audit_trail_def shows_records_def last_n_def indexes_Nil tallies_def group_def split: if_splits)
  obtain a' where a': "record_batch es a = (Inr (), a')" "shows_records rs a'"
    using record_batch_shows [OF a(1,2), of es] assms(2) unfolding rs_def a(3) by auto
  then have s: "at_records a' = rs" "indexes ev_transaction_id rs (at_by_transaction a')" "indexes ev_rule_id rs (at_by_rule a')" "tallies rs (at_stats a')"
    by (simp_all add: shows_records_def)
  show ?thesis
    using a'(1) s indexes_get [OF s(2)] indexes_get [OF s(3)] indexes_keys [OF s(2)] indexes_keys [OF s(3)] tally_sum [OF s(4)]
    by (intro exI [of _ a'])
      (simp add: get_by_transaction_def get_by_rule_def get_recent_def audit_get_stats_def Let_def group_def triggered_key)
qed

definition demo_eval :: "string \<Rightarrow> outcome \<Rightarrow> eval_record" where
  "demo_eval i x = \<lparr>ev_rule_id = i, ev_rule_name = PNone, ev_rule_version = PNone, ev_outcome = x, ev_action = None, ev_severity = None,
     ev_transaction_id = PStr ''T'', ev_account_id = PNone, ev_details = []\<rparr>"

theorem audit_refines_last_records_witness:
  "\<exists>a a'. new_audit_trail 2 = Inr a \<and> record_batch [demo_eval ''A'' EO_TRIGGERED, demo_eval ''A'' EO_PASSED, demo_eval ''B'' EO_TRIGGERED] a = (Inr (), a')
     \<and> as_total_triggered (audit_get_stats a') = 1"
proof -
  define a where "a = \<lparr>at_max_records = 2, at_records = [], at_by_transaction = [], at_by_rule = [], at_stats = []\<rparr>"
  have n: "new_audit_trail 2 = Inr a" by (simp add: new_audit_trail_def a_def)
  show ?thesis
    using audit_refines_last_records [OF n, of "[demo_eval ''A'' EO_TRIGGERED, demo_eval ''A'' EO_PASSED, demo_eval ''B'' EO_TRIGGERED]" PNone "[]" 1] n
    by (fastforce simp: demo_eval_def last_n_def)
qed

section \<open>Velocity tracker\<close>

text \<open>Timed calls of the tracker: recording an event, and counting, which prunes.\<close>

datatype tracker_op = Record_op string real | Count_op string int pyval

fun tracker_apply :: "seconds \<times> tracker_op \<Rightarrow> tracker \<Rightarrow> tracker" where
  "tracker_apply (t, Record_op k x) tr = record_event t k x None tr"
| "tracker_apply (t, Count_op k w thr) tr = snd (tracker_count t k w thr None tr)"

fun recorded :: "string \<Rightarrow> seconds \<times> tracker_op \<Rightarrow> (seconds \<times> real) option" where
  "recorded k (t, Record_op j x) = (if j = k then Some (t, x) else None)"
| "recorded k (t, Count_op j w thr) = None"

definition event_history :: "string \<Rightarrow> (seconds \<times> tracker_op) list \<Rightarrow> (seconds \<times> real) list" where
  "event_history k ops = List.map_filter (recorded k) ops"

lemma event_history_snoc: "event_history k (ops @ [x]) = event_history k ops @ (case recorded k x of None \<Rightarrow> [] | Some e \<Rightarrow> [e])"
  by (simp add: event_history_def List.map_filter_def split: option.splits)

abbreviation contents_of :: "string \<Rightarrow> tracker \<Rightarrow> (seconds \<times> real) list" where
  "contents_of k tr \<equiv> dget_or (vt_events tr) k []"

definition young :: "seconds \<Rightarrow> seconds \<times> real \<Rightarrow> bool" where
  "young c e = (c \<le> fst e)"

lemma young_fun: "(\<lambda>(ts, x). c \<le> ts) = young c"
  by (auto simp: young_def)

lemma record_contents: "contents_of j (record_event t k x None tr) = (if j = k then append_bounded 10000 (t, x) (contents_of k tr) else contents_of j tr)"
  by (simp add: record_event_def time_or_def dict_simps)

lemma count_contents:
  "contents_of j (snd (tracker_count t k w thr None tr)) =
     (if j = k then dropWhile (\<lambda>(ts, x). ts < t - of_int (vt_max_window tr)) (contents_of k tr) else contents_of j tr)"
  by (auto simp: tracker_count_def time_or_def Let_def dict_simps split: list.splits)

lemma young_dropWhile: "c' \<le> c \<Longrightarrow> filter (young c) (dropWhile (\<lambda>(ts, x). ts < c') es) = filter (young c) es"
  by (induction es) (auto simp: young_def)

lemma tracker_keeps:
  assumes "\<forall>x \<in> set ops. fst x - of_int w \<le> c" "length (event_history k ops) \<le> 10000"
  shows "vt_max_window (fold tracker_apply ops (new_tracker w)) = w
    \<and> filter (young c) (contents_of k (fold tracker_apply ops (new_tracker w))) = filter (young c) (event_history k ops)
    \<and> length (contents_of k (fold tracker_apply ops (new_tracker w))) \<le> length (event_history k ops)"
  using assms
proof (induction ops rule: rev_induct)
  case Nil
  then show ?case by (simp add: new_tracker_def event_history_def List.map_filter_def dict_simps)
next
  case (snoc x ops)
  let ?tr = "fold tracker_apply ops (new_tracker w)"
  have l: "length (event_history k ops) \<le> 10000" using snoc.prems(2) by (simp add: event_history_snoc)
  have ih: "vt_max_window ?tr = w" "filter (young c) (contents_of k ?tr) = filter (young c) (event_history k ops)"
      "length (contents_of k ?tr) \<le> length (event_history k ops)"
    using snoc.IH snoc.prems(1) l by auto
  obtain t oper where x: "x = (t, oper)" by (cases x)
  have t: "t - of_int w \<le> c" using snoc.prems(1) x by simp
  show ?case
  proof (cases oper)
    case (Record_op j a)
    then have "k = j \<Longrightarrow> length (contents_of k ?tr) < 10000"
      using snoc.prems(2) ih(3) x by (simp add: event_history_snoc)
    then have "contents_of k (record_event t j a None ?tr) = contents_of k ?tr @ (if k = j then [(t, a)] else [])"
      by (auto simp: record_contents append_bounded_def)
    then show ?thesis using ih x Record_op by (cases "k = j") (simp_all add: event_history_snoc record_event_def)
  next
    case (Count_op j v thr)
    have "vt_max_window (snd (tracker_count t j v thr None ?tr)) = w"
      using ih(1) by (auto simp: tracker_count_def Let_def split: list.splits)
    then show ?thesis
      using ih x Count_op young_dropWhile [OF t, of "contents_of k ?tr"] length_dropWhile_le [of "\<lambda>(ts, x). ts < t - of_int w" "contents_of k ?tr"]
      by (auto simp: event_history_snoc count_contents)
  qed
qed

definition admits :: "pyval \<Rightarrow> real \<Rightarrow> bool" where
  "admits thr x = (case below_threshold thr x of Inr b \<Rightarrow> b | Inl ex \<Rightarrow> False)"

lemma count_events_exact:
  assumes "\<And>x. \<exists>b. below_threshold thr x = Inr b"
  shows "count_events c thr es = Inr (length (filter (\<lambda>e. admits thr (snd e)) (filter (young c) es)))"
proof (induction es)
  case (Cons e es)
  obtain b where "below_threshold thr (snd e) = Inr b" using assms by blast
  then show ?case using Cons by (cases e) (simp add: young_def admits_def)
qed simp

lemma counts_after_calls:
  assumes "\<forall>x \<in> set ops. fst x \<le> now" "window \<le> retention" "length (event_history k ops) \<le> 10000"
    and "thr = PNone \<or> (\<exists>x. thr = PFloat x) \<or> (\<exists>i. thr = PInt i)"
  shows "fst (tracker_count now k window thr None (fold tracker_apply ops (new_tracker retention)))
       = Inr (length (filter (\<lambda>(ts, x). now - of_int window \<le> ts \<and> admits thr x) (event_history k ops)))
     \<and> get_cumulative_amount now k window None (fold tracker_apply ops (new_tracker retention))
       = sum_list (map snd (filter (\<lambda>(ts, x). now - of_int window \<le> ts) (event_history k ops)))"
proof -
  let ?tr = "fold tracker_apply ops (new_tracker retention)" and ?c = "now - of_int window :: real"
  have "real_of_int window \<le> real_of_int retention" using assms(2) by simp
  then have c: "now - of_int retention \<le> ?c" "\<forall>x \<in> set ops. fst x - of_int retention \<le> ?c" using assms(1) by force+
  have k: "vt_max_window ?tr = retention" "filter (young ?c) (contents_of k ?tr) = filter (young ?c) (event_history k ops)"
    using tracker_keeps [OF c(2) assms(3)] by blast+
  have thr: "\<exists>b. below_threshold thr x = Inr b" for x using assms(4) by (auto simp: below_threshold_def)
  have "fst (tracker_count now k window thr None ?tr) = count_events ?c thr (dropWhile (\<lambda>(ts, x). ts < now - of_int retention) (contents_of k ?tr))"
    using k(1) by (cases "contents_of k ?tr") (simp_all add: tracker_count_def time_or_def Let_def)
  also have "\<dots> = Inr (length (filter (\<lambda>e. admits thr (snd e)) (filter (young ?c) (event_history k ops))))"
    by (simp only: count_events_exact [OF thr] young_dropWhile [OF c(1)] k(2))
  finally have count: "fst (tracker_count now k window thr None ?tr) = Inr (length (filter (\<lambda>(ts, x). ?c \<le> ts \<and> admits thr x) (event_history k ops)))"
    by (simp add: young_def case_prod_unfold conj_commute)
  have "get_cumulative_amount now k window None ?tr = sum_list (map snd (filter (young ?c) (contents_of k ?tr)))"
    by (simp add: get_cumulative_amount_def time_or_def young_fun)
  then show ?thesis using count k(2) by (simp only: young_fun)
qed

text \<open>
  Remark (velocity rules count every event of the window). After any calls up to \<open>now\<close>, with at most 10000 events of the
  entity, the count over a window no longer than the retention is the number of recorded events of the entity since the
  start of the window whose amount is within the threshold, and the cumulative amount is the sum of all of them,
  whatever was pruned in between.
\<close>

theorem tracker_counts_exact:
  assumes "\<forall>x \<in> set ops. fst x \<le> now" "window \<le> retention" "length (event_history k ops) \<le> 10000"
    and "thr = PNone \<or> (\<exists>x. thr = PFloat x) \<or> (\<exists>i. thr = PInt i)"
  shows "fst (tracker_count now k window thr None (fold tracker_apply ops (new_tracker retention)))
       = Inr (length (filter (\<lambda>(ts, x). now - of_int window \<le> ts \<and> admits thr x) (event_history k ops)))
     \<and> get_cumulative_amount now k window None (fold tracker_apply ops (new_tracker retention))
       = sum_list (map snd (filter (\<lambda>(ts, x). now - of_int window \<le> ts) (event_history k ops)))"
  using assms by (rule counts_after_calls)

theorem tracker_counts_exact_witness:
  "fst (tracker_count 100 ''account:a'' 60 (PInt 5) None (fold tracker_apply
      [(10, Record_op ''account:a'' 1), (50, Record_op ''account:a'' 3), (60, Count_op ''account:a'' 60 PNone), (90, Record_op ''account:a'' 9)] (new_tracker 86400)))
   = Inr 1"
  using tracker_counts_exact [of "[(10, Record_op ''account:a'' 1), (50, Record_op ''account:a'' 3), (60, Count_op ''account:a'' 60 PNone), (90, Record_op ''account:a'' 9)]"
      100 60 86400 "''account:a''" "PInt 5"]
  by (simp add: event_history_def List.map_filter_def admits_def below_threshold_def)

end
