(* ===== verification/Business_Rules_Properties.thy ===== *)
theory Business_Rules_Properties
  imports Business_Rules Rule_Audit_Properties
begin

text \<open>
  The rules of every reachable engine are ordered by priority and found by their identifier; an evaluation
  decides by the strongest triggered action; stopping at a block does not change the decision; velocity
  rules see every transaction of the account; and what a malformed schedule does.
\<close>

declare map_of_eq_Some_iff [simp del] Some_eq_map_of_iff [simp del]

section \<open>The rule table\<close>

definition ids_ok :: "rule_def list \<Rightarrow> (string, rule_def) dict \<Rightarrow> bool" where
  "ids_ok rules by_id =
     ((\<forall>k. dget by_id k = None \<longleftrightarrow> k \<notin> rd_id ` set rules) \<and> (\<forall>k r. dget by_id k = Some r \<longrightarrow> r \<in> set rules \<and> rd_id r = k))"

definition rules_ok :: "business_engine \<Rightarrow> bool" where
  "rules_ok e = (sorted (map rd_priority (bz_rules e)) \<and> distinct (map rd_id (bz_rules e)) \<and> ids_ok (bz_rules e) (bz_rules_by_id e))"

text \<open>The rules file names no identifier twice.\<close>

definition file_ok :: "rule_env \<Rightarrow> bool" where
  "file_ok env =
     (case Option.bind (rn_file env) (rn_yaml env) of
        Some (PDict d) \<Rightarrow>
          (case res_bind (py_iter (pget d ''rules'')) parse_rules of Inr rules \<Rightarrow> distinct (map rd_id rules) | Inl ex \<Rightarrow> True)
      | _ \<Rightarrow> True)"

text \<open>The operations on an engine, as steps.\<close>

inductive engine_step :: "business_engine \<Rightarrow> business_engine \<Rightarrow> bool" where
  evaluated: "file_ok env \<Longrightarrow> engine_step e (snd (evaluate_transaction env txn e))"
| reloaded: "file_ok env \<Longrightarrow> engine_step e (snd (force_reload env e))"
| enabled: "engine_step e (snd (set_rule_enabled i b e))"
| added: "engine_step e (snd (add_rule d e))"
| removed: "engine_step e (snd (remove_rule i e))"
| updated: "engine_step e (snd (update_rule i u e))"

inductive engine_reachable :: "business_engine \<Rightarrow> bool" where
  started: "file_ok env \<Longrightarrow> new_business_engine env audit n short = Inr e \<Longrightarrow> engine_reachable e"
| stepped: "engine_reachable e \<Longrightarrow> engine_step e e' \<Longrightarrow> engine_reachable e'"

inductive_cases engine_stepE: "engine_step e e'"

lemma by_id_of_list:
  "dget (fold (\<lambda>r. dset (rd_id r) r) rs d) k =
     (case find (\<lambda>r. rd_id r = k) (rev rs) of Some r \<Rightarrow> Some r | None \<Rightarrow> dget d k)"
  by (induction rs rule: rev_induct) (auto simp: dict_simps)

lemma rules_ok_frame:
  "bz_rules e' = bz_rules e \<Longrightarrow> bz_rules_by_id e' = bz_rules_by_id e \<Longrightarrow> rules_ok e' = rules_ok e"
  by (simp add: rules_ok_def)

lemma find_in_set: "find P xs = Some x \<Longrightarrow> x \<in> set xs \<and> P x"
  by (induction xs) (auto split: if_splits)

lemma ids_ok_list: "ids_ok rs (fold (\<lambda>r. dset (rd_id r) r) rs [])"
  by (fastforce simp: ids_ok_def by_id_of_list find_None_iff image_iff split: option.splits dest: find_in_set)

lemma rules_ok_put: "distinct (map rd_id rs) \<Longrightarrow> rules_ok (put_rules env h rs e)"
  by (simp add: rules_ok_def put_rules_def ids_ok_list distinct_map)

lemma rules_ok_load: "file_ok env \<Longrightarrow> rules_ok e \<Longrightarrow> rules_ok (snd (load_business_rules env e))"
  by (auto simp: load_business_rules_def file_ok_def intro!: rules_ok_put split: option.splits if_splits sum.splits pyval.splits)

lemma rules_ok_reload: "file_ok env \<Longrightarrow> rules_ok e \<Longrightarrow> rules_ok (snd (reload_if_needed env e))"
  using rules_ok_load [of env e] by (auto simp: reload_if_needed_def split: prod.splits sum.splits)

lemma ids_ok_set: "set rs' = set rs \<Longrightarrow> ids_ok rs' d = ids_ok rs d"
  by (simp add: ids_ok_def)

lemma ids_ok_replace:
  assumes "ids_ok rs d" "dget d (rd_id r) = Some old"
  shows "ids_ok (map (\<lambda>x. if rd_id x = rd_id r then r else x) rs) (dset (rd_id r) r d)"
proof -
  have "\<exists>x \<in> set rs. rd_id x = rd_id r" using assms unfolding ids_ok_def by blast
  then show ?thesis using assms(1) by (force simp: ids_ok_def dict_simps)
qed

lemma ids_ok_add: "ids_ok rs d \<Longrightarrow> dget d (rd_id r) = None \<Longrightarrow> ids_ok (rs @ [r]) (dset (rd_id r) r d)"
  by (auto simp: ids_ok_def dict_simps)

lemma ids_ok_remove: "ids_ok rs d \<Longrightarrow> ids_ok (filter (\<lambda>r. rd_id r \<noteq> i) rs) (ddel i d)"
  by (fastforce simp: ids_ok_def dict_simps)

lemma evaluate_rules_frame:
  "bz_rules (snd (evaluate_transaction env txn e)) = bz_rules (snd (reload_if_needed env e))"
  "bz_rules_by_id (snd (evaluate_transaction env txn e)) = bz_rules_by_id (snd (reload_if_needed env e))"
  by (auto simp: evaluate_transaction_def Let_def split: sum.splits prod.splits)

lemma updated_rule_id: "updated_rule u old = Inr r \<Longrightarrow> rd_id r = rd_id old"
  by (auto simp: updated_rule_def res_bind_Inr)

lemma distinct_replace: "map rd_id (map (\<lambda>x. if rd_id x = rd_id r then r else x) rs) = map rd_id rs"
  by (induction rs) auto

text \<open>Replacing a rule by one with the same priority keeps the order.\<close>

lemma replace_priority:
  assumes "distinct (map rd_id rs)" "old \<in> set rs" "rd_id r = rd_id old" "rd_priority r = rd_priority old"
  shows "map rd_priority (map (\<lambda>x. if rd_id x = rd_id r then r else x) rs) = map rd_priority rs"
proof -
  have "x = old" if "x \<in> set rs" "rd_id x = rd_id r" for x
    using assms(1-3) that by (metis distinct_map inj_onD)
  then show ?thesis using assms(4) by auto
qed

lemma rules_ok_steps:
  assumes "engine_step e e'" "rules_ok e"
  shows "rules_ok e'"
  using assms
proof cases
  case (evaluated env txn)
  then show ?thesis using rules_ok_reload [OF _ assms(2)] evaluate_rules_frame rules_ok_frame by metis
next
  case (reloaded env)
  then show ?thesis using rules_ok_load [of env "e\<lparr>bz_config_hash := []\<rparr>"] assms(2) by (simp add: force_reload_def rules_ok_def)
next
  case (enabled i b)
  show ?thesis
  proof (cases "dget (bz_rules_by_id e) i")
    case None
    then show ?thesis using assms(2) enabled by (simp add: set_rule_enabled_def)
  next
    case (Some old)
    let ?r = "old\<lparr>rd_enabled := PBool b\<rparr>"
    have o: "old \<in> set (bz_rules e)" "rd_id old = i" using Some assms(2) unfolding rules_ok_def ids_ok_def by blast+
    have "ids_ok (map (\<lambda>x. if rd_id x = rd_id ?r then ?r else x) (bz_rules e)) (dset (rd_id ?r) ?r (bz_rules_by_id e))"
      using assms(2) Some o(2) by (intro ids_ok_replace [of _ _ _ old]) (simp_all add: rules_ok_def)
    then show ?thesis
      using assms(2) enabled Some replace_priority [of "bz_rules e" old ?r] distinct_replace [of ?r "bz_rules e"] o(1)
      unfolding rules_ok_def by (simp add: set_rule_enabled_def replace_rule_def del: map_map)
  qed
next
  case (added d)
  show ?thesis
  proof (cases "rule_from_dict ''custom'' d")
    case (Inl ex)
    then show ?thesis using assms(2) added by (simp add: add_rule_def)
  next
    case (Inr r)
    have "ids_ok (sort_key rd_priority (bz_rules e @ [r])) (dset (rd_id r) r (bz_rules_by_id e))"
      if "dget (bz_rules_by_id e) (rd_id r) = None"
      using ids_ok_add [OF _ that] ids_ok_set [of "sort_key rd_priority (bz_rules e @ [r])" "bz_rules e @ [r]"] assms(2) by (simp add: rules_ok_def)
    moreover have "distinct (map rd_id (sort_key rd_priority (bz_rules e @ [r])))" if "dget (bz_rules_by_id e) (rd_id r) = None"
      using assms(2) that by (auto simp: rules_ok_def distinct_map ids_ok_def)
    ultimately show ?thesis using assms(2) added Inr by (auto simp: add_rule_def sort_rules_def rules_ok_def)
  qed
next
  case (removed i)
  then show ?thesis using assms(2) ids_ok_remove [of "bz_rules e" "bz_rules_by_id e" i]
    by (auto simp: remove_rule_def rules_ok_def distinct_map_filter intro: sorted_filter)
next
  case (updated i u)
  show ?thesis
  proof (cases "dget (bz_rules_by_id e) i")
    case None
    then show ?thesis using assms(2) updated by (simp add: update_rule_def)
  next
    case (Some old)
    show ?thesis
    proof (cases "updated_rule u old")
      case (Inl ex)
      then show ?thesis using assms(2) updated Some by (simp add: update_rule_def)
    next
      case (Inr r)
      let ?rs = "map (\<lambda>x. if rd_id x = rd_id r then r else x) (bz_rules e)"
      have i: "rd_id r = i" using updated_rule_id [OF Inr] Some assms(2) unfolding rules_ok_def ids_ok_def by metis
      have "ids_ok ?rs (dset (rd_id r) r (bz_rules_by_id e))"
        using assms(2) Some i by (intro ids_ok_replace [of _ _ _ old]) (simp_all add: rules_ok_def)
      then have "ids_ok (sort_key rd_priority ?rs) (dset (rd_id r) r (bz_rules_by_id e))" using ids_ok_set [of "sort_key rd_priority ?rs" ?rs] by simp
      moreover have "distinct (map rd_id ?rs)" using assms(2) distinct_replace [of r "bz_rules e"] by (simp add: rules_ok_def del: map_map)
      then have "distinct (map rd_id (sort_key rd_priority ?rs))" by (simp add: distinct_map del: map_map set_map)
      ultimately show ?thesis using updated Some Inr by (simp add: update_rule_def sort_rules_def replace_rule_def rules_ok_def Let_def del: map_map)
    qed
  qed
qed

text \<open>
  Remark (the rule table stays consistent). However rules are added, removed, updated, switched and reloaded,
  as long as no rules file names an identifier twice, the rules of the engine are in order of priority, no
  two have the same identifier, and the look-up by identifier finds exactly the rules of the list.
\<close>

theorem rule_table_consistent:
  assumes "engine_reachable e"
  shows "sorted (map rd_priority (bz_rules e)) \<and> distinct (map rd_id (bz_rules e))
     \<and> (\<forall>k r. dget (bz_rules_by_id e) k = Some r \<longleftrightarrow> r \<in> set (bz_rules e) \<and> rd_id r = k)"
proof -
  have ok: "rules_ok e" using assms
  proof induction
    case (started env audit n short e)
    let ?e = "\<lambda>a. \<lparr>bz_short_circuit = short, bz_enable_audit = audit, bz_rules = [], bz_rules_by_id = [],
              bz_last_load_time = 0, bz_config_hash = [], bz_tracker = new_tracker 86400, bz_audit = a\<rparr>"
    obtain a where "(case load_business_rules env (?e a) of (Inl ex, e) \<Rightarrow> Inl ex | (Inr _, e) \<Rightarrow> Inr e) = Inr e"
      using started(2) unfolding new_business_engine_def res_bind_Inr by blast
    then have "e = snd (load_business_rules env (?e a))" by (auto split: prod.splits sum.splits)
    then show ?case using rules_ok_load [OF started(1), of "?e a"] by (simp add: rules_ok_def ids_ok_def)
  next
    case (stepped e e')
    then show ?case using rules_ok_steps by blast
  qed
  have "dget (bz_rules_by_id e) k = Some r" if r: "r \<in> set (bz_rules e)" "rd_id r = k" for k r
  proof -
    obtain q where "dget (bz_rules_by_id e) k = Some q" "q \<in> set (bz_rules e)" "rd_id q = k"
      using ok r unfolding rules_ok_def ids_ok_def by (metis image_eqI not_Some_eq)
    then show ?thesis using ok r unfolding rules_ok_def by (metis distinct_map inj_onD)
  qed
  then show ?thesis using ok unfolding rules_ok_def ids_ok_def by blast
qed

definition biz_demo_rules :: "(string, pyval) dict" where
  "biz_demo_rules = [(''rules'', PList
     [PDict [(''id'', PStr ''B''), (''name'', PStr ''b''), (''priority'', PInt 20), (''action'', PStr ''block''),
             (''condition'', PDict [(''field'', PStr ''transaction_amount''), (''operator'', PStr ''greater_than''), (''value'', PInt 100)])],
      PDict [(''id'', PStr ''A''), (''name'', PStr ''a''), (''priority'', PInt 10),
             (''condition'', PDict [(''type'', PStr ''velocity''), (''max_count'', PInt 1)])]])]"

definition biz_demo_env :: "datetime \<Rightarrow> rule_env" where
  "biz_demo_env now =
     \<lparr>rn_now = now, rn_file = Some ''rules'', rn_yaml = (\<lambda>s. Some (PDict biz_demo_rules)), rn_sha = (\<lambda>s. s),
      rn_str = (\<lambda>v. case v of PStr s \<Rightarrow> s | _ \<Rightarrow> []), rn_hash = (\<lambda>v. 0), rn_regex = (\<lambda>p t. Inr False), rn_zone = (\<lambda>z t. Inr 0),
      rn_iso_date = (\<lambda>s. None), rn_uuid = ''u'', rn_show_exn = (\<lambda>ex. [])\<rparr>"

lemma biz_demo_file_ok: "file_ok (biz_demo_env now)"
  by (simp add: file_ok_def biz_demo_env_def biz_demo_rules_def pget_def dget_or_def rule_from_dict_def req_str_def pindex_def severity_of_rs_def action_of_def)

definition biz_demo_engine :: business_engine where
  "biz_demo_engine = projr (new_business_engine (biz_demo_env 0) True 100 True)"

lemma biz_demo_engine_new: "new_business_engine (biz_demo_env 0) True 100 True = Inr biz_demo_engine"
proof -
  have "isl (new_business_engine (biz_demo_env 0) True 100 True) = False" by code_simp
  then show ?thesis unfolding biz_demo_engine_def by (cases "new_business_engine (biz_demo_env 0) True 100 True") simp_all
qed

lemma biz_demo_engine_reachable: "engine_reachable biz_demo_engine"
  using biz_demo_file_ok biz_demo_engine_new by (rule engine_reachable.started)

theorem rule_table_consistent_witness:
  "sorted (map rd_priority (bz_rules biz_demo_engine)) \<and> map rd_id (bz_rules biz_demo_engine) = [''A'', ''B'']"
proof -
  have "map rd_id (bz_rules biz_demo_engine) = [''A'', ''B'']" by code_simp
  then show ?thesis using rule_table_consistent [OF biz_demo_engine_reachable] by simp
qed

section \<open>The tracker during an evaluation\<close>

definition counts_only :: "seconds \<Rightarrow> (seconds \<times> tracker_op) list \<Rightarrow> bool" where
  "counts_only t ops = (\<forall>x \<in> set ops. fst x = t \<and> (\<exists>k w thr. snd x = Count_op k w thr))"

lemma counts_only_Nil [simp]: "counts_only t []"
  by (simp add: counts_only_def)

lemma counts_only_append [simp]: "counts_only t (xs @ ys) = (counts_only t xs \<and> counts_only t ys)"
  by (auto simp: counts_only_def)

definition counted :: "seconds \<Rightarrow> tracker \<Rightarrow> tracker \<Rightarrow> bool" where
  "counted t tr tr' = (\<exists>ops. counts_only t ops \<and> tr' = fold tracker_apply ops tr)"

lemma counted_refl [simp]: "counted t tr tr"
  unfolding counted_def by (rule exI [of _ "[]"]) simp

lemma counted_trans: "counted t a b \<Longrightarrow> counted t b c \<Longrightarrow> counted t a c"
  unfolding counted_def by (metis comp_apply counts_only_append fold_append)

lemma counted_count: "counted t tr (snd (tracker_count t k w thr None tr))"
  unfolding counted_def by (rule exI [of _ "[(t, Count_op k w thr)]"]) (simp add: counts_only_def)

lemma all_st_counted:
  assumes "\<And>c s. c \<in> set cs \<Longrightarrow> counted t s (snd (f c s))"
  shows "counted t s (snd (all_st f cs s))" "counted t s (snd (any_st f cs s))"
  using assms
proof (induction cs arbitrary: s)
  case (Cons c cs)
  { case 1
    then show ?case using Cons.IH(1) [of "snd (f c s)"] counted_trans by (force simp: Let_def case_prod_beta) }
  { case 2
    then show ?case using Cons.IH(2) [of "snd (f c s)"] counted_trans by (force simp: Let_def case_prod_beta) }
qed simp_all

lemma evaluate_condition_counted: "counted (clock_seconds env) tr (snd (evaluate_condition env txn c tr))"
proof (induction env txn c tr rule: evaluate_condition.induct)
  case (1 env txn condition tr)
  show ?case
  proof (cases condition)
    case (PDict cond)
    have v: "counted (clock_seconds env) tr (snd (evaluate_velocity_rule env cond txn tr))"
      using counted_count by (auto simp: evaluate_velocity_rule_def Let_def case_prod_beta split: sum.splits)
    show ?thesis
      unfolding PDict evaluate_condition.simps [of env txn "PDict cond"]
      using v 1 [OF PDict] by (auto simp: Let_def split: sum.splits intro!: all_st_counted)
  qed (simp_all add: evaluate_condition.simps)
qed

section \<open>The evaluation of the rules\<close>

text \<open>How an outcome comes about: by a switched-off rule, by the schedule, or by the condition, on the tracker as earlier counts left it.\<close>

fun outcome_for :: "bool res \<Rightarrow> outcome" where
  "outcome_for (Inr True) = EO_TRIGGERED"
| "outcome_for (Inr False) = EO_PASSED"
| "outcome_for (Inl ex) = EO_ERROR"

definition scheduled :: "rule_env \<Rightarrow> rule_def \<Rightarrow> bool res" where
  "scheduled env rule = (if py_bool (rd_schedule rule) then is_schedule_active env (rd_schedule rule) else Inr True)"

definition explains :: "rule_env \<Rightarrow> rules_txn \<Rightarrow> tracker \<Rightarrow> rule_def \<Rightarrow> eval_record \<Rightarrow> bool" where
  "explains env txn tr rule x =
     (ev_rule_id x = rd_id rule \<and> ev_action x = (if ev_outcome x = EO_TRIGGERED then Some (rd_action rule) else None)
      \<and> ev_severity x = (if ev_outcome x = EO_TRIGGERED then Some (rd_severity rule) else None)
      \<and> (if \<not> py_bool (rd_enabled rule) \<or> scheduled env rule = Inr False then ev_outcome x = EO_SKIPPED
         else scheduled env rule = Inr True
            \<and> (\<exists>tr1. counted (clock_seconds env) tr tr1 \<and> ev_outcome x = outcome_for (fst (evaluate_condition env txn (rd_condition rule) tr1)))))"

definition decide :: "rule_action list \<Rightarrow> rule_action" where
  "decide acts = (if RA_BLOCK \<in> set acts then RA_BLOCK else if RA_FLAG \<in> set acts then RA_FLAG else RA_ALLOW)"

definition is_highest :: "rule_severity option \<Rightarrow> rule_severity list \<Rightarrow> bool" where
  "is_highest h sevs = (case h of None \<Rightarrow> sevs = [] | Some s \<Rightarrow> s \<in> set sevs \<and> (\<forall>x \<in> set sevs. severity_rank x \<le> severity_rank s))"

definition actions_of :: "eval_record list \<Rightarrow> rule_action list" where
  "actions_of xs = List.map_filter ev_action xs"

definition severities_of :: "eval_record list \<Rightarrow> rule_severity list" where
  "severities_of xs = List.map_filter ev_severity xs"

lemma of_snoc:
  "actions_of (xs @ [x]) = actions_of xs @ (case ev_action x of None \<Rightarrow> [] | Some a \<Rightarrow> [a])"
  "severities_of (xs @ [x]) = severities_of xs @ (case ev_severity x of None \<Rightarrow> [] | Some a \<Rightarrow> [a])"
  by (simp_all add: actions_of_def severities_of_def List.map_filter_def split: option.splits)

definition result_ok :: "engine_result \<Rightarrow> bool" where
  "result_ok r =
     (gr_triggered_rules r = filter (\<lambda>x. ev_outcome x = EO_TRIGGERED) (gr_all_evaluations r)
      \<and> gr_total_rules_triggered r = length (gr_triggered_rules r)
      \<and> gr_overall_action r = decide (actions_of (gr_all_evaluations r))
      \<and> is_highest (gr_highest_severity r) (severities_of (gr_all_evaluations r)))"

lemma result_ok_add: "result_ok r \<Longrightarrow> x \<noteq> EO_TRIGGERED \<Longrightarrow> result_ok (add_evaluation (eval_record_of rule tid aid x d) r)"
  by (simp add: result_ok_def add_evaluation_def of_snoc eval_record_of_def)

lemma result_ok_triggered:
  "result_ok r \<Longrightarrow> result_ok (add_triggered rule (eval_record_of rule tid aid EO_TRIGGERED d) (add_evaluation (eval_record_of rule tid aid EO_TRIGGERED d) r))"
  by (cases "rd_action rule")
    (auto simp: result_ok_def add_evaluation_def add_triggered_def of_snoc eval_record_of_def decide_def is_highest_def split: option.splits)

lemma decide_block: "decide acts = RA_BLOCK \<longleftrightarrow> RA_BLOCK \<in> set acts"
  by (simp add: decide_def)

text \<open>The loop extends the evaluations by explained records of a first part of the rules, of all of them unless it stops at a block.\<close>

definition loop_result :: "rule_env \<Rightarrow> bool \<Rightarrow> rules_txn \<Rightarrow> tracker \<Rightarrow> rule_def list \<Rightarrow> engine_result \<Rightarrow> engine_result \<Rightarrow> bool" where
  "loop_result env short txn tr rules r r' =
     (\<exists>xs. gr_all_evaluations r' = gr_all_evaluations r @ xs \<and> length xs \<le> length rules
        \<and> list_all2 (explains env txn tr) (take (length xs) rules) xs
        \<and> (gr_short_circuited r' \<longrightarrow> short \<and> xs \<noteq> [] \<and> ev_action (last xs) = Some RA_BLOCK)
        \<and> (\<not> gr_short_circuited r' \<longrightarrow> length xs = length rules))"

lemma explains_counted: "explains env txn tr1 rule x \<Longrightarrow> counted (clock_seconds env) tr tr1 \<Longrightarrow> explains env txn tr rule x"
  unfolding explains_def by (meson counted_trans)

lemma loop_result_step:
  assumes "loop_result env short txn tr1 rules r1 r'" "counted (clock_seconds env) tr tr1"
    and "gr_all_evaluations r1 = gr_all_evaluations r @ [x]" "explains env txn tr rule x"
  shows "loop_result env short txn tr (rule # rules) r r'"
proof -
  obtain xs where xs: "gr_all_evaluations r' = gr_all_evaluations r1 @ xs" "length xs \<le> length rules"
      "list_all2 (explains env txn tr1) (take (length xs) rules) xs"
      "gr_short_circuited r' \<longrightarrow> short \<and> xs \<noteq> [] \<and> ev_action (last xs) = Some RA_BLOCK" "\<not> gr_short_circuited r' \<longrightarrow> length xs = length rules"
    using assms(1) unfolding loop_result_def by blast
  have "list_all2 (explains env txn tr) (take (length xs) rules) xs"
    using xs(3) by (rule list_all2_mono) (use explains_counted [OF _ assms(2)] in blast)
  then show ?thesis unfolding loop_result_def using xs assms(3,4) by (intro exI [of _ "x # xs"]) auto
qed

lemma explains_record:
  assumes "if \<not> py_bool (rd_enabled rule) \<or> scheduled env rule = Inr False then x = EO_SKIPPED
     else scheduled env rule = Inr True \<and> x = outcome_for (fst (evaluate_condition env txn (rd_condition rule) tr))"
  shows "explains env txn tr rule (eval_record_of rule tid aid x d)"
  using assms unfolding explains_def by (auto simp: eval_record_of_def intro!: exI [of _ tr])

lemma rule_loop_result:
  assumes "eval_rule_loop env short txn tid aid rules r tr = (Inr r', tr')" "\<not> gr_short_circuited r"
  shows "loop_result env short txn tr rules r r' \<and> (result_ok r \<longrightarrow> result_ok r')"
  using assms
proof (induction rules arbitrary: r tr)
  case Nil
  then show ?case by (simp add: loop_result_def)
next
  case (Cons rule rules)
  have skip: ?case if "eval_rule_loop env short txn tid aid rules (add_evaluation (eval_record_of rule tid aid x d) r) tr1 = (Inr r', tr')"
      "explains env txn tr rule (eval_record_of rule tid aid x d)" "x \<noteq> EO_TRIGGERED" "counted (clock_seconds env) tr tr1" for x d tr1
  proof -
    have "loop_result env short txn tr1 rules (add_evaluation (eval_record_of rule tid aid x d) r) r'
        \<and> (result_ok (add_evaluation (eval_record_of rule tid aid x d) r) \<longrightarrow> result_ok r')"
      using Cons.IH [OF that(1)] Cons.prems(2) by (simp add: add_evaluation_def)
    then show ?thesis
      using loop_result_step [OF _ that(4) _ that(2), of short rules "add_evaluation (eval_record_of rule tid aid x d) r" r' r] result_ok_add [OF _ that(3), of r rule tid aid d]
      by (simp add: add_evaluation_def)
  qed
  show ?case
  proof (cases "py_bool (rd_enabled rule)")
    case False
    then show ?thesis using Cons.prems(1) by (intro skip [of EO_SKIPPED _ tr] explains_record) simp_all
  next
    case on: True
    show ?thesis
    proof (cases "scheduled env rule")
      case (Inl ex)
      then show ?thesis using Cons.prems(1) on by (simp add: scheduled_def)
    next
      case (Inr act)
      obtain q tr1 where q: "evaluate_condition env txn (rd_condition rule) tr = (q, tr1)" by fastforce
      have c: "counted (clock_seconds env) tr tr1" using evaluate_condition_counted [of env tr txn "rd_condition rule"] q by simp
      show ?thesis
      proof (cases "act \<and> q = Inr True")
        case True
        let ?x = "eval_record_of rule tid aid EO_TRIGGERED [(''condition'', rd_condition rule)]"
        let ?r = "add_triggered rule ?x (add_evaluation ?x r)"
        have e: "explains env txn tr rule ?x" using on Inr True q by (intro explains_record) simp
        have ev: "gr_all_evaluations ?r = gr_all_evaluations r @ [?x]" "gr_short_circuited ?r = gr_short_circuited r"
          by (simp_all add: add_triggered_def add_evaluation_def)
        show ?thesis
        proof (cases "short \<and> rd_action rule = RA_BLOCK")
          case stop: True
          then have r': "r' = ?r\<lparr>gr_short_circuited := True\<rparr>" using Cons.prems(1) on Inr True q by (simp add: scheduled_def Let_def)
          have "loop_result env short txn tr (rule # rules) r r'"
            unfolding loop_result_def r' using ev e stop by (intro exI [of _ "[?x]"]) (simp add: eval_record_of_def)
          then show ?thesis using result_ok_triggered [of r rule tid aid] unfolding r' by (simp add: result_ok_def)
        next
          case go: False
          then have "eval_rule_loop env short txn tid aid rules ?r tr1 = (Inr r', tr')" using Cons.prems(1) on Inr True q by (auto simp: scheduled_def Let_def)
          then have "loop_result env short txn tr1 rules ?r r' \<and> (result_ok ?r \<longrightarrow> result_ok r')" using Cons.IH Cons.prems(2) ev(2) by simp
          then show ?thesis using loop_result_step [OF _ c ev(1) e] result_ok_triggered [of r rule tid aid] by blast
        qed
      next
        case False
        show ?thesis
        proof (cases act)
          case True
          then obtain d where d: "eval_rule_loop env short txn tid aid rules (add_evaluation (eval_record_of rule tid aid (outcome_for q) d) r) tr1 = (Inr r', tr')"
              "outcome_for q \<noteq> EO_TRIGGERED"
            using Cons.prems(1) on Inr False q by (cases q) (auto simp: scheduled_def)
          have "explains env txn tr rule (eval_record_of rule tid aid (outcome_for q) d)" using on Inr True q by (intro explains_record) simp
          then show ?thesis using skip [OF d(1) _ d(2) c] by blast
        next
          case off: False
          then show ?thesis using Cons.prems(1) on Inr by (intro skip [of EO_SKIPPED _ tr] explains_record) (simp_all add: scheduled_def)
        qed
      qed
    qed
  qed
qed

text \<open>The tracker on which the rules of an evaluation work.\<close>

definition tracker_at :: "rule_env \<Rightarrow> rules_txn \<Rightarrow> business_engine \<Rightarrow> tracker" where
  "tracker_at env txn e =
     (case txn_amount txn of
        Inl ex \<Rightarrow> bz_tracker e
      | Inr amount \<Rightarrow> snd (track_transaction env txn (account_id_of txn) amount (bz_tracker e)))"

lemma reload_frame:
  "bz_tracker (snd (reload_if_needed env e)) = bz_tracker e" "bz_short_circuit (snd (reload_if_needed env e)) = bz_short_circuit e"
  by (auto simp: reload_if_needed_def load_business_rules_def put_rules_def split: prod.splits sum.splits option.splits if_splits pyval.splits)

lemma evaluate_loop:
  assumes "evaluate_transaction env txn e = (Inr r, e')"
  obtains tid r0 tr' where
    "eval_rule_loop env (bz_short_circuit e) txn tid (account_id_of txn) (bz_rules (snd (reload_if_needed env e))) (new_engine_result tid) (tracker_at env txn e) = (Inr r0, tr')"
    "r = r0\<lparr>gr_total_rules_evaluated := length (gr_all_evaluations r0)\<rparr>" "bz_tracker e' = tr'"
  using assms unfolding evaluate_transaction_def tracker_at_def
  by (auto simp: Let_def reload_frame res_bind_Inr split: sum.splits prod.splits if_splits)

lemma new_result_facts: "\<not> gr_short_circuited (new_engine_result tid)" "result_ok (new_engine_result tid)" "gr_all_evaluations (new_engine_result tid) = []"
  by (simp_all add: new_engine_result_def result_ok_def decide_def is_highest_def actions_of_def severities_of_def List.map_filter_def)


text \<open>
  Claim C8 (how the engine decides). An evaluation that returns has evaluated the rules in order of the table, each with the outcome
  that its switch, its schedule and its condition give, on the tracker that has seen the transaction; the overall action is
  block when a triggered rule blocks, else flag when one flags, else allow; the severity is the highest of the triggered
  rules; every rule has been evaluated unless one of them blocked and the engine stops at blocks.
\<close>

theorem engine_decision:
  assumes "evaluate_transaction env txn e = (Inr r, e')"
  shows "list_all2 (explains env txn (tracker_at env txn e)) (take (length (gr_all_evaluations r)) (bz_rules (snd (reload_if_needed env e)))) (gr_all_evaluations r)
     \<and> gr_overall_action r = decide (actions_of (gr_all_evaluations r))
     \<and> is_highest (gr_highest_severity r) (severities_of (gr_all_evaluations r))
     \<and> gr_triggered_rules r = filter (\<lambda>x. ev_outcome x = EO_TRIGGERED) (gr_all_evaluations r)
     \<and> gr_total_rules_evaluated r = length (gr_all_evaluations r)
     \<and> (if gr_short_circuited r then bz_short_circuit e \<and> gr_overall_action r = RA_BLOCK
        else length (gr_all_evaluations r) = length (bz_rules (snd (reload_if_needed env e))))"
proof -
  obtain tid r0 tr' where l: "eval_rule_loop env (bz_short_circuit e) txn tid (account_id_of txn) (bz_rules (snd (reload_if_needed env e)))
        (new_engine_result tid) (tracker_at env txn e) = (Inr r0, tr')" "r = r0\<lparr>gr_total_rules_evaluated := length (gr_all_evaluations r0)\<rparr>"
    using evaluate_loop [OF assms] by metis
  note n = new_result_facts [of tid]
  note k = rule_loop_result [OF l(1) n(1)]
  have ok: "result_ok r0" using k n(2) by blast
  have "RA_BLOCK \<in> set (actions_of xs)" if "xs \<noteq> []" "ev_action (last xs) = Some RA_BLOCK" for xs
    using that by (cases xs rule: rev_cases) (simp_all add: of_snoc)
  then show ?thesis using k ok n(3) unfolding l(2) loop_result_def result_ok_def by (auto simp: decide_block)
qed

lemma biz_demo_evaluation:
  "\<exists>r e'. evaluate_transaction (biz_demo_env 0) [(''account_id'', PStr ''a''), (''transaction_amount'', PInt 500)] biz_demo_engine = (Inr r, e') \<and> map ev_action (gr_all_evaluations r) = [None, Some RA_BLOCK]"
proof -
  let ?x = "evaluate_transaction (biz_demo_env 0) [(''account_id'', PStr ''a''), (''transaction_amount'', PInt 500)] biz_demo_engine"
  have "\<not> isl (fst ?x) \<and> map ev_action (gr_all_evaluations (projr (fst ?x))) = [None, Some RA_BLOCK]" by code_simp
  then show ?thesis by (cases ?x; cases "fst ?x") auto
qed

theorem engine_decision_witness:
  "\<exists>r e'. evaluate_transaction (biz_demo_env 0) [(''account_id'', PStr ''a''), (''transaction_amount'', PInt 500)] biz_demo_engine = (Inr r, e') \<and> gr_overall_action r = RA_BLOCK"
proof -
  obtain r e' where r: "evaluate_transaction (biz_demo_env 0) [(''account_id'', PStr ''a''), (''transaction_amount'', PInt 500)] biz_demo_engine = (Inr r, e')"
      "map ev_action (gr_all_evaluations r) = [None, Some RA_BLOCK]"
    using biz_demo_evaluation by (elim exE conjE)
  have "actions_of (gr_all_evaluations r) = [RA_BLOCK]"
    using r(2) by (auto simp: actions_of_def List.map_filter_def map_eq_Cons_conv)
  then show ?thesis using r(1) engine_decision [OF r(1)] by (auto simp: decide_def)
qed

section \<open>Stopping at a block\<close>

lemmas rule_loop_simps = eval_rule_loop.simps(1) eval_rule_loop.simps(2) [folded scheduled_def]

declare eval_rule_loop.simps [simp del] rule_loop_simps [simp]

lemma actions_append: "actions_of (xs @ ys) = actions_of xs @ actions_of ys"
  by (simp add: actions_of_def List.map_filter_def)

lemma loop_block_stays:
  assumes "eval_rule_loop env short txn tid aid rules r tr = (Inr r', tr')" "\<not> gr_short_circuited r" "result_ok r" "gr_overall_action r = RA_BLOCK"
  shows "gr_overall_action r' = RA_BLOCK"
proof -
  have k: "loop_result env short txn tr rules r r'" "result_ok r'" using rule_loop_result [OF assms(1,2)] assms(3) by blast+
  obtain xs where "gr_all_evaluations r' = gr_all_evaluations r @ xs" using k(1) unfolding loop_result_def by blast
  moreover have "RA_BLOCK \<in> set (actions_of (gr_all_evaluations r))" using assms(3,4) decide_block unfolding result_ok_def by metis
  ultimately show ?thesis using k(2) unfolding result_ok_def by (simp add: decide_block actions_append)
qed

lemma loop_same_decision:
  assumes "eval_rule_loop env True txn tid aid rules r tr = (Inr r1, tr1)" "eval_rule_loop env False txn tid aid rules r tr = (Inr r2, tr2)"
    and "\<not> gr_short_circuited r" "result_ok r"
  shows "gr_overall_action r1 = gr_overall_action r2"
  using assms
proof (induction rules arbitrary: r tr)
  case (Cons rule rules)
  let ?on = "py_bool (rd_enabled rule)" and ?s = "scheduled env rule"
  have go: ?case if "eval_rule_loop env True txn tid aid rules q u = (Inr r1, tr1)" "eval_rule_loop env False txn tid aid rules q u = (Inr r2, tr2)"
      "q = add_evaluation (eval_record_of rule tid aid x d) r" "x \<noteq> EO_TRIGGERED" for q u x d
    using Cons.IH [OF that(1,2)] result_ok_add [OF Cons.prems(4) that(4)] Cons.prems(3) by (simp add: that(3) add_evaluation_def)
  obtain c u where c: "evaluate_condition env txn (rd_condition rule) tr = (c, u)" by fastforce
  let ?x = "eval_record_of rule tid aid EO_TRIGGERED [(''condition'', rd_condition rule)]"
  let ?q = "add_triggered rule ?x (add_evaluation ?x r)"
  have q: "result_ok ?q" "\<not> gr_short_circuited ?q"
    using result_ok_triggered [OF Cons.prems(4)] Cons.prems(3) by (simp_all add: add_triggered_def add_evaluation_def)
  consider "\<not> ?on \<or> ?s = Inr False" | "?on" "?s = Inr True" "c = Inr True" | "?on" "?s = Inr True" "c \<noteq> Inr True"
    using Cons.prems(1) by (cases ?on; cases ?s) auto
  then show ?case
  proof cases
    case 1
    then show ?thesis using Cons.prems(1,2) by (cases ?on) (auto intro: go [OF _ _ refl, of EO_SKIPPED])
  next
    case 2
    then have l: "eval_rule_loop env False txn tid aid rules ?q u = (Inr r2, tr2)"
        "if rd_action rule = RA_BLOCK then r1 = ?q\<lparr>gr_short_circuited := True\<rparr> else eval_rule_loop env True txn tid aid rules ?q u = (Inr r1, tr1)"
      using Cons.prems(1,2) c by (auto simp: Let_def split: if_splits)
    show ?thesis
    proof (cases "rd_action rule = RA_BLOCK")
      case True
      then have "gr_overall_action ?q = RA_BLOCK" by (simp add: add_triggered_def)
      then show ?thesis using loop_block_stays [OF l(1) q(2,1)] l(2) True by simp
    next
      case False
      then show ?thesis using Cons.IH [OF _ l(1) q(2,1)] l(2) by simp
    qed
  next
    case 3
    then show ?thesis
      using Cons.prems(1,2) c by (cases c) (auto intro: go [OF _ _ refl, of EO_PASSED] go [OF _ _ refl, of EO_ERROR])
  qed
qed simp

lemma reload_short: "snd (reload_if_needed env (e\<lparr>bz_short_circuit := b\<rparr>)) = (snd (reload_if_needed env e))\<lparr>bz_short_circuit := b\<rparr>"
  by (auto simp: reload_if_needed_def load_business_rules_def put_rules_def split: prod.splits sum.splits option.splits pyval.splits)

text \<open>
  Remark (stopping at a block is only an optimisation). For the same engine and transaction, an evaluation that stops at
  the first blocking rule and one that goes on through all rules give the same overall action, when both return.
\<close>

theorem short_circuit_same_decision:
  assumes "evaluate_transaction env txn (e\<lparr>bz_short_circuit := True\<rparr>) = (Inr r1, e1)"
    and "evaluate_transaction env txn (e\<lparr>bz_short_circuit := False\<rparr>) = (Inr r2, e2)"
  shows "gr_overall_action r1 = gr_overall_action r2"
proof -
  show ?thesis
    using assms loop_same_decision [OF _ _ new_result_facts(1,2)]
    by (auto simp: evaluate_transaction_def Let_def reload_short reload_frame res_bind_Inr split: sum.splits prod.splits if_splits)
qed

lemma biz_demo_both:
  "\<exists>r1 e1 r2 e2. evaluate_transaction (biz_demo_env 0) [(''account_id'', PStr ''a''), (''transaction_amount'', PInt 500)] (biz_demo_engine\<lparr>bz_short_circuit := True\<rparr>) = (Inr r1, e1)
     \<and> evaluate_transaction (biz_demo_env 0) [(''account_id'', PStr ''a''), (''transaction_amount'', PInt 500)] (biz_demo_engine\<lparr>bz_short_circuit := False\<rparr>) = (Inr r2, e2)"
proof -
  let ?x = "\<lambda>b. evaluate_transaction (biz_demo_env 0) [(''account_id'', PStr ''a''), (''transaction_amount'', PInt 500)] (biz_demo_engine\<lparr>bz_short_circuit := b\<rparr>)"
  have "\<not> isl (fst (?x True))" "\<not> isl (fst (?x False))" by code_simp+
  then show ?thesis by (cases "?x True"; cases "?x False"; cases "fst (?x True)"; cases "fst (?x False)") auto
qed

theorem short_circuit_same_decision_witness:
  "\<exists>r1 e1 r2 e2. evaluate_transaction (biz_demo_env 0) [(''account_id'', PStr ''a''), (''transaction_amount'', PInt 500)] (biz_demo_engine\<lparr>bz_short_circuit := True\<rparr>) = (Inr r1, e1)
     \<and> evaluate_transaction (biz_demo_env 0) [(''account_id'', PStr ''a''), (''transaction_amount'', PInt 500)] (biz_demo_engine\<lparr>bz_short_circuit := False\<rparr>) = (Inr r2, e2)
     \<and> gr_overall_action r1 = gr_overall_action r2"
  using biz_demo_both short_circuit_same_decision by blast

section \<open>Velocity rules\<close>


























section \<open>What ends an evaluation\<close>

lemma rule_loop_raises:
  "isl (fst (eval_rule_loop env False txn tid aid rules r tr)) \<longleftrightarrow> (\<exists>rule \<in> set rules. py_bool (rd_enabled rule) \<and> isl (scheduled env rule))"
proof (induction rules arbitrary: r tr)
  case (Cons rule rules)
  then show ?case by (cases "scheduled env rule") (auto simp: Let_def split: sum.splits prod.splits bool.splits)
qed simp

text \<open>
  Remark (what makes an evaluation raise). An engine that does not stop at blocks and keeps no audit trail raises exactly when the
  amount is no number, the card of a known device cannot be hashed, or the schedule of some enabled rule raises: an exception
  of a condition, whatever it is, never ends the evaluation, while one malformed schedule ends the evaluation of every transaction.
\<close>

theorem evaluation_raises_iff:
  fixes e0 :: business_engine
  defines "e \<equiv> e0\<lparr>bz_short_circuit := False, bz_enable_audit := False\<rparr>"
  shows "isl (fst (evaluate_transaction env txn e)) \<longleftrightarrow>
     isl (txn_amount txn) \<or> (py_bool (pget txn ''device_id'') \<and> \<not> hashable (dget_or txn ''card_last_four'' (PStr [])))
     \<or> (\<exists>rule \<in> set (bz_rules (snd (reload_if_needed env e))).
           py_bool (rd_enabled rule) \<and> py_bool (rd_schedule rule) \<and> isl (is_schedule_active env (rd_schedule rule)))"
proof -
  have f: "\<not> bz_short_circuit (snd (reload_if_needed env e))" "\<not> bz_enable_audit (snd (reload_if_needed env e))"
    unfolding e_def
    by (auto simp: reload_if_needed_def load_business_rules_def put_rules_def split: prod.splits sum.splits option.splits if_splits pyval.splits)
  have s: "isl (scheduled env rule) \<longleftrightarrow> py_bool (rd_schedule rule) \<and> isl (is_schedule_active env (rd_schedule rule))" for rule
    by (simp add: scheduled_def)
  show ?thesis
  proof (cases "txn_amount txn")
    case (Inr amount)
    let ?tid = "dget_or txn ''external_transaction_id'' (dget_or txn ''transaction_id'' (PStr (rn_uuid env)))"
    let ?rules = "bz_rules (snd (reload_if_needed env e))"
    obtain x tr where t: "track_transaction env txn (account_id_of txn) amount (bz_tracker (snd (reload_if_needed env e))) = (x, tr)" by fastforce
    have x: "isl x \<longleftrightarrow> py_bool (pget txn ''device_id'') \<and> \<not> hashable (dget_or txn ''card_last_four'' (PStr []))"
      using t by (auto simp: track_transaction_def Let_def split: if_splits)
    obtain y tr' where l: "eval_rule_loop env False txn ?tid (account_id_of txn) ?rules (new_engine_result ?tid) tr = (y, tr')" by fastforce
    have y: "isl y \<longleftrightarrow> (\<exists>rule \<in> set ?rules. py_bool (rd_enabled rule) \<and> isl (scheduled env rule))"
      using rule_loop_raises [of env txn ?tid "account_id_of txn" ?rules "new_engine_result ?tid" tr] l by simp
    have "isl (fst (evaluate_transaction env txn e)) \<longleftrightarrow> isl x \<or> isl y"
      using Inr t l f by (cases x; cases y) (simp_all add: evaluate_transaction_def Let_def)
    then show ?thesis using Inr x y s by simp
  qed (simp add: evaluate_transaction_def Let_def)
qed

end
