(* ===== verification/Pipeline_Properties.thy ===== *)
theory Pipeline_Properties
  imports Pipeline Business_Rules_Properties Feature_Engineer_Properties
begin

text \<open>
  Every record leaves the pipeline processed or as one dead letter; a batch accounts for all its records; a blocked record reaches no later component;
  under the default policy only invalid, blocked and duplicate records fail; without history the features are constant; and the validation stage counts a record
  twice.
\<close>

declare map_of_eq_Some_iff [simp del] Some_eq_map_of_iff [simp del]

section \<open>Conservation\<close>

lemma run_stages_letters:
  assumes "\<forall>(f, s) \<in> set fs. dlq_stage f"
  shows "(\<exists>es. pl_dlq (snd (run_stages fs rec p)) = pl_dlq p @ es \<and> length es = (case fst (run_stages fs rec p) of Inl _ \<Rightarrow> 1 | Inr _ \<Rightarrow> 0)) \<and>
    pl_error_policy (snd (run_stages fs rec p)) = pl_error_policy p \<and> pm_total_ingested (pl_metrics (snd (run_stages fs rec p))) = pm_total_ingested (pl_metrics p)"
  using assms
proof (induction fs arbitrary: rec p)
  case (Cons x fs)
  obtain f s e where x: "x = (f, s, e)" by (cases x) auto
  have f: "dlq_stage f" using Cons.prems by (simp add: x)
  obtain y p1 where y: "f rec p = (y, p1)" by fastforce
  note k = dlq_stage.keeps [OF f, of rec p y p1] dlq_stage.drops [OF f, of rec p p1] dlq_stage.passes [OF f, of rec p _ p1]
  then show ?case using Cons.IH [of _ p1] Cons.prems y by (cases y) (auto simp: x)
qed simp

lemma stages_ok: "\<forall>(f, s) \<in> set (pipeline_stages env). dlq_stage f"
  by (simp add: pipeline_stages_def validation_stage.dlq_stage_axioms rules_stage.dlq_stage_axioms cleaning_stage.dlq_stage_axioms
      normalization_stage.dlq_stage_axioms feature_stage.dlq_stage_axioms enrichment_stage.dlq_stage_axioms)

lemma process_record_letters:
  "\<exists>es. pl_dlq (snd (process_record env rec p)) = pl_dlq p @ es \<and> length es = (if pr_success (fst (process_record env rec p)) then 0 else 1)"
  "pr_dlq (fst (process_record env rec p)) = (\<not> pr_success (fst (process_record env rec p)))"
  using run_stages_letters [OF stages_ok, of env rec p] by (auto simp: process_record_def split: prod.splits sum.splits)

text \<open>The stages of a list pass a record on, one after the other, each with the record and the state the one before left.\<close>

primrec passes_through :: "stage_run list \<Rightarrow> txn_dict \<Rightarrow> pipeline \<Rightarrow> txn_dict \<Rightarrow> pipeline \<Rightarrow> bool" where
  "passes_through [] rec p r p1 = (r = rec \<and> p1 = p)"
| "passes_through (f # fs) rec p r p1 = (\<exists>rec1 q. f rec p = (Some rec1, q) \<and> passes_through fs rec1 q r p1)"

lemma run_stages_passed:
  assumes "\<forall>(f, s) \<in> set fs. dlq_stage f" "run_stages fs rec p = (Inr r, p1)"
  shows "passes_through (map fst fs) rec p r p1 \<and> pl_dlq p1 = pl_dlq p"
  using assms
proof (induction fs arbitrary: rec p)
  case (Cons x fs)
  obtain f s e where x: "x = (f, s, e)" by (cases x) auto
  have f: "dlq_stage f" using Cons.prems by (simp add: x)
  obtain y q where y: "f rec p = (y, q)" by fastforce
  then obtain rec1 where rec1: "y = Some rec1" using Cons.prems(2) by (cases y) (simp_all add: x)
  show ?case using Cons.IH [of rec1 q] Cons.prems y rec1 dlq_stage.passes [OF f, of rec p rec1 q] by (auto simp: x)
qed simp

lemma run_stages_dropped:
  assumes "\<forall>(f, s) \<in> set fs. dlq_stage f" "run_stages fs rec p = (Inl (stage, err), p1)"
  shows "\<exists>k < length fs. \<exists>rk q e. passes_through (take k (map fst fs)) rec p rk q \<and> fst (fs ! k) rk q = (None, p1) \<and> stage = fst (snd (fs ! k)) \<and>
    pl_dlq p1 = pl_dlq p @ [e] \<and> dq_original_record e = rk"
  using assms
proof (induction fs arbitrary: rec p)
  case (Cons x fs)
  obtain f s e where x: "x = (f, s, e)" by (cases x) auto
  have f: "dlq_stage f" using Cons.prems by (simp add: x)
  obtain y q where y: "f rec p = (y, q)" by fastforce
  show ?case
  proof (cases y)
    case None
    then show ?thesis using Cons.prems(2) y dlq_stage.drops [OF f, of rec p q] by (intro exI [of _ 0]) (auto simp: x)
  next
    case (Some rec1)
    then have "pl_dlq q = pl_dlq p" "run_stages fs rec1 q = (Inl (stage, err), p1)" using dlq_stage.passes [OF f, of rec p rec1 q] y Cons.prems(2) by (simp_all add: x)
    moreover from this Cons obtain k rk q1 d where "k < length fs" "passes_through (take k (map fst fs)) rec1 q rk q1" "fst (fs ! k) rk q1 = (None, p1)"
        "stage = fst (snd (fs ! k))" "pl_dlq p1 = pl_dlq q @ [d]" "dq_original_record d = rk" by force
    ultimately show ?thesis using y Some by (intro exI [of _ "Suc k"]) (auto simp: x)
  qed
qed simp

lemma length_stages: "length (pipeline_stages env) = 6"
  by (simp add: pipeline_stages_def)

lemma stage_runs:
  "map fst (pipeline_stages env) =
     [run_validation env, run_rules_engine env, run_cleaning env, run_normalization env, run_feature_engineering env, run_enrichment env]"
  by (simp add: pipeline_stages_def)

lemma stage_nth:
  assumes "k < 6"
  shows "fst (pipeline_stages env ! k) =
      [run_validation env, run_rules_engine env, run_cleaning env, run_normalization env, run_feature_engineering env, run_enrichment env] ! k"
    and "stage_value (fst (snd (pipeline_stages env ! k))) =
      [''validation'', ''validation'', ''cleaning'', ''normalization'', ''feature_engineering'', ''enrichment''] ! k"
  using assms by (auto simp: pipeline_stages_def less_Suc_eq numeral_eq_Suc)

text \<open>
  Claim C5 (no record is lost). Whatever the components do, either the six stages (schema validation, business rules, cleaning, normalization, features, enrichment)
  each pass the record on, in this order: then it is reported as a success with the record the last stage left, marked as processed and stamped, and no dead letter is
  added. Or the first k of them pass it on and the next one drops it: then it is reported as failed at that stage, and exactly one dead letter is added, which holds the
  record as that stage was given it. Earlier dead letters stay.
\<close>

theorem no_record_lost:
  "case process_record env rec p of (r, p1) \<Rightarrow>
     let stages = [run_validation env, run_rules_engine env, run_cleaning env, run_normalization env, run_feature_engineering env, run_enrichment env];
         names = [''validation'', ''validation'', ''cleaning'', ''normalization'', ''feature_engineering'', ''enrichment'']
     in pr_dlq r = (\<not> pr_success r) \<and>
        (if pr_success r
         then pl_dlq p1 = pl_dlq p \<and> pr_stage_failed r = None \<and>
           (\<exists>last. passes_through stages rec p last p1 \<and>
              pr_record r = dset ''_pipeline_timestamp'' (PFloat (pe_time env 4)) (dset ''_pipeline_processed'' (PBool True) last))
         else \<exists>k < 6. \<exists>rk q e. passes_through (take k stages) rec p rk q \<and> (stages ! k) rk q = (None, p1) \<and> pr_stage_failed r = Some (names ! k) \<and>
           pl_dlq p1 = pl_dlq p @ [e] \<and> dq_original_record e = rk)"
proof (cases "run_stages (pipeline_stages env) rec p")
  case (Pair x p1)
  show ?thesis
  proof (cases x)
    case (Inr r)
    then show ?thesis using run_stages_passed [OF stages_ok, of env rec p r p1] Pair by (auto simp: process_record_def stage_runs simp del: passes_through.simps)
  next
    case (Inl y)
    obtain stage err where "y = (stage, err)" by (cases y)
    moreover from this obtain k rk q e where k: "k < 6" "passes_through (take k (map fst (pipeline_stages env))) rec p rk q"
        "fst (pipeline_stages env ! k) rk q = (None, p1)" "stage = fst (snd (pipeline_stages env ! k))" "pl_dlq p1 = pl_dlq p @ [e]" "dq_original_record e = rk"
      using run_stages_dropped [OF stages_ok, of env rec p stage err p1] Pair Inl by (auto simp: length_stages)
    ultimately show ?thesis using Pair Inl stage_nth [OF k(1)]
      by (auto simp: process_record_def stage_runs Let_def simp del: passes_through.simps intro!: exI [of _ k])
  qed
qed

lemma process_record_ingested: "pm_total_ingested (pl_metrics (snd (process_record env rec p))) = pm_total_ingested (pl_metrics p)"
  using run_stages_letters [OF stages_ok, of env rec p] by (auto simp: process_record_def split: prod.splits sum.splits)

lemma process_all_letters:
  "length (fst (process_all recs p)) = length recs \<and>
   length (pl_dlq (snd (process_all recs p))) = length (pl_dlq p) + length (filter (\<lambda>r. \<not> pr_success r) (fst (process_all recs p))) \<and>
   (\<forall>r \<in> set (fst (process_all recs p)). pr_dlq r = (\<not> pr_success r)) \<and>
   pm_total_ingested (pl_metrics (snd (process_all recs p))) = pm_total_ingested (pl_metrics p)"
proof (induction recs arbitrary: p)
  case (Cons x recs)
  obtain env rec where x: "x = (env, rec)" by (cases x)
  obtain r p1 where r: "process_record env rec p = (r, p1)" by fastforce
  show ?case
    using Cons.IH [of p1] process_record_letters [of env rec p] process_record_ingested [of env rec p] r by (auto simp: x split: prod.splits)
qed simp

lemma process_all_ingested: "pm_total_ingested (pl_metrics (snd (process_all recs p))) = pm_total_ingested (pl_metrics p)"
  using process_all_letters [of recs p] by simp

lemma process_batch_counts:
  "case process_batch t0 t1 recs p of (b, p1) \<Rightarrow>
     br_total b = int (length recs) \<and> length (br_results b) = length recs \<and> br_succeeded b + br_failed b = br_total b \<and> br_dlq_count b = br_failed b \<and>
     int (length (pl_dlq p1)) = int (length (pl_dlq p)) + br_failed b"
proof -
  define p0 where "p0 = p\<lparr>pl_metrics := (pl_metrics p)\<lparr>pm_start_time := t0, pm_total_ingested := int (length recs),
      pm_stage_metrics := fold (\<lambda>s. dset (stage_value s) new_stage_metrics) all_stages (pm_stage_metrics (pl_metrics p))\<rparr>\<rparr>"
  obtain rs p2 where rs: "process_all recs p0 = (rs, p2)" by fastforce
  have "length (filter (\<lambda>r. \<not> pr_success r \<and> pr_dlq r) rs) = length (filter (\<lambda>r. \<not> pr_success r) rs)"
    using process_all_letters [of recs p0] rs by (metis (mono_tags, lifting) filter_cong fst_conv)
  moreover have "length (filter pr_success rs) + length (filter (\<lambda>r. \<not> pr_success r) rs) = length rs"
    by (rule sum_length_filter_compl)
  ultimately show ?thesis
    using process_all_letters [of recs p0] rs unfolding process_batch_def Let_def p0_def [symmetric] by (simp add: p0_def)
qed

text \<open>
  Remark (a batch accounts for its records). Of the records of a batch, those that succeeded and those that failed add up to all of them, exactly as many dead
  letters are added as records failed, and the metrics of the pipeline hold the same numbers.
\<close>

theorem batch_accounts:
  "case process_batch t0 t1 recs p of (b, p1) \<Rightarrow>
     br_total b = int (length recs) \<and> length (br_results b) = length recs \<and> br_succeeded b + br_failed b = br_total b \<and> br_dlq_count b = br_failed b \<and>
     int (length (pl_dlq p1)) = int (length (pl_dlq p)) + br_failed b \<and> pm_total_ingested (pl_metrics p1) = br_total b \<and>
     pm_total_completed (pl_metrics p1) = br_succeeded b \<and> pm_total_failed (pl_metrics p1) = br_failed b \<and> pm_total_dlq (pl_metrics p1) = br_failed b"
  using process_batch_counts [where ?t0.0 = t0 and ?t1.0 = t1 and recs = recs and p = p] process_all_ingested [of recs]
  by (simp add: process_batch_def Let_def case_prod_beta)

section \<open>Blocked records\<close>

lemma update_stage_components:
  "pl_cleaner (update_stage s f p) = pl_cleaner p" "pl_normalizer (update_stage s f p) = pl_normalizer p" "pl_features (update_stage s f p) = pl_features p"
  "pl_device (update_stage s f p) = pl_device p" "pl_merchant (update_stage s f p) = pl_merchant p" "pl_velocity (update_stage s f p) = pl_velocity p"
  "pl_rules (update_stage s f p) = pl_rules p" "pl_validator (update_stage s f p) = pl_validator p"
  by (simp_all add: update_stage_def Let_def split: option.splits)

definition later_components :: "pipeline \<Rightarrow> cleaner \<times> normalizer \<times> feature_engineer \<times> device_enricher \<times> merchant_enricher \<times> calculator" where
  "later_components p = (pl_cleaner p, pl_normalizer p, pl_features p, pl_device p, pl_merchant p, pl_velocity p)"

lemma validation_frame: "later_components (snd (run_validation env rec p)) = later_components p \<and> pl_rules (snd (run_validation env rec p)) = pl_rules p"
  by (auto simp: run_validation_def handle_stage_error_def route_to_dlq_def later_components_def update_stage_components Let_def split: prod.splits sum.splits)

lemma rules_frame: "later_components (snd (run_rules_engine env rec p)) = later_components p"
  by (auto simp: run_rules_engine_def handle_stage_error_def route_to_dlq_def later_components_def update_stage_components Let_def split: prod.splits sum.splits)

lemma blocked_drops:
  assumes "validate (pe_schema env) rec (pl_validator p) = (Inr v, sv)" "vr_is_valid v"
    and "evaluate_transaction (pe_rules env) (dset ''_validation_warnings'' (PInt (int (length (vr_warnings v)))) rec) (pl_rules p) = (Inr r, e)"
    and "gr_overall_action r = RA_BLOCK"
  shows "\<exists>x p1 d. process_record env rec p = (x, p1) \<and> \<not> pr_success x \<and> pr_error x = Some ''Blocked by rules engine'' \<and>
    later_components p1 = later_components p \<and> pl_dlq p1 = pl_dlq p @ [d] \<and> dq_failed_stage d = ''rules_engine_block''"
proof -
  define rec1 where "rec1 = dset ''_validation_warnings'' (PInt (int (length (vr_warnings v)))) rec"
  obtain p1 where 1: "run_validation env rec p = (Some rec1, p1)" using assms(1, 2) by (simp add: run_validation_def rec1_def)
  obtain y p2 where 2: "run_rules_engine env rec1 p1 = (y, p2)" by fastforce
  have p1: "pl_rules p1 = pl_rules p" "later_components p1 = later_components p" "pl_dlq p1 = pl_dlq p"
    using validation_frame [of env rec p] validation_stage.passes [OF 1] by (simp_all add: 1)
  have "y = None" "\<exists>d. pl_dlq p2 = pl_dlq p1 @ [d] \<and> dq_failed_stage d = ''rules_engine_block''"
    using 2 assms(3, 4) by (auto simp: run_rules_engine_def p1(1) rec1_def [symmetric] route_to_dlq_def update_stage_frame)
  then show ?thesis
    using 1 2 p1 rules_frame [of env rec1 p1] by (auto simp: process_record_def pipeline_stages_def)
qed

text \<open>
  Remark (a blocked record goes no further). A record that passes the schema and that the rules engine blocks is reported as failed in the validation stage, its dead
  letter names the block, and no later component sees it: cleaner, normalizer, features, device and merchant stores and velocity profiles are as before.
\<close>

theorem blocked_goes_no_further:
  assumes "validate (pe_schema env) rec (pl_validator p) = (Inr v, sv)" "vr_is_valid v"
    and "evaluate_transaction (pe_rules env) (dset ''_validation_warnings'' (PInt (int (length (vr_warnings v)))) rec) (pl_rules p) = (Inr r, e)"
    and "gr_overall_action r = RA_BLOCK"
  shows "\<exists>x p1 d. process_record env rec p = (x, p1) \<and> \<not> pr_success x \<and> pr_error x = Some ''Blocked by rules engine'' \<and>
    later_components p1 = later_components p \<and> pl_dlq p1 = pl_dlq p @ [d] \<and> dq_failed_stage d = ''rules_engine_block''"
  by (rule blocked_drops [OF assms])

definition pipe_demo_env :: pipe_env where
  "pipe_demo_env =
     \<lparr>pe_schema = \<lparr>sn_now = 0, sn_file = None, sn_yaml = (\<lambda>_. None), sn_compile = (\<lambda>_. None), sn_is_ip = (\<lambda>_. False), sn_fromiso = (\<lambda>_. None), sn_str = (\<lambda>_. [])\<rparr>,
      pe_rules = biz_demo_env 0,
      pe_clean = \<lparr>cn_clock = 0, cn_str = (\<lambda>_. []), cn_sha = (\<lambda>s. s), cn_nfc = (\<lambda>s. s), cn_drop_control = (\<lambda>s. s), cn_fromiso = (\<lambda>_. None)\<rparr>,
      pe_norm = \<lparr>nn_clock = 0, nn_file = None, nn_yaml = (\<lambda>_. None), nn_sha = (\<lambda>s. s), nn_str = (\<lambda>_. [])\<rparr>,
      pe_fromiso = (\<lambda>_. None), pe_local_offset = (\<lambda>_. 0), pe_sha = (\<lambda>s. s), pe_str = (\<lambda>_. []), pe_show_exn = (\<lambda>_. ''bad''), pe_now = (\<lambda>_. 0), pe_time = (\<lambda>_. 0),
      pe_uuid = ''u'', pe_unknown_id = ''x'', pe_latency = (\<lambda>_. 1)\<rparr>"

definition pipe_demo :: pipeline where
  "pipe_demo =
     \<lparr>pl_validator = \<lparr>sv_rules = [], sv_metrics = new_schema_metrics, sv_patterns = []\<rparr>, pl_rules = biz_demo_engine, pl_cleaner = new_cleaner 10 [] [] [],
      pl_normalizer = empty_normalizer, pl_features = new_feature_engineer [] [] 60,
      pl_geo = \<lparr>gn_provider = TransactionFields, gn_impossible_speed = 500, gn_risk_countries = []\<rparr>,
      pl_device = \<lparr>dn_store = new_device_store, dn_new_device_threshold_days = 1, dn_multi_account_threshold = 3\<rparr>,
      pl_merchant = \<lparr>mn_store = [], mn_high_fraud_threshold = 5 / 100, mn_new_merchant_threshold_days = 30, mn_mcc_categories = []\<rparr>,
      pl_velocity = new_calculator None 10, pl_quarantine = new_q_handler 3 30, pl_error_policy = policy_of [], pl_batch_size = 100,
      pl_metrics = new_pipeline_metrics\<lparr>pm_stage_metrics := [(''validation'', new_stage_metrics)]\<rparr>, pl_dlq = []\<rparr>"

definition pipe_demo_txn :: txn_dict where
  "pipe_demo_txn = [(''account_id'', PStr ''a''), (''transaction_amount'', PInt 500)]"

lemma pipe_demo_blocked:
  "\<exists>v sv r e. validate (pe_schema pipe_demo_env) pipe_demo_txn (pl_validator pipe_demo) = (Inr v, sv) \<and> vr_is_valid v \<and>
     evaluate_transaction (pe_rules pipe_demo_env) (dset ''_validation_warnings'' (PInt (int (length (vr_warnings v)))) pipe_demo_txn) (pl_rules pipe_demo) = (Inr r, e) \<and>
     gr_overall_action r = RA_BLOCK"
proof -
  have "case fst (validate (pe_schema pipe_demo_env) pipe_demo_txn (pl_validator pipe_demo)) of Inr v \<Rightarrow> vr_is_valid v \<and> vr_warnings v = [] | _ \<Rightarrow> False" by code_simp
  then obtain v sv where v: "validate (pe_schema pipe_demo_env) pipe_demo_txn (pl_validator pipe_demo) = (Inr v, sv)" "vr_is_valid v" "vr_warnings v = []"
    by (auto split: sum.splits) (metis prod.collapse)
  have "case fst (evaluate_transaction (pe_rules pipe_demo_env) (dset ''_validation_warnings'' (PInt 0) pipe_demo_txn) (pl_rules pipe_demo)) of
      Inr r \<Rightarrow> gr_overall_action r = RA_BLOCK | _ \<Rightarrow> False" by code_simp
  then obtain r e where "evaluate_transaction (pe_rules pipe_demo_env) (dset ''_validation_warnings'' (PInt 0) pipe_demo_txn) (pl_rules pipe_demo) = (Inr r, e)" "gr_overall_action r = RA_BLOCK"
    by (auto split: sum.splits) (metis prod.collapse)
  then show ?thesis using v by simp
qed

theorem blocked_goes_no_further_witness:
  "\<exists>x p1 d. process_record pipe_demo_env pipe_demo_txn pipe_demo = (x, p1) \<and> \<not> pr_success x \<and> pr_error x = Some ''Blocked by rules engine'' \<and>
     later_components p1 = later_components pipe_demo \<and> pl_dlq p1 = pl_dlq pipe_demo @ [d] \<and> dq_failed_stage d = ''rules_engine_block''"
  using pipe_demo_blocked blocked_goes_no_further by blast

text \<open>
  Remark (the validation stage counts a record twice). A record that passes the schema and is then blocked by the rules is counted by the metrics of the validation stage
  both as processed and as failed: with nothing but blocked records the success rate of the stage is a half.
\<close>

theorem validation_counts_twice:
  assumes "validate (pe_schema env) rec (pl_validator p) = (Inr v, sv)" "vr_is_valid v"
    and "evaluate_transaction (pe_rules env) (dset ''_validation_warnings'' (PInt (int (length (vr_warnings v)))) rec) (pl_rules p) = (Inr r, e)"
    and "gr_overall_action r = RA_BLOCK" and "dget (pm_stage_metrics (pl_metrics p)) ''validation'' = Some m"
  shows "\<exists>m1. dget (pm_stage_metrics (pl_metrics (snd (process_record env rec p)))) ''validation'' = Some m1 \<and>
    st_records_processed m1 = st_records_processed m + 1 \<and> st_records_failed m1 = st_records_failed m + 1"
proof -
  define rec1 where "rec1 = dset ''_validation_warnings'' (PInt (int (length (vr_warnings v)))) rec"
  define p1 where "p1 = update_stage ST_VALIDATION (stage_success (pe_latency env 1)) (p\<lparr>pl_validator := sv\<rparr>)"
  have 1: "run_validation env rec p = (Some rec1, p1)" using assms(1, 2) by (simp add: run_validation_def rec1_def p1_def)
  have p1: "pl_rules p1 = pl_rules p" "dget (pm_stage_metrics (pl_metrics p1)) ''validation'' = Some (stage_success (pe_latency env 1) m)"
    using assms(5) by (simp_all add: p1_def update_stage_def dict_simps Let_def)
  obtain p2 where 2: "run_rules_engine env rec1 p1 = (None, p2)"
      and p2: "dget (pm_stage_metrics (pl_metrics p2)) ''validation'' = Some (stage_failure (stage_success (pe_latency env 1) m))"
    using assms(3, 4) p1 by (auto simp: run_rules_engine_def rec1_def [symmetric] route_to_dlq_def update_stage_def dict_simps Let_def)
  have "snd (process_record env rec p) = p2" by (simp add: process_record_def pipeline_stages_def 1 2)
  then show ?thesis using p2 by (simp add: stage_failure_def stage_success_def)
qed

theorem validation_counts_twice_witness:
  "\<exists>m1. dget (pm_stage_metrics (pl_metrics (snd (process_record pipe_demo_env pipe_demo_txn pipe_demo)))) ''validation'' = Some m1 \<and>
     st_records_processed m1 = 1 \<and> st_records_failed m1 = 1"
proof -
  have "dget (pm_stage_metrics (pl_metrics pipe_demo)) ''validation'' = Some new_stage_metrics" by (simp add: pipe_demo_def)
  then show ?thesis using pipe_demo_blocked validation_counts_twice [of pipe_demo_env pipe_demo_txn pipe_demo _ _ _ _ new_stage_metrics] by (auto simp: new_stage_metrics_def)
qed

section \<open>The default policy\<close>

definition skips_errors :: "pipeline \<Rightarrow> bool" where
  "skips_errors p = (\<forall>s. dget_or (pl_error_policy p) (stage_value s) POL_SKIP = POL_SKIP)"

text \<open>A dead letter of an invalid, a blocked or a duplicate record.\<close>

definition ordinary_letter :: "dlq_entry \<Rightarrow> bool" where
  "ordinary_letter d =
     (dq_failed_stage d = ''validation'' \<and> (\<exists>n. dq_failure_reason d = ''Validation errors: '' @ nat_str n) \<or> dq_failed_stage d = ''rules_engine_block'' \<or>
      dq_failed_stage d = ''cleaning'' \<and> dq_failure_reason d = ''Duplicate record detected'')"

lemma handle_skips: "skips_errors p \<Longrightarrow> handle_stage_error env s rec err p = (Some (dset (''_'' @ stage_value s @ ''_error'') (PStr err) rec), p)"
  by (simp add: handle_stage_error_def skips_errors_def)

lemma skips_frame:
  "skips_errors (update_stage s f p) = skips_errors p" "skips_errors (p\<lparr>pl_validator := v\<rparr>) = skips_errors p" "skips_errors (p\<lparr>pl_rules := e\<rparr>) = skips_errors p"
  "skips_errors (p\<lparr>pl_cleaner := c\<rparr>) = skips_errors p" "skips_errors (p\<lparr>pl_normalizer := n\<rparr>) = skips_errors p" "skips_errors (p\<lparr>pl_features := fe\<rparr>) = skips_errors p"
  by (simp_all add: skips_errors_def update_stage_frame)

lemma ordinary_drops:
  assumes "skips_errors p"
  shows "run_validation env rec p = (None, p1) \<Longrightarrow> \<exists>d. pl_dlq p1 = pl_dlq p @ [d] \<and> ordinary_letter d"
    and "run_rules_engine env rec p = (None, p1) \<Longrightarrow> \<exists>d. pl_dlq p1 = pl_dlq p @ [d] \<and> ordinary_letter d"
    and "run_cleaning env rec p = (None, p1) \<Longrightarrow> \<exists>d. pl_dlq p1 = pl_dlq p @ [d] \<and> ordinary_letter d"
    and "run_normalization env rec p \<noteq> (None, p1)" "run_feature_engineering env rec p \<noteq> (None, p1)" "run_enrichment env rec p \<noteq> (None, p1)"
  using assms
  by (auto simp: run_validation_def run_rules_engine_def run_cleaning_def run_normalization_def run_feature_engineering_def run_enrichment_def handle_skips skips_frame
      route_to_dlq_def update_stage_frame ordinary_letter_def Let_def split: prod.splits sum.splits if_splits)

definition careful :: "stage_run \<Rightarrow> bool" where
  "careful f = (dlq_stage f \<and> (\<forall>rec p p1. skips_errors p \<longrightarrow> f rec p = (None, p1) \<longrightarrow> (\<exists>d. pl_dlq p1 = pl_dlq p @ [d] \<and> ordinary_letter d)))"

lemma careful_stages:
  "careful (run_validation env)" "careful (run_rules_engine env)" "careful (run_cleaning env)" "careful (run_normalization env)" "careful (run_feature_engineering env)"
  "careful (run_enrichment env)"
proof -
  show "careful (run_validation env)" using validation_stage.dlq_stage_axioms ordinary_drops(1) unfolding careful_def by blast
  show "careful (run_rules_engine env)" using rules_stage.dlq_stage_axioms ordinary_drops(2) unfolding careful_def by blast
  show "careful (run_cleaning env)" using cleaning_stage.dlq_stage_axioms ordinary_drops(3) unfolding careful_def by blast
  show "careful (run_normalization env)" using normalization_stage.dlq_stage_axioms ordinary_drops(4) unfolding careful_def by blast
  show "careful (run_feature_engineering env)" using feature_stage.dlq_stage_axioms ordinary_drops(5) unfolding careful_def by blast
  show "careful (run_enrichment env)" using enrichment_stage.dlq_stage_axioms ordinary_drops(6) unfolding careful_def by blast
qed

lemma run_stages_ordinary:
  assumes "\<forall>(f, s) \<in> set fs. careful f"
    and "skips_errors p" "run_stages fs rec p = (Inl x, p1)"
  shows "\<exists>d. pl_dlq p1 = pl_dlq p @ [d] \<and> ordinary_letter d"
  using assms
proof (induction fs arbitrary: rec p)
  case (Cons y fs)
  obtain f s e where y: "y = (f, s, e)" by (cases y) auto
  obtain z p2 where z: "f rec p = (z, p2)" by fastforce
  have c: "careful f" using Cons.prems by (simp add: y)
  then have f: "dlq_stage f" by (simp add: careful_def)
  show ?case
  proof (cases z)
    case None
    then show ?thesis using Cons.prems z c by (auto simp: y careful_def)
  next
    case (Some r)
    then have "pl_dlq p2 = pl_dlq p" "skips_errors p2"
      using dlq_stage.passes [OF f, of rec p r p2] dlq_stage.keeps [OF f, of rec p z p2] z Cons.prems(2) by (simp_all add: skips_errors_def)
    then show ?thesis using Cons.IH [of p2 r] Cons.prems z Some by (simp add: y)
  qed
qed simp

text \<open>
  Remark (under the default policy exceptions drop nothing). When every stage skips errors, a record fails only because its schema is invalid, the rules block it or it is
  a duplicate: its dead letter is one of these three kinds, whatever exceptions the components raise.
\<close>

theorem exceptions_drop_nothing:
  assumes "skips_errors p" "process_record env rec p = (r, p1)" "\<not> pr_success r"
  shows "\<exists>d. pl_dlq p1 = pl_dlq p @ [d] \<and> ordinary_letter d"
proof -
  have "\<forall>(f, s) \<in> set (pipeline_stages env). careful f" by (simp add: pipeline_stages_def careful_stages)
  moreover obtain x where "run_stages (pipeline_stages env) rec p = (Inl x, p1)"
    using assms(2, 3) by (auto simp: process_record_def split: prod.splits sum.splits)
  ultimately show ?thesis using run_stages_ordinary assms(1) by blast
qed

theorem exceptions_drop_nothing_witness:
  "\<exists>r p1 d. process_record pipe_demo_env pipe_demo_txn pipe_demo = (r, p1) \<and> \<not> pr_success r \<and> pl_dlq p1 = pl_dlq pipe_demo @ [d] \<and> ordinary_letter d"
proof -
  obtain r p1 where r: "process_record pipe_demo_env pipe_demo_txn pipe_demo = (r, p1)" "\<not> pr_success r"
    using pipe_demo_blocked blocked_drops by blast
  have "skips_errors pipe_demo"
    unfolding skips_errors_def by (intro allI, rename_tac s, case_tac s) (simp_all add: pipe_demo_def policy_of_def default_policy_def all_stages_def dget_or_def)
  then show ?thesis using exceptions_drop_nothing [OF _ r] r by blast
qed

section \<open>Features without history\<close>

definition constant_features :: "(string, pyval) dict" where
  "constant_features =
     [(''amount_zscore'', PFloat 0), (''time_since_last_transaction'', PFloat 0), (''amount_to_avg_ratio'', PFloat 0), (''txn_count_1h'', PInt 0), (''txn_count_24h'', PInt 0),
      (''txn_count_7d'', PInt 0), (''txn_amount_sum_1h'', PFloat 0), (''txn_amount_sum_24h'', PFloat 0), (''unique_merchants_24h'', PInt 0), (''unique_countries_24h'', PInt 0),
      (''amount_percentile'', PFloat (1 / 2)), (''channel_switch_flag'', PBool False), (''consecutive_declined_count'', PInt 0), (''rapid_succession_flag'', PBool False)]"

lemma dget_dict_update: "distinct (map fst new) \<Longrightarrow> dget (dict_update new d) k = (case dget new k of None \<Rightarrow> dget d k | Some v \<Rightarrow> Some v)"
proof (induction new arbitrary: d)
  case (Cons x new)
  obtain a b where x: "x = (a, b)" by (cases x)
  have "dget new a = None" using Cons.prems by (simp add: x map_of_eq_None_iff)
  moreover have "dict_update (x # new) d = dict_update new (dset a b d)" by (simp add: dict_update_def x)
  ultimately show ?case using Cons by (auto simp: x dict_simps split: option.splits)
qed (simp add: dict_update_def)

lemma features_without_history:
  assumes "all_features fromiso fe txn [] [] = Inr f"
  shows "list_all (\<lambda>(k, v). dget f k = Some v) constant_features"
proof -
  obtain f1 f2 f3 f4 where f: "compute_transaction_features fromiso fe txn [] = Inr f1" "compute_velocity_features fromiso txn [] = Inr f2"
    "compute_behavioral_features fromiso fe txn [] = Inr f3" "compute_sequence_features fromiso fe txn [] = Inr f4"
    using assms unfolding all_features_def by (auto simp: res_bind_Inr)
  have half: "py_round 6 (1 / 2) = 1 / 2" by code_simp
  have e: "elapsed_since fromiso ts PNone = Inr 0" for ts by (simp add: elapsed_since_def split: option.splits)
  obtain z ts where f1: "f1 = [(''amount_zscore'', PFloat 0)] @ temporal_features fe ts @ [(''time_since_last_transaction'', PFloat 0), (''amount_to_avg_ratio'', PFloat 0)]"
    using f(1) by (auto simp: compute_transaction_features_def res_bind_Inr dict_simps pget_def e)
  have f2: "f2 = velocity_dict no_totals" using f(2) by (auto simp: compute_velocity_features_def res_bind_Inr split: option.splits)
  obtain a b where f3: "f3 = [(''new_merchant_flag'', a), (''unusual_hour_flag'', b), (''amount_percentile'', PFloat (1 / 2)), (''channel_switch_flag'', PBool False)]"
    using f(3) by (auto simp: compute_behavioral_features_def res_bind_Inr amount_percentile_def channel_switched_def half)
  have f4: "f4 = [(''consecutive_declined_count'', PInt 0), (''rapid_succession_flag'', PBool False)]"
    using f(4) by (auto simp: compute_sequence_features_def res_bind_Inr consecutive_declined_def split: option.splits)
  obtain c1 c2 c3 c4 where t: "temporal_features fe ts = [(''hour_of_day'', c1), (''day_of_week'', c2), (''is_weekend'', c3), (''is_holiday'', c4)]"
    by (cases ts) (auto simp: temporal_features_def case_prod_beta)
  have "f = f1 @ f2 @ f3 @ f4" using assms all_features_append [OF f] by simp
  then show ?thesis by (simp add: f1 f2 f3 f4 t velocity_dict_def no_totals_def constant_features_def)
qed

text \<open>
  Remark (features of the pipeline are mostly constant). The pipeline computes the features without the profile and the history of the customer. So in every record that
  gets features, fourteen of the twenty have a fixed value: the deviation from the usual amount, all window counts and sums, the percentile and the sequence features.
\<close>

theorem pipeline_features_constant:
  assumes "compute_features (pe_fromiso env) (pe_show_exn env) (pe_latency env 0) rec None None (pl_features p) = (x, fe)" "feature_success x"
  shows "\<exists>r p1. run_feature_engineering env rec p = (Some r, p1) \<and> list_all (\<lambda>(k, v). dget r k = Some v) constant_features"
proof -
  obtain f where f: "all_features (pe_fromiso env) (pl_features p) rec [] [] = Inr f" "ft_features x = f"
    using assms by (auto simp: compute_features_def feature_success_def split: sum.splits)
  have d: "distinct (map fst f)" using all_features_names [OF f(1)] by (simp add: get_feature_names_def)
  have "dget (dset ''_feature_count'' n (dict_update f rec)) k = Some v" if "(k, v) \<in> set constant_features" for n k v
  proof -
    have "k \<noteq> ''_feature_count''" using that by (auto simp: constant_features_def)
    moreover have "dget f k = Some v" using features_without_history [OF f(1)] that by (auto simp: list_all_iff)
    ultimately show ?thesis by (simp add: dict_simps dget_dict_update [OF d])
  qed
  then show ?thesis using assms f(2) by (auto simp: run_feature_engineering_def list_all_iff)
qed

theorem pipeline_features_constant_witness:
  "\<exists>r p1. run_feature_engineering pipe_demo_env pipe_demo_txn pipe_demo = (Some r, p1) \<and> list_all (\<lambda>(k, v). dget r k = Some v) constant_features"
proof -
  have "feature_success (fst (compute_features (pe_fromiso pipe_demo_env) (pe_show_exn pipe_demo_env) (pe_latency pipe_demo_env 0) pipe_demo_txn None None (pl_features pipe_demo)))"
    by code_simp
  then show ?thesis using pipeline_features_constant [of pipe_demo_env pipe_demo_txn pipe_demo] by (metis prod.collapse)
qed

end
