(* ===== verification/Notification.thy ===== *)
theory Notification
  imports Alert_Manager Py_Date
begin

text \<open>
  The notification service of \<^verbatim>\<open>src/alerting/notification_service.py\<close>: preferences, the rate limiter, the delivery
  tracker, the payloads for web hooks, and the delivery of an alert to recipients over their channels. The providers that send, the
  renderer of the templates, the readings of the clock, fresh identifiers, \<^verbatim>\<open>json.dumps\<close>, \<^verbatim>\<open>str\<close> and the text of an exception are
  arguments. A record the service returns is the one the tracker holds, so its fields are read from there.
\<close>

section \<open>Enumerations and records\<close>

datatype notification_channel = NC_EMAIL | NC_WEBHOOK | NC_SMS | NC_IN_APP

primrec nc_value :: "notification_channel \<Rightarrow> string" where
  "nc_value NC_EMAIL = ''email''"
| "nc_value NC_WEBHOOK = ''webhook''"
| "nc_value NC_SMS = ''sms''"
| "nc_value NC_IN_APP = ''in_app''"

datatype delivery_status = DS_PENDING | DS_SENT | DS_DELIVERED | DS_FAILED | DS_READ | DS_BOUNCED | DS_RATE_LIMITED

primrec ds_value :: "delivery_status \<Rightarrow> string" where
  "ds_value DS_PENDING = ''pending''"
| "ds_value DS_SENT = ''sent''"
| "ds_value DS_DELIVERED = ''delivered''"
| "ds_value DS_FAILED = ''failed''"
| "ds_value DS_READ = ''read''"
| "ds_value DS_BOUNCED = ''bounced''"
| "ds_value DS_RATE_LIMITED = ''rate_limited''"

datatype webhook_target = WT_SLACK | WT_TEAMS | WT_PAGERDUTY | WT_CUSTOM

definition webhook_target_of :: "pyval \<Rightarrow> webhook_target res" where
  "webhook_target_of v =
     (if v = PStr ''slack'' then Inr WT_SLACK else if v = PStr ''teams'' then Inr WT_TEAMS else if v = PStr ''pagerduty'' then Inr WT_PAGERDUTY
      else if v = PStr ''custom'' then Inr WT_CUSTOM else Inl ValueError)"

record notification =
  nt_id :: string
  nt_alert_id :: string
  nt_channel :: notification_channel
  nt_recipient :: string
  nt_status :: delivery_status
  nt_created_at :: datetime
  nt_sent_at :: "datetime option"
  nt_delivered_at :: "datetime option"
  nt_read_at :: "datetime option"
  nt_failed_at :: "datetime option"
  nt_failure_reason :: "string option"
  nt_retry_count :: int
  nt_max_retries :: int
  nt_metadata :: "(string, pyval) dict"

definition notification_to_dict :: "(datetime \<Rightarrow> string) \<Rightarrow> notification \<Rightarrow> (string, pyval) dict" where
  "notification_to_dict iso_text n =
     (let time = (\<lambda>t. case t of None \<Rightarrow> PNone | Some x \<Rightarrow> PStr (iso_text x))
      in [(''notification_id'', PStr (nt_id n)), (''alert_id'', PStr (nt_alert_id n)), (''channel'', PStr (nc_value (nt_channel n))),
          (''recipient'', PStr (nt_recipient n)), (''status'', PStr (ds_value (nt_status n))), (''created_at'', PStr (iso_text (nt_created_at n))),
          (''sent_at'', time (nt_sent_at n)), (''delivered_at'', time (nt_delivered_at n)), (''read_at'', time (nt_read_at n)),
          (''failed_at'', time (nt_failed_at n)), (''failure_reason'', case nt_failure_reason n of None \<Rightarrow> PNone | Some s \<Rightarrow> PStr s),
          (''retry_count'', PInt (nt_retry_count n)), (''max_retries'', PInt (nt_max_retries n)), (''metadata'', PDict (nt_metadata n))])"

section \<open>Rate limiter\<close>

record notification_limiter =
  nl_default_limit :: int
  nl_buckets :: "(string, seconds list) dict"

definition new_notification_limiter :: "int \<Rightarrow> notification_limiter" where
  "new_notification_limiter limit = \<lparr>nl_default_limit = limit, nl_buckets = []\<rparr>"

definition cleanup_bucket :: "string \<Rightarrow> seconds \<Rightarrow> notification_limiter \<Rightarrow> notification_limiter" where
  "cleanup_bucket key now l = l\<lparr>nl_buckets := dset key (filter (\<lambda>t. now - 3600 < t) (dget_or (nl_buckets l) key [])) (nl_buckets l)\<rparr>"

definition notification_allowed :: "seconds \<Rightarrow> string \<Rightarrow> int option \<Rightarrow> notification_limiter \<Rightarrow> bool \<times> notification_limiter" where
  "notification_allowed now recipient limit l =
     (let max_allowed = (case limit of Some n \<Rightarrow> n | None \<Rightarrow> nl_default_limit l); l1 = cleanup_bucket recipient now l;
          bucket = dget_or (nl_buckets l1) recipient []
      in if max_allowed \<le> int (length bucket) then (False, l1)
         else (True, l1\<lparr>nl_buckets := dset recipient (bucket @ [now]) (nl_buckets l1)\<rparr>))"

definition notifications_remaining :: "seconds \<Rightarrow> string \<Rightarrow> int option \<Rightarrow> notification_limiter \<Rightarrow> int \<times> notification_limiter" where
  "notifications_remaining now recipient limit l =
     (let max_allowed = (case limit of Some n \<Rightarrow> n | None \<Rightarrow> nl_default_limit l); l1 = cleanup_bucket recipient now l
      in (max 0 (max_allowed - int (length (dget_or (nl_buckets l1) recipient []))), l1))"

definition reset_recipient :: "string \<Rightarrow> notification_limiter \<Rightarrow> notification_limiter" where
  "reset_recipient recipient l = l\<lparr>nl_buckets := ddel recipient (nl_buckets l)\<rparr>"

definition limiter_stats :: "seconds \<Rightarrow> notification_limiter \<Rightarrow> (string, int) dict \<times> notification_limiter" where
  "limiter_stats now l =
     (let l1 = fold (\<lambda>k. cleanup_bucket k now) (map fst (nl_buckets l)) l
      in (map (\<lambda>k. (k, int (length (dget_or (nl_buckets l1) k [])))) (map fst (nl_buckets l)), l1))"

section \<open>Delivery tracker\<close>

record delivery_tracker =
  dt_records :: "(string, notification) dict"
  dt_by_alert :: "(string, string list) dict"

definition new_tracker :: delivery_tracker where
  "new_tracker = \<lparr>dt_records = [], dt_by_alert = []\<rparr>"

definition create_record ::
  "string \<Rightarrow> datetime \<Rightarrow> string \<Rightarrow> notification_channel \<Rightarrow> string \<Rightarrow> (string, pyval) dict \<Rightarrow> delivery_tracker \<Rightarrow> notification \<times> delivery_tracker" where
  "create_record uid now alert_id channel recipient metadata t =
     (let n = \<lparr>nt_id = uid, nt_alert_id = alert_id, nt_channel = channel, nt_recipient = recipient, nt_status = DS_PENDING, nt_created_at = now,
               nt_sent_at = None, nt_delivered_at = None, nt_read_at = None, nt_failed_at = None, nt_failure_reason = None, nt_retry_count = 0,
               nt_max_retries = 3, nt_metadata = metadata\<rparr>
      in (n, t\<lparr>dt_records := dset uid n (dt_records t), dt_by_alert := dset alert_id (dget_or (dt_by_alert t) alert_id [] @ [uid]) (dt_by_alert t)\<rparr>))"

definition on_record :: "string \<Rightarrow> (notification \<Rightarrow> notification) \<Rightarrow> delivery_tracker \<Rightarrow> delivery_tracker" where
  "on_record uid f t = (case dget (dt_records t) uid of None \<Rightarrow> t | Some n \<Rightarrow> t\<lparr>dt_records := dset uid (f n) (dt_records t)\<rparr>)"

definition mark_sent :: "datetime \<Rightarrow> string \<Rightarrow> delivery_tracker \<Rightarrow> delivery_tracker" where
  "mark_sent now uid = on_record uid (\<lambda>n. n\<lparr>nt_status := DS_SENT, nt_sent_at := Some now\<rparr>)"

definition mark_delivered :: "datetime \<Rightarrow> string \<Rightarrow> delivery_tracker \<Rightarrow> delivery_tracker" where
  "mark_delivered now uid = on_record uid (\<lambda>n. n\<lparr>nt_status := DS_DELIVERED, nt_delivered_at := Some now\<rparr>)"

definition mark_failed :: "datetime \<Rightarrow> string \<Rightarrow> string \<Rightarrow> delivery_tracker \<Rightarrow> delivery_tracker" where
  "mark_failed now uid reason = on_record uid (\<lambda>n. n\<lparr>nt_status := DS_FAILED, nt_failed_at := Some now, nt_failure_reason := Some reason\<rparr>)"

definition mark_read :: "datetime \<Rightarrow> string \<Rightarrow> delivery_tracker \<Rightarrow> delivery_tracker" where
  "mark_read now uid = on_record uid (\<lambda>n. n\<lparr>nt_status := DS_READ, nt_read_at := Some now\<rparr>)"

definition mark_rate_limited :: "string \<Rightarrow> delivery_tracker \<Rightarrow> delivery_tracker" where
  "mark_rate_limited uid = on_record uid (\<lambda>n. n\<lparr>nt_status := DS_RATE_LIMITED\<rparr>)"

definition get_notification :: "string \<Rightarrow> delivery_tracker \<Rightarrow> notification option" where
  "get_notification uid t = dget (dt_records t) uid"

definition get_records_for_alert :: "string \<Rightarrow> delivery_tracker \<Rightarrow> notification list" where
  "get_records_for_alert alert_id t = List.map_filter (dget (dt_records t)) (dget_or (dt_by_alert t) alert_id [])"

definition delivery_stats :: "delivery_tracker \<Rightarrow> (string, int) dict" where
  "delivery_stats t = fold (\<lambda>n d. dset (ds_value (nt_status n)) (dget_or d (ds_value (nt_status n)) 0 + 1) d) (map snd (dt_records t)) []"

definition get_failed_notifications :: "datetime option \<Rightarrow> delivery_tracker \<Rightarrow> notification list" where
  "get_failed_notifications since t =
     filter (\<lambda>n. nt_status n = DS_FAILED \<and>
                 (case since of None \<Rightarrow> True | Some x \<Rightarrow> (case nt_failed_at n of None \<Rightarrow> False | Some y \<Rightarrow> x \<le> y))) (map snd (dt_records t))"

section \<open>Preferences\<close>

record preference =
  np_user_id :: string
  np_email_enabled :: pyval
  np_sms_enabled :: pyval
  np_webhook_enabled :: pyval
  np_in_app_enabled :: pyval
  np_quiet_hours_start :: "int option"
  np_quiet_hours_end :: "int option"
  np_min_severity_email :: alert_severity
  np_min_severity_sms :: alert_severity
  np_min_severity_webhook :: alert_severity
  np_rate_limit_per_hour :: "int option"
  np_digest_mode :: pyval
  np_digest_interval_minutes :: pyval

record preferences =
  pf_preferences :: "(string, preference) dict"
  pf_defaults :: "(string, pyval) dict"

fun as_int :: "pyval \<Rightarrow> int res" where
  "as_int (PInt n) = Inr n"
| "as_int (PBool b) = Inr (if b then 1 else 0)"
| "as_int _ = Inl TypeError"

fun as_opt_int :: "pyval \<Rightarrow> int option res" where
  "as_opt_int PNone = Inr None"
| "as_opt_int v = res_bind (as_int v) (\<lambda>n. Inr (Some n))"

text \<open>\<^verbatim>\<open>severity_map.get(value, default)\<close>: an unhashable value raises.\<close>

definition map_severity :: "pyval \<Rightarrow> alert_severity \<Rightarrow> alert_severity res" where
  "map_severity v dflt =
     (if \<not> hashable v then Inl TypeError
      else Inr (case v of PStr s \<Rightarrow> (case severity_of s of Inl _ \<Rightarrow> dflt | Inr x \<Rightarrow> x) | _ \<Rightarrow> dflt))"

definition build_preference :: "(string, pyval) dict \<Rightarrow> (string, pyval) dict \<Rightarrow> preference res" where
  "build_preference defaults config =
     res_bind (res_bind (pindex config ''id'') as_str) (\<lambda>uid.
     res_bind (as_opt_int (pget config ''quiet_hours_start'')) (\<lambda>qs.
     res_bind (as_opt_int (pget config ''quiet_hours_end'')) (\<lambda>qe.
     res_bind (map_severity (dget_or config ''min_severity_email'' (PStr ''low'')) LOW) (\<lambda>se.
     res_bind (map_severity (dget_or config ''min_severity_sms'' (PStr ''high'')) HIGH) (\<lambda>ss.
     res_bind (map_severity (dget_or config ''min_severity_webhook'' (PStr ''medium'')) MEDIUM) (\<lambda>sw.
     res_bind (as_opt_int (dget_or config ''rate_limit_per_hour'' (dget_or defaults ''rate_limit_per_hour'' (PInt 10)))) (\<lambda>limit.
       Inr \<lparr>np_user_id = uid, np_email_enabled = dget_or config ''email_enabled'' (PBool True), np_sms_enabled = dget_or config ''sms_enabled'' (PBool True),
            np_webhook_enabled = dget_or config ''webhook_enabled'' (PBool True), np_in_app_enabled = dget_or config ''in_app_enabled'' (PBool True),
            np_quiet_hours_start = qs, np_quiet_hours_end = qe, np_min_severity_email = se, np_min_severity_sms = ss, np_min_severity_webhook = sw,
            np_rate_limit_per_hour = limit, np_digest_mode = dget_or config ''digest_mode'' (PBool False),
            np_digest_interval_minutes = dget_or config ''digest_interval_minutes'' (PInt 30)\<rparr>)))))))"

fun add_preferences :: "(string, pyval) dict \<Rightarrow> pyval list \<Rightarrow> (string, preference) dict \<Rightarrow> (string, preference) dict res" where
  "add_preferences defaults [] ps = Inr ps"
| "add_preferences defaults (v # vs) ps =
     res_bind (as_dict v) (\<lambda>c. res_bind (build_preference defaults c) (\<lambda>p. add_preferences defaults vs (dset (np_user_id p) p ps)))"

text \<open>The configuration file, parsed; \<open>None\<close> when it does not exist.\<close>

definition load_preferences :: "pyval option \<Rightarrow> preferences res" where
  "load_preferences doc =
     (case doc of
        None \<Rightarrow> Inr \<lparr>pf_preferences = [], pf_defaults = []\<rparr>
      | Some v \<Rightarrow>
          res_bind (if py_bool v then as_dict v else Inr []) (\<lambda>config.
          res_bind (as_dict (dget_or config ''defaults'' (PDict []))) (\<lambda>defaults.
          res_bind (py_iter (dget_or config ''users'' (PList []))) (\<lambda>users.
          res_bind (add_preferences defaults users []) (\<lambda>ps.
          res_bind (py_iter (dget_or config ''teams'' (PList []))) (\<lambda>teams.
          res_bind (add_preferences defaults teams ps) (\<lambda>ps2. Inr \<lparr>pf_preferences = ps2, pf_defaults = defaults\<rparr>)))))))"

definition get_preference :: "string \<Rightarrow> preferences \<Rightarrow> preference res" where
  "get_preference user p =
     (case dget (pf_preferences p) user of
        Some x \<Rightarrow> Inr x
      | None \<Rightarrow>
          res_bind (as_opt_int (dget_or (pf_defaults p) ''rate_limit_per_hour'' (PInt 10))) (\<lambda>limit.
            Inr \<lparr>np_user_id = user, np_email_enabled = PBool True, np_sms_enabled = PBool True, np_webhook_enabled = PBool True, np_in_app_enabled = PBool True,
                 np_quiet_hours_start = None, np_quiet_hours_end = None, np_min_severity_email = LOW, np_min_severity_sms = HIGH,
                 np_min_severity_webhook = MEDIUM, np_rate_limit_per_hour = limit, np_digest_mode = PBool False, np_digest_interval_minutes = PInt 30\<rparr>))"

definition update_preference :: "preference \<Rightarrow> preferences \<Rightarrow> preferences" where
  "update_preference x p = p\<lparr>pf_preferences := dset (np_user_id x) x (pf_preferences p)\<rparr>"

primrec channel_severity_order :: "alert_severity \<Rightarrow> nat" where
  "channel_severity_order LOW = 0"
| "channel_severity_order MEDIUM = 1"
| "channel_severity_order HIGH = 2"
| "channel_severity_order CRITICAL = 3"

definition channel_enabled :: "preference \<Rightarrow> notification_channel \<Rightarrow> alert_severity \<Rightarrow> bool" where
  "channel_enabled x channel severity =
     (case channel of
        NC_EMAIL \<Rightarrow> py_bool (np_email_enabled x) \<and> channel_severity_order (np_min_severity_email x) \<le> channel_severity_order severity
      | NC_SMS \<Rightarrow> py_bool (np_sms_enabled x) \<and> channel_severity_order (np_min_severity_sms x) \<le> channel_severity_order severity
      | NC_WEBHOOK \<Rightarrow> py_bool (np_webhook_enabled x) \<and> channel_severity_order (np_min_severity_webhook x) \<le> channel_severity_order severity
      | NC_IN_APP \<Rightarrow> py_bool (np_in_app_enabled x))"

definition in_quiet_hours :: "int \<Rightarrow> preference \<Rightarrow> bool" where
  "in_quiet_hours hour x =
     (case (np_quiet_hours_start x, np_quiet_hours_end x) of
        (Some s, Some e) \<Rightarrow> if s \<le> e then s \<le> hour \<and> hour < e else s \<le> hour \<or> hour < e
      | _ \<Rightarrow> False)"

section \<open>Payloads\<close>

record rendered =
  rd_subject :: string
  rd_body :: string
  rd_html_body :: string

text \<open>The format \<^verbatim>\<open>.2f\<close>.\<close>

definition fixed2 :: "real \<Rightarrow> string" where
  "fixed2 x = (let k = round_half_even (\<bar>x\<bar> * 100) in (if x < 0 then ''-'' else []) @ int_str (k div 100) @ ''.'' @ two (k mod 100))"

primrec slack_emoji :: "alert_severity \<Rightarrow> string" where
  "slack_emoji LOW = '':white_circle:''"
| "slack_emoji MEDIUM = '':large_yellow_circle:''"
| "slack_emoji HIGH = '':large_orange_circle:''"
| "slack_emoji CRITICAL = '':red_circle:''"

definition typed :: "string \<Rightarrow> string \<Rightarrow> pyval" where
  "typed ty text = PDict [(''type'', PStr ty), (''text'', PStr text)]"

definition format_slack :: "alert \<Rightarrow> rendered \<Rightarrow> (string, pyval) dict" where
  "format_slack a r =
     [(''blocks'', PList
        [PDict [(''type'', PStr ''header''), (''text'', typed ''plain_text'' (slack_emoji (al_severity a) @ '' '' @ rd_subject r))],
         PDict [(''type'', PStr ''section''),
                (''fields'', PList [typed ''mrkdwn'' (''*Severity:* '' @ ascii_upper (severity_value (al_severity a))),
                                    typed ''mrkdwn'' (''*Risk Score:* '' @ fixed2 (al_risk_score a)), typed ''mrkdwn'' (''*Account:* '' @ al_account_id a),
                                    typed ''mrkdwn'' (''*Transaction:* '' @ al_transaction_id a)])],
         PDict [(''type'', PStr ''section''), (''text'', typed ''mrkdwn'' (rd_body r))],
         PDict [(''type'', PStr ''actions''),
                (''elements'', PList
                   [PDict [(''type'', PStr ''button''), (''text'', typed ''plain_text'' ''Investigate''), (''style'', PStr ''danger''),
                           (''value'', PStr (al_alert_id a)), (''action_id'', PStr ''investigate_alert'')],
                    PDict [(''type'', PStr ''button''), (''text'', typed ''plain_text'' ''Acknowledge''), (''value'', PStr (al_alert_id a)),
                           (''action_id'', PStr ''acknowledge_alert'')]])]])]"

primrec teams_color :: "alert_severity \<Rightarrow> string" where
  "teams_color LOW = ''good''"
| "teams_color MEDIUM = ''warning''"
| "teams_color HIGH = ''attention''"
| "teams_color CRITICAL = ''attention''"

definition fact :: "string \<Rightarrow> string \<Rightarrow> pyval" where
  "fact title value = PDict [(''title'', PStr title), (''value'', PStr value)]"

text \<open>The base of the links comes from the environment, without slashes at its end.\<close>

definition alert_dashboard_url :: "string \<Rightarrow> string \<Rightarrow> string" where
  "alert_dashboard_url base alert_id = rev (dropWhile (\<lambda>c. c = CHR ''/'') (rev base)) @ ''/alerts/'' @ alert_id"

definition format_teams :: "string \<Rightarrow> alert \<Rightarrow> rendered \<Rightarrow> (string, pyval) dict" where
  "format_teams base a r =
     [(''type'', PStr ''message''),
      (''attachments'', PList [PDict
         [(''contentType'', PStr ''application/vnd.microsoft.card.adaptive''),
          (''content'', PDict
             [(''$schema'', PStr ''http://adaptivecards.io/schemas/adaptive-card.json''), (''type'', PStr ''AdaptiveCard''), (''version'', PStr ''1.4''),
              (''body'', PList
                 [PDict [(''type'', PStr ''TextBlock''), (''text'', PStr (rd_subject r)), (''weight'', PStr ''bolder''), (''size'', PStr ''large''),
                         (''color'', PStr (teams_color (al_severity a)))],
                  PDict [(''type'', PStr ''FactSet''),
                         (''facts'', PList [fact ''Severity'' (ascii_upper (severity_value (al_severity a))), fact ''Risk Score'' (fixed2 (al_risk_score a)),
                                            fact ''Account'' (al_account_id a), fact ''Transaction'' (al_transaction_id a)])],
                  PDict [(''type'', PStr ''TextBlock''), (''text'', PStr (rd_body r)), (''wrap'', PBool True)]]),
              (''actions'', PList [PDict [(''type'', PStr ''Action.OpenUrl''), (''title'', PStr ''Investigate''),
                                          (''url'', PStr (alert_dashboard_url base (al_alert_id a)))]])])]])]"

primrec pagerduty_severity :: "alert_severity \<Rightarrow> string" where
  "pagerduty_severity LOW = ''info''"
| "pagerduty_severity MEDIUM = ''warning''"
| "pagerduty_severity HIGH = ''error''"
| "pagerduty_severity CRITICAL = ''critical''"

definition format_pagerduty :: "string \<Rightarrow> alert \<Rightarrow> rendered \<Rightarrow> (string, pyval) dict" where
  "format_pagerduty base a r =
     [(''routing_key'', PStr []), (''event_action'', PStr ''trigger''), (''dedup_key'', PStr (''riskpulse-'' @ al_alert_id a)),
      (''payload'', PDict
         [(''summary'', PStr (rd_subject r)), (''severity'', PStr (pagerduty_severity (al_severity a))), (''source'', PStr ''riskpulse-fraud-detection''),
          (''component'', PStr ''alert-engine''), (''group'', PStr (''account-'' @ al_account_id a)), (''class'', PStr (alert_type_value (al_alert_type a))),
          (''custom_details'', PDict
             [(''alert_id'', PStr (al_alert_id a)), (''transaction_id'', PStr (al_transaction_id a)), (''account_id'', PStr (al_account_id a)),
              (''risk_score'', PFloat (al_risk_score a)), (''description'', PStr (rd_body r))])]),
      (''links'', PList [PDict [(''href'', PStr (alert_dashboard_url base (al_alert_id a))), (''text'', PStr ''View in RiskPulse'')]])]"

section \<open>Service\<close>

type_synonym reply = "(string, pyval) dict res"

text \<open>What one delivery takes from outside.\<close>

record notify_env =
  ne_uuid :: string
  ne_now :: "nat \<Rightarrow> datetime"
  ne_time :: seconds
  ne_iso :: string
  ne_base_url :: string
  ne_str :: "pyval \<Rightarrow> string"
  ne_show_exn :: "pyexn \<Rightarrow> string"
  ne_email :: "(string \<Rightarrow> string \<Rightarrow> string \<Rightarrow> string \<Rightarrow> reply) option"
  ne_sms :: "(string \<Rightarrow> string \<Rightarrow> reply) option"
  ne_webhook :: "string \<Rightarrow> (string, pyval) dict \<Rightarrow> (string, string) dict option \<Rightarrow> reply"
  ne_push :: "(string \<Rightarrow> (string, pyval) dict \<Rightarrow> reply) option"
  ne_render :: "alert \<Rightarrow> string \<Rightarrow> rendered res"

record notifier =
  ns_preferences :: preferences
  ns_limiter :: notification_limiter
  ns_tracker :: delivery_tracker
  ns_config :: "(string, pyval) dict"

text \<open>The in-app provider: a connection is its function to send a text.\<close>

type_synonym connections = "(string, string \<Rightarrow> unit res) dict"

definition register_connection :: "string \<Rightarrow> (string \<Rightarrow> unit res) \<Rightarrow> connections \<Rightarrow> connections" where
  "register_connection user ws cs = dset user ws cs"

definition remove_connection :: "string \<Rightarrow> connections \<Rightarrow> connections" where
  "remove_connection user cs = ddel user cs"

definition push_notification :: "(pyval \<Rightarrow> string) \<Rightarrow> connections \<Rightarrow> string \<Rightarrow> (string, pyval) dict \<Rightarrow> reply" where
  "push_notification dumps cs user payload =
     (case dget cs user of
        None \<Rightarrow> Inr [(''status'', PStr ''user_offline''), (''queued'', PBool True)]
      | Some ws \<Rightarrow> res_bind (ws (dumps (PDict [(''type'', PStr ''notification''), (''data'', PDict payload)]))) (\<lambda>_. Inr [(''status'', PStr ''delivered'')]))"

primrec channel_template :: "notification_channel \<Rightarrow> string" where
  "channel_template NC_EMAIL = ''email''"
| "channel_template NC_SMS = ''sms''"
| "channel_template NC_WEBHOOK = ''webhook''"
| "channel_template NC_IN_APP = ''dashboard''"

primrec resolve_channels :: "alert_severity \<Rightarrow> notification_channel list" where
  "resolve_channels LOW = [NC_EMAIL]"
| "resolve_channels MEDIUM = [NC_EMAIL, NC_IN_APP]"
| "resolve_channels HIGH = [NC_EMAIL, NC_SMS, NC_IN_APP]"
| "resolve_channels CRITICAL = [NC_EMAIL, NC_SMS, NC_WEBHOOK, NC_IN_APP]"

definition get_webhook_config :: "notifier \<Rightarrow> string \<Rightarrow> pyval res" where
  "get_webhook_config s recipient = res_bind (as_dict (dget_or (ns_config s) ''webhooks'' (PDict []))) (\<lambda>d. Inr (pget d recipient))"

definition add_metadata :: "string \<Rightarrow> pyval \<Rightarrow> string \<Rightarrow> delivery_tracker \<Rightarrow> delivery_tracker" where
  "add_metadata k v uid = on_record uid (\<lambda>n. n\<lparr>nt_metadata := dset k v (nt_metadata n)\<rparr>)"

definition send_email :: "notify_env \<Rightarrow> rendered \<Rightarrow> string \<Rightarrow> string \<Rightarrow> delivery_tracker \<Rightarrow> unit res \<times> delivery_tracker" where
  "send_email env r recipient uid t =
     (case ne_email env of
        None \<Rightarrow> (Inl RuntimeError, t)
      | Some send \<Rightarrow>
          (case send recipient (rd_subject r) (if rd_html_body r = [] then rd_body r else rd_html_body r) (rd_body r) of
             Inl ex \<Rightarrow> (Inl ex, t)
           | Inr d \<Rightarrow> (Inr (), add_metadata ''provider_message_id'' (pget d ''message_id'') uid (mark_sent (ne_now env 1) uid t))))"

definition sms_text :: "alert \<Rightarrow> rendered \<Rightarrow> string" where
  "sms_text a r = ''[RiskPulse '' @ ascii_upper (severity_value (al_severity a)) @ ''] Alert '' @ take 8 (al_alert_id a) @ '': '' @ rd_subject r @ '' Score: '' @ fixed2 (al_risk_score a)"

definition send_sms :: "notify_env \<Rightarrow> alert \<Rightarrow> rendered \<Rightarrow> string \<Rightarrow> string \<Rightarrow> delivery_tracker \<Rightarrow> unit res \<times> delivery_tracker" where
  "send_sms env a r recipient uid t =
     (case ne_sms env of
        None \<Rightarrow> (Inl RuntimeError, t)
      | Some send \<Rightarrow>
          (case send recipient (sms_text a r) of
             Inl ex \<Rightarrow> (Inl ex, t)
           | Inr d \<Rightarrow> (Inr (), add_metadata ''provider_message_id'' (pget d ''message_id'') uid (mark_sent (ne_now env 1) uid t))))"

definition text_or_empty :: "notify_env \<Rightarrow> pyval \<Rightarrow> string" where
  "text_or_empty env v = strip (if py_bool v then ne_str env v else [])"

definition webhook_payload :: "notify_env \<Rightarrow> alert \<Rightarrow> rendered \<Rightarrow> (string, pyval) dict \<Rightarrow> webhook_target \<Rightarrow> (string, pyval) dict res" where
  "webhook_payload env a r config target =
     (case target of
        WT_SLACK \<Rightarrow> Inr (format_slack a r)
      | WT_TEAMS \<Rightarrow> Inr (format_teams (ne_base_url env) a r)
      | WT_PAGERDUTY \<Rightarrow>
          (let key = text_or_empty env (pget config ''routing_key'')
           in if key = [] then Inl RuntimeError else Inr (dset ''routing_key'' (PStr key) (format_pagerduty (ne_base_url env) a r)))
      | WT_CUSTOM \<Rightarrow>
          Inr [(''alert_id'', PStr (al_alert_id a)), (''severity'', PStr (severity_value (al_severity a))), (''title'', PStr (rd_subject r)),
               (''body'', PStr (rd_body r)), (''risk_score'', PFloat (al_risk_score a)), (''timestamp'', PStr (ne_iso env))])"

definition webhook_headers :: "notify_env \<Rightarrow> pyval \<Rightarrow> (string, string) dict option" where
  "webhook_headers env v =
     (case v of PDict d \<Rightarrow> Some (map (\<lambda>(k, x). (k, ne_str env x)) (filter (\<lambda>(k, x). py_bool x) d)) | _ \<Rightarrow> None)"

definition webhook_call :: "notify_env \<Rightarrow> notifier \<Rightarrow> alert \<Rightarrow> rendered \<Rightarrow> string \<Rightarrow> reply" where
  "webhook_call env s a r recipient =
     res_bind (get_webhook_config s recipient) (\<lambda>v.
       if \<not> py_bool v then Inl RuntimeError
       else res_bind (as_dict v) (\<lambda>config.
            res_bind (webhook_target_of (dget_or config ''type'' (PStr ''custom''))) (\<lambda>target.
              let url = text_or_empty env (pget config ''url'')
              in if url = [] then Inl RuntimeError
                 else res_bind (webhook_payload env a r config target) (\<lambda>payload. ne_webhook env url payload (webhook_headers env (pget config ''headers''))))))"

definition send_webhook :: "notify_env \<Rightarrow> notifier \<Rightarrow> alert \<Rightarrow> rendered \<Rightarrow> string \<Rightarrow> string \<Rightarrow> delivery_tracker \<Rightarrow> unit res \<times> delivery_tracker" where
  "send_webhook env s a r recipient uid t =
     (case webhook_call env s a r recipient of Inl ex \<Rightarrow> (Inl ex, t) | Inr d \<Rightarrow> (Inr (), mark_delivered (ne_now env 1) uid t))"

definition in_app_payload :: "notify_env \<Rightarrow> alert \<Rightarrow> rendered \<Rightarrow> string \<Rightarrow> (string, pyval) dict" where
  "in_app_payload env a r uid =
     [(''notification_id'', PStr uid), (''alert_id'', PStr (al_alert_id a)), (''title'', PStr (rd_subject r)), (''body'', PStr (rd_body r)),
      (''severity'', PStr (severity_value (al_severity a))), (''risk_score'', PFloat (al_risk_score a)), (''timestamp'', PStr (ne_iso env)),
      (''actions'', PList [PStr ''investigate'', PStr ''acknowledge'', PStr ''dismiss''])]"

definition send_in_app :: "notify_env \<Rightarrow> alert \<Rightarrow> rendered \<Rightarrow> string \<Rightarrow> string \<Rightarrow> delivery_tracker \<Rightarrow> unit res \<times> delivery_tracker" where
  "send_in_app env a r recipient uid t =
     (case ne_push env of
        None \<Rightarrow> (Inl RuntimeError, t)
      | Some push \<Rightarrow>
          (case push recipient (in_app_payload env a r uid) of
             Inl ex \<Rightarrow> (Inl ex, t)
           | Inr d \<Rightarrow>
               (Inr (), if pget d ''status'' = PStr ''delivered'' then mark_delivered (ne_now env 1) uid t
                        else add_metadata ''queued'' (PBool True) uid (mark_sent (ne_now env 1) uid t))))"

text \<open>What the checks before a delivery decide.\<close>

datatype verdict = Disabled | Quiet | Limited | Dispatch

definition admit :: "notify_env \<Rightarrow> alert_severity \<Rightarrow> string \<Rightarrow> notification_channel \<Rightarrow> bool \<Rightarrow> notifier \<Rightarrow> verdict res \<times> notifier" where
  "admit env severity recipient channel override s =
     (case get_preference recipient (ns_preferences s) of
        Inl ex \<Rightarrow> (Inl ex, s)
      | Inr x \<Rightarrow>
          if \<not> channel_enabled x channel severity then (Inr Disabled, s)
          else if severity \<noteq> CRITICAL \<and> in_quiet_hours (hour_of (ne_now env 0, 0)) x then (Inr Quiet, s)
          else if override then (Inr Dispatch, s)
          else (let (ok, l) = notification_allowed (ne_time env) recipient (np_rate_limit_per_hour x) (ns_limiter s)
                in (Inr (if ok then Dispatch else Limited), s\<lparr>ns_limiter := l\<rparr>)))"

text \<open>
  \<^verbatim>\<open>except Exception\<close> turns what a provider raises into a failed record. A cancelled task raises \<^verbatim>\<open>CancelledError\<close>, which is not an
  \<^verbatim>\<open>Exception\<close>: it leaves the delivery with the record as it is.
\<close>

definition dispatch ::
  "notify_env \<Rightarrow> notifier \<Rightarrow> alert \<Rightarrow> rendered \<Rightarrow> string \<Rightarrow> notification_channel \<Rightarrow> string \<Rightarrow> delivery_tracker \<Rightarrow> unit res \<times> delivery_tracker" where
  "dispatch env s a r recipient channel uid t =
     (case (case channel of
              NC_EMAIL \<Rightarrow> send_email env r recipient uid t
            | NC_SMS \<Rightarrow> send_sms env a r recipient uid t
            | NC_WEBHOOK \<Rightarrow> send_webhook env s a r recipient uid t
            | NC_IN_APP \<Rightarrow> send_in_app env a r recipient uid t) of
        (Inl ex, t1) \<Rightarrow> if ex = CancelledError then (Inl ex, t1) else (Inr (), mark_failed (ne_now env 1) uid (ne_show_exn env ex) t1)
      | (Inr _, t1) \<Rightarrow> (Inr (), t1))"

definition deliver_to_channel ::
  "notify_env \<Rightarrow> alert \<Rightarrow> rendered \<Rightarrow> string \<Rightarrow> notification_channel \<Rightarrow> bool \<Rightarrow> notifier \<Rightarrow> notification option res \<times> notifier" where
  "deliver_to_channel env a r recipient channel override s =
     (let uid = ne_uuid env;
          (_, t) = create_record uid (ne_now env 0) (al_alert_id a) channel recipient [(''severity'', PStr (severity_value (al_severity a)))] (ns_tracker s)
      in case admit env (al_severity a) recipient channel override (s\<lparr>ns_tracker := t\<rparr>) of
           (Inl ex, s1) \<Rightarrow> (Inl ex, s1)
         | (Inr v, s1) \<Rightarrow>
             (let t1 = ns_tracker s1;
                  (x, t2) = (case v of
                          Disabled \<Rightarrow> (Inr (), mark_failed (ne_now env 1) uid ''channel_disabled_by_preference'' t1)
                        | Quiet \<Rightarrow> (Inr (), mark_failed (ne_now env 1) uid ''quiet_hours'' t1)
                        | Limited \<Rightarrow> (Inr (), mark_rate_limited uid t1)
                        | Dispatch \<Rightarrow> dispatch env s1 a r recipient channel uid t1)
              in (res_bind x (\<lambda>_. Inr (get_notification uid t2)), s1\<lparr>ns_tracker := t2\<rparr>)))"

text \<open>All deliveries of an alert, in order; an exception of the renderer or of the preferences ends them, and so does a cancellation.\<close>

fun deliver_all ::
  "alert \<Rightarrow> bool \<Rightarrow> (notify_env \<times> string \<times> notification_channel) list \<Rightarrow> notifier \<Rightarrow> notification option list res \<times> notifier" where
  "deliver_all a override [] s = (Inr [], s)"
| "deliver_all a override ((env, recipient, channel) # ds) s =
     (case ne_render env a (channel_template channel) of
        Inl ex \<Rightarrow> (Inl ex, s)
      | Inr r \<Rightarrow>
          (case deliver_to_channel env a r recipient channel override s of
             (Inl ex, s1) \<Rightarrow> (Inl ex, s1)
           | (Inr n, s1) \<Rightarrow> (let (ns, s2) = deliver_all a override ds s1 in (res_bind ns (\<lambda>xs. Inr (n # xs)), s2))))"

text \<open>\<open>envs\<close> gives the readings of the delivery with a number.\<close>

definition deliveries :: "(nat \<Rightarrow> notify_env) \<Rightarrow> string list \<Rightarrow> notification_channel list \<Rightarrow> (notify_env \<times> string \<times> notification_channel) list" where
  "deliveries envs recipients channels =
     (let ps = concat (map (\<lambda>r. map (\<lambda>c. (r, c)) channels) recipients) in map (\<lambda>i. (envs i, ps ! i)) [0..<length ps])"

definition notify ::
  "(nat \<Rightarrow> notify_env) \<Rightarrow> alert \<Rightarrow> string list \<Rightarrow> notification_channel list option \<Rightarrow> bool \<Rightarrow> notifier \<Rightarrow> notification option list res \<times> notifier" where
  "notify envs a recipients channels override s =
     (let target = (case channels of Some (c # cs) \<Rightarrow> c # cs | _ \<Rightarrow> resolve_channels (al_severity a))
      in deliver_all a override (deliveries envs recipients target) s)"

definition service_delivery_stats :: "seconds \<Rightarrow> notifier \<Rightarrow> ((string, int) dict \<times> (string, int) dict) \<times> notifier" where
  "service_delivery_stats now s = (let (st, l) = limiter_stats now (ns_limiter s) in ((delivery_stats (ns_tracker s), st), s\<lparr>ns_limiter := l\<rparr>))"

definition mark_notification_read :: "datetime \<Rightarrow> string \<Rightarrow> notifier \<Rightarrow> notifier" where
  "mark_notification_read now uid s = s\<lparr>ns_tracker := mark_read now uid (ns_tracker s)\<rparr>"

definition get_notifications_for_alert :: "string \<Rightarrow> notifier \<Rightarrow> notification list" where
  "get_notifications_for_alert alert_id s = get_records_for_alert alert_id (ns_tracker s)"

text \<open>
  The checks of a delivery fulfil the contract of a window limiter, for each recipient with the limit of its preference.
\<close>

definition hourly_limit :: "string \<Rightarrow> notifier \<Rightarrow> nat" where
  "hourly_limit recipient s =
     (case get_preference recipient (ns_preferences s) of
        Inl _ \<Rightarrow> 0
      | Inr x \<Rightarrow> nat (case np_rate_limit_per_hour x of Some n \<Rightarrow> n | None \<Rightarrow> nl_default_limit (ns_limiter s)))"

type_synonym delivery_request = "notify_env \<times> alert_severity \<times> string \<times> notification_channel"

definition admit_step :: "notifier \<Rightarrow> seconds \<Rightarrow> delivery_request \<Rightarrow> bool \<times> notifier" where
  "admit_step s t q =
     (let (env, severity, recipient, channel) = q; (v, s1) = admit (env\<lparr>ne_time := t\<rparr>) severity recipient channel False s in (v = Inr Dispatch, s1))"

lemma limiter_bucket:
  "notification_allowed t r limit l = (ok, l1) \<Longrightarrow>
     recent 3600 t (dget_or (nl_buckets l1) k []) = recent 3600 t (dget_or (nl_buckets l) k [] @ (if ok \<and> r = k then [t] else []))"
  by (auto simp: notification_allowed_def cleanup_bucket_def Let_def dict_simps recent_def algebra_simps split: if_splits)

lemma limiter_default [simp]: "nl_default_limit (snd (notification_allowed t r limit l)) = nl_default_limit l"
  by (simp add: notification_allowed_def cleanup_bucket_def Let_def)

lemma admit_keeps:
  "ns_preferences (snd (admit env severity r channel override s)) = ns_preferences s \<and>
     nl_default_limit (ns_limiter (snd (admit env severity r channel override s))) = nl_default_limit (ns_limiter s)"
  by (auto simp: admit_def Let_def case_prod_beta split: sum.splits)

lemma limiter_below:
  "notification_allowed t r limit l = (True, l1) \<Longrightarrow>
     length (recent 3600 t (dget_or (nl_buckets l) r [])) < nat (case limit of Some n \<Rightarrow> n | None \<Rightarrow> nl_default_limit l)"
proof -
  assume a: "notification_allowed t r limit l = (True, l1)"
  have "filter (\<lambda>x. t - 3600 < x) xs = recent 3600 t xs" for xs by (simp add: recent_def algebra_simps)
  with a show ?thesis by (auto simp: notification_allowed_def cleanup_bucket_def Let_def dict_simps split: if_splits)
qed

interpretation hourly: window_limiter admit_step "\<lambda>q. if fst (snd (snd q)) = k then Some () else None" "\<lambda>s _. dget_or (nl_buckets (ns_limiter s)) k []"
  "\<lambda>s. 3600" "\<lambda>s. hourly_limit k s" "\<lambda>s. True" for k
proof unfold_locales
  fix s :: notifier and t :: seconds and q :: delivery_request and u :: unit
  show "hourly_limit k (snd (admit_step s t q)) = hourly_limit k s"
    by (simp add: admit_step_def hourly_limit_def Let_def case_prod_beta admit_keeps split: sum.split option.split)
  show "fst (admit_step s t q) \<Longrightarrow> (if fst (snd (snd q)) = k then Some () else None) = Some u \<Longrightarrow>
      length (recent 3600 t (dget_or (nl_buckets (ns_limiter s)) k [])) < hourly_limit k s"
    by (auto simp: admit_step_def admit_def hourly_limit_def Let_def dest!: limiter_below split: prod.splits sum.splits if_splits)
  show "recent 3600 t (dget_or (nl_buckets (ns_limiter (snd (admit_step s t q)))) k []) =
      recent 3600 t (dget_or (nl_buckets (ns_limiter s)) k [] @ (if fst (admit_step s t q) \<and> (if fst (snd (snd q)) = k then Some () else None) = Some u then [t] else []))"
    by (auto simp: admit_step_def admit_def Let_def dest!: limiter_bucket [where k = k] split: prod.splits sum.splits if_splits)
qed auto

end
