(* ===== verification/Notification_Properties.thy ===== *)
theory Notification_Properties
  imports Notification
begin

text \<open>
  Properties of the notification service: the hourly limit over any run of deliveries, every delivery of an alert ends with a record
  that is settled and tracked, quiet hours as an interval of the clock face, and the index of the tracker by alert.
\<close>

declare map_of_eq_Some_iff [simp del] Some_eq_map_of_iff [simp del]

section \<open>Hourly limit\<close>

definition quiet_demo_prefs :: preferences where
  "quiet_demo_prefs = \<lparr>pf_preferences = [], pf_defaults = [(''rate_limit_per_hour'', PInt 2)]\<rparr>"

definition notify_demo_env :: notify_env where
  "notify_demo_env = \<lparr>ne_uuid = ''n1'', ne_now = (\<lambda>i. 0), ne_time = 0, ne_iso = ''t'', ne_base_url = ''u'', ne_str = (\<lambda>v. ''v''), ne_show_exn = (\<lambda>x. ''e''),
     ne_email = None, ne_sms = None, ne_webhook = (\<lambda>u p h. Inr []), ne_push = None,
     ne_render = (\<lambda>a c. Inr \<lparr>rd_subject = ''s'', rd_body = ''b'', rd_html_body = []\<rparr>)\<rparr>"

definition notify_demo :: notifier where
  "notify_demo = \<lparr>ns_preferences = quiet_demo_prefs, ns_limiter = new_notification_limiter 10, ns_tracker = new_tracker, ns_config = []\<rparr>"

text \<open>
  Claim C38 (hourly limit of a recipient). Take any notification service and any requests without override, in the order of its clock,
  to any recipients on any channels. The deliveries to one recipient that pass all checks within any one hour are at most the limit of
  the recipient's preference. A failed dispatch has used its place too.
\<close>

theorem hourly_notification_bound:
  assumes "sorted (map fst es)"
  shows "length (filter (\<lambda>(t, env, severity, r, channel). r = recipient \<and> T - 3600 < t \<and> t \<le> T) (run_accepted admit_step s es)) \<le> hourly_limit recipient s"
proof -
  have "(if c then Some () else None) = Some () \<longleftrightarrow> c" for c by simp
  then show ?thesis
    using hourly.window_bound [where s = s and es = es and T = T and ka = recipient and k = "()"] assms
    by (simp add: in_window_def case_prod_beta')
qed

theorem hourly_notification_bound_witness:
  "length (filter (\<lambda>(t, env, severity, r, channel). r = ''bob'' \<and> 100 - 3600 < t \<and> t \<le> 100)
     (run_accepted admit_step notify_demo
        [(0, notify_demo_env, HIGH, ''bob'', NC_EMAIL), (1, notify_demo_env, HIGH, ''bob'', NC_SMS), (2, notify_demo_env, LOW, ''bob'', NC_EMAIL)])) \<le> 2"
  using hourly_notification_bound [where s = notify_demo and recipient = "''bob''" and T = 100
      and es = "[(0, notify_demo_env, HIGH, ''bob'', NC_EMAIL), (1, notify_demo_env, HIGH, ''bob'', NC_SMS), (2, notify_demo_env, LOW, ''bob'', NC_EMAIL)]"]
  by (simp add: hourly_limit_def notify_demo_def quiet_demo_prefs_def get_preference_def dget_or_def)

section \<open>Quiet hours\<close>

text \<open>
  Remark (quiet hours are an arc of the clock). For hours between 0 and 23 the test of the code is the one on the clock face: the
  hour lies less far after the start than the end does. So an interval over midnight is covered, and equal ends mean no quiet hour.
\<close>

theorem quiet_hours_arc:
  assumes "np_quiet_hours_start x = Some s" "np_quiet_hours_end x = Some e" "s \<in> {0..<24}" "e \<in> {0..<24}" "hour \<in> {0..<24}"
  shows "in_quiet_hours hour x \<longleftrightarrow> (hour - s) mod 24 < (e - s) mod 24"
proof -
  have wrap: "(y - s) mod 24 = (if s \<le> y then y - s else y - s + 24)" if y: "y \<in> {0..<24}" for y
  proof (cases "s \<le> y")
    case True
    then show ?thesis using assms(3) y by (simp add: mod_pos_pos_trivial)
  next
    case False
    have "(y - s) mod 24 = (y - s + 24) mod 24" by (rule mod_add_self2 [symmetric])
    also have "\<dots> = y - s + 24" using False assms(3) y by (intro mod_pos_pos_trivial) auto
    finally show ?thesis using False by simp
  qed
  show ?thesis
    using assms(3-5) by (auto simp: in_quiet_hours_def assms(1,2) wrap [OF assms(4)] wrap [OF assms(5)])
qed

theorem quiet_hours_arc_witness:
  "in_quiet_hours 2 \<lparr>np_user_id = ''u'', np_email_enabled = PBool True, np_sms_enabled = PBool True, np_webhook_enabled = PBool True,
     np_in_app_enabled = PBool True, np_quiet_hours_start = Some 22, np_quiet_hours_end = Some 6, np_min_severity_email = LOW,
     np_min_severity_sms = HIGH, np_min_severity_webhook = MEDIUM, np_rate_limit_per_hour = Some 10, np_digest_mode = PBool False,
     np_digest_interval_minutes = PInt 30\<rparr>"
  by (subst quiet_hours_arc [where s = 22 and e = 6]) simp_all

section \<open>Tracker\<close>

text \<open>Every state of a tracker: its operations in any order, with fresh identifiers for new records.\<close>

inductive tracked :: "delivery_tracker \<Rightarrow> bool" where
  tracked_new: "tracked new_tracker"
| tracked_create: "tracked t \<Longrightarrow> get_notification uid t = None \<Longrightarrow> tracked (snd (create_record uid now alert_id channel recipient metadata t))"
| tracked_sent: "tracked t \<Longrightarrow> tracked (mark_sent now uid t)"
| tracked_delivered: "tracked t \<Longrightarrow> tracked (mark_delivered now uid t)"
| tracked_failed: "tracked t \<Longrightarrow> tracked (mark_failed now uid reason t)"
| tracked_read: "tracked t \<Longrightarrow> tracked (mark_read now uid t)"
| tracked_limited: "tracked t \<Longrightarrow> tracked (mark_rate_limited uid t)"
| tracked_metadata: "tracked t \<Longrightarrow> tracked (add_metadata k v uid t)"

definition tracker_ok :: "delivery_tracker \<Rightarrow> bool" where
  "tracker_ok t \<longleftrightarrow> wf_dict (dt_records t) \<and> (\<forall>(uid, n) \<in> set (dt_records t). nt_id n = uid) \<and>
     (\<forall>a. dget_or (dt_by_alert t) a [] = map nt_id (filter (\<lambda>n. nt_alert_id n = a) (map snd (dt_records t))))"

lemma dset_map:
  "wf_dict d \<Longrightarrow> dget d k = Some v \<Longrightarrow> g (f v) = g v \<Longrightarrow> h (f v) = h v \<Longrightarrow>
     map h (filter (\<lambda>n. g n = a) (map snd (dset k (f v) d))) = map h (filter (\<lambda>n. g n = a) (map snd d))"
  by (induction d) (auto split: if_splits)

lemma set_dset_wf: "wf_dict d \<Longrightarrow> set (dset k v d) = insert (k, v) {(x, y) \<in> set d. x \<noteq> k}"
  by (induction d) (auto simp: image_iff)

lemma tracker_ok_on_record:
  "tracker_ok t \<Longrightarrow> (\<And>n. nt_id (f n) = nt_id n \<and> nt_alert_id (f n) = nt_alert_id n) \<Longrightarrow> tracker_ok (on_record uid f t)"
  by (auto simp: tracker_ok_def on_record_def set_dset_wf dset_map [where g = nt_alert_id and h = nt_id] split: option.splits dest!: map_of_SomeD)

lemma tracker_ok_create:
  "tracker_ok t \<Longrightarrow> get_notification uid t = None \<Longrightarrow> tracker_ok (snd (create_record uid now alert_id channel recipient metadata t))"
  by (auto simp: tracker_ok_def create_record_def get_notification_def Let_def dset_new map_of_eq_None_iff dict_simps)

lemmas mark_defs = mark_sent_def mark_delivered_def mark_failed_def mark_read_def mark_rate_limited_def add_metadata_def

lemma tracked_ok: "tracked t \<Longrightarrow> tracker_ok t"
proof (induction rule: tracked.induct)
  case tracked_new
  then show ?case by (simp add: tracker_ok_def new_tracker_def dict_simps)
next
  case tracked_create
  then show ?case by (auto intro: tracker_ok_create)
qed (auto simp: mark_defs intro!: tracker_ok_on_record)

lemma map_filter_ids:
  "wf_dict d \<Longrightarrow> \<forall>(uid, n) \<in> set d. nt_id n = uid \<Longrightarrow> set ns \<subseteq> snd ` set d \<Longrightarrow> List.map_filter (dget d) (map nt_id ns) = ns"
  by (induction ns) (auto simp: List.map_filter_simps wf_dict_Some_in dest!: bspec)

text \<open>
  Remark (index by alert). In every state of the tracker, looking up an alert through its index gives exactly the records that name
  the alert, in the order in which they were made.
\<close>

theorem tracker_index_exact:
  assumes "tracked t"
  shows "get_records_for_alert a t = filter (\<lambda>n. nt_alert_id n = a) (map snd (dt_records t))"
proof -
  from tracked_ok [OF assms] have wf: "wf_dict (dt_records t)" "\<forall>(uid, n) \<in> set (dt_records t). nt_id n = uid"
    "dget_or (dt_by_alert t) a [] = map nt_id (filter (\<lambda>n. nt_alert_id n = a) (map snd (dt_records t)))"
    by (auto simp: tracker_ok_def)
  then show ?thesis
    unfolding get_records_for_alert_def wf(3) by (intro map_filter_ids) auto
qed

theorem tracker_index_exact_witness:
  "let t = mark_sent 5 ''n1'' (snd (create_record ''n1'' 0 ''a1'' NC_EMAIL ''bob'' [] new_tracker))
   in get_records_for_alert ''a1'' t = filter (\<lambda>n. nt_alert_id n = ''a1'') (map snd (dt_records t))"
  unfolding Let_def
  by (intro tracker_index_exact tracked_sent tracked_create tracked_new) (simp add: get_notification_def new_tracker_def)

section \<open>Deliveries\<close>

text \<open>A record is settled once it is not pending any more.\<close>

definition settled :: "notification \<Rightarrow> bool" where
  "settled n \<longleftrightarrow> nt_status n \<noteq> DS_PENDING"

definition about :: "string \<Rightarrow> string \<Rightarrow> notification_channel \<Rightarrow> string \<Rightarrow> notification \<Rightarrow> bool" where
  "about aid recipient channel uid n \<longleftrightarrow> nt_alert_id n = aid \<and> nt_recipient n = recipient \<and> nt_channel n = channel \<and> nt_id n = uid"

lemma on_record_lookup:
  "dget (dt_records (on_record uid f t)) k = (if k = uid then map_option f (dget (dt_records t) uid) else dget (dt_records t) k)"
  by (auto simp: on_record_def dict_simps split: option.splits)

lemma create_lookup:
  "dget (dt_records (snd (create_record uid now aid ch r md t))) k =
     (if k = uid then Some (fst (create_record uid now aid ch r md t)) else dget (dt_records t) k)"
  by (simp add: create_record_def Let_def dict_simps)

lemmas lookup_defs = mark_defs on_record_lookup

text \<open>No provider of a delivery is cancelled.\<close>

definition uncancelled :: "notify_env \<Rightarrow> bool" where
  "uncancelled env \<longleftrightarrow>
     (\<forall>f. ne_email env = Some f \<longrightarrow> (\<forall>a b c d. f a b c d \<noteq> Inl CancelledError)) \<and> (\<forall>f. ne_sms env = Some f \<longrightarrow> (\<forall>a b. f a b \<noteq> Inl CancelledError)) \<and>
     (\<forall>a b c. ne_webhook env a b c \<noteq> Inl CancelledError) \<and> (\<forall>f. ne_push env = Some f \<longrightarrow> (\<forall>a b. f a b \<noteq> Inl CancelledError))"

lemma bind_raises: "res_bind m f = Inl ex \<longleftrightarrow> m = Inl ex \<or> (\<exists>x. m = Inr x \<and> f x = Inl ex)"
  by (cases m) simp_all

lemma webhook_uncancelled:
  assumes "uncancelled env"
  shows "webhook_call env s a r recipient \<noteq> Inl CancelledError"
proof -
  have "as_dict v \<noteq> Inl CancelledError" for v by (cases v) simp_all
  moreover have "webhook_target_of v \<noteq> Inl CancelledError" for v by (simp add: webhook_target_of_def)
  moreover have "webhook_payload env a r config target \<noteq> Inl CancelledError" for config target by (cases target) (simp_all add: webhook_payload_def Let_def)
  moreover have "ne_webhook env u p h \<noteq> Inl CancelledError" for u p h using assms by (simp add: uncancelled_def)
  ultimately show ?thesis
    by (auto simp: webhook_call_def get_webhook_config_def Let_def bind_raises)
qed

lemma dispatch_lookup:
  assumes "dget (dt_records t) uid = Some n" "about aid r ch uid n" "uncancelled env"
  shows "\<exists>t1. dispatch env s a rd r' ch' uid t = (Inr (), t1) \<and> (\<exists>n'. dget (dt_records t1) uid = Some n' \<and> about aid r ch uid n' \<and> settled n') \<and>
     (\<forall>k. k \<noteq> uid \<longrightarrow> dget (dt_records t1) k = dget (dt_records t) k)"
proof (cases ch')
  case NC_EMAIL
  then show ?thesis using assms
    by (auto simp: dispatch_def send_email_def uncancelled_def lookup_defs about_def settled_def split: option.splits sum.splits)
next
  case NC_SMS
  then show ?thesis using assms
    by (auto simp: dispatch_def send_sms_def uncancelled_def lookup_defs about_def settled_def split: option.splits sum.splits)
next
  case NC_WEBHOOK
  then show ?thesis using assms webhook_uncancelled [OF assms(3)]
    by (auto simp: dispatch_def send_webhook_def lookup_defs about_def settled_def split: sum.splits)
next
  case NC_IN_APP
  then show ?thesis using assms
    by (auto simp: dispatch_def send_in_app_def uncancelled_def lookup_defs about_def settled_def split: option.splits sum.splits)
qed

lemma admit_frame: "admit env sv r ch ov s = (v, s1) \<Longrightarrow> ns_tracker s1 = ns_tracker s \<and> ns_preferences s1 = ns_preferences s"
  by (auto simp: admit_def Let_def split: sum.splits if_splits prod.splits)

definition limit_readable :: "preferences \<Rightarrow> bool" where
  "limit_readable p \<longleftrightarrow> (\<exists>n. as_opt_int (dget_or (pf_defaults p) ''rate_limit_per_hour'' (PInt 10)) = Inr n)"

lemma preference_readable: "limit_readable p \<Longrightarrow> \<exists>x. get_preference r p = Inr x"
  by (auto simp: limit_readable_def get_preference_def split: option.splits)

lemma admit_returns: "limit_readable (ns_preferences s) \<Longrightarrow> \<exists>v s1. admit env sv r ch ov s = (Inr v, s1)"
  using preference_readable [of "ns_preferences s" r] by (auto simp: admit_def Let_def split: prod.splits)

lemma deliver_settles:
  assumes "limit_readable (ns_preferences s)" "uncancelled env"
  shows "\<exists>n s1. deliver_to_channel env a rd r ch ov s = (Inr (Some n), s1) \<and> about (al_alert_id a) r ch (ne_uuid env) n \<and> settled n \<and>
    ns_preferences s1 = ns_preferences s \<and> get_notification (ne_uuid env) (ns_tracker s1) = Some n \<and>
    (\<forall>k. k \<noteq> ne_uuid env \<longrightarrow> get_notification k (ns_tracker s1) = get_notification k (ns_tracker s))"
proof -
  let ?c = "create_record (ne_uuid env) (ne_now env 0) (al_alert_id a) ch r [(''severity'', PStr (severity_value (al_severity a)))] (ns_tracker s)"
  obtain v s1 where v: "admit env (al_severity a) r ch ov (s\<lparr>ns_tracker := snd ?c\<rparr>) = (Inr v, s1)"
    using admit_returns [of "s\<lparr>ns_tracker := snd ?c\<rparr>" env "al_severity a" r ch ov] assms(1) by auto
  from admit_frame [OF v] have f: "ns_tracker s1 = snd ?c" "ns_preferences s1 = ns_preferences s" by simp_all
  have b: "about (al_alert_id a) r ch (ne_uuid env) (fst ?c)" by (simp add: about_def create_record_def Let_def)
  have d: "dget (dt_records (ns_tracker s1)) (ne_uuid env) = Some (fst ?c)" by (simp add: f create_lookup)
  show ?thesis
    using dispatch_lookup [OF d b assms(2), of s1 a rd r ch] b
    by (cases v) (auto simp: deliver_to_channel_def case_prod_beta v f get_notification_def lookup_defs create_lookup about_def settled_def Let_def)
qed

lemma deliver_all_settles:
  assumes "limit_readable (ns_preferences s)" "\<forall>(env, r, ch) \<in> set ds. uncancelled env \<and> (\<exists>rd. ne_render env a (channel_template ch) = Inr rd)"
    "distinct (map (\<lambda>d. ne_uuid (fst d)) ds)"
  shows "\<exists>ns s1. deliver_all a ov ds s = (Inr (map Some ns), s1) \<and>
    list_all2 (\<lambda>(env, r, ch) n. about (al_alert_id a) r ch (ne_uuid env) n \<and> settled n \<and> get_notification (ne_uuid env) (ns_tracker s1) = Some n) ds ns \<and>
    (\<forall>k. k \<notin> (\<lambda>d. ne_uuid (fst d)) ` set ds \<longrightarrow> get_notification k (ns_tracker s1) = get_notification k (ns_tracker s))"
  using assms
proof (induction ds arbitrary: s)
  case Nil
  then show ?case by (intro exI [of _ "[]"]) simp
next
  case (Cons d ds)
  obtain env r ch where d: "d = (env, r, ch)" by (cases d)
  obtain rd where rd: "ne_render env a (channel_template ch) = Inr rd" and c: "uncancelled env" using Cons.prems(2) d by auto
  obtain n s1 where n: "deliver_to_channel env a rd r ch ov s = (Inr (Some n), s1)" "about (al_alert_id a) r ch (ne_uuid env) n" "settled n"
    "ns_preferences s1 = ns_preferences s" "get_notification (ne_uuid env) (ns_tracker s1) = Some n"
    "\<And>k. k \<noteq> ne_uuid env \<Longrightarrow> get_notification k (ns_tracker s1) = get_notification k (ns_tracker s)"
    using deliver_settles [OF Cons.prems(1) c, of a rd r ch ov] by auto
  obtain ns s2 where ns: "deliver_all a ov ds s1 = (Inr (map Some ns), s2)"
    "list_all2 (\<lambda>(env, r, ch) n. about (al_alert_id a) r ch (ne_uuid env) n \<and> settled n \<and> get_notification (ne_uuid env) (ns_tracker s2) = Some n) ds ns"
    "\<And>k. k \<notin> (\<lambda>d. ne_uuid (fst d)) ` set ds \<Longrightarrow> get_notification k (ns_tracker s2) = get_notification k (ns_tracker s1)"
    using Cons.IH [of s1] Cons.prems n(4) by auto
  have "get_notification (ne_uuid env) (ns_tracker s2) = Some n"
    using ns(3) [of "ne_uuid env"] Cons.prems(3) n(5) d by auto
  then show ?case
    using n ns rd d by (intro exI [of _ "n # ns"] exI [of _ s2]) auto
qed

lemma deliveries_pairs: "map snd (deliveries envs rs cs) = List.product rs cs"
  by (simp add: deliveries_def Let_def o_def map_nth product_concat_map)

lemma deliveries_envs: "map fst (deliveries envs rs cs) = map envs [0..<length rs * length cs]"
  by (simp add: deliveries_def Let_def o_def product_concat_map [symmetric])

lemma settles_list:
  "list_all2 (\<lambda>(env, r, ch) n. about aid r ch (ne_uuid env) n \<and> settled n \<and> get_notification (ne_uuid env) t = Some n) ds ns \<Longrightarrow>
     map (\<lambda>n. (nt_recipient n, nt_channel n)) ns = map snd ds \<and>
     (\<forall>n \<in> set ns. nt_status n \<noteq> DS_PENDING \<and> nt_alert_id n = aid \<and> get_notification (nt_id n) t = Some n)"
  by (induction ds ns rule: list_all2_induct) (auto simp: about_def settled_def)

text \<open>
  Claim C9 (every notification is settled). If the templates render, the default hourly limit is a number, the generated identifiers are distinct and no provider
  is cancelled, then \<^verbatim>\<open>notify\<close> returns whatever else the providers, the preferences and the limiter do: one record for every recipient and every
  channel, in this order, each for the alert, none pending, and each is the record the tracker keeps under its identifier. Providers that raise any exception the
  service catches (all but a cancellation) fail their own record and no other.
\<close>

theorem notify_settles:
  assumes "limit_readable (ns_preferences s)" "\<And>i channel. \<exists>r. ne_render (envs i) a channel = Inr r" "inj (\<lambda>i. ne_uuid (envs i))"
    and uncancelled: "\<And>i. uncancelled (envs i)"
    and target: "target = (case channels of Some (c # cs) \<Rightarrow> c # cs | _ \<Rightarrow> resolve_channels (al_severity a))"
  shows "\<exists>ns s1. notify envs a recipients channels override s = (Inr (map Some ns), s1) \<and>
    map (\<lambda>n. (nt_recipient n, nt_channel n)) ns = List.product recipients target \<and>
    (\<forall>n \<in> set ns. nt_status n \<noteq> DS_PENDING \<and> nt_alert_id n = al_alert_id a \<and> get_notification (nt_id n) (ns_tracker s1) = Some n)"
proof -
  let ?ds = "deliveries envs recipients target"
  have "map (\<lambda>d. ne_uuid (fst d)) ?ds = map (\<lambda>i. ne_uuid (envs i)) [0..<length recipients * length target]"
    using arg_cong [OF deliveries_envs, of "map ne_uuid" envs recipients target] by (simp add: o_def case_prod_beta')
  then have u: "distinct (map (\<lambda>d. ne_uuid (fst d)) ?ds)"
    using assms(3) by (simp add: distinct_map inj_on_def)
  have r: "\<forall>(env, r, ch) \<in> set ?ds. uncancelled env \<and> (\<exists>rd. ne_render env a (channel_template ch) = Inr rd)"
    using assms(2) uncancelled by (auto simp: deliveries_def Let_def)
  obtain ns s1 where ns: "deliver_all a override ?ds s = (Inr (map Some ns), s1)"
    "list_all2 (\<lambda>(env, r, ch) n. about (al_alert_id a) r ch (ne_uuid env) n \<and> settled n \<and> get_notification (ne_uuid env) (ns_tracker s1) = Some n) ?ds ns"
    using deliver_all_settles [OF assms(1) r u, of override] by blast
  then show ?thesis
    using settles_list [OF ns(2)] by (intro exI [of _ ns] exI [of _ s1]) (simp add: notify_def target deliveries_pairs Let_def)
qed

definition notify_demo_alert :: alert where
  "notify_demo_alert = \<lparr>al_alert_id = ''a1'', al_transaction_id = ''t1'', al_account_id = ''acc'', al_alert_type = ENSEMBLE,
     al_severity = HIGH, al_status = OPEN, al_risk_score = 4 / 5, al_rule_id = None, al_details = [], al_enrichment = [], al_channels = [],
     al_assigned_to = None, al_resolved_at = None, al_resolution_notes = None, al_created_at = 0, al_updated_at = 0,
     al_suppressed = False, al_deduplicated = False, al_parent_alert_id = None\<rparr>"

definition notify_demo_envs :: "nat \<Rightarrow> notify_env" where
  "notify_demo_envs i = notify_demo_env\<lparr>ne_uuid := replicate i CHR ''x''\<rparr>"

theorem notify_settles_witness:
  "\<exists>ns s1. notify notify_demo_envs notify_demo_alert [''bob'', ''eve''] None False notify_demo = (Inr (map Some ns), s1) \<and>
    map (\<lambda>n. (nt_recipient n, nt_channel n)) ns = List.product [''bob'', ''eve''] [NC_EMAIL, NC_SMS, NC_IN_APP] \<and>
    (\<forall>n \<in> set ns. nt_status n \<noteq> DS_PENDING \<and> nt_alert_id n = al_alert_id notify_demo_alert \<and> get_notification (nt_id n) (ns_tracker s1) = Some n)"
proof (rule notify_settles)
  show "inj (\<lambda>i. ne_uuid (notify_demo_envs i))"
    by (auto simp: inj_on_def notify_demo_envs_def replicate_eq_replicate)
qed (simp_all add: limit_readable_def notify_demo_def quiet_demo_prefs_def dget_or_def notify_demo_envs_def notify_demo_env_def notify_demo_alert_def
    uncancelled_def)

text \<open>
  Remark (a cancelled delivery stays pending). When the task is cancelled while the provider sends, the exception leaves \<^verbatim>\<open>notify\<close> and the
  record stays pending for ever: it is no failed notification, and nothing in the service settles it later.
\<close>

theorem cancelled_stays_pending:
  assumes "admit env (al_severity a) recipient NC_EMAIL override
      (s\<lparr>ns_tracker := snd (create_record (ne_uuid env) (ne_now env 0) (al_alert_id a) NC_EMAIL recipient [(''severity'', PStr (severity_value (al_severity a)))] (ns_tracker s))\<rparr>)
    = (Inr Dispatch, s1)" "ne_email env = Some (\<lambda>_ _ _ _. Inl CancelledError)"
  shows "\<exists>n s2. deliver_to_channel env a rd recipient NC_EMAIL override s = (Inl CancelledError, s2) \<and>
    get_notification (ne_uuid env) (ns_tracker s2) = Some n \<and> nt_status n = DS_PENDING"
proof -
  have "ns_tracker s1 = snd (create_record (ne_uuid env) (ne_now env 0) (al_alert_id a) NC_EMAIL recipient [(''severity'', PStr (severity_value (al_severity a)))] (ns_tracker s))"
    using admit_frame [OF assms(1)] by simp
  then show ?thesis using assms
    by (simp add: deliver_to_channel_def case_prod_beta dispatch_def send_email_def get_notification_def create_lookup Let_def) (simp add: create_record_def Let_def)
qed

theorem cancelled_stays_pending_witness:
  "\<exists>n s2. deliver_to_channel (notify_demo_env\<lparr>ne_email := Some (\<lambda>_ _ _ _. Inl CancelledError)\<rparr>) notify_demo_alert
      \<lparr>rd_subject = ''s'', rd_body = ''b'', rd_html_body = []\<rparr> ''bob'' NC_EMAIL True notify_demo = (Inl CancelledError, s2) \<and>
    get_notification ''n1'' (ns_tracker s2) = Some n \<and> nt_status n = DS_PENDING"
proof -
  let ?env = "notify_demo_env\<lparr>ne_email := Some (\<lambda>_ _ _ _. Inl CancelledError)\<rparr>"
  let ?s = "notify_demo\<lparr>ns_tracker := snd (create_record (ne_uuid ?env) (ne_now ?env 0) (al_alert_id notify_demo_alert) NC_EMAIL ''bob''
      [(''severity'', PStr (severity_value (al_severity notify_demo_alert)))] (ns_tracker notify_demo))\<rparr>"
  have "admit ?env (al_severity notify_demo_alert) ''bob'' NC_EMAIL True ?s = (Inr Dispatch, ?s)"
    by (simp add: admit_def notify_demo_def quiet_demo_prefs_def notify_demo_alert_def get_preference_def dget_or_def channel_enabled_def in_quiet_hours_def)
  from cancelled_stays_pending [OF this] show ?thesis by (simp add: notify_demo_env_def)
qed

text \<open>
  Remark (statuses go back): nothing orders the statuses of a record: a record that was read becomes sent again when its provider
  reports late, and keeps the time of reading.
\<close>

theorem status_goes_back:
  assumes "get_notification uid t = Some n"
  shows "map_option (\<lambda>x. (nt_status x, nt_read_at x)) (get_notification uid (mark_sent later uid (mark_read now uid t))) = Some (DS_SENT, Some now)"
  using assms by (simp add: get_notification_def lookup_defs)

theorem status_goes_back_witness:
  "map_option (\<lambda>x. (nt_status x, nt_read_at x))
     (get_notification ''n1'' (mark_sent 7 ''n1'' (mark_read 5 ''n1'' (snd (create_record ''n1'' 0 ''a1'' NC_EMAIL ''bob'' [] new_tracker))))) = Some (DS_SENT, Some 5)"
  by (rule status_goes_back [where n = "fst (create_record ''n1'' 0 ''a1'' NC_EMAIL ''bob'' [] new_tracker)"])
    (simp add: get_notification_def create_lookup)

text \<open>
  Remark (an override leaves no trace): a delivery with override passes without asking the limiter and without an entry in it, so it
  does not count against the hour of the recipient.
\<close>

theorem override_uncounted:
  "ns_limiter (snd (deliver_to_channel env a rd r ch True s)) = ns_limiter s"
  by (auto simp: deliver_to_channel_def admit_def case_prod_beta Let_def split: sum.splits)

end
