(* ===== verification/Kafka_Consumer.thy ===== *)
theory Kafka_Consumer
  imports Pipeline
begin

text \<open>
  The worker of \<^verbatim>\<open>src/ingestion/kafka_consumer.py\<close>: it polls a batch of messages, decodes them, runs the pipeline over the records and
  commits the offsets. The Kafka client is an argument: a record of its calls on an abstract client state, where a poll can deliver a message,
  an error or nothing, can raise, and can call back that partitions are revoked. The decoding of a text (UTF-8 and JSON) and the settings
  are arguments. The metrics published to CloudWatch, logging, signal handlers and the callback after a batch are left out.
\<close>

section \<open>Client\<close>

datatype kafka_code = PARTITION_EOF | ALL_BROKERS_DOWN | FATAL | BROKER_NOT_AVAILABLE | Other_code int

text \<open>A \<^verbatim>\<open>KafkaException\<close>, with the code of its first argument if that has one, or another exception.\<close>

datatype kafka_exn = Kafka_exception "kafka_code option" | Python_exception pyexn

datatype message_value = No_value | Raw_text string | Raw_object pyval

record kafka_message =
  km_value :: message_value
  km_topic :: string
  km_partition :: int
  km_offset :: int
  km_timestamp :: pyval

datatype polled = Poll_none | Poll_error kafka_code | Poll_message kafka_message | Poll_raises kafka_exn

record 'k kafka_client =
  kc_connect :: "(string, pyval) dict \<Rightarrow> kafka_exn + 'k"
  kc_subscribe :: "string list \<Rightarrow> 'k \<Rightarrow> kafka_exn option \<times> 'k"
  kc_revokes :: "real \<Rightarrow> 'k \<Rightarrow> bool \<times> 'k"
  kc_poll :: "real \<Rightarrow> 'k \<Rightarrow> polled \<times> 'k"
  kc_commit :: "'k \<Rightarrow> kafka_exn option \<times> 'k"
  kc_close :: "'k \<Rightarrow> kafka_exn option \<times> 'k"

section \<open>State\<close>

record consumer_metrics =
  cn_total_messages_consumed :: int
  cn_total_batches_processed :: int
  cn_total_records_succeeded :: int
  cn_total_records_failed :: int
  cn_total_records_dlq :: int
  cn_total_deserialization_errors :: int
  cn_total_poll_empty :: int
  cn_start_time :: seconds

definition new_consumer_metrics :: "seconds \<Rightarrow> consumer_metrics" where
  "new_consumer_metrics now =
     \<lparr>cn_total_messages_consumed = 0, cn_total_batches_processed = 0, cn_total_records_succeeded = 0, cn_total_records_failed = 0,
      cn_total_records_dlq = 0, cn_total_deserialization_errors = 0, cn_total_poll_empty = 0, cn_start_time = now\<rparr>"

definition consumer_throughput :: "seconds \<Rightarrow> consumer_metrics \<Rightarrow> real" where
  "consumer_throughput now m = (if now - cn_start_time m \<le> 0 then 0 else of_int (cn_total_messages_consumed m) / (now - cn_start_time m))"

definition consumer_success_rate :: "consumer_metrics \<Rightarrow> real" where
  "consumer_success_rate m =
     (let total = cn_total_records_succeeded m + cn_total_records_failed m in if total = 0 then 1 else of_int (cn_total_records_succeeded m) / of_int total)"

definition record_batch :: "batch_result \<Rightarrow> consumer_metrics \<Rightarrow> consumer_metrics" where
  "record_batch b m =
     m\<lparr>cn_total_batches_processed := cn_total_batches_processed m + 1, cn_total_messages_consumed := cn_total_messages_consumed m + br_total b,
       cn_total_records_succeeded := cn_total_records_succeeded m + br_succeeded b, cn_total_records_failed := cn_total_records_failed m + br_failed b,
       cn_total_records_dlq := cn_total_records_dlq m + br_dlq_count b\<rparr>"

definition record_deserialization_error :: "consumer_metrics \<Rightarrow> consumer_metrics" where
  "record_deserialization_error m = m\<lparr>cn_total_deserialization_errors := cn_total_deserialization_errors m + 1\<rparr>"

definition record_empty_poll :: "consumer_metrics \<Rightarrow> consumer_metrics" where
  "record_empty_poll m = m\<lparr>cn_total_poll_empty := cn_total_poll_empty m + 1\<rparr>"

definition consumer_snapshot :: "seconds \<Rightarrow> consumer_metrics \<Rightarrow> (string, pyval) dict" where
  "consumer_snapshot now m =
     [(''total_messages_consumed'', PInt (cn_total_messages_consumed m)), (''total_batches_processed'', PInt (cn_total_batches_processed m)),
      (''total_records_succeeded'', PInt (cn_total_records_succeeded m)), (''total_records_failed'', PInt (cn_total_records_failed m)),
      (''total_records_dlq'', PInt (cn_total_records_dlq m)), (''total_deserialization_errors'', PInt (cn_total_deserialization_errors m)),
      (''throughput_per_second'', PFloat (py_round 2 (consumer_throughput now m))), (''success_rate'', PFloat (py_round 4 (consumer_success_rate m))),
      (''uptime_seconds'', PFloat (py_round 2 (now - cn_start_time m)))]"

record 'k consumer =
  co_bootstrap_servers :: string
  co_group_id :: string
  co_topics :: "string list"
  co_batch_size :: int
  co_poll_timeout_ms :: int
  co_auto_offset_reset :: string
  co_auto_commit :: bool
  co_pipeline :: pipeline
  co_client :: "'k option"
  co_running :: bool
  co_shutdown :: bool
  co_metrics :: consumer_metrics

text \<open>The constructor; \<open>None\<close> and zero fall back to the settings.\<close>

definition int_or :: "int option \<Rightarrow> int \<Rightarrow> int" where
  "int_or a b = (case a of Some n \<Rightarrow> if n \<noteq> 0 then n else b | None \<Rightarrow> b)"

definition text_or :: "string option \<Rightarrow> string \<Rightarrow> string" where
  "text_or a b = (case a of Some s \<Rightarrow> if s \<noteq> [] then s else b | None \<Rightarrow> b)"

definition new_consumer ::
  "seconds \<Rightarrow> string \<Rightarrow> int \<Rightarrow> int \<Rightarrow> string option \<Rightarrow> string option \<Rightarrow> string list option \<Rightarrow> int option \<Rightarrow> int option \<Rightarrow> string \<Rightarrow> bool \<Rightarrow> pipeline \<Rightarrow> 'k consumer" where
  "new_consumer now set_servers set_batch set_timeout servers group_id topics batch timeout reset auto p =
     \<lparr>co_bootstrap_servers = text_or servers set_servers, co_group_id = text_or group_id ''riskpulse-pipeline-consumer'',
      co_topics = (case topics of Some (t # ts) \<Rightarrow> t # ts | _ \<Rightarrow> [''txn.raw.events'']), co_batch_size = min (int_or batch set_batch) 1000,
      co_poll_timeout_ms = int_or timeout set_timeout, co_auto_offset_reset = reset, co_auto_commit = auto, co_pipeline = p, co_client = None,
      co_running = False, co_shutdown = False, co_metrics = new_consumer_metrics now\<rparr>"

section \<open>Connection and offsets\<close>

definition consumer_config :: "'k consumer \<Rightarrow> (string, pyval) dict" where
  "consumer_config c =
     [(''bootstrap.servers'', PStr (co_bootstrap_servers c)), (''group.id'', PStr (co_group_id c)), (''auto.offset.reset'', PStr (co_auto_offset_reset c)),
      (''enable.auto.commit'', PBool (co_auto_commit c)), (''max.poll.interval.ms'', PInt 300000), (''session.timeout.ms'', PInt 30000),
      (''heartbeat.interval.ms'', PInt 10000), (''fetch.min.bytes'', PInt 1), (''fetch.max.wait.ms'', PInt 500)]"

text \<open>The client is kept before it subscribes: when that raises, the worker has a client without subscription.\<close>

definition create_consumer :: "'k kafka_client \<Rightarrow> 'k consumer \<Rightarrow> kafka_exn option \<times> 'k consumer" where
  "create_consumer kc c =
     (case kc_connect kc (consumer_config c) of
        Inl ex \<Rightarrow> (Some ex, c)
      | Inr k \<Rightarrow> (let (ex, k1) = kc_subscribe kc (co_topics c) k in (ex, c\<lparr>co_client := Some k1\<rparr>)))"

text \<open>The commit swallows a \<^verbatim>\<open>KafkaException\<close>; with automatic commits it does nothing.\<close>

definition commit_client :: "'k kafka_client \<Rightarrow> bool \<Rightarrow> 'k \<Rightarrow> kafka_exn option \<times> 'k" where
  "commit_client kc auto k =
     (if auto then (None, k)
      else (case kc_commit kc k of (Some (Python_exception ex), k1) \<Rightarrow> (Some (Python_exception ex), k1) | (_, k1) \<Rightarrow> (None, k1)))"

definition commit_offsets :: "'k kafka_client \<Rightarrow> 'k consumer \<Rightarrow> kafka_exn option \<times> 'k consumer" where
  "commit_offsets kc c =
     (case co_client c of
        None \<Rightarrow> (None, c)
      | Some k \<Rightarrow> (let (ex, k1) = commit_client kc (co_auto_commit c) k in (ex, c\<lparr>co_client := Some k1\<rparr>)))"

text \<open>A poll: when partitions are revoked, the handler commits first.\<close>

definition poll_once :: "'k kafka_client \<Rightarrow> bool \<Rightarrow> real \<Rightarrow> 'k \<Rightarrow> polled \<times> 'k" where
  "poll_once kc auto timeout k =
     (let (revoked, k1) = kc_revokes kc timeout k
      in if revoked
         then (case commit_client kc auto k1 of (Some ex, k2) \<Rightarrow> (Poll_raises ex, k2) | (None, k2) \<Rightarrow> kc_poll kc timeout k2)
         else kc_poll kc timeout k1)"

section \<open>Batches\<close>

text \<open>
  The loop that collects messages. An error that is not the loss of all brokers is skipped without being counted, so the loop may go on for
  ever, which is the value \<open>None\<close>; an exception of the client drops what was collected.
\<close>

partial_function (option) poll_loop :: "'k kafka_client \<Rightarrow> bool \<Rightarrow> int \<Rightarrow> real \<Rightarrow> kafka_message list \<Rightarrow> 'k \<Rightarrow> ((kafka_exn + kafka_message list) \<times> 'k) option" where
  "poll_loop kc auto n timeout msgs k =
     (if n \<le> int (length msgs) then Some (Inr msgs, k)
      else (case poll_once kc auto timeout k of
              (Poll_none, k1) \<Rightarrow> Some (Inr msgs, k1)
            | (Poll_raises ex, k1) \<Rightarrow> Some (Inl ex, k1)
            | (Poll_error code, k1) \<Rightarrow> if code = ALL_BROKERS_DOWN then Some (Inr msgs, k1) else poll_loop kc auto n timeout msgs k1
            | (Poll_message m, k1) \<Rightarrow> poll_loop kc auto n (5 / 100) (msgs @ [m]) k1))"

definition poll_batch :: "'k kafka_client \<Rightarrow> 'k consumer \<Rightarrow> ((kafka_exn + kafka_message list) \<times> 'k consumer) option" where
  "poll_batch kc c =
     (case co_client c of
        None \<Rightarrow> Some (Inr [], c)
      | Some k \<Rightarrow>
          map_option (\<lambda>(r, k1). (r, c\<lparr>co_client := Some k1\<rparr>))
            (poll_loop kc (co_auto_commit c) (co_batch_size c) (of_int (co_poll_timeout_ms c) / 1000) [] k))"

definition attach_metadata :: "kafka_message \<Rightarrow> txn_dict \<Rightarrow> txn_dict" where
  "attach_metadata m rec =
     dset ''_kafka_timestamp'' (km_timestamp m) (dset ''_kafka_offset'' (PInt (km_offset m))
       (dset ''_kafka_partition'' (PInt (km_partition m)) (dset ''_kafka_topic'' (PStr (km_topic m)) rec)))"

text \<open>
  The decoding of one message: nothing for a message without a value, an error that is counted for a text that does not decode, and an
  exception when the decoded value does not take the metadata because it is no object.
\<close>

datatype decoded = Skipped | Undecodable | Not_an_object | Record txn_dict

definition decode_message :: "(string \<Rightarrow> pyval option) \<Rightarrow> kafka_message \<Rightarrow> decoded" where
  "decode_message parse m =
     (let attach = (\<lambda>v. case v of PDict rec \<Rightarrow> Record (attach_metadata m rec) | _ \<Rightarrow> Not_an_object)
      in case km_value m of
           No_value \<Rightarrow> Skipped
         | Raw_text s \<Rightarrow> (case parse s of None \<Rightarrow> Undecodable | Some v \<Rightarrow> attach v)
         | Raw_object v \<Rightarrow> attach v)"

fun deserialize_messages :: "(string \<Rightarrow> pyval option) \<Rightarrow> kafka_message list \<Rightarrow> consumer_metrics \<Rightarrow> txn_dict list res \<times> consumer_metrics" where
  "deserialize_messages parse [] cm = (Inr [], cm)"
| "deserialize_messages parse (m # ms) cm =
     (case decode_message parse m of
        Skipped \<Rightarrow> deserialize_messages parse ms cm
      | Undecodable \<Rightarrow> deserialize_messages parse ms (record_deserialization_error cm)
      | Not_an_object \<Rightarrow> (Inl TypeError, cm)
      | Record rec \<Rightarrow> (case deserialize_messages parse ms cm of (Inl ex, cm1) \<Rightarrow> (Inl ex, cm1) | (Inr recs, cm1) \<Rightarrow> (Inr (rec # recs), cm1)))"

text \<open>What a batch takes from outside: the readings of the clock and, for each record, what the pipeline takes.\<close>

record batch_env =
  be_parse :: "string \<Rightarrow> pyval option"
  be_start :: seconds
  be_end :: seconds
  be_pipe :: "nat \<Rightarrow> pipe_env"

definition process_records :: "batch_env \<Rightarrow> txn_dict list \<Rightarrow> 'k consumer \<Rightarrow> batch_result \<times> 'k consumer" where
  "process_records env recs c =
     (let (b, p) = process_batch (be_start env) (be_end env) (map (\<lambda>i. (be_pipe env i, recs ! i)) [0..<length recs]) (co_pipeline c)
      in (b, c\<lparr>co_pipeline := p, co_metrics := record_batch b (co_metrics c)\<rparr>))"

definition run_batch :: "'k kafka_client \<Rightarrow> batch_env \<Rightarrow> 'k consumer \<Rightarrow> ((kafka_exn + batch_result option) \<times> 'k consumer) option" where
  "run_batch kc env c =
     (case poll_batch kc c of
        None \<Rightarrow> None
      | Some (Inl ex, c1) \<Rightarrow> Some (Inl ex, c1)
      | Some (Inr [], c1) \<Rightarrow> Some (Inr None, c1\<lparr>co_metrics := record_empty_poll (co_metrics c1)\<rparr>)
      | Some (Inr (m # ms), c1) \<Rightarrow>
          (case deserialize_messages (be_parse env) (m # ms) (co_metrics c1) of
             (Inl ex, cm) \<Rightarrow> Some (Inl (Python_exception ex), c1\<lparr>co_metrics := cm\<rparr>)
           | (Inr [], cm) \<Rightarrow> Some (Inr None, c1\<lparr>co_metrics := cm\<rparr>)
           | (Inr (r # rs), cm) \<Rightarrow>
               (let (b, c2) = process_records env (r # rs) (c1\<lparr>co_metrics := cm\<rparr>); (ex, c3) = commit_offsets kc c2
                in Some (case ex of None \<Rightarrow> Inr (Some b) | Some x \<Rightarrow> Inl x, c3))))"

definition consume_batch :: "'k kafka_client \<Rightarrow> batch_env \<Rightarrow> 'k consumer \<Rightarrow> ((kafka_exn + batch_result option) \<times> 'k consumer) option" where
  "consume_batch kc env c =
     (case (if co_client c = None then create_consumer kc c else (None, c)) of
        (Some ex, c1) \<Rightarrow> Some (Inl ex, c1)
      | (None, c1) \<Rightarrow> run_batch kc env c1)"

section \<open>The loop of the worker\<close>

definition is_fatal_error :: "kafka_code option \<Rightarrow> bool" where
  "is_fatal_error code = (case code of Some x \<Rightarrow> x \<in> {FATAL, ALL_BROKERS_DOWN, BROKER_NOT_AVAILABLE} | None \<Rightarrow> False)"

definition stop :: "'k consumer \<Rightarrow> 'k consumer" where
  "stop c = c\<lparr>co_shutdown := True\<rparr>"

text \<open>
  The loop, round by round: whether a stop was requested before the round, and what its batch takes from outside. The list ends where the
  observation ends.
\<close>

fun consume_loop :: "'k kafka_client \<Rightarrow> (bool \<times> batch_env) list \<Rightarrow> 'k consumer \<Rightarrow> 'k consumer option" where
  "consume_loop kc [] c = Some c"
| "consume_loop kc ((stopping, env) # rounds) c =
     (let c0 = (if stopping then stop c else c)
      in if co_shutdown c0 then Some c0
         else (case consume_batch kc env c0 of
                 None \<Rightarrow> None
               | Some (Inl (Kafka_exception code), c1) \<Rightarrow> if is_fatal_error code then Some c1 else consume_loop kc rounds c1
               | Some (_, c1) \<Rightarrow> consume_loop kc rounds c1))"

text \<open>The shutdown commits once more; exceptions of commit and close are swallowed.\<close>

definition shutdown_consumer :: "'k kafka_client \<Rightarrow> 'k consumer \<Rightarrow> 'k consumer" where
  "shutdown_consumer kc c =
     (let c0 = c\<lparr>co_running := False\<rparr>
      in case co_client c0 of
           None \<Rightarrow> c0
         | Some _ \<Rightarrow>
             (case commit_offsets kc c0 of
                (Some ex, c1) \<Rightarrow> c1
              | (None, c1) \<Rightarrow> c1\<lparr>co_client := map_option (\<lambda>k. snd (kc_close kc k)) (co_client c1)\<rparr>))"

definition start_consumer :: "'k kafka_client \<Rightarrow> (bool \<times> batch_env) list \<Rightarrow> 'k consumer \<Rightarrow> (kafka_exn option \<times> 'k consumer) option" where
  "start_consumer kc rounds c =
     (case create_consumer kc c of
        (Some ex, c1) \<Rightarrow> Some (Some ex, c1)
      | (None, c1) \<Rightarrow> map_option (\<lambda>c2. (None, shutdown_consumer kc c2)) (consume_loop kc rounds (c1\<lparr>co_running := True\<rparr>)))"

end
