(* ===== verification/Kafka_Consumer_Properties.thy ===== *)
theory Kafka_Consumer_Properties
  imports Kafka_Consumer Pipeline_Properties
begin

text \<open>
  Properties of the Kafka worker: polling ends on a client whose errors end and hangs on one whose errors do not, every message of a batch is
  accounted for, the counters of the worker add up in every run of the loop, and a batch with a message that is no object is committed unprocessed.
\<close>

declare map_of_eq_Some_iff [simp del] Some_eq_map_of_iff [simp del]

section \<open>What Kafka promises\<close>

text \<open>
  The documented behaviour of the client: \<open>taken\<close> are the messages it handed out, \<open>committed\<close> the number of them below the committed offset,
  \<open>errors\<close> the errors it still has to report. A commit without offsets sets the committed offset to the position of the consumer.
\<close>

definition kafka_laws :: "'k kafka_client \<Rightarrow> ('k \<Rightarrow> kafka_message list) \<Rightarrow> ('k \<Rightarrow> nat) \<Rightarrow> ('k \<Rightarrow> nat) \<Rightarrow> bool" where
  "kafka_laws kc taken committed errors \<longleftrightarrow>
     (\<forall>t k p k1. kc_poll kc t k = (p, k1) \<longrightarrow>
        taken k1 = taken k @ (case p of Poll_message m \<Rightarrow> [m] | _ \<Rightarrow> []) \<and> committed k1 = committed k \<and>
        (case p of Poll_error e \<Rightarrow> errors k1 < errors k | _ \<Rightarrow> errors k1 \<le> errors k)) \<and>
     (\<forall>t k r k1. kc_revokes kc t k = (r, k1) \<longrightarrow> taken k1 = taken k \<and> committed k1 = committed k \<and> errors k1 \<le> errors k) \<and>
     (\<forall>k ex k1. kc_commit kc k = (ex, k1) \<longrightarrow>
        taken k1 = taken k \<and> errors k1 \<le> errors k \<and> committed k1 = (if ex = None then length (taken k) else committed k))"

lemma poll_law:
  "kafka_laws kc taken committed errors \<Longrightarrow> kc_poll kc t k = (p, k1) \<Longrightarrow>
     taken k1 = taken k @ (case p of Poll_message m \<Rightarrow> [m] | _ \<Rightarrow> []) \<and> (case p of Poll_error e \<Rightarrow> errors k1 < errors k | _ \<Rightarrow> errors k1 \<le> errors k)"
  unfolding kafka_laws_def by (elim conjE) meson

lemma revoke_law: "kafka_laws kc taken committed errors \<Longrightarrow> kc_revokes kc t k = (r, k1) \<Longrightarrow> taken k1 = taken k \<and> errors k1 \<le> errors k"
  unfolding kafka_laws_def by (elim conjE) meson

lemma commit_law:
  "kafka_laws kc taken committed errors \<Longrightarrow> kc_commit kc k = (ex, k1) \<Longrightarrow>
     taken k1 = taken k \<and> errors k1 \<le> errors k \<and> committed k1 = (if ex = None then length (taken k) else committed k)"
  unfolding kafka_laws_def by (elim conjE) meson

lemma commit_client_law:
  "kafka_laws kc taken committed errors \<Longrightarrow> commit_client kc auto k = (ex, k1) \<Longrightarrow> taken k1 = taken k \<and> errors k1 \<le> errors k"
  by (auto simp: commit_client_def dest: commit_law split: if_splits prod.splits option.splits kafka_exn.splits)

lemma poll_once_law:
  assumes "kafka_laws kc taken committed errors" "poll_once kc auto t k = (p, k1)"
  shows "taken k1 = taken k @ (case p of Poll_message m \<Rightarrow> [m] | _ \<Rightarrow> []) \<and> (case p of Poll_error e \<Rightarrow> errors k1 < errors k | _ \<Rightarrow> errors k1 \<le> errors k)"
proof -
  obtain r k2 where r: "kc_revokes kc t k = (r, k2)" by fastforce
  note rl = revoke_law [OF assms(1) r]
  show ?thesis
  proof (cases r)
    case False
    then have "kc_poll kc t k2 = (p, k1)" using assms(2) r by (simp add: poll_once_def)
    from poll_law [OF assms(1) this] show ?thesis using rl by (cases p) auto
  next
    case True
    obtain ex k3 where c: "commit_client kc auto k2 = (ex, k3)" by fastforce
    note cl = commit_client_law [OF assms(1) c]
    show ?thesis
    proof (cases ex)
      case None
      then have "kc_poll kc t k3 = (p, k1)" using assms(2) r True c by (simp add: poll_once_def)
      from poll_law [OF assms(1) this] show ?thesis using rl cl by (cases p) auto
    next
      case (Some x)
      then show ?thesis using assms(2) r True c rl cl by (auto simp: poll_once_def)
    qed
  qed
qed

section \<open>Polling\<close>

lemma poll_loop_ends:
  assumes laws: "kafka_laws kc taken committed errors"
  shows "\<exists>r k1 ms. poll_loop kc auto n t msgs k = Some (r, k1) \<and> taken k1 = taken k @ ms \<and> int (length ms) \<le> max 0 (n - int (length msgs)) \<and>
    (\<forall>got. r = Inr got \<longrightarrow> got = msgs @ ms)"
proof (induction "nat (n - int (length msgs)) + errors k" arbitrary: t msgs k rule: less_induct)
  case less
  show ?case
  proof (cases "n \<le> int (length msgs)")
    case True
    then show ?thesis by (subst poll_loop.simps) simp
  next
    case False
    obtain p k1 where p: "poll_once kc auto t k = (p, k1)" by fastforce
    note pl = poll_once_law [OF laws p]
    show ?thesis
    proof (cases p)
      case (Poll_message m)
      have step: "poll_loop kc auto n t msgs k = poll_loop kc auto n (5 / 100) (msgs @ [m]) k1"
        using p Poll_message False by (subst poll_loop.simps) simp
      have "nat (n - int (length (msgs @ [m]))) + errors k1 < nat (n - int (length msgs)) + errors k"
        using pl Poll_message nat_mono_iff [of "n - int (length (msgs @ [m]))" "n - int (length msgs)"] False by (auto intro: add_less_le_mono)
      from less.hyps [OF this, of "5 / 100"] obtain r k2 ms where
        "poll_loop kc auto n (5 / 100) (msgs @ [m]) k1 = Some (r, k2)" "taken k2 = taken k1 @ ms" "int (length ms) \<le> max 0 (n - int (length (msgs @ [m])))"
        "\<forall>got. r = Inr got \<longrightarrow> got = (msgs @ [m]) @ ms" by blast
      then show ?thesis unfolding step using pl Poll_message False by (intro exI [of _ r] exI [of _ k2] exI [of _ "m # ms"]) auto
    next
      case (Poll_error e)
      show ?thesis
      proof (cases "e = ALL_BROKERS_DOWN")
        case True
        then show ?thesis using p Poll_error False pl by (subst poll_loop.simps) auto
      next
        case nb: False
        have step: "poll_loop kc auto n t msgs k = poll_loop kc auto n t msgs k1"
          using p Poll_error False nb by (subst poll_loop.simps) simp
        have "nat (n - int (length msgs)) + errors k1 < nat (n - int (length msgs)) + errors k" using pl Poll_error by simp
        from less.hyps [OF this, of t] show ?thesis unfolding step using pl Poll_error by auto
      qed
    qed (use p False pl in \<open>subst poll_loop.simps, auto\<close>)+
  qed
qed

definition taken_by :: "('k \<Rightarrow> kafka_message list) \<Rightarrow> 'k consumer \<Rightarrow> kafka_message list" where
  "taken_by taken c = (case co_client c of None \<Rightarrow> [] | Some k \<Rightarrow> taken k)"

lemma poll_batch_ends:
  assumes "kafka_laws kc taken committed errors"
  shows "\<exists>r c1 ms. poll_batch kc c = Some (r, c1) \<and> taken_by taken c1 = taken_by taken c @ ms \<and> int (length ms) \<le> max 0 (co_batch_size c) \<and>
    (\<forall>got. r = Inr got \<longrightarrow> got = ms)"
proof (cases "co_client c")
  case None
  then show ?thesis by (simp add: poll_batch_def)
next
  case (Some k)
  obtain r k1 ms where "poll_loop kc (co_auto_commit c) (co_batch_size c) (of_int (co_poll_timeout_ms c) / 1000) [] k = Some (r, k1)"
    "taken k1 = taken k @ ms" "int (length ms) \<le> max 0 (co_batch_size c)" "\<forall>got. r = Inr got \<longrightarrow> got = ms"
    using poll_loop_ends [OF assms, of "co_auto_commit c" "co_batch_size c" "of_int (co_poll_timeout_ms c) / 1000" "[]" k] by auto
  then show ?thesis by (simp add: poll_batch_def Some taken_by_def)
qed

text \<open>
  Claim C12 (polling ends). On a client that keeps Kafka's promises and reports finitely many errors, collecting a batch ends. It takes at most the
  batch size of messages, and unless the client raises it returns exactly the messages taken, in the order of the client.
\<close>

theorem polling_ends:
  assumes "kafka_laws kc taken committed errors"
  shows "\<exists>r c1 ms. poll_batch kc c = Some (r, c1) \<and> taken_by taken c1 = taken_by taken c @ ms \<and> int (length ms) \<le> max 0 (co_batch_size c) \<and>
    (\<forall>got. r = Inr got \<longrightarrow> got = ms)"
  by (rule poll_batch_ends [OF assms])

text \<open>
  Remark (polling hangs). On a client that reports an error at every poll, other than the loss of all brokers, a batch never returns: the
  loop asks neither for the shutdown nor whether the error is fatal.
\<close>

theorem polling_hangs:
  assumes "\<And>t k. kc_revokes kc t k = (False, k)" "\<And>t k. kc_poll kc t k = (Poll_error e, k)" "e \<noteq> ALL_BROKERS_DOWN" "0 < co_batch_size c" "co_client c = Some k"
  shows "consume_batch kc env c = None"
proof -
  have once: "poll_once kc auto t k = (Poll_error e, k)" for auto t k by (simp add: poll_once_def assms(1,2))
  have hang: "\<not> (c' = kc \<and> int (length msgs) < n)" if "poll_loop c' auto n t msgs k = Some y" for c' auto n t msgs k y
  proof (rule poll_loop.raw_induct [where P = "\<lambda>c' auto n t msgs k y. \<not> (c' = kc \<and> int (length msgs) < n)", OF _ that])
    fix f c' auto n t msgs k y
    assume ih: "\<And>c' auto n t msgs k y. f c' auto n t msgs k = Some y \<Longrightarrow> \<not> (c' = kc \<and> int (length msgs) < n)"
      and eq: "(if n \<le> int (length msgs) then Some (Inr msgs, k)
        else case poll_once c' auto t k of
             (Poll_none, k1) \<Rightarrow> Some (Inr msgs, k1)
           | (Poll_error code, k1) \<Rightarrow> if code = ALL_BROKERS_DOWN then Some (Inr msgs, k1) else f c' auto n t msgs k1
           | (Poll_message m, k1) \<Rightarrow> f c' auto n (5 / 100) (msgs @ [m]) k1
           | (Poll_raises ex, k1) \<Rightarrow> Some (Inl ex, k1)) = Some y"
    show "\<not> (c' = kc \<and> int (length msgs) < n)"
    proof
      assume a: "c' = kc \<and> int (length msgs) < n"
      with eq assms(3) have "f kc auto n t msgs k = Some y" by (simp add: once)
      from ih [OF this] a show False by simp
    qed
  qed
  have "poll_loop kc auto n t msgs k = None" if "int (length msgs) < n" for auto n t msgs k
    using hang [of kc auto n t msgs k] that by (cases "poll_loop kc auto n t msgs k") auto
  then show ?thesis using assms(4,5) by (simp add: consume_batch_def run_batch_def poll_batch_def)
qed

section \<open>Accounting\<close>

definition decoded_records :: "(string \<Rightarrow> pyval option) \<Rightarrow> kafka_message list \<Rightarrow> txn_dict list" where
  "decoded_records parse ms = List.map_filter (\<lambda>m. case decode_message parse m of Record r \<Rightarrow> Some r | _ \<Rightarrow> None) ms"

lemma deserialize_exact:
  "deserialize_messages parse ms cm = (Inr recs, cm1) \<Longrightarrow>
     recs = decoded_records parse ms \<and> (\<forall>m \<in> set ms. decode_message parse m \<noteq> Not_an_object) \<and>
     cm1 = cm\<lparr>cn_total_deserialization_errors := cn_total_deserialization_errors cm + int (length (filter (\<lambda>m. decode_message parse m = Undecodable) ms))\<rparr>"
proof (induction ms arbitrary: cm recs)
  case (Cons m ms)
  then show ?case
    by (cases "decode_message parse m")
      (auto simp: decoded_records_def List.map_filter_simps record_deserialization_error_def ac_simps split: prod.splits sum.splits dest!: Cons.IH)
qed (simp add: decoded_records_def List.map_filter_simps)

lemma deserialize_raises:
  "deserialize_messages parse ms cm = (Inl ex, cm1) \<Longrightarrow>
     ex = TypeError \<and> (\<exists>m \<in> set ms. decode_message parse m = Not_an_object) \<and> cn_total_messages_consumed cm1 = cn_total_messages_consumed cm \<and>
     cn_total_records_succeeded cm1 = cn_total_records_succeeded cm \<and> cn_total_records_failed cm1 = cn_total_records_failed cm \<and>
     cn_total_records_dlq cm1 = cn_total_records_dlq cm"
proof (induction ms arbitrary: cm)
  case (Cons m ms)
  then show ?case
    by (cases "decode_message parse m") (auto simp: record_deserialization_error_def split: prod.splits sum.splits)
qed simp

lemma message_kinds:
  "\<forall>m \<in> set ms. decode_message parse m \<noteq> Not_an_object \<Longrightarrow>
     length ms = length (decoded_records parse ms) + length (filter (\<lambda>m. decode_message parse m = Undecodable) ms) + length (filter (\<lambda>m. km_value m = No_value) ms)"
proof (induction ms)
  case (Cons m ms)
  have "decode_message parse m = Skipped \<longleftrightarrow> km_value m = No_value"
    by (auto simp: decode_message_def Let_def split: message_value.splits option.splits pyval.splits)
  then show ?case using Cons by (cases "decode_message parse m") (auto simp: decoded_records_def List.map_filter_simps)
qed (simp add: decoded_records_def List.map_filter_simps)

text \<open>What the worker has counted adds up, and every failed record has its letter in the pipeline's dead-letter queue.\<close>

definition balanced :: "int \<Rightarrow> 'k consumer \<Rightarrow> bool" where
  "balanced letters c \<longleftrightarrow>
     cn_total_messages_consumed (co_metrics c) = cn_total_records_succeeded (co_metrics c) + cn_total_records_failed (co_metrics c) \<and>
     cn_total_records_dlq (co_metrics c) = cn_total_records_failed (co_metrics c) \<and>
     int (length (pl_dlq (co_pipeline c))) = letters + cn_total_records_dlq (co_metrics c)"

lemma process_records_counts:
  "process_records env recs c = (b, c1) \<Longrightarrow>
     br_total b = int (length recs) \<and> co_metrics c1 = record_batch b (co_metrics c) \<and> co_client c1 = co_client c \<and> co_auto_commit c1 = co_auto_commit c \<and>
     (balanced letters c \<longrightarrow> balanced letters c1)"
  using process_batch_counts [where ?t0.0 = "be_start env" and ?t1.0 = "be_end env" and recs = "map (\<lambda>i. (be_pipe env i, recs ! i)) [0..<length recs]" and p = "co_pipeline c"]
  by (auto simp: process_records_def balanced_def record_batch_def split: prod.splits)

text \<open>The client is the only field that polling and committing change.\<close>

definition same_but_client :: "'k consumer \<Rightarrow> 'k consumer \<Rightarrow> bool" where
  "same_but_client c c1 \<longleftrightarrow> co_metrics c1 = co_metrics c \<and> co_pipeline c1 = co_pipeline c \<and> co_auto_commit c1 = co_auto_commit c \<and> co_batch_size c1 = co_batch_size c"

lemma poll_batch_frame: "poll_batch kc c = Some (r, c1) \<Longrightarrow> same_but_client c c1"
  by (auto simp: poll_batch_def same_but_client_def split: option.splits)

lemma commit_frame: "same_but_client c (snd (commit_offsets kc c))"
  by (auto simp: commit_offsets_def same_but_client_def split: option.splits prod.splits)

lemma create_frame: "same_but_client c (snd (create_consumer kc c))"
  by (auto simp: create_consumer_def same_but_client_def split: sum.splits prod.splits)

lemma balanced_frame: "same_but_client c c1 \<Longrightarrow> balanced n c1 = balanced n c"
  by (simp add: same_but_client_def balanced_def)

text \<open>The cases of a batch.\<close>

lemma run_batch_cases:
  assumes "run_batch kc env c = Some (out, c3)"
  obtains (raised) ex where "poll_batch kc c = Some (Inl ex, c3)" "out = Inl ex"
  | (empty) c1 where "poll_batch kc c = Some (Inr [], c1)" "out = Inr None" "c3 = c1\<lparr>co_metrics := record_empty_poll (co_metrics c1)\<rparr>"
  | (poison) ms c1 ex cm where "poll_batch kc c = Some (Inr ms, c1)" "ms \<noteq> []" "deserialize_messages (be_parse env) ms (co_metrics c1) = (Inl ex, cm)"
      "out = Inl (Python_exception ex)" "c3 = c1\<lparr>co_metrics := cm\<rparr>"
  | (blank) ms c1 cm where "poll_batch kc c = Some (Inr ms, c1)" "ms \<noteq> []" "deserialize_messages (be_parse env) ms (co_metrics c1) = (Inr [], cm)"
      "out = Inr None" "c3 = c1\<lparr>co_metrics := cm\<rparr>"
  | (run) ms c1 recs cm b c2 ex where "poll_batch kc c = Some (Inr ms, c1)" "ms \<noteq> []" "deserialize_messages (be_parse env) ms (co_metrics c1) = (Inr recs, cm)"
      "recs \<noteq> []" "process_records env recs (c1\<lparr>co_metrics := cm\<rparr>) = (b, c2)" "commit_offsets kc c2 = (ex, c3)"
      "out = (case ex of None \<Rightarrow> Inr (Some b) | Some x \<Rightarrow> Inl x)"
proof -
  obtain r c1 where p: "poll_batch kc c = Some (r, c1)" using assms by (auto simp: run_batch_def split: option.splits)
  show thesis
  proof (cases r)
    case (Inl ex)
    then show thesis using assms p raised by (simp add: run_batch_def)
  next
    case (Inr ms)
    show thesis
    proof (cases ms)
      case Nil
      then show thesis using assms p Inr empty by (simp add: run_batch_def)
    next
      case (Cons m msgs)
      obtain d cm where d: "deserialize_messages (be_parse env) ms (co_metrics c1) = (d, cm)" by fastforce
      show thesis
      proof (cases d)
        case dl: (Inl ex)
        then show thesis using assms p Inr Cons d poison [of ms c1 ex cm] by (simp add: run_batch_def del: deserialize_messages.simps)
      next
        case dr: (Inr recs)
        show thesis
        proof (cases recs)
          case Nil
          then show thesis using assms p Inr Cons d dr
            by (intro blank [of ms c1 cm]) (simp_all add: run_batch_def del: deserialize_messages.simps)
        next
          case rc: (Cons rec rest)
          obtain b c2 where b: "process_records env recs (c1\<lparr>co_metrics := cm\<rparr>) = (b, c2)" by fastforce
          obtain ex c4 where e: "commit_offsets kc c2 = (ex, c4)" by fastforce
          show thesis using assms p Inr Cons d dr rc b e run [of ms c1 recs cm b c2 ex] by (simp add: run_batch_def del: deserialize_messages.simps)
        qed
      qed
    qed
  qed
qed

lemma run_batch_balanced: "run_batch kc env c = Some (out, c3) \<Longrightarrow> balanced n c \<Longrightarrow> balanced n c3"
proof (erule run_batch_cases)
  fix ms c1 recs cm b c2 ex
  assume a: "poll_batch kc c = Some (Inr ms, c1)" "deserialize_messages (be_parse env) ms (co_metrics c1) = (Inr recs, cm)"
    "process_records env recs (c1\<lparr>co_metrics := cm\<rparr>) = (b, c2)" "commit_offsets kc c2 = (ex, c3)" "balanced n c"
  have "balanced n (c1\<lparr>co_metrics := cm\<rparr>)"
    using deserialize_exact [OF a(2)] balanced_frame [OF poll_batch_frame [OF a(1)], of n] a(5) by (simp add: balanced_def)
  then have "balanced n c2" using process_records_counts [OF a(3), of n] by simp
  then show "balanced n c3" using balanced_frame [OF commit_frame [where c = c2 and kc = kc], of n] a(4) by simp
next
  fix ms c1 ex cm
  assume a: "poll_batch kc c = Some (Inr ms, c1)" "deserialize_messages (be_parse env) ms (co_metrics c1) = (Inl ex, cm)" "c3 = c1\<lparr>co_metrics := cm\<rparr>" "balanced n c"
  then show "balanced n c3" using deserialize_raises [OF a(2)] balanced_frame [OF poll_batch_frame [OF a(1)], of n] by (simp add: balanced_def)
next
  fix ms c1 cm
  assume a: "poll_batch kc c = Some (Inr ms, c1)" "deserialize_messages (be_parse env) ms (co_metrics c1) = (Inr [], cm)" "c3 = c1\<lparr>co_metrics := cm\<rparr>" "balanced n c"
  then show "balanced n c3" using deserialize_exact [OF a(2)] balanced_frame [OF poll_batch_frame [OF a(1)], of n] by (simp add: balanced_def)
qed (auto simp: balanced_frame dest!: poll_batch_frame, simp add: balanced_def record_empty_poll_def same_but_client_def)

lemma consume_batch_balanced: "consume_batch kc env c = Some (out, c1) \<Longrightarrow> balanced n c \<Longrightarrow> balanced n c1"
  using balanced_frame [OF create_frame [where c = c and kc = kc], of n]
  by (auto simp: consume_batch_def intro: run_batch_balanced split: if_splits prod.splits option.splits)

lemma consume_loop_balanced: "consume_loop kc rounds c = Some c1 \<Longrightarrow> balanced n c \<Longrightarrow> balanced n c1"
proof (induction rounds arbitrary: c)
  case (Cons rd rounds)
  obtain stopping env where rd: "rd = (stopping, env)" by (cases rd)
  let ?c = "if stopping then stop c else c"
  have b: "balanced n ?c" using Cons.prems(2) by (simp add: balanced_def stop_def)
  show ?case
  proof (cases "co_shutdown ?c")
    case True
    then show ?thesis using Cons.prems b by (simp add: rd Let_def split: if_splits)
  next
    case False
    then obtain out c2 where o: "consume_batch kc env ?c = Some (out, c2)"
      using Cons.prems(1) by (cases "consume_batch kc env ?c") (auto simp: rd Let_def)
    from consume_batch_balanced [OF o b] show ?thesis
      using Cons.IH [of c2] Cons.prems(1) False o by (auto simp: rd Let_def split: sum.splits kafka_exn.splits if_splits)
  qed
qed simp

text \<open>
  Claim C11 (the worker's books balance). Whatever the client, the messages and the pipeline do, after every run of the loop of a new worker the
  messages consumed are the records that succeeded and those that failed, and each failed record has one letter in the dead-letter queue of
  its pipeline.
\<close>

theorem worker_books_balance:
  assumes "consume_loop kc rounds (new_consumer now sv sb st servers gid topics batch timeout reset auto p) = Some c"
  shows "cn_total_messages_consumed (co_metrics c) = cn_total_records_succeeded (co_metrics c) + cn_total_records_failed (co_metrics c) \<and>
    cn_total_records_dlq (co_metrics c) = cn_total_records_failed (co_metrics c) \<and>
    int (length (pl_dlq (co_pipeline c))) = int (length (pl_dlq p)) + cn_total_records_failed (co_metrics c)"
  using consume_loop_balanced [OF assms, of "int (length (pl_dlq p))"] by (simp add: balanced_def new_consumer_def new_consumer_metrics_def)

text \<open>A client over a list of answers to its polls, an exception standing for no answer; the second component are the messages handed out, the third how many are committed.\<close>

definition tape_kafka :: "(polled list \<times> kafka_message list \<times> nat) kafka_client" where
  "tape_kafka =
     \<lparr>kc_connect = (\<lambda>conf. Inr ([], [], 0)), kc_subscribe = (\<lambda>topics k. (None, k)), kc_revokes = (\<lambda>t k. (False, k)),
      kc_poll = (\<lambda>t (ps, ms, n). case ps of [] \<Rightarrow> (Poll_none, ([], ms, n)) | p # qs \<Rightarrow> (case p of Poll_raises ex \<Rightarrow> Poll_none | _ \<Rightarrow> p, (qs, ms @ (case p of Poll_message m \<Rightarrow> [m] | _ \<Rightarrow> []), n))),
      kc_commit = (\<lambda>(ps, ms, n). (None, (ps, ms, length ms))), kc_close = (\<lambda>k. (None, k))\<rparr>"

definition tape_errors :: "polled list \<times> kafka_message list \<times> nat \<Rightarrow> nat" where
  "tape_errors k = length (filter (\<lambda>p. case p of Poll_error e \<Rightarrow> True | _ \<Rightarrow> False) (fst k))"

lemma tape_laws: "kafka_laws tape_kafka (\<lambda>k. fst (snd k)) (\<lambda>k. snd (snd k)) tape_errors"
  by (auto simp: kafka_laws_def tape_kafka_def tape_errors_def split: list.splits polled.splits)

definition tape_message :: "message_value \<Rightarrow> kafka_message" where
  "tape_message v = \<lparr>km_value = v, km_topic = ''t'', km_partition = 0, km_offset = 0, km_timestamp = PNone\<rparr>"

definition tape_worker :: "polled list \<Rightarrow> (polled list \<times> kafka_message list \<times> nat) consumer" where
  "tape_worker ps = (new_consumer 0 ''k'' 100 1000 None None None None None ''earliest'' False pipe_demo)\<lparr>co_client := Some (ps, [], 0)\<rparr>"

definition tape_env :: batch_env where
  "tape_env = \<lparr>be_parse = (\<lambda>s. Some (PList [])), be_start = 0, be_end = 1, be_pipe = (\<lambda>i. pipe_demo_env)\<rparr>"

theorem polling_ends_witness:
  "\<exists>r c1 ms. poll_batch tape_kafka (tape_worker [Poll_error PARTITION_EOF, Poll_message (tape_message No_value)]) = Some (r, c1) \<and>
     taken_by (\<lambda>k. fst (snd k)) c1 = taken_by (\<lambda>k. fst (snd k)) (tape_worker [Poll_error PARTITION_EOF, Poll_message (tape_message No_value)]) @ ms \<and>
     int (length ms) \<le> max 0 (co_batch_size (tape_worker [Poll_error PARTITION_EOF, Poll_message (tape_message No_value)])) \<and> (\<forall>got. r = Inr got \<longrightarrow> got = ms)"
  by (rule polling_ends [OF tape_laws])

theorem polling_hangs_witness:
  "consume_batch (tape_kafka\<lparr>kc_poll := \<lambda>t k. (Poll_error FATAL, k)\<rparr>) tape_env (tape_worker []) = None"
  by (rule polling_hangs [where e = FATAL]) (simp_all add: tape_kafka_def tape_worker_def new_consumer_def int_or_def)

theorem worker_books_balance_witness:
  "\<exists>c. consume_loop tape_kafka [(False, tape_env)] (new_consumer 0 ''k'' 100 1000 None None None None None ''earliest'' False pipe_demo) = Some c \<and>
     cn_total_messages_consumed (co_metrics c) = cn_total_records_succeeded (co_metrics c) + cn_total_records_failed (co_metrics c)"
proof -
  let ?c = "new_consumer 0 ''k'' 100 1000 None None None None None ''earliest'' False pipe_demo"
  have "\<exists>c. consume_loop tape_kafka [(False, tape_env)] ?c = Some c"
    by (simp add: consume_batch_def run_batch_def create_consumer_def poll_batch_def new_consumer_def int_or_def tape_kafka_def)
      (subst poll_loop.simps, simp add: poll_once_def)
  then show ?thesis using worker_books_balance by blast
qed

section \<open>Messages and offsets\<close>

lemma poll_batch_takes:
  assumes "kafka_laws kc taken committed errors" "poll_batch kc c = Some (Inr ms, c1)"
  shows "taken_by taken c1 = taken_by taken c @ ms"
proof -
  obtain r c2 xs where "poll_batch kc c = Some (r, c2)" "taken_by taken c2 = taken_by taken c @ xs" "\<forall>got. r = Inr got \<longrightarrow> got = xs"
    using poll_batch_ends [OF assms(1)] by blast
  with assms(2) show ?thesis by simp
qed

lemma commit_takes: "kafka_laws kc taken committed errors \<Longrightarrow> taken_by taken (snd (commit_offsets kc c)) = taken_by taken c"
  by (auto simp: commit_offsets_def taken_by_def dest: commit_client_law split: option.splits prod.splits)

text \<open>
  Remark (every message is accounted for). On a client that keeps Kafka's promises, a batch that returns has taken some messages, and each of them was
  decoded and run through the pipeline, or counted as undecodable, or had no value. The total of the batch is the number of the decoded ones.
\<close>

theorem messages_accounted:
  assumes "kafka_laws kc taken committed errors" "co_client c \<noteq> None" "consume_batch kc env c = Some (Inr result, c1)"
  shows "\<exists>ms. taken_by taken c1 = taken_by taken c @ ms \<and>
    int (length ms) = (cn_total_messages_consumed (co_metrics c1) - cn_total_messages_consumed (co_metrics c))
      + (cn_total_deserialization_errors (co_metrics c1) - cn_total_deserialization_errors (co_metrics c)) + int (length (filter (\<lambda>m. km_value m = No_value) ms)) \<and>
    (case result of None \<Rightarrow> cn_total_messages_consumed (co_metrics c1) = cn_total_messages_consumed (co_metrics c)
     | Some b \<Rightarrow> br_total b = int (length (decoded_records (be_parse env) ms)))"
proof -
  have "run_batch kc env c = Some (Inr result, c1)" using assms(2,3) by (auto simp: consume_batch_def)
  then show ?thesis
  proof (cases rule: run_batch_cases)
    case (empty c2)
    have "taken_by taken c1 = taken_by taken c @ []" using poll_batch_takes [OF assms(1) empty(1)] empty(3) by (simp add: taken_by_def)
    then show ?thesis using empty poll_batch_frame [OF empty(1)] by (intro exI [of _ "[]"]) (simp add: same_but_client_def record_empty_poll_def)
  next
    case (blank ms c2 cm)
    have "taken_by taken c1 = taken_by taken c @ ms" using poll_batch_takes [OF assms(1) blank(1)] blank(5) by (simp add: taken_by_def)
    then show ?thesis using blank(4,5) poll_batch_frame [OF blank(1)] deserialize_exact [OF blank(3)] message_kinds [of ms "be_parse env"]
      by (intro exI [of _ ms]) (simp add: same_but_client_def)
  next
    case (run ms c2 recs cm b c3 ex)
    have ex: "ex = None" "result = Some b" using run(7) by (auto split: option.splits)
    note pr = process_records_counts [OF run(5)]
    have "taken_by taken c1 = taken_by taken c @ ms"
      using poll_batch_takes [OF assms(1) run(1)] commit_takes [OF assms(1), of c3] run(6) pr by (simp add: taken_by_def)
    moreover have "co_metrics c1 = record_batch b cm" using commit_frame [where c = c3 and kc = kc] run(6) pr by (simp add: same_but_client_def)
    ultimately show ?thesis using ex pr poll_batch_frame [OF run(1)] deserialize_exact [OF run(3)] message_kinds [of ms "be_parse env"]
      by (intro exI [of _ ms]) (simp add: same_but_client_def record_batch_def)
  qed simp_all
qed

text \<open>A client that never raises and whose commits succeed.\<close>

definition calm_client :: "'k kafka_client \<Rightarrow> bool" where
  "calm_client kc \<longleftrightarrow> (\<forall>k. fst (kc_commit kc k) = None) \<and> (\<forall>t k ex. fst (kc_poll kc t k) \<noteq> Poll_raises ex)"

lemma calm_once: "calm_client kc \<Longrightarrow> fst (poll_once kc auto t k) \<noteq> Poll_raises ex"
proof -
  assume a: "calm_client kc"
  then have c: "fst (commit_client kc auto k) = None" for k
    by (auto simp: calm_client_def commit_client_def split: prod.splits option.splits kafka_exn.splits) (metis fst_conv option.distinct(1))+
  obtain rev k1 where r: "kc_revokes kc t k = (rev, k1)" by fastforce
  obtain x k2 where x: "commit_client kc auto k1 = (x, k2)" by fastforce
  then show ?thesis using a c [of k1] by (simp add: poll_once_def r calm_client_def)
qed

lemma calm_poll_loop:
  assumes "poll_loop kc auto n t msgs k = Some y"
  shows "calm_client kc \<longrightarrow> \<not> isl (fst y)"
proof (rule poll_loop.raw_induct [where P = "\<lambda>kc auto n t msgs k y. calm_client kc \<longrightarrow> \<not> isl (fst y)", OF _ assms])
  fix f kc auto n t msgs k y
  assume ih: "\<And>kc auto n t msgs k y. f kc auto n t msgs k = Some y \<Longrightarrow> calm_client kc \<longrightarrow> \<not> isl (fst y)"
    and eq: "(if n \<le> int (length msgs) then Some (Inr msgs, k)
      else case poll_once kc auto t k of
           (Poll_none, k1) \<Rightarrow> Some (Inr msgs, k1)
         | (Poll_error code, k1) \<Rightarrow> if code = ALL_BROKERS_DOWN then Some (Inr msgs, k1) else f kc auto n t msgs k1
         | (Poll_message m, k1) \<Rightarrow> f kc auto n (5 / 100) (msgs @ [m]) k1
         | (Poll_raises ex, k1) \<Rightarrow> Some (Inl ex, k1)) = Some y"
  show "calm_client kc \<longrightarrow> \<not> isl (fst y)"
  proof
    assume a: "calm_client kc"
    obtain p k1 where p: "poll_once kc auto t k = (p, k1)" by fastforce
    then have no: "p \<noteq> Poll_raises ex" for ex using calm_once [OF a, of auto t k ex] by simp
    show "\<not> isl (fst y)"
    proof (cases p)
      case (Poll_raises ex)
      with no show ?thesis by blast
    qed (use p eq ih a in \<open>auto split: if_splits\<close>)
  qed
qed

lemma calm_commit: "calm_client kc \<Longrightarrow> commit_offsets kc c \<noteq> (Some ex, c1)"
proof -
  assume a: "calm_client kc"
  have "fst (commit_client kc auto k) = None" for auto k
    using a by (cases "kc_commit kc k") (auto simp: calm_client_def commit_client_def dest: spec [of _ k])
  then show ?thesis by (auto simp: commit_offsets_def split: option.splits prod.splits) (metis fst_conv option.distinct(1))
qed

lemma calm_poll_batch: "calm_client kc \<Longrightarrow> poll_batch kc c \<noteq> Some (Inl ex, c1)"
  by (auto simp: poll_batch_def split: option.splits dest!: calm_poll_loop)

text \<open>A batch that is processed commits everything taken so far.\<close>

lemma next_batch_commits:
  assumes laws: "kafka_laws kc taken committed errors" and calm: "calm_client kc" and c: "co_client c \<noteq> None" "\<not> co_auto_commit c"
    and batch: "consume_batch kc e c = Some (Inr (Some b), c2)"
  shows "cn_total_messages_consumed (co_metrics c2) = cn_total_messages_consumed (co_metrics c) + br_total b \<and>
    (\<exists>k2 ms. co_client c2 = Some k2 \<and> taken k2 = taken_by taken c @ ms \<and> committed k2 = length (taken k2) \<and> br_total b \<le> int (length ms))"
proof -
  have "run_batch kc e c = Some (Inr (Some b), c2)" using c(1) batch by (auto simp: consume_batch_def)
  then obtain ms d recs cm c3 where q: "poll_batch kc c = Some (Inr ms, d)" "deserialize_messages (be_parse e) ms (co_metrics d) = (Inr recs, cm)"
    "process_records e recs (d\<lparr>co_metrics := cm\<rparr>) = (b, c3)" "commit_offsets kc c3 = (None, c2)"
    by (cases rule: run_batch_cases) (auto split: option.splits)
  note pr = process_records_counts [OF q(3)]
  have t: "taken_by taken c2 = taken_by taken c @ ms"
    using poll_batch_takes [OF laws q(1)] commit_takes [OF laws, of c3] q(4) pr by (simp add: taken_by_def)
  have n: "br_total b \<le> int (length ms)"
    using pr deserialize_exact [OF q(2)] message_kinds [of ms "be_parse e"] by simp
  have m: "cn_total_messages_consumed (co_metrics c2) = cn_total_messages_consumed (co_metrics c) + br_total b"
    using commit_frame [where c = c3 and kc = kc] q(4) pr deserialize_exact [OF q(2)] poll_batch_frame [OF q(1)]
    by (simp add: same_but_client_def record_batch_def)
  have "co_client c3 \<noteq> None" "\<not> co_auto_commit c3"
    using pr q(1) c poll_batch_frame [OF q(1)] by (auto simp: poll_batch_def same_but_client_def split: option.splits)
  then obtain k3 where k3: "co_client c3 = Some k3" "\<not> co_auto_commit c3" by blast
  have "fst (kc_commit kc k3) = None" using calm by (simp add: calm_client_def)
  then obtain k2 where "co_client c2 = Some k2" "committed k2 = length (taken k2)"
    using q(4) k3 commit_law [OF laws, of k3] by (cases "kc_commit kc k3") (auto simp: commit_offsets_def commit_client_def split: option.splits)
  then show ?thesis using t n m by (auto simp: taken_by_def)
qed

lemma poison_raises:
  assumes "m \<in> set ms" "decode_message parse m = Not_an_object"
  shows "\<exists>cm1. deserialize_messages parse ms cm = (Inl TypeError, cm1)"
  using assms(1)
proof (induction ms arbitrary: cm)
  case (Cons x xs)
  show ?case
  proof (cases "m = x")
    case True
    then show ?thesis using assms(2) by simp
  next
    case False
    then have "\<exists>cm1. deserialize_messages parse xs cm' = (Inl TypeError, cm1)" for cm' using Cons by simp
    then obtain f where "\<And>cm'. deserialize_messages parse xs cm' = (Inl TypeError, f cm')" by metis
    then show ?thesis by (cases "decode_message parse x") simp_all
  qed
qed simp

text \<open>
  Claim C35 (a poisoned batch is committed unprocessed). The client keeps Kafka's promises, never raises, its commits succeed and are not automatic. If the messages
  of a batch contain one whose text decodes to something that is no object, the batch raises TypeError: none of its messages goes through the pipeline or into a
  dead-letter queue or is counted as consumed, though the client has handed all of them out. The next batch that is processed commits past all of them.
\<close>

theorem poison_batch_committed:
  assumes laws: "kafka_laws kc taken committed errors" and calm: "calm_client kc" and c: "co_client c \<noteq> None" "\<not> co_auto_commit c"
    and polled: "poll_batch kc c = Some (Inr ms, d)"
    and poison: "m \<in> set ms" "km_value m = Raw_text s" "be_parse e1 s = Some v" "\<And>rec. v \<noteq> PDict rec"
  shows "\<exists>c1. consume_batch kc e1 c = Some (Inl (Python_exception TypeError), c1) \<and> co_pipeline c1 = co_pipeline c \<and>
    cn_total_messages_consumed (co_metrics c1) = cn_total_messages_consumed (co_metrics c) \<and> taken_by taken c1 = taken_by taken c @ ms \<and>
    (\<forall>e2 b c2. consume_batch kc e2 c1 = Some (Inr (Some b), c2) \<longrightarrow>
       cn_total_messages_consumed (co_metrics c2) = cn_total_messages_consumed (co_metrics c) + br_total b \<and>
       (\<exists>k2 ms2. co_client c2 = Some k2 \<and> taken k2 = taken_by taken c @ ms @ ms2 \<and> committed k2 = length (taken k2) \<and> br_total b \<le> int (length ms2)))"
proof -
  have "decode_message (be_parse e1) m = Not_an_object" using poison by (auto simp: decode_message_def split: pyval.splits)
  then obtain cm where cm: "deserialize_messages (be_parse e1) ms (co_metrics d) = (Inl TypeError, cm)" using poison_raises [OF poison(1)] by blast
  define c1 where "c1 = d\<lparr>co_metrics := cm\<rparr>"
  obtain x xs where ms: "ms = x # xs" using poison(1) by (cases ms) auto
  have first: "consume_batch kc e1 c = Some (Inl (Python_exception TypeError), c1)"
    using c(1) polled cm unfolding ms by (auto simp: consume_batch_def run_batch_def c1_def simp del: deserialize_messages.simps)
  have t1: "taken_by taken c1 = taken_by taken c @ ms" using poll_batch_takes [OF laws polled] by (simp add: taken_by_def c1_def)
  have f1: "co_pipeline c1 = co_pipeline c" "\<not> co_auto_commit c1" "cn_total_messages_consumed (co_metrics c1) = cn_total_messages_consumed (co_metrics c)"
    using poll_batch_frame [OF polled] deserialize_raises [OF cm] c(2) by (simp_all add: same_but_client_def c1_def)
  have k1: "co_client c1 \<noteq> None" using c(1) polled by (auto simp: poll_batch_def c1_def split: option.splits)
  have "cn_total_messages_consumed (co_metrics c2) = cn_total_messages_consumed (co_metrics c) + br_total b \<and>
       (\<exists>k2 ms2. co_client c2 = Some k2 \<and> taken k2 = taken_by taken c @ ms @ ms2 \<and> committed k2 = length (taken k2) \<and> br_total b \<le> int (length ms2))"
    if "consume_batch kc e2 c1 = Some (Inr (Some b), c2)" for e2 b c2
    using next_batch_commits [OF laws calm k1 f1(2) that] t1 f1(3) by auto
  then show ?thesis using first f1 t1 by blast
qed

lemma tape_loop:
  "int (length msgs) < n \<Longrightarrow> poll_loop tape_kafka auto n t msgs ([], ms, i) = Some (Inr msgs, ([], ms, i))"
  "int (length msgs) < n \<Longrightarrow> poll_loop tape_kafka auto n t msgs (Poll_none # ps, ms, i) = Some (Inr msgs, (ps, ms, i))"
  "int (length msgs) < n \<Longrightarrow> poll_loop tape_kafka auto n t msgs (Poll_message m # ps, ms, i) = poll_loop tape_kafka auto n (5 / 100) (msgs @ [m]) (ps, ms @ [m], i)"
  by (subst poll_loop.simps, simp add: tape_kafka_def poll_once_def)+

lemma tape_worker_fields:
  "co_client (tape_worker ps) = Some (ps, [], 0)" "co_batch_size (tape_worker ps) = 100" "\<not> co_auto_commit (tape_worker ps)" "co_metrics (tape_worker ps) = new_consumer_metrics 0"
  by (simp_all add: tape_worker_def new_consumer_def int_or_def)

definition poison_tape :: "polled list" where
  "poison_tape = [Poll_message (tape_message (Raw_text ''[]'')), Poll_none, Poll_message (tape_message (Raw_object (PDict [])))]"

lemma poison_polled:
  "poll_batch tape_kafka (tape_worker poison_tape) =
      Some (Inr [tape_message (Raw_text ''[]'')], (tape_worker poison_tape)\<lparr>co_client := Some ([Poll_message (tape_message (Raw_object (PDict [])))], [tape_message (Raw_text ''[]'')], 0)\<rparr>)"
  unfolding poll_batch_def tape_worker_fields by (simp add: poison_tape_def tape_loop)

lemma poison_first:
  "consume_batch tape_kafka tape_env (tape_worker poison_tape) =
     Some (Inl (Python_exception TypeError), (tape_worker poison_tape)\<lparr>co_client := Some ([Poll_message (tape_message (Raw_object (PDict [])))], [tape_message (Raw_text ''[]'')], 0)\<rparr>)"
  using poison_polled by (simp add: consume_batch_def run_batch_def tape_worker_fields decode_message_def tape_message_def tape_env_def)

lemma poison_second:
  "\<exists>b c2. consume_batch tape_kafka tape_env
     ((tape_worker ps)\<lparr>co_client := Some ([Poll_message (tape_message (Raw_object (PDict [])))], ms, 0)\<rparr>) = Some (Inr (Some b), c2)"
proof -
  let ?c = "(tape_worker ps)\<lparr>co_client := Some ([Poll_message (tape_message (Raw_object (PDict [])))], ms, 0)\<rparr>"
  let ?m = "tape_message (Raw_object (PDict []))"
  have p: "poll_batch tape_kafka ?c = Some (Inr [?m], ?c\<lparr>co_client := Some ([], ms @ [?m], 0)\<rparr>)"
    by (simp add: poll_batch_def tape_worker_fields tape_loop)
  obtain b c3 where b: "process_records tape_env [attach_metadata ?m []] (?c\<lparr>co_client := Some ([], ms @ [?m], 0)\<rparr>) = (b, c3)" by fastforce
  from process_records_counts [OF b] have f: "co_client c3 = Some ([], ms @ [?m], 0)" "\<not> co_auto_commit c3" by (simp_all add: tape_worker_fields)
  have d: "deserialize_messages (be_parse tape_env) [?m] cm = (Inr [attach_metadata ?m []], cm)" for cm by (simp add: decode_message_def tape_message_def)
  show ?thesis using b f
    by (simp add: consume_batch_def run_batch_def p d del: deserialize_messages.simps)
      (simp add: commit_offsets_def commit_client_def tape_kafka_def)
qed

lemma tape_calm: "calm_client tape_kafka"
  by (auto simp: calm_client_def tape_kafka_def split: list.splits polled.splits)

theorem poison_batch_committed_witness:
  "\<exists>c1 b c2. consume_batch tape_kafka tape_env (tape_worker poison_tape) = Some (Inl (Python_exception TypeError), c1) \<and>
     consume_batch tape_kafka tape_env c1 = Some (Inr (Some b), c2) \<and> co_pipeline c1 = pipe_demo \<and>
     cn_total_messages_consumed (co_metrics c2) = br_total b \<and> 1 + br_total b \<le> int (length (taken_by (\<lambda>k. fst (snd k)) c2))"
proof -
  let ?m = "tape_message (Raw_text ''[]'')" and ?w = "tape_worker poison_tape"
  have w: "co_client ?w \<noteq> None" "\<not> co_auto_commit ?w" by (simp_all add: tape_worker_fields)
  have m: "?m \<in> set [?m]" "km_value ?m = Raw_text ''[]''" "be_parse tape_env ''[]'' = Some (PList [])" "\<And>rec. PList [] \<noteq> PDict rec"
    by (simp_all add: tape_message_def tape_env_def)
  from poison_batch_committed [OF tape_laws tape_calm w poison_polled m] obtain c1 where
    c1: "consume_batch tape_kafka tape_env ?w = Some (Inl (Python_exception TypeError), c1)" "co_pipeline c1 = co_pipeline ?w"
      "\<And>e2 b c2. consume_batch tape_kafka e2 c1 = Some (Inr (Some b), c2) \<Longrightarrow>
         cn_total_messages_consumed (co_metrics c2) = cn_total_messages_consumed (co_metrics ?w) + br_total b \<and>
         (\<exists>k2 ms2. co_client c2 = Some k2 \<and> fst (snd k2) = taken_by (\<lambda>k. fst (snd k)) ?w @ [?m] @ ms2 \<and> br_total b \<le> int (length ms2))"
    by blast
  obtain b c2 where c2: "consume_batch tape_kafka tape_env c1 = Some (Inr (Some b), c2)" using poison_second [where ps = poison_tape and ms = "[?m]"] poison_first c1(1) by simp blast
  have "1 + br_total b \<le> int (length (taken_by (\<lambda>k. fst (snd k)) c2))" using c1(3) [OF c2] by (auto simp: taken_by_def)
  moreover have "cn_total_messages_consumed (co_metrics ?w) = 0" "co_pipeline ?w = pipe_demo"
    by (simp_all add: tape_worker_fields new_consumer_metrics_def) (simp add: tape_worker_def new_consumer_def)
  ultimately show ?thesis using c1(1,2) c2 c1(3) [OF c2] by auto
qed

theorem messages_accounted_witness:
  "\<exists>b c1 ms. consume_batch tape_kafka tape_env ((tape_worker [])\<lparr>co_client := Some ([Poll_message (tape_message (Raw_object (PDict [])))], [], 0)\<rparr>) = Some (Inr (Some b), c1) \<and>
     taken_by (\<lambda>k. fst (snd k)) c1 = ms \<and> br_total b = int (length (decoded_records (be_parse tape_env) ms))"
proof -
  let ?c = "(tape_worker [])\<lparr>co_client := Some ([Poll_message (tape_message (Raw_object (PDict [])))], [], 0)\<rparr>"
  obtain b c1 where c: "consume_batch tape_kafka tape_env ?c = Some (Inr (Some b), c1)" using poison_second [of "[]" "[]"] by blast
  have "co_client ?c \<noteq> None" by simp
  from messages_accounted [OF tape_laws this c] show ?thesis using c by (auto simp: taken_by_def)
qed

section \<open>A failed subscription\<close>

text \<open>
  Remark (a failed subscription is not repeated). When the first batch finds no client and subscribing raises, the exception leaves the batch but the client stays, without
  subscription; from then on every batch polls it as it is and none subscribes again.
\<close>

theorem failed_subscription_stays:
  assumes "co_client c = None" "kc_connect kc (consumer_config c) = Inr k" "kc_subscribe kc (co_topics c) k = (Some ex, k1)"
  shows "\<exists>c1. consume_batch kc env c = Some (Inl ex, c1) \<and> co_client c1 = Some k1 \<and> (\<forall>env2. consume_batch kc env2 c1 = run_batch kc env2 c1)"
  using assms by (simp add: consume_batch_def create_consumer_def)

theorem failed_subscription_stays_witness:
  "\<exists>c1. consume_batch (tape_kafka\<lparr>kc_subscribe := \<lambda>topics k. (Some (Kafka_exception None), k)\<rparr>) tape_env ((tape_worker [])\<lparr>co_client := None\<rparr>) = Some (Inl (Kafka_exception None), c1) \<and>
     co_client c1 = Some ([], [], 0)"
  using failed_subscription_stays [of "(tape_worker [])\<lparr>co_client := None\<rparr>" "tape_kafka\<lparr>kc_subscribe := \<lambda>topics k. (Some (Kafka_exception None), k)\<rparr>" "([], [], 0)" "Kafka_exception None" "([], [], 0)" tape_env]
  by (auto simp: tape_kafka_def)

end
