(* ===== verification/Cache_Handler.thy ===== *)
theory Cache_Handler
  imports Py_Text
begin

text \<open>
  The Redis cache of \<^verbatim>\<open>src/storage/cache_handler.py\<close>: profiles, recent transactions, predictions, velocity counters, processing
  locks, the write-ahead entries, the invalidation by pattern, and the metrics. Redis is an argument: a record of the client's commands on
  an abstract server state, where \<open>None\<close> as an answer is a \<^verbatim>\<open>RedisError\<close>. \<^verbatim>\<open>json.dumps\<close>, \<^verbatim>\<open>json.loads\<close>, SHA-256, \<^verbatim>\<open>str\<close>, the settings and
  the measured latencies are arguments too. Other exceptions than a \<^verbatim>\<open>RedisError\<close> pass through.
\<close>

section \<open>Client and state\<close>

type_synonym ('r, 'a) command = "'r \<Rightarrow> 'a option \<times> 'r"

record 'r redis_client =
  rc_ping :: "('r, bool) command"
  rc_info :: "string \<Rightarrow> ('r, (string, pyval) dict) command"
  rc_get :: "string \<Rightarrow> ('r, string option) command"
  rc_setex :: "string \<Rightarrow> pyval \<Rightarrow> string \<Rightarrow> ('r, unit) command"
  rc_set_nx :: "string \<Rightarrow> string \<Rightarrow> int \<Rightarrow> ('r, bool) command"
  rc_delete :: "string list \<Rightarrow> ('r, int) command"
  rc_exists :: "string \<Rightarrow> ('r, int) command"
  rc_incr_expire :: "string \<Rightarrow> int \<Rightarrow> ('r, int) command"
  rc_pipe_setex :: "(string \<times> pyval \<times> string) list \<Rightarrow> ('r, unit) command"
  rc_scan :: "int \<Rightarrow> string \<Rightarrow> ('r, int \<times> string list) command"
  rc_disconnect :: "('r, unit) command"

record cache_metrics =
  cm_hits :: int
  cm_misses :: int
  cm_sets :: int
  cm_deletes :: int
  cm_errors :: int
  cm_read_latency :: real
  cm_write_latency :: real

definition reset_cache_metrics :: cache_metrics where
  "reset_cache_metrics = \<lparr>cm_hits = 0, cm_misses = 0, cm_sets = 0, cm_deletes = 0, cm_errors = 0, cm_read_latency = 0, cm_write_latency = 0\<rparr>"

definition hit_rate :: "cache_metrics \<Rightarrow> real" where
  "hit_rate m = (if cm_hits m + cm_misses m = 0 then 0 else of_int (cm_hits m) / of_int (cm_hits m + cm_misses m))"

definition avg_read_latency :: "cache_metrics \<Rightarrow> real" where
  "avg_read_latency m = (if cm_hits m + cm_misses m = 0 then 0 else cm_read_latency m / of_int (cm_hits m + cm_misses m))"

definition avg_write_latency :: "cache_metrics \<Rightarrow> real" where
  "avg_write_latency m = (if cm_sets m = 0 then 0 else cm_write_latency m / of_int (cm_sets m))"

definition record_hit :: "real \<Rightarrow> cache_metrics \<Rightarrow> cache_metrics" where
  "record_hit latency m = m\<lparr>cm_hits := cm_hits m + 1, cm_read_latency := cm_read_latency m + latency\<rparr>"

definition record_miss :: "real \<Rightarrow> cache_metrics \<Rightarrow> cache_metrics" where
  "record_miss latency m = m\<lparr>cm_misses := cm_misses m + 1, cm_read_latency := cm_read_latency m + latency\<rparr>"

definition record_set :: "real \<Rightarrow> cache_metrics \<Rightarrow> cache_metrics" where
  "record_set latency m = m\<lparr>cm_sets := cm_sets m + 1, cm_write_latency := cm_write_latency m + latency\<rparr>"

definition record_delete :: "cache_metrics \<Rightarrow> cache_metrics" where
  "record_delete m = m\<lparr>cm_deletes := cm_deletes m + 1\<rparr>"

definition record_error :: "cache_metrics \<Rightarrow> cache_metrics" where
  "record_error m = m\<lparr>cm_errors := cm_errors m + 1\<rparr>"

definition cache_snapshot :: "cache_metrics \<Rightarrow> (string, pyval) dict" where
  "cache_snapshot m =
     [(''hits'', PInt (cm_hits m)), (''misses'', PInt (cm_misses m)), (''sets'', PInt (cm_sets m)), (''deletes'', PInt (cm_deletes m)),
      (''errors'', PInt (cm_errors m)), (''hit_rate'', PFloat (py_round 4 (hit_rate m))),
      (''avg_read_latency_ms'', PFloat (py_round 4 (avg_read_latency m))), (''avg_write_latency_ms'', PFloat (py_round 4 (avg_write_latency m)))]"

record 'r cache_handler =
  ch_redis :: 'r
  ch_metrics :: cache_metrics
  ch_redis_url :: pyval
  ch_ttl_customer_profile :: pyval
  ch_ttl_recent_transactions :: pyval
  ch_ttl_model_predictions :: pyval

definition new_cache_handler :: "(string \<Rightarrow> pyval \<Rightarrow> pyval) \<Rightarrow> 'r \<Rightarrow> pyval \<Rightarrow> pyval \<Rightarrow> pyval \<Rightarrow> pyval \<Rightarrow> 'r cache_handler" where
  "new_cache_handler settings r url ttl_profile ttl_recent ttl_prediction =
     \<lparr>ch_redis = r, ch_metrics = reset_cache_metrics, ch_redis_url = py_or url (settings ''redis.url'' (PStr ''redis://localhost:6379/0'')),
      ch_ttl_customer_profile = py_or ttl_profile (settings ''redis.ttl.customer_profile'' (PInt 300)),
      ch_ttl_recent_transactions = py_or ttl_recent (settings ''redis.ttl.recent_transactions'' (PInt 3600)),
      ch_ttl_model_predictions = py_or ttl_prediction (settings ''redis.ttl.model_predictions'' (PInt 60))\<rparr>"

text \<open>\<^verbatim>\<open>s.index(sub)\<close>.\<close>

fun text_index :: "string \<Rightarrow> string \<Rightarrow> nat option" where
  "text_index sub [] = (if sub = [] then Some 0 else None)"
| "text_index sub (c # cs) = (if starts_with sub (c # cs) then Some 0 else map_option Suc (text_index sub cs))"

definition sanitize_url :: "string \<Rightarrow> string res" where
  "sanitize_url url =
     (case text_index ''@'' url of
        None \<Rightarrow> Inr url
      | Some pos \<Rightarrow>
          (case text_index ''://'' url of None \<Rightarrow> Inl ValueError | Some i \<Rightarrow> Inr (take (i + 3) url @ ''***@'' @ drop (pos + 1) url)))"

definition count_metrics :: "(cache_metrics \<Rightarrow> cache_metrics) \<Rightarrow> 'r cache_handler \<Rightarrow> 'r cache_handler" where
  "count_metrics f h = h\<lparr>ch_metrics := f (ch_metrics h)\<rparr>"

text \<open>A command sent to the server: its answer and the handler after it.\<close>

definition send :: "('r, 'a) command \<Rightarrow> 'r cache_handler \<Rightarrow> 'a option \<times> 'r cache_handler" where
  "send cmd h = (let (ans, r) = cmd (ch_redis h) in (ans, h\<lparr>ch_redis := r\<rparr>))"

section \<open>Health\<close>

definition cache_health_check :: "'r redis_client \<Rightarrow> 'r cache_handler \<Rightarrow> bool \<times> 'r cache_handler" where
  "cache_health_check c h = (case send (rc_ping c) h of (None, h1) \<Rightarrow> (False, h1) | (Some b, h1) \<Rightarrow> (b, h1))"

definition cache_get_info :: "'r redis_client \<Rightarrow> 'r cache_handler \<Rightarrow> (string, pyval) dict \<times> 'r cache_handler" where
  "cache_get_info c h =
     (case send (rc_info c ''memory'') h of
        (None, h1) \<Rightarrow> ([], h1)
      | (Some a, h1) \<Rightarrow>
          (case send (rc_info c ''stats'') h1 of
             (None, h2) \<Rightarrow> ([], h2)
           | (Some b, h2) \<Rightarrow>
               (case send (rc_info c ''clients'') h2 of
                  (None, h3) \<Rightarrow> ([], h3)
                | (Some d, h3) \<Rightarrow> (fold (\<lambda>(k, v). dset k v) d (fold (\<lambda>(k, v). dset k v) b a), h3))))"

section \<open>Entries\<close>

text \<open>The body that the four writers share: serialise, \<^verbatim>\<open>setex\<close>, count.\<close>

definition put_entry :: "'r redis_client \<Rightarrow> (pyval \<Rightarrow> string res) \<Rightarrow> real \<Rightarrow> string \<Rightarrow> pyval \<Rightarrow> pyval \<Rightarrow> 'r cache_handler \<Rightarrow> bool res \<times> 'r cache_handler" where
  "put_entry c dumps latency key ttl data h =
     (case dumps data of
        Inl ex \<Rightarrow> (Inl ex, h)
      | Inr text \<Rightarrow>
          (case send (rc_setex c key ttl text) h of
             (None, h1) \<Rightarrow> (Inr False, count_metrics record_error h1)
           | (Some _, h1) \<Rightarrow> (Inr True, count_metrics (record_set latency) h1)))"

text \<open>The body that the four readers share; a text that is no JSON raises after the hit is counted.\<close>

definition get_entry :: "'r redis_client \<Rightarrow> (string \<Rightarrow> pyval res) \<Rightarrow> real \<Rightarrow> string \<Rightarrow> 'r cache_handler \<Rightarrow> pyval option res \<times> 'r cache_handler" where
  "get_entry c loads latency key h =
     (case send (rc_get c key) h of
        (None, h1) \<Rightarrow> (Inr None, count_metrics record_error h1)
      | (Some None, h1) \<Rightarrow> (Inr None, count_metrics (record_miss latency) h1)
      | (Some (Some text), h1) \<Rightarrow> (res_bind (loads text) (\<lambda>v. Inr (Some v)), count_metrics (record_hit latency) h1))"

text \<open>The body of the two removals that count.\<close>

definition drop_entry :: "'r redis_client \<Rightarrow> string \<Rightarrow> 'r cache_handler \<Rightarrow> bool \<times> 'r cache_handler" where
  "drop_entry c key h =
     (case send (rc_delete c [key]) h of
        (None, h1) \<Rightarrow> (False, count_metrics record_error h1)
      | (Some _, h1) \<Rightarrow> (True, count_metrics record_delete h1))"

definition profile_key :: "string \<Rightarrow> string" where "profile_key customer = ''cp:'' @ customer"
definition recent_key :: "string \<Rightarrow> string" where "recent_key tx = ''rtx:'' @ tx"
definition prediction_key :: "string \<Rightarrow> string" where "prediction_key fingerprint = ''pred:'' @ fingerprint"
definition dedup_entry_key :: "string \<Rightarrow> string" where "dedup_entry_key tx = ''dedup:'' @ tx"
definition velocity_key :: "string \<Rightarrow> string \<Rightarrow> string" where "velocity_key customer window = ''vel:'' @ customer @ '':'' @ window"
definition lock_key :: "string \<Rightarrow> string" where "lock_key tx = ''lock:'' @ tx"

definition set_customer_profile ::
  "'r redis_client \<Rightarrow> (pyval \<Rightarrow> string res) \<Rightarrow> real \<Rightarrow> string \<Rightarrow> pyval \<Rightarrow> pyval \<Rightarrow> 'r cache_handler \<Rightarrow> bool res \<times> 'r cache_handler" where
  "set_customer_profile c dumps latency customer profile ttl h =
     put_entry c dumps latency (profile_key customer) (py_or ttl (ch_ttl_customer_profile h)) profile h"

definition get_customer_profile ::
  "'r redis_client \<Rightarrow> (string \<Rightarrow> pyval res) \<Rightarrow> real \<Rightarrow> string \<Rightarrow> 'r cache_handler \<Rightarrow> pyval option res \<times> 'r cache_handler" where
  "get_customer_profile c loads latency customer h = get_entry c loads latency (profile_key customer) h"

definition invalidate_customer_profile :: "'r redis_client \<Rightarrow> string \<Rightarrow> 'r cache_handler \<Rightarrow> bool \<times> 'r cache_handler" where
  "invalidate_customer_profile c customer h = drop_entry c (profile_key customer) h"

definition cache_recent_transaction ::
  "'r redis_client \<Rightarrow> (pyval \<Rightarrow> string res) \<Rightarrow> real \<Rightarrow> string \<Rightarrow> pyval \<Rightarrow> pyval \<Rightarrow> 'r cache_handler \<Rightarrow> bool res \<times> 'r cache_handler" where
  "cache_recent_transaction c dumps latency tx data ttl h =
     put_entry c dumps latency (recent_key tx) (py_or ttl (ch_ttl_recent_transactions h)) data h"

definition is_duplicate_transaction :: "'r redis_client \<Rightarrow> real \<Rightarrow> string \<Rightarrow> 'r cache_handler \<Rightarrow> bool \<times> 'r cache_handler" where
  "is_duplicate_transaction c latency tx h =
     (case send (rc_exists c (recent_key tx)) h of
        (None, h1) \<Rightarrow> (False, count_metrics record_error h1)
      | (Some n, h1) \<Rightarrow> (n \<noteq> 0, count_metrics (if n \<noteq> 0 then record_hit latency else record_miss latency) h1))"

definition get_recent_transaction ::
  "'r redis_client \<Rightarrow> (string \<Rightarrow> pyval res) \<Rightarrow> real \<Rightarrow> string \<Rightarrow> 'r cache_handler \<Rightarrow> pyval option res \<times> 'r cache_handler" where
  "get_recent_transaction c loads latency tx h = get_entry c loads latency (recent_key tx) h"

definition cache_prediction ::
  "'r redis_client \<Rightarrow> (pyval \<Rightarrow> string res) \<Rightarrow> real \<Rightarrow> string \<Rightarrow> pyval \<Rightarrow> pyval \<Rightarrow> 'r cache_handler \<Rightarrow> bool res \<times> 'r cache_handler" where
  "cache_prediction c dumps latency fingerprint prediction ttl h =
     put_entry c dumps latency (prediction_key fingerprint) (py_or ttl (ch_ttl_model_predictions h)) prediction h"

definition get_cached_prediction ::
  "'r redis_client \<Rightarrow> (string \<Rightarrow> pyval res) \<Rightarrow> real \<Rightarrow> string \<Rightarrow> 'r cache_handler \<Rightarrow> pyval option res \<times> 'r cache_handler" where
  "get_cached_prediction c loads latency fingerprint h = get_entry c loads latency (prediction_key fingerprint) h"

text \<open>The names of the features, sorted.\<close>

definition fingerprint_features :: "string list" where
  "fingerprint_features = [''channel'', ''customer_id'', ''geo_country'', ''merchant_id'', ''transaction_amount'', ''transaction_type'']"

definition join_with :: "string \<Rightarrow> string list \<Rightarrow> string" where
  "join_with sep xs = (case xs of [] \<Rightarrow> [] | y # ys \<Rightarrow> y @ concat (map (\<lambda>z. sep @ z) ys))"

definition compute_transaction_fingerprint :: "(pyval \<Rightarrow> string) \<Rightarrow> (string \<Rightarrow> string) \<Rightarrow> (string, pyval) dict \<Rightarrow> string" where
  "compute_transaction_fingerprint str sha256 tx = take 32 (sha256 (join_with ''|'' (map (\<lambda>k. str (dget_or tx k (PStr []))) fingerprint_features)))"

section \<open>Velocity counters and locks\<close>

definition increment_velocity_counter :: "'r redis_client \<Rightarrow> string \<Rightarrow> string \<Rightarrow> int \<Rightarrow> 'r cache_handler \<Rightarrow> int \<times> 'r cache_handler" where
  "increment_velocity_counter c customer window ttl h =
     (case send (rc_incr_expire c (velocity_key customer window) ttl) h of
        (None, h1) \<Rightarrow> (0, count_metrics record_error h1)
      | (Some n, h1) \<Rightarrow> (n, h1))"

definition get_velocity_count :: "'r redis_client \<Rightarrow> string \<Rightarrow> string \<Rightarrow> 'r cache_handler \<Rightarrow> int res \<times> 'r cache_handler" where
  "get_velocity_count c customer window h =
     (case send (rc_get c (velocity_key customer window)) h of
        (None, h1) \<Rightarrow> (Inr 0, count_metrics record_error h1)
      | (Some None, h1) \<Rightarrow> (Inr 0, h1)
      | (Some (Some text), h1) \<Rightarrow> (if text = [] then Inr 0 else to_int (PStr text), h1))"

definition acquire_processing_lock :: "'r redis_client \<Rightarrow> string \<Rightarrow> int \<Rightarrow> 'r cache_handler \<Rightarrow> bool \<times> 'r cache_handler" where
  "acquire_processing_lock c tx lock_ttl h =
     (case send (rc_set_nx c (lock_key tx) ''1'' lock_ttl) h of
        (None, h1) \<Rightarrow> (False, count_metrics record_error h1)
      | (Some b, h1) \<Rightarrow> (b, h1))"

definition release_processing_lock :: "'r redis_client \<Rightarrow> string \<Rightarrow> 'r cache_handler \<Rightarrow> bool \<times> 'r cache_handler" where
  "release_processing_lock c tx h =
     (case send (rc_delete c [lock_key tx]) h of
        (None, h1) \<Rightarrow> (False, count_metrics record_error h1)
      | (Some _, h1) \<Rightarrow> (True, h1))"

section \<open>Batches\<close>

fun dump_all :: "(pyval \<Rightarrow> string res) \<Rightarrow> (string \<Rightarrow> string) \<Rightarrow> pyval \<Rightarrow> (string \<times> pyval) list \<Rightarrow> (string \<times> pyval \<times> string) list res" where
  "dump_all dumps key ttl [] = Inr []"
| "dump_all dumps key ttl ((k, v) # d) =
     res_bind (dumps v) (\<lambda>text. res_bind (dump_all dumps key ttl d) (\<lambda>cmds. Inr ((key k, ttl, text) # cmds)))"

text \<open>The body of the two batches: the pipeline is executed once everything is serialised; it leaves the counter of writes alone.\<close>

definition bulk_set ::
  "'r redis_client \<Rightarrow> (pyval \<Rightarrow> string res) \<Rightarrow> (string \<Rightarrow> string) \<Rightarrow> pyval \<Rightarrow> (string, pyval) dict \<Rightarrow> 'r cache_handler \<Rightarrow> int res \<times> 'r cache_handler" where
  "bulk_set c dumps key ttl entries h =
     (case dump_all dumps key ttl entries of
        Inl ex \<Rightarrow> (Inl ex, h)
      | Inr cmds \<Rightarrow>
          (case send (rc_pipe_setex c cmds) h of
             (None, h1) \<Rightarrow> (Inr 0, count_metrics record_error h1)
           | (Some _, h1) \<Rightarrow> (Inr (int (length entries)), h1)))"

definition bulk_set_customer_profiles ::
  "'r redis_client \<Rightarrow> (pyval \<Rightarrow> string res) \<Rightarrow> (string, pyval) dict \<Rightarrow> pyval \<Rightarrow> 'r cache_handler \<Rightarrow> int res \<times> 'r cache_handler" where
  "bulk_set_customer_profiles c dumps profiles ttl h = bulk_set c dumps profile_key (py_or ttl (ch_ttl_customer_profile h)) profiles h"

definition bulk_cache_transactions ::
  "'r redis_client \<Rightarrow> (pyval \<Rightarrow> string res) \<Rightarrow> (string, pyval) dict \<Rightarrow> pyval \<Rightarrow> 'r cache_handler \<Rightarrow> int res \<times> 'r cache_handler" where
  "bulk_cache_transactions c dumps transactions ttl h = bulk_set c dumps recent_key (py_or ttl (ch_ttl_recent_transactions h)) transactions h"

section \<open>Invalidation\<close>

text \<open>
  The loop over \<^verbatim>\<open>SCAN\<close>: whether it ends depends on the cursors of the server, so not returning is the value \<open>None\<close>. The result is the
  count so far and whether a \<^verbatim>\<open>RedisError\<close> ended it.
\<close>

partial_function (option) scan_loop :: "'r redis_client \<Rightarrow> string \<Rightarrow> int \<Rightarrow> int \<Rightarrow> 'r \<Rightarrow> ((int \<times> bool) \<times> 'r) option" where
  "scan_loop c pattern cursor deleted r =
     (case rc_scan c cursor pattern r of
        (None, r1) \<Rightarrow> Some ((deleted, True), r1)
      | (Some (cur, keys), r1) \<Rightarrow>
          (case (if keys = [] then (Some 0, r1) else rc_delete c keys r1) of
             (None, r2) \<Rightarrow> Some ((deleted, True), r2)
           | (Some _, r2) \<Rightarrow>
               if cur = 0 then Some ((deleted + int (length keys), False), r2)
               else scan_loop c pattern cur (deleted + int (length keys)) r2))"

definition invalidate_by_pattern :: "'r redis_client \<Rightarrow> string \<Rightarrow> 'r cache_handler \<Rightarrow> (int \<times> 'r cache_handler) option" where
  "invalidate_by_pattern c pattern h =
     (case scan_loop c pattern 0 0 (ch_redis h) of
        None \<Rightarrow> None
      | Some ((n, failed), r) \<Rightarrow> Some (n, (if failed then count_metrics record_error else id) (h\<lparr>ch_redis := r\<rparr>)))"

text \<open>One pattern of a customer: with a star it is scanned for, otherwise deleted as a key; the error of that is swallowed.\<close>

definition invalidate_one :: "'r redis_client \<Rightarrow> string \<Rightarrow> 'r cache_handler \<Rightarrow> (int \<times> 'r cache_handler) option" where
  "invalidate_one c pattern h =
     (if CHR ''*'' \<in> set pattern then invalidate_by_pattern c pattern h
      else Some (case send (rc_delete c [pattern]) h of (None, h1) \<Rightarrow> (0, h1) | (Some n, h1) \<Rightarrow> (n, h1)))"

definition invalidate_customer_data :: "'r redis_client \<Rightarrow> string \<Rightarrow> 'r cache_handler \<Rightarrow> (int \<times> 'r cache_handler) option" where
  "invalidate_customer_data c customer h =
     (case invalidate_one c (profile_key customer) h of
        None \<Rightarrow> None
      | Some (n, h1) \<Rightarrow> (case invalidate_one c (''vel:'' @ customer @ '':*'') h1 of None \<Rightarrow> None | Some (m, h2) \<Rightarrow> Some (n + m, h2)))"

definition cache_prefixes :: "string list" where
  "cache_prefixes = [''cp:'', ''rtx:'', ''pred:'', ''vel:'', ''lock:'', ''dedup:'']"

fun flush_prefixes :: "'r redis_client \<Rightarrow> string list \<Rightarrow> 'r cache_handler \<Rightarrow> 'r cache_handler option" where
  "flush_prefixes c [] h = Some h"
| "flush_prefixes c (p # ps) h = (case invalidate_by_pattern c (p @ ''*'') h of None \<Rightarrow> None | Some (n, h1) \<Rightarrow> flush_prefixes c ps h1)"

definition flush_all_caches :: "'r redis_client \<Rightarrow> 'r cache_handler \<Rightarrow> (bool \<times> 'r cache_handler) option" where
  "flush_all_caches c h = map_option (\<lambda>h1. (True, h1)) (flush_prefixes c cache_prefixes h)"

section \<open>Write-ahead entries and life cycle\<close>

definition write_ahead_cache ::
  "'r redis_client \<Rightarrow> (pyval \<Rightarrow> string res) \<Rightarrow> real \<Rightarrow> string \<Rightarrow> pyval \<Rightarrow> pyval \<Rightarrow> 'r cache_handler \<Rightarrow> bool res \<times> 'r cache_handler" where
  "write_ahead_cache c dumps latency tx data ttl h = put_entry c dumps latency (dedup_entry_key tx) ttl data h"

definition get_write_ahead_data ::
  "'r redis_client \<Rightarrow> (string \<Rightarrow> pyval res) \<Rightarrow> real \<Rightarrow> string \<Rightarrow> 'r cache_handler \<Rightarrow> pyval option res \<times> 'r cache_handler" where
  "get_write_ahead_data c loads latency tx h = get_entry c loads latency (dedup_entry_key tx) h"

definition confirm_write_ahead :: "'r redis_client \<Rightarrow> string \<Rightarrow> 'r cache_handler \<Rightarrow> bool \<times> 'r cache_handler" where
  "confirm_write_ahead c tx h = drop_entry c (dedup_entry_key tx) h"

definition close_cache :: "'r redis_client \<Rightarrow> 'r cache_handler \<Rightarrow> 'r cache_handler" where
  "close_cache c h = snd (send (rc_disconnect c) h)"

definition reset_metrics :: "'r cache_handler \<Rightarrow> 'r cache_handler" where
  "reset_metrics h = count_metrics (\<lambda>_. reset_cache_metrics) h"

end
