(* ===== verification/Storage_Orchestrator.thy ===== *)
theory Storage_Orchestrator
  imports Cache_Handler
begin

text \<open>
  The storage orchestrator of \<^verbatim>\<open>src/storage/storage_orchestrator.py\<close>: the write path of a transaction through the Redis cache and PostgreSQL,
  the buffers for S3 and Snowflake with their flushes, and the health of the four backends. The cache is the modelled handler; the handlers of
  PostgreSQL, S3 and Snowflake are arguments that act on the state of the world and answer with the text of their exception or nothing. The
  clock, the measured latencies, uuid4, \<^verbatim>\<open>str\<close> and \<^verbatim>\<open>json.dumps\<close> are arguments.
\<close>

section \<open>Health of a backend\<close>

datatype storage_backend = SB_REDIS | SB_POSTGRES | SB_S3 | SB_SNOWFLAKE

primrec backend_value :: "storage_backend \<Rightarrow> string" where
  "backend_value SB_REDIS = ''redis''"
| "backend_value SB_POSTGRES = ''postgres''"
| "backend_value SB_S3 = ''s3''"
| "backend_value SB_SNOWFLAKE = ''snowflake''"

datatype storage_state = SS_HEALTHY | SS_DEGRADED | SS_UNAVAILABLE

primrec state_value :: "storage_state \<Rightarrow> string" where
  "state_value SS_HEALTHY = ''healthy''"
| "state_value SS_DEGRADED = ''degraded''"
| "state_value SS_UNAVAILABLE = ''unavailable''"

record backend_health =
  bh_state :: storage_state
  bh_last_success :: seconds
  bh_last_failure :: seconds
  bh_consecutive_failures :: int
  bh_total_failures :: int
  bh_total_successes :: int
  bh_avg_latency_ms :: real
  bh_samples :: "real list"

definition new_backend_health :: backend_health where
  "new_backend_health =
     \<lparr>bh_state = SS_HEALTHY, bh_last_success = 0, bh_last_failure = 0, bh_consecutive_failures = 0, bh_total_failures = 0, bh_total_successes = 0,
      bh_avg_latency_ms = 0, bh_samples = []\<rparr>"

definition record_success :: "seconds \<Rightarrow> real \<Rightarrow> backend_health \<Rightarrow> backend_health" where
  "record_success now latency h =
     (let xs = last_slice 100 (bh_samples h @ [latency])
      in h\<lparr>bh_last_success := now, bh_consecutive_failures := 0, bh_total_successes := bh_total_successes h + 1, bh_samples := xs,
           bh_avg_latency_ms := sum_list xs / of_nat (length xs), bh_state := SS_HEALTHY\<rparr>)"

definition record_failure :: "seconds \<Rightarrow> backend_health \<Rightarrow> backend_health" where
  "record_failure now h =
     (let n = bh_consecutive_failures h + 1
      in h\<lparr>bh_last_failure := now, bh_consecutive_failures := n, bh_total_failures := bh_total_failures h + 1,
           bh_state := (if 5 \<le> n then SS_UNAVAILABLE else if 2 \<le> n then SS_DEGRADED else bh_state h)\<rparr>)"

definition health_snapshot :: "storage_backend \<Rightarrow> backend_health \<Rightarrow> (string, pyval) dict" where
  "health_snapshot b h =
     [(''backend'', PStr (backend_value b)), (''state'', PStr (state_value (bh_state h))), (''consecutive_failures'', PInt (bh_consecutive_failures h)),
      (''total_failures'', PInt (bh_total_failures h)), (''total_successes'', PInt (bh_total_successes h)),
      (''avg_latency_ms'', PFloat (py_round 4 (bh_avg_latency_ms h))), (''last_success'', PFloat (bh_last_success h)), (''last_failure'', PFloat (bh_last_failure h))]"

section \<open>Results\<close>

record write_result =
  wr_backend :: storage_backend
  wr_success :: bool
  wr_latency_ms :: real
  wr_error :: "string option"
  wr_records_written :: int

definition write_ok :: "storage_backend \<Rightarrow> real \<Rightarrow> int \<Rightarrow> write_result" where
  "write_ok b latency n = \<lparr>wr_backend = b, wr_success = True, wr_latency_ms = latency, wr_error = None, wr_records_written = n\<rparr>"

definition write_failed :: "storage_backend \<Rightarrow> real \<Rightarrow> string \<Rightarrow> write_result" where
  "write_failed b latency err = \<lparr>wr_backend = b, wr_success = False, wr_latency_ms = latency, wr_error = Some err, wr_records_written = 0\<rparr>"

record orchestrated_result =
  ow_transaction_id :: pyval
  ow_timestamp :: string
  ow_results :: "write_result list"
  ow_buffered_for_batch :: bool

definition all_success :: "orchestrated_result \<Rightarrow> bool" where
  "all_success r = list_all wr_success (ow_results r)"

definition any_success :: "orchestrated_result \<Rightarrow> bool" where
  "any_success r = list_ex wr_success (ow_results r)"

definition failed_backends :: "orchestrated_result \<Rightarrow> storage_backend list" where
  "failed_backends r = map wr_backend (filter (\<lambda>w. \<not> wr_success w) (ow_results r))"

definition orchestrated_to_dict :: "orchestrated_result \<Rightarrow> (string, pyval) dict" where
  "orchestrated_to_dict r =
     [(''transaction_id'', ow_transaction_id r), (''timestamp'', PStr (ow_timestamp r)), (''all_success'', PBool (all_success r)),
      (''failed_backends'', PList (map (\<lambda>b. PStr (backend_value b)) (failed_backends r))),
      (''results'', PList (map (\<lambda>w. PDict [(''backend'', PStr (backend_value (wr_backend w))), (''success'', PBool (wr_success w)),
          (''latency_ms'', PFloat (py_round 4 (wr_latency_ms w))), (''error'', case wr_error w of None \<Rightarrow> PNone | Some s \<Rightarrow> PStr s)]) (ow_results r)))]"

section \<open>State\<close>

type_synonym store_record = "(string, pyval) dict"

text \<open>The other handlers: an answer is the text of the exception, \<open>None\<close> when none was raised.\<close>

record 'w backends =
  ob_create_transaction :: "store_record \<Rightarrow> 'w \<Rightarrow> string option \<times> 'w"
  ob_upload_transactions :: "store_record list \<Rightarrow> 'w \<Rightarrow> string option \<times> 'w"
  ob_bulk_load_records :: "store_record list \<Rightarrow> 'w \<Rightarrow> string option \<times> 'w"
  ob_postgres_health :: "'w \<Rightarrow> bool \<times> 'w"
  ob_close :: "storage_backend \<Rightarrow> 'w \<Rightarrow> 'w"

record ('r, 'w) orchestrator =
  or_cache :: "'r cache_handler option"
  or_postgres :: bool
  or_s3 :: bool
  or_snowflake :: bool
  or_world :: 'w
  or_s3_batch_size :: int
  or_snowflake_batch_size :: int
  or_write_ahead :: bool
  or_s3_buffer :: "store_record list"
  or_snowflake_buffer :: "store_record list"
  or_health :: "storage_backend \<Rightarrow> backend_health"
  or_cb_threshold :: int
  or_cb_timeout :: int

definition new_orchestrator ::
  "'r cache_handler option \<Rightarrow> bool \<Rightarrow> bool \<Rightarrow> bool \<Rightarrow> 'w \<Rightarrow> int \<Rightarrow> int \<Rightarrow> bool \<Rightarrow> int \<Rightarrow> int \<Rightarrow> ('r, 'w) orchestrator" where
  "new_orchestrator cache postgres s3 snowflake w s3_size snowflake_size write_ahead threshold timeout =
     \<lparr>or_cache = cache, or_postgres = postgres, or_s3 = s3, or_snowflake = snowflake, or_world = w, or_s3_batch_size = s3_size,
      or_snowflake_batch_size = snowflake_size, or_write_ahead = write_ahead, or_s3_buffer = [], or_snowflake_buffer = [],
      or_health = (\<lambda>_. new_backend_health), or_cb_threshold = threshold, or_cb_timeout = timeout\<rparr>"

text \<open>What the storing of one transaction takes from outside.\<close>

record store_env =
  so_uuid :: string
  so_timestamp :: string
  so_now :: "nat \<Rightarrow> seconds"
  so_latency :: "nat \<Rightarrow> real"
  so_str :: "pyval \<Rightarrow> string"
  so_show_exn :: "pyexn \<Rightarrow> string"
  so_dumps :: "pyval \<Rightarrow> string res"

definition on_health :: "storage_backend \<Rightarrow> (backend_health \<Rightarrow> backend_health) \<Rightarrow> ('r, 'w) orchestrator \<Rightarrow> ('r, 'w) orchestrator" where
  "on_health b f s = s\<lparr>or_health := (or_health s)(b := f (or_health s b))\<rparr>"

definition unavailable :: "storage_backend \<Rightarrow> ('r, 'w) orchestrator \<Rightarrow> bool" where
  "unavailable b s \<longleftrightarrow> bh_state (or_health s b) = SS_UNAVAILABLE"

section \<open>Cache and operational store\<close>

definition extract_customer_profile :: "(pyval \<Rightarrow> string) \<Rightarrow> store_record \<Rightarrow> store_record" where
  "extract_customer_profile str rec =
     [(''customer_id'', pget rec ''customer_id''), (''account_id'', pget rec ''account_id''),
      (''last_transaction_amount'', PStr (str (pget rec ''transaction_amount''))), (''last_transaction_timestamp'', pget rec ''transaction_timestamp''),
      (''last_channel'', pget rec ''channel''), (''last_geo_country'', pget rec ''geo_country''), (''last_geo_city'', pget rec ''geo_city''),
      (''last_device_type'', pget rec ''device_type''), (''is_international'', pget rec ''is_international'')]"

text \<open>The three writes to the cache, in order; an exception ends them.\<close>

definition cache_writes :: "'r redis_client \<Rightarrow> store_env \<Rightarrow> pyval \<Rightarrow> store_record \<Rightarrow> 'r cache_handler \<Rightarrow> bool res \<times> 'r cache_handler" where
  "cache_writes rc env tx rec h =
     (case write_ahead_cache rc (so_dumps env) (so_latency env 1) (so_str env tx) (PDict rec) (PInt 300) h of
        (Inl ex, h1) \<Rightarrow> (Inl ex, h1)
      | (Inr wa_ok, h1) \<Rightarrow>
          (case (if py_bool (pget rec ''customer_id'')
                 then set_customer_profile rc (so_dumps env) (so_latency env 2) (so_str env (pget rec ''customer_id'')) (PDict (extract_customer_profile (so_str env) rec)) PNone h1
                 else (Inr True, h1)) of
             (Inl ex, h2) \<Rightarrow> (Inl ex, h2)
           | (Inr profile_ok, h2) \<Rightarrow>
               (case cache_recent_transaction rc (so_dumps env) (so_latency env 3) (so_str env tx)
                       (PDict [(''customer_id'', pget rec ''customer_id''), (''amount'', PStr (so_str env (pget rec ''transaction_amount''))),
                               (''timestamp'', pget rec ''transaction_timestamp''), (''type'', pget rec ''transaction_type'')]) PNone h2 of
                  (Inl ex, h3) \<Rightarrow> (Inl ex, h3)
                | (Inr txn_ok, h3) \<Rightarrow> (Inr (wa_ok \<and> profile_ok \<and> txn_ok), h3))))"

definition write_to_cache :: "'r redis_client \<Rightarrow> store_env \<Rightarrow> pyval \<Rightarrow> store_record \<Rightarrow> ('r, 'w) orchestrator \<Rightarrow> write_result \<times> ('r, 'w) orchestrator" where
  "write_to_cache rc env tx rec s =
     (case or_cache s of
        None \<Rightarrow> (write_failed SB_REDIS 0 ''cache_backend_not_configured'', s)
      | Some h \<Rightarrow>
          if unavailable SB_REDIS s then (write_failed SB_REDIS 0 ''circuit_breaker_open'', s)
          else (let (r, h1) = cache_writes rc env tx rec h; s1 = s\<lparr>or_cache := Some h1\<rparr>; latency = so_latency env 4
                in case r of
                     Inl ex \<Rightarrow> (write_failed SB_REDIS latency (so_show_exn env ex), on_health SB_REDIS (record_failure (so_now env 0)) s1)
                   | Inr ok \<Rightarrow>
                       if ok then (write_ok SB_REDIS latency 1, on_health SB_REDIS (record_success (so_now env 0) latency) s1)
                       else (write_failed SB_REDIS latency ''one_or_more_cache_operations_failed'', on_health SB_REDIS (record_failure (so_now env 0)) s1)))"

definition internal_prefixes :: "string list" where
  "internal_prefixes = [''_pipeline_'', ''_validation_'', ''_rules_'', ''_enrichment_'']"

definition prepare_postgres_record :: "store_record \<Rightarrow> store_record" where
  "prepare_postgres_record rec = filter (\<lambda>(k, v). \<not> list_ex (\<lambda>p. starts_with p k) internal_prefixes) rec"

definition write_to_postgres :: "'w backends \<Rightarrow> store_env \<Rightarrow> store_record \<Rightarrow> ('r, 'w) orchestrator \<Rightarrow> write_result \<times> ('r, 'w) orchestrator" where
  "write_to_postgres ob env rec s =
     (if unavailable SB_POSTGRES s then (write_failed SB_POSTGRES 0 ''circuit_breaker_open'', s)
      else if \<not> or_postgres s then (write_failed SB_POSTGRES 0 ''postgres_backend_not_configured'', s)
      else (let (r, w) = ob_create_transaction ob (prepare_postgres_record rec) (or_world s); s1 = s\<lparr>or_world := w\<rparr>; latency = so_latency env 5
            in case r of
                 None \<Rightarrow> (write_ok SB_POSTGRES latency 1, on_health SB_POSTGRES (record_success (so_now env 1) latency) s1)
               | Some err \<Rightarrow> (write_failed SB_POSTGRES latency err, on_health SB_POSTGRES (record_failure (so_now env 1)) s1)))"

section \<open>Buffers\<close>

definition buffer_for_s3 :: "store_record \<Rightarrow> ('r, 'w) orchestrator \<Rightarrow> ('r, 'w) orchestrator" where
  "buffer_for_s3 rec s = s\<lparr>or_s3_buffer := or_s3_buffer s @ [rec]\<rparr>"

definition buffer_for_snowflake :: "store_record \<Rightarrow> ('r, 'w) orchestrator \<Rightarrow> ('r, 'w) orchestrator" where
  "buffer_for_snowflake rec s = s\<lparr>or_snowflake_buffer := or_snowflake_buffer s @ [rec]\<rparr>"

text \<open>A flush takes the records out of the buffer and puts them back in front when they could not be written.\<close>

definition flush_s3_buffer :: "'w backends \<Rightarrow> store_env \<Rightarrow> ('r, 'w) orchestrator \<Rightarrow> write_result \<times> ('r, 'w) orchestrator" where
  "flush_s3_buffer ob env s =
     (if or_s3_buffer s = [] then (write_ok SB_S3 0 0, s)
      else (let batch = or_s3_buffer s; s0 = s\<lparr>or_s3_buffer := []\<rparr>; back = (\<lambda>t. t\<lparr>or_s3_buffer := batch @ or_s3_buffer t\<rparr>)
            in if unavailable SB_S3 s0 then (write_failed SB_S3 0 ''circuit_breaker_open'', back s0)
               else if \<not> or_s3 s0 then (write_failed SB_S3 0 ''s3_backend_not_configured'', back s0)
               else (let (r, w) = ob_upload_transactions ob batch (or_world s0); s1 = s0\<lparr>or_world := w\<rparr>; latency = so_latency env 6
                     in case r of
                          None \<Rightarrow> (write_ok SB_S3 latency (int (length batch)), on_health SB_S3 (record_success (so_now env 2) latency) s1)
                        | Some err \<Rightarrow> (write_failed SB_S3 latency err, back (on_health SB_S3 (record_failure (so_now env 2)) s1)))))"

definition flush_snowflake_buffer :: "'w backends \<Rightarrow> store_env \<Rightarrow> ('r, 'w) orchestrator \<Rightarrow> write_result \<times> ('r, 'w) orchestrator" where
  "flush_snowflake_buffer ob env s =
     (if or_snowflake_buffer s = [] then (write_ok SB_SNOWFLAKE 0 0, s)
      else (let batch = or_snowflake_buffer s; s0 = s\<lparr>or_snowflake_buffer := []\<rparr>; back = (\<lambda>t. t\<lparr>or_snowflake_buffer := batch @ or_snowflake_buffer t\<rparr>)
            in if unavailable SB_SNOWFLAKE s0 then (write_failed SB_SNOWFLAKE 0 ''circuit_breaker_open'', back s0)
               else if \<not> or_snowflake s0 then (write_failed SB_SNOWFLAKE 0 ''snowflake_backend_not_configured'', back s0)
               else (let (r, w) = ob_bulk_load_records ob batch (or_world s0); s1 = s0\<lparr>or_world := w\<rparr>; latency = so_latency env 7
                     in case r of
                          None \<Rightarrow> (write_ok SB_SNOWFLAKE latency (int (length batch)), on_health SB_SNOWFLAKE (record_success (so_now env 3) latency) s1)
                        | Some err \<Rightarrow> (write_failed SB_SNOWFLAKE latency err, back (on_health SB_SNOWFLAKE (record_failure (so_now env 3)) s1)))))"

definition check_and_flush_buffers :: "'w backends \<Rightarrow> store_env \<Rightarrow> ('r, 'w) orchestrator \<Rightarrow> ('r, 'w) orchestrator" where
  "check_and_flush_buffers ob env s =
     (let s3_flush = (or_s3_batch_size s \<le> int (length (or_s3_buffer s))); sf_flush = (or_snowflake_batch_size s \<le> int (length (or_snowflake_buffer s)));
          s1 = (if s3_flush then snd (flush_s3_buffer ob env s) else s)
      in if sf_flush then snd (flush_snowflake_buffer ob env s1) else s1)"

definition flush_all_buffers :: "'w backends \<Rightarrow> store_env \<Rightarrow> ('r, 'w) orchestrator \<Rightarrow> (string, write_result) dict \<times> ('r, 'w) orchestrator" where
  "flush_all_buffers ob env s =
     (let (a, s1) = flush_s3_buffer ob env s; (b, s2) = flush_snowflake_buffer ob env s1 in ([(''s3'', a), (''snowflake'', b)], s2))"

section \<open>The write path\<close>

definition store_id :: "store_env \<Rightarrow> store_record \<Rightarrow> pyval" where
  "store_id env rec = dget_or rec ''external_transaction_id'' (dget_or rec ''transaction_id'' (PStr (so_uuid env)))"

definition confirm_after :: "'r redis_client \<Rightarrow> string \<Rightarrow> write_result \<Rightarrow> ('r, 'w) orchestrator \<Rightarrow> ('r, 'w) orchestrator" where
  "confirm_after rc tx r s =
     (case or_cache s of
        Some h \<Rightarrow> if wr_success r \<and> or_write_ahead s then s\<lparr>or_cache := Some (snd (confirm_write_ahead rc tx h))\<rparr> else s
      | None \<Rightarrow> s)"

definition store_transaction :: "'r redis_client \<Rightarrow> 'w backends \<Rightarrow> store_env \<Rightarrow> store_record \<Rightarrow> ('r, 'w) orchestrator \<Rightarrow> orchestrated_result \<times> ('r, 'w) orchestrator" where
  "store_transaction rc ob env rec s =
     (let tx = store_id env rec;
          (rs1, s1) = (if or_cache s \<noteq> None \<and> or_write_ahead s then (let (r, t) = write_to_cache rc env tx rec s in ([r], t)) else ([], s));
          (rs2, s2) = (if or_postgres s1 then (let (r, t) = write_to_postgres ob env rec s1 in ([r], confirm_after rc (so_str env tx) r t)) else ([], s1));
          s3 = (if or_s3 s2 then buffer_for_s3 rec s2 else s2);
          s4 = (if or_snowflake s3 then buffer_for_snowflake rec s3 else s3)
      in (\<lparr>ow_transaction_id = tx, ow_timestamp = so_timestamp env, ow_results = rs1 @ rs2, ow_buffered_for_batch = or_s3 s2\<rparr>, check_and_flush_buffers ob env s4))"

fun store_batch :: "'r redis_client \<Rightarrow> 'w backends \<Rightarrow> (store_env \<times> store_record) list \<Rightarrow> ('r, 'w) orchestrator \<Rightarrow> orchestrated_result list \<times> ('r, 'w) orchestrator" where
  "store_batch rc ob [] s = ([], s)"
| "store_batch rc ob ((env, rec) # recs) s =
     (let (r, s1) = store_transaction rc ob env rec s; (rs, s2) = store_batch rc ob recs s1 in (r # rs, s2))"

section \<open>Monitoring and life cycle\<close>

definition set_state :: "storage_backend \<Rightarrow> bool \<Rightarrow> ('r, 'w) orchestrator \<Rightarrow> ('r, 'w) orchestrator" where
  "set_state b healthy s = on_health b (\<lambda>h. h\<lparr>bh_state := (if healthy then SS_HEALTHY else SS_UNAVAILABLE)\<rparr>) s"

definition check_all_backends :: "'r redis_client \<Rightarrow> 'w backends \<Rightarrow> ('r, 'w) orchestrator \<Rightarrow> (string, bool) dict \<times> ('r, 'w) orchestrator" where
  "check_all_backends rc ob s =
     (let (d1, s1) = (case or_cache s of
                        None \<Rightarrow> ([], s)
                      | Some h \<Rightarrow> (let (ok, h1) = cache_health_check rc h in ([(''redis'', ok)], set_state SB_REDIS ok (s\<lparr>or_cache := Some h1\<rparr>))));
          (d2, s2) = (if or_postgres s1 then (let (ok, w) = ob_postgres_health ob (or_world s1) in ([(''postgres'', ok)], set_state SB_POSTGRES ok (s1\<lparr>or_world := w\<rparr>))) else ([], s1))
      in (d1 @ d2, s2))"

definition all_backends :: "storage_backend list" where
  "all_backends = [SB_REDIS, SB_POSTGRES, SB_S3, SB_SNOWFLAKE]"

definition get_backend_health :: "('r, 'w) orchestrator \<Rightarrow> (string, (string, pyval) dict) dict" where
  "get_backend_health s = map (\<lambda>b. (backend_value b, health_snapshot b (or_health s b))) all_backends"

definition get_latency_report :: "('r, 'w) orchestrator \<Rightarrow> (string, real) dict" where
  "get_latency_report s = map (\<lambda>b. (backend_value b, py_round 4 (bh_avg_latency_ms (or_health s b)))) all_backends"

definition get_buffer_sizes :: "('r, 'w) orchestrator \<Rightarrow> (string, int) dict" where
  "get_buffer_sizes s = [(''s3'', int (length (or_s3_buffer s))), (''snowflake'', int (length (or_snowflake_buffer s)))]"

definition close_orchestrator :: "'r redis_client \<Rightarrow> 'w backends \<Rightarrow> store_env \<Rightarrow> ('r, 'w) orchestrator \<Rightarrow> ('r, 'w) orchestrator" where
  "close_orchestrator rc ob env s =
     (let s1 = snd (flush_all_buffers ob env s);
          s2 = s1\<lparr>or_cache := map_option (close_cache rc) (or_cache s1)\<rparr>;
          shut = (\<lambda>b on t. if on then t\<lparr>or_world := ob_close ob b (or_world t)\<rparr> else t)
      in shut SB_SNOWFLAKE (or_snowflake s2) (shut SB_S3 (or_s3 s2) (shut SB_POSTGRES (or_postgres s2) s2)))"

section \<open>The contract of a buffer\<close>

text \<open>
  A flush that reports success has written everything that was buffered and leaves nothing; one that reports a failure has written nothing
  and leaves the buffer as it was, in order. Both buffers of the orchestrator keep this.
\<close>

locale batch_buffer =
  fixes flush :: "store_env \<Rightarrow> 's \<Rightarrow> write_result \<times> 's"
    and buffer :: "'s \<Rightarrow> store_record list"
  assumes flush_done: "wr_success (fst (flush env s)) \<Longrightarrow> buffer (snd (flush env s)) = [] \<and> wr_records_written (fst (flush env s)) = int (length (buffer s))"
    and flush_undone: "\<not> wr_success (fst (flush env s)) \<Longrightarrow> buffer (snd (flush env s)) = buffer s \<and> wr_records_written (fst (flush env s)) = 0"
begin

lemma flush_accounts: "wr_records_written (fst (flush env s)) + int (length (buffer (snd (flush env s)))) = int (length (buffer s))"
  using flush_done flush_undone by (cases "wr_success (fst (flush env s))") fastforce+

lemma flush_suffix: "\<exists>written. buffer s = written @ buffer (snd (flush env s)) \<and> int (length written) = wr_records_written (fst (flush env s))"
proof (cases "wr_success (fst (flush env s))")
  case True
  from flush_done [OF this] show ?thesis by (intro exI [of _ "buffer s"]) simp
next
  case False
  from flush_undone [OF this] show ?thesis by (intro exI [of _ "[]"]) simp
qed

lemma flush_twice: "wr_success (fst (flush env s)) \<Longrightarrow> wr_success (fst (flush env' (snd (flush env s)))) \<Longrightarrow> wr_records_written (fst (flush env' (snd (flush env s)))) = 0"
  using flush_done [of env s] flush_done [of env' "snd (flush env s)"] by simp

end

interpretation s3_buffer: batch_buffer "flush_s3_buffer ob" or_s3_buffer for ob
  by unfold_locales (auto simp: flush_s3_buffer_def Let_def case_prod_beta write_ok_def write_failed_def on_health_def split: if_splits option.splits)

interpretation snowflake_buffer: batch_buffer "flush_snowflake_buffer ob" or_snowflake_buffer for ob
  by unfold_locales (auto simp: flush_snowflake_buffer_def Let_def case_prod_beta write_ok_def write_failed_def on_health_def split: if_splits option.splits)

end
