(* ===== verification/Storage_Orchestrator_Properties.thy ===== *)
theory Storage_Orchestrator_Properties
  imports Storage_Orchestrator
begin

text \<open>
  Properties of the storage orchestrator: the records of the S3 buffer are neither lost nor reordered, the state of a backend is a function of
  its failures in a row, a circuit of S3 that opened stays open for ever, and a write-ahead entry is removed only after PostgreSQL has the record.
\<close>

declare map_of_eq_Some_iff [simp del] Some_eq_map_of_iff [simp del]

section \<open>Runs\<close>

datatype store_op = Store_op store_env store_record | Flush_op store_env | Check_op

fun store_exec :: "'r redis_client \<Rightarrow> 'w backends \<Rightarrow> store_op \<Rightarrow> ('r, 'w) orchestrator \<Rightarrow> ('r, 'w) orchestrator" where
  "store_exec rc ob (Store_op env rec) s = snd (store_transaction rc ob env rec s)"
| "store_exec rc ob (Flush_op env) s = snd (flush_all_buffers ob env s)"
| "store_exec rc ob Check_op s = snd (check_all_backends rc ob s)"

definition stored_records :: "store_op list \<Rightarrow> store_record list" where
  "stored_records ops = concat (map (\<lambda>p. case p of Store_op env rec \<Rightarrow> [rec] | _ \<Rightarrow> []) ops)"

lemma stored_simps [simp]:
  "stored_records [] = []" "stored_records (Store_op env rec # ops) = rec # stored_records ops"
  "stored_records (Flush_op env # ops) = stored_records ops" "stored_records (Check_op # ops) = stored_records ops"
  by (simp_all add: stored_records_def)

section \<open>What the other steps leave alone\<close>

text \<open>The part of the state that the S3 path depends on.\<close>

definition s3_part :: "('r, 'w) orchestrator \<Rightarrow> store_record list \<times> backend_health \<times> bool \<times> int" where
  "s3_part s = (or_s3_buffer s, or_health s SB_S3, or_s3 s, or_s3_batch_size s)"

lemma cache_step_s3: "s3_part (snd (write_to_cache rc env tx rec s)) = s3_part s \<and> or_world (snd (write_to_cache rc env tx rec s)) = or_world s"
  by (auto simp: write_to_cache_def s3_part_def on_health_def Let_def case_prod_beta split: option.splits sum.splits)

lemma postgres_step_s3: "s3_part (snd (write_to_postgres ob env rec s)) = s3_part s"
  by (auto simp: write_to_postgres_def s3_part_def on_health_def Let_def case_prod_beta split: option.splits)

lemma confirm_step_s3: "s3_part (confirm_after rc tx r s) = s3_part s \<and> or_world (confirm_after rc tx r s) = or_world s"
  by (auto simp: confirm_after_def s3_part_def split: option.splits)

lemma snowflake_step_s3: "s3_part (snd (flush_snowflake_buffer ob env s)) = s3_part s"
  by (auto simp: flush_snowflake_buffer_def s3_part_def on_health_def Let_def case_prod_beta split: option.splits)

lemma check_step_s3: "s3_part (snd (check_all_backends rc ob s)) = s3_part s"
  by (auto simp: check_all_backends_def s3_part_def set_state_def on_health_def Let_def case_prod_beta split: option.splits)

lemma buffering_s3:
  "s3_part (buffer_for_s3 rec t) = (or_s3_buffer t @ [rec], or_health t SB_S3, or_s3 t, or_s3_batch_size t)"
  "s3_part (buffer_for_snowflake rec t) = s3_part t" "or_world (buffer_for_s3 rec t) = or_world t" "or_world (buffer_for_snowflake rec t) = or_world t"
  "or_snowflake (buffer_for_s3 rec t) = or_snowflake t"
  by (simp_all add: s3_part_def buffer_for_s3_def buffer_for_snowflake_def)

lemma flushing_keeps_s3: "or_s3 (snd (flush_s3_buffer ob env t)) = or_s3 t" "or_s3 (snd (flush_snowflake_buffer ob env t)) = or_s3 t"
  using snowflake_step_s3 [of ob env t]
  by (auto simp: s3_part_def flush_s3_buffer_def on_health_def Let_def case_prod_beta split: option.splits)

text \<open>The state just before the flushes of a write.\<close>

definition before_flush :: "'r redis_client \<Rightarrow> 'w backends \<Rightarrow> store_env \<Rightarrow> store_record \<Rightarrow> ('r, 'w) orchestrator \<Rightarrow> ('r, 'w) orchestrator" where
  "before_flush rc ob env rec s =
     (let tx = store_id env rec;
          s1 = (if or_cache s \<noteq> None \<and> or_write_ahead s then snd (write_to_cache rc env tx rec s) else s);
          s2 = (if or_postgres s1 then confirm_after rc (so_str env tx) (fst (write_to_postgres ob env rec s1)) (snd (write_to_postgres ob env rec s1)) else s1);
          s3 = (if or_s3 s2 then buffer_for_s3 rec s2 else s2)
      in if or_snowflake s3 then buffer_for_snowflake rec s3 else s3)"

lemma store_before: "snd (store_transaction rc ob env rec s) = check_and_flush_buffers ob env (before_flush rc ob env rec s)"
  by (simp add: store_transaction_def before_flush_def Let_def case_prod_beta)

lemma before_flush_s3:
  "s3_part (before_flush rc ob env rec s) = (or_s3_buffer s @ (if or_s3 s then [rec] else []), or_health s SB_S3, or_s3 s, or_s3_batch_size s)"
proof -
  define s1 where "s1 = (if or_cache s \<noteq> None \<and> or_write_ahead s then snd (write_to_cache rc env (store_id env rec) rec s) else s)"
  define s2 where "s2 = (if or_postgres s1 then confirm_after rc (so_str env (store_id env rec)) (fst (write_to_postgres ob env rec s1)) (snd (write_to_postgres ob env rec s1)) else s1)"
  have "s3_part s1 = s3_part s" by (simp add: s1_def cache_step_s3)
  moreover have "s3_part s2 = s3_part s1" by (simp add: s2_def confirm_step_s3 postgres_step_s3)
  ultimately have "s3_part s2 = s3_part s" by simp
  then have f: "or_s3_buffer s2 = or_s3_buffer s" "or_health s2 SB_S3 = or_health s SB_S3" "or_s3 s2 = or_s3 s" "or_s3_batch_size s2 = or_s3_batch_size s"
    by (simp_all add: s3_part_def)
  show ?thesis
    unfolding before_flush_def Let_def s1_def [symmetric] s2_def [symmetric] by (simp add: buffering_s3 f) (simp add: s3_part_def f)
qed

section \<open>No record of the lake is lost\<close>

text \<open>
  The handler of S3 is all or nothing: an upload without exception has added the batch to what is uploaded, one with an exception has added nothing. The other
  handlers upload nothing.
\<close>

definition upload_laws :: "'w backends \<Rightarrow> ('w \<Rightarrow> store_record list) \<Rightarrow> bool" where
  "upload_laws ob uploaded \<longleftrightarrow>
     (\<forall>batch w. uploaded (snd (ob_upload_transactions ob batch w)) = uploaded w @ (if fst (ob_upload_transactions ob batch w) = None then batch else [])) \<and>
     (\<forall>rec w. uploaded (snd (ob_create_transaction ob rec w)) = uploaded w) \<and> (\<forall>batch w. uploaded (snd (ob_bulk_load_records ob batch w)) = uploaded w) \<and>
     (\<forall>w. uploaded (snd (ob_postgres_health ob w)) = uploaded w)"

definition lake :: "('w \<Rightarrow> store_record list) \<Rightarrow> ('r, 'w) orchestrator \<Rightarrow> store_record list" where
  "lake uploaded s = uploaded (or_world s) @ or_s3_buffer s"

lemma lake_flush_s3: "upload_laws ob uploaded \<Longrightarrow> lake uploaded (snd (flush_s3_buffer ob env s)) = lake uploaded s"
  by (auto simp: upload_laws_def lake_def flush_s3_buffer_def on_health_def Let_def case_prod_beta split: option.splits)

lemma lake_flush_snowflake: "upload_laws ob uploaded \<Longrightarrow> lake uploaded (snd (flush_snowflake_buffer ob env s)) = lake uploaded s"
  by (auto simp: upload_laws_def lake_def flush_snowflake_buffer_def on_health_def Let_def case_prod_beta split: option.splits)

lemma uploaded_postgres: "upload_laws ob uploaded \<Longrightarrow> uploaded (or_world (snd (write_to_postgres ob env rec t))) = uploaded (or_world t)"
  by (auto simp: upload_laws_def write_to_postgres_def on_health_def Let_def case_prod_beta split: option.splits)

lemma lake_before: "upload_laws ob uploaded \<Longrightarrow> lake uploaded (before_flush rc ob env rec s) = lake uploaded s @ (if or_s3 s then [rec] else [])"
proof -
  assume u: "upload_laws ob uploaded"
  have "uploaded (or_world (before_flush rc ob env rec s)) = uploaded (or_world s)"
    by (simp add: before_flush_def Let_def buffering_s3 confirm_step_s3 uploaded_postgres [OF u] cache_step_s3)
  then show ?thesis using before_flush_s3 [of rc ob env rec s] by (auto simp: lake_def s3_part_def)
qed

lemma lake_exec:
  assumes "upload_laws ob uploaded" "or_s3 s"
  shows "lake uploaded (store_exec rc ob x s) = lake uploaded s @ stored_records [x] \<and> or_s3 (store_exec rc ob x s)"
proof (cases x)
  case (Store_op env rec)
  have "or_s3 (before_flush rc ob env rec s)" using before_flush_s3 [of rc ob env rec s] assms(2) by (simp add: s3_part_def)
  then show ?thesis using lake_before [OF assms(1), of rc env rec s] assms
    by (simp add: Store_op store_before check_and_flush_buffers_def Let_def lake_flush_s3 lake_flush_snowflake flushing_keeps_s3)
next
  case (Flush_op env)
  then show ?thesis using assms by (simp add: flush_all_buffers_def case_prod_beta Let_def lake_flush_s3 lake_flush_snowflake flushing_keeps_s3)
next
  case Check_op
  have "uploaded (or_world (snd (check_all_backends rc ob s))) = uploaded (or_world s)"
    using assms(1) by (auto simp: upload_laws_def check_all_backends_def set_state_def on_health_def Let_def case_prod_beta split: option.splits)
  then show ?thesis using check_step_s3 [of rc ob s] assms(2) by (simp add: Check_op lake_def s3_part_def)
qed

text \<open>
  Claim C13 (nothing of the data lake is lost). Let the handler of S3 be all or nothing. After any sequence of writes, flushes and health checks, with any failures of
  the backends, what is uploaded followed by what is buffered is what was there before followed by the records stored since: none is lost, doubled or out of order.
\<close>

theorem lake_keeps_records:
  assumes "upload_laws ob uploaded" "or_s3 s"
  shows "uploaded (or_world (fold (store_exec rc ob) ops s)) @ or_s3_buffer (fold (store_exec rc ob) ops s) = uploaded (or_world s) @ or_s3_buffer s @ stored_records ops"
proof -
  have "lake uploaded (fold (store_exec rc ob) ops s) = lake uploaded s @ stored_records ops" using assms(2)
  proof (induction ops arbitrary: s)
    case (Cons x ops)
    have "stored_records (x # ops) = stored_records [x] @ stored_records ops" by (simp add: stored_records_def)
    then show ?case using lake_exec [OF assms(1) Cons.prems, of rc x] Cons.IH [of "store_exec rc ob x s"] by simp
  qed simp
  then show ?thesis by (simp add: lake_def)
qed

text \<open>Handlers over a list of uploads; every second upload fails.\<close>

definition list_backends :: "(store_record list \<times> nat) backends" where
  "list_backends =
     \<lparr>ob_create_transaction = (\<lambda>rec w. (None, w)), ob_upload_transactions = (\<lambda>batch (us, n). if even n then (None, (us @ batch, n + 1)) else (Some ''s3'', (us, n + 1))),
      ob_bulk_load_records = (\<lambda>batch w. (None, w)), ob_postgres_health = (\<lambda>w. (True, w)), ob_close = (\<lambda>b w. w)\<rparr>"

lemma list_backends_laws: "upload_laws list_backends fst"
  by (auto simp: upload_laws_def list_backends_def split: prod.splits)

definition silent_redis :: "string list redis_client" where
  "silent_redis = \<lparr>rc_ping = (\<lambda>r. (None, r)), rc_info = (\<lambda>s r. (None, r)), rc_get = (\<lambda>k r. (None, r)), rc_setex = (\<lambda>k t v r. (Some (), k # r)),
     rc_set_nx = (\<lambda>k v t r. (None, r)), rc_delete = (\<lambda>ks r. (Some 1, filter (\<lambda>k. k \<notin> set ks) r)), rc_exists = (\<lambda>k r. (None, r)),
     rc_incr_expire = (\<lambda>k t r. (None, r)), rc_pipe_setex = (\<lambda>cs r. (None, r)), rc_scan = (\<lambda>i p r. (None, r)), rc_disconnect = (\<lambda>r. (None, r))\<rparr>"

definition store_demo_env :: store_env where
  "store_demo_env = \<lparr>so_uuid = ''u'', so_timestamp = ''t'', so_now = (\<lambda>i. 0), so_latency = (\<lambda>i. 1), so_str = (\<lambda>v. ''s''), so_show_exn = (\<lambda>ex. ''e''), so_dumps = (\<lambda>v. Inr ''j'')\<rparr>"

definition store_demo :: "(string list, store_record list \<times> nat) orchestrator" where
  "store_demo = new_orchestrator None True True False ([], 1) 1 1 True 5 30"

theorem lake_keeps_records_witness:
  "fst (or_world (fold (store_exec silent_redis list_backends) [Store_op store_demo_env [(''a'', PInt 1)], Store_op store_demo_env [(''b'', PInt 2)]] store_demo)) @
     or_s3_buffer (fold (store_exec silent_redis list_backends) [Store_op store_demo_env [(''a'', PInt 1)], Store_op store_demo_env [(''b'', PInt 2)]] store_demo) =
   [[(''a'', PInt 1)], [(''b'', PInt 2)]]"
  by (subst lake_keeps_records [OF list_backends_laws]) (simp_all add: store_demo_def new_orchestrator_def)

section \<open>Circuit breakers\<close>

lemma open_flush: "unavailable SB_S3 s \<Longrightarrow> snd (flush_s3_buffer ob env s) = s"
  by (simp add: flush_s3_buffer_def unavailable_def Let_def)

lemma postgres_ignores_uploader: "write_to_postgres (ob\<lparr>ob_upload_transactions := f\<rparr>) env rec t = write_to_postgres ob env rec t"
  by (simp add: write_to_postgres_def)

lemma open_exec:
  assumes "unavailable SB_S3 s" "or_s3 s"
  shows "unavailable SB_S3 (store_exec rc ob x s) \<and> or_s3 (store_exec rc ob x s) \<and> or_s3_buffer (store_exec rc ob x s) = or_s3_buffer s @ stored_records [x] \<and>
    store_exec rc (ob\<lparr>ob_upload_transactions := f\<rparr>) x s = store_exec rc ob x s"
proof (cases x)
  case (Store_op env rec)
  let ?t = "before_flush rc ob env rec s"
  have t: "or_s3_buffer ?t = or_s3_buffer s @ [rec]" "unavailable SB_S3 ?t" "or_s3 ?t"
    using before_flush_s3 [of rc ob env rec s] assms by (simp_all add: s3_part_def unavailable_def)
  have same: "before_flush rc (ob\<lparr>ob_upload_transactions := f\<rparr>) env rec s = ?t" unfolding before_flush_def by (simp only: postgres_ignores_uploader)
  have sf: "flush_snowflake_buffer (ob\<lparr>ob_upload_transactions := f\<rparr>) env u = flush_snowflake_buffer ob env u" for u by (simp add: flush_snowflake_buffer_def Let_def)
  have "s3_part (store_exec rc ob x s) = s3_part ?t" by (simp add: Store_op store_before check_and_flush_buffers_def Let_def open_flush [OF t(2)] snowflake_step_s3)
  moreover have "store_exec rc (ob\<lparr>ob_upload_transactions := f\<rparr>) x s = store_exec rc ob x s"
    by (simp add: Store_op store_before same check_and_flush_buffers_def Let_def open_flush [OF t(2)] sf)
  ultimately show ?thesis using t by (simp add: Store_op s3_part_def unavailable_def)
next
  case (Flush_op env)
  have sf: "flush_snowflake_buffer (ob\<lparr>ob_upload_transactions := f\<rparr>) env u = flush_snowflake_buffer ob env u" for u by (simp add: flush_snowflake_buffer_def Let_def)
  have "s3_part (store_exec rc ob x s) = s3_part s" by (simp add: Flush_op flush_all_buffers_def case_prod_beta Let_def open_flush [OF assms(1)] snowflake_step_s3)
  moreover have "store_exec rc (ob\<lparr>ob_upload_transactions := f\<rparr>) x s = store_exec rc ob x s"
    by (simp add: Flush_op flush_all_buffers_def case_prod_beta Let_def open_flush [OF assms(1)] sf)
  ultimately show ?thesis using assms by (simp add: Flush_op s3_part_def unavailable_def)
next
  case Check_op
  have "store_exec rc (ob\<lparr>ob_upload_transactions := f\<rparr>) x s = store_exec rc ob x s" by (simp add: Check_op check_all_backends_def Let_def case_prod_beta)
  then show ?thesis using check_step_s3 [of rc ob s] assms by (simp add: Check_op s3_part_def unavailable_def)
qed

text \<open>
  Remark (an open circuit of S3 stays open). Once the backend of S3 is unavailable it stays so, whatever is stored, flushed or checked and however healthy
  S3 is: its handler is never called again, and every record stored from then on is kept in the buffer. The recovery time given to the constructor is read nowhere.
\<close>

theorem open_circuit_stays_open:
  assumes "unavailable SB_S3 s" "or_s3 s"
  shows "unavailable SB_S3 (fold (store_exec rc ob) ops s) \<and> or_s3_buffer (fold (store_exec rc ob) ops s) = or_s3_buffer s @ stored_records ops \<and>
    fold (store_exec rc (ob\<lparr>ob_upload_transactions := f\<rparr>)) ops s = fold (store_exec rc ob) ops s"
  using assms
proof (induction ops arbitrary: s)
  case (Cons x ops)
  have "stored_records (x # ops) = stored_records [x] @ stored_records ops" by (simp add: stored_records_def)
  then show ?case using open_exec [OF Cons.prems, of rc ob x f] Cons.IH [of "store_exec rc ob x s"] by simp
qed simp

definition tripped_demo :: "(string list, store_record list \<times> nat) orchestrator" where
  "tripped_demo = on_health SB_S3 (record_failure 5 \<circ> record_failure 4 \<circ> record_failure 3 \<circ> record_failure 2 \<circ> record_failure 1) store_demo"

theorem open_circuit_stays_open_witness:
  "or_s3_buffer (fold (store_exec silent_redis list_backends) [Check_op, Store_op store_demo_env [(''a'', PInt 1)], Flush_op store_demo_env] tripped_demo) = [[(''a'', PInt 1)]]"
proof -
  have "unavailable SB_S3 tripped_demo" "or_s3 tripped_demo" "or_s3_buffer tripped_demo = []"
    by (simp_all add: tripped_demo_def store_demo_def new_orchestrator_def unavailable_def on_health_def record_failure_def new_backend_health_def Let_def)
  then show ?thesis by (subst open_circuit_stays_open [THEN conjunct2, THEN conjunct1]) simp_all
qed

text \<open>The state that belongs to a number of failures in a row.\<close>

definition tripped_state :: "int \<Rightarrow> storage_state" where
  "tripped_state n = (if 5 \<le> n then SS_UNAVAILABLE else if 2 \<le> n then SS_DEGRADED else SS_HEALTHY)"

definition health_exact :: "backend_health \<Rightarrow> bool" where
  "health_exact h \<longleftrightarrow> 0 \<le> bh_consecutive_failures h \<and> bh_consecutive_failures h \<le> bh_total_failures h \<and> bh_state h = tripped_state (bh_consecutive_failures h)"

lemma health_exact_steps [simp]:
  "health_exact h \<Longrightarrow> health_exact (record_success now l h)" "health_exact h \<Longrightarrow> health_exact (record_failure now h)"
  by (auto simp: health_exact_def tripped_state_def record_success_def record_failure_def Let_def split: if_splits)

lemma exact_steps:
  assumes "health_exact (or_health s b)"
  shows "health_exact (or_health (snd (write_to_cache rc env tx rec s)) b)" "health_exact (or_health (snd (write_to_postgres ob env rec s)) b)"
    "health_exact (or_health (confirm_after rc k r s) b)" "health_exact (or_health (snd (flush_s3_buffer ob env s)) b)"
    "health_exact (or_health (snd (flush_snowflake_buffer ob env s)) b)"
  using assms
  by (auto simp: write_to_cache_def write_to_postgres_def confirm_after_def flush_s3_buffer_def flush_snowflake_buffer_def on_health_def Let_def case_prod_beta
      split: option.splits sum.splits)

lemma exact_buffers: "or_health (buffer_for_s3 rec s) = or_health s" "or_health (buffer_for_snowflake rec s) = or_health s"
  by (simp_all add: buffer_for_s3_def buffer_for_snowflake_def)

lemma exact_exec:
  assumes "health_exact (or_health s b)" "x = Check_op \<longrightarrow> b = SB_S3 \<or> b = SB_SNOWFLAKE"
  shows "health_exact (or_health (store_exec rc ob x s) b)"
proof (cases x)
  case (Store_op env rec)
  have "health_exact (or_health (before_flush rc ob env rec s) b)"
    using assms(1) by (simp add: before_flush_def Let_def exact_buffers exact_steps)
  then show ?thesis by (simp add: Store_op store_before check_and_flush_buffers_def Let_def exact_steps)
next
  case (Flush_op env)
  then show ?thesis using assms(1) by (simp add: flush_all_buffers_def case_prod_beta Let_def exact_steps)
next
  case Check_op
  then show ?thesis using assms
    by (auto simp: check_all_backends_def set_state_def on_health_def Let_def case_prod_beta split: option.splits)
qed

text \<open>
  Remark (the state counts failures in a row). In every run from a new orchestrator the state of a backend is exactly given by its failures since the last success:
  unavailable from five, degraded from two, healthy below. This holds for S3 and Snowflake always, and for the cache and PostgreSQL until
  a health check overrides their state. The threshold given to the constructor plays no role.
\<close>

theorem breaker_state_exact:
  assumes "b = SB_S3 \<or> b = SB_SNOWFLAKE \<or> Check_op \<notin> set ops"
  shows "bh_state (or_health (fold (store_exec rc ob) ops (new_orchestrator cache pg s3 sf w n m wa threshold timeout)) b) =
    tripped_state (bh_consecutive_failures (or_health (fold (store_exec rc ob) ops (new_orchestrator cache pg s3 sf w n m wa threshold timeout)) b))"
proof -
  have "health_exact (or_health (fold (store_exec rc ob) ops s) b)" if "health_exact (or_health s b)" for s
    using assms that
  proof (induction ops arbitrary: s)
    case (Cons x ops)
    have "health_exact (or_health (store_exec rc ob x s) b)" using Cons.prems by (intro exact_exec) auto
    then show ?case using Cons by auto
  qed simp
  from this [of "new_orchestrator cache pg s3 sf w n m wa threshold timeout"] show ?thesis
    by (simp add: health_exact_def new_orchestrator_def new_backend_health_def tripped_state_def)
qed

theorem breaker_state_exact_witness:
  "bh_state (or_health (fold (store_exec silent_redis list_backends) [Store_op store_demo_env [(''a'', PInt 1)]] (new_orchestrator None True True False ([], 1) 1 1 True 5 30)) SB_S3) =
    tripped_state (bh_consecutive_failures (or_health (fold (store_exec silent_redis list_backends) [Store_op store_demo_env [(''a'', PInt 1)]] (new_orchestrator None True True False ([], 1) 1 1 True 5 30)) SB_S3))"
  by (rule breaker_state_exact) simp

text \<open>
  Remark (a recovered backend trips at once). A health check that finds an unavailable cache or PostgreSQL healthy resets the state and not the count, so a single
  failure opens the circuit again.
\<close>

theorem recovered_backend_trips:
  assumes "5 \<le> bh_consecutive_failures (or_health s b)"
  shows "unavailable b (on_health b (record_failure now) (set_state b True s))"
  using assms by (simp add: unavailable_def on_health_def set_state_def record_failure_def Let_def)

theorem recovered_backend_trips_witness:
  "unavailable SB_S3 (on_health SB_S3 (record_failure 9) (set_state SB_S3 True tripped_demo))"
  by (rule recovered_backend_trips) (simp add: tripped_demo_def store_demo_def new_orchestrator_def on_health_def record_failure_def new_backend_health_def Let_def)

section \<open>Write-ahead entries\<close>

text \<open>
  Remark (a write-ahead entry stays until the record is stored). When PostgreSQL does not take the record, the storing of a transaction leaves the cache
  just as its own writes made it: the entry is not removed. Otherwise the only further command is its removal.
\<close>

theorem write_ahead_until_stored:
  assumes "or_cache s = Some h" "or_write_ahead s" "or_postgres s"
    and written: "write_to_cache rc env (store_id env rec) rec s = (r1, s1)" "write_to_postgres ob env rec s1 = (r2, s2)"
  shows "or_cache (snd (store_transaction rc ob env rec s)) =
    (if wr_success r2 then map_option (\<lambda>c. snd (confirm_write_ahead rc (so_str env (store_id env rec)) c)) (or_cache s1) else or_cache s1) \<and>
    ow_results (fst (store_transaction rc ob env rec s)) = [r1, r2]"
proof -
  have f: "or_postgres s1" "or_write_ahead s1" "or_cache s2 = or_cache s1" "or_write_ahead s2 = or_write_ahead s1" "or_cache s1 \<noteq> None"
    using written assms(1-3)
    by (auto simp: write_to_cache_def write_to_postgres_def on_health_def Let_def case_prod_beta split: option.splits sum.splits if_splits)
  have c: "or_cache (buffer_for_s3 rec t) = or_cache t" "or_cache (buffer_for_snowflake rec t) = or_cache t" "or_cache (check_and_flush_buffers ob env t) = or_cache t" for t
    by (auto simp: buffer_for_s3_def buffer_for_snowflake_def check_and_flush_buffers_def flush_s3_buffer_def flush_snowflake_buffer_def on_health_def Let_def case_prod_beta split: option.splits)
  show ?thesis using f assms by (auto simp: store_transaction_def c confirm_after_def Let_def)
qed

definition cached_demo :: "(string list, store_record list \<times> nat) orchestrator" where
  "cached_demo = new_orchestrator (Some (new_cache_handler (\<lambda>k v. v) [] PNone PNone PNone PNone)) True False False ([], 0) 5 5 True 5 30"

theorem write_ahead_until_stored_witness:
  "map_option ch_redis (or_cache (snd (store_transaction silent_redis (list_backends\<lparr>ob_create_transaction := \<lambda>rec w. (Some ''down'', w)\<rparr>) store_demo_env [] cached_demo))) =
     Some [''rtx:s'', ''dedup:s'']"
proof -
  let ?ob = "list_backends\<lparr>ob_create_transaction := \<lambda>rec w. (Some ''down'', w)\<rparr>"
  obtain r1 s1 where 1: "write_to_cache silent_redis store_demo_env (store_id store_demo_env []) [] cached_demo = (r1, s1)" by fastforce
  obtain r2 s2 where 2: "write_to_postgres ?ob store_demo_env [] s1 = (r2, s2)" by fastforce
  have "map_option ch_redis (or_cache s1) = Some [''rtx:s'', ''dedup:s'']" "or_postgres s1" "\<not> unavailable SB_POSTGRES s1"
    using 1 by (auto simp: write_to_cache_def cached_demo_def new_orchestrator_def new_backend_health_def unavailable_def cache_writes_def write_ahead_cache_def put_entry_def send_def
        silent_redis_def store_demo_env_def cache_recent_transaction_def count_metrics_def new_cache_handler_def dedup_entry_key_def recent_key_def pget_def dget_or_def
        on_health_def record_success_def Let_def)
  moreover from this have "\<not> wr_success r2" using 2 by (auto simp: write_to_postgres_def write_failed_def Let_def)
  ultimately show ?thesis
    using write_ahead_until_stored [OF _ _ _ 1 2] by (simp add: cached_demo_def new_orchestrator_def)
qed

end
