(* ===== verification/Cache_Handler_Properties.thy ===== *)
theory Cache_Handler_Properties
  imports Cache_Handler
begin

text \<open>
  Properties of the Redis cache: the loop over \<^verbatim>\<open>SCAN\<close> ends and removes exactly the matching keys on a server that keeps the documented
  guarantees of the command, the flush removes exactly the keys of the cache, the keys of the six kinds never collide, what was written is
  read back, and the metrics count the answers.
\<close>

declare map_of_eq_Some_iff [simp del] Some_eq_map_of_iff [simp del]

section \<open>Scanning\<close>

text \<open>
  The documented behaviour of \<^verbatim>\<open>SCAN\<close>, \<^verbatim>\<open>DEL\<close> and glob patterns that the code relies on. \<open>keys\<close> are the keys of the server, \<open>matching\<close>
  those a pattern means, \<open>pend\<close> what an iteration at a cursor still has to return: a full iteration returns every matching key that stays,
  and only matching ones, and it terminates while the server does not grow (\<open>rank\<close>).
\<close>

definition scan_laws ::
  "'r redis_client \<Rightarrow> ('r \<Rightarrow> string set) \<Rightarrow> (string \<Rightarrow> string set) \<Rightarrow> (int \<Rightarrow> string \<Rightarrow> 'r \<Rightarrow> string set) \<Rightarrow> (int \<Rightarrow> 'r \<Rightarrow> nat) \<Rightarrow> bool" where
  "scan_laws c keys matching pend rank \<longleftrightarrow>
     (\<forall>p r. keys r \<inter> matching p \<subseteq> pend 0 p r) \<and>
     (\<forall>cursor p r cur ks r1. rc_scan c cursor p r = (Some (cur, ks), r1) \<longrightarrow>
        keys r1 = keys r \<and> set ks \<subseteq> matching p \<and> pend cursor p r \<subseteq> set ks \<union> (if cur = 0 then {} else pend cur p r1) \<and>
        (cur \<noteq> 0 \<longrightarrow> rank cur r1 < rank cursor r)) \<and>
     (\<forall>cursor p r r1. rc_scan c cursor p r = (None, r1) \<longrightarrow> keys r1 = keys r) \<and>
     (\<forall>ks r n r1. rc_delete c ks r = (Some n, r1) \<longrightarrow>
        keys r1 = keys r - set ks \<and> (\<forall>cur p. pend cur p r - set ks \<subseteq> pend cur p r1 \<and> rank cur r1 \<le> rank cur r)) \<and>
     (\<forall>ks r r1. rc_delete c ks r = (None, r1) \<longrightarrow> keys r1 \<subseteq> keys r \<and> keys r - set ks \<subseteq> keys r1)"

lemma scan_start: "scan_laws c keys matching pend rank \<Longrightarrow> keys r \<inter> matching p \<subseteq> pend 0 p r"
  by (simp add: scan_laws_def)

lemma scan_page:
  "scan_laws c keys matching pend rank \<Longrightarrow> rc_scan c cursor p r = (Some (cur, ks), r1) \<Longrightarrow>
     keys r1 = keys r \<and> set ks \<subseteq> matching p \<and> pend cursor p r \<subseteq> set ks \<union> (if cur = 0 then {} else pend cur p r1) \<and>
     (cur \<noteq> 0 \<longrightarrow> rank cur r1 < rank cursor r)"
  unfolding scan_laws_def by (elim conjE) meson

lemma scan_error: "scan_laws c keys matching pend rank \<Longrightarrow> rc_scan c cursor p r = (None, r1) \<Longrightarrow> keys r1 = keys r"
  unfolding scan_laws_def by (elim conjE) meson

lemma delete_done:
  "scan_laws c keys matching pend rank \<Longrightarrow> rc_delete c ks r = (Some n, r1) \<Longrightarrow>
     keys r1 = keys r - set ks \<and> pend cur p r - set ks \<subseteq> pend cur p r1 \<and> rank cur r1 \<le> rank cur r"
  unfolding scan_laws_def by (elim conjE) meson

lemma delete_error:
  "scan_laws c keys matching pend rank \<Longrightarrow> rc_delete c ks r = (None, r1) \<Longrightarrow> keys r1 \<subseteq> keys r \<and> keys r - set ks \<subseteq> keys r1"
  unfolding scan_laws_def by (elim conjE) meson

text \<open>The deletion of a page, which an empty page skips.\<close>

definition drop_page :: "'r redis_client \<Rightarrow> string list \<Rightarrow> ('r, int) command" where
  "drop_page c ks r = (if ks = [] then (Some 0, r) else rc_delete c ks r)"

lemma drop_page_done:
  "scan_laws c keys matching pend rank \<Longrightarrow> drop_page c ks r = (Some n, r1) \<Longrightarrow>
     keys r1 = keys r - set ks \<and> pend cur p r - set ks \<subseteq> pend cur p r1 \<and> rank cur r1 \<le> rank cur r"
  by (auto simp: drop_page_def split: if_splits dest: delete_done)

lemma drop_page_error:
  "scan_laws c keys matching pend rank \<Longrightarrow> drop_page c ks r = (None, r1) \<Longrightarrow> keys r1 \<subseteq> keys r \<and> keys r - set ks \<subseteq> keys r1"
  by (auto simp: drop_page_def split: if_splits dest: delete_error)

lemma scan_loop_step:
  "scan_loop c p cursor d r =
     (case rc_scan c cursor p r of
        (None, r1) \<Rightarrow> Some ((d, True), r1)
      | (Some (cur, ks), r1) \<Rightarrow>
          (case drop_page c ks r1 of
             (None, r2) \<Rightarrow> Some ((d, True), r2)
           | (Some _, r2) \<Rightarrow> if cur = 0 then Some ((d + int (length ks), False), r2) else scan_loop c p cur (d + int (length ks)) r2))"
  unfolding drop_page_def by (rule scan_loop.simps)

lemma scan_loop_exact:
  assumes laws: "scan_laws c keys matching pend rank" and start: "keys r \<inter> matching p \<subseteq> pend cursor p r"
  shows "\<exists>n failed r'. scan_loop c p cursor d r = Some ((n, failed), r') \<and> keys r' \<subseteq> keys r \<and> keys r - matching p \<subseteq> keys r' \<and>
    (\<not> failed \<longrightarrow> keys r' = keys r - matching p)"
  using start
proof (induction "rank cursor r" arbitrary: cursor d r rule: less_induct)
  case less
  obtain ans r1 where s: "rc_scan c cursor p r = (ans, r1)" by fastforce
  show ?case
  proof (cases ans)
    case None
    then show ?thesis using s scan_error [OF laws s [unfolded None]] by (subst scan_loop_step) (simp add: ex_bool_eq)
  next
    case (Some page)
    obtain cur ks where "page = (cur, ks)" by fastforce
    with s Some have s: "rc_scan c cursor p r = (Some (cur, ks), r1)" by simp
    note pg = scan_page [OF laws s]
    obtain ans2 r2 where t: "drop_page c ks r1 = (ans2, r2)" by fastforce
    show ?thesis
    proof (cases ans2)
      case None
      note er = drop_page_error [OF laws t [unfolded None]]
      have "scan_loop c p cursor d r = Some ((d, True), r2)" using s t None by (subst scan_loop_step) simp
      moreover have "keys r2 \<subseteq> keys r" "keys r - matching p \<subseteq> keys r2" using pg er by blast+
      ultimately show ?thesis by blast
    next
      case (Some n)
      note dl = drop_page_done [OF laws t [unfolded Some], of cur p]
      show ?thesis
      proof (cases "cur = 0")
        case True
        have "scan_loop c p cursor d r = Some ((d + int (length ks), False), r2)" using s t Some True by (subst scan_loop_step) simp
        moreover have "keys r2 = keys r - set ks" "set ks \<subseteq> matching p" "keys r \<inter> matching p \<subseteq> set ks"
          using pg dl less.prems True by auto
        ultimately show ?thesis by blast
      next
        case False
        then have "rank cur r2 < rank cursor r" "keys r2 \<inter> matching p \<subseteq> pend cur p r2"
          using pg dl less.prems by auto
        from less.hyps [OF this, of "d + int (length ks)"] obtain m failed r' where
          m: "scan_loop c p cur (d + int (length ks)) r2 = Some ((m, failed), r')" "keys r' \<subseteq> keys r2" "keys r2 - matching p \<subseteq> keys r'"
          "\<not> failed \<longrightarrow> keys r' = keys r2 - matching p"
          by blast
        have k: "keys r2 = keys r - set ks" "set ks \<subseteq> matching p" using pg dl by auto
        have "scan_loop c p cursor d r = Some ((m, failed), r')"
          using s t Some False m(1) by (subst scan_loop_step) simp
        moreover have "keys r' \<subseteq> keys r" "keys r - matching p \<subseteq> keys r'" using m(2,3) k by auto
        moreover have "\<not> failed \<longrightarrow> keys r' = keys r - matching p" using m(4) k by auto
        ultimately show ?thesis by blast
      qed
    qed
  qed
qed

lemma invalidate_exact:
  assumes "scan_laws c keys matching pend rank"
  shows "\<exists>n h'. invalidate_by_pattern c p h = Some (n, h') \<and> keys (ch_redis h') \<subseteq> keys (ch_redis h) \<and>
    keys (ch_redis h) - matching p \<subseteq> keys (ch_redis h') \<and> cm_errors (ch_metrics h) \<le> cm_errors (ch_metrics h') \<and>
    (cm_errors (ch_metrics h') = cm_errors (ch_metrics h) \<longrightarrow> keys (ch_redis h') = keys (ch_redis h) - matching p)"
  using scan_loop_exact [OF assms scan_start [OF assms], of p 0 "ch_redis h"]
  by (auto simp: invalidate_by_pattern_def count_metrics_def record_error_def)

lemma flush_prefixes_exact:
  assumes "scan_laws c keys matching pend rank"
  shows "\<exists>h'. flush_prefixes c ps h = Some h' \<and> keys (ch_redis h') \<subseteq> keys (ch_redis h) \<and>
    keys (ch_redis h) - (\<Union>p \<in> set ps. matching (p @ ''*'')) \<subseteq> keys (ch_redis h') \<and> cm_errors (ch_metrics h) \<le> cm_errors (ch_metrics h') \<and>
    (cm_errors (ch_metrics h') = cm_errors (ch_metrics h) \<longrightarrow> keys (ch_redis h') = keys (ch_redis h) - (\<Union>p \<in> set ps. matching (p @ ''*'')))"
proof (induction ps arbitrary: h)
  case (Cons p ps)
  obtain n h1 where n: "invalidate_by_pattern c (p @ ''*'') h = Some (n, h1)" "keys (ch_redis h1) \<subseteq> keys (ch_redis h)"
    "keys (ch_redis h) - matching (p @ ''*'') \<subseteq> keys (ch_redis h1)" "cm_errors (ch_metrics h) \<le> cm_errors (ch_metrics h1)"
    "cm_errors (ch_metrics h1) = cm_errors (ch_metrics h) \<longrightarrow> keys (ch_redis h1) = keys (ch_redis h) - matching (p @ ''*'')"
    using invalidate_exact [OF assms] by blast
  obtain h' where h': "flush_prefixes c ps h1 = Some h'" "keys (ch_redis h') \<subseteq> keys (ch_redis h1)"
    "keys (ch_redis h1) - (\<Union>p \<in> set ps. matching (p @ ''*'')) \<subseteq> keys (ch_redis h')" "cm_errors (ch_metrics h1) \<le> cm_errors (ch_metrics h')"
    "cm_errors (ch_metrics h') = cm_errors (ch_metrics h1) \<longrightarrow> keys (ch_redis h') = keys (ch_redis h1) - (\<Union>p \<in> set ps. matching (p @ ''*''))"
    using Cons.IH by blast
  have e: "cm_errors (ch_metrics h') = cm_errors (ch_metrics h) \<longrightarrow> keys (ch_redis h') = keys (ch_redis h) - (\<Union>p \<in> set (p # ps). matching (p @ ''*''))"
  proof
    assume a: "cm_errors (ch_metrics h') = cm_errors (ch_metrics h)"
    then have "keys (ch_redis h') = keys (ch_redis h1) - (\<Union>p \<in> set ps. matching (p @ ''*''))" "keys (ch_redis h1) = keys (ch_redis h) - matching (p @ ''*'')"
      using n(4,5) h'(4,5) by auto
    then show "keys (ch_redis h') = keys (ch_redis h) - (\<Union>p \<in> set (p # ps). matching (p @ ''*''))" by auto
  qed
  have k: "keys (ch_redis h) - (\<Union>p \<in> set (p # ps). matching (p @ ''*'')) \<subseteq> keys (ch_redis h')" using n(3) h'(3) by auto
  show ?case using n(1,2,4) h'(1,2,4) e k by auto
qed simp

text \<open>A server whose keys are a list; the iteration visits the keys of even and then those of odd length, as if they were two hash slots.\<close>

fun glob_prefix :: "string \<Rightarrow> string \<Rightarrow> bool" where
  "glob_prefix pattern k = (if pattern \<noteq> [] \<and> last pattern = CHR ''*'' then starts_with (butlast pattern) k else pattern = k)"

definition list_redis :: "string list redis_client" where
  "list_redis = \<lparr>rc_ping = (\<lambda>r. (Some True, r)), rc_info = (\<lambda>s r. (Some [], r)),
     rc_get = (\<lambda>k r. (Some (if k \<in> set r then Some ''1'' else None), r)), rc_setex = (\<lambda>k t v r. (Some (), k # r)),
     rc_set_nx = (\<lambda>k v t r. (Some (k \<notin> set r), List.insert k r)), rc_delete = (\<lambda>ks r. (Some (int (length ks)), filter (\<lambda>k. k \<notin> set ks) r)),
     rc_exists = (\<lambda>k r. (Some (if k \<in> set r then 1 else 0), r)), rc_incr_expire = (\<lambda>k t r. (Some 1, List.insert k r)),
     rc_pipe_setex = (\<lambda>cs r. (Some (), map fst cs @ r)),
     rc_scan = (\<lambda>cursor p r. (Some (if cursor = 0 then 1 else 0, filter (\<lambda>k. glob_prefix p k \<and> (cursor = 0 \<longleftrightarrow> even (length k))) r), r)),
     rc_disconnect = (\<lambda>r. (Some (), r))\<rparr>"

lemma list_redis_laws:
  "scan_laws list_redis set (\<lambda>p. {k. glob_prefix p k}) (\<lambda>cursor p r. {k \<in> set r. glob_prefix p k \<and> (cursor = 0 \<or> odd (length k))}) (\<lambda>cursor r. if cursor = 0 then 1 else 0)"
  unfolding scan_laws_def list_redis_def by (auto simp del: glob_prefix.simps split: if_splits)

definition list_cache :: "string list \<Rightarrow> string list cache_handler" where
  "list_cache ks = new_cache_handler (\<lambda>k v. v) ks PNone PNone PNone PNone"

text \<open>
  Claim C10 (invalidation ends and is exact). On a server that keeps the documented guarantees of \<^verbatim>\<open>SCAN\<close>, the loop of
  \<^verbatim>\<open>invalidate_by_pattern\<close> ends, whatever fails on the way. It never removes a key that does not match, and when no error was counted
  every matching key is gone.
\<close>

theorem invalidation_terminates:
  assumes "scan_laws c keys matching pend rank"
  shows "\<exists>n h'. invalidate_by_pattern c p h = Some (n, h') \<and> keys (ch_redis h) - matching p \<subseteq> keys (ch_redis h') \<and> keys (ch_redis h') \<subseteq> keys (ch_redis h) \<and>
    (cm_errors (ch_metrics h') = cm_errors (ch_metrics h) \<longrightarrow> keys (ch_redis h') \<inter> matching p = {})"
  using invalidate_exact [OF assms, of p h] by auto

theorem invalidation_terminates_witness:
  "\<exists>n h'. invalidate_by_pattern list_redis ''cp:*'' (list_cache [''cp:1'', ''cp:12'', ''rtx:1'']) = Some (n, h') \<and>
     {''cp:1'', ''cp:12'', ''rtx:1''} - {k. glob_prefix ''cp:*'' k} \<subseteq> set (ch_redis h')"
  using invalidation_terminates [OF list_redis_laws, of "''cp:*''" "list_cache [''cp:1'', ''cp:12'', ''rtx:1'']"]
  by (auto simp: list_cache_def new_cache_handler_def simp del: glob_prefix.simps)

text \<open>
  Remark (the flush removes the cache's keys and no others). On such a server, whose patterns with a final star mean prefixes, the flush of
  all caches ends and returns true. Keys without one of the six prefixes all stay; when no error was counted, no key with such a prefix is left.
\<close>

theorem flush_removes_own_keys:
  assumes "scan_laws c keys matching pend rank" "\<And>p. matching (p @ ''*'') = {k. starts_with p k}"
  shows "\<exists>h'. flush_all_caches c h = Some (True, h') \<and> keys (ch_redis h') \<subseteq> keys (ch_redis h) \<and>
    {k \<in> keys (ch_redis h). \<not> list_ex (\<lambda>p. starts_with p k) cache_prefixes} \<subseteq> keys (ch_redis h') \<and>
    (cm_errors (ch_metrics h') = cm_errors (ch_metrics h) \<longrightarrow> keys (ch_redis h') = {k \<in> keys (ch_redis h). \<not> list_ex (\<lambda>p. starts_with p k) cache_prefixes})"
proof -
  have "keys (ch_redis h) - (\<Union>p \<in> set cache_prefixes. matching (p @ ''*'')) = {k \<in> keys (ch_redis h). \<not> list_ex (\<lambda>p. starts_with p k) cache_prefixes}"
    unfolding assms(2) list_ex_iff by blast
  with flush_prefixes_exact [OF assms(1), of cache_prefixes h] show ?thesis
    by (auto simp: flush_all_caches_def)
qed

theorem flush_removes_own_keys_witness:
  "\<exists>h'. flush_all_caches list_redis (list_cache [''cp:1'', ''session'']) = Some (True, h') \<and> {k \<in> {''cp:1'', ''session''}. \<not> list_ex (\<lambda>p. starts_with p k) cache_prefixes} \<subseteq> set (ch_redis h')"
  using flush_removes_own_keys [OF list_redis_laws, of "list_cache [''cp:1'', ''session'']"]
  by (auto simp: list_cache_def new_cache_handler_def)

text \<open>
  Remark (errors of the flush are not reported): on a server that answers every command with an error, the flush returns true and removes nothing.
\<close>

theorem flush_reports_success:
  assumes "\<And>cursor p r. rc_scan c cursor p r = (None, r)"
  shows "\<exists>h'. flush_all_caches c h = Some (True, h') \<and> ch_redis h' = ch_redis h"
proof -
  have one: "invalidate_by_pattern c p h = Some (0, count_metrics record_error h)" for p h
    unfolding invalidate_by_pattern_def by (subst scan_loop.simps) (simp add: assms)
  have "\<exists>h'. flush_prefixes c ps h = Some h' \<and> ch_redis h' = ch_redis h" for ps h
    by (induction ps arbitrary: h) (simp_all add: one, metis count_metrics_def cache_handler.select_convs(1) cache_handler.surjective cache_handler.update_convs(2))
  then show ?thesis by (fastforce simp: flush_all_caches_def)
qed

theorem flush_reports_success_witness:
  "\<exists>h'. flush_all_caches (list_redis\<lparr>rc_scan := \<lambda>cursor p r. (None, r)\<rparr>) (list_cache [''cp:1'']) = Some (True, h') \<and> ch_redis h' = ch_redis (list_cache [''cp:1''])"
  by (rule flush_reports_success) simp

section \<open>Keys\<close>

text \<open>
  Remark (kinds of keys are apart). The keys of profiles, recent transactions, predictions, velocity counters, locks and write-ahead
  entries never collide, whatever the identifiers contain, and within every kind but the counters the identifier can be read off the key.
\<close>

theorem cache_keys_apart:
  "distinct [profile_key a, recent_key b, prediction_key d, velocity_key e w, lock_key f, dedup_entry_key g] \<and>
   (profile_key a = profile_key x \<longrightarrow> a = x) \<and> (recent_key b = recent_key x \<longrightarrow> b = x) \<and> (prediction_key d = prediction_key x \<longrightarrow> d = x) \<and>
   (lock_key f = lock_key x \<longrightarrow> f = x) \<and> (dedup_entry_key g = dedup_entry_key x \<longrightarrow> g = x)"
  by (simp add: profile_key_def recent_key_def prediction_key_def velocity_key_def lock_key_def dedup_entry_key_def)

text \<open>
  Remark (counters can be shared): an identifier with a colon can name the counter of another customer, and the pattern that invalidates the
  counters of one customer matches those of the other.
\<close>

theorem velocity_counters_shared:
  "velocity_key (c @ '':'' @ w) v = velocity_key c (w @ '':'' @ v) \<and> starts_with (''vel:'' @ c @ '':'') (velocity_key (c @ '':'' @ w) v)"
proof -
  have "starts_with p (p @ s)" for p s by (induction p) auto
  from this [of "''vel:'' @ c @ '':''" "w @ '':'' @ v"] show ?thesis by (simp add: velocity_key_def)
qed

section \<open>Reading back\<close>

text \<open>
  Remark (a cached profile is read back). If the server answers, hands out the text stored last under a key, and \<^verbatim>\<open>json.loads\<close> inverts
  \<^verbatim>\<open>json.dumps\<close> on the profile, then what \<^verbatim>\<open>set_customer_profile\<close> stored is what \<^verbatim>\<open>get_customer_profile\<close> returns; the two calls are one
  write and one hit in the metrics.
\<close>

theorem profile_roundtrip:
  assumes "dumps profile = Inr json" "loads json = Inr profile"
    and stored: "\<And>r. \<exists>r1 r2. rc_setex c (profile_key customer) (py_or ttl (ch_ttl_customer_profile h)) json r = (Some (), r1) \<and>
      rc_get c (profile_key customer) r1 = (Some (Some json), r2)"
  shows "\<exists>h1 h2. set_customer_profile c dumps l1 customer profile ttl h = (Inr True, h1) \<and> get_customer_profile c loads l2 customer h1 = (Inr (Some profile), h2) \<and>
    cm_sets (ch_metrics h2) = cm_sets (ch_metrics h) + 1 \<and> cm_hits (ch_metrics h2) = cm_hits (ch_metrics h) + 1 \<and>
    cm_misses (ch_metrics h2) = cm_misses (ch_metrics h) \<and> cm_errors (ch_metrics h2) = cm_errors (ch_metrics h)"
proof -
  obtain r1 r2 where "rc_setex c (profile_key customer) (py_or ttl (ch_ttl_customer_profile h)) json (ch_redis h) = (Some (), r1)"
    "rc_get c (profile_key customer) r1 = (Some (Some json), r2)"
    using stored by blast
  then show ?thesis
    by (simp add: set_customer_profile_def put_entry_def get_customer_profile_def get_entry_def send_def count_metrics_def record_set_def record_hit_def assms)
qed

theorem profile_roundtrip_witness:
  "\<exists>h1 h2. set_customer_profile list_redis (\<lambda>v. Inr ''1'') 0 ''C1'' (PInt 1) PNone (list_cache []) = (Inr True, h1) \<and>
     get_customer_profile list_redis (\<lambda>s. Inr (PInt 1)) 0 ''C1'' h1 = (Inr (Some (PInt 1)), h2) \<and> cm_sets (ch_metrics h2) = cm_sets (ch_metrics (list_cache [])) + 1 \<and>
     cm_hits (ch_metrics h2) = cm_hits (ch_metrics (list_cache [])) + 1 \<and> cm_misses (ch_metrics h2) = cm_misses (ch_metrics (list_cache [])) \<and>
     cm_errors (ch_metrics h2) = cm_errors (ch_metrics (list_cache []))"
  by (rule profile_roundtrip [where json = "''1''"]) (simp_all add: list_redis_def)

text \<open>
  Remark (deduplication fails open): when Redis answers with an error, a transaction that is in the cache counts as new.
\<close>

theorem duplicates_fail_open:
  assumes "rc_exists c (recent_key tx) (ch_redis h) = (None, r)"
  shows "fst (is_duplicate_transaction c l tx h) = False \<and> cm_errors (ch_metrics (snd (is_duplicate_transaction c l tx h))) = cm_errors (ch_metrics h) + 1"
  using assms by (simp add: is_duplicate_transaction_def send_def count_metrics_def record_error_def)

theorem duplicates_fail_open_witness:
  "fst (is_duplicate_transaction (list_redis\<lparr>rc_exists := \<lambda>k r. (None, r)\<rparr>) 0 ''t1'' (list_cache [''rtx:t1''])) = False \<and>
   cm_errors (ch_metrics (snd (is_duplicate_transaction (list_redis\<lparr>rc_exists := \<lambda>k r. (None, r)\<rparr>) 0 ''t1'' (list_cache [''rtx:t1''])))) =
     cm_errors (ch_metrics (list_cache [''rtx:t1''])) + 1"
  by (rule duplicates_fail_open [where r = "ch_redis (list_cache [''rtx:t1''])"]) simp

end
