(* ===== verification/Schema_Registry.thy ===== *)
theory Schema_Registry
  imports Py_Text "HOL-Library.Word"
begin

text \<open>
  The schema registry client of \<^verbatim>\<open>src/ingestion/schema_registry.py\<close>: the cache of schemas, the coercion of a record to a schema, and the encoding of decimals. The
  files, the parser of schemas and the Avro writer and reader are arguments; a schema is the part of Avro's schema object that the code looks at. A \<^verbatim>\<open>Decimal\<close> is
  exact, without the rounding to 28 digits, and \<^verbatim>\<open>int\<close> reads a text of any length.
\<close>

section \<open>Schemas\<close>

datatype avro_schema =
    Avro_null
  | Avro_union "avro_schema list"
  | Avro_decimal "int option" "int option"
  | Avro_enum "string list"
  | Avro_record "(string \<times> pyval option \<times> avro_schema) list"
  | Avro_other string

text \<open>A coerced value: a value of the record or the bytes of a decimal.\<close>

datatype avro_value = Plain pyval | Bytes "8 word list"

text \<open>\<^verbatim>\<open>Decimal('True')\<close> raises \<^verbatim>\<open>decimal.InvalidOperation\<close>.\<close>

datatype registry_exn = Registry_error | Validation_error | Invalid_operation | Raised pyexn

text \<open>What the parser makes of a file: no JSON, no schema, or a schema.\<close>

datatype parsed_file = Invalid_json | Invalid_schema | Parsed avro_schema

record schema_registry =
  sr_schemas :: "(string, avro_schema) dict"

definition new_schema_registry :: schema_registry where
  "new_schema_registry = \<lparr>sr_schemas = []\<rparr>"

definition get_schema :: "(string \<Rightarrow> parsed_file option) \<Rightarrow> string \<Rightarrow> schema_registry \<Rightarrow> (registry_exn + avro_schema) \<times> schema_registry" where
  "get_schema files name r =
     (case dget (sr_schemas r) name of
        Some s \<Rightarrow> (Inr s, r)
      | None \<Rightarrow>
          (case files name of
             None \<Rightarrow> (Inl Registry_error, r)
           | Some Invalid_json \<Rightarrow> (Inl Registry_error, r)
           | Some Invalid_schema \<Rightarrow> (Inl Registry_error, r)
           | Some (Parsed s) \<Rightarrow> (Inr s, r\<lparr>sr_schemas := dset name s (sr_schemas r)\<rparr>)))"

section \<open>Decimals\<close>

text \<open>\<^verbatim>\<open>int.bit_length()\<close> of a natural number.\<close>

fun bit_length :: "nat \<Rightarrow> nat" where
  "bit_length n = (if n = 0 then 0 else Suc (bit_length (n div 2)))"

declare bit_length.simps [simp del]

text \<open>\<^verbatim>\<open>int.to_bytes(n, 'big', signed=True)\<close> for a length that suffices.\<close>

definition to_bytes :: "nat \<Rightarrow> int \<Rightarrow> 8 word list" where
  "to_bytes n u = map (\<lambda>i. word_of_int (u div 256 ^ (n - Suc i))) [0..<n]"

definition decimal_bytes :: "int \<Rightarrow> 8 word list" where
  "decimal_bytes u = (if u = 0 then [0] else to_bytes ((bit_length (nat \<bar>u\<bar>) + 8) div 8) u)"

definition lift_exn :: "'a res \<Rightarrow> registry_exn + 'a" where
  "lift_exn r = (case r of Inl ex \<Rightarrow> Inl (Raised ex) | Inr x \<Rightarrow> Inr x)"

text \<open>
  The unscaled integer. Python multiplies first: a text is repeated \<open>10^scale\<close> times before \<^verbatim>\<open>int\<close> reads it, and a truth value is no decimal.
\<close>

definition unscaled :: "nat \<Rightarrow> pyval \<Rightarrow> registry_exn + int" where
  "unscaled scale v =
     (case v of
        PInt n \<Rightarrow> Inr (n * 10 ^ scale)
      | PFloat x \<Rightarrow> Inr (trunc_int (x * 10 ^ scale))
      | PStr s \<Rightarrow> lift_exn (to_int (PStr (concat (replicate (10 ^ scale) s))))
      | PBool b \<Rightarrow> Inl Invalid_operation
      | _ \<Rightarrow> Inl (Raised TypeError))"

definition to_decimal_bytes :: "pyval \<Rightarrow> int \<Rightarrow> nat \<Rightarrow> registry_exn + 8 word list" where
  "to_decimal_bytes v precision scale = (case unscaled scale v of Inl ex \<Rightarrow> Inl ex | Inr u \<Rightarrow> Inr (decimal_bytes u))"

section \<open>Coercion\<close>

text \<open>In a union the first schema that is not null decides.\<close>

fun coerce_field :: "avro_schema \<Rightarrow> pyval \<Rightarrow> registry_exn + avro_value"
  and coerce_union :: "avro_schema list \<Rightarrow> pyval \<Rightarrow> registry_exn + avro_value" where
  "coerce_field (Avro_union ss) v = (if v = PNone then Inr (Plain v) else coerce_union ss v)"
| "coerce_field (Avro_decimal precision scale) v =
     (case to_decimal_bytes v (case precision of None \<Rightarrow> 12 | Some p \<Rightarrow> p) (case scale of None \<Rightarrow> 2 | Some s \<Rightarrow> nat s) of
        Inl ex \<Rightarrow> Inl ex | Inr bs \<Rightarrow> Inr (Bytes bs))"
| "coerce_field (Avro_enum symbols) v =
     (case v of PStr s \<Rightarrow> if s \<in> set symbols then Inr (Plain v) else Inl Validation_error | _ \<Rightarrow> Inl Validation_error)"
| "coerce_field Avro_null v = Inr (Plain v)"
| "coerce_field (Avro_record fs) v = Inr (Plain v)"
| "coerce_field (Avro_other ty) v = Inr (Plain v)"
| "coerce_union [] v = Inr (Plain v)"
| "coerce_union (s # ss) v = (if s = Avro_null then coerce_union ss v else coerce_field s v)"

text \<open>The fields of a record schema; a default is taken over as it is.\<close>

fun coerce_fields :: "(string \<times> pyval option \<times> avro_schema) list \<Rightarrow> (string, pyval) dict \<Rightarrow> registry_exn + (string, avro_value) dict" where
  "coerce_fields [] rec = Inr []"
| "coerce_fields ((name, dflt, schema) # fs) rec =
     (case (case dget rec name of
              None \<Rightarrow> Inr (case dflt of None \<Rightarrow> [] | Some d \<Rightarrow> [(name, Plain d)])
            | Some v \<Rightarrow> (case coerce_field schema v of Inl ex \<Rightarrow> Inl ex | Inr x \<Rightarrow> Inr [(name, x)])) of
        Inl ex \<Rightarrow> Inl ex
      | Inr entry \<Rightarrow> (case coerce_fields fs rec of Inl ex \<Rightarrow> Inl ex | Inr rest \<Rightarrow> Inr (entry @ rest)))"

definition coerce_types :: "avro_schema \<Rightarrow> (string, pyval) dict \<Rightarrow> registry_exn + (string, avro_value) dict" where
  "coerce_types schema rec =
     (case schema of Avro_record fs \<Rightarrow> coerce_fields fs rec | _ \<Rightarrow> Inr (map (\<lambda>(k, v). (k, Plain v)) rec))"

section \<open>Validation and serialisation\<close>

text \<open>The writer answers with the bytes, with a type error of Avro, or raises something else.\<close>

datatype written = Written "8 word list" | Avro_type_error | Write_raises pyexn

type_synonym avro_writer = "avro_schema \<Rightarrow> (string, avro_value) dict \<Rightarrow> written"

definition serialize :: "(string \<Rightarrow> parsed_file option) \<Rightarrow> avro_writer \<Rightarrow> string \<Rightarrow> (string, avro_value) dict \<Rightarrow> schema_registry \<Rightarrow> (registry_exn + 8 word list) \<times> schema_registry" where
  "serialize files writer name rec r =
     (case get_schema files name r of
        (Inl ex, r1) \<Rightarrow> (Inl ex, r1)
      | (Inr s, r1) \<Rightarrow> (case writer s rec of Written bs \<Rightarrow> Inr bs | Avro_type_error \<Rightarrow> Inl Validation_error | Write_raises ex \<Rightarrow> Inl (Raised ex), r1))"

definition deserialize ::
  "(string \<Rightarrow> parsed_file option) \<Rightarrow> (avro_schema \<Rightarrow> 8 word list \<Rightarrow> (string, avro_value) dict res) \<Rightarrow> string \<Rightarrow> 8 word list \<Rightarrow> schema_registry \<Rightarrow> (registry_exn + (string, avro_value) dict) \<times> schema_registry" where
  "deserialize files reader name bs r =
     (case get_schema files name r of (Inl ex, r1) \<Rightarrow> (Inl ex, r1) | (Inr s, r1) \<Rightarrow> (lift_exn (reader s bs), r1))"

definition validate_record ::
  "(string \<Rightarrow> parsed_file option) \<Rightarrow> avro_writer \<Rightarrow> string \<Rightarrow> (string, pyval) dict \<Rightarrow> schema_registry \<Rightarrow> (registry_exn + (string, avro_value) dict) \<times> schema_registry" where
  "validate_record files writer name rec r =
     (case get_schema files name r of
        (Inl ex, r1) \<Rightarrow> (Inl ex, r1)
      | (Inr s, r1) \<Rightarrow>
          (case coerce_types s rec of
             Inl ex \<Rightarrow> (Inl ex, r1)
           | Inr coerced \<Rightarrow>
               (case serialize files writer name coerced r1 of (Inl ex, r2) \<Rightarrow> (Inl Validation_error, r2) | (Inr bs, r2) \<Rightarrow> (Inr coerced, r2))))"

end
