(* ===== verification/Schema_Registry_Properties.thy ===== *)
theory Schema_Registry_Properties
  imports Schema_Registry
begin

text \<open>
  Properties of the schema registry: the bytes of a decimal decode to it, a coerced record has exactly the fields of its schema, in order, and what the coercion
  of amounts does to fractions.
\<close>

declare map_of_eq_Some_iff [simp del] Some_eq_map_of_iff [simp del]

section \<open>Decimals\<close>

text \<open>The value of bytes in Avro's decimal encoding: big-endian two's complement.\<close>

definition unsigned_value :: "8 word list \<Rightarrow> int" where
  "unsigned_value bs = foldl (\<lambda>acc b. acc * 256 + uint b) 0 bs"

definition signed_value :: "8 word list \<Rightarrow> int" where
  "signed_value bs =
     (let n = length bs; x = unsigned_value bs in if 2 ^ (8 * n - 1) \<le> x then x - 2 ^ (8 * n) else x)"

lemma less_bit_length: "n < 2 ^ bit_length n"
proof (induction n rule: bit_length.induct)
  case (1 n)
  show ?case
  proof (cases "n = 0")
    case False
    then have "n div 2 < 2 ^ bit_length (n div 2)" using 1 by blast
    then have "n < 2 * 2 ^ bit_length (n div 2)" by simp
    then show ?thesis using False by (subst bit_length.simps) simp
  qed (simp add: bit_length.simps)
qed

lemma uint_byte: "uint (word_of_int x :: 8 word) = x mod 256"
  by (simp add: uint_word_of_int)

lemma unsigned_to_bytes: "unsigned_value (to_bytes n u) = u mod 256 ^ n"
proof -
  have "foldl (\<lambda>acc b. acc * 256 + uint b) 0 (map (\<lambda>i. word_of_int (u div 256 ^ (n - Suc i)) :: 8 word) [0..<k]) = (u div 256 ^ (n - k)) mod 256 ^ k" if "k \<le> n" for k
    using that
  proof (induction k)
    case (Suc k)
    have e: "n - k = Suc (n - Suc k)" using Suc.prems by simp
    define x where "x = u div 256 ^ (n - Suc k)"
    have "u div 256 ^ (n - k) = u div (256 ^ (n - Suc k) * 256)" by (simp add: e mult.commute)
    also have "\<dots> = x div 256" unfolding x_def by (rule zdiv_zmult2_eq) simp
    finally have "u div 256 ^ (n - k) = x div 256" .
    then have "(u div 256 ^ (n - k)) mod 256 ^ k * 256 + x mod 256 = x mod 256 ^ Suc k"
      by (simp add: zmod_zmult2_eq mult.commute)
    then show ?case using Suc by (simp add: uint_byte x_def)
  qed simp
  from this [of n] show ?thesis by (simp add: unsigned_value_def to_bytes_def)
qed

lemma signed_decimal: "signed_value (decimal_bytes u) = u \<and> decimal_bytes u \<noteq> []"
proof (cases "u = 0")
  case True
  then show ?thesis by (simp add: decimal_bytes_def signed_value_def unsigned_value_def)
next
  case False
  define n where "n = (bit_length (nat \<bar>u\<bar>) + 8) div 8"
  have len: "length (to_bytes n u) = n" by (simp add: to_bytes_def)
  have n: "bit_length (nat \<bar>u\<bar>) \<le> 8 * n - 1" "0 < n" by (auto simp: n_def)
  have "nat \<bar>u\<bar> < 2 ^ (8 * n - 1)"
    using less_bit_length [of "nat \<bar>u\<bar>"] power_increasing [OF n(1), of "2 :: nat"] by linarith
  then have "\<bar>u\<bar> < 2 ^ (8 * n - 1)" by (simp add: nat_less_iff)
  moreover have p: "(256 :: int) ^ n = 2 ^ (8 * n)" "(2 :: int) ^ (8 * n) = 2 * 2 ^ (8 * n - 1)"
    using n(2) by (simp_all add: power_mult power_Suc [symmetric] del: power_Suc)
  ultimately have r: "- (2 ^ (8 * n - 1)) < u" "u < 2 ^ (8 * n - 1)" by linarith+
  have "u mod 2 ^ (8 * n) = (if 0 \<le> u then u else u + 2 ^ (8 * n))"
  proof (cases "0 \<le> u")
    case True
    then show ?thesis using r p(2) by (simp add: mod_pos_pos_trivial)
  next
    case False
    have "u mod 2 ^ (8 * n) = (u + 2 ^ (8 * n)) mod 2 ^ (8 * n)" by simp
    also have "\<dots> = u + 2 ^ (8 * n)" using False r p(2) by (intro mod_pos_pos_trivial) linarith+
    finally show ?thesis using False by simp
  qed
  then have "signed_value (to_bytes n u) = u"
    using r p(2) by (simp add: signed_value_def len unsigned_to_bytes p(1) Let_def)
  moreover have "to_bytes n u \<noteq> []" using len n(2) by auto
  ultimately show ?thesis using False by (simp add: decimal_bytes_def n_def)
qed

text \<open>
  Claim C40 (decimals are read back). The bytes written for any integer are at least one, and their value in Avro's encoding, big-endian two's complement, is that
  integer, for negative numbers and at the borders of a byte too.
\<close>

theorem decimal_roundtrip: "signed_value (decimal_bytes u) = u \<and> decimal_bytes u \<noteq> []"
  by (rule signed_decimal)

text \<open>
  Remark (fractions are cut off). The coercion truncates towards zero: what is written never exceeds the amount and loses less than one unit of the last place.
  The precision of the schema plays no role.
\<close>

theorem decimal_truncates:
  assumes "to_decimal_bytes (PFloat x) precision scale = Inr bs"
  shows "\<bar>of_int (signed_value bs)\<bar> \<le> \<bar>x * 10 ^ scale\<bar> \<and> \<bar>x * 10 ^ scale\<bar> < \<bar>of_int (signed_value bs)\<bar> + 1 \<and> to_decimal_bytes (PFloat x) other scale = Inr bs"
proof -
  have "bs = decimal_bytes (trunc_int (x * 10 ^ scale))" using assms by (simp add: to_decimal_bytes_def unscaled_def)
  then have s: "signed_value bs = trunc_int (x * 10 ^ scale)" using signed_decimal by simp
  have "\<bar>of_int (trunc_int y)\<bar> \<le> \<bar>y\<bar> \<and> \<bar>y\<bar> < \<bar>of_int (trunc_int y)\<bar> + 1" for y :: real
    by (auto simp: trunc_int_def) linarith+
  then show ?thesis using assms unfolding s by (simp add: to_decimal_bytes_def unscaled_def)
qed

theorem decimal_truncates_witness:
  "to_decimal_bytes (PFloat (125509 / 1000)) 12 2 = Inr (decimal_bytes 12550) \<and> \<bar>125509 / 1000 * 10 ^ 2\<bar> < \<bar>of_int (signed_value (decimal_bytes 12550))\<bar> + (1 :: real)"
proof -
  have b: "to_decimal_bytes (PFloat (125509 / 1000)) 12 2 = Inr (decimal_bytes 12550)" by (simp add: to_decimal_bytes_def unscaled_def trunc_int_def floor_eq_iff)
  from decimal_truncates [OF b, of 3] b show ?thesis by simp
qed

section \<open>Coercion\<close>

text \<open>The names a schema takes from a record, in its order: those the record has and those with a default.\<close>

definition coerced_names :: "(string \<times> pyval option \<times> avro_schema) list \<Rightarrow> (string, pyval) dict \<Rightarrow> string list" where
  "coerced_names fs rec = map fst (filter (\<lambda>(name, dflt, schema). dget rec name \<noteq> None \<or> dflt \<noteq> None) fs)"

lemma coerce_names: "coerce_fields fs rec = Inr out \<Longrightarrow> map fst out = coerced_names fs rec"
  by (induction fs rec arbitrary: out rule: coerce_fields.induct) (auto simp: coerced_names_def split: option.splits sum.splits)

lemma coerce_values:
  "coerce_fields fs rec = Inr out \<Longrightarrow> distinct (map fst fs) \<Longrightarrow> (name, dflt, schema) \<in> set fs \<Longrightarrow> dget rec name = Some v \<Longrightarrow> \<exists>x. coerce_field schema v = Inr x \<and> dget out name = Some x"
proof (induction fs rec arbitrary: out rule: coerce_fields.induct)
  case (2 n d s fs rec)
  from "2.prems"(1) obtain entry rest where e: "out = entry @ rest" "coerce_fields fs rec = Inr rest"
    "(case dget rec n of None \<Rightarrow> Inr (case d of None \<Rightarrow> [] | Some d \<Rightarrow> [(n, Plain d)]) | Some v \<Rightarrow> (case coerce_field s v of Inl ex \<Rightarrow> Inl ex | Inr x \<Rightarrow> Inr [(n, x)])) = (Inr entry :: registry_exn + (string, avro_value) dict)"
    by (auto split: sum.splits)
  show ?case
  proof (cases "n = name")
    case True
    then have "(d, s) = (dflt, schema)" using "2.prems"(2,3) by (auto simp: rev_image_eqI)
    then show ?thesis using e(1,3) "2.prems"(4) True by (auto split: sum.splits)
  next
    case False
    then have "(name, dflt, schema) \<in> set fs" using "2.prems"(3) by auto
    moreover have "dget entry name = None" using e(3) False by (auto split: option.splits sum.splits)
    moreover have "dget (entry @ rest) name = (case dget entry name of None \<Rightarrow> dget rest name | Some x \<Rightarrow> Some x)" by (simp add: map_add_def)
    ultimately show ?thesis using "2.IH" [OF e(3) e(2)] "2.prems"(2,4) e(1) by auto
  qed
qed simp

text \<open>
  Remark (a coerced record is shaped by its schema). Coercing a record to a record schema with distinct names gives exactly the fields of the schema that the record
  has or that have a default, in the order of the schema; other fields of the record are dropped; and each field of the record has its value as the field's
  schema coerces it.
\<close>

theorem coercion_shape:
  assumes "coerce_types (Avro_record fs) rec = Inr out" "distinct (map fst fs)"
  shows "map fst out = coerced_names fs rec \<and>
    (\<forall>name dflt schema v. (name, dflt, schema) \<in> set fs \<longrightarrow> dget rec name = Some v \<longrightarrow> (\<exists>x. coerce_field schema v = Inr x \<and> dget out name = Some x))"
  using coerce_names coerce_values assms unfolding coerce_types_def by (simp; blast)

theorem coercion_shape_witness:
  "map fst [(''id'', Plain (PStr ''t'')), (''amount'', Bytes (decimal_bytes 500))] =
     coerced_names [(''id'', None, Avro_other ''string''), (''amount'', None, Avro_decimal None None)] [(''x'', PNone), (''amount'', PInt 5), (''id'', PStr ''t'')]"
  by (rule coercion_shape [THEN conjunct1]) (simp_all add: coerce_types_def to_decimal_bytes_def unscaled_def lift_exn_def)

text \<open>
  Remark (unions). Only the first schema of a union that is not null is tried: a text that a later enumeration or type would take is refused when the first is an
  enumeration without it.
\<close>

theorem union_first_only:
  "coerce_field (Avro_union [Avro_null, Avro_enum [''a''], Avro_enum [''b'']]) (PStr ''b'') = Inl Validation_error"
  by simp

end
