(* ===== verification/Feature_Store.thy ===== *)
theory Feature_Store
  imports Feature_Engineer
begin

text \<open>
  The feature store of \<^verbatim>\<open>src/fraud_detection/feature_store.py\<close>: the vector of a transaction from the cache, the database, the transaction itself and the
  defaults, the age of the stored features, and the statistics of the store. The cache and the database are arguments that answer or raise, as are \<^verbatim>\<open>str\<close>,
  \<^verbatim>\<open>fromisoformat\<close>, \<^verbatim>\<open>np.log1p\<close> and the clock.
\<close>

section \<open>Catalogue and defaults\<close>

definition feature_catalog :: "string list" where
  "feature_catalog =
    [''transaction_amount'', ''amount_zscore'', ''amount_to_avg_ratio'', ''amount_percentile'', ''amount_log'', ''hour_of_day'', ''day_of_week'',
     ''is_weekend'', ''is_holiday'', ''time_since_last_transaction'', ''minutes_since_midnight'', ''txn_count_1h'', ''txn_amount_sum_1h'',
     ''txn_amount_avg_1h'', ''txn_amount_max_1h'', ''txn_count_24h'', ''txn_amount_sum_24h'', ''txn_amount_avg_24h'', ''txn_amount_max_24h'',
     ''txn_amount_std_24h'', ''txn_count_7d'', ''txn_amount_sum_7d'', ''txn_amount_avg_7d'', ''unique_merchants_24h'', ''unique_merchants_7d'',
     ''new_merchant_flag'', ''merchant_risk_score'', ''merchant_txn_count_30d'', ''merchant_fraud_rate'', ''unique_countries_24h'', ''is_international'',
     ''country_risk_score'', ''distance_from_last_location_km'', ''impossible_travel_flag'', ''known_device_flag'', ''device_age_days'',
     ''device_txn_count'', ''multiple_accounts_on_device'', ''unusual_hour_flag'', ''channel_switch_flag'', ''amount_deviation_from_mean'',
     ''amount_deviation_from_median'', ''txn_frequency_deviation'', ''consecutive_declined_count'', ''rapid_succession_flag'', ''time_since_last_decline'',
     ''decline_rate_24h'', ''account_age_days'', ''account_total_txn_count'', ''account_avg_amount'', ''account_std_amount'', ''account_max_amount'',
     ''amount_x_velocity'', ''amount_x_hour_risk'', ''international_x_new_merchant'', ''high_amount_x_unusual_hour'']"

definition feature_defaults :: "(string, real) dict" where
  "feature_defaults =
    [(''transaction_amount'', 0), (''amount_zscore'', 0), (''amount_to_avg_ratio'', 1), (''amount_percentile'', 1 / 2), (''amount_log'', 0),
     (''hour_of_day'', 12), (''day_of_week'', 3), (''is_weekend'', 0), (''is_holiday'', 0), (''time_since_last_transaction'', 3600),
     (''minutes_since_midnight'', 720), (''txn_count_1h'', 1), (''txn_amount_sum_1h'', 0), (''txn_amount_avg_1h'', 0), (''txn_amount_max_1h'', 0),
     (''txn_count_24h'', 5), (''txn_amount_sum_24h'', 0), (''txn_amount_avg_24h'', 0), (''txn_amount_max_24h'', 0), (''txn_amount_std_24h'', 0),
     (''txn_count_7d'', 20), (''txn_amount_sum_7d'', 0), (''txn_amount_avg_7d'', 0), (''unique_merchants_24h'', 2), (''unique_merchants_7d'', 5),
     (''new_merchant_flag'', 0), (''merchant_risk_score'', 1 / 10), (''merchant_txn_count_30d'', 100), (''merchant_fraud_rate'', 1 / 1000),
     (''unique_countries_24h'', 1), (''is_international'', 0), (''country_risk_score'', 1 / 10), (''distance_from_last_location_km'', 0),
     (''impossible_travel_flag'', 0), (''known_device_flag'', 1), (''device_age_days'', 365), (''device_txn_count'', 100),
     (''multiple_accounts_on_device'', 0), (''unusual_hour_flag'', 0), (''channel_switch_flag'', 0), (''amount_deviation_from_mean'', 0),
     (''amount_deviation_from_median'', 0), (''txn_frequency_deviation'', 0), (''consecutive_declined_count'', 0), (''rapid_succession_flag'', 0),
     (''time_since_last_decline'', 86400), (''decline_rate_24h'', 0), (''account_age_days'', 365), (''account_total_txn_count'', 500),
     (''account_avg_amount'', 50), (''account_std_amount'', 30), (''account_max_amount'', 200), (''amount_x_velocity'', 0), (''amount_x_hour_risk'', 0),
     (''international_x_new_merchant'', 0), (''high_amount_x_unusual_hour'', 0)]"

text \<open>In microseconds.\<close>

definition freshness_thresholds :: "(string, int) dict" where
  "freshness_thresholds =
    [(''velocity_1h'', 5 * 60000000), (''velocity_24h'', 15 * 60000000), (''velocity_7d'', 60 * 60000000), (''customer_profile'', 60 * 60000000),
     (''merchant_profile'', 6 * 3600000000), (''device_profile'', 24 * 3600000000)]"

section \<open>State\<close>

record feature_vector =
  fv_transaction_id :: pyval
  fv_customer_id :: pyval
  fv_features :: "(string, real) dict"
  fv_feature_count :: nat
  fv_missing_features :: "string list"
  fv_stale_features :: "string list"
  fv_computation_time_ms :: real
  fv_computed_at :: datetime

record freshness_report =
  fr_total_features :: int
  fr_fresh_features :: int
  fr_stale_features :: int
  fr_missing_features :: int
  fr_is_acceptable :: bool
  fr_details :: "(string, string) dict"

record store_stats =
  st_total_retrievals :: int
  st_cache_hits :: int
  st_db_hits :: int
  st_fallbacks_to_default :: int

record feature_store =
  fs_feature_names :: "string list"
  fs_freshness_check_enabled :: bool
  fs_max_missing_ratio :: real
  fs_stats :: store_stats

text \<open>What the store takes from outside; a store without cache or database has \<open>None\<close>.\<close>

record feature_env =
  fx_cache :: "(string \<Rightarrow> pyval res) option"
  fx_db :: "(pyval \<Rightarrow> pyval res) option"
  fx_str :: "pyval \<Rightarrow> string"
  fx_fromiso :: fromiso
  fx_log1p :: "real \<Rightarrow> real"

definition new_feature_store :: "string list \<Rightarrow> bool \<Rightarrow> real \<Rightarrow> feature_store" where
  "new_feature_store names check ratio =
     \<lparr>fs_feature_names = (if names = [] then feature_catalog else names), fs_freshness_check_enabled = check, fs_max_missing_ratio = ratio,
      fs_stats = \<lparr>st_total_retrievals = 0, st_cache_hits = 0, st_db_hits = 0, st_fallbacks_to_default = 0\<rparr>\<rparr>"

definition to_array :: "feature_vector \<Rightarrow> string list \<Rightarrow> real list" where
  "to_array v names = map (\<lambda>f. dget_or (fv_features v) f (dget_or feature_defaults f 0)) names"

definition feature_vector_to_dict :: "(datetime \<Rightarrow> string) \<Rightarrow> feature_vector \<Rightarrow> (string, pyval) dict" where
  "feature_vector_to_dict isoformat v =
     [(''transaction_id'', fv_transaction_id v), (''customer_id'', fv_customer_id v), (''features'', PDict (map (\<lambda>(k, x). (k, PFloat x)) (fv_features v))),
      (''feature_count'', PInt (int (fv_feature_count v))), (''missing_features'', PList (map PStr (fv_missing_features v))),
      (''stale_features'', PList (map PStr (fv_stale_features v))), (''computation_time_ms'', PFloat (fv_computation_time_ms v)),
      (''computed_at'', PStr (isoformat (fv_computed_at v)))]"

section \<open>The stored layers\<close>

text \<open>\<^verbatim>\<open>d.update(new)\<close>.\<close>

definition layer :: "('k, 'v) dict \<Rightarrow> ('k, 'v) dict \<Rightarrow> ('k, 'v) dict" where
  "layer new d = fold (\<lambda>(k, v). dset k v) new d"

text \<open>\<^verbatim>\<open>{k: float(v) for k, v in ...}\<close>.\<close>

fun floats_into :: "(string \<times> pyval) list \<Rightarrow> (string, real) dict \<Rightarrow> (string, real) dict res" where
  "floats_into [] acc = Inr acc"
| "floats_into ((k, v) # d) acc = res_bind (to_float v) (\<lambda>x. floats_into d (dset k x acc))"

definition floats_of :: "(string \<times> pyval) list \<Rightarrow> (string, real) dict" where
  "floats_of d = (case floats_into d [] of Inl ex \<Rightarrow> [] | Inr fs \<Rightarrow> fs)"

definition get_from_cache :: "feature_env \<Rightarrow> string list \<Rightarrow> pyval \<Rightarrow> pyval \<Rightarrow> (string, real) dict" where
  "get_from_cache env names txn_id customer =
     (case fx_cache env of
        None \<Rightarrow> []
      | Some get \<Rightarrow>
          (let profile = (case get (''customer_profile:'' @ fx_str env customer) of Inr (PDict d) \<Rightarrow> floats_of (filter (\<lambda>(k, v). k \<in> set names) d) | _ \<Rightarrow> [])
           in case get (''features:'' @ fx_str env txn_id) of
                Inl ex \<Rightarrow> []
              | Inr (PDict (e # d)) \<Rightarrow> floats_of (filter (\<lambda>(k, v). k \<in> set names) (e # d))
              | Inr v \<Rightarrow> profile))"

definition get_from_db :: "feature_env \<Rightarrow> pyval \<Rightarrow> string list \<Rightarrow> (string, real) dict" where
  "get_from_db env txn_id names =
     (case fx_db env of
        None \<Rightarrow> []
      | Some get \<Rightarrow> (case get txn_id of Inr (PDict d) \<Rightarrow> floats_of (filter (\<lambda>(k, v). k \<in> set names \<and> v \<noteq> PNone) d) | _ \<Rightarrow> []))"

section \<open>Computed features\<close>

definition flag :: "bool \<Rightarrow> real" where
  "flag b = (if b then 1 else 0)"

definition amount_features :: "feature_env \<Rightarrow> real \<Rightarrow> (string, real) dict \<Rightarrow> (string, real) dict" where
  "amount_features env amount existing =
     (let avg = dget_or existing ''account_avg_amount'' (dget_or feature_defaults ''account_avg_amount'' 50);
          std = dget_or existing ''account_std_amount'' (dget_or feature_defaults ''account_std_amount'' 30)
      in [(''transaction_amount'', amount), (''amount_log'', fx_log1p env amount), (''amount_zscore'', if 0 < std then (amount - avg) / std else 0)] @
         (if 0 < avg then [(''amount_to_avg_ratio'', amount / avg)] else []) @ [(''amount_deviation_from_mean'', amount - avg)])"

definition replace_Z :: "string \<Rightarrow> string" where
  "replace_Z s = concat (map (\<lambda>c. if c = CHR ''Z'' then ''+00:00'' else [c]) s)"

definition time_features :: "feature_env \<Rightarrow> pyval \<Rightarrow> (string, real) dict" where
  "time_features env v =
     (case v of
        PStr (c # cs) \<Rightarrow>
          (case fx_fromiso env (replace_Z (c # cs)) of
             None \<Rightarrow> []
           | Some (w, z) \<Rightarrow>
               (let hour = w div 3600000000 mod 24; minute = w div 60000000 mod 60
                in [(''hour_of_day'', of_int hour), (''day_of_week'', of_int (weekday w)), (''is_weekend'', flag (5 \<le> weekday w)),
                    (''minutes_since_midnight'', of_int (hour * 60 + minute)), (''unusual_hour_flag'', flag (hour < 6 \<or> 23 < hour))]))
      | _ \<Rightarrow> [])"

definition place_features :: "txn_dict \<Rightarrow> (string, real) dict" where
  "place_features txn =
     (let intl = pget txn ''is_international''; channel = pget txn ''channel''; last = pget txn ''last_channel''
      in (if intl = PNone then [] else [(''is_international'', flag (py_bool intl))]) @
         (if py_bool channel \<and> py_bool last \<and> \<not> py_eq channel last then [(''channel_switch_flag'', 1)] else []))"

definition store_transaction_features :: "feature_env \<Rightarrow> txn_dict \<Rightarrow> (string, real) dict \<Rightarrow> (string, real) dict res" where
  "store_transaction_features env txn existing =
     res_bind (if pget txn ''transaction_amount'' = PNone then Inr []
               else res_bind (to_float (pget txn ''transaction_amount'')) (\<lambda>amount. Inr (amount_features env amount existing)))
       (\<lambda>money. Inr (money @ time_features env (pget txn ''transaction_timestamp'') @ place_features txn))"

definition cross_features :: "(string, real) dict \<Rightarrow> (string, real) dict" where
  "cross_features fs =
     (let amount = dget_or fs ''transaction_amount'' 0; hour_risk = flag (0 < dget_or fs ''unusual_hour_flag'' 0)
      in [(''amount_x_velocity'', amount * dget_or fs ''txn_count_1h'' 0), (''amount_x_hour_risk'', amount * hour_risk),
          (''international_x_new_merchant'', dget_or fs ''is_international'' 0 * dget_or fs ''new_merchant_flag'' 0),
          (''high_amount_x_unusual_hour'', flag (dget_or fs ''account_avg_amount'' 50 * 3 < amount) * hour_risk)])"

section \<open>Freshness\<close>

text \<open>The instant of the last update; a naive time cannot be subtracted and counts as a failed check.\<close>

definition last_update :: "feature_env \<Rightarrow> pyval \<Rightarrow> datetime option" where
  "last_update env v =
     (case v of
        PStr s \<Rightarrow> (case fx_fromiso env s of Some (w, Some off) \<Rightarrow> Some (w - off) | _ \<Rightarrow> None)
      | _ \<Rightarrow> (case num_val v of None \<Rightarrow> None | Some x \<Rightarrow> (let t = round_half_even (x * 1000000) in if in_range t then Some t else None)))"

definition older_than :: "string \<Rightarrow> int \<Rightarrow> bool" where
  "older_than name age = (case dget freshness_thresholds name of None \<Rightarrow> False | Some t \<Rightarrow> t < age)"

definition check_freshness :: "feature_env \<Rightarrow> datetime \<Rightarrow> string list \<Rightarrow> pyval \<Rightarrow> string list" where
  "check_freshness env now names customer =
     (case fx_cache env of
        None \<Rightarrow> []
      | Some get \<Rightarrow>
          (case get (''feature_ts:'' @ fx_str env customer) of
             Inl ex \<Rightarrow> []
           | Inr v \<Rightarrow>
               (case last_update env v of
                  None \<Rightarrow> []
                | Some t \<Rightarrow>
                    (if older_than ''velocity_1h'' (now - t) then filter (has_substring ''1h'') names else []) @
                    (if older_than ''velocity_24h'' (now - t) then filter (has_substring ''24h'') names else []))))"

section \<open>Retrieval\<close>

definition count_stats :: "(store_stats \<Rightarrow> store_stats) \<Rightarrow> feature_store \<Rightarrow> feature_store" where
  "count_stats f s = s\<lparr>fs_stats := f (fs_stats s)\<rparr>"

text \<open>The loop that fills in the defaults: the features and the names that were missing.\<close>

fun fill_defaults :: "string list \<Rightarrow> (string, real) dict \<Rightarrow> (string, real) dict \<times> string list" where
  "fill_defaults [] fs = (fs, [])"
| "fill_defaults (f # names) fs =
     (if dget fs f = None then (let (fs', missing) = fill_defaults names (dset f (dget_or feature_defaults f 0) fs) in (fs', f # missing))
      else fill_defaults names fs)"

text \<open>The cache first, then the database for what it does not have.\<close>

definition stored_features :: "feature_env \<Rightarrow> pyval \<Rightarrow> pyval \<Rightarrow> feature_store \<Rightarrow> (string, real) dict \<times> feature_store" where
  "stored_features env txn_id customer s =
     (let names = fs_feature_names s;
          cached = get_from_cache env names txn_id customer;
          s1 = (if cached = [] then s else count_stats (\<lambda>st. st\<lparr>st_cache_hits := st_cache_hits st + 1\<rparr>) s);
          remaining = filter (\<lambda>f. dget cached f = None) names;
          found = (if remaining = [] then [] else get_from_db env txn_id remaining);
          s2 = (if found = [] then s1 else count_stats (\<lambda>st. st\<lparr>st_db_hits := st_db_hits st + 1\<rparr>) s1)
      in (layer found cached, s2))"

text \<open>An amount that is no number raises out of the call. The readings are the time of the freshness check, the time of the vector and the elapsed milliseconds.\<close>

definition get_features :: "feature_env \<Rightarrow> datetime \<times> datetime \<times> real \<Rightarrow> pyval \<Rightarrow> pyval \<Rightarrow> txn_dict \<Rightarrow> feature_store \<Rightarrow> feature_vector res \<times> feature_store" where
  "get_features env readings txn_id customer txn s =
     (let (now, computed_at, elapsed) = readings;
          (stored, s1) = stored_features env txn_id customer (count_stats (\<lambda>st. st\<lparr>st_total_retrievals := st_total_retrievals st + 1\<rparr>) s)
      in case store_transaction_features env txn stored of
           Inl ex \<Rightarrow> (Inl ex, s1)
         | Inr computed \<Rightarrow>
             (let fs = layer computed stored;
                  (full, missing) = fill_defaults (fs_feature_names s) (layer (cross_features fs) fs)
              in (Inr \<lparr>fv_transaction_id = txn_id, fv_customer_id = customer, fv_features = full, fv_feature_count = length full,
                       fv_missing_features = missing,
                       fv_stale_features = (if fs_freshness_check_enabled s then check_freshness env now (fs_feature_names s) customer else []),
                       fv_computation_time_ms = elapsed, fv_computed_at = computed_at\<rparr>,
                  count_stats (\<lambda>st. st\<lparr>st_fallbacks_to_default := st_fallbacks_to_default st + int (length missing)\<rparr>) s1)))"

text \<open>One transaction that raises ends the batch.\<close>

fun get_features_batch :: "feature_env \<Rightarrow> ((datetime \<times> datetime \<times> real) \<times> txn_dict) list \<Rightarrow> feature_store \<Rightarrow> feature_vector list res \<times> feature_store" where
  "get_features_batch env [] s = (Inr [], s)"
| "get_features_batch env ((r, txn) # txns) s =
     (case get_features env r (dget_or txn ''transaction_id'' (dget_or txn ''external_transaction_id'' (PStr []))) (dget_or txn ''customer_id'' (PStr [])) txn s of
        (Inl ex, s1) \<Rightarrow> (Inl ex, s1)
      | (Inr v, s1) \<Rightarrow> (case get_features_batch env txns s1 of (Inl ex, s2) \<Rightarrow> (Inl ex, s2) | (Inr vs, s2) \<Rightarrow> (Inr (v # vs), s2)))"

section \<open>Reports\<close>

definition check_feature_freshness :: "feature_env \<Rightarrow> datetime \<Rightarrow> pyval \<Rightarrow> feature_store \<Rightarrow> freshness_report" where
  "check_feature_freshness env now customer s =
     (let total = int (length (fs_feature_names s))
      in if \<not> fs_freshness_check_enabled s
         then \<lparr>fr_total_features = total, fr_fresh_features = total, fr_stale_features = 0, fr_missing_features = 0, fr_is_acceptable = True, fr_details = []\<rparr>
         else (let stale = check_freshness env now (fs_feature_names s) customer
               in \<lparr>fr_total_features = total, fr_fresh_features = total - int (length stale), fr_stale_features = int (length stale), fr_missing_features = 0,
                   fr_is_acceptable = (real (length stale) / of_int (max total 1) < 3 / 10), fr_details = fold (\<lambda>f. dset f ''stale'') stale []\<rparr>))"

definition is_feature_set_valid :: "feature_vector \<Rightarrow> feature_store \<Rightarrow> bool" where
  "is_feature_set_valid v s =
     (fs_feature_names s = [] \<or> real (length (fv_missing_features v)) / real (length (fs_feature_names s)) \<le> fs_max_missing_ratio s)"

definition get_stats :: "feature_store \<Rightarrow> (string, pyval) dict" where
  "get_stats s =
     (let st = fs_stats s; total = max (st_total_retrievals st) 1
      in [(''total_retrievals'', PInt (st_total_retrievals st)), (''cache_hits'', PInt (st_cache_hits st)), (''db_hits'', PInt (st_db_hits st)),
          (''fallbacks_to_default'', PInt (st_fallbacks_to_default st)), (''cache_hit_rate'', PFloat (of_int (st_cache_hits st) / of_int total)),
          (''default_fallback_rate'', PFloat (of_int (st_fallbacks_to_default st) / (of_int total * real (length (fs_feature_names s)))))])"

end
