(* ===== verification/Feature_Store_Properties.thy ===== *)
theory Feature_Store_Properties
  imports Feature_Store
begin

text \<open>
  Properties of the feature store: every vector has a value for every feature, from the layer that comes first; when retrieval raises; the statistics; the report of a
  store with the shipped catalogue, which never complains; and the hour that is never unusual.
\<close>

declare map_of_eq_Some_iff [simp del] Some_eq_map_of_iff [simp del]

section \<open>Layers\<close>

text \<open>A later layer hides an earlier one.\<close>

lemma dget_layer: "distinct (map fst new) \<Longrightarrow> dget (layer new d) k = (case dget new k of None \<Rightarrow> dget d k | Some v \<Rightarrow> Some v)"
proof (induction new arbitrary: d)
  case (Cons x new)
  obtain a b where x: "x = (a, b)" by (cases x)
  have "dget new a = None" using Cons.prems by (simp add: x map_of_eq_None_iff)
  then show ?case using Cons by (auto simp: x layer_def update_conv' split: option.splits)
qed (simp add: layer_def)

lemma wf_layer: "wf_dict d \<Longrightarrow> wf_dict (layer new d)"
  by (induction new arbitrary: d) (auto simp: layer_def distinct_update)

lemma wf_floats: "floats_into d acc = Inr fs \<Longrightarrow> wf_dict acc \<Longrightarrow> wf_dict fs"
proof (induction d acc rule: floats_into.induct)
  case (2 k v d acc)
  then show ?case by (cases "to_float v") (auto simp: distinct_update)
qed simp

lemma wf_floats_of: "wf_dict (floats_of d)"
  using wf_floats [of d "[]"] by (auto simp: floats_of_def split: sum.splits)

lemma wf_from_cache: "wf_dict (get_from_cache env names txn_id customer)"
  by (auto simp: get_from_cache_def wf_floats_of Let_def split: option.splits sum.splits pyval.splits list.splits)

lemma wf_from_db: "wf_dict (get_from_db env txn_id names)"
  by (auto simp: get_from_db_def wf_floats_of split: option.splits sum.splits pyval.splits)

lemma wf_cross: "wf_dict (cross_features fs)"
  by (simp add: cross_features_def Let_def)

definition amount_names :: "string list" where
  "amount_names = [''transaction_amount'', ''amount_log'', ''amount_zscore'', ''amount_to_avg_ratio'', ''amount_deviation_from_mean'']"

definition time_names :: "string list" where
  "time_names = [''hour_of_day'', ''day_of_week'', ''is_weekend'', ''minutes_since_midnight'', ''unusual_hour_flag'']"

definition place_names :: "string list" where
  "place_names = [''is_international'', ''channel_switch_flag'']"

lemma names_apart: "distinct (amount_names @ time_names @ place_names)"
  by (simp add: amount_names_def time_names_def place_names_def)

lemma amount_keys: "distinct (map fst (amount_features env x existing)) \<and> set (map fst (amount_features env x existing)) \<subseteq> set amount_names"
  by (simp add: amount_features_def amount_names_def Let_def)

lemma time_keys: "distinct (map fst (time_features env v)) \<and> set (map fst (time_features env v)) \<subseteq> set time_names"
  by (auto simp: time_features_def time_names_def Let_def split: pyval.splits list.splits option.splits)

lemma place_keys: "distinct (map fst (place_features txn)) \<and> set (map fst (place_features txn)) \<subseteq> set place_names"
  unfolding place_features_def place_names_def Let_def by (simp only: split: if_split) simp

lemma store_transaction_cases:
  assumes "store_transaction_features env txn existing = Inr computed"
  obtains money where "computed = money @ time_features env (pget txn ''transaction_timestamp'') @ place_features txn"
    "money = [] \<and> pget txn ''transaction_amount'' = PNone \<or> (\<exists>x. to_float (pget txn ''transaction_amount'') = Inr x \<and> money = amount_features env x existing)"
  using assms unfolding store_transaction_features_def
  by (cases "to_float (pget txn ''transaction_amount'')") (auto split: if_splits)

lemma wf_computed: "store_transaction_features env txn existing = Inr computed \<Longrightarrow> wf_dict computed"
proof (erule store_transaction_cases)
  fix money
  assume c: "computed = money @ time_features env (pget txn ''transaction_timestamp'') @ place_features txn"
    and m: "money = [] \<and> pget txn ''transaction_amount'' = PNone \<or> (\<exists>x. to_float (pget txn ''transaction_amount'') = Inr x \<and> money = amount_features env x existing)"
  have k: "distinct (map fst money) \<and> set (map fst money) \<subseteq> set amount_names" using m by (elim disjE conjE exE) (simp_all only: amount_keys list.map list.set distinct.simps empty_subsetI simp_thms)
  have "set amount_names \<inter> set time_names = {}" "set amount_names \<inter> set place_names = {}" "set time_names \<inter> set place_names = {}"
    using names_apart unfolding distinct_append by auto
  then show ?thesis
    using k time_keys [of env "pget txn ''transaction_timestamp''"] place_keys [of txn] unfolding c map_append distinct_append set_append by blast
qed

section \<open>Defaults\<close>

lemma fill_keeps: "dget fs f = Some x \<Longrightarrow> dget (fst (fill_defaults names fs)) f = Some x"
proof (induction names fs rule: fill_defaults.induct)
  case (2 g names fs)
  then show ?case by (cases "f = g") (auto simp: update_conv' split: prod.splits)
qed simp

lemma fill_gives:
  "distinct names \<Longrightarrow> snd (fill_defaults names fs) = filter (\<lambda>f. dget fs f = None) names \<and>
     dget (fst (fill_defaults names fs)) f = (case dget fs f of None \<Rightarrow> if f \<in> set names then Some (dget_or feature_defaults f 0) else None | Some x \<Rightarrow> Some x)"
proof (induction names fs rule: fill_defaults.induct)
  case (2 g names fs)
  have "filter (\<lambda>h. dget (dset g y fs) h = None) names = filter (\<lambda>h. dget fs h = None) names" for y
    using "2.prems" by (intro filter_cong) (auto simp: update_conv')
  then show ?case using 2 by (auto simp: update_conv' split: option.splits prod.splits)
qed (simp split: option.splits)

section \<open>Retrieval\<close>

definition first_value :: "'a option list \<Rightarrow> 'a option" where
  "first_value vs = (case filter (\<lambda>v. v \<noteq> None) vs of [] \<Rightarrow> None | v # rest \<Rightarrow> v)"

text \<open>Where a feature comes from: interactions, the transaction, the database for what the cache lacks, the cache, and the defaults last.\<close>

definition layered :: "feature_env \<Rightarrow> string list \<Rightarrow> pyval \<Rightarrow> pyval \<Rightarrow> (string, real) dict \<Rightarrow> (string, real) dict \<Rightarrow> string \<Rightarrow> real option" where
  "layered env names txn_id customer computed cross f =
     (let cached = get_from_cache env names txn_id customer
      in first_value [dget cross f, dget computed f, dget (get_from_db env txn_id (filter (\<lambda>f. dget cached f = None) names)) f, dget cached f])"

lemma db_none_left: "get_from_db env txn_id [] = []"
  by (simp add: get_from_db_def floats_of_def split: option.splits sum.splits pyval.splits)

lemma dget_stored:
  "dget (fst (stored_features env txn_id customer s)) f =
     (let cached = get_from_cache env (fs_feature_names s) txn_id customer
      in first_value [dget (get_from_db env txn_id (filter (\<lambda>f. dget cached f = None) (fs_feature_names s))) f, dget cached f])"
  by (auto simp: stored_features_def Let_def dget_layer wf_from_db first_value_def db_none_left split: option.splits)

lemma stored_frame: "fs_feature_names (snd (stored_features env txn_id customer s)) = fs_feature_names s \<and>
    fs_freshness_check_enabled (snd (stored_features env txn_id customer s)) = fs_freshness_check_enabled s \<and>
    fs_max_missing_ratio (snd (stored_features env txn_id customer s)) = fs_max_missing_ratio s"
  by (simp add: stored_features_def Let_def count_stats_def)

lemma stored_counted: "fst (stored_features env txn_id customer (count_stats f s)) = fst (stored_features env txn_id customer s)"
  by (simp add: stored_features_def Let_def count_stats_def)

lemma get_features_cases:
  assumes "get_features env readings txn_id customer txn s = (Inr v, s')"
  obtains computed where "store_transaction_features env txn (fst (stored_features env txn_id customer s)) = Inr computed"
    "fv_features v = fst (fill_defaults (fs_feature_names s)
       (layer (cross_features (layer computed (fst (stored_features env txn_id customer s)))) (layer computed (fst (stored_features env txn_id customer s)))))"
    "fv_missing_features v = snd (fill_defaults (fs_feature_names s)
       (layer (cross_features (layer computed (fst (stored_features env txn_id customer s)))) (layer computed (fst (stored_features env txn_id customer s)))))"
  using assms
  by (cases "store_transaction_features env txn (fst (stored_features env txn_id customer s))")
    (auto simp: get_features_def case_prod_unfold Let_def stored_counted)

text \<open>A store without cache and database.\<close>

definition plain_env :: feature_env where
  "plain_env = \<lparr>fx_cache = None, fx_db = None, fx_str = (\<lambda>v. []), fx_fromiso = (\<lambda>s. None), fx_log1p = (\<lambda>x. x)\<rparr>"

lemma raises_exactly:
  "(\<exists>ex. fst (get_features env readings txn_id customer txn s) = Inl ex) = (pget txn ''transaction_amount'' \<noteq> PNone \<and> (\<exists>ex. to_float (pget txn ''transaction_amount'') = Inl ex))"
proof -
  have "(\<exists>ex. store_transaction_features env txn existing = Inl ex) = (pget txn ''transaction_amount'' \<noteq> PNone \<and> (\<exists>ex. to_float (pget txn ''transaction_amount'') = Inl ex))" for existing
    by (cases "to_float (pget txn ''transaction_amount'')") (auto simp: store_transaction_features_def)
  moreover have "(\<exists>ex. fst (get_features env readings txn_id customer txn s) = Inl ex) = (\<exists>ex. store_transaction_features env txn (fst (stored_features env txn_id customer s)) = Inl ex)"
    by (cases "store_transaction_features env txn (fst (stored_features env txn_id customer s))") (simp_all add: get_features_def case_prod_unfold Let_def stored_counted)
  ultimately show ?thesis by simp
qed

text \<open>
  Claim C37 (complete vectors). In the vector of a transaction every feature of the store has a value: the one of the first layer that has it, in the order
  interactions, transaction, database, cache, and else its default. The missing features are exactly those that got the default, in the order of the store.
\<close>

theorem vector_complete:
  assumes "get_features env readings txn_id customer txn s = (Inr v, s')" "distinct (fs_feature_names s)"
  shows "\<exists>computed cross. store_transaction_features env txn (fst (stored_features env txn_id customer s)) = Inr computed \<and>
    cross = cross_features (layer computed (fst (stored_features env txn_id customer s))) \<and>
    fv_missing_features v = filter (\<lambda>f. layered env (fs_feature_names s) txn_id customer computed cross f = None) (fs_feature_names s) \<and>
    (\<forall>f \<in> set (fs_feature_names s). dget (fv_features v) f =
       Some (case layered env (fs_feature_names s) txn_id customer computed cross f of None \<Rightarrow> dget_or feature_defaults f 0 | Some x \<Rightarrow> x))"
proof -
  define stored where "stored = fst (stored_features env txn_id customer s)"
  obtain computed where c: "store_transaction_features env txn stored = Inr computed"
    and v: "fv_features v = fst (fill_defaults (fs_feature_names s) (layer (cross_features (layer computed stored)) (layer computed stored)))"
      "fv_missing_features v = snd (fill_defaults (fs_feature_names s) (layer (cross_features (layer computed stored)) (layer computed stored)))"
    using get_features_cases [OF assms(1)] unfolding stored_def by metis
  have l: "dget (layer (cross_features (layer computed stored)) (layer computed stored)) f =
      layered env (fs_feature_names s) txn_id customer computed (cross_features (layer computed stored)) f" for f
    using dget_stored [of env txn_id customer s f]
    by (auto simp: dget_layer wf_cross wf_computed [OF c] layered_def Let_def first_value_def stored_def split: option.splits)
  let ?cross = "cross_features (layer computed stored)"
  have "fv_missing_features v = filter (\<lambda>f. layered env (fs_feature_names s) txn_id customer computed ?cross f = None) (fs_feature_names s)"
    unfolding v(2) using fill_gives [OF assms(2), of "layer ?cross (layer computed stored)"] by (simp only: l)
  moreover have "\<forall>f \<in> set (fs_feature_names s). dget (fv_features v) f =
      Some (case layered env (fs_feature_names s) txn_id customer computed ?cross f of None \<Rightarrow> dget_or feature_defaults f 0 | Some x \<Rightarrow> x)"
    unfolding v(1) using fill_gives [OF assms(2), of "layer ?cross (layer computed stored)"] by (simp only: l) (auto split: option.splits)
  ultimately show ?thesis using c unfolding stored_def by blast
qed

theorem vector_complete_witness:
  "\<exists>v s'. get_features plain_env (0, 0, 0) (PStr ''t'') (PStr ''c'') [(''transaction_amount'', PInt 80)] (new_feature_store [] False 1) = (Inr v, s') \<and>
     (\<forall>f \<in> set feature_catalog. dget (fv_features v) f \<noteq> None)"
proof -
  define s where "s = new_feature_store [] False 1"
  have n: "fs_feature_names s = feature_catalog" by (simp add: s_def new_feature_store_def)
  have d: "distinct (fs_feature_names s)" unfolding n by code_simp
  have "\<nexists>ex. fst (get_features plain_env (0, 0, 0) (PStr ''t'') (PStr ''c'') [(''transaction_amount'', PInt 80)] s) = Inl ex"
    by (simp add: raises_exactly pget_def dget_or_def)
  then obtain v s' where r: "get_features plain_env (0, 0, 0) (PStr ''t'') (PStr ''c'') [(''transaction_amount'', PInt 80)] s = (Inr v, s')"
    by (cases "get_features plain_env (0, 0, 0) (PStr ''t'') (PStr ''c'') [(''transaction_amount'', PInt 80)] s"; cases "fst (get_features plain_env (0, 0, 0) (PStr ''t'') (PStr ''c'') [(''transaction_amount'', PInt 80)] s)") auto
  from vector_complete [OF r d] have "\<forall>f \<in> set feature_catalog. dget (fv_features v) f \<noteq> None" unfolding n by auto
  then show ?thesis using r unfolding s_def by blast
qed

text \<open>
  Remark (when retrieval raises). Retrieving features raises exactly when the transaction has an amount that is no number; neither the cache nor the database, an
  unreadable time or a missing feature makes it raise.
\<close>

theorem retrieval_raises:
  "(\<exists>ex. fst (get_features env readings txn_id customer txn s) = Inl ex) = (pget txn ''transaction_amount'' \<noteq> PNone \<and> (\<exists>ex. to_float (pget txn ''transaction_amount'') = Inl ex))"
  by (rule raises_exactly)

section \<open>Statistics\<close>

definition stats_ok :: "feature_store \<Rightarrow> bool" where
  "stats_ok s =
     (let st = fs_stats s
      in 0 \<le> st_cache_hits st \<and> st_cache_hits st \<le> st_total_retrievals st \<and> 0 \<le> st_db_hits st \<and> st_db_hits st \<le> st_total_retrievals st \<and>
         0 \<le> st_fallbacks_to_default st \<and> st_fallbacks_to_default st \<le> st_total_retrievals st * int (length (fs_feature_names s)) \<and> fs_feature_names s \<noteq> [])"

lemma missing_length: "length (snd (fill_defaults names fs)) \<le> length names"
  by (induction names fs rule: fill_defaults.induct) (auto split: prod.splits)

lemma get_features_stats:
  "\<exists>a b m. fs_stats (snd (get_features env readings txn_id customer txn s)) =
       (let st = fs_stats s in \<lparr>st_total_retrievals = st_total_retrievals st + 1, st_cache_hits = st_cache_hits st + a, st_db_hits = st_db_hits st + b,
          st_fallbacks_to_default = st_fallbacks_to_default st + m\<rparr>) \<and>
     a \<in> {0, 1} \<and> b \<in> {0, 1} \<and> 0 \<le> m \<and> m \<le> int (length (fs_feature_names s)) \<and>
     m = (case fst (get_features env readings txn_id customer txn s) of Inl ex \<Rightarrow> 0 | Inr v \<Rightarrow> int (length (fv_missing_features v))) \<and>
     fs_feature_names (snd (get_features env readings txn_id customer txn s)) = fs_feature_names s"
proof -
  define s1 where "s1 = count_stats (\<lambda>st. st\<lparr>st_total_retrievals := st_total_retrievals st + 1\<rparr>) s"
  obtain a b where h: "fs_stats (snd (stored_features env txn_id customer s1)) =
      (let st = fs_stats s in \<lparr>st_total_retrievals = st_total_retrievals st + 1, st_cache_hits = st_cache_hits st + a, st_db_hits = st_db_hits st + b,
          st_fallbacks_to_default = st_fallbacks_to_default st\<rparr>)" "a \<in> {0, 1}" "b \<in> {0, 1}"
  proof
    let ?c = "get_from_cache env (fs_feature_names s) txn_id customer"
    let ?d = "if filter (\<lambda>f. dget ?c f = None) (fs_feature_names s) = [] then [] else get_from_db env txn_id (filter (\<lambda>f. dget ?c f = None) (fs_feature_names s))"
    show "fs_stats (snd (stored_features env txn_id customer s1)) =
      (let st = fs_stats s in \<lparr>st_total_retrievals = st_total_retrievals st + 1, st_cache_hits = st_cache_hits st + (if ?c = [] then 0 else 1),
         st_db_hits = st_db_hits st + (if ?d = [] then 0 else 1), st_fallbacks_to_default = st_fallbacks_to_default st\<rparr>)"
      by (cases "fs_stats s") (simp add: stored_features_def s1_def count_stats_def Let_def)
  qed simp_all
  have f: "fs_feature_names (snd (stored_features env txn_id customer s1)) = fs_feature_names s" by (simp add: stored_frame s1_def count_stats_def)
  show ?thesis
  proof (cases "store_transaction_features env txn (fst (stored_features env txn_id customer s1))")
    case (Inl ex)
    then show ?thesis using h f by (intro exI [of _ a] exI [of _ b] exI [of _ 0]) (simp add: get_features_def case_prod_unfold Let_def s1_def)
  next
    case (Inr computed)
    let ?m = "snd (fill_defaults (fs_feature_names s) (layer (cross_features (layer computed (fst (stored_features env txn_id customer s1)))) (layer computed (fst (stored_features env txn_id customer s1)))))"
    show ?thesis
      using Inr h f missing_length [of "fs_feature_names s"]
      by (intro exI [of _ a] exI [of _ b] exI [of _ "int (length ?m)"]) (simp add: get_features_def case_prod_unfold Let_def s1_def count_stats_def)
  qed
qed

lemma stats_preserved: "stats_ok s \<Longrightarrow> stats_ok (snd (get_features env readings txn_id customer txn s))"
  using get_features_stats [of env readings txn_id customer txn s] by (auto simp: stats_ok_def Let_def algebra_simps)

text \<open>A run of retrievals, whether they return or raise.\<close>

fun run_store :: "feature_env \<Rightarrow> ((datetime \<times> datetime \<times> real) \<times> pyval \<times> pyval \<times> txn_dict) list \<Rightarrow> feature_store \<Rightarrow> feature_store" where
  "run_store env [] s = s"
| "run_store env ((r, txn_id, customer, txn) # calls) s = run_store env calls (snd (get_features env r txn_id customer txn s))"

lemma run_stats_ok: "stats_ok s \<Longrightarrow> stats_ok (run_store env calls s)"
  by (induction env calls s rule: run_store.induct) (simp_all add: stats_preserved)

text \<open>
  Remark (rates are rates). After any run of a new store the reported rates of cache hits and of defaults are between zero and one, with no division by zero.
\<close>

theorem store_rates:
  "\<exists>hits defaults. dget (get_stats (run_store env calls (new_feature_store names check ratio))) ''cache_hit_rate'' = Some (PFloat hits) \<and>
     dget (get_stats (run_store env calls (new_feature_store names check ratio))) ''default_fallback_rate'' = Some (PFloat defaults) \<and>
     0 \<le> hits \<and> hits \<le> 1 \<and> 0 \<le> defaults \<and> defaults \<le> 1"
proof -
  define s where "s = run_store env calls (new_feature_store names check ratio)"
  have "stats_ok (new_feature_store names check ratio)" by (simp add: stats_ok_def new_feature_store_def feature_catalog_def Let_def)
  then have ok: "stats_ok s" unfolding s_def by (rule run_stats_ok)
  define total where "total = max (st_total_retrievals (fs_stats s)) 1"
  have "st_total_retrievals (fs_stats s) * int (length (fs_feature_names s)) \<le> total * int (length (fs_feature_names s))"
    by (intro mult_right_mono) (simp_all add: total_def)
  moreover have t: "st_total_retrievals (fs_stats s) \<le> total" "0 < total" by (simp_all add: total_def)
  moreover have c: "0 \<le> st_cache_hits (fs_stats s)" "st_cache_hits (fs_stats s) \<le> st_total_retrievals (fs_stats s)" "0 \<le> st_fallbacks_to_default (fs_stats s)"
      "st_fallbacks_to_default (fs_stats s) \<le> st_total_retrievals (fs_stats s) * int (length (fs_feature_names s))" "fs_feature_names s \<noteq> []"
    using ok by (simp_all add: stats_ok_def Let_def)
  ultimately have b: "st_cache_hits (fs_stats s) \<le> total" "st_fallbacks_to_default (fs_stats s) \<le> total * int (length (fs_feature_names s))"
      "0 \<le> st_cache_hits (fs_stats s)" "0 \<le> st_fallbacks_to_default (fs_stats s)" "0 < total"
    by linarith+
  have p: "0 < real_of_int total" using b(5) by simp
  have l: "0 < real (length (fs_feature_names s))" using c(5) by simp
  have "real_of_int (st_fallbacks_to_default (fs_stats s)) \<le> real_of_int total * real (length (fs_feature_names s))"
    using b(2) by (metis of_int_le_iff of_int_mult of_int_of_nat_eq)
  then have "real_of_int (st_fallbacks_to_default (fs_stats s)) / (real_of_int total * real (length (fs_feature_names s))) \<le> 1"
    using p l by (simp add: divide_le_eq)
  moreover have "real_of_int (st_cache_hits (fs_stats s)) / real_of_int total \<le> 1" using b(1) p by (simp add: divide_le_eq)
  ultimately show ?thesis using b(3,4) p l unfolding s_def [symmetric] by (simp add: get_stats_def total_def Let_def)
qed

section \<open>Freshness and hours\<close>

lemma stale_bound:
  "length (check_freshness env now names customer) \<le> length (filter (has_substring ''1h'') names) + length (filter (has_substring ''24h'') names)"
  by (simp add: check_freshness_def split: option.splits sum.splits)

text \<open>
  Remark (the report never complains). With the shipped catalogue at most twelve of the fifty-six features can be stale, so the report of freshness is acceptable
  whatever the age of the features.
\<close>

theorem catalogue_always_acceptable:
  assumes "fs_feature_names s = feature_catalog"
  shows "fr_is_acceptable (check_feature_freshness env now customer s) \<and> fr_stale_features (check_feature_freshness env now customer s) \<le> 12 \<and>
    fr_total_features (check_feature_freshness env now customer s) = 56"
proof -
  have n: "length feature_catalog = 56" by (simp add: feature_catalog_def)
  have "length (filter (has_substring ''1h'') feature_catalog) + length (filter (has_substring ''24h'') feature_catalog) = 12" by code_simp
  then have "length (check_freshness env now feature_catalog customer) \<le> 12" using stale_bound [of env now feature_catalog customer] by simp
  then show ?thesis using n assms by (simp add: check_feature_freshness_def Let_def)
qed

theorem catalogue_always_acceptable_witness:
  "fr_is_acceptable (check_feature_freshness \<lparr>fx_cache = Some (\<lambda>k. Inr (PInt 0)), fx_db = None, fx_str = (\<lambda>v. []), fx_fromiso = (\<lambda>s. None), fx_log1p = (\<lambda>x. x)\<rparr>
     1800000000000000 PNone (new_feature_store [] True (1 / 5)))"
  by (rule catalogue_always_acceptable [THEN conjunct1]) (simp add: new_feature_store_def)

text \<open>
  Remark (unusual hours). The flag of unusual hours is set exactly in the first six hours of the day; the hour from eleven at night is never unusual.
\<close>

theorem unusual_hours:
  assumes "fx_fromiso env (replace_Z s) = Some (w, z)" "s \<noteq> []"
  shows "dget (time_features env (PStr s)) ''unusual_hour_flag'' = Some (flag (w div 3600000000 mod 24 < 6))"
proof -
  have "w div 3600000000 mod 24 < 24" by simp
  then have "\<not> 23 < w div 3600000000 mod 24" by linarith
  then show ?thesis using assms by (cases s) (simp_all add: time_features_def Let_def)
qed

theorem unusual_hours_witness:
  "dget (time_features \<lparr>fx_cache = None, fx_db = None, fx_str = (\<lambda>v. []), fx_fromiso = (\<lambda>s. Some (84600000000, None)), fx_log1p = (\<lambda>x. x)\<rparr> (PStr ''2026-01-01T23:30:00Z'')) ''unusual_hour_flag'' = Some 0"
proof -
  have h: "84600000000 div 3600000000 mod 24 = (23 :: int)" by code_simp
  have "dget (time_features \<lparr>fx_cache = None, fx_db = None, fx_str = (\<lambda>v. []), fx_fromiso = (\<lambda>s. Some (84600000000, None)), fx_log1p = (\<lambda>x. x)\<rparr> (PStr ''2026-01-01T23:30:00Z'')) ''unusual_hour_flag'' = Some (flag (84600000000 div 3600000000 mod 24 < (6 :: int)))"
    by (rule unusual_hours) simp_all
  then show ?thesis unfolding h by (simp add: flag_def)
qed

end
