(* ===== verification/Model_Monitor.thy ===== *)
theory Model_Monitor
  imports Schema_Validator
begin

text \<open>
  The model monitor of \<^verbatim>\<open>src/fraud_detection/model_monitor.py\<close>: the windows of scores, features, latencies and errors, drift against a baseline, the quality of
  inputs, and the alerts. What numpy and scipy compute from arrays, number formats and the clock are arguments; a number that is not a number is \<open>None\<close>, and \<open>PNone\<close>
  among the details of an alert. Baselines and bins are not empty.
\<close>

section \<open>The numerical library\<close>

text \<open>
  \<open>nl_histogram\<close> and \<open>nl_histogram_unit\<close> are \<^verbatim>\<open>np.histogram\<close> with \<^verbatim>\<open>density=True\<close>, on given edges and on a number of bins of the unit interval with its edges; without a
  value in range the densities are not numbers. \<open>nl_now n\<close> is the reading of the clock for the alert number \<open>n\<close>.
\<close>

record numeric_lib =
  nl_histogram :: "real list \<Rightarrow> real list \<Rightarrow> real list option"
  nl_histogram_unit :: "real list \<Rightarrow> nat \<Rightarrow> real list option \<times> real list"
  nl_bin_edges :: "real list \<Rightarrow> nat \<Rightarrow> real list"
  nl_log :: "real \<Rightarrow> real"
  nl_mean :: "real list \<Rightarrow> real"
  nl_std :: "real list \<Rightarrow> real"
  nl_median :: "real list \<Rightarrow> real"
  nl_percentile :: "real list \<Rightarrow> real \<Rightarrow> real"
  nl_ks_2samp :: "real list \<Rightarrow> real list \<Rightarrow> real \<times> real"
  nl_fixed :: "nat \<Rightarrow> real \<Rightarrow> string"
  nl_percent :: "real \<Rightarrow> string"
  nl_str :: "real \<Rightarrow> string"
  nl_now :: "nat \<Rightarrow> string"

definition number :: "real option \<Rightarrow> pyval" where
  "number x = (case x of None \<Rightarrow> PNone | Some x \<Rightarrow> PFloat x)"

text \<open>A comparison with a number that is not a number does not hold.\<close>

definition exceeds :: "real option \<Rightarrow> real \<Rightarrow> bool" where
  "exceeds x t = (case x of None \<Rightarrow> False | Some x \<Rightarrow> t < x)"

text \<open>\<^verbatim>\<open>deque(maxlen=n)\<close>: the last \<open>n\<close> of what was appended.\<close>

definition keep_last :: "nat \<Rightarrow> 'a list \<Rightarrow> 'a list" where
  "keep_last n xs = drop (length xs - n) xs"

section \<open>Population stability\<close>

definition epsilon :: real where
  "epsilon = 1 / 10 ^ 8"

definition normalized :: "real list \<Rightarrow> real list" where
  "normalized hist = (let xs = map (\<lambda>x. x + epsilon) hist in map (\<lambda>x. x / sum_list xs) xs)"

definition stability_index :: "numeric_lib \<Rightarrow> real list \<Rightarrow> real list \<Rightarrow> real" where
  "stability_index np baseline current =
     sum_list (map2 (\<lambda>b c. (c - b) * nl_log np (c / b)) (normalized baseline) (normalized current))"

definition stability_of :: "numeric_lib \<Rightarrow> real list option \<Rightarrow> real list option \<Rightarrow> real option" where
  "stability_of np baseline current =
     (case (baseline, current) of (Some b, Some c) \<Rightarrow> Some (stability_index np b c) | _ \<Rightarrow> None)"

section \<open>Alerts\<close>

datatype monitor_severity = Mon_INFO | Mon_WARNING | Mon_CRITICAL

fun severity_text :: "monitor_severity \<Rightarrow> string" where
  "severity_text Mon_INFO = ''info''" | "severity_text Mon_WARNING = ''warning''" | "severity_text Mon_CRITICAL = ''critical''"

datatype drift_type = Drift_PREDICTION | Drift_FEATURE | Drift_PERFORMANCE | Drift_DATA_QUALITY

fun drift_text :: "drift_type \<Rightarrow> string" where
  "drift_text Drift_PREDICTION = ''prediction_drift''"
| "drift_text Drift_FEATURE = ''feature_drift''"
| "drift_text Drift_PERFORMANCE = ''performance_degradation''"
| "drift_text Drift_DATA_QUALITY = ''data_quality''"

record monitoring_alert =
  mt_alert_id :: string
  mt_severity :: monitor_severity
  mt_drift_type :: drift_type
  mt_message :: string
  mt_metric_name :: string
  mt_metric_value :: real
  mt_threshold :: real
  mt_model_version :: string
  mt_timestamp :: string
  mt_details :: "(string, pyval) dict"

definition monitoring_alert_to_dict :: "monitoring_alert \<Rightarrow> (string, pyval) dict" where
  "monitoring_alert_to_dict a =
     [(''alert_id'', PStr (mt_alert_id a)), (''severity'', PStr (severity_text (mt_severity a))), (''drift_type'', PStr (drift_text (mt_drift_type a))),
      (''message'', PStr (mt_message a)), (''metric_name'', PStr (mt_metric_name a)), (''metric_value'', PFloat (mt_metric_value a)),
      (''threshold'', PFloat (mt_threshold a)), (''model_version'', PStr (mt_model_version a)), (''timestamp'', PStr (mt_timestamp a)),
      (''details'', PDict (mt_details a))]"

section \<open>The window of scores\<close>

record score_tracker =
  pt_window_size :: nat
  pt_n_bins :: nat
  pt_scores :: "real list"
  pt_baseline :: "(real list option \<times> real list) option"

definition new_score_tracker :: "nat \<Rightarrow> nat \<Rightarrow> score_tracker" where
  "new_score_tracker window bins = \<lparr>pt_window_size = window, pt_n_bins = bins, pt_scores = [], pt_baseline = None\<rparr>"

definition tracker_record_batch :: "real list \<Rightarrow> score_tracker \<Rightarrow> score_tracker" where
  "tracker_record_batch scores t = t\<lparr>pt_scores := keep_last (pt_window_size t) (pt_scores t @ scores)\<rparr>"

definition tracker_record :: "real \<Rightarrow> score_tracker \<Rightarrow> score_tracker" where
  "tracker_record score t = t\<lparr>pt_scores := keep_last (pt_window_size t) (pt_scores t @ [score])\<rparr>"

definition tracker_set_baseline :: "numeric_lib \<Rightarrow> real list option \<Rightarrow> score_tracker \<Rightarrow> score_tracker" where
  "tracker_set_baseline np scores t =
     (case scores of
        Some xs \<Rightarrow> t\<lparr>pt_baseline := Some (nl_histogram_unit np xs (pt_n_bins t))\<rparr>
      | None \<Rightarrow> if pt_scores t = [] then t else t\<lparr>pt_baseline := Some (nl_histogram_unit np (pt_scores t) (pt_n_bins t))\<rparr>)"

definition get_current_stats :: "numeric_lib \<Rightarrow> score_tracker \<Rightarrow> (string, pyval) dict" where
  "get_current_stats np t =
     (let xs = pt_scores t; pct = (\<lambda>q. PFloat (nl_percentile np xs q))
      in if xs = [] then [(''count'', PInt 0), (''mean'', PFloat 0), (''std'', PFloat 0), (''median'', PFloat 0)]
         else [(''count'', PInt (int (length xs))), (''mean'', PFloat (nl_mean np xs)), (''std'', PFloat (nl_std np xs)), (''median'', PFloat (nl_median np xs)),
               (''p5'', pct 5), (''p25'', pct 25), (''p75'', pct 75), (''p95'', pct 95), (''min'', PFloat (Min (set xs))), (''max'', PFloat (Max (set xs)))])"

text \<open>\<open>None\<close> without a baseline or a hundred scores; \<open>Some None\<close> when the index is not a number.\<close>

definition compute_psi :: "numeric_lib \<Rightarrow> score_tracker \<Rightarrow> real option option" where
  "compute_psi np t =
     (case pt_baseline t of
        None \<Rightarrow> None
      | Some (hist, edges) \<Rightarrow> if length (pt_scores t) < 100 then None else Some (stability_of np hist (nl_histogram np (pt_scores t) edges)))"

section \<open>Drift of features\<close>

record feature_drift =
  dr_feature_name :: string
  dr_drift_score :: "real option"
  dr_is_drifted :: bool
  dr_test_method :: string
  dr_p_value :: "real option"
  dr_threshold :: real
  dr_details :: "(string, pyval) dict"

record drift_detector =
  dd_feature_names :: "string list"
  dd_window_size :: nat
  dd_psi_threshold :: real
  dd_ks_threshold :: real
  dd_windows :: "(string, real list) dict"
  dd_baselines :: "(string, real list) dict"

definition new_drift_detector :: "string list \<Rightarrow> nat \<Rightarrow> real \<Rightarrow> real \<Rightarrow> drift_detector" where
  "new_drift_detector names window psi ks =
     \<lparr>dd_feature_names = names, dd_window_size = window, dd_psi_threshold = psi, dd_ks_threshold = ks,
      dd_windows = fold (\<lambda>name. dset name []) names [], dd_baselines = []\<rparr>"

definition detector_set_baseline :: "(string, real list) dict \<Rightarrow> drift_detector \<Rightarrow> drift_detector" where
  "detector_set_baseline data d =
     d\<lparr>dd_baselines := fold (\<lambda>(name, xs) bs. if name \<in> set (dd_feature_names d) then dset name xs bs else bs) data (dd_baselines d)\<rparr>"

text \<open>Appending to the window of a feature; an unknown name is skipped.\<close>

definition extend_window :: "string \<Rightarrow> real list \<Rightarrow> drift_detector \<Rightarrow> drift_detector" where
  "extend_window name xs d =
     (case dget (dd_windows d) name of
        None \<Rightarrow> d
      | Some w \<Rightarrow> d\<lparr>dd_windows := dset name (keep_last (dd_window_size d) (w @ xs)) (dd_windows d)\<rparr>)"

definition detector_record :: "(string, real) dict \<Rightarrow> drift_detector \<Rightarrow> drift_detector" where
  "detector_record features d = fold (\<lambda>(name, x). extend_window name [x]) features d"

text \<open>A matrix is the list of its columns.\<close>

definition detector_record_batch :: "real list list \<Rightarrow> drift_detector \<Rightarrow> drift_detector" where
  "detector_record_batch columns d = fold (\<lambda>(name, xs). extend_window name xs) (zip (dd_feature_names d) columns) d"

definition compute_feature_psi :: "numeric_lib \<Rightarrow> drift_detector \<Rightarrow> string \<Rightarrow> real list \<Rightarrow> real list \<Rightarrow> feature_drift" where
  "compute_feature_psi np d name baseline current =
     (let edges = nl_bin_edges np baseline 20;
          psi = stability_of np (nl_histogram np baseline edges) (nl_histogram np current edges)
      in \<lparr>dr_feature_name = name, dr_drift_score = psi, dr_is_drifted = exceeds psi (dd_psi_threshold d), dr_test_method = ''psi'', dr_p_value = None,
          dr_threshold = dd_psi_threshold d,
          dr_details = [(''psi_value'', number psi), (''n_baseline'', PInt (int (length baseline))), (''n_current'', PInt (int (length current)))]\<rparr>)"

definition compute_ks_test :: "numeric_lib \<Rightarrow> drift_detector \<Rightarrow> string \<Rightarrow> real list \<Rightarrow> real list \<Rightarrow> feature_drift" where
  "compute_ks_test np d name baseline current =
     (let (statistic, p) = nl_ks_2samp np baseline current
      in \<lparr>dr_feature_name = name, dr_drift_score = Some statistic, dr_is_drifted = p < dd_ks_threshold d, dr_test_method = ''ks'', dr_p_value = Some p,
          dr_threshold = dd_ks_threshold d,
          dr_details = [(''ks_statistic'', PFloat statistic), (''p_value'', PFloat p), (''n_baseline'', PInt (int (length baseline))),
                        (''n_current'', PInt (int (length current)))]\<rparr>)"

definition compute_mean_shift :: "numeric_lib \<Rightarrow> drift_detector \<Rightarrow> string \<Rightarrow> real list \<Rightarrow> real list \<Rightarrow> feature_drift" where
  "compute_mean_shift np d name baseline current =
     (let m = nl_mean np baseline; s = (if nl_std np baseline = 0 then epsilon else nl_std np baseline); c = nl_mean np current; shift = \<bar>c - m\<bar> / s
      in \<lparr>dr_feature_name = name, dr_drift_score = Some shift, dr_is_drifted = 3 < shift, dr_test_method = ''mean_shift'', dr_p_value = None, dr_threshold = 3,
          dr_details = [(''baseline_mean'', PFloat m), (''baseline_std'', PFloat s), (''current_mean'', PFloat c), (''shift_z_score'', PFloat shift)]\<rparr>)"

text \<open>Any method but the first two is the shift of the mean.\<close>

definition drift_of :: "numeric_lib \<Rightarrow> drift_detector \<Rightarrow> string \<Rightarrow> string \<Rightarrow> real list \<Rightarrow> real list \<Rightarrow> feature_drift" where
  "drift_of np d meth = (if meth = ''psi'' then compute_feature_psi np d else if meth = ''ks'' then compute_ks_test np d else compute_mean_shift np d)"

fun detect_names :: "numeric_lib \<Rightarrow> drift_detector \<Rightarrow> string \<Rightarrow> string list \<Rightarrow> feature_drift list res" where
  "detect_names np d meth [] = Inr []"
| "detect_names np d meth (name # names) =
     (case dget (dd_baselines d) name of
        None \<Rightarrow> detect_names np d meth names
      | Some baseline \<Rightarrow>
          (case dget (dd_windows d) name of
             None \<Rightarrow> Inl KeyError
           | Some current \<Rightarrow>
               if length current < 100 then detect_names np d meth names
               else res_bind (detect_names np d meth names) (\<lambda>rest. Inr (drift_of np d meth name baseline current # rest))))"

definition detect_drift :: "numeric_lib \<Rightarrow> string \<Rightarrow> drift_detector \<Rightarrow> feature_drift list res" where
  "detect_drift np meth d = detect_names np d meth (dd_feature_names d)"

definition get_drifted_features :: "numeric_lib \<Rightarrow> string \<Rightarrow> drift_detector \<Rightarrow> feature_drift list res" where
  "get_drifted_features np meth d = res_bind (detect_drift np meth d) (\<lambda>rs. Inr (filter dr_is_drifted rs))"

section \<open>The quality of inputs\<close>

record quality_report =
  qr_timestamp :: string
  qr_total_features :: nat
  qr_missing_count :: nat
  qr_out_of_range_count :: nat
  qr_type_mismatch_count :: nat
  qr_issues :: "(string, pyval) dict list"

definition new_quality_report :: "string \<Rightarrow> nat \<Rightarrow> quality_report" where
  "new_quality_report now n =
     \<lparr>qr_timestamp = now, qr_total_features = n, qr_missing_count = 0, qr_out_of_range_count = 0, qr_type_mismatch_count = 0, qr_issues = []\<rparr>"

definition is_healthy :: "quality_report \<Rightarrow> bool" where
  "is_healthy r = (qr_missing_count r = 0 \<and> qr_out_of_range_count r = 0 \<and> qr_type_mismatch_count r = 0)"

definition quality_score :: "quality_report \<Rightarrow> real" where
  "quality_score r =
     (if qr_total_features r = 0 then 1
      else max 0 (1 - real (qr_missing_count r + qr_out_of_range_count r + qr_type_mismatch_count r) / real (qr_total_features r)))"

record quality_checker =
  qc_feature_names :: "string list"
  qc_feature_ranges :: "(string, real \<times> real) dict"
  qc_required_features :: "string list"

definition new_quality_checker :: "string list \<Rightarrow> (string, real \<times> real) dict \<Rightarrow> string list \<Rightarrow> quality_checker" where
  "new_quality_checker names ranges required =
     \<lparr>qc_feature_names = names, qc_feature_ranges = ranges, qc_required_features = (if required = [] then names else required)\<rparr>"

definition add_missing :: "(string, pyval) dict \<Rightarrow> quality_report \<Rightarrow> quality_report" where
  "add_missing issue r = r\<lparr>qr_missing_count := qr_missing_count r + 1, qr_issues := qr_issues r @ [issue]\<rparr>"

definition add_mismatch :: "(string, pyval) dict \<Rightarrow> quality_report \<Rightarrow> quality_report" where
  "add_mismatch issue r = r\<lparr>qr_type_mismatch_count := qr_type_mismatch_count r + 1, qr_issues := qr_issues r @ [issue]\<rparr>"

definition add_out_of_range :: "(string, pyval) dict \<Rightarrow> quality_report \<Rightarrow> quality_report" where
  "add_out_of_range issue r = r\<lparr>qr_out_of_range_count := qr_out_of_range_count r + 1, qr_issues := qr_issues r @ [issue]\<rparr>"

definition check_required :: "(string, pyval) dict \<Rightarrow> string \<Rightarrow> quality_report \<Rightarrow> quality_report" where
  "check_required features name r =
     (if pget features name = PNone
      then add_missing [(''type'', PStr ''missing''), (''feature'', PStr name), (''message'', PStr (''Required feature '' @ [CHR 39] @ name @ [CHR 39] @ '' is missing or null''))] r
      else r)"

definition check_value :: "quality_checker \<Rightarrow> string \<times> pyval \<Rightarrow> quality_report \<Rightarrow> quality_report" where
  "check_value q entry r =
     (let (name, v) = entry
      in if name \<notin> set (qc_feature_names q) \<or> v = PNone then r
         else (case num_val v of
                 None \<Rightarrow> add_mismatch [(''type'', PStr ''type_mismatch''), (''feature'', PStr name), (''expected'', PStr ''numeric''), (''got'', PStr (type_name v))] r
               | Some x \<Rightarrow>
                   (case dget (qc_feature_ranges q) name of
                      None \<Rightarrow> r
                    | Some (low, high) \<Rightarrow>
                        if x < low \<or> high < x
                        then add_out_of_range [(''type'', PStr ''out_of_range''), (''feature'', PStr name), (''value'', PFloat x),
                               (''expected_range'', PList [PFloat low, PFloat high])] r
                        else r)))"

definition quality_check :: "string \<Rightarrow> quality_checker \<Rightarrow> (string, pyval) dict \<Rightarrow> quality_report" where
  "quality_check now q features =
     fold (check_value q) features (fold (check_required features) (qc_required_features q) (new_quality_report now (length (qc_feature_names q))))"

text \<open>One column of a batch; \<open>None\<close> in a column is not a number, and a column beyond the matrix is missing.\<close>

definition check_column :: "quality_checker \<Rightarrow> nat \<Rightarrow> string \<Rightarrow> real option list option \<Rightarrow> quality_report \<Rightarrow> quality_report" where
  "check_column q i name column r =
     (case column of
        None \<Rightarrow> add_missing [(''type'', PStr ''missing''), (''feature'', PStr name), (''message'', PStr (''Feature column '' @ nat_str i @ '' missing from input matrix''))] r
      | Some xs \<Rightarrow>
          (let nans = length (filter (\<lambda>x. x = None) xs); valid = List.map_filter (\<lambda>x. x) xs;
               r1 = (if 0 < nans
                     then add_missing [(''type'', PStr ''missing''), (''feature'', PStr name), (''nan_count'', PInt (int nans)),
                            (''nan_fraction'', PFloat (real nans / real (length xs)))] r
                     else r)
           in case dget (qc_feature_ranges q) name of
                None \<Rightarrow> r1
              | Some (low, high) \<Rightarrow>
                  if valid \<noteq> [] \<and> (Min (set valid) < low \<or> high < Max (set valid))
                  then add_out_of_range [(''type'', PStr ''out_of_range''), (''feature'', PStr name), (''actual_min'', PFloat (Min (set valid))),
                         (''actual_max'', PFloat (Max (set valid))), (''expected_range'', PList [PFloat low, PFloat high])] r1
                  else r1))"

definition check_batch :: "string \<Rightarrow> quality_checker \<Rightarrow> real option list list \<Rightarrow> quality_report" where
  "check_batch now q columns =
     fold (\<lambda>(i, name). check_column q i name (if i < length columns then Some (columns ! i) else None)) (enumerate 0 (qc_feature_names q))
       (new_quality_report now (length (qc_feature_names q)))"

section \<open>The monitor\<close>

record model_monitor =
  mm_model_version :: string
  mm_feature_names :: "string list"
  mm_latency_threshold_ms :: real
  mm_error_rate_threshold :: real
  mm_tracker :: score_tracker
  mm_detector :: drift_detector
  mm_checker :: quality_checker
  mm_window_size :: nat
  mm_latencies :: "real list"
  mm_error_window :: "bool list"
  mm_alert_history :: "monitoring_alert list"
  mm_alert_counter :: nat

definition new_model_monitor :: "string \<Rightarrow> string list \<Rightarrow> nat \<Rightarrow> nat \<Rightarrow> real \<Rightarrow> real \<Rightarrow> real \<Rightarrow> real \<Rightarrow> (string, real \<times> real) dict \<Rightarrow> model_monitor" where
  "new_model_monitor version names window feature_window psi ks latency error_rate ranges =
     \<lparr>mm_model_version = version, mm_feature_names = names, mm_latency_threshold_ms = latency, mm_error_rate_threshold = error_rate,
      mm_tracker = new_score_tracker window 50, mm_detector = new_drift_detector names feature_window psi ks, mm_checker = new_quality_checker names ranges [],
      mm_window_size = window, mm_latencies = [], mm_error_window = [], mm_alert_history = [], mm_alert_counter = 0\<rparr>"

definition alert_ident :: "nat \<Rightarrow> string" where
  "alert_ident n = ''MON-'' @ replicate (6 - length (nat_str n)) CHR ''0'' @ nat_str n"

definition create_monitor_alert ::
  "numeric_lib \<Rightarrow> monitor_severity \<Rightarrow> drift_type \<Rightarrow> string \<Rightarrow> string \<Rightarrow> real \<Rightarrow> real \<Rightarrow> (string, pyval) dict \<Rightarrow> model_monitor \<Rightarrow> monitoring_alert \<times> model_monitor" where
  "create_monitor_alert np severity drift message metric v threshold details m =
     (let n = mm_alert_counter m + 1;
          a = \<lparr>mt_alert_id = alert_ident n, mt_severity = severity, mt_drift_type = drift, mt_message = message, mt_metric_name = metric, mt_metric_value = v,
               mt_threshold = threshold, mt_model_version = mm_model_version m, mt_timestamp = nl_now np n, mt_details = details\<rparr>
      in (a, m\<lparr>mm_alert_counter := n, mm_alert_history := mm_alert_history m @ [a]\<rparr>))"

definition set_baselines :: "numeric_lib \<Rightarrow> real list option \<Rightarrow> (string, real list) dict option \<Rightarrow> model_monitor \<Rightarrow> model_monitor" where
  "set_baselines np scores data m =
     m\<lparr>mm_tracker := (case scores of None \<Rightarrow> mm_tracker m | Some xs \<Rightarrow> tracker_set_baseline np (Some xs) (mm_tracker m)),
       mm_detector := (case data of None \<Rightarrow> mm_detector m | Some d \<Rightarrow> detector_set_baseline d (mm_detector m))\<rparr>"

definition record_prediction :: "numeric_lib \<Rightarrow> real \<Rightarrow> (string, real) dict \<Rightarrow> real \<Rightarrow> bool \<Rightarrow> model_monitor \<Rightarrow> monitoring_alert list \<times> model_monitor" where
  "record_prediction np score features latency err m =
     (let m1 = m\<lparr>mm_tracker := tracker_record score (mm_tracker m), mm_detector := detector_record features (mm_detector m),
                 mm_latencies := keep_last (mm_window_size m) (mm_latencies m @ [latency]), mm_error_window := keep_last 1000 (mm_error_window m @ [err])\<rparr>
      in if mm_latency_threshold_ms m < latency
         then (let (a, m2) = create_monitor_alert np Mon_WARNING Drift_PERFORMANCE
                     (''Prediction latency '' @ nl_fixed np 1 latency @ ''ms exceeds threshold '' @ nl_str np (mm_latency_threshold_ms m) @ ''ms'')
                     ''prediction_latency_ms'' latency (mm_latency_threshold_ms m) [] m1
               in ([a], m2))
         else ([], m1))"

definition monitor_record_batch :: "real list \<Rightarrow> real list list option \<Rightarrow> real \<Rightarrow> int \<Rightarrow> model_monitor \<Rightarrow> monitoring_alert list \<times> model_monitor" where
  "monitor_record_batch scores columns latency errors m =
     (let n = length scores; each = (if 0 < n then latency / real n else 0)
      in ([], m\<lparr>mm_tracker := tracker_record_batch scores (mm_tracker m),
               mm_detector := (case columns of None \<Rightarrow> mm_detector m | Some cs \<Rightarrow> detector_record_batch cs (mm_detector m)),
               mm_latencies := keep_last (mm_window_size m) (mm_latencies m @ replicate n each),
               mm_error_window := keep_last 1000 (mm_error_window m @ map (\<lambda>i. int i < errors) [0..<n])\<rparr>))"

section \<open>Checks\<close>

definition check_prediction_drift :: "numeric_lib \<Rightarrow> model_monitor \<Rightarrow> monitoring_alert list \<times> model_monitor" where
  "check_prediction_drift np m =
     (case compute_psi np (mm_tracker m) of
        Some (Some psi) \<Rightarrow>
          if psi \<le> 1 / 10 then ([], m)
          else (let (a, m1) = create_monitor_alert np (if 1 / 4 < psi then Mon_CRITICAL else Mon_WARNING) Drift_PREDICTION
                      (''Prediction distribution drift detected (PSI='' @ nl_fixed np 4 psi @ '')'') ''prediction_psi'' psi (1 / 10)
                      [(''current_stats'', PDict (get_current_stats np (mm_tracker m)))] m
                in ([a], m1))
      | _ \<Rightarrow> ([], m))"

text \<open>A drifted feature has a score that is a number.\<close>

fun alert_features :: "numeric_lib \<Rightarrow> feature_drift list \<Rightarrow> model_monitor \<Rightarrow> monitoring_alert list \<times> model_monitor" where
  "alert_features np [] m = ([], m)"
| "alert_features np (r # rs) m =
     (let score = (case dr_drift_score r of None \<Rightarrow> 0 | Some x \<Rightarrow> x);
          (a, m1) = create_monitor_alert np (if 1 / 2 < score then Mon_CRITICAL else Mon_WARNING) Drift_FEATURE
            (''Feature '' @ [CHR 39] @ dr_feature_name r @ [CHR 39] @ '' drift detected ('' @ dr_test_method r @ ''='' @ nl_fixed np 4 score @ '')'')
            (''feature_drift_'' @ dr_feature_name r) score (dr_threshold r) (dr_details r) m;
          (rest, m2) = alert_features np rs m1
      in (a # rest, m2))"

definition check_feature_drift :: "numeric_lib \<Rightarrow> string \<Rightarrow> model_monitor \<Rightarrow> monitoring_alert list res \<times> model_monitor" where
  "check_feature_drift np meth m =
     (case get_drifted_features np meth (mm_detector m) of
        Inl ex \<Rightarrow> (Inl ex, m)
      | Inr rs \<Rightarrow> (let (alerts, m1) = alert_features np rs m in (Inr alerts, m1)))"

definition count_errors :: "bool list \<Rightarrow> int" where
  "count_errors es = int (length (filter (\<lambda>e. e) es))"

definition check_latency :: "numeric_lib \<Rightarrow> model_monitor \<Rightarrow> monitoring_alert list \<times> model_monitor" where
  "check_latency np m =
     (let ls = mm_latencies m; p95 = nl_percentile np ls 95
      in if 100 \<le> length ls \<and> mm_latency_threshold_ms m < p95
         then (let (a, m1) = create_monitor_alert np Mon_WARNING Drift_PERFORMANCE (''P95 latency '' @ nl_fixed np 1 p95 @ ''ms exceeds threshold'') ''p95_latency_ms'' p95
                     (mm_latency_threshold_ms m)
                     [(''p50_latency'', PFloat (nl_percentile np ls 50)), (''p99_latency'', PFloat (nl_percentile np ls 99)), (''window_size'', PInt (int (length ls)))] m
               in ([a], m1))
         else ([], m))"

definition check_error_rate :: "numeric_lib \<Rightarrow> model_monitor \<Rightarrow> monitoring_alert list \<times> model_monitor" where
  "check_error_rate np m =
     (let es = mm_error_window m; rate = of_int (count_errors es) / real (length es)
      in if 100 \<le> length es \<and> mm_error_rate_threshold m < rate
         then (let (a, m1) = create_monitor_alert np Mon_CRITICAL Drift_PERFORMANCE
                     (''Error rate '' @ nl_percent np rate @ '' exceeds threshold '' @ nl_percent np (mm_error_rate_threshold m)) ''error_rate'' rate
                     (mm_error_rate_threshold m) [(''total_errors'', PInt (count_errors es)), (''window_size'', PInt (int (length es)))] m
               in ([a], m1))
         else ([], m))"

definition check_performance :: "numeric_lib \<Rightarrow> model_monitor \<Rightarrow> monitoring_alert list \<times> model_monitor" where
  "check_performance np m = (let (as1, m1) = check_latency np m; (as2, m2) = check_error_rate np m1 in (as1 @ as2, m2))"

text \<open>All checks; the second result are the alerts handed to the callback, in order, when there is one.\<close>

definition run_all_checks :: "numeric_lib \<Rightarrow> bool \<Rightarrow> model_monitor \<Rightarrow> monitoring_alert list res \<times> monitoring_alert list \<times> model_monitor" where
  "run_all_checks np callback m =
     (let (as1, m1) = check_prediction_drift np m
      in case check_feature_drift np ''psi'' m1 of
           (Inl ex, m2) \<Rightarrow> (Inl ex, [], m2)
         | (Inr as2, m2) \<Rightarrow>
             (let (as3, m3) = check_performance np m2; alerts = as1 @ as2 @ as3 in (Inr alerts, if callback then alerts else [], m3)))"

definition get_health_status :: "numeric_lib \<Rightarrow> model_monitor \<Rightarrow> (string, pyval) dict" where
  "get_health_status np m =
     (let psi = compute_psi np (mm_tracker m); es = mm_error_window m; ls = mm_latencies m;
          rate = (if es = [] then 0 else of_int (count_errors es) / real (length es));
          health = (if mm_error_rate_threshold m < rate then ''unhealthy''
                    else case psi of Some x \<Rightarrow> if exceeds x (1 / 4) then ''degraded'' else ''healthy'' | None \<Rightarrow> ''healthy'')
      in [(''status'', PStr health), (''model_version'', PStr (mm_model_version m)), (''prediction_stats'', PDict (get_current_stats np (mm_tracker m))),
          (''prediction_psi'', case psi of None \<Rightarrow> PNone | Some x \<Rightarrow> number x), (''avg_latency_ms'', PFloat (if ls = [] then 0 else py_round 3 (nl_mean np ls))),
          (''p95_latency_ms'', PFloat (if ls = [] then 0 else py_round 3 (nl_percentile np ls 95))), (''error_rate'', PFloat (py_round 4 rate)),
          (''total_predictions'', PInt (int (length (pt_scores (mm_tracker m))))),
          (''active_alerts'', PInt (int (length (filter (\<lambda>a. mt_severity a = Mon_CRITICAL) (last_slice 100 (mm_alert_history m))))))])"

definition get_monitor_alerts :: "int \<Rightarrow> model_monitor \<Rightarrow> (string, pyval) dict list" where
  "get_monitor_alerts limit m = map monitoring_alert_to_dict (last_slice limit (mm_alert_history m))"

end
