(* ===== verification/Model_Monitor_Properties.thy ===== *)
theory Model_Monitor_Properties
  imports Model_Monitor
begin

text \<open>
  Properties of the model monitor: the stability index measures drift, alerts are numbered in the order of the history, the windows hold the last recordings, the
  counts of the quality report are exact, and where drift and errors go unreported or are overstated.
\<close>

declare map_of_eq_Some_iff [simp del] Some_eq_map_of_iff [simp del]

section \<open>Windows\<close>

lemma keep_last_length: "length (keep_last n xs) = min n (length xs)"
  by (simp add: keep_last_def)

lemma keep_last_short: "length xs \<le> n \<Longrightarrow> keep_last n xs = xs"
  by (simp add: keep_last_def)

lemma keep_last_append: "keep_last n (keep_last n xs @ ys) = keep_last n (xs @ ys)"
proof (cases "length xs \<le> n")
  case False
  then have "length xs + length ys - n = (length xs - n) + length ys" "length xs - n \<le> length xs" by auto
  then show ?thesis using False by (simp add: keep_last_def add.commute)
qed (simp add: keep_last_short)

section \<open>The stability index\<close>

lemma epsilon_pos: "0 < epsilon"
  by (simp add: epsilon_def)

lemma raised_sum: "\<forall>x \<in> set hist. 0 \<le> x \<Longrightarrow> hist \<noteq> [] \<Longrightarrow> 0 < sum_list (map (\<lambda>x. x + epsilon) hist)"
proof (induction hist)
  case (Cons x hist)
  then show ?case using epsilon_pos by (cases "hist = []") (auto simp: add_nonneg_pos add_pos_pos)
qed simp

lemma normalized_pos: "\<forall>x \<in> set hist. 0 \<le> x \<Longrightarrow> hist \<noteq> [] \<Longrightarrow> \<forall>y \<in> set (normalized hist). 0 < y"
  using raised_sum [of hist] epsilon_pos by (auto simp: normalized_def Let_def intro!: divide_pos_pos add_nonneg_pos)

lemma normalized_length [simp]: "length (normalized hist) = length hist"
  by (simp add: normalized_def Let_def)

lemma raised_total: "sum_list (map (\<lambda>x. x + epsilon) xs) = sum_list xs + of_nat (length xs) * epsilon"
  by (simp add: sum_list_addf sum_list_triv)

lemma normalized_inj:
  assumes "\<forall>x \<in> set b. 0 \<le> x" "b \<noteq> []" "length b = length c" "sum_list b = sum_list c" "normalized b = normalized c"
  shows "b = c"
proof -
  have s: "sum_list (map (\<lambda>x. x + epsilon) b) = sum_list (map (\<lambda>x. x + epsilon) c)" using assms(3,4) by (simp add: raised_total)
  have p: "0 < sum_list (map (\<lambda>x. x + epsilon) c)" using raised_sum [OF assms(1,2)] s by simp
  show ?thesis
  proof (rule nth_equalityI)
    fix i assume i: "i < length b"
    have "(normalized b) ! i = (normalized c) ! i" using assms(5) by simp
    then show "b ! i = c ! i" using i assms(3) s p by (simp add: normalized_def Let_def)
  qed (rule assms(3))
qed

text \<open>One summand: the two factors have the same sign.\<close>

lemma term_nonneg:
  assumes "0 < b" "0 < (c :: real)"
  shows "0 \<le> (c - b) * ln (c / b)" and "(c - b) * ln (c / b) = 0 \<longleftrightarrow> c = b"
proof -
  have "0 \<le> ln (c / b) \<longleftrightarrow> b \<le> c" "ln (c / b) \<le> 0 \<longleftrightarrow> c \<le> b" using assms by (simp_all add: ln_ge_zero_iff ln_le_zero_iff le_divide_eq divide_le_eq)
  then show "0 \<le> (c - b) * ln (c / b)" by (cases "b \<le> c") (auto intro!: mult_nonneg_nonneg mult_nonpos_nonpos)
  show "(c - b) * ln (c / b) = 0 \<longleftrightarrow> c = b" using assms by (auto simp: ln_eq_zero_iff)
qed

lemma index_measures:
  assumes "\<forall>x > 0. nl_log np x = ln x" "\<forall>x \<in> set b. 0 \<le> x" "\<forall>x \<in> set c. 0 \<le> x" "b \<noteq> []" "length b = length c"
  shows "0 \<le> stability_index np b c" and "stability_index np b c = 0 \<longleftrightarrow> normalized b = normalized c"
proof -
  define ts where "ts = map2 (\<lambda>b c. (c - b) * nl_log np (c / b)) (normalized b) (normalized c)"
  have c: "c \<noteq> []" using assms(4,5) by auto
  have p: "0 < normalized b ! i" "0 < normalized c ! i" if "i < length b" for i
    using that normalized_pos [OF assms(2,4)] normalized_pos [OF assms(3) c] assms(5) by simp_all
  have t: "ts ! i = (normalized c ! i - normalized b ! i) * ln (normalized c ! i / normalized b ! i)" if "i < length b" for i
    using that p [OF that] assms(1,5) by (simp add: ts_def)
  have l: "length ts = length b" using assms(5) by (simp add: ts_def)
  have n: "0 \<le> x" if "x \<in> set ts" for x
    using that t term_nonneg(1) p l by (auto simp: set_conv_nth)
  show "0 \<le> stability_index np b c" unfolding stability_index_def ts_def [symmetric] using n by (rule sum_list_nonneg)
  have "stability_index np b c = 0 \<longleftrightarrow> (\<forall>x \<in> set ts. x = 0)"
    unfolding stability_index_def ts_def [symmetric] using n by (rule sum_list_nonneg_eq_0_iff)
  also have "\<dots> \<longleftrightarrow> (\<forall>i < length b. normalized c ! i = normalized b ! i)"
    unfolding all_set_conv_all_nth l by (metis t term_nonneg(2) p)
  also have "\<dots> \<longleftrightarrow> normalized b = normalized c" using assms(5) by (auto simp: list_eq_iff_nth_eq)
  finally show "stability_index np b c = 0 \<longleftrightarrow> normalized b = normalized c" .
qed

text \<open>
  Claim C36 (the index measures drift). With a baseline and a hundred scores, and with densities over the same bins that are not negative and have the same sum, as
  \<^verbatim>\<open>np.histogram\<close> gives them, the index is a number, never negative, and zero exactly when the scores are distributed like the baseline; so no drift is
  reported for the baseline itself.
\<close>

theorem psi_measures_drift:
  assumes "pt_baseline t = Some (Some b, edges)" "nl_histogram np (pt_scores t) edges = Some c" "100 \<le> length (pt_scores t)"
    "\<forall>x > 0. nl_log np x = ln x" "\<forall>x \<in> set b. 0 \<le> x" "\<forall>x \<in> set c. 0 \<le> x" "b \<noteq> []" "length b = length c" "sum_list b = sum_list c"
  shows "\<exists>psi. compute_psi np t = Some (Some psi) \<and> 0 \<le> psi \<and> (psi = 0 \<longleftrightarrow> b = c) \<and>
    (b = c \<longrightarrow> mm_tracker m = t \<longrightarrow> check_prediction_drift np m = ([], m))"
proof -
  have z: "stability_index np b c = 0 \<longleftrightarrow> b = c"
    using index_measures(2) [OF assms(4-8)] normalized_inj [OF assms(5,7,8,9)] by auto
  have c: "compute_psi np t = Some (Some (stability_index np b c))" using assms(1,2,3) by (simp add: compute_psi_def stability_of_def)
  then show ?thesis using z index_measures(1) [OF assms(4-8)] by (auto simp: check_prediction_drift_def)
qed

text \<open>A library with two bins that agree on every input.\<close>

definition flat_lib :: numeric_lib where
  "flat_lib =
     \<lparr>nl_histogram = (\<lambda>xs es. if filter (\<lambda>x. 0 \<le> x \<and> x \<le> 1) xs = [] then None else Some [1, 1]), nl_histogram_unit = (\<lambda>xs n. (Some [1, 1], [0, 1 / 2, 1])), nl_bin_edges = (\<lambda>xs n. [0, 1 / 2, 1]),
      nl_log = ln, nl_mean = (\<lambda>xs. 0), nl_std = (\<lambda>xs. 0), nl_median = (\<lambda>xs. 0), nl_percentile = (\<lambda>xs q. 0), nl_ks_2samp = (\<lambda>xs ys. (0, 1)),
      nl_fixed = (\<lambda>n x. []), nl_percent = (\<lambda>x. []), nl_str = (\<lambda>x. []), nl_now = (\<lambda>n. [])\<rparr>"

theorem psi_measures_drift_witness:
  "\<exists>psi. compute_psi flat_lib \<lparr>pt_window_size = 200, pt_n_bins = 2, pt_scores = replicate 100 (1 / 2), pt_baseline = Some (Some [2, 0], [0, 1 / 2, 1])\<rparr> = Some (Some psi) \<and> psi \<noteq> 0 \<and> 0 \<le> psi"
proof -
  define t where "t = \<lparr>pt_window_size = 200, pt_n_bins = 2, pt_scores = replicate 100 (1 / 2 :: real), pt_baseline = Some (Some [2 :: real, 0], [0 :: real, 1 / 2, 1])\<rparr>"
  have "\<exists>psi. compute_psi flat_lib t = Some (Some psi) \<and> 0 \<le> psi \<and> (psi = 0 \<longleftrightarrow> [2, 0] = [1, 1 :: real]) \<and>
      ([2, 0] = [1, 1 :: real] \<longrightarrow> mm_tracker (new_model_monitor [] [] 0 0 0 0 0 0 []) = t \<longrightarrow> check_prediction_drift flat_lib (new_model_monitor [] [] 0 0 0 0 0 0 []) = ([], new_model_monitor [] [] 0 0 0 0 0 0 []))"
    by (rule psi_measures_drift [of _ _ "[0, 1 / 2, 1]"]) (simp_all add: t_def flat_lib_def filter_replicate)
  then show ?thesis unfolding t_def by auto
qed

section \<open>Runs of a monitor\<close>

inductive monitor_step :: "numeric_lib \<Rightarrow> model_monitor \<Rightarrow> model_monitor \<Rightarrow> bool" for np where
  step_baselines: "monitor_step np m (set_baselines np scores data m)"
| step_prediction: "monitor_step np m (snd (record_prediction np score features latency err m))"
| step_batch: "monitor_step np m (snd (monitor_record_batch scores columns latency errors m))"
| step_prediction_drift: "monitor_step np m (snd (check_prediction_drift np m))"
| step_feature_drift: "monitor_step np m (snd (check_feature_drift np meth m))"
| step_performance: "monitor_step np m (snd (check_performance np m))"
| step_all_checks: "monitor_step np m (snd (snd (run_all_checks np callback m)))"

inductive monitored :: "numeric_lib \<Rightarrow> model_monitor \<Rightarrow> bool" for np where
  monitored_new: "monitored np (new_model_monitor version names window feature_window psi ks latency error_rate ranges)"
| monitored_step: "monitored np m \<Longrightarrow> monitor_step np m m' \<Longrightarrow> monitored np m'"

subsection \<open>Alerts appended\<close>

text \<open>What a check does to the monitor: it appends the alerts it returns, numbered on from the counter, and changes nothing else.\<close>

definition appends :: "monitoring_alert list \<Rightarrow> model_monitor \<Rightarrow> model_monitor \<Rightarrow> bool" where
  "appends new m m' =
     (m' = m\<lparr>mm_alert_counter := mm_alert_counter m + length new, mm_alert_history := mm_alert_history m @ new\<rparr> \<and>
      map mt_alert_id new = map (\<lambda>i. alert_ident (mm_alert_counter m + Suc i)) [0..<length new])"

lemma appends_nil: "appends [] m m"
  by (simp add: appends_def)

lemma appends_create: "create_monitor_alert np severity drift message metric v threshold details m = (a, m') \<Longrightarrow> appends [a] m m'"
  by (auto simp: create_monitor_alert_def appends_def Let_def)

lemma appends_append:
  assumes "appends as1 m m1" "appends as2 m1 m2"
  shows "appends (as1 @ as2) m m2"
proof -
  have "map mt_alert_id as2 = map (\<lambda>i. alert_ident (mm_alert_counter m + Suc (length as1 + i))) [0..<length as2]"
    using assms by (simp add: appends_def add.assoc)
  also have "\<dots> = map (\<lambda>i. alert_ident (mm_alert_counter m + Suc i)) [length as1..<length as1 + length as2]"
    by (rule nth_equalityI) simp_all
  finally show ?thesis using assms by (simp add: appends_def upt_add_eq_append [of 0])
qed

lemma appends_prediction_drift: "check_prediction_drift np m = (new, m') \<Longrightarrow> appends new m m'"
  by (auto simp: check_prediction_drift_def appends_nil split: option.splits if_splits prod.splits dest: appends_create)

lemma appends_features: "alert_features np rs m = (new, m') \<Longrightarrow> appends new m m'"
proof (induction np rs m arbitrary: new m' rule: alert_features.induct)
  case (2 np r rs m)
  then show ?case using appends_append [of "[_]"] by (fastforce simp: Let_def split: prod.splits dest: appends_create)
qed (simp add: appends_nil)

lemma appends_latency: "check_latency np m = (new, m') \<Longrightarrow> appends new m m'"
  by (auto simp: check_latency_def Let_def appends_nil split: if_splits prod.splits dest: appends_create)

lemma appends_error_rate: "check_error_rate np m = (new, m') \<Longrightarrow> appends new m m'"
  by (auto simp: check_error_rate_def Let_def appends_nil split: if_splits prod.splits dest: appends_create)

lemma appends_performance: "check_performance np m = (new, m') \<Longrightarrow> appends new m m'"
  using appends_append by (fastforce simp: check_performance_def Let_def split: prod.splits dest: appends_latency appends_error_rate)

lemma appends_feature_drift: "check_feature_drift np meth m = (r, m') \<Longrightarrow> (case r of Inl ex \<Rightarrow> m' = m | Inr new \<Rightarrow> appends new m m')"
  by (auto simp: check_feature_drift_def Let_def split: sum.splits prod.splits dest: appends_features)

lemma appends_all: "run_all_checks np callback m = (r, sent, m') \<Longrightarrow> \<exists>new. appends new m m' \<and> (\<forall>alerts. r = Inr alerts \<longrightarrow> new = alerts)"
proof -
  assume r: "run_all_checks np callback m = (r, sent, m')"
  obtain as1 m1 where 1: "check_prediction_drift np m = (as1, m1)" by fastforce
  obtain f m2 where 2: "check_feature_drift np ''psi'' m1 = (f, m2)" by fastforce
  obtain as3 m3 where 3: "check_performance np m2 = (as3, m3)" by fastforce
  note a = appends_prediction_drift [OF 1] appends_feature_drift [OF 2] appends_performance [OF 3]
  show ?thesis
  proof (cases f)
    case (Inl ex)
    then show ?thesis using r a 1 2 by (auto simp: run_all_checks_def Let_def)
  next
    case (Inr as2)
    then show ?thesis using r a 1 2 3 appends_append [of as1 m m1 as2 m2] appends_append [of "as1 @ as2" m m2 as3 m3] by (auto simp: run_all_checks_def Let_def)
  qed
qed

text \<open>
  Remark (checks report what they find). Running all checks returns the alerts that it appends to the history, in this order; the callback gets exactly these; and
  nothing of the monitor but its history and its counter changes.
\<close>

theorem checks_report:
  assumes "run_all_checks np callback m = (Inr alerts, sent, m')"
  shows "sent = (if callback then alerts else []) \<and>
    m' = m\<lparr>mm_alert_counter := mm_alert_counter m + length alerts, mm_alert_history := mm_alert_history m @ alerts\<rparr>"
proof -
  have "sent = (if callback then alerts else [])" using assms by (auto simp: run_all_checks_def Let_def split: prod.splits sum.splits)
  then show ?thesis using appends_all [OF assms] by (auto simp: appends_def)
qed

theorem checks_report_witness:
  "\<exists>alerts sent m'. run_all_checks flat_lib True ((new_model_monitor ''v'' [] 100 100 1 0 5 (1 / 2) [])\<lparr>mm_error_window := replicate 100 True\<rparr>) = (Inr alerts, sent, m') \<and>
     sent = alerts \<and> mm_alert_history m' = alerts \<and> alerts \<noteq> []"
proof -
  define m where "m = (new_model_monitor ''v'' [] 100 100 1 0 5 (1 / 2) [])\<lparr>mm_error_window := replicate 100 True\<rparr>"
  obtain alerts sent m' where r: "run_all_checks flat_lib True m = (Inr alerts, sent, m')" "alerts \<noteq> []"
    by (simp add: run_all_checks_def check_prediction_drift_def compute_psi_def check_feature_drift_def get_drifted_features_def detect_drift_def check_performance_def
        check_latency_def check_error_rate_def create_monitor_alert_def count_errors_def m_def new_model_monitor_def new_score_tracker_def new_drift_detector_def Let_def)
  then show ?thesis using checks_report [OF r(1)] unfolding m_def by (auto simp: new_model_monitor_def)
qed

subsection \<open>The invariant\<close>

definition monitor_ok :: "model_monitor \<Rightarrow> bool" where
  "monitor_ok m =
     (map mt_alert_id (mm_alert_history m) = map (\<lambda>i. alert_ident (Suc i)) [0..<mm_alert_counter m] \<and>
      length (mm_latencies m) \<le> mm_window_size m \<and> length (mm_error_window m) \<le> 1000 \<and>
      pt_window_size (mm_tracker m) = mm_window_size m \<and> length (pt_scores (mm_tracker m)) \<le> mm_window_size m \<and>
      (\<forall>name \<in> set (dd_feature_names (mm_detector m)). dget (dd_windows (mm_detector m)) name \<noteq> None))"

lemma ok_appends: "monitor_ok m \<Longrightarrow> appends new m m' \<Longrightarrow> monitor_ok m'"
proof -
  assume ok: "monitor_ok m" and a: "appends new m m'"
  have "map mt_alert_id new = map (\<lambda>i. alert_ident (Suc i)) [mm_alert_counter m..<mm_alert_counter m + length new]"
    using a unfolding appends_def by (simp only: map_add_upt [symmetric] map_map comp_def add.commute [of "mm_alert_counter m"]) (simp add: add.commute)
  then show ?thesis using ok a by (simp add: monitor_ok_def appends_def upt_add_eq_append [of 0])
qed

lemma extend_frame:
  "dd_feature_names (extend_window name xs d) = dd_feature_names d \<and> (dget (dd_windows (extend_window name xs d)) k = None) = (dget (dd_windows d) k = None)"
  by (auto simp: extend_window_def update_conv' split: option.splits)

lemma fold_extend_frame:
  "dd_feature_names (fold (\<lambda>(name, x). extend_window name (f x)) es d) = dd_feature_names d \<and>
     (dget (dd_windows (fold (\<lambda>(name, x). extend_window name (f x)) es d)) k = None) = (dget (dd_windows d) k = None)"
  by (induction es arbitrary: d) (simp_all add: extend_frame split: prod.splits)

lemma record_frame:
  "dd_feature_names (detector_record es d) = dd_feature_names d" "(dget (dd_windows (detector_record es d)) k = None) = (dget (dd_windows d) k = None)"
  "dd_feature_names (detector_record_batch cs d) = dd_feature_names d" "(dget (dd_windows (detector_record_batch cs d)) k = None) = (dget (dd_windows d) k = None)"
  using fold_extend_frame [of "\<lambda>x. [x]" es d k] fold_extend_frame [of "\<lambda>x. x" "zip (dd_feature_names d) cs" d k]
  by (simp_all add: detector_record_def detector_record_batch_def)

lemma new_windows: "dget (fold (\<lambda>name. dset name []) names ws) k = (if k \<in> set names then Some [] else dget ws k)"
  by (induction names arbitrary: ws) (auto simp: update_conv')

lemma ok_new: "monitor_ok (new_model_monitor version names window feature_window psi ks latency error_rate ranges)"
  by (simp add: monitor_ok_def new_model_monitor_def new_score_tracker_def new_drift_detector_def new_windows)

lemma ok_baselines: "monitor_ok m \<Longrightarrow> monitor_ok (set_baselines np scores data m)"
  by (cases scores; cases data) (simp_all add: monitor_ok_def set_baselines_def tracker_set_baseline_def detector_set_baseline_def)

lemma ok_prediction: "monitor_ok m \<Longrightarrow> monitor_ok (snd (record_prediction np score features latency err m))"
proof -
  assume ok: "monitor_ok m"
  define m1 where "m1 = m\<lparr>mm_tracker := tracker_record score (mm_tracker m), mm_detector := detector_record features (mm_detector m),
     mm_latencies := keep_last (mm_window_size m) (mm_latencies m @ [latency]), mm_error_window := keep_last 1000 (mm_error_window m @ [err])\<rparr>"
  have "monitor_ok m1" using ok by (simp add: monitor_ok_def m1_def tracker_record_def keep_last_length record_frame)
  then show ?thesis using ok_appends [OF _ appends_create] by (auto simp: record_prediction_def Let_def m1_def [symmetric] split: prod.splits)
qed

lemma ok_batch: "monitor_ok m \<Longrightarrow> monitor_ok (snd (monitor_record_batch scores columns latency errors m))"
  by (cases columns) (simp_all add: monitor_ok_def monitor_record_batch_def Let_def tracker_record_batch_def keep_last_length record_frame)

lemma ok_step: "monitor_step np m m' \<Longrightarrow> monitor_ok m \<Longrightarrow> monitor_ok m'"
proof (induction rule: monitor_step.induct)
  case (step_feature_drift m meth)
  then show ?case using ok_appends appends_feature_drift [of np meth m] by (cases "check_feature_drift np meth m") (fastforce split: sum.splits)
next
  case (step_prediction_drift m)
  then show ?case using ok_appends appends_prediction_drift [of np m] by (cases "check_prediction_drift np m") fastforce
next
  case (step_performance m)
  then show ?case using ok_appends appends_performance [of np m] by (cases "check_performance np m") fastforce
next
  case (step_all_checks m callback)
  then show ?case using ok_appends appends_all [of np callback m] by (cases "run_all_checks np callback m") fastforce
qed (auto intro: ok_baselines ok_prediction ok_batch)

lemma monitored_ok: "monitored np m \<Longrightarrow> monitor_ok m"
  by (induction rule: monitored.induct) (auto intro: ok_new ok_step)

lemma num_of_zeros: "num_of (replicate k 0 @ ds) = num_of ds"
  by (induction k) (simp_all add: num_of_def)

lemma alert_ident_inj: "inj alert_ident"
proof (rule injI)
  fix a b assume "alert_ident a = alert_ident b"
  then have "num_of (map digit (drop 4 (alert_ident a))) = num_of (map digit (drop 4 (alert_ident b)))" by simp
  moreover have "num_of (map digit (drop 4 (alert_ident n))) = n" for n
  proof -
    have "map digit (drop 4 (alert_ident n)) = replicate (6 - length (nat_str n)) 0 @ map digit (nat_str n)" by (simp add: alert_ident_def digit_def)
    then show ?thesis using nat_str_digits [of n] by (simp only: num_of_zeros)
  qed
  ultimately show "a = b" by simp
qed

lemma detect_returns: "\<forall>name \<in> set names. dget (dd_windows d) name \<noteq> None \<Longrightarrow> \<exists>rs. detect_names np d meth names = Inr rs"
  by (induction names) (auto split: option.splits)

text \<open>
  Remark (a monitor in use). However a monitor is used, its alerts are numbered from one in the order of its history and no two have the same identifier; its
  windows of scores, latencies and errors stay within their sizes; and running all checks returns.
\<close>

theorem monitor_sound:
  assumes "monitored np m"
  shows "map mt_alert_id (mm_alert_history m) = map (\<lambda>i. alert_ident (Suc i)) [0..<mm_alert_counter m] \<and> distinct (map mt_alert_id (mm_alert_history m)) \<and>
    length (pt_scores (mm_tracker m)) \<le> mm_window_size m \<and> length (mm_latencies m) \<le> mm_window_size m \<and> length (mm_error_window m) \<le> 1000 \<and>
    (\<exists>alerts sent m'. run_all_checks np callback m = (Inr alerts, sent, m'))"
proof -
  have ok: "monitor_ok m" using assms by (rule monitored_ok)
  have "inj (\<lambda>i. alert_ident (Suc i))" using alert_ident_inj by (auto simp: inj_def)
  then have d: "distinct (map (\<lambda>i. alert_ident (Suc i)) [0..<mm_alert_counter m])" unfolding distinct_map using inj_on_subset by auto
  obtain as1 m1 where 1: "check_prediction_drift np m = (as1, m1)" by fastforce
  have "mm_detector m1 = mm_detector m" using appends_prediction_drift [OF 1] by (simp add: appends_def)
  then obtain rs where "get_drifted_features np ''psi'' (mm_detector m1) = Inr rs"
    using ok detect_returns [of "dd_feature_names (mm_detector m)" "mm_detector m" np "''psi''"] by (auto simp: get_drifted_features_def detect_drift_def monitor_ok_def)
  then have "\<exists>alerts sent m'. run_all_checks np callback m = (Inr alerts, sent, m')"
    using 1 by (auto simp: run_all_checks_def check_feature_drift_def Let_def split: prod.splits)
  then show ?thesis using ok d unfolding monitor_ok_def by simp
qed

theorem monitor_sound_witness:
  "distinct (map mt_alert_id (mm_alert_history (snd (record_prediction flat_lib 0 [] 9 False (snd (record_prediction flat_lib 1 [] 7 True (new_model_monitor ''v'' [] 100 100 1 0 5 1 [])))))))"
  using monitor_sound [OF monitored_step [OF monitored_step [OF monitored_new step_prediction] step_prediction]] by blast

lemma batch_singles: "length (pt_scores t) \<le> pt_window_size t \<Longrightarrow> fold tracker_record xs t = tracker_record_batch xs t"
proof (induction xs arbitrary: t)
  case (Cons x xs)
  have "length (pt_scores (tracker_record x t)) \<le> pt_window_size (tracker_record x t)" by (simp add: tracker_record_def keep_last_length)
  then show ?case using Cons.IH [of "tracker_record x t"] by (simp add: tracker_record_def tracker_record_batch_def keep_last_append)
qed (simp add: tracker_record_batch_def keep_last_short)

text \<open>
  Remark (batches and single predictions). Recording a batch leaves the same window of scores as recording its scores one by one, but no latency of a batch raises an
  alert.
\<close>

theorem batch_equals_singles:
  assumes "monitored np m"
  shows "fst (monitor_record_batch scores columns latency errors m) = [] \<and>
    mm_tracker (snd (monitor_record_batch scores columns latency errors m)) = fold tracker_record scores (mm_tracker m)"
  using batch_singles [of "mm_tracker m" scores] monitored_ok [OF assms] by (simp add: monitor_record_batch_def monitor_ok_def Let_def)

theorem batch_equals_singles_witness:
  "mm_tracker (snd (monitor_record_batch [1, 0] None 900 2 (new_model_monitor ''v'' [] 100 100 1 0 5 1 []))) = fold tracker_record [1, 0] (new_score_tracker 100 50)"
  using batch_equals_singles [OF monitored_new [of flat_lib "''v''" "[]" 100 100 1 0 5 1 "[]"], of "[1, 0]" None 900 2] by (simp add: new_model_monitor_def)

section \<open>The quality of inputs\<close>

definition mismatched :: "quality_checker \<Rightarrow> string \<times> pyval \<Rightarrow> bool" where
  "mismatched q entry = (fst entry \<in> set (qc_feature_names q) \<and> snd entry \<noteq> PNone \<and> num_val (snd entry) = None)"

definition out_of_range :: "quality_checker \<Rightarrow> string \<times> pyval \<Rightarrow> bool" where
  "out_of_range q entry =
     (fst entry \<in> set (qc_feature_names q) \<and>
      (case (num_val (snd entry), dget (qc_feature_ranges q) (fst entry)) of (Some x, Some (low, high)) \<Rightarrow> x < low \<or> high < x | _ \<Rightarrow> False))"

lemma count_required:
  "let r' = fold (check_required features) names r
   in qr_missing_count r' = qr_missing_count r + length (filter (\<lambda>name. pget features name = PNone) names) \<and> qr_type_mismatch_count r' = qr_type_mismatch_count r \<and>
      qr_out_of_range_count r' = qr_out_of_range_count r \<and> qr_total_features r' = qr_total_features r \<and>
      length (qr_issues r') = length (qr_issues r) + length (filter (\<lambda>name. pget features name = PNone) names)"
  by (induction names arbitrary: r) (simp_all add: check_required_def add_missing_def Let_def)

lemma count_value:
  "qr_missing_count (check_value q e r) = qr_missing_count r \<and> qr_total_features (check_value q e r) = qr_total_features r \<and>
   qr_type_mismatch_count (check_value q e r) = qr_type_mismatch_count r + (if mismatched q e then 1 else 0) \<and>
   qr_out_of_range_count (check_value q e r) = qr_out_of_range_count r + (if out_of_range q e then 1 else 0) \<and>
   length (qr_issues (check_value q e r)) = length (qr_issues r) + (if mismatched q e then 1 else 0) + (if out_of_range q e then 1 else 0)"
  by (auto simp: check_value_def mismatched_def out_of_range_def add_mismatch_def add_out_of_range_def split: prod.splits option.splits)

lemma count_values:
  "let r' = fold (check_value q) es r
   in qr_missing_count r' = qr_missing_count r \<and> qr_total_features r' = qr_total_features r \<and>
      qr_type_mismatch_count r' = qr_type_mismatch_count r + length (filter (mismatched q) es) \<and>
      qr_out_of_range_count r' = qr_out_of_range_count r + length (filter (out_of_range q) es) \<and>
      length (qr_issues r') = length (qr_issues r) + length (filter (mismatched q) es) + length (filter (out_of_range q) es)"
proof (induction es arbitrary: r)
  case (Cons e es)
  from Cons.IH [of "check_value q e r"] count_value [of q e r] show ?case by (simp add: Let_def)
qed simp

text \<open>
  Remark (exact quality reports). The report of an input counts exactly the required features without a value, the known features whose value is no number, and
  those outside their range, with one issue for each; so it is healthy exactly when there is none of these, and its score lies between zero and one.
\<close>

theorem quality_report_exact:
  "let r = quality_check now q features
   in qr_missing_count r = length (filter (\<lambda>name. pget features name = PNone) (qc_required_features q)) \<and>
      qr_type_mismatch_count r = length (filter (mismatched q) features) \<and> qr_out_of_range_count r = length (filter (out_of_range q) features) \<and>
      length (qr_issues r) = qr_missing_count r + qr_type_mismatch_count r + qr_out_of_range_count r \<and>
      (is_healthy r \<longleftrightarrow> (\<forall>name \<in> set (qc_required_features q). pget features name \<noteq> PNone) \<and> (\<forall>e \<in> set features. \<not> mismatched q e \<and> \<not> out_of_range q e)) \<and>
      0 \<le> quality_score r \<and> quality_score r \<le> 1"
proof -
  define r0 where "r0 = fold (check_required features) (qc_required_features q) (new_quality_report now (length (qc_feature_names q)))"
  define r where "r = quality_check now q features"
  have r: "r = fold (check_value q) features r0" by (simp add: r_def quality_check_def r0_def)
  have "qr_missing_count r0 = length (filter (\<lambda>name. pget features name = PNone) (qc_required_features q)) \<and> qr_type_mismatch_count r0 = 0 \<and>
      qr_out_of_range_count r0 = 0 \<and> length (qr_issues r0) = qr_missing_count r0"
    using count_required [of features "qc_required_features q" "new_quality_report now (length (qc_feature_names q))"] unfolding r0_def [symmetric] Let_def
    by (simp add: new_quality_report_def)
  then have c: "qr_missing_count r = length (filter (\<lambda>name. pget features name = PNone) (qc_required_features q))"
      "qr_type_mismatch_count r = length (filter (mismatched q) features)" "qr_out_of_range_count r = length (filter (out_of_range q) features)"
      "length (qr_issues r) = qr_missing_count r + qr_type_mismatch_count r + qr_out_of_range_count r"
    using count_values [of q features r0] unfolding r Let_def by simp_all
  have "0 \<le> quality_score r \<and> quality_score r \<le> 1" by (simp add: quality_score_def)
  moreover have "is_healthy r \<longleftrightarrow> (\<forall>name \<in> set (qc_required_features q). pget features name \<noteq> PNone) \<and> (\<forall>e \<in> set features. \<not> mismatched q e \<and> \<not> out_of_range q e)"
    by (auto simp: is_healthy_def c(1-3) filter_empty_conv)
  ultimately show ?thesis unfolding r_def [symmetric] Let_def using c by simp
qed

theorem quality_report_exact_witness:
  "\<not> is_healthy (quality_check [] (new_quality_checker [''amount'', ''age''] [(''amount'', (0, 100))] []) [(''amount'', PInt 500), (''age'', PNone)])"
  using quality_report_exact [of "[]" "new_quality_checker [''amount'', ''age''] [(''amount'', (0, 100))] []" "[(''amount'', PInt 500), (''age'', PNone)]"]
  by (simp add: Let_def new_quality_checker_def pget_def dget_or_def)

section \<open>What goes unreported\<close>

text \<open>
  Remark (drift out of the range). When every score has left the bins of the baseline, the index is not a number: no drift is reported and the monitor is not degraded.
\<close>

theorem total_drift_unreported:
  assumes "pt_baseline (mm_tracker m) = Some (b, edges)" "nl_histogram np (pt_scores (mm_tracker m)) edges = None"
    "of_int (count_errors (mm_error_window m)) \<le> mm_error_rate_threshold m * real (length (mm_error_window m))" "0 \<le> mm_error_rate_threshold m"
  shows "check_prediction_drift np m = ([], m) \<and> dget (get_health_status np m) ''status'' = Some (PStr ''healthy'')"
proof -
  have p: "compute_psi np (mm_tracker m) \<in> {None, Some None}" using assms(1,2) by (simp add: compute_psi_def stability_of_def split: option.splits)
  have "\<not> mm_error_rate_threshold m < (if mm_error_window m = [] then 0 else of_int (count_errors (mm_error_window m)) / real (length (mm_error_window m)))"
    using assms(3,4) by (auto simp: not_less divide_le_eq)
  then show ?thesis using p by (auto simp: check_prediction_drift_def get_health_status_def exceeds_def Let_def)
qed

theorem total_drift_unreported_witness:
  "check_prediction_drift flat_lib ((new_model_monitor ''v'' [] 100 100 1 0 5 1 [])\<lparr>mm_tracker := \<lparr>pt_window_size = 100, pt_n_bins = 2, pt_scores = replicate 100 7, pt_baseline = Some (Some [1, 1], [0, 1 / 2, 1])\<rparr>\<rparr>) =
     ([], (new_model_monitor ''v'' [] 100 100 1 0 5 1 [])\<lparr>mm_tracker := \<lparr>pt_window_size = 100, pt_n_bins = 2, pt_scores = replicate 100 7, pt_baseline = Some (Some [1, 1], [0, 1 / 2, 1])\<rparr>\<rparr>)"
  by (rule total_drift_unreported [THEN conjunct1]) (simp_all add: flat_lib_def filter_replicate new_model_monitor_def count_errors_def)

text \<open>
  Remark (health without a sample). The error rate of the health status has no minimal sample, unlike the check that raises alerts: one failed prediction of a new
  monitor makes it unhealthy, without an alert.
\<close>

theorem one_error_is_unhealthy:
  assumes "error_rate < 1" "latency \<le> latency_threshold"
  shows "\<exists>m. record_prediction np score features latency True (new_model_monitor version names window feature_window psi ks latency_threshold error_rate ranges) = ([], m) \<and>
    dget (get_health_status np m) ''status'' = Some (PStr ''unhealthy'') \<and> check_error_rate np m = ([], m)"
  using assms by (auto simp: record_prediction_def new_model_monitor_def get_health_status_def check_error_rate_def keep_last_def count_errors_def Let_def)

theorem one_error_is_unhealthy_witness:
  "\<exists>m. record_prediction flat_lib 0 [] 1 True (new_model_monitor ''v'' [] 100 100 1 0 5 (1 / 20) []) = ([], m) \<and>
    dget (get_health_status flat_lib m) ''status'' = Some (PStr ''unhealthy'') \<and> check_error_rate flat_lib m = ([], m)"
  by (rule one_error_is_unhealthy) simp_all

end
