(* ===== verification/Spec2Isabelle.thy ===== *)
theory Spec2Isabelle
  imports Alert_Properties Escalation_Properties Scoring_Properties Quarantine_Properties Aggregation_Properties Velocity_Properties Config_Properties Api_Auth_Properties Model_Theorems
    Schema_Validator_Properties Cleaner_Properties Normalizer_Properties Feature_Engineer_Properties Enrichers_Properties Pipeline_Properties Notification_Properties
    Kafka_Consumer_Properties Storage_Orchestrator_Properties Cache_Handler_Properties Schema_Registry_Properties Feature_Store_Properties Model_Monitor_Properties
begin

text \<open>
  RiskPulse scores card transactions for fraud and turns high scores into alerts that people work on. A worker takes transactions from Kafka and runs each
  through the pipeline: schema validation and business rules, cleaning, normalization, features, enrichment; what fails becomes a dead letter or goes
  into quarantine. The result is stored in a cache, a database and two batch stores. The scoring pipeline asks the rule engine and two trained models for a
  score and combines them; the alert manager filters the result and stores an alert; notifications go out; the escalation engine follows an
  alert until somebody acknowledges it. The web interface authenticates its callers and limits how often they call.

  \<^bold>\<open>Shared theories.\<close>
  \<^item> \<open>RP_Prelude\<close>: Python values and exceptions, insertion-ordered dictionaries, rounding, results that may raise, runs of guarded steps, the rewrite
    collections, and the locales \<open>window_guard\<close> and \<open>window_limiter\<close>: components that let at most a number of requests through in any window. \<open>Py_Text\<close>, \<open>Py_Date\<close>: the conversions, number and date formats of the standard library.

  \<^bold>\<open>Ingestion, transformation, storage\<close> (paths under \<^verbatim>\<open>src/\<close>; each theory is followed by one with \<open>_Properties\<close>).
  \<^item> \<open>Kafka_Consumer\<close>: \<^verbatim>\<open>ingestion/kafka_consumer.py\<close>. Polling ends on a client with finitely many errors and hangs on others; every message of a batch is
    accounted for; the books of the worker balance with the dead letters of its pipeline; a batch with a message that is no object is committed unprocessed;
    a failed subscription is not repeated.
  \<^item> \<open>Pipeline\<close>: \<^verbatim>\<open>pipeline_orchestrator.py\<close>, composed of the next seven. A record passes all six stages in order or becomes the one
    dead letter of the stage that dropped it, batches account for their records, blocked records go no further. Its six stages interpret the locale \<open>dlq_stage\<close>.
  \<^item> \<open>Schema_Validator\<close>: \<^verbatim>\<open>validation/schema_validator.py\<close>, with the rules file of the repository as a value, what records it types as valid, and the one
    amount, the float infinity, on which it raises.
  \<^item> \<open>Rule_Audit\<close>, \<open>Business_Rules\<close>: \<^verbatim>\<open>validation/rules_engine.py\<close>: velocity tracker and audit trail (a refinement of the last records), and the engine.
  \<^item> \<open>Cleaner\<close>, \<open>Normalizer\<close>, \<open>Feature_Engineer\<close>: \<^verbatim>\<open>transformation/\<close>. Duplicates are recognised exactly, texts are free of tags, normalization is idempotent, window
    counts are those of the history.
  \<^item> \<open>Enrichers\<close>: \<^verbatim>\<open>enrichment/\<close> geography, devices and merchants; the stores interpret the locale \<open>history_store\<close>. \<open>Velocity\<close>: \<^verbatim>\<open>enrichment/velocity_calculator.py\<close>.
    \<open>Aggregation\<close>: \<^verbatim>\<open>transformation/aggregator.py\<close>, Welford's method against the textbook statistics, with the locale \<open>window_buffer\<close> for its bounded buffers.
  \<^item> \<open>Schema_Registry\<close>: \<^verbatim>\<open>ingestion/schema_registry.py\<close>. The bytes of a decimal decode to it; a coerced record has the shape of its schema.
  \<^item> \<open>Quarantine\<close>: \<^verbatim>\<open>validation/quarantine_handler.py\<close>.
  \<^item> \<open>Cache_Handler\<close>: \<^verbatim>\<open>storage/cache_handler.py\<close>. The loop over \<^verbatim>\<open>SCAN\<close> ends and removes exactly the matching keys under the documented guarantees of Redis.
    \<open>Storage_Orchestrator\<close>: \<^verbatim>\<open>storage/storage_orchestrator.py\<close> over that cache. Its two buffers interpret the locale \<open>batch_buffer\<close>; the buffer of S3 loses
    and reorders nothing; a circuit that opened for S3 never closes.

  \<^bold>\<open>Scoring and alerts.\<close>
  \<^item> \<open>Fraud_Rules\<close>, \<open>Scoring\<close>: \<^verbatim>\<open>fraud_detection/rule_engine.py\<close>, \<^verbatim>\<open>scoring_pipeline.py\<close>; the score cache interprets the locale \<open>ttl_store\<close>. The final score is the weighted
    mean of the methods that succeeded.
  \<^item> \<open>Feature_Store\<close>: \<^verbatim>\<open>fraud_detection/feature_store.py\<close>. Every feature of a vector has a value from the first layer that has it; the report of freshness
    never complains about the shipped catalogue.
  \<^item> \<open>Model_Monitor\<close>: \<^verbatim>\<open>fraud_detection/model_monitor.py\<close>. The stability index is zero exactly without drift; a monitor in use numbers its alerts, bounds its
    windows and returns from its checks; quality reports are exact.
  \<^item> \<open>Model_Registry\<close>, \<open>Model_Server\<close>, \<open>Model_Theorems\<close>: \<^verbatim>\<open>fraud_detection/model_registry.py\<close>, \<^verbatim>\<open>artifact_security.py\<close>. The registry refines its promotion history.
  \<^item> \<open>Alert_Filters\<close>, \<open>Alert_Manager\<close>: \<^verbatim>\<open>alerting/alert_manager.py\<close>; the filters and the generator interpret \<open>window_limiter\<close>.
  \<^item> \<open>Notification\<close>: \<^verbatim>\<open>alerting/notification_service.py\<close>; its checks interpret \<open>window_limiter\<close> for each recipient. Unless a provider is cancelled, \<^verbatim>\<open>notify\<close> returns one settled
    record for every recipient and channel.
  \<^item> \<open>Escalation\<close>: \<^verbatim>\<open>alerting/escalation_engine.py\<close>.
  \<^item> This theory: what alerts take over from scores.

  \<^bold>\<open>Access and configuration.\<close> \<open>Config\<close>, \<open>Secrets\<close>, \<open>Api_Auth\<close>, \<open>Rate_Limiter\<close>: \<^verbatim>\<open>utils/config.py\<close>, \<^verbatim>\<open>utils/secrets_manager.py\<close>, \<^verbatim>\<open>utils/security.py\<close>,
  \<^verbatim>\<open>api/middleware/auth.py\<close>, \<^verbatim>\<open>api/middleware/rate_limiter.py\<close>.

  \<^bold>\<open>Conventions.\<close> A class is a record with its methods as functions that return the new state; a result that may raise is a sum with the exception on the left.
  What the code takes from outside is an argument, often collected in a record: readings of the clock (several in one operation are told apart), identifiers,
  hashes, \<^verbatim>\<open>str\<close>, \<^verbatim>\<open>fromisoformat\<close>, regular expressions, the Unicode database, parsed files, JSON, numpy and scipy, the clients of Redis, Kafka, AWS and HTTP, PyJWT, and the handlers of
  PostgreSQL, S3 and Snowflake. What such a client is relied on to do is a named hypothesis of the theorem, with an instance in its witness. Floating-point numbers are
  exact reals, finite ones but in the schema validator, which lets the infinities and \<^verbatim>\<open>nan\<close> in; integers are unbounded as in Python; texts are their UTF-8 bytes with ASCII case and space; keys of dictionaries and members of sets are compared
  by structure, so that 1, 1.0 and \<^verbatim>\<open>True\<close> are three keys where Python has one; a value of a type the code does not expect raises
  \<^verbatim>\<open>TypeError\<close> where the code would raise another exception of the same handling. Locks are held for a whole method, so methods are steps; the interleaving
  of two escalations is modelled as steps of its own. The invariants speak of runs without \<^verbatim>\<open>clear_all\<close> of the alert manager,
  which is for tests, and without a reset of the quarantine metrics; both are modelled, but are not among the steps.

  \<^bold>\<open>Termination.\<close> Every function is total, by structural recursion or a measure, without fuel, except two loops whose end depends on a client: \<open>scan_loop\<close> of the cache and
  \<open>poll_loop\<close> of the worker are partial functions with \<open>None\<close> for not returning, and that they return is proved from a ranking of the client's
  states. The endless loops of the worker and of the escalation engine are runs over the list of their rounds.

  \<^bold>\<open>Not modelled.\<close> The training, the anomaly detector and the risk scorer compute over numpy arrays and trained models; the handlers of PostgreSQL, S3 and
  Snowflake, the Kafka producer, the sources of the API ingestion and the providers of notifications send requests; routes, schemas, dashboards,
  batch jobs and scripts wire these together. Logging, the export of metrics and most measured latencies are left out; they do not influence the results.
\<close>

section \<open>From scores to alerts\<close>

text \<open>
  What \<^verbatim>\<open>AlertManager.generate_alert\<close> reads of \<^verbatim>\<open>UnifiedScore.to_dict()\<close>, the argument its documentation names:
  the serialised method scores have no \<^verbatim>\<open>details\<close>.
\<close>

definition method_view_of :: "method_result \<Rightarrow> method_view" where
  "method_view_of r =
     \<lparr>mv_method = Some (sm_method r), mv_weighted_score = Some (py_round 6 (sm_weighted_score r)),
      mv_success = Some (sm_success r), mv_triggered_rules = None\<rparr>"

definition scoring_view_of :: "(pyexn \<Rightarrow> string) \<Rightarrow> unified_score \<Rightarrow> scoring_view" where
  "scoring_view_of show_exn u =
     \<lparr>sv_final_score = Some (py_round 6 (us_final_score u)),
      sv_risk_classification = Some (risk_value (us_risk_classification u)),
      sv_method_scores = Some (map method_view_of (us_method_scores u)),
      sv_alert_recommended = Some (us_alert_recommended u), sv_doc = unified_to_dict show_exn u\<rparr>"

text \<open>
  The scoring result that the batch job \<^verbatim>\<open>_generate_alerts\<close> of \<^verbatim>\<open>airflow/dags/fraud_detection_dag.py\<close> passes
  instead: none of its keys is one that the alert manager reads.
\<close>

definition dag_scoring_view :: "real \<Rightarrow> string \<Rightarrow> pyval list \<Rightarrow> real \<Rightarrow> real \<Rightarrow> scoring_view" where
  "dag_scoring_view ensemble_score risk_level rules anomaly ml =
     \<lparr>sv_final_score = None, sv_risk_classification = None, sv_method_scores = None, sv_alert_recommended = None,
      sv_doc = [(''score'', PFloat ensemble_score), (''risk_level'', PStr risk_level), (''triggered_rules'', PList rules),
                (''anomaly_score'', PFloat anomaly), (''ml_score'', PFloat ml)]\<rparr>"

lemma generated_alert:
  assumes "generate_alert H kafka rd sr tx enr m = (Some a, m')"
  shows "al_status a = OPEN \<and> al_alert_type a = determine_alert_type sr \<and> al_rule_id a = extract_rule_id sr
    \<and> al_risk_score a = (case sv_final_score sr of None \<Rightarrow> 0 | Some x \<Rightarrow> x)
    \<and> al_severity a = classify_severity (case sv_final_score sr of None \<Rightarrow> 0 | Some x \<Rightarrow> x)
        (case sv_risk_classification sr of None \<Rightarrow> ''low'' | Some c \<Rightarrow> c)"
  by (rule generate_alert_cases [of rd tx m H kafka sr enr]) (use assms in \<open>auto simp: make_alert_def Let_def\<close>)

lemma classify_risk_value: "severity_value (classify_severity x (risk_value c)) = risk_value c"
  by (cases c) (simp_all add: classify_severity_def)

text \<open>
  Claim C30 (alerts carry the pipeline's verdict): an alert generated from a freshly computed score is open,
  its risk score is the final score to six places and lies in the unit interval, and its severity is
  the risk classification of the score.
\<close>

theorem alert_reflects_score:
  assumes "new_pipeline rules anomaly risk ws = Inr p" "score_transaction_sync key_of cl t ctx False p = (Inr u, p')"
    and "generate_alert H kafka rd (scoring_view_of show_exn u) tx enr m = (Some a, m')"
  shows "al_status a = OPEN \<and> al_risk_score a = py_round 6 (us_final_score u) \<and> 0 \<le> al_risk_score a \<and> al_risk_score a \<le> 1
    \<and> severity_value (al_severity a) = risk_value (us_risk_classification u)"
proof -
  have "us_final_score u = compute_ensemble_score (us_method_scores u)"
    using scored_without_cache [OF assms(2) new_pipeline_ok [OF assms(1)]] by blast
  then have "0 \<le> py_round 6 (us_final_score u) \<and> py_round 6 (us_final_score u) \<le> 1" using ensemble_01 by (intro py_round_01) simp_all
  then show ?thesis
    using generated_alert [OF assms(3)] by (simp add: scoring_view_of_def classify_risk_value)
qed

lemma extract_rule_id_from_views: "extract_rule_id_from (map method_view_of rs) = None"
  by (induction rs) (simp_all add: method_view_of_def)

lemma scoring_view_rule: "extract_rule_id (scoring_view_of show_exn u) = None"
  by (simp add: extract_rule_id_def scoring_view_of_def extract_rule_id_from_views)

definition demo_show :: "pyexn \<Rightarrow> string" where
  "demo_show ex = ''error''"

text \<open>A new manager accepts the first alert of an account.\<close>

lemma new_manager_accepts:
  "\<exists>a m'. generate_alert H None (demo_rd ''u1'' 0) (scoring_view_of demo_show u) (demo_tx ''acc'') [] (new_alert_manager demo_config) = (Some a, m')"
  by (simp add: generate_alert_def Let_def new_alert_manager_def new_dedup_engine_def new_suppression_engine_def
      new_throttle_engine_def is_suppressed_def is_duplicate_def should_throttle_def prune_total_def prune_account_def
      record_alert_def account_of_def dget_or_def scoring_view_rule demo_defs)

theorem alert_reflects_score_witness:
  "\<exists>u p' a m'. score_transaction_sync (\<lambda>t. ''k'') (demo_clock 0) demo_txn None False demo_pipeline = (Inr u, p')
     \<and> generate_alert id None (demo_rd ''u1'' 0) (scoring_view_of demo_show u) (demo_tx ''acc'') [] (new_alert_manager demo_config) = (Some a, m')
     \<and> severity_value (al_severity a) = risk_value (us_risk_classification u)"
proof -
  obtain u p' where u: "score_transaction_sync (\<lambda>t. ''k'') (demo_clock 0) demo_txn None False demo_pipeline = (Inr u, p')"
    using demo_scored by (elim exE conjE)
  obtain a m' where a: "generate_alert id None (demo_rd ''u1'' 0) (scoring_view_of demo_show u) (demo_tx ''acc'') []
      (new_alert_manager demo_config) = (Some a, m')"
    using new_manager_accepts [of id u] by (elim exE)
  from alert_reflects_score [OF demo_pipeline u a] u a show ?thesis by (elim conjE) (intro exI conjI, assumption+)
qed

lemma dominant_method_names:
  "dominant_method x b (map method_view_of rs) \<in> insert b (sm_method ` set rs)"
  by (induction rs arbitrary: x b) (auto simp: method_view_of_def)

lemma scored_method_names:
  assumes "score_transaction_sync key_of cl t ctx False p = (Inr u, p')"
  shows "sm_method ` set (us_method_scores u) \<subseteq> {''rule_engine'', ''anomaly_detector'', ''ml_model''}"
  using assms
proof (cases rule: score_sync_cases)
  case hit
  then show ?thesis by (simp add: cache_lookup_def)
next
  case (scored p1 p2 p3 r1 r2 r3)
  then show ?thesis
    using method_names(1) [OF scored(2)] method_names(2) [OF scored(3)] method_names(3) [OF scored(4)] by (simp add: unify_def Let_def)
qed

text \<open>
  Remark (what alerts lose): an alert generated from a score of the pipeline is never typed as an anomaly,
  because the alert manager looks for the method \<^verbatim>\<open>anomaly_detection\<close> while the pipeline calls it
  \<^verbatim>\<open>anomaly_detector\<close>; and it names no rule, because the serialised score has no details, so the per-rule
  rate limit is never applied and deduplication does not tell rules apart.
\<close>

theorem alerts_lose_anomaly_and_rule:
  assumes "score_transaction_sync key_of cl t ctx False p = (Inr u, p')"
    and "generate_alert H kafka rd (scoring_view_of show_exn u) tx enr m = (Some a, m')"
  shows "al_alert_type a \<noteq> ANOMALY \<and> al_rule_id a = None"
proof -
  let ?d = "dominant_method 0 ''ensemble'' (map method_view_of (us_method_scores u))"
  have "?d \<in> {''ensemble'', ''rule_engine'', ''anomaly_detector'', ''ml_model''}"
    using dominant_method_names [of 0 "''ensemble''" "us_method_scores u"] scored_method_names [OF assms(1)] by blast
  then have "dget_or method_map ?d ENSEMBLE \<noteq> ANOMALY" by (auto simp: method_map_def dget_or_def)
  then have "determine_alert_type (scoring_view_of show_exn u) \<noteq> ANOMALY"
    by (auto simp: determine_alert_type_def scoring_view_of_def split: list.splits)
  then show ?thesis using generated_alert [OF assms(2)] scoring_view_rule by simp
qed

theorem alerts_lose_anomaly_and_rule_witness:
  "\<exists>u p' a m'. score_transaction_sync (\<lambda>t. ''k'') (demo_clock 0) demo_txn None False demo_pipeline = (Inr u, p')
     \<and> filter sm_success (us_method_scores u) \<noteq> [] \<and> sm_method (hd (filter sm_success (us_method_scores u))) = ''anomaly_detector''
     \<and> generate_alert id None (demo_rd ''u1'' 0) (scoring_view_of demo_show u) (demo_tx ''acc'') [] (new_alert_manager demo_config) = (Some a, m')
     \<and> al_alert_type a \<noteq> ANOMALY"
proof -
  obtain u p' where u: "score_transaction_sync (\<lambda>t. ''k'') (demo_clock 0) demo_txn None False demo_pipeline = (Inr u, p')"
    "map sm_method (filter sm_success (us_method_scores u)) = [''anomaly_detector'']"
    by (simp add: score_defs demo_pipeline_def new_pipeline_defs validate_weights_def
        scored_method_def failed_method_def)
  then have f: "filter sm_success (us_method_scores u) \<noteq> []" "sm_method (hd (filter sm_success (us_method_scores u))) = ''anomaly_detector''"
    by auto
  obtain a m' where a: "generate_alert id None (demo_rd ''u1'' 0) (scoring_view_of demo_show u) (demo_tx ''acc'') []
      (new_alert_manager demo_config) = (Some a, m')"
    using new_manager_accepts [of id u] by (elim exE)
  from alerts_lose_anomaly_and_rule [OF u(1) a] u(1) f a show ?thesis by (elim conjE) (intro exI conjI, assumption+)
qed

text \<open>
  Remark (alerts of the batch job): whatever ensemble score and risk level the batch job computed, the alert
  it generates has risk score zero, the lowest severity and the unspecific type.
\<close>

theorem batch_job_alerts_are_low:
  assumes "generate_alert H kafka rd (dag_scoring_view score level rules anomaly ml) tx enr m = (Some a, m')"
  shows "al_risk_score a = 0 \<and> al_severity a = LOW \<and> al_alert_type a = ENSEMBLE"
  using generated_alert [OF assms]
  by (simp add: dag_scoring_view_def determine_alert_type_def classify_severity_def)

theorem batch_job_alerts_are_low_witness:
  "\<exists>a m'. generate_alert id None (demo_rd ''u1'' 0) (dag_scoring_view (99 / 100) ''critical'' [] 1 1) (demo_tx ''acc'') []
     (new_alert_manager demo_config) = (Some a, m') \<and> al_severity a = LOW"
proof -
  obtain a m' where a: "generate_alert id None (demo_rd ''u1'' 0) (dag_scoring_view (99 / 100) ''critical'' [] 1 1) (demo_tx ''acc'') []
     (new_alert_manager demo_config) = (Some a, m')"
    by (simp add: generate_simps demo_defs dag_scoring_view_def)
  from batch_job_alerts_are_low [OF a] a show ?thesis by (elim conjE) (intro exI conjI, assumption+)
qed

end
